(* ===== verification/Prelude.thy ===== *)
theory Prelude
  imports Main "HOL-Library.Word"
begin

text \<open>
  Shared vocabulary of the development: the machine types of the program, little-endian
  byte encodings (the target of the sensor and of the agent is a 64-bit little-endian
  machine), byte/character conversion, slices with the bounds check that the source
  relies on, and the lemmas about them that the components share.
\<close>

unbundle bit_operations_syntax

section \<open>Machine types and collections of facts\<close>

type_synonym byte = "8 word"
type_synonym u16 = "16 word"
type_synonym u32 = "32 word"
type_synonym u64 = "64 word"

named_theorems wire_simps \<open>lengths and round trips of byte encodings\<close>
named_theorems layout_simps \<open>sizes and alignments of C types\<close>

section \<open>Lists\<close>

lemma take_append_exact [simp]: "length xs = n \<Longrightarrow> take n (xs @ ys) = xs"
  by simp

lemma drop_append_exact [simp]: "length xs = n \<Longrightarrow> drop n (xs @ ys) = ys"
  by simp

text \<open>\<open>slice i n xs\<close> is the source's \<open>xs[i .. i + n]\<close> where the range is inside \<open>xs\<close>.\<close>

definition slice :: "nat \<Rightarrow> nat \<Rightarrow> 'a list \<Rightarrow> 'a list" where
  "slice i n xs = take n (drop i xs)"

lemma length_slice [simp]: "i + n \<le> length xs \<Longrightarrow> length (slice i n xs) = n"
  by (simp add: slice_def)

lemma slice_append_left: "i + n \<le> length xs \<Longrightarrow> slice i n (xs @ ys) = slice i n xs"
  by (simp add: slice_def)

lemma slice_append_right: "length xs \<le> i \<Longrightarrow> slice i n (xs @ ys) = slice (i - length xs) n ys"
  by (simp add: slice_def)

lemma slice_exact: "length xs = n \<Longrightarrow> slice 0 n (xs @ ys) = xs"
  by (simp add: slice_def)

lemma slice_skip: "length xs = i \<Longrightarrow> slice i n (xs @ ys) = take n ys"
  by (simp add: slice_def)

lemma slice_nth: "i + n \<le> length xs \<Longrightarrow> k < n \<Longrightarrow> slice i n xs ! k = xs ! (i + k)"
  by (simp add: slice_def)

text \<open>The first number of a range with a property.\<close>

lemma find_upt_iff:
  "find P [a..<b] = Some s \<longleftrightarrow> a \<le> s \<and> s < b \<and> P s \<and> (\<forall>x. a \<le> x \<and> x < s \<longrightarrow> \<not> P x)"
proof (induction "b - a" arbitrary: a)
  case 0
  then show ?case by simp
next
  case (Suc n)
  then have "a < b" by simp
  then have up: "[a..<b] = a # [Suc a..<b]" by (rule upt_conv_Cons)
  have IH: "find P [Suc a..<b] = Some s \<longleftrightarrow>
      Suc a \<le> s \<and> s < b \<and> P s \<and> (\<forall>x. Suc a \<le> x \<and> x < s \<longrightarrow> \<not> P x)"
    using Suc by (intro Suc.hyps(1)) simp
  show ?case
  proof (cases "P a")
    case True
    then have "find P [a..<b] = Some s \<longleftrightarrow> s = a" using up by (simp add: eq_commute)
    moreover have "s = a" if "a \<le> s" "\<forall>x. a \<le> x \<and> x < s \<longrightarrow> \<not> P x"
      using that True by (metis le_neq_implies_less order_refl)
    ultimately show ?thesis using True \<open>a < b\<close> by auto
  next
    case False
    then have "find P [a..<b] = find P [Suc a..<b]" using up by simp
    moreover have "a \<le> x \<longleftrightarrow> x = a \<or> Suc a \<le> x" for x by linarith
    ultimately show ?thesis using IH False by auto
  qed
qed

section \<open>Little-endian encodings\<close>

text \<open>The \<open>n\<close> low bytes of a number, least significant first, and the number of a byte list.\<close>

fun le_bytes :: "nat \<Rightarrow> nat \<Rightarrow> byte list" where
  "le_bytes 0 x = []"
| "le_bytes (Suc n) x = of_nat (x mod 256) # le_bytes n (x div 256)"

fun le_nat :: "byte list \<Rightarrow> nat" where
  "le_nat [] = 0"
| "le_nat (b # bs) = unat b + 256 * le_nat bs"

lemma length_le_bytes [simp, wire_simps]: "length (le_bytes n x) = n"
  by (induction n arbitrary: x) auto

lemma le_bytes_numeral:
  "le_bytes (numeral v) x = of_nat (x mod 256) # le_bytes (pred_numeral v) (x div 256)"
  unfolding numeral_eq_Suc [of v] by (rule le_bytes.simps)

lemma unat_of_nat_less: "n < 2 ^ LENGTH('a) \<Longrightarrow> unat (of_nat n :: 'a::len word) = n"
  by (simp add: unat_of_nat)

lemma unat_mod_size: "unat (w :: 'a::len word) mod 2 ^ LENGTH('a) = unat w"
  by simp

lemma unat_byte_less: "unat (b :: byte) < 256"
  using unsigned_less [of b, where ?'a = nat] by simp

lemma unat_u16_less: "unat (w :: u16) < 65536"
  using unsigned_less [of w, where ?'a = nat] by simp

lemma unat_u32_less: "unat (w :: u32) < 4294967296"
  using unsigned_less [of w, where ?'a = nat] by simp

lemma unat_u64_less: "unat (w :: u64) < 18446744073709551616"
  using unsigned_less [of w, where ?'a = nat] by simp

lemma unat_of_nat_byte: "x < 256 \<Longrightarrow> unat (of_nat x :: byte) = x"
  by (simp add: unat_of_nat_less)

lemma le_nat_le_bytes: "le_nat (le_bytes n x) = x mod 256 ^ n"
proof (induction n arbitrary: x)
  case 0
  then show ?case by simp
next
  case (Suc n)
  have "x mod 256 + 256 * (x div 256 mod 256 ^ n) = x mod (256 * 256 ^ n)"
    by (simp add: mod_mult2_eq)
  with Suc show ?case by (simp add: unat_of_nat_byte)
qed

lemma digit_carry: "x < k \<Longrightarrow> y < p \<Longrightarrow> x + k * y < k * (p::nat)"
proof -
  assume "x < k" "y < p"
  then have "x + k * y < k * Suc y" by simp
  also have "\<dots> \<le> k * p" using \<open>y < p\<close> by (intro mult_le_mono2) simp
  finally show ?thesis .
qed

lemma le_nat_bound: "le_nat bs < 256 ^ length bs"
  by (induction bs) (simp_all add: digit_carry unat_byte_less)

lemma le_bytes_le_nat: "length bs = n \<Longrightarrow> le_bytes n (le_nat bs) = bs"
proof (induction bs arbitrary: n)
  case Nil
  then show ?case by simp
next
  case (Cons b bs)
  have "unat b < 256" by (rule unat_byte_less)
  then have "(unat b + 256 * le_nat bs) mod 256 = unat b"
    and "(unat b + 256 * le_nat bs) div 256 = le_nat bs" by simp_all
  with Cons show ?case by (cases n) auto
qed

text \<open>The encodings of the word types: \<open>to_le_bytes\<close>, and \<open>to_ne_bytes\<close> on this target.\<close>

definition u16_bytes :: "u16 \<Rightarrow> byte list" where "u16_bytes w = le_bytes 2 (unat w)"
definition u32_bytes :: "u32 \<Rightarrow> byte list" where "u32_bytes w = le_bytes 4 (unat w)"
definition u64_bytes :: "u64 \<Rightarrow> byte list" where "u64_bytes w = le_bytes 8 (unat w)"

definition u16_of :: "byte list \<Rightarrow> u16" where "u16_of bs = of_nat (le_nat bs)"
definition u32_of :: "byte list \<Rightarrow> u32" where "u32_of bs = of_nat (le_nat bs)"
definition u64_of :: "byte list \<Rightarrow> u64" where "u64_of bs = of_nat (le_nat bs)"

lemma length_u16_bytes [simp, wire_simps]: "length (u16_bytes w) = 2"
  by (simp add: u16_bytes_def)

lemma length_u32_bytes [simp, wire_simps]: "length (u32_bytes w) = 4"
  by (simp add: u32_bytes_def)

lemma length_u64_bytes [simp, wire_simps]: "length (u64_bytes w) = 8"
  by (simp add: u64_bytes_def)

lemma u16_of_bytes [simp, wire_simps]: "u16_of (u16_bytes w) = w"
  by (simp add: u16_of_def u16_bytes_def le_nat_le_bytes mod_less unat_u16_less unat_u32_less unat_u64_less)

lemma u32_of_bytes [simp, wire_simps]: "u32_of (u32_bytes w) = w"
  by (simp add: u32_of_def u32_bytes_def le_nat_le_bytes mod_less unat_u16_less unat_u32_less unat_u64_less)

lemma u64_of_bytes [simp, wire_simps]: "u64_of (u64_bytes w) = w"
  by (simp add: u64_of_def u64_bytes_def le_nat_le_bytes mod_less unat_u16_less unat_u32_less unat_u64_less)

lemma u32_bytes_of: "length bs = 4 \<Longrightarrow> u32_bytes (u32_of bs) = bs"
  using le_nat_bound [of bs] by (simp add: u32_bytes_def u32_of_def unat_of_nat_less le_bytes_le_nat)

lemma u64_bytes_of: "length bs = 8 \<Longrightarrow> u64_bytes (u64_of bs) = bs"
  using le_nat_bound [of bs] by (simp add: u64_bytes_def u64_of_def unat_of_nat_less le_bytes_le_nat)

lemma u16_bytes_of: "length bs = 2 \<Longrightarrow> u16_bytes (u16_of bs) = bs"
  using le_nat_bound [of bs] by (simp add: u16_bytes_def u16_of_def unat_of_nat_less le_bytes_le_nat)

lemma u32_bytes_inj: "u32_bytes a = u32_bytes b \<longleftrightarrow> a = b"
  by (metis u32_of_bytes)

section \<open>Characters and bytes\<close>

text \<open>
  A C character constant or a byte-string literal as bytes, and the bytes of a buffer as
  the characters of a string (a \<open>char\<close> is one byte; a Rust string is its UTF-8 bytes).
\<close>

definition ch :: "char \<Rightarrow> byte" where "ch c = of_char c"

definition cbytes :: "string \<Rightarrow> byte list" where "cbytes s = map ch s"

definition of_bytes :: "byte list \<Rightarrow> string" where "of_bytes bs = map (\<lambda>b. char_of (unat b)) bs"

lemma length_cbytes [simp, wire_simps]: "length (cbytes s) = length s"
  by (simp add: cbytes_def)

lemma length_of_bytes [simp, wire_simps]: "length (of_bytes bs) = length bs"
  by (simp add: of_bytes_def)

lemma unat_ch: "unat (ch c) = of_char c"
proof -
  have "ch c = of_nat (of_char c)" by (simp add: ch_def of_nat_of_char)
  moreover have "(of_char c :: nat) < 256" by (rule nat_of_char_less_256)
  ultimately show ?thesis by (simp only: unat_of_nat_byte)
qed

lemma char_of_ch [simp]: "char_of (unat (ch c)) = c"
  by (simp add: unat_ch)

lemma of_bytes_cbytes [simp, wire_simps]: "of_bytes (cbytes s) = s"
  by (simp add: of_bytes_def cbytes_def comp_def)

lemma ch_char_of [simp]: "ch (char_of (unat b)) = b"
proof -
  have "unat b < 256" by (rule unat_byte_less)
  then have "of_char (char_of (unat b)) = (unat b :: nat)" by (simp add: take_bit_nat_eq_self)
  then have "unat (ch (char_of (unat b))) = unat b" by (simp add: unat_ch)
  then show ?thesis by (simp add: word_unat_eq_iff)
qed

lemma cbytes_of_bytes [simp, wire_simps]: "cbytes (of_bytes bs) = bs"
  by (simp add: of_bytes_def cbytes_def comp_def)

lemma ch_inj [simp]: "ch a = ch b \<longleftrightarrow> a = b"
  by (metis char_of_ch)

lemma cbytes_inj [simp]: "cbytes a = cbytes b \<longleftrightarrow> a = b"
  by (metis of_bytes_cbytes)

lemma of_bytes_inj [simp]: "of_bytes a = of_bytes b \<longleftrightarrow> a = b"
  by (metis cbytes_of_bytes)

lemma cbytes_append [simp]: "cbytes (a @ b) = cbytes a @ cbytes b"
  by (simp add: cbytes_def)

lemma of_bytes_append [simp]: "of_bytes (a @ b) = of_bytes a @ of_bytes b"
  by (simp add: of_bytes_def)

lemma cbytes_Nil [simp]: "cbytes [] = []"
  by (simp add: cbytes_def)

lemma cbytes_Cons [simp]: "cbytes (c # s) = ch c # cbytes s"
  by (simp add: cbytes_def)

lemma of_bytes_Nil [simp]: "of_bytes [] = []"
  by (simp add: of_bytes_def)

section \<open>A word from its bytes\<close>

lemma byte_bit: "bit (b :: byte) n \<Longrightarrow> n < 8"
  using bit_imp_le_length [of b n] by simp

lemma u32_of_four:
  "u32_of [d, c, b, a] = push_bit 24 (ucast a) OR push_bit 16 (ucast b) OR push_bit 8 (ucast c) OR ucast d"
proof -
  let ?a = "push_bit 24 (ucast a) :: u32" and ?b = "push_bit 16 (ucast b) :: u32"
  let ?c = "push_bit 8 (ucast c) :: u32" and ?d = "ucast d :: u32"
  have "u32_of [d, c, b, a] = ?a + (?b + (?c + ?d))"
    by (simp add: u32_of_def push_bit_eq_mult of_nat_unat algebra_simps)
  also have "?c + ?d = ?c OR ?d"
    by (rule disjunctive_add_eq_or) (auto simp: bit_eq_iff bit_simps dest: byte_bit)
  also have "?b + (?c OR ?d) = ?b OR (?c OR ?d)"
    by (rule disjunctive_add_eq_or) (auto simp: bit_eq_iff bit_simps dest!: byte_bit)
  also have "?a + (?b OR (?c OR ?d)) = ?a OR (?b OR (?c OR ?d))"
    by (rule disjunctive_add_eq_or) (auto simp: bit_eq_iff bit_simps dest!: byte_bit)
  finally show ?thesis .
qed

end
