(* ===== verification/C_Layout.thy ===== *)
theory C_Layout
  imports Prelude
begin

text \<open>
  The data layout of C types on the target of the sensor (64-bit little-endian, the
  System V rules that clang follows for \<open>-target bpf\<close>): sizes, alignments, the bit
  offset of every member of a struct or union, bit-fields and packed structs included,
  and the resolution of a member path such as \<open>real_parent\<close> or an anonymous union's
  member. The declarations of \<open>src-bpf/vmlinux.h\<close> and \<open>src-bpf/common.h\<close> are values
  of the type \<open>ctype\<close>; the theorems of this theory say that the layout of every
  well-formed declaration keeps members apart, aligned and inside their object.
\<close>

section \<open>C types\<close>

text \<open>
  \<open>CInt n\<close> is an integer type of \<open>n\<close> bytes, \<open>CEnum n es\<close> an enumeration of \<open>n\<close> bytes
  with its enumerators, \<open>CPtr\<close> any data or function pointer, \<open>CPacked\<close> a struct with \<open>__attribute__((packed))\<close>. A member is a
  field or a bit-field; an anonymous member has the empty name.
\<close>

datatype ctype =
    CInt nat
  | CEnum nat "(string \<times> int) list"
  | CPtr
  | CArr nat ctype
  | CStruct "member list"
  | CUnion "member list"
  | CPacked "member list"
and member =
    Fld string ctype
  | Bits string ctype nat

text \<open>The integer types of the source, by their C names; signedness does not affect layout.\<close>

abbreviation c_bool :: ctype where "c_bool \<equiv> CInt 1"
abbreviation c_char :: ctype where "c_char \<equiv> CInt 1"
abbreviation c_uchar :: ctype where "c_uchar \<equiv> CInt 1"
abbreviation c_short :: ctype where "c_short \<equiv> CInt 2"
abbreviation c_ushort :: ctype where "c_ushort \<equiv> CInt 2"
abbreviation c_int :: ctype where "c_int \<equiv> CInt 4"
abbreviation c_uint :: ctype where "c_uint \<equiv> CInt 4"
abbreviation c_long :: ctype where "c_long \<equiv> CInt 8"
abbreviation c_ulong :: ctype where "c_ulong \<equiv> CInt 8"
abbreviation c_llong :: ctype where "c_llong \<equiv> CInt 8"
abbreviation c_ullong :: ctype where "c_ullong \<equiv> CInt 8"
abbreviation c_int128 :: ctype where "c_int128 \<equiv> CInt 16"

text \<open>Rounding a bit position up to a multiple of \<open>a\<close>.\<close>

definition align_up :: "nat \<Rightarrow> nat \<Rightarrow> nat" where
  "align_up p a = (p + (a - 1)) div a * a"

fun alignof :: "ctype \<Rightarrow> nat" and align_ms :: "member list \<Rightarrow> nat" where
  "alignof (CInt n) = n"
| "alignof (CEnum n es) = n"
| "alignof CPtr = 8"
| "alignof (CArr n t) = alignof t"
| "alignof (CStruct ms) = align_ms ms"
| "alignof (CUnion ms) = align_ms ms"
| "alignof (CPacked ms) = 1"
| "align_ms [] = 1"
| "align_ms (Fld nm t # ms) = max (alignof t) (align_ms ms)"
| "align_ms (Bits nm t w # ms) = (if nm = [] then align_ms ms else max (alignof t) (align_ms ms))"

text \<open>
  Where a bit-field of \<open>w\<close> bits with a declared type of \<open>sz\<close> bytes starts: width 0
  closes the current unit, a field that would straddle a unit of its type moves to the
  next one, any other field follows its predecessor.
\<close>

definition bit_pos :: "bool \<Rightarrow> nat \<Rightarrow> nat \<Rightarrow> nat \<Rightarrow> nat \<Rightarrow> nat" where
  "bit_pos packed sz al w pos =
     (if w = 0 then align_up pos (8 * al)
      else if packed then pos
      else if 8 * sz < pos mod (8 * sz) + w then align_up pos (8 * al)
      else pos)"

fun sizeof :: "ctype \<Rightarrow> nat" and end_of :: "bool \<Rightarrow> nat \<Rightarrow> member list \<Rightarrow> nat"
  and union_bits :: "member list \<Rightarrow> nat" where
  "sizeof (CInt n) = n"
| "sizeof (CEnum n es) = n"
| "sizeof CPtr = 8"
| "sizeof (CArr n t) = n * sizeof t"
| "sizeof (CStruct ms) = align_up (end_of False 0 ms) (8 * align_ms ms) div 8"
| "sizeof (CUnion ms) = align_up (union_bits ms) (8 * align_ms ms) div 8"
| "sizeof (CPacked ms) = align_up (end_of True 0 ms) 8 div 8"
| "end_of packed pos [] = pos"
| "end_of packed pos (Fld nm t # ms) =
     end_of packed (align_up pos (8 * (if packed then 1 else alignof t)) + 8 * sizeof t) ms"
| "end_of packed pos (Bits nm t w # ms) =
     end_of packed (bit_pos packed (sizeof t) (alignof t) w pos + w) ms"
| "union_bits [] = 0"
| "union_bits (Fld nm t # ms) = max (8 * sizeof t) (union_bits ms)"
| "union_bits (Bits nm t w # ms) = max w (union_bits ms)"

section \<open>Member placement\<close>

definition mwidth :: "member \<Rightarrow> nat" where
  "mwidth m = (case m of Fld nm t \<Rightarrow> 8 * sizeof t | Bits nm t w \<Rightarrow> w)"

definition mname :: "member \<Rightarrow> string" where
  "mname m = (case m of Fld nm t \<Rightarrow> nm | Bits nm t w \<Rightarrow> nm)"

definition mpos :: "bool \<Rightarrow> nat \<Rightarrow> member \<Rightarrow> nat" where
  "mpos packed pos m =
     (case m of
        Fld nm t \<Rightarrow> align_up pos (8 * (if packed then 1 else alignof t))
      | Bits nm t w \<Rightarrow> bit_pos packed (sizeof t) (alignof t) w pos)"

text \<open>The members of a struct with their bit offsets, in declaration order.\<close>

fun place :: "bool \<Rightarrow> nat \<Rightarrow> member list \<Rightarrow> (nat \<times> member) list" where
  "place packed pos [] = []"
| "place packed pos (m # ms) =
     (mpos packed pos m, m) # place packed (mpos packed pos m + mwidth m) ms"

definition members_of :: "ctype \<Rightarrow> (nat \<times> member) list" where
  "members_of t =
     (case t of
        CStruct ms \<Rightarrow> place False 0 ms
      | CPacked ms \<Rightarrow> place True 0 ms
      | CUnion ms \<Rightarrow> map (Pair 0) ms
      | _ \<Rightarrow> [])"

text \<open>
  The bit offset and the member a name denotes: the first member of that name, where the
  members of an anonymous struct or union count as members of the enclosing one. The
  first argument bounds the depth of anonymous nesting that is searched.
\<close>

fun find_in :: "nat \<Rightarrow> string \<Rightarrow> (nat \<times> member) list \<Rightarrow> (nat \<times> member) option" where
  "find_in 0 nm xs = None"
| "find_in (Suc k) nm [] = None"
| "find_in (Suc k) nm ((off, m) # xs) =
     (if mname m = nm then Some (off, m)
      else case m of
        Fld n t \<Rightarrow>
          (if n = [] then
             (case find_in k nm (members_of t) of
                None \<Rightarrow> find_in (Suc k) nm xs
              | Some (o2, m2) \<Rightarrow> Some (off + o2, m2))
           else find_in (Suc k) nm xs)
      | Bits n t w \<Rightarrow> find_in (Suc k) nm xs)"

text \<open>Anonymous nesting in the kernel's headers is far below this bound.\<close>

definition anon_depth :: nat where "anon_depth = 8"

text \<open>Byte offset and type of a named (non-bit-field) member: C's \<open>offsetof\<close>.\<close>

definition field_of :: "ctype \<Rightarrow> string \<Rightarrow> (nat \<times> ctype) option" where
  "field_of t nm =
     (case find_in anon_depth nm (members_of t) of
        Some (off, Fld n ft) \<Rightarrow> Some (off div 8, ft)
      | _ \<Rightarrow> None)"

definition offsetof :: "ctype \<Rightarrow> string \<Rightarrow> nat option" where
  "offsetof t nm = map_option fst (field_of t nm)"

section \<open>Well-formed declarations\<close>

text \<open>The alignments that occur: powers of two up to 16.\<close>

definition pow2_align :: "nat \<Rightarrow> bool" where
  "pow2_align a \<longleftrightarrow> a = 1 \<or> a = 2 \<or> a = 4 \<or> a = 8 \<or> a = 16"

fun is_int :: "ctype \<Rightarrow> bool" where
  "is_int (CInt n) = True"
| "is_int (CEnum n es) = True"
| "is_int _ = False"

text \<open>
  What the compiler accepts: integer sizes are 1, 2, 4, 8 or 16 bytes, a bit-field has an
  integer type and is no wider than it, and a zero-width bit-field has no name.
\<close>

fun wf_ty :: "ctype \<Rightarrow> bool" and wf_ms :: "member list \<Rightarrow> bool" where
  "wf_ty (CInt n) = pow2_align n"
| "wf_ty (CEnum n es) = pow2_align n"
| "wf_ty CPtr = True"
| "wf_ty (CArr n t) = wf_ty t"
| "wf_ty (CStruct ms) = wf_ms ms"
| "wf_ty (CUnion ms) = wf_ms ms"
| "wf_ty (CPacked ms) = wf_ms ms"
| "wf_ms [] = True"
| "wf_ms (Fld nm t # ms) = (wf_ty t \<and> wf_ms ms)"
| "wf_ms (Bits nm t w # ms) =
     (is_int t \<and> wf_ty t \<and> w \<le> 8 * sizeof t \<and> (w = 0 \<longrightarrow> nm = []) \<and> wf_ms ms)"

lemma pow2_align_max: "pow2_align a \<Longrightarrow> pow2_align b \<Longrightarrow> pow2_align (max a b)"
  by (auto simp: pow2_align_def max_def)

lemma pow2_align_dvd: "pow2_align a \<Longrightarrow> pow2_align b \<Longrightarrow> a \<le> b \<Longrightarrow> a dvd b"
  by (auto simp: pow2_align_def)

lemma pow2_align_pos: "pow2_align a \<Longrightarrow> 0 < a"
  by (auto simp: pow2_align_def)

lemma wf_align: "wf_ty t \<Longrightarrow> pow2_align (alignof t)" "wf_ms ms \<Longrightarrow> pow2_align (align_ms ms)"
  by (induction t and ms rule: alignof_align_ms.induct)
    (auto simp: pow2_align_max, auto simp: pow2_align_def)

section \<open>Soundness of the layout\<close>

lemma align_up_ge: "0 < a \<Longrightarrow> p \<le> align_up p a"
proof -
  assume a: "0 < a"
  have "p + (a - 1) = (p + (a - 1)) div a * a + (p + (a - 1)) mod a" by simp
  moreover have "(p + (a - 1)) mod a \<le> a - 1" using a by (simp add: less_Suc_eq_le [symmetric])
  ultimately show ?thesis unfolding align_up_def by linarith
qed

lemma align_up_dvd: "a dvd align_up p a"
  by (simp add: align_up_def)

lemma align_up_less: "0 < a \<Longrightarrow> align_up p a < p + a"
proof -
  assume a: "0 < a"
  have "(p + (a - 1)) div a * a \<le> p + (a - 1)" by simp
  with a show ?thesis unfolding align_up_def by linarith
qed

lemma align_up_id: "0 < a \<Longrightarrow> a dvd p \<Longrightarrow> align_up p a = p"
proof -
  assume a: "0 < a" and "a dvd p"
  then obtain k where k: "p = a * k" by (elim dvdE)
  have "(a - 1 + a * k) div a = (a - 1) div a + k" using a by (subst div_mult_self2) auto
  with a k show ?thesis by (simp add: align_up_def add.commute)
qed

lemma align_up_bytes: "8 dvd a \<Longrightarrow> align_up p a div 8 * 8 = align_up p a"
  by (meson align_up_dvd dvd_div_mult_self dvd_trans)

lemma wf_bits_type: "wf_ms (Bits nm t w # ms) \<Longrightarrow>
    \<exists>n. sizeof t = n \<and> alignof t = n \<and> pow2_align n \<and> w \<le> 8 * n"
  by (cases t) auto

lemma wf_ms_member: "wf_ms (m # ms) \<Longrightarrow> wf_ms [m] \<and> wf_ms ms"
  by (cases m) auto

lemma mpos_ge: "wf_ms [m] \<Longrightarrow> pos \<le> mpos packed pos m"
proof (cases m)
  case (Fld nm t)
  moreover assume "wf_ms [m]"
  ultimately have "0 < alignof t" by (simp add: wf_align pow2_align_pos)
  with Fld show ?thesis by (simp add: mpos_def align_up_ge)
next
  case (Bits nm t w)
  moreover assume "wf_ms [m]"
  ultimately have "0 < alignof t" using wf_bits_type [of nm t w "[]"] pow2_align_pos by auto
  with Bits show ?thesis by (simp add: mpos_def bit_pos_def align_up_ge)
qed

lemma end_of_Cons:
  "end_of packed pos (m # ms) = end_of packed (mpos packed pos m + mwidth m) ms"
  by (cases m) (simp_all add: mpos_def mwidth_def)

lemma end_of_ge: "wf_ms ms \<Longrightarrow> pos \<le> end_of packed pos ms"
proof (induction ms arbitrary: pos)
  case Nil
  then show ?case by simp
next
  case (Cons m ms)
  then have "pos \<le> mpos packed pos m" and "wf_ms ms"
    using wf_ms_member mpos_ge by blast+
  with Cons.IH [of "mpos packed pos m + mwidth m"] show ?case
    by (simp add: end_of_Cons)
qed

text \<open>Every placed member lies between the start position and the end of the struct.\<close>

lemma place_bounds:
  assumes "wf_ms ms" and "(off, m) \<in> set (place packed pos ms)"
  shows "pos \<le> off \<and> off + mwidth m \<le> end_of packed pos ms"
  using assms
proof (induction ms arbitrary: pos)
  case Nil
  then show ?case by simp
next
  case (Cons a ms)
  let ?p = "mpos packed pos a"
  from Cons.prems(1) have wf: "wf_ms [a]" "wf_ms ms" using wf_ms_member by blast+
  from wf(1) have ge: "pos \<le> ?p" by (rule mpos_ge)
  from Cons.prems(2) consider "off = ?p" "m = a" | "(off, m) \<in> set (place packed (?p + mwidth a) ms)"
    by auto
  then show ?case
  proof cases
    case 1
    with ge end_of_ge [OF wf(2)] show ?thesis by (simp add: end_of_Cons)
  next
    case 2
    with Cons.IH [OF wf(2)] ge show ?thesis by (fastforce simp: end_of_Cons)
  qed
qed

text \<open>Members occupy disjoint, increasing ranges of bits.\<close>

definition before :: "nat \<times> member \<Rightarrow> nat \<times> member \<Rightarrow> bool" where
  "before a b \<longleftrightarrow> fst a + mwidth (snd a) \<le> fst b"

lemma place_disjoint: "wf_ms ms \<Longrightarrow> sorted_wrt before (place packed pos ms)"
proof (induction ms arbitrary: pos)
  case Nil
  then show ?case by simp
next
  case (Cons a ms)
  let ?q = "mpos packed pos a + mwidth a"
  from Cons.prems have wf: "wf_ms ms" using wf_ms_member by blast
  then have "\<forall>y \<in> set (place packed ?q ms). before (mpos packed pos a, a) y"
    using place_bounds [OF wf, of _ _ packed ?q] by (auto simp: before_def)
  with Cons.IH [OF wf] show ?case by simp
qed

lemma place_aligned:
  "(off, Fld nm t) \<in> set (place False pos ms) \<Longrightarrow> 8 * alignof t dvd off"
  by (induction ms arbitrary: pos) (auto simp: mpos_def align_up_dvd)

text \<open>A bit-field never straddles two storage units of its declared type.\<close>

lemma bit_pos_unit:
  assumes "0 < w" and "w \<le> 8 * n" and "0 < n"
  shows "bit_pos False n n w pos mod (8 * n) + w \<le> 8 * n"
proof (cases "8 * n < pos mod (8 * n) + w")
  case True
  have "align_up pos (8 * n) mod (8 * n) = 0" using align_up_dvd by (rule dvd_imp_mod_0)
  with True assms show ?thesis by (simp add: bit_pos_def)
next
  case False
  with assms show ?thesis by (simp add: bit_pos_def)
qed

lemma place_bits_unit:
  "wf_ms ms \<Longrightarrow> (off, Bits nm t w) \<in> set (place False pos ms) \<Longrightarrow> 0 < w \<Longrightarrow>
     off mod (8 * sizeof t) + w \<le> 8 * sizeof t"
proof (induction ms arbitrary: pos)
  case Nil
  then show ?case by simp
next
  case (Cons a ms)
  show ?case
  proof (cases "a = Bits nm t w \<and> off = mpos False pos a")
    case True
    then obtain n where "sizeof t = n" "alignof t = n" "pow2_align n" "w \<le> 8 * n"
      using Cons.prems(1) wf_bits_type by blast
    with True Cons.prems(3) show ?thesis
      by (simp add: mpos_def bit_pos_unit pow2_align_pos)
  next
    case False
    with Cons show ?thesis using wf_ms_member by fastforce
  qed
qed

lemma struct_end: "wf_ms ms \<Longrightarrow> end_of False 0 ms \<le> 8 * sizeof (CStruct ms)"
proof -
  assume "wf_ms ms"
  then have "0 < align_ms ms" by (simp add: wf_align pow2_align_pos)
  then have "end_of False 0 ms \<le> align_up (end_of False 0 ms) (8 * align_ms ms)"
    by (simp add: align_up_ge)
  also have "\<dots> = 8 * sizeof (CStruct ms)"
    using align_up_bytes [of "8 * align_ms ms"] by (simp add: mult.commute)
  finally show ?thesis .
qed

lemma packed_end: "end_of True 0 ms \<le> 8 * sizeof (CPacked ms)"
  using align_up_ge [of 8 "end_of True 0 ms"] align_up_bytes [of 8 "end_of True 0 ms"]
  by (simp add: mult.commute)

lemma union_member: "m \<in> set ms \<Longrightarrow> mwidth m \<le> union_bits ms"
proof (induction ms)
  case (Cons a ms)
  then show ?case by (cases a) (auto simp: mwidth_def)
qed simp

lemma union_end: "wf_ms ms \<Longrightarrow> union_bits ms \<le> 8 * sizeof (CUnion ms)"
proof -
  assume "wf_ms ms"
  then have "0 < align_ms ms" by (simp add: wf_align pow2_align_pos)
  then have "union_bits ms \<le> align_up (union_bits ms) (8 * align_ms ms)"
    by (simp add: align_up_ge)
  also have "\<dots> = 8 * sizeof (CUnion ms)"
    using align_up_bytes [of "8 * align_ms ms"] by (simp add: mult.commute)
  finally show ?thesis .
qed

text \<open>Every member of a type lies inside it.\<close>

lemma members_in_bounds:
  assumes "wf_ty t" and "(off, m) \<in> set (members_of t)"
  shows "off + mwidth m \<le> 8 * sizeof t"
proof (cases t)
  case (CStruct ms)
  with assms have "wf_ms ms" "(off, m) \<in> set (place False 0 ms)" by (auto simp: members_of_def)
  with place_bounds struct_end CStruct show ?thesis by (meson le_trans)
next
  case (CPacked ms)
  with assms have "wf_ms ms" "(off, m) \<in> set (place True 0 ms)" by (auto simp: members_of_def)
  with place_bounds packed_end CPacked show ?thesis by (meson le_trans)
next
  case (CUnion ms)
  with assms have "wf_ms ms" "off = 0" "m \<in> set ms" by (auto simp: members_of_def)
  with union_member union_end CUnion show ?thesis by (metis add_0 le_trans)
qed (use assms in \<open>auto simp: members_of_def\<close>)

lemma place_members: "snd ` set (place packed pos ms) = set ms"
  by (induction ms arbitrary: pos) auto

lemma wf_ms_set: "wf_ms ms \<Longrightarrow> Fld nm t \<in> set ms \<Longrightarrow> wf_ty t"
proof (induction ms)
  case (Cons a ms)
  then show ?case by (cases a) auto
qed simp

lemma members_wf:
  assumes "wf_ty t" and "(off, Fld nm ft) \<in> set (members_of t)"
  shows "wf_ty ft"
proof (cases t)
  case (CStruct ms)
  with assms have "wf_ms ms" "Fld nm ft \<in> set ms"
    using place_members [of False 0 ms] by (force simp: members_of_def)+
  then show ?thesis by (rule wf_ms_set)
next
  case (CPacked ms)
  with assms have "wf_ms ms" "Fld nm ft \<in> set ms"
    using place_members [of True 0 ms] by (force simp: members_of_def)+
  then show ?thesis by (rule wf_ms_set)
next
  case (CUnion ms)
  with assms show ?thesis by (auto simp: members_of_def intro: wf_ms_set)
qed (use assms in \<open>auto simp: members_of_def\<close>)

text \<open>
  Resolving a name stays inside the object: a read of the resolved member through the
  computed offset never leaves the enclosing struct.
\<close>

lemma find_in_sound:
  assumes step: "\<And>o1 n t o2 m2. Q o1 (Fld n t) \<Longrightarrow> (o2, m2) \<in> set (members_of t) \<Longrightarrow> Q (o1 + o2) m2"
  shows "find_in k nm xs = Some (off, m) \<Longrightarrow> (\<And>o1 m1. (o1, m1) \<in> set xs \<Longrightarrow> Q (b + o1) m1) \<Longrightarrow>
    Q (b + off) m"
proof (induction k arbitrary: xs b off m)
  case 0
  then show ?case by simp
next
  case (Suc k)
  note outer = Suc.IH
  from Suc.prems show ?case
  proof (induction xs)
    case Nil
    then show ?case by simp
  next
    case (Cons x xs)
    obtain o1 m1 where x: "x = (o1, m1)" by (cases x)
    have here: "Q (b + o1) m1" using Cons.prems(2) x by simp
    have later: "Q (b + off) m" if "find_in (Suc k) nm xs = Some (off, m)"
      using Cons.IH [OF that] Cons.prems(2) by simp
    show ?case
    proof (cases "mname m1 = nm")
      case True
      with Cons.prems(1) here x show ?thesis by simp
    next
      case neq: False
      show ?thesis
      proof (cases "\<exists>t o2 m2. m1 = Fld [] t \<and> find_in k nm (members_of t) = Some (o2, m2)")
        case False
        with neq Cons.prems(1) x show ?thesis
          by (intro later) (auto split: member.splits if_splits option.splits)
      next
        case True
        then obtain t o2 m2 where m1: "m1 = Fld [] t"
          and f: "find_in k nm (members_of t) = Some (o2, m2)" by blast
        with neq Cons.prems(1) x have "off = o1 + o2" "m = m2" by auto
        moreover have "Q (b + o1 + o2) m2" using outer [OF f] step here m1 by blast
        ultimately show ?thesis by (simp add: add.assoc)
      qed
    qed
  qed
qed

definition inside :: "nat \<Rightarrow> nat \<Rightarrow> member \<Rightarrow> bool" where
  "inside B off m \<longleftrightarrow> off + mwidth m \<le> B \<and> (case m of Fld n t \<Rightarrow> wf_ty t | Bits n t w \<Rightarrow> True)"

lemma inside_members: "wf_ty t \<Longrightarrow> (off, m) \<in> set (members_of t) \<Longrightarrow> inside (8 * sizeof t) off m"
  by (auto simp: inside_def members_in_bounds dest: members_wf split: member.splits)

lemma inside_step:
  "inside B o1 (Fld n t) \<Longrightarrow> (o2, m2) \<in> set (members_of t) \<Longrightarrow> inside B (o1 + o2) m2"
  using inside_members [of t o2 m2] by (auto simp: inside_def mwidth_def split: member.splits)

lemma field_of_in_bounds:
  assumes "wf_ty t" and "field_of t nm = Some (off, ft)"
  shows "off + sizeof ft \<le> sizeof t"
proof -
  from assms(2) obtain o' n where f: "find_in anon_depth nm (members_of t) = Some (o', Fld n ft)"
    and off: "off = o' div 8"
    by (auto simp: field_of_def split: option.splits member.splits)
  have "inside (8 * sizeof t) (0 + o') (Fld n ft)"
    by (rule find_in_sound [OF _ f]) (simp_all add: inside_step inside_members assms(1))
  then have "o' + 8 * sizeof ft \<le> 8 * sizeof t" by (simp add: inside_def mwidth_def)
  with off show ?thesis by linarith
qed

text \<open>Without packed structs, resolved members are also aligned for their type.\<close>

fun unpacked :: "ctype \<Rightarrow> bool" and unpacked_ms :: "member list \<Rightarrow> bool" where
  "unpacked (CArr n t) = unpacked t"
| "unpacked (CStruct ms) = unpacked_ms ms"
| "unpacked (CUnion ms) = unpacked_ms ms"
| "unpacked (CPacked ms) = False"
| "unpacked _ = True"
| "unpacked_ms [] = True"
| "unpacked_ms (Fld nm t # ms) = (unpacked t \<and> unpacked_ms ms)"
| "unpacked_ms (Bits nm t w # ms) = unpacked_ms ms"

lemma unpacked_ms_set: "unpacked_ms ms \<Longrightarrow> Fld nm t \<in> set ms \<Longrightarrow> unpacked t"
proof (induction ms)
  case (Cons a ms)
  then show ?case by (cases a) auto
qed simp

lemma align_member_dvd: "wf_ms ms \<Longrightarrow> Fld nm t \<in> set ms \<Longrightarrow> alignof t dvd align_ms ms"
proof -
  assume wf: "wf_ms ms" and mem: "Fld nm t \<in> set ms"
  have "alignof t \<le> align_ms ms" using mem
  proof (induction ms)
    case (Cons a ms)
    then show ?case by (cases a) auto
  qed simp
  with wf mem show ?thesis by (meson pow2_align_dvd wf_align wf_ms_set)
qed

definition aligned_at :: "nat \<Rightarrow> member \<Rightarrow> bool" where
  "aligned_at off m \<longleftrightarrow>
     (case m of Fld n t \<Rightarrow> wf_ty t \<and> unpacked t \<and> 8 * alignof t dvd off | Bits n t w \<Rightarrow> True)"

lemma members_aligned:
  assumes "wf_ty t" and "unpacked t" and "(off, Fld n ft) \<in> set (members_of t)"
  shows "aligned_at off (Fld n ft) \<and> alignof ft dvd alignof t"
proof (cases t)
  case (CStruct ms)
  with assms have m: "wf_ms ms" "unpacked_ms ms" "Fld n ft \<in> set ms"
    using place_members [of False 0 ms] by (force simp: members_of_def)+
  with CStruct assms show ?thesis
    by (auto simp: aligned_at_def members_of_def place_aligned unpacked_ms_set wf_ms_set align_member_dvd)
next
  case (CUnion ms)
  with assms show ?thesis
    by (auto simp: aligned_at_def members_of_def unpacked_ms_set wf_ms_set align_member_dvd)
qed (use assms in \<open>auto simp: members_of_def\<close>)

lemma aligned_step:
  assumes "aligned_at o1 (Fld n t)" and "(o2, m2) \<in> set (members_of t)"
  shows "aligned_at (o1 + o2) m2"
proof (cases m2)
  case (Fld n2 t2)
  from assms(1) have t: "wf_ty t" "unpacked t" "8 * alignof t dvd o1" by (auto simp: aligned_at_def)
  with assms(2) Fld have a: "aligned_at o2 (Fld n2 t2)" and d: "alignof t2 dvd alignof t"
    using members_aligned by blast+
  from d t(3) have "8 * alignof t2 dvd o1" by (meson dvd_trans dvd_refl mult_dvd_mono)
  with a Fld show ?thesis by (auto simp: aligned_at_def)
qed (simp add: aligned_at_def)

lemma field_of_aligned:
  assumes "wf_ty t" and "unpacked t" and "field_of t nm = Some (off, ft)"
  shows "alignof ft dvd off"
proof -
  from assms(3) obtain o' n where f: "find_in anon_depth nm (members_of t) = Some (o', Fld n ft)"
    and off: "off = o' div 8"
    by (auto simp: field_of_def split: option.splits member.splits)
  have start: "aligned_at (0 + o1) m1" if "(o1, m1) \<in> set (members_of t)" for o1 m1
    using members_aligned [OF assms(1,2)] that by (cases m1) (auto simp: aligned_at_def)
  have "aligned_at (0 + o') (Fld n ft)"
    by (rule find_in_sound [where Q = aligned_at, OF aligned_step f start])
  then have "8 * alignof ft dvd o'" by (simp add: aligned_at_def)
  with off show ?thesis by (auto elim!: dvdE)
qed

text \<open>Evaluation of a concrete layout.\<close>

lemmas layout_eval = align_up_def bit_pos_def pow2_align_def

lemma find_in_numeral:
  "find_in (numeral v) nm [] = None"
  "find_in (numeral v) nm ((off, Bits n t w) # xs) =
     (if n = nm then Some (off, Bits n t w) else find_in (numeral v) nm xs)"
  "find_in (numeral v) nm ((off, Fld n t) # xs) =
     (if n = nm then Some (off, Fld n t)
      else if n = [] then
        (case find_in (pred_numeral v) nm (members_of t) of
           None \<Rightarrow> find_in (numeral v) nm xs
         | Some (o2, m2) \<Rightarrow> Some (off + o2, m2))
      else find_in (numeral v) nm xs)"
  by (simp_all add: numeral_eq_Suc mname_def split: option.split)

lemma find_in_place:
  "find_in (numeral v) nm (place packed pos []) = None"
  "find_in (numeral v) nm (place packed pos (Bits n t w # ms)) =
     (if n = nm then Some (bit_pos packed (sizeof t) (alignof t) w pos, Bits n t w)
      else find_in (numeral v) nm (place packed (bit_pos packed (sizeof t) (alignof t) w pos + w) ms))"
  "find_in (numeral v) nm (place packed pos (Fld n t # ms)) =
     (if n = nm then Some (align_up pos (8 * (if packed then 1 else alignof t)), Fld n t)
      else if n = [] \<and> find_in (pred_numeral v) nm (members_of t) \<noteq> None then
        (case the (find_in (pred_numeral v) nm (members_of t)) of (o2, m2) \<Rightarrow>
           Some (align_up pos (8 * (if packed then 1 else alignof t)) + o2, m2))
      else find_in (numeral v) nm
        (place packed (align_up pos (8 * (if packed then 1 else alignof t)) + 8 * sizeof t) ms))"
  by (auto simp: find_in_numeral mpos_def mwidth_def split: option.splits)

declare place.simps(2) [simp del]

lemmas field_eval = offsetof_def field_of_def anon_depth_def members_of_def find_in_numeral
  find_in_place layout_eval

text \<open>Used as a congruence rule: a search does not simplify the members it has not reached.\<close>

lemma place_head_cong: "pos = pos' \<Longrightarrow> place packed pos ms = place packed pos' ms"
  by simp

text \<open>Runs of the anonymous 64-bit padding members that the generated header uses.\<close>

lemma wf_ms_append: "wf_ms (xs @ ys) \<longleftrightarrow> wf_ms xs \<and> wf_ms ys"
proof (induction xs)
  case (Cons a xs)
  then show ?case by (cases a) auto
qed simp

lemma align_ms_append: "wf_ms xs \<Longrightarrow> wf_ms ys \<Longrightarrow> align_ms (xs @ ys) = max (align_ms xs) (align_ms ys)"
proof (induction xs)
  case Nil
  then show ?case using pow2_align_pos [OF wf_align(2)] by (simp add: Suc_leI)
next
  case (Cons a xs)
  then show ?case by (cases a) auto
qed

lemma unpacked_ms_append: "unpacked_ms (xs @ ys) \<longleftrightarrow> unpacked_ms xs \<and> unpacked_ms ys"
proof (induction xs)
  case (Cons a xs)
  then show ?case by (cases a) auto
qed simp

lemma unpacked_ms_padding: "unpacked_ms (replicate n (Bits [] c_long 64))"
  by (induction n) simp_all

lemma wf_ms_padding: "wf_ms (replicate n (Bits [] c_long 64))"
  by (induction n) (simp_all add: pow2_align_def)

lemma align_ms_padding: "align_ms (replicate n (Bits [] c_long 64)) = 1"
  by (induction n) simp_all

lemma end_of_padding:
  "0 < n \<Longrightarrow> end_of False pos (replicate n (Bits [] c_long 64) @ ms) =
     end_of False (align_up pos 64 + 64 * n) ms"
proof (induction n arbitrary: pos)
  case 0
  then show ?case by simp
next
  case (Suc n)
  have first: "bit_pos False 8 8 64 pos = align_up pos 64"
    by (auto simp: bit_pos_def align_up_id mod_eq_0_iff_dvd)
  have again: "align_up (64 + align_up pos 64) 64 = 64 + align_up pos 64"
    by (rule align_up_id) (simp_all add: align_up_dvd)
  from Suc.IH [of "align_up pos 64 + 64"] show ?case
    by (cases n) (simp_all add: first again algebra_simps)
qed

end
