(* ===== verification/Vmlinux_Net.thy ===== *)
theory Vmlinux_Net
  imports C_Layout
begin

text \<open>
  The kernel types the sensor reads on the network path and in its tracepoint contexts: the Ethernet, IPv4 and TCP headers, the XDP context and verdicts, the raw syscall-entry record and the register file of kprobes.
  Each definition transcribes one declaration of \<open>src-bpf/vmlinux.h\<close>; the lemma after it
  evaluates its size and alignment and checks that it is well-formed.
\<close>

definition typedef___u16 :: ctype where
  [layout_simps]: "typedef___u16 = c_ushort"

definition typedef___be16 :: ctype where
  [layout_simps]: "typedef___be16 = typedef___u16"

definition struct_ethhdr :: ctype where
  "struct_ethhdr = CStruct [
    Fld ''h_dest'' (CArr 6 c_uchar),
    Fld ''h_source'' (CArr 6 c_uchar),
    Fld ''h_proto'' typedef___be16]"

lemma lay_struct_ethhdr [layout_simps]:
  "sizeof struct_ethhdr = 14" "alignof struct_ethhdr = 2" "wf_ty struct_ethhdr" "unpacked struct_ethhdr"
  by (simp_all add: struct_ethhdr_def layout_simps layout_eval)

definition typedef___u8 :: ctype where
  [layout_simps]: "typedef___u8 = c_uchar"

definition typedef___sum16 :: ctype where
  [layout_simps]: "typedef___sum16 = typedef___u16"

definition typedef___u32 :: ctype where
  [layout_simps]: "typedef___u32 = c_uint"

definition typedef___be32 :: ctype where
  [layout_simps]: "typedef___be32 = typedef___u32"

definition struct_iphdr :: ctype where
  "struct_iphdr = CStruct [
    Bits ''ihl'' typedef___u8 4,
    Bits ''version'' typedef___u8 4,
    Fld ''tos'' typedef___u8,
    Fld ''tot_len'' typedef___be16,
    Fld ''id'' typedef___be16,
    Fld ''frag_off'' typedef___be16,
    Fld ''ttl'' typedef___u8,
    Fld ''protocol'' typedef___u8,
    Fld ''check'' typedef___sum16,
    Fld [] (CUnion [
      Fld [] (CStruct [
        Fld ''saddr'' typedef___be32,
        Fld ''daddr'' typedef___be32]),
      Fld ''addrs'' (CStruct [
        Fld ''saddr'' typedef___be32,
        Fld ''daddr'' typedef___be32])])]"

lemma lay_struct_iphdr [layout_simps]:
  "sizeof struct_iphdr = 20" "alignof struct_iphdr = 4" "wf_ty struct_iphdr" "unpacked struct_iphdr"
  by (simp_all add: struct_iphdr_def layout_simps layout_eval)

definition struct_tcphdr :: ctype where
  "struct_tcphdr = CStruct [
    Fld ''source'' typedef___be16,
    Fld ''dest'' typedef___be16,
    Fld ''seq'' typedef___be32,
    Fld ''ack_seq'' typedef___be32,
    Bits ''ae'' typedef___u16 1,
    Bits ''res1'' typedef___u16 3,
    Bits ''doff'' typedef___u16 4,
    Bits ''fin'' typedef___u16 1,
    Bits ''syn'' typedef___u16 1,
    Bits ''rst'' typedef___u16 1,
    Bits ''psh'' typedef___u16 1,
    Bits ''ack'' typedef___u16 1,
    Bits ''urg'' typedef___u16 1,
    Bits ''ece'' typedef___u16 1,
    Bits ''cwr'' typedef___u16 1,
    Fld ''window'' typedef___be16,
    Fld ''check'' typedef___sum16,
    Fld ''urg_ptr'' typedef___be16]"

lemma lay_struct_tcphdr [layout_simps]:
  "sizeof struct_tcphdr = 20" "alignof struct_tcphdr = 4" "wf_ty struct_tcphdr" "unpacked struct_tcphdr"
  by (simp_all add: struct_tcphdr_def layout_simps layout_eval)

definition struct_xdp_md :: ctype where
  "struct_xdp_md = CStruct [
    Fld ''data'' typedef___u32,
    Fld ''data_end'' typedef___u32,
    Fld ''data_meta'' typedef___u32,
    Fld ''ingress_ifindex'' typedef___u32,
    Fld ''rx_queue_index'' typedef___u32,
    Fld ''egress_ifindex'' typedef___u32]"

lemma lay_struct_xdp_md [layout_simps]:
  "sizeof struct_xdp_md = 24" "alignof struct_xdp_md = 4" "wf_ty struct_xdp_md" "unpacked struct_xdp_md"
  by (simp_all add: struct_xdp_md_def layout_simps layout_eval)

definition enum_xdp_action :: ctype where
  "enum_xdp_action = CEnum 4 [
    (''XDP_ABORTED'', 0),
    (''XDP_DROP'', 1),
    (''XDP_PASS'', 2),
    (''XDP_TX'', 3),
    (''XDP_REDIRECT'', 4)]"

lemma lay_enum_xdp_action [layout_simps]:
  "sizeof enum_xdp_action = 4" "alignof enum_xdp_action = 4" "wf_ty enum_xdp_action" "unpacked enum_xdp_action"
  by (simp_all add: enum_xdp_action_def layout_simps layout_eval)

definition typedef_u32 :: ctype where
  [layout_simps]: "typedef_u32 = typedef___u32"

definition struct_xdp_buff :: ctype where
  "struct_xdp_buff = CStruct [
    Fld ''data'' CPtr,
    Fld ''data_end'' CPtr,
    Fld ''data_meta'' CPtr,
    Fld ''data_hard_start'' CPtr,
    Fld ''rxq'' CPtr,
    Fld ''txq'' CPtr,
    Fld ''frame_sz'' typedef_u32,
    Fld ''flags'' typedef_u32]"

lemma lay_struct_xdp_buff [layout_simps]:
  "sizeof struct_xdp_buff = 56" "alignof struct_xdp_buff = 8" "wf_ty struct_xdp_buff" "unpacked struct_xdp_buff"
  by (simp_all add: struct_xdp_buff_def layout_simps layout_eval)

definition struct_trace_entry :: ctype where
  "struct_trace_entry = CStruct [
    Fld ''type'' c_ushort,
    Fld ''flags'' c_uchar,
    Fld ''preempt_count'' c_uchar,
    Fld ''pid'' c_int]"

lemma lay_struct_trace_entry [layout_simps]:
  "sizeof struct_trace_entry = 8" "alignof struct_trace_entry = 4" "wf_ty struct_trace_entry" "unpacked struct_trace_entry"
  by (simp_all add: struct_trace_entry_def layout_simps layout_eval)

definition struct_trace_event_raw_sys_enter :: ctype where
  "struct_trace_event_raw_sys_enter = CStruct [
    Fld ''ent'' struct_trace_entry,
    Fld ''id'' c_long,
    Fld ''args'' (CArr 6 c_ulong),
    Fld ''__data'' (CArr 0 c_char)]"

lemma lay_struct_trace_event_raw_sys_enter [layout_simps]:
  "sizeof struct_trace_event_raw_sys_enter = 64" "alignof struct_trace_event_raw_sys_enter = 8" "wf_ty struct_trace_event_raw_sys_enter" "unpacked struct_trace_event_raw_sys_enter"
  by (simp_all add: struct_trace_event_raw_sys_enter_def layout_simps layout_eval)

definition typedef_u16 :: ctype where
  [layout_simps]: "typedef_u16 = typedef___u16"

definition typedef___u64 :: ctype where
  [layout_simps]: "typedef___u64 = c_ullong"

definition typedef_u64 :: ctype where
  [layout_simps]: "typedef_u64 = typedef___u64"

definition struct_fred_cs :: ctype where
  "struct_fred_cs = CStruct [
    Bits ''cs'' typedef_u64 16,
    Bits ''sl'' typedef_u64 2,
    Bits ''wfe'' typedef_u64 1]"

lemma lay_struct_fred_cs [layout_simps]:
  "sizeof struct_fred_cs = 8" "alignof struct_fred_cs = 8" "wf_ty struct_fred_cs" "unpacked struct_fred_cs"
  by (simp_all add: struct_fred_cs_def layout_simps layout_eval)

definition struct_fred_ss :: ctype where
  "struct_fred_ss = CStruct [
    Bits ''ss'' typedef_u64 16,
    Bits ''sti'' typedef_u64 1,
    Bits ''swevent'' typedef_u64 1,
    Bits ''nmi'' typedef_u64 1,
    Bits [] c_int 13,
    Bits ''vector'' typedef_u64 8,
    Bits [] c_short 8,
    Bits ''type'' typedef_u64 4,
    Bits [] c_char 4,
    Bits ''enclave'' typedef_u64 1,
    Bits ''lm'' typedef_u64 1,
    Bits ''nested'' typedef_u64 1,
    Bits [] c_char 1,
    Bits ''insnlen'' typedef_u64 4]"

lemma lay_struct_fred_ss [layout_simps]:
  "sizeof struct_fred_ss = 8" "alignof struct_fred_ss = 8" "wf_ty struct_fred_ss" "unpacked struct_fred_ss"
  by (simp_all add: struct_fred_ss_def layout_simps layout_eval)

definition struct_pt_regs :: ctype where
  "struct_pt_regs = CStruct [
    Fld ''r15'' c_ulong,
    Fld ''r14'' c_ulong,
    Fld ''r13'' c_ulong,
    Fld ''r12'' c_ulong,
    Fld ''bp'' c_ulong,
    Fld ''bx'' c_ulong,
    Fld ''r11'' c_ulong,
    Fld ''r10'' c_ulong,
    Fld ''r9'' c_ulong,
    Fld ''r8'' c_ulong,
    Fld ''ax'' c_ulong,
    Fld ''cx'' c_ulong,
    Fld ''dx'' c_ulong,
    Fld ''si'' c_ulong,
    Fld ''di'' c_ulong,
    Fld ''orig_ax'' c_ulong,
    Fld ''ip'' c_ulong,
    Fld [] (CUnion [
      Fld ''cs'' typedef_u16,
      Fld ''csx'' typedef_u64,
      Fld ''fred_cs'' struct_fred_cs]),
    Fld ''flags'' c_ulong,
    Fld ''sp'' c_ulong,
    Fld [] (CUnion [
      Fld ''ss'' typedef_u16,
      Fld ''ssx'' typedef_u64,
      Fld ''fred_ss'' struct_fred_ss])]"

lemma lay_struct_pt_regs [layout_simps]:
  "sizeof struct_pt_regs = 168" "alignof struct_pt_regs = 8" "wf_ty struct_pt_regs" "unpacked struct_pt_regs"
  by (simp_all add: struct_pt_regs_def layout_simps layout_eval)

end
