(* ===== verification/Vmlinux_Task.thy ===== *)
theory Vmlinux_Task
  imports Vmlinux_Net
begin

text \<open>
  The task structure, from which \<open>handle_execve\<close> reads the parent task and its thread group, with every type it contains by value.
  Each definition transcribes one declaration of \<open>src-bpf/vmlinux.h\<close>; the lemma after it
  evaluates its size and alignment and checks that it is well-formed.
\<close>

definition struct_thread_info :: ctype where
  "struct_thread_info = CStruct [
    Fld ''flags'' c_ulong,
    Fld ''syscall_work'' c_ulong,
    Fld ''status'' typedef_u32,
    Fld ''cpu'' typedef_u32]"

lemma lay_struct_thread_info [layout_simps]:
  "sizeof struct_thread_info = 24" "alignof struct_thread_info = 8" "wf_ty struct_thread_info" "unpacked struct_thread_info"
  by (simp_all add: struct_thread_info_def layout_simps layout_eval)

definition typedef_atomic_t :: ctype where
  "typedef_atomic_t = CStruct [
    Fld ''counter'' c_int]"

lemma lay_typedef_atomic_t [layout_simps]:
  "sizeof typedef_atomic_t = 4" "alignof typedef_atomic_t = 4" "wf_ty typedef_atomic_t" "unpacked typedef_atomic_t"
  by (simp_all add: typedef_atomic_t_def layout_simps layout_eval)

definition struct_refcount_struct :: ctype where
  "struct_refcount_struct = CStruct [
    Fld ''refs'' typedef_atomic_t]"

lemma lay_struct_refcount_struct [layout_simps]:
  "sizeof struct_refcount_struct = 4" "alignof struct_refcount_struct = 4" "wf_ty struct_refcount_struct" "unpacked struct_refcount_struct"
  by (simp_all add: struct_refcount_struct_def layout_simps layout_eval)

definition typedef_refcount_t :: ctype where
  [layout_simps]: "typedef_refcount_t = struct_refcount_struct"

definition struct_llist_node :: ctype where
  "struct_llist_node = CStruct [
    Fld ''next'' CPtr]"

lemma lay_struct_llist_node [layout_simps]:
  "sizeof struct_llist_node = 8" "alignof struct_llist_node = 8" "wf_ty struct_llist_node" "unpacked struct_llist_node"
  by (simp_all add: struct_llist_node_def layout_simps layout_eval)

definition struct___call_single_node :: ctype where
  "struct___call_single_node = CStruct [
    Fld ''llist'' struct_llist_node,
    Fld [] (CUnion [
      Fld ''u_flags'' c_uint,
      Fld ''a_flags'' typedef_atomic_t]),
    Fld ''src'' typedef_u16,
    Fld ''dst'' typedef_u16]"

lemma lay_struct___call_single_node [layout_simps]:
  "sizeof struct___call_single_node = 16" "alignof struct___call_single_node = 8" "wf_ty struct___call_single_node" "unpacked struct___call_single_node"
  by (simp_all add: struct___call_single_node_def layout_simps layout_eval)

definition struct_load_weight :: ctype where
  "struct_load_weight = CStruct [
    Fld ''weight'' c_ulong,
    Fld ''inv_weight'' typedef_u32]"

lemma lay_struct_load_weight [layout_simps]:
  "sizeof struct_load_weight = 16" "alignof struct_load_weight = 8" "wf_ty struct_load_weight" "unpacked struct_load_weight"
  by (simp_all add: struct_load_weight_def layout_simps layout_eval)

definition struct_rb_node :: ctype where
  "struct_rb_node = CStruct [
    Fld ''__rb_parent_color'' c_ulong,
    Fld ''rb_right'' CPtr,
    Fld ''rb_left'' CPtr]"

lemma lay_struct_rb_node [layout_simps]:
  "sizeof struct_rb_node = 24" "alignof struct_rb_node = 8" "wf_ty struct_rb_node" "unpacked struct_rb_node"
  by (simp_all add: struct_rb_node_def layout_simps layout_eval)

definition struct_list_head :: ctype where
  "struct_list_head = CStruct [
    Fld ''next'' CPtr,
    Fld ''prev'' CPtr]"

lemma lay_struct_list_head [layout_simps]:
  "sizeof struct_list_head = 16" "alignof struct_list_head = 8" "wf_ty struct_list_head" "unpacked struct_list_head"
  by (simp_all add: struct_list_head_def layout_simps layout_eval)

definition typedef___s64 :: ctype where
  [layout_simps]: "typedef___s64 = c_llong"

definition typedef_s64 :: ctype where
  [layout_simps]: "typedef_s64 = typedef___s64"

definition struct_sched_avg :: ctype where
  "struct_sched_avg = CStruct [
    Fld ''last_update_time'' typedef_u64,
    Fld ''load_sum'' typedef_u64,
    Fld ''runnable_sum'' typedef_u64,
    Fld ''util_sum'' typedef_u32,
    Fld ''period_contrib'' typedef_u32,
    Fld ''load_avg'' c_ulong,
    Fld ''runnable_avg'' c_ulong,
    Fld ''util_avg'' c_ulong,
    Fld ''util_est'' c_uint]"

lemma lay_struct_sched_avg [layout_simps]:
  "sizeof struct_sched_avg = 64" "alignof struct_sched_avg = 8" "wf_ty struct_sched_avg" "unpacked struct_sched_avg"
  by (simp_all add: struct_sched_avg_def layout_simps layout_eval)

definition struct_sched_entity :: ctype where
  "struct_sched_entity = CStruct [
    Fld ''load'' struct_load_weight,
    Fld ''run_node'' struct_rb_node,
    Fld ''deadline'' typedef_u64,
    Fld ''min_vruntime'' typedef_u64,
    Fld ''min_slice'' typedef_u64,
    Fld ''group_node'' struct_list_head,
    Fld ''on_rq'' c_uchar,
    Fld ''sched_delayed'' c_uchar,
    Fld ''rel_deadline'' c_uchar,
    Fld ''custom_slice'' c_uchar,
    Fld ''exec_start'' typedef_u64,
    Fld ''sum_exec_runtime'' typedef_u64,
    Fld ''prev_sum_exec_runtime'' typedef_u64,
    Fld ''vruntime'' typedef_u64,
    Fld [] (CUnion [
      Fld ''vlag'' typedef_s64,
      Fld ''vprot'' typedef_u64]),
    Fld ''slice'' typedef_u64,
    Fld ''nr_migrations'' typedef_u64,
    Fld ''depth'' c_int,
    Fld ''parent'' CPtr,
    Fld ''cfs_rq'' CPtr,
    Fld ''my_q'' CPtr,
    Fld ''runnable_weight'' c_ulong,
    Bits [] c_long 64,
    Fld ''avg'' struct_sched_avg]"

lemma lay_struct_sched_entity [layout_simps]:
  "sizeof struct_sched_entity = 256" "alignof struct_sched_entity = 8" "wf_ty struct_sched_entity" "unpacked struct_sched_entity"
  by (simp_all add: struct_sched_entity_def layout_simps layout_eval)

definition struct_sched_rt_entity :: ctype where
  "struct_sched_rt_entity = CStruct [
    Fld ''run_list'' struct_list_head,
    Fld ''timeout'' c_ulong,
    Fld ''watchdog_stamp'' c_ulong,
    Fld ''time_slice'' c_uint,
    Fld ''on_rq'' c_ushort,
    Fld ''on_list'' c_ushort,
    Fld ''back'' CPtr]"

lemma lay_struct_sched_rt_entity [layout_simps]:
  "sizeof struct_sched_rt_entity = 48" "alignof struct_sched_rt_entity = 8" "wf_ty struct_sched_rt_entity" "unpacked struct_sched_rt_entity"
  by (simp_all add: struct_sched_rt_entity_def layout_simps layout_eval)

definition typedef_ktime_t :: ctype where
  [layout_simps]: "typedef_ktime_t = typedef_s64"

definition struct_timerqueue_node :: ctype where
  "struct_timerqueue_node = CStruct [
    Fld ''node'' struct_rb_node,
    Fld ''expires'' typedef_ktime_t]"

lemma lay_struct_timerqueue_node [layout_simps]:
  "sizeof struct_timerqueue_node = 32" "alignof struct_timerqueue_node = 8" "wf_ty struct_timerqueue_node" "unpacked struct_timerqueue_node"
  by (simp_all add: struct_timerqueue_node_def layout_simps layout_eval)

definition typedef_u8 :: ctype where
  [layout_simps]: "typedef_u8 = typedef___u8"

definition struct_hrtimer :: ctype where
  "struct_hrtimer = CStruct [
    Fld ''node'' struct_timerqueue_node,
    Fld ''_softexpires'' typedef_ktime_t,
    Fld ''function'' CPtr,
    Fld ''base'' CPtr,
    Fld ''state'' typedef_u8,
    Fld ''is_rel'' typedef_u8,
    Fld ''is_soft'' typedef_u8,
    Fld ''is_hard'' typedef_u8]"

lemma lay_struct_hrtimer [layout_simps]:
  "sizeof struct_hrtimer = 64" "alignof struct_hrtimer = 8" "wf_ty struct_hrtimer" "unpacked struct_hrtimer"
  by (simp_all add: struct_hrtimer_def layout_simps layout_eval)

definition typedef_dl_server_pick_f :: ctype where
  [layout_simps]: "typedef_dl_server_pick_f = CPtr"

definition struct_sched_dl_entity :: ctype where
  "struct_sched_dl_entity = CStruct [
    Fld ''rb_node'' struct_rb_node,
    Fld ''dl_runtime'' typedef_u64,
    Fld ''dl_deadline'' typedef_u64,
    Fld ''dl_period'' typedef_u64,
    Fld ''dl_bw'' typedef_u64,
    Fld ''dl_density'' typedef_u64,
    Fld ''runtime'' typedef_s64,
    Fld ''deadline'' typedef_u64,
    Fld ''flags'' c_uint,
    Bits ''dl_throttled'' c_uint 1,
    Bits ''dl_yielded'' c_uint 1,
    Bits ''dl_non_contending'' c_uint 1,
    Bits ''dl_overrun'' c_uint 1,
    Bits ''dl_server'' c_uint 1,
    Bits ''dl_server_active'' c_uint 1,
    Bits ''dl_defer'' c_uint 1,
    Bits ''dl_defer_armed'' c_uint 1,
    Bits ''dl_defer_running'' c_uint 1,
    Fld ''dl_timer'' struct_hrtimer,
    Fld ''inactive_timer'' struct_hrtimer,
    Fld ''rq'' CPtr,
    Fld ''server_pick_task'' typedef_dl_server_pick_f,
    Fld ''pi_se'' CPtr]"

lemma lay_struct_sched_dl_entity [layout_simps]:
  "sizeof struct_sched_dl_entity = 240" "alignof struct_sched_dl_entity = 8" "wf_ty struct_sched_dl_entity" "unpacked struct_sched_dl_entity"
  by (simp_all add: struct_sched_dl_entity_def layout_simps layout_eval)

definition struct_scx_dsq_list_node :: ctype where
  "struct_scx_dsq_list_node = CStruct [
    Fld ''node'' struct_list_head,
    Fld ''flags'' typedef_u32,
    Fld ''priv'' typedef_u32]"

lemma lay_struct_scx_dsq_list_node [layout_simps]:
  "sizeof struct_scx_dsq_list_node = 24" "alignof struct_scx_dsq_list_node = 8" "wf_ty struct_scx_dsq_list_node" "unpacked struct_scx_dsq_list_node"
  by (simp_all add: struct_scx_dsq_list_node_def layout_simps layout_eval)

definition typedef___s32 :: ctype where
  [layout_simps]: "typedef___s32 = c_int"

definition typedef_s32 :: ctype where
  [layout_simps]: "typedef_s32 = typedef___s32"

definition typedef_atomic64_t :: ctype where
  "typedef_atomic64_t = CStruct [
    Fld ''counter'' typedef_s64]"

lemma lay_typedef_atomic64_t [layout_simps]:
  "sizeof typedef_atomic64_t = 8" "alignof typedef_atomic64_t = 8" "wf_ty typedef_atomic64_t" "unpacked typedef_atomic64_t"
  by (simp_all add: typedef_atomic64_t_def layout_simps layout_eval)

definition typedef_atomic_long_t :: ctype where
  [layout_simps]: "typedef_atomic_long_t = typedef_atomic64_t"

definition typedef_bool :: ctype where
  [layout_simps]: "typedef_bool = c_bool"

definition struct_sched_ext_entity :: ctype where
  "struct_sched_ext_entity = CStruct [
    Fld ''dsq'' CPtr,
    Fld ''dsq_list'' struct_scx_dsq_list_node,
    Fld ''dsq_priq'' struct_rb_node,
    Fld ''dsq_seq'' typedef_u32,
    Fld ''dsq_flags'' typedef_u32,
    Fld ''flags'' typedef_u32,
    Fld ''weight'' typedef_u32,
    Fld ''sticky_cpu'' typedef_s32,
    Fld ''holding_cpu'' typedef_s32,
    Fld ''selected_cpu'' typedef_s32,
    Fld ''kf_mask'' typedef_u32,
    Fld ''kf_tasks'' (CArr 2 CPtr),
    Fld ''ops_state'' typedef_atomic_long_t,
    Fld ''runnable_node'' struct_list_head,
    Fld ''runnable_at'' c_ulong,
    Fld ''core_sched_at'' typedef_u64,
    Fld ''ddsp_dsq_id'' typedef_u64,
    Fld ''ddsp_enq_flags'' typedef_u64,
    Fld ''slice'' typedef_u64,
    Fld ''dsq_vtime'' typedef_u64,
    Fld ''disallow'' typedef_bool,
    Fld ''cgrp_moving_from'' CPtr,
    Fld ''tasks_node'' struct_list_head]"

lemma lay_struct_sched_ext_entity [layout_simps]:
  "sizeof struct_sched_ext_entity = 208" "alignof struct_sched_ext_entity = 8" "wf_ty struct_sched_ext_entity" "unpacked struct_sched_ext_entity"
  by (simp_all add: struct_sched_ext_entity_def layout_simps layout_eval)

definition struct_uclamp_se :: ctype where
  "struct_uclamp_se = CStruct [
    Bits ''value'' c_uint 11,
    Bits ''bucket_id'' c_uint 3,
    Bits ''active'' c_uint 1,
    Bits ''user_defined'' c_uint 1]"

lemma lay_struct_uclamp_se [layout_simps]:
  "sizeof struct_uclamp_se = 4" "alignof struct_uclamp_se = 4" "wf_ty struct_uclamp_se" "unpacked struct_uclamp_se"
  by (simp_all add: struct_uclamp_se_def layout_simps layout_eval)

definition struct_sched_statistics :: ctype where
  "struct_sched_statistics = CStruct [
    Fld ''wait_start'' typedef_u64,
    Fld ''wait_max'' typedef_u64,
    Fld ''wait_count'' typedef_u64,
    Fld ''wait_sum'' typedef_u64,
    Fld ''iowait_count'' typedef_u64,
    Fld ''iowait_sum'' typedef_u64,
    Fld ''sleep_start'' typedef_u64,
    Fld ''sleep_max'' typedef_u64,
    Fld ''sum_sleep_runtime'' typedef_s64,
    Fld ''block_start'' typedef_u64,
    Fld ''block_max'' typedef_u64,
    Fld ''sum_block_runtime'' typedef_s64,
    Fld ''exec_max'' typedef_s64,
    Fld ''slice_max'' typedef_u64,
    Fld ''nr_migrations_cold'' typedef_u64,
    Fld ''nr_failed_migrations_affine'' typedef_u64,
    Fld ''nr_failed_migrations_running'' typedef_u64,
    Fld ''nr_failed_migrations_hot'' typedef_u64,
    Fld ''nr_forced_migrations'' typedef_u64,
    Fld ''nr_wakeups'' typedef_u64,
    Fld ''nr_wakeups_sync'' typedef_u64,
    Fld ''nr_wakeups_migrate'' typedef_u64,
    Fld ''nr_wakeups_local'' typedef_u64,
    Fld ''nr_wakeups_remote'' typedef_u64,
    Fld ''nr_wakeups_affine'' typedef_u64,
    Fld ''nr_wakeups_affine_attempts'' typedef_u64,
    Fld ''nr_wakeups_passive'' typedef_u64,
    Fld ''nr_wakeups_idle'' typedef_u64,
    Fld ''core_forceidle_sum'' typedef_u64,
    Bits [] c_long 64,
    Bits [] c_long 64,
    Bits [] c_long 64]"

lemma lay_struct_sched_statistics [layout_simps]:
  "sizeof struct_sched_statistics = 256" "alignof struct_sched_statistics = 8" "wf_ty struct_sched_statistics" "unpacked struct_sched_statistics"
  by (simp_all add: struct_sched_statistics_def layout_simps layout_eval)

definition struct_hlist_head :: ctype where
  "struct_hlist_head = CStruct [
    Fld ''first'' CPtr]"

lemma lay_struct_hlist_head [layout_simps]:
  "sizeof struct_hlist_head = 8" "alignof struct_hlist_head = 8" "wf_ty struct_hlist_head" "unpacked struct_hlist_head"
  by (simp_all add: struct_hlist_head_def layout_simps layout_eval)

definition struct_cpumask :: ctype where
  "struct_cpumask = CStruct [
    Fld ''bits'' (CArr 128 c_ulong)]"

lemma lay_struct_cpumask [layout_simps]:
  "sizeof struct_cpumask = 1024" "alignof struct_cpumask = 8" "wf_ty struct_cpumask" "unpacked struct_cpumask"
  by (simp_all add: struct_cpumask_def layout_simps layout_eval)

definition typedef_cpumask_t :: ctype where
  [layout_simps]: "typedef_cpumask_t = struct_cpumask"

definition union_rcu_special :: ctype where
  "union_rcu_special = CUnion [
    Fld ''b'' (CStruct [
      Fld ''blocked'' typedef_u8,
      Fld ''need_qs'' typedef_u8,
      Fld ''exp_hint'' typedef_u8,
      Fld ''need_mb'' typedef_u8]),
    Fld ''s'' typedef_u32]"

lemma lay_union_rcu_special [layout_simps]:
  "sizeof union_rcu_special = 4" "alignof union_rcu_special = 4" "wf_ty union_rcu_special" "unpacked union_rcu_special"
  by (simp_all add: union_rcu_special_def layout_simps layout_eval)

definition struct_sched_info :: ctype where
  "struct_sched_info = CStruct [
    Fld ''pcount'' c_ulong,
    Fld ''run_delay'' c_ullong,
    Fld ''max_run_delay'' c_ullong,
    Fld ''min_run_delay'' c_ullong,
    Fld ''last_arrival'' c_ullong,
    Fld ''last_queued'' c_ullong]"

lemma lay_struct_sched_info [layout_simps]:
  "sizeof struct_sched_info = 48" "alignof struct_sched_info = 8" "wf_ty struct_sched_info" "unpacked struct_sched_info"
  by (simp_all add: struct_sched_info_def layout_simps layout_eval)

definition struct_plist_node :: ctype where
  "struct_plist_node = CStruct [
    Fld ''prio'' c_int,
    Fld ''prio_list'' struct_list_head,
    Fld ''node_list'' struct_list_head]"

lemma lay_struct_plist_node [layout_simps]:
  "sizeof struct_plist_node = 40" "alignof struct_plist_node = 8" "wf_ty struct_plist_node" "unpacked struct_plist_node"
  by (simp_all add: struct_plist_node_def layout_simps layout_eval)

definition typedef___kernel_clockid_t :: ctype where
  [layout_simps]: "typedef___kernel_clockid_t = c_int"

definition typedef_clockid_t :: ctype where
  [layout_simps]: "typedef_clockid_t = typedef___kernel_clockid_t"

definition enum_timespec_type :: ctype where
  "enum_timespec_type = CEnum 4 [
    (''TT_NONE'', 0),
    (''TT_NATIVE'', 1),
    (''TT_COMPAT'', 2)]"

lemma lay_enum_timespec_type [layout_simps]:
  "sizeof enum_timespec_type = 4" "alignof enum_timespec_type = 4" "wf_ty enum_timespec_type" "unpacked enum_timespec_type"
  by (simp_all add: enum_timespec_type_def layout_simps layout_eval)

definition struct_restart_block :: ctype where
  "struct_restart_block = CStruct [
    Fld ''arch_data'' c_ulong,
    Fld ''fn'' CPtr,
    Fld [] (CUnion [
      Fld ''futex'' (CStruct [
        Fld ''uaddr'' CPtr,
        Fld ''val'' typedef_u32,
        Fld ''flags'' typedef_u32,
        Fld ''bitset'' typedef_u32,
        Fld ''time'' typedef_u64,
        Fld ''uaddr2'' CPtr]),
      Fld ''nanosleep'' (CStruct [
        Fld ''clockid'' typedef_clockid_t,
        Fld ''type'' enum_timespec_type,
        Fld [] (CUnion [
          Fld ''rmtp'' CPtr,
          Fld ''compat_rmtp'' CPtr]),
        Fld ''expires'' typedef_u64]),
      Fld ''poll'' (CStruct [
        Fld ''ufds'' CPtr,
        Fld ''nfds'' c_int,
        Fld ''has_timeout'' c_int,
        Fld ''tv_sec'' c_ulong,
        Fld ''tv_nsec'' c_ulong])])]"

lemma lay_struct_restart_block [layout_simps]:
  "sizeof struct_restart_block = 56" "alignof struct_restart_block = 8" "wf_ty struct_restart_block" "unpacked struct_restart_block"
  by (simp_all add: struct_restart_block_def layout_simps layout_eval)

definition typedef___kernel_pid_t :: ctype where
  [layout_simps]: "typedef___kernel_pid_t = c_int"

definition typedef_pid_t :: ctype where
  [layout_simps]: "typedef_pid_t = typedef___kernel_pid_t"

definition struct_hlist_node :: ctype where
  "struct_hlist_node = CStruct [
    Fld ''next'' CPtr,
    Fld ''pprev'' CPtr]"

lemma lay_struct_hlist_node [layout_simps]:
  "sizeof struct_hlist_node = 16" "alignof struct_hlist_node = 8" "wf_ty struct_hlist_node" "unpacked struct_hlist_node"
  by (simp_all add: struct_hlist_node_def layout_simps layout_eval)

definition struct_qspinlock :: ctype where
  "struct_qspinlock = CStruct [
    Fld [] (CUnion [
      Fld ''val'' typedef_atomic_t,
      Fld [] (CStruct [
        Fld ''locked'' typedef_u8,
        Fld ''pending'' typedef_u8]),
      Fld [] (CStruct [
        Fld ''locked_pending'' typedef_u16,
        Fld ''tail'' typedef_u16])])]"

lemma lay_struct_qspinlock [layout_simps]:
  "sizeof struct_qspinlock = 4" "alignof struct_qspinlock = 4" "wf_ty struct_qspinlock" "unpacked struct_qspinlock"
  by (simp_all add: struct_qspinlock_def layout_simps layout_eval)

definition typedef_arch_spinlock_t :: ctype where
  [layout_simps]: "typedef_arch_spinlock_t = struct_qspinlock"

definition struct_raw_spinlock :: ctype where
  "struct_raw_spinlock = CStruct [
    Fld ''raw_lock'' typedef_arch_spinlock_t]"

lemma lay_struct_raw_spinlock [layout_simps]:
  "sizeof struct_raw_spinlock = 4" "alignof struct_raw_spinlock = 4" "wf_ty struct_raw_spinlock" "unpacked struct_raw_spinlock"
  by (simp_all add: struct_raw_spinlock_def layout_simps layout_eval)

definition typedef_raw_spinlock_t :: ctype where
  [layout_simps]: "typedef_raw_spinlock_t = struct_raw_spinlock"

definition struct_prev_cputime :: ctype where
  "struct_prev_cputime = CStruct [
    Fld ''utime'' typedef_u64,
    Fld ''stime'' typedef_u64,
    Fld ''lock'' typedef_raw_spinlock_t]"

lemma lay_struct_prev_cputime [layout_simps]:
  "sizeof struct_prev_cputime = 24" "alignof struct_prev_cputime = 8" "wf_ty struct_prev_cputime" "unpacked struct_prev_cputime"
  by (simp_all add: struct_prev_cputime_def layout_simps layout_eval)

definition struct_seqcount :: ctype where
  "struct_seqcount = CStruct [
    Fld ''sequence'' c_uint]"

lemma lay_struct_seqcount [layout_simps]:
  "sizeof struct_seqcount = 4" "alignof struct_seqcount = 4" "wf_ty struct_seqcount" "unpacked struct_seqcount"
  by (simp_all add: struct_seqcount_def layout_simps layout_eval)

definition typedef_seqcount_t :: ctype where
  [layout_simps]: "typedef_seqcount_t = struct_seqcount"

definition enum_vtime_state :: ctype where
  "enum_vtime_state = CEnum 4 [
    (''VTIME_INACTIVE'', 0),
    (''VTIME_IDLE'', 1),
    (''VTIME_SYS'', 2),
    (''VTIME_USER'', 3),
    (''VTIME_GUEST'', 4)]"

lemma lay_enum_vtime_state [layout_simps]:
  "sizeof enum_vtime_state = 4" "alignof enum_vtime_state = 4" "wf_ty enum_vtime_state" "unpacked enum_vtime_state"
  by (simp_all add: enum_vtime_state_def layout_simps layout_eval)

definition struct_vtime :: ctype where
  "struct_vtime = CStruct [
    Fld ''seqcount'' typedef_seqcount_t,
    Fld ''starttime'' c_ullong,
    Fld ''state'' enum_vtime_state,
    Fld ''cpu'' c_uint,
    Fld ''utime'' typedef_u64,
    Fld ''stime'' typedef_u64,
    Fld ''gtime'' typedef_u64]"

lemma lay_struct_vtime [layout_simps]:
  "sizeof struct_vtime = 48" "alignof struct_vtime = 8" "wf_ty struct_vtime" "unpacked struct_vtime"
  by (simp_all add: struct_vtime_def layout_simps layout_eval)

definition struct_rb_root :: ctype where
  "struct_rb_root = CStruct [
    Fld ''rb_node'' CPtr]"

lemma lay_struct_rb_root [layout_simps]:
  "sizeof struct_rb_root = 8" "alignof struct_rb_root = 8" "wf_ty struct_rb_root" "unpacked struct_rb_root"
  by (simp_all add: struct_rb_root_def layout_simps layout_eval)

definition struct_rb_root_cached :: ctype where
  "struct_rb_root_cached = CStruct [
    Fld ''rb_root'' struct_rb_root,
    Fld ''rb_leftmost'' CPtr]"

lemma lay_struct_rb_root_cached [layout_simps]:
  "sizeof struct_rb_root_cached = 16" "alignof struct_rb_root_cached = 8" "wf_ty struct_rb_root_cached" "unpacked struct_rb_root_cached"
  by (simp_all add: struct_rb_root_cached_def layout_simps layout_eval)

definition struct_timerqueue_head :: ctype where
  "struct_timerqueue_head = CStruct [
    Fld ''rb_root'' struct_rb_root_cached]"

lemma lay_struct_timerqueue_head [layout_simps]:
  "sizeof struct_timerqueue_head = 16" "alignof struct_timerqueue_head = 8" "wf_ty struct_timerqueue_head" "unpacked struct_timerqueue_head"
  by (simp_all add: struct_timerqueue_head_def layout_simps layout_eval)

definition struct_posix_cputimer_base :: ctype where
  "struct_posix_cputimer_base = CStruct [
    Fld ''nextevt'' typedef_u64,
    Fld ''tqhead'' struct_timerqueue_head]"

lemma lay_struct_posix_cputimer_base [layout_simps]:
  "sizeof struct_posix_cputimer_base = 24" "alignof struct_posix_cputimer_base = 8" "wf_ty struct_posix_cputimer_base" "unpacked struct_posix_cputimer_base"
  by (simp_all add: struct_posix_cputimer_base_def layout_simps layout_eval)

definition struct_posix_cputimers :: ctype where
  "struct_posix_cputimers = CStruct [
    Fld ''bases'' (CArr 3 struct_posix_cputimer_base),
    Fld ''timers_active'' c_uint,
    Fld ''expiry_active'' c_uint]"

lemma lay_struct_posix_cputimers [layout_simps]:
  "sizeof struct_posix_cputimers = 80" "alignof struct_posix_cputimers = 8" "wf_ty struct_posix_cputimers" "unpacked struct_posix_cputimers"
  by (simp_all add: struct_posix_cputimers_def layout_simps layout_eval)

definition struct_callback_head :: ctype where
  "struct_callback_head = CStruct [
    Fld ''next'' CPtr,
    Fld ''func'' CPtr]"

lemma lay_struct_callback_head [layout_simps]:
  "sizeof struct_callback_head = 16" "alignof struct_callback_head = 8" "wf_ty struct_callback_head" "unpacked struct_callback_head"
  by (simp_all add: struct_callback_head_def layout_simps layout_eval)

definition struct_optimistic_spin_queue :: ctype where
  "struct_optimistic_spin_queue = CStruct [
    Fld ''tail'' typedef_atomic_t]"

lemma lay_struct_optimistic_spin_queue [layout_simps]:
  "sizeof struct_optimistic_spin_queue = 4" "alignof struct_optimistic_spin_queue = 4" "wf_ty struct_optimistic_spin_queue" "unpacked struct_optimistic_spin_queue"
  by (simp_all add: struct_optimistic_spin_queue_def layout_simps layout_eval)

definition struct_mutex :: ctype where
  "struct_mutex = CStruct [
    Fld ''owner'' typedef_atomic_long_t,
    Fld ''wait_lock'' typedef_raw_spinlock_t,
    Fld ''osq'' struct_optimistic_spin_queue,
    Fld ''wait_list'' struct_list_head]"

lemma lay_struct_mutex [layout_simps]:
  "sizeof struct_mutex = 32" "alignof struct_mutex = 8" "wf_ty struct_mutex" "unpacked struct_mutex"
  by (simp_all add: struct_mutex_def layout_simps layout_eval)

definition struct_posix_cputimers_work :: ctype where
  "struct_posix_cputimers_work = CStruct [
    Fld ''work'' struct_callback_head,
    Fld ''mutex'' struct_mutex,
    Fld ''scheduled'' c_uint]"

lemma lay_struct_posix_cputimers_work [layout_simps]:
  "sizeof struct_posix_cputimers_work = 56" "alignof struct_posix_cputimers_work = 8" "wf_ty struct_posix_cputimers_work" "unpacked struct_posix_cputimers_work"
  by (simp_all add: struct_posix_cputimers_work_def layout_simps layout_eval)

definition struct_sysv_sem :: ctype where
  "struct_sysv_sem = CStruct [
    Fld ''undo_list'' CPtr]"

lemma lay_struct_sysv_sem [layout_simps]:
  "sizeof struct_sysv_sem = 8" "alignof struct_sysv_sem = 8" "wf_ty struct_sysv_sem" "unpacked struct_sysv_sem"
  by (simp_all add: struct_sysv_sem_def layout_simps layout_eval)

definition struct_sysv_shm :: ctype where
  "struct_sysv_shm = CStruct [
    Fld ''shm_clist'' struct_list_head]"

lemma lay_struct_sysv_shm [layout_simps]:
  "sizeof struct_sysv_shm = 16" "alignof struct_sysv_shm = 8" "wf_ty struct_sysv_shm" "unpacked struct_sysv_shm"
  by (simp_all add: struct_sysv_shm_def layout_simps layout_eval)

definition typedef_sigset_t :: ctype where
  "typedef_sigset_t = CStruct [
    Fld ''sig'' (CArr 1 c_ulong)]"

lemma lay_typedef_sigset_t [layout_simps]:
  "sizeof typedef_sigset_t = 8" "alignof typedef_sigset_t = 8" "wf_ty typedef_sigset_t" "unpacked typedef_sigset_t"
  by (simp_all add: typedef_sigset_t_def layout_simps layout_eval)

definition struct_sigpending :: ctype where
  "struct_sigpending = CStruct [
    Fld ''list'' struct_list_head,
    Fld ''signal'' typedef_sigset_t]"

lemma lay_struct_sigpending [layout_simps]:
  "sizeof struct_sigpending = 24" "alignof struct_sigpending = 8" "wf_ty struct_sigpending" "unpacked struct_sigpending"
  by (simp_all add: struct_sigpending_def layout_simps layout_eval)

definition typedef___kernel_ulong_t :: ctype where
  [layout_simps]: "typedef___kernel_ulong_t = c_ulong"

definition typedef___kernel_size_t :: ctype where
  [layout_simps]: "typedef___kernel_size_t = typedef___kernel_ulong_t"

definition typedef_size_t :: ctype where
  [layout_simps]: "typedef_size_t = typedef___kernel_size_t"

definition typedef___kernel_uid32_t :: ctype where
  [layout_simps]: "typedef___kernel_uid32_t = c_uint"

definition typedef_uid_t :: ctype where
  [layout_simps]: "typedef_uid_t = typedef___kernel_uid32_t"

definition typedef_kuid_t :: ctype where
  "typedef_kuid_t = CStruct [
    Fld ''val'' typedef_uid_t]"

lemma lay_typedef_kuid_t [layout_simps]:
  "sizeof typedef_kuid_t = 4" "alignof typedef_kuid_t = 4" "wf_ty typedef_kuid_t" "unpacked typedef_kuid_t"
  by (simp_all add: typedef_kuid_t_def layout_simps layout_eval)

definition struct_seccomp :: ctype where
  "struct_seccomp = CStruct [
    Fld ''mode'' c_int,
    Fld ''filter_count'' typedef_atomic_t,
    Fld ''filter'' CPtr]"

lemma lay_struct_seccomp [layout_simps]:
  "sizeof struct_seccomp = 16" "alignof struct_seccomp = 8" "wf_ty struct_seccomp" "unpacked struct_seccomp"
  by (simp_all add: struct_seccomp_def layout_simps layout_eval)

definition struct_syscall_user_dispatch :: ctype where
  "struct_syscall_user_dispatch = CStruct [
    Fld ''selector'' CPtr,
    Fld ''offset'' c_ulong,
    Fld ''len'' c_ulong,
    Fld ''on_dispatch'' typedef_bool]"

lemma lay_struct_syscall_user_dispatch [layout_simps]:
  "sizeof struct_syscall_user_dispatch = 32" "alignof struct_syscall_user_dispatch = 8" "wf_ty struct_syscall_user_dispatch" "unpacked struct_syscall_user_dispatch"
  by (simp_all add: struct_syscall_user_dispatch_def layout_simps layout_eval)

definition struct_spinlock :: ctype where
  "struct_spinlock = CStruct [
    Fld [] (CUnion [
      Fld ''rlock'' struct_raw_spinlock])]"

lemma lay_struct_spinlock [layout_simps]:
  "sizeof struct_spinlock = 4" "alignof struct_spinlock = 4" "wf_ty struct_spinlock" "unpacked struct_spinlock"
  by (simp_all add: struct_spinlock_def layout_simps layout_eval)

definition typedef_spinlock_t :: ctype where
  [layout_simps]: "typedef_spinlock_t = struct_spinlock"

definition struct_wake_q_node :: ctype where
  "struct_wake_q_node = CStruct [
    Fld ''next'' CPtr]"

lemma lay_struct_wake_q_node [layout_simps]:
  "sizeof struct_wake_q_node = 8" "alignof struct_wake_q_node = 8" "wf_ty struct_wake_q_node" "unpacked struct_wake_q_node"
  by (simp_all add: struct_wake_q_node_def layout_simps layout_eval)

definition struct_task_io_accounting :: ctype where
  "struct_task_io_accounting = CStruct [
    Fld ''rchar'' typedef_u64,
    Fld ''wchar'' typedef_u64,
    Fld ''syscr'' typedef_u64,
    Fld ''syscw'' typedef_u64,
    Fld ''read_bytes'' typedef_u64,
    Fld ''write_bytes'' typedef_u64,
    Fld ''cancelled_write_bytes'' typedef_u64]"

lemma lay_struct_task_io_accounting [layout_simps]:
  "sizeof struct_task_io_accounting = 56" "alignof struct_task_io_accounting = 8" "wf_ty struct_task_io_accounting" "unpacked struct_task_io_accounting"
  by (simp_all add: struct_task_io_accounting_def layout_simps layout_eval)

definition typedef_nodemask_t :: ctype where
  "typedef_nodemask_t = CStruct [
    Fld ''bits'' (CArr 16 c_ulong)]"

lemma lay_typedef_nodemask_t [layout_simps]:
  "sizeof typedef_nodemask_t = 128" "alignof typedef_nodemask_t = 8" "wf_ty typedef_nodemask_t" "unpacked typedef_nodemask_t"
  by (simp_all add: typedef_nodemask_t_def layout_simps layout_eval)

definition struct_seqcount_spinlock :: ctype where
  "struct_seqcount_spinlock = CStruct [
    Fld ''seqcount'' typedef_seqcount_t]"

lemma lay_struct_seqcount_spinlock [layout_simps]:
  "sizeof struct_seqcount_spinlock = 4" "alignof struct_seqcount_spinlock = 4" "wf_ty struct_seqcount_spinlock" "unpacked struct_seqcount_spinlock"
  by (simp_all add: struct_seqcount_spinlock_def layout_simps layout_eval)

definition typedef_seqcount_spinlock_t :: ctype where
  [layout_simps]: "typedef_seqcount_spinlock_t = struct_seqcount_spinlock"

definition struct_arch_tlbflush_unmap_batch :: ctype where
  "struct_arch_tlbflush_unmap_batch = CStruct [
    Fld ''cpumask'' struct_cpumask,
    Fld ''unmapped_pages'' typedef_bool]"

lemma lay_struct_arch_tlbflush_unmap_batch [layout_simps]:
  "sizeof struct_arch_tlbflush_unmap_batch = 1032" "alignof struct_arch_tlbflush_unmap_batch = 8" "wf_ty struct_arch_tlbflush_unmap_batch" "unpacked struct_arch_tlbflush_unmap_batch"
  by (simp_all add: struct_arch_tlbflush_unmap_batch_def layout_simps layout_eval)

definition struct_tlbflush_unmap_batch :: ctype where
  "struct_tlbflush_unmap_batch = CStruct [
    Fld ''arch'' struct_arch_tlbflush_unmap_batch,
    Fld ''flush_required'' typedef_bool,
    Fld ''writable'' typedef_bool]"

lemma lay_struct_tlbflush_unmap_batch [layout_simps]:
  "sizeof struct_tlbflush_unmap_batch = 1040" "alignof struct_tlbflush_unmap_batch = 8" "wf_ty struct_tlbflush_unmap_batch" "unpacked struct_tlbflush_unmap_batch"
  by (simp_all add: struct_tlbflush_unmap_batch_def layout_simps layout_eval)

definition struct_page_frag :: ctype where
  "struct_page_frag = CStruct [
    Fld ''page'' CPtr,
    Fld ''offset'' typedef___u32,
    Fld ''size'' typedef___u32]"

lemma lay_struct_page_frag [layout_simps]:
  "sizeof struct_page_frag = 16" "alignof struct_page_frag = 8" "wf_ty struct_page_frag" "unpacked struct_page_frag"
  by (simp_all add: struct_page_frag_def layout_simps layout_eval)

definition struct_latency_record :: ctype where
  "struct_latency_record = CStruct [
    Fld ''backtrace'' (CArr 12 c_ulong),
    Fld ''count'' c_uint,
    Fld ''time'' c_ulong,
    Fld ''max'' c_ulong]"

lemma lay_struct_latency_record [layout_simps]:
  "sizeof struct_latency_record = 120" "alignof struct_latency_record = 8" "wf_ty struct_latency_record" "unpacked struct_latency_record"
  by (simp_all add: struct_latency_record_def layout_simps layout_eval)

definition struct_kmap_ctrl :: ctype where
  "struct_kmap_ctrl = CStruct []"

lemma lay_struct_kmap_ctrl [layout_simps]:
  "sizeof struct_kmap_ctrl = 0" "alignof struct_kmap_ctrl = 1" "wf_ty struct_kmap_ctrl" "unpacked struct_kmap_ctrl"
  by (simp_all add: struct_kmap_ctrl_def layout_simps layout_eval)

definition struct_timer_list :: ctype where
  "struct_timer_list = CStruct [
    Fld ''entry'' struct_hlist_node,
    Fld ''expires'' c_ulong,
    Fld ''function'' CPtr,
    Fld ''flags'' typedef_u32]"

lemma lay_struct_timer_list [layout_simps]:
  "sizeof struct_timer_list = 40" "alignof struct_timer_list = 8" "wf_ty struct_timer_list" "unpacked struct_timer_list"
  by (simp_all add: struct_timer_list_def layout_simps layout_eval)

definition struct_llist_head :: ctype where
  "struct_llist_head = CStruct [
    Fld ''first'' CPtr]"

lemma lay_struct_llist_head [layout_simps]:
  "sizeof struct_llist_head = 8" "alignof struct_llist_head = 8" "wf_ty struct_llist_head" "unpacked struct_llist_head"
  by (simp_all add: struct_llist_head_def layout_simps layout_eval)

definition struct_da_monitor :: ctype where
  "struct_da_monitor = CStruct [
    Fld ''monitoring'' typedef_bool,
    Fld ''curr_state'' c_uint]"

lemma lay_struct_da_monitor [layout_simps]:
  "sizeof struct_da_monitor = 8" "alignof struct_da_monitor = 4" "wf_ty struct_da_monitor" "unpacked struct_da_monitor"
  by (simp_all add: struct_da_monitor_def layout_simps layout_eval)

definition struct_ltl_monitor :: ctype where
  "struct_ltl_monitor = CStruct []"

lemma lay_struct_ltl_monitor [layout_simps]:
  "sizeof struct_ltl_monitor = 0" "alignof struct_ltl_monitor = 1" "wf_ty struct_ltl_monitor" "unpacked struct_ltl_monitor"
  by (simp_all add: struct_ltl_monitor_def layout_simps layout_eval)

definition union_rv_task_monitor :: ctype where
  "union_rv_task_monitor = CUnion [
    Fld ''da_mon'' struct_da_monitor,
    Fld ''ltl_mon'' struct_ltl_monitor]"

lemma lay_union_rv_task_monitor [layout_simps]:
  "sizeof union_rv_task_monitor = 8" "alignof union_rv_task_monitor = 4" "wf_ty union_rv_task_monitor" "unpacked union_rv_task_monitor"
  by (simp_all add: union_rv_task_monitor_def layout_simps layout_eval)

definition struct_desc_struct :: ctype where
  "struct_desc_struct = CStruct [
    Fld ''limit0'' typedef_u16,
    Fld ''base0'' typedef_u16,
    Bits ''base1'' typedef_u16 8,
    Bits ''type'' typedef_u16 4,
    Bits ''s'' typedef_u16 1,
    Bits ''dpl'' typedef_u16 2,
    Bits ''p'' typedef_u16 1,
    Bits ''limit1'' typedef_u16 4,
    Bits ''avl'' typedef_u16 1,
    Bits ''l'' typedef_u16 1,
    Bits ''d'' typedef_u16 1,
    Bits ''g'' typedef_u16 1,
    Bits ''base2'' typedef_u16 8]"

lemma lay_struct_desc_struct [layout_simps]:
  "sizeof struct_desc_struct = 8" "alignof struct_desc_struct = 2" "wf_ty struct_desc_struct" "unpacked struct_desc_struct"
  by (simp_all add: struct_desc_struct_def layout_simps layout_eval)

definition struct_thread_shstk :: ctype where
  "struct_thread_shstk = CStruct [
    Fld ''base'' typedef_u64,
    Fld ''size'' typedef_u64]"

lemma lay_struct_thread_shstk [layout_simps]:
  "sizeof struct_thread_shstk = 16" "alignof struct_thread_shstk = 8" "wf_ty struct_thread_shstk" "unpacked struct_thread_shstk"
  by (simp_all add: struct_thread_shstk_def layout_simps layout_eval)

definition struct_thread_struct :: ctype where
  "struct_thread_struct = CStruct [
    Fld ''tls_array'' (CArr 3 struct_desc_struct),
    Fld ''sp'' c_ulong,
    Fld ''es'' c_ushort,
    Fld ''ds'' c_ushort,
    Fld ''fsindex'' c_ushort,
    Fld ''gsindex'' c_ushort,
    Fld ''fsbase'' c_ulong,
    Fld ''gsbase'' c_ulong,
    Fld ''ptrace_bps'' (CArr 4 CPtr),
    Fld ''virtual_dr6'' c_ulong,
    Fld ''ptrace_dr7'' c_ulong,
    Fld ''cr2'' c_ulong,
    Fld ''trap_nr'' c_ulong,
    Fld ''error_code'' c_ulong,
    Fld ''io_bitmap'' CPtr,
    Fld ''iopl_emul'' c_ulong,
    Bits ''iopl_warn'' c_uint 1,
    Fld ''pkru'' typedef_u32,
    Fld ''features'' c_ulong,
    Fld ''features_locked'' c_ulong,
    Fld ''shstk'' struct_thread_shstk]"

lemma lay_struct_thread_struct [layout_simps]:
  "sizeof struct_thread_struct = 184" "alignof struct_thread_struct = 8" "wf_ty struct_thread_struct" "unpacked struct_thread_struct"
  by (simp_all add: struct_thread_struct_def layout_simps layout_eval)

definition struct_task_struct_members1 :: "member list" where
  "struct_task_struct_members1 = [
    Fld ''thread_info'' struct_thread_info,
    Fld ''__state'' c_uint,
    Fld ''saved_state'' c_uint,
    Fld ''stack'' CPtr,
    Fld ''usage'' typedef_refcount_t,
    Fld ''flags'' c_uint,
    Fld ''ptrace'' c_uint,
    Fld ''on_cpu'' c_int,
    Fld ''wake_entry'' struct___call_single_node,
    Fld ''wakee_flips'' c_uint,
    Fld ''wakee_flip_decay_ts'' c_ulong,
    Fld ''last_wakee'' CPtr,
    Fld ''recent_used_cpu'' c_int,
    Fld ''wake_cpu'' c_int,
    Fld ''on_rq'' c_int,
    Fld ''prio'' c_int,
    Fld ''static_prio'' c_int,
    Fld ''normal_prio'' c_int,
    Fld ''rt_priority'' c_uint,
    Fld ''se'' struct_sched_entity,
    Fld ''rt'' struct_sched_rt_entity,
    Fld ''dl'' struct_sched_dl_entity,
    Fld ''dl_server'' CPtr,
    Fld ''scx'' struct_sched_ext_entity,
    Fld ''sched_class'' CPtr,
    Fld ''core_node'' struct_rb_node,
    Fld ''core_cookie'' c_ulong,
    Fld ''core_occupation'' c_uint,
    Fld ''sched_task_group'' CPtr,
    Fld ''uclamp_req'' (CArr 2 struct_uclamp_se),
    Fld ''uclamp'' (CArr 2 struct_uclamp_se),
    Fld ''stats'' struct_sched_statistics,
    Fld ''preempt_notifiers'' struct_hlist_head,
    Fld ''btrace_seq'' c_uint,
    Fld ''policy'' c_uint,
    Fld ''max_allowed_capacity'' c_ulong,
    Fld ''nr_cpus_allowed'' c_int,
    Fld ''cpus_ptr'' CPtr,
    Fld ''user_cpus_ptr'' CPtr,
    Fld ''cpus_mask'' typedef_cpumask_t,
    Fld ''migration_pending'' CPtr,
    Fld ''migration_disabled'' c_ushort,
    Fld ''migration_flags'' c_ushort,
    Fld ''rcu_read_lock_nesting'' c_int,
    Fld ''rcu_read_unlock_special'' union_rcu_special,
    Fld ''rcu_node_entry'' struct_list_head,
    Fld ''rcu_blocked_node'' CPtr,
    Fld ''rcu_tasks_nvcsw'' c_ulong,
    Fld ''rcu_tasks_holdout'' typedef_u8,
    Fld ''rcu_tasks_idx'' typedef_u8,
    Fld ''rcu_tasks_idle_cpu'' c_int,
    Fld ''rcu_tasks_holdout_list'' struct_list_head,
    Fld ''rcu_tasks_exit_cpu'' c_int,
    Fld ''rcu_tasks_exit_list'' struct_list_head,
    Fld ''trc_reader_nesting'' c_int,
    Fld ''trc_ipi_to_cpu'' c_int,
    Fld ''trc_reader_special'' union_rcu_special,
    Fld ''trc_holdout_list'' struct_list_head,
    Fld ''trc_blkd_node'' struct_list_head,
    Fld ''trc_blkd_cpu'' c_int,
    Fld ''sched_info'' struct_sched_info,
    Fld ''tasks'' struct_list_head,
    Fld ''pushable_tasks'' struct_plist_node,
    Fld ''pushable_dl_tasks'' struct_rb_node,
    Fld ''mm'' CPtr,
    Fld ''active_mm'' CPtr,
    Fld ''faults_disabled_mapping'' CPtr,
    Fld ''exit_state'' c_int,
    Fld ''exit_code'' c_int,
    Fld ''exit_signal'' c_int,
    Fld ''pdeath_signal'' c_int,
    Fld ''jobctl'' c_ulong,
    Fld ''personality'' c_uint,
    Bits ''sched_reset_on_fork'' c_uint 1,
    Bits ''sched_contributes_to_load'' c_uint 1,
    Bits ''sched_migrated'' c_uint 1,
    Bits ''sched_task_hot'' c_uint 1,
    Bits [] c_long 28,
    Bits ''sched_remote_wakeup'' c_uint 1,
    Bits ''sched_rt_mutex'' c_uint 1,
    Bits ''user_dumpable'' c_uint 1,
    Bits ''in_execve'' c_uint 1,
    Bits ''in_iowait'' c_uint 1,
    Bits ''restore_sigmask'' c_uint 1,
    Bits ''in_user_fault'' c_uint 1,
    Bits ''in_lru_fault'' c_uint 1,
    Bits ''no_cgroup_migration'' c_uint 1,
    Bits ''frozen'' c_uint 1,
    Bits ''use_memdelay'' c_uint 1,
    Bits ''in_memstall'' c_uint 1,
    Bits ''in_eventfd'' c_uint 1,
    Bits ''pasid_activated'' c_uint 1,
    Bits ''reported_split_lock'' c_uint 1,
    Bits ''in_thrashing'' c_uint 1,
    Bits ''in_nf_duplicate'' c_uint 1,
    Fld ''atomic_flags'' c_ulong,
    Fld ''restart_block'' struct_restart_block,
    Fld ''pid'' typedef_pid_t,
    Fld ''tgid'' typedef_pid_t,
    Fld ''stack_canary'' c_ulong,
    Fld ''real_parent'' CPtr,
    Fld ''parent'' CPtr,
    Fld ''children'' struct_list_head,
    Fld ''sibling'' struct_list_head,
    Fld ''group_leader'' CPtr,
    Fld ''ptraced'' struct_list_head,
    Fld ''ptrace_entry'' struct_list_head,
    Fld ''thread_pid'' CPtr,
    Fld ''pid_links'' (CArr 4 struct_hlist_node),
    Fld ''thread_node'' struct_list_head,
    Fld ''vfork_done'' CPtr,
    Fld ''set_child_tid'' CPtr,
    Fld ''clear_child_tid'' CPtr,
    Fld ''worker_private'' CPtr,
    Fld ''utime'' typedef_u64,
    Fld ''stime'' typedef_u64,
    Fld ''gtime'' typedef_u64,
    Fld ''prev_cputime'' struct_prev_cputime,
    Fld ''vtime'' struct_vtime,
    Fld ''tick_dep_mask'' typedef_atomic_t,
    Fld ''nvcsw'' c_ulong,
    Fld ''nivcsw'' c_ulong,
    Fld ''start_time'' typedef_u64,
    Fld ''start_boottime'' typedef_u64,
    Fld ''min_flt'' c_ulong,
    Fld ''maj_flt'' c_ulong,
    Fld ''posix_cputimers'' struct_posix_cputimers,
    Fld ''posix_cputimers_work'' struct_posix_cputimers_work,
    Fld ''ptracer_cred'' CPtr,
    Fld ''real_cred'' CPtr,
    Fld ''cred'' CPtr,
    Fld ''cached_requested_key'' CPtr,
    Fld ''comm'' (CArr 16 c_char),
    Fld ''nameidata'' CPtr,
    Fld ''sysvsem'' struct_sysv_sem,
    Fld ''sysvshm'' struct_sysv_shm,
    Fld ''last_switch_count'' c_ulong,
    Fld ''last_switch_time'' c_ulong,
    Fld ''fs'' CPtr,
    Fld ''files'' CPtr,
    Fld ''io_uring'' CPtr,
    Fld ''nsproxy'' CPtr]"

definition struct_task_struct_members2 :: "member list" where
  "struct_task_struct_members2 = [
    Fld ''signal'' CPtr,
    Fld ''sighand'' CPtr,
    Fld ''blocked'' typedef_sigset_t,
    Fld ''real_blocked'' typedef_sigset_t,
    Fld ''saved_sigmask'' typedef_sigset_t,
    Fld ''pending'' struct_sigpending,
    Fld ''sas_ss_sp'' c_ulong,
    Fld ''sas_ss_size'' typedef_size_t,
    Fld ''sas_ss_flags'' c_uint,
    Fld ''task_works'' CPtr,
    Fld ''audit_context'' CPtr,
    Fld ''loginuid'' typedef_kuid_t,
    Fld ''sessionid'' c_uint,
    Fld ''seccomp'' struct_seccomp,
    Fld ''syscall_dispatch'' struct_syscall_user_dispatch,
    Fld ''parent_exec_id'' typedef_u64,
    Fld ''self_exec_id'' typedef_u64,
    Fld ''alloc_lock'' typedef_spinlock_t,
    Fld ''pi_lock'' typedef_raw_spinlock_t,
    Fld ''wake_q'' struct_wake_q_node,
    Fld ''pi_waiters'' struct_rb_root_cached,
    Fld ''pi_top_task'' CPtr,
    Fld ''pi_blocked_on'' CPtr,
    Fld ''blocked_on'' CPtr,
    Fld ''blocker'' c_ulong,
    Fld ''in_ubsan'' c_uint,
    Fld ''journal_info'' CPtr,
    Fld ''bio_list'' CPtr,
    Fld ''plug'' CPtr,
    Fld ''reclaim_state'' CPtr,
    Fld ''io_context'' CPtr,
    Fld ''capture_control'' CPtr,
    Fld ''ptrace_message'' c_ulong,
    Fld ''last_siginfo'' CPtr,
    Fld ''ioac'' struct_task_io_accounting,
    Fld ''psi_flags'' c_uint,
    Fld ''acct_rss_mem1'' typedef_u64,
    Fld ''acct_vm_mem1'' typedef_u64,
    Fld ''acct_timexpd'' typedef_u64,
    Fld ''mems_allowed'' typedef_nodemask_t,
    Fld ''mems_allowed_seq'' typedef_seqcount_spinlock_t,
    Fld ''cpuset_mem_spread_rotor'' c_int,
    Fld ''cgroups'' CPtr,
    Fld ''cg_list'' struct_list_head,
    Fld ''closid'' typedef_u32,
    Fld ''rmid'' typedef_u32,
    Fld ''robust_list'' CPtr,
    Fld ''compat_robust_list'' CPtr,
    Fld ''pi_state_list'' struct_list_head,
    Fld ''pi_state_cache'' CPtr,
    Fld ''futex_exit_mutex'' struct_mutex,
    Fld ''futex_state'' c_uint,
    Fld ''perf_recursion'' (CArr 4 typedef_u8),
    Fld ''perf_event_ctxp'' CPtr,
    Fld ''perf_event_mutex'' struct_mutex,
    Fld ''perf_event_list'' struct_list_head,
    Fld ''perf_ctx_data'' CPtr,
    Fld ''mempolicy'' CPtr,
    Fld ''il_prev'' c_short,
    Fld ''il_weight'' typedef_u8,
    Fld ''pref_node_fork'' c_short,
    Fld ''numa_scan_seq'' c_int,
    Fld ''numa_scan_period'' c_uint,
    Fld ''numa_scan_period_max'' c_uint,
    Fld ''numa_preferred_nid'' c_int,
    Fld ''numa_migrate_retry'' c_ulong,
    Fld ''node_stamp'' typedef_u64,
    Fld ''last_task_numa_placement'' typedef_u64,
    Fld ''last_sum_exec_runtime'' typedef_u64,
    Fld ''numa_work'' struct_callback_head,
    Fld ''numa_group'' CPtr,
    Fld ''numa_faults'' CPtr,
    Fld ''total_numa_faults'' c_ulong,
    Fld ''numa_faults_locality'' (CArr 3 c_ulong),
    Fld ''numa_pages_migrated'' c_ulong,
    Fld ''rseq'' CPtr,
    Fld ''rseq_len'' typedef_u32,
    Fld ''rseq_sig'' typedef_u32,
    Fld ''rseq_event_mask'' c_ulong,
    Fld ''mm_cid'' c_int,
    Fld ''last_mm_cid'' c_int,
    Fld ''migrate_from_cpu'' c_int,
    Fld ''mm_cid_active'' c_int,
    Fld ''cid_work'' struct_callback_head,
    Fld ''tlb_ubc'' struct_tlbflush_unmap_batch,
    Fld ''splice_pipe'' CPtr,
    Fld ''task_frag'' struct_page_frag,
    Fld ''delays'' CPtr,
    Fld ''nr_dirtied'' c_int,
    Fld ''nr_dirtied_pause'' c_int,
    Fld ''dirty_paused_when'' c_ulong,
    Fld ''latency_record_count'' c_int,
    Fld ''latency_record'' (CArr 32 struct_latency_record),
    Fld ''timer_slack_ns'' typedef_u64,
    Fld ''default_timer_slack_ns'' typedef_u64,
    Fld ''curr_ret_stack'' c_int,
    Fld ''curr_ret_depth'' c_int,
    Fld ''ret_stack'' CPtr,
    Fld ''ftrace_timestamp'' c_ullong,
    Fld ''ftrace_sleeptime'' c_ullong,
    Fld ''trace_overrun'' typedef_atomic_t,
    Fld ''tracing_graph_pause'' typedef_atomic_t,
    Fld ''trace_recursion'' c_ulong,
    Fld ''memcg_in_oom'' CPtr,
    Fld ''memcg_nr_pages_over_high'' c_uint,
    Fld ''active_memcg'' CPtr,
    Fld ''objcg'' CPtr,
    Fld ''throttle_disk'' CPtr,
    Fld ''utask'' CPtr,
    Fld ''sequential_io'' c_uint,
    Fld ''sequential_io_avg'' c_uint,
    Fld ''kmap_ctrl'' struct_kmap_ctrl,
    Fld ''rcu'' struct_callback_head,
    Fld ''rcu_users'' typedef_refcount_t,
    Fld ''pagefault_disabled'' c_int,
    Fld ''oom_reaper_list'' CPtr,
    Fld ''oom_reaper_timer'' struct_timer_list,
    Fld ''stack_vm_area'' CPtr,
    Fld ''stack_refcount'' typedef_refcount_t,
    Fld ''patch_state'' c_int,
    Fld ''security'' CPtr,
    Fld ''bpf_storage'' CPtr,
    Fld ''bpf_ctx'' CPtr,
    Fld ''bpf_net_context'' CPtr,
    Fld ''mce_vaddr'' CPtr,
    Fld ''mce_kflags'' typedef___u64,
    Fld ''mce_addr'' typedef_u64,
    Bits ''mce_ripv'' typedef___u64 1,
    Bits ''mce_whole_page'' typedef___u64 1,
    Bits ''__mce_reserved'' typedef___u64 62,
    Fld ''mce_kill_me'' struct_callback_head,
    Fld ''mce_count'' c_int,
    Fld ''kretprobe_instances'' struct_llist_head,
    Fld ''rethooks'' struct_llist_head,
    Fld ''l1d_flush_kill'' struct_callback_head,
    Fld ''rv'' (CArr 2 union_rv_task_monitor),
    Fld ''user_event_mm'' CPtr,
    Fld ''thread'' struct_thread_struct,
    Bits [] c_long 64]"

definition struct_task_struct :: ctype where
  "struct_task_struct = CStruct (struct_task_struct_members1 @ struct_task_struct_members2)"

lemma lay_struct_task_struct [layout_simps]:
  "sizeof struct_task_struct = 9728" "alignof struct_task_struct = 8" "wf_ty struct_task_struct" "unpacked struct_task_struct"
  by (simp_all add: struct_task_struct_def struct_task_struct_members1_def struct_task_struct_members2_def layout_simps layout_eval)

end
