(* ===== verification/Vmlinux_Fs.thy ===== *)
theory Vmlinux_Fs
  imports Vmlinux_Task
begin

text \<open>
  The file, inode and path structures that \<open>kprobe_vfs_open\<close> walks, with every type they contain by value, and the dentry, super block and operation tables they refer to.
  Each definition transcribes one declaration of \<open>src-bpf/vmlinux.h\<close>; the lemma after it
  evaluates its size and alignment and checks that it is well-formed.
\<close>

definition struct_path :: ctype where
  "struct_path = CStruct [
    Fld ''mnt'' CPtr,
    Fld ''dentry'' CPtr]"

lemma lay_struct_path [layout_simps]:
  "sizeof struct_path = 16" "alignof struct_path = 8" "wf_ty struct_path" "unpacked struct_path"
  by (simp_all add: struct_path_def layout_simps layout_eval)

definition typedef_fmode_t :: ctype where
  [layout_simps]: "typedef_fmode_t = c_uint"

definition typedef___kernel_loff_t :: ctype where
  [layout_simps]: "typedef___kernel_loff_t = c_llong"

definition typedef_loff_t :: ctype where
  [layout_simps]: "typedef_loff_t = typedef___kernel_loff_t"

definition typedef_errseq_t :: ctype where
  [layout_simps]: "typedef_errseq_t = typedef_u32"

definition struct_file_ra_state :: ctype where
  "struct_file_ra_state = CStruct [
    Fld ''start'' c_ulong,
    Fld ''size'' c_uint,
    Fld ''async_size'' c_uint,
    Fld ''ra_pages'' c_uint,
    Fld ''order'' c_ushort,
    Fld ''mmap_miss'' c_ushort,
    Fld ''prev_pos'' typedef_loff_t]"

lemma lay_struct_file_ra_state [layout_simps]:
  "sizeof struct_file_ra_state = 32" "alignof struct_file_ra_state = 8" "wf_ty struct_file_ra_state" "unpacked struct_file_ra_state"
  by (simp_all add: struct_file_ra_state_def layout_simps layout_eval)

definition typedef_freeptr_t :: ctype where
  "typedef_freeptr_t = CStruct [
    Fld ''v'' c_ulong]"

lemma lay_typedef_freeptr_t [layout_simps]:
  "sizeof typedef_freeptr_t = 8" "alignof typedef_freeptr_t = 8" "wf_ty typedef_freeptr_t" "unpacked typedef_freeptr_t"
  by (simp_all add: typedef_freeptr_t_def layout_simps layout_eval)

definition typedef_file_ref_t :: ctype where
  "typedef_file_ref_t = CStruct [
    Fld ''refcnt'' typedef_atomic64_t]"

lemma lay_typedef_file_ref_t [layout_simps]:
  "sizeof typedef_file_ref_t = 8" "alignof typedef_file_ref_t = 8" "wf_ty typedef_file_ref_t" "unpacked typedef_file_ref_t"
  by (simp_all add: typedef_file_ref_t_def layout_simps layout_eval)

definition struct_file :: ctype where
  "struct_file = CStruct [
    Fld ''f_lock'' typedef_spinlock_t,
    Fld ''f_mode'' typedef_fmode_t,
    Fld ''f_op'' CPtr,
    Fld ''f_mapping'' CPtr,
    Fld ''private_data'' CPtr,
    Fld ''f_inode'' CPtr,
    Fld ''f_flags'' c_uint,
    Fld ''f_iocb_flags'' c_uint,
    Fld ''f_cred'' CPtr,
    Fld ''f_owner'' CPtr,
    Fld ''f_path'' struct_path,
    Fld [] (CUnion [
      Fld ''f_pos_lock'' struct_mutex,
      Fld ''f_pipe'' typedef_u64]),
    Fld ''f_pos'' typedef_loff_t,
    Fld ''f_security'' CPtr,
    Fld ''f_wb_err'' typedef_errseq_t,
    Fld ''f_sb_err'' typedef_errseq_t,
    Fld ''f_ep'' CPtr,
    Fld [] (CUnion [
      Fld ''f_task_work'' struct_callback_head,
      Fld ''f_llist'' struct_llist_node,
      Fld ''f_ra'' struct_file_ra_state,
      Fld ''f_freeptr'' typedef_freeptr_t]),
    Fld ''f_ref'' typedef_file_ref_t]"

lemma lay_struct_file [layout_simps]:
  "sizeof struct_file = 184" "alignof struct_file = 8" "wf_ty struct_file" "unpacked struct_file"
  by (simp_all add: struct_file_def layout_simps layout_eval)

definition typedef_umode_t :: ctype where
  [layout_simps]: "typedef_umode_t = c_ushort"

definition typedef___kernel_gid32_t :: ctype where
  [layout_simps]: "typedef___kernel_gid32_t = c_uint"

definition typedef_gid_t :: ctype where
  [layout_simps]: "typedef_gid_t = typedef___kernel_gid32_t"

definition typedef_kgid_t :: ctype where
  "typedef_kgid_t = CStruct [
    Fld ''val'' typedef_gid_t]"

lemma lay_typedef_kgid_t [layout_simps]:
  "sizeof typedef_kgid_t = 4" "alignof typedef_kgid_t = 4" "wf_ty typedef_kgid_t" "unpacked typedef_kgid_t"
  by (simp_all add: typedef_kgid_t_def layout_simps layout_eval)

definition typedef___kernel_dev_t :: ctype where
  [layout_simps]: "typedef___kernel_dev_t = typedef_u32"

definition typedef_dev_t :: ctype where
  [layout_simps]: "typedef_dev_t = typedef___kernel_dev_t"

definition typedef_time64_t :: ctype where
  [layout_simps]: "typedef_time64_t = typedef___s64"

definition enum_rw_hint :: ctype where
  "enum_rw_hint = CEnum 1 [
    (''WRITE_LIFE_NOT_SET'', 0),
    (''WRITE_LIFE_NONE'', 1),
    (''WRITE_LIFE_SHORT'', 2),
    (''WRITE_LIFE_MEDIUM'', 3),
    (''WRITE_LIFE_LONG'', 4),
    (''WRITE_LIFE_EXTREME'', 5)]"

lemma lay_enum_rw_hint [layout_simps]:
  "sizeof enum_rw_hint = 1" "alignof enum_rw_hint = 1" "wf_ty enum_rw_hint" "unpacked enum_rw_hint"
  by (simp_all add: enum_rw_hint_def layout_simps layout_eval)

definition typedef_blkcnt_t :: ctype where
  [layout_simps]: "typedef_blkcnt_t = typedef_u64"

definition struct_rw_semaphore :: ctype where
  "struct_rw_semaphore = CStruct [
    Fld ''count'' typedef_atomic_long_t,
    Fld ''owner'' typedef_atomic_long_t,
    Fld ''osq'' struct_optimistic_spin_queue,
    Fld ''wait_lock'' typedef_raw_spinlock_t,
    Fld ''wait_list'' struct_list_head]"

lemma lay_struct_rw_semaphore [layout_simps]:
  "sizeof struct_rw_semaphore = 40" "alignof struct_rw_semaphore = 8" "wf_ty struct_rw_semaphore" "unpacked struct_rw_semaphore"
  by (simp_all add: struct_rw_semaphore_def layout_simps layout_eval)

definition typedef_gfp_t :: ctype where
  [layout_simps]: "typedef_gfp_t = c_uint"

definition struct_xarray :: ctype where
  "struct_xarray = CStruct [
    Fld ''xa_lock'' typedef_spinlock_t,
    Fld ''xa_flags'' typedef_gfp_t,
    Fld ''xa_head'' CPtr]"

lemma lay_struct_xarray [layout_simps]:
  "sizeof struct_xarray = 16" "alignof struct_xarray = 8" "wf_ty struct_xarray" "unpacked struct_xarray"
  by (simp_all add: struct_xarray_def layout_simps layout_eval)

definition struct_address_space :: ctype where
  "struct_address_space = CStruct [
    Fld ''host'' CPtr,
    Fld ''i_pages'' struct_xarray,
    Fld ''invalidate_lock'' struct_rw_semaphore,
    Fld ''gfp_mask'' typedef_gfp_t,
    Fld ''i_mmap_writable'' typedef_atomic_t,
    Fld ''i_mmap'' struct_rb_root_cached,
    Fld ''nrpages'' c_ulong,
    Fld ''writeback_index'' c_ulong,
    Fld ''a_ops'' CPtr,
    Fld ''flags'' c_ulong,
    Fld ''wb_err'' typedef_errseq_t,
    Fld ''i_private_lock'' typedef_spinlock_t,
    Fld ''i_private_list'' struct_list_head,
    Fld ''i_mmap_rwsem'' struct_rw_semaphore,
    Fld ''i_private_data'' CPtr]"

lemma lay_struct_address_space [layout_simps]:
  "sizeof struct_address_space = 192" "alignof struct_address_space = 8" "wf_ty struct_address_space" "unpacked struct_address_space"
  by (simp_all add: struct_address_space_def layout_simps layout_eval)

definition struct_inode :: ctype where
  "struct_inode = CStruct [
    Fld ''i_mode'' typedef_umode_t,
    Fld ''i_opflags'' c_ushort,
    Fld ''i_uid'' typedef_kuid_t,
    Fld ''i_gid'' typedef_kgid_t,
    Fld ''i_flags'' c_uint,
    Fld ''i_acl'' CPtr,
    Fld ''i_default_acl'' CPtr,
    Fld ''i_op'' CPtr,
    Fld ''i_sb'' CPtr,
    Fld ''i_mapping'' CPtr,
    Fld ''i_security'' CPtr,
    Fld ''i_ino'' c_ulong,
    Fld [] (CUnion [
      Fld ''i_nlink'' c_uint,
      Fld ''__i_nlink'' c_uint]),
    Fld ''i_rdev'' typedef_dev_t,
    Fld ''i_size'' typedef_loff_t,
    Fld ''i_atime_sec'' typedef_time64_t,
    Fld ''i_mtime_sec'' typedef_time64_t,
    Fld ''i_ctime_sec'' typedef_time64_t,
    Fld ''i_atime_nsec'' typedef_u32,
    Fld ''i_mtime_nsec'' typedef_u32,
    Fld ''i_ctime_nsec'' typedef_u32,
    Fld ''i_generation'' typedef_u32,
    Fld ''i_lock'' typedef_spinlock_t,
    Fld ''i_bytes'' c_ushort,
    Fld ''i_blkbits'' typedef_u8,
    Fld ''i_write_hint'' enum_rw_hint,
    Fld ''i_blocks'' typedef_blkcnt_t,
    Fld ''i_state'' typedef_u32,
    Fld ''i_rwsem'' struct_rw_semaphore,
    Fld ''dirtied_when'' c_ulong,
    Fld ''dirtied_time_when'' c_ulong,
    Fld ''i_hash'' struct_hlist_node,
    Fld ''i_io_list'' struct_list_head,
    Fld ''i_wb'' CPtr,
    Fld ''i_wb_frn_winner'' c_int,
    Fld ''i_wb_frn_avg_time'' typedef_u16,
    Fld ''i_wb_frn_history'' typedef_u16,
    Fld ''i_lru'' struct_list_head,
    Fld ''i_sb_list'' struct_list_head,
    Fld ''i_wb_list'' struct_list_head,
    Fld [] (CUnion [
      Fld ''i_dentry'' struct_hlist_head,
      Fld ''i_rcu'' struct_callback_head]),
    Fld ''i_version'' typedef_atomic64_t,
    Fld ''i_sequence'' typedef_atomic64_t,
    Fld ''i_count'' typedef_atomic_t,
    Fld ''i_dio_count'' typedef_atomic_t,
    Fld ''i_writecount'' typedef_atomic_t,
    Fld ''i_readcount'' typedef_atomic_t,
    Fld [] (CUnion [
      Fld ''i_fop'' CPtr,
      Fld ''free_inode'' CPtr]),
    Fld ''i_flctx'' CPtr,
    Fld ''i_data'' struct_address_space,
    Fld [] (CUnion [
      Fld ''i_devices'' struct_list_head,
      Fld ''i_linklen'' c_int]),
    Fld [] (CUnion [
      Fld ''i_pipe'' CPtr,
      Fld ''i_cdev'' CPtr,
      Fld ''i_link'' CPtr,
      Fld ''i_dir_seq'' c_uint]),
    Fld ''i_fsnotify_mask'' typedef___u32,
    Fld ''i_fsnotify_marks'' CPtr,
    Fld ''i_crypt_info'' CPtr,
    Fld ''i_verity_info'' CPtr,
    Fld ''i_private'' CPtr]"

lemma lay_struct_inode [layout_simps]:
  "sizeof struct_inode = 624" "alignof struct_inode = 8" "wf_ty struct_inode" "unpacked struct_inode"
  by (simp_all add: struct_inode_def layout_simps layout_eval)

definition struct_hlist_bl_node :: ctype where
  "struct_hlist_bl_node = CStruct [
    Fld ''next'' CPtr,
    Fld ''pprev'' CPtr]"

lemma lay_struct_hlist_bl_node [layout_simps]:
  "sizeof struct_hlist_bl_node = 16" "alignof struct_hlist_bl_node = 8" "wf_ty struct_hlist_bl_node" "unpacked struct_hlist_bl_node"
  by (simp_all add: struct_hlist_bl_node_def layout_simps layout_eval)

definition struct_qstr :: ctype where
  "struct_qstr = CStruct [
    Fld [] (CUnion [
      Fld [] (CStruct [
        Fld ''hash'' typedef_u32,
        Fld ''len'' typedef_u32]),
      Fld ''hash_len'' typedef_u64]),
    Fld ''name'' CPtr]"

lemma lay_struct_qstr [layout_simps]:
  "sizeof struct_qstr = 16" "alignof struct_qstr = 8" "wf_ty struct_qstr" "unpacked struct_qstr"
  by (simp_all add: struct_qstr_def layout_simps layout_eval)

definition union_shortname_store :: ctype where
  "union_shortname_store = CUnion [
    Fld ''string'' (CArr 40 c_uchar),
    Fld ''words'' (CArr 5 c_ulong)]"

lemma lay_union_shortname_store [layout_simps]:
  "sizeof union_shortname_store = 40" "alignof union_shortname_store = 8" "wf_ty union_shortname_store" "unpacked union_shortname_store"
  by (simp_all add: union_shortname_store_def layout_simps layout_eval)

definition struct_lockref :: ctype where
  "struct_lockref = CStruct [
    Fld [] (CUnion [
      Fld ''lock_count'' typedef___u64,
      Fld [] (CStruct [
        Fld ''lock'' typedef_spinlock_t,
        Fld ''count'' c_int])])]"

lemma lay_struct_lockref [layout_simps]:
  "sizeof struct_lockref = 8" "alignof struct_lockref = 8" "wf_ty struct_lockref" "unpacked struct_lockref"
  by (simp_all add: struct_lockref_def layout_simps layout_eval)

definition struct_dentry :: ctype where
  "struct_dentry = CStruct [
    Fld ''d_flags'' c_uint,
    Fld ''d_seq'' typedef_seqcount_spinlock_t,
    Fld ''d_hash'' struct_hlist_bl_node,
    Fld ''d_parent'' CPtr,
    Fld ''d_name'' struct_qstr,
    Fld ''d_inode'' CPtr,
    Fld ''d_shortname'' union_shortname_store,
    Fld ''d_op'' CPtr,
    Fld ''d_sb'' CPtr,
    Fld ''d_time'' c_ulong,
    Fld ''d_fsdata'' CPtr,
    Fld ''d_lockref'' struct_lockref,
    Fld [] (CUnion [
      Fld ''d_lru'' struct_list_head,
      Fld ''d_wait'' CPtr]),
    Fld ''d_sib'' struct_hlist_node,
    Fld ''d_children'' struct_hlist_head,
    Fld ''d_u'' (CUnion [
      Fld ''d_alias'' struct_hlist_node,
      Fld ''d_in_lookup_hash'' struct_hlist_bl_node,
      Fld ''d_rcu'' struct_callback_head])]"

lemma lay_struct_dentry [layout_simps]:
  "sizeof struct_dentry = 192" "alignof struct_dentry = 8" "wf_ty struct_dentry" "unpacked struct_dentry"
  by (simp_all add: struct_dentry_def layout_simps layout_eval)

definition struct_vfsmount :: ctype where
  "struct_vfsmount = CStruct [
    Fld ''mnt_root'' CPtr,
    Fld ''mnt_sb'' CPtr,
    Fld ''mnt_flags'' c_int,
    Fld ''mnt_idmap'' CPtr]"

lemma lay_struct_vfsmount [layout_simps]:
  "sizeof struct_vfsmount = 32" "alignof struct_vfsmount = 8" "wf_ty struct_vfsmount" "unpacked struct_vfsmount"
  by (simp_all add: struct_vfsmount_def layout_simps layout_eval)

definition struct_hlist_bl_head :: ctype where
  "struct_hlist_bl_head = CStruct [
    Fld ''first'' CPtr]"

lemma lay_struct_hlist_bl_head [layout_simps]:
  "sizeof struct_hlist_bl_head = 8" "alignof struct_hlist_bl_head = 8" "wf_ty struct_hlist_bl_head" "unpacked struct_hlist_bl_head"
  by (simp_all add: struct_hlist_bl_head_def layout_simps layout_eval)

definition typedef_qsize_t :: ctype where
  [layout_simps]: "typedef_qsize_t = c_llong"

definition struct_mem_dqinfo :: ctype where
  "struct_mem_dqinfo = CStruct [
    Fld ''dqi_format'' CPtr,
    Fld ''dqi_fmt_id'' c_int,
    Fld ''dqi_dirty_list'' struct_list_head,
    Fld ''dqi_flags'' c_ulong,
    Fld ''dqi_bgrace'' c_uint,
    Fld ''dqi_igrace'' c_uint,
    Fld ''dqi_max_spc_limit'' typedef_qsize_t,
    Fld ''dqi_max_ino_limit'' typedef_qsize_t,
    Fld ''dqi_priv'' CPtr]"

lemma lay_struct_mem_dqinfo [layout_simps]:
  "sizeof struct_mem_dqinfo = 72" "alignof struct_mem_dqinfo = 8" "wf_ty struct_mem_dqinfo" "unpacked struct_mem_dqinfo"
  by (simp_all add: struct_mem_dqinfo_def layout_simps layout_eval)

definition struct_quota_info :: ctype where
  "struct_quota_info = CStruct [
    Fld ''flags'' c_uint,
    Fld ''dqio_sem'' struct_rw_semaphore,
    Fld ''files'' (CArr 3 CPtr),
    Fld ''info'' (CArr 3 struct_mem_dqinfo),
    Fld ''ops'' (CArr 3 CPtr)]"

lemma lay_struct_quota_info [layout_simps]:
  "sizeof struct_quota_info = 312" "alignof struct_quota_info = 8" "wf_ty struct_quota_info" "unpacked struct_quota_info"
  by (simp_all add: struct_quota_info_def layout_simps layout_eval)

definition struct_wait_queue_head :: ctype where
  "struct_wait_queue_head = CStruct [
    Fld ''lock'' typedef_spinlock_t,
    Fld ''head'' struct_list_head]"

lemma lay_struct_wait_queue_head [layout_simps]:
  "sizeof struct_wait_queue_head = 24" "alignof struct_wait_queue_head = 8" "wf_ty struct_wait_queue_head" "unpacked struct_wait_queue_head"
  by (simp_all add: struct_wait_queue_head_def layout_simps layout_eval)

definition typedef_wait_queue_head_t :: ctype where
  [layout_simps]: "typedef_wait_queue_head_t = struct_wait_queue_head"

definition struct_rcu_sync :: ctype where
  "struct_rcu_sync = CStruct [
    Fld ''gp_state'' c_int,
    Fld ''gp_count'' c_int,
    Fld ''gp_wait'' typedef_wait_queue_head_t,
    Fld ''cb_head'' struct_callback_head]"

lemma lay_struct_rcu_sync [layout_simps]:
  "sizeof struct_rcu_sync = 48" "alignof struct_rcu_sync = 8" "wf_ty struct_rcu_sync" "unpacked struct_rcu_sync"
  by (simp_all add: struct_rcu_sync_def layout_simps layout_eval)

definition struct_rcuwait :: ctype where
  "struct_rcuwait = CStruct [
    Fld ''task'' CPtr]"

lemma lay_struct_rcuwait [layout_simps]:
  "sizeof struct_rcuwait = 8" "alignof struct_rcuwait = 8" "wf_ty struct_rcuwait" "unpacked struct_rcuwait"
  by (simp_all add: struct_rcuwait_def layout_simps layout_eval)

definition struct_percpu_rw_semaphore :: ctype where
  "struct_percpu_rw_semaphore = CStruct [
    Fld ''rss'' struct_rcu_sync,
    Fld ''read_count'' CPtr,
    Fld ''writer'' struct_rcuwait,
    Fld ''waiters'' typedef_wait_queue_head_t,
    Fld ''block'' typedef_atomic_t]"

lemma lay_struct_percpu_rw_semaphore [layout_simps]:
  "sizeof struct_percpu_rw_semaphore = 96" "alignof struct_percpu_rw_semaphore = 8" "wf_ty struct_percpu_rw_semaphore" "unpacked struct_percpu_rw_semaphore"
  by (simp_all add: struct_percpu_rw_semaphore_def layout_simps layout_eval)

definition struct_sb_writers :: ctype where
  "struct_sb_writers = CStruct [
    Fld ''frozen'' c_ushort,
    Fld ''freeze_kcount'' c_int,
    Fld ''freeze_ucount'' c_int,
    Fld ''freeze_owner'' CPtr,
    Fld ''rw_sem'' (CArr 3 struct_percpu_rw_semaphore)]"

lemma lay_struct_sb_writers [layout_simps]:
  "sizeof struct_sb_writers = 312" "alignof struct_sb_writers = 8" "wf_ty struct_sb_writers" "unpacked struct_sb_writers"
  by (simp_all add: struct_sb_writers_def layout_simps layout_eval)

definition typedef_uuid_t :: ctype where
  "typedef_uuid_t = CStruct [
    Fld ''b'' (CArr 16 typedef___u8)]"

lemma lay_typedef_uuid_t [layout_simps]:
  "sizeof typedef_uuid_t = 16" "alignof typedef_uuid_t = 1" "wf_ty typedef_uuid_t" "unpacked typedef_uuid_t"
  by (simp_all add: typedef_uuid_t_def layout_simps layout_eval)

definition struct_list_lru :: ctype where
  "struct_list_lru = CStruct [
    Fld ''node'' CPtr,
    Fld ''list'' struct_list_head,
    Fld ''shrinker_id'' c_int,
    Fld ''memcg_aware'' typedef_bool,
    Fld ''xa'' struct_xarray]"

lemma lay_struct_list_lru [layout_simps]:
  "sizeof struct_list_lru = 48" "alignof struct_list_lru = 8" "wf_ty struct_list_lru" "unpacked struct_list_lru"
  by (simp_all add: struct_list_lru_def layout_simps layout_eval)

definition typedef_work_func_t :: ctype where
  [layout_simps]: "typedef_work_func_t = CPtr"

definition struct_work_struct :: ctype where
  "struct_work_struct = CStruct [
    Fld ''data'' typedef_atomic_long_t,
    Fld ''entry'' struct_list_head,
    Fld ''func'' typedef_work_func_t]"

lemma lay_struct_work_struct [layout_simps]:
  "sizeof struct_work_struct = 32" "alignof struct_work_struct = 8" "wf_ty struct_work_struct" "unpacked struct_work_struct"
  by (simp_all add: struct_work_struct_def layout_simps layout_eval)

definition struct_super_block :: ctype where
  "struct_super_block = CStruct [
    Fld ''s_list'' struct_list_head,
    Fld ''s_dev'' typedef_dev_t,
    Fld ''s_blocksize_bits'' c_uchar,
    Fld ''s_blocksize'' c_ulong,
    Fld ''s_maxbytes'' typedef_loff_t,
    Fld ''s_type'' CPtr,
    Fld ''s_op'' CPtr,
    Fld ''dq_op'' CPtr,
    Fld ''s_qcop'' CPtr,
    Fld ''s_export_op'' CPtr,
    Fld ''s_flags'' c_ulong,
    Fld ''s_iflags'' c_ulong,
    Fld ''s_magic'' c_ulong,
    Fld ''s_root'' CPtr,
    Fld ''s_umount'' struct_rw_semaphore,
    Fld ''s_count'' c_int,
    Fld ''s_active'' typedef_atomic_t,
    Fld ''s_security'' CPtr,
    Fld ''s_xattr'' CPtr,
    Fld ''s_cop'' CPtr,
    Fld ''s_master_keys'' CPtr,
    Fld ''s_vop'' CPtr,
    Fld ''s_encoding'' CPtr,
    Fld ''s_encoding_flags'' typedef___u16,
    Fld ''s_roots'' struct_hlist_bl_head,
    Fld ''s_mounts'' struct_list_head,
    Fld ''s_bdev'' CPtr,
    Fld ''s_bdev_file'' CPtr,
    Fld ''s_bdi'' CPtr,
    Fld ''s_mtd'' CPtr,
    Fld ''s_instances'' struct_hlist_node,
    Fld ''s_quota_types'' c_uint,
    Fld ''s_dquot'' struct_quota_info,
    Fld ''s_writers'' struct_sb_writers,
    Fld ''s_fs_info'' CPtr,
    Fld ''s_time_gran'' typedef_u32,
    Fld ''s_time_min'' typedef_time64_t,
    Fld ''s_time_max'' typedef_time64_t,
    Fld ''s_fsnotify_mask'' typedef_u32,
    Fld ''s_fsnotify_info'' CPtr,
    Fld ''s_id'' (CArr 32 c_char),
    Fld ''s_uuid'' typedef_uuid_t,
    Fld ''s_uuid_len'' typedef_u8,
    Fld ''s_sysfs_name'' (CArr 37 c_char),
    Fld ''s_max_links'' c_uint,
    Fld ''s_d_flags'' c_uint,
    Fld ''s_vfs_rename_mutex'' struct_mutex,
    Fld ''s_subtype'' CPtr,
    Fld ''__s_d_op'' CPtr,
    Fld ''s_shrink'' CPtr,
    Fld ''s_remove_count'' typedef_atomic_long_t,
    Fld ''s_readonly_remount'' c_int,
    Fld ''s_wb_err'' typedef_errseq_t,
    Fld ''s_dio_done_wq'' CPtr,
    Fld ''s_pins'' struct_hlist_head,
    Fld ''s_user_ns'' CPtr,
    Fld ''s_dentry_lru'' struct_list_lru,
    Fld ''s_inode_lru'' struct_list_lru,
    Fld ''rcu'' struct_callback_head,
    Fld ''destroy_work'' struct_work_struct,
    Fld ''s_sync_lock'' struct_mutex,
    Fld ''s_stack_depth'' c_int,
    Bits [] c_long 0,
    Fld ''s_inode_list_lock'' typedef_spinlock_t,
    Fld ''s_inodes'' struct_list_head,
    Fld ''s_inode_wblist_lock'' typedef_spinlock_t,
    Fld ''s_inodes_wb'' struct_list_head,
    Bits [] c_long 64,
    Bits [] c_long 64]"

lemma lay_struct_super_block [layout_simps]:
  "sizeof struct_super_block = 1408" "alignof struct_super_block = 8" "wf_ty struct_super_block" "unpacked struct_super_block"
  by (simp_all add: struct_super_block_def layout_simps layout_eval)

definition typedef_fop_flags_t :: ctype where
  [layout_simps]: "typedef_fop_flags_t = c_uint"

definition struct_file_operations :: ctype where
  "struct_file_operations = CStruct [
    Fld ''owner'' CPtr,
    Fld ''fop_flags'' typedef_fop_flags_t,
    Fld ''llseek'' CPtr,
    Fld ''read'' CPtr,
    Fld ''write'' CPtr,
    Fld ''read_iter'' CPtr,
    Fld ''write_iter'' CPtr,
    Fld ''iopoll'' CPtr,
    Fld ''iterate_shared'' CPtr,
    Fld ''poll'' CPtr,
    Fld ''unlocked_ioctl'' CPtr,
    Fld ''compat_ioctl'' CPtr,
    Fld ''mmap'' CPtr,
    Fld ''open'' CPtr,
    Fld ''flush'' CPtr,
    Fld ''release'' CPtr,
    Fld ''fsync'' CPtr,
    Fld ''fasync'' CPtr,
    Fld ''lock'' CPtr,
    Fld ''get_unmapped_area'' CPtr,
    Fld ''check_flags'' CPtr,
    Fld ''flock'' CPtr,
    Fld ''splice_write'' CPtr,
    Fld ''splice_read'' CPtr,
    Fld ''splice_eof'' CPtr,
    Fld ''setlease'' CPtr,
    Fld ''fallocate'' CPtr,
    Fld ''show_fdinfo'' CPtr,
    Fld ''copy_file_range'' CPtr,
    Fld ''remap_file_range'' CPtr,
    Fld ''fadvise'' CPtr,
    Fld ''uring_cmd'' CPtr,
    Fld ''uring_cmd_iopoll'' CPtr,
    Fld ''mmap_prepare'' CPtr]"

lemma lay_struct_file_operations [layout_simps]:
  "sizeof struct_file_operations = 272" "alignof struct_file_operations = 8" "wf_ty struct_file_operations" "unpacked struct_file_operations"
  by (simp_all add: struct_file_operations_def layout_simps layout_eval)

definition struct_inode_operations :: ctype where
  "struct_inode_operations = CStruct [
    Fld ''lookup'' CPtr,
    Fld ''get_link'' CPtr,
    Fld ''permission'' CPtr,
    Fld ''get_inode_acl'' CPtr,
    Fld ''readlink'' CPtr,
    Fld ''create'' CPtr,
    Fld ''link'' CPtr,
    Fld ''unlink'' CPtr,
    Fld ''symlink'' CPtr,
    Fld ''mkdir'' CPtr,
    Fld ''rmdir'' CPtr,
    Fld ''mknod'' CPtr,
    Fld ''rename'' CPtr,
    Fld ''setattr'' CPtr,
    Fld ''getattr'' CPtr,
    Fld ''listxattr'' CPtr,
    Fld ''fiemap'' CPtr,
    Fld ''update_time'' CPtr,
    Fld ''atomic_open'' CPtr,
    Fld ''tmpfile'' CPtr,
    Fld ''get_acl'' CPtr,
    Fld ''set_acl'' CPtr,
    Fld ''fileattr_set'' CPtr,
    Fld ''fileattr_get'' CPtr,
    Fld ''get_offset_ctx'' CPtr,
    Bits [] c_long 64,
    Bits [] c_long 64,
    Bits [] c_long 64,
    Bits [] c_long 64,
    Bits [] c_long 64,
    Bits [] c_long 64,
    Bits [] c_long 64]"

lemma lay_struct_inode_operations [layout_simps]:
  "sizeof struct_inode_operations = 256" "alignof struct_inode_operations = 8" "wf_ty struct_inode_operations" "unpacked struct_inode_operations"
  by (simp_all add: struct_inode_operations_def layout_simps layout_eval)

definition struct_address_space_operations :: ctype where
  "struct_address_space_operations = CStruct [
    Fld ''read_folio'' CPtr,
    Fld ''writepages'' CPtr,
    Fld ''dirty_folio'' CPtr,
    Fld ''readahead'' CPtr,
    Fld ''write_begin'' CPtr,
    Fld ''write_end'' CPtr,
    Fld ''bmap'' CPtr,
    Fld ''invalidate_folio'' CPtr,
    Fld ''release_folio'' CPtr,
    Fld ''free_folio'' CPtr,
    Fld ''direct_IO'' CPtr,
    Fld ''migrate_folio'' CPtr,
    Fld ''launder_folio'' CPtr,
    Fld ''is_partially_uptodate'' CPtr,
    Fld ''is_dirty_writeback'' CPtr,
    Fld ''error_remove_folio'' CPtr,
    Fld ''swap_activate'' CPtr,
    Fld ''swap_deactivate'' CPtr,
    Fld ''swap_rw'' CPtr]"

lemma lay_struct_address_space_operations [layout_simps]:
  "sizeof struct_address_space_operations = 152" "alignof struct_address_space_operations = 8" "wf_ty struct_address_space_operations" "unpacked struct_address_space_operations"
  by (simp_all add: struct_address_space_operations_def layout_simps layout_eval)

end
