(* ===== verification/Vmlinux_Proc.thy ===== *)
theory Vmlinux_Proc
  imports Vmlinux_Fs
begin

text \<open>
  The per-process objects behind the helpers the sensor calls and the pseudo-files the agent reads: credentials (\<open>bpf_get_current_uid_gid\<close>), signals (\<open>bpf_send_signal\<close>), process identifiers, the address space and its areas (\<open>/proc/pid/maps\<close>, \<open>/proc/pid/mem\<close>).
  Each definition transcribes one declaration of \<open>src-bpf/vmlinux.h\<close>; the lemma after it
  evaluates its size and alignment and checks that it is well-formed.
\<close>

definition typedef_kernel_cap_t :: ctype where
  "typedef_kernel_cap_t = CStruct [
    Fld ''val'' typedef_u64]"

lemma lay_typedef_kernel_cap_t [layout_simps]:
  "sizeof typedef_kernel_cap_t = 8" "alignof typedef_kernel_cap_t = 8" "wf_ty typedef_kernel_cap_t" "unpacked typedef_kernel_cap_t"
  by (simp_all add: typedef_kernel_cap_t_def layout_simps layout_eval)

definition struct_cred :: ctype where
  "struct_cred = CStruct [
    Fld ''usage'' typedef_atomic_long_t,
    Fld ''uid'' typedef_kuid_t,
    Fld ''gid'' typedef_kgid_t,
    Fld ''suid'' typedef_kuid_t,
    Fld ''sgid'' typedef_kgid_t,
    Fld ''euid'' typedef_kuid_t,
    Fld ''egid'' typedef_kgid_t,
    Fld ''fsuid'' typedef_kuid_t,
    Fld ''fsgid'' typedef_kgid_t,
    Fld ''securebits'' c_uint,
    Fld ''cap_inheritable'' typedef_kernel_cap_t,
    Fld ''cap_permitted'' typedef_kernel_cap_t,
    Fld ''cap_effective'' typedef_kernel_cap_t,
    Fld ''cap_bset'' typedef_kernel_cap_t,
    Fld ''cap_ambient'' typedef_kernel_cap_t,
    Fld ''jit_keyring'' c_uchar,
    Fld ''session_keyring'' CPtr,
    Fld ''process_keyring'' CPtr,
    Fld ''thread_keyring'' CPtr,
    Fld ''request_key_auth'' CPtr,
    Fld ''security'' CPtr,
    Fld ''user'' CPtr,
    Fld ''user_ns'' CPtr,
    Fld ''ucounts'' CPtr,
    Fld ''group_info'' CPtr,
    Fld [] (CUnion [
      Fld ''non_rcu'' c_int,
      Fld ''rcu'' struct_callback_head])]"

lemma lay_struct_cred [layout_simps]:
  "sizeof struct_cred = 184" "alignof struct_cred = 8" "wf_ty struct_cred" "unpacked struct_cred"
  by (simp_all add: struct_cred_def layout_simps layout_eval)

definition struct_percpu_counter :: ctype where
  "struct_percpu_counter = CStruct [
    Fld ''lock'' typedef_raw_spinlock_t,
    Fld ''count'' typedef_s64,
    Fld ''list'' struct_list_head,
    Fld ''counters'' CPtr]"

lemma lay_struct_percpu_counter [layout_simps]:
  "sizeof struct_percpu_counter = 40" "alignof struct_percpu_counter = 8" "wf_ty struct_percpu_counter" "unpacked struct_percpu_counter"
  by (simp_all add: struct_percpu_counter_def layout_simps layout_eval)

definition struct_ratelimit_state :: ctype where
  "struct_ratelimit_state = CStruct [
    Fld ''lock'' typedef_raw_spinlock_t,
    Fld ''interval'' c_int,
    Fld ''burst'' c_int,
    Fld ''rs_n_left'' typedef_atomic_t,
    Fld ''missed'' typedef_atomic_t,
    Fld ''flags'' c_uint,
    Fld ''begin'' c_ulong]"

lemma lay_struct_ratelimit_state [layout_simps]:
  "sizeof struct_ratelimit_state = 32" "alignof struct_ratelimit_state = 8" "wf_ty struct_ratelimit_state" "unpacked struct_ratelimit_state"
  by (simp_all add: struct_ratelimit_state_def layout_simps layout_eval)

definition struct_user_struct :: ctype where
  "struct_user_struct = CStruct [
    Fld ''__count'' typedef_refcount_t,
    Fld ''epoll_watches'' struct_percpu_counter,
    Fld ''unix_inflight'' c_ulong,
    Fld ''pipe_bufs'' typedef_atomic_long_t,
    Fld ''uidhash_node'' struct_hlist_node,
    Fld ''uid'' typedef_kuid_t,
    Fld ''locked_vm'' typedef_atomic_long_t,
    Fld ''nr_watches'' typedef_atomic_t,
    Fld ''ratelimit'' struct_ratelimit_state]"

lemma lay_struct_user_struct [layout_simps]:
  "sizeof struct_user_struct = 136" "alignof struct_user_struct = 8" "wf_ty struct_user_struct" "unpacked struct_user_struct"
  by (simp_all add: struct_user_struct_def layout_simps layout_eval)

definition typedef___kernel_timer_t :: ctype where
  [layout_simps]: "typedef___kernel_timer_t = c_int"

definition union_sigval :: ctype where
  "union_sigval = CUnion [
    Fld ''sival_int'' c_int,
    Fld ''sival_ptr'' CPtr]"

lemma lay_union_sigval [layout_simps]:
  "sizeof union_sigval = 8" "alignof union_sigval = 8" "wf_ty union_sigval" "unpacked union_sigval"
  by (simp_all add: union_sigval_def layout_simps layout_eval)

definition typedef_sigval_t :: ctype where
  [layout_simps]: "typedef_sigval_t = union_sigval"

definition typedef___kernel_long_t :: ctype where
  [layout_simps]: "typedef___kernel_long_t = c_long"

definition typedef___kernel_clock_t :: ctype where
  [layout_simps]: "typedef___kernel_clock_t = typedef___kernel_long_t"

definition union___sifields :: ctype where
  "union___sifields = CUnion [
    Fld ''_kill'' (CStruct [
      Fld ''_pid'' typedef___kernel_pid_t,
      Fld ''_uid'' typedef___kernel_uid32_t]),
    Fld ''_timer'' (CStruct [
      Fld ''_tid'' typedef___kernel_timer_t,
      Fld ''_overrun'' c_int,
      Fld ''_sigval'' typedef_sigval_t,
      Fld ''_sys_private'' c_int]),
    Fld ''_rt'' (CStruct [
      Fld ''_pid'' typedef___kernel_pid_t,
      Fld ''_uid'' typedef___kernel_uid32_t,
      Fld ''_sigval'' typedef_sigval_t]),
    Fld ''_sigchld'' (CStruct [
      Fld ''_pid'' typedef___kernel_pid_t,
      Fld ''_uid'' typedef___kernel_uid32_t,
      Fld ''_status'' c_int,
      Fld ''_utime'' typedef___kernel_clock_t,
      Fld ''_stime'' typedef___kernel_clock_t]),
    Fld ''_sigfault'' (CStruct [
      Fld ''_addr'' CPtr,
      Fld [] (CUnion [
        Fld ''_trapno'' c_int,
        Fld ''_addr_lsb'' c_short,
        Fld ''_addr_bnd'' (CStruct [
          Fld ''_dummy_bnd'' (CArr 8 c_char),
          Fld ''_lower'' CPtr,
          Fld ''_upper'' CPtr]),
        Fld ''_addr_pkey'' (CStruct [
          Fld ''_dummy_pkey'' (CArr 8 c_char),
          Fld ''_pkey'' typedef___u32]),
        Fld ''_perf'' (CStruct [
          Fld ''_data'' c_ulong,
          Fld ''_type'' typedef___u32,
          Fld ''_flags'' typedef___u32])])]),
    Fld ''_sigpoll'' (CStruct [
      Fld ''_band'' c_long,
      Fld ''_fd'' c_int]),
    Fld ''_sigsys'' (CStruct [
      Fld ''_call_addr'' CPtr,
      Fld ''_syscall'' c_int,
      Fld ''_arch'' c_uint])]"

lemma lay_union___sifields [layout_simps]:
  "sizeof union___sifields = 32" "alignof union___sifields = 8" "wf_ty union___sifields" "unpacked union___sifields"
  by (simp_all add: union___sifields_def layout_simps layout_eval)

definition struct_kernel_siginfo :: ctype where
  "struct_kernel_siginfo = CStruct [
    Fld [] (CStruct [
      Fld ''si_signo'' c_int,
      Fld ''si_errno'' c_int,
      Fld ''si_code'' c_int,
      Fld ''_sifields'' union___sifields])]"

lemma lay_struct_kernel_siginfo [layout_simps]:
  "sizeof struct_kernel_siginfo = 48" "alignof struct_kernel_siginfo = 8" "wf_ty struct_kernel_siginfo" "unpacked struct_kernel_siginfo"
  by (simp_all add: struct_kernel_siginfo_def layout_simps layout_eval)

definition typedef___sighandler_t :: ctype where
  [layout_simps]: "typedef___sighandler_t = CPtr"

definition typedef___sigrestore_t :: ctype where
  [layout_simps]: "typedef___sigrestore_t = CPtr"

definition struct_sigaction :: ctype where
  "struct_sigaction = CStruct [
    Fld ''sa_handler'' typedef___sighandler_t,
    Fld ''sa_flags'' c_ulong,
    Fld ''sa_restorer'' typedef___sigrestore_t,
    Fld ''sa_mask'' typedef_sigset_t]"

lemma lay_struct_sigaction [layout_simps]:
  "sizeof struct_sigaction = 32" "alignof struct_sigaction = 8" "wf_ty struct_sigaction" "unpacked struct_sigaction"
  by (simp_all add: struct_sigaction_def layout_simps layout_eval)

definition struct_k_sigaction :: ctype where
  "struct_k_sigaction = CStruct [
    Fld ''sa'' struct_sigaction]"

lemma lay_struct_k_sigaction [layout_simps]:
  "sizeof struct_k_sigaction = 32" "alignof struct_k_sigaction = 8" "wf_ty struct_k_sigaction" "unpacked struct_k_sigaction"
  by (simp_all add: struct_k_sigaction_def layout_simps layout_eval)

definition struct_sighand_struct :: ctype where
  "struct_sighand_struct = CStruct [
    Fld ''siglock'' typedef_spinlock_t,
    Fld ''count'' typedef_refcount_t,
    Fld ''signalfd_wqh'' typedef_wait_queue_head_t,
    Fld ''action'' (CArr 64 struct_k_sigaction)]"

lemma lay_struct_sighand_struct [layout_simps]:
  "sizeof struct_sighand_struct = 2080" "alignof struct_sighand_struct = 8" "wf_ty struct_sighand_struct" "unpacked struct_sighand_struct"
  by (simp_all add: struct_sighand_struct_def layout_simps layout_eval)

definition struct_cpu_itimer :: ctype where
  "struct_cpu_itimer = CStruct [
    Fld ''expires'' typedef_u64,
    Fld ''incr'' typedef_u64]"

lemma lay_struct_cpu_itimer [layout_simps]:
  "sizeof struct_cpu_itimer = 16" "alignof struct_cpu_itimer = 8" "wf_ty struct_cpu_itimer" "unpacked struct_cpu_itimer"
  by (simp_all add: struct_cpu_itimer_def layout_simps layout_eval)

definition struct_task_cputime_atomic :: ctype where
  "struct_task_cputime_atomic = CStruct [
    Fld ''utime'' typedef_atomic64_t,
    Fld ''stime'' typedef_atomic64_t,
    Fld ''sum_exec_runtime'' typedef_atomic64_t]"

lemma lay_struct_task_cputime_atomic [layout_simps]:
  "sizeof struct_task_cputime_atomic = 24" "alignof struct_task_cputime_atomic = 8" "wf_ty struct_task_cputime_atomic" "unpacked struct_task_cputime_atomic"
  by (simp_all add: struct_task_cputime_atomic_def layout_simps layout_eval)

definition struct_thread_group_cputimer :: ctype where
  "struct_thread_group_cputimer = CStruct [
    Fld ''cputime_atomic'' struct_task_cputime_atomic]"

lemma lay_struct_thread_group_cputimer [layout_simps]:
  "sizeof struct_thread_group_cputimer = 24" "alignof struct_thread_group_cputimer = 8" "wf_ty struct_thread_group_cputimer" "unpacked struct_thread_group_cputimer"
  by (simp_all add: struct_thread_group_cputimer_def layout_simps layout_eval)

definition typedef_seqlock_t :: ctype where
  "typedef_seqlock_t = CStruct [
    Fld ''seqcount'' typedef_seqcount_spinlock_t,
    Fld ''lock'' typedef_spinlock_t]"

lemma lay_typedef_seqlock_t [layout_simps]:
  "sizeof typedef_seqlock_t = 8" "alignof typedef_seqlock_t = 4" "wf_ty typedef_seqlock_t" "unpacked typedef_seqlock_t"
  by (simp_all add: typedef_seqlock_t_def layout_simps layout_eval)

definition struct_rlimit :: ctype where
  "struct_rlimit = CStruct [
    Fld ''rlim_cur'' typedef___kernel_ulong_t,
    Fld ''rlim_max'' typedef___kernel_ulong_t]"

lemma lay_struct_rlimit [layout_simps]:
  "sizeof struct_rlimit = 16" "alignof struct_rlimit = 8" "wf_ty struct_rlimit" "unpacked struct_rlimit"
  by (simp_all add: struct_rlimit_def layout_simps layout_eval)

definition struct_pacct_struct :: ctype where
  "struct_pacct_struct = CStruct [
    Fld ''ac_flag'' c_int,
    Fld ''ac_exitcode'' c_long,
    Fld ''ac_mem'' c_ulong,
    Fld ''ac_utime'' typedef_u64,
    Fld ''ac_stime'' typedef_u64,
    Fld ''ac_minflt'' c_ulong,
    Fld ''ac_majflt'' c_ulong]"

lemma lay_struct_pacct_struct [layout_simps]:
  "sizeof struct_pacct_struct = 56" "alignof struct_pacct_struct = 8" "wf_ty struct_pacct_struct" "unpacked struct_pacct_struct"
  by (simp_all add: struct_pacct_struct_def layout_simps layout_eval)

definition struct_signal_struct :: ctype where
  "struct_signal_struct = CStruct [
    Fld ''sigcnt'' typedef_refcount_t,
    Fld ''live'' typedef_atomic_t,
    Fld ''nr_threads'' c_int,
    Fld ''quick_threads'' c_int,
    Fld ''thread_head'' struct_list_head,
    Fld ''wait_chldexit'' typedef_wait_queue_head_t,
    Fld ''curr_target'' CPtr,
    Fld ''shared_pending'' struct_sigpending,
    Fld ''multiprocess'' struct_hlist_head,
    Fld ''group_exit_code'' c_int,
    Fld ''notify_count'' c_int,
    Fld ''group_exec_task'' CPtr,
    Fld ''group_stop_count'' c_int,
    Fld ''flags'' c_uint,
    Fld ''core_state'' CPtr,
    Bits ''is_child_subreaper'' c_uint 1,
    Bits ''has_child_subreaper'' c_uint 1,
    Bits ''timer_create_restore_ids'' c_uint 1,
    Fld ''next_posix_timer_id'' typedef_atomic_t,
    Fld ''posix_timers'' struct_hlist_head,
    Fld ''ignored_posix_timers'' struct_hlist_head,
    Fld ''real_timer'' struct_hrtimer,
    Fld ''it_real_incr'' typedef_ktime_t,
    Fld ''it'' (CArr 2 struct_cpu_itimer),
    Fld ''cputimer'' struct_thread_group_cputimer,
    Fld ''posix_cputimers'' struct_posix_cputimers,
    Fld ''pids'' (CArr 4 CPtr),
    Fld ''tick_dep_mask'' typedef_atomic_t,
    Fld ''tty_old_pgrp'' CPtr,
    Fld ''leader'' c_int,
    Fld ''tty'' CPtr,
    Fld ''autogroup'' CPtr,
    Fld ''stats_lock'' typedef_seqlock_t,
    Fld ''utime'' typedef_u64,
    Fld ''stime'' typedef_u64,
    Fld ''cutime'' typedef_u64,
    Fld ''cstime'' typedef_u64,
    Fld ''gtime'' typedef_u64,
    Fld ''cgtime'' typedef_u64,
    Fld ''prev_cputime'' struct_prev_cputime,
    Fld ''nvcsw'' c_ulong,
    Fld ''nivcsw'' c_ulong,
    Fld ''cnvcsw'' c_ulong,
    Fld ''cnivcsw'' c_ulong,
    Fld ''min_flt'' c_ulong,
    Fld ''maj_flt'' c_ulong,
    Fld ''cmin_flt'' c_ulong,
    Fld ''cmaj_flt'' c_ulong,
    Fld ''inblock'' c_ulong,
    Fld ''oublock'' c_ulong,
    Fld ''cinblock'' c_ulong,
    Fld ''coublock'' c_ulong,
    Fld ''maxrss'' c_ulong,
    Fld ''cmaxrss'' c_ulong,
    Fld ''ioac'' struct_task_io_accounting,
    Fld ''sum_sched_runtime'' c_ullong,
    Fld ''rlim'' (CArr 16 struct_rlimit),
    Fld ''pacct'' struct_pacct_struct,
    Fld ''stats'' CPtr,
    Fld ''audit_tty'' c_uint,
    Fld ''tty_audit_buf'' CPtr,
    Fld ''oom_flag_origin'' typedef_bool,
    Fld ''oom_score_adj'' c_short,
    Fld ''oom_score_adj_min'' c_short,
    Fld ''oom_mm'' CPtr,
    Fld ''cred_guard_mutex'' struct_mutex,
    Fld ''exec_update_lock'' struct_rw_semaphore]"

lemma lay_struct_signal_struct [layout_simps]:
  "sizeof struct_signal_struct = 1112" "alignof struct_signal_struct = 8" "wf_ty struct_signal_struct" "unpacked struct_signal_struct"
  by (simp_all add: struct_signal_struct_def layout_simps layout_eval)

definition struct_fs_struct :: ctype where
  "struct_fs_struct = CStruct [
    Fld ''users'' c_int,
    Fld ''seq'' typedef_seqlock_t,
    Fld ''umask'' c_int,
    Fld ''in_exec'' c_int,
    Fld ''root'' struct_path,
    Fld ''pwd'' struct_path]"

lemma lay_struct_fs_struct [layout_simps]:
  "sizeof struct_fs_struct = 56" "alignof struct_fs_struct = 8" "wf_ty struct_fs_struct" "unpacked struct_fs_struct"
  by (simp_all add: struct_fs_struct_def layout_simps layout_eval)

definition struct_fdtable :: ctype where
  "struct_fdtable = CStruct [
    Fld ''max_fds'' c_uint,
    Fld ''fd'' CPtr,
    Fld ''close_on_exec'' CPtr,
    Fld ''open_fds'' CPtr,
    Fld ''full_fds_bits'' CPtr,
    Fld ''rcu'' struct_callback_head]"

lemma lay_struct_fdtable [layout_simps]:
  "sizeof struct_fdtable = 56" "alignof struct_fdtable = 8" "wf_ty struct_fdtable" "unpacked struct_fdtable"
  by (simp_all add: struct_fdtable_def layout_simps layout_eval)

definition struct_files_struct :: ctype where
  "struct_files_struct = CStruct [
    Fld ''count'' typedef_atomic_t,
    Fld ''resize_in_progress'' typedef_bool,
    Fld ''resize_wait'' typedef_wait_queue_head_t,
    Fld ''fdt'' CPtr,
    Fld ''fdtab'' struct_fdtable,
    Bits [] c_long 64,
    Bits [] c_long 64,
    Bits [] c_long 64,
    Bits [] c_long 64,
    Fld ''file_lock'' typedef_spinlock_t,
    Fld ''next_fd'' c_uint,
    Fld ''close_on_exec_init'' (CArr 1 c_ulong),
    Fld ''open_fds_init'' (CArr 1 c_ulong),
    Fld ''full_fds_bits_init'' (CArr 1 c_ulong),
    Fld ''fd_array'' (CArr 64 CPtr),
    Bits [] c_long 64,
    Bits [] c_long 64,
    Bits [] c_long 64,
    Bits [] c_long 64]"

lemma lay_struct_files_struct [layout_simps]:
  "sizeof struct_files_struct = 704" "alignof struct_files_struct = 8" "wf_ty struct_files_struct" "unpacked struct_files_struct"
  by (simp_all add: struct_files_struct_def layout_simps layout_eval)

definition struct_nsproxy :: ctype where
  "struct_nsproxy = CStruct [
    Fld ''count'' typedef_refcount_t,
    Fld ''uts_ns'' CPtr,
    Fld ''ipc_ns'' CPtr,
    Fld ''mnt_ns'' CPtr,
    Fld ''pid_ns_for_children'' CPtr,
    Fld ''net_ns'' CPtr,
    Fld ''time_ns'' CPtr,
    Fld ''time_ns_for_children'' CPtr,
    Fld ''cgroup_ns'' CPtr]"

lemma lay_struct_nsproxy [layout_simps]:
  "sizeof struct_nsproxy = 72" "alignof struct_nsproxy = 8" "wf_ty struct_nsproxy" "unpacked struct_nsproxy"
  by (simp_all add: struct_nsproxy_def layout_simps layout_eval)

definition struct_upid :: ctype where
  "struct_upid = CStruct [
    Fld ''nr'' c_int,
    Fld ''ns'' CPtr]"

lemma lay_struct_upid [layout_simps]:
  "sizeof struct_upid = 16" "alignof struct_upid = 8" "wf_ty struct_upid" "unpacked struct_upid"
  by (simp_all add: struct_upid_def layout_simps layout_eval)

definition struct_pid :: ctype where
  "struct_pid = CStruct [
    Fld ''count'' typedef_refcount_t,
    Fld ''level'' c_uint,
    Fld ''lock'' typedef_spinlock_t,
    Fld [] (CStruct [
      Fld ''ino'' typedef_u64,
      Fld ''pidfs_node'' struct_rb_node,
      Fld ''stashed'' CPtr,
      Fld ''attr'' CPtr]),
    Fld ''tasks'' (CArr 4 struct_hlist_head),
    Fld ''inodes'' struct_hlist_head,
    Fld ''wait_pidfd'' typedef_wait_queue_head_t,
    Fld ''rcu'' struct_callback_head,
    Fld ''numbers'' (CArr 0 struct_upid)]"

lemma lay_struct_pid [layout_simps]:
  "sizeof struct_pid = 144" "alignof struct_pid = 8" "wf_ty struct_pid" "unpacked struct_pid"
  by (simp_all add: struct_pid_def layout_simps layout_eval)

definition typedef_pgprotval_t :: ctype where
  [layout_simps]: "typedef_pgprotval_t = c_ulong"

definition struct_pgprot :: ctype where
  "struct_pgprot = CStruct [
    Fld ''pgprot'' typedef_pgprotval_t]"

lemma lay_struct_pgprot [layout_simps]:
  "sizeof struct_pgprot = 8" "alignof struct_pgprot = 8" "wf_ty struct_pgprot" "unpacked struct_pgprot"
  by (simp_all add: struct_pgprot_def layout_simps layout_eval)

definition typedef_pgprot_t :: ctype where
  [layout_simps]: "typedef_pgprot_t = struct_pgprot"

definition typedef_vm_flags_t :: ctype where
  [layout_simps]: "typedef_vm_flags_t = c_ulong"

definition struct_vm_userfaultfd_ctx :: ctype where
  "struct_vm_userfaultfd_ctx = CStruct [
    Fld ''ctx'' CPtr]"

lemma lay_struct_vm_userfaultfd_ctx [layout_simps]:
  "sizeof struct_vm_userfaultfd_ctx = 8" "alignof struct_vm_userfaultfd_ctx = 8" "wf_ty struct_vm_userfaultfd_ctx" "unpacked struct_vm_userfaultfd_ctx"
  by (simp_all add: struct_vm_userfaultfd_ctx_def layout_simps layout_eval)

definition struct_vm_area_struct :: ctype where
  "struct_vm_area_struct = CStruct [
    Fld [] (CUnion [
      Fld [] (CStruct [
        Fld ''vm_start'' c_ulong,
        Fld ''vm_end'' c_ulong]),
      Fld ''vm_freeptr'' typedef_freeptr_t]),
    Fld ''vm_mm'' CPtr,
    Fld ''vm_page_prot'' typedef_pgprot_t,
    Fld [] (CUnion [
      Fld ''vm_flags'' typedef_vm_flags_t,
      Fld ''__vm_flags'' typedef_vm_flags_t]),
    Fld ''vm_lock_seq'' c_uint,
    Fld ''anon_vma_chain'' struct_list_head,
    Fld ''anon_vma'' CPtr,
    Fld ''vm_ops'' CPtr,
    Fld ''vm_pgoff'' c_ulong,
    Fld ''vm_file'' CPtr,
    Fld ''vm_private_data'' CPtr,
    Fld ''swap_readahead_info'' typedef_atomic_long_t,
    Fld ''vm_policy'' CPtr,
    Fld ''numab_state'' CPtr,
    Fld ''vm_refcnt'' typedef_refcount_t,
    Fld ''shared'' (CStruct [
      Fld ''rb'' struct_rb_node,
      Fld ''rb_subtree_last'' c_ulong]),
    Fld ''anon_name'' CPtr,
    Fld ''vm_userfaultfd_ctx'' struct_vm_userfaultfd_ctx,
    Fld ''pfnmap_track_ctx'' CPtr]"

lemma lay_struct_vm_area_struct [layout_simps]:
  "sizeof struct_vm_area_struct = 192" "alignof struct_vm_area_struct = 8" "wf_ty struct_vm_area_struct" "unpacked struct_vm_area_struct"
  by (simp_all add: struct_vm_area_struct_def layout_simps layout_eval)

definition typedef_lockdep_map_p :: ctype where
  "typedef_lockdep_map_p = CStruct []"

lemma lay_typedef_lockdep_map_p [layout_simps]:
  "sizeof typedef_lockdep_map_p = 0" "alignof typedef_lockdep_map_p = 1" "wf_ty typedef_lockdep_map_p" "unpacked typedef_lockdep_map_p"
  by (simp_all add: typedef_lockdep_map_p_def layout_simps layout_eval)

definition struct_maple_tree :: ctype where
  "struct_maple_tree = CStruct [
    Fld [] (CUnion [
      Fld ''ma_lock'' typedef_spinlock_t,
      Fld ''ma_external_lock'' typedef_lockdep_map_p]),
    Fld ''ma_flags'' c_uint,
    Fld ''ma_root'' CPtr]"

lemma lay_struct_maple_tree [layout_simps]:
  "sizeof struct_maple_tree = 16" "alignof struct_maple_tree = 8" "wf_ty struct_maple_tree" "unpacked struct_maple_tree"
  by (simp_all add: struct_maple_tree_def layout_simps layout_eval)

definition typedef___s16 :: ctype where
  [layout_simps]: "typedef___s16 = c_short"

definition typedef_s16 :: ctype where
  [layout_simps]: "typedef_s16 = typedef___s16"

definition typedef_mm_context_t :: ctype where
  "typedef_mm_context_t = CStruct [
    Fld ''ctx_id'' typedef_u64,
    Fld ''tlb_gen'' typedef_atomic64_t,
    Fld ''next_trim_cpumask'' c_ulong,
    Fld ''ldt_usr_sem'' struct_rw_semaphore,
    Fld ''ldt'' CPtr,
    Fld ''flags'' c_ulong,
    Fld ''lock'' struct_mutex,
    Fld ''vdso'' CPtr,
    Fld ''vdso_image'' CPtr,
    Fld ''perf_rdpmc_allowed'' typedef_atomic_t,
    Fld ''pkey_allocation_map'' typedef_u16,
    Fld ''execute_only_pkey'' typedef_s16,
    Fld ''global_asid'' typedef_u16,
    Fld ''asid_transition'' typedef_bool]"

lemma lay_typedef_mm_context_t [layout_simps]:
  "sizeof typedef_mm_context_t = 144" "alignof typedef_mm_context_t = 8" "wf_ty typedef_mm_context_t" "unpacked typedef_mm_context_t"
  by (simp_all add: typedef_mm_context_t_def layout_simps layout_eval)

definition struct_uprobes_state :: ctype where
  "struct_uprobes_state = CStruct [
    Fld ''xol_area'' CPtr]"

lemma lay_struct_uprobes_state [layout_simps]:
  "sizeof struct_uprobes_state = 8" "alignof struct_uprobes_state = 8" "wf_ty struct_uprobes_state" "unpacked struct_uprobes_state"
  by (simp_all add: struct_uprobes_state_def layout_simps layout_eval)

definition typedef_mm_id_t :: ctype where
  [layout_simps]: "typedef_mm_id_t = c_uint"

definition struct_mm_struct :: ctype where
  "struct_mm_struct = CStruct [
    Fld [] (CStruct [
      Fld [] (CStruct [
        Fld ''mm_count'' typedef_atomic_t,
        Bits [] c_long 64,
        Bits [] c_long 64,
        Bits [] c_long 64,
        Bits [] c_long 64,
        Bits [] c_long 64,
        Bits [] c_long 64,
        Bits [] c_long 64]),
      Fld ''mm_mt'' struct_maple_tree,
      Fld ''mmap_base'' c_ulong,
      Fld ''mmap_legacy_base'' c_ulong,
      Fld ''mmap_compat_base'' c_ulong,
      Fld ''mmap_compat_legacy_base'' c_ulong,
      Fld ''task_size'' c_ulong,
      Fld ''pgd'' CPtr,
      Fld ''membarrier_state'' typedef_atomic_t,
      Fld ''mm_users'' typedef_atomic_t,
      Fld ''pcpu_cid'' CPtr,
      Fld ''mm_cid_next_scan'' c_ulong,
      Fld ''nr_cpus_allowed'' c_uint,
      Fld ''max_nr_cid'' typedef_atomic_t,
      Fld ''cpus_allowed_lock'' typedef_raw_spinlock_t,
      Fld ''pgtables_bytes'' typedef_atomic_long_t,
      Fld ''map_count'' c_int,
      Fld ''page_table_lock'' typedef_spinlock_t,
      Fld ''mmap_lock'' struct_rw_semaphore,
      Fld ''mmlist'' struct_list_head,
      Fld ''vma_writer_wait'' struct_rcuwait,
      Fld ''mm_lock_seq'' typedef_seqcount_t,
      Fld ''futex_hash_lock'' struct_mutex,
      Fld ''futex_phash'' CPtr,
      Fld ''futex_phash_new'' CPtr,
      Fld ''futex_batches'' c_ulong,
      Fld ''futex_rcu'' struct_callback_head,
      Fld ''futex_atomic'' typedef_atomic_long_t,
      Fld ''futex_ref'' CPtr,
      Fld ''hiwater_rss'' c_ulong,
      Fld ''hiwater_vm'' c_ulong,
      Fld ''total_vm'' c_ulong,
      Fld ''locked_vm'' c_ulong,
      Fld ''pinned_vm'' typedef_atomic64_t,
      Fld ''data_vm'' c_ulong,
      Fld ''exec_vm'' c_ulong,
      Fld ''stack_vm'' c_ulong,
      Fld ''def_flags'' typedef_vm_flags_t,
      Fld ''write_protect_seq'' typedef_seqcount_t,
      Fld ''arg_lock'' typedef_spinlock_t,
      Fld ''start_code'' c_ulong,
      Fld ''end_code'' c_ulong,
      Fld ''start_data'' c_ulong,
      Fld ''end_data'' c_ulong,
      Fld ''start_brk'' c_ulong,
      Fld ''brk'' c_ulong,
      Fld ''start_stack'' c_ulong,
      Fld ''arg_start'' c_ulong,
      Fld ''arg_end'' c_ulong,
      Fld ''env_start'' c_ulong,
      Fld ''env_end'' c_ulong,
      Fld ''saved_auxv'' (CArr 52 c_ulong),
      Fld ''rss_stat'' (CArr 4 struct_percpu_counter),
      Fld ''binfmt'' CPtr,
      Fld ''context'' typedef_mm_context_t,
      Fld ''flags'' c_ulong,
      Fld ''ioctx_lock'' typedef_spinlock_t,
      Fld ''ioctx_table'' CPtr,
      Fld ''owner'' CPtr,
      Fld ''user_ns'' CPtr,
      Fld ''exe_file'' CPtr,
      Fld ''notifier_subscriptions'' CPtr,
      Fld ''numa_next_scan'' c_ulong,
      Fld ''numa_scan_offset'' c_ulong,
      Fld ''numa_scan_seq'' c_int,
      Fld ''tlb_flush_pending'' typedef_atomic_t,
      Fld ''tlb_flush_batched'' typedef_atomic_t,
      Fld ''uprobes_state'' struct_uprobes_state,
      Fld ''hugetlb_usage'' typedef_atomic_long_t,
      Fld ''async_put_work'' struct_work_struct,
      Fld ''iommu_mm'' CPtr,
      Fld ''ksm_merging_pages'' c_ulong,
      Fld ''ksm_rmap_items'' c_ulong,
      Fld ''ksm_zero_pages'' typedef_atomic_long_t,
      Fld ''lru_gen'' (CStruct [
        Fld ''list'' struct_list_head,
        Fld ''bitmap'' c_ulong,
        Fld ''memcg'' CPtr]),
      Fld ''mm_id'' typedef_mm_id_t,
      Bits [] c_long 64,
      Bits [] c_long 64,
      Bits [] c_long 64]),
    Fld ''cpu_bitmap'' (CArr 0 c_ulong)]"

lemma lay_struct_mm_struct [layout_simps]:
  "sizeof struct_mm_struct = 1472" "alignof struct_mm_struct = 8" "wf_ty struct_mm_struct" "unpacked struct_mm_struct"
  by (simp_all add: struct_mm_struct_def layout_simps layout_eval)

definition typedef_phys_addr_t :: ctype where
  [layout_simps]: "typedef_phys_addr_t = typedef_u64"

definition struct_vm_struct :: ctype where
  "struct_vm_struct = CStruct [
    Fld ''next'' CPtr,
    Fld ''addr'' CPtr,
    Fld ''size'' c_ulong,
    Fld ''flags'' c_ulong,
    Fld ''pages'' CPtr,
    Fld ''page_order'' c_uint,
    Fld ''nr_pages'' c_uint,
    Fld ''phys_addr'' typedef_phys_addr_t,
    Fld ''caller'' CPtr,
    Fld ''requested_size'' c_ulong]"

lemma lay_struct_vm_struct [layout_simps]:
  "sizeof struct_vm_struct = 72" "alignof struct_vm_struct = 8" "wf_ty struct_vm_struct" "unpacked struct_vm_struct"
  by (simp_all add: struct_vm_struct_def layout_simps layout_eval)

definition struct_io_context :: ctype where
  "struct_io_context = CStruct [
    Fld ''refcount'' typedef_atomic_long_t,
    Fld ''active_ref'' typedef_atomic_t,
    Fld ''ioprio'' c_ushort,
    Fld ''lock'' typedef_spinlock_t,
    Fld ''icq_tree'' struct_xarray,
    Fld ''icq_hint'' CPtr,
    Fld ''icq_list'' struct_hlist_head,
    Fld ''release_work'' struct_work_struct]"

lemma lay_struct_io_context [layout_simps]:
  "sizeof struct_io_context = 88" "alignof struct_io_context = 8" "wf_ty struct_io_context" "unpacked struct_io_context"
  by (simp_all add: struct_io_context_def layout_simps layout_eval)

definition struct_sched_class :: ctype where
  "struct_sched_class = CStruct [
    Fld ''uclamp_enabled'' c_int,
    Fld ''enqueue_task'' CPtr,
    Fld ''dequeue_task'' CPtr,
    Fld ''yield_task'' CPtr,
    Fld ''yield_to_task'' CPtr,
    Fld ''wakeup_preempt'' CPtr,
    Fld ''balance'' CPtr,
    Fld ''pick_task'' CPtr,
    Fld ''pick_next_task'' CPtr,
    Fld ''put_prev_task'' CPtr,
    Fld ''set_next_task'' CPtr,
    Fld ''select_task_rq'' CPtr,
    Fld ''migrate_task_rq'' CPtr,
    Fld ''task_woken'' CPtr,
    Fld ''set_cpus_allowed'' CPtr,
    Fld ''rq_online'' CPtr,
    Fld ''rq_offline'' CPtr,
    Fld ''find_lock_rq'' CPtr,
    Fld ''task_tick'' CPtr,
    Fld ''task_fork'' CPtr,
    Fld ''task_dead'' CPtr,
    Fld ''switching_to'' CPtr,
    Fld ''switched_from'' CPtr,
    Fld ''switched_to'' CPtr,
    Fld ''reweight_task'' CPtr,
    Fld ''prio_changed'' CPtr,
    Fld ''get_rr_interval'' CPtr,
    Fld ''update_curr'' CPtr,
    Fld ''task_change_group'' CPtr,
    Fld ''task_is_throttled'' CPtr]"

lemma lay_struct_sched_class [layout_simps]:
  "sizeof struct_sched_class = 240" "alignof struct_sched_class = 8" "wf_ty struct_sched_class" "unpacked struct_sched_class"
  by (simp_all add: struct_sched_class_def layout_simps layout_eval)

definition struct_css_set :: ctype where
  "struct_css_set = CStruct [
    Fld ''subsys'' (CArr 15 CPtr),
    Fld ''refcount'' typedef_refcount_t,
    Fld ''dom_cset'' CPtr,
    Fld ''dfl_cgrp'' CPtr,
    Fld ''nr_tasks'' c_int,
    Fld ''tasks'' struct_list_head,
    Fld ''mg_tasks'' struct_list_head,
    Fld ''dying_tasks'' struct_list_head,
    Fld ''task_iters'' struct_list_head,
    Fld ''e_cset_node'' (CArr 15 struct_list_head),
    Fld ''threaded_csets'' struct_list_head,
    Fld ''threaded_csets_node'' struct_list_head,
    Fld ''hlist'' struct_hlist_node,
    Fld ''cgrp_links'' struct_list_head,
    Fld ''mg_src_preload_node'' struct_list_head,
    Fld ''mg_dst_preload_node'' struct_list_head,
    Fld ''mg_node'' struct_list_head,
    Fld ''mg_src_cgrp'' CPtr,
    Fld ''mg_dst_cgrp'' CPtr,
    Fld ''mg_dst_cset'' CPtr,
    Fld ''dead'' typedef_bool,
    Fld ''callback_head'' struct_callback_head]"

lemma lay_struct_css_set [layout_simps]:
  "sizeof struct_css_set = 616" "alignof struct_css_set = 8" "wf_ty struct_css_set" "unpacked struct_css_set"
  by (simp_all add: struct_css_set_def layout_simps layout_eval)

definition struct_percpu_ref :: ctype where
  "struct_percpu_ref = CStruct [
    Fld ''percpu_count_ptr'' c_ulong,
    Fld ''data'' CPtr]"

lemma lay_struct_percpu_ref [layout_simps]:
  "sizeof struct_percpu_ref = 16" "alignof struct_percpu_ref = 8" "wf_ty struct_percpu_ref" "unpacked struct_percpu_ref"
  by (simp_all add: struct_percpu_ref_def layout_simps layout_eval)

definition struct_rcu_work :: ctype where
  "struct_rcu_work = CStruct [
    Fld ''work'' struct_work_struct,
    Fld ''rcu'' struct_callback_head,
    Fld ''wq'' CPtr]"

lemma lay_struct_rcu_work [layout_simps]:
  "sizeof struct_rcu_work = 56" "alignof struct_rcu_work = 8" "wf_ty struct_rcu_work" "unpacked struct_rcu_work"
  by (simp_all add: struct_rcu_work_def layout_simps layout_eval)

definition struct_cgroup_subsys_state :: ctype where
  "struct_cgroup_subsys_state = CStruct [
    Fld ''cgroup'' CPtr,
    Fld ''ss'' CPtr,
    Fld ''refcnt'' struct_percpu_ref,
    Fld ''rstat_cpu'' CPtr,
    Fld ''sibling'' struct_list_head,
    Fld ''children'' struct_list_head,
    Fld ''id'' c_int,
    Fld ''flags'' c_uint,
    Fld ''serial_nr'' typedef_u64,
    Fld ''online_cnt'' typedef_atomic_t,
    Fld ''destroy_work'' struct_work_struct,
    Fld ''destroy_rwork'' struct_rcu_work,
    Fld ''parent'' CPtr,
    Fld ''nr_descendants'' c_int,
    Fld ''rstat_flush_next'' CPtr]"

lemma lay_struct_cgroup_subsys_state [layout_simps]:
  "sizeof struct_cgroup_subsys_state = 208" "alignof struct_cgroup_subsys_state = 8" "wf_ty struct_cgroup_subsys_state" "unpacked struct_cgroup_subsys_state"
  by (simp_all add: struct_cgroup_subsys_state_def layout_simps layout_eval)

definition struct_scx_task_group :: ctype where
  "struct_scx_task_group = CStruct [
    Fld ''flags'' typedef_u32,
    Fld ''weight'' typedef_u32,
    Fld ''bw_period_us'' typedef_u64,
    Fld ''bw_quota_us'' typedef_u64,
    Fld ''bw_burst_us'' typedef_u64]"

lemma lay_struct_scx_task_group [layout_simps]:
  "sizeof struct_scx_task_group = 32" "alignof struct_scx_task_group = 8" "wf_ty struct_scx_task_group" "unpacked struct_scx_task_group"
  by (simp_all add: struct_scx_task_group_def layout_simps layout_eval)

definition struct_cfs_bandwidth :: ctype where
  "struct_cfs_bandwidth = CStruct [
    Fld ''lock'' typedef_raw_spinlock_t,
    Fld ''period'' typedef_ktime_t,
    Fld ''quota'' typedef_u64,
    Fld ''runtime'' typedef_u64,
    Fld ''burst'' typedef_u64,
    Fld ''runtime_snap'' typedef_u64,
    Fld ''hierarchical_quota'' typedef_s64,
    Fld ''idle'' typedef_u8,
    Fld ''period_active'' typedef_u8,
    Fld ''slack_started'' typedef_u8,
    Fld ''period_timer'' struct_hrtimer,
    Fld ''slack_timer'' struct_hrtimer,
    Fld ''throttled_cfs_rq'' struct_list_head,
    Fld ''nr_periods'' c_int,
    Fld ''nr_throttled'' c_int,
    Fld ''nr_burst'' c_int,
    Fld ''throttled_time'' typedef_u64,
    Fld ''burst_time'' typedef_u64]"

lemma lay_struct_cfs_bandwidth [layout_simps]:
  "sizeof struct_cfs_bandwidth = 240" "alignof struct_cfs_bandwidth = 8" "wf_ty struct_cfs_bandwidth" "unpacked struct_cfs_bandwidth"
  by (simp_all add: struct_cfs_bandwidth_def layout_simps layout_eval)

definition struct_task_group :: ctype where
  "struct_task_group = CStruct [
    Fld ''css'' struct_cgroup_subsys_state,
    Fld ''idle'' c_int,
    Fld ''se'' CPtr,
    Fld ''cfs_rq'' CPtr,
    Fld ''shares'' c_ulong,
    Bits [] c_long 64,
    Bits [] c_long 64,
    Fld ''load_avg'' typedef_atomic_long_t,
    Fld ''scx'' struct_scx_task_group,
    Fld ''rcu'' struct_callback_head,
    Fld ''list'' struct_list_head,
    Fld ''parent'' CPtr,
    Fld ''siblings'' struct_list_head,
    Fld ''children'' struct_list_head,
    Fld ''autogroup'' CPtr,
    Fld ''cfs_bandwidth'' struct_cfs_bandwidth,
    Fld ''uclamp_pct'' (CArr 2 c_uint),
    Fld ''uclamp_req'' (CArr 2 struct_uclamp_se),
    Fld ''uclamp'' (CArr 2 struct_uclamp_se)]"

lemma lay_struct_task_group [layout_simps]:
  "sizeof struct_task_group = 640" "alignof struct_task_group = 8" "wf_ty struct_task_group" "unpacked struct_task_group"
  by (simp_all add: struct_task_group_def layout_simps layout_eval)

end
