(* ===== verification/Vmlinux_Bpf.thy ===== *)
theory Vmlinux_Bpf
  imports Vmlinux_Proc
begin

text \<open>
  The BPF objects that back the maps and programs of the sensor: map kinds and helper numbers, the hash, array and ring-buffer maps, programs.
  Each definition transcribes one declaration of \<open>src-bpf/vmlinux.h\<close>; the lemma after it
  evaluates its size and alignment and checks that it is well-formed.
\<close>

definition enum_bpf_map_type :: ctype where
  "enum_bpf_map_type = CEnum 4 [
    (''BPF_MAP_TYPE_UNSPEC'', 0),
    (''BPF_MAP_TYPE_HASH'', 1),
    (''BPF_MAP_TYPE_ARRAY'', 2),
    (''BPF_MAP_TYPE_PROG_ARRAY'', 3),
    (''BPF_MAP_TYPE_PERF_EVENT_ARRAY'', 4),
    (''BPF_MAP_TYPE_PERCPU_HASH'', 5),
    (''BPF_MAP_TYPE_PERCPU_ARRAY'', 6),
    (''BPF_MAP_TYPE_STACK_TRACE'', 7),
    (''BPF_MAP_TYPE_CGROUP_ARRAY'', 8),
    (''BPF_MAP_TYPE_LRU_HASH'', 9),
    (''BPF_MAP_TYPE_LRU_PERCPU_HASH'', 10),
    (''BPF_MAP_TYPE_LPM_TRIE'', 11),
    (''BPF_MAP_TYPE_ARRAY_OF_MAPS'', 12),
    (''BPF_MAP_TYPE_HASH_OF_MAPS'', 13),
    (''BPF_MAP_TYPE_DEVMAP'', 14),
    (''BPF_MAP_TYPE_SOCKMAP'', 15),
    (''BPF_MAP_TYPE_CPUMAP'', 16),
    (''BPF_MAP_TYPE_XSKMAP'', 17),
    (''BPF_MAP_TYPE_SOCKHASH'', 18),
    (''BPF_MAP_TYPE_CGROUP_STORAGE_DEPRECATED'', 19),
    (''BPF_MAP_TYPE_CGROUP_STORAGE'', 19),
    (''BPF_MAP_TYPE_REUSEPORT_SOCKARRAY'', 20),
    (''BPF_MAP_TYPE_PERCPU_CGROUP_STORAGE_DEPRECATED'', 21),
    (''BPF_MAP_TYPE_PERCPU_CGROUP_STORAGE'', 21),
    (''BPF_MAP_TYPE_QUEUE'', 22),
    (''BPF_MAP_TYPE_STACK'', 23),
    (''BPF_MAP_TYPE_SK_STORAGE'', 24),
    (''BPF_MAP_TYPE_DEVMAP_HASH'', 25),
    (''BPF_MAP_TYPE_STRUCT_OPS'', 26),
    (''BPF_MAP_TYPE_RINGBUF'', 27),
    (''BPF_MAP_TYPE_INODE_STORAGE'', 28),
    (''BPF_MAP_TYPE_TASK_STORAGE'', 29),
    (''BPF_MAP_TYPE_BLOOM_FILTER'', 30),
    (''BPF_MAP_TYPE_USER_RINGBUF'', 31),
    (''BPF_MAP_TYPE_CGRP_STORAGE'', 32),
    (''BPF_MAP_TYPE_ARENA'', 33),
    (''__MAX_BPF_MAP_TYPE'', 34)]"

lemma lay_enum_bpf_map_type [layout_simps]:
  "sizeof enum_bpf_map_type = 4" "alignof enum_bpf_map_type = 4" "wf_ty enum_bpf_map_type" "unpacked enum_bpf_map_type"
  by (simp_all add: enum_bpf_map_type_def layout_simps layout_eval)

definition enum_bpf_func_id_part1 :: "(string \<times> int) list" where
  "enum_bpf_func_id_part1 = [
    (''BPF_FUNC_unspec'', 0),
    (''BPF_FUNC_map_lookup_elem'', 1),
    (''BPF_FUNC_map_update_elem'', 2),
    (''BPF_FUNC_map_delete_elem'', 3),
    (''BPF_FUNC_probe_read'', 4),
    (''BPF_FUNC_ktime_get_ns'', 5),
    (''BPF_FUNC_trace_printk'', 6),
    (''BPF_FUNC_get_prandom_u32'', 7),
    (''BPF_FUNC_get_smp_processor_id'', 8),
    (''BPF_FUNC_skb_store_bytes'', 9),
    (''BPF_FUNC_l3_csum_replace'', 10),
    (''BPF_FUNC_l4_csum_replace'', 11),
    (''BPF_FUNC_tail_call'', 12),
    (''BPF_FUNC_clone_redirect'', 13),
    (''BPF_FUNC_get_current_pid_tgid'', 14),
    (''BPF_FUNC_get_current_uid_gid'', 15),
    (''BPF_FUNC_get_current_comm'', 16),
    (''BPF_FUNC_get_cgroup_classid'', 17),
    (''BPF_FUNC_skb_vlan_push'', 18),
    (''BPF_FUNC_skb_vlan_pop'', 19),
    (''BPF_FUNC_skb_get_tunnel_key'', 20),
    (''BPF_FUNC_skb_set_tunnel_key'', 21),
    (''BPF_FUNC_perf_event_read'', 22),
    (''BPF_FUNC_redirect'', 23),
    (''BPF_FUNC_get_route_realm'', 24),
    (''BPF_FUNC_perf_event_output'', 25),
    (''BPF_FUNC_skb_load_bytes'', 26),
    (''BPF_FUNC_get_stackid'', 27),
    (''BPF_FUNC_csum_diff'', 28),
    (''BPF_FUNC_skb_get_tunnel_opt'', 29),
    (''BPF_FUNC_skb_set_tunnel_opt'', 30),
    (''BPF_FUNC_skb_change_proto'', 31),
    (''BPF_FUNC_skb_change_type'', 32),
    (''BPF_FUNC_skb_under_cgroup'', 33),
    (''BPF_FUNC_get_hash_recalc'', 34),
    (''BPF_FUNC_get_current_task'', 35),
    (''BPF_FUNC_probe_write_user'', 36),
    (''BPF_FUNC_current_task_under_cgroup'', 37),
    (''BPF_FUNC_skb_change_tail'', 38),
    (''BPF_FUNC_skb_pull_data'', 39),
    (''BPF_FUNC_csum_update'', 40),
    (''BPF_FUNC_set_hash_invalid'', 41),
    (''BPF_FUNC_get_numa_node_id'', 42),
    (''BPF_FUNC_skb_change_head'', 43),
    (''BPF_FUNC_xdp_adjust_head'', 44),
    (''BPF_FUNC_probe_read_str'', 45),
    (''BPF_FUNC_get_socket_cookie'', 46),
    (''BPF_FUNC_get_socket_uid'', 47),
    (''BPF_FUNC_set_hash'', 48),
    (''BPF_FUNC_setsockopt'', 49),
    (''BPF_FUNC_skb_adjust_room'', 50),
    (''BPF_FUNC_redirect_map'', 51),
    (''BPF_FUNC_sk_redirect_map'', 52),
    (''BPF_FUNC_sock_map_update'', 53),
    (''BPF_FUNC_xdp_adjust_meta'', 54),
    (''BPF_FUNC_perf_event_read_value'', 55),
    (''BPF_FUNC_perf_prog_read_value'', 56),
    (''BPF_FUNC_getsockopt'', 57),
    (''BPF_FUNC_override_return'', 58),
    (''BPF_FUNC_sock_ops_cb_flags_set'', 59),
    (''BPF_FUNC_msg_redirect_map'', 60),
    (''BPF_FUNC_msg_apply_bytes'', 61),
    (''BPF_FUNC_msg_cork_bytes'', 62),
    (''BPF_FUNC_msg_pull_data'', 63),
    (''BPF_FUNC_bind'', 64),
    (''BPF_FUNC_xdp_adjust_tail'', 65),
    (''BPF_FUNC_skb_get_xfrm_state'', 66),
    (''BPF_FUNC_get_stack'', 67),
    (''BPF_FUNC_skb_load_bytes_relative'', 68),
    (''BPF_FUNC_fib_lookup'', 69),
    (''BPF_FUNC_sock_hash_update'', 70),
    (''BPF_FUNC_msg_redirect_hash'', 71),
    (''BPF_FUNC_sk_redirect_hash'', 72),
    (''BPF_FUNC_lwt_push_encap'', 73),
    (''BPF_FUNC_lwt_seg6_store_bytes'', 74),
    (''BPF_FUNC_lwt_seg6_adjust_srh'', 75),
    (''BPF_FUNC_lwt_seg6_action'', 76),
    (''BPF_FUNC_rc_repeat'', 77),
    (''BPF_FUNC_rc_keydown'', 78),
    (''BPF_FUNC_skb_cgroup_id'', 79),
    (''BPF_FUNC_get_current_cgroup_id'', 80),
    (''BPF_FUNC_get_local_storage'', 81),
    (''BPF_FUNC_sk_select_reuseport'', 82),
    (''BPF_FUNC_skb_ancestor_cgroup_id'', 83),
    (''BPF_FUNC_sk_lookup_tcp'', 84),
    (''BPF_FUNC_sk_lookup_udp'', 85),
    (''BPF_FUNC_sk_release'', 86),
    (''BPF_FUNC_map_push_elem'', 87),
    (''BPF_FUNC_map_pop_elem'', 88),
    (''BPF_FUNC_map_peek_elem'', 89),
    (''BPF_FUNC_msg_push_data'', 90),
    (''BPF_FUNC_msg_pop_data'', 91),
    (''BPF_FUNC_rc_pointer_rel'', 92),
    (''BPF_FUNC_spin_lock'', 93),
    (''BPF_FUNC_spin_unlock'', 94),
    (''BPF_FUNC_sk_fullsock'', 95),
    (''BPF_FUNC_tcp_sock'', 96),
    (''BPF_FUNC_skb_ecn_set_ce'', 97),
    (''BPF_FUNC_get_listener_sock'', 98),
    (''BPF_FUNC_skc_lookup_tcp'', 99),
    (''BPF_FUNC_tcp_check_syncookie'', 100),
    (''BPF_FUNC_sysctl_get_name'', 101),
    (''BPF_FUNC_sysctl_get_current_value'', 102),
    (''BPF_FUNC_sysctl_get_new_value'', 103),
    (''BPF_FUNC_sysctl_set_new_value'', 104),
    (''BPF_FUNC_strtol'', 105)]"

definition enum_bpf_func_id_part2 :: "(string \<times> int) list" where
  "enum_bpf_func_id_part2 = [
    (''BPF_FUNC_strtoul'', 106),
    (''BPF_FUNC_sk_storage_get'', 107),
    (''BPF_FUNC_sk_storage_delete'', 108),
    (''BPF_FUNC_send_signal'', 109),
    (''BPF_FUNC_tcp_gen_syncookie'', 110),
    (''BPF_FUNC_skb_output'', 111),
    (''BPF_FUNC_probe_read_user'', 112),
    (''BPF_FUNC_probe_read_kernel'', 113),
    (''BPF_FUNC_probe_read_user_str'', 114),
    (''BPF_FUNC_probe_read_kernel_str'', 115),
    (''BPF_FUNC_tcp_send_ack'', 116),
    (''BPF_FUNC_send_signal_thread'', 117),
    (''BPF_FUNC_jiffies64'', 118),
    (''BPF_FUNC_read_branch_records'', 119),
    (''BPF_FUNC_get_ns_current_pid_tgid'', 120),
    (''BPF_FUNC_xdp_output'', 121),
    (''BPF_FUNC_get_netns_cookie'', 122),
    (''BPF_FUNC_get_current_ancestor_cgroup_id'', 123),
    (''BPF_FUNC_sk_assign'', 124),
    (''BPF_FUNC_ktime_get_boot_ns'', 125),
    (''BPF_FUNC_seq_printf'', 126),
    (''BPF_FUNC_seq_write'', 127),
    (''BPF_FUNC_sk_cgroup_id'', 128),
    (''BPF_FUNC_sk_ancestor_cgroup_id'', 129),
    (''BPF_FUNC_ringbuf_output'', 130),
    (''BPF_FUNC_ringbuf_reserve'', 131),
    (''BPF_FUNC_ringbuf_submit'', 132),
    (''BPF_FUNC_ringbuf_discard'', 133),
    (''BPF_FUNC_ringbuf_query'', 134),
    (''BPF_FUNC_csum_level'', 135),
    (''BPF_FUNC_skc_to_tcp6_sock'', 136),
    (''BPF_FUNC_skc_to_tcp_sock'', 137),
    (''BPF_FUNC_skc_to_tcp_timewait_sock'', 138),
    (''BPF_FUNC_skc_to_tcp_request_sock'', 139),
    (''BPF_FUNC_skc_to_udp6_sock'', 140),
    (''BPF_FUNC_get_task_stack'', 141),
    (''BPF_FUNC_load_hdr_opt'', 142),
    (''BPF_FUNC_store_hdr_opt'', 143),
    (''BPF_FUNC_reserve_hdr_opt'', 144),
    (''BPF_FUNC_inode_storage_get'', 145),
    (''BPF_FUNC_inode_storage_delete'', 146),
    (''BPF_FUNC_d_path'', 147),
    (''BPF_FUNC_copy_from_user'', 148),
    (''BPF_FUNC_snprintf_btf'', 149),
    (''BPF_FUNC_seq_printf_btf'', 150),
    (''BPF_FUNC_skb_cgroup_classid'', 151),
    (''BPF_FUNC_redirect_neigh'', 152),
    (''BPF_FUNC_per_cpu_ptr'', 153),
    (''BPF_FUNC_this_cpu_ptr'', 154),
    (''BPF_FUNC_redirect_peer'', 155),
    (''BPF_FUNC_task_storage_get'', 156),
    (''BPF_FUNC_task_storage_delete'', 157),
    (''BPF_FUNC_get_current_task_btf'', 158),
    (''BPF_FUNC_bprm_opts_set'', 159),
    (''BPF_FUNC_ktime_get_coarse_ns'', 160),
    (''BPF_FUNC_ima_inode_hash'', 161),
    (''BPF_FUNC_sock_from_file'', 162),
    (''BPF_FUNC_check_mtu'', 163),
    (''BPF_FUNC_for_each_map_elem'', 164),
    (''BPF_FUNC_snprintf'', 165),
    (''BPF_FUNC_sys_bpf'', 166),
    (''BPF_FUNC_btf_find_by_name_kind'', 167),
    (''BPF_FUNC_sys_close'', 168),
    (''BPF_FUNC_timer_init'', 169),
    (''BPF_FUNC_timer_set_callback'', 170),
    (''BPF_FUNC_timer_start'', 171),
    (''BPF_FUNC_timer_cancel'', 172),
    (''BPF_FUNC_get_func_ip'', 173),
    (''BPF_FUNC_get_attach_cookie'', 174),
    (''BPF_FUNC_task_pt_regs'', 175),
    (''BPF_FUNC_get_branch_snapshot'', 176),
    (''BPF_FUNC_trace_vprintk'', 177),
    (''BPF_FUNC_skc_to_unix_sock'', 178),
    (''BPF_FUNC_kallsyms_lookup_name'', 179),
    (''BPF_FUNC_find_vma'', 180),
    (''BPF_FUNC_loop'', 181),
    (''BPF_FUNC_strncmp'', 182),
    (''BPF_FUNC_get_func_arg'', 183),
    (''BPF_FUNC_get_func_ret'', 184),
    (''BPF_FUNC_get_func_arg_cnt'', 185),
    (''BPF_FUNC_get_retval'', 186),
    (''BPF_FUNC_set_retval'', 187),
    (''BPF_FUNC_xdp_get_buff_len'', 188),
    (''BPF_FUNC_xdp_load_bytes'', 189),
    (''BPF_FUNC_xdp_store_bytes'', 190),
    (''BPF_FUNC_copy_from_user_task'', 191),
    (''BPF_FUNC_skb_set_tstamp'', 192),
    (''BPF_FUNC_ima_file_hash'', 193),
    (''BPF_FUNC_kptr_xchg'', 194),
    (''BPF_FUNC_map_lookup_percpu_elem'', 195),
    (''BPF_FUNC_skc_to_mptcp_sock'', 196),
    (''BPF_FUNC_dynptr_from_mem'', 197),
    (''BPF_FUNC_ringbuf_reserve_dynptr'', 198),
    (''BPF_FUNC_ringbuf_submit_dynptr'', 199),
    (''BPF_FUNC_ringbuf_discard_dynptr'', 200),
    (''BPF_FUNC_dynptr_read'', 201),
    (''BPF_FUNC_dynptr_write'', 202),
    (''BPF_FUNC_dynptr_data'', 203),
    (''BPF_FUNC_tcp_raw_gen_syncookie_ipv4'', 204),
    (''BPF_FUNC_tcp_raw_gen_syncookie_ipv6'', 205),
    (''BPF_FUNC_tcp_raw_check_syncookie_ipv4'', 206),
    (''BPF_FUNC_tcp_raw_check_syncookie_ipv6'', 207),
    (''BPF_FUNC_ktime_get_tai_ns'', 208),
    (''BPF_FUNC_user_ringbuf_drain'', 209),
    (''BPF_FUNC_cgrp_storage_get'', 210),
    (''BPF_FUNC_cgrp_storage_delete'', 211),
    (''__BPF_FUNC_MAX_ID'', 212)]"

definition enum_bpf_func_id :: ctype where
  "enum_bpf_func_id = CEnum 4 (enum_bpf_func_id_part1 @ enum_bpf_func_id_part2)"

lemma lay_enum_bpf_func_id [layout_simps]:
  "sizeof enum_bpf_func_id = 4" "alignof enum_bpf_func_id = 4" "wf_ty enum_bpf_func_id" "unpacked enum_bpf_func_id"
  by (simp_all add: enum_bpf_func_id_def layout_simps layout_eval)

definition struct_bpf_map :: ctype where
  "struct_bpf_map = CStruct [
    Fld ''ops'' CPtr,
    Fld ''inner_map_meta'' CPtr,
    Fld ''security'' CPtr,
    Fld ''map_type'' enum_bpf_map_type,
    Fld ''key_size'' typedef_u32,
    Fld ''value_size'' typedef_u32,
    Fld ''max_entries'' typedef_u32,
    Fld ''map_extra'' typedef_u64,
    Fld ''map_flags'' typedef_u32,
    Fld ''id'' typedef_u32,
    Fld ''record'' CPtr,
    Fld ''numa_node'' c_int,
    Fld ''btf_key_type_id'' typedef_u32,
    Fld ''btf_value_type_id'' typedef_u32,
    Fld ''btf_vmlinux_value_type_id'' typedef_u32,
    Fld ''btf'' CPtr,
    Fld ''objcg'' CPtr,
    Fld ''name'' (CArr 16 c_char),
    Fld ''freeze_mutex'' struct_mutex,
    Fld ''refcnt'' typedef_atomic64_t,
    Fld ''usercnt'' typedef_atomic64_t,
    Fld [] (CUnion [
      Fld ''work'' struct_work_struct,
      Fld ''rcu'' struct_callback_head]),
    Fld ''writecnt'' typedef_atomic64_t,
    Fld ''owner_lock'' typedef_spinlock_t,
    Fld ''owner'' CPtr,
    Fld ''bypass_spec_v1'' typedef_bool,
    Fld ''frozen'' typedef_bool,
    Fld ''free_after_mult_rcu_gp'' typedef_bool,
    Fld ''free_after_rcu_gp'' typedef_bool,
    Fld ''sleepable_refcnt'' typedef_atomic64_t,
    Fld ''elem_count'' CPtr,
    Fld ''cookie'' typedef_u64]"

lemma lay_struct_bpf_map [layout_simps]:
  "sizeof struct_bpf_map = 248" "alignof struct_bpf_map = 8" "wf_ty struct_bpf_map" "unpacked struct_bpf_map"
  by (simp_all add: struct_bpf_map_def layout_simps layout_eval)

definition struct_bpf_mem_alloc :: ctype where
  "struct_bpf_mem_alloc = CStruct [
    Fld ''caches'' CPtr,
    Fld ''cache'' CPtr,
    Fld ''objcg'' CPtr,
    Fld ''percpu'' typedef_bool,
    Fld ''work'' struct_work_struct]"

lemma lay_struct_bpf_mem_alloc [layout_simps]:
  "sizeof struct_bpf_mem_alloc = 64" "alignof struct_bpf_mem_alloc = 8" "wf_ty struct_bpf_mem_alloc" "unpacked struct_bpf_mem_alloc"
  by (simp_all add: struct_bpf_mem_alloc_def layout_simps layout_eval)

definition struct_pcpu_freelist :: ctype where
  "struct_pcpu_freelist = CStruct [
    Fld ''freelist'' CPtr]"

lemma lay_struct_pcpu_freelist [layout_simps]:
  "sizeof struct_pcpu_freelist = 8" "alignof struct_pcpu_freelist = 8" "wf_ty struct_pcpu_freelist" "unpacked struct_pcpu_freelist"
  by (simp_all add: struct_pcpu_freelist_def layout_simps layout_eval)

definition struct_bpf_lru_list :: ctype where
  "struct_bpf_lru_list = CStruct [
    Fld ''lists'' (CArr 3 struct_list_head),
    Fld ''counts'' (CArr 2 c_uint),
    Fld ''next_inactive_rotation'' CPtr,
    Fld ''lock'' typedef_raw_spinlock_t,
    Bits [] c_long 64,
    Bits [] c_long 64,
    Bits [] c_long 64,
    Bits [] c_long 64,
    Bits [] c_long 64,
    Bits [] c_long 64,
    Bits [] c_long 64]"

lemma lay_struct_bpf_lru_list [layout_simps]:
  "sizeof struct_bpf_lru_list = 128" "alignof struct_bpf_lru_list = 8" "wf_ty struct_bpf_lru_list" "unpacked struct_bpf_lru_list"
  by (simp_all add: struct_bpf_lru_list_def layout_simps layout_eval)

definition struct_bpf_common_lru :: ctype where
  "struct_bpf_common_lru = CStruct [
    Fld ''lru_list'' struct_bpf_lru_list,
    Fld ''local_list'' CPtr,
    Bits [] c_long 64,
    Bits [] c_long 64,
    Bits [] c_long 64,
    Bits [] c_long 64,
    Bits [] c_long 64,
    Bits [] c_long 64,
    Bits [] c_long 64]"

lemma lay_struct_bpf_common_lru [layout_simps]:
  "sizeof struct_bpf_common_lru = 192" "alignof struct_bpf_common_lru = 8" "wf_ty struct_bpf_common_lru" "unpacked struct_bpf_common_lru"
  by (simp_all add: struct_bpf_common_lru_def layout_simps layout_eval)

definition typedef_del_from_htab_func :: ctype where
  [layout_simps]: "typedef_del_from_htab_func = CPtr"

definition struct_bpf_lru :: ctype where
  "struct_bpf_lru = CStruct [
    Fld [] (CUnion [
      Fld ''common_lru'' struct_bpf_common_lru,
      Fld ''percpu_lru'' CPtr]),
    Fld ''del_from_htab'' typedef_del_from_htab_func,
    Fld ''del_arg'' CPtr,
    Fld ''hash_offset'' c_uint,
    Fld ''target_free'' c_uint,
    Fld ''nr_scans'' c_uint,
    Fld ''percpu'' typedef_bool,
    Bits [] c_long 64,
    Bits [] c_long 64,
    Bits [] c_long 64,
    Bits [] c_long 64]"

lemma lay_struct_bpf_lru [layout_simps]:
  "sizeof struct_bpf_lru = 256" "alignof struct_bpf_lru = 8" "wf_ty struct_bpf_lru" "unpacked struct_bpf_lru"
  by (simp_all add: struct_bpf_lru_def layout_simps layout_eval)

definition struct_bpf_htab :: ctype where
  "struct_bpf_htab = CStruct [
    Fld ''map'' struct_bpf_map,
    Fld ''ma'' struct_bpf_mem_alloc,
    Fld ''pcpu_ma'' struct_bpf_mem_alloc,
    Fld ''buckets'' CPtr,
    Fld ''elems'' CPtr,
    Bits [] c_long 64,
    Bits [] c_long 64,
    Bits [] c_long 64,
    Bits [] c_long 64,
    Bits [] c_long 64,
    Bits [] c_long 64,
    Bits [] c_long 64,
    Fld [] (CUnion [
      Fld ''freelist'' struct_pcpu_freelist,
      Fld ''lru'' struct_bpf_lru]),
    Fld ''extra_elems'' CPtr,
    Fld ''pcount'' struct_percpu_counter,
    Fld ''count'' typedef_atomic_t,
    Fld ''use_percpu_counter'' typedef_bool,
    Fld ''n_buckets'' typedef_u32,
    Fld ''elem_size'' typedef_u32,
    Fld ''hashrnd'' typedef_u32,
    Bits [] c_long 64,
    Bits [] c_long 64,
    Bits [] c_long 64,
    Bits [] c_long 64,
    Bits [] c_long 64,
    Bits [] c_long 64,
    Bits [] c_long 64]"

lemma lay_struct_bpf_htab [layout_simps]:
  "sizeof struct_bpf_htab = 832" "alignof struct_bpf_htab = 8" "wf_ty struct_bpf_htab" "unpacked struct_bpf_htab"
  by (simp_all add: struct_bpf_htab_def layout_simps layout_eval)

definition struct_bpf_array :: ctype where
  "struct_bpf_array = CStruct [
    Fld ''map'' struct_bpf_map,
    Fld ''elem_size'' typedef_u32,
    Fld ''index_mask'' typedef_u32,
    Fld ''aux'' CPtr,
    Fld [] (CUnion [
      Fld [] (CStruct [
        Fld ''__empty_value'' (CStruct []),
        Fld ''value'' (CArr 0 c_char)]),
      Fld [] (CStruct [
        Fld ''__empty_ptrs'' (CStruct []),
        Fld ''ptrs'' (CArr 0 CPtr)]),
      Fld [] (CStruct [
        Fld ''__empty_pptrs'' (CStruct []),
        Fld ''pptrs'' (CArr 0 CPtr)])])]"

lemma lay_struct_bpf_array [layout_simps]:
  "sizeof struct_bpf_array = 264" "alignof struct_bpf_array = 8" "wf_ty struct_bpf_array" "unpacked struct_bpf_array"
  by (simp_all add: struct_bpf_array_def layout_simps layout_eval)

definition struct_irq_work :: ctype where
  "struct_irq_work = CStruct [
    Fld ''node'' struct___call_single_node,
    Fld ''func'' CPtr,
    Fld ''irqwait'' struct_rcuwait]"

lemma lay_struct_irq_work [layout_simps]:
  "sizeof struct_irq_work = 32" "alignof struct_irq_work = 8" "wf_ty struct_irq_work" "unpacked struct_irq_work"
  by (simp_all add: struct_irq_work_def layout_simps layout_eval)

definition typedef_rqspinlock_t :: ctype where
  [layout_simps]: "typedef_rqspinlock_t = struct_qspinlock"

definition struct_bpf_ringbuf :: ctype where
  "struct_bpf_ringbuf = CStruct ([
    Fld ''waitq'' typedef_wait_queue_head_t,
    Fld ''work'' struct_irq_work,
    Fld ''mask'' typedef_u64,
    Fld ''pages'' CPtr,
    Fld ''nr_pages'' c_int,
    Bits [] c_long 64,
    Bits [] c_long 64,
    Bits [] c_long 64,
    Bits [] c_long 64,
    Bits [] c_long 64,
    Bits [] c_long 64,
    Fld ''spinlock'' typedef_rqspinlock_t,
    Bits [] c_long 64,
    Bits [] c_long 64,
    Bits [] c_long 64,
    Bits [] c_long 64,
    Bits [] c_long 64,
    Bits [] c_long 64,
    Bits [] c_long 64,
    Fld ''busy'' typedef_atomic_t]
    @ replicate 487 (Bits [] c_long 64)
    @ [
    Fld ''consumer_pos'' c_ulong]
    @ replicate 511 (Bits [] c_long 64)
    @ [
    Fld ''producer_pos'' c_ulong,
    Fld ''pending_pos'' c_ulong]
    @ replicate 510 (Bits [] c_long 64)
    @ [
    Fld ''data'' (CArr 0 c_char)])"

lemma lay_struct_bpf_ringbuf [layout_simps]:
  "sizeof struct_bpf_ringbuf = 12288" "alignof struct_bpf_ringbuf = 8" "wf_ty struct_bpf_ringbuf" "unpacked struct_bpf_ringbuf"
  by (simp_all add: struct_bpf_ringbuf_def end_of_padding wf_ms_append align_ms_append unpacked_ms_append wf_ms_padding align_ms_padding unpacked_ms_padding layout_simps layout_eval)

definition struct_bpf_ringbuf_map :: ctype where
  "struct_bpf_ringbuf_map = CStruct [
    Fld ''map'' struct_bpf_map,
    Fld ''rb'' CPtr]"

lemma lay_struct_bpf_ringbuf_map [layout_simps]:
  "sizeof struct_bpf_ringbuf_map = 256" "alignof struct_bpf_ringbuf_map = 8" "wf_ty struct_bpf_ringbuf_map" "unpacked struct_bpf_ringbuf_map"
  by (simp_all add: struct_bpf_ringbuf_map_def layout_simps layout_eval)

definition enum_bpf_prog_type :: ctype where
  "enum_bpf_prog_type = CEnum 4 [
    (''BPF_PROG_TYPE_UNSPEC'', 0),
    (''BPF_PROG_TYPE_SOCKET_FILTER'', 1),
    (''BPF_PROG_TYPE_KPROBE'', 2),
    (''BPF_PROG_TYPE_SCHED_CLS'', 3),
    (''BPF_PROG_TYPE_SCHED_ACT'', 4),
    (''BPF_PROG_TYPE_TRACEPOINT'', 5),
    (''BPF_PROG_TYPE_XDP'', 6),
    (''BPF_PROG_TYPE_PERF_EVENT'', 7),
    (''BPF_PROG_TYPE_CGROUP_SKB'', 8),
    (''BPF_PROG_TYPE_CGROUP_SOCK'', 9),
    (''BPF_PROG_TYPE_LWT_IN'', 10),
    (''BPF_PROG_TYPE_LWT_OUT'', 11),
    (''BPF_PROG_TYPE_LWT_XMIT'', 12),
    (''BPF_PROG_TYPE_SOCK_OPS'', 13),
    (''BPF_PROG_TYPE_SK_SKB'', 14),
    (''BPF_PROG_TYPE_CGROUP_DEVICE'', 15),
    (''BPF_PROG_TYPE_SK_MSG'', 16),
    (''BPF_PROG_TYPE_RAW_TRACEPOINT'', 17),
    (''BPF_PROG_TYPE_CGROUP_SOCK_ADDR'', 18),
    (''BPF_PROG_TYPE_LWT_SEG6LOCAL'', 19),
    (''BPF_PROG_TYPE_LIRC_MODE2'', 20),
    (''BPF_PROG_TYPE_SK_REUSEPORT'', 21),
    (''BPF_PROG_TYPE_FLOW_DISSECTOR'', 22),
    (''BPF_PROG_TYPE_CGROUP_SYSCTL'', 23),
    (''BPF_PROG_TYPE_RAW_TRACEPOINT_WRITABLE'', 24),
    (''BPF_PROG_TYPE_CGROUP_SOCKOPT'', 25),
    (''BPF_PROG_TYPE_TRACING'', 26),
    (''BPF_PROG_TYPE_STRUCT_OPS'', 27),
    (''BPF_PROG_TYPE_EXT'', 28),
    (''BPF_PROG_TYPE_LSM'', 29),
    (''BPF_PROG_TYPE_SK_LOOKUP'', 30),
    (''BPF_PROG_TYPE_SYSCALL'', 31),
    (''BPF_PROG_TYPE_NETFILTER'', 32),
    (''__MAX_BPF_PROG_TYPE'', 33)]"

lemma lay_enum_bpf_prog_type [layout_simps]:
  "sizeof enum_bpf_prog_type = 4" "alignof enum_bpf_prog_type = 4" "wf_ty enum_bpf_prog_type" "unpacked enum_bpf_prog_type"
  by (simp_all add: enum_bpf_prog_type_def layout_simps layout_eval)

definition enum_bpf_attach_type :: ctype where
  "enum_bpf_attach_type = CEnum 4 [
    (''BPF_CGROUP_INET_INGRESS'', 0),
    (''BPF_CGROUP_INET_EGRESS'', 1),
    (''BPF_CGROUP_INET_SOCK_CREATE'', 2),
    (''BPF_CGROUP_SOCK_OPS'', 3),
    (''BPF_SK_SKB_STREAM_PARSER'', 4),
    (''BPF_SK_SKB_STREAM_VERDICT'', 5),
    (''BPF_CGROUP_DEVICE'', 6),
    (''BPF_SK_MSG_VERDICT'', 7),
    (''BPF_CGROUP_INET4_BIND'', 8),
    (''BPF_CGROUP_INET6_BIND'', 9),
    (''BPF_CGROUP_INET4_CONNECT'', 10),
    (''BPF_CGROUP_INET6_CONNECT'', 11),
    (''BPF_CGROUP_INET4_POST_BIND'', 12),
    (''BPF_CGROUP_INET6_POST_BIND'', 13),
    (''BPF_CGROUP_UDP4_SENDMSG'', 14),
    (''BPF_CGROUP_UDP6_SENDMSG'', 15),
    (''BPF_LIRC_MODE2'', 16),
    (''BPF_FLOW_DISSECTOR'', 17),
    (''BPF_CGROUP_SYSCTL'', 18),
    (''BPF_CGROUP_UDP4_RECVMSG'', 19),
    (''BPF_CGROUP_UDP6_RECVMSG'', 20),
    (''BPF_CGROUP_GETSOCKOPT'', 21),
    (''BPF_CGROUP_SETSOCKOPT'', 22),
    (''BPF_TRACE_RAW_TP'', 23),
    (''BPF_TRACE_FENTRY'', 24),
    (''BPF_TRACE_FEXIT'', 25),
    (''BPF_MODIFY_RETURN'', 26),
    (''BPF_LSM_MAC'', 27),
    (''BPF_TRACE_ITER'', 28),
    (''BPF_CGROUP_INET4_GETPEERNAME'', 29),
    (''BPF_CGROUP_INET6_GETPEERNAME'', 30),
    (''BPF_CGROUP_INET4_GETSOCKNAME'', 31),
    (''BPF_CGROUP_INET6_GETSOCKNAME'', 32),
    (''BPF_XDP_DEVMAP'', 33),
    (''BPF_CGROUP_INET_SOCK_RELEASE'', 34),
    (''BPF_XDP_CPUMAP'', 35),
    (''BPF_SK_LOOKUP'', 36),
    (''BPF_XDP'', 37),
    (''BPF_SK_SKB_VERDICT'', 38),
    (''BPF_SK_REUSEPORT_SELECT'', 39),
    (''BPF_SK_REUSEPORT_SELECT_OR_MIGRATE'', 40),
    (''BPF_PERF_EVENT'', 41),
    (''BPF_TRACE_KPROBE_MULTI'', 42),
    (''BPF_LSM_CGROUP'', 43),
    (''BPF_STRUCT_OPS'', 44),
    (''BPF_NETFILTER'', 45),
    (''BPF_TCX_INGRESS'', 46),
    (''BPF_TCX_EGRESS'', 47),
    (''BPF_TRACE_UPROBE_MULTI'', 48),
    (''BPF_CGROUP_UNIX_CONNECT'', 49),
    (''BPF_CGROUP_UNIX_SENDMSG'', 50),
    (''BPF_CGROUP_UNIX_RECVMSG'', 51),
    (''BPF_CGROUP_UNIX_GETPEERNAME'', 52),
    (''BPF_CGROUP_UNIX_GETSOCKNAME'', 53),
    (''BPF_NETKIT_PRIMARY'', 54),
    (''BPF_NETKIT_PEER'', 55),
    (''BPF_TRACE_KPROBE_SESSION'', 56),
    (''BPF_TRACE_UPROBE_SESSION'', 57),
    (''__MAX_BPF_ATTACH_TYPE'', 58)]"

lemma lay_enum_bpf_attach_type [layout_simps]:
  "sizeof enum_bpf_attach_type = 4" "alignof enum_bpf_attach_type = 4" "wf_ty enum_bpf_attach_type" "unpacked enum_bpf_attach_type"
  by (simp_all add: enum_bpf_attach_type_def layout_simps layout_eval)

definition struct_sock_filter :: ctype where
  "struct_sock_filter = CStruct [
    Fld ''code'' typedef___u16,
    Fld ''jt'' typedef___u8,
    Fld ''jf'' typedef___u8,
    Fld ''k'' typedef___u32]"

lemma lay_struct_sock_filter [layout_simps]:
  "sizeof struct_sock_filter = 8" "alignof struct_sock_filter = 4" "wf_ty struct_sock_filter" "unpacked struct_sock_filter"
  by (simp_all add: struct_sock_filter_def layout_simps layout_eval)

definition struct_bpf_insn :: ctype where
  "struct_bpf_insn = CStruct [
    Fld ''code'' typedef___u8,
    Bits ''dst_reg'' typedef___u8 4,
    Bits ''src_reg'' typedef___u8 4,
    Fld ''off'' typedef___s16,
    Fld ''imm'' typedef___s32]"

lemma lay_struct_bpf_insn [layout_simps]:
  "sizeof struct_bpf_insn = 8" "alignof struct_bpf_insn = 4" "wf_ty struct_bpf_insn" "unpacked struct_bpf_insn"
  by (simp_all add: struct_bpf_insn_def layout_simps layout_eval)

definition struct_bpf_prog :: ctype where
  "struct_bpf_prog = CStruct [
    Fld ''pages'' typedef_u16,
    Bits ''jited'' typedef_u16 1,
    Bits ''jit_requested'' typedef_u16 1,
    Bits ''gpl_compatible'' typedef_u16 1,
    Bits ''cb_access'' typedef_u16 1,
    Bits ''dst_needed'' typedef_u16 1,
    Bits ''blinding_requested'' typedef_u16 1,
    Bits ''blinded'' typedef_u16 1,
    Bits ''is_func'' typedef_u16 1,
    Bits ''kprobe_override'' typedef_u16 1,
    Bits ''has_callchain_buf'' typedef_u16 1,
    Bits ''enforce_expected_attach_type'' typedef_u16 1,
    Bits ''call_get_stack'' typedef_u16 1,
    Bits ''call_get_func_ip'' typedef_u16 1,
    Bits ''tstamp_type_access'' typedef_u16 1,
    Bits ''sleepable'' typedef_u16 1,
    Fld ''type'' enum_bpf_prog_type,
    Fld ''expected_attach_type'' enum_bpf_attach_type,
    Fld ''len'' typedef_u32,
    Fld ''jited_len'' typedef_u32,
    Fld ''tag'' (CArr 8 typedef_u8),
    Fld ''stats'' CPtr,
    Fld ''active'' CPtr,
    Fld ''bpf_func'' CPtr,
    Fld ''aux'' CPtr,
    Fld ''orig_prog'' CPtr,
    Fld [] (CUnion [
      Fld [] (CStruct [
        Fld ''__empty_insns'' (CStruct []),
        Fld ''insns'' (CArr 0 struct_sock_filter)]),
      Fld [] (CStruct [
        Fld ''__empty_insnsi'' (CStruct []),
        Fld ''insnsi'' (CArr 0 struct_bpf_insn)])])]"

lemma lay_struct_bpf_prog [layout_simps]:
  "sizeof struct_bpf_prog = 72" "alignof struct_bpf_prog = 8" "wf_ty struct_bpf_prog" "unpacked struct_bpf_prog"
  by (simp_all add: struct_bpf_prog_def layout_simps layout_eval)

definition struct_latch_tree_node :: ctype where
  "struct_latch_tree_node = CStruct [
    Fld ''node'' (CArr 2 struct_rb_node)]"

lemma lay_struct_latch_tree_node [layout_simps]:
  "sizeof struct_latch_tree_node = 48" "alignof struct_latch_tree_node = 8" "wf_ty struct_latch_tree_node" "unpacked struct_latch_tree_node"
  by (simp_all add: struct_latch_tree_node_def layout_simps layout_eval)

definition struct_bpf_ksym :: ctype where
  "struct_bpf_ksym = CStruct [
    Fld ''start'' c_ulong,
    Fld ''end'' c_ulong,
    Fld ''name'' (CArr 512 c_char),
    Fld ''lnode'' struct_list_head,
    Fld ''tnode'' struct_latch_tree_node,
    Fld ''prog'' typedef_bool]"

lemma lay_struct_bpf_ksym [layout_simps]:
  "sizeof struct_bpf_ksym = 600" "alignof struct_bpf_ksym = 8" "wf_ty struct_bpf_ksym" "unpacked struct_bpf_ksym"
  by (simp_all add: struct_bpf_ksym_def layout_simps layout_eval)

definition struct_bpf_stream :: ctype where
  "struct_bpf_stream = CStruct [
    Fld ''capacity'' typedef_atomic_t,
    Fld ''log'' struct_llist_head,
    Fld ''lock'' struct_mutex,
    Fld ''backlog_head'' CPtr,
    Fld ''backlog_tail'' CPtr]"

lemma lay_struct_bpf_stream [layout_simps]:
  "sizeof struct_bpf_stream = 64" "alignof struct_bpf_stream = 8" "wf_ty struct_bpf_stream" "unpacked struct_bpf_stream"
  by (simp_all add: struct_bpf_stream_def layout_simps layout_eval)

definition struct_bpf_prog_aux :: ctype where
  "struct_bpf_prog_aux = CStruct [
    Fld ''refcnt'' typedef_atomic64_t,
    Fld ''used_map_cnt'' typedef_u32,
    Fld ''used_btf_cnt'' typedef_u32,
    Fld ''max_ctx_offset'' typedef_u32,
    Fld ''max_pkt_offset'' typedef_u32,
    Fld ''max_tp_access'' typedef_u32,
    Fld ''stack_depth'' typedef_u32,
    Fld ''id'' typedef_u32,
    Fld ''func_cnt'' typedef_u32,
    Fld ''real_func_cnt'' typedef_u32,
    Fld ''func_idx'' typedef_u32,
    Fld ''attach_btf_id'' typedef_u32,
    Fld ''attach_st_ops_member_off'' typedef_u32,
    Fld ''ctx_arg_info_size'' typedef_u32,
    Fld ''max_rdonly_access'' typedef_u32,
    Fld ''max_rdwr_access'' typedef_u32,
    Fld ''attach_btf'' CPtr,
    Fld ''ctx_arg_info'' CPtr,
    Fld ''priv_stack_ptr'' CPtr,
    Fld ''dst_mutex'' struct_mutex,
    Fld ''dst_prog'' CPtr,
    Fld ''dst_trampoline'' CPtr,
    Fld ''saved_dst_prog_type'' enum_bpf_prog_type,
    Fld ''saved_dst_attach_type'' enum_bpf_attach_type,
    Fld ''verifier_zext'' typedef_bool,
    Fld ''dev_bound'' typedef_bool,
    Fld ''offload_requested'' typedef_bool,
    Fld ''attach_btf_trace'' typedef_bool,
    Fld ''attach_tracing_prog'' typedef_bool,
    Fld ''func_proto_unreliable'' typedef_bool,
    Fld ''tail_call_reachable'' typedef_bool,
    Fld ''xdp_has_frags'' typedef_bool,
    Fld ''exception_cb'' typedef_bool,
    Fld ''exception_boundary'' typedef_bool,
    Fld ''is_extended'' typedef_bool,
    Fld ''jits_use_priv_stack'' typedef_bool,
    Fld ''priv_stack_requested'' typedef_bool,
    Fld ''changes_pkt_data'' typedef_bool,
    Fld ''might_sleep'' typedef_bool,
    Fld ''prog_array_member_cnt'' typedef_u64,
    Fld ''ext_mutex'' struct_mutex,
    Fld ''arena'' CPtr,
    Fld ''recursion_detected'' CPtr,
    Fld ''attach_func_proto'' CPtr,
    Fld ''attach_func_name'' CPtr,
    Fld ''func'' CPtr,
    Fld ''jit_data'' CPtr,
    Fld ''poke_tab'' CPtr,
    Fld ''kfunc_tab'' CPtr,
    Fld ''kfunc_btf_tab'' CPtr,
    Fld ''size_poke_tab'' typedef_u32,
    Fld ''ksym'' struct_bpf_ksym,
    Fld ''ops'' CPtr,
    Fld ''st_ops'' CPtr,
    Fld ''used_maps'' CPtr,
    Fld ''used_maps_mutex'' struct_mutex,
    Fld ''used_btfs'' CPtr,
    Fld ''prog'' CPtr,
    Fld ''user'' CPtr,
    Fld ''load_time'' typedef_u64,
    Fld ''verified_insns'' typedef_u32,
    Fld ''cgroup_atype'' c_int,
    Fld ''cgroup_storage'' (CArr 2 CPtr),
    Fld ''name'' (CArr 16 c_char),
    Fld ''bpf_exception_cb'' CPtr,
    Fld ''security'' CPtr,
    Fld ''token'' CPtr,
    Fld ''offload'' CPtr,
    Fld ''btf'' CPtr,
    Fld ''func_info'' CPtr,
    Fld ''func_info_aux'' CPtr,
    Fld ''linfo'' CPtr,
    Fld ''jited_linfo'' CPtr,
    Fld ''func_info_cnt'' typedef_u32,
    Fld ''nr_linfo'' typedef_u32,
    Fld ''linfo_idx'' typedef_u32,
    Fld ''mod'' CPtr,
    Fld ''num_exentries'' typedef_u32,
    Fld ''extable'' CPtr,
    Fld [] (CUnion [
      Fld ''work'' struct_work_struct,
      Fld ''rcu'' struct_callback_head]),
    Fld ''stream'' (CArr 2 struct_bpf_stream)]"

lemma lay_struct_bpf_prog_aux [layout_simps]:
  "sizeof struct_bpf_prog_aux = 1288" "alignof struct_bpf_prog_aux = 8" "wf_ty struct_bpf_prog_aux" "unpacked struct_bpf_prog_aux"
  by (simp_all add: struct_bpf_prog_aux_def layout_simps layout_eval)

end
