(* ===== verification/Vmlinux_Dev.thy ===== *)
theory Vmlinux_Dev
  imports Vmlinux_Bpf
begin

text \<open>
  The kernel objects behind the network programs: the device an XDP program is attached to with its receive queues, the packet buffers, and the sockets and messages behind \<open>sendto\<close>.
  Each definition transcribes one declaration of \<open>src-bpf/vmlinux.h\<close>; the lemma after it
  evaluates its size and alignment and checks that it is well-formed.
\<close>

definition typedef___wsum :: ctype where
  [layout_simps]: "typedef___wsum = typedef___u32"

definition typedef_sk_buff_data_t :: ctype where
  [layout_simps]: "typedef_sk_buff_data_t = c_uint"

definition struct_sk_buff :: ctype where
  "struct_sk_buff = CStruct [
    Fld [] (CUnion [
      Fld [] (CStruct [
        Fld ''next'' CPtr,
        Fld ''prev'' CPtr,
        Fld [] (CUnion [
          Fld ''dev'' CPtr,
          Fld ''dev_scratch'' c_ulong])]),
      Fld ''rbnode'' struct_rb_node,
      Fld ''list'' struct_list_head,
      Fld ''ll_node'' struct_llist_node]),
    Fld ''sk'' CPtr,
    Fld [] (CUnion [
      Fld ''tstamp'' typedef_ktime_t,
      Fld ''skb_mstamp_ns'' typedef_u64]),
    Fld ''cb'' (CArr 48 c_char),
    Fld [] (CUnion [
      Fld [] (CStruct [
        Fld ''_skb_refdst'' c_ulong,
        Fld ''destructor'' CPtr]),
      Fld ''tcp_tsorted_anchor'' struct_list_head,
      Fld ''_sk_redir'' c_ulong]),
    Fld ''_nfct'' c_ulong,
    Fld ''len'' c_uint,
    Fld ''data_len'' c_uint,
    Fld ''mac_len'' typedef___u16,
    Fld ''hdr_len'' typedef___u16,
    Fld ''queue_mapping'' typedef___u16,
    Fld ''__cloned_offset'' (CArr 0 typedef___u8),
    Bits ''cloned'' typedef___u8 1,
    Bits ''nohdr'' typedef___u8 1,
    Bits ''fclone'' typedef___u8 2,
    Bits ''peeked'' typedef___u8 1,
    Bits ''head_frag'' typedef___u8 1,
    Bits ''pfmemalloc'' typedef___u8 1,
    Bits ''pp_recycle'' typedef___u8 1,
    Fld ''active_extensions'' typedef___u8,
    Fld [] (CUnion [
      Fld [] (CStruct [
        Fld ''__pkt_type_offset'' (CArr 0 typedef___u8),
        Bits ''pkt_type'' typedef___u8 3,
        Bits ''ignore_df'' typedef___u8 1,
        Bits ''dst_pending_confirm'' typedef___u8 1,
        Bits ''ip_summed'' typedef___u8 2,
        Bits ''ooo_okay'' typedef___u8 1,
        Fld ''__mono_tc_offset'' (CArr 0 typedef___u8),
        Bits ''tstamp_type'' typedef___u8 2,
        Bits ''tc_at_ingress'' typedef___u8 1,
        Bits ''tc_skip_classify'' typedef___u8 1,
        Bits ''remcsum_offload'' typedef___u8 1,
        Bits ''csum_complete_sw'' typedef___u8 1,
        Bits ''csum_level'' typedef___u8 2,
        Bits ''inner_protocol_type'' typedef___u8 1,
        Bits ''l4_hash'' typedef___u8 1,
        Bits ''sw_hash'' typedef___u8 1,
        Bits ''wifi_acked_valid'' typedef___u8 1,
        Bits ''wifi_acked'' typedef___u8 1,
        Bits ''no_fcs'' typedef___u8 1,
        Bits ''encapsulation'' typedef___u8 1,
        Bits ''encap_hdr_csum'' typedef___u8 1,
        Bits ''csum_valid'' typedef___u8 1,
        Bits ''ndisc_nodetype'' typedef___u8 2,
        Bits ''ipvs_property'' typedef___u8 1,
        Bits ''nf_trace'' typedef___u8 1,
        Bits ''offload_fwd_mark'' typedef___u8 1,
        Bits ''offload_l3_fwd_mark'' typedef___u8 1,
        Bits ''redirected'' typedef___u8 1,
        Bits ''from_ingress'' typedef___u8 1,
        Bits ''nf_skip_egress'' typedef___u8 1,
        Bits ''decrypted'' typedef___u8 1,
        Bits ''slow_gro'' typedef___u8 1,
        Bits ''csum_not_inet'' typedef___u8 1,
        Bits ''unreadable'' typedef___u8 1,
        Fld ''tc_index'' typedef___u16,
        Fld ''alloc_cpu'' typedef_u16,
        Fld [] (CUnion [
          Fld ''csum'' typedef___wsum,
          Fld [] (CStruct [
            Fld ''csum_start'' typedef___u16,
            Fld ''csum_offset'' typedef___u16])]),
        Fld ''priority'' typedef___u32,
        Fld ''skb_iif'' c_int,
        Fld ''hash'' typedef___u32,
        Fld [] (CUnion [
          Fld ''vlan_all'' typedef_u32,
          Fld [] (CStruct [
            Fld ''vlan_proto'' typedef___be16,
            Fld ''vlan_tci'' typedef___u16])]),
        Fld [] (CUnion [
          Fld ''napi_id'' c_uint,
          Fld ''sender_cpu'' c_uint]),
        Fld ''secmark'' typedef___u32,
        Fld [] (CUnion [
          Fld ''mark'' typedef___u32,
          Fld ''reserved_tailroom'' typedef___u32]),
        Fld [] (CUnion [
          Fld ''inner_protocol'' typedef___be16,
          Fld ''inner_ipproto'' typedef___u8]),
        Fld ''inner_transport_header'' typedef___u16,
        Fld ''inner_network_header'' typedef___u16,
        Fld ''inner_mac_header'' typedef___u16,
        Fld ''protocol'' typedef___be16,
        Fld ''transport_header'' typedef___u16,
        Fld ''network_header'' typedef___u16,
        Fld ''mac_header'' typedef___u16]),
      Fld ''headers'' (CStruct [
        Fld ''__pkt_type_offset'' (CArr 0 typedef___u8),
        Bits ''pkt_type'' typedef___u8 3,
        Bits ''ignore_df'' typedef___u8 1,
        Bits ''dst_pending_confirm'' typedef___u8 1,
        Bits ''ip_summed'' typedef___u8 2,
        Bits ''ooo_okay'' typedef___u8 1,
        Fld ''__mono_tc_offset'' (CArr 0 typedef___u8),
        Bits ''tstamp_type'' typedef___u8 2,
        Bits ''tc_at_ingress'' typedef___u8 1,
        Bits ''tc_skip_classify'' typedef___u8 1,
        Bits ''remcsum_offload'' typedef___u8 1,
        Bits ''csum_complete_sw'' typedef___u8 1,
        Bits ''csum_level'' typedef___u8 2,
        Bits ''inner_protocol_type'' typedef___u8 1,
        Bits ''l4_hash'' typedef___u8 1,
        Bits ''sw_hash'' typedef___u8 1,
        Bits ''wifi_acked_valid'' typedef___u8 1,
        Bits ''wifi_acked'' typedef___u8 1,
        Bits ''no_fcs'' typedef___u8 1,
        Bits ''encapsulation'' typedef___u8 1,
        Bits ''encap_hdr_csum'' typedef___u8 1,
        Bits ''csum_valid'' typedef___u8 1,
        Bits ''ndisc_nodetype'' typedef___u8 2,
        Bits ''ipvs_property'' typedef___u8 1,
        Bits ''nf_trace'' typedef___u8 1,
        Bits ''offload_fwd_mark'' typedef___u8 1,
        Bits ''offload_l3_fwd_mark'' typedef___u8 1,
        Bits ''redirected'' typedef___u8 1,
        Bits ''from_ingress'' typedef___u8 1,
        Bits ''nf_skip_egress'' typedef___u8 1,
        Bits ''decrypted'' typedef___u8 1,
        Bits ''slow_gro'' typedef___u8 1,
        Bits ''csum_not_inet'' typedef___u8 1,
        Bits ''unreadable'' typedef___u8 1,
        Fld ''tc_index'' typedef___u16,
        Fld ''alloc_cpu'' typedef_u16,
        Fld [] (CUnion [
          Fld ''csum'' typedef___wsum,
          Fld [] (CStruct [
            Fld ''csum_start'' typedef___u16,
            Fld ''csum_offset'' typedef___u16])]),
        Fld ''priority'' typedef___u32,
        Fld ''skb_iif'' c_int,
        Fld ''hash'' typedef___u32,
        Fld [] (CUnion [
          Fld ''vlan_all'' typedef_u32,
          Fld [] (CStruct [
            Fld ''vlan_proto'' typedef___be16,
            Fld ''vlan_tci'' typedef___u16])]),
        Fld [] (CUnion [
          Fld ''napi_id'' c_uint,
          Fld ''sender_cpu'' c_uint]),
        Fld ''secmark'' typedef___u32,
        Fld [] (CUnion [
          Fld ''mark'' typedef___u32,
          Fld ''reserved_tailroom'' typedef___u32]),
        Fld [] (CUnion [
          Fld ''inner_protocol'' typedef___be16,
          Fld ''inner_ipproto'' typedef___u8]),
        Fld ''inner_transport_header'' typedef___u16,
        Fld ''inner_network_header'' typedef___u16,
        Fld ''inner_mac_header'' typedef___u16,
        Fld ''protocol'' typedef___be16,
        Fld ''transport_header'' typedef___u16,
        Fld ''network_header'' typedef___u16,
        Fld ''mac_header'' typedef___u16])]),
    Fld ''tail'' typedef_sk_buff_data_t,
    Fld ''end'' typedef_sk_buff_data_t,
    Fld ''head'' CPtr,
    Fld ''data'' CPtr,
    Fld ''truesize'' c_uint,
    Fld ''users'' typedef_refcount_t,
    Fld ''extensions'' CPtr]"

lemma lay_struct_sk_buff [layout_simps]:
  "sizeof struct_sk_buff = 232" "alignof struct_sk_buff = 8" "wf_ty struct_sk_buff" "unpacked struct_sk_buff"
  by (simp_all add: struct_sk_buff_def layout_simps layout_eval)

definition struct_xdp_mem_info :: ctype where
  "struct_xdp_mem_info = CStruct [
    Fld ''type'' typedef_u32,
    Fld ''id'' typedef_u32]"

lemma lay_struct_xdp_mem_info [layout_simps]:
  "sizeof struct_xdp_mem_info = 8" "alignof struct_xdp_mem_info = 4" "wf_ty struct_xdp_mem_info" "unpacked struct_xdp_mem_info"
  by (simp_all add: struct_xdp_mem_info_def layout_simps layout_eval)

definition struct_xdp_rxq_info :: ctype where
  "struct_xdp_rxq_info = CStruct [
    Fld ''dev'' CPtr,
    Fld ''queue_index'' typedef_u32,
    Fld ''reg_state'' typedef_u32,
    Fld ''mem'' struct_xdp_mem_info,
    Fld ''frag_size'' typedef_u32,
    Bits [] c_long 64,
    Bits [] c_long 64,
    Bits [] c_long 64,
    Bits [] c_long 64]"

lemma lay_struct_xdp_rxq_info [layout_simps]:
  "sizeof struct_xdp_rxq_info = 64" "alignof struct_xdp_rxq_info = 8" "wf_ty struct_xdp_rxq_info" "unpacked struct_xdp_rxq_info"
  by (simp_all add: struct_xdp_rxq_info_def layout_simps layout_eval)

definition enum_xdp_mem_type :: ctype where
  "enum_xdp_mem_type = CEnum 4 [
    (''MEM_TYPE_PAGE_SHARED'', 0),
    (''MEM_TYPE_PAGE_ORDER0'', 1),
    (''MEM_TYPE_PAGE_POOL'', 2),
    (''MEM_TYPE_XSK_BUFF_POOL'', 3),
    (''MEM_TYPE_MAX'', 4)]"

lemma lay_enum_xdp_mem_type [layout_simps]:
  "sizeof enum_xdp_mem_type = 4" "alignof enum_xdp_mem_type = 4" "wf_ty enum_xdp_mem_type" "unpacked enum_xdp_mem_type" "is_int enum_xdp_mem_type"
  by (simp_all add: enum_xdp_mem_type_def layout_simps layout_eval)

definition struct_xdp_frame :: ctype where
  "struct_xdp_frame = CStruct [
    Fld ''data'' CPtr,
    Fld ''len'' typedef_u32,
    Fld ''headroom'' typedef_u32,
    Fld ''metasize'' typedef_u32,
    Bits ''mem_type'' enum_xdp_mem_type 32,
    Fld ''dev_rx'' CPtr,
    Fld ''frame_sz'' typedef_u32,
    Fld ''flags'' typedef_u32]"

lemma lay_struct_xdp_frame [layout_simps]:
  "sizeof struct_xdp_frame = 40" "alignof struct_xdp_frame = 8" "wf_ty struct_xdp_frame" "unpacked struct_xdp_frame"
  by (simp_all add: struct_xdp_frame_def layout_simps layout_eval)

definition struct_gro_list :: ctype where
  "struct_gro_list = CStruct [
    Fld ''list'' struct_list_head,
    Fld ''count'' c_int]"

lemma lay_struct_gro_list [layout_simps]:
  "sizeof struct_gro_list = 24" "alignof struct_gro_list = 8" "wf_ty struct_gro_list" "unpacked struct_gro_list"
  by (simp_all add: struct_gro_list_def layout_simps layout_eval)

definition struct_gro_node :: ctype where
  "struct_gro_node = CStruct [
    Fld ''bitmask'' c_ulong,
    Fld ''hash'' (CArr 8 struct_gro_list),
    Fld ''rx_list'' struct_list_head,
    Fld ''rx_count'' typedef_u32,
    Fld ''cached_napi_id'' typedef_u32]"

lemma lay_struct_gro_node [layout_simps]:
  "sizeof struct_gro_node = 224" "alignof struct_gro_node = 8" "wf_ty struct_gro_node" "unpacked struct_gro_node"
  by (simp_all add: struct_gro_node_def layout_simps layout_eval)

definition struct_kref :: ctype where
  "struct_kref = CStruct [
    Fld ''refcount'' typedef_refcount_t]"

lemma lay_struct_kref [layout_simps]:
  "sizeof struct_kref = 4" "alignof struct_kref = 4" "wf_ty struct_kref" "unpacked struct_kref"
  by (simp_all add: struct_kref_def layout_simps layout_eval)

definition struct_irq_affinity_notify :: ctype where
  "struct_irq_affinity_notify = CStruct [
    Fld ''irq'' c_uint,
    Fld ''kref'' struct_kref,
    Fld ''work'' struct_work_struct,
    Fld ''notify'' CPtr,
    Fld ''release'' CPtr]"

lemma lay_struct_irq_affinity_notify [layout_simps]:
  "sizeof struct_irq_affinity_notify = 56" "alignof struct_irq_affinity_notify = 8" "wf_ty struct_irq_affinity_notify" "unpacked struct_irq_affinity_notify"
  by (simp_all add: struct_irq_affinity_notify_def layout_simps layout_eval)

definition struct_napi_struct :: ctype where
  "struct_napi_struct = CStruct [
    Fld ''poll_list'' struct_list_head,
    Fld ''state'' c_ulong,
    Fld ''weight'' c_int,
    Fld ''defer_hard_irqs_count'' typedef_u32,
    Fld ''poll'' CPtr,
    Fld ''poll_owner'' c_int,
    Fld ''list_owner'' c_int,
    Fld ''dev'' CPtr,
    Fld ''skb'' CPtr,
    Fld ''gro'' struct_gro_node,
    Fld ''timer'' struct_hrtimer,
    Fld ''thread'' CPtr,
    Fld ''gro_flush_timeout'' c_ulong,
    Fld ''irq_suspend_timeout'' c_ulong,
    Fld ''defer_hard_irqs'' typedef_u32,
    Fld ''napi_id'' typedef_u32,
    Fld ''dev_list'' struct_list_head,
    Fld ''napi_hash_node'' struct_hlist_node,
    Fld ''irq'' c_int,
    Fld ''notify'' struct_irq_affinity_notify,
    Fld ''napi_rmap_idx'' c_int,
    Fld ''index'' c_int,
    Fld ''config'' CPtr]"

lemma lay_struct_napi_struct [layout_simps]:
  "sizeof struct_napi_struct = 496" "alignof struct_napi_struct = 8" "wf_ty struct_napi_struct" "unpacked struct_napi_struct"
  by (simp_all add: struct_napi_struct_def layout_simps layout_eval)

definition struct_kobject :: ctype where
  "struct_kobject = CStruct [
    Fld ''name'' CPtr,
    Fld ''entry'' struct_list_head,
    Fld ''parent'' CPtr,
    Fld ''kset'' CPtr,
    Fld ''ktype'' CPtr,
    Fld ''sd'' CPtr,
    Fld ''kref'' struct_kref,
    Bits ''state_initialized'' c_uint 1,
    Bits ''state_in_sysfs'' c_uint 1,
    Bits ''state_add_uevent_sent'' c_uint 1,
    Bits ''state_remove_uevent_sent'' c_uint 1,
    Bits ''uevent_suppress'' c_uint 1]"

lemma lay_struct_kobject [layout_simps]:
  "sizeof struct_kobject = 64" "alignof struct_kobject = 8" "wf_ty struct_kobject" "unpacked struct_kobject"
  by (simp_all add: struct_kobject_def layout_simps layout_eval)

definition typedef_netdevice_tracker :: ctype where
  "typedef_netdevice_tracker = CStruct []"

lemma lay_typedef_netdevice_tracker [layout_simps]:
  "sizeof typedef_netdevice_tracker = 0" "alignof typedef_netdevice_tracker = 1" "wf_ty typedef_netdevice_tracker" "unpacked typedef_netdevice_tracker"
  by (simp_all add: typedef_netdevice_tracker_def layout_simps layout_eval)

definition struct_pp_memory_provider_params :: ctype where
  "struct_pp_memory_provider_params = CStruct [
    Fld ''mp_priv'' CPtr,
    Fld ''mp_ops'' CPtr]"

lemma lay_struct_pp_memory_provider_params [layout_simps]:
  "sizeof struct_pp_memory_provider_params = 16" "alignof struct_pp_memory_provider_params = 8" "wf_ty struct_pp_memory_provider_params" "unpacked struct_pp_memory_provider_params"
  by (simp_all add: struct_pp_memory_provider_params_def layout_simps layout_eval)

definition struct_netdev_rx_queue :: ctype where
  "struct_netdev_rx_queue = CStruct [
    Fld ''xdp_rxq'' struct_xdp_rxq_info,
    Fld ''rps_map'' CPtr,
    Fld ''rps_flow_table'' CPtr,
    Fld ''kobj'' struct_kobject,
    Fld ''groups'' CPtr,
    Fld ''dev'' CPtr,
    Fld ''dev_tracker'' typedef_netdevice_tracker,
    Fld ''pool'' CPtr,
    Fld ''napi'' CPtr,
    Fld ''mp_params'' struct_pp_memory_provider_params]"

lemma lay_struct_netdev_rx_queue [layout_simps]:
  "sizeof struct_netdev_rx_queue = 192" "alignof struct_netdev_rx_queue = 8" "wf_ty struct_netdev_rx_queue" "unpacked struct_netdev_rx_queue"
  by (simp_all add: struct_netdev_rx_queue_def layout_simps layout_eval)

definition struct_net_device_ops :: ctype where
  "struct_net_device_ops = CStruct [
    Fld ''ndo_init'' CPtr,
    Fld ''ndo_uninit'' CPtr,
    Fld ''ndo_open'' CPtr,
    Fld ''ndo_stop'' CPtr,
    Fld ''ndo_start_xmit'' CPtr,
    Fld ''ndo_features_check'' CPtr,
    Fld ''ndo_select_queue'' CPtr,
    Fld ''ndo_change_rx_flags'' CPtr,
    Fld ''ndo_set_rx_mode'' CPtr,
    Fld ''ndo_set_mac_address'' CPtr,
    Fld ''ndo_validate_addr'' CPtr,
    Fld ''ndo_do_ioctl'' CPtr,
    Fld ''ndo_eth_ioctl'' CPtr,
    Fld ''ndo_siocbond'' CPtr,
    Fld ''ndo_siocwandev'' CPtr,
    Fld ''ndo_siocdevprivate'' CPtr,
    Fld ''ndo_set_config'' CPtr,
    Fld ''ndo_change_mtu'' CPtr,
    Fld ''ndo_neigh_setup'' CPtr,
    Fld ''ndo_tx_timeout'' CPtr,
    Fld ''ndo_get_stats64'' CPtr,
    Fld ''ndo_has_offload_stats'' CPtr,
    Fld ''ndo_get_offload_stats'' CPtr,
    Fld ''ndo_get_stats'' CPtr,
    Fld ''ndo_vlan_rx_add_vid'' CPtr,
    Fld ''ndo_vlan_rx_kill_vid'' CPtr,
    Fld ''ndo_poll_controller'' CPtr,
    Fld ''ndo_netpoll_setup'' CPtr,
    Fld ''ndo_netpoll_cleanup'' CPtr,
    Fld ''ndo_set_vf_mac'' CPtr,
    Fld ''ndo_set_vf_vlan'' CPtr,
    Fld ''ndo_set_vf_rate'' CPtr,
    Fld ''ndo_set_vf_spoofchk'' CPtr,
    Fld ''ndo_set_vf_trust'' CPtr,
    Fld ''ndo_get_vf_config'' CPtr,
    Fld ''ndo_set_vf_link_state'' CPtr,
    Fld ''ndo_get_vf_stats'' CPtr,
    Fld ''ndo_set_vf_port'' CPtr,
    Fld ''ndo_get_vf_port'' CPtr,
    Fld ''ndo_get_vf_guid'' CPtr,
    Fld ''ndo_set_vf_guid'' CPtr,
    Fld ''ndo_set_vf_rss_query_en'' CPtr,
    Fld ''ndo_setup_tc'' CPtr,
    Fld ''ndo_fcoe_enable'' CPtr,
    Fld ''ndo_fcoe_disable'' CPtr,
    Fld ''ndo_fcoe_ddp_setup'' CPtr,
    Fld ''ndo_fcoe_ddp_done'' CPtr,
    Fld ''ndo_fcoe_ddp_target'' CPtr,
    Fld ''ndo_fcoe_get_hbainfo'' CPtr,
    Fld ''ndo_fcoe_get_wwn'' CPtr,
    Fld ''ndo_rx_flow_steer'' CPtr,
    Fld ''ndo_add_slave'' CPtr,
    Fld ''ndo_del_slave'' CPtr,
    Fld ''ndo_get_xmit_slave'' CPtr,
    Fld ''ndo_sk_get_lower_dev'' CPtr,
    Fld ''ndo_fix_features'' CPtr,
    Fld ''ndo_set_features'' CPtr,
    Fld ''ndo_neigh_construct'' CPtr,
    Fld ''ndo_neigh_destroy'' CPtr,
    Fld ''ndo_fdb_add'' CPtr,
    Fld ''ndo_fdb_del'' CPtr,
    Fld ''ndo_fdb_del_bulk'' CPtr,
    Fld ''ndo_fdb_dump'' CPtr,
    Fld ''ndo_fdb_get'' CPtr,
    Fld ''ndo_mdb_add'' CPtr,
    Fld ''ndo_mdb_del'' CPtr,
    Fld ''ndo_mdb_del_bulk'' CPtr,
    Fld ''ndo_mdb_dump'' CPtr,
    Fld ''ndo_mdb_get'' CPtr,
    Fld ''ndo_bridge_setlink'' CPtr,
    Fld ''ndo_bridge_getlink'' CPtr,
    Fld ''ndo_bridge_dellink'' CPtr,
    Fld ''ndo_change_carrier'' CPtr,
    Fld ''ndo_get_phys_port_id'' CPtr,
    Fld ''ndo_get_port_parent_id'' CPtr,
    Fld ''ndo_get_phys_port_name'' CPtr,
    Fld ''ndo_dfwd_add_station'' CPtr,
    Fld ''ndo_dfwd_del_station'' CPtr,
    Fld ''ndo_set_tx_maxrate'' CPtr,
    Fld ''ndo_get_iflink'' CPtr,
    Fld ''ndo_fill_metadata_dst'' CPtr,
    Fld ''ndo_set_rx_headroom'' CPtr,
    Fld ''ndo_bpf'' CPtr,
    Fld ''ndo_xdp_xmit'' CPtr,
    Fld ''ndo_xdp_get_xmit_slave'' CPtr,
    Fld ''ndo_xsk_wakeup'' CPtr,
    Fld ''ndo_tunnel_ctl'' CPtr,
    Fld ''ndo_get_peer_dev'' CPtr,
    Fld ''ndo_fill_forward_path'' CPtr,
    Fld ''ndo_get_tstamp'' CPtr,
    Fld ''ndo_hwtstamp_get'' CPtr,
    Fld ''ndo_hwtstamp_set'' CPtr,
    Fld ''net_shaper_ops'' CPtr]"

lemma lay_struct_net_device_ops [layout_simps]:
  "sizeof struct_net_device_ops = 744" "alignof struct_net_device_ops = 8" "wf_ty struct_net_device_ops" "unpacked struct_net_device_ops"
  by (simp_all add: struct_net_device_ops_def layout_simps layout_eval)

definition typedef_netdev_features_t :: ctype where
  [layout_simps]: "typedef_netdev_features_t = typedef_u64"

definition struct_netdev_tc_txq :: ctype where
  "struct_netdev_tc_txq = CStruct [
    Fld ''count'' typedef_u16,
    Fld ''offset'' typedef_u16]"

lemma lay_struct_netdev_tc_txq [layout_simps]:
  "sizeof struct_netdev_tc_txq = 4" "alignof struct_netdev_tc_txq = 2" "wf_ty struct_netdev_tc_txq" "unpacked struct_netdev_tc_txq"
  by (simp_all add: struct_netdev_tc_txq_def layout_simps layout_eval)

definition typedef_possible_net_t :: ctype where
  "typedef_possible_net_t = CStruct [
    Fld ''net'' CPtr]"

lemma lay_typedef_possible_net_t [layout_simps]:
  "sizeof typedef_possible_net_t = 8" "alignof typedef_possible_net_t = 8" "wf_ty typedef_possible_net_t" "unpacked typedef_possible_net_t"
  by (simp_all add: typedef_possible_net_t_def layout_simps layout_eval)

definition typedef_xdp_features_t :: ctype where
  [layout_simps]: "typedef_xdp_features_t = typedef_u32"

definition struct_net_device_stats :: ctype where
  "struct_net_device_stats = CStruct [
    Fld [] (CUnion [
      Fld ''rx_packets'' c_ulong,
      Fld ''__rx_packets'' typedef_atomic_long_t]),
    Fld [] (CUnion [
      Fld ''tx_packets'' c_ulong,
      Fld ''__tx_packets'' typedef_atomic_long_t]),
    Fld [] (CUnion [
      Fld ''rx_bytes'' c_ulong,
      Fld ''__rx_bytes'' typedef_atomic_long_t]),
    Fld [] (CUnion [
      Fld ''tx_bytes'' c_ulong,
      Fld ''__tx_bytes'' typedef_atomic_long_t]),
    Fld [] (CUnion [
      Fld ''rx_errors'' c_ulong,
      Fld ''__rx_errors'' typedef_atomic_long_t]),
    Fld [] (CUnion [
      Fld ''tx_errors'' c_ulong,
      Fld ''__tx_errors'' typedef_atomic_long_t]),
    Fld [] (CUnion [
      Fld ''rx_dropped'' c_ulong,
      Fld ''__rx_dropped'' typedef_atomic_long_t]),
    Fld [] (CUnion [
      Fld ''tx_dropped'' c_ulong,
      Fld ''__tx_dropped'' typedef_atomic_long_t]),
    Fld [] (CUnion [
      Fld ''multicast'' c_ulong,
      Fld ''__multicast'' typedef_atomic_long_t]),
    Fld [] (CUnion [
      Fld ''collisions'' c_ulong,
      Fld ''__collisions'' typedef_atomic_long_t]),
    Fld [] (CUnion [
      Fld ''rx_length_errors'' c_ulong,
      Fld ''__rx_length_errors'' typedef_atomic_long_t]),
    Fld [] (CUnion [
      Fld ''rx_over_errors'' c_ulong,
      Fld ''__rx_over_errors'' typedef_atomic_long_t]),
    Fld [] (CUnion [
      Fld ''rx_crc_errors'' c_ulong,
      Fld ''__rx_crc_errors'' typedef_atomic_long_t]),
    Fld [] (CUnion [
      Fld ''rx_frame_errors'' c_ulong,
      Fld ''__rx_frame_errors'' typedef_atomic_long_t]),
    Fld [] (CUnion [
      Fld ''rx_fifo_errors'' c_ulong,
      Fld ''__rx_fifo_errors'' typedef_atomic_long_t]),
    Fld [] (CUnion [
      Fld ''rx_missed_errors'' c_ulong,
      Fld ''__rx_missed_errors'' typedef_atomic_long_t]),
    Fld [] (CUnion [
      Fld ''tx_aborted_errors'' c_ulong,
      Fld ''__tx_aborted_errors'' typedef_atomic_long_t]),
    Fld [] (CUnion [
      Fld ''tx_carrier_errors'' c_ulong,
      Fld ''__tx_carrier_errors'' typedef_atomic_long_t]),
    Fld [] (CUnion [
      Fld ''tx_fifo_errors'' c_ulong,
      Fld ''__tx_fifo_errors'' typedef_atomic_long_t]),
    Fld [] (CUnion [
      Fld ''tx_heartbeat_errors'' c_ulong,
      Fld ''__tx_heartbeat_errors'' typedef_atomic_long_t]),
    Fld [] (CUnion [
      Fld ''tx_window_errors'' c_ulong,
      Fld ''__tx_window_errors'' typedef_atomic_long_t]),
    Fld [] (CUnion [
      Fld ''rx_compressed'' c_ulong,
      Fld ''__rx_compressed'' typedef_atomic_long_t]),
    Fld [] (CUnion [
      Fld ''tx_compressed'' c_ulong,
      Fld ''__tx_compressed'' typedef_atomic_long_t])]"

lemma lay_struct_net_device_stats [layout_simps]:
  "sizeof struct_net_device_stats = 184" "alignof struct_net_device_stats = 8" "wf_ty struct_net_device_stats" "unpacked struct_net_device_stats"
  by (simp_all add: struct_net_device_stats_def layout_simps layout_eval)

definition struct_netdev_hw_addr_list :: ctype where
  "struct_netdev_hw_addr_list = CStruct [
    Fld ''list'' struct_list_head,
    Fld ''count'' c_int,
    Fld ''tree'' struct_rb_root]"

lemma lay_struct_netdev_hw_addr_list [layout_simps]:
  "sizeof struct_netdev_hw_addr_list = 32" "alignof struct_netdev_hw_addr_list = 8" "wf_ty struct_netdev_hw_addr_list" "unpacked struct_netdev_hw_addr_list"
  by (simp_all add: struct_netdev_hw_addr_list_def layout_simps layout_eval)

definition struct_ref_tracker_dir :: ctype where
  "struct_ref_tracker_dir = CStruct []"

lemma lay_struct_ref_tracker_dir [layout_simps]:
  "sizeof struct_ref_tracker_dir = 0" "alignof struct_ref_tracker_dir = 1" "wf_ty struct_ref_tracker_dir" "unpacked struct_ref_tracker_dir"
  by (simp_all add: struct_ref_tracker_dir_def layout_simps layout_eval)

definition enum_netdev_ml_priv_type :: ctype where
  "enum_netdev_ml_priv_type = CEnum 4 [
    (''ML_PRIV_NONE'', 0),
    (''ML_PRIV_CAN'', 1)]"

lemma lay_enum_netdev_ml_priv_type [layout_simps]:
  "sizeof enum_netdev_ml_priv_type = 4" "alignof enum_netdev_ml_priv_type = 4" "wf_ty enum_netdev_ml_priv_type" "unpacked enum_netdev_ml_priv_type" "is_int enum_netdev_ml_priv_type"
  by (simp_all add: enum_netdev_ml_priv_type_def layout_simps layout_eval)

definition enum_netdev_stat_type :: ctype where
  "enum_netdev_stat_type = CEnum 4 [
    (''NETDEV_PCPU_STAT_NONE'', 0),
    (''NETDEV_PCPU_STAT_LSTATS'', 1),
    (''NETDEV_PCPU_STAT_TSTATS'', 2),
    (''NETDEV_PCPU_STAT_DSTATS'', 3)]"

lemma lay_enum_netdev_stat_type [layout_simps]:
  "sizeof enum_netdev_stat_type = 4" "alignof enum_netdev_stat_type = 4" "wf_ty enum_netdev_stat_type" "unpacked enum_netdev_stat_type" "is_int enum_netdev_stat_type"
  by (simp_all add: enum_netdev_stat_type_def layout_simps layout_eval)

definition enum_dl_dev_state :: ctype where
  "enum_dl_dev_state = CEnum 4 [
    (''DL_DEV_NO_DRIVER'', 0),
    (''DL_DEV_PROBING'', 1),
    (''DL_DEV_DRIVER_BOUND'', 2),
    (''DL_DEV_UNBINDING'', 3)]"

lemma lay_enum_dl_dev_state [layout_simps]:
  "sizeof enum_dl_dev_state = 4" "alignof enum_dl_dev_state = 4" "wf_ty enum_dl_dev_state" "unpacked enum_dl_dev_state" "is_int enum_dl_dev_state"
  by (simp_all add: enum_dl_dev_state_def layout_simps layout_eval)

definition struct_dev_links_info :: ctype where
  "struct_dev_links_info = CStruct [
    Fld ''suppliers'' struct_list_head,
    Fld ''consumers'' struct_list_head,
    Fld ''defer_sync'' struct_list_head,
    Fld ''status'' enum_dl_dev_state]"

lemma lay_struct_dev_links_info [layout_simps]:
  "sizeof struct_dev_links_info = 56" "alignof struct_dev_links_info = 8" "wf_ty struct_dev_links_info" "unpacked struct_dev_links_info"
  by (simp_all add: struct_dev_links_info_def layout_simps layout_eval)

definition struct_pm_message :: ctype where
  "struct_pm_message = CStruct [
    Fld ''event'' c_int]"

lemma lay_struct_pm_message [layout_simps]:
  "sizeof struct_pm_message = 4" "alignof struct_pm_message = 4" "wf_ty struct_pm_message" "unpacked struct_pm_message"
  by (simp_all add: struct_pm_message_def layout_simps layout_eval)

definition typedef_pm_message_t :: ctype where
  [layout_simps]: "typedef_pm_message_t = struct_pm_message"

definition struct_swait_queue_head :: ctype where
  "struct_swait_queue_head = CStruct [
    Fld ''lock'' typedef_raw_spinlock_t,
    Fld ''task_list'' struct_list_head]"

lemma lay_struct_swait_queue_head [layout_simps]:
  "sizeof struct_swait_queue_head = 24" "alignof struct_swait_queue_head = 8" "wf_ty struct_swait_queue_head" "unpacked struct_swait_queue_head"
  by (simp_all add: struct_swait_queue_head_def layout_simps layout_eval)

definition struct_completion :: ctype where
  "struct_completion = CStruct [
    Fld ''done'' c_uint,
    Fld ''wait'' struct_swait_queue_head]"

lemma lay_struct_completion [layout_simps]:
  "sizeof struct_completion = 32" "alignof struct_completion = 8" "wf_ty struct_completion" "unpacked struct_completion"
  by (simp_all add: struct_completion_def layout_simps layout_eval)

definition enum_rpm_request :: ctype where
  "enum_rpm_request = CEnum 4 [
    (''RPM_REQ_NONE'', 0),
    (''RPM_REQ_IDLE'', 1),
    (''RPM_REQ_SUSPEND'', 2),
    (''RPM_REQ_AUTOSUSPEND'', 3),
    (''RPM_REQ_RESUME'', 4)]"

lemma lay_enum_rpm_request [layout_simps]:
  "sizeof enum_rpm_request = 4" "alignof enum_rpm_request = 4" "wf_ty enum_rpm_request" "unpacked enum_rpm_request" "is_int enum_rpm_request"
  by (simp_all add: enum_rpm_request_def layout_simps layout_eval)

definition enum_rpm_status :: ctype where
  "enum_rpm_status = CEnum 4 [
    (''RPM_INVALID'', - 1),
    (''RPM_ACTIVE'', 0),
    (''RPM_RESUMING'', 1),
    (''RPM_SUSPENDED'', 2),
    (''RPM_SUSPENDING'', 3),
    (''RPM_BLOCKED'', 4)]"

lemma lay_enum_rpm_status [layout_simps]:
  "sizeof enum_rpm_status = 4" "alignof enum_rpm_status = 4" "wf_ty enum_rpm_status" "unpacked enum_rpm_status" "is_int enum_rpm_status"
  by (simp_all add: enum_rpm_status_def layout_simps layout_eval)

definition struct_dev_pm_info :: ctype where
  "struct_dev_pm_info = CStruct [
    Fld ''power_state'' typedef_pm_message_t,
    Bits ''can_wakeup'' typedef_bool 1,
    Bits ''async_suspend'' typedef_bool 1,
    Bits ''in_dpm_list'' typedef_bool 1,
    Bits ''is_prepared'' typedef_bool 1,
    Bits ''is_suspended'' typedef_bool 1,
    Bits ''is_noirq_suspended'' typedef_bool 1,
    Bits ''is_late_suspended'' typedef_bool 1,
    Bits ''no_pm'' typedef_bool 1,
    Bits ''early_init'' typedef_bool 1,
    Bits ''direct_complete'' typedef_bool 1,
    Fld ''driver_flags'' typedef_u32,
    Fld ''lock'' typedef_spinlock_t,
    Fld ''entry'' struct_list_head,
    Fld ''completion'' struct_completion,
    Fld ''wakeup'' CPtr,
    Bits ''wakeup_path'' typedef_bool 1,
    Bits ''syscore'' typedef_bool 1,
    Bits ''no_pm_callbacks'' typedef_bool 1,
    Bits ''work_in_progress'' typedef_bool 1,
    Bits ''smart_suspend'' typedef_bool 1,
    Bits ''must_resume'' typedef_bool 1,
    Bits ''may_skip_resume'' typedef_bool 1,
    Bits ''strict_midlayer'' typedef_bool 1,
    Fld ''suspend_timer'' struct_hrtimer,
    Fld ''timer_expires'' typedef_u64,
    Fld ''work'' struct_work_struct,
    Fld ''wait_queue'' typedef_wait_queue_head_t,
    Fld ''wakeirq'' CPtr,
    Fld ''usage_count'' typedef_atomic_t,
    Fld ''child_count'' typedef_atomic_t,
    Bits ''disable_depth'' c_uint 3,
    Bits ''idle_notification'' typedef_bool 1,
    Bits ''request_pending'' typedef_bool 1,
    Bits ''deferred_resume'' typedef_bool 1,
    Bits ''needs_force_resume'' typedef_bool 1,
    Bits ''runtime_auto'' typedef_bool 1,
    Bits ''ignore_children'' typedef_bool 1,
    Bits ''no_callbacks'' typedef_bool 1,
    Bits ''irq_safe'' typedef_bool 1,
    Bits ''use_autosuspend'' typedef_bool 1,
    Bits ''timer_autosuspends'' typedef_bool 1,
    Bits ''memalloc_noio'' typedef_bool 1,
    Fld ''links_count'' c_uint,
    Fld ''request'' enum_rpm_request,
    Fld ''runtime_status'' enum_rpm_status,
    Fld ''last_status'' enum_rpm_status,
    Fld ''runtime_error'' c_int,
    Fld ''autosuspend_delay'' c_int,
    Fld ''last_busy'' typedef_u64,
    Fld ''active_time'' typedef_u64,
    Fld ''suspended_time'' typedef_u64,
    Fld ''accounting_timestamp'' typedef_u64,
    Fld ''subsys_data'' CPtr,
    Fld ''set_latency_tolerance'' CPtr,
    Fld ''qos'' CPtr,
    Bits ''detach_power_off'' typedef_bool 1]"

lemma lay_struct_dev_pm_info [layout_simps]:
  "sizeof struct_dev_pm_info = 320" "alignof struct_dev_pm_info = 8" "wf_ty struct_dev_pm_info" "unpacked struct_dev_pm_info"
  by (simp_all add: struct_dev_pm_info_def layout_simps layout_eval)

definition struct_dev_msi_info :: ctype where
  "struct_dev_msi_info = CStruct [
    Fld ''domain'' CPtr,
    Fld ''data'' CPtr]"

lemma lay_struct_dev_msi_info [layout_simps]:
  "sizeof struct_dev_msi_info = 16" "alignof struct_dev_msi_info = 8" "wf_ty struct_dev_msi_info" "unpacked struct_dev_msi_info"
  by (simp_all add: struct_dev_msi_info_def layout_simps layout_eval)

definition struct_dev_archdata :: ctype where
  "struct_dev_archdata = CStruct []"

lemma lay_struct_dev_archdata [layout_simps]:
  "sizeof struct_dev_archdata = 0" "alignof struct_dev_archdata = 1" "wf_ty struct_dev_archdata" "unpacked struct_dev_archdata"
  by (simp_all add: struct_dev_archdata_def layout_simps layout_eval)

definition enum_device_removable :: ctype where
  "enum_device_removable = CEnum 4 [
    (''DEVICE_REMOVABLE_NOT_SUPPORTED'', 0),
    (''DEVICE_REMOVABLE_UNKNOWN'', 1),
    (''DEVICE_FIXED'', 2),
    (''DEVICE_REMOVABLE'', 3)]"

lemma lay_enum_device_removable [layout_simps]:
  "sizeof enum_device_removable = 4" "alignof enum_device_removable = 4" "wf_ty enum_device_removable" "unpacked enum_device_removable" "is_int enum_device_removable"
  by (simp_all add: enum_device_removable_def layout_simps layout_eval)

definition struct_device :: ctype where
  "struct_device = CStruct [
    Fld ''kobj'' struct_kobject,
    Fld ''parent'' CPtr,
    Fld ''p'' CPtr,
    Fld ''init_name'' CPtr,
    Fld ''type'' CPtr,
    Fld ''bus'' CPtr,
    Fld ''driver'' CPtr,
    Fld ''platform_data'' CPtr,
    Fld ''driver_data'' CPtr,
    Fld ''mutex'' struct_mutex,
    Fld ''links'' struct_dev_links_info,
    Fld ''power'' struct_dev_pm_info,
    Fld ''pm_domain'' CPtr,
    Fld ''em_pd'' CPtr,
    Fld ''pins'' CPtr,
    Fld ''msi'' struct_dev_msi_info,
    Fld ''dma_ops'' CPtr,
    Fld ''dma_mask'' CPtr,
    Fld ''coherent_dma_mask'' typedef_u64,
    Fld ''bus_dma_limit'' typedef_u64,
    Fld ''dma_range_map'' CPtr,
    Fld ''dma_parms'' CPtr,
    Fld ''dma_pools'' struct_list_head,
    Fld ''cma_area'' CPtr,
    Fld ''dma_io_tlb_mem'' CPtr,
    Fld ''dma_io_tlb_pools'' struct_list_head,
    Fld ''dma_io_tlb_lock'' typedef_spinlock_t,
    Fld ''dma_uses_io_tlb'' typedef_bool,
    Fld ''archdata'' struct_dev_archdata,
    Fld ''of_node'' CPtr,
    Fld ''fwnode'' CPtr,
    Fld ''numa_node'' c_int,
    Fld ''devt'' typedef_dev_t,
    Fld ''id'' typedef_u32,
    Fld ''devres_lock'' typedef_spinlock_t,
    Fld ''devres_head'' struct_list_head,
    Fld ''class'' CPtr,
    Fld ''groups'' CPtr,
    Fld ''release'' CPtr,
    Fld ''iommu_group'' CPtr,
    Fld ''iommu'' CPtr,
    Fld ''physical_location'' CPtr,
    Fld ''removable'' enum_device_removable,
    Bits ''offline_disabled'' typedef_bool 1,
    Bits ''offline'' typedef_bool 1,
    Bits ''of_node_reused'' typedef_bool 1,
    Bits ''state_synced'' typedef_bool 1,
    Bits ''can_match'' typedef_bool 1,
    Bits ''dma_skip_sync'' typedef_bool 1,
    Bits ''dma_iommu'' typedef_bool 1]"

lemma lay_struct_device [layout_simps]:
  "sizeof struct_device = 784" "alignof struct_device = 8" "wf_ty struct_device" "unpacked struct_device"
  by (simp_all add: struct_device_def layout_simps layout_eval)

definition struct_bpf_xdp_entity :: ctype where
  "struct_bpf_xdp_entity = CStruct [
    Fld ''prog'' CPtr,
    Fld ''link'' CPtr]"

lemma lay_struct_bpf_xdp_entity [layout_simps]:
  "sizeof struct_bpf_xdp_entity = 16" "alignof struct_bpf_xdp_entity = 8" "wf_ty struct_bpf_xdp_entity" "unpacked struct_bpf_xdp_entity"
  by (simp_all add: struct_bpf_xdp_entity_def layout_simps layout_eval)

definition struct_net_device_members1 :: "member list" where
  "struct_net_device_members1 = [
    Fld ''__cacheline_group_begin__net_device_read_tx'' (CArr 0 typedef___u8),
    Fld [] (CUnion [
      Fld [] (CStruct [
        Bits ''priv_flags'' c_ulong 32,
        Bits ''lltx'' c_ulong 1,
        Bits ''netmem_tx'' c_ulong 1]),
      Fld ''priv_flags_fast'' (CStruct [
        Bits ''priv_flags'' c_ulong 32,
        Bits ''lltx'' c_ulong 1,
        Bits ''netmem_tx'' c_ulong 1])]),
    Fld ''netdev_ops'' CPtr,
    Fld ''header_ops'' CPtr,
    Fld ''_tx'' CPtr,
    Fld ''gso_partial_features'' typedef_netdev_features_t,
    Fld ''real_num_tx_queues'' c_uint,
    Fld ''gso_max_size'' c_uint,
    Fld ''gso_ipv4_max_size'' c_uint,
    Fld ''gso_max_segs'' typedef_u16,
    Fld ''num_tc'' typedef_s16,
    Fld ''mtu'' c_uint,
    Fld ''needed_headroom'' c_ushort,
    Fld ''tc_to_txq'' (CArr 16 struct_netdev_tc_txq),
    Fld ''xps_maps'' (CArr 2 CPtr),
    Fld ''nf_hooks_egress'' CPtr,
    Fld ''tcx_egress'' CPtr,
    Fld ''__cacheline_group_end__net_device_read_tx'' (CArr 0 typedef___u8),
    Fld ''__cacheline_group_begin__net_device_read_txrx'' (CArr 0 typedef___u8),
    Fld [] (CUnion [
      Fld ''lstats'' CPtr,
      Fld ''tstats'' CPtr,
      Fld ''dstats'' CPtr]),
    Fld ''state'' c_ulong,
    Fld ''flags'' c_uint,
    Fld ''hard_header_len'' c_ushort,
    Fld ''features'' typedef_netdev_features_t,
    Fld ''ip6_ptr'' CPtr,
    Fld ''__cacheline_group_end__net_device_read_txrx'' (CArr 0 typedef___u8),
    Fld ''__cacheline_group_begin__net_device_read_rx'' (CArr 0 typedef___u8),
    Fld ''xdp_prog'' CPtr,
    Fld ''ptype_specific'' struct_list_head,
    Fld ''ifindex'' c_int,
    Fld ''real_num_rx_queues'' c_uint,
    Fld ''_rx'' CPtr,
    Fld ''gro_max_size'' c_uint,
    Fld ''gro_ipv4_max_size'' c_uint,
    Fld ''rx_handler'' CPtr,
    Fld ''rx_handler_data'' CPtr,
    Fld ''nd_net'' typedef_possible_net_t,
    Fld ''npinfo'' CPtr,
    Fld ''tcx_ingress'' CPtr,
    Fld ''__cacheline_group_end__net_device_read_rx'' (CArr 0 typedef___u8),
    Fld ''name'' (CArr 16 c_char),
    Fld ''name_node'' CPtr,
    Fld ''ifalias'' CPtr,
    Fld ''mem_end'' c_ulong,
    Fld ''mem_start'' c_ulong,
    Fld ''base_addr'' c_ulong,
    Fld ''dev_list'' struct_list_head,
    Fld ''napi_list'' struct_list_head,
    Fld ''unreg_list'' struct_list_head,
    Fld ''close_list'' struct_list_head,
    Fld ''ptype_all'' struct_list_head,
    Fld ''adj_list'' (CStruct [
      Fld ''upper'' struct_list_head,
      Fld ''lower'' struct_list_head]),
    Fld ''xdp_features'' typedef_xdp_features_t,
    Fld ''xdp_metadata_ops'' CPtr,
    Fld ''xsk_tx_metadata_ops'' CPtr,
    Fld ''gflags'' c_ushort,
    Fld ''needed_tailroom'' c_ushort,
    Fld ''hw_features'' typedef_netdev_features_t,
    Fld ''wanted_features'' typedef_netdev_features_t,
    Fld ''vlan_features'' typedef_netdev_features_t,
    Fld ''hw_enc_features'' typedef_netdev_features_t,
    Fld ''mpls_features'' typedef_netdev_features_t,
    Fld ''min_mtu'' c_uint,
    Fld ''max_mtu'' c_uint,
    Fld ''type'' c_ushort,
    Fld ''min_header_len'' c_uchar,
    Fld ''name_assign_type'' c_uchar,
    Fld ''group'' c_int,
    Fld ''stats'' struct_net_device_stats,
    Fld ''core_stats'' CPtr,
    Fld ''carrier_up_count'' typedef_atomic_t,
    Fld ''carrier_down_count'' typedef_atomic_t,
    Fld ''wireless_handlers'' CPtr,
    Fld ''ethtool_ops'' CPtr,
    Fld ''l3mdev_ops'' CPtr,
    Fld ''ndisc_ops'' CPtr,
    Fld ''xfrmdev_ops'' CPtr,
    Fld ''tlsdev_ops'' CPtr,
    Fld ''operstate'' c_uint,
    Fld ''link_mode'' c_uchar,
    Fld ''if_port'' c_uchar,
    Fld ''dma'' c_uchar,
    Fld ''perm_addr'' (CArr 32 c_uchar),
    Fld ''addr_assign_type'' c_uchar,
    Fld ''addr_len'' c_uchar,
    Fld ''upper_level'' c_uchar,
    Fld ''lower_level'' c_uchar,
    Fld ''threaded'' typedef_u8,
    Fld ''neigh_priv_len'' c_ushort,
    Fld ''dev_id'' c_ushort,
    Fld ''dev_port'' c_ushort]"

definition struct_net_device_members2 :: "member list" where
  "struct_net_device_members2 = [
    Fld ''irq'' c_int,
    Fld ''priv_len'' typedef_u32,
    Fld ''addr_list_lock'' typedef_spinlock_t,
    Fld ''uc'' struct_netdev_hw_addr_list,
    Fld ''mc'' struct_netdev_hw_addr_list,
    Fld ''dev_addrs'' struct_netdev_hw_addr_list,
    Fld ''queues_kset'' CPtr,
    Fld ''promiscuity'' c_uint,
    Fld ''allmulti'' c_uint,
    Fld ''uc_promisc'' typedef_bool,
    Fld ''ip_ptr'' CPtr,
    Fld ''fib_nh_head'' struct_hlist_head,
    Fld ''vlan_info'' CPtr,
    Fld ''dsa_ptr'' CPtr,
    Fld ''tipc_ptr'' CPtr,
    Fld ''atalk_ptr'' CPtr,
    Fld ''ax25_ptr'' CPtr,
    Fld ''ieee80211_ptr'' CPtr,
    Fld ''ieee802154_ptr'' CPtr,
    Fld ''mpls_ptr'' CPtr,
    Fld ''mctp_ptr'' CPtr,
    Fld ''dev_addr'' CPtr,
    Fld ''num_rx_queues'' c_uint,
    Fld ''xdp_zc_max_segs'' c_uint,
    Fld ''ingress_queue'' CPtr,
    Fld ''nf_hooks_ingress'' CPtr,
    Fld ''broadcast'' (CArr 32 c_uchar),
    Fld ''rx_cpu_rmap'' CPtr,
    Fld ''index_hlist'' struct_hlist_node,
    Fld ''num_tx_queues'' c_uint,
    Fld ''qdisc'' CPtr,
    Fld ''tx_queue_len'' c_uint,
    Fld ''tx_global_lock'' typedef_spinlock_t,
    Fld ''xdp_bulkq'' CPtr,
    Fld ''qdisc_hash'' (CArr 16 struct_hlist_head),
    Fld ''watchdog_timer'' struct_timer_list,
    Fld ''watchdog_timeo'' c_int,
    Fld ''proto_down_reason'' typedef_u32,
    Fld ''todo_list'' struct_list_head,
    Fld ''pcpu_refcnt'' CPtr,
    Fld ''refcnt_tracker'' struct_ref_tracker_dir,
    Fld ''link_watch_list'' struct_list_head,
    Fld ''reg_state'' typedef_u8,
    Fld ''dismantle'' typedef_bool,
    Fld ''moving_ns'' typedef_bool,
    Fld ''rtnl_link_initializing'' typedef_bool,
    Fld ''needs_free_netdev'' typedef_bool,
    Fld ''priv_destructor'' CPtr,
    Fld ''ml_priv'' CPtr,
    Fld ''ml_priv_type'' enum_netdev_ml_priv_type,
    Bits ''pcpu_stat_type'' enum_netdev_stat_type 8,
    Fld ''garp_port'' CPtr,
    Fld ''mrp_port'' CPtr,
    Fld ''dm_private'' CPtr,
    Fld ''dev'' struct_device,
    Fld ''sysfs_groups'' (CArr 5 CPtr),
    Fld ''sysfs_rx_queue_group'' CPtr,
    Fld ''rtnl_link_ops'' CPtr,
    Fld ''stat_ops'' CPtr,
    Fld ''queue_mgmt_ops'' CPtr,
    Fld ''tso_max_size'' c_uint,
    Fld ''tso_max_segs'' typedef_u16,
    Fld ''dcbnl_ops'' CPtr,
    Fld ''prio_tc_map'' (CArr 16 typedef_u8),
    Fld ''fcoe_ddp_xid'' c_uint,
    Fld ''priomap'' CPtr,
    Fld ''link_topo'' CPtr,
    Fld ''phydev'' CPtr,
    Fld ''sfp_bus'' CPtr,
    Fld ''qdisc_tx_busylock'' CPtr,
    Fld ''proto_down'' typedef_bool,
    Fld ''irq_affinity_auto'' typedef_bool,
    Fld ''rx_cpu_rmap_auto'' typedef_bool,
    Bits ''see_all_hwtstamp_requests'' c_ulong 1,
    Bits ''change_proto_down'' c_ulong 1,
    Bits ''netns_immutable'' c_ulong 1,
    Bits ''fcoe_mtu'' c_ulong 1,
    Fld ''net_notifier_list'' struct_list_head,
    Fld ''macsec_ops'' CPtr,
    Fld ''udp_tunnel_nic_info'' CPtr,
    Fld ''udp_tunnel_nic'' CPtr,
    Fld ''cfg'' CPtr,
    Fld ''cfg_pending'' CPtr,
    Fld ''ethtool'' CPtr,
    Fld ''xdp_state'' (CArr 3 struct_bpf_xdp_entity),
    Fld ''dev_addr_shadow'' (CArr 32 typedef_u8),
    Fld ''linkwatch_dev_tracker'' typedef_netdevice_tracker,
    Fld ''watchdog_dev_tracker'' typedef_netdevice_tracker,
    Fld ''dev_registered_tracker'' typedef_netdevice_tracker,
    Fld ''offload_xstats_l3'' CPtr,
    Fld ''devlink_port'' CPtr,
    Fld ''dpll_pin'' CPtr,
    Fld ''page_pools'' struct_hlist_head,
    Fld ''irq_moder'' CPtr,
    Fld ''max_pacing_offload_horizon'' typedef_u64,
    Fld ''napi_config'' CPtr,
    Fld ''num_napi_configs'' typedef_u32,
    Fld ''napi_defer_hard_irqs'' typedef_u32,
    Fld ''gro_flush_timeout'' c_ulong,
    Fld ''up'' typedef_bool,
    Fld ''request_ops_lock'' typedef_bool,
    Fld ''lock'' struct_mutex,
    Fld ''net_shaper_hierarchy'' CPtr,
    Fld ''neighbours'' (CArr 2 struct_hlist_head),
    Fld ''hwprov'' CPtr,
    Fld ''priv'' (CArr 0 typedef_u8)]"

definition struct_net_device :: ctype where
  "struct_net_device = CStruct (struct_net_device_members1 @ struct_net_device_members2)"

lemma lay_struct_net_device [layout_simps]:
  "sizeof struct_net_device = 2688" "alignof struct_net_device = 8" "wf_ty struct_net_device" "unpacked struct_net_device"
  by (simp_all add: struct_net_device_def struct_net_device_members1_def struct_net_device_members2_def layout_simps layout_eval)

definition struct_iovec :: ctype where
  "struct_iovec = CStruct [
    Fld ''iov_base'' CPtr,
    Fld ''iov_len'' typedef___kernel_size_t]"

lemma lay_struct_iovec [layout_simps]:
  "sizeof struct_iovec = 16" "alignof struct_iovec = 8" "wf_ty struct_iovec" "unpacked struct_iovec"
  by (simp_all add: struct_iovec_def layout_simps layout_eval)

definition struct_iov_iter :: ctype where
  "struct_iov_iter = CStruct [
    Fld ''iter_type'' typedef_u8,
    Fld ''nofault'' typedef_bool,
    Fld ''data_source'' typedef_bool,
    Fld ''iov_offset'' typedef_size_t,
    Fld [] (CUnion [
      Fld ''__ubuf_iovec'' struct_iovec,
      Fld [] (CStruct [
        Fld [] (CUnion [
          Fld ''__iov'' CPtr,
          Fld ''kvec'' CPtr,
          Fld ''bvec'' CPtr,
          Fld ''folioq'' CPtr,
          Fld ''xarray'' CPtr,
          Fld ''ubuf'' CPtr]),
        Fld ''count'' typedef_size_t])]),
    Fld [] (CUnion [
      Fld ''nr_segs'' c_ulong,
      Fld ''folioq_slot'' typedef_u8,
      Fld ''xarray_start'' typedef_loff_t])]"

lemma lay_struct_iov_iter [layout_simps]:
  "sizeof struct_iov_iter = 40" "alignof struct_iov_iter = 8" "wf_ty struct_iov_iter" "unpacked struct_iov_iter"
  by (simp_all add: struct_iov_iter_def layout_simps layout_eval)

definition struct_msghdr :: ctype where
  "struct_msghdr = CStruct [
    Fld ''msg_name'' CPtr,
    Fld ''msg_namelen'' c_int,
    Fld ''msg_inq'' c_int,
    Fld ''msg_iter'' struct_iov_iter,
    Fld [] (CUnion [
      Fld ''msg_control'' CPtr,
      Fld ''msg_control_user'' CPtr]),
    Bits ''msg_control_is_user'' typedef_bool 1,
    Bits ''msg_get_inq'' typedef_bool 1,
    Fld ''msg_flags'' c_uint,
    Fld ''msg_controllen'' typedef___kernel_size_t,
    Fld ''msg_iocb'' CPtr,
    Fld ''msg_ubuf'' CPtr,
    Fld ''sg_from_iter'' CPtr]"

lemma lay_struct_msghdr [layout_simps]:
  "sizeof struct_msghdr = 104" "alignof struct_msghdr = 8" "wf_ty struct_msghdr" "unpacked struct_msghdr"
  by (simp_all add: struct_msghdr_def layout_simps layout_eval)

definition struct_proto_ops :: ctype where
  "struct_proto_ops = CStruct [
    Fld ''family'' c_int,
    Fld ''owner'' CPtr,
    Fld ''release'' CPtr,
    Fld ''bind'' CPtr,
    Fld ''connect'' CPtr,
    Fld ''socketpair'' CPtr,
    Fld ''accept'' CPtr,
    Fld ''getname'' CPtr,
    Fld ''poll'' CPtr,
    Fld ''ioctl'' CPtr,
    Fld ''compat_ioctl'' CPtr,
    Fld ''gettstamp'' CPtr,
    Fld ''listen'' CPtr,
    Fld ''shutdown'' CPtr,
    Fld ''setsockopt'' CPtr,
    Fld ''getsockopt'' CPtr,
    Fld ''show_fdinfo'' CPtr,
    Fld ''sendmsg'' CPtr,
    Fld ''recvmsg'' CPtr,
    Fld ''mmap'' CPtr,
    Fld ''splice_read'' CPtr,
    Fld ''splice_eof'' CPtr,
    Fld ''set_peek_off'' CPtr,
    Fld ''peek_len'' CPtr,
    Fld ''read_sock'' CPtr,
    Fld ''read_skb'' CPtr,
    Fld ''sendmsg_locked'' CPtr,
    Fld ''set_rcvlowat'' CPtr]"

lemma lay_struct_proto_ops [layout_simps]:
  "sizeof struct_proto_ops = 224" "alignof struct_proto_ops = 8" "wf_ty struct_proto_ops" "unpacked struct_proto_ops"
  by (simp_all add: struct_proto_ops_def layout_simps layout_eval)

definition typedef_socket_state :: ctype where
  [layout_simps]: "typedef_socket_state = CEnum 4 [
    (''SS_FREE'', 0),
    (''SS_UNCONNECTED'', 1),
    (''SS_CONNECTING'', 2),
    (''SS_CONNECTED'', 3),
    (''SS_DISCONNECTING'', 4)]"

definition struct_socket_wq :: ctype where
  "struct_socket_wq = CStruct [
    Fld ''wait'' typedef_wait_queue_head_t,
    Fld ''fasync_list'' CPtr,
    Fld ''flags'' c_ulong,
    Fld ''rcu'' struct_callback_head,
    Bits [] c_long 64]"

lemma lay_struct_socket_wq [layout_simps]:
  "sizeof struct_socket_wq = 64" "alignof struct_socket_wq = 8" "wf_ty struct_socket_wq" "unpacked struct_socket_wq"
  by (simp_all add: struct_socket_wq_def layout_simps layout_eval)

definition struct_socket :: ctype where
  "struct_socket = CStruct [
    Fld ''state'' typedef_socket_state,
    Fld ''type'' c_short,
    Fld ''flags'' c_ulong,
    Fld ''file'' CPtr,
    Fld ''sk'' CPtr,
    Fld ''ops'' CPtr,
    Bits [] c_long 64,
    Bits [] c_long 64,
    Bits [] c_long 64,
    Fld ''wq'' struct_socket_wq]"

lemma lay_struct_socket [layout_simps]:
  "sizeof struct_socket = 128" "alignof struct_socket = 8" "wf_ty struct_socket" "unpacked struct_socket"
  by (simp_all add: struct_socket_def layout_simps layout_eval)

definition typedef_slab_flags_t :: ctype where
  [layout_simps]: "typedef_slab_flags_t = c_uint"

definition struct_proto :: ctype where
  "struct_proto = CStruct [
    Fld ''close'' CPtr,
    Fld ''pre_connect'' CPtr,
    Fld ''connect'' CPtr,
    Fld ''disconnect'' CPtr,
    Fld ''accept'' CPtr,
    Fld ''ioctl'' CPtr,
    Fld ''init'' CPtr,
    Fld ''destroy'' CPtr,
    Fld ''shutdown'' CPtr,
    Fld ''setsockopt'' CPtr,
    Fld ''getsockopt'' CPtr,
    Fld ''keepalive'' CPtr,
    Fld ''compat_ioctl'' CPtr,
    Fld ''sendmsg'' CPtr,
    Fld ''recvmsg'' CPtr,
    Fld ''splice_eof'' CPtr,
    Fld ''bind'' CPtr,
    Fld ''bind_add'' CPtr,
    Fld ''backlog_rcv'' CPtr,
    Fld ''bpf_bypass_getsockopt'' CPtr,
    Fld ''release_cb'' CPtr,
    Fld ''hash'' CPtr,
    Fld ''unhash'' CPtr,
    Fld ''rehash'' CPtr,
    Fld ''get_port'' CPtr,
    Fld ''put_port'' CPtr,
    Fld ''psock_update_sk_prot'' CPtr,
    Fld ''inuse_idx'' c_uint,
    Fld ''stream_memory_free'' CPtr,
    Fld ''sock_is_readable'' CPtr,
    Fld ''enter_memory_pressure'' CPtr,
    Fld ''leave_memory_pressure'' CPtr,
    Fld ''memory_allocated'' CPtr,
    Fld ''per_cpu_fw_alloc'' CPtr,
    Fld ''sockets_allocated'' CPtr,
    Fld ''memory_pressure'' CPtr,
    Fld ''sysctl_mem'' CPtr,
    Fld ''sysctl_wmem'' CPtr,
    Fld ''sysctl_rmem'' CPtr,
    Fld ''sysctl_wmem_offset'' typedef_u32,
    Fld ''sysctl_rmem_offset'' typedef_u32,
    Fld ''max_header'' c_int,
    Fld ''no_autobind'' typedef_bool,
    Fld ''slab'' CPtr,
    Fld ''obj_size'' c_uint,
    Fld ''ipv6_pinfo_offset'' c_uint,
    Fld ''slab_flags'' typedef_slab_flags_t,
    Fld ''useroffset'' c_uint,
    Fld ''usersize'' c_uint,
    Fld ''orphan_count'' CPtr,
    Fld ''rsk_prot'' CPtr,
    Fld ''twsk_prot'' CPtr,
    Fld ''h'' (CUnion [
      Fld ''hashinfo'' CPtr,
      Fld ''udp_table'' CPtr,
      Fld ''raw_hash'' CPtr,
      Fld ''smc_hash'' CPtr]),
    Fld ''owner'' CPtr,
    Fld ''name'' (CArr 32 c_char),
    Fld ''node'' struct_list_head,
    Fld ''diag_destroy'' CPtr]"

lemma lay_struct_proto [layout_simps]:
  "sizeof struct_proto = 456" "alignof struct_proto = 8" "wf_ty struct_proto" "unpacked struct_proto"
  by (simp_all add: struct_proto_def layout_simps layout_eval)

definition typedef___addrpair :: ctype where
  [layout_simps]: "typedef___addrpair = typedef___u64"

definition typedef___portpair :: ctype where
  [layout_simps]: "typedef___portpair = typedef___u32"

definition struct_in6_addr :: ctype where
  "struct_in6_addr = CStruct [
    Fld ''in6_u'' (CUnion [
      Fld ''u6_addr8'' (CArr 16 typedef___u8),
      Fld ''u6_addr16'' (CArr 8 typedef___be16),
      Fld ''u6_addr32'' (CArr 4 typedef___be32)])]"

lemma lay_struct_in6_addr [layout_simps]:
  "sizeof struct_in6_addr = 16" "alignof struct_in6_addr = 4" "wf_ty struct_in6_addr" "unpacked struct_in6_addr"
  by (simp_all add: struct_in6_addr_def layout_simps layout_eval)

definition struct_hlist_nulls_node :: ctype where
  "struct_hlist_nulls_node = CStruct [
    Fld ''next'' CPtr,
    Fld ''pprev'' CPtr]"

lemma lay_struct_hlist_nulls_node [layout_simps]:
  "sizeof struct_hlist_nulls_node = 16" "alignof struct_hlist_nulls_node = 8" "wf_ty struct_hlist_nulls_node" "unpacked struct_hlist_nulls_node"
  by (simp_all add: struct_hlist_nulls_node_def layout_simps layout_eval)

definition struct_sock_common :: ctype where
  "struct_sock_common = CStruct [
    Fld [] (CUnion [
      Fld ''skc_addrpair'' typedef___addrpair,
      Fld [] (CStruct [
        Fld ''skc_daddr'' typedef___be32,
        Fld ''skc_rcv_saddr'' typedef___be32])]),
    Fld [] (CUnion [
      Fld ''skc_hash'' c_uint,
      Fld ''skc_u16hashes'' (CArr 2 typedef___u16)]),
    Fld [] (CUnion [
      Fld ''skc_portpair'' typedef___portpair,
      Fld [] (CStruct [
        Fld ''skc_dport'' typedef___be16,
        Fld ''skc_num'' typedef___u16])]),
    Fld ''skc_family'' c_ushort,
    Fld ''skc_state'' c_uchar,
    Bits ''skc_reuse'' c_uchar 4,
    Bits ''skc_reuseport'' c_uchar 1,
    Bits ''skc_ipv6only'' c_uchar 1,
    Bits ''skc_net_refcnt'' c_uchar 1,
    Fld ''skc_bound_dev_if'' c_int,
    Fld [] (CUnion [
      Fld ''skc_bind_node'' struct_hlist_node,
      Fld ''skc_portaddr_node'' struct_hlist_node]),
    Fld ''skc_prot'' CPtr,
    Fld ''skc_net'' typedef_possible_net_t,
    Fld ''skc_v6_daddr'' struct_in6_addr,
    Fld ''skc_v6_rcv_saddr'' struct_in6_addr,
    Fld ''skc_cookie'' typedef_atomic64_t,
    Fld [] (CUnion [
      Fld ''skc_flags'' c_ulong,
      Fld ''skc_listener'' CPtr,
      Fld ''skc_tw_dr'' CPtr]),
    Fld ''skc_dontcopy_begin'' (CArr 0 c_int),
    Fld [] (CUnion [
      Fld ''skc_node'' struct_hlist_node,
      Fld ''skc_nulls_node'' struct_hlist_nulls_node]),
    Fld ''skc_tx_queue_mapping'' c_ushort,
    Fld ''skc_rx_queue_mapping'' c_ushort,
    Fld [] (CUnion [
      Fld ''skc_incoming_cpu'' c_int,
      Fld ''skc_rcv_wnd'' typedef_u32,
      Fld ''skc_tw_rcv_nxt'' typedef_u32]),
    Fld ''skc_refcnt'' typedef_refcount_t,
    Fld ''skc_dontcopy_end'' (CArr 0 c_int),
    Fld [] (CUnion [
      Fld ''skc_rxhash'' typedef_u32,
      Fld ''skc_window_clamp'' typedef_u32,
      Fld ''skc_tw_snd_nxt'' typedef_u32])]"

lemma lay_struct_sock_common [layout_simps]:
  "sizeof struct_sock_common = 136" "alignof struct_sock_common = 8" "wf_ty struct_sock_common" "unpacked struct_sock_common"
  by (simp_all add: struct_sock_common_def layout_simps layout_eval)

definition struct_sk_buff_list :: ctype where
  "struct_sk_buff_list = CStruct [
    Fld ''next'' CPtr,
    Fld ''prev'' CPtr]"

lemma lay_struct_sk_buff_list [layout_simps]:
  "sizeof struct_sk_buff_list = 16" "alignof struct_sk_buff_list = 8" "wf_ty struct_sk_buff_list" "unpacked struct_sk_buff_list"
  by (simp_all add: struct_sk_buff_list_def layout_simps layout_eval)

definition struct_sk_buff_head :: ctype where
  "struct_sk_buff_head = CStruct [
    Fld [] (CUnion [
      Fld [] (CStruct [
        Fld ''next'' CPtr,
        Fld ''prev'' CPtr]),
      Fld ''list'' struct_sk_buff_list]),
    Fld ''qlen'' typedef___u32,
    Fld ''lock'' typedef_spinlock_t]"

lemma lay_struct_sk_buff_head [layout_simps]:
  "sizeof struct_sk_buff_head = 24" "alignof struct_sk_buff_head = 8" "wf_ty struct_sk_buff_head" "unpacked struct_sk_buff_head"
  by (simp_all add: struct_sk_buff_head_def layout_simps layout_eval)

definition typedef_socket_lock_t :: ctype where
  "typedef_socket_lock_t = CStruct [
    Fld ''slock'' typedef_spinlock_t,
    Fld ''owned'' c_int,
    Fld ''wq'' typedef_wait_queue_head_t]"

lemma lay_typedef_socket_lock_t [layout_simps]:
  "sizeof typedef_socket_lock_t = 32" "alignof typedef_socket_lock_t = 8" "wf_ty typedef_socket_lock_t" "unpacked typedef_socket_lock_t"
  by (simp_all add: typedef_socket_lock_t_def layout_simps layout_eval)

definition struct_qrwlock :: ctype where
  "struct_qrwlock = CStruct [
    Fld [] (CUnion [
      Fld ''cnts'' typedef_atomic_t,
      Fld [] (CStruct [
        Fld ''wlocked'' typedef_u8,
        Fld ''__lstate'' (CArr 3 typedef_u8)])]),
    Fld ''wait_lock'' typedef_arch_spinlock_t]"

lemma lay_struct_qrwlock [layout_simps]:
  "sizeof struct_qrwlock = 8" "alignof struct_qrwlock = 4" "wf_ty struct_qrwlock" "unpacked struct_qrwlock"
  by (simp_all add: struct_qrwlock_def layout_simps layout_eval)

definition typedef_arch_rwlock_t :: ctype where
  [layout_simps]: "typedef_arch_rwlock_t = struct_qrwlock"

definition typedef_rwlock_t :: ctype where
  "typedef_rwlock_t = CStruct [
    Fld ''raw_lock'' typedef_arch_rwlock_t]"

lemma lay_typedef_rwlock_t [layout_simps]:
  "sizeof typedef_rwlock_t = 8" "alignof typedef_rwlock_t = 4" "wf_ty typedef_rwlock_t" "unpacked typedef_rwlock_t"
  by (simp_all add: typedef_rwlock_t_def layout_simps layout_eval)

definition struct_sock_cgroup_data :: ctype where
  "struct_sock_cgroup_data = CStruct [
    Fld ''cgroup'' CPtr,
    Fld ''classid'' typedef_u32,
    Fld ''prioidx'' typedef_u16]"

lemma lay_struct_sock_cgroup_data [layout_simps]:
  "sizeof struct_sock_cgroup_data = 16" "alignof struct_sock_cgroup_data = 8" "wf_ty struct_sock_cgroup_data" "unpacked struct_sock_cgroup_data"
  by (simp_all add: struct_sock_cgroup_data_def layout_simps layout_eval)

definition typedef_netns_tracker :: ctype where
  "typedef_netns_tracker = CStruct []"

lemma lay_typedef_netns_tracker [layout_simps]:
  "sizeof typedef_netns_tracker = 0" "alignof typedef_netns_tracker = 1" "wf_ty typedef_netns_tracker" "unpacked typedef_netns_tracker"
  by (simp_all add: typedef_netns_tracker_def layout_simps layout_eval)

definition struct_sock :: ctype where
  "struct_sock = CStruct [
    Fld ''__sk_common'' struct_sock_common,
    Fld ''__cacheline_group_begin__sock_write_rx'' (CArr 0 typedef___u8),
    Fld ''sk_drops'' typedef_atomic_t,
    Fld ''sk_peek_off'' typedef___s32,
    Fld ''sk_error_queue'' struct_sk_buff_head,
    Fld ''sk_receive_queue'' struct_sk_buff_head,
    Fld ''sk_backlog'' (CStruct [
      Fld ''rmem_alloc'' typedef_atomic_t,
      Fld ''len'' c_int,
      Fld ''head'' CPtr,
      Fld ''tail'' CPtr]),
    Fld ''__cacheline_group_end__sock_write_rx'' (CArr 0 typedef___u8),
    Fld ''__cacheline_group_begin__sock_read_rx'' (CArr 0 typedef___u8),
    Fld ''sk_rx_dst'' CPtr,
    Fld ''sk_rx_dst_ifindex'' c_int,
    Fld ''sk_rx_dst_cookie'' typedef_u32,
    Fld ''sk_ll_usec'' c_uint,
    Fld ''sk_napi_id'' c_uint,
    Fld ''sk_busy_poll_budget'' typedef_u16,
    Fld ''sk_prefer_busy_poll'' typedef_u8,
    Fld ''sk_userlocks'' typedef_u8,
    Fld ''sk_rcvbuf'' c_int,
    Fld ''sk_filter'' CPtr,
    Fld [] (CUnion [
      Fld ''sk_wq'' CPtr,
      Fld ''sk_wq_raw'' CPtr]),
    Fld ''sk_data_ready'' CPtr,
    Fld ''sk_rcvtimeo'' c_long,
    Fld ''sk_rcvlowat'' c_int,
    Fld ''__cacheline_group_end__sock_read_rx'' (CArr 0 typedef___u8),
    Fld ''__cacheline_group_begin__sock_read_rxtx'' (CArr 0 typedef___u8),
    Fld ''sk_err'' c_int,
    Fld ''sk_socket'' CPtr,
    Fld ''sk_memcg'' CPtr,
    Fld ''sk_policy'' (CArr 2 CPtr),
    Fld ''__cacheline_group_end__sock_read_rxtx'' (CArr 0 typedef___u8),
    Fld ''__cacheline_group_begin__sock_write_rxtx'' (CArr 0 typedef___u8),
    Fld ''sk_lock'' typedef_socket_lock_t,
    Fld ''sk_reserved_mem'' typedef_u32,
    Fld ''sk_forward_alloc'' c_int,
    Fld ''sk_tsflags'' typedef_u32,
    Fld ''__cacheline_group_end__sock_write_rxtx'' (CArr 0 typedef___u8),
    Fld ''__cacheline_group_begin__sock_write_tx'' (CArr 0 typedef___u8),
    Fld ''sk_write_pending'' c_int,
    Fld ''sk_omem_alloc'' typedef_atomic_t,
    Fld ''sk_sndbuf'' c_int,
    Fld ''sk_wmem_queued'' c_int,
    Fld ''sk_wmem_alloc'' typedef_refcount_t,
    Fld ''sk_tsq_flags'' c_ulong,
    Fld [] (CUnion [
      Fld ''sk_send_head'' CPtr,
      Fld ''tcp_rtx_queue'' struct_rb_root]),
    Fld ''sk_write_queue'' struct_sk_buff_head,
    Fld ''sk_dst_pending_confirm'' typedef_u32,
    Fld ''sk_pacing_status'' typedef_u32,
    Fld ''sk_frag'' struct_page_frag,
    Fld ''sk_timer'' struct_timer_list,
    Fld ''sk_pacing_rate'' c_ulong,
    Fld ''sk_zckey'' typedef_atomic_t,
    Fld ''sk_tskey'' typedef_atomic_t,
    Fld ''__cacheline_group_end__sock_write_tx'' (CArr 0 typedef___u8),
    Fld ''__cacheline_group_begin__sock_read_tx'' (CArr 0 typedef___u8),
    Fld ''sk_max_pacing_rate'' c_ulong,
    Fld ''sk_sndtimeo'' c_long,
    Fld ''sk_priority'' typedef_u32,
    Fld ''sk_mark'' typedef_u32,
    Fld ''sk_dst_cache'' CPtr,
    Fld ''sk_route_caps'' typedef_netdev_features_t,
    Fld ''sk_validate_xmit_skb'' CPtr,
    Fld ''sk_gso_type'' typedef_u16,
    Fld ''sk_gso_max_segs'' typedef_u16,
    Fld ''sk_gso_max_size'' c_uint,
    Fld ''sk_allocation'' typedef_gfp_t,
    Fld ''sk_txhash'' typedef_u32,
    Fld ''sk_pacing_shift'' typedef_u8,
    Fld ''sk_use_task_frag'' typedef_bool,
    Fld ''__cacheline_group_end__sock_read_tx'' (CArr 0 typedef___u8),
    Bits ''sk_gso_disabled'' typedef_u8 1,
    Bits ''sk_kern_sock'' typedef_u8 1,
    Bits ''sk_no_check_tx'' typedef_u8 1,
    Bits ''sk_no_check_rx'' typedef_u8 1,
    Fld ''sk_shutdown'' typedef_u8,
    Fld ''sk_type'' typedef_u16,
    Fld ''sk_protocol'' typedef_u16,
    Fld ''sk_lingertime'' c_ulong,
    Fld ''sk_prot_creator'' CPtr,
    Fld ''sk_callback_lock'' typedef_rwlock_t,
    Fld ''sk_err_soft'' c_int,
    Fld ''sk_ack_backlog'' typedef_u32,
    Fld ''sk_max_ack_backlog'' typedef_u32,
    Fld ''sk_uid'' typedef_kuid_t,
    Fld ''sk_ino'' c_ulong,
    Fld ''sk_peer_lock'' typedef_spinlock_t,
    Fld ''sk_bind_phc'' c_int,
    Fld ''sk_peer_pid'' CPtr,
    Fld ''sk_peer_cred'' CPtr,
    Fld ''sk_stamp'' typedef_ktime_t,
    Fld ''sk_disconnects'' c_int,
    Fld [] (CUnion [
      Fld ''sk_txrehash'' typedef_u8,
      Fld ''sk_scm_recv_flags'' typedef_u8,
      Fld [] (CStruct [
        Bits ''sk_scm_credentials'' typedef_u8 1,
        Bits ''sk_scm_security'' typedef_u8 1,
        Bits ''sk_scm_pidfd'' typedef_u8 1,
        Bits ''sk_scm_rights'' typedef_u8 1,
        Bits ''sk_scm_unused'' typedef_u8 4])]),
    Fld ''sk_clockid'' typedef_u8,
    Bits ''sk_txtime_deadline_mode'' typedef_u8 1,
    Bits ''sk_txtime_report_errors'' typedef_u8 1,
    Bits ''sk_txtime_unused'' typedef_u8 6,
    Fld ''sk_bpf_cb_flags'' typedef_u8,
    Fld ''sk_user_data'' CPtr,
    Fld ''sk_security'' CPtr,
    Fld ''sk_cgrp_data'' struct_sock_cgroup_data,
    Fld ''sk_state_change'' CPtr,
    Fld ''sk_write_space'' CPtr,
    Fld ''sk_error_report'' CPtr,
    Fld ''sk_backlog_rcv'' CPtr,
    Fld ''sk_destruct'' CPtr,
    Fld ''sk_reuseport_cb'' CPtr,
    Fld ''sk_bpf_storage'' CPtr,
    Fld ''sk_rcu'' struct_callback_head,
    Fld ''ns_tracker'' typedef_netns_tracker,
    Fld ''sk_user_frags'' struct_xarray]"

lemma lay_struct_sock [layout_simps]:
  "sizeof struct_sock = 784" "alignof struct_sock = 8" "wf_ty struct_sock" "unpacked struct_sock"
  by (simp_all add: struct_sock_def layout_simps layout_eval)

end
