(* ===== verification/Vmlinux_Trace.thy ===== *)
theory Vmlinux_Trace
  imports Vmlinux_Dev
begin

text \<open>
  The kernel objects behind the tracing programs: tracepoints, their events, probes and perf events the programs are attached to, the links and system call that attach them, and the namespaces of the processes they see.
  Each definition transcribes one declaration of \<open>src-bpf/vmlinux.h\<close>; the lemma after it
  evaluates its size and alignment and checks that it is well-formed.
\<close>

definition struct_static_key :: ctype where
  "struct_static_key = CStruct [
    Fld ''enabled'' typedef_atomic_t,
    Fld [] (CUnion [
      Fld ''type'' c_ulong,
      Fld ''entries'' CPtr,
      Fld ''next'' CPtr])]"

lemma lay_struct_static_key [layout_simps]:
  "sizeof struct_static_key = 16" "alignof struct_static_key = 8" "wf_ty struct_static_key" "unpacked struct_static_key"
  by (simp_all add: struct_static_key_def layout_simps layout_eval)

definition struct_static_key_false :: ctype where
  "struct_static_key_false = CStruct [
    Fld ''key'' struct_static_key]"

lemma lay_struct_static_key_false [layout_simps]:
  "sizeof struct_static_key_false = 16" "alignof struct_static_key_false = 8" "wf_ty struct_static_key_false" "unpacked struct_static_key_false"
  by (simp_all add: struct_static_key_false_def layout_simps layout_eval)

definition struct_tracepoint :: ctype where
  "struct_tracepoint = CStruct [
    Fld ''name'' CPtr,
    Fld ''key'' struct_static_key_false,
    Fld ''static_call_key'' CPtr,
    Fld ''static_call_tramp'' CPtr,
    Fld ''iterator'' CPtr,
    Fld ''probestub'' CPtr,
    Fld ''funcs'' CPtr,
    Fld ''ext'' CPtr]"

lemma lay_struct_tracepoint [layout_simps]:
  "sizeof struct_tracepoint = 72" "alignof struct_tracepoint = 8" "wf_ty struct_tracepoint" "unpacked struct_tracepoint"
  by (simp_all add: struct_tracepoint_def layout_simps layout_eval)

definition struct_trace_event :: ctype where
  "struct_trace_event = CStruct [
    Fld ''node'' struct_hlist_node,
    Fld ''type'' c_int,
    Fld ''funcs'' CPtr]"

lemma lay_struct_trace_event [layout_simps]:
  "sizeof struct_trace_event = 32" "alignof struct_trace_event = 8" "wf_ty struct_trace_event" "unpacked struct_trace_event"
  by (simp_all add: struct_trace_event_def layout_simps layout_eval)

definition struct_trace_event_call :: ctype where
  "struct_trace_event_call = CStruct [
    Fld ''list'' struct_list_head,
    Fld ''class'' CPtr,
    Fld [] (CUnion [
      Fld ''name'' CPtr,
      Fld ''tp'' CPtr]),
    Fld ''event'' struct_trace_event,
    Fld ''print_fmt'' CPtr,
    Fld [] (CUnion [
      Fld ''module'' CPtr,
      Fld ''refcnt'' typedef_atomic_t]),
    Fld ''data'' CPtr,
    Fld ''flags'' c_int,
    Fld ''perf_refcount'' c_int,
    Fld ''perf_events'' CPtr,
    Fld ''prog_array'' CPtr,
    Fld ''perf_perm'' CPtr]"

lemma lay_struct_trace_event_call [layout_simps]:
  "sizeof struct_trace_event_call = 120" "alignof struct_trace_event_call = 8" "wf_ty struct_trace_event_call" "unpacked struct_trace_event_call"
  by (simp_all add: struct_trace_event_call_def layout_simps layout_eval)

definition typedef_kprobe_pre_handler_t :: ctype where
  [layout_simps]: "typedef_kprobe_pre_handler_t = CPtr"

definition typedef_kprobe_post_handler_t :: ctype where
  [layout_simps]: "typedef_kprobe_post_handler_t = CPtr"

definition typedef_kprobe_opcode_t :: ctype where
  [layout_simps]: "typedef_kprobe_opcode_t = typedef_u8"

definition struct_arch_specific_insn :: ctype where
  "struct_arch_specific_insn = CStruct [
    Fld ''insn'' CPtr,
    Bits ''boostable'' c_uint 1,
    Fld ''size'' c_uchar,
    Fld [] (CUnion [
      Fld ''opcode'' c_uchar,
      Fld ''jcc'' (CStruct [
        Fld ''type'' c_uchar]),
      Fld ''loop'' (CStruct [
        Fld ''type'' c_uchar,
        Fld ''asize'' c_uchar]),
      Fld ''indirect'' (CStruct [
        Fld ''reg'' c_uchar])]),
    Fld ''rel32'' typedef_s32,
    Fld ''emulate_op'' CPtr,
    Fld ''tp_len'' c_int]"

lemma lay_struct_arch_specific_insn [layout_simps]:
  "sizeof struct_arch_specific_insn = 32" "alignof struct_arch_specific_insn = 8" "wf_ty struct_arch_specific_insn" "unpacked struct_arch_specific_insn"
  by (simp_all add: struct_arch_specific_insn_def layout_simps layout_eval)

definition struct_kprobe :: ctype where
  "struct_kprobe = CStruct [
    Fld ''hlist'' struct_hlist_node,
    Fld ''list'' struct_list_head,
    Fld ''nmissed'' c_ulong,
    Fld ''addr'' CPtr,
    Fld ''symbol_name'' CPtr,
    Fld ''offset'' c_uint,
    Fld ''pre_handler'' typedef_kprobe_pre_handler_t,
    Fld ''post_handler'' typedef_kprobe_post_handler_t,
    Fld ''opcode'' typedef_kprobe_opcode_t,
    Fld ''ainsn'' struct_arch_specific_insn,
    Fld ''flags'' typedef_u32]"

lemma lay_struct_kprobe [layout_simps]:
  "sizeof struct_kprobe = 128" "alignof struct_kprobe = 8" "wf_ty struct_kprobe" "unpacked struct_kprobe"
  by (simp_all add: struct_kprobe_def layout_simps layout_eval)

definition typedef_kretprobe_handler_t :: ctype where
  [layout_simps]: "typedef_kretprobe_handler_t = CPtr"

definition struct_kretprobe :: ctype where
  "struct_kretprobe = CStruct [
    Fld ''kp'' struct_kprobe,
    Fld ''handler'' typedef_kretprobe_handler_t,
    Fld ''entry_handler'' typedef_kretprobe_handler_t,
    Fld ''maxactive'' c_int,
    Fld ''nmissed'' c_int,
    Fld ''data_size'' typedef_size_t,
    Fld ''rh'' CPtr]"

lemma lay_struct_kretprobe [layout_simps]:
  "sizeof struct_kretprobe = 168" "alignof struct_kretprobe = 8" "wf_ty struct_kretprobe" "unpacked struct_kretprobe"
  by (simp_all add: struct_kretprobe_def layout_simps layout_eval)

definition enum_bpf_cmd :: ctype where
  "enum_bpf_cmd = CEnum 4 [
    (''BPF_MAP_CREATE'', 0),
    (''BPF_MAP_LOOKUP_ELEM'', 1),
    (''BPF_MAP_UPDATE_ELEM'', 2),
    (''BPF_MAP_DELETE_ELEM'', 3),
    (''BPF_MAP_GET_NEXT_KEY'', 4),
    (''BPF_PROG_LOAD'', 5),
    (''BPF_OBJ_PIN'', 6),
    (''BPF_OBJ_GET'', 7),
    (''BPF_PROG_ATTACH'', 8),
    (''BPF_PROG_DETACH'', 9),
    (''BPF_PROG_TEST_RUN'', 10),
    (''BPF_PROG_RUN'', 10),
    (''BPF_PROG_GET_NEXT_ID'', 11),
    (''BPF_MAP_GET_NEXT_ID'', 12),
    (''BPF_PROG_GET_FD_BY_ID'', 13),
    (''BPF_MAP_GET_FD_BY_ID'', 14),
    (''BPF_OBJ_GET_INFO_BY_FD'', 15),
    (''BPF_PROG_QUERY'', 16),
    (''BPF_RAW_TRACEPOINT_OPEN'', 17),
    (''BPF_BTF_LOAD'', 18),
    (''BPF_BTF_GET_FD_BY_ID'', 19),
    (''BPF_TASK_FD_QUERY'', 20),
    (''BPF_MAP_LOOKUP_AND_DELETE_ELEM'', 21),
    (''BPF_MAP_FREEZE'', 22),
    (''BPF_BTF_GET_NEXT_ID'', 23),
    (''BPF_MAP_LOOKUP_BATCH'', 24),
    (''BPF_MAP_LOOKUP_AND_DELETE_BATCH'', 25),
    (''BPF_MAP_UPDATE_BATCH'', 26),
    (''BPF_MAP_DELETE_BATCH'', 27),
    (''BPF_LINK_CREATE'', 28),
    (''BPF_LINK_UPDATE'', 29),
    (''BPF_LINK_GET_FD_BY_ID'', 30),
    (''BPF_LINK_GET_NEXT_ID'', 31),
    (''BPF_ENABLE_STATS'', 32),
    (''BPF_ITER_CREATE'', 33),
    (''BPF_LINK_DETACH'', 34),
    (''BPF_PROG_BIND_MAP'', 35),
    (''BPF_TOKEN_CREATE'', 36),
    (''BPF_PROG_STREAM_READ_BY_FD'', 37),
    (''__MAX_BPF_CMD'', 38)]"

lemma lay_enum_bpf_cmd [layout_simps]:
  "sizeof enum_bpf_cmd = 4" "alignof enum_bpf_cmd = 4" "wf_ty enum_bpf_cmd" "unpacked enum_bpf_cmd" "is_int enum_bpf_cmd"
  by (simp_all add: enum_bpf_cmd_def layout_simps layout_eval)

definition union_bpf_attr :: ctype where
  "union_bpf_attr = CUnion [
    Fld [] (CStruct [
      Fld ''map_type'' typedef___u32,
      Fld ''key_size'' typedef___u32,
      Fld ''value_size'' typedef___u32,
      Fld ''max_entries'' typedef___u32,
      Fld ''map_flags'' typedef___u32,
      Fld ''inner_map_fd'' typedef___u32,
      Fld ''numa_node'' typedef___u32,
      Fld ''map_name'' (CArr 16 c_char),
      Fld ''map_ifindex'' typedef___u32,
      Fld ''btf_fd'' typedef___u32,
      Fld ''btf_key_type_id'' typedef___u32,
      Fld ''btf_value_type_id'' typedef___u32,
      Fld ''btf_vmlinux_value_type_id'' typedef___u32,
      Fld ''map_extra'' typedef___u64,
      Fld ''value_type_btf_obj_fd'' typedef___s32,
      Fld ''map_token_fd'' typedef___s32]),
    Fld [] (CStruct [
      Fld ''map_fd'' typedef___u32,
      Fld ''key'' typedef___u64,
      Fld [] (CUnion [
        Fld ''value'' typedef___u64,
        Fld ''next_key'' typedef___u64]),
      Fld ''flags'' typedef___u64]),
    Fld ''batch'' (CStruct [
      Fld ''in_batch'' typedef___u64,
      Fld ''out_batch'' typedef___u64,
      Fld ''keys'' typedef___u64,
      Fld ''values'' typedef___u64,
      Fld ''count'' typedef___u32,
      Fld ''map_fd'' typedef___u32,
      Fld ''elem_flags'' typedef___u64,
      Fld ''flags'' typedef___u64]),
    Fld [] (CStruct [
      Fld ''prog_type'' typedef___u32,
      Fld ''insn_cnt'' typedef___u32,
      Fld ''insns'' typedef___u64,
      Fld ''license'' typedef___u64,
      Fld ''log_level'' typedef___u32,
      Fld ''log_size'' typedef___u32,
      Fld ''log_buf'' typedef___u64,
      Fld ''kern_version'' typedef___u32,
      Fld ''prog_flags'' typedef___u32,
      Fld ''prog_name'' (CArr 16 c_char),
      Fld ''prog_ifindex'' typedef___u32,
      Fld ''expected_attach_type'' typedef___u32,
      Fld ''prog_btf_fd'' typedef___u32,
      Fld ''func_info_rec_size'' typedef___u32,
      Fld ''func_info'' typedef___u64,
      Fld ''func_info_cnt'' typedef___u32,
      Fld ''line_info_rec_size'' typedef___u32,
      Fld ''line_info'' typedef___u64,
      Fld ''line_info_cnt'' typedef___u32,
      Fld ''attach_btf_id'' typedef___u32,
      Fld [] (CUnion [
        Fld ''attach_prog_fd'' typedef___u32,
        Fld ''attach_btf_obj_fd'' typedef___u32]),
      Fld ''core_relo_cnt'' typedef___u32,
      Fld ''fd_array'' typedef___u64,
      Fld ''core_relos'' typedef___u64,
      Fld ''core_relo_rec_size'' typedef___u32,
      Fld ''log_true_size'' typedef___u32,
      Fld ''prog_token_fd'' typedef___s32,
      Fld ''fd_array_cnt'' typedef___u32]),
    Fld [] (CStruct [
      Fld ''pathname'' typedef___u64,
      Fld ''bpf_fd'' typedef___u32,
      Fld ''file_flags'' typedef___u32,
      Fld ''path_fd'' typedef___s32]),
    Fld [] (CStruct [
      Fld [] (CUnion [
        Fld ''target_fd'' typedef___u32,
        Fld ''target_ifindex'' typedef___u32]),
      Fld ''attach_bpf_fd'' typedef___u32,
      Fld ''attach_type'' typedef___u32,
      Fld ''attach_flags'' typedef___u32,
      Fld ''replace_bpf_fd'' typedef___u32,
      Fld [] (CUnion [
        Fld ''relative_fd'' typedef___u32,
        Fld ''relative_id'' typedef___u32]),
      Fld ''expected_revision'' typedef___u64]),
    Fld ''test'' (CStruct [
      Fld ''prog_fd'' typedef___u32,
      Fld ''retval'' typedef___u32,
      Fld ''data_size_in'' typedef___u32,
      Fld ''data_size_out'' typedef___u32,
      Fld ''data_in'' typedef___u64,
      Fld ''data_out'' typedef___u64,
      Fld ''repeat'' typedef___u32,
      Fld ''duration'' typedef___u32,
      Fld ''ctx_size_in'' typedef___u32,
      Fld ''ctx_size_out'' typedef___u32,
      Fld ''ctx_in'' typedef___u64,
      Fld ''ctx_out'' typedef___u64,
      Fld ''flags'' typedef___u32,
      Fld ''cpu'' typedef___u32,
      Fld ''batch_size'' typedef___u32]),
    Fld [] (CStruct [
      Fld [] (CUnion [
        Fld ''start_id'' typedef___u32,
        Fld ''prog_id'' typedef___u32,
        Fld ''map_id'' typedef___u32,
        Fld ''btf_id'' typedef___u32,
        Fld ''link_id'' typedef___u32]),
      Fld ''next_id'' typedef___u32,
      Fld ''open_flags'' typedef___u32,
      Fld ''fd_by_id_token_fd'' typedef___s32]),
    Fld ''info'' (CStruct [
      Fld ''bpf_fd'' typedef___u32,
      Fld ''info_len'' typedef___u32,
      Fld ''info'' typedef___u64]),
    Fld ''query'' (CStruct [
      Fld [] (CUnion [
        Fld ''target_fd'' typedef___u32,
        Fld ''target_ifindex'' typedef___u32]),
      Fld ''attach_type'' typedef___u32,
      Fld ''query_flags'' typedef___u32,
      Fld ''attach_flags'' typedef___u32,
      Fld ''prog_ids'' typedef___u64,
      Fld [] (CUnion [
        Fld ''prog_cnt'' typedef___u32,
        Fld ''count'' typedef___u32]),
      Fld ''prog_attach_flags'' typedef___u64,
      Fld ''link_ids'' typedef___u64,
      Fld ''link_attach_flags'' typedef___u64,
      Fld ''revision'' typedef___u64]),
    Fld ''raw_tracepoint'' (CStruct [
      Fld ''name'' typedef___u64,
      Fld ''prog_fd'' typedef___u32,
      Fld ''cookie'' typedef___u64]),
    Fld [] (CStruct [
      Fld ''btf'' typedef___u64,
      Fld ''btf_log_buf'' typedef___u64,
      Fld ''btf_size'' typedef___u32,
      Fld ''btf_log_size'' typedef___u32,
      Fld ''btf_log_level'' typedef___u32,
      Fld ''btf_log_true_size'' typedef___u32,
      Fld ''btf_flags'' typedef___u32,
      Fld ''btf_token_fd'' typedef___s32]),
    Fld ''task_fd_query'' (CStruct [
      Fld ''pid'' typedef___u32,
      Fld ''fd'' typedef___u32,
      Fld ''flags'' typedef___u32,
      Fld ''buf_len'' typedef___u32,
      Fld ''buf'' typedef___u64,
      Fld ''prog_id'' typedef___u32,
      Fld ''fd_type'' typedef___u32,
      Fld ''probe_offset'' typedef___u64,
      Fld ''probe_addr'' typedef___u64]),
    Fld ''link_create'' (CStruct [
      Fld [] (CUnion [
        Fld ''prog_fd'' typedef___u32,
        Fld ''map_fd'' typedef___u32]),
      Fld [] (CUnion [
        Fld ''target_fd'' typedef___u32,
        Fld ''target_ifindex'' typedef___u32]),
      Fld ''attach_type'' typedef___u32,
      Fld ''flags'' typedef___u32,
      Fld [] (CUnion [
        Fld ''target_btf_id'' typedef___u32,
        Fld [] (CStruct [
          Fld ''iter_info'' typedef___u64,
          Fld ''iter_info_len'' typedef___u32]),
        Fld ''perf_event'' (CStruct [
          Fld ''bpf_cookie'' typedef___u64]),
        Fld ''kprobe_multi'' (CStruct [
          Fld ''flags'' typedef___u32,
          Fld ''cnt'' typedef___u32,
          Fld ''syms'' typedef___u64,
          Fld ''addrs'' typedef___u64,
          Fld ''cookies'' typedef___u64]),
        Fld ''tracing'' (CStruct [
          Fld ''target_btf_id'' typedef___u32,
          Fld ''cookie'' typedef___u64]),
        Fld ''netfilter'' (CStruct [
          Fld ''pf'' typedef___u32,
          Fld ''hooknum'' typedef___u32,
          Fld ''priority'' typedef___s32,
          Fld ''flags'' typedef___u32]),
        Fld ''tcx'' (CStruct [
          Fld [] (CUnion [
            Fld ''relative_fd'' typedef___u32,
            Fld ''relative_id'' typedef___u32]),
          Fld ''expected_revision'' typedef___u64]),
        Fld ''uprobe_multi'' (CStruct [
          Fld ''path'' typedef___u64,
          Fld ''offsets'' typedef___u64,
          Fld ''ref_ctr_offsets'' typedef___u64,
          Fld ''cookies'' typedef___u64,
          Fld ''cnt'' typedef___u32,
          Fld ''flags'' typedef___u32,
          Fld ''pid'' typedef___u32]),
        Fld ''netkit'' (CStruct [
          Fld [] (CUnion [
            Fld ''relative_fd'' typedef___u32,
            Fld ''relative_id'' typedef___u32]),
          Fld ''expected_revision'' typedef___u64]),
        Fld ''cgroup'' (CStruct [
          Fld [] (CUnion [
            Fld ''relative_fd'' typedef___u32,
            Fld ''relative_id'' typedef___u32]),
          Fld ''expected_revision'' typedef___u64])])]),
    Fld ''link_update'' (CStruct [
      Fld ''link_fd'' typedef___u32,
      Fld [] (CUnion [
        Fld ''new_prog_fd'' typedef___u32,
        Fld ''new_map_fd'' typedef___u32]),
      Fld ''flags'' typedef___u32,
      Fld [] (CUnion [
        Fld ''old_prog_fd'' typedef___u32,
        Fld ''old_map_fd'' typedef___u32])]),
    Fld ''link_detach'' (CStruct [
      Fld ''link_fd'' typedef___u32]),
    Fld ''enable_stats'' (CStruct [
      Fld ''type'' typedef___u32]),
    Fld ''iter_create'' (CStruct [
      Fld ''link_fd'' typedef___u32,
      Fld ''flags'' typedef___u32]),
    Fld ''prog_bind_map'' (CStruct [
      Fld ''prog_fd'' typedef___u32,
      Fld ''map_fd'' typedef___u32,
      Fld ''flags'' typedef___u32]),
    Fld ''token_create'' (CStruct [
      Fld ''flags'' typedef___u32,
      Fld ''bpffs_fd'' typedef___u32]),
    Fld ''prog_stream_read'' (CStruct [
      Fld ''stream_buf'' typedef___u64,
      Fld ''stream_buf_len'' typedef___u32,
      Fld ''stream_id'' typedef___u32,
      Fld ''prog_fd'' typedef___u32])]"

lemma lay_union_bpf_attr [layout_simps]:
  "sizeof union_bpf_attr = 152" "alignof union_bpf_attr = 8" "wf_ty union_bpf_attr" "unpacked union_bpf_attr"
  by (simp_all add: union_bpf_attr_def layout_simps layout_eval)

definition enum_bpf_link_type :: ctype where
  "enum_bpf_link_type = CEnum 4 [
    (''BPF_LINK_TYPE_UNSPEC'', 0),
    (''BPF_LINK_TYPE_RAW_TRACEPOINT'', 1),
    (''BPF_LINK_TYPE_TRACING'', 2),
    (''BPF_LINK_TYPE_CGROUP'', 3),
    (''BPF_LINK_TYPE_ITER'', 4),
    (''BPF_LINK_TYPE_NETNS'', 5),
    (''BPF_LINK_TYPE_XDP'', 6),
    (''BPF_LINK_TYPE_PERF_EVENT'', 7),
    (''BPF_LINK_TYPE_KPROBE_MULTI'', 8),
    (''BPF_LINK_TYPE_STRUCT_OPS'', 9),
    (''BPF_LINK_TYPE_NETFILTER'', 10),
    (''BPF_LINK_TYPE_TCX'', 11),
    (''BPF_LINK_TYPE_UPROBE_MULTI'', 12),
    (''BPF_LINK_TYPE_NETKIT'', 13),
    (''BPF_LINK_TYPE_SOCKMAP'', 14),
    (''__MAX_BPF_LINK_TYPE'', 15)]"

lemma lay_enum_bpf_link_type [layout_simps]:
  "sizeof enum_bpf_link_type = 4" "alignof enum_bpf_link_type = 4" "wf_ty enum_bpf_link_type" "unpacked enum_bpf_link_type" "is_int enum_bpf_link_type"
  by (simp_all add: enum_bpf_link_type_def layout_simps layout_eval)

definition struct_bpf_link :: ctype where
  "struct_bpf_link = CStruct [
    Fld ''refcnt'' typedef_atomic64_t,
    Fld ''id'' typedef_u32,
    Fld ''type'' enum_bpf_link_type,
    Fld ''ops'' CPtr,
    Fld ''prog'' CPtr,
    Fld ''flags'' typedef_u32,
    Fld ''attach_type'' enum_bpf_attach_type,
    Fld [] (CUnion [
      Fld ''rcu'' struct_callback_head,
      Fld ''work'' struct_work_struct]),
    Fld ''sleepable'' typedef_bool]"

lemma lay_struct_bpf_link [layout_simps]:
  "sizeof struct_bpf_link = 80" "alignof struct_bpf_link = 8" "wf_ty struct_bpf_link" "unpacked struct_bpf_link"
  by (simp_all add: struct_bpf_link_def layout_simps layout_eval)

definition struct_bpf_tramp_link :: ctype where
  "struct_bpf_tramp_link = CStruct [
    Fld ''link'' struct_bpf_link,
    Fld ''tramp_hlist'' struct_hlist_node,
    Fld ''cookie'' typedef_u64]"

lemma lay_struct_bpf_tramp_link [layout_simps]:
  "sizeof struct_bpf_tramp_link = 104" "alignof struct_bpf_tramp_link = 8" "wf_ty struct_bpf_tramp_link" "unpacked struct_bpf_tramp_link"
  by (simp_all add: struct_bpf_tramp_link_def layout_simps layout_eval)

definition struct_bpf_tracing_link :: ctype where
  "struct_bpf_tracing_link = CStruct [
    Fld ''link'' struct_bpf_tramp_link,
    Fld ''trampoline'' CPtr,
    Fld ''tgt_prog'' CPtr]"

lemma lay_struct_bpf_tracing_link [layout_simps]:
  "sizeof struct_bpf_tracing_link = 120" "alignof struct_bpf_tracing_link = 8" "wf_ty struct_bpf_tracing_link" "unpacked struct_bpf_tracing_link"
  by (simp_all add: struct_bpf_tracing_link_def layout_simps layout_eval)

definition struct_bpf_link_info :: ctype where
  "struct_bpf_link_info = CStruct [
    Fld ''type'' typedef___u32,
    Fld ''id'' typedef___u32,
    Fld ''prog_id'' typedef___u32,
    Fld [] (CUnion [
      Fld ''raw_tracepoint'' (CStruct [
        Fld ''tp_name'' typedef___u64,
        Fld ''tp_name_len'' typedef___u32,
        Fld ''cookie'' typedef___u64]),
      Fld ''tracing'' (CStruct [
        Fld ''attach_type'' typedef___u32,
        Fld ''target_obj_id'' typedef___u32,
        Fld ''target_btf_id'' typedef___u32,
        Fld ''cookie'' typedef___u64]),
      Fld ''cgroup'' (CStruct [
        Fld ''cgroup_id'' typedef___u64,
        Fld ''attach_type'' typedef___u32]),
      Fld ''iter'' (CStruct [
        Fld ''target_name'' typedef___u64,
        Fld ''target_name_len'' typedef___u32,
        Fld [] (CUnion [
          Fld ''map'' (CStruct [
            Fld ''map_id'' typedef___u32])]),
        Fld [] (CUnion [
          Fld ''cgroup'' (CStruct [
            Fld ''cgroup_id'' typedef___u64,
            Fld ''order'' typedef___u32]),
          Fld ''task'' (CStruct [
            Fld ''tid'' typedef___u32,
            Fld ''pid'' typedef___u32])])]),
      Fld ''netns'' (CStruct [
        Fld ''netns_ino'' typedef___u32,
        Fld ''attach_type'' typedef___u32]),
      Fld ''xdp'' (CStruct [
        Fld ''ifindex'' typedef___u32]),
      Fld ''struct_ops'' (CStruct [
        Fld ''map_id'' typedef___u32]),
      Fld ''netfilter'' (CStruct [
        Fld ''pf'' typedef___u32,
        Fld ''hooknum'' typedef___u32,
        Fld ''priority'' typedef___s32,
        Fld ''flags'' typedef___u32]),
      Fld ''kprobe_multi'' (CStruct [
        Fld ''addrs'' typedef___u64,
        Fld ''count'' typedef___u32,
        Fld ''flags'' typedef___u32,
        Fld ''missed'' typedef___u64,
        Fld ''cookies'' typedef___u64]),
      Fld ''uprobe_multi'' (CStruct [
        Fld ''path'' typedef___u64,
        Fld ''offsets'' typedef___u64,
        Fld ''ref_ctr_offsets'' typedef___u64,
        Fld ''cookies'' typedef___u64,
        Fld ''path_size'' typedef___u32,
        Fld ''count'' typedef___u32,
        Fld ''flags'' typedef___u32,
        Fld ''pid'' typedef___u32]),
      Fld ''perf_event'' (CStruct [
        Fld ''type'' typedef___u32,
        Fld [] (CUnion [
          Fld ''uprobe'' (CStruct [
            Fld ''file_name'' typedef___u64,
            Fld ''name_len'' typedef___u32,
            Fld ''offset'' typedef___u32,
            Fld ''cookie'' typedef___u64,
            Fld ''ref_ctr_offset'' typedef___u64]),
          Fld ''kprobe'' (CStruct [
            Fld ''func_name'' typedef___u64,
            Fld ''name_len'' typedef___u32,
            Fld ''offset'' typedef___u32,
            Fld ''addr'' typedef___u64,
            Fld ''missed'' typedef___u64,
            Fld ''cookie'' typedef___u64]),
          Fld ''tracepoint'' (CStruct [
            Fld ''tp_name'' typedef___u64,
            Fld ''name_len'' typedef___u32,
            Fld ''cookie'' typedef___u64]),
          Fld ''event'' (CStruct [
            Fld ''config'' typedef___u64,
            Fld ''type'' typedef___u32,
            Fld ''cookie'' typedef___u64])])]),
      Fld ''tcx'' (CStruct [
        Fld ''ifindex'' typedef___u32,
        Fld ''attach_type'' typedef___u32]),
      Fld ''netkit'' (CStruct [
        Fld ''ifindex'' typedef___u32,
        Fld ''attach_type'' typedef___u32]),
      Fld ''sockmap'' (CStruct [
        Fld ''map_id'' typedef___u32,
        Fld ''attach_type'' typedef___u32])])]"

lemma lay_struct_bpf_link_info [layout_simps]:
  "sizeof struct_bpf_link_info = 64" "alignof struct_bpf_link_info = 8" "wf_ty struct_bpf_link_info" "unpacked struct_bpf_link_info"
  by (simp_all add: struct_bpf_link_info_def layout_simps layout_eval)

definition struct_bpf_map_ops :: ctype where
  "struct_bpf_map_ops = CStruct [
    Fld ''map_alloc_check'' CPtr,
    Fld ''map_alloc'' CPtr,
    Fld ''map_release'' CPtr,
    Fld ''map_free'' CPtr,
    Fld ''map_get_next_key'' CPtr,
    Fld ''map_release_uref'' CPtr,
    Fld ''map_lookup_elem_sys_only'' CPtr,
    Fld ''map_lookup_batch'' CPtr,
    Fld ''map_lookup_and_delete_elem'' CPtr,
    Fld ''map_lookup_and_delete_batch'' CPtr,
    Fld ''map_update_batch'' CPtr,
    Fld ''map_delete_batch'' CPtr,
    Fld ''map_lookup_elem'' CPtr,
    Fld ''map_update_elem'' CPtr,
    Fld ''map_delete_elem'' CPtr,
    Fld ''map_push_elem'' CPtr,
    Fld ''map_pop_elem'' CPtr,
    Fld ''map_peek_elem'' CPtr,
    Fld ''map_lookup_percpu_elem'' CPtr,
    Fld ''map_fd_get_ptr'' CPtr,
    Fld ''map_fd_put_ptr'' CPtr,
    Fld ''map_gen_lookup'' CPtr,
    Fld ''map_fd_sys_lookup_elem'' CPtr,
    Fld ''map_seq_show_elem'' CPtr,
    Fld ''map_check_btf'' CPtr,
    Fld ''map_poke_track'' CPtr,
    Fld ''map_poke_untrack'' CPtr,
    Fld ''map_poke_run'' CPtr,
    Fld ''map_direct_value_addr'' CPtr,
    Fld ''map_direct_value_meta'' CPtr,
    Fld ''map_mmap'' CPtr,
    Fld ''map_poll'' CPtr,
    Fld ''map_get_unmapped_area'' CPtr,
    Fld ''map_local_storage_charge'' CPtr,
    Fld ''map_local_storage_uncharge'' CPtr,
    Fld ''map_owner_storage_ptr'' CPtr,
    Fld ''map_redirect'' CPtr,
    Fld ''map_meta_equal'' CPtr,
    Fld ''map_set_for_each_callback_args'' CPtr,
    Fld ''map_for_each_callback'' CPtr,
    Fld ''map_mem_usage'' CPtr,
    Fld ''map_btf_id'' CPtr,
    Fld ''iter_seq_info'' CPtr]"

lemma lay_struct_bpf_map_ops [layout_simps]:
  "sizeof struct_bpf_map_ops = 344" "alignof struct_bpf_map_ops = 8" "wf_ty struct_bpf_map_ops" "unpacked struct_bpf_map_ops"
  by (simp_all add: struct_bpf_map_ops_def layout_simps layout_eval)

definition struct_bpf_prog_ops :: ctype where
  "struct_bpf_prog_ops = CStruct [
    Fld ''test_run'' CPtr]"

lemma lay_struct_bpf_prog_ops [layout_simps]:
  "sizeof struct_bpf_prog_ops = 8" "alignof struct_bpf_prog_ops = 8" "wf_ty struct_bpf_prog_ops" "unpacked struct_bpf_prog_ops"
  by (simp_all add: struct_bpf_prog_ops_def layout_simps layout_eval)

definition enum_perf_event_state :: ctype where
  "enum_perf_event_state = CEnum 4 [
    (''PERF_EVENT_STATE_DEAD'', - 5),
    (''PERF_EVENT_STATE_REVOKED'', - 4),
    (''PERF_EVENT_STATE_EXIT'', - 3),
    (''PERF_EVENT_STATE_ERROR'', - 2),
    (''PERF_EVENT_STATE_OFF'', - 1),
    (''PERF_EVENT_STATE_INACTIVE'', 0),
    (''PERF_EVENT_STATE_ACTIVE'', 1)]"

lemma lay_enum_perf_event_state [layout_simps]:
  "sizeof enum_perf_event_state = 4" "alignof enum_perf_event_state = 4" "wf_ty enum_perf_event_state" "unpacked enum_perf_event_state" "is_int enum_perf_event_state"
  by (simp_all add: enum_perf_event_state_def layout_simps layout_eval)

definition typedef_local_t :: ctype where
  "typedef_local_t = CStruct [
    Fld ''a'' typedef_atomic_long_t]"

lemma lay_typedef_local_t [layout_simps]:
  "sizeof typedef_local_t = 8" "alignof typedef_local_t = 8" "wf_ty typedef_local_t" "unpacked typedef_local_t"
  by (simp_all add: typedef_local_t_def layout_simps layout_eval)

definition typedef_local64_t :: ctype where
  "typedef_local64_t = CStruct [
    Fld ''a'' typedef_local_t]"

lemma lay_typedef_local64_t [layout_simps]:
  "sizeof typedef_local64_t = 8" "alignof typedef_local64_t = 8" "wf_ty typedef_local64_t" "unpacked typedef_local64_t"
  by (simp_all add: typedef_local64_t_def layout_simps layout_eval)

definition struct_perf_event_attr :: ctype where
  "struct_perf_event_attr = CStruct [
    Fld ''type'' typedef___u32,
    Fld ''size'' typedef___u32,
    Fld ''config'' typedef___u64,
    Fld [] (CUnion [
      Fld ''sample_period'' typedef___u64,
      Fld ''sample_freq'' typedef___u64]),
    Fld ''sample_type'' typedef___u64,
    Fld ''read_format'' typedef___u64,
    Bits ''disabled'' typedef___u64 1,
    Bits ''inherit'' typedef___u64 1,
    Bits ''pinned'' typedef___u64 1,
    Bits ''exclusive'' typedef___u64 1,
    Bits ''exclude_user'' typedef___u64 1,
    Bits ''exclude_kernel'' typedef___u64 1,
    Bits ''exclude_hv'' typedef___u64 1,
    Bits ''exclude_idle'' typedef___u64 1,
    Bits ''mmap'' typedef___u64 1,
    Bits ''comm'' typedef___u64 1,
    Bits ''freq'' typedef___u64 1,
    Bits ''inherit_stat'' typedef___u64 1,
    Bits ''enable_on_exec'' typedef___u64 1,
    Bits ''task'' typedef___u64 1,
    Bits ''watermark'' typedef___u64 1,
    Bits ''precise_ip'' typedef___u64 2,
    Bits ''mmap_data'' typedef___u64 1,
    Bits ''sample_id_all'' typedef___u64 1,
    Bits ''exclude_host'' typedef___u64 1,
    Bits ''exclude_guest'' typedef___u64 1,
    Bits ''exclude_callchain_kernel'' typedef___u64 1,
    Bits ''exclude_callchain_user'' typedef___u64 1,
    Bits ''mmap2'' typedef___u64 1,
    Bits ''comm_exec'' typedef___u64 1,
    Bits ''use_clockid'' typedef___u64 1,
    Bits ''context_switch'' typedef___u64 1,
    Bits ''write_backward'' typedef___u64 1,
    Bits ''namespaces'' typedef___u64 1,
    Bits ''ksymbol'' typedef___u64 1,
    Bits ''bpf_event'' typedef___u64 1,
    Bits ''aux_output'' typedef___u64 1,
    Bits ''cgroup'' typedef___u64 1,
    Bits ''text_poke'' typedef___u64 1,
    Bits ''build_id'' typedef___u64 1,
    Bits ''inherit_thread'' typedef___u64 1,
    Bits ''remove_on_exec'' typedef___u64 1,
    Bits ''sigtrap'' typedef___u64 1,
    Bits ''__reserved_1'' typedef___u64 26,
    Fld [] (CUnion [
      Fld ''wakeup_events'' typedef___u32,
      Fld ''wakeup_watermark'' typedef___u32]),
    Fld ''bp_type'' typedef___u32,
    Fld [] (CUnion [
      Fld ''bp_addr'' typedef___u64,
      Fld ''kprobe_func'' typedef___u64,
      Fld ''uprobe_path'' typedef___u64,
      Fld ''config1'' typedef___u64]),
    Fld [] (CUnion [
      Fld ''bp_len'' typedef___u64,
      Fld ''kprobe_addr'' typedef___u64,
      Fld ''probe_offset'' typedef___u64,
      Fld ''config2'' typedef___u64]),
    Fld ''branch_sample_type'' typedef___u64,
    Fld ''sample_regs_user'' typedef___u64,
    Fld ''sample_stack_user'' typedef___u32,
    Fld ''clockid'' typedef___s32,
    Fld ''sample_regs_intr'' typedef___u64,
    Fld ''aux_watermark'' typedef___u32,
    Fld ''sample_max_stack'' typedef___u16,
    Fld ''__reserved_2'' typedef___u16,
    Fld ''aux_sample_size'' typedef___u32,
    Fld [] (CUnion [
      Fld ''aux_action'' typedef___u32,
      Fld [] (CStruct [
        Bits ''aux_start_paused'' typedef___u32 1,
        Bits ''aux_pause'' typedef___u32 1,
        Bits ''aux_resume'' typedef___u32 1,
        Bits ''__reserved_3'' typedef___u32 29])]),
    Fld ''sig_data'' typedef___u64,
    Fld ''config3'' typedef___u64]"

lemma lay_struct_perf_event_attr [layout_simps]:
  "sizeof struct_perf_event_attr = 136" "alignof struct_perf_event_attr = 8" "wf_ty struct_perf_event_attr" "unpacked struct_perf_event_attr"
  by (simp_all add: struct_perf_event_attr_def layout_simps layout_eval)

definition struct_hw_perf_event_extra :: ctype where
  "struct_hw_perf_event_extra = CStruct [
    Fld ''config'' typedef_u64,
    Fld ''reg'' c_uint,
    Fld ''alloc'' c_int,
    Fld ''idx'' c_int]"

lemma lay_struct_hw_perf_event_extra [layout_simps]:
  "sizeof struct_hw_perf_event_extra = 24" "alignof struct_hw_perf_event_extra = 8" "wf_ty struct_hw_perf_event_extra" "unpacked struct_hw_perf_event_extra"
  by (simp_all add: struct_hw_perf_event_extra_def layout_simps layout_eval)

definition struct_arch_hw_breakpoint :: ctype where
  "struct_arch_hw_breakpoint = CStruct [
    Fld ''address'' c_ulong,
    Fld ''mask'' c_ulong,
    Fld ''len'' typedef_u8,
    Fld ''type'' typedef_u8]"

lemma lay_struct_arch_hw_breakpoint [layout_simps]:
  "sizeof struct_arch_hw_breakpoint = 24" "alignof struct_arch_hw_breakpoint = 8" "wf_ty struct_arch_hw_breakpoint" "unpacked struct_arch_hw_breakpoint"
  by (simp_all add: struct_arch_hw_breakpoint_def layout_simps layout_eval)

definition struct_rhash_head :: ctype where
  "struct_rhash_head = CStruct [
    Fld ''next'' CPtr]"

lemma lay_struct_rhash_head [layout_simps]:
  "sizeof struct_rhash_head = 8" "alignof struct_rhash_head = 8" "wf_ty struct_rhash_head" "unpacked struct_rhash_head"
  by (simp_all add: struct_rhash_head_def layout_simps layout_eval)

definition struct_rhlist_head :: ctype where
  "struct_rhlist_head = CStruct [
    Fld ''rhead'' struct_rhash_head,
    Fld ''next'' CPtr]"

lemma lay_struct_rhlist_head [layout_simps]:
  "sizeof struct_rhlist_head = 16" "alignof struct_rhlist_head = 8" "wf_ty struct_rhlist_head" "unpacked struct_rhlist_head"
  by (simp_all add: struct_rhlist_head_def layout_simps layout_eval)

definition struct_hw_perf_event :: ctype where
  "struct_hw_perf_event = CStruct [
    Fld [] (CUnion [
      Fld [] (CStruct [
        Fld ''config'' typedef_u64,
        Fld ''config1'' typedef_u64,
        Fld ''last_tag'' typedef_u64,
        Fld ''dyn_constraint'' typedef_u64,
        Fld ''config_base'' c_ulong,
        Fld ''event_base'' c_ulong,
        Fld ''event_base_rdpmc'' c_int,
        Fld ''idx'' c_int,
        Fld ''last_cpu'' c_int,
        Fld ''flags'' c_int,
        Fld ''extra_reg'' struct_hw_perf_event_extra,
        Fld ''branch_reg'' struct_hw_perf_event_extra]),
      Fld [] (CStruct [
        Fld ''aux_config'' typedef_u64,
        Fld ''aux_paused'' c_uint]),
      Fld [] (CStruct [
        Fld ''hrtimer'' struct_hrtimer]),
      Fld [] (CStruct [
        Fld ''tp_list'' struct_list_head]),
      Fld [] (CStruct [
        Fld ''pwr_acc'' typedef_u64,
        Fld ''ptsc'' typedef_u64]),
      Fld [] (CStruct [
        Fld ''info'' struct_arch_hw_breakpoint,
        Fld ''bp_list'' struct_rhlist_head]),
      Fld [] (CStruct [
        Fld ''iommu_bank'' typedef_u8,
        Fld ''iommu_cntr'' typedef_u8,
        Fld ''padding'' typedef_u16,
        Fld ''conf'' typedef_u64,
        Fld ''conf1'' typedef_u64])]),
    Fld ''target'' CPtr,
    Fld ''addr_filters'' CPtr,
    Fld ''addr_filters_gen'' c_ulong,
    Fld ''state'' c_int,
    Fld ''prev_count'' typedef_local64_t,
    Fld ''sample_period'' typedef_u64,
    Fld [] (CUnion [
      Fld [] (CStruct [
        Fld ''last_period'' typedef_u64,
        Fld ''period_left'' typedef_local64_t]),
      Fld [] (CStruct [
        Fld ''saved_metric'' typedef_u64,
        Fld ''saved_slots'' typedef_u64])]),
    Fld ''interrupts_seq'' typedef_u64,
    Fld ''interrupts'' typedef_u64,
    Fld ''freq_time_stamp'' typedef_u64,
    Fld ''freq_count_stamp'' typedef_u64]"

lemma lay_struct_hw_perf_event [layout_simps]:
  "sizeof struct_hw_perf_event = 208" "alignof struct_hw_perf_event = 8" "wf_ty struct_hw_perf_event" "unpacked struct_hw_perf_event"
  by (simp_all add: struct_hw_perf_event_def layout_simps layout_eval)

definition struct_perf_addr_filters_head :: ctype where
  "struct_perf_addr_filters_head = CStruct [
    Fld ''list'' struct_list_head,
    Fld ''lock'' typedef_raw_spinlock_t,
    Fld ''nr_file_filters'' c_uint]"

lemma lay_struct_perf_addr_filters_head [layout_simps]:
  "sizeof struct_perf_addr_filters_head = 24" "alignof struct_perf_addr_filters_head = 8" "wf_ty struct_perf_addr_filters_head" "unpacked struct_perf_addr_filters_head"
  by (simp_all add: struct_perf_addr_filters_head_def layout_simps layout_eval)

definition typedef_perf_overflow_handler_t :: ctype where
  [layout_simps]: "typedef_perf_overflow_handler_t = CPtr"

definition typedef_ftrace_func_t :: ctype where
  [layout_simps]: "typedef_ftrace_func_t = CPtr"

definition struct_ftrace_ops_hash :: ctype where
  "struct_ftrace_ops_hash = CStruct [
    Fld ''notrace_hash'' CPtr,
    Fld ''filter_hash'' CPtr,
    Fld ''regex_lock'' struct_mutex]"

lemma lay_struct_ftrace_ops_hash [layout_simps]:
  "sizeof struct_ftrace_ops_hash = 48" "alignof struct_ftrace_ops_hash = 8" "wf_ty struct_ftrace_ops_hash" "unpacked struct_ftrace_ops_hash"
  by (simp_all add: struct_ftrace_ops_hash_def layout_simps layout_eval)

definition typedef_ftrace_ops_func_t :: ctype where
  [layout_simps]: "typedef_ftrace_ops_func_t = CPtr"

definition struct_ftrace_ops :: ctype where
  "struct_ftrace_ops = CStruct [
    Fld ''func'' typedef_ftrace_func_t,
    Fld ''next'' CPtr,
    Fld ''flags'' c_ulong,
    Fld ''private'' CPtr,
    Fld ''saved_func'' typedef_ftrace_func_t,
    Fld ''local_hash'' struct_ftrace_ops_hash,
    Fld ''func_hash'' CPtr,
    Fld ''old_hash'' struct_ftrace_ops_hash,
    Fld ''trampoline'' c_ulong,
    Fld ''trampoline_size'' c_ulong,
    Fld ''list'' struct_list_head,
    Fld ''subop_list'' struct_list_head,
    Fld ''ops_func'' typedef_ftrace_ops_func_t,
    Fld ''managed'' CPtr,
    Fld ''direct_call'' c_ulong]"

lemma lay_struct_ftrace_ops [layout_simps]:
  "sizeof struct_ftrace_ops = 216" "alignof struct_ftrace_ops = 8" "wf_ty struct_ftrace_ops" "unpacked struct_ftrace_ops"
  by (simp_all add: struct_ftrace_ops_def layout_simps layout_eval)

definition struct_perf_event :: ctype where
  "struct_perf_event = CStruct [
    Fld ''event_entry'' struct_list_head,
    Fld ''sibling_list'' struct_list_head,
    Fld ''active_list'' struct_list_head,
    Fld ''group_node'' struct_rb_node,
    Fld ''group_index'' typedef_u64,
    Fld ''migrate_entry'' struct_list_head,
    Fld ''hlist_entry'' struct_hlist_node,
    Fld ''active_entry'' struct_list_head,
    Fld ''nr_siblings'' c_int,
    Fld ''event_caps'' c_int,
    Fld ''group_caps'' c_int,
    Fld ''group_generation'' c_uint,
    Fld ''group_leader'' CPtr,
    Fld ''pmu'' CPtr,
    Fld ''pmu_private'' CPtr,
    Fld ''state'' enum_perf_event_state,
    Fld ''attach_state'' c_uint,
    Fld ''count'' typedef_local64_t,
    Fld ''child_count'' typedef_atomic64_t,
    Fld ''total_time_enabled'' typedef_u64,
    Fld ''total_time_running'' typedef_u64,
    Fld ''tstamp'' typedef_u64,
    Fld ''attr'' struct_perf_event_attr,
    Fld ''header_size'' typedef_u16,
    Fld ''id_header_size'' typedef_u16,
    Fld ''read_size'' typedef_u16,
    Fld ''hw'' struct_hw_perf_event,
    Fld ''ctx'' CPtr,
    Fld ''pmu_ctx'' CPtr,
    Fld ''refcount'' typedef_atomic_long_t,
    Fld ''child_total_time_enabled'' typedef_atomic64_t,
    Fld ''child_total_time_running'' typedef_atomic64_t,
    Fld ''child_mutex'' struct_mutex,
    Fld ''child_list'' struct_list_head,
    Fld ''parent'' CPtr,
    Fld ''oncpu'' c_int,
    Fld ''cpu'' c_int,
    Fld ''owner_entry'' struct_list_head,
    Fld ''owner'' CPtr,
    Fld ''mmap_mutex'' struct_mutex,
    Fld ''mmap_count'' typedef_atomic_t,
    Fld ''rb'' CPtr,
    Fld ''rb_entry'' struct_list_head,
    Fld ''rcu_batches'' c_ulong,
    Fld ''rcu_pending'' c_int,
    Fld ''waitq'' typedef_wait_queue_head_t,
    Fld ''fasync'' CPtr,
    Fld ''pending_wakeup'' c_uint,
    Fld ''pending_kill'' c_uint,
    Fld ''pending_disable'' c_uint,
    Fld ''pending_addr'' c_ulong,
    Fld ''pending_irq'' struct_irq_work,
    Fld ''pending_disable_irq'' struct_irq_work,
    Fld ''pending_task'' struct_callback_head,
    Fld ''pending_work'' c_uint,
    Fld ''event_limit'' typedef_atomic_t,
    Fld ''addr_filters'' struct_perf_addr_filters_head,
    Fld ''addr_filter_ranges'' CPtr,
    Fld ''addr_filters_gen'' c_ulong,
    Fld ''aux_event'' CPtr,
    Fld ''destroy'' CPtr,
    Fld ''callback_head'' struct_callback_head,
    Fld ''ns'' CPtr,
    Fld ''id'' typedef_u64,
    Fld ''lost_samples'' typedef_atomic64_t,
    Fld ''clock'' CPtr,
    Fld ''overflow_handler'' typedef_perf_overflow_handler_t,
    Fld ''overflow_handler_context'' CPtr,
    Fld ''prog'' CPtr,
    Fld ''bpf_cookie'' typedef_u64,
    Fld ''tp_event'' CPtr,
    Fld ''filter'' CPtr,
    Fld ''ftrace_ops'' struct_ftrace_ops,
    Fld ''cgrp'' CPtr,
    Fld ''security'' CPtr,
    Fld ''sb_list'' struct_list_head,
    Fld ''pmu_list'' struct_list_head,
    Fld ''orig_type'' typedef_u32]"

lemma lay_struct_perf_event [layout_simps]:
  "sizeof struct_perf_event = 1344" "alignof struct_perf_event = 8" "wf_ty struct_perf_event" "unpacked struct_perf_event"
  by (simp_all add: struct_perf_event_def layout_simps layout_eval)

definition struct_vm_operations_struct :: ctype where
  "struct_vm_operations_struct = CStruct [
    Fld ''open'' CPtr,
    Fld ''close'' CPtr,
    Fld ''may_split'' CPtr,
    Fld ''mremap'' CPtr,
    Fld ''mprotect'' CPtr,
    Fld ''fault'' CPtr,
    Fld ''huge_fault'' CPtr,
    Fld ''map_pages'' CPtr,
    Fld ''pagesize'' CPtr,
    Fld ''page_mkwrite'' CPtr,
    Fld ''pfn_mkwrite'' CPtr,
    Fld ''access'' CPtr,
    Fld ''name'' CPtr,
    Fld ''set_policy'' CPtr,
    Fld ''get_policy'' CPtr,
    Fld ''find_special_page'' CPtr]"

lemma lay_struct_vm_operations_struct [layout_simps]:
  "sizeof struct_vm_operations_struct = 128" "alignof struct_vm_operations_struct = 8" "wf_ty struct_vm_operations_struct" "unpacked struct_vm_operations_struct"
  by (simp_all add: struct_vm_operations_struct_def layout_simps layout_eval)

definition struct_super_operations :: ctype where
  "struct_super_operations = CStruct [
    Fld ''alloc_inode'' CPtr,
    Fld ''destroy_inode'' CPtr,
    Fld ''free_inode'' CPtr,
    Fld ''dirty_inode'' CPtr,
    Fld ''write_inode'' CPtr,
    Fld ''drop_inode'' CPtr,
    Fld ''evict_inode'' CPtr,
    Fld ''put_super'' CPtr,
    Fld ''sync_fs'' CPtr,
    Fld ''freeze_super'' CPtr,
    Fld ''freeze_fs'' CPtr,
    Fld ''thaw_super'' CPtr,
    Fld ''unfreeze_fs'' CPtr,
    Fld ''statfs'' CPtr,
    Fld ''remount_fs'' CPtr,
    Fld ''umount_begin'' CPtr,
    Fld ''show_options'' CPtr,
    Fld ''show_devname'' CPtr,
    Fld ''show_path'' CPtr,
    Fld ''show_stats'' CPtr,
    Fld ''quota_read'' CPtr,
    Fld ''quota_write'' CPtr,
    Fld ''get_dquots'' CPtr,
    Fld ''nr_cached_objects'' CPtr,
    Fld ''free_cached_objects'' CPtr,
    Fld ''remove_bdev'' CPtr,
    Fld ''shutdown'' CPtr]"

lemma lay_struct_super_operations [layout_simps]:
  "sizeof struct_super_operations = 216" "alignof struct_super_operations = 8" "wf_ty struct_super_operations" "unpacked struct_super_operations"
  by (simp_all add: struct_super_operations_def layout_simps layout_eval)

definition struct_dentry_operations :: ctype where
  "struct_dentry_operations = CStruct [
    Fld ''d_revalidate'' CPtr,
    Fld ''d_weak_revalidate'' CPtr,
    Fld ''d_hash'' CPtr,
    Fld ''d_compare'' CPtr,
    Fld ''d_delete'' CPtr,
    Fld ''d_init'' CPtr,
    Fld ''d_release'' CPtr,
    Fld ''d_prune'' CPtr,
    Fld ''d_iput'' CPtr,
    Fld ''d_dname'' CPtr,
    Fld ''d_automount'' CPtr,
    Fld ''d_manage'' CPtr,
    Fld ''d_real'' CPtr,
    Fld ''d_unalias_trylock'' CPtr,
    Fld ''d_unalias_unlock'' CPtr,
    Bits [] c_long 64]"

lemma lay_struct_dentry_operations [layout_simps]:
  "sizeof struct_dentry_operations = 128" "alignof struct_dentry_operations = 8" "wf_ty struct_dentry_operations" "unpacked struct_dentry_operations"
  by (simp_all add: struct_dentry_operations_def layout_simps layout_eval)

definition struct_cgroup_file :: ctype where
  "struct_cgroup_file = CStruct [
    Fld ''kn'' CPtr,
    Fld ''notified_at'' c_ulong,
    Fld ''notify_timer'' struct_timer_list]"

lemma lay_struct_cgroup_file [layout_simps]:
  "sizeof struct_cgroup_file = 56" "alignof struct_cgroup_file = 8" "wf_ty struct_cgroup_file" "unpacked struct_cgroup_file"
  by (simp_all add: struct_cgroup_file_def layout_simps layout_eval)

definition struct_cacheline_padding :: ctype where
  "struct_cacheline_padding = CStruct [
    Fld ''x'' (CArr 0 c_char)]"

lemma lay_struct_cacheline_padding [layout_simps]:
  "sizeof struct_cacheline_padding = 0" "alignof struct_cacheline_padding = 1" "wf_ty struct_cacheline_padding" "unpacked struct_cacheline_padding"
  by (simp_all add: struct_cacheline_padding_def layout_simps layout_eval)

definition struct_task_cputime :: ctype where
  "struct_task_cputime = CStruct [
    Fld ''stime'' typedef_u64,
    Fld ''utime'' typedef_u64,
    Fld ''sum_exec_runtime'' c_ullong]"

lemma lay_struct_task_cputime [layout_simps]:
  "sizeof struct_task_cputime = 24" "alignof struct_task_cputime = 8" "wf_ty struct_task_cputime" "unpacked struct_task_cputime"
  by (simp_all add: struct_task_cputime_def layout_simps layout_eval)

definition struct_cgroup_base_stat :: ctype where
  "struct_cgroup_base_stat = CStruct [
    Fld ''cputime'' struct_task_cputime,
    Fld ''forceidle_sum'' typedef_u64,
    Fld ''ntime'' typedef_u64]"

lemma lay_struct_cgroup_base_stat [layout_simps]:
  "sizeof struct_cgroup_base_stat = 40" "alignof struct_cgroup_base_stat = 8" "wf_ty struct_cgroup_base_stat" "unpacked struct_cgroup_base_stat"
  by (simp_all add: struct_cgroup_base_stat_def layout_simps layout_eval)

definition struct_cgroup_bpf :: ctype where
  "struct_cgroup_bpf = CStruct [
    Fld ''effective'' (CArr 38 CPtr),
    Fld ''progs'' (CArr 38 struct_hlist_head),
    Fld ''flags'' (CArr 38 typedef_u8),
    Fld ''revisions'' (CArr 38 typedef_u64),
    Fld ''storages'' struct_list_head,
    Fld ''inactive'' CPtr,
    Fld ''refcnt'' struct_percpu_ref,
    Fld ''release_work'' struct_work_struct]"

lemma lay_struct_cgroup_bpf [layout_simps]:
  "sizeof struct_cgroup_bpf = 1024" "alignof struct_cgroup_bpf = 8" "wf_ty struct_cgroup_bpf" "unpacked struct_cgroup_bpf"
  by (simp_all add: struct_cgroup_bpf_def layout_simps layout_eval)

definition struct_cgroup_freezer_state :: ctype where
  "struct_cgroup_freezer_state = CStruct [
    Fld ''freeze'' typedef_bool,
    Fld ''e_freeze'' typedef_bool,
    Fld ''nr_frozen_descendants'' c_int,
    Fld ''nr_frozen_tasks'' c_int]"

lemma lay_struct_cgroup_freezer_state [layout_simps]:
  "sizeof struct_cgroup_freezer_state = 12" "alignof struct_cgroup_freezer_state = 4" "wf_ty struct_cgroup_freezer_state" "unpacked struct_cgroup_freezer_state"
  by (simp_all add: struct_cgroup_freezer_state_def layout_simps layout_eval)

definition struct_cgroup :: ctype where
  "struct_cgroup = CStruct [
    Fld ''self'' struct_cgroup_subsys_state,
    Fld ''flags'' c_ulong,
    Fld ''level'' c_int,
    Fld ''max_depth'' c_int,
    Fld ''nr_descendants'' c_int,
    Fld ''nr_dying_descendants'' c_int,
    Fld ''max_descendants'' c_int,
    Fld ''nr_populated_csets'' c_int,
    Fld ''nr_populated_domain_children'' c_int,
    Fld ''nr_populated_threaded_children'' c_int,
    Fld ''nr_threaded_children'' c_int,
    Fld ''kill_seq'' c_uint,
    Fld ''kn'' CPtr,
    Fld ''procs_file'' struct_cgroup_file,
    Fld ''events_file'' struct_cgroup_file,
    Fld ''psi_files'' (CArr 3 struct_cgroup_file),
    Fld ''subtree_control'' typedef_u16,
    Fld ''subtree_ss_mask'' typedef_u16,
    Fld ''old_subtree_control'' typedef_u16,
    Fld ''old_subtree_ss_mask'' typedef_u16,
    Fld ''subsys'' (CArr 15 CPtr),
    Fld ''nr_dying_subsys'' (CArr 15 c_int),
    Fld ''root'' CPtr,
    Fld ''cset_links'' struct_list_head,
    Fld ''e_csets'' (CArr 15 struct_list_head),
    Fld ''dom_cgrp'' CPtr,
    Fld ''old_dom_cgrp'' CPtr,
    Fld ''rstat_base_cpu'' CPtr,
    Fld ''_pad_'' struct_cacheline_padding,
    Fld ''last_bstat'' struct_cgroup_base_stat,
    Fld ''bstat'' struct_cgroup_base_stat,
    Fld ''prev_cputime'' struct_prev_cputime,
    Fld ''pidlists'' struct_list_head,
    Fld ''pidlist_mutex'' struct_mutex,
    Fld ''offline_waitq'' typedef_wait_queue_head_t,
    Fld ''release_agent_work'' struct_work_struct,
    Fld ''psi'' CPtr,
    Fld ''bpf'' struct_cgroup_bpf,
    Fld ''freezer'' struct_cgroup_freezer_state,
    Fld ''bpf_cgrp_storage'' CPtr,
    Fld ''ancestors'' (CArr 0 CPtr),
    Bits [] c_long 64,
    Bits [] c_long 64]"

lemma lay_struct_cgroup [layout_simps]:
  "sizeof struct_cgroup = 2304" "alignof struct_cgroup = 8" "wf_ty struct_cgroup" "unpacked struct_cgroup"
  by (simp_all add: struct_cgroup_def layout_simps layout_eval)

definition struct_mem_cgroup_id :: ctype where
  "struct_mem_cgroup_id = CStruct [
    Fld ''id'' c_int,
    Fld ''ref'' typedef_refcount_t]"

lemma lay_struct_mem_cgroup_id [layout_simps]:
  "sizeof struct_mem_cgroup_id = 8" "alignof struct_mem_cgroup_id = 4" "wf_ty struct_mem_cgroup_id" "unpacked struct_mem_cgroup_id"
  by (simp_all add: struct_mem_cgroup_id_def layout_simps layout_eval)

definition struct_page_counter :: ctype where
  "struct_page_counter = CStruct [
    Fld ''usage'' typedef_atomic_long_t,
    Fld ''failcnt'' c_ulong,
    Bits [] c_long 64,
    Bits [] c_long 64,
    Bits [] c_long 64,
    Bits [] c_long 64,
    Bits [] c_long 64,
    Bits [] c_long 64,
    Fld ''_pad1_'' struct_cacheline_padding,
    Fld ''emin'' c_ulong,
    Fld ''min_usage'' typedef_atomic_long_t,
    Fld ''children_min_usage'' typedef_atomic_long_t,
    Fld ''elow'' c_ulong,
    Fld ''low_usage'' typedef_atomic_long_t,
    Fld ''children_low_usage'' typedef_atomic_long_t,
    Fld ''watermark'' c_ulong,
    Fld ''local_watermark'' c_ulong,
    Fld ''_pad2_'' struct_cacheline_padding,
    Fld ''protection_support'' typedef_bool,
    Fld ''track_failcnt'' typedef_bool,
    Fld ''min'' c_ulong,
    Fld ''low'' c_ulong,
    Fld ''high'' c_ulong,
    Fld ''max'' c_ulong,
    Fld ''parent'' CPtr,
    Bits [] c_long 64,
    Bits [] c_long 64]"

lemma lay_struct_page_counter [layout_simps]:
  "sizeof struct_page_counter = 192" "alignof struct_page_counter = 8" "wf_ty struct_page_counter" "unpacked struct_page_counter"
  by (simp_all add: struct_page_counter_def layout_simps layout_eval)

definition struct_vmpressure :: ctype where
  "struct_vmpressure = CStruct [
    Fld ''scanned'' c_ulong,
    Fld ''reclaimed'' c_ulong,
    Fld ''tree_scanned'' c_ulong,
    Fld ''tree_reclaimed'' c_ulong,
    Fld ''sr_lock'' typedef_spinlock_t,
    Fld ''events'' struct_list_head,
    Fld ''events_lock'' struct_mutex,
    Fld ''work'' struct_work_struct]"

lemma lay_struct_vmpressure [layout_simps]:
  "sizeof struct_vmpressure = 120" "alignof struct_vmpressure = 8" "wf_ty struct_vmpressure" "unpacked struct_vmpressure"
  by (simp_all add: struct_vmpressure_def layout_simps layout_eval)

definition struct_fprop_global :: ctype where
  "struct_fprop_global = CStruct [
    Fld ''events'' struct_percpu_counter,
    Fld ''period'' c_uint,
    Fld ''sequence'' typedef_seqcount_t]"

lemma lay_struct_fprop_global [layout_simps]:
  "sizeof struct_fprop_global = 48" "alignof struct_fprop_global = 8" "wf_ty struct_fprop_global" "unpacked struct_fprop_global"
  by (simp_all add: struct_fprop_global_def layout_simps layout_eval)

definition struct_wb_domain :: ctype where
  "struct_wb_domain = CStruct [
    Fld ''lock'' typedef_spinlock_t,
    Fld ''completions'' struct_fprop_global,
    Fld ''period_timer'' struct_timer_list,
    Fld ''period_time'' c_ulong,
    Fld ''dirty_limit_tstamp'' c_ulong,
    Fld ''dirty_limit'' c_ulong]"

lemma lay_struct_wb_domain [layout_simps]:
  "sizeof struct_wb_domain = 120" "alignof struct_wb_domain = 8" "wf_ty struct_wb_domain" "unpacked struct_wb_domain"
  by (simp_all add: struct_wb_domain_def layout_simps layout_eval)

definition struct_wb_completion :: ctype where
  "struct_wb_completion = CStruct [
    Fld ''cnt'' typedef_atomic_t,
    Fld ''waitq'' CPtr]"

lemma lay_struct_wb_completion [layout_simps]:
  "sizeof struct_wb_completion = 16" "alignof struct_wb_completion = 8" "wf_ty struct_wb_completion" "unpacked struct_wb_completion"
  by (simp_all add: struct_wb_completion_def layout_simps layout_eval)

definition struct_memcg_cgwb_frn :: ctype where
  "struct_memcg_cgwb_frn = CStruct [
    Fld ''bdi_id'' typedef_u64,
    Fld ''memcg_id'' c_int,
    Fld ''at'' typedef_u64,
    Fld ''done'' struct_wb_completion]"

lemma lay_struct_memcg_cgwb_frn [layout_simps]:
  "sizeof struct_memcg_cgwb_frn = 40" "alignof struct_memcg_cgwb_frn = 8" "wf_ty struct_memcg_cgwb_frn" "unpacked struct_memcg_cgwb_frn"
  by (simp_all add: struct_memcg_cgwb_frn_def layout_simps layout_eval)

definition struct_deferred_split :: ctype where
  "struct_deferred_split = CStruct [
    Fld ''split_queue_lock'' typedef_spinlock_t,
    Fld ''split_queue'' struct_list_head,
    Fld ''split_queue_len'' c_ulong]"

lemma lay_struct_deferred_split [layout_simps]:
  "sizeof struct_deferred_split = 32" "alignof struct_deferred_split = 8" "wf_ty struct_deferred_split" "unpacked struct_deferred_split"
  by (simp_all add: struct_deferred_split_def layout_simps layout_eval)

definition struct_lru_gen_mm_list :: ctype where
  "struct_lru_gen_mm_list = CStruct [
    Fld ''fifo'' struct_list_head,
    Fld ''lock'' typedef_spinlock_t]"

lemma lay_struct_lru_gen_mm_list [layout_simps]:
  "sizeof struct_lru_gen_mm_list = 24" "alignof struct_lru_gen_mm_list = 8" "wf_ty struct_lru_gen_mm_list" "unpacked struct_lru_gen_mm_list"
  by (simp_all add: struct_lru_gen_mm_list_def layout_simps layout_eval)

definition struct_mem_cgroup_thresholds :: ctype where
  "struct_mem_cgroup_thresholds = CStruct [
    Fld ''primary'' CPtr,
    Fld ''spare'' CPtr]"

lemma lay_struct_mem_cgroup_thresholds [layout_simps]:
  "sizeof struct_mem_cgroup_thresholds = 16" "alignof struct_mem_cgroup_thresholds = 8" "wf_ty struct_mem_cgroup_thresholds" "unpacked struct_mem_cgroup_thresholds"
  by (simp_all add: struct_mem_cgroup_thresholds_def layout_simps layout_eval)

definition struct_mem_cgroup :: ctype where
  "struct_mem_cgroup = CStruct [
    Fld ''css'' struct_cgroup_subsys_state,
    Fld ''id'' struct_mem_cgroup_id,
    Bits [] c_long 64,
    Bits [] c_long 64,
    Bits [] c_long 64,
    Bits [] c_long 64,
    Bits [] c_long 64,
    Fld ''memory'' struct_page_counter,
    Fld [] (CUnion [
      Fld ''swap'' struct_page_counter,
      Fld ''memsw'' struct_page_counter]),
    Fld ''memory_peaks'' struct_list_head,
    Fld ''swap_peaks'' struct_list_head,
    Fld ''peaks_lock'' typedef_spinlock_t,
    Fld ''high_work'' struct_work_struct,
    Fld ''zswap_max'' c_ulong,
    Fld ''zswap_writeback'' typedef_bool,
    Fld ''vmpressure'' struct_vmpressure,
    Fld ''oom_group'' typedef_bool,
    Fld ''swappiness'' c_int,
    Fld ''events_file'' struct_cgroup_file,
    Fld ''events_local_file'' struct_cgroup_file,
    Fld ''swap_events_file'' struct_cgroup_file,
    Fld ''vmstats'' CPtr,
    Fld ''memory_events'' (CArr 9 typedef_atomic_long_t),
    Fld ''memory_events_local'' (CArr 9 typedef_atomic_long_t),
    Fld ''socket_pressure'' typedef_u64,
    Fld ''kmemcg_id'' c_int,
    Fld ''objcg'' CPtr,
    Fld ''orig_objcg'' CPtr,
    Fld ''objcg_list'' struct_list_head,
    Fld ''vmstats_percpu'' CPtr,
    Fld ''cgwb_list'' struct_list_head,
    Fld ''cgwb_domain'' struct_wb_domain,
    Fld ''cgwb_frn'' (CArr 4 struct_memcg_cgwb_frn),
    Fld ''deferred_split_queue'' struct_deferred_split,
    Fld ''mm_list'' struct_lru_gen_mm_list,
    Bits [] c_long 64,
    Bits [] c_long 64,
    Fld ''kmem'' struct_page_counter,
    Fld ''tcpmem'' struct_page_counter,
    Fld ''events_percpu'' CPtr,
    Fld ''soft_limit'' c_ulong,
    Fld ''oom_lock'' typedef_bool,
    Fld ''under_oom'' c_int,
    Fld ''oom_kill_disable'' c_int,
    Fld ''thresholds_lock'' struct_mutex,
    Fld ''thresholds'' struct_mem_cgroup_thresholds,
    Fld ''memsw_thresholds'' struct_mem_cgroup_thresholds,
    Fld ''oom_notify'' struct_list_head,
    Fld ''tcpmem_active'' typedef_bool,
    Fld ''tcpmem_pressure'' c_int,
    Fld ''event_list'' struct_list_head,
    Fld ''event_list_lock'' typedef_spinlock_t,
    Fld ''nodeinfo'' (CArr 0 CPtr),
    Bits [] c_long 64,
    Bits [] c_long 64,
    Bits [] c_long 64,
    Bits [] c_long 64,
    Bits [] c_long 64,
    Bits [] c_long 64]"

lemma lay_struct_mem_cgroup [layout_simps]:
  "sizeof struct_mem_cgroup = 2176" "alignof struct_mem_cgroup = 8" "wf_ty struct_mem_cgroup" "unpacked struct_mem_cgroup"
  by (simp_all add: struct_mem_cgroup_def layout_simps layout_eval)

end
