(* ===== verification/Vmlinux_Load.thy ===== *)
theory Vmlinux_Load
  imports Vmlinux_Trace
begin

text \<open>
  The kernel objects behind loading and attaching the programs: the state the verifier keeps
  for them, prototypes of helpers, type information, trampolines, links, arrays of attached
  programs, per-program storage and the caches of map elements.
  Each definition transcribes one declaration of \<open>src-bpf/vmlinux.h\<close>; the lemma after it
  evaluates its size and alignment and checks that it is well-formed.
\<close>

definition struct_btf_mod_pair :: ctype where
  "struct_btf_mod_pair = CStruct [
    Fld ''btf'' CPtr,
    Fld ''module'' CPtr]"

lemma lay_struct_btf_mod_pair [layout_simps]:
  "sizeof struct_btf_mod_pair = 16" "alignof struct_btf_mod_pair = 8" "wf_ty struct_btf_mod_pair" "unpacked struct_btf_mod_pair"
  by (simp_all add: struct_btf_mod_pair_def layout_simps layout_eval)

definition struct_bpf_verifier_log :: ctype where
  "struct_bpf_verifier_log = CStruct [
    Fld ''start_pos'' typedef_u64,
    Fld ''end_pos'' typedef_u64,
    Fld ''ubuf'' CPtr,
    Fld ''level'' typedef_u32,
    Fld ''len_total'' typedef_u32,
    Fld ''len_max'' typedef_u32,
    Fld ''kbuf'' (CArr 1024 c_char)]"

lemma lay_struct_bpf_verifier_log [layout_simps]:
  "sizeof struct_bpf_verifier_log = 1064" "alignof struct_bpf_verifier_log = 8" "wf_ty struct_bpf_verifier_log" "unpacked struct_bpf_verifier_log"
  by (simp_all add: struct_bpf_verifier_log_def layout_simps layout_eval)

definition enum_priv_stack_mode :: ctype where
  "enum_priv_stack_mode = CEnum 4 [
    (''PRIV_STACK_UNKNOWN'', 0),
    (''NO_PRIV_STACK'', 1),
    (''PRIV_STACK_ADAPTIVE'', 2)]"

lemma lay_enum_priv_stack_mode [layout_simps]:
  "sizeof enum_priv_stack_mode = 4" "alignof enum_priv_stack_mode = 4" "wf_ty enum_priv_stack_mode" "unpacked enum_priv_stack_mode" "is_int enum_priv_stack_mode"
  by (simp_all add: enum_priv_stack_mode_def layout_simps layout_eval)

definition enum_bpf_arg_type :: ctype where
  "enum_bpf_arg_type = CEnum 4 [
    (''ARG_DONTCARE'', 0),
    (''ARG_CONST_MAP_PTR'', 1),
    (''ARG_PTR_TO_MAP_KEY'', 2),
    (''ARG_PTR_TO_MAP_VALUE'', 3),
    (''ARG_PTR_TO_MEM'', 4),
    (''ARG_PTR_TO_ARENA'', 5),
    (''ARG_CONST_SIZE'', 6),
    (''ARG_CONST_SIZE_OR_ZERO'', 7),
    (''ARG_PTR_TO_CTX'', 8),
    (''ARG_ANYTHING'', 9),
    (''ARG_PTR_TO_SPIN_LOCK'', 10),
    (''ARG_PTR_TO_SOCK_COMMON'', 11),
    (''ARG_PTR_TO_SOCKET'', 12),
    (''ARG_PTR_TO_BTF_ID'', 13),
    (''ARG_PTR_TO_RINGBUF_MEM'', 14),
    (''ARG_CONST_ALLOC_SIZE_OR_ZERO'', 15),
    (''ARG_PTR_TO_BTF_ID_SOCK_COMMON'', 16),
    (''ARG_PTR_TO_PERCPU_BTF_ID'', 17),
    (''ARG_PTR_TO_FUNC'', 18),
    (''ARG_PTR_TO_STACK'', 19),
    (''ARG_PTR_TO_CONST_STR'', 20),
    (''ARG_PTR_TO_TIMER'', 21),
    (''ARG_KPTR_XCHG_DEST'', 22),
    (''ARG_PTR_TO_DYNPTR'', 23),
    (''__BPF_ARG_TYPE_MAX'', 24),
    (''ARG_PTR_TO_MAP_VALUE_OR_NULL'', 259),
    (''ARG_PTR_TO_MEM_OR_NULL'', 260),
    (''ARG_PTR_TO_CTX_OR_NULL'', 264),
    (''ARG_PTR_TO_SOCKET_OR_NULL'', 268),
    (''ARG_PTR_TO_STACK_OR_NULL'', 275),
    (''ARG_PTR_TO_BTF_ID_OR_NULL'', 269),
    (''ARG_PTR_TO_UNINIT_MEM'', 67141636),
    (''ARG_PTR_TO_FIXED_SIZE_MEM'', 262148),
    (''__BPF_ARG_TYPE_LIMIT'', 134217727)]"

lemma lay_enum_bpf_arg_type [layout_simps]:
  "sizeof enum_bpf_arg_type = 4" "alignof enum_bpf_arg_type = 4" "wf_ty enum_bpf_arg_type" "unpacked enum_bpf_arg_type" "is_int enum_bpf_arg_type"
  by (simp_all add: enum_bpf_arg_type_def layout_simps layout_eval)

definition struct_bpf_subprog_arg_info :: ctype where
  "struct_bpf_subprog_arg_info = CStruct [
    Fld ''arg_type'' enum_bpf_arg_type,
    Fld [] (CUnion [
      Fld ''mem_size'' typedef_u32,
      Fld ''btf_id'' typedef_u32])]"

lemma lay_struct_bpf_subprog_arg_info [layout_simps]:
  "sizeof struct_bpf_subprog_arg_info = 8" "alignof struct_bpf_subprog_arg_info = 4" "wf_ty struct_bpf_subprog_arg_info" "unpacked struct_bpf_subprog_arg_info"
  by (simp_all add: struct_bpf_subprog_arg_info_def layout_simps layout_eval)

definition struct_bpf_subprog_info :: ctype where
  "struct_bpf_subprog_info = CStruct [
    Fld ''start'' typedef_u32,
    Fld ''linfo_idx'' typedef_u32,
    Fld ''stack_depth'' typedef_u16,
    Fld ''stack_extra'' typedef_u16,
    Fld ''fastcall_stack_off'' typedef_s16,
    Bits ''has_tail_call'' typedef_bool 1,
    Bits ''tail_call_reachable'' typedef_bool 1,
    Bits ''has_ld_abs'' typedef_bool 1,
    Bits ''is_cb'' typedef_bool 1,
    Bits ''is_async_cb'' typedef_bool 1,
    Bits ''is_exception_cb'' typedef_bool 1,
    Bits ''args_cached'' typedef_bool 1,
    Bits ''keep_fastcall_stack'' typedef_bool 1,
    Bits ''changes_pkt_data'' typedef_bool 1,
    Bits ''might_sleep'' typedef_bool 1,
    Fld ''priv_stack_mode'' enum_priv_stack_mode,
    Fld ''arg_cnt'' typedef_u8,
    Fld ''args'' (CArr 5 struct_bpf_subprog_arg_info)]"

lemma lay_struct_bpf_subprog_info [layout_simps]:
  "sizeof struct_bpf_subprog_info = 64" "alignof struct_bpf_subprog_info = 4" "wf_ty struct_bpf_subprog_info" "unpacked struct_bpf_subprog_info"
  by (simp_all add: struct_bpf_subprog_info_def layout_simps layout_eval)

definition struct_bpf_id_pair :: ctype where
  "struct_bpf_id_pair = CStruct [
    Fld ''old'' typedef_u32,
    Fld ''cur'' typedef_u32]"

lemma lay_struct_bpf_id_pair [layout_simps]:
  "sizeof struct_bpf_id_pair = 8" "alignof struct_bpf_id_pair = 4" "wf_ty struct_bpf_id_pair" "unpacked struct_bpf_id_pair"
  by (simp_all add: struct_bpf_id_pair_def layout_simps layout_eval)

definition struct_bpf_idmap :: ctype where
  "struct_bpf_idmap = CStruct [
    Fld ''tmp_id_gen'' typedef_u32,
    Fld ''map'' (CArr 600 struct_bpf_id_pair)]"

lemma lay_struct_bpf_idmap [layout_simps]:
  "sizeof struct_bpf_idmap = 4804" "alignof struct_bpf_idmap = 4" "wf_ty struct_bpf_idmap" "unpacked struct_bpf_idmap"
  by (simp_all add: struct_bpf_idmap_def layout_simps layout_eval)

definition struct_bpf_idset :: ctype where
  "struct_bpf_idset = CStruct [
    Fld ''count'' typedef_u32,
    Fld ''ids'' (CArr 600 typedef_u32)]"

lemma lay_struct_bpf_idset [layout_simps]:
  "sizeof struct_bpf_idset = 2404" "alignof struct_bpf_idset = 4" "wf_ty struct_bpf_idset" "unpacked struct_bpf_idset"
  by (simp_all add: struct_bpf_idset_def layout_simps layout_eval)

definition struct_backtrack_state :: ctype where
  "struct_backtrack_state = CStruct [
    Fld ''env'' CPtr,
    Fld ''frame'' typedef_u32,
    Fld ''reg_masks'' (CArr 8 typedef_u32),
    Fld ''stack_masks'' (CArr 8 typedef_u64)]"

lemma lay_struct_backtrack_state [layout_simps]:
  "sizeof struct_backtrack_state = 112" "alignof struct_backtrack_state = 8" "wf_ty struct_backtrack_state" "unpacked struct_backtrack_state"
  by (simp_all add: struct_backtrack_state_def layout_simps layout_eval)

definition typedef_sockptr_t :: ctype where
  "typedef_sockptr_t = CStruct [
    Fld [] (CUnion [
      Fld ''kernel'' CPtr,
      Fld ''user'' CPtr]),
    Bits ''is_kernel'' typedef_bool 1]"

lemma lay_typedef_sockptr_t [layout_simps]:
  "sizeof typedef_sockptr_t = 16" "alignof typedef_sockptr_t = 8" "wf_ty typedef_sockptr_t" "unpacked typedef_sockptr_t"
  by (simp_all add: typedef_sockptr_t_def layout_simps layout_eval)

definition typedef_bpfptr_t :: ctype where
  [layout_simps]: "typedef_bpfptr_t = typedef_sockptr_t"

definition enum_bpf_reg_type :: ctype where
  "enum_bpf_reg_type = CEnum 4 [
    (''NOT_INIT'', 0),
    (''SCALAR_VALUE'', 1),
    (''PTR_TO_CTX'', 2),
    (''CONST_PTR_TO_MAP'', 3),
    (''PTR_TO_MAP_VALUE'', 4),
    (''PTR_TO_MAP_KEY'', 5),
    (''PTR_TO_STACK'', 6),
    (''PTR_TO_PACKET_META'', 7),
    (''PTR_TO_PACKET'', 8),
    (''PTR_TO_PACKET_END'', 9),
    (''PTR_TO_FLOW_KEYS'', 10),
    (''PTR_TO_SOCKET'', 11),
    (''PTR_TO_SOCK_COMMON'', 12),
    (''PTR_TO_TCP_SOCK'', 13),
    (''PTR_TO_TP_BUFFER'', 14),
    (''PTR_TO_XDP_SOCK'', 15),
    (''PTR_TO_BTF_ID'', 16),
    (''PTR_TO_MEM'', 17),
    (''PTR_TO_ARENA'', 18),
    (''PTR_TO_BUF'', 19),
    (''PTR_TO_FUNC'', 20),
    (''CONST_PTR_TO_DYNPTR'', 21),
    (''__BPF_REG_TYPE_MAX'', 22),
    (''PTR_TO_MAP_VALUE_OR_NULL'', 260),
    (''PTR_TO_SOCKET_OR_NULL'', 267),
    (''PTR_TO_SOCK_COMMON_OR_NULL'', 268),
    (''PTR_TO_TCP_SOCK_OR_NULL'', 269),
    (''PTR_TO_BTF_ID_OR_NULL'', 272),
    (''__BPF_REG_TYPE_LIMIT'', 134217727)]"

lemma lay_enum_bpf_reg_type [layout_simps]:
  "sizeof enum_bpf_reg_type = 4" "alignof enum_bpf_reg_type = 4" "wf_ty enum_bpf_reg_type" "unpacked enum_bpf_reg_type" "is_int enum_bpf_reg_type"
  by (simp_all add: enum_bpf_reg_type_def layout_simps layout_eval)

definition enum_bpf_dynptr_type :: ctype where
  "enum_bpf_dynptr_type = CEnum 4 [
    (''BPF_DYNPTR_TYPE_INVALID'', 0),
    (''BPF_DYNPTR_TYPE_LOCAL'', 1),
    (''BPF_DYNPTR_TYPE_RINGBUF'', 2),
    (''BPF_DYNPTR_TYPE_SKB'', 3),
    (''BPF_DYNPTR_TYPE_XDP'', 4)]"

lemma lay_enum_bpf_dynptr_type [layout_simps]:
  "sizeof enum_bpf_dynptr_type = 4" "alignof enum_bpf_dynptr_type = 4" "wf_ty enum_bpf_dynptr_type" "unpacked enum_bpf_dynptr_type" "is_int enum_bpf_dynptr_type"
  by (simp_all add: enum_bpf_dynptr_type_def layout_simps layout_eval)

definition enum_bpf_iter_state :: ctype where
  "enum_bpf_iter_state = CEnum 4 [
    (''BPF_ITER_STATE_INVALID'', 0),
    (''BPF_ITER_STATE_ACTIVE'', 1),
    (''BPF_ITER_STATE_DRAINED'', 2)]"

lemma lay_enum_bpf_iter_state [layout_simps]:
  "sizeof enum_bpf_iter_state = 4" "alignof enum_bpf_iter_state = 4" "wf_ty enum_bpf_iter_state" "unpacked enum_bpf_iter_state" "is_int enum_bpf_iter_state"
  by (simp_all add: enum_bpf_iter_state_def layout_simps layout_eval)

definition struct_tnum :: ctype where
  "struct_tnum = CStruct [
    Fld ''value'' typedef_u64,
    Fld ''mask'' typedef_u64]"

lemma lay_struct_tnum [layout_simps]:
  "sizeof struct_tnum = 16" "alignof struct_tnum = 8" "wf_ty struct_tnum" "unpacked struct_tnum"
  by (simp_all add: struct_tnum_def layout_simps layout_eval)

definition enum_bpf_reg_liveness :: ctype where
  "enum_bpf_reg_liveness = CEnum 4 [
    (''REG_LIVE_NONE'', 0),
    (''REG_LIVE_READ32'', 1),
    (''REG_LIVE_READ64'', 2),
    (''REG_LIVE_READ'', 3),
    (''REG_LIVE_WRITTEN'', 4),
    (''REG_LIVE_DONE'', 8)]"

lemma lay_enum_bpf_reg_liveness [layout_simps]:
  "sizeof enum_bpf_reg_liveness = 4" "alignof enum_bpf_reg_liveness = 4" "wf_ty enum_bpf_reg_liveness" "unpacked enum_bpf_reg_liveness" "is_int enum_bpf_reg_liveness"
  by (simp_all add: enum_bpf_reg_liveness_def layout_simps layout_eval)

definition struct_bpf_reg_state :: ctype where
  "struct_bpf_reg_state = CStruct [
    Fld ''type'' enum_bpf_reg_type,
    Fld ''off'' typedef_s32,
    Fld [] (CUnion [
      Fld ''range'' c_int,
      Fld [] (CStruct [
        Fld ''map_ptr'' CPtr,
        Fld ''map_uid'' typedef_u32]),
      Fld [] (CStruct [
        Fld ''btf'' CPtr,
        Fld ''btf_id'' typedef_u32]),
      Fld [] (CStruct [
        Fld ''mem_size'' typedef_u32,
        Fld ''dynptr_id'' typedef_u32]),
      Fld ''dynptr'' (CStruct [
        Fld ''type'' enum_bpf_dynptr_type,
        Fld ''first_slot'' typedef_bool]),
      Fld ''iter'' (CStruct [
        Fld ''btf'' CPtr,
        Fld ''btf_id'' typedef_u32,
        Bits ''state'' enum_bpf_iter_state 2,
        Bits ''depth'' c_int 30]),
      Fld ''irq'' (CStruct [
        Fld ''kfunc_class'' (CEnum 4 [
    (''IRQ_NATIVE_KFUNC'', 0),
    (''IRQ_LOCK_KFUNC'', 1)])]),
      Fld ''raw'' (CStruct [
        Fld ''raw1'' c_ulong,
        Fld ''raw2'' c_ulong]),
      Fld ''subprogno'' typedef_u32]),
    Fld ''var_off'' struct_tnum,
    Fld ''smin_value'' typedef_s64,
    Fld ''smax_value'' typedef_s64,
    Fld ''umin_value'' typedef_u64,
    Fld ''umax_value'' typedef_u64,
    Fld ''s32_min_value'' typedef_s32,
    Fld ''s32_max_value'' typedef_s32,
    Fld ''u32_min_value'' typedef_u32,
    Fld ''u32_max_value'' typedef_u32,
    Fld ''id'' typedef_u32,
    Fld ''ref_obj_id'' typedef_u32,
    Fld ''parent'' CPtr,
    Fld ''frameno'' typedef_u32,
    Fld ''subreg_def'' typedef_s32,
    Fld ''live'' enum_bpf_reg_liveness,
    Fld ''precise'' typedef_bool]"

lemma lay_struct_bpf_reg_state [layout_simps]:
  "sizeof struct_bpf_reg_state = 120" "alignof struct_bpf_reg_state = 8" "wf_ty struct_bpf_reg_state" "unpacked struct_bpf_reg_state"
  by (simp_all add: struct_bpf_reg_state_def layout_simps layout_eval)

definition struct_bpf_scc_callchain :: ctype where
  "struct_bpf_scc_callchain = CStruct [
    Fld ''callsites'' (CArr 7 typedef_u32),
    Fld ''scc'' typedef_u32]"

lemma lay_struct_bpf_scc_callchain [layout_simps]:
  "sizeof struct_bpf_scc_callchain = 32" "alignof struct_bpf_scc_callchain = 4" "wf_ty struct_bpf_scc_callchain" "unpacked struct_bpf_scc_callchain"
  by (simp_all add: struct_bpf_scc_callchain_def layout_simps layout_eval)

definition struct_bpf_verifier_env :: ctype where
  "struct_bpf_verifier_env = CStruct [
    Fld ''insn_idx'' typedef_u32,
    Fld ''prev_insn_idx'' typedef_u32,
    Fld ''prog'' CPtr,
    Fld ''ops'' CPtr,
    Fld ''attach_btf_mod'' CPtr,
    Fld ''head'' CPtr,
    Fld ''stack_size'' c_int,
    Fld ''strict_alignment'' typedef_bool,
    Fld ''test_state_freq'' typedef_bool,
    Fld ''test_reg_invariants'' typedef_bool,
    Fld ''cur_state'' CPtr,
    Fld ''explored_states'' CPtr,
    Fld ''free_list'' struct_list_head,
    Fld ''used_maps'' (CArr 64 CPtr),
    Fld ''used_btfs'' (CArr 64 struct_btf_mod_pair),
    Fld ''used_map_cnt'' typedef_u32,
    Fld ''used_btf_cnt'' typedef_u32,
    Fld ''id_gen'' typedef_u32,
    Fld ''hidden_subprog_cnt'' typedef_u32,
    Fld ''exception_callback_subprog'' c_int,
    Fld ''explore_alu_limits'' typedef_bool,
    Fld ''allow_ptr_leaks'' typedef_bool,
    Fld ''allow_uninit_stack'' typedef_bool,
    Fld ''bpf_capable'' typedef_bool,
    Fld ''bypass_spec_v1'' typedef_bool,
    Fld ''bypass_spec_v4'' typedef_bool,
    Fld ''seen_direct_write'' typedef_bool,
    Fld ''seen_exception'' typedef_bool,
    Fld ''insn_aux_data'' CPtr,
    Fld ''prev_linfo'' CPtr,
    Fld ''log'' struct_bpf_verifier_log,
    Fld ''subprog_info'' (CArr 258 struct_bpf_subprog_info),
    Fld [] (CUnion [
      Fld ''idmap_scratch'' struct_bpf_idmap,
      Fld ''idset_scratch'' struct_bpf_idset]),
    Fld ''cfg'' (CStruct [
      Fld ''insn_state'' CPtr,
      Fld ''insn_stack'' CPtr,
      Fld ''insn_postorder'' CPtr,
      Fld ''cur_stack'' c_int,
      Fld ''cur_postorder'' c_int]),
    Fld ''bt'' struct_backtrack_state,
    Fld ''cur_hist_ent'' CPtr,
    Fld ''pass_cnt'' typedef_u32,
    Fld ''subprog_cnt'' typedef_u32,
    Fld ''prev_insn_processed'' typedef_u32,
    Fld ''insn_processed'' typedef_u32,
    Fld ''prev_jmps_processed'' typedef_u32,
    Fld ''jmps_processed'' typedef_u32,
    Fld ''verification_time'' typedef_u64,
    Fld ''max_states_per_insn'' typedef_u32,
    Fld ''total_states'' typedef_u32,
    Fld ''peak_states'' typedef_u32,
    Fld ''longest_mark_read_walk'' typedef_u32,
    Fld ''free_list_size'' typedef_u32,
    Fld ''explored_states_size'' typedef_u32,
    Fld ''num_backedges'' typedef_u32,
    Fld ''fd_array'' typedef_bpfptr_t,
    Fld ''scratched_regs'' typedef_u32,
    Fld ''scratched_stack_slots'' typedef_u64,
    Fld ''prev_log_pos'' typedef_u64,
    Fld ''prev_insn_print_pos'' typedef_u64,
    Fld ''fake_reg'' (CArr 2 struct_bpf_reg_state),
    Fld ''tmp_str_buf'' (CArr 320 c_char),
    Fld ''insn_buf'' (CArr 32 struct_bpf_insn),
    Fld ''epilogue_buf'' (CArr 32 struct_bpf_insn),
    Fld ''callchain_buf'' struct_bpf_scc_callchain,
    Fld ''scc_info'' CPtr,
    Fld ''scc_cnt'' typedef_u32]"

lemma lay_struct_bpf_verifier_env [layout_simps]:
  "sizeof struct_bpf_verifier_env = 25432" "alignof struct_bpf_verifier_env = 8" "wf_ty struct_bpf_verifier_env" "unpacked struct_bpf_verifier_env"
  by (simp_all add: struct_bpf_verifier_env_def layout_simps layout_eval)

definition enum_bpf_return_type :: ctype where
  "enum_bpf_return_type = CEnum 4 [
    (''RET_INTEGER'', 0),
    (''RET_VOID'', 1),
    (''RET_PTR_TO_MAP_VALUE'', 2),
    (''RET_PTR_TO_SOCKET'', 3),
    (''RET_PTR_TO_TCP_SOCK'', 4),
    (''RET_PTR_TO_SOCK_COMMON'', 5),
    (''RET_PTR_TO_MEM'', 6),
    (''RET_PTR_TO_MEM_OR_BTF_ID'', 7),
    (''RET_PTR_TO_BTF_ID'', 8),
    (''__BPF_RET_TYPE_MAX'', 9),
    (''RET_PTR_TO_MAP_VALUE_OR_NULL'', 258),
    (''RET_PTR_TO_SOCKET_OR_NULL'', 259),
    (''RET_PTR_TO_TCP_SOCK_OR_NULL'', 260),
    (''RET_PTR_TO_SOCK_COMMON_OR_NULL'', 261),
    (''RET_PTR_TO_RINGBUF_MEM_OR_NULL'', 1286),
    (''RET_PTR_TO_DYNPTR_MEM_OR_NULL'', 262),
    (''RET_PTR_TO_BTF_ID_OR_NULL'', 264),
    (''RET_PTR_TO_BTF_ID_TRUSTED'', 1048584),
    (''__BPF_RET_TYPE_LIMIT'', 134217727)]"

lemma lay_enum_bpf_return_type [layout_simps]:
  "sizeof enum_bpf_return_type = 4" "alignof enum_bpf_return_type = 4" "wf_ty enum_bpf_return_type" "unpacked enum_bpf_return_type" "is_int enum_bpf_return_type"
  by (simp_all add: enum_bpf_return_type_def layout_simps layout_eval)

definition struct_bpf_func_proto :: ctype where
  "struct_bpf_func_proto = CStruct [
    Fld ''func'' CPtr,
    Fld ''gpl_only'' typedef_bool,
    Fld ''pkt_access'' typedef_bool,
    Fld ''might_sleep'' typedef_bool,
    Fld ''allow_fastcall'' typedef_bool,
    Fld ''ret_type'' enum_bpf_return_type,
    Fld [] (CUnion [
      Fld [] (CStruct [
        Fld ''arg1_type'' enum_bpf_arg_type,
        Fld ''arg2_type'' enum_bpf_arg_type,
        Fld ''arg3_type'' enum_bpf_arg_type,
        Fld ''arg4_type'' enum_bpf_arg_type,
        Fld ''arg5_type'' enum_bpf_arg_type]),
      Fld ''arg_type'' (CArr 5 enum_bpf_arg_type)]),
    Fld [] (CUnion [
      Fld [] (CStruct [
        Fld ''arg1_btf_id'' CPtr,
        Fld ''arg2_btf_id'' CPtr,
        Fld ''arg3_btf_id'' CPtr,
        Fld ''arg4_btf_id'' CPtr,
        Fld ''arg5_btf_id'' CPtr]),
      Fld ''arg_btf_id'' (CArr 5 CPtr),
      Fld [] (CStruct [
        Fld ''arg1_size'' typedef_size_t,
        Fld ''arg2_size'' typedef_size_t,
        Fld ''arg3_size'' typedef_size_t,
        Fld ''arg4_size'' typedef_size_t,
        Fld ''arg5_size'' typedef_size_t]),
      Fld ''arg_size'' (CArr 5 typedef_size_t)]),
    Fld ''ret_btf_id'' CPtr,
    Fld ''allowed'' CPtr]"

lemma lay_struct_bpf_func_proto [layout_simps]:
  "sizeof struct_bpf_func_proto = 96" "alignof struct_bpf_func_proto = 8" "wf_ty struct_bpf_func_proto" "unpacked struct_bpf_func_proto"
  by (simp_all add: struct_bpf_func_proto_def layout_simps layout_eval)

definition struct_bpf_verifier_ops :: ctype where
  "struct_bpf_verifier_ops = CStruct [
    Fld ''get_func_proto'' CPtr,
    Fld ''is_valid_access'' CPtr,
    Fld ''gen_prologue'' CPtr,
    Fld ''gen_epilogue'' CPtr,
    Fld ''gen_ld_abs'' CPtr,
    Fld ''convert_ctx_access'' CPtr,
    Fld ''btf_struct_access'' CPtr]"

lemma lay_struct_bpf_verifier_ops [layout_simps]:
  "sizeof struct_bpf_verifier_ops = 56" "alignof struct_bpf_verifier_ops = 8" "wf_ty struct_bpf_verifier_ops" "unpacked struct_bpf_verifier_ops"
  by (simp_all add: struct_bpf_verifier_ops_def layout_simps layout_eval)

definition struct_bpf_map_ptr_state :: ctype where
  "struct_bpf_map_ptr_state = CStruct [
    Fld ''map_ptr'' CPtr,
    Fld ''poison'' typedef_bool,
    Fld ''unpriv'' typedef_bool]"

lemma lay_struct_bpf_map_ptr_state [layout_simps]:
  "sizeof struct_bpf_map_ptr_state = 16" "alignof struct_bpf_map_ptr_state = 8" "wf_ty struct_bpf_map_ptr_state" "unpacked struct_bpf_map_ptr_state"
  by (simp_all add: struct_bpf_map_ptr_state_def layout_simps layout_eval)

definition struct_bpf_loop_inline_state :: ctype where
  "struct_bpf_loop_inline_state = CStruct [
    Bits ''initialized'' c_uint 1,
    Bits ''fit_for_inline'' c_uint 1,
    Fld ''callback_subprogno'' typedef_u32]"

lemma lay_struct_bpf_loop_inline_state [layout_simps]:
  "sizeof struct_bpf_loop_inline_state = 8" "alignof struct_bpf_loop_inline_state = 4" "wf_ty struct_bpf_loop_inline_state" "unpacked struct_bpf_loop_inline_state"
  by (simp_all add: struct_bpf_loop_inline_state_def layout_simps layout_eval)

definition struct_bpf_insn_aux_data :: ctype where
  "struct_bpf_insn_aux_data = CStruct [
    Fld [] (CUnion [
      Fld ''ptr_type'' enum_bpf_reg_type,
      Fld ''map_ptr_state'' struct_bpf_map_ptr_state,
      Fld ''call_imm'' typedef_s32,
      Fld ''alu_limit'' typedef_u32,
      Fld [] (CStruct [
        Fld ''map_index'' typedef_u32,
        Fld ''map_off'' typedef_u32]),
      Fld ''btf_var'' (CStruct [
        Fld ''reg_type'' enum_bpf_reg_type,
        Fld [] (CUnion [
          Fld [] (CStruct [
            Fld ''btf'' CPtr,
            Fld ''btf_id'' typedef_u32]),
          Fld ''mem_size'' typedef_u32])]),
      Fld ''loop_inline_state'' struct_bpf_loop_inline_state]),
    Fld [] (CUnion [
      Fld ''obj_new_size'' typedef_u64,
      Fld ''insert_off'' typedef_u64]),
    Fld ''kptr_struct_meta'' CPtr,
    Fld ''map_key_state'' typedef_u64,
    Fld ''ctx_field_size'' c_int,
    Fld ''seen'' typedef_u32,
    Fld ''nospec'' typedef_bool,
    Fld ''nospec_result'' typedef_bool,
    Fld ''zext_dst'' typedef_bool,
    Fld ''needs_zext'' typedef_bool,
    Fld ''storage_get_func_atomic'' typedef_bool,
    Fld ''is_iter_next'' typedef_bool,
    Fld ''call_with_percpu_alloc_ptr'' typedef_bool,
    Fld ''alu_state'' typedef_u8,
    Bits ''fastcall_pattern'' typedef_u8 1,
    Bits ''fastcall_spills_num'' typedef_u8 3,
    Bits ''arg_prog'' typedef_u8 4,
    Fld ''orig_idx'' c_uint,
    Fld ''jmp_point'' typedef_bool,
    Fld ''prune_point'' typedef_bool,
    Fld ''force_checkpoint'' typedef_bool,
    Fld ''calls_callback'' typedef_bool,
    Fld ''scc'' typedef_u32,
    Fld ''live_regs_before'' typedef_u16]"

lemma lay_struct_bpf_insn_aux_data [layout_simps]:
  "sizeof struct_bpf_insn_aux_data = 88" "alignof struct_bpf_insn_aux_data = 8" "wf_ty struct_bpf_insn_aux_data" "unpacked struct_bpf_insn_aux_data"
  by (simp_all add: struct_bpf_insn_aux_data_def layout_simps layout_eval)

definition struct_bpf_retval_range :: ctype where
  "struct_bpf_retval_range = CStruct [
    Fld ''minval'' typedef_s32,
    Fld ''maxval'' typedef_s32]"

lemma lay_struct_bpf_retval_range [layout_simps]:
  "sizeof struct_bpf_retval_range = 8" "alignof struct_bpf_retval_range = 4" "wf_ty struct_bpf_retval_range" "unpacked struct_bpf_retval_range"
  by (simp_all add: struct_bpf_retval_range_def layout_simps layout_eval)

definition struct_bpf_func_state :: ctype where
  "struct_bpf_func_state = CStruct [
    Fld ''regs'' (CArr 11 struct_bpf_reg_state),
    Fld ''callsite'' c_int,
    Fld ''frameno'' typedef_u32,
    Fld ''subprogno'' typedef_u32,
    Fld ''async_entry_cnt'' typedef_u32,
    Fld ''callback_ret_range'' struct_bpf_retval_range,
    Fld ''in_callback_fn'' typedef_bool,
    Fld ''in_async_callback_fn'' typedef_bool,
    Fld ''in_exception_callback_fn'' typedef_bool,
    Fld ''callback_depth'' typedef_u32,
    Fld ''stack'' CPtr,
    Fld ''allocated_stack'' c_int]"

lemma lay_struct_bpf_func_state [layout_simps]:
  "sizeof struct_bpf_func_state = 1368" "alignof struct_bpf_func_state = 8" "wf_ty struct_bpf_func_state" "unpacked struct_bpf_func_state"
  by (simp_all add: struct_bpf_func_state_def layout_simps layout_eval)

definition struct_bpf_verifier_state :: ctype where
  "struct_bpf_verifier_state = CStruct [
    Fld ''frame'' (CArr 8 CPtr),
    Fld ''parent'' CPtr,
    Fld ''refs'' CPtr,
    Fld ''branches'' typedef_u32,
    Fld ''insn_idx'' typedef_u32,
    Fld ''curframe'' typedef_u32,
    Fld ''acquired_refs'' typedef_u32,
    Fld ''active_locks'' typedef_u32,
    Fld ''active_preempt_locks'' typedef_u32,
    Fld ''active_irq_id'' typedef_u32,
    Fld ''active_lock_id'' typedef_u32,
    Fld ''active_lock_ptr'' CPtr,
    Fld ''active_rcu_lock'' typedef_bool,
    Fld ''speculative'' typedef_bool,
    Fld ''in_sleepable'' typedef_bool,
    Fld ''first_insn_idx'' typedef_u32,
    Fld ''last_insn_idx'' typedef_u32,
    Fld ''equal_state'' CPtr,
    Fld ''jmp_history'' CPtr,
    Fld ''jmp_history_cnt'' typedef_u32,
    Fld ''dfs_depth'' typedef_u32,
    Fld ''callback_unroll_depth'' typedef_u32,
    Fld ''may_goto_depth'' typedef_u32]"

lemma lay_struct_bpf_verifier_state [layout_simps]:
  "sizeof struct_bpf_verifier_state = 168" "alignof struct_bpf_verifier_state = 8" "wf_ty struct_bpf_verifier_state" "unpacked struct_bpf_verifier_state"
  by (simp_all add: struct_bpf_verifier_state_def layout_simps layout_eval)

definition struct_btf_header :: ctype where
  "struct_btf_header = CStruct [
    Fld ''magic'' typedef___u16,
    Fld ''version'' typedef___u8,
    Fld ''flags'' typedef___u8,
    Fld ''hdr_len'' typedef___u32,
    Fld ''type_off'' typedef___u32,
    Fld ''type_len'' typedef___u32,
    Fld ''str_off'' typedef___u32,
    Fld ''str_len'' typedef___u32]"

lemma lay_struct_btf_header [layout_simps]:
  "sizeof struct_btf_header = 24" "alignof struct_btf_header = 4" "wf_ty struct_btf_header" "unpacked struct_btf_header"
  by (simp_all add: struct_btf_header_def layout_simps layout_eval)

definition struct_btf :: ctype where
  "struct_btf = CStruct [
    Fld ''data'' CPtr,
    Fld ''types'' CPtr,
    Fld ''resolved_ids'' CPtr,
    Fld ''resolved_sizes'' CPtr,
    Fld ''strings'' CPtr,
    Fld ''nohdr_data'' CPtr,
    Fld ''hdr'' struct_btf_header,
    Fld ''nr_types'' typedef_u32,
    Fld ''types_size'' typedef_u32,
    Fld ''data_size'' typedef_u32,
    Fld ''refcnt'' typedef_refcount_t,
    Fld ''id'' typedef_u32,
    Fld ''rcu'' struct_callback_head,
    Fld ''kfunc_set_tab'' CPtr,
    Fld ''dtor_kfunc_tab'' CPtr,
    Fld ''struct_meta_tab'' CPtr,
    Fld ''struct_ops_tab'' CPtr,
    Fld ''base_btf'' CPtr,
    Fld ''start_id'' typedef_u32,
    Fld ''start_str_off'' typedef_u32,
    Fld ''name'' (CArr 56 c_char),
    Fld ''kernel_btf'' typedef_bool,
    Fld ''base_id_map'' CPtr]"

lemma lay_struct_btf [layout_simps]:
  "sizeof struct_btf = 232" "alignof struct_btf = 8" "wf_ty struct_btf" "unpacked struct_btf"
  by (simp_all add: struct_btf_def layout_simps layout_eval)

definition struct_btf_type :: ctype where
  "struct_btf_type = CStruct [
    Fld ''name_off'' typedef___u32,
    Fld ''info'' typedef___u32,
    Fld [] (CUnion [
      Fld ''size'' typedef___u32,
      Fld ''type'' typedef___u32])]"

lemma lay_struct_btf_type [layout_simps]:
  "sizeof struct_btf_type = 12" "alignof struct_btf_type = 4" "wf_ty struct_btf_type" "unpacked struct_btf_type"
  by (simp_all add: struct_btf_type_def layout_simps layout_eval)

definition struct_btf_func_model :: ctype where
  "struct_btf_func_model = CStruct [
    Fld ''ret_size'' typedef_u8,
    Fld ''ret_flags'' typedef_u8,
    Fld ''nr_args'' typedef_u8,
    Fld ''arg_size'' (CArr 12 typedef_u8),
    Fld ''arg_flags'' (CArr 12 typedef_u8)]"

lemma lay_struct_btf_func_model [layout_simps]:
  "sizeof struct_btf_func_model = 27" "alignof struct_btf_func_model = 1" "wf_ty struct_btf_func_model" "unpacked struct_btf_func_model"
  by (simp_all add: struct_btf_func_model_def layout_simps layout_eval)

definition struct_bpf_attach_target_info :: ctype where
  "struct_bpf_attach_target_info = CStruct [
    Fld ''fmodel'' struct_btf_func_model,
    Fld ''tgt_addr'' c_long,
    Fld ''tgt_mod'' CPtr,
    Fld ''tgt_name'' CPtr,
    Fld ''tgt_type'' CPtr]"

lemma lay_struct_bpf_attach_target_info [layout_simps]:
  "sizeof struct_bpf_attach_target_info = 64" "alignof struct_bpf_attach_target_info = 8" "wf_ty struct_bpf_attach_target_info" "unpacked struct_bpf_attach_target_info"
  by (simp_all add: struct_bpf_attach_target_info_def layout_simps layout_eval)

definition struct_bpf_trampoline :: ctype where
  "struct_bpf_trampoline = CStruct [
    Fld ''hlist'' struct_hlist_node,
    Fld ''fops'' CPtr,
    Fld ''mutex'' struct_mutex,
    Fld ''refcnt'' typedef_refcount_t,
    Fld ''flags'' typedef_u32,
    Fld ''key'' typedef_u64,
    Fld ''func'' (CStruct [
      Fld ''model'' struct_btf_func_model,
      Fld ''addr'' CPtr,
      Fld ''ftrace_managed'' typedef_bool]),
    Fld ''extension_prog'' CPtr,
    Fld ''progs_hlist'' (CArr 3 struct_hlist_head),
    Fld ''progs_cnt'' (CArr 3 c_int),
    Fld ''cur_image'' CPtr]"

lemma lay_struct_bpf_trampoline [layout_simps]:
  "sizeof struct_bpf_trampoline = 176" "alignof struct_bpf_trampoline = 8" "wf_ty struct_bpf_trampoline" "unpacked struct_bpf_trampoline"
  by (simp_all add: struct_bpf_trampoline_def layout_simps layout_eval)

definition struct_bpf_tramp_image :: ctype where
  "struct_bpf_tramp_image = CStruct [
    Fld ''image'' CPtr,
    Fld ''size'' c_int,
    Fld ''ksym'' struct_bpf_ksym,
    Fld ''pcref'' struct_percpu_ref,
    Fld ''ip_after_call'' CPtr,
    Fld ''ip_epilogue'' CPtr,
    Fld [] (CUnion [
      Fld ''rcu'' struct_callback_head,
      Fld ''work'' struct_work_struct])]"

lemma lay_struct_bpf_tramp_image [layout_simps]:
  "sizeof struct_bpf_tramp_image = 680" "alignof struct_bpf_tramp_image = 8" "wf_ty struct_bpf_tramp_image" "unpacked struct_bpf_tramp_image"
  by (simp_all add: struct_bpf_tramp_image_def layout_simps layout_eval)

definition struct_bpf_perf_link :: ctype where
  "struct_bpf_perf_link = CStruct [
    Fld ''link'' struct_bpf_link,
    Fld ''perf_file'' CPtr]"

lemma lay_struct_bpf_perf_link [layout_simps]:
  "sizeof struct_bpf_perf_link = 88" "alignof struct_bpf_perf_link = 8" "wf_ty struct_bpf_perf_link" "unpacked struct_bpf_perf_link"
  by (simp_all add: struct_bpf_perf_link_def layout_simps layout_eval)

definition struct_bpf_raw_tp_link :: ctype where
  "struct_bpf_raw_tp_link = CStruct [
    Fld ''link'' struct_bpf_link,
    Fld ''btp'' CPtr,
    Fld ''cookie'' typedef_u64]"

lemma lay_struct_bpf_raw_tp_link [layout_simps]:
  "sizeof struct_bpf_raw_tp_link = 96" "alignof struct_bpf_raw_tp_link = 8" "wf_ty struct_bpf_raw_tp_link" "unpacked struct_bpf_raw_tp_link"
  by (simp_all add: struct_bpf_raw_tp_link_def layout_simps layout_eval)

definition struct_bpf_xdp_link :: ctype where
  "struct_bpf_xdp_link = CStruct [
    Fld ''link'' struct_bpf_link,
    Fld ''dev'' CPtr,
    Fld ''flags'' c_int]"

lemma lay_struct_bpf_xdp_link [layout_simps]:
  "sizeof struct_bpf_xdp_link = 96" "alignof struct_bpf_xdp_link = 8" "wf_ty struct_bpf_xdp_link" "unpacked struct_bpf_xdp_link"
  by (simp_all add: struct_bpf_xdp_link_def layout_simps layout_eval)

definition struct_bpf_lru_node :: ctype where
  "struct_bpf_lru_node = CStruct [
    Fld ''list'' struct_list_head,
    Fld ''cpu'' typedef_u16,
    Fld ''type'' typedef_u8,
    Fld ''ref'' typedef_u8]"

lemma lay_struct_bpf_lru_node [layout_simps]:
  "sizeof struct_bpf_lru_node = 24" "alignof struct_bpf_lru_node = 8" "wf_ty struct_bpf_lru_node" "unpacked struct_bpf_lru_node"
  by (simp_all add: struct_bpf_lru_node_def layout_simps layout_eval)

definition struct_bpf_lru_locallist :: ctype where
  "struct_bpf_lru_locallist = CStruct [
    Fld ''lists'' (CArr 2 struct_list_head),
    Fld ''next_steal'' typedef_u16,
    Fld ''lock'' typedef_raw_spinlock_t]"

lemma lay_struct_bpf_lru_locallist [layout_simps]:
  "sizeof struct_bpf_lru_locallist = 40" "alignof struct_bpf_lru_locallist = 8" "wf_ty struct_bpf_lru_locallist" "unpacked struct_bpf_lru_locallist"
  by (simp_all add: struct_bpf_lru_locallist_def layout_simps layout_eval)

definition struct_pcpu_freelist_head :: ctype where
  "struct_pcpu_freelist_head = CStruct [
    Fld ''first'' CPtr,
    Fld ''lock'' typedef_rqspinlock_t]"

lemma lay_struct_pcpu_freelist_head [layout_simps]:
  "sizeof struct_pcpu_freelist_head = 16" "alignof struct_pcpu_freelist_head = 8" "wf_ty struct_pcpu_freelist_head" "unpacked struct_pcpu_freelist_head"
  by (simp_all add: struct_pcpu_freelist_head_def layout_simps layout_eval)

definition struct_bpf_mem_cache :: ctype where
  "struct_bpf_mem_cache = CStruct [
    Fld ''free_llist'' struct_llist_head,
    Fld ''active'' typedef_local_t,
    Fld ''free_llist_extra'' struct_llist_head,
    Fld ''refill_work'' struct_irq_work,
    Fld ''objcg'' CPtr,
    Fld ''unit_size'' c_int,
    Fld ''free_cnt'' c_int,
    Fld ''low_watermark'' c_int,
    Fld ''high_watermark'' c_int,
    Fld ''batch'' c_int,
    Fld ''percpu_size'' c_int,
    Fld ''draining'' typedef_bool,
    Fld ''tgt'' CPtr,
    Fld ''free_by_rcu'' struct_llist_head,
    Fld ''free_by_rcu_tail'' CPtr,
    Fld ''waiting_for_gp'' struct_llist_head,
    Fld ''waiting_for_gp_tail'' CPtr,
    Fld ''rcu'' struct_callback_head,
    Fld ''call_rcu_in_progress'' typedef_atomic_t,
    Fld ''free_llist_extra_rcu'' struct_llist_head,
    Fld ''free_by_rcu_ttrace'' struct_llist_head,
    Fld ''waiting_for_gp_ttrace'' struct_llist_head,
    Fld ''rcu_ttrace'' struct_callback_head,
    Fld ''call_rcu_ttrace_in_progress'' typedef_atomic_t]"

lemma lay_struct_bpf_mem_cache [layout_simps]:
  "sizeof struct_bpf_mem_cache = 208" "alignof struct_bpf_mem_cache = 8" "wf_ty struct_bpf_mem_cache" "unpacked struct_bpf_mem_cache"
  by (simp_all add: struct_bpf_mem_cache_def layout_simps layout_eval)

definition struct_bpf_run_ctx :: ctype where
  "struct_bpf_run_ctx = CStruct []"

lemma lay_struct_bpf_run_ctx [layout_simps]:
  "sizeof struct_bpf_run_ctx = 0" "alignof struct_bpf_run_ctx = 1" "wf_ty struct_bpf_run_ctx" "unpacked struct_bpf_run_ctx"
  by (simp_all add: struct_bpf_run_ctx_def layout_simps layout_eval)

definition struct_bpf_trace_run_ctx :: ctype where
  "struct_bpf_trace_run_ctx = CStruct [
    Fld ''run_ctx'' struct_bpf_run_ctx,
    Fld ''bpf_cookie'' typedef_u64,
    Fld ''is_uprobe'' typedef_bool]"

lemma lay_struct_bpf_trace_run_ctx [layout_simps]:
  "sizeof struct_bpf_trace_run_ctx = 16" "alignof struct_bpf_trace_run_ctx = 8" "wf_ty struct_bpf_trace_run_ctx" "unpacked struct_bpf_trace_run_ctx"
  by (simp_all add: struct_bpf_trace_run_ctx_def layout_simps layout_eval)

definition struct_bpf_prog_array_item :: ctype where
  "struct_bpf_prog_array_item = CStruct [
    Fld ''prog'' CPtr,
    Fld [] (CUnion [
      Fld ''cgroup_storage'' (CArr 2 CPtr),
      Fld ''bpf_cookie'' typedef_u64])]"

lemma lay_struct_bpf_prog_array_item [layout_simps]:
  "sizeof struct_bpf_prog_array_item = 24" "alignof struct_bpf_prog_array_item = 8" "wf_ty struct_bpf_prog_array_item" "unpacked struct_bpf_prog_array_item"
  by (simp_all add: struct_bpf_prog_array_item_def layout_simps layout_eval)

definition struct_bpf_prog_array :: ctype where
  "struct_bpf_prog_array = CStruct [
    Fld ''rcu'' struct_callback_head,
    Fld ''items'' (CArr 0 struct_bpf_prog_array_item)]"

lemma lay_struct_bpf_prog_array [layout_simps]:
  "sizeof struct_bpf_prog_array = 16" "alignof struct_bpf_prog_array = 8" "wf_ty struct_bpf_prog_array" "unpacked struct_bpf_prog_array"
  by (simp_all add: struct_bpf_prog_array_def layout_simps layout_eval)

definition typedef_u64_stats_t :: ctype where
  "typedef_u64_stats_t = CStruct [
    Fld ''v'' typedef_local64_t]"

lemma lay_typedef_u64_stats_t [layout_simps]:
  "sizeof typedef_u64_stats_t = 8" "alignof typedef_u64_stats_t = 8" "wf_ty typedef_u64_stats_t" "unpacked typedef_u64_stats_t"
  by (simp_all add: typedef_u64_stats_t_def layout_simps layout_eval)

definition struct_u64_stats_sync :: ctype where
  "struct_u64_stats_sync = CStruct []"

lemma lay_struct_u64_stats_sync [layout_simps]:
  "sizeof struct_u64_stats_sync = 0" "alignof struct_u64_stats_sync = 1" "wf_ty struct_u64_stats_sync" "unpacked struct_u64_stats_sync"
  by (simp_all add: struct_u64_stats_sync_def layout_simps layout_eval)

definition struct_bpf_prog_stats :: ctype where
  "struct_bpf_prog_stats = CStruct [
    Fld ''cnt'' typedef_u64_stats_t,
    Fld ''nsecs'' typedef_u64_stats_t,
    Fld ''misses'' typedef_u64_stats_t,
    Fld ''syncp'' struct_u64_stats_sync,
    Bits [] c_long 64]"

lemma lay_struct_bpf_prog_stats [layout_simps]:
  "sizeof struct_bpf_prog_stats = 32" "alignof struct_bpf_prog_stats = 8" "wf_ty struct_bpf_prog_stats" "unpacked struct_bpf_prog_stats"
  by (simp_all add: struct_bpf_prog_stats_def layout_simps layout_eval)

definition struct_bpf_prog_pack :: ctype where
  "struct_bpf_prog_pack = CStruct [
    Fld ''list'' struct_list_head,
    Fld ''ptr'' CPtr,
    Fld ''bitmap'' (CArr 0 c_ulong)]"

lemma lay_struct_bpf_prog_pack [layout_simps]:
  "sizeof struct_bpf_prog_pack = 24" "alignof struct_bpf_prog_pack = 8" "wf_ty struct_bpf_prog_pack" "unpacked struct_bpf_prog_pack"
  by (simp_all add: struct_bpf_prog_pack_def layout_simps layout_eval)

definition struct_bpf_storage_buffer :: ctype where
  "struct_bpf_storage_buffer = CStruct [
    Fld ''rcu'' struct_callback_head,
    Fld ''data'' (CArr 0 c_char)]"

lemma lay_struct_bpf_storage_buffer [layout_simps]:
  "sizeof struct_bpf_storage_buffer = 16" "alignof struct_bpf_storage_buffer = 8" "wf_ty struct_bpf_storage_buffer" "unpacked struct_bpf_storage_buffer"
  by (simp_all add: struct_bpf_storage_buffer_def layout_simps layout_eval)

definition struct_bpf_cgroup_storage_key :: ctype where
  "struct_bpf_cgroup_storage_key = CStruct [
    Fld ''cgroup_inode_id'' typedef___u64,
    Fld ''attach_type'' typedef___u32]"

lemma lay_struct_bpf_cgroup_storage_key [layout_simps]:
  "sizeof struct_bpf_cgroup_storage_key = 16" "alignof struct_bpf_cgroup_storage_key = 8" "wf_ty struct_bpf_cgroup_storage_key" "unpacked struct_bpf_cgroup_storage_key"
  by (simp_all add: struct_bpf_cgroup_storage_key_def layout_simps layout_eval)

definition struct_bpf_cgroup_storage :: ctype where
  "struct_bpf_cgroup_storage = CStruct [
    Fld [] (CUnion [
      Fld ''buf'' CPtr,
      Fld ''percpu_buf'' CPtr]),
    Fld ''map'' CPtr,
    Fld ''key'' struct_bpf_cgroup_storage_key,
    Fld ''list_map'' struct_list_head,
    Fld ''list_cg'' struct_list_head,
    Fld ''node'' struct_rb_node,
    Fld ''rcu'' struct_callback_head]"

lemma lay_struct_bpf_cgroup_storage [layout_simps]:
  "sizeof struct_bpf_cgroup_storage = 104" "alignof struct_bpf_cgroup_storage = 8" "wf_ty struct_bpf_cgroup_storage" "unpacked struct_bpf_cgroup_storage"
  by (simp_all add: struct_bpf_cgroup_storage_def layout_simps layout_eval)

definition struct_bpf_local_storage :: ctype where
  "struct_bpf_local_storage = CStruct [
    Fld ''cache'' (CArr 16 CPtr),
    Fld ''smap'' CPtr,
    Fld ''list'' struct_hlist_head,
    Fld ''owner'' CPtr,
    Fld ''rcu'' struct_callback_head,
    Fld ''lock'' typedef_raw_spinlock_t]"

lemma lay_struct_bpf_local_storage [layout_simps]:
  "sizeof struct_bpf_local_storage = 176" "alignof struct_bpf_local_storage = 8" "wf_ty struct_bpf_local_storage" "unpacked struct_bpf_local_storage"
  by (simp_all add: struct_bpf_local_storage_def layout_simps layout_eval)

definition struct_bpf_dispatcher_prog :: ctype where
  "struct_bpf_dispatcher_prog = CStruct [
    Fld ''prog'' CPtr,
    Fld ''users'' typedef_refcount_t]"

lemma lay_struct_bpf_dispatcher_prog [layout_simps]:
  "sizeof struct_bpf_dispatcher_prog = 16" "alignof struct_bpf_dispatcher_prog = 8" "wf_ty struct_bpf_dispatcher_prog" "unpacked struct_bpf_dispatcher_prog"
  by (simp_all add: struct_bpf_dispatcher_prog_def layout_simps layout_eval)

definition struct_bpf_dispatcher :: ctype where
  "struct_bpf_dispatcher = CStruct [
    Fld ''mutex'' struct_mutex,
    Fld ''func'' CPtr,
    Fld ''progs'' (CArr 48 struct_bpf_dispatcher_prog),
    Fld ''num_progs'' c_int,
    Fld ''image'' CPtr,
    Fld ''rw_image'' CPtr,
    Fld ''image_off'' typedef_u32,
    Fld ''ksym'' struct_bpf_ksym,
    Fld ''sc_key'' CPtr,
    Fld ''sc_tramp'' CPtr]"

lemma lay_struct_bpf_dispatcher [layout_simps]:
  "sizeof struct_bpf_dispatcher = 1456" "alignof struct_bpf_dispatcher = 8" "wf_ty struct_bpf_dispatcher" "unpacked struct_bpf_dispatcher"
  by (simp_all add: struct_bpf_dispatcher_def layout_simps layout_eval)

definition struct_ring_buffer_event :: ctype where
  "struct_ring_buffer_event = CStruct [
    Bits ''type_len'' typedef_u32 5,
    Bits ''time_delta'' typedef_u32 27,
    Fld ''array'' (CArr 0 typedef_u32)]"

lemma lay_struct_ring_buffer_event [layout_simps]:
  "sizeof struct_ring_buffer_event = 4" "alignof struct_ring_buffer_event = 4" "wf_ty struct_ring_buffer_event" "unpacked struct_ring_buffer_event"
  by (simp_all add: struct_ring_buffer_event_def layout_simps layout_eval)

definition struct_array_buffer :: ctype where
  "struct_array_buffer = CStruct [
    Fld ''tr'' CPtr,
    Fld ''buffer'' CPtr,
    Fld ''data'' CPtr,
    Fld ''time_start'' typedef_u64,
    Fld ''cpu'' c_int]"

lemma lay_struct_array_buffer [layout_simps]:
  "sizeof struct_array_buffer = 40" "alignof struct_array_buffer = 8" "wf_ty struct_array_buffer" "unpacked struct_array_buffer"
  by (simp_all add: struct_array_buffer_def layout_simps layout_eval)

definition typedef_cpumask_var_t :: ctype where
  [layout_simps]: "typedef_cpumask_var_t = CPtr"

definition struct_trace_array :: ctype where
  "struct_trace_array = CStruct [
    Fld ''list'' struct_list_head,
    Fld ''name'' CPtr,
    Fld ''array_buffer'' struct_array_buffer,
    Fld ''max_buffer'' struct_array_buffer,
    Fld ''allocated_snapshot'' typedef_bool,
    Fld ''snapshot_trigger_lock'' typedef_spinlock_t,
    Fld ''snapshot'' c_uint,
    Fld ''max_latency'' c_ulong,
    Fld ''d_max_latency'' CPtr,
    Fld ''fsnotify_work'' struct_work_struct,
    Fld ''fsnotify_irqwork'' struct_irq_work,
    Fld ''mapped'' c_uint,
    Fld ''range_addr_start'' c_ulong,
    Fld ''range_addr_size'' c_ulong,
    Fld ''range_name'' CPtr,
    Fld ''text_delta'' c_long,
    Fld ''module_delta'' CPtr,
    Fld ''scratch'' CPtr,
    Fld ''scratch_size'' c_int,
    Fld ''buffer_disabled'' c_int,
    Fld ''filtered_pids'' CPtr,
    Fld ''filtered_no_pids'' CPtr,
    Fld ''max_lock'' typedef_arch_spinlock_t,
    Fld ''sys_refcount_enter'' c_int,
    Fld ''sys_refcount_exit'' c_int,
    Fld ''enter_syscall_files'' (CArr 470 CPtr),
    Fld ''exit_syscall_files'' (CArr 470 CPtr),
    Fld ''stop_count'' c_int,
    Fld ''clock_id'' c_int,
    Fld ''nr_topts'' c_int,
    Fld ''clear_trace'' typedef_bool,
    Fld ''buffer_percent'' c_int,
    Fld ''n_err_log_entries'' c_uint,
    Fld ''current_trace'' CPtr,
    Fld ''trace_flags'' c_uint,
    Fld ''trace_flags_index'' (CArr 32 c_uchar),
    Fld ''flags'' c_uint,
    Fld ''start_lock'' typedef_raw_spinlock_t,
    Fld ''system_names'' CPtr,
    Fld ''err_log'' struct_list_head,
    Fld ''dir'' CPtr,
    Fld ''options'' CPtr,
    Fld ''percpu_dir'' CPtr,
    Fld ''event_dir'' CPtr,
    Fld ''topts'' CPtr,
    Fld ''systems'' struct_list_head,
    Fld ''events'' struct_list_head,
    Fld ''marker_list'' struct_list_head,
    Fld ''trace_marker_file'' CPtr,
    Fld ''tracing_cpumask'' typedef_cpumask_var_t,
    Fld ''pipe_cpumask'' typedef_cpumask_var_t,
    Fld ''ref'' c_int,
    Fld ''trace_ref'' c_int,
    Fld ''mod_events'' struct_list_head,
    Fld ''ops'' CPtr,
    Fld ''function_pids'' CPtr,
    Fld ''function_no_pids'' CPtr,
    Fld ''gops'' CPtr,
    Fld ''func_probes'' struct_list_head,
    Fld ''mod_trace'' struct_list_head,
    Fld ''mod_notrace'' struct_list_head,
    Fld ''function_enabled'' c_int,
    Fld ''no_filter_buffering_ref'' c_int,
    Fld ''hist_vars'' struct_list_head,
    Fld ''cond_snapshot'' CPtr,
    Fld ''last_func_repeats'' CPtr,
    Fld ''ring_buffer_expanded'' typedef_bool]"

lemma lay_struct_trace_array [layout_simps]:
  "sizeof struct_trace_array = 8184" "alignof struct_trace_array = 8" "wf_ty struct_trace_array" "unpacked struct_trace_array"
  by (simp_all add: struct_trace_array_def layout_simps layout_eval)

definition struct_trace_event_file :: ctype where
  "struct_trace_event_file = CStruct [
    Fld ''list'' struct_list_head,
    Fld ''event_call'' CPtr,
    Fld ''filter'' CPtr,
    Fld ''ei'' CPtr,
    Fld ''tr'' CPtr,
    Fld ''system'' CPtr,
    Fld ''triggers'' struct_list_head,
    Fld ''flags'' c_ulong,
    Fld ''ref'' typedef_refcount_t,
    Fld ''sm_ref'' typedef_atomic_t,
    Fld ''tm_ref'' typedef_atomic_t]"

lemma lay_struct_trace_event_file [layout_simps]:
  "sizeof struct_trace_event_file = 96" "alignof struct_trace_event_file = 8" "wf_ty struct_trace_event_file" "unpacked struct_trace_event_file"
  by (simp_all add: struct_trace_event_file_def layout_simps layout_eval)

definition struct_trace_event_class :: ctype where
  "struct_trace_event_class = CStruct [
    Fld ''system'' CPtr,
    Fld ''probe'' CPtr,
    Fld ''perf_probe'' CPtr,
    Fld ''reg'' CPtr,
    Fld ''fields_array'' CPtr,
    Fld ''get_fields'' CPtr,
    Fld ''fields'' struct_list_head,
    Fld ''raw_init'' CPtr]"

lemma lay_struct_trace_event_class [layout_simps]:
  "sizeof struct_trace_event_class = 72" "alignof struct_trace_event_class = 8" "wf_ty struct_trace_event_class" "unpacked struct_trace_event_class"
  by (simp_all add: struct_trace_event_class_def layout_simps layout_eval)

definition struct_rb_irq_work :: ctype where
  "struct_rb_irq_work = CStruct [
    Fld ''work'' struct_irq_work,
    Fld ''waiters'' typedef_wait_queue_head_t,
    Fld ''full_waiters'' typedef_wait_queue_head_t,
    Fld ''seq'' typedef_atomic_t,
    Fld ''waiters_pending'' typedef_bool,
    Fld ''full_waiters_pending'' typedef_bool,
    Fld ''wakeup_full'' typedef_bool]"

lemma lay_struct_rb_irq_work [layout_simps]:
  "sizeof struct_rb_irq_work = 88" "alignof struct_rb_irq_work = 8" "wf_ty struct_rb_irq_work" "unpacked struct_rb_irq_work"
  by (simp_all add: struct_rb_irq_work_def layout_simps layout_eval)

definition struct_trace_buffer :: ctype where
  "struct_trace_buffer = CStruct [
    Fld ''flags'' c_uint,
    Fld ''cpus'' c_int,
    Fld ''record_disabled'' typedef_atomic_t,
    Fld ''resizing'' typedef_atomic_t,
    Fld ''cpumask'' typedef_cpumask_var_t,
    Fld ''reader_lock_key'' CPtr,
    Fld ''mutex'' struct_mutex,
    Fld ''buffers'' CPtr,
    Fld ''node'' struct_hlist_node,
    Fld ''clock'' CPtr,
    Fld ''irq_work'' struct_rb_irq_work,
    Fld ''time_stamp_abs'' typedef_bool,
    Fld ''range_addr_start'' c_ulong,
    Fld ''range_addr_end'' c_ulong,
    Fld ''meta'' CPtr,
    Fld ''subbuf_size'' c_uint,
    Fld ''subbuf_order'' c_uint,
    Fld ''max_data_size'' c_uint]"

lemma lay_struct_trace_buffer [layout_simps]:
  "sizeof struct_trace_buffer = 232" "alignof struct_trace_buffer = 8" "wf_ty struct_trace_buffer" "unpacked struct_trace_buffer"
  by (simp_all add: struct_trace_buffer_def layout_simps layout_eval)

definition struct_seq_buf :: ctype where
  "struct_seq_buf = CStruct [
    Fld ''buffer'' CPtr,
    Fld ''size'' typedef_size_t,
    Fld ''len'' typedef_size_t]"

lemma lay_struct_seq_buf [layout_simps]:
  "sizeof struct_seq_buf = 24" "alignof struct_seq_buf = 8" "wf_ty struct_seq_buf" "unpacked struct_seq_buf"
  by (simp_all add: struct_seq_buf_def layout_simps layout_eval)

definition struct_trace_seq :: ctype where
  "struct_trace_seq = CStruct [
    Fld ''buffer'' (CArr 8156 c_char),
    Fld ''seq'' struct_seq_buf,
    Fld ''readpos'' typedef_size_t,
    Fld ''full'' c_int]"

lemma lay_struct_trace_seq [layout_simps]:
  "sizeof struct_trace_seq = 8200" "alignof struct_trace_seq = 8" "wf_ty struct_trace_seq" "unpacked struct_trace_seq"
  by (simp_all add: struct_trace_seq_def layout_simps layout_eval)

definition struct_trace_iterator :: ctype where
  "struct_trace_iterator = CStruct [
    Fld ''tr'' CPtr,
    Fld ''trace'' CPtr,
    Fld ''array_buffer'' CPtr,
    Fld ''private'' CPtr,
    Fld ''cpu_file'' c_int,
    Fld ''mutex'' struct_mutex,
    Fld ''buffer_iter'' CPtr,
    Fld ''iter_flags'' c_ulong,
    Fld ''temp'' CPtr,
    Fld ''temp_size'' c_uint,
    Fld ''fmt'' CPtr,
    Fld ''fmt_size'' c_uint,
    Fld ''wait_index'' typedef_atomic_t,
    Fld ''tmp_seq'' struct_trace_seq,
    Fld ''started'' typedef_cpumask_var_t,
    Fld ''closed'' typedef_bool,
    Fld ''snapshot'' typedef_bool,
    Fld ''seq'' struct_trace_seq,
    Fld ''ent'' CPtr,
    Fld ''lost_events'' c_ulong,
    Fld ''leftover'' c_int,
    Fld ''ent_size'' c_int,
    Fld ''cpu'' c_int,
    Fld ''ts'' typedef_u64,
    Fld ''pos'' typedef_loff_t,
    Fld ''idx'' c_long]"

lemma lay_struct_trace_iterator [layout_simps]:
  "sizeof struct_trace_iterator = 16592" "alignof struct_trace_iterator = 8" "wf_ty struct_trace_iterator" "unpacked struct_trace_iterator"
  by (simp_all add: struct_trace_iterator_def layout_simps layout_eval)

definition struct_perf_event_groups :: ctype where
  "struct_perf_event_groups = CStruct [
    Fld ''tree'' struct_rb_root,
    Fld ''index'' typedef_u64]"

lemma lay_struct_perf_event_groups [layout_simps]:
  "sizeof struct_perf_event_groups = 16" "alignof struct_perf_event_groups = 8" "wf_ty struct_perf_event_groups" "unpacked struct_perf_event_groups"
  by (simp_all add: struct_perf_event_groups_def layout_simps layout_eval)

definition struct_perf_event_context :: ctype where
  "struct_perf_event_context = CStruct [
    Fld ''lock'' typedef_raw_spinlock_t,
    Fld ''mutex'' struct_mutex,
    Fld ''pmu_ctx_list'' struct_list_head,
    Fld ''pinned_groups'' struct_perf_event_groups,
    Fld ''flexible_groups'' struct_perf_event_groups,
    Fld ''event_list'' struct_list_head,
    Fld ''nr_events'' c_int,
    Fld ''nr_user'' c_int,
    Fld ''is_active'' c_int,
    Fld ''nr_stat'' c_int,
    Fld ''nr_freq'' c_int,
    Fld ''rotate_disable'' c_int,
    Fld ''refcount'' typedef_refcount_t,
    Fld ''task'' CPtr,
    Fld ''time'' typedef_u64,
    Fld ''timestamp'' typedef_u64,
    Fld ''timeoffset'' typedef_u64,
    Fld ''parent_ctx'' CPtr,
    Fld ''parent_gen'' typedef_u64,
    Fld ''generation'' typedef_u64,
    Fld ''pin_count'' c_int,
    Fld ''nr_cgroups'' c_int,
    Fld ''callback_head'' struct_callback_head,
    Fld ''nr_no_switch_fast'' typedef_local_t]"

lemma lay_struct_perf_event_context [layout_simps]:
  "sizeof struct_perf_event_context = 224" "alignof struct_perf_event_context = 8" "wf_ty struct_perf_event_context" "unpacked struct_perf_event_context"
  by (simp_all add: struct_perf_event_context_def layout_simps layout_eval)

definition struct_pmu :: ctype where
  "struct_pmu = CStruct [
    Fld ''entry'' struct_list_head,
    Fld ''events_lock'' typedef_spinlock_t,
    Fld ''events'' struct_list_head,
    Fld ''module'' CPtr,
    Fld ''dev'' CPtr,
    Fld ''parent'' CPtr,
    Fld ''attr_groups'' CPtr,
    Fld ''attr_update'' CPtr,
    Fld ''name'' CPtr,
    Fld ''type'' c_int,
    Fld ''capabilities'' c_int,
    Fld ''scope'' c_uint,
    Fld ''cpu_pmu_context'' CPtr,
    Fld ''exclusive_cnt'' typedef_atomic_t,
    Fld ''task_ctx_nr'' c_int,
    Fld ''hrtimer_interval_ms'' c_int,
    Fld ''nr_addr_filters'' c_uint,
    Fld ''pmu_enable'' CPtr,
    Fld ''pmu_disable'' CPtr,
    Fld ''event_init'' CPtr,
    Fld ''event_mapped'' CPtr,
    Fld ''event_unmapped'' CPtr,
    Fld ''add'' CPtr,
    Fld ''del'' CPtr,
    Fld ''start'' CPtr,
    Fld ''stop'' CPtr,
    Fld ''read'' CPtr,
    Fld ''start_txn'' CPtr,
    Fld ''commit_txn'' CPtr,
    Fld ''cancel_txn'' CPtr,
    Fld ''event_idx'' CPtr,
    Fld ''sched_task'' CPtr,
    Fld ''task_ctx_cache'' CPtr,
    Fld ''setup_aux'' CPtr,
    Fld ''free_aux'' CPtr,
    Fld ''snapshot_aux'' CPtr,
    Fld ''addr_filters_validate'' CPtr,
    Fld ''addr_filters_sync'' CPtr,
    Fld ''aux_output_match'' CPtr,
    Fld ''filter'' CPtr,
    Fld ''check_period'' CPtr]"

lemma lay_struct_pmu [layout_simps]:
  "sizeof struct_pmu = 320" "alignof struct_pmu = 8" "wf_ty struct_pmu" "unpacked struct_pmu"
  by (simp_all add: struct_pmu_def layout_simps layout_eval)

definition union_perf_sample_weight :: ctype where
  "union_perf_sample_weight = CUnion [
    Fld ''full'' typedef___u64,
    Fld [] (CStruct [
      Fld ''var1_dw'' typedef___u32,
      Fld ''var2_w'' typedef___u16,
      Fld ''var3_w'' typedef___u16])]"

lemma lay_union_perf_sample_weight [layout_simps]:
  "sizeof union_perf_sample_weight = 8" "alignof union_perf_sample_weight = 8" "wf_ty union_perf_sample_weight" "unpacked union_perf_sample_weight"
  by (simp_all add: union_perf_sample_weight_def layout_simps layout_eval)

definition union_perf_mem_data_src :: ctype where
  "union_perf_mem_data_src = CUnion [
    Fld ''val'' typedef___u64,
    Fld [] (CStruct [
      Bits ''mem_op'' typedef___u64 5,
      Bits ''mem_lvl'' typedef___u64 14,
      Bits ''mem_snoop'' typedef___u64 5,
      Bits ''mem_lock'' typedef___u64 2,
      Bits ''mem_dtlb'' typedef___u64 7,
      Bits ''mem_lvl_num'' typedef___u64 4,
      Bits ''mem_remote'' typedef___u64 1,
      Bits ''mem_snoopx'' typedef___u64 2,
      Bits ''mem_blk'' typedef___u64 3,
      Bits ''mem_hops'' typedef___u64 3,
      Bits ''mem_rsvd'' typedef___u64 18])]"

lemma lay_union_perf_mem_data_src [layout_simps]:
  "sizeof union_perf_mem_data_src = 8" "alignof union_perf_mem_data_src = 8" "wf_ty union_perf_mem_data_src" "unpacked union_perf_mem_data_src"
  by (simp_all add: union_perf_mem_data_src_def layout_simps layout_eval)

definition struct_perf_regs :: ctype where
  "struct_perf_regs = CStruct [
    Fld ''abi'' typedef___u64,
    Fld ''regs'' CPtr]"

lemma lay_struct_perf_regs [layout_simps]:
  "sizeof struct_perf_regs = 16" "alignof struct_perf_regs = 8" "wf_ty struct_perf_regs" "unpacked struct_perf_regs"
  by (simp_all add: struct_perf_regs_def layout_simps layout_eval)

definition struct_perf_sample_data :: ctype where
  "struct_perf_sample_data = CStruct [
    Fld ''sample_flags'' typedef_u64,
    Fld ''period'' typedef_u64,
    Fld ''dyn_size'' typedef_u64,
    Fld ''type'' typedef_u64,
    Fld ''tid_entry'' (CStruct [
      Fld ''pid'' typedef_u32,
      Fld ''tid'' typedef_u32]),
    Fld ''time'' typedef_u64,
    Fld ''id'' typedef_u64,
    Fld ''cpu_entry'' (CStruct [
      Fld ''cpu'' typedef_u32,
      Fld ''reserved'' typedef_u32]),
    Fld ''ip'' typedef_u64,
    Fld ''callchain'' CPtr,
    Fld ''raw'' CPtr,
    Fld ''br_stack'' CPtr,
    Fld ''br_stack_cntr'' CPtr,
    Fld ''weight'' union_perf_sample_weight,
    Fld ''data_src'' union_perf_mem_data_src,
    Fld ''txn'' typedef_u64,
    Fld ''regs_user'' struct_perf_regs,
    Fld ''regs_intr'' struct_perf_regs,
    Fld ''stack_user_size'' typedef_u64,
    Fld ''stream_id'' typedef_u64,
    Fld ''cgroup'' typedef_u64,
    Fld ''addr'' typedef_u64,
    Fld ''phys_addr'' typedef_u64,
    Fld ''data_page_size'' typedef_u64,
    Fld ''code_page_size'' typedef_u64,
    Fld ''aux_size'' typedef_u64,
    Bits [] c_long 64,
    Bits [] c_long 64,
    Bits [] c_long 64,
    Bits [] c_long 64]"

lemma lay_struct_perf_sample_data [layout_simps]:
  "sizeof struct_perf_sample_data = 256" "alignof struct_perf_sample_data = 8" "wf_ty struct_perf_sample_data" "unpacked struct_perf_sample_data"
  by (simp_all add: struct_perf_sample_data_def layout_simps layout_eval)

definition struct_perf_output_handle :: ctype where
  "struct_perf_output_handle = CStruct [
    Fld ''event'' CPtr,
    Fld ''rb'' CPtr,
    Fld ''wakeup'' c_ulong,
    Fld ''size'' c_ulong,
    Fld [] (CUnion [
      Fld ''flags'' typedef_u64,
      Fld ''aux_flags'' typedef_u64,
      Fld [] (CStruct [
        Bits ''skip_read'' typedef_u64 1])]),
    Fld [] (CUnion [
      Fld ''addr'' CPtr,
      Fld ''head'' c_ulong]),
    Fld ''page'' c_int]"

lemma lay_struct_perf_output_handle [layout_simps]:
  "sizeof struct_perf_output_handle = 56" "alignof struct_perf_output_handle = 8" "wf_ty struct_perf_output_handle" "unpacked struct_perf_output_handle"
  by (simp_all add: struct_perf_output_handle_def layout_simps layout_eval)

definition struct_perf_buffer :: ctype where
  "struct_perf_buffer = CStruct [
    Fld ''refcount'' typedef_refcount_t,
    Fld ''callback_head'' struct_callback_head,
    Fld ''nr_pages'' c_int,
    Fld ''overwrite'' c_int,
    Fld ''paused'' c_int,
    Fld ''poll'' typedef_atomic_t,
    Fld ''head'' typedef_local_t,
    Fld ''nest'' c_uint,
    Fld ''events'' typedef_local_t,
    Fld ''wakeup'' typedef_local_t,
    Fld ''lost'' typedef_local_t,
    Fld ''watermark'' c_long,
    Fld ''aux_watermark'' c_long,
    Fld ''event_lock'' typedef_spinlock_t,
    Fld ''event_list'' struct_list_head,
    Fld ''mmap_count'' typedef_atomic_t,
    Fld ''mmap_locked'' c_ulong,
    Fld ''mmap_user'' CPtr,
    Fld ''aux_mutex'' struct_mutex,
    Fld ''aux_head'' c_long,
    Fld ''aux_nest'' c_uint,
    Fld ''aux_wakeup'' c_long,
    Fld ''aux_pgoff'' c_ulong,
    Fld ''aux_nr_pages'' c_int,
    Fld ''aux_overwrite'' c_int,
    Fld ''aux_mmap_count'' typedef_atomic_t,
    Fld ''aux_mmap_locked'' c_ulong,
    Fld ''free_aux'' CPtr,
    Fld ''aux_refcount'' typedef_refcount_t,
    Fld ''aux_in_sampling'' c_int,
    Fld ''aux_in_pause_resume'' c_int,
    Fld ''aux_pages'' CPtr,
    Fld ''aux_priv'' CPtr,
    Fld ''user_page'' CPtr,
    Fld ''data_pages'' (CArr 0 CPtr)]"

lemma lay_struct_perf_buffer [layout_simps]:
  "sizeof struct_perf_buffer = 280" "alignof struct_perf_buffer = 8" "wf_ty struct_perf_buffer" "unpacked struct_perf_buffer"
  by (simp_all add: struct_perf_buffer_def layout_simps layout_eval)

end
