(* ===== verification/Vmlinux_Sched.thy ===== *)
theory Vmlinux_Sched
  imports Vmlinux_Load
begin

text \<open>
  The kernel objects behind stopping and following a process: run queues and scheduling
  domains, the namespaces that give it its identifiers, users, mounts and network, the program
  it executes, its keys, pipes and polled files.
  Each definition transcribes one declaration of \<open>src-bpf/vmlinux.h\<close>; the lemma after it
  evaluates its size and alignment and checks that it is well-formed.
\<close>

definition struct_task_delay_info :: ctype where
  "struct_task_delay_info = CStruct [
    Fld ''lock'' typedef_raw_spinlock_t,
    Fld ''blkio_start'' typedef_u64,
    Fld ''blkio_delay_max'' typedef_u64,
    Fld ''blkio_delay_min'' typedef_u64,
    Fld ''blkio_delay'' typedef_u64,
    Fld ''swapin_start'' typedef_u64,
    Fld ''swapin_delay_max'' typedef_u64,
    Fld ''swapin_delay_min'' typedef_u64,
    Fld ''swapin_delay'' typedef_u64,
    Fld ''blkio_count'' typedef_u32,
    Fld ''swapin_count'' typedef_u32,
    Fld ''freepages_start'' typedef_u64,
    Fld ''freepages_delay_max'' typedef_u64,
    Fld ''freepages_delay_min'' typedef_u64,
    Fld ''freepages_delay'' typedef_u64,
    Fld ''thrashing_start'' typedef_u64,
    Fld ''thrashing_delay_max'' typedef_u64,
    Fld ''thrashing_delay_min'' typedef_u64,
    Fld ''thrashing_delay'' typedef_u64,
    Fld ''compact_start'' typedef_u64,
    Fld ''compact_delay_max'' typedef_u64,
    Fld ''compact_delay_min'' typedef_u64,
    Fld ''compact_delay'' typedef_u64,
    Fld ''wpcopy_start'' typedef_u64,
    Fld ''wpcopy_delay_max'' typedef_u64,
    Fld ''wpcopy_delay_min'' typedef_u64,
    Fld ''wpcopy_delay'' typedef_u64,
    Fld ''irq_delay_max'' typedef_u64,
    Fld ''irq_delay_min'' typedef_u64,
    Fld ''irq_delay'' typedef_u64,
    Fld ''freepages_count'' typedef_u32,
    Fld ''thrashing_count'' typedef_u32,
    Fld ''compact_count'' typedef_u32,
    Fld ''wpcopy_count'' typedef_u32,
    Fld ''irq_count'' typedef_u32]"

lemma lay_struct_task_delay_info [layout_simps]:
  "sizeof struct_task_delay_info = 256" "alignof struct_task_delay_info = 8" "wf_ty struct_task_delay_info" "unpacked struct_task_delay_info"
  by (simp_all add: struct_task_delay_info_def layout_simps layout_eval)

definition typedef_smp_call_func_t :: ctype where
  [layout_simps]: "typedef_smp_call_func_t = CPtr"

definition struct___call_single_data :: ctype where
  "struct___call_single_data = CStruct [
    Fld ''node'' struct___call_single_node,
    Fld ''func'' typedef_smp_call_func_t,
    Fld ''info'' CPtr]"

lemma lay_struct___call_single_data [layout_simps]:
  "sizeof struct___call_single_data = 32" "alignof struct___call_single_data = 8" "wf_ty struct___call_single_data" "unpacked struct___call_single_data"
  by (simp_all add: struct___call_single_data_def layout_simps layout_eval)

definition typedef_call_single_data_t :: ctype where
  [layout_simps]: "typedef_call_single_data_t = struct___call_single_data"

definition struct_uclamp_bucket :: ctype where
  "struct_uclamp_bucket = CStruct [
    Bits ''value'' c_ulong 11,
    Bits ''tasks'' c_ulong 53]"

lemma lay_struct_uclamp_bucket [layout_simps]:
  "sizeof struct_uclamp_bucket = 8" "alignof struct_uclamp_bucket = 8" "wf_ty struct_uclamp_bucket" "unpacked struct_uclamp_bucket"
  by (simp_all add: struct_uclamp_bucket_def layout_simps layout_eval)

definition struct_uclamp_rq :: ctype where
  "struct_uclamp_rq = CStruct [
    Fld ''value'' c_uint,
    Fld ''bucket'' (CArr 5 struct_uclamp_bucket)]"

lemma lay_struct_uclamp_rq [layout_simps]:
  "sizeof struct_uclamp_rq = 48" "alignof struct_uclamp_rq = 8" "wf_ty struct_uclamp_rq" "unpacked struct_uclamp_rq"
  by (simp_all add: struct_uclamp_rq_def layout_simps layout_eval)

definition struct_cfs_rq :: ctype where
  "struct_cfs_rq = CStruct [
    Fld ''load'' struct_load_weight,
    Fld ''nr_queued'' c_uint,
    Fld ''h_nr_queued'' c_uint,
    Fld ''h_nr_runnable'' c_uint,
    Fld ''h_nr_idle'' c_uint,
    Fld ''avg_vruntime'' typedef_s64,
    Fld ''avg_load'' typedef_u64,
    Fld ''zero_vruntime'' typedef_u64,
    Fld ''forceidle_seq'' c_uint,
    Fld ''zero_vruntime_fi'' typedef_u64,
    Fld ''tasks_timeline'' struct_rb_root_cached,
    Fld ''curr'' CPtr,
    Fld ''next'' CPtr,
    Bits [] c_long 64,
    Bits [] c_long 64,
    Bits [] c_long 64,
    Fld ''avg'' struct_sched_avg,
    Fld ''removed'' (CStruct [
      Fld ''lock'' typedef_raw_spinlock_t,
      Fld ''nr'' c_int,
      Fld ''load_avg'' c_ulong,
      Fld ''util_avg'' c_ulong,
      Fld ''runnable_avg'' c_ulong,
      Bits [] c_long 64,
      Bits [] c_long 64,
      Bits [] c_long 64,
      Bits [] c_long 64]),
    Fld ''last_update_tg_load_avg'' typedef_u64,
    Fld ''tg_load_avg_contrib'' c_ulong,
    Fld ''propagate'' c_long,
    Fld ''prop_runnable_sum'' c_long,
    Fld ''h_load'' c_ulong,
    Fld ''last_h_load_update'' typedef_u64,
    Fld ''h_load_next'' CPtr,
    Fld ''rq'' CPtr,
    Fld ''on_list'' c_int,
    Fld ''leaf_cfs_rq_list'' struct_list_head,
    Fld ''tg'' CPtr,
    Fld ''idle'' c_int,
    Fld ''runtime_enabled'' c_int,
    Fld ''runtime_remaining'' typedef_s64,
    Fld ''throttled_pelt_idle'' typedef_u64,
    Fld ''throttled_clock'' typedef_u64,
    Fld ''throttled_clock_pelt'' typedef_u64,
    Fld ''throttled_clock_pelt_time'' typedef_u64,
    Fld ''throttled_clock_self'' typedef_u64,
    Fld ''throttled_clock_self_time'' typedef_u64,
    Fld ''throttled'' c_int,
    Fld ''throttle_count'' c_int,
    Fld ''throttled_list'' struct_list_head,
    Fld ''throttled_csd_list'' struct_list_head,
    Bits [] c_long 64,
    Bits [] c_long 64,
    Bits [] c_long 64,
    Bits [] c_long 64,
    Bits [] c_long 64,
    Bits [] c_long 64,
    Bits [] c_long 64]"

lemma lay_struct_cfs_rq [layout_simps]:
  "sizeof struct_cfs_rq = 512" "alignof struct_cfs_rq = 8" "wf_ty struct_cfs_rq" "unpacked struct_cfs_rq"
  by (simp_all add: struct_cfs_rq_def layout_simps layout_eval)

definition struct_rt_prio_array :: ctype where
  "struct_rt_prio_array = CStruct [
    Fld ''bitmap'' (CArr 2 c_ulong),
    Fld ''queue'' (CArr 100 struct_list_head)]"

lemma lay_struct_rt_prio_array [layout_simps]:
  "sizeof struct_rt_prio_array = 1616" "alignof struct_rt_prio_array = 8" "wf_ty struct_rt_prio_array" "unpacked struct_rt_prio_array"
  by (simp_all add: struct_rt_prio_array_def layout_simps layout_eval)

definition struct_plist_head :: ctype where
  "struct_plist_head = CStruct [
    Fld ''node_list'' struct_list_head]"

lemma lay_struct_plist_head [layout_simps]:
  "sizeof struct_plist_head = 16" "alignof struct_plist_head = 8" "wf_ty struct_plist_head" "unpacked struct_plist_head"
  by (simp_all add: struct_plist_head_def layout_simps layout_eval)

definition struct_rt_rq :: ctype where
  "struct_rt_rq = CStruct [
    Fld ''active'' struct_rt_prio_array,
    Fld ''rt_nr_running'' c_uint,
    Fld ''rr_nr_running'' c_uint,
    Fld ''highest_prio'' (CStruct [
      Fld ''curr'' c_int,
      Fld ''next'' c_int]),
    Fld ''overloaded'' typedef_bool,
    Fld ''pushable_tasks'' struct_plist_head,
    Fld ''rt_queued'' c_int,
    Fld ''tg'' CPtr]"

lemma lay_struct_rt_rq [layout_simps]:
  "sizeof struct_rt_rq = 1672" "alignof struct_rt_rq = 8" "wf_ty struct_rt_rq" "unpacked struct_rt_rq"
  by (simp_all add: struct_rt_rq_def layout_simps layout_eval)

definition struct_dl_rq :: ctype where
  "struct_dl_rq = CStruct [
    Fld ''root'' struct_rb_root_cached,
    Fld ''dl_nr_running'' c_uint,
    Fld ''earliest_dl'' (CStruct [
      Fld ''curr'' typedef_u64,
      Fld ''next'' typedef_u64]),
    Fld ''overloaded'' typedef_bool,
    Fld ''pushable_dl_tasks_root'' struct_rb_root_cached,
    Fld ''running_bw'' typedef_u64,
    Fld ''this_bw'' typedef_u64,
    Fld ''extra_bw'' typedef_u64,
    Fld ''max_bw'' typedef_u64,
    Fld ''bw_ratio'' typedef_u64]"

lemma lay_struct_dl_rq [layout_simps]:
  "sizeof struct_dl_rq = 104" "alignof struct_dl_rq = 8" "wf_ty struct_dl_rq" "unpacked struct_dl_rq"
  by (simp_all add: struct_dl_rq_def layout_simps layout_eval)

definition struct_scx_dispatch_q :: ctype where
  "struct_scx_dispatch_q = CStruct [
    Fld ''lock'' typedef_raw_spinlock_t,
    Fld ''list'' struct_list_head,
    Fld ''priq'' struct_rb_root,
    Fld ''nr'' typedef_u32,
    Fld ''seq'' typedef_u32,
    Fld ''id'' typedef_u64,
    Fld ''hash_node'' struct_rhash_head,
    Fld ''free_node'' struct_llist_node,
    Fld ''rcu'' struct_callback_head]"

lemma lay_struct_scx_dispatch_q [layout_simps]:
  "sizeof struct_scx_dispatch_q = 80" "alignof struct_scx_dispatch_q = 8" "wf_ty struct_scx_dispatch_q" "unpacked struct_scx_dispatch_q"
  by (simp_all add: struct_scx_dispatch_q_def layout_simps layout_eval)

definition struct_balance_callback :: ctype where
  "struct_balance_callback = CStruct [
    Fld ''next'' CPtr,
    Fld ''func'' CPtr]"

lemma lay_struct_balance_callback [layout_simps]:
  "sizeof struct_balance_callback = 16" "alignof struct_balance_callback = 8" "wf_ty struct_balance_callback" "unpacked struct_balance_callback"
  by (simp_all add: struct_balance_callback_def layout_simps layout_eval)

definition struct_scx_rq :: ctype where
  "struct_scx_rq = CStruct [
    Fld ''local_dsq'' struct_scx_dispatch_q,
    Fld ''runnable_list'' struct_list_head,
    Fld ''ddsp_deferred_locals'' struct_list_head,
    Fld ''ops_qseq'' c_ulong,
    Fld ''extra_enq_flags'' typedef_u64,
    Fld ''nr_running'' typedef_u32,
    Fld ''cpuperf_target'' typedef_u32,
    Fld ''cpu_released'' typedef_bool,
    Fld ''flags'' typedef_u32,
    Fld ''clock'' typedef_u64,
    Fld ''cpus_to_kick'' typedef_cpumask_var_t,
    Fld ''cpus_to_kick_if_idle'' typedef_cpumask_var_t,
    Fld ''cpus_to_preempt'' typedef_cpumask_var_t,
    Fld ''cpus_to_wait'' typedef_cpumask_var_t,
    Fld ''pnt_seq'' c_ulong,
    Fld ''deferred_bal_cb'' struct_balance_callback,
    Fld ''deferred_irq_work'' struct_irq_work,
    Fld ''kick_cpus_irq_work'' struct_irq_work]"

lemma lay_struct_scx_rq [layout_simps]:
  "sizeof struct_scx_rq = 272" "alignof struct_scx_rq = 8" "wf_ty struct_scx_rq" "unpacked struct_scx_rq"
  by (simp_all add: struct_scx_rq_def layout_simps layout_eval)

definition typedef_cpu_stop_fn_t :: ctype where
  [layout_simps]: "typedef_cpu_stop_fn_t = CPtr"

definition struct_cpu_stop_work :: ctype where
  "struct_cpu_stop_work = CStruct [
    Fld ''list'' struct_list_head,
    Fld ''fn'' typedef_cpu_stop_fn_t,
    Fld ''caller'' c_ulong,
    Fld ''arg'' CPtr,
    Fld ''done'' CPtr]"

lemma lay_struct_cpu_stop_work [layout_simps]:
  "sizeof struct_cpu_stop_work = 48" "alignof struct_cpu_stop_work = 8" "wf_ty struct_cpu_stop_work" "unpacked struct_cpu_stop_work"
  by (simp_all add: struct_cpu_stop_work_def layout_simps layout_eval)

definition struct_rq :: ctype where
  "struct_rq = CStruct [
    Fld ''__lock'' typedef_raw_spinlock_t,
    Fld ''nr_running'' c_uint,
    Fld ''nr_numa_running'' c_uint,
    Fld ''nr_preferred_running'' c_uint,
    Fld ''numa_migrate_on'' c_uint,
    Fld ''last_blocked_load_update_tick'' c_ulong,
    Fld ''has_blocked_load'' c_uint,
    Bits [] c_long 64,
    Bits [] c_long 64,
    Bits [] c_long 64,
    Fld ''nohz_csd'' typedef_call_single_data_t,
    Fld ''nohz_tick_stopped'' c_uint,
    Fld ''nohz_flags'' typedef_atomic_t,
    Fld ''ttwu_pending'' c_uint,
    Fld ''nr_switches'' typedef_u64,
    Bits [] c_long 64,
    Fld ''uclamp'' (CArr 2 struct_uclamp_rq),
    Fld ''uclamp_flags'' c_uint,
    Bits [] c_long 64,
    Bits [] c_long 64,
    Bits [] c_long 64,
    Fld ''cfs'' struct_cfs_rq,
    Fld ''rt'' struct_rt_rq,
    Fld ''dl'' struct_dl_rq,
    Fld ''scx'' struct_scx_rq,
    Fld ''fair_server'' struct_sched_dl_entity,
    Fld ''leaf_cfs_rq_list'' struct_list_head,
    Fld ''tmp_alone_branch'' CPtr,
    Fld ''nr_uninterruptible'' c_ulong,
    Fld [] (CUnion [
      Fld ''donor'' CPtr,
      Fld ''curr'' CPtr]),
    Fld ''dl_server'' CPtr,
    Fld ''idle'' CPtr,
    Fld ''stop'' CPtr,
    Fld ''next_balance'' c_ulong,
    Fld ''prev_mm'' CPtr,
    Fld ''clock_update_flags'' c_uint,
    Fld ''clock'' typedef_u64,
    Bits [] c_long 64,
    Bits [] c_long 64,
    Bits [] c_long 64,
    Bits [] c_long 64,
    Bits [] c_long 64,
    Bits [] c_long 64,
    Fld ''clock_task'' typedef_u64,
    Fld ''clock_pelt'' typedef_u64,
    Fld ''lost_idle_time'' c_ulong,
    Fld ''clock_pelt_idle'' typedef_u64,
    Fld ''clock_idle'' typedef_u64,
    Fld ''nr_iowait'' typedef_atomic_t,
    Fld ''last_seen_need_resched_ns'' typedef_u64,
    Fld ''ticks_without_resched'' c_int,
    Fld ''membarrier_state'' c_int,
    Fld ''rd'' CPtr,
    Fld ''sd'' CPtr,
    Fld ''cpu_capacity'' c_ulong,
    Fld ''balance_callback'' CPtr,
    Fld ''nohz_idle_balance'' c_uchar,
    Fld ''idle_balance'' c_uchar,
    Fld ''misfit_task_load'' c_ulong,
    Fld ''active_balance'' c_int,
    Fld ''push_cpu'' c_int,
    Fld ''active_balance_work'' struct_cpu_stop_work,
    Fld ''cpu'' c_int,
    Fld ''online'' c_int,
    Fld ''cfs_tasks'' struct_list_head,
    Fld ''avg_rt'' struct_sched_avg,
    Fld ''avg_dl'' struct_sched_avg,
    Fld ''idle_stamp'' typedef_u64,
    Fld ''avg_idle'' typedef_u64,
    Fld ''max_idle_balance_cost'' typedef_u64,
    Fld ''hotplug_wait'' struct_rcuwait,
    Fld ''prev_steal_time'' typedef_u64,
    Fld ''calc_load_update'' c_ulong,
    Fld ''calc_load_active'' c_long,
    Bits [] c_long 64,
    Fld ''hrtick_csd'' typedef_call_single_data_t,
    Fld ''hrtick_timer'' struct_hrtimer,
    Fld ''hrtick_time'' typedef_ktime_t,
    Fld ''rq_sched_info'' struct_sched_info,
    Fld ''rq_cpu_time'' c_ullong,
    Fld ''yld_count'' c_uint,
    Fld ''sched_count'' c_uint,
    Fld ''sched_goidle'' c_uint,
    Fld ''ttwu_count'' c_uint,
    Fld ''ttwu_local'' c_uint,
    Fld ''idle_state'' CPtr,
    Fld ''nr_pinned'' c_uint,
    Fld ''push_busy'' c_uint,
    Fld ''push_work'' struct_cpu_stop_work,
    Fld ''core'' CPtr,
    Fld ''core_pick'' CPtr,
    Fld ''core_dl_server'' CPtr,
    Fld ''core_enabled'' c_uint,
    Fld ''core_sched_seq'' c_uint,
    Fld ''core_tree'' struct_rb_root,
    Fld ''core_task_seq'' c_uint,
    Fld ''core_pick_seq'' c_uint,
    Fld ''core_cookie'' c_ulong,
    Fld ''core_forceidle_count'' c_uint,
    Fld ''core_forceidle_seq'' c_uint,
    Fld ''core_forceidle_occupation'' c_uint,
    Fld ''core_forceidle_start'' typedef_u64,
    Fld ''scratch_mask'' typedef_cpumask_var_t,
    Bits [] c_long 64,
    Bits [] c_long 64,
    Fld ''cfsb_csd'' typedef_call_single_data_t,
    Fld ''cfsb_csd_list'' struct_list_head,
    Bits [] c_long 64,
    Bits [] c_long 64,
    Bits [] c_long 64,
    Bits [] c_long 64,
    Bits [] c_long 64,
    Bits [] c_long 64]"

lemma lay_struct_rq [layout_simps]:
  "sizeof struct_rq = 4032" "alignof struct_rq = 8" "wf_ty struct_rq" "unpacked struct_rq"
  by (simp_all add: struct_rq_def layout_simps layout_eval)

definition struct_sched_domain :: ctype where
  "struct_sched_domain = CStruct [
    Fld ''parent'' CPtr,
    Fld ''child'' CPtr,
    Fld ''groups'' CPtr,
    Fld ''min_interval'' c_ulong,
    Fld ''max_interval'' c_ulong,
    Fld ''busy_factor'' c_uint,
    Fld ''imbalance_pct'' c_uint,
    Fld ''cache_nice_tries'' c_uint,
    Fld ''imb_numa_nr'' c_uint,
    Fld ''nohz_idle'' c_int,
    Fld ''flags'' c_int,
    Fld ''level'' c_int,
    Fld ''last_balance'' c_ulong,
    Fld ''balance_interval'' c_uint,
    Fld ''nr_balance_failed'' c_uint,
    Fld ''newidle_call'' c_uint,
    Fld ''newidle_success'' c_uint,
    Fld ''newidle_ratio'' c_uint,
    Fld ''max_newidle_lb_cost'' typedef_u64,
    Fld ''last_decay_max_lb_cost'' c_ulong,
    Fld ''lb_count'' (CArr 3 c_uint),
    Fld ''lb_failed'' (CArr 3 c_uint),
    Fld ''lb_balanced'' (CArr 3 c_uint),
    Fld ''lb_imbalance_load'' (CArr 3 c_uint),
    Fld ''lb_imbalance_util'' (CArr 3 c_uint),
    Fld ''lb_imbalance_task'' (CArr 3 c_uint),
    Fld ''lb_imbalance_misfit'' (CArr 3 c_uint),
    Fld ''lb_gained'' (CArr 3 c_uint),
    Fld ''lb_hot_gained'' (CArr 3 c_uint),
    Fld ''lb_nobusyg'' (CArr 3 c_uint),
    Fld ''lb_nobusyq'' (CArr 3 c_uint),
    Fld ''alb_count'' c_uint,
    Fld ''alb_failed'' c_uint,
    Fld ''alb_pushed'' c_uint,
    Fld ''sbe_count'' c_uint,
    Fld ''sbe_balanced'' c_uint,
    Fld ''sbe_pushed'' c_uint,
    Fld ''sbf_count'' c_uint,
    Fld ''sbf_balanced'' c_uint,
    Fld ''sbf_pushed'' c_uint,
    Fld ''ttwu_wake_remote'' c_uint,
    Fld ''ttwu_move_affine'' c_uint,
    Fld ''ttwu_move_balance'' c_uint,
    Fld ''name'' CPtr,
    Fld [] (CUnion [
      Fld ''private'' CPtr,
      Fld ''rcu'' struct_callback_head]),
    Fld ''shared'' CPtr,
    Fld ''span_weight'' c_uint,
    Fld ''span'' (CArr 0 c_ulong)]"

lemma lay_struct_sched_domain [layout_simps]:
  "sizeof struct_sched_domain = 344" "alignof struct_sched_domain = 8" "wf_ty struct_sched_domain" "unpacked struct_sched_domain"
  by (simp_all add: struct_sched_domain_def layout_simps layout_eval)

definition struct_sched_group :: ctype where
  "struct_sched_group = CStruct [
    Fld ''next'' CPtr,
    Fld ''ref'' typedef_atomic_t,
    Fld ''group_weight'' c_uint,
    Fld ''cores'' c_uint,
    Fld ''sgc'' CPtr,
    Fld ''asym_prefer_cpu'' c_int,
    Fld ''flags'' c_int,
    Fld ''cpumask'' (CArr 0 c_ulong)]"

lemma lay_struct_sched_group [layout_simps]:
  "sizeof struct_sched_group = 40" "alignof struct_sched_group = 8" "wf_ty struct_sched_group" "unpacked struct_sched_group"
  by (simp_all add: struct_sched_group_def layout_simps layout_eval)

definition struct_pin_cookie :: ctype where
  "struct_pin_cookie = CStruct []"

lemma lay_struct_pin_cookie [layout_simps]:
  "sizeof struct_pin_cookie = 0" "alignof struct_pin_cookie = 1" "wf_ty struct_pin_cookie" "unpacked struct_pin_cookie"
  by (simp_all add: struct_pin_cookie_def layout_simps layout_eval)

definition struct_rq_flags :: ctype where
  "struct_rq_flags = CStruct [
    Fld ''flags'' c_ulong,
    Fld ''cookie'' struct_pin_cookie,
    Fld ''clock_update_flags'' c_uint]"

lemma lay_struct_rq_flags [layout_simps]:
  "sizeof struct_rq_flags = 16" "alignof struct_rq_flags = 8" "wf_ty struct_rq_flags" "unpacked struct_rq_flags"
  by (simp_all add: struct_rq_flags_def layout_simps layout_eval)

definition struct_uid_gid_extent :: ctype where
  "struct_uid_gid_extent = CStruct [
    Fld ''first'' typedef_u32,
    Fld ''lower_first'' typedef_u32,
    Fld ''count'' typedef_u32]"

lemma lay_struct_uid_gid_extent [layout_simps]:
  "sizeof struct_uid_gid_extent = 12" "alignof struct_uid_gid_extent = 4" "wf_ty struct_uid_gid_extent" "unpacked struct_uid_gid_extent"
  by (simp_all add: struct_uid_gid_extent_def layout_simps layout_eval)

definition struct_uid_gid_map :: ctype where
  "struct_uid_gid_map = CStruct [
    Fld [] (CUnion [
      Fld [] (CStruct [
        Fld ''extent'' (CArr 5 struct_uid_gid_extent),
        Fld ''nr_extents'' typedef_u32]),
      Fld [] (CStruct [
        Fld ''forward'' CPtr,
        Fld ''reverse'' CPtr])])]"

lemma lay_struct_uid_gid_map [layout_simps]:
  "sizeof struct_uid_gid_map = 64" "alignof struct_uid_gid_map = 8" "wf_ty struct_uid_gid_map" "unpacked struct_uid_gid_map"
  by (simp_all add: struct_uid_gid_map_def layout_simps layout_eval)

definition struct_ns_common :: ctype where
  "struct_ns_common = CStruct [
    Fld ''stashed'' CPtr,
    Fld ''ops'' CPtr,
    Fld ''inum'' c_uint,
    Fld ''count'' typedef_refcount_t]"

lemma lay_struct_ns_common [layout_simps]:
  "sizeof struct_ns_common = 24" "alignof struct_ns_common = 8" "wf_ty struct_ns_common" "unpacked struct_ns_common"
  by (simp_all add: struct_ns_common_def layout_simps layout_eval)

definition struct_ctl_table_header :: ctype where
  "struct_ctl_table_header = CStruct [
    Fld [] (CUnion [
      Fld [] (CStruct [
        Fld ''ctl_table'' CPtr,
        Fld ''ctl_table_size'' c_int,
        Fld ''used'' c_int,
        Fld ''count'' c_int,
        Fld ''nreg'' c_int]),
      Fld ''rcu'' struct_callback_head]),
    Fld ''unregistering'' CPtr,
    Fld ''ctl_table_arg'' CPtr,
    Fld ''root'' CPtr,
    Fld ''set'' CPtr,
    Fld ''parent'' CPtr,
    Fld ''node'' CPtr,
    Fld ''inodes'' struct_hlist_head,
    Fld ''type'' (CEnum 4 [
    (''SYSCTL_TABLE_TYPE_DEFAULT'', 0),
    (''SYSCTL_TABLE_TYPE_PERMANENTLY_EMPTY'', 1)])]"

lemma lay_struct_ctl_table_header [layout_simps]:
  "sizeof struct_ctl_table_header = 88" "alignof struct_ctl_table_header = 8" "wf_ty struct_ctl_table_header" "unpacked struct_ctl_table_header"
  by (simp_all add: struct_ctl_table_header_def layout_simps layout_eval)

definition struct_ctl_dir :: ctype where
  "struct_ctl_dir = CStruct [
    Fld ''header'' struct_ctl_table_header,
    Fld ''root'' struct_rb_root]"

lemma lay_struct_ctl_dir [layout_simps]:
  "sizeof struct_ctl_dir = 96" "alignof struct_ctl_dir = 8" "wf_ty struct_ctl_dir" "unpacked struct_ctl_dir"
  by (simp_all add: struct_ctl_dir_def layout_simps layout_eval)

definition struct_ctl_table_set :: ctype where
  "struct_ctl_table_set = CStruct [
    Fld ''is_seen'' CPtr,
    Fld ''dir'' struct_ctl_dir]"

lemma lay_struct_ctl_table_set [layout_simps]:
  "sizeof struct_ctl_table_set = 104" "alignof struct_ctl_table_set = 8" "wf_ty struct_ctl_table_set" "unpacked struct_ctl_table_set"
  by (simp_all add: struct_ctl_table_set_def layout_simps layout_eval)

definition struct_user_namespace :: ctype where
  "struct_user_namespace = CStruct [
    Fld ''uid_map'' struct_uid_gid_map,
    Fld ''gid_map'' struct_uid_gid_map,
    Fld ''projid_map'' struct_uid_gid_map,
    Fld ''parent'' CPtr,
    Fld ''level'' c_int,
    Fld ''owner'' typedef_kuid_t,
    Fld ''group'' typedef_kgid_t,
    Fld ''ns'' struct_ns_common,
    Fld ''flags'' c_ulong,
    Fld ''parent_could_setfcap'' typedef_bool,
    Fld ''keyring_name_list'' struct_list_head,
    Fld ''user_keyring_register'' CPtr,
    Fld ''keyring_sem'' struct_rw_semaphore,
    Fld ''persistent_keyring_register'' CPtr,
    Fld ''work'' struct_work_struct,
    Fld ''set'' struct_ctl_table_set,
    Fld ''sysctls'' CPtr,
    Fld ''ucounts'' CPtr,
    Fld ''ucount_max'' (CArr 12 c_long),
    Fld ''rlimit_max'' (CArr 4 c_long),
    Fld ''binfmt_misc'' CPtr]"

lemma lay_struct_user_namespace [layout_simps]:
  "sizeof struct_user_namespace = 616" "alignof struct_user_namespace = 8" "wf_ty struct_user_namespace" "unpacked struct_user_namespace"
  by (simp_all add: struct_user_namespace_def layout_simps layout_eval)

definition struct_idr :: ctype where
  "struct_idr = CStruct [
    Fld ''idr_rt'' struct_xarray,
    Fld ''idr_base'' c_uint,
    Fld ''idr_next'' c_uint]"

lemma lay_struct_idr [layout_simps]:
  "sizeof struct_idr = 24" "alignof struct_idr = 8" "wf_ty struct_idr" "unpacked struct_idr"
  by (simp_all add: struct_idr_def layout_simps layout_eval)

definition struct_pid_namespace :: ctype where
  "struct_pid_namespace = CStruct [
    Fld ''idr'' struct_idr,
    Fld ''rcu'' struct_callback_head,
    Fld ''pid_allocated'' c_uint,
    Fld ''child_reaper'' CPtr,
    Fld ''pid_cachep'' CPtr,
    Fld ''level'' c_uint,
    Fld ''pid_max'' c_int,
    Fld ''parent'' CPtr,
    Fld ''bacct'' CPtr,
    Fld ''user_ns'' CPtr,
    Fld ''ucounts'' CPtr,
    Fld ''reboot'' c_int,
    Fld ''ns'' struct_ns_common,
    Fld ''work'' struct_work_struct,
    Fld ''set'' struct_ctl_table_set,
    Fld ''sysctls'' CPtr,
    Fld ''memfd_noexec_scope'' c_int]"

lemma lay_struct_pid_namespace [layout_simps]:
  "sizeof struct_pid_namespace = 288" "alignof struct_pid_namespace = 8" "wf_ty struct_pid_namespace" "unpacked struct_pid_namespace"
  by (simp_all add: struct_pid_namespace_def layout_simps layout_eval)

definition struct_new_utsname :: ctype where
  "struct_new_utsname = CStruct [
    Fld ''sysname'' (CArr 65 c_char),
    Fld ''nodename'' (CArr 65 c_char),
    Fld ''release'' (CArr 65 c_char),
    Fld ''version'' (CArr 65 c_char),
    Fld ''machine'' (CArr 65 c_char),
    Fld ''domainname'' (CArr 65 c_char)]"

lemma lay_struct_new_utsname [layout_simps]:
  "sizeof struct_new_utsname = 390" "alignof struct_new_utsname = 1" "wf_ty struct_new_utsname" "unpacked struct_new_utsname"
  by (simp_all add: struct_new_utsname_def layout_simps layout_eval)

definition struct_uts_namespace :: ctype where
  "struct_uts_namespace = CStruct [
    Fld ''name'' struct_new_utsname,
    Fld ''user_ns'' CPtr,
    Fld ''ucounts'' CPtr,
    Fld ''ns'' struct_ns_common]"

lemma lay_struct_uts_namespace [layout_simps]:
  "sizeof struct_uts_namespace = 432" "alignof struct_uts_namespace = 8" "wf_ty struct_uts_namespace" "unpacked struct_uts_namespace"
  by (simp_all add: struct_uts_namespace_def layout_simps layout_eval)

definition struct_mnt_namespace :: ctype where
  "struct_mnt_namespace = CStruct [
    Fld ''ns'' struct_ns_common,
    Fld ''root'' CPtr,
    Fld [] (CStruct [
      Fld ''mounts'' struct_rb_root,
      Fld ''mnt_last_node'' CPtr,
      Fld ''mnt_first_node'' CPtr]),
    Fld ''user_ns'' CPtr,
    Fld ''ucounts'' CPtr,
    Fld ''seq'' typedef_u64,
    Fld [] (CUnion [
      Fld ''poll'' typedef_wait_queue_head_t,
      Fld ''mnt_ns_rcu'' struct_callback_head]),
    Fld ''seq_origin'' typedef_u64,
    Fld ''event'' typedef_u64,
    Fld ''n_fsnotify_mask'' typedef___u32,
    Fld ''n_fsnotify_marks'' CPtr,
    Fld ''nr_mounts'' c_uint,
    Fld ''pending_mounts'' c_uint,
    Fld ''mnt_ns_tree_node'' struct_rb_node,
    Fld ''mnt_ns_list'' struct_list_head,
    Fld ''passive'' typedef_refcount_t]"

lemma lay_struct_mnt_namespace [layout_simps]:
  "sizeof struct_mnt_namespace = 192" "alignof struct_mnt_namespace = 8" "wf_ty struct_mnt_namespace" "unpacked struct_mnt_namespace"
  by (simp_all add: struct_mnt_namespace_def layout_simps layout_eval)

definition typedef_rht_hashfn_t :: ctype where
  [layout_simps]: "typedef_rht_hashfn_t = CPtr"

definition typedef_rht_obj_hashfn_t :: ctype where
  [layout_simps]: "typedef_rht_obj_hashfn_t = CPtr"

definition typedef_rht_obj_cmpfn_t :: ctype where
  [layout_simps]: "typedef_rht_obj_cmpfn_t = CPtr"

definition struct_rhashtable_params :: ctype where
  "struct_rhashtable_params = CStruct [
    Fld ''nelem_hint'' typedef_u16,
    Fld ''key_len'' typedef_u16,
    Fld ''key_offset'' typedef_u16,
    Fld ''head_offset'' typedef_u16,
    Fld ''max_size'' c_uint,
    Fld ''min_size'' typedef_u16,
    Fld ''automatic_shrinking'' typedef_bool,
    Fld ''hashfn'' typedef_rht_hashfn_t,
    Fld ''obj_hashfn'' typedef_rht_obj_hashfn_t,
    Fld ''obj_cmpfn'' typedef_rht_obj_cmpfn_t]"

lemma lay_struct_rhashtable_params [layout_simps]:
  "sizeof struct_rhashtable_params = 40" "alignof struct_rhashtable_params = 8" "wf_ty struct_rhashtable_params" "unpacked struct_rhashtable_params"
  by (simp_all add: struct_rhashtable_params_def layout_simps layout_eval)

definition struct_rhashtable :: ctype where
  "struct_rhashtable = CStruct [
    Fld ''tbl'' CPtr,
    Fld ''key_len'' c_uint,
    Fld ''max_elems'' c_uint,
    Fld ''p'' struct_rhashtable_params,
    Fld ''rhlist'' typedef_bool,
    Fld ''run_work'' struct_work_struct,
    Fld ''mutex'' struct_mutex,
    Fld ''lock'' typedef_spinlock_t,
    Fld ''nelems'' typedef_atomic_t]"

lemma lay_struct_rhashtable [layout_simps]:
  "sizeof struct_rhashtable = 136" "alignof struct_rhashtable = 8" "wf_ty struct_rhashtable" "unpacked struct_rhashtable"
  by (simp_all add: struct_rhashtable_def layout_simps layout_eval)

definition struct_ipc_ids :: ctype where
  "struct_ipc_ids = CStruct [
    Fld ''in_use'' c_int,
    Fld ''seq'' c_ushort,
    Fld ''rwsem'' struct_rw_semaphore,
    Fld ''ipcs_idr'' struct_idr,
    Fld ''max_idx'' c_int,
    Fld ''last_idx'' c_int,
    Fld ''next_id'' c_int,
    Fld ''key_ht'' struct_rhashtable]"

lemma lay_struct_ipc_ids [layout_simps]:
  "sizeof struct_ipc_ids = 224" "alignof struct_ipc_ids = 8" "wf_ty struct_ipc_ids" "unpacked struct_ipc_ids"
  by (simp_all add: struct_ipc_ids_def layout_simps layout_eval)

definition typedef_notifier_fn_t :: ctype where
  [layout_simps]: "typedef_notifier_fn_t = CPtr"

definition struct_notifier_block :: ctype where
  "struct_notifier_block = CStruct [
    Fld ''notifier_call'' typedef_notifier_fn_t,
    Fld ''next'' CPtr,
    Fld ''priority'' c_int]"

lemma lay_struct_notifier_block [layout_simps]:
  "sizeof struct_notifier_block = 24" "alignof struct_notifier_block = 8" "wf_ty struct_notifier_block" "unpacked struct_notifier_block"
  by (simp_all add: struct_notifier_block_def layout_simps layout_eval)

definition struct_ipc_namespace :: ctype where
  "struct_ipc_namespace = CStruct [
    Fld ''ids'' (CArr 3 struct_ipc_ids),
    Fld ''sem_ctls'' (CArr 4 c_int),
    Fld ''used_sems'' c_int,
    Fld ''msg_ctlmax'' c_uint,
    Fld ''msg_ctlmnb'' c_uint,
    Fld ''msg_ctlmni'' c_uint,
    Fld ''percpu_msg_bytes'' struct_percpu_counter,
    Fld ''percpu_msg_hdrs'' struct_percpu_counter,
    Fld ''shm_ctlmax'' typedef_size_t,
    Fld ''shm_ctlall'' typedef_size_t,
    Fld ''shm_tot'' c_ulong,
    Fld ''shm_ctlmni'' c_int,
    Fld ''shm_rmid_forced'' c_int,
    Fld ''ipcns_nb'' struct_notifier_block,
    Fld ''mq_mnt'' CPtr,
    Fld ''mq_queues_count'' c_uint,
    Fld ''mq_queues_max'' c_uint,
    Fld ''mq_msg_max'' c_uint,
    Fld ''mq_msgsize_max'' c_uint,
    Fld ''mq_msg_default'' c_uint,
    Fld ''mq_msgsize_default'' c_uint,
    Fld ''mq_set'' struct_ctl_table_set,
    Fld ''mq_sysctls'' CPtr,
    Fld ''ipc_set'' struct_ctl_table_set,
    Fld ''ipc_sysctls'' CPtr,
    Fld ''user_ns'' CPtr,
    Fld ''ucounts'' CPtr,
    Fld ''mnt_llist'' struct_llist_node,
    Fld ''ns'' struct_ns_common]"

lemma lay_struct_ipc_namespace [layout_simps]:
  "sizeof struct_ipc_namespace = 1144" "alignof struct_ipc_namespace = 8" "wf_ty struct_ipc_namespace" "unpacked struct_ipc_namespace"
  by (simp_all add: struct_ipc_namespace_def layout_simps layout_eval)

definition struct_cgroup_namespace :: ctype where
  "struct_cgroup_namespace = CStruct [
    Fld ''ns'' struct_ns_common,
    Fld ''user_ns'' CPtr,
    Fld ''ucounts'' CPtr,
    Fld ''root_cset'' CPtr]"

lemma lay_struct_cgroup_namespace [layout_simps]:
  "sizeof struct_cgroup_namespace = 48" "alignof struct_cgroup_namespace = 8" "wf_ty struct_cgroup_namespace" "unpacked struct_cgroup_namespace"
  by (simp_all add: struct_cgroup_namespace_def layout_simps layout_eval)

definition struct_timespec64 :: ctype where
  "struct_timespec64 = CStruct [
    Fld ''tv_sec'' typedef_time64_t,
    Fld ''tv_nsec'' c_long]"

lemma lay_struct_timespec64 [layout_simps]:
  "sizeof struct_timespec64 = 16" "alignof struct_timespec64 = 8" "wf_ty struct_timespec64" "unpacked struct_timespec64"
  by (simp_all add: struct_timespec64_def layout_simps layout_eval)

definition struct_timens_offsets :: ctype where
  "struct_timens_offsets = CStruct [
    Fld ''monotonic'' struct_timespec64,
    Fld ''boottime'' struct_timespec64]"

lemma lay_struct_timens_offsets [layout_simps]:
  "sizeof struct_timens_offsets = 32" "alignof struct_timens_offsets = 8" "wf_ty struct_timens_offsets" "unpacked struct_timens_offsets"
  by (simp_all add: struct_timens_offsets_def layout_simps layout_eval)

definition struct_time_namespace :: ctype where
  "struct_time_namespace = CStruct [
    Fld ''user_ns'' CPtr,
    Fld ''ucounts'' CPtr,
    Fld ''ns'' struct_ns_common,
    Fld ''offsets'' struct_timens_offsets,
    Fld ''vvar_page'' CPtr,
    Fld ''frozen_offsets'' typedef_bool]"

lemma lay_struct_time_namespace [layout_simps]:
  "sizeof struct_time_namespace = 88" "alignof struct_time_namespace = 8" "wf_ty struct_time_namespace" "unpacked struct_time_namespace"
  by (simp_all add: struct_time_namespace_def layout_simps layout_eval)

definition struct_raw_notifier_head :: ctype where
  "struct_raw_notifier_head = CStruct [
    Fld ''head'' CPtr]"

lemma lay_struct_raw_notifier_head [layout_simps]:
  "sizeof struct_raw_notifier_head = 8" "alignof struct_raw_notifier_head = 8" "wf_ty struct_raw_notifier_head" "unpacked struct_raw_notifier_head"
  by (simp_all add: struct_raw_notifier_head_def layout_simps layout_eval)

definition struct_netns_core :: ctype where
  "struct_netns_core = CStruct [
    Fld ''sysctl_hdr'' CPtr,
    Fld ''sysctl_somaxconn'' c_int,
    Fld ''sysctl_optmem_max'' c_int,
    Fld ''sysctl_txrehash'' typedef_u8,
    Fld ''sysctl_tstamp_allow_data'' typedef_u8,
    Fld ''prot_inuse'' CPtr,
    Fld ''rps_default_mask'' CPtr]"

lemma lay_struct_netns_core [layout_simps]:
  "sizeof struct_netns_core = 40" "alignof struct_netns_core = 8" "wf_ty struct_netns_core" "unpacked struct_netns_core"
  by (simp_all add: struct_netns_core_def layout_simps layout_eval)

definition struct_netns_mib :: ctype where
  "struct_netns_mib = CStruct [
    Fld ''ip_statistics'' CPtr,
    Fld ''ipv6_statistics'' CPtr,
    Fld ''tcp_statistics'' CPtr,
    Fld ''net_statistics'' CPtr,
    Fld ''udp_statistics'' CPtr,
    Fld ''udp_stats_in6'' CPtr,
    Fld ''xfrm_statistics'' CPtr,
    Fld ''tls_statistics'' CPtr,
    Fld ''mptcp_statistics'' CPtr,
    Fld ''udplite_statistics'' CPtr,
    Fld ''udplite_stats_in6'' CPtr,
    Fld ''icmp_statistics'' CPtr,
    Fld ''icmpmsg_statistics'' CPtr,
    Fld ''icmpv6_statistics'' CPtr,
    Fld ''icmpv6msg_statistics'' CPtr,
    Fld ''proc_net_devsnmp6'' CPtr]"

lemma lay_struct_netns_mib [layout_simps]:
  "sizeof struct_netns_mib = 128" "alignof struct_netns_mib = 8" "wf_ty struct_netns_mib" "unpacked struct_netns_mib"
  by (simp_all add: struct_netns_mib_def layout_simps layout_eval)

definition struct_netns_packet :: ctype where
  "struct_netns_packet = CStruct [
    Fld ''sklist_lock'' struct_mutex,
    Fld ''sklist'' struct_hlist_head]"

lemma lay_struct_netns_packet [layout_simps]:
  "sizeof struct_netns_packet = 40" "alignof struct_netns_packet = 8" "wf_ty struct_netns_packet" "unpacked struct_netns_packet"
  by (simp_all add: struct_netns_packet_def layout_simps layout_eval)

definition struct_unix_table :: ctype where
  "struct_unix_table = CStruct [
    Fld ''locks'' CPtr,
    Fld ''buckets'' CPtr]"

lemma lay_struct_unix_table [layout_simps]:
  "sizeof struct_unix_table = 16" "alignof struct_unix_table = 8" "wf_ty struct_unix_table" "unpacked struct_unix_table"
  by (simp_all add: struct_unix_table_def layout_simps layout_eval)

definition struct_netns_unix :: ctype where
  "struct_netns_unix = CStruct [
    Fld ''table'' struct_unix_table,
    Fld ''sysctl_max_dgram_qlen'' c_int,
    Fld ''ctl'' CPtr]"

lemma lay_struct_netns_unix [layout_simps]:
  "sizeof struct_netns_unix = 32" "alignof struct_netns_unix = 8" "wf_ty struct_netns_unix" "unpacked struct_netns_unix"
  by (simp_all add: struct_netns_unix_def layout_simps layout_eval)

definition struct_blocking_notifier_head :: ctype where
  "struct_blocking_notifier_head = CStruct [
    Fld ''rwsem'' struct_rw_semaphore,
    Fld ''head'' CPtr]"

lemma lay_struct_blocking_notifier_head [layout_simps]:
  "sizeof struct_blocking_notifier_head = 48" "alignof struct_blocking_notifier_head = 8" "wf_ty struct_blocking_notifier_head" "unpacked struct_blocking_notifier_head"
  by (simp_all add: struct_blocking_notifier_head_def layout_simps layout_eval)

definition struct_netns_nexthop :: ctype where
  "struct_netns_nexthop = CStruct [
    Fld ''rb_root'' struct_rb_root,
    Fld ''devhash'' CPtr,
    Fld ''seq'' c_uint,
    Fld ''last_id_allocated'' typedef_u32,
    Fld ''notifier_chain'' struct_blocking_notifier_head]"

lemma lay_struct_netns_nexthop [layout_simps]:
  "sizeof struct_netns_nexthop = 72" "alignof struct_netns_nexthop = 8" "wf_ty struct_netns_nexthop" "unpacked struct_netns_nexthop"
  by (simp_all add: struct_netns_nexthop_def layout_simps layout_eval)

definition struct_inet_timewait_death_row :: ctype where
  "struct_inet_timewait_death_row = CStruct [
    Fld ''tw_refcount'' typedef_refcount_t,
    Bits [] c_long 64,
    Bits [] c_long 64,
    Bits [] c_long 64,
    Bits [] c_long 64,
    Bits [] c_long 64,
    Bits [] c_long 64,
    Bits [] c_long 64,
    Fld ''hashinfo'' CPtr,
    Fld ''sysctl_max_tw_buckets'' c_int,
    Bits [] c_long 64,
    Bits [] c_long 64,
    Bits [] c_long 64,
    Bits [] c_long 64,
    Bits [] c_long 64,
    Bits [] c_long 64]"

lemma lay_struct_inet_timewait_death_row [layout_simps]:
  "sizeof struct_inet_timewait_death_row = 128" "alignof struct_inet_timewait_death_row = 8" "wf_ty struct_inet_timewait_death_row" "unpacked struct_inet_timewait_death_row"
  by (simp_all add: struct_inet_timewait_death_row_def layout_simps layout_eval)

definition struct_udp_tunnel_gro :: ctype where
  "struct_udp_tunnel_gro = CStruct [
    Fld ''sk'' CPtr,
    Fld ''list'' struct_hlist_head]"

lemma lay_struct_udp_tunnel_gro [layout_simps]:
  "sizeof struct_udp_tunnel_gro = 16" "alignof struct_udp_tunnel_gro = 8" "wf_ty struct_udp_tunnel_gro" "unpacked struct_udp_tunnel_gro"
  by (simp_all add: struct_udp_tunnel_gro_def layout_simps layout_eval)

definition struct_local_ports :: ctype where
  "struct_local_ports = CStruct [
    Fld ''range'' typedef_u32,
    Fld ''warned'' typedef_bool]"

lemma lay_struct_local_ports [layout_simps]:
  "sizeof struct_local_ports = 8" "alignof struct_local_ports = 4" "wf_ty struct_local_ports" "unpacked struct_local_ports"
  by (simp_all add: struct_local_ports_def layout_simps layout_eval)

definition struct_ping_group_range :: ctype where
  "struct_ping_group_range = CStruct [
    Fld ''lock'' typedef_seqlock_t,
    Fld ''range'' (CArr 2 typedef_kgid_t)]"

lemma lay_struct_ping_group_range [layout_simps]:
  "sizeof struct_ping_group_range = 16" "alignof struct_ping_group_range = 4" "wf_ty struct_ping_group_range" "unpacked struct_ping_group_range"
  by (simp_all add: struct_ping_group_range_def layout_simps layout_eval)

definition struct_sysctl_fib_multipath_hash_seed :: ctype where
  "struct_sysctl_fib_multipath_hash_seed = CStruct [
    Fld ''user_seed'' typedef_u32,
    Fld ''mp_seed'' typedef_u32]"

lemma lay_struct_sysctl_fib_multipath_hash_seed [layout_simps]:
  "sizeof struct_sysctl_fib_multipath_hash_seed = 8" "alignof struct_sysctl_fib_multipath_hash_seed = 4" "wf_ty struct_sysctl_fib_multipath_hash_seed" "unpacked struct_sysctl_fib_multipath_hash_seed"
  by (simp_all add: struct_sysctl_fib_multipath_hash_seed_def layout_simps layout_eval)

definition typedef_siphash_key_t :: ctype where
  "typedef_siphash_key_t = CStruct [
    Fld ''key'' (CArr 2 typedef_u64)]"

lemma lay_typedef_siphash_key_t [layout_simps]:
  "sizeof typedef_siphash_key_t = 16" "alignof typedef_siphash_key_t = 8" "wf_ty typedef_siphash_key_t" "unpacked typedef_siphash_key_t"
  by (simp_all add: typedef_siphash_key_t_def layout_simps layout_eval)

definition struct_delayed_work :: ctype where
  "struct_delayed_work = CStruct [
    Fld ''work'' struct_work_struct,
    Fld ''timer'' struct_timer_list,
    Fld ''wq'' CPtr,
    Fld ''cpu'' c_int]"

lemma lay_struct_delayed_work [layout_simps]:
  "sizeof struct_delayed_work = 88" "alignof struct_delayed_work = 8" "wf_ty struct_delayed_work" "unpacked struct_delayed_work"
  by (simp_all add: struct_delayed_work_def layout_simps layout_eval)

definition struct_netns_ipv4_members1 :: "member list" where
  "struct_netns_ipv4_members1 = [
    Fld ''__cacheline_group_begin__netns_ipv4_read_tx'' (CArr 0 typedef___u8),
    Fld ''sysctl_tcp_early_retrans'' typedef_u8,
    Fld ''sysctl_tcp_tso_win_divisor'' typedef_u8,
    Fld ''sysctl_tcp_tso_rtt_log'' typedef_u8,
    Fld ''sysctl_tcp_autocorking'' typedef_u8,
    Fld ''sysctl_tcp_min_snd_mss'' c_int,
    Fld ''sysctl_tcp_notsent_lowat'' c_uint,
    Fld ''sysctl_tcp_limit_output_bytes'' c_int,
    Fld ''sysctl_tcp_min_rtt_wlen'' c_int,
    Fld ''sysctl_tcp_wmem'' (CArr 3 c_int),
    Fld ''sysctl_ip_fwd_use_pmtu'' typedef_u8,
    Fld ''__cacheline_group_end__netns_ipv4_read_tx'' (CArr 0 typedef___u8),
    Fld ''__cacheline_group_begin__netns_ipv4_read_txrx'' (CArr 0 typedef___u8),
    Fld ''sysctl_tcp_moderate_rcvbuf'' typedef_u8,
    Fld ''__cacheline_group_end__netns_ipv4_read_txrx'' (CArr 0 typedef___u8),
    Fld ''__cacheline_group_begin__netns_ipv4_read_rx'' (CArr 0 typedef___u8),
    Fld ''sysctl_ip_early_demux'' typedef_u8,
    Fld ''sysctl_tcp_early_demux'' typedef_u8,
    Fld ''sysctl_tcp_l3mdev_accept'' typedef_u8,
    Fld ''sysctl_tcp_reordering'' c_int,
    Fld ''sysctl_tcp_rmem'' (CArr 3 c_int),
    Fld ''__cacheline_group_end__netns_ipv4_read_rx'' (CArr 0 typedef___u8),
    Bits [] c_long 64,
    Fld ''tcp_death_row'' struct_inet_timewait_death_row,
    Fld ''udp_table'' CPtr,
    Fld ''udp_tunnel_gro'' (CArr 2 struct_udp_tunnel_gro),
    Fld ''forw_hdr'' CPtr,
    Fld ''frags_hdr'' CPtr,
    Fld ''ipv4_hdr'' CPtr,
    Fld ''route_hdr'' CPtr,
    Fld ''xfrm4_hdr'' CPtr,
    Fld ''devconf_all'' CPtr,
    Fld ''devconf_dflt'' CPtr,
    Fld ''ra_chain'' CPtr,
    Fld ''ra_mutex'' struct_mutex,
    Fld ''rules_ops'' CPtr,
    Fld ''fib_main'' CPtr,
    Fld ''fib_default'' CPtr,
    Fld ''fib_rules_require_fldissect'' c_uint,
    Fld ''fib_has_custom_rules'' typedef_bool,
    Fld ''fib_has_custom_local_routes'' typedef_bool,
    Fld ''fib_offload_disabled'' typedef_bool,
    Fld ''sysctl_tcp_shrink_window'' typedef_u8,
    Fld ''fib_num_tclassid_users'' typedef_atomic_t,
    Fld ''fib_table_hash'' CPtr,
    Fld ''fibnl'' CPtr,
    Fld ''fib_info_hash'' CPtr,
    Fld ''fib_info_hash_bits'' c_uint,
    Fld ''fib_info_cnt'' c_uint,
    Fld ''mc_autojoin_sk'' CPtr,
    Fld ''peers'' CPtr,
    Fld ''fqdir'' CPtr,
    Fld ''sysctl_icmp_echo_ignore_all'' typedef_u8,
    Fld ''sysctl_icmp_echo_enable_probe'' typedef_u8,
    Fld ''sysctl_icmp_echo_ignore_broadcasts'' typedef_u8,
    Fld ''sysctl_icmp_ignore_bogus_error_responses'' typedef_u8,
    Fld ''sysctl_icmp_errors_use_inbound_ifaddr'' typedef_u8,
    Fld ''sysctl_icmp_ratelimit'' c_int,
    Fld ''sysctl_icmp_ratemask'' c_int,
    Fld ''sysctl_icmp_msgs_per_sec'' c_int,
    Fld ''sysctl_icmp_msgs_burst'' c_int,
    Fld ''icmp_global_credit'' typedef_atomic_t,
    Fld ''icmp_global_stamp'' typedef_u32,
    Fld ''ip_rt_min_pmtu'' typedef_u32,
    Fld ''ip_rt_mtu_expires'' c_int,
    Fld ''ip_rt_min_advmss'' c_int,
    Fld ''ip_local_ports'' struct_local_ports,
    Fld ''sysctl_tcp_ecn'' typedef_u8,
    Fld ''sysctl_tcp_ecn_fallback'' typedef_u8,
    Fld ''sysctl_ip_default_ttl'' typedef_u8,
    Fld ''sysctl_ip_no_pmtu_disc'' typedef_u8,
    Fld ''sysctl_ip_fwd_update_priority'' typedef_u8,
    Fld ''sysctl_ip_nonlocal_bind'' typedef_u8,
    Fld ''sysctl_ip_autobind_reuse'' typedef_u8,
    Fld ''sysctl_ip_dynaddr'' typedef_u8,
    Fld ''sysctl_raw_l3mdev_accept'' typedef_u8,
    Fld ''sysctl_udp_early_demux'' typedef_u8,
    Fld ''sysctl_nexthop_compat_mode'' typedef_u8,
    Fld ''sysctl_fwmark_reflect'' typedef_u8,
    Fld ''sysctl_tcp_fwmark_accept'' typedef_u8,
    Fld ''sysctl_tcp_mtu_probing'' typedef_u8,
    Fld ''sysctl_tcp_mtu_probe_floor'' c_int,
    Fld ''sysctl_tcp_base_mss'' c_int,
    Fld ''sysctl_tcp_probe_threshold'' c_int,
    Fld ''sysctl_tcp_probe_interval'' typedef_u32,
    Fld ''sysctl_tcp_keepalive_time'' c_int,
    Fld ''sysctl_tcp_keepalive_intvl'' c_int,
    Fld ''sysctl_tcp_keepalive_probes'' typedef_u8,
    Fld ''sysctl_tcp_syn_retries'' typedef_u8,
    Fld ''sysctl_tcp_synack_retries'' typedef_u8]"

definition struct_netns_ipv4_members2 :: "member list" where
  "struct_netns_ipv4_members2 = [
    Fld ''sysctl_tcp_syncookies'' typedef_u8,
    Fld ''sysctl_tcp_migrate_req'' typedef_u8,
    Fld ''sysctl_tcp_comp_sack_nr'' typedef_u8,
    Fld ''sysctl_tcp_backlog_ack_defer'' typedef_u8,
    Fld ''sysctl_tcp_pingpong_thresh'' typedef_u8,
    Fld ''sysctl_tcp_retries1'' typedef_u8,
    Fld ''sysctl_tcp_retries2'' typedef_u8,
    Fld ''sysctl_tcp_orphan_retries'' typedef_u8,
    Fld ''sysctl_tcp_tw_reuse'' typedef_u8,
    Fld ''sysctl_tcp_tw_reuse_delay'' c_uint,
    Fld ''sysctl_tcp_fin_timeout'' c_int,
    Fld ''sysctl_tcp_sack'' typedef_u8,
    Fld ''sysctl_tcp_window_scaling'' typedef_u8,
    Fld ''sysctl_tcp_timestamps'' typedef_u8,
    Fld ''sysctl_tcp_rto_min_us'' c_int,
    Fld ''sysctl_tcp_rto_max_ms'' c_int,
    Fld ''sysctl_tcp_recovery'' typedef_u8,
    Fld ''sysctl_tcp_thin_linear_timeouts'' typedef_u8,
    Fld ''sysctl_tcp_slow_start_after_idle'' typedef_u8,
    Fld ''sysctl_tcp_retrans_collapse'' typedef_u8,
    Fld ''sysctl_tcp_stdurg'' typedef_u8,
    Fld ''sysctl_tcp_rfc1337'' typedef_u8,
    Fld ''sysctl_tcp_abort_on_overflow'' typedef_u8,
    Fld ''sysctl_tcp_fack'' typedef_u8,
    Fld ''sysctl_tcp_max_reordering'' c_int,
    Fld ''sysctl_tcp_adv_win_scale'' c_int,
    Fld ''sysctl_tcp_dsack'' typedef_u8,
    Fld ''sysctl_tcp_app_win'' typedef_u8,
    Fld ''sysctl_tcp_frto'' typedef_u8,
    Fld ''sysctl_tcp_nometrics_save'' typedef_u8,
    Fld ''sysctl_tcp_no_ssthresh_metrics_save'' typedef_u8,
    Fld ''sysctl_tcp_workaround_signed_windows'' typedef_u8,
    Fld ''sysctl_tcp_challenge_ack_limit'' c_int,
    Fld ''sysctl_tcp_min_tso_segs'' typedef_u8,
    Fld ''sysctl_tcp_reflect_tos'' typedef_u8,
    Fld ''sysctl_tcp_invalid_ratelimit'' c_int,
    Fld ''sysctl_tcp_pacing_ss_ratio'' c_int,
    Fld ''sysctl_tcp_pacing_ca_ratio'' c_int,
    Fld ''sysctl_tcp_child_ehash_entries'' c_uint,
    Fld ''sysctl_tcp_comp_sack_delay_ns'' c_ulong,
    Fld ''sysctl_tcp_comp_sack_slack_ns'' c_ulong,
    Fld ''sysctl_max_syn_backlog'' c_int,
    Fld ''sysctl_tcp_fastopen'' c_int,
    Fld ''tcp_congestion_control'' CPtr,
    Fld ''tcp_fastopen_ctx'' CPtr,
    Fld ''sysctl_tcp_fastopen_blackhole_timeout'' c_uint,
    Fld ''tfo_active_disable_times'' typedef_atomic_t,
    Fld ''tfo_active_disable_stamp'' c_ulong,
    Fld ''tcp_challenge_timestamp'' typedef_u32,
    Fld ''tcp_challenge_count'' typedef_u32,
    Fld ''sysctl_tcp_plb_enabled'' typedef_u8,
    Fld ''sysctl_tcp_plb_idle_rehash_rounds'' typedef_u8,
    Fld ''sysctl_tcp_plb_rehash_rounds'' typedef_u8,
    Fld ''sysctl_tcp_plb_suspend_rto_sec'' typedef_u8,
    Fld ''sysctl_tcp_plb_cong_thresh'' c_int,
    Fld ''sysctl_udp_wmem_min'' c_int,
    Fld ''sysctl_udp_rmem_min'' c_int,
    Fld ''sysctl_fib_notify_on_flag_change'' typedef_u8,
    Fld ''sysctl_tcp_syn_linear_timeouts'' typedef_u8,
    Fld ''sysctl_udp_l3mdev_accept'' typedef_u8,
    Fld ''sysctl_igmp_llm_reports'' typedef_u8,
    Fld ''sysctl_igmp_max_memberships'' c_int,
    Fld ''sysctl_igmp_max_msf'' c_int,
    Fld ''sysctl_igmp_qrv'' c_int,
    Fld ''ping_group_range'' struct_ping_group_range,
    Fld ''dev_addr_genid'' typedef_atomic_t,
    Fld ''sysctl_udp_child_hash_entries'' c_uint,
    Fld ''sysctl_local_reserved_ports'' CPtr,
    Fld ''sysctl_ip_prot_sock'' c_int,
    Fld ''mr_tables'' struct_list_head,
    Fld ''mr_rules_ops'' CPtr,
    Fld ''sysctl_fib_multipath_hash_seed'' struct_sysctl_fib_multipath_hash_seed,
    Fld ''sysctl_fib_multipath_hash_fields'' typedef_u32,
    Fld ''sysctl_fib_multipath_use_neigh'' typedef_u8,
    Fld ''sysctl_fib_multipath_hash_policy'' typedef_u8,
    Fld ''notifier_ops'' CPtr,
    Fld ''fib_seq'' c_uint,
    Fld ''ipmr_notifier_ops'' CPtr,
    Fld ''ipmr_seq'' c_uint,
    Fld ''rt_genid'' typedef_atomic_t,
    Fld ''ip_id_key'' typedef_siphash_key_t,
    Fld ''inet_addr_lst'' CPtr,
    Fld ''addr_chk_work'' struct_delayed_work,
    Bits [] c_long 64,
    Bits [] c_long 64,
    Bits [] c_long 64,
    Bits [] c_long 64,
    Bits [] c_long 64]"

definition struct_netns_ipv4 :: ctype where
  "struct_netns_ipv4 = CStruct (struct_netns_ipv4_members1 @ struct_netns_ipv4_members2)"

lemma lay_struct_netns_ipv4 [layout_simps]:
  "sizeof struct_netns_ipv4 = 960" "alignof struct_netns_ipv4 = 8" "wf_ty struct_netns_ipv4" "unpacked struct_netns_ipv4"
  by (simp_all add: struct_netns_ipv4_def struct_netns_ipv4_members1_def struct_netns_ipv4_members2_def layout_simps layout_eval)

definition struct_dst_ops :: ctype where
  "struct_dst_ops = CStruct [
    Fld ''family'' c_ushort,
    Fld ''gc_thresh'' c_uint,
    Fld ''gc'' CPtr,
    Fld ''check'' CPtr,
    Fld ''default_advmss'' CPtr,
    Fld ''mtu'' CPtr,
    Fld ''cow_metrics'' CPtr,
    Fld ''destroy'' CPtr,
    Fld ''ifdown'' CPtr,
    Fld ''negative_advice'' CPtr,
    Fld ''link_failure'' CPtr,
    Fld ''update_pmtu'' CPtr,
    Fld ''redirect'' CPtr,
    Fld ''local_out'' CPtr,
    Fld ''neigh_lookup'' CPtr,
    Fld ''confirm_neigh'' CPtr,
    Fld ''kmem_cachep'' CPtr,
    Fld ''pcpuc_entries'' struct_percpu_counter,
    Bits [] c_long 64,
    Bits [] c_long 64,
    Bits [] c_long 64]"

lemma lay_struct_dst_ops [layout_simps]:
  "sizeof struct_dst_ops = 192" "alignof struct_dst_ops = 8" "wf_ty struct_dst_ops" "unpacked struct_dst_ops"
  by (simp_all add: struct_dst_ops_def layout_simps layout_eval)

definition struct_netns_sysctl_ipv6 :: ctype where
  "struct_netns_sysctl_ipv6 = CStruct [
    Fld ''hdr'' CPtr,
    Fld ''route_hdr'' CPtr,
    Fld ''icmp_hdr'' CPtr,
    Fld ''frags_hdr'' CPtr,
    Fld ''xfrm6_hdr'' CPtr,
    Fld ''flush_delay'' c_int,
    Fld ''ip6_rt_max_size'' c_int,
    Fld ''ip6_rt_gc_min_interval'' c_int,
    Fld ''ip6_rt_gc_timeout'' c_int,
    Fld ''ip6_rt_gc_interval'' c_int,
    Fld ''ip6_rt_gc_elasticity'' c_int,
    Fld ''ip6_rt_mtu_expires'' c_int,
    Fld ''ip6_rt_min_advmss'' c_int,
    Fld ''multipath_hash_fields'' typedef_u32,
    Fld ''multipath_hash_policy'' typedef_u8,
    Fld ''bindv6only'' typedef_u8,
    Fld ''flowlabel_consistency'' typedef_u8,
    Fld ''auto_flowlabels'' typedef_u8,
    Fld ''icmpv6_time'' c_int,
    Fld ''icmpv6_echo_ignore_all'' typedef_u8,
    Fld ''icmpv6_echo_ignore_multicast'' typedef_u8,
    Fld ''icmpv6_echo_ignore_anycast'' typedef_u8,
    Fld ''icmpv6_ratemask'' (CArr 4 c_ulong),
    Fld ''icmpv6_ratemask_ptr'' CPtr,
    Fld ''anycast_src_echo_reply'' typedef_u8,
    Fld ''ip_nonlocal_bind'' typedef_u8,
    Fld ''fwmark_reflect'' typedef_u8,
    Fld ''flowlabel_state_ranges'' typedef_u8,
    Fld ''idgen_retries'' c_int,
    Fld ''idgen_delay'' c_int,
    Fld ''flowlabel_reflect'' c_int,
    Fld ''max_dst_opts_cnt'' c_int,
    Fld ''max_hbh_opts_cnt'' c_int,
    Fld ''max_dst_opts_len'' c_int,
    Fld ''max_hbh_opts_len'' c_int,
    Fld ''seg6_flowlabel'' c_int,
    Fld ''ioam6_id'' typedef_u32,
    Fld ''ioam6_id_wide'' typedef_u64,
    Fld ''skip_notify_on_dev_down'' typedef_u8,
    Fld ''fib_notify_on_flag_change'' typedef_u8,
    Fld ''icmpv6_error_anycast_as_unicast'' typedef_u8]"

lemma lay_struct_netns_sysctl_ipv6 [layout_simps]:
  "sizeof struct_netns_sysctl_ipv6 = 184" "alignof struct_netns_sysctl_ipv6 = 8" "wf_ty struct_netns_sysctl_ipv6" "unpacked struct_netns_sysctl_ipv6"
  by (simp_all add: struct_netns_sysctl_ipv6_def layout_simps layout_eval)

definition struct_netns_ipv6 :: ctype where
  "struct_netns_ipv6 = CStruct [
    Fld ''ip6_dst_ops'' struct_dst_ops,
    Fld ''sysctl'' struct_netns_sysctl_ipv6,
    Fld ''devconf_all'' CPtr,
    Fld ''devconf_dflt'' CPtr,
    Fld ''peers'' CPtr,
    Fld ''fqdir'' CPtr,
    Fld ''fib6_null_entry'' CPtr,
    Fld ''ip6_null_entry'' CPtr,
    Fld ''rt6_stats'' CPtr,
    Fld ''ip6_fib_timer'' struct_timer_list,
    Fld ''fib_table_hash'' CPtr,
    Fld ''fib_table_hash_lock'' typedef_spinlock_t,
    Fld ''fib6_main_tbl'' CPtr,
    Fld ''fib6_walkers'' struct_list_head,
    Fld ''fib6_walker_lock'' typedef_rwlock_t,
    Fld ''fib6_gc_lock'' typedef_spinlock_t,
    Fld ''ip6_rt_gc_expire'' typedef_atomic_t,
    Fld ''ip6_rt_last_gc'' c_ulong,
    Fld ''flowlabel_has_excl'' c_uchar,
    Fld ''fib6_has_custom_rules'' typedef_bool,
    Fld ''fib6_rules_require_fldissect'' c_uint,
    Fld ''fib6_routes_require_src'' c_uint,
    Fld ''ip6_prohibit_entry'' CPtr,
    Fld ''ip6_blk_hole_entry'' CPtr,
    Fld ''fib6_local_tbl'' CPtr,
    Fld ''fib6_rules_ops'' CPtr,
    Fld ''ndisc_sk'' CPtr,
    Fld ''tcp_sk'' CPtr,
    Fld ''igmp_sk'' CPtr,
    Fld ''mc_autojoin_sk'' CPtr,
    Fld ''inet6_addr_lst'' CPtr,
    Fld ''addrconf_hash_lock'' typedef_spinlock_t,
    Fld ''addr_chk_work'' struct_delayed_work,
    Fld ''mr6_tables'' struct_list_head,
    Fld ''mr6_rules_ops'' CPtr,
    Fld ''dev_addr_genid'' typedef_atomic_t,
    Fld ''fib6_sernum'' typedef_atomic_t,
    Fld ''seg6_data'' CPtr,
    Fld ''notifier_ops'' CPtr,
    Fld ''ip6mr_notifier_ops'' CPtr,
    Fld ''ipmr_seq'' c_uint,
    Fld ''ip6addrlbl_table'' (CStruct [
      Fld ''head'' struct_hlist_head,
      Fld ''lock'' typedef_spinlock_t,
      Fld ''seq'' typedef_u32]),
    Fld ''ioam6_data'' CPtr,
    Bits [] c_long 64,
    Bits [] c_long 64,
    Bits [] c_long 64]"

lemma lay_struct_netns_ipv6 [layout_simps]:
  "sizeof struct_netns_ipv6 = 832" "alignof struct_netns_ipv6 = 8" "wf_ty struct_netns_ipv6" "unpacked struct_netns_ipv6"
  by (simp_all add: struct_netns_ipv6_def layout_simps layout_eval)

definition struct_netns_sysctl_lowpan :: ctype where
  "struct_netns_sysctl_lowpan = CStruct [
    Fld ''frags_hdr'' CPtr]"

lemma lay_struct_netns_sysctl_lowpan [layout_simps]:
  "sizeof struct_netns_sysctl_lowpan = 8" "alignof struct_netns_sysctl_lowpan = 8" "wf_ty struct_netns_sysctl_lowpan" "unpacked struct_netns_sysctl_lowpan"
  by (simp_all add: struct_netns_sysctl_lowpan_def layout_simps layout_eval)

definition struct_netns_ieee802154_lowpan :: ctype where
  "struct_netns_ieee802154_lowpan = CStruct [
    Fld ''sysctl'' struct_netns_sysctl_lowpan,
    Fld ''fqdir'' CPtr]"

lemma lay_struct_netns_ieee802154_lowpan [layout_simps]:
  "sizeof struct_netns_ieee802154_lowpan = 16" "alignof struct_netns_ieee802154_lowpan = 8" "wf_ty struct_netns_ieee802154_lowpan" "unpacked struct_netns_ieee802154_lowpan"
  by (simp_all add: struct_netns_ieee802154_lowpan_def layout_simps layout_eval)

definition struct_netns_sctp :: ctype where
  "struct_netns_sctp = CStruct [
    Fld ''sctp_statistics'' CPtr,
    Fld ''proc_net_sctp'' CPtr,
    Fld ''sysctl_header'' CPtr,
    Fld ''ctl_sock'' CPtr,
    Fld ''udp4_sock'' CPtr,
    Fld ''udp6_sock'' CPtr,
    Fld ''udp_port'' c_int,
    Fld ''encap_port'' c_int,
    Fld ''local_addr_list'' struct_list_head,
    Fld ''addr_waitq'' struct_list_head,
    Fld ''addr_wq_timer'' struct_timer_list,
    Fld ''auto_asconf_splist'' struct_list_head,
    Fld ''addr_wq_lock'' typedef_spinlock_t,
    Fld ''local_addr_lock'' typedef_spinlock_t,
    Fld ''rto_initial'' c_uint,
    Fld ''rto_min'' c_uint,
    Fld ''rto_max'' c_uint,
    Fld ''rto_alpha'' c_int,
    Fld ''rto_beta'' c_int,
    Fld ''max_burst'' c_int,
    Fld ''cookie_preserve_enable'' c_int,
    Fld ''sctp_hmac_alg'' CPtr,
    Fld ''valid_cookie_life'' c_uint,
    Fld ''sack_timeout'' c_uint,
    Fld ''hb_interval'' c_uint,
    Fld ''probe_interval'' c_uint,
    Fld ''max_retrans_association'' c_int,
    Fld ''max_retrans_path'' c_int,
    Fld ''max_retrans_init'' c_int,
    Fld ''pf_retrans'' c_int,
    Fld ''ps_retrans'' c_int,
    Fld ''pf_enable'' c_int,
    Fld ''pf_expose'' c_int,
    Fld ''sndbuf_policy'' c_int,
    Fld ''rcvbuf_policy'' c_int,
    Fld ''default_auto_asconf'' c_int,
    Fld ''addip_enable'' c_int,
    Fld ''addip_noauth'' c_int,
    Fld ''prsctp_enable'' c_int,
    Fld ''reconf_enable'' c_int,
    Fld ''auth_enable'' c_int,
    Fld ''intl_enable'' c_int,
    Fld ''ecn_enable'' c_int,
    Fld ''scope_policy'' c_int,
    Fld ''rwnd_upd_shift'' c_int,
    Fld ''max_autoclose'' c_ulong,
    Fld ''l3mdev_accept'' c_int]"

lemma lay_struct_netns_sctp [layout_simps]:
  "sizeof struct_netns_sctp = 304" "alignof struct_netns_sctp = 8" "wf_ty struct_netns_sctp" "unpacked struct_netns_sctp"
  by (simp_all add: struct_netns_sctp_def layout_simps layout_eval)

definition struct_netns_nf :: ctype where
  "struct_netns_nf = CStruct [
    Fld ''proc_netfilter'' CPtr,
    Fld ''nf_loggers'' (CArr 11 CPtr),
    Fld ''nf_log_dir_header'' CPtr,
    Fld ''nf_lwtnl_dir_header'' CPtr,
    Fld ''hooks_ipv4'' (CArr 5 CPtr),
    Fld ''hooks_ipv6'' (CArr 5 CPtr),
    Fld ''hooks_arp'' (CArr 3 CPtr),
    Fld ''hooks_bridge'' (CArr 5 CPtr),
    Fld ''defrag_ipv4_users'' c_uint,
    Fld ''defrag_ipv6_users'' c_uint]"

lemma lay_struct_netns_nf [layout_simps]:
  "sizeof struct_netns_nf = 264" "alignof struct_netns_nf = 8" "wf_ty struct_netns_nf" "unpacked struct_netns_nf"
  by (simp_all add: struct_netns_nf_def layout_simps layout_eval)

definition struct_nf_generic_net :: ctype where
  "struct_nf_generic_net = CStruct [
    Fld ''timeout'' c_uint]"

lemma lay_struct_nf_generic_net [layout_simps]:
  "sizeof struct_nf_generic_net = 4" "alignof struct_nf_generic_net = 4" "wf_ty struct_nf_generic_net" "unpacked struct_nf_generic_net"
  by (simp_all add: struct_nf_generic_net_def layout_simps layout_eval)

definition struct_nf_tcp_net :: ctype where
  "struct_nf_tcp_net = CStruct [
    Fld ''timeouts'' (CArr 14 c_uint),
    Fld ''tcp_loose'' typedef_u8,
    Fld ''tcp_be_liberal'' typedef_u8,
    Fld ''tcp_max_retrans'' typedef_u8,
    Fld ''tcp_ignore_invalid_rst'' typedef_u8,
    Fld ''offload_timeout'' c_uint]"

lemma lay_struct_nf_tcp_net [layout_simps]:
  "sizeof struct_nf_tcp_net = 64" "alignof struct_nf_tcp_net = 4" "wf_ty struct_nf_tcp_net" "unpacked struct_nf_tcp_net"
  by (simp_all add: struct_nf_tcp_net_def layout_simps layout_eval)

definition struct_nf_udp_net :: ctype where
  "struct_nf_udp_net = CStruct [
    Fld ''timeouts'' (CArr 2 c_uint),
    Fld ''offload_timeout'' c_uint]"

lemma lay_struct_nf_udp_net [layout_simps]:
  "sizeof struct_nf_udp_net = 12" "alignof struct_nf_udp_net = 4" "wf_ty struct_nf_udp_net" "unpacked struct_nf_udp_net"
  by (simp_all add: struct_nf_udp_net_def layout_simps layout_eval)

definition struct_nf_icmp_net :: ctype where
  "struct_nf_icmp_net = CStruct [
    Fld ''timeout'' c_uint]"

lemma lay_struct_nf_icmp_net [layout_simps]:
  "sizeof struct_nf_icmp_net = 4" "alignof struct_nf_icmp_net = 4" "wf_ty struct_nf_icmp_net" "unpacked struct_nf_icmp_net"
  by (simp_all add: struct_nf_icmp_net_def layout_simps layout_eval)

definition struct_nf_sctp_net :: ctype where
  "struct_nf_sctp_net = CStruct [
    Fld ''timeouts'' (CArr 10 c_uint)]"

lemma lay_struct_nf_sctp_net [layout_simps]:
  "sizeof struct_nf_sctp_net = 40" "alignof struct_nf_sctp_net = 4" "wf_ty struct_nf_sctp_net" "unpacked struct_nf_sctp_net"
  by (simp_all add: struct_nf_sctp_net_def layout_simps layout_eval)

definition struct_nf_gre_net :: ctype where
  "struct_nf_gre_net = CStruct [
    Fld ''keymap_list'' struct_list_head,
    Fld ''timeouts'' (CArr 2 c_uint)]"

lemma lay_struct_nf_gre_net [layout_simps]:
  "sizeof struct_nf_gre_net = 24" "alignof struct_nf_gre_net = 8" "wf_ty struct_nf_gre_net" "unpacked struct_nf_gre_net"
  by (simp_all add: struct_nf_gre_net_def layout_simps layout_eval)

definition struct_nf_ip_net :: ctype where
  "struct_nf_ip_net = CStruct [
    Fld ''generic'' struct_nf_generic_net,
    Fld ''tcp'' struct_nf_tcp_net,
    Fld ''udp'' struct_nf_udp_net,
    Fld ''icmp'' struct_nf_icmp_net,
    Fld ''icmpv6'' struct_nf_icmp_net,
    Fld ''sctp'' struct_nf_sctp_net,
    Fld ''gre'' struct_nf_gre_net]"

lemma lay_struct_nf_ip_net [layout_simps]:
  "sizeof struct_nf_ip_net = 152" "alignof struct_nf_ip_net = 8" "wf_ty struct_nf_ip_net" "unpacked struct_nf_ip_net"
  by (simp_all add: struct_nf_ip_net_def layout_simps layout_eval)

definition struct_netns_ct :: ctype where
  "struct_netns_ct = CStruct [
    Fld ''ecache_dwork_pending'' typedef_bool,
    Fld ''sysctl_log_invalid'' typedef_u8,
    Fld ''sysctl_events'' typedef_u8,
    Fld ''sysctl_acct'' typedef_u8,
    Fld ''sysctl_tstamp'' typedef_u8,
    Fld ''sysctl_checksum'' typedef_u8,
    Fld ''stat'' CPtr,
    Fld ''nf_conntrack_event_cb'' CPtr,
    Fld ''nf_ct_proto'' struct_nf_ip_net,
    Fld ''labels_used'' typedef_atomic_t]"

lemma lay_struct_netns_ct [layout_simps]:
  "sizeof struct_netns_ct = 184" "alignof struct_netns_ct = 8" "wf_ty struct_netns_ct" "unpacked struct_netns_ct"
  by (simp_all add: struct_netns_ct_def layout_simps layout_eval)

definition struct_netns_nftables :: ctype where
  "struct_netns_nftables = CStruct [
    Fld ''base_seq'' c_uint,
    Fld ''gencursor'' typedef_u8]"

lemma lay_struct_netns_nftables [layout_simps]:
  "sizeof struct_netns_nftables = 8" "alignof struct_netns_nftables = 4" "wf_ty struct_netns_nftables" "unpacked struct_netns_nftables"
  by (simp_all add: struct_netns_nftables_def layout_simps layout_eval)

definition struct_netns_ft :: ctype where
  "struct_netns_ft = CStruct [
    Fld ''stat'' CPtr]"

lemma lay_struct_netns_ft [layout_simps]:
  "sizeof struct_netns_ft = 8" "alignof struct_netns_ft = 8" "wf_ty struct_netns_ft" "unpacked struct_netns_ft"
  by (simp_all add: struct_netns_ft_def layout_simps layout_eval)

definition struct_netns_bpf :: ctype where
  "struct_netns_bpf = CStruct [
    Fld ''run_array'' (CArr 2 CPtr),
    Fld ''progs'' (CArr 2 CPtr),
    Fld ''links'' (CArr 2 struct_list_head)]"

lemma lay_struct_netns_bpf [layout_simps]:
  "sizeof struct_netns_bpf = 64" "alignof struct_netns_bpf = 8" "wf_ty struct_netns_bpf" "unpacked struct_netns_bpf"
  by (simp_all add: struct_netns_bpf_def layout_simps layout_eval)

definition struct_xfrm_policy_hash :: ctype where
  "struct_xfrm_policy_hash = CStruct [
    Fld ''table'' CPtr,
    Fld ''hmask'' c_uint,
    Fld ''dbits4'' typedef_u8,
    Fld ''sbits4'' typedef_u8,
    Fld ''dbits6'' typedef_u8,
    Fld ''sbits6'' typedef_u8]"

lemma lay_struct_xfrm_policy_hash [layout_simps]:
  "sizeof struct_xfrm_policy_hash = 16" "alignof struct_xfrm_policy_hash = 8" "wf_ty struct_xfrm_policy_hash" "unpacked struct_xfrm_policy_hash"
  by (simp_all add: struct_xfrm_policy_hash_def layout_simps layout_eval)

definition struct_xfrm_policy_hthresh :: ctype where
  "struct_xfrm_policy_hthresh = CStruct [
    Fld ''work'' struct_work_struct,
    Fld ''lock'' typedef_seqlock_t,
    Fld ''lbits4'' typedef_u8,
    Fld ''rbits4'' typedef_u8,
    Fld ''lbits6'' typedef_u8,
    Fld ''rbits6'' typedef_u8]"

lemma lay_struct_xfrm_policy_hthresh [layout_simps]:
  "sizeof struct_xfrm_policy_hthresh = 48" "alignof struct_xfrm_policy_hthresh = 8" "wf_ty struct_xfrm_policy_hthresh" "unpacked struct_xfrm_policy_hthresh"
  by (simp_all add: struct_xfrm_policy_hthresh_def layout_simps layout_eval)

definition struct_netns_xfrm :: ctype where
  "struct_netns_xfrm = CStruct [
    Fld ''state_all'' struct_list_head,
    Fld ''state_bydst'' CPtr,
    Fld ''state_bysrc'' CPtr,
    Fld ''state_byspi'' CPtr,
    Fld ''state_byseq'' CPtr,
    Fld ''state_cache_input'' CPtr,
    Fld ''state_hmask'' c_uint,
    Fld ''state_num'' c_uint,
    Fld ''state_hash_work'' struct_work_struct,
    Fld ''policy_all'' struct_list_head,
    Fld ''policy_byidx'' CPtr,
    Fld ''policy_idx_hmask'' c_uint,
    Fld ''idx_generator'' c_uint,
    Fld ''policy_bydst'' (CArr 3 struct_xfrm_policy_hash),
    Fld ''policy_count'' (CArr 6 c_uint),
    Fld ''policy_hash_work'' struct_work_struct,
    Fld ''policy_hthresh'' struct_xfrm_policy_hthresh,
    Fld ''inexact_bins'' struct_list_head,
    Fld ''nlsk'' CPtr,
    Fld ''nlsk_stash'' CPtr,
    Fld ''sysctl_aevent_etime'' typedef_u32,
    Fld ''sysctl_aevent_rseqth'' typedef_u32,
    Fld ''sysctl_larval_drop'' c_int,
    Fld ''sysctl_acq_expires'' typedef_u32,
    Fld ''policy_default'' (CArr 3 typedef_u8),
    Fld ''sysctl_hdr'' CPtr,
    Bits [] c_long 64,
    Bits [] c_long 64,
    Bits [] c_long 64,
    Bits [] c_long 64,
    Bits [] c_long 64,
    Fld ''xfrm4_dst_ops'' struct_dst_ops,
    Fld ''xfrm6_dst_ops'' struct_dst_ops,
    Fld ''xfrm_state_lock'' typedef_spinlock_t,
    Fld ''xfrm_state_hash_generation'' typedef_seqcount_spinlock_t,
    Fld ''xfrm_policy_hash_generation'' typedef_seqcount_spinlock_t,
    Fld ''xfrm_policy_lock'' typedef_spinlock_t,
    Fld ''xfrm_cfg_mutex'' struct_mutex,
    Fld ''nat_keepalive_work'' struct_delayed_work,
    Bits [] c_long 64,
    Bits [] c_long 64,
    Bits [] c_long 64,
    Bits [] c_long 64,
    Bits [] c_long 64,
    Bits [] c_long 64,
    Bits [] c_long 64]"

lemma lay_struct_netns_xfrm [layout_simps]:
  "sizeof struct_netns_xfrm = 960" "alignof struct_netns_xfrm = 8" "wf_ty struct_netns_xfrm" "unpacked struct_netns_xfrm"
  by (simp_all add: struct_netns_xfrm_def layout_simps layout_eval)

definition struct_netns_mpls :: ctype where
  "struct_netns_mpls = CStruct [
    Fld ''ip_ttl_propagate'' c_int,
    Fld ''default_ttl'' c_int,
    Fld ''platform_labels'' typedef_size_t,
    Fld ''platform_label'' CPtr,
    Fld ''ctl'' CPtr]"

lemma lay_struct_netns_mpls [layout_simps]:
  "sizeof struct_netns_mpls = 32" "alignof struct_netns_mpls = 8" "wf_ty struct_netns_mpls" "unpacked struct_netns_mpls"
  by (simp_all add: struct_netns_mpls_def layout_simps layout_eval)

definition struct_netns_can :: ctype where
  "struct_netns_can = CStruct [
    Fld ''proc_dir'' CPtr,
    Fld ''pde_stats'' CPtr,
    Fld ''pde_reset_stats'' CPtr,
    Fld ''pde_rcvlist_all'' CPtr,
    Fld ''pde_rcvlist_fil'' CPtr,
    Fld ''pde_rcvlist_inv'' CPtr,
    Fld ''pde_rcvlist_sff'' CPtr,
    Fld ''pde_rcvlist_eff'' CPtr,
    Fld ''pde_rcvlist_err'' CPtr,
    Fld ''bcmproc_dir'' CPtr,
    Fld ''rx_alldev_list'' CPtr,
    Fld ''rcvlists_lock'' typedef_spinlock_t,
    Fld ''stattimer'' struct_timer_list,
    Fld ''pkg_stats'' CPtr,
    Fld ''rcv_lists_stats'' CPtr,
    Fld ''cgw_list'' struct_hlist_head]"

lemma lay_struct_netns_can [layout_simps]:
  "sizeof struct_netns_can = 160" "alignof struct_netns_can = 8" "wf_ty struct_netns_can" "unpacked struct_netns_can"
  by (simp_all add: struct_netns_can_def layout_simps layout_eval)

definition struct_netns_xdp :: ctype where
  "struct_netns_xdp = CStruct [
    Fld ''lock'' struct_mutex,
    Fld ''list'' struct_hlist_head]"

lemma lay_struct_netns_xdp [layout_simps]:
  "sizeof struct_netns_xdp = 40" "alignof struct_netns_xdp = 8" "wf_ty struct_netns_xdp" "unpacked struct_netns_xdp"
  by (simp_all add: struct_netns_xdp_def layout_simps layout_eval)

definition struct_netns_mctp :: ctype where
  "struct_netns_mctp = CStruct [
    Fld ''routes'' struct_list_head,
    Fld ''bind_lock'' struct_mutex,
    Fld ''binds'' (CArr 128 struct_hlist_head),
    Fld ''keys_lock'' typedef_spinlock_t,
    Fld ''keys'' struct_hlist_head,
    Fld ''default_net'' c_uint,
    Fld ''neigh_lock'' struct_mutex,
    Fld ''neighbours'' struct_list_head]"

lemma lay_struct_netns_mctp [layout_simps]:
  "sizeof struct_netns_mctp = 1144" "alignof struct_netns_mctp = 8" "wf_ty struct_netns_mctp" "unpacked struct_netns_mctp"
  by (simp_all add: struct_netns_mctp_def layout_simps layout_eval)

definition struct_netns_smc :: ctype where
  "struct_netns_smc = CStruct [
    Fld ''smc_stats'' CPtr,
    Fld ''mutex_fback_rsn'' struct_mutex,
    Fld ''fback_rsn'' CPtr,
    Fld ''limit_smc_hs'' typedef_bool,
    Fld ''smc_hdr'' CPtr,
    Fld ''sysctl_autocorking_size'' c_uint,
    Fld ''sysctl_smcr_buf_type'' c_uint,
    Fld ''sysctl_smcr_testlink_time'' c_int,
    Fld ''sysctl_wmem'' c_int,
    Fld ''sysctl_rmem'' c_int,
    Fld ''sysctl_max_links_per_lgr'' c_int,
    Fld ''sysctl_max_conns_per_lgr'' c_int]"

lemma lay_struct_netns_smc [layout_simps]:
  "sizeof struct_netns_smc = 96" "alignof struct_netns_smc = 8" "wf_ty struct_netns_smc" "unpacked struct_netns_smc"
  by (simp_all add: struct_netns_smc_def layout_simps layout_eval)

definition struct_net :: ctype where
  "struct_net = CStruct [
    Fld ''passive'' typedef_refcount_t,
    Fld ''rules_mod_lock'' typedef_spinlock_t,
    Fld ''dev_base_seq'' c_uint,
    Fld ''ifindex'' typedef_u32,
    Fld ''nsid_lock'' typedef_spinlock_t,
    Fld ''fnhe_genid'' typedef_atomic_t,
    Fld ''list'' struct_list_head,
    Fld ''exit_list'' struct_list_head,
    Fld ''defer_free_list'' struct_llist_node,
    Fld ''cleanup_list'' struct_llist_node,
    Fld ''ptype_all'' struct_list_head,
    Fld ''ptype_specific'' struct_list_head,
    Fld ''key_domain'' CPtr,
    Fld ''user_ns'' CPtr,
    Fld ''ucounts'' CPtr,
    Fld ''netns_ids'' struct_idr,
    Fld ''ns'' struct_ns_common,
    Fld ''refcnt_tracker'' struct_ref_tracker_dir,
    Fld ''notrefcnt_tracker'' struct_ref_tracker_dir,
    Fld ''dev_base_head'' struct_list_head,
    Fld ''proc_net'' CPtr,
    Fld ''proc_net_stat'' CPtr,
    Fld ''sysctls'' struct_ctl_table_set,
    Fld ''rtnl'' CPtr,
    Fld ''genl_sock'' CPtr,
    Fld ''uevent_sock'' CPtr,
    Fld ''dev_name_head'' CPtr,
    Fld ''dev_index_head'' CPtr,
    Fld ''dev_by_index'' struct_xarray,
    Fld ''netdev_chain'' struct_raw_notifier_head,
    Fld ''hash_mix'' typedef_u32,
    Fld ''loopback_dev'' CPtr,
    Fld ''rules_ops'' struct_list_head,
    Fld ''core'' struct_netns_core,
    Fld ''mib'' struct_netns_mib,
    Fld ''packet'' struct_netns_packet,
    Fld ''unx'' struct_netns_unix,
    Fld ''nexthop'' struct_netns_nexthop,
    Bits [] c_long 64,
    Bits [] c_long 64,
    Bits [] c_long 64,
    Bits [] c_long 64,
    Bits [] c_long 64,
    Bits [] c_long 64,
    Fld ''ipv4'' struct_netns_ipv4,
    Fld ''ipv6'' struct_netns_ipv6,
    Fld ''ieee802154_lowpan'' struct_netns_ieee802154_lowpan,
    Fld ''sctp'' struct_netns_sctp,
    Fld ''nf'' struct_netns_nf,
    Fld ''ct'' struct_netns_ct,
    Fld ''nft'' struct_netns_nftables,
    Fld ''ft'' struct_netns_ft,
    Fld ''wext_nlevents'' struct_sk_buff_head,
    Fld ''gen'' CPtr,
    Fld ''bpf'' struct_netns_bpf,
    Bits [] c_long 64,
    Bits [] c_long 64,
    Fld ''xfrm'' struct_netns_xfrm,
    Fld ''net_cookie'' typedef_u64,
    Fld ''ipvs'' CPtr,
    Fld ''mpls'' struct_netns_mpls,
    Fld ''can'' struct_netns_can,
    Fld ''xdp'' struct_netns_xdp,
    Fld ''mctp'' struct_netns_mctp,
    Fld ''crypto_nlsk'' CPtr,
    Fld ''diag_nlsk'' CPtr,
    Fld ''smc'' struct_netns_smc,
    Bits [] c_long 64,
    Bits [] c_long 64,
    Bits [] c_long 64,
    Bits [] c_long 64]"

lemma lay_struct_net [layout_simps]:
  "sizeof struct_net = 5952" "alignof struct_net = 8" "wf_ty struct_net" "unpacked struct_net"
  by (simp_all add: struct_net_def layout_simps layout_eval)

definition struct_linux_binprm :: ctype where
  "struct_linux_binprm = CStruct [
    Fld ''vma'' CPtr,
    Fld ''vma_pages'' c_ulong,
    Fld ''argmin'' c_ulong,
    Fld ''mm'' CPtr,
    Fld ''p'' c_ulong,
    Bits ''have_execfd'' c_uint 1,
    Bits ''execfd_creds'' c_uint 1,
    Bits ''secureexec'' c_uint 1,
    Bits ''point_of_no_return'' c_uint 1,
    Bits ''comm_from_dentry'' c_uint 1,
    Bits ''is_check'' c_uint 1,
    Fld ''executable'' CPtr,
    Fld ''interpreter'' CPtr,
    Fld ''file'' CPtr,
    Fld ''cred'' CPtr,
    Fld ''unsafe'' c_int,
    Fld ''per_clear'' c_uint,
    Fld ''argc'' c_int,
    Fld ''envc'' c_int,
    Fld ''filename'' CPtr,
    Fld ''interp'' CPtr,
    Fld ''fdpath'' CPtr,
    Fld ''interp_flags'' c_uint,
    Fld ''execfd'' c_int,
    Fld ''exec'' c_ulong,
    Fld ''rlim_stack'' struct_rlimit,
    Fld ''buf'' (CArr 256 c_char)]"

lemma lay_struct_linux_binprm [layout_simps]:
  "sizeof struct_linux_binprm = 408" "alignof struct_linux_binprm = 8" "wf_ty struct_linux_binprm" "unpacked struct_linux_binprm"
  by (simp_all add: struct_linux_binprm_def layout_simps layout_eval)

definition struct_linux_binfmt :: ctype where
  "struct_linux_binfmt = CStruct [
    Fld ''lh'' struct_list_head,
    Fld ''module'' CPtr,
    Fld ''load_binary'' CPtr,
    Fld ''core_dump'' CPtr,
    Fld ''min_coredump'' c_ulong]"

lemma lay_struct_linux_binfmt [layout_simps]:
  "sizeof struct_linux_binfmt = 48" "alignof struct_linux_binfmt = 8" "wf_ty struct_linux_binfmt" "unpacked struct_linux_binfmt"
  by (simp_all add: struct_linux_binfmt_def layout_simps layout_eval)

definition typedef_Elf64_Half :: ctype where
  [layout_simps]: "typedef_Elf64_Half = typedef___u16"

definition typedef_Elf64_Word :: ctype where
  [layout_simps]: "typedef_Elf64_Word = typedef___u32"

definition typedef_Elf64_Addr :: ctype where
  [layout_simps]: "typedef_Elf64_Addr = typedef___u64"

definition typedef_Elf64_Off :: ctype where
  [layout_simps]: "typedef_Elf64_Off = typedef___u64"

definition struct_elf64_hdr :: ctype where
  "struct_elf64_hdr = CStruct [
    Fld ''e_ident'' (CArr 16 c_uchar),
    Fld ''e_type'' typedef_Elf64_Half,
    Fld ''e_machine'' typedef_Elf64_Half,
    Fld ''e_version'' typedef_Elf64_Word,
    Fld ''e_entry'' typedef_Elf64_Addr,
    Fld ''e_phoff'' typedef_Elf64_Off,
    Fld ''e_shoff'' typedef_Elf64_Off,
    Fld ''e_flags'' typedef_Elf64_Word,
    Fld ''e_ehsize'' typedef_Elf64_Half,
    Fld ''e_phentsize'' typedef_Elf64_Half,
    Fld ''e_phnum'' typedef_Elf64_Half,
    Fld ''e_shentsize'' typedef_Elf64_Half,
    Fld ''e_shnum'' typedef_Elf64_Half,
    Fld ''e_shstrndx'' typedef_Elf64_Half]"

lemma lay_struct_elf64_hdr [layout_simps]:
  "sizeof struct_elf64_hdr = 64" "alignof struct_elf64_hdr = 8" "wf_ty struct_elf64_hdr" "unpacked struct_elf64_hdr"
  by (simp_all add: struct_elf64_hdr_def layout_simps layout_eval)

definition typedef_Elf64_Xword :: ctype where
  [layout_simps]: "typedef_Elf64_Xword = typedef___u64"

definition struct_elf64_phdr :: ctype where
  "struct_elf64_phdr = CStruct [
    Fld ''p_type'' typedef_Elf64_Word,
    Fld ''p_flags'' typedef_Elf64_Word,
    Fld ''p_offset'' typedef_Elf64_Off,
    Fld ''p_vaddr'' typedef_Elf64_Addr,
    Fld ''p_paddr'' typedef_Elf64_Addr,
    Fld ''p_filesz'' typedef_Elf64_Xword,
    Fld ''p_memsz'' typedef_Elf64_Xword,
    Fld ''p_align'' typedef_Elf64_Xword]"

lemma lay_struct_elf64_phdr [layout_simps]:
  "sizeof struct_elf64_phdr = 56" "alignof struct_elf64_phdr = 8" "wf_ty struct_elf64_phdr" "unpacked struct_elf64_phdr"
  by (simp_all add: struct_elf64_phdr_def layout_simps layout_eval)

definition struct_coredump_params :: ctype where
  "struct_coredump_params = CStruct [
    Fld ''siginfo'' CPtr,
    Fld ''file'' CPtr,
    Fld ''limit'' c_ulong,
    Fld ''mm_flags'' c_ulong,
    Fld ''cpu'' c_int,
    Fld ''written'' typedef_loff_t,
    Fld ''pos'' typedef_loff_t,
    Fld ''to_skip'' typedef_loff_t,
    Fld ''vma_count'' c_int,
    Fld ''vma_data_size'' typedef_size_t,
    Fld ''vma_meta'' CPtr,
    Fld ''pid'' CPtr]"

lemma lay_struct_coredump_params [layout_simps]:
  "sizeof struct_coredump_params = 96" "alignof struct_coredump_params = 8" "wf_ty struct_coredump_params" "unpacked struct_coredump_params"
  by (simp_all add: struct_coredump_params_def layout_simps layout_eval)

definition struct_kernel_clone_args :: ctype where
  "struct_kernel_clone_args = CStruct [
    Fld ''flags'' typedef_u64,
    Fld ''pidfd'' CPtr,
    Fld ''child_tid'' CPtr,
    Fld ''parent_tid'' CPtr,
    Fld ''name'' CPtr,
    Fld ''exit_signal'' c_int,
    Bits ''kthread'' typedef_u32 1,
    Bits ''io_thread'' typedef_u32 1,
    Bits ''user_worker'' typedef_u32 1,
    Bits ''no_files'' typedef_u32 1,
    Fld ''stack'' c_ulong,
    Fld ''stack_size'' c_ulong,
    Fld ''tls'' c_ulong,
    Fld ''set_tid'' CPtr,
    Fld ''set_tid_size'' typedef_size_t,
    Fld ''cgroup'' c_int,
    Fld ''idle'' c_int,
    Fld ''fn'' CPtr,
    Fld ''fn_arg'' CPtr,
    Fld ''cgrp'' CPtr,
    Fld ''cset'' CPtr,
    Fld ''kill_seq'' c_uint]"

lemma lay_struct_kernel_clone_args [layout_simps]:
  "sizeof struct_kernel_clone_args = 136" "alignof struct_kernel_clone_args = 8" "wf_ty struct_kernel_clone_args" "unpacked struct_kernel_clone_args"
  by (simp_all add: struct_kernel_clone_args_def layout_simps layout_eval)

definition struct___kernel_old_timeval :: ctype where
  "struct___kernel_old_timeval = CStruct [
    Fld ''tv_sec'' typedef___kernel_long_t,
    Fld ''tv_usec'' typedef___kernel_long_t]"

lemma lay_struct___kernel_old_timeval [layout_simps]:
  "sizeof struct___kernel_old_timeval = 16" "alignof struct___kernel_old_timeval = 8" "wf_ty struct___kernel_old_timeval" "unpacked struct___kernel_old_timeval"
  by (simp_all add: struct___kernel_old_timeval_def layout_simps layout_eval)

definition struct_rusage :: ctype where
  "struct_rusage = CStruct [
    Fld ''ru_utime'' struct___kernel_old_timeval,
    Fld ''ru_stime'' struct___kernel_old_timeval,
    Fld ''ru_maxrss'' typedef___kernel_long_t,
    Fld ''ru_ixrss'' typedef___kernel_long_t,
    Fld ''ru_idrss'' typedef___kernel_long_t,
    Fld ''ru_isrss'' typedef___kernel_long_t,
    Fld ''ru_minflt'' typedef___kernel_long_t,
    Fld ''ru_majflt'' typedef___kernel_long_t,
    Fld ''ru_nswap'' typedef___kernel_long_t,
    Fld ''ru_inblock'' typedef___kernel_long_t,
    Fld ''ru_oublock'' typedef___kernel_long_t,
    Fld ''ru_msgsnd'' typedef___kernel_long_t,
    Fld ''ru_msgrcv'' typedef___kernel_long_t,
    Fld ''ru_nsignals'' typedef___kernel_long_t,
    Fld ''ru_nvcsw'' typedef___kernel_long_t,
    Fld ''ru_nivcsw'' typedef___kernel_long_t]"

lemma lay_struct_rusage [layout_simps]:
  "sizeof struct_rusage = 144" "alignof struct_rusage = 8" "wf_ty struct_rusage" "unpacked struct_rusage"
  by (simp_all add: struct_rusage_def layout_simps layout_eval)

definition typedef_int32_t :: ctype where
  [layout_simps]: "typedef_int32_t = typedef_s32"

definition typedef_key_serial_t :: ctype where
  [layout_simps]: "typedef_key_serial_t = typedef_int32_t"

definition typedef_uint32_t :: ctype where
  [layout_simps]: "typedef_uint32_t = typedef_u32"

definition typedef_key_perm_t :: ctype where
  [layout_simps]: "typedef_key_perm_t = typedef_uint32_t"

definition struct_keyring_index_key :: ctype where
  "struct_keyring_index_key = CStruct [
    Fld ''hash'' c_ulong,
    Fld [] (CUnion [
      Fld [] (CStruct [
        Fld ''desc_len'' typedef_u16,
        Fld ''desc'' (CArr 6 c_char)]),
      Fld ''x'' c_ulong]),
    Fld ''type'' CPtr,
    Fld ''domain_tag'' CPtr,
    Fld ''description'' CPtr]"

lemma lay_struct_keyring_index_key [layout_simps]:
  "sizeof struct_keyring_index_key = 40" "alignof struct_keyring_index_key = 8" "wf_ty struct_keyring_index_key" "unpacked struct_keyring_index_key"
  by (simp_all add: struct_keyring_index_key_def layout_simps layout_eval)

definition union_key_payload :: ctype where
  "union_key_payload = CUnion [
    Fld ''rcu_data0'' CPtr,
    Fld ''data'' (CArr 4 CPtr)]"

lemma lay_union_key_payload [layout_simps]:
  "sizeof union_key_payload = 32" "alignof union_key_payload = 8" "wf_ty union_key_payload" "unpacked union_key_payload"
  by (simp_all add: union_key_payload_def layout_simps layout_eval)

definition struct_assoc_array :: ctype where
  "struct_assoc_array = CStruct [
    Fld ''root'' CPtr,
    Fld ''nr_leaves_on_tree'' c_ulong]"

lemma lay_struct_assoc_array [layout_simps]:
  "sizeof struct_assoc_array = 16" "alignof struct_assoc_array = 8" "wf_ty struct_assoc_array" "unpacked struct_assoc_array"
  by (simp_all add: struct_assoc_array_def layout_simps layout_eval)

definition struct_key :: ctype where
  "struct_key = CStruct [
    Fld ''usage'' typedef_refcount_t,
    Fld ''serial'' typedef_key_serial_t,
    Fld [] (CUnion [
      Fld ''graveyard_link'' struct_list_head,
      Fld ''serial_node'' struct_rb_node]),
    Fld ''watchers'' CPtr,
    Fld ''sem'' struct_rw_semaphore,
    Fld ''user'' CPtr,
    Fld ''security'' CPtr,
    Fld [] (CUnion [
      Fld ''expiry'' typedef_time64_t,
      Fld ''revoked_at'' typedef_time64_t]),
    Fld ''last_used_at'' typedef_time64_t,
    Fld ''uid'' typedef_kuid_t,
    Fld ''gid'' typedef_kgid_t,
    Fld ''perm'' typedef_key_perm_t,
    Fld ''quotalen'' c_ushort,
    Fld ''datalen'' c_ushort,
    Fld ''state'' c_short,
    Fld ''flags'' c_ulong,
    Fld [] (CUnion [
      Fld ''index_key'' struct_keyring_index_key,
      Fld [] (CStruct [
        Fld ''hash'' c_ulong,
        Fld ''len_desc'' c_ulong,
        Fld ''type'' CPtr,
        Fld ''domain_tag'' CPtr,
        Fld ''description'' CPtr])]),
    Fld [] (CUnion [
      Fld ''payload'' union_key_payload,
      Fld [] (CStruct [
        Fld ''name_link'' struct_list_head,
        Fld ''keys'' struct_assoc_array])]),
    Fld ''restrict_link'' CPtr]"

lemma lay_struct_key [layout_simps]:
  "sizeof struct_key = 224" "alignof struct_key = 8" "wf_ty struct_key" "unpacked struct_key"
  by (simp_all add: struct_key_def layout_simps layout_eval)

definition struct_signalfd_ctx :: ctype where
  "struct_signalfd_ctx = CStruct [
    Fld ''sigmask'' typedef_sigset_t]"

lemma lay_struct_signalfd_ctx [layout_simps]:
  "sizeof struct_signalfd_ctx = 8" "alignof struct_signalfd_ctx = 8" "wf_ty struct_signalfd_ctx" "unpacked struct_signalfd_ctx"
  by (simp_all add: struct_signalfd_ctx_def layout_simps layout_eval)

definition struct_eventfd_ctx :: ctype where
  "struct_eventfd_ctx = CStruct [
    Fld ''kref'' struct_kref,
    Fld ''wqh'' typedef_wait_queue_head_t,
    Fld ''count'' typedef___u64,
    Fld ''flags'' c_uint,
    Fld ''id'' c_int]"

lemma lay_struct_eventfd_ctx [layout_simps]:
  "sizeof struct_eventfd_ctx = 48" "alignof struct_eventfd_ctx = 8" "wf_ty struct_eventfd_ctx" "unpacked struct_eventfd_ctx"
  by (simp_all add: struct_eventfd_ctx_def layout_simps layout_eval)

definition struct_epoll_filefd :: ctype where
  "struct_epoll_filefd = CPacked [
    Fld ''file'' CPtr,
    Fld ''fd'' c_int]"

lemma lay_struct_epoll_filefd [layout_simps]:
  "sizeof struct_epoll_filefd = 12" "alignof struct_epoll_filefd = 1" "wf_ty struct_epoll_filefd"
  by (simp_all add: struct_epoll_filefd_def layout_simps layout_eval)

definition typedef___poll_t :: ctype where
  [layout_simps]: "typedef___poll_t = c_uint"

definition struct_epoll_event :: ctype where
  "struct_epoll_event = CPacked [
    Fld ''events'' typedef___poll_t,
    Fld ''data'' typedef___u64]"

lemma lay_struct_epoll_event [layout_simps]:
  "sizeof struct_epoll_event = 12" "alignof struct_epoll_event = 1" "wf_ty struct_epoll_event"
  by (simp_all add: struct_epoll_event_def layout_simps layout_eval)

definition struct_epitem :: ctype where
  "struct_epitem = CStruct [
    Fld [] (CUnion [
      Fld ''rbn'' struct_rb_node,
      Fld ''rcu'' struct_callback_head]),
    Fld ''rdllink'' struct_list_head,
    Fld ''next'' CPtr,
    Fld ''ffd'' struct_epoll_filefd,
    Fld ''dying'' typedef_bool,
    Fld ''pwqlist'' CPtr,
    Fld ''ep'' CPtr,
    Fld ''fllink'' struct_hlist_node,
    Fld ''ws'' CPtr,
    Fld ''event'' struct_epoll_event]"

lemma lay_struct_epitem [layout_simps]:
  "sizeof struct_epitem = 120" "alignof struct_epitem = 8" "wf_ty struct_epitem"
  by (simp_all add: struct_epitem_def layout_simps layout_eval)

definition struct_eventpoll :: ctype where
  "struct_eventpoll = CStruct [
    Fld ''mtx'' struct_mutex,
    Fld ''wq'' typedef_wait_queue_head_t,
    Fld ''poll_wait'' typedef_wait_queue_head_t,
    Fld ''rdllist'' struct_list_head,
    Fld ''lock'' typedef_spinlock_t,
    Fld ''rbr'' struct_rb_root_cached,
    Fld ''ovflist'' CPtr,
    Fld ''ws'' CPtr,
    Fld ''user'' CPtr,
    Fld ''file'' CPtr,
    Fld ''gen'' typedef_u64,
    Fld ''refs'' struct_hlist_head,
    Fld ''loop_check_depth'' typedef_u8,
    Fld ''refcount'' typedef_refcount_t,
    Fld ''napi_id'' c_uint,
    Fld ''busy_poll_usecs'' typedef_u32,
    Fld ''busy_poll_budget'' typedef_u16,
    Fld ''prefer_busy_poll'' typedef_bool]"

lemma lay_struct_eventpoll [layout_simps]:
  "sizeof struct_eventpoll = 192" "alignof struct_eventpoll = 8" "wf_ty struct_eventpoll" "unpacked struct_eventpoll"
  by (simp_all add: struct_eventpoll_def layout_simps layout_eval)

definition typedef_pipe_index_t :: ctype where
  [layout_simps]: "typedef_pipe_index_t = c_uint"

definition struct_pipe_inode_info :: ctype where
  "struct_pipe_inode_info = CStruct [
    Fld ''mutex'' struct_mutex,
    Fld ''rd_wait'' typedef_wait_queue_head_t,
    Fld ''wr_wait'' typedef_wait_queue_head_t,
    Fld [] (CUnion [
      Fld ''head_tail'' c_ulong,
      Fld [] (CStruct [
        Fld ''head'' typedef_pipe_index_t,
        Fld ''tail'' typedef_pipe_index_t])]),
    Fld ''max_usage'' c_uint,
    Fld ''ring_size'' c_uint,
    Fld ''nr_accounted'' c_uint,
    Fld ''readers'' c_uint,
    Fld ''writers'' c_uint,
    Fld ''files'' c_uint,
    Fld ''r_counter'' c_uint,
    Fld ''w_counter'' c_uint,
    Fld ''poll_usage'' typedef_bool,
    Fld ''note_loss'' typedef_bool,
    Fld ''tmp_page'' (CArr 2 CPtr),
    Fld ''fasync_readers'' CPtr,
    Fld ''fasync_writers'' CPtr,
    Fld ''bufs'' CPtr,
    Fld ''user'' CPtr,
    Fld ''watch_queue'' CPtr]"

lemma lay_struct_pipe_inode_info [layout_simps]:
  "sizeof struct_pipe_inode_info = 184" "alignof struct_pipe_inode_info = 8" "wf_ty struct_pipe_inode_info" "unpacked struct_pipe_inode_info"
  by (simp_all add: struct_pipe_inode_info_def layout_simps layout_eval)

definition struct_sched_ext_ops :: ctype where
  "struct_sched_ext_ops = CStruct [
    Fld ''select_cpu'' CPtr,
    Fld ''enqueue'' CPtr,
    Fld ''dequeue'' CPtr,
    Fld ''dispatch'' CPtr,
    Fld ''tick'' CPtr,
    Fld ''runnable'' CPtr,
    Fld ''running'' CPtr,
    Fld ''stopping'' CPtr,
    Fld ''quiescent'' CPtr,
    Fld ''yield'' CPtr,
    Fld ''core_sched_before'' CPtr,
    Fld ''set_weight'' CPtr,
    Fld ''set_cpumask'' CPtr,
    Fld ''update_idle'' CPtr,
    Fld ''cpu_acquire'' CPtr,
    Fld ''cpu_release'' CPtr,
    Fld ''init_task'' CPtr,
    Fld ''exit_task'' CPtr,
    Fld ''enable'' CPtr,
    Fld ''disable'' CPtr,
    Fld ''dump'' CPtr,
    Fld ''dump_cpu'' CPtr,
    Fld ''dump_task'' CPtr,
    Fld ''cgroup_init'' CPtr,
    Fld ''cgroup_exit'' CPtr,
    Fld ''cgroup_prep_move'' CPtr,
    Fld ''cgroup_move'' CPtr,
    Fld ''cgroup_cancel_move'' CPtr,
    Fld ''cgroup_set_weight'' CPtr,
    Fld ''cgroup_set_bandwidth'' CPtr,
    Fld ''cpu_online'' CPtr,
    Fld ''cpu_offline'' CPtr,
    Fld ''init'' CPtr,
    Fld ''exit'' CPtr,
    Fld ''dispatch_max_batch'' typedef_u32,
    Fld ''flags'' typedef_u64,
    Fld ''timeout_ms'' typedef_u32,
    Fld ''exit_dump_len'' typedef_u32,
    Fld ''hotplug_seq'' typedef_u64,
    Fld ''name'' (CArr 128 c_char),
    Fld ''priv'' CPtr]"

lemma lay_struct_sched_ext_ops [layout_simps]:
  "sizeof struct_sched_ext_ops = 440" "alignof struct_sched_ext_ops = 8" "wf_ty struct_sched_ext_ops" "unpacked struct_sched_ext_ops"
  by (simp_all add: struct_sched_ext_ops_def layout_simps layout_eval)

end
