(* ===== verification/Vmlinux_Inet.thy ===== *)
theory Vmlinux_Inet
  imports Vmlinux_Sched
begin

text \<open>
  The kernel objects behind the sockets and packets the sensor sees: Internet, TCP and UDP
  sockets, shared packet data, routes, neighbours and addresses of a device, its queues and
  disciplines, and the pools of XDP buffers.
  Each definition transcribes one declaration of \<open>src-bpf/vmlinux.h\<close>; the lemma after it
  evaluates its size and alignment and checks that it is well-formed.
\<close>

definition struct_inet_cork :: ctype where
  "struct_inet_cork = CStruct [
    Fld ''flags'' c_uint,
    Fld ''addr'' typedef___be32,
    Fld ''opt'' CPtr,
    Fld ''fragsize'' c_uint,
    Fld ''length'' c_int,
    Fld ''dst'' CPtr,
    Fld ''tx_flags'' typedef_u8,
    Fld ''ttl'' typedef___u8,
    Fld ''tos'' typedef___s16,
    Fld ''priority'' typedef_u32,
    Fld ''gso_size'' typedef___u16,
    Fld ''ts_opt_id'' typedef_u32,
    Fld ''transmit_time'' typedef_u64,
    Fld ''mark'' typedef_u32]"

lemma lay_struct_inet_cork [layout_simps]:
  "sizeof struct_inet_cork = 64" "alignof struct_inet_cork = 8" "wf_ty struct_inet_cork" "unpacked struct_inet_cork"
  by (simp_all add: struct_inet_cork_def layout_simps layout_eval)

definition typedef___be64 :: ctype where
  [layout_simps]: "typedef___be64 = typedef___u64"

definition struct_flowi_tunnel :: ctype where
  "struct_flowi_tunnel = CStruct [
    Fld ''tun_id'' typedef___be64]"

lemma lay_struct_flowi_tunnel [layout_simps]:
  "sizeof struct_flowi_tunnel = 8" "alignof struct_flowi_tunnel = 8" "wf_ty struct_flowi_tunnel" "unpacked struct_flowi_tunnel"
  by (simp_all add: struct_flowi_tunnel_def layout_simps layout_eval)

definition struct_flowi_common :: ctype where
  "struct_flowi_common = CStruct [
    Fld ''flowic_oif'' c_int,
    Fld ''flowic_iif'' c_int,
    Fld ''flowic_l3mdev'' c_int,
    Fld ''flowic_mark'' typedef___u32,
    Fld ''flowic_tos'' typedef___u8,
    Fld ''flowic_scope'' typedef___u8,
    Fld ''flowic_proto'' typedef___u8,
    Fld ''flowic_flags'' typedef___u8,
    Fld ''flowic_secid'' typedef___u32,
    Fld ''flowic_uid'' typedef_kuid_t,
    Fld ''flowic_multipath_hash'' typedef___u32,
    Fld ''flowic_tun_key'' struct_flowi_tunnel]"

lemma lay_struct_flowi_common [layout_simps]:
  "sizeof struct_flowi_common = 40" "alignof struct_flowi_common = 8" "wf_ty struct_flowi_common" "unpacked struct_flowi_common"
  by (simp_all add: struct_flowi_common_def layout_simps layout_eval)

definition union_flowi_uli :: ctype where
  "union_flowi_uli = CUnion [
    Fld ''ports'' (CStruct [
      Fld ''dport'' typedef___be16,
      Fld ''sport'' typedef___be16]),
    Fld ''icmpt'' (CStruct [
      Fld ''type'' typedef___u8,
      Fld ''code'' typedef___u8]),
    Fld ''gre_key'' typedef___be32,
    Fld ''mht'' (CStruct [
      Fld ''type'' typedef___u8])]"

lemma lay_union_flowi_uli [layout_simps]:
  "sizeof union_flowi_uli = 4" "alignof union_flowi_uli = 4" "wf_ty union_flowi_uli" "unpacked union_flowi_uli"
  by (simp_all add: union_flowi_uli_def layout_simps layout_eval)

definition struct_flowi4 :: ctype where
  "struct_flowi4 = CStruct [
    Fld ''__fl_common'' struct_flowi_common,
    Fld ''saddr'' typedef___be32,
    Fld ''daddr'' typedef___be32,
    Fld ''uli'' union_flowi_uli]"

lemma lay_struct_flowi4 [layout_simps]:
  "sizeof struct_flowi4 = 56" "alignof struct_flowi4 = 8" "wf_ty struct_flowi4" "unpacked struct_flowi4"
  by (simp_all add: struct_flowi4_def layout_simps layout_eval)

definition struct_flowi6 :: ctype where
  "struct_flowi6 = CStruct [
    Fld ''__fl_common'' struct_flowi_common,
    Fld ''daddr'' struct_in6_addr,
    Fld ''saddr'' struct_in6_addr,
    Fld ''flowlabel'' typedef___be32,
    Fld ''uli'' union_flowi_uli,
    Fld ''mp_hash'' typedef___u32]"

lemma lay_struct_flowi6 [layout_simps]:
  "sizeof struct_flowi6 = 88" "alignof struct_flowi6 = 8" "wf_ty struct_flowi6" "unpacked struct_flowi6"
  by (simp_all add: struct_flowi6_def layout_simps layout_eval)

definition struct_flowi :: ctype where
  "struct_flowi = CStruct [
    Fld ''u'' (CUnion [
      Fld ''__fl_common'' struct_flowi_common,
      Fld ''ip4'' struct_flowi4,
      Fld ''ip6'' struct_flowi6])]"

lemma lay_struct_flowi [layout_simps]:
  "sizeof struct_flowi = 88" "alignof struct_flowi = 8" "wf_ty struct_flowi" "unpacked struct_flowi"
  by (simp_all add: struct_flowi_def layout_simps layout_eval)

definition struct_inet_cork_full :: ctype where
  "struct_inet_cork_full = CStruct [
    Fld ''base'' struct_inet_cork,
    Fld ''fl'' struct_flowi]"

lemma lay_struct_inet_cork_full [layout_simps]:
  "sizeof struct_inet_cork_full = 152" "alignof struct_inet_cork_full = 8" "wf_ty struct_inet_cork_full" "unpacked struct_inet_cork_full"
  by (simp_all add: struct_inet_cork_full_def layout_simps layout_eval)

definition struct_inet_sock :: ctype where
  "struct_inet_sock = CStruct [
    Fld ''sk'' struct_sock,
    Fld ''pinet6'' CPtr,
    Fld ''inet_flags'' c_ulong,
    Fld ''inet_saddr'' typedef___be32,
    Fld ''uc_ttl'' typedef___s16,
    Fld ''inet_sport'' typedef___be16,
    Fld ''inet_opt'' CPtr,
    Fld ''inet_id'' typedef_atomic_t,
    Fld ''tos'' typedef___u8,
    Fld ''min_ttl'' typedef___u8,
    Fld ''mc_ttl'' typedef___u8,
    Fld ''pmtudisc'' typedef___u8,
    Fld ''rcv_tos'' typedef___u8,
    Fld ''convert_csum'' typedef___u8,
    Fld ''uc_index'' c_int,
    Fld ''mc_index'' c_int,
    Fld ''mc_addr'' typedef___be32,
    Fld ''local_port_range'' typedef_u32,
    Fld ''mc_list'' CPtr,
    Fld ''cork'' struct_inet_cork_full]"

lemma lay_struct_inet_sock [layout_simps]:
  "sizeof struct_inet_sock = 1008" "alignof struct_inet_sock = 8" "wf_ty struct_inet_sock" "unpacked struct_inet_sock"
  by (simp_all add: struct_inet_sock_def layout_simps layout_eval)

definition struct_fastopen_queue :: ctype where
  "struct_fastopen_queue = CStruct [
    Fld ''rskq_rst_head'' CPtr,
    Fld ''rskq_rst_tail'' CPtr,
    Fld ''lock'' typedef_spinlock_t,
    Fld ''qlen'' c_int,
    Fld ''max_qlen'' c_int,
    Fld ''ctx'' CPtr]"

lemma lay_struct_fastopen_queue [layout_simps]:
  "sizeof struct_fastopen_queue = 40" "alignof struct_fastopen_queue = 8" "wf_ty struct_fastopen_queue" "unpacked struct_fastopen_queue"
  by (simp_all add: struct_fastopen_queue_def layout_simps layout_eval)

definition struct_request_sock_queue :: ctype where
  "struct_request_sock_queue = CStruct [
    Fld ''rskq_lock'' typedef_spinlock_t,
    Fld ''rskq_defer_accept'' typedef_u8,
    Fld ''synflood_warned'' typedef_u32,
    Fld ''qlen'' typedef_atomic_t,
    Fld ''young'' typedef_atomic_t,
    Fld ''rskq_accept_head'' CPtr,
    Fld ''rskq_accept_tail'' CPtr,
    Fld ''fastopenq'' struct_fastopen_queue]"

lemma lay_struct_request_sock_queue [layout_simps]:
  "sizeof struct_request_sock_queue = 80" "alignof struct_request_sock_queue = 8" "wf_ty struct_request_sock_queue" "unpacked struct_request_sock_queue"
  by (simp_all add: struct_request_sock_queue_def layout_simps layout_eval)

definition struct_inet_connection_sock :: ctype where
  "struct_inet_connection_sock = CStruct [
    Fld ''icsk_inet'' struct_inet_sock,
    Fld ''icsk_accept_queue'' struct_request_sock_queue,
    Fld ''icsk_bind_hash'' CPtr,
    Fld ''icsk_bind2_hash'' CPtr,
    Fld ''icsk_retransmit_timer'' struct_timer_list,
    Fld ''icsk_delack_timer'' struct_timer_list,
    Fld ''icsk_rto'' typedef___u32,
    Fld ''icsk_rto_min'' typedef___u32,
    Fld ''icsk_rto_max'' typedef_u32,
    Fld ''icsk_delack_max'' typedef___u32,
    Fld ''icsk_pmtu_cookie'' typedef___u32,
    Fld ''icsk_ca_ops'' CPtr,
    Fld ''icsk_af_ops'' CPtr,
    Fld ''icsk_ulp_ops'' CPtr,
    Fld ''icsk_ulp_data'' CPtr,
    Fld ''icsk_sync_mss'' CPtr,
    Bits ''icsk_ca_state'' typedef___u8 5,
    Bits ''icsk_ca_initialized'' typedef___u8 1,
    Bits ''icsk_ca_setsockopt'' typedef___u8 1,
    Bits ''icsk_ca_dst_locked'' typedef___u8 1,
    Fld ''icsk_retransmits'' typedef___u8,
    Fld ''icsk_pending'' typedef___u8,
    Fld ''icsk_backoff'' typedef___u8,
    Fld ''icsk_syn_retries'' typedef___u8,
    Fld ''icsk_probes_out'' typedef___u8,
    Fld ''icsk_ext_hdr_len'' typedef___u16,
    Fld ''icsk_ack'' (CStruct [
      Fld ''pending'' typedef___u8,
      Fld ''quick'' typedef___u8,
      Fld ''pingpong'' typedef___u8,
      Fld ''retry'' typedef___u8,
      Bits ''ato'' typedef___u32 8,
      Bits ''lrcv_flowlabel'' typedef___u32 20,
      Bits ''dst_quick_ack'' typedef___u32 1,
      Bits ''unused'' typedef___u32 3,
      Fld ''lrcvtime'' typedef___u32,
      Fld ''last_seg_size'' typedef___u16,
      Fld ''rcv_mss'' typedef___u16]),
    Fld ''icsk_mtup'' (CStruct [
      Fld ''search_high'' c_int,
      Fld ''search_low'' c_int,
      Bits ''probe_size'' typedef_u32 31,
      Bits ''enabled'' typedef_u32 1,
      Fld ''probe_timestamp'' typedef_u32]),
    Fld ''icsk_probes_tstamp'' typedef_u32,
    Fld ''icsk_user_timeout'' typedef_u32,
    Fld ''icsk_ca_priv'' (CArr 13 typedef_u64)]"

lemma lay_struct_inet_connection_sock [layout_simps]:
  "sizeof struct_inet_connection_sock = 1400" "alignof struct_inet_connection_sock = 8" "wf_ty struct_inet_connection_sock" "unpacked struct_inet_connection_sock"
  by (simp_all add: struct_inet_connection_sock_def layout_simps layout_eval)

definition struct_minmax_sample :: ctype where
  "struct_minmax_sample = CStruct [
    Fld ''t'' typedef_u32,
    Fld ''v'' typedef_u32]"

lemma lay_struct_minmax_sample [layout_simps]:
  "sizeof struct_minmax_sample = 8" "alignof struct_minmax_sample = 4" "wf_ty struct_minmax_sample" "unpacked struct_minmax_sample"
  by (simp_all add: struct_minmax_sample_def layout_simps layout_eval)

definition struct_minmax :: ctype where
  "struct_minmax = CStruct [
    Fld ''s'' (CArr 3 struct_minmax_sample)]"

lemma lay_struct_minmax [layout_simps]:
  "sizeof struct_minmax = 24" "alignof struct_minmax = 4" "wf_ty struct_minmax" "unpacked struct_minmax"
  by (simp_all add: struct_minmax_def layout_simps layout_eval)

definition struct_tcp_options_received :: ctype where
  "struct_tcp_options_received = CStruct [
    Fld ''ts_recent_stamp'' c_int,
    Fld ''ts_recent'' typedef_u32,
    Fld ''rcv_tsval'' typedef_u32,
    Fld ''rcv_tsecr'' typedef_u32,
    Bits ''saw_tstamp'' typedef_u16 1,
    Bits ''tstamp_ok'' typedef_u16 1,
    Bits ''dsack'' typedef_u16 1,
    Bits ''wscale_ok'' typedef_u16 1,
    Bits ''sack_ok'' typedef_u16 3,
    Bits ''smc_ok'' typedef_u16 1,
    Bits ''snd_wscale'' typedef_u16 4,
    Bits ''rcv_wscale'' typedef_u16 4,
    Bits ''saw_unknown'' typedef_u8 1,
    Bits ''unused'' typedef_u8 7,
    Fld ''num_sacks'' typedef_u8,
    Fld ''user_mss'' typedef_u16,
    Fld ''mss_clamp'' typedef_u16]"

lemma lay_struct_tcp_options_received [layout_simps]:
  "sizeof struct_tcp_options_received = 24" "alignof struct_tcp_options_received = 4" "wf_ty struct_tcp_options_received" "unpacked struct_tcp_options_received"
  by (simp_all add: struct_tcp_options_received_def layout_simps layout_eval)

definition struct_tcp_rack :: ctype where
  "struct_tcp_rack = CStruct [
    Fld ''mstamp'' typedef_u64,
    Fld ''rtt_us'' typedef_u32,
    Fld ''end_seq'' typedef_u32,
    Fld ''last_delivered'' typedef_u32,
    Fld ''reo_wnd_steps'' typedef_u8,
    Bits ''reo_wnd_persist'' typedef_u8 5,
    Bits ''dsack_seen'' typedef_u8 1,
    Bits ''advanced'' typedef_u8 1]"

lemma lay_struct_tcp_rack [layout_simps]:
  "sizeof struct_tcp_rack = 24" "alignof struct_tcp_rack = 8" "wf_ty struct_tcp_rack" "unpacked struct_tcp_rack"
  by (simp_all add: struct_tcp_rack_def layout_simps layout_eval)

definition struct_tcp_sack_block :: ctype where
  "struct_tcp_sack_block = CStruct [
    Fld ''start_seq'' typedef_u32,
    Fld ''end_seq'' typedef_u32]"

lemma lay_struct_tcp_sack_block [layout_simps]:
  "sizeof struct_tcp_sack_block = 8" "alignof struct_tcp_sack_block = 4" "wf_ty struct_tcp_sack_block" "unpacked struct_tcp_sack_block"
  by (simp_all add: struct_tcp_sack_block_def layout_simps layout_eval)

definition struct_tcp_sock_members1 :: "member list" where
  "struct_tcp_sock_members1 = [
    Fld ''inet_conn'' struct_inet_connection_sock,
    Fld ''__cacheline_group_begin__tcp_sock_read_tx'' (CArr 0 typedef___u8),
    Fld ''max_window'' typedef_u32,
    Fld ''rcv_ssthresh'' typedef_u32,
    Fld ''reordering'' typedef_u32,
    Fld ''notsent_lowat'' typedef_u32,
    Fld ''gso_segs'' typedef_u16,
    Fld ''retransmit_skb_hint'' CPtr,
    Fld ''__cacheline_group_end__tcp_sock_read_tx'' (CArr 0 typedef___u8),
    Fld ''__cacheline_group_begin__tcp_sock_read_txrx'' (CArr 0 typedef___u8),
    Fld ''tsoffset'' typedef_u32,
    Fld ''snd_wnd'' typedef_u32,
    Fld ''mss_cache'' typedef_u32,
    Fld ''snd_cwnd'' typedef_u32,
    Fld ''prr_out'' typedef_u32,
    Fld ''lost_out'' typedef_u32,
    Fld ''sacked_out'' typedef_u32,
    Fld ''tcp_header_len'' typedef_u16,
    Fld ''scaling_ratio'' typedef_u8,
    Bits ''chrono_type'' typedef_u8 2,
    Bits ''repair'' typedef_u8 1,
    Bits ''tcp_usec_ts'' typedef_u8 1,
    Bits ''is_sack_reneg'' typedef_u8 1,
    Bits ''is_cwnd_limited'' typedef_u8 1,
    Fld ''__cacheline_group_end__tcp_sock_read_txrx'' (CArr 0 typedef___u8),
    Fld ''__cacheline_group_begin__tcp_sock_read_rx'' (CArr 0 typedef___u8),
    Fld ''copied_seq'' typedef_u32,
    Fld ''rcv_tstamp'' typedef_u32,
    Fld ''snd_wl1'' typedef_u32,
    Fld ''tlp_high_seq'' typedef_u32,
    Fld ''rttvar_us'' typedef_u32,
    Fld ''retrans_out'' typedef_u32,
    Fld ''advmss'' typedef_u16,
    Fld ''urg_data'' typedef_u16,
    Fld ''lost'' typedef_u32,
    Fld ''rtt_min'' struct_minmax,
    Fld ''out_of_order_queue'' struct_rb_root,
    Fld ''tcp_clean_acked'' CPtr,
    Fld ''snd_ssthresh'' typedef_u32,
    Bits ''recvmsg_inq'' typedef_u8 1,
    Fld ''__cacheline_group_end__tcp_sock_read_rx'' (CArr 0 typedef___u8),
    Bits [] c_long 64,
    Bits [] c_long 64,
    Bits [] c_long 64,
    Bits [] c_long 64,
    Bits [] c_long 64,
    Bits [] c_long 64,
    Bits [] c_long 64,
    Fld ''__cacheline_group_begin__tcp_sock_write_tx'' (CArr 0 typedef___u8),
    Fld ''segs_out'' typedef_u32,
    Fld ''data_segs_out'' typedef_u32,
    Fld ''bytes_sent'' typedef_u64,
    Fld ''snd_sml'' typedef_u32,
    Fld ''chrono_start'' typedef_u32,
    Fld ''chrono_stat'' (CArr 3 typedef_u32),
    Fld ''write_seq'' typedef_u32,
    Fld ''pushed_seq'' typedef_u32,
    Fld ''lsndtime'' typedef_u32,
    Fld ''mdev_us'' typedef_u32,
    Fld ''rtt_seq'' typedef_u32,
    Fld ''tcp_wstamp_ns'' typedef_u64,
    Fld ''tsorted_sent_queue'' struct_list_head,
    Fld ''highest_sack'' CPtr,
    Fld ''ecn_flags'' typedef_u8,
    Fld ''__cacheline_group_end__tcp_sock_write_tx'' (CArr 0 typedef___u8),
    Fld ''__cacheline_group_begin__tcp_sock_write_txrx'' (CArr 0 typedef___u8),
    Fld ''pred_flags'' typedef___be32,
    Fld ''tcp_clock_cache'' typedef_u64,
    Fld ''tcp_mstamp'' typedef_u64,
    Fld ''rcv_nxt'' typedef_u32,
    Fld ''snd_nxt'' typedef_u32,
    Fld ''snd_una'' typedef_u32,
    Fld ''window_clamp'' typedef_u32,
    Fld ''srtt_us'' typedef_u32,
    Fld ''packets_out'' typedef_u32,
    Fld ''snd_up'' typedef_u32,
    Fld ''delivered'' typedef_u32,
    Fld ''delivered_ce'' typedef_u32,
    Fld ''app_limited'' typedef_u32,
    Fld ''rcv_wnd'' typedef_u32,
    Fld ''rx_opt'' struct_tcp_options_received,
    Bits ''nonagle'' typedef_u8 4,
    Bits ''rate_app_limited'' typedef_u8 1,
    Fld ''__cacheline_group_end__tcp_sock_write_txrx'' (CArr 0 typedef___u8),
    Bits [] c_long 0,
    Fld ''__cacheline_group_begin__tcp_sock_write_rx'' (CArr 0 typedef___u8),
    Fld ''bytes_received'' typedef_u64,
    Fld ''segs_in'' typedef_u32,
    Fld ''data_segs_in'' typedef_u32,
    Fld ''rcv_wup'' typedef_u32,
    Fld ''max_packets_out'' typedef_u32,
    Fld ''cwnd_usage_seq'' typedef_u32,
    Fld ''rate_delivered'' typedef_u32,
    Fld ''rate_interval_us'' typedef_u32]"

definition struct_tcp_sock_members2 :: "member list" where
  "struct_tcp_sock_members2 = [
    Fld ''rcv_rtt_last_tsecr'' typedef_u32,
    Fld ''first_tx_mstamp'' typedef_u64,
    Fld ''delivered_mstamp'' typedef_u64,
    Fld ''bytes_acked'' typedef_u64,
    Fld ''rcv_rtt_est'' (CStruct [
      Fld ''rtt_us'' typedef_u32,
      Fld ''seq'' typedef_u32,
      Fld ''time'' typedef_u64]),
    Fld ''rcvq_space'' (CStruct [
      Fld ''space'' typedef_u32,
      Fld ''seq'' typedef_u32,
      Fld ''time'' typedef_u64]),
    Fld ''__cacheline_group_end__tcp_sock_write_rx'' (CArr 0 typedef___u8),
    Fld ''dsack_dups'' typedef_u32,
    Fld ''compressed_ack_rcv_nxt'' typedef_u32,
    Fld ''tsq_node'' struct_list_head,
    Fld ''rack'' struct_tcp_rack,
    Fld ''compressed_ack'' typedef_u8,
    Bits ''dup_ack_counter'' typedef_u8 2,
    Bits ''tlp_retrans'' typedef_u8 1,
    Bits ''unused'' typedef_u8 5,
    Bits ''thin_lto'' typedef_u8 1,
    Bits ''fastopen_connect'' typedef_u8 1,
    Bits ''fastopen_no_cookie'' typedef_u8 1,
    Bits ''fastopen_client_fail'' typedef_u8 2,
    Bits ''frto'' typedef_u8 1,
    Fld ''repair_queue'' typedef_u8,
    Bits ''save_syn'' typedef_u8 2,
    Bits ''syn_data'' typedef_u8 1,
    Bits ''syn_fastopen'' typedef_u8 1,
    Bits ''syn_fastopen_exp'' typedef_u8 1,
    Bits ''syn_fastopen_ch'' typedef_u8 1,
    Bits ''syn_data_acked'' typedef_u8 1,
    Bits ''syn_fastopen_child'' typedef_u8 1,
    Fld ''keepalive_probes'' typedef_u8,
    Fld ''tcp_tx_delay'' typedef_u32,
    Fld ''mdev_max_us'' typedef_u32,
    Fld ''reord_seen'' typedef_u32,
    Fld ''snd_cwnd_cnt'' typedef_u32,
    Fld ''snd_cwnd_clamp'' typedef_u32,
    Fld ''snd_cwnd_used'' typedef_u32,
    Fld ''snd_cwnd_stamp'' typedef_u32,
    Fld ''prior_cwnd'' typedef_u32,
    Fld ''prr_delivered'' typedef_u32,
    Fld ''last_oow_ack_time'' typedef_u32,
    Fld ''pacing_timer'' struct_hrtimer,
    Fld ''compressed_ack_timer'' struct_hrtimer,
    Fld ''ooo_last_skb'' CPtr,
    Fld ''duplicate_sack'' (CArr 1 struct_tcp_sack_block),
    Fld ''selective_acks'' (CArr 4 struct_tcp_sack_block),
    Fld ''recv_sack_cache'' (CArr 4 struct_tcp_sack_block),
    Fld ''prior_ssthresh'' typedef_u32,
    Fld ''high_seq'' typedef_u32,
    Fld ''retrans_stamp'' typedef_u32,
    Fld ''undo_marker'' typedef_u32,
    Fld ''undo_retrans'' c_int,
    Fld ''bytes_retrans'' typedef_u64,
    Fld ''total_retrans'' typedef_u32,
    Fld ''rto_stamp'' typedef_u32,
    Fld ''total_rto'' typedef_u16,
    Fld ''total_rto_recoveries'' typedef_u16,
    Fld ''total_rto_time'' typedef_u32,
    Fld ''urg_seq'' typedef_u32,
    Fld ''keepalive_time'' c_uint,
    Fld ''keepalive_intvl'' c_uint,
    Fld ''linger2'' c_int,
    Fld ''bpf_sock_ops_cb_flags'' typedef_u8,
    Bits ''bpf_chg_cc_inprogress'' typedef_u8 1,
    Fld ''timeout_rehash'' typedef_u16,
    Fld ''rcv_ooopack'' typedef_u32,
    Fld ''mtu_probe'' (CStruct [
      Fld ''probe_seq_start'' typedef_u32,
      Fld ''probe_seq_end'' typedef_u32]),
    Fld ''plb_rehash'' typedef_u32,
    Fld ''mtu_info'' typedef_u32,
    Fld ''is_mptcp'' typedef_bool,
    Fld ''syn_smc'' typedef_bool,
    Fld ''smc_hs_congested'' CPtr,
    Fld ''af_specific'' CPtr,
    Fld ''md5sig_info'' CPtr,
    Fld ''ao_info'' CPtr,
    Fld ''fastopen_req'' CPtr,
    Fld ''fastopen_rsk'' CPtr,
    Fld ''saved_syn'' CPtr,
    Bits [] c_long 64,
    Bits [] c_long 64,
    Bits [] c_long 64,
    Bits [] c_long 64]"

definition struct_tcp_sock :: ctype where
  "struct_tcp_sock = CStruct (struct_tcp_sock_members1 @ struct_tcp_sock_members2)"

lemma lay_struct_tcp_sock [layout_simps]:
  "sizeof struct_tcp_sock = 2368" "alignof struct_tcp_sock = 8" "wf_ty struct_tcp_sock" "unpacked struct_tcp_sock"
  by (simp_all add: struct_tcp_sock_def struct_tcp_sock_members1_def struct_tcp_sock_members2_def layout_simps layout_eval)

definition struct_udp_sock :: ctype where
  "struct_udp_sock = CStruct [
    Fld ''inet'' struct_inet_sock,
    Fld ''udp_flags'' c_ulong,
    Fld ''pending'' c_int,
    Fld ''encap_type'' typedef___u8,
    Fld ''udp_lrpa_hash'' typedef___u16,
    Fld ''udp_lrpa_node'' struct_hlist_nulls_node,
    Fld ''len'' typedef___u16,
    Fld ''gso_size'' typedef___u16,
    Fld ''pcslen'' typedef___u16,
    Fld ''pcrlen'' typedef___u16,
    Fld ''encap_rcv'' CPtr,
    Fld ''encap_err_rcv'' CPtr,
    Fld ''encap_err_lookup'' CPtr,
    Fld ''encap_destroy'' CPtr,
    Fld ''gro_receive'' CPtr,
    Fld ''gro_complete'' CPtr,
    Bits [] c_long 64,
    Bits [] c_long 64,
    Bits [] c_long 64,
    Bits [] c_long 64,
    Bits [] c_long 64,
    Bits [] c_long 64,
    Bits [] c_long 64,
    Fld ''reader_queue'' struct_sk_buff_head,
    Fld ''forward_deficit'' c_int,
    Fld ''forward_threshold'' c_int,
    Fld ''peeking_with_offset'' typedef_bool,
    Fld ''tunnel_list'' struct_hlist_node,
    Bits [] c_long 64]"

lemma lay_struct_udp_sock [layout_simps]:
  "sizeof struct_udp_sock = 1216" "alignof struct_udp_sock = 8" "wf_ty struct_udp_sock" "unpacked struct_udp_sock"
  by (simp_all add: struct_udp_sock_def layout_simps layout_eval)

definition struct_request_sock :: ctype where
  "struct_request_sock = CStruct [
    Fld ''__req_common'' struct_sock_common,
    Fld ''dl_next'' CPtr,
    Fld ''mss'' typedef_u16,
    Fld ''num_retrans'' typedef_u8,
    Bits ''syncookie'' typedef_u8 1,
    Bits ''num_timeout'' typedef_u8 7,
    Fld ''ts_recent'' typedef_u32,
    Fld ''rsk_timer'' struct_timer_list,
    Fld ''rsk_ops'' CPtr,
    Fld ''sk'' CPtr,
    Fld ''saved_syn'' CPtr,
    Fld ''secid'' typedef_u32,
    Fld ''peer_secid'' typedef_u32,
    Fld ''timeout'' typedef_u32]"

lemma lay_struct_request_sock [layout_simps]:
  "sizeof struct_request_sock = 232" "alignof struct_request_sock = 8" "wf_ty struct_request_sock" "unpacked struct_request_sock"
  by (simp_all add: struct_request_sock_def layout_simps layout_eval)

definition struct_skb_shared_hwtstamps :: ctype where
  "struct_skb_shared_hwtstamps = CStruct [
    Fld [] (CUnion [
      Fld ''hwtstamp'' typedef_ktime_t,
      Fld ''netdev_data'' CPtr])]"

lemma lay_struct_skb_shared_hwtstamps [layout_simps]:
  "sizeof struct_skb_shared_hwtstamps = 8" "alignof struct_skb_shared_hwtstamps = 8" "wf_ty struct_skb_shared_hwtstamps" "unpacked struct_skb_shared_hwtstamps"
  by (simp_all add: struct_skb_shared_hwtstamps_def layout_simps layout_eval)

definition struct_xsk_tx_metadata_compl :: ctype where
  "struct_xsk_tx_metadata_compl = CStruct [
    Fld ''tx_timestamp'' CPtr]"

lemma lay_struct_xsk_tx_metadata_compl [layout_simps]:
  "sizeof struct_xsk_tx_metadata_compl = 8" "alignof struct_xsk_tx_metadata_compl = 8" "wf_ty struct_xsk_tx_metadata_compl" "unpacked struct_xsk_tx_metadata_compl"
  by (simp_all add: struct_xsk_tx_metadata_compl_def layout_simps layout_eval)

definition typedef_netmem_ref :: ctype where
  [layout_simps]: "typedef_netmem_ref = c_ulong"

definition struct_skb_frag :: ctype where
  "struct_skb_frag = CStruct [
    Fld ''netmem'' typedef_netmem_ref,
    Fld ''len'' c_uint,
    Fld ''offset'' c_uint]"

lemma lay_struct_skb_frag [layout_simps]:
  "sizeof struct_skb_frag = 16" "alignof struct_skb_frag = 8" "wf_ty struct_skb_frag" "unpacked struct_skb_frag"
  by (simp_all add: struct_skb_frag_def layout_simps layout_eval)

definition typedef_skb_frag_t :: ctype where
  [layout_simps]: "typedef_skb_frag_t = struct_skb_frag"

definition struct_skb_shared_info :: ctype where
  "struct_skb_shared_info = CStruct [
    Fld ''flags'' typedef___u8,
    Fld ''meta_len'' typedef___u8,
    Fld ''nr_frags'' typedef___u8,
    Fld ''tx_flags'' typedef___u8,
    Fld ''gso_size'' c_ushort,
    Fld ''gso_segs'' c_ushort,
    Fld ''frag_list'' CPtr,
    Fld [] (CUnion [
      Fld ''hwtstamps'' struct_skb_shared_hwtstamps,
      Fld ''xsk_meta'' struct_xsk_tx_metadata_compl]),
    Fld ''gso_type'' c_uint,
    Fld ''tskey'' typedef_u32,
    Fld ''dataref'' typedef_atomic_t,
    Fld [] (CUnion [
      Fld [] (CStruct [
        Fld ''xdp_frags_size'' typedef_u32,
        Fld ''xdp_frags_truesize'' typedef_u32]),
      Fld ''destructor_arg'' CPtr]),
    Fld ''frags'' (CArr 17 typedef_skb_frag_t)]"

lemma lay_struct_skb_shared_info [layout_simps]:
  "sizeof struct_skb_shared_info = 320" "alignof struct_skb_shared_info = 8" "wf_ty struct_skb_shared_info" "unpacked struct_skb_shared_info"
  by (simp_all add: struct_skb_shared_info_def layout_simps layout_eval)

definition struct_dql :: ctype where
  "struct_dql = CStruct [
    Fld ''num_queued'' c_uint,
    Fld ''adj_limit'' c_uint,
    Fld ''last_obj_cnt'' c_uint,
    Fld ''stall_thrs'' c_ushort,
    Fld ''history_head'' c_ulong,
    Fld ''history'' (CArr 4 c_ulong),
    Bits [] c_long 64,
    Fld ''limit'' c_uint,
    Fld ''num_completed'' c_uint,
    Fld ''prev_ovlimit'' c_uint,
    Fld ''prev_num_queued'' c_uint,
    Fld ''prev_last_obj_cnt'' c_uint,
    Fld ''lowest_slack'' c_uint,
    Fld ''slack_start_time'' c_ulong,
    Fld ''max_limit'' c_uint,
    Fld ''min_limit'' c_uint,
    Fld ''slack_hold_time'' c_uint,
    Fld ''stall_max'' c_ushort,
    Fld ''last_reap'' c_ulong,
    Fld ''stall_cnt'' c_ulong]"

lemma lay_struct_dql [layout_simps]:
  "sizeof struct_dql = 128" "alignof struct_dql = 8" "wf_ty struct_dql" "unpacked struct_dql"
  by (simp_all add: struct_dql_def layout_simps layout_eval)

definition struct_netdev_queue :: ctype where
  "struct_netdev_queue = CStruct [
    Fld ''dev'' CPtr,
    Fld ''dev_tracker'' typedef_netdevice_tracker,
    Fld ''qdisc'' CPtr,
    Fld ''qdisc_sleeping'' CPtr,
    Fld ''kobj'' struct_kobject,
    Fld ''groups'' CPtr,
    Fld ''tx_maxrate'' c_ulong,
    Fld ''trans_timeout'' typedef_atomic_long_t,
    Fld ''sb_dev'' CPtr,
    Fld ''pool'' CPtr,
    Fld ''dql'' struct_dql,
    Fld ''_xmit_lock'' typedef_spinlock_t,
    Fld ''xmit_lock_owner'' c_int,
    Fld ''trans_start'' c_ulong,
    Fld ''state'' c_ulong,
    Fld ''napi'' CPtr,
    Fld ''numa_node'' c_int,
    Bits [] c_long 64,
    Bits [] c_long 64,
    Bits [] c_long 64]"

lemma lay_struct_netdev_queue [layout_simps]:
  "sizeof struct_netdev_queue = 320" "alignof struct_netdev_queue = 8" "wf_ty struct_netdev_queue" "unpacked struct_netdev_queue"
  by (simp_all add: struct_netdev_queue_def layout_simps layout_eval)

definition struct_qdisc_skb_head :: ctype where
  "struct_qdisc_skb_head = CStruct [
    Fld ''head'' CPtr,
    Fld ''tail'' CPtr,
    Fld ''qlen'' typedef___u32,
    Fld ''lock'' typedef_spinlock_t]"

lemma lay_struct_qdisc_skb_head [layout_simps]:
  "sizeof struct_qdisc_skb_head = 24" "alignof struct_qdisc_skb_head = 8" "wf_ty struct_qdisc_skb_head" "unpacked struct_qdisc_skb_head"
  by (simp_all add: struct_qdisc_skb_head_def layout_simps layout_eval)

definition struct_gnet_stats_basic_sync :: ctype where
  "struct_gnet_stats_basic_sync = CStruct [
    Fld ''bytes'' typedef_u64_stats_t,
    Fld ''packets'' typedef_u64_stats_t,
    Fld ''syncp'' struct_u64_stats_sync]"

lemma lay_struct_gnet_stats_basic_sync [layout_simps]:
  "sizeof struct_gnet_stats_basic_sync = 16" "alignof struct_gnet_stats_basic_sync = 8" "wf_ty struct_gnet_stats_basic_sync" "unpacked struct_gnet_stats_basic_sync"
  by (simp_all add: struct_gnet_stats_basic_sync_def layout_simps layout_eval)

definition struct_gnet_stats_queue :: ctype where
  "struct_gnet_stats_queue = CStruct [
    Fld ''qlen'' typedef___u32,
    Fld ''backlog'' typedef___u32,
    Fld ''drops'' typedef___u32,
    Fld ''requeues'' typedef___u32,
    Fld ''overlimits'' typedef___u32]"

lemma lay_struct_gnet_stats_queue [layout_simps]:
  "sizeof struct_gnet_stats_queue = 20" "alignof struct_gnet_stats_queue = 4" "wf_ty struct_gnet_stats_queue" "unpacked struct_gnet_stats_queue"
  by (simp_all add: struct_gnet_stats_queue_def layout_simps layout_eval)

definition struct_lock_class_key :: ctype where
  "struct_lock_class_key = CStruct []"

lemma lay_struct_lock_class_key [layout_simps]:
  "sizeof struct_lock_class_key = 0" "alignof struct_lock_class_key = 1" "wf_ty struct_lock_class_key" "unpacked struct_lock_class_key"
  by (simp_all add: struct_lock_class_key_def layout_simps layout_eval)

definition struct_Qdisc :: ctype where
  "struct_Qdisc = CStruct [
    Fld ''enqueue'' CPtr,
    Fld ''dequeue'' CPtr,
    Fld ''flags'' c_uint,
    Fld ''limit'' typedef_u32,
    Fld ''ops'' CPtr,
    Fld ''stab'' CPtr,
    Fld ''hash'' struct_hlist_node,
    Fld ''handle'' typedef_u32,
    Fld ''parent'' typedef_u32,
    Fld ''dev_queue'' CPtr,
    Fld ''rate_est'' CPtr,
    Fld ''cpu_bstats'' CPtr,
    Fld ''cpu_qstats'' CPtr,
    Fld ''pad'' c_int,
    Fld ''refcnt'' typedef_refcount_t,
    Bits [] c_long 64,
    Bits [] c_long 64,
    Bits [] c_long 64,
    Fld ''gso_skb'' struct_sk_buff_head,
    Fld ''q'' struct_qdisc_skb_head,
    Fld ''bstats'' struct_gnet_stats_basic_sync,
    Fld ''qstats'' struct_gnet_stats_queue,
    Fld ''owner'' c_int,
    Fld ''state'' c_ulong,
    Fld ''state2'' c_ulong,
    Fld ''next_sched'' CPtr,
    Fld ''skb_bad_txq'' struct_sk_buff_head,
    Bits [] c_long 64,
    Bits [] c_long 64,
    Bits [] c_long 64,
    Bits [] c_long 64,
    Bits [] c_long 64,
    Bits [] c_long 64,
    Bits [] c_long 64,
    Fld ''busylock'' typedef_spinlock_t,
    Fld ''seqlock'' typedef_spinlock_t,
    Fld ''rcu'' struct_callback_head,
    Fld ''dev_tracker'' typedef_netdevice_tracker,
    Fld ''root_lock_key'' struct_lock_class_key,
    Bits [] c_long 64,
    Bits [] c_long 64,
    Bits [] c_long 64,
    Bits [] c_long 64,
    Bits [] c_long 64,
    Fld ''privdata'' (CArr 0 c_long)]"

lemma lay_struct_Qdisc [layout_simps]:
  "sizeof struct_Qdisc = 384" "alignof struct_Qdisc = 8" "wf_ty struct_Qdisc" "unpacked struct_Qdisc"
  by (simp_all add: struct_Qdisc_def layout_simps layout_eval)

definition struct_ethtool_ops :: ctype where
  "struct_ethtool_ops = CStruct [
    Bits ''supported_input_xfrm'' typedef_u32 8,
    Bits ''cap_link_lanes_supported'' typedef_u32 1,
    Bits ''rxfh_per_ctx_fields'' typedef_u32 1,
    Bits ''rxfh_per_ctx_key'' typedef_u32 1,
    Bits ''cap_rss_rxnfc_adds'' typedef_u32 1,
    Fld ''rxfh_indir_space'' typedef_u32,
    Fld ''rxfh_key_space'' typedef_u16,
    Fld ''rxfh_priv_size'' typedef_u16,
    Fld ''rxfh_max_num_contexts'' typedef_u32,
    Fld ''supported_coalesce_params'' typedef_u32,
    Fld ''supported_ring_params'' typedef_u32,
    Fld ''supported_hwtstamp_qualifiers'' typedef_u32,
    Fld ''get_drvinfo'' CPtr,
    Fld ''get_regs_len'' CPtr,
    Fld ''get_regs'' CPtr,
    Fld ''get_wol'' CPtr,
    Fld ''set_wol'' CPtr,
    Fld ''get_msglevel'' CPtr,
    Fld ''set_msglevel'' CPtr,
    Fld ''nway_reset'' CPtr,
    Fld ''get_link'' CPtr,
    Fld ''get_link_ext_state'' CPtr,
    Fld ''get_link_ext_stats'' CPtr,
    Fld ''get_eeprom_len'' CPtr,
    Fld ''get_eeprom'' CPtr,
    Fld ''set_eeprom'' CPtr,
    Fld ''get_coalesce'' CPtr,
    Fld ''set_coalesce'' CPtr,
    Fld ''get_ringparam'' CPtr,
    Fld ''set_ringparam'' CPtr,
    Fld ''get_pause_stats'' CPtr,
    Fld ''get_pauseparam'' CPtr,
    Fld ''set_pauseparam'' CPtr,
    Fld ''self_test'' CPtr,
    Fld ''get_strings'' CPtr,
    Fld ''set_phys_id'' CPtr,
    Fld ''get_ethtool_stats'' CPtr,
    Fld ''begin'' CPtr,
    Fld ''complete'' CPtr,
    Fld ''get_priv_flags'' CPtr,
    Fld ''set_priv_flags'' CPtr,
    Fld ''get_sset_count'' CPtr,
    Fld ''get_rxnfc'' CPtr,
    Fld ''set_rxnfc'' CPtr,
    Fld ''flash_device'' CPtr,
    Fld ''reset'' CPtr,
    Fld ''get_rxfh_key_size'' CPtr,
    Fld ''get_rxfh_indir_size'' CPtr,
    Fld ''get_rxfh'' CPtr,
    Fld ''set_rxfh'' CPtr,
    Fld ''get_rxfh_fields'' CPtr,
    Fld ''set_rxfh_fields'' CPtr,
    Fld ''create_rxfh_context'' CPtr,
    Fld ''modify_rxfh_context'' CPtr,
    Fld ''remove_rxfh_context'' CPtr,
    Fld ''get_channels'' CPtr,
    Fld ''set_channels'' CPtr,
    Fld ''get_dump_flag'' CPtr,
    Fld ''get_dump_data'' CPtr,
    Fld ''set_dump'' CPtr,
    Fld ''get_ts_info'' CPtr,
    Fld ''get_ts_stats'' CPtr,
    Fld ''get_module_info'' CPtr,
    Fld ''get_module_eeprom'' CPtr,
    Fld ''get_eee'' CPtr,
    Fld ''set_eee'' CPtr,
    Fld ''get_tunable'' CPtr,
    Fld ''set_tunable'' CPtr,
    Fld ''get_per_queue_coalesce'' CPtr,
    Fld ''set_per_queue_coalesce'' CPtr,
    Fld ''get_link_ksettings'' CPtr,
    Fld ''set_link_ksettings'' CPtr,
    Fld ''get_fec_stats'' CPtr,
    Fld ''get_fecparam'' CPtr,
    Fld ''set_fecparam'' CPtr,
    Fld ''get_ethtool_phy_stats'' CPtr,
    Fld ''get_phy_tunable'' CPtr,
    Fld ''set_phy_tunable'' CPtr,
    Fld ''get_module_eeprom_by_page'' CPtr,
    Fld ''set_module_eeprom_by_page'' CPtr,
    Fld ''get_eth_phy_stats'' CPtr,
    Fld ''get_eth_mac_stats'' CPtr,
    Fld ''get_eth_ctrl_stats'' CPtr,
    Fld ''get_rmon_stats'' CPtr,
    Fld ''get_module_power_mode'' CPtr,
    Fld ''set_module_power_mode'' CPtr,
    Fld ''get_mm'' CPtr,
    Fld ''set_mm'' CPtr,
    Fld ''get_mm_stats'' CPtr]"

lemma lay_struct_ethtool_ops [layout_simps]:
  "sizeof struct_ethtool_ops = 648" "alignof struct_ethtool_ops = 8" "wf_ty struct_ethtool_ops" "unpacked struct_ethtool_ops"
  by (simp_all add: struct_ethtool_ops_def layout_simps layout_eval)

definition struct_lockdep_map :: ctype where
  "struct_lockdep_map = CStruct []"

lemma lay_struct_lockdep_map [layout_simps]:
  "sizeof struct_lockdep_map = 0" "alignof struct_lockdep_map = 1" "wf_ty struct_lockdep_map" "unpacked struct_lockdep_map"
  by (simp_all add: struct_lockdep_map_def layout_simps layout_eval)

definition struct_srcu_struct :: ctype where
  "struct_srcu_struct = CStruct [
    Fld ''srcu_ctrp'' CPtr,
    Fld ''sda'' CPtr,
    Fld ''dep_map'' struct_lockdep_map,
    Fld ''srcu_sup'' CPtr]"

lemma lay_struct_srcu_struct [layout_simps]:
  "sizeof struct_srcu_struct = 24" "alignof struct_srcu_struct = 8" "wf_ty struct_srcu_struct" "unpacked struct_srcu_struct"
  by (simp_all add: struct_srcu_struct_def layout_simps layout_eval)

definition struct_rtnl_link_ops :: ctype where
  "struct_rtnl_link_ops = CStruct [
    Fld ''list'' struct_list_head,
    Fld ''srcu'' struct_srcu_struct,
    Fld ''kind'' CPtr,
    Fld ''priv_size'' typedef_size_t,
    Fld ''alloc'' CPtr,
    Fld ''setup'' CPtr,
    Fld ''netns_refund'' typedef_bool,
    Fld ''peer_type'' typedef_u16,
    Fld ''maxtype'' c_uint,
    Fld ''policy'' CPtr,
    Fld ''validate'' CPtr,
    Fld ''newlink'' CPtr,
    Fld ''changelink'' CPtr,
    Fld ''dellink'' CPtr,
    Fld ''get_size'' CPtr,
    Fld ''fill_info'' CPtr,
    Fld ''get_xstats_size'' CPtr,
    Fld ''fill_xstats'' CPtr,
    Fld ''get_num_tx_queues'' CPtr,
    Fld ''get_num_rx_queues'' CPtr,
    Fld ''slave_maxtype'' c_uint,
    Fld ''slave_policy'' CPtr,
    Fld ''slave_changelink'' CPtr,
    Fld ''get_slave_size'' CPtr,
    Fld ''fill_slave_info'' CPtr,
    Fld ''get_link_net'' CPtr,
    Fld ''get_linkxstats_size'' CPtr,
    Fld ''fill_linkxstats'' CPtr]"

lemma lay_struct_rtnl_link_ops [layout_simps]:
  "sizeof struct_rtnl_link_ops = 232" "alignof struct_rtnl_link_ops = 8" "wf_ty struct_rtnl_link_ops" "unpacked struct_rtnl_link_ops"
  by (simp_all add: struct_rtnl_link_ops_def layout_simps layout_eval)

definition struct_header_ops :: ctype where
  "struct_header_ops = CStruct [
    Fld ''create'' CPtr,
    Fld ''parse'' CPtr,
    Fld ''cache'' CPtr,
    Fld ''cache_update'' CPtr,
    Fld ''validate'' CPtr,
    Fld ''parse_protocol'' CPtr]"

lemma lay_struct_header_ops [layout_simps]:
  "sizeof struct_header_ops = 48" "alignof struct_header_ops = 8" "wf_ty struct_header_ops" "unpacked struct_header_ops"
  by (simp_all add: struct_header_ops_def layout_simps layout_eval)

definition struct_ipv4_devconf :: ctype where
  "struct_ipv4_devconf = CStruct [
    Fld ''sysctl'' CPtr,
    Fld ''data'' (CArr 33 c_int),
    Fld ''state'' (CArr 1 c_ulong)]"

lemma lay_struct_ipv4_devconf [layout_simps]:
  "sizeof struct_ipv4_devconf = 152" "alignof struct_ipv4_devconf = 8" "wf_ty struct_ipv4_devconf" "unpacked struct_ipv4_devconf"
  by (simp_all add: struct_ipv4_devconf_def layout_simps layout_eval)

definition struct_in_device :: ctype where
  "struct_in_device = CStruct [
    Fld ''dev'' CPtr,
    Fld ''dev_tracker'' typedef_netdevice_tracker,
    Fld ''refcnt'' typedef_refcount_t,
    Fld ''dead'' c_int,
    Fld ''ifa_list'' CPtr,
    Fld ''mc_list'' CPtr,
    Fld ''mc_hash'' CPtr,
    Fld ''mc_count'' c_int,
    Fld ''mc_tomb_lock'' typedef_spinlock_t,
    Fld ''mc_tomb'' CPtr,
    Fld ''mr_v1_seen'' c_ulong,
    Fld ''mr_v2_seen'' c_ulong,
    Fld ''mr_maxdelay'' c_ulong,
    Fld ''mr_qi'' c_ulong,
    Fld ''mr_qri'' c_ulong,
    Fld ''mr_qrv'' c_uchar,
    Fld ''mr_gq_running'' c_uchar,
    Fld ''mr_ifc_count'' typedef_u32,
    Fld ''mr_gq_timer'' struct_timer_list,
    Fld ''mr_ifc_timer'' struct_timer_list,
    Fld ''arp_parms'' CPtr,
    Fld ''cnf'' struct_ipv4_devconf,
    Fld ''callback_head'' struct_callback_head]"

lemma lay_struct_in_device [layout_simps]:
  "sizeof struct_in_device = 360" "alignof struct_in_device = 8" "wf_ty struct_in_device" "unpacked struct_in_device"
  by (simp_all add: struct_in_device_def layout_simps layout_eval)

definition struct_ipv6_stable_secret :: ctype where
  "struct_ipv6_stable_secret = CStruct [
    Fld ''initialized'' typedef_bool,
    Fld ''secret'' struct_in6_addr]"

lemma lay_struct_ipv6_stable_secret [layout_simps]:
  "sizeof struct_ipv6_stable_secret = 20" "alignof struct_ipv6_stable_secret = 4" "wf_ty struct_ipv6_stable_secret" "unpacked struct_ipv6_stable_secret"
  by (simp_all add: struct_ipv6_stable_secret_def layout_simps layout_eval)

definition struct_ipv6_devconf :: ctype where
  "struct_ipv6_devconf = CStruct [
    Fld ''__cacheline_group_begin__ipv6_devconf_read_txrx'' (CArr 0 typedef___u8),
    Fld ''disable_ipv6'' typedef___s32,
    Fld ''hop_limit'' typedef___s32,
    Fld ''mtu6'' typedef___s32,
    Fld ''forwarding'' typedef___s32,
    Fld ''force_forwarding'' typedef___s32,
    Fld ''disable_policy'' typedef___s32,
    Fld ''proxy_ndp'' typedef___s32,
    Fld ''__cacheline_group_end__ipv6_devconf_read_txrx'' (CArr 0 typedef___u8),
    Fld ''accept_ra'' typedef___s32,
    Fld ''accept_redirects'' typedef___s32,
    Fld ''autoconf'' typedef___s32,
    Fld ''dad_transmits'' typedef___s32,
    Fld ''rtr_solicits'' typedef___s32,
    Fld ''rtr_solicit_interval'' typedef___s32,
    Fld ''rtr_solicit_max_interval'' typedef___s32,
    Fld ''rtr_solicit_delay'' typedef___s32,
    Fld ''force_mld_version'' typedef___s32,
    Fld ''mldv1_unsolicited_report_interval'' typedef___s32,
    Fld ''mldv2_unsolicited_report_interval'' typedef___s32,
    Fld ''use_tempaddr'' typedef___s32,
    Fld ''temp_valid_lft'' typedef___s32,
    Fld ''temp_prefered_lft'' typedef___s32,
    Fld ''regen_min_advance'' typedef___s32,
    Fld ''regen_max_retry'' typedef___s32,
    Fld ''max_desync_factor'' typedef___s32,
    Fld ''max_addresses'' typedef___s32,
    Fld ''accept_ra_defrtr'' typedef___s32,
    Fld ''ra_defrtr_metric'' typedef___u32,
    Fld ''accept_ra_min_hop_limit'' typedef___s32,
    Fld ''accept_ra_min_lft'' typedef___s32,
    Fld ''accept_ra_pinfo'' typedef___s32,
    Fld ''ignore_routes_with_linkdown'' typedef___s32,
    Fld ''accept_ra_rtr_pref'' typedef___s32,
    Fld ''rtr_probe_interval'' typedef___s32,
    Fld ''accept_ra_rt_info_min_plen'' typedef___s32,
    Fld ''accept_ra_rt_info_max_plen'' typedef___s32,
    Fld ''accept_source_route'' typedef___s32,
    Fld ''accept_ra_from_local'' typedef___s32,
    Fld ''optimistic_dad'' typedef___s32,
    Fld ''use_optimistic'' typedef___s32,
    Fld ''mc_forwarding'' typedef_atomic_t,
    Fld ''drop_unicast_in_l2_multicast'' typedef___s32,
    Fld ''accept_dad'' typedef___s32,
    Fld ''force_tllao'' typedef___s32,
    Fld ''ndisc_notify'' typedef___s32,
    Fld ''suppress_frag_ndisc'' typedef___s32,
    Fld ''accept_ra_mtu'' typedef___s32,
    Fld ''drop_unsolicited_na'' typedef___s32,
    Fld ''accept_untracked_na'' typedef___s32,
    Fld ''stable_secret'' struct_ipv6_stable_secret,
    Fld ''use_oif_addrs_only'' typedef___s32,
    Fld ''keep_addr_on_down'' typedef___s32,
    Fld ''seg6_enabled'' typedef___s32,
    Fld ''seg6_require_hmac'' typedef___s32,
    Fld ''enhanced_dad'' typedef___u32,
    Fld ''addr_gen_mode'' typedef___u32,
    Fld ''ndisc_tclass'' typedef___s32,
    Fld ''rpl_seg_enabled'' typedef___s32,
    Fld ''ioam6_id'' typedef___u32,
    Fld ''ioam6_id_wide'' typedef___u32,
    Fld ''ioam6_enabled'' typedef___u8,
    Fld ''ndisc_evict_nocarrier'' typedef___u8,
    Fld ''ra_honor_pio_life'' typedef___u8,
    Fld ''ra_honor_pio_pflag'' typedef___u8,
    Fld ''sysctl_header'' CPtr]"

lemma lay_struct_ipv6_devconf [layout_simps]:
  "sizeof struct_ipv6_devconf = 264" "alignof struct_ipv6_devconf = 8" "wf_ty struct_ipv6_devconf" "unpacked struct_ipv6_devconf"
  by (simp_all add: struct_ipv6_devconf_def layout_simps layout_eval)

definition struct_ipv6_devstat :: ctype where
  "struct_ipv6_devstat = CStruct [
    Fld ''proc_dir_entry'' CPtr,
    Fld ''ipv6'' CPtr,
    Fld ''icmpv6dev'' CPtr,
    Fld ''icmpv6msgdev'' CPtr]"

lemma lay_struct_ipv6_devstat [layout_simps]:
  "sizeof struct_ipv6_devstat = 32" "alignof struct_ipv6_devstat = 8" "wf_ty struct_ipv6_devstat" "unpacked struct_ipv6_devstat"
  by (simp_all add: struct_ipv6_devstat_def layout_simps layout_eval)

definition struct_inet6_dev :: ctype where
  "struct_inet6_dev = CStruct [
    Fld ''dev'' CPtr,
    Fld ''dev_tracker'' typedef_netdevice_tracker,
    Fld ''addr_list'' struct_list_head,
    Fld ''mc_list'' CPtr,
    Fld ''mc_tomb'' CPtr,
    Fld ''mc_qrv'' c_uchar,
    Fld ''mc_gq_running'' c_uchar,
    Fld ''mc_ifc_count'' c_uchar,
    Fld ''mc_dad_count'' c_uchar,
    Fld ''mc_v1_seen'' c_ulong,
    Fld ''mc_qi'' c_ulong,
    Fld ''mc_qri'' c_ulong,
    Fld ''mc_maxdelay'' c_ulong,
    Fld ''mc_gq_work'' struct_delayed_work,
    Fld ''mc_ifc_work'' struct_delayed_work,
    Fld ''mc_dad_work'' struct_delayed_work,
    Fld ''mc_query_work'' struct_delayed_work,
    Fld ''mc_report_work'' struct_delayed_work,
    Fld ''mc_query_queue'' struct_sk_buff_head,
    Fld ''mc_report_queue'' struct_sk_buff_head,
    Fld ''mc_query_lock'' typedef_spinlock_t,
    Fld ''mc_report_lock'' typedef_spinlock_t,
    Fld ''mc_lock'' struct_mutex,
    Fld ''ac_list'' CPtr,
    Fld ''lock'' typedef_rwlock_t,
    Fld ''refcnt'' typedef_refcount_t,
    Fld ''if_flags'' typedef___u32,
    Fld ''dead'' c_int,
    Fld ''desync_factor'' typedef_u32,
    Fld ''tempaddr_list'' struct_list_head,
    Fld ''token'' struct_in6_addr,
    Fld ''nd_parms'' CPtr,
    Fld ''cnf'' struct_ipv6_devconf,
    Fld ''stats'' struct_ipv6_devstat,
    Fld ''rs_timer'' struct_timer_list,
    Fld ''rs_interval'' typedef___s32,
    Fld ''rs_probes'' typedef___u8,
    Fld ''tstamp'' c_ulong,
    Fld ''rcu'' struct_callback_head,
    Fld ''ra_mtu'' c_uint]"

lemma lay_struct_inet6_dev [layout_simps]:
  "sizeof struct_inet6_dev = 1056" "alignof struct_inet6_dev = 8" "wf_ty struct_inet6_dev" "unpacked struct_inet6_dev"
  by (simp_all add: struct_inet6_dev_def layout_simps layout_eval)

definition struct_hh_cache :: ctype where
  "struct_hh_cache = CStruct [
    Fld ''hh_len'' c_uint,
    Fld ''hh_lock'' typedef_seqlock_t,
    Fld ''hh_data'' (CArr 16 c_ulong)]"

lemma lay_struct_hh_cache [layout_simps]:
  "sizeof struct_hh_cache = 144" "alignof struct_hh_cache = 8" "wf_ty struct_hh_cache" "unpacked struct_hh_cache"
  by (simp_all add: struct_hh_cache_def layout_simps layout_eval)

definition struct_neighbour :: ctype where
  "struct_neighbour = CStruct [
    Fld ''hash'' struct_hlist_node,
    Fld ''dev_list'' struct_hlist_node,
    Fld ''tbl'' CPtr,
    Fld ''parms'' CPtr,
    Fld ''confirmed'' c_ulong,
    Fld ''updated'' c_ulong,
    Fld ''lock'' typedef_rwlock_t,
    Fld ''refcnt'' typedef_refcount_t,
    Fld ''arp_queue_len_bytes'' c_uint,
    Fld ''arp_queue'' struct_sk_buff_head,
    Fld ''timer'' struct_timer_list,
    Fld ''used'' c_ulong,
    Fld ''probes'' typedef_atomic_t,
    Fld ''nud_state'' typedef_u8,
    Fld ''type'' typedef_u8,
    Fld ''dead'' typedef_u8,
    Fld ''protocol'' typedef_u8,
    Fld ''flags'' typedef_u32,
    Fld ''ha_lock'' typedef_seqlock_t,
    Bits [] c_long 0,
    Fld ''ha'' (CArr 32 c_uchar),
    Fld ''hh'' struct_hh_cache,
    Fld ''output'' CPtr,
    Fld ''ops'' CPtr,
    Fld ''gc_list'' struct_list_head,
    Fld ''managed_list'' struct_list_head,
    Fld ''rcu'' struct_callback_head,
    Fld ''dev'' CPtr,
    Fld ''dev_tracker'' typedef_netdevice_tracker,
    Fld ''primary_key'' (CArr 0 typedef_u8)]"

lemma lay_struct_neighbour [layout_simps]:
  "sizeof struct_neighbour = 424" "alignof struct_neighbour = 8" "wf_ty struct_neighbour" "unpacked struct_neighbour"
  by (simp_all add: struct_neighbour_def layout_simps layout_eval)

definition typedef_rcuref_t :: ctype where
  "typedef_rcuref_t = CStruct [
    Fld ''refcnt'' typedef_atomic_t]"

lemma lay_typedef_rcuref_t [layout_simps]:
  "sizeof typedef_rcuref_t = 4" "alignof typedef_rcuref_t = 4" "wf_ty typedef_rcuref_t" "unpacked typedef_rcuref_t"
  by (simp_all add: typedef_rcuref_t_def layout_simps layout_eval)

definition struct_dst_entry :: ctype where
  "struct_dst_entry = CStruct [
    Fld [] (CUnion [
      Fld ''dev'' CPtr,
      Fld ''dev_rcu'' CPtr]),
    Fld ''ops'' CPtr,
    Fld ''_metrics'' c_ulong,
    Fld ''expires'' c_ulong,
    Fld ''xfrm'' CPtr,
    Fld ''input'' CPtr,
    Fld ''output'' CPtr,
    Fld ''flags'' c_ushort,
    Fld ''obsolete'' c_short,
    Fld ''header_len'' c_ushort,
    Fld ''trailer_len'' c_ushort,
    Fld ''__rcuref'' typedef_rcuref_t,
    Fld ''__use'' c_int,
    Fld ''lastuse'' c_ulong,
    Fld ''callback_head'' struct_callback_head,
    Fld ''error'' c_short,
    Fld ''__pad'' c_short,
    Fld ''tclassid'' typedef___u32,
    Fld ''dev_tracker'' typedef_netdevice_tracker,
    Fld ''rt_uncached'' struct_list_head,
    Fld ''rt_uncached_list'' CPtr,
    Fld ''lwtstate'' CPtr]"

lemma lay_struct_dst_entry [layout_simps]:
  "sizeof struct_dst_entry = 136" "alignof struct_dst_entry = 8" "wf_ty struct_dst_entry" "unpacked struct_dst_entry"
  by (simp_all add: struct_dst_entry_def layout_simps layout_eval)

definition struct_rtable :: ctype where
  "struct_rtable = CStruct [
    Fld ''dst'' struct_dst_entry,
    Fld ''rt_genid'' c_int,
    Fld ''rt_flags'' c_uint,
    Fld ''rt_type'' typedef___u16,
    Fld ''rt_is_input'' typedef___u8,
    Fld ''rt_uses_gateway'' typedef___u8,
    Fld ''rt_iif'' c_int,
    Fld ''rt_gw_family'' typedef_u8,
    Fld [] (CUnion [
      Fld ''rt_gw4'' typedef___be32,
      Fld ''rt_gw6'' struct_in6_addr]),
    Bits ''rt_mtu_locked'' typedef_u32 1,
    Bits ''rt_pmtu'' typedef_u32 31]"

lemma lay_struct_rtable [layout_simps]:
  "sizeof struct_rtable = 176" "alignof struct_rtable = 8" "wf_ty struct_rtable" "unpacked struct_rtable"
  by (simp_all add: struct_rtable_def layout_simps layout_eval)

definition struct_fib_nh_common :: ctype where
  "struct_fib_nh_common = CStruct [
    Fld ''nhc_dev'' CPtr,
    Fld ''nhc_dev_tracker'' typedef_netdevice_tracker,
    Fld ''nhc_oif'' c_int,
    Fld ''nhc_scope'' c_uchar,
    Fld ''nhc_family'' typedef_u8,
    Fld ''nhc_gw_family'' typedef_u8,
    Fld ''nhc_flags'' c_uchar,
    Fld ''nhc_lwtstate'' CPtr,
    Fld ''nhc_gw'' (CUnion [
      Fld ''ipv4'' typedef___be32,
      Fld ''ipv6'' struct_in6_addr]),
    Fld ''nhc_weight'' c_int,
    Fld ''nhc_upper_bound'' typedef_atomic_t,
    Fld ''nhc_pcpu_rth_output'' CPtr,
    Fld ''nhc_rth_input'' CPtr,
    Fld ''nhc_exceptions'' CPtr]"

lemma lay_struct_fib_nh_common [layout_simps]:
  "sizeof struct_fib_nh_common = 72" "alignof struct_fib_nh_common = 8" "wf_ty struct_fib_nh_common" "unpacked struct_fib_nh_common"
  by (simp_all add: struct_fib_nh_common_def layout_simps layout_eval)

definition struct_fib_nh :: ctype where
  "struct_fib_nh = CStruct [
    Fld ''nh_common'' struct_fib_nh_common,
    Fld ''nh_hash'' struct_hlist_node,
    Fld ''nh_parent'' CPtr,
    Fld ''nh_tclassid'' typedef___u32,
    Fld ''nh_saddr'' typedef___be32,
    Fld ''nh_saddr_genid'' c_int]"

lemma lay_struct_fib_nh [layout_simps]:
  "sizeof struct_fib_nh = 112" "alignof struct_fib_nh = 8" "wf_ty struct_fib_nh" "unpacked struct_fib_nh"
  by (simp_all add: struct_fib_nh_def layout_simps layout_eval)

definition struct_fib_info :: ctype where
  "struct_fib_info = CStruct [
    Fld ''fib_hash'' struct_hlist_node,
    Fld ''fib_lhash'' struct_hlist_node,
    Fld ''nh_list'' struct_list_head,
    Fld ''fib_net'' CPtr,
    Fld ''fib_treeref'' typedef_refcount_t,
    Fld ''fib_clntref'' typedef_refcount_t,
    Fld ''fib_flags'' c_uint,
    Fld ''fib_dead'' c_uchar,
    Fld ''fib_protocol'' c_uchar,
    Fld ''fib_scope'' c_uchar,
    Fld ''fib_type'' c_uchar,
    Fld ''fib_prefsrc'' typedef___be32,
    Fld ''fib_tb_id'' typedef_u32,
    Fld ''fib_priority'' typedef_u32,
    Fld ''fib_metrics'' CPtr,
    Fld ''fib_nhs'' c_int,
    Fld ''fib_nh_is_v6'' typedef_bool,
    Fld ''nh_updated'' typedef_bool,
    Fld ''pfsrc_removed'' typedef_bool,
    Fld ''nh'' CPtr,
    Fld ''rcu'' struct_callback_head,
    Fld ''fib_nh'' (CArr 0 struct_fib_nh)]"

lemma lay_struct_fib_info [layout_simps]:
  "sizeof struct_fib_info = 128" "alignof struct_fib_info = 8" "wf_ty struct_fib_info" "unpacked struct_fib_info"
  by (simp_all add: struct_fib_info_def layout_simps layout_eval)

definition typedef_dma_addr_t :: ctype where
  [layout_simps]: "typedef_dma_addr_t = typedef_u64"

definition struct_xdp_buff_xsk :: ctype where
  "struct_xdp_buff_xsk = CStruct [
    Fld ''xdp'' struct_xdp_buff,
    Fld ''cb'' (CArr 24 typedef_u8),
    Fld ''dma'' typedef_dma_addr_t,
    Fld ''frame_dma'' typedef_dma_addr_t,
    Fld ''pool'' CPtr,
    Fld ''list_node'' struct_list_head,
    Bits [] c_long 64]"

lemma lay_struct_xdp_buff_xsk [layout_simps]:
  "sizeof struct_xdp_buff_xsk = 128" "alignof struct_xdp_buff_xsk = 8" "wf_ty struct_xdp_buff_xsk" "unpacked struct_xdp_buff_xsk"
  by (simp_all add: struct_xdp_buff_xsk_def layout_simps layout_eval)

definition struct_xsk_buff_pool :: ctype where
  "struct_xsk_buff_pool = CStruct [
    Fld ''dev'' CPtr,
    Fld ''netdev'' CPtr,
    Fld ''xsk_tx_list'' struct_list_head,
    Fld ''xsk_tx_list_lock'' typedef_spinlock_t,
    Fld ''users'' typedef_refcount_t,
    Fld ''umem'' CPtr,
    Fld ''work'' struct_work_struct,
    Fld ''rx_lock'' typedef_spinlock_t,
    Fld ''free_list'' struct_list_head,
    Fld ''xskb_list'' struct_list_head,
    Fld ''heads_cnt'' typedef_u32,
    Fld ''queue_id'' typedef_u16,
    Fld ''fq'' CPtr,
    Fld ''cq'' CPtr,
    Fld ''dma_pages'' CPtr,
    Fld ''heads'' CPtr,
    Fld ''tx_descs'' CPtr,
    Fld ''chunk_mask'' typedef_u64,
    Fld ''addrs_cnt'' typedef_u64,
    Fld ''free_list_cnt'' typedef_u32,
    Fld ''dma_pages_cnt'' typedef_u32,
    Fld ''free_heads_cnt'' typedef_u32,
    Fld ''headroom'' typedef_u32,
    Fld ''chunk_size'' typedef_u32,
    Fld ''chunk_shift'' typedef_u32,
    Fld ''frame_len'' typedef_u32,
    Fld ''xdp_zc_max_segs'' typedef_u32,
    Fld ''tx_metadata_len'' typedef_u8,
    Fld ''cached_need_wakeup'' typedef_u8,
    Fld ''uses_need_wakeup'' typedef_bool,
    Fld ''unaligned'' typedef_bool,
    Fld ''tx_sw_csum'' typedef_bool,
    Fld ''addrs'' CPtr,
    Fld ''cq_lock'' typedef_spinlock_t,
    Fld ''free_heads'' (CArr 0 CPtr),
    Bits [] c_long 64,
    Bits [] c_long 64]"

lemma lay_struct_xsk_buff_pool [layout_simps]:
  "sizeof struct_xsk_buff_pool = 256" "alignof struct_xsk_buff_pool = 8" "wf_ty struct_xsk_buff_pool" "unpacked struct_xsk_buff_pool"
  by (simp_all add: struct_xsk_buff_pool_def layout_simps layout_eval)

definition struct_xdp_sock :: ctype where
  "struct_xdp_sock = CStruct [
    Fld ''sk'' struct_sock,
    Bits [] c_long 64,
    Bits [] c_long 64,
    Bits [] c_long 64,
    Bits [] c_long 64,
    Bits [] c_long 64,
    Bits [] c_long 64,
    Fld ''rx'' CPtr,
    Fld ''dev'' CPtr,
    Fld ''umem'' CPtr,
    Fld ''flush_node'' struct_list_head,
    Fld ''pool'' CPtr,
    Fld ''queue_id'' typedef_u16,
    Fld ''zc'' typedef_bool,
    Fld ''sg'' typedef_bool,
    Fld ''state'' (CEnum 4 [
    (''XSK_READY'', 0),
    (''XSK_BOUND'', 1),
    (''XSK_UNBOUND'', 2)]),
    Bits [] c_long 64,
    Fld ''tx'' CPtr,
    Fld ''tx_list'' struct_list_head,
    Fld ''tx_budget_spent'' typedef_u32,
    Fld ''rx_dropped'' typedef_u64,
    Fld ''rx_queue_full'' typedef_u64,
    Fld ''skb'' CPtr,
    Fld ''map_list'' struct_list_head,
    Fld ''map_list_lock'' typedef_spinlock_t,
    Fld ''max_tx_budget'' typedef_u32,
    Fld ''mutex'' struct_mutex,
    Fld ''fq_tmp'' CPtr,
    Fld ''cq_tmp'' CPtr]"

lemma lay_struct_xdp_sock [layout_simps]:
  "sizeof struct_xdp_sock = 1024" "alignof struct_xdp_sock = 8" "wf_ty struct_xdp_sock" "unpacked struct_xdp_sock"
  by (simp_all add: struct_xdp_sock_def layout_simps layout_eval)

definition enum_dma_data_direction :: ctype where
  "enum_dma_data_direction = CEnum 4 [
    (''DMA_BIDIRECTIONAL'', 0),
    (''DMA_TO_DEVICE'', 1),
    (''DMA_FROM_DEVICE'', 2),
    (''DMA_NONE'', 3)]"

lemma lay_enum_dma_data_direction [layout_simps]:
  "sizeof enum_dma_data_direction = 4" "alignof enum_dma_data_direction = 4" "wf_ty enum_dma_data_direction" "unpacked enum_dma_data_direction" "is_int enum_dma_data_direction"
  by (simp_all add: enum_dma_data_direction_def layout_simps layout_eval)

definition struct_page_pool_params_fast :: ctype where
  "struct_page_pool_params_fast = CStruct [
    Fld ''order'' c_uint,
    Fld ''pool_size'' c_uint,
    Fld ''nid'' c_int,
    Fld ''dev'' CPtr,
    Fld ''napi'' CPtr,
    Fld ''dma_dir'' enum_dma_data_direction,
    Fld ''max_len'' c_uint,
    Fld ''offset'' c_uint]"

lemma lay_struct_page_pool_params_fast [layout_simps]:
  "sizeof struct_page_pool_params_fast = 48" "alignof struct_page_pool_params_fast = 8" "wf_ty struct_page_pool_params_fast" "unpacked struct_page_pool_params_fast"
  by (simp_all add: struct_page_pool_params_fast_def layout_simps layout_eval)

definition struct_page_pool_alloc_stats :: ctype where
  "struct_page_pool_alloc_stats = CStruct [
    Fld ''fast'' typedef_u64,
    Fld ''slow'' typedef_u64,
    Fld ''slow_high_order'' typedef_u64,
    Fld ''empty'' typedef_u64,
    Fld ''refill'' typedef_u64,
    Fld ''waive'' typedef_u64]"

lemma lay_struct_page_pool_alloc_stats [layout_simps]:
  "sizeof struct_page_pool_alloc_stats = 48" "alignof struct_page_pool_alloc_stats = 8" "wf_ty struct_page_pool_alloc_stats" "unpacked struct_page_pool_alloc_stats"
  by (simp_all add: struct_page_pool_alloc_stats_def layout_simps layout_eval)

definition struct_pp_alloc_cache :: ctype where
  "struct_pp_alloc_cache = CStruct [
    Fld ''count'' typedef_u32,
    Fld ''cache'' (CArr 128 typedef_netmem_ref)]"

lemma lay_struct_pp_alloc_cache [layout_simps]:
  "sizeof struct_pp_alloc_cache = 1032" "alignof struct_pp_alloc_cache = 8" "wf_ty struct_pp_alloc_cache" "unpacked struct_pp_alloc_cache"
  by (simp_all add: struct_pp_alloc_cache_def layout_simps layout_eval)

definition struct_ptr_ring :: ctype where
  "struct_ptr_ring = CStruct [
    Fld ''producer'' c_int,
    Fld ''producer_lock'' typedef_spinlock_t,
    Bits [] c_long 64,
    Bits [] c_long 64,
    Bits [] c_long 64,
    Bits [] c_long 64,
    Bits [] c_long 64,
    Bits [] c_long 64,
    Bits [] c_long 64,
    Fld ''consumer_head'' c_int,
    Fld ''consumer_tail'' c_int,
    Fld ''consumer_lock'' typedef_spinlock_t,
    Bits [] c_long 64,
    Bits [] c_long 64,
    Bits [] c_long 64,
    Bits [] c_long 64,
    Bits [] c_long 64,
    Bits [] c_long 64,
    Fld ''size'' c_int,
    Fld ''batch'' c_int,
    Fld ''queue'' CPtr,
    Bits [] c_long 64,
    Bits [] c_long 64,
    Bits [] c_long 64,
    Bits [] c_long 64,
    Bits [] c_long 64,
    Bits [] c_long 64]"

lemma lay_struct_ptr_ring [layout_simps]:
  "sizeof struct_ptr_ring = 192" "alignof struct_ptr_ring = 8" "wf_ty struct_ptr_ring" "unpacked struct_ptr_ring"
  by (simp_all add: struct_ptr_ring_def layout_simps layout_eval)

definition struct_page_pool_params_slow :: ctype where
  "struct_page_pool_params_slow = CStruct [
    Fld ''netdev'' CPtr,
    Fld ''queue_idx'' c_uint,
    Fld ''flags'' c_uint,
    Fld ''init_callback'' CPtr,
    Fld ''init_arg'' CPtr]"

lemma lay_struct_page_pool_params_slow [layout_simps]:
  "sizeof struct_page_pool_params_slow = 32" "alignof struct_page_pool_params_slow = 8" "wf_ty struct_page_pool_params_slow" "unpacked struct_page_pool_params_slow"
  by (simp_all add: struct_page_pool_params_slow_def layout_simps layout_eval)

definition struct_page_pool :: ctype where
  "struct_page_pool = CStruct [
    Fld ''p'' struct_page_pool_params_fast,
    Fld ''cpuid'' c_int,
    Fld ''pages_state_hold_cnt'' typedef_u32,
    Bits ''has_init_callback'' typedef_bool 1,
    Bits ''dma_map'' typedef_bool 1,
    Bits ''dma_sync'' typedef_bool 1,
    Bits ''dma_sync_for_cpu'' typedef_bool 1,
    Bits ''system'' typedef_bool 1,
    Bits [] c_long 0,
    Fld ''__cacheline_group_begin__frag'' (CArr 0 typedef___u8),
    Fld ''frag_users'' c_long,
    Fld ''frag_page'' typedef_netmem_ref,
    Fld ''frag_offset'' c_uint,
    Bits [] c_long 0,
    Fld ''__cacheline_group_end__frag'' (CArr 0 typedef___u8),
    Bits [] c_long 64,
    Fld ''__cacheline_group_pad__frag'' (CStruct []),
    Fld ''release_dw'' struct_delayed_work,
    Fld ''disconnect'' CPtr,
    Fld ''defer_start'' c_ulong,
    Fld ''defer_warn'' c_ulong,
    Fld ''alloc_stats'' struct_page_pool_alloc_stats,
    Fld ''xdp_mem_id'' typedef_u32,
    Bits [] c_long 64,
    Bits [] c_long 64,
    Bits [] c_long 64,
    Bits [] c_long 64,
    Bits [] c_long 64,
    Bits [] c_long 64,
    Bits [] c_long 64,
    Fld ''alloc'' struct_pp_alloc_cache,
    Bits [] c_long 64,
    Bits [] c_long 64,
    Bits [] c_long 64,
    Bits [] c_long 64,
    Bits [] c_long 64,
    Bits [] c_long 64,
    Bits [] c_long 64,
    Fld ''ring'' struct_ptr_ring,
    Fld ''mp_priv'' CPtr,
    Fld ''mp_ops'' CPtr,
    Fld ''dma_mapped'' struct_xarray,
    Fld ''recycle_stats'' CPtr,
    Fld ''pages_state_release_cnt'' typedef_atomic_t,
    Fld ''user_cnt'' typedef_refcount_t,
    Fld ''destroy_cnt'' typedef_u64,
    Fld ''slow'' struct_page_pool_params_slow,
    Fld ''user'' (CStruct [
      Fld ''list'' struct_hlist_node,
      Fld ''detach_time'' typedef_u64,
      Fld ''id'' typedef_u32]),
    Bits [] c_long 64]"

lemma lay_struct_page_pool [layout_simps]:
  "sizeof struct_page_pool = 1728" "alignof struct_page_pool = 8" "wf_ty struct_page_pool" "unpacked struct_page_pool"
  by (simp_all add: struct_page_pool_def layout_simps layout_eval)

end
