(* ===== verification/Vmlinux_Blk.thy ===== *)
theory Vmlinux_Blk
  imports Vmlinux_Inet
begin

text \<open>
  The kernel objects behind the memory, files and devices the agent reads and writes: pages
  and slabs, mounts and file systems, block devices and their requests, modules and drivers,
  the entries of \<open>/proc\<close> and terminals.
  Each definition transcribes one declaration of \<open>src-bpf/vmlinux.h\<close>; the lemma after it
  evaluates its size and alignment and checks that it is well-formed.
\<close>

definition struct_page :: ctype where
  "struct_page = CStruct [
    Fld ''flags'' c_ulong,
    Fld [] (CUnion [
      Fld [] (CStruct [
        Fld [] (CUnion [
          Fld ''lru'' struct_list_head,
          Fld [] (CStruct [
            Fld ''__filler'' CPtr,
            Fld ''mlock_count'' c_uint]),
          Fld ''buddy_list'' struct_list_head,
          Fld ''pcp_list'' struct_list_head,
          Fld [] (CStruct [
            Fld ''pcp_llist'' struct_llist_node,
            Fld ''order'' c_uint])]),
        Fld ''mapping'' CPtr,
        Fld [] (CUnion [
          Fld ''__folio_index'' c_ulong,
          Fld ''share'' c_ulong]),
        Fld ''private'' c_ulong]),
      Fld [] (CStruct [
        Fld ''pp_magic'' c_ulong,
        Fld ''pp'' CPtr,
        Fld ''_pp_mapping_pad'' c_ulong,
        Fld ''dma_addr'' c_ulong,
        Fld ''pp_ref_count'' typedef_atomic_long_t]),
      Fld [] (CStruct [
        Fld ''compound_head'' c_ulong]),
      Fld [] (CStruct [
        Fld ''_unused_pgmap_compound_head'' CPtr,
        Fld ''zone_device_data'' CPtr]),
      Fld ''callback_head'' struct_callback_head]),
    Fld [] (CUnion [
      Fld ''page_type'' c_uint,
      Fld ''_mapcount'' typedef_atomic_t]),
    Fld ''_refcount'' typedef_atomic_t,
    Fld ''memcg_data'' c_ulong]"

lemma lay_struct_page [layout_simps]:
  "sizeof struct_page = 64" "alignof struct_page = 8" "wf_ty struct_page" "unpacked struct_page"
  by (simp_all add: struct_page_def layout_simps layout_eval)

definition typedef_swp_entry_t :: ctype where
  "typedef_swp_entry_t = CStruct [
    Fld ''val'' c_ulong]"

lemma lay_typedef_swp_entry_t [layout_simps]:
  "sizeof typedef_swp_entry_t = 8" "alignof typedef_swp_entry_t = 8" "wf_ty typedef_swp_entry_t" "unpacked typedef_swp_entry_t"
  by (simp_all add: typedef_swp_entry_t_def layout_simps layout_eval)

definition typedef_mm_id_mapcount_t :: ctype where
  [layout_simps]: "typedef_mm_id_mapcount_t = c_int"

definition struct_folio :: ctype where
  "struct_folio = CStruct [
    Fld [] (CUnion [
      Fld [] (CStruct [
        Fld ''flags'' c_ulong,
        Fld [] (CUnion [
          Fld ''lru'' struct_list_head,
          Fld [] (CStruct [
            Fld ''__filler'' CPtr,
            Fld ''mlock_count'' c_uint]),
          Fld ''pgmap'' CPtr]),
        Fld ''mapping'' CPtr,
        Fld [] (CUnion [
          Fld ''index'' c_ulong,
          Fld ''share'' c_ulong]),
        Fld [] (CUnion [
          Fld ''private'' CPtr,
          Fld ''swap'' typedef_swp_entry_t]),
        Fld ''_mapcount'' typedef_atomic_t,
        Fld ''_refcount'' typedef_atomic_t,
        Fld ''memcg_data'' c_ulong]),
      Fld ''page'' struct_page]),
    Fld [] (CUnion [
      Fld [] (CStruct [
        Fld ''_flags_1'' c_ulong,
        Fld ''_head_1'' c_ulong,
        Fld [] (CUnion [
          Fld [] (CStruct [
            Fld ''_large_mapcount'' typedef_atomic_t,
            Fld ''_nr_pages_mapped'' typedef_atomic_t,
            Fld ''_entire_mapcount'' typedef_atomic_t,
            Fld ''_pincount'' typedef_atomic_t,
            Fld ''_mm_id_mapcount'' (CArr 2 typedef_mm_id_mapcount_t),
            Fld [] (CUnion [
              Fld ''_mm_id'' (CArr 2 typedef_mm_id_t),
              Fld ''_mm_ids'' c_ulong])]),
          Fld ''_usable_1'' (CArr 4 c_ulong)]),
        Fld ''_mapcount_1'' typedef_atomic_t,
        Fld ''_refcount_1'' typedef_atomic_t,
        Fld ''_nr_pages'' c_uint]),
      Fld ''__page_1'' struct_page]),
    Fld [] (CUnion [
      Fld [] (CStruct [
        Fld ''_flags_2'' c_ulong,
        Fld ''_head_2'' c_ulong,
        Fld ''_deferred_list'' struct_list_head]),
      Fld ''__page_2'' struct_page]),
    Fld [] (CUnion [
      Fld [] (CStruct [
        Fld ''_flags_3'' c_ulong,
        Fld ''_head_3'' c_ulong,
        Fld ''_hugetlb_subpool'' CPtr,
        Fld ''_hugetlb_cgroup'' CPtr,
        Fld ''_hugetlb_cgroup_rsvd'' CPtr,
        Fld ''_hugetlb_hwpoison'' CPtr]),
      Fld ''__page_3'' struct_page])]"

lemma lay_struct_folio [layout_simps]:
  "sizeof struct_folio = 256" "alignof struct_folio = 8" "wf_ty struct_folio" "unpacked struct_folio"
  by (simp_all add: struct_folio_def layout_simps layout_eval)

definition typedef___u128 :: ctype where
  [layout_simps]: "typedef___u128 = c_int128"

definition typedef_u128 :: ctype where
  [layout_simps]: "typedef_u128 = typedef___u128"

definition typedef_freelist_full_t :: ctype where
  [layout_simps]: "typedef_freelist_full_t = typedef_u128"

definition typedef_freelist_aba_t :: ctype where
  "typedef_freelist_aba_t = CUnion [
    Fld [] (CStruct [
      Fld ''freelist'' CPtr,
      Fld ''counter'' c_ulong]),
    Fld ''full'' typedef_freelist_full_t]"

lemma lay_typedef_freelist_aba_t [layout_simps]:
  "sizeof typedef_freelist_aba_t = 16" "alignof typedef_freelist_aba_t = 16" "wf_ty typedef_freelist_aba_t" "unpacked typedef_freelist_aba_t"
  by (simp_all add: typedef_freelist_aba_t_def layout_simps layout_eval)

definition struct_slab :: ctype where
  "struct_slab = CStruct [
    Fld ''flags'' c_ulong,
    Fld ''slab_cache'' CPtr,
    Fld [] (CUnion [
      Fld [] (CStruct [
        Fld [] (CUnion [
          Fld ''slab_list'' struct_list_head,
          Fld [] (CStruct [
            Fld ''next'' CPtr,
            Fld ''slabs'' c_int])]),
        Fld [] (CUnion [
          Fld [] (CStruct [
            Fld ''freelist'' CPtr,
            Fld [] (CUnion [
              Fld ''counters'' c_ulong,
              Fld [] (CStruct [
                Bits ''inuse'' c_uint 16,
                Bits ''objects'' c_uint 15,
                Bits ''frozen'' c_uint 1])])]),
          Fld ''freelist_counter'' typedef_freelist_aba_t])]),
      Fld ''callback_head'' struct_callback_head]),
    Fld ''__page_type'' c_uint,
    Fld ''__page_refcount'' typedef_atomic_t,
    Fld ''obj_exts'' c_ulong]"

lemma lay_struct_slab [layout_simps]:
  "sizeof struct_slab = 64" "alignof struct_slab = 16" "wf_ty struct_slab" "unpacked struct_slab"
  by (simp_all add: struct_slab_def layout_simps layout_eval)

definition struct_reciprocal_value :: ctype where
  "struct_reciprocal_value = CStruct [
    Fld ''m'' typedef_u32,
    Fld ''sh1'' typedef_u8,
    Fld ''sh2'' typedef_u8]"

lemma lay_struct_reciprocal_value [layout_simps]:
  "sizeof struct_reciprocal_value = 8" "alignof struct_reciprocal_value = 4" "wf_ty struct_reciprocal_value" "unpacked struct_reciprocal_value"
  by (simp_all add: struct_reciprocal_value_def layout_simps layout_eval)

definition struct_kmem_cache_order_objects :: ctype where
  "struct_kmem_cache_order_objects = CStruct [
    Fld ''x'' c_uint]"

lemma lay_struct_kmem_cache_order_objects [layout_simps]:
  "sizeof struct_kmem_cache_order_objects = 4" "alignof struct_kmem_cache_order_objects = 4" "wf_ty struct_kmem_cache_order_objects" "unpacked struct_kmem_cache_order_objects"
  by (simp_all add: struct_kmem_cache_order_objects_def layout_simps layout_eval)

definition struct_kmem_cache :: ctype where
  "struct_kmem_cache = CStruct [
    Fld ''cpu_slab'' CPtr,
    Fld ''flags'' typedef_slab_flags_t,
    Fld ''min_partial'' c_ulong,
    Fld ''size'' c_uint,
    Fld ''object_size'' c_uint,
    Fld ''reciprocal_size'' struct_reciprocal_value,
    Fld ''offset'' c_uint,
    Fld ''cpu_partial'' c_uint,
    Fld ''cpu_partial_slabs'' c_uint,
    Fld ''oo'' struct_kmem_cache_order_objects,
    Fld ''min'' struct_kmem_cache_order_objects,
    Fld ''allocflags'' typedef_gfp_t,
    Fld ''refcount'' c_int,
    Fld ''ctor'' CPtr,
    Fld ''inuse'' c_uint,
    Fld ''align'' c_uint,
    Fld ''red_left_pad'' c_uint,
    Fld ''name'' CPtr,
    Fld ''list'' struct_list_head,
    Fld ''kobj'' struct_kobject,
    Fld ''random'' c_ulong,
    Fld ''remote_node_defrag_ratio'' c_uint,
    Fld ''random_seq'' CPtr,
    Fld ''useroffset'' c_uint,
    Fld ''usersize'' c_uint,
    Fld ''node'' (CArr 1024 CPtr)]"

lemma lay_struct_kmem_cache [layout_simps]:
  "sizeof struct_kmem_cache = 8408" "alignof struct_kmem_cache = 8" "wf_ty struct_kmem_cache" "unpacked struct_kmem_cache"
  by (simp_all add: struct_kmem_cache_def layout_simps layout_eval)

definition struct_mount :: ctype where
  "struct_mount = CStruct [
    Fld ''mnt_hash'' struct_hlist_node,
    Fld ''mnt_parent'' CPtr,
    Fld ''mnt_mountpoint'' CPtr,
    Fld ''mnt'' struct_vfsmount,
    Fld [] (CUnion [
      Fld ''mnt_node'' struct_rb_node,
      Fld ''mnt_rcu'' struct_callback_head,
      Fld ''mnt_llist'' struct_llist_node]),
    Fld ''mnt_pcp'' CPtr,
    Fld ''mnt_mounts'' struct_list_head,
    Fld ''mnt_child'' struct_list_head,
    Fld ''mnt_instance'' struct_list_head,
    Fld ''mnt_devname'' CPtr,
    Fld ''mnt_list'' struct_list_head,
    Fld ''mnt_expire'' struct_list_head,
    Fld ''mnt_share'' struct_list_head,
    Fld ''mnt_slave_list'' struct_hlist_head,
    Fld ''mnt_slave'' struct_hlist_node,
    Fld ''mnt_master'' CPtr,
    Fld ''mnt_ns'' CPtr,
    Fld ''mnt_mp'' CPtr,
    Fld [] (CUnion [
      Fld ''mnt_mp_list'' struct_hlist_node,
      Fld ''mnt_umount'' struct_hlist_node]),
    Fld ''mnt_fsnotify_marks'' CPtr,
    Fld ''mnt_fsnotify_mask'' typedef___u32,
    Fld ''to_notify'' struct_list_head,
    Fld ''prev_ns'' CPtr,
    Fld ''mnt_t_flags'' c_int,
    Fld ''mnt_id'' c_int,
    Fld ''mnt_id_unique'' typedef_u64,
    Fld ''mnt_group_id'' c_int,
    Fld ''mnt_expiry_mark'' c_int,
    Fld ''mnt_pins'' struct_hlist_head,
    Fld ''mnt_stuck_children'' struct_hlist_head,
    Fld ''overmount'' CPtr]"

lemma lay_struct_mount [layout_simps]:
  "sizeof struct_mount = 352" "alignof struct_mount = 8" "wf_ty struct_mount" "unpacked struct_mount"
  by (simp_all add: struct_mount_def layout_simps layout_eval)

definition struct_p_log :: ctype where
  "struct_p_log = CStruct [
    Fld ''prefix'' CPtr,
    Fld ''log'' CPtr]"

lemma lay_struct_p_log [layout_simps]:
  "sizeof struct_p_log = 16" "alignof struct_p_log = 8" "wf_ty struct_p_log" "unpacked struct_p_log"
  by (simp_all add: struct_p_log_def layout_simps layout_eval)

definition enum_fs_context_purpose :: ctype where
  "enum_fs_context_purpose = CEnum 4 [
    (''FS_CONTEXT_FOR_MOUNT'', 0),
    (''FS_CONTEXT_FOR_SUBMOUNT'', 1),
    (''FS_CONTEXT_FOR_RECONFIGURE'', 2)]"

lemma lay_enum_fs_context_purpose [layout_simps]:
  "sizeof enum_fs_context_purpose = 4" "alignof enum_fs_context_purpose = 4" "wf_ty enum_fs_context_purpose" "unpacked enum_fs_context_purpose" "is_int enum_fs_context_purpose"
  by (simp_all add: enum_fs_context_purpose_def layout_simps layout_eval)

definition enum_fs_context_phase :: ctype where
  "enum_fs_context_phase = CEnum 4 [
    (''FS_CONTEXT_CREATE_PARAMS'', 0),
    (''FS_CONTEXT_CREATING'', 1),
    (''FS_CONTEXT_AWAITING_MOUNT'', 2),
    (''FS_CONTEXT_AWAITING_RECONF'', 3),
    (''FS_CONTEXT_RECONF_PARAMS'', 4),
    (''FS_CONTEXT_RECONFIGURING'', 5),
    (''FS_CONTEXT_FAILED'', 6)]"

lemma lay_enum_fs_context_phase [layout_simps]:
  "sizeof enum_fs_context_phase = 4" "alignof enum_fs_context_phase = 4" "wf_ty enum_fs_context_phase" "unpacked enum_fs_context_phase" "is_int enum_fs_context_phase"
  by (simp_all add: enum_fs_context_phase_def layout_simps layout_eval)

definition struct_fs_context :: ctype where
  "struct_fs_context = CStruct [
    Fld ''ops'' CPtr,
    Fld ''uapi_mutex'' struct_mutex,
    Fld ''fs_type'' CPtr,
    Fld ''fs_private'' CPtr,
    Fld ''sget_key'' CPtr,
    Fld ''root'' CPtr,
    Fld ''user_ns'' CPtr,
    Fld ''net_ns'' CPtr,
    Fld ''cred'' CPtr,
    Fld ''log'' struct_p_log,
    Fld ''source'' CPtr,
    Fld ''security'' CPtr,
    Fld ''s_fs_info'' CPtr,
    Fld ''sb_flags'' c_uint,
    Fld ''sb_flags_mask'' c_uint,
    Fld ''s_iflags'' c_uint,
    Bits ''purpose'' enum_fs_context_purpose 8,
    Bits ''phase'' enum_fs_context_phase 8,
    Bits ''need_free'' typedef_bool 1,
    Bits ''global'' typedef_bool 1,
    Bits ''oldapi'' typedef_bool 1,
    Bits ''exclusive'' typedef_bool 1]"

lemma lay_struct_fs_context [layout_simps]:
  "sizeof struct_fs_context = 152" "alignof struct_fs_context = 8" "wf_ty struct_fs_context" "unpacked struct_fs_context"
  by (simp_all add: struct_fs_context_def layout_simps layout_eval)

definition struct_file_system_type :: ctype where
  "struct_file_system_type = CStruct [
    Fld ''name'' CPtr,
    Fld ''fs_flags'' c_int,
    Fld ''init_fs_context'' CPtr,
    Fld ''parameters'' CPtr,
    Fld ''mount'' CPtr,
    Fld ''kill_sb'' CPtr,
    Fld ''owner'' CPtr,
    Fld ''next'' CPtr,
    Fld ''fs_supers'' struct_hlist_head,
    Fld ''s_lock_key'' struct_lock_class_key,
    Fld ''s_umount_key'' struct_lock_class_key,
    Fld ''s_vfs_rename_key'' struct_lock_class_key,
    Fld ''s_writers_key'' (CArr 3 struct_lock_class_key),
    Fld ''i_lock_key'' struct_lock_class_key,
    Fld ''i_mutex_key'' struct_lock_class_key,
    Fld ''invalidate_lock_key'' struct_lock_class_key,
    Fld ''i_mutex_dir_key'' struct_lock_class_key]"

lemma lay_struct_file_system_type [layout_simps]:
  "sizeof struct_file_system_type = 72" "alignof struct_file_system_type = 8" "wf_ty struct_file_system_type" "unpacked struct_file_system_type"
  by (simp_all add: struct_file_system_type_def layout_simps layout_eval)

definition typedef_sector_t :: ctype where
  [layout_simps]: "typedef_sector_t = typedef_u64"

definition struct_block_device :: ctype where
  "struct_block_device = CStruct [
    Fld ''bd_start_sect'' typedef_sector_t,
    Fld ''bd_nr_sectors'' typedef_sector_t,
    Fld ''bd_disk'' CPtr,
    Fld ''bd_queue'' CPtr,
    Fld ''bd_stats'' CPtr,
    Fld ''bd_stamp'' c_ulong,
    Fld ''__bd_flags'' typedef_atomic_t,
    Fld ''bd_dev'' typedef_dev_t,
    Fld ''bd_mapping'' CPtr,
    Fld ''bd_openers'' typedef_atomic_t,
    Fld ''bd_size_lock'' typedef_spinlock_t,
    Fld ''bd_claiming'' CPtr,
    Fld ''bd_holder'' CPtr,
    Fld ''bd_holder_ops'' CPtr,
    Fld ''bd_holder_lock'' struct_mutex,
    Fld ''bd_holders'' c_int,
    Fld ''bd_holder_dir'' CPtr,
    Fld ''bd_fsfreeze_count'' typedef_atomic_t,
    Fld ''bd_fsfreeze_mutex'' struct_mutex,
    Fld ''bd_meta_info'' CPtr,
    Fld ''bd_writers'' c_int,
    Fld ''bd_security'' CPtr,
    Fld ''bd_device'' struct_device]"

lemma lay_struct_block_device [layout_simps]:
  "sizeof struct_block_device = 992" "alignof struct_block_device = 8" "wf_ty struct_block_device" "unpacked struct_block_device"
  by (simp_all add: struct_block_device_def layout_simps layout_eval)

definition struct_mempool_s :: ctype where
  "struct_mempool_s = CStruct [
    Fld ''lock'' typedef_spinlock_t,
    Fld ''min_nr'' c_int,
    Fld ''curr_nr'' c_int,
    Fld ''elements'' CPtr,
    Fld ''pool_data'' CPtr,
    Fld ''alloc'' CPtr,
    Fld ''free'' CPtr,
    Fld ''wait'' typedef_wait_queue_head_t]"

lemma lay_struct_mempool_s [layout_simps]:
  "sizeof struct_mempool_s = 72" "alignof struct_mempool_s = 8" "wf_ty struct_mempool_s" "unpacked struct_mempool_s"
  by (simp_all add: struct_mempool_s_def layout_simps layout_eval)

definition typedef_mempool_t :: ctype where
  [layout_simps]: "typedef_mempool_t = struct_mempool_s"

definition struct_bio_list :: ctype where
  "struct_bio_list = CStruct [
    Fld ''head'' CPtr,
    Fld ''tail'' CPtr]"

lemma lay_struct_bio_list [layout_simps]:
  "sizeof struct_bio_list = 16" "alignof struct_bio_list = 8" "wf_ty struct_bio_list" "unpacked struct_bio_list"
  by (simp_all add: struct_bio_list_def layout_simps layout_eval)

definition struct_bio_set :: ctype where
  "struct_bio_set = CStruct [
    Fld ''bio_slab'' CPtr,
    Fld ''front_pad'' c_uint,
    Fld ''cache'' CPtr,
    Fld ''bio_pool'' typedef_mempool_t,
    Fld ''bvec_pool'' typedef_mempool_t,
    Fld ''back_pad'' c_uint,
    Fld ''rescue_lock'' typedef_spinlock_t,
    Fld ''rescue_list'' struct_bio_list,
    Fld ''rescue_work'' struct_work_struct,
    Fld ''rescue_workqueue'' CPtr,
    Fld ''cpuhp_dead'' struct_hlist_node]"

lemma lay_struct_bio_set [layout_simps]:
  "sizeof struct_bio_set = 248" "alignof struct_bio_set = 8" "wf_ty struct_bio_set" "unpacked struct_bio_set"
  by (simp_all add: struct_bio_set_def layout_simps layout_eval)

definition typedef_blk_mode_t :: ctype where
  [layout_simps]: "typedef_blk_mode_t = c_uint"

definition struct_gendisk :: ctype where
  "struct_gendisk = CStruct [
    Fld ''major'' c_int,
    Fld ''first_minor'' c_int,
    Fld ''minors'' c_int,
    Fld ''disk_name'' (CArr 32 c_char),
    Fld ''events'' c_ushort,
    Fld ''event_flags'' c_ushort,
    Fld ''part_tbl'' struct_xarray,
    Fld ''part0'' CPtr,
    Fld ''fops'' CPtr,
    Fld ''queue'' CPtr,
    Fld ''private_data'' CPtr,
    Fld ''bio_split'' struct_bio_set,
    Fld ''flags'' c_int,
    Fld ''state'' c_ulong,
    Fld ''open_mutex'' struct_mutex,
    Fld ''open_partitions'' c_uint,
    Fld ''bdi'' CPtr,
    Fld ''queue_kobj'' struct_kobject,
    Fld ''slave_dir'' CPtr,
    Fld ''slave_bdevs'' struct_list_head,
    Fld ''random'' CPtr,
    Fld ''ev'' CPtr,
    Fld ''nr_zones'' c_uint,
    Fld ''zone_capacity'' c_uint,
    Fld ''last_zone_capacity'' c_uint,
    Fld ''conv_zones_bitmap'' CPtr,
    Fld ''zone_wplugs_hash_bits'' c_uint,
    Fld ''nr_zone_wplugs'' typedef_atomic_t,
    Fld ''zone_wplugs_lock'' typedef_spinlock_t,
    Fld ''zone_wplugs_pool'' CPtr,
    Fld ''zone_wplugs_hash'' CPtr,
    Fld ''zone_wplugs_wq'' CPtr,
    Fld ''cdi'' CPtr,
    Fld ''node_id'' c_int,
    Fld ''bb'' CPtr,
    Fld ''lockdep_map'' struct_lockdep_map,
    Fld ''diskseq'' typedef_u64,
    Fld ''open_mode'' typedef_blk_mode_t,
    Fld ''ia_ranges'' CPtr,
    Fld ''rqos_state_mutex'' struct_mutex]"

lemma lay_struct_gendisk [layout_simps]:
  "sizeof struct_gendisk = 656" "alignof struct_gendisk = 8" "wf_ty struct_gendisk" "unpacked struct_gendisk"
  by (simp_all add: struct_gendisk_def layout_simps layout_eval)

definition typedef_blk_features_t :: ctype where
  [layout_simps]: "typedef_blk_features_t = c_uint"

definition typedef_blk_flags_t :: ctype where
  [layout_simps]: "typedef_blk_flags_t = c_uint"

definition enum_blk_integrity_checksum :: ctype where
  "enum_blk_integrity_checksum = CEnum 1 [
    (''BLK_INTEGRITY_CSUM_NONE'', 0),
    (''BLK_INTEGRITY_CSUM_IP'', 1),
    (''BLK_INTEGRITY_CSUM_CRC'', 2),
    (''BLK_INTEGRITY_CSUM_CRC64'', 3)]"

lemma lay_enum_blk_integrity_checksum [layout_simps]:
  "sizeof enum_blk_integrity_checksum = 1" "alignof enum_blk_integrity_checksum = 1" "wf_ty enum_blk_integrity_checksum" "unpacked enum_blk_integrity_checksum" "is_int enum_blk_integrity_checksum"
  by (simp_all add: enum_blk_integrity_checksum_def layout_simps layout_eval)

definition struct_blk_integrity :: ctype where
  "struct_blk_integrity = CStruct [
    Fld ''flags'' c_uchar,
    Fld ''csum_type'' enum_blk_integrity_checksum,
    Fld ''metadata_size'' c_uchar,
    Fld ''pi_offset'' c_uchar,
    Fld ''interval_exp'' c_uchar,
    Fld ''tag_size'' c_uchar,
    Fld ''pi_tuple_size'' c_uchar]"

lemma lay_struct_blk_integrity [layout_simps]:
  "sizeof struct_blk_integrity = 7" "alignof struct_blk_integrity = 1" "wf_ty struct_blk_integrity" "unpacked struct_blk_integrity"
  by (simp_all add: struct_blk_integrity_def layout_simps layout_eval)

definition struct_queue_limits :: ctype where
  "struct_queue_limits = CStruct [
    Fld ''features'' typedef_blk_features_t,
    Fld ''flags'' typedef_blk_flags_t,
    Fld ''seg_boundary_mask'' c_ulong,
    Fld ''virt_boundary_mask'' c_ulong,
    Fld ''max_hw_sectors'' c_uint,
    Fld ''max_dev_sectors'' c_uint,
    Fld ''chunk_sectors'' c_uint,
    Fld ''max_sectors'' c_uint,
    Fld ''max_user_sectors'' c_uint,
    Fld ''max_segment_size'' c_uint,
    Fld ''min_segment_size'' c_uint,
    Fld ''physical_block_size'' c_uint,
    Fld ''logical_block_size'' c_uint,
    Fld ''alignment_offset'' c_uint,
    Fld ''io_min'' c_uint,
    Fld ''io_opt'' c_uint,
    Fld ''max_discard_sectors'' c_uint,
    Fld ''max_hw_discard_sectors'' c_uint,
    Fld ''max_user_discard_sectors'' c_uint,
    Fld ''max_secure_erase_sectors'' c_uint,
    Fld ''max_write_zeroes_sectors'' c_uint,
    Fld ''max_wzeroes_unmap_sectors'' c_uint,
    Fld ''max_hw_wzeroes_unmap_sectors'' c_uint,
    Fld ''max_user_wzeroes_unmap_sectors'' c_uint,
    Fld ''max_hw_zone_append_sectors'' c_uint,
    Fld ''max_zone_append_sectors'' c_uint,
    Fld ''discard_granularity'' c_uint,
    Fld ''discard_alignment'' c_uint,
    Fld ''zone_write_granularity'' c_uint,
    Fld ''atomic_write_hw_max'' c_uint,
    Fld ''atomic_write_max_sectors'' c_uint,
    Fld ''atomic_write_hw_boundary'' c_uint,
    Fld ''atomic_write_boundary_sectors'' c_uint,
    Fld ''atomic_write_hw_unit_min'' c_uint,
    Fld ''atomic_write_unit_min'' c_uint,
    Fld ''atomic_write_hw_unit_max'' c_uint,
    Fld ''atomic_write_unit_max'' c_uint,
    Fld ''max_segments'' c_ushort,
    Fld ''max_integrity_segments'' c_ushort,
    Fld ''max_discard_segments'' c_ushort,
    Fld ''max_write_streams'' c_ushort,
    Fld ''write_stream_granularity'' c_uint,
    Fld ''max_open_zones'' c_uint,
    Fld ''max_active_zones'' c_uint,
    Fld ''dma_alignment'' c_uint,
    Fld ''dma_pad_mask'' c_uint,
    Fld ''integrity'' struct_blk_integrity]"

lemma lay_struct_queue_limits [layout_simps]:
  "sizeof struct_queue_limits = 192" "alignof struct_queue_limits = 8" "wf_ty struct_queue_limits" "unpacked struct_queue_limits"
  by (simp_all add: struct_queue_limits_def layout_simps layout_eval)

definition struct_request_queue :: ctype where
  "struct_request_queue = CStruct [
    Fld ''queuedata'' CPtr,
    Fld ''elevator'' CPtr,
    Fld ''mq_ops'' CPtr,
    Fld ''queue_ctx'' CPtr,
    Fld ''queue_flags'' c_ulong,
    Fld ''rq_timeout'' c_uint,
    Fld ''queue_depth'' c_uint,
    Fld ''refs'' typedef_refcount_t,
    Fld ''nr_hw_queues'' c_uint,
    Fld ''hctx_table'' struct_xarray,
    Fld ''q_usage_counter'' struct_percpu_ref,
    Fld ''io_lock_cls_key'' struct_lock_class_key,
    Fld ''io_lockdep_map'' struct_lockdep_map,
    Fld ''q_lock_cls_key'' struct_lock_class_key,
    Fld ''q_lockdep_map'' struct_lockdep_map,
    Fld ''last_merge'' CPtr,
    Fld ''queue_lock'' typedef_spinlock_t,
    Fld ''quiesce_depth'' c_int,
    Fld ''disk'' CPtr,
    Fld ''mq_kobj'' CPtr,
    Fld ''limits'' struct_queue_limits,
    Fld ''dev'' CPtr,
    Fld ''rpm_status'' enum_rpm_status,
    Fld ''pm_only'' typedef_atomic_t,
    Fld ''stats'' CPtr,
    Fld ''rq_qos'' CPtr,
    Fld ''rq_qos_mutex'' struct_mutex,
    Fld ''id'' c_int,
    Fld ''nr_requests'' c_ulong,
    Fld ''crypto_profile'' CPtr,
    Fld ''crypto_kobject'' CPtr,
    Fld ''timeout'' struct_timer_list,
    Fld ''timeout_work'' struct_work_struct,
    Fld ''nr_active_requests_shared_tags'' typedef_atomic_t,
    Fld ''sched_shared_tags'' CPtr,
    Fld ''icq_list'' struct_list_head,
    Fld ''blkcg_pols'' (CArr 1 c_ulong),
    Fld ''root_blkg'' CPtr,
    Fld ''blkg_list'' struct_list_head,
    Fld ''blkcg_mutex'' struct_mutex,
    Fld ''node'' c_int,
    Fld ''requeue_lock'' typedef_spinlock_t,
    Fld ''requeue_list'' struct_list_head,
    Fld ''requeue_work'' struct_delayed_work,
    Fld ''blk_trace'' CPtr,
    Fld ''fq'' CPtr,
    Fld ''flush_list'' struct_list_head,
    Fld ''elevator_lock'' struct_mutex,
    Fld ''sysfs_lock'' struct_mutex,
    Fld ''limits_lock'' struct_mutex,
    Fld ''unused_hctx_list'' struct_list_head,
    Fld ''unused_hctx_lock'' typedef_spinlock_t,
    Fld ''mq_freeze_depth'' c_int,
    Fld ''td'' CPtr,
    Fld ''callback_head'' struct_callback_head,
    Fld ''mq_freeze_wq'' typedef_wait_queue_head_t,
    Fld ''mq_freeze_lock'' struct_mutex,
    Fld ''tag_set'' CPtr,
    Fld ''tag_set_list'' struct_list_head,
    Fld ''debugfs_dir'' CPtr,
    Fld ''sched_debugfs_dir'' CPtr,
    Fld ''rqos_debugfs_dir'' CPtr,
    Fld ''debugfs_mutex'' struct_mutex]"

lemma lay_struct_request_queue [layout_simps]:
  "sizeof struct_request_queue = 1000" "alignof struct_request_queue = 8" "wf_ty struct_request_queue" "unpacked struct_request_queue"
  by (simp_all add: struct_request_queue_def layout_simps layout_eval)

definition typedef_blk_opf_t :: ctype where
  [layout_simps]: "typedef_blk_opf_t = typedef___u32"

definition typedef_blk_status_t :: ctype where
  [layout_simps]: "typedef_blk_status_t = typedef_u8"

definition struct_bvec_iter :: ctype where
  "struct_bvec_iter = CPacked [
    Fld ''bi_sector'' typedef_sector_t,
    Fld ''bi_size'' c_uint,
    Fld ''bi_idx'' c_uint,
    Fld ''bi_bvec_done'' c_uint]"

lemma lay_struct_bvec_iter [layout_simps]:
  "sizeof struct_bvec_iter = 20" "alignof struct_bvec_iter = 1" "wf_ty struct_bvec_iter"
  by (simp_all add: struct_bvec_iter_def layout_simps layout_eval)

definition typedef_blk_qc_t :: ctype where
  [layout_simps]: "typedef_blk_qc_t = c_uint"

definition struct_bio_vec :: ctype where
  "struct_bio_vec = CStruct [
    Fld ''bv_page'' CPtr,
    Fld ''bv_len'' c_uint,
    Fld ''bv_offset'' c_uint]"

lemma lay_struct_bio_vec [layout_simps]:
  "sizeof struct_bio_vec = 16" "alignof struct_bio_vec = 8" "wf_ty struct_bio_vec" "unpacked struct_bio_vec"
  by (simp_all add: struct_bio_vec_def layout_simps layout_eval)

definition struct_bio :: ctype where
  "struct_bio = CStruct [
    Fld ''bi_next'' CPtr,
    Fld ''bi_bdev'' CPtr,
    Fld ''bi_opf'' typedef_blk_opf_t,
    Fld ''bi_flags'' c_ushort,
    Fld ''bi_ioprio'' c_ushort,
    Fld ''bi_write_hint'' enum_rw_hint,
    Fld ''bi_write_stream'' typedef_u8,
    Fld ''bi_status'' typedef_blk_status_t,
    Fld ''__bi_remaining'' typedef_atomic_t,
    Fld ''bi_iter'' struct_bvec_iter,
    Fld [] (CUnion [
      Fld ''bi_cookie'' typedef_blk_qc_t,
      Fld ''__bi_nr_segments'' c_uint]),
    Fld ''bi_end_io'' CPtr,
    Fld ''bi_private'' CPtr,
    Fld ''bi_blkg'' CPtr,
    Fld ''issue_time_ns'' typedef_u64,
    Fld ''bi_iocost_cost'' typedef_u64,
    Fld ''bi_crypt_context'' CPtr,
    Fld ''bi_integrity'' CPtr,
    Fld ''bi_vcnt'' c_ushort,
    Fld ''bi_max_vecs'' c_ushort,
    Fld ''__bi_cnt'' typedef_atomic_t,
    Fld ''bi_io_vec'' CPtr,
    Fld ''bi_pool'' CPtr,
    Fld ''bi_inline_vecs'' (CArr 0 struct_bio_vec)]"

lemma lay_struct_bio [layout_simps]:
  "sizeof struct_bio = 136" "alignof struct_bio = 8" "wf_ty struct_bio"
  by (simp_all add: struct_bio_def layout_simps layout_eval)

definition enum_module_state :: ctype where
  "enum_module_state = CEnum 4 [
    (''MODULE_STATE_LIVE'', 0),
    (''MODULE_STATE_COMING'', 1),
    (''MODULE_STATE_GOING'', 2),
    (''MODULE_STATE_UNFORMED'', 3)]"

lemma lay_enum_module_state [layout_simps]:
  "sizeof enum_module_state = 4" "alignof enum_module_state = 4" "wf_ty enum_module_state" "unpacked enum_module_state" "is_int enum_module_state"
  by (simp_all add: enum_module_state_def layout_simps layout_eval)

definition struct_module_kobject :: ctype where
  "struct_module_kobject = CStruct [
    Fld ''kobj'' struct_kobject,
    Fld ''mod'' CPtr,
    Fld ''drivers_dir'' CPtr,
    Fld ''mp'' CPtr,
    Fld ''kobj_completion'' CPtr]"

lemma lay_struct_module_kobject [layout_simps]:
  "sizeof struct_module_kobject = 96" "alignof struct_module_kobject = 8" "wf_ty struct_module_kobject" "unpacked struct_module_kobject"
  by (simp_all add: struct_module_kobject_def layout_simps layout_eval)

definition struct_mod_tree_node :: ctype where
  "struct_mod_tree_node = CStruct [
    Fld ''mod'' CPtr,
    Fld ''node'' struct_latch_tree_node]"

lemma lay_struct_mod_tree_node [layout_simps]:
  "sizeof struct_mod_tree_node = 56" "alignof struct_mod_tree_node = 8" "wf_ty struct_mod_tree_node" "unpacked struct_mod_tree_node"
  by (simp_all add: struct_mod_tree_node_def layout_simps layout_eval)

definition struct_module_memory :: ctype where
  "struct_module_memory = CStruct [
    Fld ''base'' CPtr,
    Fld ''is_rox'' typedef_bool,
    Fld ''size'' c_uint,
    Fld ''mtn'' struct_mod_tree_node]"

lemma lay_struct_module_memory [layout_simps]:
  "sizeof struct_module_memory = 72" "alignof struct_module_memory = 8" "wf_ty struct_module_memory" "unpacked struct_module_memory"
  by (simp_all add: struct_module_memory_def layout_simps layout_eval)

definition struct_its_array :: ctype where
  "struct_its_array = CStruct [
    Fld ''pages'' CPtr,
    Fld ''num'' c_int]"

lemma lay_struct_its_array [layout_simps]:
  "sizeof struct_its_array = 16" "alignof struct_its_array = 8" "wf_ty struct_its_array" "unpacked struct_its_array"
  by (simp_all add: struct_its_array_def layout_simps layout_eval)

definition struct_mod_arch_specific :: ctype where
  "struct_mod_arch_specific = CStruct [
    Fld ''its_pages'' struct_its_array]"

lemma lay_struct_mod_arch_specific [layout_simps]:
  "sizeof struct_mod_arch_specific = 16" "alignof struct_mod_arch_specific = 8" "wf_ty struct_mod_arch_specific" "unpacked struct_mod_arch_specific"
  by (simp_all add: struct_mod_arch_specific_def layout_simps layout_eval)

definition struct_mod_kallsyms :: ctype where
  "struct_mod_kallsyms = CStruct [
    Fld ''symtab'' CPtr,
    Fld ''num_symtab'' c_uint,
    Fld ''strtab'' CPtr,
    Fld ''typetab'' CPtr]"

lemma lay_struct_mod_kallsyms [layout_simps]:
  "sizeof struct_mod_kallsyms = 32" "alignof struct_mod_kallsyms = 8" "wf_ty struct_mod_kallsyms" "unpacked struct_mod_kallsyms"
  by (simp_all add: struct_mod_kallsyms_def layout_simps layout_eval)

definition struct__ddebug_info :: ctype where
  "struct__ddebug_info = CStruct [
    Fld ''descs'' CPtr,
    Fld ''classes'' CPtr,
    Fld ''num_descs'' c_uint,
    Fld ''num_classes'' c_uint]"

lemma lay_struct__ddebug_info [layout_simps]:
  "sizeof struct__ddebug_info = 24" "alignof struct__ddebug_info = 8" "wf_ty struct__ddebug_info" "unpacked struct__ddebug_info"
  by (simp_all add: struct__ddebug_info_def layout_simps layout_eval)

definition struct_module :: ctype where
  "struct_module = CStruct [
    Fld ''state'' enum_module_state,
    Fld ''list'' struct_list_head,
    Fld ''name'' (CArr 56 c_char),
    Fld ''mkobj'' struct_module_kobject,
    Fld ''modinfo_attrs'' CPtr,
    Fld ''version'' CPtr,
    Fld ''srcversion'' CPtr,
    Fld ''holders_dir'' CPtr,
    Fld ''syms'' CPtr,
    Fld ''crcs'' CPtr,
    Fld ''num_syms'' c_uint,
    Fld ''param_lock'' struct_mutex,
    Fld ''kp'' CPtr,
    Fld ''num_kp'' c_uint,
    Fld ''num_gpl_syms'' c_uint,
    Fld ''gpl_syms'' CPtr,
    Fld ''gpl_crcs'' CPtr,
    Fld ''using_gplonly_symbols'' typedef_bool,
    Fld ''sig_ok'' typedef_bool,
    Fld ''async_probe_requested'' typedef_bool,
    Fld ''num_exentries'' c_uint,
    Fld ''extable'' CPtr,
    Fld ''init'' CPtr,
    Fld ''mem'' (CArr 7 struct_module_memory),
    Fld ''arch'' struct_mod_arch_specific,
    Fld ''taints'' c_ulong,
    Fld ''num_bugs'' c_uint,
    Fld ''bug_list'' struct_list_head,
    Fld ''bug_table'' CPtr,
    Fld ''kallsyms'' CPtr,
    Fld ''core_kallsyms'' struct_mod_kallsyms,
    Fld ''sect_attrs'' CPtr,
    Fld ''notes_attrs'' CPtr,
    Fld ''args'' CPtr,
    Fld ''percpu'' CPtr,
    Fld ''percpu_size'' c_uint,
    Fld ''noinstr_text_start'' CPtr,
    Fld ''noinstr_text_size'' c_uint,
    Fld ''num_tracepoints'' c_uint,
    Fld ''tracepoints_ptrs'' CPtr,
    Fld ''num_srcu_structs'' c_uint,
    Fld ''srcu_struct_ptrs'' CPtr,
    Fld ''num_bpf_raw_events'' c_uint,
    Fld ''bpf_raw_events'' CPtr,
    Fld ''btf_data_size'' c_uint,
    Fld ''btf_base_data_size'' c_uint,
    Fld ''btf_data'' CPtr,
    Fld ''btf_base_data'' CPtr,
    Fld ''jump_entries'' CPtr,
    Fld ''num_jump_entries'' c_uint,
    Fld ''num_trace_bprintk_fmt'' c_uint,
    Fld ''trace_bprintk_fmt_start'' CPtr,
    Fld ''trace_events'' CPtr,
    Fld ''num_trace_events'' c_uint,
    Fld ''trace_evals'' CPtr,
    Fld ''num_trace_evals'' c_uint,
    Fld ''num_ftrace_callsites'' c_uint,
    Fld ''ftrace_callsites'' CPtr,
    Fld ''kprobes_text_start'' CPtr,
    Fld ''kprobes_text_size'' c_uint,
    Fld ''kprobe_blacklist'' CPtr,
    Fld ''num_kprobe_blacklist'' c_uint,
    Fld ''num_static_call_sites'' c_int,
    Fld ''static_call_sites'' CPtr,
    Fld ''klp'' typedef_bool,
    Fld ''klp_alive'' typedef_bool,
    Fld ''klp_info'' CPtr,
    Fld ''source_list'' struct_list_head,
    Fld ''target_list'' struct_list_head,
    Fld ''exit'' CPtr,
    Fld ''refcnt'' typedef_atomic_t,
    Fld ''ei_funcs'' CPtr,
    Fld ''num_ei_funcs'' c_uint,
    Fld ''dyndbg_info'' struct__ddebug_info,
    Bits [] c_long 64,
    Bits [] c_long 64,
    Bits [] c_long 64,
    Bits [] c_long 64]"

lemma lay_struct_module [layout_simps]:
  "sizeof struct_module = 1280" "alignof struct_module = 8" "wf_ty struct_module" "unpacked struct_module"
  by (simp_all add: struct_module_def layout_simps layout_eval)

definition enum_probe_type :: ctype where
  "enum_probe_type = CEnum 4 [
    (''PROBE_DEFAULT_STRATEGY'', 0),
    (''PROBE_PREFER_ASYNCHRONOUS'', 1),
    (''PROBE_FORCE_SYNCHRONOUS'', 2)]"

lemma lay_enum_probe_type [layout_simps]:
  "sizeof enum_probe_type = 4" "alignof enum_probe_type = 4" "wf_ty enum_probe_type" "unpacked enum_probe_type" "is_int enum_probe_type"
  by (simp_all add: enum_probe_type_def layout_simps layout_eval)

definition struct_device_driver :: ctype where
  "struct_device_driver = CStruct [
    Fld ''name'' CPtr,
    Fld ''bus'' CPtr,
    Fld ''owner'' CPtr,
    Fld ''mod_name'' CPtr,
    Fld ''suppress_bind_attrs'' typedef_bool,
    Fld ''probe_type'' enum_probe_type,
    Fld ''of_match_table'' CPtr,
    Fld ''acpi_match_table'' CPtr,
    Fld ''probe'' CPtr,
    Fld ''sync_state'' CPtr,
    Fld ''remove'' CPtr,
    Fld ''shutdown'' CPtr,
    Fld ''suspend'' CPtr,
    Fld ''resume'' CPtr,
    Fld ''groups'' CPtr,
    Fld ''dev_groups'' CPtr,
    Fld ''pm'' CPtr,
    Fld ''coredump'' CPtr,
    Fld ''p'' CPtr]"

lemma lay_struct_device_driver [layout_simps]:
  "sizeof struct_device_driver = 144" "alignof struct_device_driver = 8" "wf_ty struct_device_driver" "unpacked struct_device_driver"
  by (simp_all add: struct_device_driver_def layout_simps layout_eval)

definition struct_bus_type :: ctype where
  "struct_bus_type = CStruct [
    Fld ''name'' CPtr,
    Fld ''dev_name'' CPtr,
    Fld ''bus_groups'' CPtr,
    Fld ''dev_groups'' CPtr,
    Fld ''drv_groups'' CPtr,
    Fld ''match'' CPtr,
    Fld ''uevent'' CPtr,
    Fld ''probe'' CPtr,
    Fld ''sync_state'' CPtr,
    Fld ''remove'' CPtr,
    Fld ''shutdown'' CPtr,
    Fld ''irq_get_affinity'' CPtr,
    Fld ''online'' CPtr,
    Fld ''offline'' CPtr,
    Fld ''suspend'' CPtr,
    Fld ''resume'' CPtr,
    Fld ''num_vf'' CPtr,
    Fld ''dma_configure'' CPtr,
    Fld ''dma_cleanup'' CPtr,
    Fld ''pm'' CPtr,
    Fld ''need_parent_lock'' typedef_bool]"

lemma lay_struct_bus_type [layout_simps]:
  "sizeof struct_bus_type = 168" "alignof struct_bus_type = 8" "wf_ty struct_bus_type" "unpacked struct_bus_type"
  by (simp_all add: struct_bus_type_def layout_simps layout_eval)

definition struct_class :: ctype where
  "struct_class = CStruct [
    Fld ''name'' CPtr,
    Fld ''class_groups'' CPtr,
    Fld ''dev_groups'' CPtr,
    Fld ''dev_uevent'' CPtr,
    Fld ''devnode'' CPtr,
    Fld ''class_release'' CPtr,
    Fld ''dev_release'' CPtr,
    Fld ''shutdown_pre'' CPtr,
    Fld ''ns_type'' CPtr,
    Fld ''namespace'' CPtr,
    Fld ''get_ownership'' CPtr,
    Fld ''pm'' CPtr]"

lemma lay_struct_class [layout_simps]:
  "sizeof struct_class = 96" "alignof struct_class = 8" "wf_ty struct_class" "unpacked struct_class"
  by (simp_all add: struct_class_def layout_simps layout_eval)

definition struct_device_type :: ctype where
  "struct_device_type = CStruct [
    Fld ''name'' CPtr,
    Fld ''groups'' CPtr,
    Fld ''uevent'' CPtr,
    Fld ''devnode'' CPtr,
    Fld ''release'' CPtr,
    Fld ''pm'' CPtr]"

lemma lay_struct_device_type [layout_simps]:
  "sizeof struct_device_type = 48" "alignof struct_device_type = 8" "wf_ty struct_device_type" "unpacked struct_device_type"
  by (simp_all add: struct_device_type_def layout_simps layout_eval)

definition struct_device_dma_parameters :: ctype where
  "struct_device_dma_parameters = CStruct [
    Fld ''max_segment_size'' c_uint,
    Fld ''min_align_mask'' c_uint,
    Fld ''segment_boundary_mask'' c_ulong]"

lemma lay_struct_device_dma_parameters [layout_simps]:
  "sizeof struct_device_dma_parameters = 16" "alignof struct_device_dma_parameters = 8" "wf_ty struct_device_dma_parameters" "unpacked struct_device_dma_parameters"
  by (simp_all add: struct_device_dma_parameters_def layout_simps layout_eval)

definition typedef_pci_power_t :: ctype where
  [layout_simps]: "typedef_pci_power_t = c_int"

definition typedef_pci_channel_state_t :: ctype where
  [layout_simps]: "typedef_pci_channel_state_t = c_uint"

definition typedef_resource_size_t :: ctype where
  [layout_simps]: "typedef_resource_size_t = typedef_phys_addr_t"

definition struct_resource :: ctype where
  "struct_resource = CStruct [
    Fld ''start'' typedef_resource_size_t,
    Fld ''end'' typedef_resource_size_t,
    Fld ''name'' CPtr,
    Fld ''flags'' c_ulong,
    Fld ''desc'' c_ulong,
    Fld ''parent'' CPtr,
    Fld ''sibling'' CPtr,
    Fld ''child'' CPtr]"

lemma lay_struct_resource [layout_simps]:
  "sizeof struct_resource = 64" "alignof struct_resource = 8" "wf_ty struct_resource" "unpacked struct_resource"
  by (simp_all add: struct_resource_def layout_simps layout_eval)

definition typedef_pci_dev_flags_t :: ctype where
  [layout_simps]: "typedef_pci_dev_flags_t = c_ushort"

definition struct_pci_vpd :: ctype where
  "struct_pci_vpd = CStruct [
    Fld ''lock'' struct_mutex,
    Fld ''len'' c_uint,
    Fld ''cap'' typedef_u8]"

lemma lay_struct_pci_vpd [layout_simps]:
  "sizeof struct_pci_vpd = 40" "alignof struct_pci_vpd = 8" "wf_ty struct_pci_vpd" "unpacked struct_pci_vpd"
  by (simp_all add: struct_pci_vpd_def layout_simps layout_eval)

definition struct_pci_dev :: ctype where
  "struct_pci_dev = CStruct [
    Fld ''bus_list'' struct_list_head,
    Fld ''bus'' CPtr,
    Fld ''subordinate'' CPtr,
    Fld ''sysdata'' CPtr,
    Fld ''procent'' CPtr,
    Fld ''slot'' CPtr,
    Fld ''devfn'' c_uint,
    Fld ''vendor'' c_ushort,
    Fld ''device'' c_ushort,
    Fld ''subsystem_vendor'' c_ushort,
    Fld ''subsystem_device'' c_ushort,
    Fld ''class'' c_uint,
    Fld ''revision'' typedef_u8,
    Fld ''hdr_type'' typedef_u8,
    Fld ''aer_cap'' typedef_u16,
    Fld ''aer_info'' CPtr,
    Fld ''rcec_ea'' CPtr,
    Fld ''rcec'' CPtr,
    Fld ''devcap'' typedef_u32,
    Fld ''rebar_cap'' typedef_u16,
    Fld ''pcie_cap'' typedef_u8,
    Fld ''msi_cap'' typedef_u8,
    Fld ''msix_cap'' typedef_u8,
    Bits ''pcie_mpss'' typedef_u8 3,
    Fld ''rom_base_reg'' typedef_u8,
    Fld ''pin'' typedef_u8,
    Fld ''pcie_flags_reg'' typedef_u16,
    Fld ''dma_alias_mask'' CPtr,
    Fld ''driver'' CPtr,
    Fld ''dma_mask'' typedef_u64,
    Fld ''dma_parms'' struct_device_dma_parameters,
    Fld ''current_state'' typedef_pci_power_t,
    Fld ''pm_cap'' typedef_u8,
    Bits ''pme_support'' c_uint 5,
    Bits ''pme_poll'' c_uint 1,
    Bits ''pinned'' c_uint 1,
    Bits ''config_rrs_sv'' c_uint 1,
    Bits ''imm_ready'' c_uint 1,
    Bits ''d1_support'' c_uint 1,
    Bits ''d2_support'' c_uint 1,
    Bits ''no_d1d2'' c_uint 1,
    Bits ''no_d3cold'' c_uint 1,
    Bits ''bridge_d3'' c_uint 1,
    Bits ''d3cold_allowed'' c_uint 1,
    Bits ''mmio_always_on'' c_uint 1,
    Bits ''wakeup_prepared'' c_uint 1,
    Bits ''skip_bus_pm'' c_uint 1,
    Bits ''ignore_hotplug'' c_uint 1,
    Bits ''hotplug_user_indicators'' c_uint 1,
    Bits ''clear_retrain_link'' c_uint 1,
    Fld ''d3hot_delay'' c_uint,
    Fld ''d3cold_delay'' c_uint,
    Fld ''l1ss'' typedef_u16,
    Fld ''link_state'' CPtr,
    Bits ''ltr_path'' c_uint 1,
    Bits ''pasid_no_tlp'' c_uint 1,
    Bits ''eetlp_prefix_max'' c_uint 3,
    Fld ''error_state'' typedef_pci_channel_state_t,
    Fld ''dev'' struct_device,
    Fld ''cfg_size'' c_int,
    Fld ''irq'' c_uint,
    Fld ''resource'' (CArr 17 struct_resource),
    Fld ''driver_exclusive_resource'' struct_resource,
    Bits ''transparent'' c_uint 1,
    Bits ''io_window'' c_uint 1,
    Bits ''pref_window'' c_uint 1,
    Bits ''pref_64_window'' c_uint 1,
    Bits ''multifunction'' c_uint 1,
    Bits ''is_busmaster'' c_uint 1,
    Bits ''no_msi'' c_uint 1,
    Bits ''no_64bit_msi'' c_uint 1,
    Bits ''block_cfg_access'' c_uint 1,
    Bits ''broken_parity_status'' c_uint 1,
    Bits ''irq_reroute_variant'' c_uint 2,
    Bits ''msi_enabled'' c_uint 1,
    Bits ''msix_enabled'' c_uint 1,
    Bits ''ari_enabled'' c_uint 1,
    Bits ''ats_enabled'' c_uint 1,
    Bits ''pasid_enabled'' c_uint 1,
    Bits ''pri_enabled'' c_uint 1,
    Bits ''tph_enabled'' c_uint 1,
    Bits ''is_managed'' c_uint 1,
    Bits ''is_msi_managed'' c_uint 1,
    Bits ''needs_freset'' c_uint 1,
    Bits ''state_saved'' c_uint 1,
    Bits ''is_physfn'' c_uint 1,
    Bits ''is_virtfn'' c_uint 1,
    Bits ''is_hotplug_bridge'' c_uint 1,
    Bits ''is_pciehp'' c_uint 1,
    Bits ''shpc_managed'' c_uint 1,
    Bits ''is_thunderbolt'' c_uint 1,
    Bits ''untrusted'' c_uint 1,
    Bits ''external_facing'' c_uint 1,
    Bits ''broken_intx_masking'' c_uint 1,
    Bits ''io_window_1k'' c_uint 1,
    Bits ''irq_managed'' c_uint 1,
    Bits ''non_compliant_bars'' c_uint 1,
    Bits ''is_probed'' c_uint 1,
    Bits ''link_active_reporting'' c_uint 1,
    Bits ''no_vf_scan'' c_uint 1,
    Bits ''no_command_memory'' c_uint 1,
    Bits ''rom_bar_overlap'' c_uint 1,
    Bits ''rom_attr_enabled'' c_uint 1,
    Bits ''non_mappable_bars'' c_uint 1,
    Bits ''aspm_os_control'' c_uint 1,
    Fld ''dev_flags'' typedef_pci_dev_flags_t,
    Fld ''enable_cnt'' typedef_atomic_t,
    Fld ''pcie_cap_lock'' typedef_spinlock_t,
    Fld ''saved_config_space'' (CArr 16 typedef_u32),
    Fld ''saved_cap_space'' struct_hlist_head,
    Fld ''res_attr'' (CArr 17 CPtr),
    Fld ''res_attr_wc'' (CArr 17 CPtr),
    Bits ''broken_cmd_compl'' c_uint 1,
    Fld ''ptm_cap'' typedef_u16,
    Bits ''ptm_root'' c_uint 1,
    Bits ''ptm_enabled'' c_uint 1,
    Fld ''ptm_granularity'' typedef_u8,
    Fld ''msix_base'' CPtr,
    Fld ''msi_lock'' typedef_raw_spinlock_t,
    Fld ''vpd'' struct_pci_vpd,
    Fld ''dpc_cap'' typedef_u16,
    Bits ''dpc_rp_extensions'' c_uint 1,
    Fld ''dpc_rp_log_size'' typedef_u8,
    Fld ''link_bwctrl'' CPtr,
    Fld [] (CUnion [
      Fld ''sriov'' CPtr,
      Fld ''physfn'' CPtr]),
    Fld ''ats_cap'' typedef_u16,
    Fld ''ats_stu'' typedef_u8,
    Fld ''pri_cap'' typedef_u16,
    Fld ''pri_reqs_alloc'' typedef_u32,
    Bits ''pasid_required'' c_uint 1,
    Fld ''pasid_cap'' typedef_u16,
    Fld ''pasid_features'' typedef_u16,
    Fld ''p2pdma'' CPtr,
    Fld ''doe_mbs'' struct_xarray,
    Fld ''npem'' CPtr,
    Fld ''acs_cap'' typedef_u16,
    Fld ''supported_speeds'' typedef_u8,
    Fld ''rom'' typedef_phys_addr_t,
    Fld ''romlen'' typedef_size_t,
    Fld ''driver_override'' CPtr,
    Fld ''priv_flags'' c_ulong,
    Fld ''reset_methods'' (CArr 8 typedef_u8),
    Fld ''tph_cap'' typedef_u16,
    Fld ''tph_mode'' typedef_u8,
    Fld ''tph_req_type'' typedef_u8]"

lemma lay_struct_pci_dev [layout_simps]:
  "sizeof struct_pci_dev = 2704" "alignof struct_pci_dev = 8" "wf_ty struct_pci_dev" "unpacked struct_pci_dev"
  by (simp_all add: struct_pci_dev_def layout_simps layout_eval)

definition struct_pci_dynids :: ctype where
  "struct_pci_dynids = CStruct [
    Fld ''lock'' typedef_spinlock_t,
    Fld ''list'' struct_list_head]"

lemma lay_struct_pci_dynids [layout_simps]:
  "sizeof struct_pci_dynids = 24" "alignof struct_pci_dynids = 8" "wf_ty struct_pci_dynids" "unpacked struct_pci_dynids"
  by (simp_all add: struct_pci_dynids_def layout_simps layout_eval)

definition struct_pci_driver :: ctype where
  "struct_pci_driver = CStruct [
    Fld ''name'' CPtr,
    Fld ''id_table'' CPtr,
    Fld ''probe'' CPtr,
    Fld ''remove'' CPtr,
    Fld ''suspend'' CPtr,
    Fld ''resume'' CPtr,
    Fld ''shutdown'' CPtr,
    Fld ''sriov_configure'' CPtr,
    Fld ''sriov_set_msix_vec_count'' CPtr,
    Fld ''sriov_get_vf_total_msix'' CPtr,
    Fld ''err_handler'' CPtr,
    Fld ''groups'' CPtr,
    Fld ''dev_groups'' CPtr,
    Fld ''driver'' struct_device_driver,
    Fld ''dynids'' struct_pci_dynids,
    Fld ''driver_managed_dma'' typedef_bool]"

lemma lay_struct_pci_driver [layout_simps]:
  "sizeof struct_pci_driver = 280" "alignof struct_pci_driver = 8" "wf_ty struct_pci_driver" "unpacked struct_pci_driver"
  by (simp_all add: struct_pci_driver_def layout_simps layout_eval)

definition struct_virtio_device_id :: ctype where
  "struct_virtio_device_id = CStruct [
    Fld ''device'' typedef___u32,
    Fld ''vendor'' typedef___u32]"

lemma lay_struct_virtio_device_id [layout_simps]:
  "sizeof struct_virtio_device_id = 8" "alignof struct_virtio_device_id = 4" "wf_ty struct_virtio_device_id" "unpacked struct_virtio_device_id"
  by (simp_all add: struct_virtio_device_id_def layout_simps layout_eval)

definition struct_virtio_device :: ctype where
  "struct_virtio_device = CStruct [
    Fld ''index'' c_int,
    Fld ''failed'' typedef_bool,
    Fld ''config_core_enabled'' typedef_bool,
    Fld ''config_driver_disabled'' typedef_bool,
    Fld ''config_change_pending'' typedef_bool,
    Fld ''config_lock'' typedef_spinlock_t,
    Fld ''vqs_list_lock'' typedef_spinlock_t,
    Fld ''dev'' struct_device,
    Fld ''id'' struct_virtio_device_id,
    Fld ''config'' CPtr,
    Fld ''vringh_config'' CPtr,
    Fld ''vqs'' struct_list_head,
    Fld [] (CUnion [
      Fld ''features'' typedef_u64,
      Fld ''features_array'' (CArr 2 typedef_u64)]),
    Fld ''priv'' CPtr]"

lemma lay_struct_virtio_device [layout_simps]:
  "sizeof struct_virtio_device = 864" "alignof struct_virtio_device = 8" "wf_ty struct_virtio_device" "unpacked struct_virtio_device"
  by (simp_all add: struct_virtio_device_def layout_simps layout_eval)

definition struct_seq_file :: ctype where
  "struct_seq_file = CStruct [
    Fld ''buf'' CPtr,
    Fld ''size'' typedef_size_t,
    Fld ''from'' typedef_size_t,
    Fld ''count'' typedef_size_t,
    Fld ''pad_until'' typedef_size_t,
    Fld ''index'' typedef_loff_t,
    Fld ''read_pos'' typedef_loff_t,
    Fld ''lock'' struct_mutex,
    Fld ''op'' CPtr,
    Fld ''poll_event'' c_int,
    Fld ''file'' CPtr,
    Fld ''private'' CPtr]"

lemma lay_struct_seq_file [layout_simps]:
  "sizeof struct_seq_file = 120" "alignof struct_seq_file = 8" "wf_ty struct_seq_file" "unpacked struct_seq_file"
  by (simp_all add: struct_seq_file_def layout_simps layout_eval)

definition typedef_proc_write_t :: ctype where
  [layout_simps]: "typedef_proc_write_t = CPtr"

definition typedef_nlink_t :: ctype where
  [layout_simps]: "typedef_nlink_t = typedef_u32"

definition struct_proc_dir_entry :: ctype where
  "struct_proc_dir_entry = CStruct [
    Fld ''in_use'' typedef_atomic_t,
    Fld ''refcnt'' typedef_refcount_t,
    Fld ''pde_openers'' struct_list_head,
    Fld ''pde_unload_lock'' typedef_spinlock_t,
    Fld ''pde_unload_completion'' CPtr,
    Fld ''proc_iops'' CPtr,
    Fld [] (CUnion [
      Fld ''proc_ops'' CPtr,
      Fld ''proc_dir_ops'' CPtr]),
    Fld [] (CUnion [
      Fld ''seq_ops'' CPtr,
      Fld ''single_show'' CPtr]),
    Fld ''write'' typedef_proc_write_t,
    Fld ''data'' CPtr,
    Fld ''state_size'' c_uint,
    Fld ''low_ino'' c_uint,
    Fld ''nlink'' typedef_nlink_t,
    Fld ''uid'' typedef_kuid_t,
    Fld ''gid'' typedef_kgid_t,
    Fld ''size'' typedef_loff_t,
    Fld ''parent'' CPtr,
    Fld ''subdir'' struct_rb_root,
    Fld ''subdir_node'' struct_rb_node,
    Fld ''name'' CPtr,
    Fld ''mode'' typedef_umode_t,
    Fld ''flags'' typedef_u8,
    Fld ''namelen'' typedef_u8,
    Fld ''inline_name'' (CArr 0 c_char)]"

lemma lay_struct_proc_dir_entry [layout_simps]:
  "sizeof struct_proc_dir_entry = 168" "alignof struct_proc_dir_entry = 8" "wf_ty struct_proc_dir_entry" "unpacked struct_proc_dir_entry"
  by (simp_all add: struct_proc_dir_entry_def layout_simps layout_eval)

definition union_proc_op :: ctype where
  "union_proc_op = CUnion [
    Fld ''proc_get_link'' CPtr,
    Fld ''proc_show'' CPtr,
    Fld ''lsmid'' c_int]"

lemma lay_union_proc_op [layout_simps]:
  "sizeof union_proc_op = 8" "alignof union_proc_op = 8" "wf_ty union_proc_op" "unpacked union_proc_op"
  by (simp_all add: union_proc_op_def layout_simps layout_eval)

definition struct_proc_inode :: ctype where
  "struct_proc_inode = CStruct [
    Fld ''pid'' CPtr,
    Fld ''fd'' c_uint,
    Fld ''op'' union_proc_op,
    Fld ''pde'' CPtr,
    Fld ''sysctl'' CPtr,
    Fld ''sysctl_entry'' CPtr,
    Fld ''sibling_inodes'' struct_hlist_node,
    Fld ''ns_ops'' CPtr,
    Fld ''vfs_inode'' struct_inode]"

lemma lay_struct_proc_inode [layout_simps]:
  "sizeof struct_proc_inode = 696" "alignof struct_proc_inode = 8" "wf_ty struct_proc_inode" "unpacked struct_proc_inode"
  by (simp_all add: struct_proc_inode_def layout_simps layout_eval)

definition typedef___le32 :: ctype where
  [layout_simps]: "typedef___le32 = typedef___u32"

definition typedef_ext4_fsblk_t :: ctype where
  [layout_simps]: "typedef_ext4_fsblk_t = c_ullong"

definition typedef_ext4_group_t :: ctype where
  [layout_simps]: "typedef_ext4_group_t = c_uint"

definition typedef_ext4_lblk_t :: ctype where
  [layout_simps]: "typedef_ext4_lblk_t = typedef___u32"

definition struct_ext4_es_tree :: ctype where
  "struct_ext4_es_tree = CStruct [
    Fld ''root'' struct_rb_root,
    Fld ''cache_es'' CPtr]"

lemma lay_struct_ext4_es_tree [layout_simps]:
  "sizeof struct_ext4_es_tree = 16" "alignof struct_ext4_es_tree = 8" "wf_ty struct_ext4_es_tree" "unpacked struct_ext4_es_tree"
  by (simp_all add: struct_ext4_es_tree_def layout_simps layout_eval)

definition struct_ext4_pending_tree :: ctype where
  "struct_ext4_pending_tree = CStruct [
    Fld ''root'' struct_rb_root]"

lemma lay_struct_ext4_pending_tree [layout_simps]:
  "sizeof struct_ext4_pending_tree = 8" "alignof struct_ext4_pending_tree = 8" "wf_ty struct_ext4_pending_tree" "unpacked struct_ext4_pending_tree"
  by (simp_all add: struct_ext4_pending_tree_def layout_simps layout_eval)

definition typedef_tid_t :: ctype where
  [layout_simps]: "typedef_tid_t = c_uint"

definition typedef_projid_t :: ctype where
  [layout_simps]: "typedef_projid_t = typedef___kernel_uid32_t"

definition typedef_kprojid_t :: ctype where
  "typedef_kprojid_t = CStruct [
    Fld ''val'' typedef_projid_t]"

lemma lay_typedef_kprojid_t [layout_simps]:
  "sizeof typedef_kprojid_t = 4" "alignof typedef_kprojid_t = 4" "wf_ty typedef_kprojid_t" "unpacked typedef_kprojid_t"
  by (simp_all add: typedef_kprojid_t_def layout_simps layout_eval)

definition struct_ext4_inode_info :: ctype where
  "struct_ext4_inode_info = CStruct [
    Fld ''i_data'' (CArr 15 typedef___le32),
    Fld ''i_dtime'' typedef___u32,
    Fld ''i_file_acl'' typedef_ext4_fsblk_t,
    Fld ''i_block_group'' typedef_ext4_group_t,
    Fld ''i_dir_start_lookup'' typedef_ext4_lblk_t,
    Fld ''i_flags'' c_ulong,
    Fld ''xattr_sem'' struct_rw_semaphore,
    Fld [] (CUnion [
      Fld ''i_orphan'' struct_list_head,
      Fld ''i_orphan_idx'' c_uint]),
    Fld ''i_fc_dilist'' struct_list_head,
    Fld ''i_fc_list'' struct_list_head,
    Fld ''i_fc_lblk_start'' typedef_ext4_lblk_t,
    Fld ''i_fc_lblk_len'' typedef_ext4_lblk_t,
    Fld ''i_raw_lock'' typedef_spinlock_t,
    Fld ''i_fc_wait'' typedef_wait_queue_head_t,
    Fld ''i_fc_lock'' typedef_spinlock_t,
    Fld ''i_disksize'' typedef_loff_t,
    Fld ''i_data_sem'' struct_rw_semaphore,
    Fld ''vfs_inode'' struct_inode,
    Fld ''jinode'' CPtr,
    Fld ''i_crtime'' struct_timespec64,
    Fld ''i_prealloc_active'' typedef_atomic_t,
    Fld ''i_reserved_data_blocks'' c_uint,
    Fld ''i_prealloc_node'' struct_rb_root,
    Fld ''i_prealloc_lock'' typedef_rwlock_t,
    Fld ''i_es_tree'' struct_ext4_es_tree,
    Fld ''i_es_lock'' typedef_rwlock_t,
    Fld ''i_es_list'' struct_list_head,
    Fld ''i_es_all_nr'' c_uint,
    Fld ''i_es_shk_nr'' c_uint,
    Fld ''i_es_shrink_lblk'' typedef_ext4_lblk_t,
    Fld ''i_last_alloc_group'' typedef_ext4_group_t,
    Fld ''i_pending_tree'' struct_ext4_pending_tree,
    Fld ''i_extra_isize'' typedef___u16,
    Fld ''i_inline_off'' typedef_u16,
    Fld ''i_inline_size'' typedef_u16,
    Fld ''i_reserved_quota'' typedef_qsize_t,
    Fld ''i_block_reservation_lock'' typedef_spinlock_t,
    Fld ''i_completed_io_lock'' typedef_spinlock_t,
    Fld ''i_rsv_conversion_list'' struct_list_head,
    Fld ''i_rsv_conversion_work'' struct_work_struct,
    Fld ''i_sync_tid'' typedef_tid_t,
    Fld ''i_datasync_tid'' typedef_tid_t,
    Fld ''i_dquot'' (CArr 3 CPtr),
    Fld ''i_csum_seed'' typedef___u32,
    Fld ''i_projid'' typedef_kprojid_t]"

lemma lay_struct_ext4_inode_info [layout_simps]:
  "sizeof struct_ext4_inode_info = 1120" "alignof struct_ext4_inode_info = 8" "wf_ty struct_ext4_inode_info" "unpacked struct_ext4_inode_info"
  by (simp_all add: struct_ext4_inode_info_def layout_simps layout_eval)

definition struct_ext4_orphan_info :: ctype where
  "struct_ext4_orphan_info = CStruct [
    Fld ''of_blocks'' c_int,
    Fld ''of_csum_seed'' typedef___u32,
    Fld ''of_binfo'' CPtr]"

lemma lay_struct_ext4_orphan_info [layout_simps]:
  "sizeof struct_ext4_orphan_info = 16" "alignof struct_ext4_orphan_info = 8" "wf_ty struct_ext4_orphan_info" "unpacked struct_ext4_orphan_info"
  by (simp_all add: struct_ext4_orphan_info_def layout_simps layout_eval)

definition struct_ext4_es_stats :: ctype where
  "struct_ext4_es_stats = CStruct [
    Fld ''es_stats_shrunk'' c_ulong,
    Fld ''es_stats_cache_hits'' struct_percpu_counter,
    Fld ''es_stats_cache_misses'' struct_percpu_counter,
    Fld ''es_stats_scan_time'' typedef_u64,
    Fld ''es_stats_max_scan_time'' typedef_u64,
    Fld ''es_stats_all_cnt'' struct_percpu_counter,
    Fld ''es_stats_shk_cnt'' struct_percpu_counter]"

lemma lay_struct_ext4_es_stats [layout_simps]:
  "sizeof struct_ext4_es_stats = 184" "alignof struct_ext4_es_stats = 8" "wf_ty struct_ext4_es_stats" "unpacked struct_ext4_es_stats"
  by (simp_all add: struct_ext4_es_stats_def layout_simps layout_eval)

definition struct_jbd2_buffer_trigger_type :: ctype where
  "struct_jbd2_buffer_trigger_type = CStruct [
    Fld ''t_frozen'' CPtr,
    Fld ''t_abort'' CPtr]"

lemma lay_struct_jbd2_buffer_trigger_type [layout_simps]:
  "sizeof struct_jbd2_buffer_trigger_type = 16" "alignof struct_jbd2_buffer_trigger_type = 8" "wf_ty struct_jbd2_buffer_trigger_type" "unpacked struct_jbd2_buffer_trigger_type"
  by (simp_all add: struct_jbd2_buffer_trigger_type_def layout_simps layout_eval)

definition struct_ext4_journal_trigger :: ctype where
  "struct_ext4_journal_trigger = CStruct [
    Fld ''tr_triggers'' struct_jbd2_buffer_trigger_type,
    Fld ''sb'' CPtr]"

lemma lay_struct_ext4_journal_trigger [layout_simps]:
  "sizeof struct_ext4_journal_trigger = 24" "alignof struct_ext4_journal_trigger = 8" "wf_ty struct_ext4_journal_trigger" "unpacked struct_ext4_journal_trigger"
  by (simp_all add: struct_ext4_journal_trigger_def layout_simps layout_eval)

definition struct_fscrypt_dummy_policy :: ctype where
  "struct_fscrypt_dummy_policy = CStruct [
    Fld ''policy'' CPtr]"

lemma lay_struct_fscrypt_dummy_policy [layout_simps]:
  "sizeof struct_fscrypt_dummy_policy = 8" "alignof struct_fscrypt_dummy_policy = 8" "wf_ty struct_fscrypt_dummy_policy" "unpacked struct_fscrypt_dummy_policy"
  by (simp_all add: struct_fscrypt_dummy_policy_def layout_simps layout_eval)

definition struct_ext4_fc_stats :: ctype where
  "struct_ext4_fc_stats = CStruct [
    Fld ''fc_ineligible_reason_count'' (CArr 10 c_uint),
    Fld ''fc_num_commits'' c_ulong,
    Fld ''fc_ineligible_commits'' c_ulong,
    Fld ''fc_failed_commits'' c_ulong,
    Fld ''fc_skipped_commits'' c_ulong,
    Fld ''fc_numblks'' c_ulong,
    Fld ''s_fc_avg_commit_time'' typedef_u64]"

lemma lay_struct_ext4_fc_stats [layout_simps]:
  "sizeof struct_ext4_fc_stats = 88" "alignof struct_ext4_fc_stats = 8" "wf_ty struct_ext4_fc_stats" "unpacked struct_ext4_fc_stats"
  by (simp_all add: struct_ext4_fc_stats_def layout_simps layout_eval)

definition struct_ext4_fc_replay_state :: ctype where
  "struct_ext4_fc_replay_state = CStruct [
    Fld ''fc_replay_num_tags'' c_int,
    Fld ''fc_replay_expected_off'' c_int,
    Fld ''fc_current_pass'' c_int,
    Fld ''fc_cur_tag'' c_int,
    Fld ''fc_crc'' c_int,
    Fld ''fc_regions'' CPtr,
    Fld ''fc_regions_size'' c_int,
    Fld ''fc_regions_used'' c_int,
    Fld ''fc_regions_valid'' c_int,
    Fld ''fc_modified_inodes'' CPtr,
    Fld ''fc_modified_inodes_used'' c_int,
    Fld ''fc_modified_inodes_size'' c_int]"

lemma lay_struct_ext4_fc_replay_state [layout_simps]:
  "sizeof struct_ext4_fc_replay_state = 64" "alignof struct_ext4_fc_replay_state = 8" "wf_ty struct_ext4_fc_replay_state" "unpacked struct_ext4_fc_replay_state"
  by (simp_all add: struct_ext4_fc_replay_state_def layout_simps layout_eval)

definition struct_ext4_sb_info_members1 :: "member list" where
  "struct_ext4_sb_info_members1 = [
    Fld ''s_desc_size'' c_ulong,
    Fld ''s_inodes_per_block'' c_ulong,
    Fld ''s_blocks_per_group'' c_ulong,
    Fld ''s_clusters_per_group'' c_ulong,
    Fld ''s_inodes_per_group'' c_ulong,
    Fld ''s_itb_per_group'' c_ulong,
    Fld ''s_gdb_count'' c_ulong,
    Fld ''s_desc_per_block'' c_ulong,
    Fld ''s_groups_count'' typedef_ext4_group_t,
    Fld ''s_blockfile_groups'' typedef_ext4_group_t,
    Fld ''s_overhead'' c_ulong,
    Fld ''s_cluster_ratio'' c_uint,
    Fld ''s_cluster_bits'' c_uint,
    Fld ''s_bitmap_maxbytes'' typedef_loff_t,
    Fld ''s_sbh'' CPtr,
    Fld ''s_es'' CPtr,
    Fld ''s_group_desc'' CPtr,
    Fld ''s_mount_opt'' c_uint,
    Fld ''s_mount_opt2'' c_uint,
    Fld ''s_mount_flags'' c_ulong,
    Fld ''s_def_mount_opt'' c_uint,
    Fld ''s_def_mount_opt2'' c_uint,
    Fld ''s_sb_block'' typedef_ext4_fsblk_t,
    Fld ''s_resv_clusters'' typedef_atomic64_t,
    Fld ''s_resuid'' typedef_kuid_t,
    Fld ''s_resgid'' typedef_kgid_t,
    Fld ''s_mount_state'' c_ushort,
    Fld ''s_pad'' c_ushort,
    Fld ''s_addr_per_block_bits'' c_int,
    Fld ''s_desc_per_block_bits'' c_int,
    Fld ''s_inode_size'' c_int,
    Fld ''s_first_ino'' c_int,
    Fld ''s_inode_readahead_blks'' c_uint,
    Fld ''s_inode_goal'' c_uint,
    Fld ''s_hash_seed'' (CArr 4 typedef_u32),
    Fld ''s_def_hash_version'' c_int,
    Fld ''s_hash_unsigned'' c_int,
    Fld ''s_freeclusters_counter'' struct_percpu_counter,
    Fld ''s_freeinodes_counter'' struct_percpu_counter,
    Fld ''s_dirs_counter'' struct_percpu_counter,
    Fld ''s_dirtyclusters_counter'' struct_percpu_counter,
    Fld ''s_sra_exceeded_retry_limit'' struct_percpu_counter,
    Fld ''s_blockgroup_lock'' CPtr,
    Fld ''s_proc'' CPtr,
    Fld ''s_kobj'' struct_kobject,
    Fld ''s_kobj_unregister'' struct_completion,
    Fld ''s_sb'' CPtr,
    Fld ''s_mmp_bh'' CPtr,
    Fld ''s_journal'' CPtr,
    Fld ''s_ext4_flags'' c_ulong,
    Fld ''s_orphan_lock'' struct_mutex,
    Fld ''s_orphan'' struct_list_head,
    Fld ''s_orphan_info'' struct_ext4_orphan_info,
    Fld ''s_commit_interval'' c_ulong,
    Fld ''s_max_batch_time'' typedef_u32,
    Fld ''s_min_batch_time'' typedef_u32,
    Fld ''s_journal_bdev_file'' CPtr,
    Fld ''s_qf_names'' (CArr 3 CPtr),
    Fld ''s_jquota_fmt'' c_int,
    Fld ''s_want_extra_isize'' c_uint,
    Fld ''s_system_blks'' CPtr,
    Fld ''s_group_info'' CPtr,
    Fld ''s_buddy_cache'' CPtr,
    Fld ''s_md_lock'' typedef_spinlock_t,
    Fld ''s_mb_offsets'' CPtr,
    Fld ''s_mb_maxs'' CPtr,
    Fld ''s_group_info_size'' c_uint,
    Fld ''s_mb_free_pending'' typedef_atomic_t,
    Fld ''s_freed_data_list'' (CArr 2 struct_list_head),
    Fld ''s_discard_list'' struct_list_head,
    Fld ''s_discard_work'' struct_work_struct,
    Fld ''s_retry_alloc_pending'' typedef_atomic_t,
    Fld ''s_mb_avg_fragment_size'' CPtr,
    Fld ''s_mb_largest_free_orders'' CPtr,
    Fld ''s_stripe'' c_ulong,
    Fld ''s_mb_max_linear_groups'' c_uint,
    Fld ''s_mb_stream_request'' c_uint,
    Fld ''s_mb_max_to_scan'' c_uint,
    Fld ''s_mb_min_to_scan'' c_uint,
    Fld ''s_mb_stats'' c_uint,
    Fld ''s_mb_order2_reqs'' c_uint,
    Fld ''s_mb_group_prealloc'' c_uint,
    Fld ''s_max_dir_size_kb'' c_uint,
    Fld ''s_mb_prefetch'' c_uint,
    Fld ''s_mb_prefetch_limit'' c_uint,
    Fld ''s_mb_best_avail_max_trim_order'' c_uint,
    Fld ''s_sb_update_sec'' c_uint,
    Fld ''s_sb_update_kb'' c_uint,
    Fld ''s_mb_last_groups'' CPtr,
    Fld ''s_mb_nr_global_goals'' c_uint]"

definition struct_ext4_sb_info_members2 :: "member list" where
  "struct_ext4_sb_info_members2 = [
    Fld ''s_bal_reqs'' typedef_atomic_t,
    Fld ''s_bal_success'' typedef_atomic_t,
    Fld ''s_bal_allocated'' typedef_atomic_t,
    Fld ''s_bal_ex_scanned'' typedef_atomic_t,
    Fld ''s_bal_cX_ex_scanned'' (CArr 5 typedef_atomic_t),
    Fld ''s_bal_groups_scanned'' typedef_atomic_t,
    Fld ''s_bal_goals'' typedef_atomic_t,
    Fld ''s_bal_stream_goals'' typedef_atomic_t,
    Fld ''s_bal_len_goals'' typedef_atomic_t,
    Fld ''s_bal_breaks'' typedef_atomic_t,
    Fld ''s_bal_2orders'' typedef_atomic_t,
    Fld ''s_bal_cX_groups_considered'' (CArr 5 typedef_atomic64_t),
    Fld ''s_bal_cX_hits'' (CArr 5 typedef_atomic64_t),
    Fld ''s_bal_cX_failed'' (CArr 5 typedef_atomic64_t),
    Fld ''s_mb_buddies_generated'' typedef_atomic_t,
    Fld ''s_mb_generation_time'' typedef_atomic64_t,
    Fld ''s_mb_lost_chunks'' typedef_atomic_t,
    Fld ''s_mb_preallocated'' typedef_atomic_t,
    Fld ''s_mb_discarded'' typedef_atomic_t,
    Fld ''s_lock_busy'' typedef_atomic_t,
    Fld ''s_locality_groups'' CPtr,
    Fld ''s_sectors_written_start'' c_ulong,
    Fld ''s_kbytes_written'' typedef_u64,
    Fld ''s_extent_max_zeroout_kb'' c_uint,
    Fld ''s_log_groups_per_flex'' c_uint,
    Fld ''s_flex_groups'' CPtr,
    Fld ''s_flex_groups_allocated'' typedef_ext4_group_t,
    Fld ''rsv_conversion_wq'' CPtr,
    Fld ''s_err_report'' struct_timer_list,
    Fld ''s_li_request'' CPtr,
    Fld ''s_li_wait_mult'' c_uint,
    Fld ''s_mmp_tsk'' CPtr,
    Fld ''s_last_trim_minblks'' c_ulong,
    Fld ''s_csum_seed'' typedef___u32,
    Fld ''s_es_shrinker'' CPtr,
    Fld ''s_es_list'' struct_list_head,
    Fld ''s_es_nr_inode'' c_long,
    Fld ''s_es_stats'' struct_ext4_es_stats,
    Fld ''s_ea_block_cache'' CPtr,
    Fld ''s_ea_inode_cache'' CPtr,
    Bits [] c_long 64,
    Bits [] c_long 64,
    Bits [] c_long 64,
    Bits [] c_long 64,
    Fld ''s_es_lock'' typedef_spinlock_t,
    Fld ''s_journal_triggers'' (CArr 1 struct_ext4_journal_trigger),
    Fld ''s_err_ratelimit_state'' struct_ratelimit_state,
    Fld ''s_warning_ratelimit_state'' struct_ratelimit_state,
    Fld ''s_msg_ratelimit_state'' struct_ratelimit_state,
    Fld ''s_warning_count'' typedef_atomic_t,
    Fld ''s_msg_count'' typedef_atomic_t,
    Fld ''s_dummy_enc_policy'' struct_fscrypt_dummy_policy,
    Fld ''s_writepages_rwsem'' struct_percpu_rw_semaphore,
    Fld ''s_daxdev'' CPtr,
    Fld ''s_dax_part_off'' typedef_u64,
    Fld ''s_bdev_wb_err'' typedef_errseq_t,
    Fld ''s_bdev_wb_lock'' typedef_spinlock_t,
    Fld ''s_error_lock'' typedef_spinlock_t,
    Fld ''s_add_error_count'' c_int,
    Fld ''s_first_error_code'' c_int,
    Fld ''s_first_error_line'' typedef___u32,
    Fld ''s_first_error_ino'' typedef___u32,
    Fld ''s_first_error_block'' typedef___u64,
    Fld ''s_first_error_func'' CPtr,
    Fld ''s_first_error_time'' typedef_time64_t,
    Fld ''s_last_error_code'' c_int,
    Fld ''s_last_error_line'' typedef___u32,
    Fld ''s_last_error_ino'' typedef___u32,
    Fld ''s_last_error_block'' typedef___u64,
    Fld ''s_last_error_func'' CPtr,
    Fld ''s_last_error_time'' typedef_time64_t,
    Fld ''s_sb_upd_work'' struct_work_struct,
    Fld ''s_awu_min'' c_uint,
    Fld ''s_awu_max'' c_uint,
    Fld ''s_fc_subtid'' typedef_atomic_t,
    Fld ''s_fc_q'' (CArr 2 struct_list_head),
    Fld ''s_fc_dentry_q'' (CArr 2 struct_list_head),
    Fld ''s_fc_bytes'' c_uint,
    Fld ''s_fc_lock'' struct_mutex,
    Fld ''s_fc_bh'' CPtr,
    Fld ''s_fc_stats'' struct_ext4_fc_stats,
    Fld ''s_fc_ineligible_tid'' typedef_tid_t,
    Fld ''s_fc_replay_state'' struct_ext4_fc_replay_state,
    Bits [] c_long 64,
    Bits [] c_long 64,
    Bits [] c_long 64,
    Bits [] c_long 64]"

definition struct_ext4_sb_info :: ctype where
  "struct_ext4_sb_info = CStruct (struct_ext4_sb_info_members1 @ struct_ext4_sb_info_members2)"

lemma lay_struct_ext4_sb_info [layout_simps]:
  "sizeof struct_ext4_sb_info = 2240" "alignof struct_ext4_sb_info = 8" "wf_ty struct_ext4_sb_info" "unpacked struct_ext4_sb_info"
  by (simp_all add: struct_ext4_sb_info_def struct_ext4_sb_info_members1_def struct_ext4_sb_info_members2_def layout_simps layout_eval)

definition struct_ld_semaphore :: ctype where
  "struct_ld_semaphore = CStruct [
    Fld ''count'' typedef_atomic_long_t,
    Fld ''wait_lock'' typedef_raw_spinlock_t,
    Fld ''wait_readers'' c_uint,
    Fld ''read_wait'' struct_list_head,
    Fld ''write_wait'' struct_list_head]"

lemma lay_struct_ld_semaphore [layout_simps]:
  "sizeof struct_ld_semaphore = 48" "alignof struct_ld_semaphore = 8" "wf_ty struct_ld_semaphore" "unpacked struct_ld_semaphore"
  by (simp_all add: struct_ld_semaphore_def layout_simps layout_eval)

definition typedef_tcflag_t :: ctype where
  [layout_simps]: "typedef_tcflag_t = c_uint"

definition typedef_cc_t :: ctype where
  [layout_simps]: "typedef_cc_t = c_uchar"

definition typedef_speed_t :: ctype where
  [layout_simps]: "typedef_speed_t = c_uint"

definition struct_ktermios :: ctype where
  "struct_ktermios = CStruct [
    Fld ''c_iflag'' typedef_tcflag_t,
    Fld ''c_oflag'' typedef_tcflag_t,
    Fld ''c_cflag'' typedef_tcflag_t,
    Fld ''c_lflag'' typedef_tcflag_t,
    Fld ''c_line'' typedef_cc_t,
    Fld ''c_cc'' (CArr 19 typedef_cc_t),
    Fld ''c_ispeed'' typedef_speed_t,
    Fld ''c_ospeed'' typedef_speed_t]"

lemma lay_struct_ktermios [layout_simps]:
  "sizeof struct_ktermios = 44" "alignof struct_ktermios = 4" "wf_ty struct_ktermios" "unpacked struct_ktermios"
  by (simp_all add: struct_ktermios_def layout_simps layout_eval)

definition struct_winsize :: ctype where
  "struct_winsize = CStruct [
    Fld ''ws_row'' c_ushort,
    Fld ''ws_col'' c_ushort,
    Fld ''ws_xpixel'' c_ushort,
    Fld ''ws_ypixel'' c_ushort]"

lemma lay_struct_winsize [layout_simps]:
  "sizeof struct_winsize = 8" "alignof struct_winsize = 2" "wf_ty struct_winsize" "unpacked struct_winsize"
  by (simp_all add: struct_winsize_def layout_simps layout_eval)

definition struct_tty_struct :: ctype where
  "struct_tty_struct = CStruct [
    Fld ''kref'' struct_kref,
    Fld ''index'' c_int,
    Fld ''dev'' CPtr,
    Fld ''driver'' CPtr,
    Fld ''port'' CPtr,
    Fld ''ops'' CPtr,
    Fld ''ldisc'' CPtr,
    Fld ''ldisc_sem'' struct_ld_semaphore,
    Fld ''atomic_write_lock'' struct_mutex,
    Fld ''legacy_mutex'' struct_mutex,
    Fld ''throttle_mutex'' struct_mutex,
    Fld ''termios_rwsem'' struct_rw_semaphore,
    Fld ''winsize_mutex'' struct_mutex,
    Fld ''termios'' struct_ktermios,
    Fld ''termios_locked'' struct_ktermios,
    Fld ''name'' (CArr 64 c_char),
    Fld ''flags'' c_ulong,
    Fld ''count'' c_int,
    Fld ''receive_room'' c_uint,
    Fld ''winsize'' struct_winsize,
    Fld ''flow'' (CStruct [
      Fld ''lock'' typedef_spinlock_t,
      Fld ''stopped'' typedef_bool,
      Fld ''tco_stopped'' typedef_bool]),
    Fld ''ctrl'' (CStruct [
      Fld ''pgrp'' CPtr,
      Fld ''session'' CPtr,
      Fld ''lock'' typedef_spinlock_t,
      Fld ''pktstatus'' c_uchar,
      Fld ''packet'' typedef_bool]),
    Fld ''hw_stopped'' typedef_bool,
    Fld ''closing'' typedef_bool,
    Fld ''flow_change'' c_int,
    Fld ''link'' CPtr,
    Fld ''fasync'' CPtr,
    Fld ''write_wait'' typedef_wait_queue_head_t,
    Fld ''read_wait'' typedef_wait_queue_head_t,
    Fld ''hangup_work'' struct_work_struct,
    Fld ''disc_data'' CPtr,
    Fld ''driver_data'' CPtr,
    Fld ''files_lock'' typedef_spinlock_t,
    Fld ''write_cnt'' c_int,
    Fld ''write_buf'' CPtr,
    Fld ''tty_files'' struct_list_head,
    Fld ''SAK_work'' struct_work_struct]"

lemma lay_struct_tty_struct [layout_simps]:
  "sizeof struct_tty_struct = 656" "alignof struct_tty_struct = 8" "wf_ty struct_tty_struct" "unpacked struct_tty_struct"
  by (simp_all add: struct_tty_struct_def layout_simps layout_eval)

definition enum_tty_driver_type :: ctype where
  "enum_tty_driver_type = CEnum 4 [
    (''TTY_DRIVER_TYPE_SYSTEM'', 0),
    (''TTY_DRIVER_TYPE_CONSOLE'', 1),
    (''TTY_DRIVER_TYPE_SERIAL'', 2),
    (''TTY_DRIVER_TYPE_PTY'', 3),
    (''TTY_DRIVER_TYPE_SCC'', 4),
    (''TTY_DRIVER_TYPE_SYSCONS'', 5)]"

lemma lay_enum_tty_driver_type [layout_simps]:
  "sizeof enum_tty_driver_type = 4" "alignof enum_tty_driver_type = 4" "wf_ty enum_tty_driver_type" "unpacked enum_tty_driver_type" "is_int enum_tty_driver_type"
  by (simp_all add: enum_tty_driver_type_def layout_simps layout_eval)

definition enum_tty_driver_subtype :: ctype where
  "enum_tty_driver_subtype = CEnum 4 [
    (''SYSTEM_TYPE_TTY'', 1),
    (''SYSTEM_TYPE_CONSOLE'', 2),
    (''SYSTEM_TYPE_SYSCONS'', 3),
    (''SYSTEM_TYPE_SYSPTMX'', 4),
    (''PTY_TYPE_MASTER'', 1),
    (''PTY_TYPE_SLAVE'', 2),
    (''SERIAL_TYPE_NORMAL'', 1)]"

lemma lay_enum_tty_driver_subtype [layout_simps]:
  "sizeof enum_tty_driver_subtype = 4" "alignof enum_tty_driver_subtype = 4" "wf_ty enum_tty_driver_subtype" "unpacked enum_tty_driver_subtype" "is_int enum_tty_driver_subtype"
  by (simp_all add: enum_tty_driver_subtype_def layout_simps layout_eval)

definition struct_tty_driver :: ctype where
  "struct_tty_driver = CStruct [
    Fld ''kref'' struct_kref,
    Fld ''cdevs'' CPtr,
    Fld ''owner'' CPtr,
    Fld ''driver_name'' CPtr,
    Fld ''name'' CPtr,
    Fld ''name_base'' c_int,
    Fld ''major'' c_int,
    Fld ''minor_start'' c_int,
    Fld ''num'' c_uint,
    Fld ''type'' enum_tty_driver_type,
    Fld ''subtype'' enum_tty_driver_subtype,
    Fld ''init_termios'' struct_ktermios,
    Fld ''flags'' c_ulong,
    Fld ''proc_entry'' CPtr,
    Fld ''other'' CPtr,
    Fld ''ttys'' CPtr,
    Fld ''ports'' CPtr,
    Fld ''termios'' CPtr,
    Fld ''driver_state'' CPtr,
    Fld ''ops'' CPtr,
    Fld ''tty_drivers'' struct_list_head]"

lemma lay_struct_tty_driver [layout_simps]:
  "sizeof struct_tty_driver = 192" "alignof struct_tty_driver = 8" "wf_ty struct_tty_driver" "unpacked struct_tty_driver"
  by (simp_all add: struct_tty_driver_def layout_simps layout_eval)

end
