(* ===== verification/Kernel_Objects.thy ===== *)
theory Kernel_Objects
  imports Vmlinux_Blk
begin

text \<open>
  The declarations of \<open>vmlinux.h\<close> together: one theorem on the layout of every struct and union
  modelled.
\<close>

section \<open>Sound layouts\<close>

fun is_union :: "ctype \<Rightarrow> bool" where
  "is_union (CUnion ms) = True"
| "is_union _ = False"

text \<open>
  The members of a struct occupy disjoint, increasing ranges of bits; all members lie inside the
  object, as do the named ones that anonymous structs and unions contribute; where nothing is
  packed these are aligned for their type.
\<close>

definition layout_sound :: "ctype \<Rightarrow> bool" where
  "layout_sound t \<longleftrightarrow>
     (\<not> is_union t \<longrightarrow> sorted_wrt before (members_of t)) \<and>
     (\<forall>(i, m) \<in> set (members_of t). i + mwidth m \<le> 8 * sizeof t) \<and>
     (\<forall>nm i ft. field_of t nm = Some (i, ft) \<longrightarrow> i + sizeof ft \<le> sizeof t \<and> (unpacked t \<longrightarrow> alignof ft dvd i))"

lemma wf_layout_sound:
  assumes "wf_ty t"
  shows "layout_sound t"
proof -
  have "sorted_wrt before (members_of t)" if "\<not> is_union t"
    using assms that place_disjoint by (cases t) (auto simp: members_of_def)
  moreover have "\<forall>(i, m) \<in> set (members_of t). i + mwidth m \<le> 8 * sizeof t"
    using members_in_bounds [OF assms] by blast
  ultimately show ?thesis
    using field_of_in_bounds [OF assms] field_of_aligned [OF assms] by (auto simp: layout_sound_def)
qed

section \<open>The objects\<close>

text \<open>Network headers and contexts.\<close>

definition net_objects :: "ctype list" where
  "net_objects = [
    struct_ethhdr, struct_iphdr, struct_tcphdr, struct_xdp_md, struct_xdp_buff, struct_trace_entry,
    struct_trace_event_raw_sys_enter, struct_fred_cs, struct_fred_ss, struct_pt_regs]"

text \<open>The task.\<close>

definition task_objects :: "ctype list" where
  "task_objects = [
    struct_thread_info, typedef_atomic_t, struct_refcount_struct, struct_llist_node,
    struct___call_single_node, struct_load_weight, struct_rb_node, struct_list_head, struct_sched_avg,
    struct_sched_entity, struct_sched_rt_entity, struct_timerqueue_node, struct_hrtimer,
    struct_sched_dl_entity, struct_scx_dsq_list_node, typedef_atomic64_t, struct_sched_ext_entity,
    struct_uclamp_se, struct_sched_statistics, struct_hlist_head, struct_cpumask, union_rcu_special,
    struct_sched_info, struct_plist_node, struct_restart_block, struct_hlist_node, struct_qspinlock,
    struct_raw_spinlock, struct_prev_cputime, struct_seqcount, struct_vtime, struct_rb_root,
    struct_rb_root_cached, struct_timerqueue_head, struct_posix_cputimer_base, struct_posix_cputimers,
    struct_callback_head, struct_optimistic_spin_queue, struct_mutex, struct_posix_cputimers_work,
    struct_sysv_sem, struct_sysv_shm, typedef_sigset_t, struct_sigpending, typedef_kuid_t,
    struct_seccomp, struct_syscall_user_dispatch, struct_spinlock, struct_wake_q_node,
    struct_task_io_accounting, typedef_nodemask_t, struct_seqcount_spinlock,
    struct_arch_tlbflush_unmap_batch, struct_tlbflush_unmap_batch, struct_page_frag,
    struct_latency_record, struct_kmap_ctrl, struct_timer_list, struct_llist_head, struct_da_monitor,
    struct_ltl_monitor, union_rv_task_monitor, struct_desc_struct, struct_thread_shstk,
    struct_thread_struct, struct_task_struct]"

text \<open>Files.\<close>

definition fs_objects :: "ctype list" where
  "fs_objects = [
    struct_path, struct_file_ra_state, typedef_freeptr_t, typedef_file_ref_t, struct_file,
    typedef_kgid_t, struct_rw_semaphore, struct_xarray, struct_address_space, struct_inode,
    struct_hlist_bl_node, struct_qstr, union_shortname_store, struct_lockref, struct_dentry,
    struct_vfsmount, struct_hlist_bl_head, struct_mem_dqinfo, struct_quota_info, struct_wait_queue_head,
    struct_rcu_sync, struct_rcuwait, struct_percpu_rw_semaphore, struct_sb_writers, typedef_uuid_t,
    struct_list_lru, struct_work_struct, struct_super_block, struct_file_operations,
    struct_inode_operations, struct_address_space_operations]"

text \<open>Processes.\<close>

definition proc_objects :: "ctype list" where
  "proc_objects = [
    typedef_kernel_cap_t, struct_cred, struct_percpu_counter, struct_ratelimit_state,
    struct_user_struct, union_sigval, union___sifields, struct_kernel_siginfo, struct_sigaction,
    struct_k_sigaction, struct_sighand_struct, struct_cpu_itimer, struct_task_cputime_atomic,
    struct_thread_group_cputimer, typedef_seqlock_t, struct_rlimit, struct_pacct_struct,
    struct_signal_struct, struct_fs_struct, struct_fdtable, struct_files_struct, struct_nsproxy,
    struct_upid, struct_pid, struct_pgprot, struct_vm_userfaultfd_ctx, struct_vm_area_struct,
    typedef_lockdep_map_p, struct_maple_tree, typedef_mm_context_t, struct_uprobes_state,
    struct_mm_struct, struct_vm_struct, struct_io_context, struct_sched_class, struct_css_set,
    struct_percpu_ref, struct_rcu_work, struct_cgroup_subsys_state, struct_scx_task_group,
    struct_cfs_bandwidth, struct_task_group]"

text \<open>Maps and programs.\<close>

definition bpf_objects :: "ctype list" where
  "bpf_objects = [
    struct_bpf_map, struct_bpf_mem_alloc, struct_pcpu_freelist, struct_bpf_lru_list,
    struct_bpf_common_lru, struct_bpf_lru, struct_bpf_htab, struct_bpf_array, struct_irq_work,
    struct_bpf_ringbuf, struct_bpf_ringbuf_map, struct_sock_filter, struct_bpf_insn, struct_bpf_prog,
    struct_latch_tree_node, struct_bpf_ksym, struct_bpf_stream, struct_bpf_prog_aux]"

text \<open>Devices and sockets.\<close>

definition dev_objects :: "ctype list" where
  "dev_objects = [
    struct_sk_buff, struct_xdp_mem_info, struct_xdp_rxq_info, struct_xdp_frame, struct_gro_list,
    struct_gro_node, struct_kref, struct_irq_affinity_notify, struct_napi_struct, struct_kobject,
    typedef_netdevice_tracker, struct_pp_memory_provider_params, struct_netdev_rx_queue,
    struct_net_device_ops, struct_netdev_tc_txq, typedef_possible_net_t, struct_net_device_stats,
    struct_netdev_hw_addr_list, struct_ref_tracker_dir, struct_dev_links_info, struct_pm_message,
    struct_swait_queue_head, struct_completion, struct_dev_pm_info, struct_dev_msi_info,
    struct_dev_archdata, struct_device, struct_bpf_xdp_entity, struct_net_device, struct_iovec,
    struct_iov_iter, struct_msghdr, struct_proto_ops, struct_socket_wq, struct_socket, struct_proto,
    struct_in6_addr, struct_hlist_nulls_node, struct_sock_common, struct_sk_buff_list,
    struct_sk_buff_head, typedef_socket_lock_t, struct_qrwlock, typedef_rwlock_t,
    struct_sock_cgroup_data, typedef_netns_tracker, struct_sock]"

text \<open>Tracing.\<close>

definition trace_objects :: "ctype list" where
  "trace_objects = [
    struct_static_key, struct_static_key_false, struct_tracepoint, struct_trace_event,
    struct_trace_event_call, struct_arch_specific_insn, struct_kprobe, struct_kretprobe, union_bpf_attr,
    struct_bpf_link, struct_bpf_tramp_link, struct_bpf_tracing_link, struct_bpf_link_info,
    struct_bpf_map_ops, struct_bpf_prog_ops, typedef_local_t, typedef_local64_t, struct_perf_event_attr,
    struct_hw_perf_event_extra, struct_arch_hw_breakpoint, struct_rhash_head, struct_rhlist_head,
    struct_hw_perf_event, struct_perf_addr_filters_head, struct_ftrace_ops_hash, struct_ftrace_ops,
    struct_perf_event, struct_vm_operations_struct, struct_super_operations, struct_dentry_operations,
    struct_cgroup_file, struct_cacheline_padding, struct_task_cputime, struct_cgroup_base_stat,
    struct_cgroup_bpf, struct_cgroup_freezer_state, struct_cgroup, struct_mem_cgroup_id,
    struct_page_counter, struct_vmpressure, struct_fprop_global, struct_wb_domain, struct_wb_completion,
    struct_memcg_cgwb_frn, struct_deferred_split, struct_lru_gen_mm_list, struct_mem_cgroup_thresholds,
    struct_mem_cgroup]"

text \<open>Loading and attaching.\<close>

definition load_objects :: "ctype list" where
  "load_objects = [
    struct_btf_mod_pair, struct_bpf_verifier_log, struct_bpf_subprog_arg_info, struct_bpf_subprog_info,
    struct_bpf_id_pair, struct_bpf_idmap, struct_bpf_idset, struct_backtrack_state, typedef_sockptr_t,
    struct_tnum, struct_bpf_reg_state, struct_bpf_scc_callchain, struct_bpf_verifier_env,
    struct_bpf_func_proto, struct_bpf_verifier_ops, struct_bpf_map_ptr_state,
    struct_bpf_loop_inline_state, struct_bpf_insn_aux_data, struct_bpf_retval_range,
    struct_bpf_func_state, struct_bpf_verifier_state, struct_btf_header, struct_btf, struct_btf_type,
    struct_btf_func_model, struct_bpf_attach_target_info, struct_bpf_trampoline, struct_bpf_tramp_image,
    struct_bpf_perf_link, struct_bpf_raw_tp_link, struct_bpf_xdp_link, struct_bpf_lru_node,
    struct_bpf_lru_locallist, struct_pcpu_freelist_head, struct_bpf_mem_cache, struct_bpf_run_ctx,
    struct_bpf_trace_run_ctx, struct_bpf_prog_array_item, struct_bpf_prog_array, typedef_u64_stats_t,
    struct_u64_stats_sync, struct_bpf_prog_stats, struct_bpf_prog_pack, struct_bpf_storage_buffer,
    struct_bpf_cgroup_storage_key, struct_bpf_cgroup_storage, struct_bpf_local_storage,
    struct_bpf_dispatcher_prog, struct_bpf_dispatcher, struct_ring_buffer_event, struct_array_buffer,
    struct_trace_array, struct_trace_event_file, struct_trace_event_class, struct_rb_irq_work,
    struct_trace_buffer, struct_seq_buf, struct_trace_seq, struct_trace_iterator,
    struct_perf_event_groups, struct_perf_event_context, struct_pmu, union_perf_sample_weight,
    union_perf_mem_data_src, struct_perf_regs, struct_perf_sample_data, struct_perf_output_handle,
    struct_perf_buffer]"

text \<open>Scheduling and namespaces.\<close>

definition sched_objects :: "ctype list" where
  "sched_objects = [
    struct_task_delay_info, struct___call_single_data, struct_uclamp_bucket, struct_uclamp_rq,
    struct_cfs_rq, struct_rt_prio_array, struct_plist_head, struct_rt_rq, struct_dl_rq,
    struct_scx_dispatch_q, struct_balance_callback, struct_scx_rq, struct_cpu_stop_work, struct_rq,
    struct_sched_domain, struct_sched_group, struct_pin_cookie, struct_rq_flags, struct_uid_gid_extent,
    struct_uid_gid_map, struct_ns_common, struct_ctl_table_header, struct_ctl_dir, struct_ctl_table_set,
    struct_user_namespace, struct_idr, struct_pid_namespace, struct_new_utsname, struct_uts_namespace,
    struct_mnt_namespace, struct_rhashtable_params, struct_rhashtable, struct_ipc_ids,
    struct_notifier_block, struct_ipc_namespace, struct_cgroup_namespace, struct_timespec64,
    struct_timens_offsets, struct_time_namespace, struct_raw_notifier_head, struct_netns_core,
    struct_netns_mib, struct_netns_packet, struct_unix_table, struct_netns_unix,
    struct_blocking_notifier_head, struct_netns_nexthop, struct_inet_timewait_death_row,
    struct_udp_tunnel_gro, struct_local_ports, struct_ping_group_range,
    struct_sysctl_fib_multipath_hash_seed, typedef_siphash_key_t, struct_delayed_work,
    struct_netns_ipv4, struct_dst_ops, struct_netns_sysctl_ipv6, struct_netns_ipv6,
    struct_netns_sysctl_lowpan, struct_netns_ieee802154_lowpan, struct_netns_sctp, struct_netns_nf,
    struct_nf_generic_net, struct_nf_tcp_net, struct_nf_udp_net, struct_nf_icmp_net, struct_nf_sctp_net,
    struct_nf_gre_net, struct_nf_ip_net, struct_netns_ct, struct_netns_nftables, struct_netns_ft,
    struct_netns_bpf, struct_xfrm_policy_hash, struct_xfrm_policy_hthresh, struct_netns_xfrm,
    struct_netns_mpls, struct_netns_can, struct_netns_xdp, struct_netns_mctp, struct_netns_smc,
    struct_net, struct_linux_binprm, struct_linux_binfmt, struct_elf64_hdr, struct_elf64_phdr,
    struct_coredump_params, struct_kernel_clone_args, struct___kernel_old_timeval, struct_rusage,
    struct_keyring_index_key, union_key_payload, struct_assoc_array, struct_key, struct_signalfd_ctx,
    struct_eventfd_ctx, struct_epoll_filefd, struct_epoll_event, struct_epitem, struct_eventpoll,
    struct_pipe_inode_info, struct_sched_ext_ops]"

text \<open>Internet protocols.\<close>

definition inet_objects :: "ctype list" where
  "inet_objects = [
    struct_inet_cork, struct_flowi_tunnel, struct_flowi_common, union_flowi_uli, struct_flowi4,
    struct_flowi6, struct_flowi, struct_inet_cork_full, struct_inet_sock, struct_fastopen_queue,
    struct_request_sock_queue, struct_inet_connection_sock, struct_minmax_sample, struct_minmax,
    struct_tcp_options_received, struct_tcp_rack, struct_tcp_sack_block, struct_tcp_sock,
    struct_udp_sock, struct_request_sock, struct_skb_shared_hwtstamps, struct_xsk_tx_metadata_compl,
    struct_skb_frag, struct_skb_shared_info, struct_dql, struct_netdev_queue, struct_qdisc_skb_head,
    struct_gnet_stats_basic_sync, struct_gnet_stats_queue, struct_lock_class_key, struct_Qdisc,
    struct_ethtool_ops, struct_lockdep_map, struct_srcu_struct, struct_rtnl_link_ops, struct_header_ops,
    struct_ipv4_devconf, struct_in_device, struct_ipv6_stable_secret, struct_ipv6_devconf,
    struct_ipv6_devstat, struct_inet6_dev, struct_hh_cache, struct_neighbour, typedef_rcuref_t,
    struct_dst_entry, struct_rtable, struct_fib_nh_common, struct_fib_nh, struct_fib_info,
    struct_xdp_buff_xsk, struct_xsk_buff_pool, struct_xdp_sock, struct_page_pool_params_fast,
    struct_page_pool_alloc_stats, struct_pp_alloc_cache, struct_ptr_ring, struct_page_pool_params_slow,
    struct_page_pool]"

text \<open>Memory, block devices and drivers.\<close>

definition blk_objects :: "ctype list" where
  "blk_objects = [
    struct_page, typedef_swp_entry_t, struct_folio, typedef_freelist_aba_t, struct_slab,
    struct_reciprocal_value, struct_kmem_cache_order_objects, struct_kmem_cache, struct_mount,
    struct_p_log, struct_fs_context, struct_file_system_type, struct_block_device, struct_mempool_s,
    struct_bio_list, struct_bio_set, struct_gendisk, struct_blk_integrity, struct_queue_limits,
    struct_request_queue, struct_bvec_iter, struct_bio_vec, struct_bio, struct_module_kobject,
    struct_mod_tree_node, struct_module_memory, struct_its_array, struct_mod_arch_specific,
    struct_mod_kallsyms, struct__ddebug_info, struct_module, struct_device_driver, struct_bus_type,
    struct_class, struct_device_type, struct_device_dma_parameters, struct_resource, struct_pci_vpd,
    struct_pci_dev, struct_pci_dynids, struct_pci_driver, struct_virtio_device_id, struct_virtio_device,
    struct_seq_file, struct_proc_dir_entry, union_proc_op, struct_proc_inode, struct_ext4_es_tree,
    struct_ext4_pending_tree, typedef_kprojid_t, struct_ext4_inode_info, struct_ext4_orphan_info,
    struct_ext4_es_stats, struct_jbd2_buffer_trigger_type, struct_ext4_journal_trigger,
    struct_fscrypt_dummy_policy, struct_ext4_fc_stats, struct_ext4_fc_replay_state, struct_ext4_sb_info,
    struct_ld_semaphore, struct_ktermios, struct_winsize, struct_tty_struct, struct_tty_driver]"

definition kernel_objects :: "ctype list" where
  "kernel_objects = net_objects @ task_objects @ fs_objects @ proc_objects @ bpf_objects @ dev_objects @
     trace_objects @ load_objects @ sched_objects @ inet_objects @ blk_objects"

lemma objects_wf:
  "list_all wf_ty net_objects"
  "list_all wf_ty task_objects"
  "list_all wf_ty fs_objects"
  "list_all wf_ty proc_objects"
  "list_all wf_ty bpf_objects"
  "list_all wf_ty dev_objects"
  "list_all wf_ty trace_objects"
  "list_all wf_ty load_objects"
  "list_all wf_ty sched_objects"
  "list_all wf_ty inet_objects"
  "list_all wf_ty blk_objects"
  by (simp_all only: net_objects_def task_objects_def fs_objects_def proc_objects_def bpf_objects_def
      dev_objects_def trace_objects_def load_objects_def sched_objects_def inet_objects_def blk_objects_def
      layout_simps list.pred_inject simp_thms)

text \<open>
  The layout of every kernel object modelled is sound: in each of the structs the members occupy
  disjoint, increasing ranges of bits, in structs and unions all members, also those of nested
  anonymous ones, lie inside the object, and those of types without packing are aligned.
\<close>

theorem kernel_objects_sound: "list_all layout_sound kernel_objects"
proof -
  have "list_all wf_ty kernel_objects" by (simp only: kernel_objects_def list_all_append objects_wf simp_thms)
  then show ?thesis by (rule list.pred_mono_strong) (rule wf_layout_sound)
qed

end
