(* ===== verification/Rust_Std.thy ===== *)
theory Rust_Std
  imports Prelude
begin

text \<open>
  What the agent uses of Rust's standard library, on strings given by their UTF-8 bytes
  (a \<open>char\<close> of the model is one byte): lossy decoding, searching, splitting, trimming,
  parsing and printing of numbers; and the outcome of running an external command.
\<close>

section \<open>Searching\<close>

definition starts_with :: "'a list \<Rightarrow> 'a list \<Rightarrow> bool" where
  "starts_with s p \<longleftrightarrow> take (length p) s = p"

definition ends_with :: "'a list \<Rightarrow> 'a list \<Rightarrow> bool" where
  "ends_with s p \<longleftrightarrow> length p \<le> length s \<and> drop (length s - length p) s = p"

fun contains :: "'a list \<Rightarrow> 'a list \<Rightarrow> bool" where
  "contains [] p = (p = [])"
| "contains (c # s) p = (starts_with (c # s) p \<or> contains s p)"

lemma starts_with_iff: "starts_with s p \<longleftrightarrow> (\<exists>t. s = p @ t)"
  unfolding starts_with_def by (metis append_eq_conv_conj append_take_drop_id)

lemma ends_with_iff: "ends_with s p \<longleftrightarrow> (\<exists>t. s = t @ p)"
proof
  assume "ends_with s p"
  then have "s = take (length s - length p) s @ p"
    unfolding ends_with_def by (metis append_take_drop_id)
  then show "\<exists>t. s = t @ p" by blast
qed (auto simp: ends_with_def)

lemma contains_iff: "contains s p \<longleftrightarrow> (\<exists>a b. s = a @ p @ b)"
proof (induction s)
  case Nil
  then show ?case by auto
next
  case (Cons c s)
  show ?case
  proof
    assume "contains (c # s) p"
    then consider t where "c # s = p @ t" | a b where "s = a @ p @ b"
      using Cons by (auto simp: starts_with_iff)
    then show "\<exists>a b. c # s = a @ p @ b"
    proof cases
      case 1
      then have "c # s = [] @ p @ t" by simp
      then show ?thesis by blast
    next
      case 2
      then have "c # s = (c # a) @ p @ b" by simp
      then show ?thesis by blast
    qed
  next
    assume "\<exists>a b. c # s = a @ p @ b"
    then obtain a b where ab: "c # s = a @ p @ b" by blast
    show "contains (c # s) p"
    proof (cases a)
      case Nil
      with ab have "starts_with (c # s) p" by (auto simp: starts_with_iff)
      then show ?thesis by simp
    next
      case (Cons x a')
      with ab have "s = a' @ p @ b" by simp
      with Cons.IH show ?thesis by auto
    qed
  qed
qed

lemma starts_with_drop4:
  "i + 4 \<le> length xs \<Longrightarrow> starts_with (drop i xs) [a, b, c, d] \<longleftrightarrow>
     xs ! i = a \<and> xs ! (i + 1) = b \<and> xs ! (i + 2) = c \<and> xs ! (i + 3) = d"
  by (simp add: starts_with_def numeral_eq_Suc take_Suc_conv_app_nth Cons_nth_drop_Suc [symmetric])

lemma starts_with5:
  "5 \<le> length xs \<Longrightarrow> starts_with xs [a, b, c, d, e] \<longleftrightarrow>
     xs ! 0 = a \<and> xs ! 1 = b \<and> xs ! 2 = c \<and> xs ! 3 = d \<and> xs ! 4 = e"
  by (auto simp: starts_with_def numeral_eq_Suc Suc_le_length_iff)

lemma starts_with6:
  "6 \<le> length xs \<Longrightarrow> starts_with xs [a, b, c, d, e, f] \<longleftrightarrow>
     xs ! 0 = a \<and> xs ! 1 = b \<and> xs ! 2 = c \<and> xs ! 3 = d \<and> xs ! 4 = e \<and> xs ! 5 = f"
  by (auto simp: starts_with_def numeral_eq_Suc Suc_le_length_iff)

lemma contains_drop: "contains s p \<longleftrightarrow> (\<exists>i \<le> length s. starts_with (drop i s) p)"
proof
  assume "contains s p"
  then obtain a b where "s = a @ p @ b" by (auto simp: contains_iff)
  then have "starts_with (drop (length a) s) p" "length a \<le> length s" by (auto simp: starts_with_iff)
  then show "\<exists>i \<le> length s. starts_with (drop i s) p" by blast
next
  assume "\<exists>i \<le> length s. starts_with (drop i s) p"
  then obtain i t where "drop i s = p @ t" by (auto simp: starts_with_iff)
  then have "s = take i s @ p @ t" by (metis append_take_drop_id)
  then show "contains s p" unfolding contains_iff by blast
qed

lemma foldl_flag: "foldl (\<lambda>v i. if P i then True else v) b xs \<longleftrightarrow> b \<or> (\<exists>x \<in> set xs. P x)"
  by (induction xs arbitrary: b) auto

section \<open>Trimming\<close>

definition trim_end_nul :: "string \<Rightarrow> string" where
  "trim_end_nul s = rev (dropWhile (\<lambda>c. c = CHR 0x00) (rev s))"

lemma trim_end_nul_append:
  "set z \<subseteq> {CHR 0x00} \<Longrightarrow> trim_end_nul (s @ z) = trim_end_nul s"
  by (auto simp: trim_end_nul_def dropWhile_append)

lemma trim_end_nul_id: "s = [] \<or> last s \<noteq> CHR 0x00 \<Longrightarrow> trim_end_nul s = s"
  by (cases s rule: rev_cases) (auto simp: trim_end_nul_def)

lemma trim_end_nul_decomp: "\<exists>z. s = trim_end_nul s @ z \<and> set z \<subseteq> {CHR 0x00}"
proof -
  have "s = rev (dropWhile (\<lambda>c. c = CHR 0x00) (rev s)) @ rev (takeWhile (\<lambda>c. c = CHR 0x00) (rev s))"
    by (metis rev_append rev_rev_ident takeWhile_dropWhile_id)
  moreover have "set (rev (takeWhile (\<lambda>c. c = CHR 0x00) (rev s))) \<subseteq> {CHR 0x00}"
    using set_takeWhileD by fastforce
  ultimately show ?thesis unfolding trim_end_nul_def by blast
qed

section \<open>Lossy UTF-8 decoding\<close>

text \<open>
  \<open>String::from_utf8_lossy\<close>: well-formed sequences are kept; every maximal part of an
  ill-formed sequence becomes one replacement character U+FFFD (bytes EF BF BD).
\<close>

definition between :: "nat \<Rightarrow> nat \<Rightarrow> byte \<Rightarrow> bool" where
  "between lo hi b \<longleftrightarrow> lo \<le> unat b \<and> unat b \<le> hi"

definition cont :: "byte \<Rightarrow> bool" where "cont b = between 0x80 0xBF b"

definition second_ok :: "byte \<Rightarrow> byte \<Rightarrow> bool" where
  "second_ok b c =
     (if between 0xC2 0xDF b then cont c
      else if b = 0xE0 then between 0xA0 0xBF c
      else if b = 0xED then between 0x80 0x9F c
      else if between 0xE1 0xEF b then cont c
      else if b = 0xF0 then between 0x90 0xBF c
      else if between 0xF1 0xF3 b then cont c
      else if b = 0xF4 then between 0x80 0x8F c
      else False)"

definition width :: "byte \<Rightarrow> nat" where
  "width b =
     (if unat b < 0x80 then 1 else if between 0xC2 0xDF b then 2
      else if between 0xE0 0xEF b then 3 else if between 0xF0 0xF4 b then 4 else 0)"

text \<open>Length of the well-formed sequence at the front (\<open>Inr\<close>) or of the bad part (\<open>Inl\<close>).\<close>

fun utf8_step :: "byte list \<Rightarrow> nat + nat" where
  "utf8_step [] = Inr 0"
| "utf8_step (b # bs) =
     (if width b = 1 then Inr 1
      else if width b = 0 then Inl 1
      else (case bs of
        [] \<Rightarrow> Inl 1
      | c # cs \<Rightarrow>
          (if \<not> second_ok b c then Inl 1
           else if width b = 2 then Inr 2
           else (case cs of
             [] \<Rightarrow> Inl 2
           | d # ds \<Rightarrow>
               (if \<not> cont d then Inl 2
                else if width b = 3 then Inr 3
                else (case ds of
                  [] \<Rightarrow> Inl 3
                | e # es \<Rightarrow> (if cont e then Inr 4 else Inl 3)))))))"

lemma utf8_step_pos:
  "utf8_step (b # bs) = Inr n \<Longrightarrow> 0 < n" "utf8_step (b # bs) = Inl n \<Longrightarrow> 0 < n"
  by (auto split: if_splits list.splits)

definition replacement :: "byte list" where "replacement = [0xEF, 0xBF, 0xBD]"

function lossy_bytes :: "byte list \<Rightarrow> byte list" where
  "lossy_bytes [] = []"
| "lossy_bytes (b # bs) =
     (case utf8_step (b # bs) of
        Inr n \<Rightarrow> take n (b # bs) @ lossy_bytes (drop n (b # bs))
      | Inl n \<Rightarrow> replacement @ lossy_bytes (drop n (b # bs)))"
  by pat_completeness auto
termination
  by (relation "measure length") (auto dest!: utf8_step_pos simp del: utf8_step.simps)

declare lossy_bytes.simps(2) [simp del]

definition from_utf8_lossy :: "byte list \<Rightarrow> string" where
  "from_utf8_lossy bs = of_bytes (lossy_bytes bs)"

definition ascii :: "byte list \<Rightarrow> bool" where
  "ascii bs \<longleftrightarrow> (\<forall>b \<in> set bs. unat b < 0x80)"

lemma lossy_ascii_Cons: "unat b < 0x80 \<Longrightarrow> lossy_bytes (b # bs) = b # lossy_bytes bs"
  by (simp add: lossy_bytes.simps(2) width_def)

lemma lossy_ascii: "ascii bs \<Longrightarrow> lossy_bytes (bs @ cs) = bs @ lossy_bytes cs"
proof (induction bs)
  case (Cons b bs)
  then have "unat b < 0x80" "ascii bs" by (auto simp: ascii_def)
  with Cons.IH show ?case by (simp add: lossy_ascii_Cons)
qed simp

lemma lossy_non_ascii_head:
  assumes "\<not> unat b < 0x80"
  shows "\<exists>c rest. lossy_bytes (b # bs) = c # rest \<and> \<not> unat c < 0x80"
proof (cases "utf8_step (b # bs)")
  case (Inl n)
  then show ?thesis by (simp add: lossy_bytes.simps(2) replacement_def del: utf8_step.simps)
next
  case (Inr n)
  then obtain m where "n = Suc m" using utf8_step_pos(1) gr0_conv_Suc by blast
  with Inr have "lossy_bytes (b # bs) = b # take m bs @ lossy_bytes (drop m bs)"
    by (subst lossy_bytes.simps(2)) (simp del: utf8_step.simps)
  with assms show ?thesis by blast
qed

text \<open>An all-ASCII result comes from exactly these bytes.\<close>

lemma lossy_eq_ascii: "ascii bs \<Longrightarrow> lossy_bytes xs = bs \<Longrightarrow> xs = bs"
proof (induction xs arbitrary: bs)
  case (Cons x xs)
  show ?case
  proof (cases "unat x < 0x80")
    case True
    with Cons.prems obtain bs' where "bs = x # bs'" "lossy_bytes xs = bs'" "ascii bs'"
      by (auto simp: lossy_ascii_Cons ascii_def)
    with Cons.IH show ?thesis by blast
  next
    case False
    then obtain c rest where "lossy_bytes (x # xs) = c # rest" "\<not> unat c < 0x80"
      using lossy_non_ascii_head by blast
    with Cons.prems show ?thesis by (auto simp: ascii_def)
  qed
qed simp

lemma from_utf8_lossy_ascii: "ascii bs \<Longrightarrow> from_utf8_lossy bs = of_bytes bs"
  using lossy_ascii [of bs "[]"] by (simp add: from_utf8_lossy_def)

section \<open>Numbers as text\<close>

fun digits :: "nat \<Rightarrow> nat \<Rightarrow> nat list" where
  "digits base n = (if n < base \<or> base < 2 then [n] else digits base (n div base) @ [n mod base])"

declare digits.simps [simp del]

definition digit_char :: "nat \<Rightarrow> char" where
  "digit_char d = (if d < 10 then char_of (48 + d) else char_of (87 + d))"

text \<open>\<open>{}\<close> on an unsigned number, \<open>{:x}\<close> on one, and \<open>{}\<close> on a signed number.\<close>

definition show_nat :: "nat \<Rightarrow> string" where "show_nat n = map digit_char (digits 10 n)"

definition show_hex :: "nat \<Rightarrow> string" where "show_hex n = map digit_char (digits 16 n)"

definition show_int :: "int \<Rightarrow> string" where
  "show_int i = (if i < 0 then CHR ''-'' # show_nat (nat (- i)) else show_nat (nat i))"

text \<open>A 32-bit word read as a signed number, and its text.\<close>

definition show_i32 :: "u32 \<Rightarrow> string" where "show_i32 w = show_int (sint w)"

definition show_u32 :: "u32 \<Rightarrow> string" where "show_u32 w = show_nat (unat w)"

section \<open>External commands\<close>

text \<open>
  A command is its argument vector. Running it may fail to start it; otherwise it ends,
  successfully or not, with some standard output. The outcome may depend on everything
  run before, so it is a function of the commands already run and of the new one.
\<close>

type_synonym cmd = "string list"

datatype cmd_result = SpawnFailed | Exited bool string

type_synonym os = "cmd list \<Rightarrow> cmd \<Rightarrow> cmd_result"

section \<open>Panics\<close>

text \<open>The result of a function that may return, fail with an error, or panic.\<close>

datatype ('e, 'a) outcome = Done 'a | Bail 'e | Panic

text \<open>
  Indexing \<open>data[i..j]\<close> panics unless the range is one and lies inside. Additions on
  \<open>usize\<close> (64 bits on the target) wrap in a release build.
\<close>

definition range_index :: "byte list \<Rightarrow> u64 \<Rightarrow> u64 \<Rightarrow> ('e, byte list) outcome" where
  "range_index data i j =
     (if i \<le> j \<and> unat j \<le> length data then Done (slice (unat i) (unat j - unat i) data) else Panic)"

section \<open>Splitting text\<close>

text \<open>\<open>split(c)\<close>: the pieces between separators; \<open>splitn(n, c)\<close>: at most \<open>n\<close> of them.\<close>

fun split_on :: "char \<Rightarrow> string \<Rightarrow> string list" where
  "split_on c [] = [[]]"
| "split_on c (x # xs) =
     (if x = c then [] # split_on c xs
      else (case split_on c xs of [] \<Rightarrow> [[x]] | p # ps \<Rightarrow> (x # p) # ps))"

fun splitn :: "nat \<Rightarrow> char \<Rightarrow> string \<Rightarrow> string list" where
  "splitn 0 c s = []"
| "splitn (Suc 0) c s = [s]"
| "splitn (Suc (Suc n)) c s =
     (if c \<in> set s then takeWhile (\<lambda>x. x \<noteq> c) s # splitn (Suc n) c (tl (dropWhile (\<lambda>x. x \<noteq> c) s))
      else [s])"

text \<open>\<open>lines()\<close>: pieces ended by a line feed, without it and without a carriage return before it.\<close>

definition strip_cr :: "string \<Rightarrow> string" where
  "strip_cr l = (if l \<noteq> [] \<and> last l = CHR 0x0D then butlast l else l)"

definition lines :: "string \<Rightarrow> string list" where
  "lines s =
     (let ps = split_on (CHR ''\<newline>'') s
      in map strip_cr (butlast ps) @ (if last ps = [] then [] else [last ps]))"

text \<open>Unicode white space as UTF-8 byte sequences, and \<open>trim()\<close>.\<close>

definition white_space :: "string list" where
  "white_space =
     [[CHR 0x09], [CHR 0x0A], [CHR 0x0B], [CHR 0x0C], [CHR 0x0D], [CHR 0x20],
      [CHR 0xC2, CHR 0x85], [CHR 0xC2, CHR 0xA0], [CHR 0xE1, CHR 0x9A, CHR 0x80],
      [CHR 0xE2, CHR 0x80, CHR 0x80], [CHR 0xE2, CHR 0x80, CHR 0x81], [CHR 0xE2, CHR 0x80, CHR 0x82],
      [CHR 0xE2, CHR 0x80, CHR 0x83], [CHR 0xE2, CHR 0x80, CHR 0x84], [CHR 0xE2, CHR 0x80, CHR 0x85],
      [CHR 0xE2, CHR 0x80, CHR 0x86], [CHR 0xE2, CHR 0x80, CHR 0x87], [CHR 0xE2, CHR 0x80, CHR 0x88],
      [CHR 0xE2, CHR 0x80, CHR 0x89], [CHR 0xE2, CHR 0x80, CHR 0x8A], [CHR 0xE2, CHR 0x80, CHR 0xA8],
      [CHR 0xE2, CHR 0x80, CHR 0xA9], [CHR 0xE2, CHR 0x80, CHR 0xAF], [CHR 0xE2, CHR 0x81, CHR 0x9F],
      [CHR 0xE3, CHR 0x80, CHR 0x80]]"

function strip_prefixes :: "'a list list \<Rightarrow> 'a list \<Rightarrow> 'a list" where
  "strip_prefixes ps s =
     (case find (\<lambda>p. p \<noteq> [] \<and> starts_with s p) ps of
        None \<Rightarrow> s
      | Some p \<Rightarrow> strip_prefixes ps (drop (length p) s))"
  by pat_completeness auto
termination
  by (relation "measure (length o snd)") (auto simp: find_Some_iff starts_with_iff neq_Nil_conv)

declare strip_prefixes.simps [simp del]

definition trim_start_ws :: "string \<Rightarrow> string" where "trim_start_ws s = strip_prefixes white_space s"

definition trim_end_ws :: "string \<Rightarrow> string" where
  "trim_end_ws s = rev (strip_prefixes (map rev white_space) (rev s))"

definition trim :: "string \<Rightarrow> string" where "trim s = trim_end_ws (trim_start_ws s)"

text \<open>\<open>trim_start_matches("0x")\<close>.\<close>

definition trim_0x :: "string \<Rightarrow> string" where "trim_0x s = strip_prefixes [''0x''] s"

section \<open>Parsing numbers\<close>

definition digit_value :: "char \<Rightarrow> nat option" where
  "digit_value c =
     (let n = of_char c
      in if 48 \<le> n \<and> n \<le> 57 then Some (n - 48)
         else if 97 \<le> n \<and> n \<le> 122 then Some (n - 87)
         else if 65 \<le> n \<and> n \<le> 90 then Some (n - 55)
         else None)"

text \<open>Digits to a number below \<open>bound\<close>; a bad digit or an overflow is an error.\<close>

fun read_digits :: "nat \<Rightarrow> nat \<Rightarrow> nat \<Rightarrow> string \<Rightarrow> nat option" where
  "read_digits base bound acc [] = Some acc"
| "read_digits base bound acc (c # s) =
     (case digit_value c of
        None \<Rightarrow> None
      | Some d \<Rightarrow>
          (if d < base \<and> acc * base + d < bound then read_digits base bound (acc * base + d) s else None))"

definition parse_unsigned :: "nat \<Rightarrow> nat \<Rightarrow> string \<Rightarrow> nat option" where
  "parse_unsigned base bound s =
     (case s of
        [] \<Rightarrow> None
      | c # cs \<Rightarrow>
          (if c = CHR ''+'' then (if cs = [] then None else read_digits base bound 0 cs)
           else read_digits base bound 0 s))"

text \<open>What is printed is read back.\<close>

lemma of_char_digit: "d < 16 \<Longrightarrow> of_char (digit_char d) = (if d < 10 then 48 + d else (87 + d :: nat))"
  by (simp add: digit_char_def)

lemma digit_value_char: "d < 16 \<Longrightarrow> digit_value (digit_char d) = Some d"
  by (simp add: digit_value_def of_char_digit Let_def)

lemma digits_bound: "1 < base \<Longrightarrow> d \<in> set (digits base n) \<Longrightarrow> d < base"
proof (induction base n rule: digits.induct)
  case (1 base n)
  then show ?case by (subst (asm) (2) digits.simps) (auto split: if_splits)
qed

lemma digits_nonempty: "digits base n \<noteq> []"
  by (subst digits.simps) simp

lemma read_digits_append:
  "read_digits base bound acc (s @ t) =
     (case read_digits base bound acc s of None \<Rightarrow> None | Some a \<Rightarrow> read_digits base bound a t)"
  by (induction base bound acc s rule: read_digits.induct) (auto split: option.splits)

lemma read_digits_show:
  "1 < base \<Longrightarrow> base \<le> 16 \<Longrightarrow> n < bound \<Longrightarrow>
     read_digits base bound 0 (map digit_char (digits base n)) = Some n"
proof (induction base n rule: digits.induct)
  case (1 base n)
  show ?case
  proof (cases "n < base")
    case True
    with 1 show ?thesis by (subst digits.simps) (simp add: digit_value_char)
  next
    case False
    have lt: "n div base < bound" using "1.prems" by (metis div_le_dividend le_less_trans)
    have "read_digits base bound 0 (map digit_char (digits base (n div base))) = Some (n div base)"
      using 1 False lt by simp
    moreover have m: "n mod base < base" using "1.prems" by simp
    moreover from m have "digit_value (digit_char (n mod base)) = Some (n mod base)"
      using "1.prems" by (intro digit_value_char) linarith
    ultimately show ?thesis
      using False "1.prems" by (subst digits.simps) (simp add: read_digits_append)
  qed
qed

lemma parse_unsigned_show:
  assumes "1 < base" and "base \<le> 16" and "n < bound"
  shows "parse_unsigned base bound (map digit_char (digits base n)) = Some n"
proof -
  obtain d ds where d: "digits base n = d # ds" using digits_nonempty by (cases "digits base n") auto
  then have "d < 16" using digits_bound [OF assms(1), of d n] assms(2) by simp
  then have "digit_char d \<noteq> CHR ''+''" using of_char_digit [of d] by (auto split: if_splits)
  with d read_digits_show [OF assms] show ?thesis by (simp add: parse_unsigned_def)
qed

end
