(* ===== verification/Qihse.thy ===== *)
theory Qihse
  imports Rust_Std
begin

text \<open>
  The QIHSE client of \<open>src/qihse.rs\<close>: the trinary feature vector of a process event and the
  write-ahead log, to which every insertion appends one entry. Opening or writing the file
  may fail; the outcome of the n-th attempt is the parameter \<open>wal_env\<close>, and a failed write
  may leave a part of its entry in the file, as \<open>write_all\<close> does.
\<close>

section \<open>The log file\<close>

record qihse_client =
  connection_string :: string
  wal_path :: string

datatype io_outcome = IoOk | OpenFails | WriteFails nat

type_synonym wal_env = "nat \<Rightarrow> io_outcome"

datatype qihse_error = EmptyConnection | OpenError | WriteError

record wal_file =
  wal_content :: string
  wal_attempts :: nat

definition new :: "string \<Rightarrow> qihse_client" where
  "new cs = \<lparr>connection_string = cs, wal_path = ''/tmp/alphvdr/qihse_events.wal''\<rparr>"

definition wal_append :: "wal_env \<Rightarrow> string \<Rightarrow> wal_file \<Rightarrow> (qihse_error + unit) \<times> wal_file" where
  "wal_append env entry w =
     (let w' = w\<lparr>wal_attempts := Suc (wal_attempts w)\<rparr>
      in case env (wal_attempts w) of
           OpenFails \<Rightarrow> (Inl OpenError, w')
         | WriteFails n \<Rightarrow> (Inl WriteError, w'\<lparr>wal_content := wal_content w @ take n entry\<rparr>)
         | IoOk \<Rightarrow> (Inr (), w'\<lparr>wal_content := wal_content w @ entry\<rparr>))"

section \<open>Entries\<close>

text \<open>\<open>{:?}\<close> on an array: the elements separated by comma and space, in brackets.\<close>

fun join :: "string \<Rightarrow> string list \<Rightarrow> string" where
  "join sep [] = []"
| "join sep [x] = x"
| "join sep (x # y # xs) = x @ sep @ join sep (y # xs)"

definition debug_i8s :: "int list \<Rightarrow> string" where
  "debug_i8s xs = ''['' @ join '', '' (map show_int xs) @ '']''"

definition compute_qmag_vector :: "u32 \<Rightarrow> string \<Rightarrow> string \<Rightarrow> u32 \<Rightarrow> int list" where
  "compute_qmag_vector uid comm filename ppid =
     [if uid = 0 then 1 else - 1,
      if comm = ''sh'' \<or> comm = ''bash'' then 1 else 0,
      if starts_with filename ''/tmp/'' \<or> starts_with filename ''/dev/shm/'' then 1 else - 1,
      if ppid = 1 \<or> ppid = 2 then 0 else 1,
      1, - 1, 0, 1]"

definition event_entry :: "u32 \<Rightarrow> u32 \<Rightarrow> u32 \<Rightarrow> string \<Rightarrow> string \<Rightarrow> string" where
  "event_entry pid ppid uid comm filename =
     ''VEC:'' @ debug_i8s (compute_qmag_vector uid comm filename ppid) @ '' | PID:'' @ show_i32 pid @
     '' PPID:'' @ show_i32 ppid @ '' UID:'' @ show_i32 uid @ '' COMM:'' @ comm @
     '' FILE:'' @ filename @ ''\<newline>''"

definition yara_entry :: "u32 \<Rightarrow> string \<Rightarrow> string \<Rightarrow> string" where
  "yara_entry pid signature region =
     ''VEC:[YARA] | PID:'' @ show_i32 pid @ '' SIG:'' @ signature @ '' REGION:'' @ region @ ''\<newline>''"

definition tls_entry :: "u32 \<Rightarrow> u32 \<Rightarrow> u16 \<Rightarrow> u16 \<Rightarrow> string" where
  "tls_entry src_ip dst_ip dport payload_len =
     ''VEC:[TLS] | SRC:'' @ show_u32 src_ip @ '' DST:'' @ show_u32 dst_ip @ '' PORT:'' @
     show_nat (unat dport) @ '' PAYLOAD_LEN:'' @ show_nat (unat payload_len) @ ''\<newline>''"

definition action_entry :: "string \<Rightarrow> string \<Rightarrow> string \<Rightarrow> string" where
  "action_entry action_type target reason =
     ''VEC:[EDR_ACTION] | ACTION:'' @ action_type @ '' TARGET:'' @ target @ '' REASON:'' @ reason @
     ''\<newline>''"

definition intel_entry :: "string \<Rightarrow> string \<Rightarrow> string \<Rightarrow> string" where
  "intel_entry indicator_type value source =
     ''VEC:[THREAT_INTEL] | TYPE:'' @ indicator_type @ '' VALUE:'' @ value @ '' SOURCE:'' @ source @
     ''\<newline>''"

section \<open>Insertions\<close>

definition insert_event ::
  "qihse_client \<Rightarrow> wal_env \<Rightarrow> u32 \<Rightarrow> u32 \<Rightarrow> u32 \<Rightarrow> string \<Rightarrow> string \<Rightarrow> wal_file \<Rightarrow>
     (qihse_error + unit) \<times> wal_file" where
  "insert_event c env pid ppid uid comm filename w =
     (if connection_string c = [] then (Inl EmptyConnection, w)
      else wal_append env (event_entry pid ppid uid comm filename) w)"

definition insert_yara_match ::
  "qihse_client \<Rightarrow> wal_env \<Rightarrow> u32 \<Rightarrow> string \<Rightarrow> string \<Rightarrow> wal_file \<Rightarrow> (qihse_error + unit) \<times> wal_file" where
  "insert_yara_match c env pid signature region w = wal_append env (yara_entry pid signature region) w"

definition insert_tls_telemetry ::
  "qihse_client \<Rightarrow> wal_env \<Rightarrow> u32 \<Rightarrow> u32 \<Rightarrow> u16 \<Rightarrow> u16 \<Rightarrow> wal_file \<Rightarrow> (qihse_error + unit) \<times> wal_file" where
  "insert_tls_telemetry c env src_ip dst_ip dport payload_len w =
     wal_append env (tls_entry src_ip dst_ip dport payload_len) w"

definition insert_edr_action ::
  "qihse_client \<Rightarrow> wal_env \<Rightarrow> string \<Rightarrow> string \<Rightarrow> string \<Rightarrow> wal_file \<Rightarrow> (qihse_error + unit) \<times> wal_file" where
  "insert_edr_action c env action_type target reason w =
     wal_append env (action_entry action_type target reason) w"

definition insert_threat_intel ::
  "qihse_client \<Rightarrow> wal_env \<Rightarrow> string \<Rightarrow> string \<Rightarrow> string \<Rightarrow> wal_file \<Rightarrow> (qihse_error + unit) \<times> wal_file" where
  "insert_threat_intel c env indicator_type value source w =
     wal_append env (intel_entry indicator_type value source) w"

section \<open>The log only grows\<close>

text \<open>The contract of an insertion: what was logged stays, and success appends one whole entry.\<close>

locale wal_insert =
  fixes ins :: "wal_env \<Rightarrow> wal_file \<Rightarrow> (qihse_error + unit) \<times> wal_file"
    and entry :: string
  assumes appends: "\<exists>n. wal_content (snd (ins env w)) = wal_content w @ take n entry"
    and success: "fst (ins env w) = Inr () \<Longrightarrow> wal_content (snd (ins env w)) = wal_content w @ entry"
    and works: "env (wal_attempts w) = IoOk \<Longrightarrow> fst (ins env w) = Inr ()"
begin

lemma log_grows: "\<exists>more. wal_content (snd (ins env w)) = wal_content w @ more"
  using appends [of env w] by blast

end

interpretation wal: wal_insert "\<lambda>env. wal_append env entry" entry
proof
  fix env w
  show "\<exists>n. wal_content (snd (wal_append env entry w)) = wal_content w @ take n entry"
  proof (cases "env (wal_attempts w)")
    case IoOk
    then have "wal_content (snd (wal_append env entry w)) = wal_content w @ take (length entry) entry"
      by (simp add: wal_append_def Let_def)
    then show ?thesis by blast
  next
    case OpenFails
    then have "wal_content (snd (wal_append env entry w)) = wal_content w @ take 0 entry"
      by (simp add: wal_append_def Let_def)
    then show ?thesis by blast
  next
    case (WriteFails n)
    then show ?thesis by (auto simp: wal_append_def Let_def)
  qed
  show "fst (wal_append env entry w) = Inr () \<Longrightarrow>
      wal_content (snd (wal_append env entry w)) = wal_content w @ entry"
    by (auto simp: wal_append_def Let_def split: io_outcome.splits)
  show "env (wal_attempts w) = IoOk \<Longrightarrow> fst (wal_append env entry w) = Inr ()"
    by (simp add: wal_append_def Let_def)
qed

lemma wal_append_ok:
  "env (wal_attempts w) = IoOk \<Longrightarrow> wal_append env e w =
     (Inr (), w\<lparr>wal_content := wal_content w @ e, wal_attempts := Suc (wal_attempts w)\<rparr>)"
  by (simp add: wal_append_def Let_def)

lemma wal_attempts_append: "wal_attempts (snd (wal_append env e w)) = Suc (wal_attempts w)"
  by (simp add: wal_append_def Let_def split: io_outcome.split)

section \<open>Line structure of entries\<close>

definition newlines :: "string \<Rightarrow> nat" where "newlines s = length (filter (\<lambda>c. c = CHR ''\<newline>'') s)"

lemma newlines_append [simp]: "newlines (a @ b) = newlines a + newlines b"
  by (simp add: newlines_def)

lemma newlines_Cons [simp]: "newlines (c # s) = (if c = CHR ''\<newline>'' then Suc (newlines s) else newlines s)"
  by (simp add: newlines_def)

lemma newlines_Nil [simp]: "newlines [] = 0"
  by (simp add: newlines_def)

lemma digit_char_newline: "d < 16 \<Longrightarrow> digit_char d \<noteq> CHR ''\<newline>''"
proof
  assume "d < 16" "digit_char d = CHR ''\<newline>''"
  then have "(if d < 10 then 48 + d else 87 + d) = (10 :: nat)" using of_char_digit [of d] by simp
  then show False by (auto split: if_splits)
qed

lemma newlines_show_nat [simp]: "newlines (show_nat n) = 0"
proof -
  have "filter (\<lambda>c. c = CHR ''\<newline>'') (show_nat n) = []"
    using digits_bound [of 10 _ n] digit_char_newline by (fastforce simp: show_nat_def filter_empty_conv)
  then show ?thesis by (simp add: newlines_def)
qed

lemma newlines_show_int [simp]: "newlines (show_int i) = 0"
  by (simp add: show_int_def)

lemma newlines_join: "newlines sep = 0 \<Longrightarrow> \<forall>x \<in> set xs. newlines x = 0 \<Longrightarrow> newlines (join sep xs) = 0"
  by (induction sep xs rule: join.induct) auto

lemma newlines_vector [simp]: "newlines (debug_i8s xs) = 0"
  by (simp add: debug_i8s_def newlines_join)

lemma event_entry_newlines:
  "newlines (event_entry pid ppid uid comm filename) = Suc (newlines comm + newlines filename)"
  by (simp add: event_entry_def show_i32_def)

end
