(* ===== verification/Misp.thy ===== *)
theory Misp
  imports Qihse
begin

text \<open>
  The MISP sidecar of \<open>src/misp.rs\<close>: one polling round fetches attributes, sends the
  destination addresses among them to the packet filter's owner and logs them, then fetches
  the online rule feed. The JSON parser is a library and a parameter, as are the commands
  and whether the receiver of the channel is still there.
\<close>

section \<open>Addresses\<close>

type_synonym ipv4 = "byte \<times> byte \<times> byte \<times> byte"

text \<open>\<open>parse::<Ipv4Addr>\<close>: four decimal numbers up to 255, at most three digits, no leading zero.\<close>

definition parse_octet :: "string \<Rightarrow> byte option" where
  "parse_octet s =
     (if s = [] \<or> 3 < length s \<or> (1 < length s \<and> hd s = CHR ''0'') then None
      else map_option of_nat (read_digits 10 256 0 s))"

definition parse_ipv4 :: "string \<Rightarrow> ipv4 option" where
  "parse_ipv4 s =
     (case map parse_octet (split_on (CHR ''.'') s) of
        [Some a, Some b, Some c, Some d] \<Rightarrow> Some (a, b, c, d)
      | _ \<Rightarrow> None)"

definition show_ipv4 :: "ipv4 \<Rightarrow> string" where
  "show_ipv4 ip =
     (case ip of (a, b, c, d) \<Rightarrow>
        show_nat (unat a) @ ''.'' @ show_nat (unat b) @ ''.'' @ show_nat (unat c) @ ''.'' @ show_nat (unat d))"

text \<open>\<open>u32::from\<close>: the first octet is the most significant; \<open>to_be\<close> swaps the bytes.\<close>

definition u32_from :: "ipv4 \<Rightarrow> u32" where
  "u32_from ip =
     (case ip of (a, b, c, d) \<Rightarrow>
        push_bit 24 (ucast a) OR push_bit 16 (ucast b) OR push_bit 8 (ucast c) OR ucast d)"

definition to_be :: "u32 \<Rightarrow> u32" where "to_be w = u32_of (rev (u32_bytes w))"

lemma octet_round_trip: "parse_octet (show_nat (unat (b :: byte))) = Some b"
proof -
  have lt: "unat b < 256" by (rule unat_byte_less)
  have "read_digits 10 256 0 (show_nat (unat b)) = Some (unat b)"
    using read_digits_show [of 10 "unat b" 256] lt by (simp add: show_nat_def)
  moreover have shape: "show_nat n \<noteq> [] \<and> length (show_nat n) \<le> 3 \<and>
      (1 < length (show_nat n) \<longrightarrow> hd (show_nat n) \<noteq> CHR ''0'')" if "n < 256" for n
  proof -
    have d: "digits 10 n = (if n < 10 then [n] else if n < 100 then [n div 10, n mod 10]
        else [n div 100, n div 10 mod 10, n mod 10])"
    proof -
      consider "n < 10" | "10 \<le> n" "n < 100" | "100 \<le> n" by linarith
      then show ?thesis
      proof cases
        case 1
        then show ?thesis by (simp add: digits.simps [of 10 n])
      next
        case 2
        then have "n div 10 < 10" by linarith
        with 2 show ?thesis by (simp add: digits.simps [of 10 n] digits.simps [of 10 "n div 10"])
      next
        case 3
        have "n div 100 < 10" "10 \<le> n div 10" using that 3 by linarith+
        with 3 show ?thesis
          by (simp add: digits.simps [of 10 n] digits.simps [of 10 "n div 10"]
              digits.simps [of 10 "n div 100"] div_mult2_eq [symmetric])
      qed
    qed
    have z: "digit_char k = CHR ''0'' \<Longrightarrow> k < 10 \<Longrightarrow> k = 0" for k
      using of_char_digit [of k] by (auto split: if_splits)
    have "n < 100 \<longrightarrow> n div 10 < 10" "\<not> n < 10 \<longrightarrow> n div 10 \<noteq> 0" "\<not> n < 100 \<longrightarrow> n div 100 \<noteq> 0"
      and "n div 100 < 10"
      using that by auto
    then show ?thesis using z [of "n div 100"] z [of "n div 10"] by (auto simp: show_nat_def d)
  qed
  ultimately show ?thesis using shape [OF lt] by (auto simp: parse_octet_def)
qed

lemma split_on_cons: "c \<notin> set p \<Longrightarrow> split_on c (p @ c # s) = p # split_on c s"
proof (induction p)
  case (Cons x p)
  then show ?case by auto
qed simp

lemma split_on_none: "c \<notin> set p \<Longrightarrow> split_on c p = [p]"
  by (induction p) auto

lemma no_dot: "CHR ''.'' \<notin> set (show_nat n)"
proof
  assume "CHR ''.'' \<in> set (show_nat n)"
  then obtain d where d: "d \<in> set (digits 10 n)" "digit_char d = CHR ''.''" by (force simp: show_nat_def)
  then have "d < 16" using digits_bound [of 10 d n] by simp
  with d(2) show False using of_char_digit [of d] by (auto split: if_splits)
qed

lemma parse_show_ipv4: "parse_ipv4 (show_ipv4 ip) = Some ip"
proof -
  obtain a b c d where ip: "ip = (a, b, c, d)" by (metis prod.exhaust)
  have "split_on (CHR ''.'') (show_ipv4 ip) =
      [show_nat (unat a), show_nat (unat b), show_nat (unat c), show_nat (unat d)]"
    by (simp add: ip show_ipv4_def split_on_cons split_on_none no_dot)
  then show ?thesis by (simp add: parse_ipv4_def octet_round_trip ip)
qed

text \<open>What is sent for an address has the address's octets, in order, as its bytes in memory.\<close>

lemma to_be_bytes: "u32_bytes (to_be (u32_from (a, b, c, d))) = [a, b, c, d]"
proof -
  have "u32_from (a, b, c, d) = u32_of [d, c, b, a]" by (simp add: u32_from_def u32_of_four or.assoc)
  then have "u32_bytes (u32_from (a, b, c, d)) = [d, c, b, a]" by (simp add: u32_bytes_of)
  then show ?thesis by (simp add: to_be_def u32_bytes_of)
qed

section \<open>The sidecar\<close>

record misp_attribute =
  attr_type :: string
  attr_value :: string

record misp_state =
  sent :: "u32 list"
  misp_wal :: wal_file
  misp_commands :: "cmd list"

text \<open>
  What one round gets from outside: the parse of the response (\<open>None\<close>: not of the expected
  shape), whether the n-th send finds the receiver alive, outcomes of log writes, commands.
\<close>

record misp_env =
  json_attributes :: "string \<Rightarrow> misp_attribute list option"
  receiver_alive :: "nat \<Rightarrow> bool"
  misp_outcomes :: wal_env
  misp_os :: os

definition misp_db :: qihse_client where "misp_db = Qihse.new ''qihse://localhost:9090''"

definition log_intel :: "misp_env \<Rightarrow> string \<Rightarrow> string \<Rightarrow> string \<Rightarrow> misp_state \<Rightarrow> misp_state" where
  "log_intel me ty v src m =
     m\<lparr>misp_wal := snd (insert_threat_intel misp_db (misp_outcomes me) ty v src (misp_wal m))\<rparr>"

text \<open>The loop over the attributes; \<open>True\<close> when the sidecar ends because the receiver is gone.\<close>

fun sync_attributes :: "misp_env \<Rightarrow> misp_attribute list \<Rightarrow> misp_state \<Rightarrow> bool \<times> misp_state" where
  "sync_attributes me [] m = (False, m)"
| "sync_attributes me (at # ats) m =
     (if attr_type at = ''ip-dst'' then
        (case parse_ipv4 (attr_value at) of
           None \<Rightarrow> sync_attributes me ats m
         | Some ip \<Rightarrow>
             (if \<not> receiver_alive me (length (sent m)) then (True, m)
              else sync_attributes me ats
                (log_intel me ''IP_DST'' (attr_value at) ''MISP_LIVE''
                  (m\<lparr>sent := sent m @ [to_be (u32_from ip)]\<rparr>))))
      else if attr_type at = ''yara'' then
        sync_attributes me ats (log_intel me ''YARA_RULE'' (attr_value at) ''MISP_LIVE'' m)
      else sync_attributes me ats m)"

definition misp_cmd :: cmd where
  "misp_cmd =
     [''curl'', ''-k'', ''-s'', ''-X'', ''POST'', ''-H'', ''Authorization: DEMO_AUTH_KEY_REPLACE_ME'',
      ''-H'', ''Accept: application/json'', ''-H'', ''Content-Type: application/json'', ''-d'',
      ''{\"published\":true,\"returnFormat\":\"json\",\"type\":[\"ip-dst\",\"yara\"]}'',
      ''https://localhost:8443/attributes/restSearch'']"

definition feed_cmd :: cmd where
  "feed_cmd =
     [''curl'', ''-s'',
      ''https://raw.githubusercontent.com/Yara-Rules/rules/master/malware/APT_APT29.yar'']"

text \<open>Running a command: its outcome, and the record that it was run unless it did not start.\<close>

definition misp_run :: "misp_env \<Rightarrow> cmd \<Rightarrow> misp_state \<Rightarrow> cmd_result \<times> misp_state" where
  "misp_run me c m =
     (case misp_os me (misp_commands m) c of
        SpawnFailed \<Rightarrow> (SpawnFailed, m)
      | Exited ok out \<Rightarrow> (Exited ok out, m\<lparr>misp_commands := misp_commands m @ [c]\<rparr>))"

definition sync_feed :: "misp_env \<Rightarrow> misp_state \<Rightarrow> misp_state" where
  "sync_feed me m =
     (case misp_run me feed_cmd m of
        (Exited True out, m') \<Rightarrow>
          (if contains (from_utf8_lossy (cbytes out)) ''rule ''
           then log_intel me ''YARA_FEED_SYNC'' ''APT_APT29.yar'' ''OSINT_GITHUB'' m' else m')
      | (_, m') \<Rightarrow> m')"

text \<open>One pass of the polling loop.\<close>

definition misp_round :: "misp_env \<Rightarrow> misp_state \<Rightarrow> bool \<times> misp_state" where
  "misp_round me m =
     (case misp_run me misp_cmd m of
        (Exited True out, m1) \<Rightarrow>
          (case json_attributes me (from_utf8_lossy (cbytes out)) of
             Some ats \<Rightarrow>
               (case sync_attributes me ats m1 of
                  (True, m2) \<Rightarrow> (True, m2)
                | (False, m2) \<Rightarrow> (False, sync_feed me m2))
           | None \<Rightarrow> (False, sync_feed me m1))
      | (_, m1) \<Rightarrow> (False, sync_feed me m1))"

text \<open>With the receiver alive, exactly the valid destination addresses are sent, in order.\<close>

definition ip_of :: "misp_attribute \<Rightarrow> ipv4 option" where
  "ip_of at = (if attr_type at = ''ip-dst'' then parse_ipv4 (attr_value at) else None)"

lemma sent_log_intel [simp]: "sent (log_intel me ty v src m) = sent m"
  by (simp add: log_intel_def)

lemma sync_attributes_sent:
  "(\<And>n. receiver_alive me n) \<Longrightarrow>
     fst (sync_attributes me ats m) = False \<and>
     sent (snd (sync_attributes me ats m)) = sent m @ map (to_be \<circ> u32_from) (List.map_filter ip_of ats)"
  by (induction me ats m rule: sync_attributes.induct)
    (auto simp: ip_of_def List.map_filter_simps split: option.split)

lemma sent_sync_feed [simp]: "sent (sync_feed me m) = sent m"
  by (auto simp: sync_feed_def misp_run_def split: cmd_result.split bool.split)

lemma misp_round_sent:
  assumes "\<And>n. receiver_alive me n" and "misp_os me (misp_commands m) misp_cmd = Exited True out"
    and "json_attributes me (from_utf8_lossy (cbytes out)) = Some ats"
  shows "sent (snd (misp_round me m)) = sent m @ map (to_be \<circ> u32_from) (List.map_filter ip_of ats)"
proof -
  let ?m1 = "m\<lparr>misp_commands := misp_commands m @ [misp_cmd]\<rparr>"
  have run: "misp_run me misp_cmd m = (Exited True out, ?m1)" by (simp add: misp_run_def assms(2))
  obtain m2 where m2: "sync_attributes me ats ?m1 = (False, m2)"
    using sync_attributes_sent [OF assms(1), of ats ?m1] by (cases "sync_attributes me ats ?m1") auto
  then have "sent m2 = sent m @ map (to_be \<circ> u32_from) (List.map_filter ip_of ats)"
    using sync_attributes_sent [OF assms(1), of ats ?m1] by simp
  then show ?thesis by (simp add: misp_round_def run assms(3) m2)
qed

text \<open>A server that reports one address.\<close>

definition demo_misp :: misp_env where
  "demo_misp = \<lparr>json_attributes = (\<lambda>s. Some [\<lparr>attr_type = ''ip-dst'', attr_value = ''185.220.101.1''\<rparr>]),
     receiver_alive = (\<lambda>n. True), misp_outcomes = (\<lambda>n. IoOk), misp_os = (\<lambda>tr c. Exited True [])\<rparr>"

end
