(* ===== verification/Deployment.thy ===== *)
theory Deployment
  imports Misp
begin

text \<open>
  How the program is built, installed and run: the build script \<open>build.rs\<close>, the installer
  \<open>install.sh\<close>, the two service descriptions (\<open>systemd/alphvdr.service\<close> and the one the installer
  writes) and the containers of \<open>misp/docker-compose.yml\<close>. cargo, the skeleton builder and
  systemctl are not part of the program; what they answer is a parameter.
\<close>

section \<open>The build script\<close>

record skeleton_builder =
  bpf_source :: string
  clang_args :: "string list"

definition sensor_skeleton :: skeleton_builder where
  "sensor_skeleton = \<lparr>bpf_source = ''src-bpf/sensor.bpf.c'',
     clang_args = [''-Isrc-bpf'', ''-g'', ''-O2'', ''-target'', ''bpf'']\<rparr>"

definition rerun_if_changed :: "string list" where
  "rerun_if_changed = [bpf_source sensor_skeleton, ''src-bpf/common.h'']"

text \<open>\<open>main\<close>: without \<open>OUT_DIR\<close>, or when the skeleton cannot be built, the script panics. The result is its output.\<close>

definition build_main :: "string option \<Rightarrow> (skeleton_builder \<Rightarrow> string \<Rightarrow> bool) \<Rightarrow> (unit, string list) outcome" where
  "build_main out_dir build_and_generate =
     (case out_dir of
        None \<Rightarrow> Panic
      | Some dir \<Rightarrow>
          (if build_and_generate sensor_skeleton (dir @ ''/sensor.skel.rs'')
           then Done (map (\<lambda>f. ''cargo:rerun-if-changed='' @ f) rerun_if_changed)
           else Panic))"

text \<open>
  The files of the repository that the source of the sensor includes (lines 1 to 6 of
  \<open>sensor.bpf.c\<close>). cargo runs the script again when a file it was told of has changed.
\<close>

definition included :: "string list" where
  "included = [''src-bpf/vmlinux.h'', ''src-bpf/common.h'']"

definition rebuilt :: "string set \<Rightarrow> bool" where
  "rebuilt changed \<longleftrightarrow> (\<exists>f \<in> set rerun_if_changed. f \<in> changed)"

lemma build_output:
  "build_main (Some dir) (\<lambda>b f. True) =
     Done [''cargo:rerun-if-changed=src-bpf/sensor.bpf.c'', ''cargo:rerun-if-changed=src-bpf/common.h'']"
  by (simp add: build_main_def rerun_if_changed_def sensor_skeleton_def)

text \<open>After a change of the kernel's types alone the old skeleton is kept.\<close>

lemma stale_skeleton: "\<exists>f \<in> set included. \<not> rebuilt {f}"
  by (simp add: included_def rebuilt_def rerun_if_changed_def sensor_skeleton_def)

section \<open>Service descriptions\<close>

text \<open>The lines of \<open>systemd/alphvdr.service\<close>.\<close>

definition alphvdr_service :: "string list" where
  "alphvdr_service =
     [''[Unit]'',
      ''Description=ALPHVDR Endpoint Detection and Response Engine'',
      ''After=network.target zfs.target'',
      ''Wants=zfs.target'',
      '''',
      ''[Service]'',
      ''Type=simple'',
      ''# Ensure we run as root as eBPF and ZFS operations require it'',
      ''User=root'',
      ''Group=root'',
      '''',
      ''# The path to the compiled ALPHVDR binary'',
      ''ExecStart=/home/john/Documents/ALPHVDR/defensive/target/debug/alphvdr-agent'',
      '''',
      ''# Restart configuration'',
      ''Restart=always'',
      ''RestartSec=5'',
      '''',
      ''# Hardening / Sandboxing'',
      ''# We need CAP_SYS_ADMIN and CAP_BPF for eBPF, and CAP_SYS_PTRACE for freeze signals.'',
      ''# We also need CAP_DAC_OVERRIDE to access /proc/[pid]/mem'',
      ''CapabilityBoundingSet=CAP_SYS_ADMIN CAP_BPF CAP_SYS_PTRACE CAP_DAC_OVERRIDE CAP_NET_ADMIN CAP_SYS_RESOURCE'',
      ''NoNewPrivileges=yes'',
      ''ProtectKernelModules=yes'',
      ''ProtectControlGroups=yes'',
      ''ProtectKernelTunables=yes'',
      '''',
      ''# Logging'',
      ''StandardOutput=journal'',
      ''StandardError=journal'',
      ''SyslogIdentifier=alphvdr'',
      '''',
      ''[Install]'',
      ''WantedBy=multi-user.target'']"

text \<open>The lines the installer writes to \<open>/etc/systemd/system/sys-thermald.service\<close>.\<close>

definition thermald_service :: "string list" where
  "thermald_service =
     [''[Unit]'',
      ''Description=System Thermal and Power Management Daemon'',
      ''After=network.target'',
      '''',
      ''[Service]'',
      ''Type=simple'',
      ''ExecStart=/usr/local/bin/sys-thermald'',
      ''Restart=always'',
      ''RestartSec=3'',
      ''LimitNOFILE=65536'',
      ''LimitMEMLOCK=infinity'',
      '''',
      ''[Install]'',
      ''WantedBy=multi-user.target'']"

text \<open>
  How such a description is read (\<open>systemd.syntax\<close>): comments and empty lines are skipped, a line
  in brackets opens a section, any other assigns a value to a key; the last assignment counts.
\<close>

fun assignments :: "string \<Rightarrow> string list \<Rightarrow> ((string \<times> string) \<times> string) list" where
  "assignments sec [] = []"
| "assignments sec (l # ls) =
     (if l = [] \<or> hd l = CHR ''#'' then assignments sec ls
      else if hd l = CHR ''['' then assignments (butlast (tl l)) ls
      else ((sec, takeWhile (\<lambda>c. c \<noteq> CHR ''='') l), tl (dropWhile (\<lambda>c. c \<noteq> CHR ''='') l)) # assignments sec ls)"

definition setting :: "string list \<Rightarrow> string \<Rightarrow> string \<Rightarrow> string option" where
  "setting unit sec key = map_of (rev (assignments [] unit)) (sec, key)"

text \<open>
  The capabilities of a service of root: those of its bounding set, all when it sets none.
\<close>

definition holds_cap :: "string list \<Rightarrow> string \<Rightarrow> bool" where
  "holds_cap unit cap \<longleftrightarrow>
     (case setting unit ''Service'' ''CapabilityBoundingSet'' of
        None \<Rightarrow> True
      | Some v \<Rightarrow> cap \<in> set (split_on (CHR '' '') v))"

definition restarted :: "string list \<Rightarrow> bool" where
  "restarted unit \<longleftrightarrow> setting unit ''Service'' ''Restart'' = Some ''always''"

lemma alphvdr_settings:
  "setting alphvdr_service ''Service'' ''CapabilityBoundingSet'' =
     Some ''CAP_SYS_ADMIN CAP_BPF CAP_SYS_PTRACE CAP_DAC_OVERRIDE CAP_NET_ADMIN CAP_SYS_RESOURCE''"
  "setting alphvdr_service ''Service'' ''Restart'' = Some ''always''"
  "setting alphvdr_service ''Service'' ''User'' = Some ''root''"
  "setting alphvdr_service ''Service'' ''ExecStart'' =
     Some ''/home/john/Documents/ALPHVDR/defensive/target/debug/alphvdr-agent''"
  by (simp_all add: setting_def alphvdr_service_def)

lemma thermald_settings:
  "setting thermald_service ''Service'' ''CapabilityBoundingSet'' = None"
  "setting thermald_service ''Service'' ''Restart'' = Some ''always''"
  "setting thermald_service ''Service'' ''ExecStart'' = Some ''/usr/local/bin/sys-thermald''"
  by (simp_all add: setting_def thermald_service_def)

lemma service_caps:
  "\<not> holds_cap alphvdr_service ''CAP_KILL''" "holds_cap alphvdr_service ''CAP_SYS_PTRACE''"
  "holds_cap thermald_service cap"
  by (simp_all add: holds_cap_def alphvdr_settings thermald_settings)

lemma services_restarted: "restarted alphvdr_service" "restarted thermald_service"
  by (simp_all add: restarted_def alphvdr_settings thermald_settings)

section \<open>The installer\<close>

text \<open>
  The machine as far as the script changes it: the content of files and the executable ones; of the
  service \<open>sys-thermald\<close> the description systemd has loaded, whether it is enabled, and the
  program its main process runs, with the path it was started from; what the script has said.
\<close>

record machine =
  disk :: "string \<rightharpoonup> string list"
  executable :: "string set"
  loaded :: "string list option"
  enabled :: bool
  running :: "(string \<times> string list) option"
  said :: "string list"

text \<open>
  What the commands meet. \<open>built\<close> is what cargo leaves when it succeeds. A write to a file may be
  complete, fail to open the file, or, having emptied it, end after \<open>n\<close> pieces. \<open>loads\<close> tells what
  the kernel can execute.
\<close>

datatype write_outcome = Written | Not_Opened | Cut_Short nat

record install_env =
  euid :: nat
  echo_ok :: bool
  cd_ok :: bool
  built :: "string list option"
  mkdir_ok :: bool
  cp_outcome :: write_outcome
  chmod_ok :: bool
  cat_outcome :: write_outcome
  reload_ok :: bool
  enable_ok :: bool
  start_ok :: bool
  loads :: "string list \<Rightarrow> bool"

definition agent_binary :: string where "agent_binary = ''target/release/alphvdr-agent''"

definition installed_binary :: string where "installed_binary = ''/usr/local/bin/sys-thermald''"

definition unit_path :: string where "unit_path = ''/etc/systemd/system/sys-thermald.service''"

definition build_release :: "install_env \<Rightarrow> machine \<Rightarrow> bool \<times> machine" where
  "build_release ie m =
     (case built ie of
        None \<Rightarrow> (False, m)
      | Some b \<Rightarrow> (True, m\<lparr>disk := (disk m)(agent_binary \<mapsto> b), executable := insert agent_binary (executable m)\<rparr>))"

text \<open>
  \<open>cp\<close> opens and empties its target before it writes; the file of a running program cannot be opened
  for writing. A new file has the mode of the original, an old one keeps its own.
\<close>

definition copied :: "string list \<Rightarrow> machine \<Rightarrow> machine" where
  "copied b m = m\<lparr>disk := (disk m)(installed_binary \<mapsto> b),
     executable := (if disk m installed_binary = None \<and> agent_binary \<in> executable m
       then insert installed_binary (executable m) else executable m)\<rparr>"

definition copy_binary :: "install_env \<Rightarrow> machine \<Rightarrow> bool \<times> machine" where
  "copy_binary ie m =
     (case disk m agent_binary of
        None \<Rightarrow> (False, m)
      | Some b \<Rightarrow>
          (if map_option fst (running m) = Some installed_binary then (False, m)
           else (case cp_outcome ie of
               Written \<Rightarrow> (True, copied b m)
             | Not_Opened \<Rightarrow> (False, m)
             | Cut_Short n \<Rightarrow> (False, copied (take n b) m))))"

definition make_executable :: "install_env \<Rightarrow> machine \<Rightarrow> bool \<times> machine" where
  "make_executable ie m =
     (if chmod_ok ie \<and> disk m installed_binary \<noteq> None
      then (True, m\<lparr>executable := insert installed_binary (executable m)\<rparr>) else (False, m))"

definition write_unit :: "install_env \<Rightarrow> machine \<Rightarrow> bool \<times> machine" where
  "write_unit ie m =
     (case cat_outcome ie of
        Written \<Rightarrow> (True, m\<lparr>disk := (disk m)(unit_path \<mapsto> thermald_service)\<rparr>)
      | Not_Opened \<Rightarrow> (False, m)
      | Cut_Short n \<Rightarrow> (False, m\<lparr>disk := (disk m)(unit_path \<mapsto> take n thermald_service)\<rparr>))"

text \<open>
  systemctl: \<open>daemon-reload\<close> reads the description again, and so does \<open>enable\<close>, which needs one, and
  enables the service if it says where it is wanted. \<open>start\<close> leaves a service that runs as it is. A
  service of type \<open>simple\<close> counts as started once its process is forked, whether or not the
  program can then be executed.
\<close>

definition daemon_reload :: "install_env \<Rightarrow> machine \<Rightarrow> bool \<times> machine" where
  "daemon_reload ie m = (if reload_ok ie then (True, m\<lparr>loaded := disk m unit_path\<rparr>) else (False, m))"

definition enable_service :: "install_env \<Rightarrow> machine \<Rightarrow> bool \<times> machine" where
  "enable_service ie m =
     (case disk m unit_path of
        None \<Rightarrow> (False, m)
      | Some u \<Rightarrow>
          (if enable_ok ie
           then (True, m\<lparr>loaded := Some u, enabled := enabled m \<or> setting u ''Install'' ''WantedBy'' \<noteq> None\<rparr>)
           else (False, m)))"

definition executed :: "install_env \<Rightarrow> machine \<Rightarrow> string \<Rightarrow> (string \<times> string list) option" where
  "executed ie m path =
     (case disk m path of
        None \<Rightarrow> None
      | Some b \<Rightarrow> if path \<in> executable m \<and> loads ie b then Some (path, b) else None)"

definition start_service :: "install_env \<Rightarrow> machine \<Rightarrow> bool \<times> machine" where
  "start_service ie m =
     (if running m \<noteq> None then (True, m)
      else (case (case loaded m of None \<Rightarrow> disk m unit_path | Some u \<Rightarrow> Some u) of
          None \<Rightarrow> (False, m)
        | Some u \<Rightarrow>
            (case setting u ''Service'' ''ExecStart'' of
               None \<Rightarrow> (False, m)
             | Some path \<Rightarrow>
                 (if start_ok ie then (True, m\<lparr>running := executed ie m path\<rparr>) else (False, m)))))"

text \<open>
  The script from the change of its directory on, a list of commands; relative paths are those of that
  directory. No \<open>set -e\<close>: each command runs whatever came of the one before, and the exit status is
  that of the last.
\<close>

datatype command =
    Say string | Cargo_Build | Make_Directory | Copy_Binary | Make_Executable | Write_Unit
  | Daemon_Reload | Enable_Service | Start_Service

fun execute :: "install_env \<Rightarrow> command \<Rightarrow> machine \<Rightarrow> bool \<times> machine" where
  "execute ie (Say t) m = (echo_ok ie, if echo_ok ie then m\<lparr>said := said m @ [t]\<rparr> else m)"
| "execute ie Cargo_Build m = build_release ie m"
| "execute ie Make_Directory m = (mkdir_ok ie, m)"
| "execute ie Copy_Binary m = copy_binary ie m"
| "execute ie Make_Executable m = make_executable ie m"
| "execute ie Write_Unit m = write_unit ie m"
| "execute ie Daemon_Reload m = daemon_reload ie m"
| "execute ie Enable_Service m = enable_service ie m"
| "execute ie Start_Service m = start_service ie m"

fun run_commands :: "install_env \<Rightarrow> bool \<Rightarrow> command list \<Rightarrow> machine \<Rightarrow> bool \<times> machine" where
  "run_commands ie ok [] m = (ok, m)"
| "run_commands ie ok (c # cs) m = (case execute ie c m of (ok', m') \<Rightarrow> run_commands ie ok' cs m')"

definition install_commands :: "command list" where
  "install_commands =
     [Cargo_Build,
      Say ''Installing binary...'', Make_Directory, Copy_Binary, Make_Executable,
      Say ''Creating systemd service...'', Write_Unit,
      Say ''Enabling and starting service...'', Daemon_Reload, Enable_Service, Start_Service,
      Say (''Installation complete. Service '' @ [CHR 0x27] @ ''sys-thermald'' @ [CHR 0x27] @ '' is running.'')]"

definition install_sh :: "install_env \<Rightarrow> machine \<Rightarrow> nat \<times> machine" where
  "install_sh ie m =
     (if euid ie \<noteq> 0 then (1, snd (execute ie (Say ''Please run as root'') m))
      else
        (let m1 = snd (execute ie (Say ''Building ALPHVDR EDR...'') m)
         in if \<not> cd_ok ie then (1, m1)
            else (case run_commands ie True install_commands m1 of
                (ok, m2) \<Rightarrow> (if ok then 0 else 1, m2))))"

lemma install_paths [simp]:
  "agent_binary \<noteq> installed_binary" "installed_binary \<noteq> agent_binary" "unit_path \<noteq> agent_binary"
  "agent_binary \<noteq> unit_path" "unit_path \<noteq> installed_binary" "installed_binary \<noteq> unit_path"
  by (simp_all add: agent_binary_def installed_binary_def unit_path_def)

text \<open>What each command leaves alone.\<close>

lemma execute_running: "c \<noteq> Start_Service \<Longrightarrow> running (snd (execute ie c m)) = running m"
  by (cases c) (simp_all add: build_release_def copy_binary_def copied_def make_executable_def write_unit_def
      daemon_reload_def enable_service_def split: option.split write_outcome.split)

lemma execute_busy:
  "map_option fst (running m) = Some installed_binary \<Longrightarrow>
     disk (snd (execute ie c m)) installed_binary = disk m installed_binary"
  by (cases c) (simp_all add: build_release_def copy_binary_def make_executable_def write_unit_def
      daemon_reload_def enable_service_def start_service_def split: option.split write_outcome.split)

lemma start_running: "running m \<noteq> None \<Longrightarrow> running (snd (execute ie c m)) = running m"
  by (cases "c = Start_Service") (simp_all add: execute_running start_service_def)

lemma run_step:
  "run_commands ie ok (c # cs) m = run_commands ie (fst (execute ie c m)) cs (snd (execute ie c m))"
  by (simp add: case_prod_beta)

declare run_commands.simps(2) [simp del]

lemma commands_running: "running m \<noteq> None \<Longrightarrow> running (snd (run_commands ie ok cs m)) = running m"
proof (induction cs arbitrary: ok m)
  case (Cons c cs)
  have kept: "running (snd (execute ie c m)) = running m" using Cons.prems by (rule start_running)
  with Cons.prems Cons.IH [of "snd (execute ie c m)"] show ?case unfolding run_step by simp
qed simp

lemma commands_busy:
  "map_option fst (running m) = Some installed_binary \<Longrightarrow>
     disk (snd (run_commands ie ok cs m)) installed_binary = disk m installed_binary"
proof (induction cs arbitrary: ok m)
  case (Cons c cs)
  then have "running m \<noteq> None" by auto
  then have "running (snd (execute ie c m)) = running m" by (rule start_running)
  with Cons execute_busy [OF Cons.prems, of ie c] show ?case by (simp only: run_step)
qed simp

lemma run_commands_append:
  "run_commands ie ok (cs @ ds) m = (case run_commands ie ok cs m of (ok', m') \<Rightarrow> run_commands ie ok' ds m')"
  by (induction cs arbitrary: ok m) (simp_all add: run_step)

definition completion :: string where
  "completion = ''Installation complete. Service '' @ [CHR 0x27] @ ''sys-thermald'' @ [CHR 0x27] @ '' is running.''"

lemma commands_announce:
  assumes "echo_ok ie"
  shows "fst (run_commands ie ok install_commands m) \<and>
    last (said (snd (run_commands ie ok install_commands m))) = completion"
proof -
  have "install_commands = butlast install_commands @ [Say completion]"
    by (simp add: install_commands_def completion_def)
  then have "run_commands ie ok install_commands m =
      execute ie (Say completion) (snd (run_commands ie ok (butlast install_commands) m))"
    using run_commands_append [of ie ok "butlast install_commands" "[Say completion]" m]
    by (simp add: run_step case_prod_beta)
  then show ?thesis using assms by simp
qed

lemma execute_unstarted:
  "\<not> start_ok ie \<Longrightarrow> running m = None \<Longrightarrow> running (snd (execute ie c m)) = None"
  by (cases "c = Start_Service") (simp_all add: execute_running start_service_def split: option.split)

lemma commands_unstarted:
  "\<not> start_ok ie \<Longrightarrow> running m = None \<Longrightarrow> running (snd (run_commands ie ok cs m)) = None"
  by (induction cs arbitrary: ok m) (simp_all add: run_step execute_unstarted)

text \<open>When the service did not run before and the commands succeed, it now runs what \<open>target\<close> holds.\<close>

lemmas install_steps = build_release_def copy_binary_def copied_def make_executable_def write_unit_def
  daemon_reload_def enable_service_def start_service_def executed_def

lemma fresh_install:
  assumes "running m = None" and "disk (snd (build_release ie m)) agent_binary = Some b" and "loads ie b"
    and "echo_ok ie" "cp_outcome ie = Written" "chmod_ok ie" "cat_outcome ie = Written" "reload_ok ie" "start_ok ie"
  shows "running (snd (run_commands ie ok install_commands m)) = Some (installed_binary, b)"
proof -
  define m1 where "m1 = snd (build_release ie m)"
  have m1: "running m1 = None" "disk m1 agent_binary = Some b"
    using assms(1,2) by (simp_all add: m1_def build_release_def split: option.split)
  have "run_commands ie ok install_commands m =
      run_commands ie (fst (build_release ie m)) (tl install_commands) m1"
    by (simp add: install_commands_def run_step m1_def)
  moreover have "running (snd (run_commands ie x (tl install_commands) m1)) = Some (installed_binary, b)" for x
    using assms(3-9) m1
    by (simp add: install_commands_def run_step install_steps thermald_settings installed_binary_def [symmetric])
  ultimately show ?thesis by simp
qed


lemma nothing_installed:
  assumes "running m = None" and "built ie = None" "disk m agent_binary = None" "disk m installed_binary = None"
    and "cat_outcome ie = Written" "reload_ok ie" "echo_ok ie"
  shows "running (snd (run_commands ie ok install_commands m)) = None"
  using assms
  by (simp add: install_commands_def run_step install_steps thermald_settings installed_binary_def [symmetric])

lemma install_run:
  assumes "euid ie = 0" and "cd_ok ie" and "echo_ok ie"
  shows "install_sh ie m =
    (0, snd (run_commands ie True install_commands (m\<lparr>said := said m @ [''Building ALPHVDR EDR...'']\<rparr>)))"
  using assms commands_announce [of ie True] by (simp add: install_sh_def case_prod_beta)

text \<open>
  C38. What the installer leaves running. Run as root in its directory, with an output to write to, the
  installer always ends with status 0, and the last it says is that the installation is complete
  and the service is running. What runs then depends on the case. If the service did not run and the
  copy, the service description and the start succeed, it now runs the program in \<open>target\<close>,
  which is the new build if cargo succeeded and that of an earlier build if cargo failed. If the
  service ran before, it goes on running the old program, whatever was built, and the installed file
  stays the old one. If the start fails, or there is nothing to install and nothing was
  installed, it does not run.
\<close>

theorem installer_outcome:
  assumes "euid ie = 0" and "cd_ok ie" and "echo_ok ie"
  shows "\<exists>m'. install_sh ie m = (0, m') \<and>
    last (said m') = ''Installation complete. Service '' @ [CHR 0x27] @ ''sys-thermald'' @ [CHR 0x27] @ '' is running.'' \<and>
    (running m = None \<and> cp_outcome ie = Written \<and> chmod_ok ie \<and> cat_outcome ie = Written \<and> reload_ok ie \<and>
       start_ok ie \<longrightarrow>
       (\<forall>b. built ie = Some b \<and> loads ie b \<longrightarrow> running m' = Some (''/usr/local/bin/sys-thermald'', b)) \<and>
       (\<forall>old. built ie = None \<and> disk m ''target/release/alphvdr-agent'' = Some old \<and> loads ie old \<longrightarrow>
          running m' = Some (''/usr/local/bin/sys-thermald'', old))) \<and>
    (\<forall>path old. running m = Some (path, old) \<longrightarrow> running m' = Some (path, old) \<and>
       (path = ''/usr/local/bin/sys-thermald'' \<longrightarrow> disk m' path = disk m path)) \<and>
    (running m = None \<and> (\<not> start_ok ie \<or>
        built ie = None \<and> disk m ''target/release/alphvdr-agent'' = None \<and>
        disk m ''/usr/local/bin/sys-thermald'' = None \<and> cat_outcome ie = Written \<and> reload_ok ie) \<longrightarrow>
      running m' = None)"
proof -
  let ?m = "m\<lparr>said := said m @ [''Building ALPHVDR EDR...'']\<rparr>"
  let ?m' = "snd (run_commands ie True install_commands ?m)"
  note paths = installed_binary_def [symmetric] agent_binary_def [symmetric]
  have built: "running ?m' = Some (installed_binary, b)"
    if "running m = None" "cp_outcome ie = Written" "chmod_ok ie" "cat_outcome ie = Written" "reload_ok ie"
      "start_ok ie" "built ie = Some b \<or> built ie = None \<and> disk m agent_binary = Some b" "loads ie b" for b
    by (rule fresh_install) (use that assms(3) in \<open>auto simp: build_release_def\<close>)
  have busy: "running ?m' = Some (path, old) \<and> (path = installed_binary \<longrightarrow> disk ?m' path = disk m path)"
    if "running m = Some (path, old)" for path old
    using that commands_running [of ?m ie True install_commands] commands_busy [of ?m ie True install_commands]
    by auto
  have idle: "running ?m' = None" if "running m = None" "\<not> start_ok ie"
    using that(2) commands_unstarted [of ie ?m] that(1) by simp
  have empty: "running ?m' = None"
    if "running m = None" "built ie = None" "disk m agent_binary = None" "disk m installed_binary = None"
      "cat_outcome ie = Written" "reload_ok ie"
    by (rule nothing_installed) (use that assms(3) in simp_all)
  have last: "last (said ?m') = completion" using commands_announce [OF assms(3)] by simp
  show ?thesis
    using install_run [OF assms, of m] built busy idle empty last
    unfolding paths completion_def by (intro exI [of _ ?m']) blast
qed

text \<open>A failed build on a machine with an earlier one; a good build on a machine where the service runs.\<close>

definition stale_machine :: machine where
  "stale_machine = \<lparr>disk = [agent_binary \<mapsto> [''old'']], executable = {}, loaded = None, enabled = False,
     running = None, said = []\<rparr>"

definition busy_machine :: machine where
  "busy_machine = \<lparr>disk = [installed_binary \<mapsto> [''old'']], executable = {installed_binary}, loaded = None,
     enabled = True, running = Some (installed_binary, [''old'']), said = []\<rparr>"

definition install_with :: "string list option \<Rightarrow> install_env" where
  "install_with b = \<lparr>euid = 0, echo_ok = True, cd_ok = True, built = b, mkdir_ok = True, cp_outcome = Written,
     chmod_ok = True, cat_outcome = Written, reload_ok = True, enable_ok = True, start_ok = True,
     loads = (\<lambda>b. b \<noteq> [])\<rparr>"

theorem installer_outcome_witness:
  "(\<exists>m'. install_sh (install_with None) stale_machine = (0, m') \<and> running m' = Some (installed_binary, [''old''])) \<and>
   (\<exists>m'. install_sh (install_with (Some [''new''])) busy_machine = (0, m') \<and>
      running m' = Some (installed_binary, [''old'']))"
  using installer_outcome [of "install_with None" stale_machine]
    installer_outcome [of "install_with (Some [''new''])" busy_machine]
  by (auto simp: install_with_def stale_machine_def busy_machine_def agent_binary_def installed_binary_def)

section \<open>The containers\<close>

record container =
  image :: string
  depends_on :: "string list"
  ports :: "(nat \<times> nat) list"
  environment :: "(string \<times> string) list"
  volumes :: "(string \<times> string) list"
  container_restart :: string

definition compose :: "(string \<times> container) list" where
  "compose =
     [(''misp'', \<lparr>image = ''coolacid/misp-docker:core-latest'', depends_on = [''redis'', ''db''],
         ports = [(8080, 80), (8443, 443)],
         environment = [(''MYSQL_HOST'', ''db''), (''MYSQL_DATABASE'', ''misp''), (''MYSQL_USER'', ''misp''),
           (''MYSQL_PASSWORD'', ''misp_password''), (''MISP_ADMIN_EMAIL'', ''admin@admin.test''),
           (''MISP_ADMIN_PASSPHRASE'', ''admin''), (''MISP_BASEURL'', ''https://localhost:8443'')],
         volumes = [], container_restart = ''unless-stopped''\<rparr>),
      (''redis'', \<lparr>image = ''redis:6-alpine'', depends_on = [], ports = [], environment = [], volumes = [],
         container_restart = ''unless-stopped''\<rparr>),
      (''db'', \<lparr>image = ''mariadb:10.4'', depends_on = [], ports = [],
         environment = [(''MYSQL_DATABASE'', ''misp''), (''MYSQL_USER'', ''misp''),
           (''MYSQL_PASSWORD'', ''misp_password''), (''MYSQL_ROOT_PASSWORD'', ''misp_root_password'')],
         volumes = [(''misp-db'', ''/var/lib/mysql'')], container_restart = ''unless-stopped''\<rparr>)]"

definition named_volumes :: "string list" where "named_volumes = [''misp-db'']"

text \<open>
  The containers fit together: what one depends on, mounts or takes as its database exists, with the
  same credentials; and they fit the sidecar, which asks the address they publish.
\<close>

lemma compose_closed:
  "\<forall>(n, c) \<in> set compose. set (depends_on c) \<subseteq> fst ` set compose \<and> fst ` set (volumes c) \<subseteq> set named_volumes"
  by (simp add: compose_def named_volumes_def)

lemma compose_database:
  assumes "map_of compose ''misp'' = Some m" and "map_of compose ''db'' = Some d"
  shows "map_of (environment m) ''MYSQL_HOST'' = Some ''db'' \<and>
    (\<forall>k \<in> {''MYSQL_DATABASE'', ''MYSQL_USER'', ''MYSQL_PASSWORD''}.
       map_of (environment m) k = map_of (environment d) k)"
  using assms by (auto simp: compose_def)

lemma sidecar_address:
  assumes "map_of compose ''misp'' = Some m"
  shows "map_of (environment m) ''MISP_BASEURL'' = Some ''https://localhost:8443'' \<and>
    (8443, 443) \<in> set (ports m) \<and> last misp_cmd = ''https://localhost:8443'' @ ''/attributes/restSearch''"
  using assms by (auto simp: compose_def misp_cmd_def)

end
