(* ===== verification/Rollback.thy ===== *)
theory Rollback
  imports Rust_Std
begin

text \<open>
  The ZFS manager of \<open>src/rollback.rs\<close>: the rollback that answers a ransomware alert and
  the daily snapshot with its compressed export. Both are sequences of external commands;
  the state is the list of commands run so far, the outcomes come from the parameter \<open>os\<close>.
\<close>

record zfs_manager =
  dataset :: string

definition zfs_new :: "string \<Rightarrow> zfs_manager" where
  "zfs_new d = \<lparr>dataset = d\<rparr>"

datatype zfs_error =
    RollbackSpawn | RollbackFailed
  | ClockBeforeEpoch | SnapshotSpawn | SnapshotFailed | ExportSpawn | ExportFailed

definition rollback_cmd :: "zfs_manager \<Rightarrow> cmd" where
  "rollback_cmd z =
     [''sudo'', ''zfs'', ''rollback'', ''-r'', dataset z @ ''@edr_pre_dev_snapshot'']"

definition trigger_rollback :: "os \<Rightarrow> zfs_manager \<Rightarrow> cmd list \<Rightarrow> (zfs_error + unit) \<times> cmd list" where
  "trigger_rollback os z tr =
     (let c = rollback_cmd z
      in case os tr c of
           SpawnFailed \<Rightarrow> (Inl RollbackSpawn, tr)
         | Exited ok out \<Rightarrow> (if ok then Inr () else Inl RollbackFailed, tr @ [c]))"

definition snapshot_name :: "zfs_manager \<Rightarrow> nat \<Rightarrow> string" where
  "snapshot_name z t = dataset z @ ''@edr_daily_'' @ show_nat t"

definition snapshot_cmd :: "zfs_manager \<Rightarrow> nat \<Rightarrow> cmd" where
  "snapshot_cmd z t = [''sudo'', ''zfs'', ''snapshot'', snapshot_name z t]"

definition backup_path :: "nat \<Rightarrow> string" where
  "backup_path t = ''/tmp/alphvdr_backup_'' @ show_nat t @ ''.zst''"

definition export_cmd :: "zfs_manager \<Rightarrow> nat \<Rightarrow> cmd" where
  "export_cmd z t =
     [''sh'', ''-c'', ''sudo zfs send '' @ snapshot_name z t @ '' | zstd -20 -T0 > '' @ backup_path t]"

text \<open>\<open>now\<close> is the number of seconds since the epoch, \<open>None\<close> for a clock set before it.\<close>

definition take_daily_snapshot ::
  "os \<Rightarrow> nat option \<Rightarrow> zfs_manager \<Rightarrow> cmd list \<Rightarrow> (zfs_error + unit) \<times> cmd list" where
  "take_daily_snapshot os now z tr =
     (case now of
        None \<Rightarrow> (Inl ClockBeforeEpoch, tr)
      | Some t \<Rightarrow>
          (case os tr (snapshot_cmd z t) of
             SpawnFailed \<Rightarrow> (Inl SnapshotSpawn, tr)
           | Exited ok out \<Rightarrow>
               (let tr1 = tr @ [snapshot_cmd z t]
                in if \<not> ok then (Inl SnapshotFailed, tr1)
                   else (case os tr1 (export_cmd z t) of
                           SpawnFailed \<Rightarrow> (Inl ExportSpawn, tr1)
                         | Exited ok2 out2 \<Rightarrow>
                             (if ok2 then Inr () else Inl ExportFailed, tr1 @ [export_cmd z t])))))"

lemma snapshot_success_trace:
  assumes "take_daily_snapshot os now z tr = (Inr (), tr')"
  obtains t where "now = Some t" and "tr' = tr @ [snapshot_cmd z t, export_cmd z t]"
  using assms
  by (auto simp: take_daily_snapshot_def Let_def split: option.splits cmd_result.splits if_splits)

lemma export_only_after_snapshot:
  assumes "take_daily_snapshot os now z tr = (r, tr')" and "tr' = tr @ new"
    and "export_cmd z t \<in> set new" and "now = Some t"
  shows "\<exists>out. os tr (snapshot_cmd z t) = Exited True out"
  using assms
  by (auto simp: take_daily_snapshot_def Let_def snapshot_cmd_def export_cmd_def
      split: cmd_result.splits if_splits)

text \<open>Running the rollback keeps the earlier commands and adds at most its own.\<close>

lemma rollback_trace:
  "snd (trigger_rollback os z tr) = tr \<or> snd (trigger_rollback os z tr) = tr @ [rollback_cmd z]"
  by (simp add: trigger_rollback_def Let_def split: cmd_result.split)

end
