(* ===== verification/Sensor_Base.thy ===== *)
theory Sensor_Base
  imports Vmlinux_Bpf
begin

text \<open>
  The shared ground of the eBPF programs of \<open>src-bpf/sensor.bpf.c\<close>: the records of
  \<open>common.h\<close> with their wire images, the maps the sensor declares, the state they make up,
  and the results of the kernel helpers one program run obtains. Helpers are kernel code
  and not part of the repository, so their results are the fields of the record \<open>kenv\<close>,
  an argument of every program.
\<close>

section \<open>Records of common.h\<close>

definition MAX_FILENAME_LEN :: nat where "MAX_FILENAME_LEN = 256"

definition MAX_ARGS_LEN :: nat where "MAX_ARGS_LEN = 256"

definition struct_event :: ctype where
  "struct_event = CStruct [
     Fld ''pid'' c_int,
     Fld ''ppid'' c_int,
     Fld ''uid'' c_int,
     Fld ''comm'' (CArr 16 c_char),
     Fld ''filename'' (CArr MAX_FILENAME_LEN c_char)]"

definition struct_tls_hello_event :: ctype where
  "struct_tls_hello_event = CStruct [
     Fld ''saddr'' typedef___u32,
     Fld ''daddr'' typedef___u32,
     Fld ''dport'' typedef___u16,
     Fld ''payload_len'' typedef___u16,
     Fld ''payload'' (CArr 128 typedef___u8)]"

lemma lay_struct_event [layout_simps]:
  "sizeof struct_event = 284" "alignof struct_event = 4" "wf_ty struct_event" "unpacked struct_event"
  by (simp_all add: struct_event_def MAX_FILENAME_LEN_def layout_simps layout_eval)

lemma lay_struct_tls_hello_event [layout_simps]:
  "sizeof struct_tls_hello_event = 140" "alignof struct_tls_hello_event = 4"
  "wf_ty struct_tls_hello_event" "unpacked struct_tls_hello_event"
  by (simp_all add: struct_tls_hello_event_def layout_simps layout_eval)

text \<open>The same records as values; \<open>int\<close> members are kept at their width.\<close>

record event =
  e_pid :: u32
  e_ppid :: u32
  e_uid :: u32
  e_comm :: "byte list"
  e_filename :: "byte list"

record tls_hello_event =
  t_saddr :: u32
  t_daddr :: u32
  t_dport :: u16
  t_payload_len :: u16
  t_payload :: "byte list"

definition wf_event :: "event \<Rightarrow> bool" where
  "wf_event e \<longleftrightarrow> length (e_comm e) = 16 \<and> length (e_filename e) = MAX_FILENAME_LEN"

definition wf_tls :: "tls_hello_event \<Rightarrow> bool" where
  "wf_tls e \<longleftrightarrow> length (t_payload e) = 128"

text \<open>The bytes of a record as the ring buffer carries them.\<close>

definition event_bytes :: "event \<Rightarrow> byte list" where
  "event_bytes e =
     u32_bytes (e_pid e) @ u32_bytes (e_ppid e) @ u32_bytes (e_uid e) @ e_comm e @ e_filename e"

definition tls_bytes :: "tls_hello_event \<Rightarrow> byte list" where
  "tls_bytes e =
     u32_bytes (t_saddr e) @ u32_bytes (t_daddr e) @ u16_bytes (t_dport e) @
     u16_bytes (t_payload_len e) @ t_payload e"

lemma length_event_bytes [wire_simps]:
  "wf_event e \<Longrightarrow> length (event_bytes e) = sizeof struct_event"
  by (simp add: event_bytes_def wf_event_def MAX_FILENAME_LEN_def layout_simps)

lemma length_tls_bytes [wire_simps]:
  "wf_tls e \<Longrightarrow> length (tls_bytes e) = sizeof struct_tls_hello_event"
  by (simp add: tls_bytes_def wf_tls_def layout_simps)

section \<open>Map declarations\<close>

record map_def =
  md_type :: string
  md_max_entries :: nat
  md_key :: "ctype option"
  md_value :: "ctype option"

definition c2_blocklist_map :: map_def where
  "c2_blocklist_map = \<lparr>md_type = ''BPF_MAP_TYPE_HASH'', md_max_entries = 100000,
     md_key = Some typedef___u32, md_value = Some typedef___u8\<rparr>"

definition events_map :: map_def where
  "events_map = \<lparr>md_type = ''BPF_MAP_TYPE_RINGBUF'', md_max_entries = 256 * 1024,
     md_key = None, md_value = None\<rparr>"

definition tls_events_map :: map_def where
  "tls_events_map = \<lparr>md_type = ''BPF_MAP_TYPE_RINGBUF'', md_max_entries = 256 * 1024,
     md_key = None, md_value = None\<rparr>"

definition honeytokens_map :: map_def where
  "honeytokens_map = \<lparr>md_type = ''BPF_MAP_TYPE_HASH'', md_max_entries = 256,
     md_key = Some typedef___u64, md_value = Some typedef___u8\<rparr>"

definition ghost_pids_map :: map_def where
  "ghost_pids_map = \<lparr>md_type = ''BPF_MAP_TYPE_HASH'', md_max_entries = 256,
     md_key = Some typedef___u32, md_value = Some typedef___u8\<rparr>"

definition agent_pid_map :: map_def where
  "agent_pid_map = \<lparr>md_type = ''BPF_MAP_TYPE_ARRAY'', md_max_entries = 1,
     md_key = Some typedef___u32, md_value = Some typedef___u32\<rparr>"

definition file_creation_counts_map :: map_def where
  "file_creation_counts_map = \<lparr>md_type = ''BPF_MAP_TYPE_LRU_HASH'', md_max_entries = 10240,
     md_key = Some typedef___u32, md_value = Some typedef___u64\<rparr>"

definition journal_spam_counts_map :: map_def where
  "journal_spam_counts_map = \<lparr>md_type = ''BPF_MAP_TYPE_LRU_HASH'', md_max_entries = 10240,
     md_key = Some typedef___u32, md_value = Some typedef___u64\<rparr>"

definition sensor_maps :: "map_def list" where
  "sensor_maps = [c2_blocklist_map, events_map, tls_events_map, honeytokens_map, ghost_pids_map,
     agent_pid_map, file_creation_counts_map, journal_spam_counts_map]"

text \<open>The number of a named enumerator.\<close>

fun enum_val :: "ctype \<Rightarrow> string \<Rightarrow> int option" where
  "enum_val (CEnum n es) nm = map_of es nm"
| "enum_val _ nm = None"

section \<open>State of the sensor\<close>

text \<open>
  The contents of the maps, the records submitted to the two ring buffers (oldest first)
  and the signals sent with \<open>bpf_send_signal\<close>, each with the process it went to.
\<close>

record bpf_state =
  c2_blocklist :: "u32 \<rightharpoonup> byte"
  events :: "byte list list"
  tls_events :: "byte list list"
  honeytokens :: "u64 \<rightharpoonup> byte"
  ghost_pids :: "u32 \<rightharpoonup> byte"
  agent_pid :: "u32 \<rightharpoonup> u32"
  file_creation_counts :: "u32 \<rightharpoonup> u64"
  journal_spam_counts :: "u32 \<rightharpoonup> u64"
  signals :: "(u32 \<times> nat) list"

text \<open>After loading: hash maps are empty, the one element of the array map is zero.\<close>

definition bpf_init :: bpf_state where
  "bpf_init = \<lparr>c2_blocklist = Map.empty, events = [], tls_events = [], honeytokens = Map.empty,
     ghost_pids = Map.empty, agent_pid = [0 \<mapsto> 0], file_creation_counts = Map.empty,
     journal_spam_counts = Map.empty, signals = []\<rparr>"

section \<open>Results of kernel helpers\<close>

text \<open>
  What the helpers return during one run of a program. \<open>slot\<close> and \<open>tls_slot\<close> are the
  results of \<open>bpf_ringbuf_reserve\<close>: \<open>None\<close> when the buffer is full, otherwise the record
  as it lies in the reserved memory before the program writes to it. \<open>kread a n\<close> is what
  \<open>bpf_probe_read_kernel\<close> leaves in a destination of \<open>n\<close> bytes, \<open>ustr a n\<close> the bytes
  \<open>bpf_probe_read_user_str\<close> writes to the front of one, \<open>lru_update\<close> the effect of
  \<open>bpf_map_update_elem\<close> on a least-recently-used hash map, which may evict other keys.
\<close>

record kenv =
  cur_pid_tgid :: u64
  cur_uid_gid :: u64
  cur_comm :: "byte list"
  cur_task :: u64
  kread :: "u64 \<Rightarrow> nat \<Rightarrow> byte list"
  ustr :: "u64 \<Rightarrow> nat \<Rightarrow> byte list"
  slot :: "event option"
  tls_slot :: "tls_hello_event option"
  lru_update :: "(u32 \<rightharpoonup> u64) \<Rightarrow> u32 \<Rightarrow> u64 \<Rightarrow> (u32 \<rightharpoonup> u64)"

text \<open>The sizes the helpers guarantee.\<close>

definition wf_kenv :: "kenv \<Rightarrow> bool" where
  "wf_kenv k \<longleftrightarrow> length (cur_comm k) = 16 \<and> (\<forall>a n. length (kread k a n) = n) \<and>
     (\<forall>a n. length (ustr k a n) \<le> n) \<and> (\<forall>e. slot k = Some e \<longrightarrow> wf_event e) \<and>
     (\<forall>e. tls_slot k = Some e \<longrightarrow> wf_tls e)"

text \<open>The upper and lower halves of a 64-bit helper result.\<close>

definition hi32 :: "u64 \<Rightarrow> u32" where "hi32 w = ucast (drop_bit 32 w)"

definition lo32 :: "u64 \<Rightarrow> u32" where "lo32 w = ucast w"

definition cur_pid :: "kenv \<Rightarrow> u32" where "cur_pid k = hi32 (cur_pid_tgid k)"

lemma lo32_mask: "ucast (w AND 0xFFFFFFFF) = lo32 w"
proof (rule bit_word_eqI)
  fix n assume n: "n < LENGTH(32)"
  have "bit (0xFFFFFFFF :: u64) n \<longleftrightarrow> bit (mask 32 :: u64) n" by (simp add: mask_eq_exp_minus_1)
  with n show "bit (ucast (w AND 0xFFFFFFFF) :: u32) n = bit (lo32 w) n"
    by (simp add: lo32_def bit_simps)
qed

section \<open>Shared writes of the programs\<close>

definition SIGSTOP :: nat where "SIGSTOP = 19"

definition bpf_send_signal :: "nat \<Rightarrow> kenv \<Rightarrow> bpf_state \<Rightarrow> bpf_state" where
  "bpf_send_signal sig k s = s\<lparr>signals := signals s @ [(cur_pid k, sig)]\<rparr>"

definition submit_event :: "event \<Rightarrow> bpf_state \<Rightarrow> bpf_state" where
  "submit_event e s = s\<lparr>events := events s @ [event_bytes e]\<rparr>"

definition submit_tls :: "tls_hello_event \<Rightarrow> bpf_state \<Rightarrow> bpf_state" where
  "submit_tls e s = s\<lparr>tls_events := tls_events s @ [tls_bytes e]\<rparr>"

text \<open>
  A copy of \<open>src\<close> to the front of an array leaves the rest of the array as it was. A trap
  copies its message with the terminating zero byte, \<open>sizeof(msg)\<close> bytes in all.
\<close>

definition memcpy :: "byte list \<Rightarrow> byte list \<Rightarrow> byte list" where
  "memcpy dst src = src @ drop (length src) dst"

definition put_msg :: "string \<Rightarrow> event \<Rightarrow> event" where
  "put_msg msg e = e\<lparr>e_filename := memcpy (e_filename e) (cbytes msg @ [0])\<rparr>"

text \<open>The record of a trap: indicator in \<open>ppid\<close>, message in \<open>filename\<close>.\<close>

definition trap_event :: "kenv \<Rightarrow> u32 \<Rightarrow> string \<Rightarrow> event \<Rightarrow> event" where
  "trap_event k ind msg e =
     put_msg msg (e\<lparr>e_pid := cur_pid k, e_ppid := ind, e_uid := lo32 (cur_uid_gid k),
       e_comm := cur_comm k\<rparr>)"

definition emit_trap :: "kenv \<Rightarrow> u32 \<Rightarrow> string \<Rightarrow> bpf_state \<Rightarrow> bpf_state" where
  "emit_trap k ind msg s =
     (case slot k of None \<Rightarrow> s | Some e \<Rightarrow> submit_event (trap_event k ind msg e) s)"

lemma length_memcpy: "length src \<le> length dst \<Longrightarrow> length (memcpy dst src) = length dst"
  by (simp add: memcpy_def)

lemma wf_trap_event: "wf_event e \<Longrightarrow> wf_kenv k \<Longrightarrow> length msg < 256 \<Longrightarrow> wf_event (trap_event k ind msg e)"
  by (simp add: trap_event_def put_msg_def wf_event_def wf_kenv_def MAX_FILENAME_LEN_def length_memcpy)

end
