(* ===== verification/Agent_Events.thy ===== *)
theory Agent_Events
  imports Qihse Rollback Sensor_Base
begin

text \<open>
  The agent's handling of ring-buffer records in \<open>src/main.rs\<close>: decoding of a record, the
  trap table, the heuristic triggers, the responder queue (a bounded channel) and the
  write-ahead log. The scan of a process's memory and external commands are parameters.
\<close>

section \<open>Records on the wire\<close>

text \<open>The \<open>repr(C)\<close> structs of the agent, to be laid out like those of \<open>common.h\<close>.\<close>

definition rust_Event :: ctype where
  "rust_Event = CStruct [
     Fld ''pid'' (CInt 4),
     Fld ''ppid'' (CInt 4),
     Fld ''uid'' (CInt 4),
     Fld ''comm'' (CArr 16 (CInt 1)),
     Fld ''filename'' (CArr 256 (CInt 1))]"

definition rust_TlsHelloEvent :: ctype where
  "rust_TlsHelloEvent = CStruct [
     Fld ''saddr'' (CInt 4),
     Fld ''daddr'' (CInt 4),
     Fld ''dport'' (CInt 2),
     Fld ''payload_len'' (CInt 2),
     Fld ''payload'' (CArr 128 (CInt 1))]"

definition field_bytes :: "ctype \<Rightarrow> string \<Rightarrow> byte list \<Rightarrow> byte list" where
  "field_bytes t nm data =
     (case field_of t nm of Some (off, ft) \<Rightarrow> slice off (sizeof ft) data | None \<Rightarrow> [])"

text \<open>The pointer cast: every field is read at its offset.\<close>

definition decode_event :: "byte list \<Rightarrow> event" where
  "decode_event data =
     \<lparr>e_pid = u32_of (field_bytes rust_Event ''pid'' data),
      e_ppid = u32_of (field_bytes rust_Event ''ppid'' data),
      e_uid = u32_of (field_bytes rust_Event ''uid'' data),
      e_comm = field_bytes rust_Event ''comm'' data,
      e_filename = field_bytes rust_Event ''filename'' data\<rparr>"

definition decode_tls :: "byte list \<Rightarrow> tls_hello_event" where
  "decode_tls data =
     \<lparr>t_saddr = u32_of (field_bytes rust_TlsHelloEvent ''saddr'' data),
      t_daddr = u32_of (field_bytes rust_TlsHelloEvent ''daddr'' data),
      t_dport = u16_of (field_bytes rust_TlsHelloEvent ''dport'' data),
      t_payload_len = u16_of (field_bytes rust_TlsHelloEvent ''payload_len'' data),
      t_payload = field_bytes rust_TlsHelloEvent ''payload'' data\<rparr>"

section \<open>State and effects\<close>

record agent_state =
  wal :: wal_file
  responder_queue :: "u32 list"
  commands :: "cmd list"

definition QUEUE_CAPACITY :: nat where "QUEUE_CAPACITY = 1000"

datatype send_error = QueueFull

definition try_send :: "u32 \<Rightarrow> agent_state \<Rightarrow> (send_error + unit) \<times> agent_state" where
  "try_send pid a =
     (if length (responder_queue a) < QUEUE_CAPACITY
      then (Inr (), a\<lparr>responder_queue := responder_queue a @ [pid]\<rparr>)
      else (Inl QueueFull, a))"

text \<open>What one callback invocation gets from its surroundings.\<close>

record callback_env =
  research_mode :: bool
  wal_outcomes :: wal_env
  scan :: "u32 \<Rightarrow> (string \<times> string) option"
  os_run :: os

definition db :: qihse_client where "db = Qihse.new ''qihse://localhost:9090''"

definition zfs :: zfs_manager where "zfs = zfs_new ''rpool/home''"

definition log_event :: "callback_env \<Rightarrow> event \<Rightarrow> string \<Rightarrow> string \<Rightarrow> agent_state \<Rightarrow> agent_state" where
  "log_event ce e comm filename a =
     a\<lparr>wal := snd (insert_event db (wal_outcomes ce) (e_pid e) (e_ppid e) (e_uid e) comm filename (wal a))\<rparr>"

definition log_action :: "callback_env \<Rightarrow> string \<Rightarrow> string \<Rightarrow> string \<Rightarrow> agent_state \<Rightarrow> agent_state" where
  "log_action ce act target reason a =
     a\<lparr>wal := snd (insert_edr_action db (wal_outcomes ce) act target reason (wal a))\<rparr>"

definition log_yara :: "callback_env \<Rightarrow> u32 \<Rightarrow> string \<Rightarrow> string \<Rightarrow> agent_state \<Rightarrow> agent_state" where
  "log_yara ce pid sig region a =
     a\<lparr>wal := snd (insert_yara_match db (wal_outcomes ce) pid sig region (wal a))\<rparr>"

definition pid_target :: "u32 \<Rightarrow> string" where "pid_target pid = ''PID:'' @ show_i32 pid"

definition dispatch :: "u32 \<Rightarrow> agent_state \<Rightarrow> agent_state" where
  "dispatch pid a = snd (try_send pid a)"

section \<open>Triggers\<close>

text \<open>The trap messages the callback compares with, in order, and the action it logs.\<close>

definition trap_table :: "(string \<times> string) list" where
  "trap_table =
     [(''HONEYTOKEN_TRIGGERED'', ''FREEZE''),
      (''GHOST_PROCESS_TRAP'', ''FREEZE''),
      (''PRIVILEGE_ESCALATION_TRAP'', ''SIGSTOP''),
      (''UNAUTHORIZED_EXEC_TRAP'', ''SIGSTOP''),
      (''SELF_DEFENSE_TRAP'', ''SIGSTOP''),
      (''INODE_EXHAUSTION_TRAP'', ''SIGSTOP''),
      (''JOURNALD_EXHAUSTION_TRAP'', ''SIGSTOP'')]"

definition trap_trigger :: "callback_env \<Rightarrow> u32 \<Rightarrow> string \<Rightarrow> string \<times> string \<Rightarrow> agent_state \<Rightarrow> agent_state" where
  "trap_trigger ce pid filename t a =
     (if filename = fst t
      then dispatch pid (log_action ce (snd t) (pid_target pid) (fst t) a) else a)"

definition yara_trigger :: "callback_env \<Rightarrow> u32 \<Rightarrow> agent_state \<Rightarrow> agent_state" where
  "yara_trigger ce pid a =
     (case scan ce pid of
        Some (sig, region) \<Rightarrow>
          dispatch pid (log_action ce ''FREEZE'' (pid_target pid) (''YARA_MATCH:'' @ sig)
            (log_yara ce pid sig region a))
      | None \<Rightarrow> a)"

definition heuristic_trigger :: "callback_env \<Rightarrow> u32 \<Rightarrow> string \<Rightarrow> string \<Rightarrow> agent_state \<Rightarrow> agent_state" where
  "heuristic_trigger ce pid comm filename a =
     (if comm = ''malware'' \<or> contains filename ''/tmp/pwn''
      then dispatch pid (log_action ce ''FREEZE'' (pid_target pid) ''HEURISTIC_MOCK_THREAT'' a)
      else a)"

definition ransomware_trigger :: "callback_env \<Rightarrow> u32 \<Rightarrow> string \<Rightarrow> string \<Rightarrow> agent_state \<Rightarrow> agent_state" where
  "ransomware_trigger ce pid comm filename a =
     (if comm = ''ransomware'' \<or> ends_with filename ''.enc''
      then
        (let a1 = log_action ce ''FREEZE'' (pid_target pid) ''RANSOMWARE_ENCRYPTION_BURST'' a;
             a2 = log_action ce ''ZFS_ROLLBACK'' ''rpool/home'' ''RANSOMWARE_ENCRYPTION_BURST'' a1;
             a3 = dispatch pid a2
         in a3\<lparr>commands := snd (trigger_rollback (os_run ce) zfs (commands a3))\<rparr>)
      else a)"

text \<open>The text of a byte array of a record: decoded, without the zero bytes at its end.\<close>

definition name_of :: "byte list \<Rightarrow> string" where
  "name_of bs = trim_end_nul (from_utf8_lossy bs)"

definition handle_event :: "callback_env \<Rightarrow> byte list \<Rightarrow> agent_state \<Rightarrow> agent_state" where
  "handle_event ce data a =
     (if research_mode ce then a
      else if length data \<noteq> sizeof rust_Event then a
      else
        (let e = decode_event data;
             comm = name_of (e_comm e);
             filename = name_of (e_filename e);
             a1 = log_event ce e comm filename a;
             a2 = foldl (\<lambda>a t. trap_trigger ce (e_pid e) filename t a) a1 trap_table;
             a3 = yara_trigger ce (e_pid e) a2;
             a4 = heuristic_trigger ce (e_pid e) comm filename a3
         in ransomware_trigger ce (e_pid e) comm filename a4))"

definition handle_tls_event :: "wal_env \<Rightarrow> byte list \<Rightarrow> wal_file \<Rightarrow> wal_file" where
  "handle_tls_event env data w =
     (if length data \<noteq> sizeof rust_TlsHelloEvent then w
      else
        (let e = decode_tls data
         in snd (insert_tls_telemetry db env (t_saddr e) (t_daddr e) (t_dport e) (t_payload_len e) w)))"

section \<open>Kernel and agent agree on the wire format\<close>

lemma lay_rust_Event [layout_simps]: "sizeof rust_Event = 284" "wf_ty rust_Event"
  by (simp_all add: rust_Event_def layout_eval)

lemma lay_rust_Tls [layout_simps]: "sizeof rust_TlsHelloEvent = 140" "wf_ty rust_TlsHelloEvent"
  by (simp_all add: rust_TlsHelloEvent_def layout_eval)

lemma rust_event_fields:
  "field_of rust_Event ''pid'' = Some (0, CInt 4)"
  "field_of rust_Event ''ppid'' = Some (4, CInt 4)"
  "field_of rust_Event ''uid'' = Some (8, CInt 4)"
  "field_of rust_Event ''comm'' = Some (12, CArr 16 (CInt 1))"
  "field_of rust_Event ''filename'' = Some (28, CArr 256 (CInt 1))"
  by (simp_all add: rust_Event_def field_eval)

lemma rust_tls_fields:
  "field_of rust_TlsHelloEvent ''saddr'' = Some (0, CInt 4)"
  "field_of rust_TlsHelloEvent ''daddr'' = Some (4, CInt 4)"
  "field_of rust_TlsHelloEvent ''dport'' = Some (8, CInt 2)"
  "field_of rust_TlsHelloEvent ''payload_len'' = Some (10, CInt 2)"
  "field_of rust_TlsHelloEvent ''payload'' = Some (12, CArr 128 (CInt 1))"
  by (simp_all add: rust_TlsHelloEvent_def field_eval)

lemma decode_event_bytes: "wf_event e \<Longrightarrow> decode_event (event_bytes e) = e"
  by (cases e)
    (simp add: decode_event_def field_bytes_def rust_event_fields event_bytes_def wf_event_def
      MAX_FILENAME_LEN_def slice_def)

lemma decode_tls_bytes: "wf_tls e \<Longrightarrow> decode_tls (tls_bytes e) = e"
  by (cases e)
    (simp add: decode_tls_def field_bytes_def rust_tls_fields tls_bytes_def wf_tls_def slice_def)

section \<open>Triggers only queue their process and only extend the log\<close>

locale trigger =
  fixes act :: "u32 \<Rightarrow> agent_state \<Rightarrow> agent_state"
  assumes queue_step: "\<exists>n. responder_queue (act pid a) = responder_queue a @ replicate n pid"
    and queue_cap: "length (responder_queue a) \<le> QUEUE_CAPACITY \<Longrightarrow>
      length (responder_queue (act pid a)) \<le> QUEUE_CAPACITY"
    and log_step: "\<exists>more. wal_content (wal (act pid a)) = wal_content (wal a) @ more"
begin

lemma keeps_queued: "p \<in> set (responder_queue a) \<Longrightarrow> p \<in> set (responder_queue (act pid a))"
  using queue_step [of pid a] by auto

lemma queues_only: "p \<in> set (responder_queue (act pid a)) \<Longrightarrow> p = pid \<or> p \<in> set (responder_queue a)"
  using queue_step [of pid a] by auto

end

lemma log_simps [simp]:
  "responder_queue (log_event ce e c f a) = responder_queue a"
  "responder_queue (log_action ce x t r a) = responder_queue a"
  "responder_queue (log_yara ce pid sig reg a) = responder_queue a"
  "commands (log_event ce e c f a) = commands a"
  "commands (log_action ce x t r a) = commands a"
  "commands (log_yara ce pid sig reg a) = commands a"
  by (simp_all add: log_event_def log_action_def log_yara_def)

lemma log_grows_simps:
  "\<exists>more. wal_content (wal (log_event ce e c f a)) = wal_content (wal a) @ more"
  "\<exists>more. wal_content (wal (log_action ce x t r a)) = wal_content (wal a) @ more"
  "\<exists>more. wal_content (wal (log_yara ce pid sig reg a)) = wal_content (wal a) @ more"
  using wal.log_grows
  by (auto simp: log_event_def log_action_def log_yara_def insert_event_def insert_edr_action_def
      insert_yara_match_def)

lemma dispatch_simps [simp]: "wal (dispatch pid a) = wal a" "commands (dispatch pid a) = commands a"
  by (simp_all add: dispatch_def try_send_def)

lemma dispatch_queue: "\<exists>n. responder_queue (dispatch pid a) = responder_queue a @ replicate n pid"
proof (cases "length (responder_queue a) < QUEUE_CAPACITY")
  case True
  then have "responder_queue (dispatch pid a) = responder_queue a @ replicate 1 pid"
    by (simp add: dispatch_def try_send_def)
  then show ?thesis by blast
next
  case False
  then have "responder_queue (dispatch pid a) = responder_queue a @ replicate 0 pid"
    by (simp add: dispatch_def try_send_def)
  then show ?thesis by blast
qed

lemma dispatch_cap:
  "length (responder_queue a) \<le> QUEUE_CAPACITY \<Longrightarrow> length (responder_queue (dispatch pid a)) \<le> QUEUE_CAPACITY"
  by (auto simp: dispatch_def try_send_def)

lemma dispatch_queued:
  "length (responder_queue a) < QUEUE_CAPACITY \<Longrightarrow> pid \<in> set (responder_queue (dispatch pid a))"
  by (simp add: dispatch_def try_send_def)

lemma log_twice: "(\<And>a. \<exists>m. wal_content (wal (f a)) = wal_content (wal a) @ m) \<Longrightarrow>
    (\<And>a. \<exists>m. wal_content (wal (g a)) = wal_content (wal a) @ m) \<Longrightarrow>
    \<exists>m. wal_content (wal (f (g a))) = wal_content (wal a) @ m"
  by (metis append.assoc)

lemma no_queue: "\<exists>n. q = q @ replicate n p"
  by (rule exI [of _ 0]) simp

interpretation trap: trigger "\<lambda>pid. trap_trigger ce pid filename t"
proof
  fix pid a
  show "\<exists>n. responder_queue (trap_trigger ce pid filename t a) = responder_queue a @ replicate n pid"
    using dispatch_queue [of pid "log_action ce (snd t) (pid_target pid) (fst t) a"] no_queue
    by (simp add: trap_trigger_def)
  show "length (responder_queue a) \<le> QUEUE_CAPACITY \<Longrightarrow>
      length (responder_queue (trap_trigger ce pid filename t a)) \<le> QUEUE_CAPACITY"
    by (simp add: trap_trigger_def dispatch_cap)
  show "\<exists>more. wal_content (wal (trap_trigger ce pid filename t a)) = wal_content (wal a) @ more"
    by (simp add: trap_trigger_def log_grows_simps)
qed

interpretation yara: trigger "yara_trigger ce"
proof
  fix pid a
  show "\<exists>n. responder_queue (yara_trigger ce pid a) = responder_queue a @ replicate n pid"
  proof (cases "scan ce pid")
    case None
    then show ?thesis by (simp add: yara_trigger_def no_queue)
  next
    case (Some m)
    obtain sig region where m: "m = (sig, region)" by (cases m)
    show ?thesis
      using dispatch_queue [of pid "log_action ce ''FREEZE'' (pid_target pid) (''YARA_MATCH:'' @ sig)
          (log_yara ce pid sig region a)"]
      by (simp add: yara_trigger_def Some m)
  qed
  show "length (responder_queue a) \<le> QUEUE_CAPACITY \<Longrightarrow>
      length (responder_queue (yara_trigger ce pid a)) \<le> QUEUE_CAPACITY"
    by (simp add: yara_trigger_def dispatch_cap split: option.split)
  show "\<exists>more. wal_content (wal (yara_trigger ce pid a)) = wal_content (wal a) @ more"
    by (auto simp: yara_trigger_def split: option.split
        intro: log_twice [of "log_action _ _ _ _", OF log_grows_simps(2) log_grows_simps(3)])
qed

interpretation heuristic: trigger "\<lambda>pid. heuristic_trigger ce pid comm filename"
proof
  fix pid a
  show "\<exists>n. responder_queue (heuristic_trigger ce pid comm filename a) = responder_queue a @ replicate n pid"
    using dispatch_queue [of pid "log_action ce ''FREEZE'' (pid_target pid) ''HEURISTIC_MOCK_THREAT'' a"]
      no_queue
    by (simp add: heuristic_trigger_def)
  show "length (responder_queue a) \<le> QUEUE_CAPACITY \<Longrightarrow>
      length (responder_queue (heuristic_trigger ce pid comm filename a)) \<le> QUEUE_CAPACITY"
    by (simp add: heuristic_trigger_def dispatch_cap)
  show "\<exists>more. wal_content (wal (heuristic_trigger ce pid comm filename a)) = wal_content (wal a) @ more"
    by (simp add: heuristic_trigger_def log_grows_simps)
qed

interpretation ransomware: trigger "\<lambda>pid. ransomware_trigger ce pid comm filename"
proof
  fix pid a
  show "\<exists>n. responder_queue (ransomware_trigger ce pid comm filename a) = responder_queue a @ replicate n pid"
    using dispatch_queue [of pid "log_action ce ''ZFS_ROLLBACK'' ''rpool/home''
        ''RANSOMWARE_ENCRYPTION_BURST''
        (log_action ce ''FREEZE'' (pid_target pid) ''RANSOMWARE_ENCRYPTION_BURST'' a)"] no_queue
    by (simp add: ransomware_trigger_def Let_def)
  show "length (responder_queue a) \<le> QUEUE_CAPACITY \<Longrightarrow>
      length (responder_queue (ransomware_trigger ce pid comm filename a)) \<le> QUEUE_CAPACITY"
    by (simp add: ransomware_trigger_def dispatch_cap Let_def)
  show "\<exists>more. wal_content (wal (ransomware_trigger ce pid comm filename a)) = wal_content (wal a) @ more"
    by (auto simp: ransomware_trigger_def Let_def
        intro: log_twice [of "log_action _ _ _ _" "log_action _ _ _ _", OF log_grows_simps(2) log_grows_simps(2)])
qed

text \<open>The fold over the trap table: every entry keeps what is queued; a matching entry queues.\<close>

lemma traps_keep:
  "p \<in> set (responder_queue a) \<Longrightarrow>
     p \<in> set (responder_queue (foldl (\<lambda>a t. trap_trigger ce pid filename t a) a ts))"
  by (induction ts arbitrary: a) (auto intro: trap.keeps_queued)

lemma traps_cap:
  "length (responder_queue a) \<le> QUEUE_CAPACITY \<Longrightarrow>
     length (responder_queue (foldl (\<lambda>a t. trap_trigger ce pid filename t a) a ts)) \<le> QUEUE_CAPACITY"
  by (induction ts arbitrary: a) (auto intro: trap.queue_cap)

lemma traps_only:
  "p \<in> set (responder_queue (foldl (\<lambda>a t. trap_trigger ce pid filename t a) a ts)) \<Longrightarrow>
     p = pid \<or> p \<in> set (responder_queue a)"
  by (induction ts arbitrary: a) (auto dest: trap.queues_only)

lemma traps_no_match:
  "filename \<notin> fst ` set ts \<Longrightarrow> foldl (\<lambda>a t. trap_trigger ce pid filename t a) a ts = a"
  by (induction ts arbitrary: a) (auto simp: trap_trigger_def)

lemma traps_queue:
  assumes "filename \<in> fst ` set ts" and "length (responder_queue a) < QUEUE_CAPACITY"
  shows "pid \<in> set (responder_queue (foldl (\<lambda>a t. trap_trigger ce pid filename t a) a ts))"
  using assms
proof (induction ts arbitrary: a)
  case (Cons t ts)
  show ?case
  proof (cases "filename = fst t")
    case True
    with Cons.prems have "pid \<in> set (responder_queue (trap_trigger ce pid filename t a))"
      by (auto simp: trap_trigger_def intro!: dispatch_queued)
    then show ?thesis using traps_keep by fastforce
  next
    case False
    with Cons show ?thesis by (auto simp: trap_trigger_def)
  qed
qed simp

text \<open>The callback on an accepted record.\<close>

lemma handle_event_unfold:
  assumes "\<not> research_mode ce" and "wf_event e"
  shows "handle_event ce (event_bytes e) a =
    ransomware_trigger ce (e_pid e) (name_of (e_comm e)) (name_of (e_filename e))
      (heuristic_trigger ce (e_pid e) (name_of (e_comm e)) (name_of (e_filename e))
        (yara_trigger ce (e_pid e)
          (foldl (\<lambda>a t. trap_trigger ce (e_pid e) (name_of (e_filename e)) t a)
            (log_event ce e (name_of (e_comm e)) (name_of (e_filename e)) a) trap_table)))"
  using assms
  by (simp add: handle_event_def name_of_def Let_def decode_event_bytes length_event_bytes
      lay_rust_Event lay_struct_event)

lemma handle_event_keeps: "p \<in> set (responder_queue a) \<Longrightarrow> p \<in> set (responder_queue (handle_event ce data a))"
  by (auto simp: handle_event_def Let_def
      intro!: ransomware.keeps_queued heuristic.keeps_queued yara.keeps_queued traps_keep)

lemma handle_event_cap:
  "length (responder_queue a) \<le> QUEUE_CAPACITY \<Longrightarrow>
     length (responder_queue (handle_event ce data a)) \<le> QUEUE_CAPACITY"
  by (auto simp: handle_event_def Let_def
      intro!: ransomware.queue_cap heuristic.queue_cap yara.queue_cap traps_cap)

section \<open>Recognising a trap\<close>

text \<open>
  The kernel copies the message and one zero byte over the front of a reserved record. The
  agent strips trailing zero bytes only, so it sees the message exactly when the rest of the
  reserved memory was zero.
\<close>

definition plain_name :: "string \<Rightarrow> bool" where
  "plain_name s \<longleftrightarrow> s \<noteq> [] \<and> (\<forall>c \<in> set s. of_char c < (128 :: nat) \<and> c \<noteq> CHR 0x00)"

lemma ascii_plain: "plain_name s \<Longrightarrow> ascii (cbytes s @ [0])"
  by (auto simp: plain_name_def ascii_def cbytes_def unat_ch)

lemma of_bytes_Cons [simp]: "of_bytes (b # bs) = char_of (unat b) # of_bytes bs"
  by (simp add: of_bytes_def)

lemma char_of_zero [simp]: "char_of (0 :: nat) = CHR 0x00"
  by (simp add: char_of_def)

lemma char_of_byte_zero: "char_of (unat (b :: byte)) = CHR 0x00 \<longleftrightarrow> b = 0"
  by (metis ch_char_of char_of_zero unat_0)

lemma name_of_message:
  assumes "plain_name msg"
  shows "name_of (cbytes msg @ [0] @ rest) = msg \<longleftrightarrow> set rest \<subseteq> {0}"
proof -
  let ?r = "of_bytes (lossy_bytes rest)"
  have dec: "from_utf8_lossy (cbytes msg @ [0] @ rest) = msg @ [CHR 0x00] @ ?r"
    using lossy_ascii [OF ascii_plain [OF assms], of rest]
    by (simp add: from_utf8_lossy_def)
  have msg: "trim_end_nul msg = msg"
    using assms by (intro trim_end_nul_id) (auto simp: plain_name_def)
  show ?thesis
  proof
    assume zero: "set rest \<subseteq> {0}"
    then have "ascii rest" by (auto simp: ascii_def)
    then have "?r = of_bytes rest" using lossy_ascii [of rest "[]"] by simp
    moreover have "set (of_bytes rest) \<subseteq> {CHR 0x00}" using zero by (auto simp: of_bytes_def)
    ultimately have "set ([CHR 0x00] @ ?r) \<subseteq> {CHR 0x00}" by simp
    with dec msg show "name_of (cbytes msg @ [0] @ rest) = msg"
      by (simp only: name_of_def trim_end_nul_append)
  next
    assume name: "name_of (cbytes msg @ [0] @ rest) = msg"
    obtain z where z: "msg @ [CHR 0x00] @ ?r = msg @ z" and zs: "set z \<subseteq> {CHR 0x00}"
      using trim_end_nul_decomp [of "msg @ [CHR 0x00] @ ?r"] name dec by (metis name_of_def)
    then have "set ?r \<subseteq> {CHR 0x00}" by auto
    then have "set (lossy_bytes rest) \<subseteq> {0}"
      by (auto simp: of_bytes_def char_of_byte_zero)
    then have "ascii (lossy_bytes rest)" by (auto simp: ascii_def)
    then have "rest = lossy_bytes rest" by (rule lossy_eq_ascii) simp
    with \<open>set (lossy_bytes rest) \<subseteq> {0}\<close> show "set rest \<subseteq> {0}" by simp
  qed
qed

end
