(* ===== verification/Sensor_Probes.thy ===== *)
theory Sensor_Probes
  imports Sensor_Base
begin

text \<open>
  The tracepoint and kprobe programs of \<open>src-bpf/sensor.bpf.c\<close>: \<open>handle_execve\<close>,
  \<open>kprobe_vfs_open\<close>, \<open>handle_ptrace\<close>, \<open>handle_process_vm_readv\<close>, \<open>handle_kill\<close>,
  \<open>handle_openat\<close> and \<open>handle_sendto\<close>. Each is a function of the helper results, the
  program's context and the sensor's state; every one of them returns 0 to the kernel, so
  only the new state is its result.
\<close>

section \<open>Reads of kernel objects\<close>

text \<open>A CO-RE read of a member: the address is the object's plus the member's offset.\<close>

definition member_addr :: "u64 \<Rightarrow> ctype \<Rightarrow> string \<Rightarrow> u64" where
  "member_addr base t nm = base + of_nat (the (offsetof t nm))"

definition core_read_u64 :: "kenv \<Rightarrow> u64 \<Rightarrow> ctype \<Rightarrow> string \<Rightarrow> u64" where
  "core_read_u64 k base t nm = u64_of (kread k (member_addr base t nm) 8)"

definition core_read_u32 :: "kenv \<Rightarrow> u64 \<Rightarrow> ctype \<Rightarrow> string \<Rightarrow> u32" where
  "core_read_u32 k base t nm = u32_of (kread k (member_addr base t nm) 4)"

lemma field_real_parent: "field_of struct_task_struct ''real_parent'' = Some (2720, CPtr)"
  unfolding struct_task_struct_def struct_task_struct_members1_def struct_task_struct_members2_def
    append.simps
  by (simp add: field_eval layout_simps cong: place_head_cong)

lemma field_tgid: "field_of struct_task_struct ''tgid'' = Some (2708, c_int)"
  unfolding struct_task_struct_def struct_task_struct_members1_def struct_task_struct_members2_def
    append.simps
  by (simp add: field_eval layout_simps cong: place_head_cong)

lemma field_f_inode: "field_of struct_file ''f_inode'' = Some (32, CPtr)"
  unfolding struct_file_def by (simp add: field_eval layout_simps cong: place_head_cong)

lemma field_f_flags: "field_of struct_file ''f_flags'' = Some (40, c_uint)"
  unfolding struct_file_def by (simp add: field_eval layout_simps cong: place_head_cong)

lemma field_i_ino: "field_of struct_inode ''i_ino'' = Some (64, c_ulong)"
  unfolding struct_inode_def by (simp add: field_eval layout_simps cong: place_head_cong)

lemmas kernel_fields = field_real_parent field_tgid field_f_inode field_f_flags field_i_ino

section \<open>Process execution\<close>

text \<open>The context of a syscall-entry tracepoint: its argument registers.\<close>

record sys_enter =
  se_id :: u64
  se_args :: "u64 list"

text \<open>The comparison of the leading characters of a command name, as the source spells it.\<close>

definition is_unauthorized_tool :: "byte list \<Rightarrow> bool" where
  "is_unauthorized_tool comm \<longleftrightarrow>
     comm ! 0 = ch (CHR ''p'') \<and> comm ! 1 = ch (CHR ''o'') \<and> comm ! 2 = ch (CHR ''d'') \<and>
     comm ! 3 = ch (CHR ''m'') \<and> comm ! 4 = ch (CHR ''a'') \<and> comm ! 5 = ch (CHR ''n'')"

definition gram_at :: "byte list \<Rightarrow> nat \<Rightarrow> bool" where
  "gram_at comm i \<longleftrightarrow>
     comm ! i = ch (CHR ''g'') \<and> comm ! (i + 1) = ch (CHR ''r'') \<and>
     comm ! (i + 2) = ch (CHR ''a'') \<and> comm ! (i + 3) = ch (CHR ''m'')"

definition is_vuln_app :: "byte list \<Rightarrow> bool" where
  "is_vuln_app comm =
     (let v = False;
          v = (if comm ! 0 = ch (CHR ''f'') \<and> comm ! 1 = ch (CHR ''i'') \<and> comm ! 2 = ch (CHR ''r'')
                 \<and> comm ! 3 = ch (CHR ''e'') \<and> comm ! 4 = ch (CHR ''f'') then True else v);
          v = (if comm ! 0 = ch (CHR ''c'') \<and> comm ! 1 = ch (CHR ''h'') \<and> comm ! 2 = ch (CHR ''r'')
                 \<and> comm ! 3 = ch (CHR ''o'') \<and> comm ! 4 = ch (CHR ''m'') then True else v);
          v = (if comm ! 0 = ch (CHR ''s'') \<and> comm ! 1 = ch (CHR ''i'') \<and> comm ! 2 = ch (CHR ''g'')
                 \<and> comm ! 3 = ch (CHR ''n'') \<and> comm ! 4 = ch (CHR ''a'') then True else v);
          v = (if comm ! 0 = ch (CHR ''t'') \<and> comm ! 1 = ch (CHR ''e'') \<and> comm ! 2 = ch (CHR ''l'')
                 \<and> comm ! 3 = ch (CHR ''e'') \<and> comm ! 4 = ch (CHR ''g'') then True else v)
      in foldl (\<lambda>v i. if gram_at comm i then True else v) v [0..<12])"

text \<open>The ordinary record of an execution: parent from the task structure, path from user space.\<close>

definition exec_event :: "kenv \<Rightarrow> sys_enter \<Rightarrow> event \<Rightarrow> event" where
  "exec_event k ctx e =
     (let real_parent = core_read_u64 k (cur_task k) struct_task_struct ''real_parent'';
          filename_ptr = se_args ctx ! 0
      in e\<lparr>e_pid := cur_pid k,
           e_uid := lo32 (cur_uid_gid k),
           e_ppid := core_read_u32 k real_parent struct_task_struct ''tgid'',
           e_comm := cur_comm k,
           e_filename := memcpy (e_filename e) (ustr k filename_ptr MAX_FILENAME_LEN)\<rparr>)"

definition handle_execve :: "kenv \<Rightarrow> sys_enter \<Rightarrow> bpf_state \<Rightarrow> bpf_state" where
  "handle_execve k ctx s =
     (let uid = lo32 (cur_uid_gid k); comm = cur_comm k
      in if is_unauthorized_tool comm then
           emit_trap k (- 4) ''UNAUTHORIZED_EXEC_TRAP'' (bpf_send_signal SIGSTOP k s)
         else if uid = 0 \<and> is_vuln_app comm then
           emit_trap k (- 3) ''PRIVILEGE_ESCALATION_TRAP'' (bpf_send_signal SIGSTOP k s)
         else case slot k of
           None \<Rightarrow> s
         | Some e \<Rightarrow> submit_event (exec_event k ctx e) s)"

section \<open>Honeytoken files\<close>

text \<open>
  Value 1 in the map traps every open; value 2 traps an open for writing
  (access mode bits, mask 3) or appending (\<open>O_APPEND\<close>, octal 02000).
\<close>

definition honey_trigger :: "byte \<Rightarrow> u32 \<Rightarrow> bool" where
  "honey_trigger is_honey f_flags =
     (if is_honey = 1 then True
      else if is_honey = 2 then f_flags AND 3 \<noteq> 0 \<or> f_flags AND 1024 \<noteq> 0
      else False)"

definition kprobe_vfs_open :: "kenv \<Rightarrow> u64 \<Rightarrow> bpf_state \<Rightarrow> bpf_state" where
  "kprobe_vfs_open k file s =
     (let inode = core_read_u64 k file struct_file ''f_inode'';
          ino = core_read_u64 k inode struct_inode ''i_ino''
      in case honeytokens s ino of
           None \<Rightarrow> s
         | Some is_honey \<Rightarrow>
             if honey_trigger is_honey (core_read_u32 k file struct_file ''f_flags'')
             then emit_trap k (- 1) ''HONEYTOKEN_TRIGGERED'' s else s)"

section \<open>Ghost processes\<close>

definition ghost_check :: "kenv \<Rightarrow> u32 \<Rightarrow> bpf_state \<Rightarrow> bpf_state" where
  "ghost_check k target_pid s =
     (case ghost_pids s target_pid of
        None \<Rightarrow> s
      | Some is_ghost \<Rightarrow> if is_ghost = 1 then emit_trap k (- 2) ''GHOST_PROCESS_TRAP'' s else s)"

definition handle_ptrace :: "kenv \<Rightarrow> sys_enter \<Rightarrow> bpf_state \<Rightarrow> bpf_state" where
  "handle_ptrace k ctx s = ghost_check k (lo32 (se_args ctx ! 1)) s"

definition handle_process_vm_readv :: "kenv \<Rightarrow> sys_enter \<Rightarrow> bpf_state \<Rightarrow> bpf_state" where
  "handle_process_vm_readv k ctx s = ghost_check k (lo32 (se_args ctx ! 0)) s"

section \<open>Self-defence\<close>

definition handle_kill :: "kenv \<Rightarrow> sys_enter \<Rightarrow> bpf_state \<Rightarrow> bpf_state" where
  "handle_kill k ctx s =
     (let target_pid = lo32 (se_args ctx ! 0)
      in case agent_pid s 0 of
           None \<Rightarrow> s
         | Some my_pid \<Rightarrow>
             if my_pid = target_pid
             then emit_trap k target_pid ''SELF_DEFENSE_TRAP'' (bpf_send_signal SIGSTOP k s)
             else s)"

section \<open>Exhaustion counters\<close>

text \<open>The counter value after one more event of a process.\<close>

definition next_count :: "u64 option \<Rightarrow> u64" where
  "next_count c = (case c of None \<Rightarrow> 1 | Some n \<Rightarrow> n + 1)"

definition FILE_LIMIT :: u64 where "FILE_LIMIT = 10000"

definition JOURNAL_LIMIT :: u64 where "JOURNAL_LIMIT = 50000"

definition handle_openat :: "kenv \<Rightarrow> sys_enter \<Rightarrow> bpf_state \<Rightarrow> bpf_state" where
  "handle_openat k ctx s =
     (let flags = lo32 (se_args ctx ! 2)
      in if flags AND 64 \<noteq> 0 then
           (let pid = cur_pid k
            in if agent_pid s 0 = Some pid then s
               else
                 (let new_count = next_count (file_creation_counts s pid);
                      s1 = s\<lparr>file_creation_counts :=
                               lru_update k (file_creation_counts s) pid new_count\<rparr>
                  in if FILE_LIMIT < new_count then
                       (let s2 = emit_trap k (- 5) ''INODE_EXHAUSTION_TRAP'' (bpf_send_signal SIGSTOP k s1)
                        in s2\<lparr>file_creation_counts :=
                                lru_update k (file_creation_counts s2) pid 0\<rparr>)
                     else s1))
         else s)"

definition handle_sendto :: "kenv \<Rightarrow> sys_enter \<Rightarrow> bpf_state \<Rightarrow> bpf_state" where
  "handle_sendto k ctx s =
     (let pid = cur_pid k
      in if agent_pid s 0 = Some pid then s
         else
           (let new_count = next_count (journal_spam_counts s pid);
                s1 = s\<lparr>journal_spam_counts :=
                         lru_update k (journal_spam_counts s) pid new_count\<rparr>
            in if JOURNAL_LIMIT < new_count then
                 (let s2 = emit_trap k (- 6) ''JOURNALD_EXHAUSTION_TRAP'' (bpf_send_signal SIGSTOP k s1)
                  in s2\<lparr>journal_spam_counts :=
                          lru_update k (journal_spam_counts s2) pid 0\<rparr>)
               else s1))"

end
