(* ===== verification/Sensor_Xdp.thy ===== *)
theory Sensor_Xdp
  imports Sensor_Base "HOL-Library.Monad_Syntax"
begin

text \<open>
  The XDP program \<open>xdp_c2_inspector\<close> of \<open>src-bpf/sensor.bpf.c\<close>. The packet is the list of
  bytes between \<open>data\<close> and \<open>data_end\<close>; a pointer into it is an offset, and \<open>data_end\<close> is
  the length of the list. A load outside the packet is a fault: the model returns \<open>None\<close>
  there, and the safety theorem says that this never happens.
\<close>

section \<open>Packet loads\<close>

definition load :: "nat \<Rightarrow> byte list \<Rightarrow> nat \<Rightarrow> byte list option" where
  "load n pkt i = (if i + n \<le> length pkt then Some (slice i n pkt) else None)"

definition load8 :: "byte list \<Rightarrow> nat \<Rightarrow> byte option" where
  "load8 pkt i = (if i < length pkt then Some (pkt ! i) else None)"

definition load16 :: "byte list \<Rightarrow> nat \<Rightarrow> u16 option" where
  "load16 pkt i = map_option u16_of (load 2 pkt i)"

definition load32 :: "byte list \<Rightarrow> nat \<Rightarrow> u32 option" where
  "load32 pkt i = map_option u32_of (load 4 pkt i)"

text \<open>\<open>bpf_htons\<close> and \<open>bpf_ntohs\<close> on a little-endian machine: the two bytes swapped.\<close>

definition bswap16 :: "u16 \<Rightarrow> u16" where
  "bswap16 w = u16_of (rev (u16_bytes w))"

definition ETH_P_IP :: u16 where "ETH_P_IP = 0x0800"

datatype xdp_verdict = XDP_ABORTED | XDP_DROP | XDP_PASS | XDP_TX | XDP_REDIRECT

text \<open>The verdicts carry the kernel's numbers, and are ordered by them.\<close>

definition xdp_code :: "xdp_verdict \<Rightarrow> int" where
  "xdp_code v = (case v of XDP_ABORTED \<Rightarrow> 0 | XDP_DROP \<Rightarrow> 1 | XDP_PASS \<Rightarrow> 2 | XDP_TX \<Rightarrow> 3 | XDP_REDIRECT \<Rightarrow> 4)"

lemma xdp_code_inj [simp]: "xdp_code a = xdp_code b \<longleftrightarrow> a = b"
  by (cases a; cases b) (simp_all add: xdp_code_def)

instantiation xdp_verdict :: linorder
begin

definition less_eq_xdp_verdict :: "xdp_verdict \<Rightarrow> xdp_verdict \<Rightarrow> bool" where
  "less_eq_xdp_verdict a b \<longleftrightarrow> xdp_code a \<le> xdp_code b"

definition less_xdp_verdict :: "xdp_verdict \<Rightarrow> xdp_verdict \<Rightarrow> bool" where
  "less_xdp_verdict a b \<longleftrightarrow> xdp_code a < xdp_code b"

instance
  by standard (auto simp: less_eq_xdp_verdict_def less_xdp_verdict_def)

end

lemma xdp_codes_kernel:
  "enum_val enum_xdp_action ''XDP_ABORTED'' = Some (xdp_code XDP_ABORTED)"
  "enum_val enum_xdp_action ''XDP_DROP'' = Some (xdp_code XDP_DROP)"
  "enum_val enum_xdp_action ''XDP_PASS'' = Some (xdp_code XDP_PASS)"
  "enum_val enum_xdp_action ''XDP_TX'' = Some (xdp_code XDP_TX)"
  "enum_val enum_xdp_action ''XDP_REDIRECT'' = Some (xdp_code XDP_REDIRECT)"
  by (simp_all add: enum_xdp_action_def xdp_code_def)

text \<open>Offset of a header member, from the layout of its struct.\<close>

definition off :: "ctype \<Rightarrow> string \<Rightarrow> nat" where
  "off t nm = the (offsetof t nm)"

lemma header_offsets [simp]:
  "off struct_ethhdr ''h_proto'' = 12"
  "off struct_iphdr ''protocol'' = 9"
  "off struct_iphdr ''saddr'' = 12"
  "off struct_iphdr ''daddr'' = 16"
  "off struct_tcphdr ''dest'' = 2"
  by (simp_all add: off_def struct_ethhdr_def struct_iphdr_def struct_tcphdr_def field_eval layout_simps)

section \<open>The program\<close>

text \<open>The copy of at most 128 payload bytes, one bounds check per byte.\<close>

function copy_payload :: "byte list \<Rightarrow> nat \<Rightarrow> nat \<Rightarrow> byte list \<Rightarrow> byte list option" where
  "copy_payload pkt payload i buf =
     (if i < 128 then
        if length pkt < payload + i + 1 then Some buf
        else do {
          b \<leftarrow> load8 pkt (payload + i);
          copy_payload pkt payload (i + 1) (buf[i := b])
        }
      else Some buf)"
  by pat_completeness auto
termination
  by (relation "measure (\<lambda>(pkt, payload, i, buf). 128 - i)") auto

declare copy_payload.simps [simp del]

text \<open>
  The TLS part, once the payload is located at offset \<open>payload\<close> and the IPv4 header at
  \<open>ip\<close>; then the TCP part for a TCP header at offset \<open>tcp\<close>; then the whole program.
\<close>

definition tls_capture :: "kenv \<Rightarrow> byte list \<Rightarrow> nat \<Rightarrow> u16 \<Rightarrow> nat \<Rightarrow> bpf_state \<Rightarrow> bpf_state option" where
  "tls_capture k pkt ip dest payload s =
     (if length pkt < payload + 3 then Some s
      else do {
        p0 \<leftarrow> load8 pkt payload;
        p1 \<leftarrow> load8 pkt (payload + 1);
        if p0 = 0x16 \<and> p1 = 0x03 then
          (case tls_slot k of
             None \<Rightarrow> Some s
           | Some e \<Rightarrow> do {
               sa \<leftarrow> load32 pkt (ip + off struct_iphdr ''saddr'');
               da \<leftarrow> load32 pkt (ip + off struct_iphdr ''daddr'');
               let len = length pkt - payload;
               let len = (if 128 < len then 128 else len);
               buf \<leftarrow> copy_payload pkt payload 0 (t_payload e);
               Some (submit_tls (e\<lparr>t_saddr := sa, t_daddr := da, t_dport := bswap16 dest,
                 t_payload := buf, t_payload_len := of_nat len\<rparr>) s)
             })
        else Some s
      })"

definition tcp_inspect :: "kenv \<Rightarrow> byte list \<Rightarrow> nat \<Rightarrow> nat \<Rightarrow> bpf_state \<Rightarrow> bpf_state option" where
  "tcp_inspect k pkt ip tcp s =
     (if length pkt < tcp + sizeof struct_tcphdr then Some s
      else do {
        dest \<leftarrow> load16 pkt (tcp + off struct_tcphdr ''dest'');
        if dest = bswap16 443 then do {
          b12 \<leftarrow> load8 pkt (tcp + 12);
          tls_capture k pkt ip dest (tcp + unat (drop_bit 4 b12) * 4) s
        }
        else Some s
      })"

definition xdp_c2_inspector :: "kenv \<Rightarrow> byte list \<Rightarrow> bpf_state \<Rightarrow> (xdp_verdict \<times> bpf_state) option" where
  "xdp_c2_inspector k pkt s =
     (if length pkt < sizeof struct_ethhdr then Some (XDP_PASS, s)
      else do {
        h_proto \<leftarrow> load16 pkt (off struct_ethhdr ''h_proto'');
        if h_proto \<noteq> bswap16 ETH_P_IP then Some (XDP_PASS, s)
        else do {
          let ip = sizeof struct_ethhdr;
          if length pkt < ip + sizeof struct_iphdr then Some (XDP_PASS, s)
          else do {
            dest_ip \<leftarrow> load32 pkt (ip + off struct_iphdr ''daddr'');
            if c2_blocklist s dest_ip = Some 1 then Some (XDP_DROP, s)
            else do {
              protocol \<leftarrow> load8 pkt (ip + off struct_iphdr ''protocol'');
              if protocol \<noteq> 6 then Some (XDP_PASS, s)
              else do {
                b0 \<leftarrow> load8 pkt ip;
                s' \<leftarrow> tcp_inspect k pkt ip (ip + unat (b0 AND 0x0F) * 4) s;
                Some (XDP_PASS, s')
              }
            }
          }
        }
      })"

section \<open>The copy loop\<close>

text \<open>The loop equals a bounded copy: the captured bytes, then what the slot held before.\<close>

lemma copy_payload_eq:
  assumes "length buf = 128" and "i \<le> 128" and "payload + i \<le> length pkt"
    and "n = min 128 (length pkt - payload)"
  shows "copy_payload pkt payload i buf =
    Some (take i buf @ slice (payload + i) (n - i) pkt @ drop (max i n) buf)"
  using assms
proof (induction pkt payload i buf rule: copy_payload.induct)
  case (1 pkt payload i buf)
  show ?case
  proof (cases "i < 128 \<and> payload + i + 1 \<le> length pkt")
    case False
    then have "n \<le> i" using "1.prems" by auto
    then show ?thesis
      using False "1.prems" by (subst copy_payload.simps) (auto simp: slice_def max_def)
  next
    case True
    let ?b = "pkt ! (payload + i)"
    have ld: "load8 pkt (payload + i) = Some ?b" using True by (simp add: load8_def)
    have n: "i < n" using True "1.prems" by auto
    have IH: "copy_payload pkt payload (i + 1) (buf[i := ?b]) =
        Some (take (i + 1) (buf[i := ?b]) @ slice (payload + (i + 1)) (n - (i + 1)) pkt @
          drop (max (i + 1) n) (buf[i := ?b]))"
      using True "1.prems" ld by (intro "1.IH") auto
    have "take (i + 1) (buf[i := ?b]) = take i buf @ [?b]"
      using True "1.prems" by (simp add: take_Suc_conv_app_nth)
    moreover have "slice (payload + i) (n - i) pkt = ?b # slice (payload + (i + 1)) (n - (i + 1)) pkt"
      using True n by (simp add: slice_def Cons_nth_drop_Suc [symmetric] take_Cons' )
    moreover have "drop (max (i + 1) n) (buf[i := ?b]) = drop (max i n) buf"
      using n by (simp add: drop_update_cancel max_def)
    ultimately show ?thesis
      using True IH ld by (subst copy_payload.simps) simp
  qed
qed

section \<open>Loads inside the packet\<close>

lemma load8_in: "i < length pkt \<Longrightarrow> load8 pkt i = Some (pkt ! i)"
  by (simp add: load8_def)

lemma load16_in: "i + 2 \<le> length pkt \<Longrightarrow> load16 pkt i = Some (u16_of (slice i 2 pkt))"
  by (simp add: load16_def load_def)

lemma load32_in: "i + 4 \<le> length pkt \<Longrightarrow> load32 pkt i = Some (u32_of (slice i 4 pkt))"
  by (simp add: load32_def load_def)

lemma u16_of_eq_iff: "length bs = 2 \<Longrightarrow> length cs = 2 \<Longrightarrow> u16_of bs = u16_of cs \<longleftrightarrow> bs = cs"
  by (metis u16_bytes_of)

lemma htons_ip: "bswap16 ETH_P_IP = u16_of [8, 0]"
  by (simp add: bswap16_def ETH_P_IP_def u16_bytes_def le_bytes_numeral)

lemma htons_443: "bswap16 443 = u16_of [1, 187]"
  by (simp add: bswap16_def u16_bytes_def le_bytes_numeral)

lemma ntohs_443: "bswap16 (bswap16 443) = 443"
  by (simp add: bswap16_def u16_bytes_def u16_of_def le_bytes_numeral)

section \<open>A declarative reading of the program\<close>

text \<open>The destination address of an IPv4 packet with a complete header, as it lies in the packet.\<close>

definition ipv4_dst :: "byte list \<Rightarrow> byte list option" where
  "ipv4_dst pkt =
     (if 34 \<le> length pkt \<and> slice 12 2 pkt = [8, 0] then Some (slice 30 4 pkt) else None)"

text \<open>The payload of a TCP segment to port 443 that starts like a TLS handshake record.\<close>

definition tcp_at :: "byte list \<Rightarrow> nat" where
  "tcp_at pkt = 14 + 4 * (unat (pkt ! 14) mod 16)"

definition payload_at :: "byte list \<Rightarrow> nat" where
  "payload_at pkt = tcp_at pkt + 4 * (unat (pkt ! (tcp_at pkt + 12)) div 16)"

definition tls_hello :: "byte list \<Rightarrow> bool" where
  "tls_hello pkt \<longleftrightarrow>
     ipv4_dst pkt \<noteq> None \<and> pkt ! 23 = 6 \<and> tcp_at pkt + 20 \<le> length pkt \<and>
     slice (tcp_at pkt + 2) 2 pkt = [1, 187] \<and> payload_at pkt + 3 \<le> length pkt \<and>
     slice (payload_at pkt) 2 pkt = [0x16, 0x03]"

definition blocked :: "bpf_state \<Rightarrow> byte list \<Rightarrow> bool" where
  "blocked s pkt \<longleftrightarrow> (\<exists>d. ipv4_dst pkt = Some d \<and> c2_blocklist s (u32_of d) = Some 1)"

definition tls_record :: "byte list \<Rightarrow> tls_hello_event \<Rightarrow> tls_hello_event" where
  "tls_record pkt e =
     (let pl = take 128 (drop (payload_at pkt) pkt)
      in \<lparr>t_saddr = u32_of (slice 26 4 pkt), t_daddr = u32_of (slice 30 4 pkt), t_dport = 443,
          t_payload_len = of_nat (length pl), t_payload = memcpy (t_payload e) pl\<rparr>)"

definition xdp_spec :: "kenv \<Rightarrow> byte list \<Rightarrow> bpf_state \<Rightarrow> xdp_verdict \<times> bpf_state" where
  "xdp_spec k pkt s =
     (if blocked s pkt then (XDP_DROP, s)
      else (XDP_PASS,
        case tls_slot k of
          Some e \<Rightarrow> if tls_hello pkt then submit_tls (tls_record pkt e) s else s
        | None \<Rightarrow> s))"

lemma nibbles: "unat (b AND 0x0F) = unat (b :: byte) mod 16" "unat (drop_bit 4 b) = unat (b :: byte) div 16"
proof -
  have "b AND 0x0F = take_bit 4 b" by (simp add: take_bit_eq_mask mask_eq_exp_minus_1)
  moreover have "take_bit 4 b = b mod 16" by (simp add: take_bit_eq_mod)
  ultimately show "unat (b AND 0x0F) = unat b mod 16" by (simp add: unat_mod)
  show "unat (drop_bit 4 b) = unat b div 16" by (simp add: drop_bit_eq_div unat_div)
qed

lemma slice_two: "i + 2 \<le> length xs \<Longrightarrow> slice i 2 xs = [xs ! i, xs ! (i + 1)]"
  by (simp add: slice_def numeral_2_eq_2 take_Suc_conv_app_nth Cons_nth_drop_Suc [symmetric])

lemma tls_capture_eq:
  assumes "wf_kenv k" and "34 \<le> length pkt"
  shows "tls_capture k pkt 14 (bswap16 443) (payload_at pkt) s =
    Some (case tls_slot k of
        Some e \<Rightarrow> if payload_at pkt + 3 \<le> length pkt \<and> slice (payload_at pkt) 2 pkt = [0x16, 0x03]
                 then submit_tls (tls_record pkt e) s else s
      | None \<Rightarrow> s)"
proof (cases "payload_at pkt + 3 \<le> length pkt")
  case False
  then show ?thesis by (simp add: tls_capture_def split: option.split)
next
  case True
  let ?p = "payload_at pkt" and ?n = "min 128 (length pkt - payload_at pkt)"
  have hd: "slice ?p 2 pkt = [0x16, 0x03] \<longleftrightarrow> pkt ! ?p = 0x16 \<and> pkt ! (?p + 1) = 0x03"
    using True by (simp add: slice_two)
  have cp: "copy_payload pkt ?p 0 (t_payload e) = Some (memcpy (t_payload e) (take 128 (drop ?p pkt)))"
    if "tls_slot k = Some e" for e
  proof -
    have "length (t_payload e) = 128" using that assms(1) by (simp add: wf_kenv_def wf_tls_def)
    moreover have "slice (?p + 0) (?n - 0) pkt = take 128 (drop ?p pkt)" by (auto simp: slice_def min_def)
    ultimately show ?thesis
      using copy_payload_eq [of "t_payload e" 0 ?p pkt ?n] True by (simp add: memcpy_def min.commute)
  qed
  have rec: "e\<lparr>t_saddr := u32_of (slice 26 4 pkt), t_daddr := u32_of (slice 30 4 pkt), t_dport := 443,
      t_payload := memcpy (t_payload e) (take 128 (drop ?p pkt)), t_payload_len := of_nat ?n\<rparr>
      = tls_record pkt e" for e :: tls_hello_event
    by (simp add: tls_record_def Let_def min.commute)
  show ?thesis
    using True assms(2) cp rec
    by (cases "tls_slot k") (auto simp: tls_capture_def hd load8_in load32_in ntohs_443 min_def Let_def)
qed

lemma tcp_inspect_eq:
  assumes "wf_kenv k" and "34 \<le> length pkt" and "ipv4_dst pkt \<noteq> None" and "pkt ! 23 = 6"
  shows "tcp_inspect k pkt 14 (tcp_at pkt) s =
    Some (case tls_slot k of
        Some e \<Rightarrow> if tls_hello pkt then submit_tls (tls_record pkt e) s else s
      | None \<Rightarrow> s)"
proof (cases "tcp_at pkt + 20 \<le> length pkt")
  case False
  then show ?thesis by (simp add: tcp_inspect_def tls_hello_def layout_simps split: option.split)
next
  case True
  let ?t = "tcp_at pkt"
  have pay: "?t + unat (drop_bit 4 (pkt ! (?t + 12))) * 4 = payload_at pkt"
    by (simp add: payload_at_def nibbles)
  have "load16 pkt (?t + 2) = Some (u16_of (slice (?t + 2) 2 pkt))"
    and "load8 pkt (?t + 12) = Some (pkt ! (?t + 12))"
    and "u16_of (slice (?t + 2) 2 pkt) = bswap16 443 \<longleftrightarrow> slice (?t + 2) 2 pkt = [1, 187]"
    using True by (simp_all add: load16_in load8_in htons_443 u16_of_eq_iff)
  with True assms show ?thesis
    by (auto simp: tcp_inspect_def tls_hello_def pay tls_capture_eq layout_simps
        simp del: add_2_eq_Suc' split: option.split)
qed

lemma xdp_eq_spec:
  assumes "wf_kenv k"
  shows "xdp_c2_inspector k pkt s = Some (xdp_spec k pkt s)"
proof (cases "34 \<le> length pkt \<and> slice 12 2 pkt = [8, 0]")
  case False
  then show ?thesis
    by (auto simp: xdp_c2_inspector_def xdp_spec_def blocked_def tls_hello_def ipv4_dst_def Let_def
        load16_in htons_ip u16_of_eq_iff layout_simps split: option.split)
next
  case ip: True
  then have dst: "ipv4_dst pkt = Some (slice 30 4 pkt)" by (simp add: ipv4_dst_def)
  have tcp: "tcp_inspect k pkt 14 (14 + unat (pkt ! 14 AND 0x0F) * 4) s =
      tcp_inspect k pkt 14 (tcp_at pkt) s"
    by (simp add: tcp_at_def nibbles mult.commute)
  show ?thesis
    using ip dst assms
    by (auto simp: xdp_c2_inspector_def xdp_spec_def blocked_def Let_def tcp tcp_inspect_eq
        load8_in load16_in load32_in htons_ip tls_hello_def layout_simps split: option.split)
qed

end
