(* ===== verification/Sensor_System.thy ===== *)
theory Sensor_System
  imports Sensor_Probes Sensor_Xdp "HOL-Library.Sublist"
begin

text \<open>
  The eBPF programs as one system. Every tracepoint and kprobe program meets the contract
  \<open>probe\<close>: it leaves the configuration maps alone, stops no process but the current one,
  and submits at most one complete record. The contract of a least-recently-used map is
  the locale \<open>lru_map\<close>. Over both stands the step relation of the sensor, with its
  reachable states and their invariants.
\<close>

section \<open>The contract of a program\<close>

definition config :: "bpf_state \<Rightarrow> (u32 \<rightharpoonup> byte) \<times> (u64 \<rightharpoonup> byte) \<times> (u32 \<rightharpoonup> byte) \<times> (u32 \<rightharpoonup> u32)" where
  "config s = (c2_blocklist s, honeytokens s, ghost_pids s, agent_pid s)"

definition rings_ok :: "bpf_state \<Rightarrow> bool" where
  "rings_ok s \<longleftrightarrow> (\<forall>r \<in> set (events s). length r = sizeof struct_event) \<and>
     (\<forall>r \<in> set (tls_events s). length r = sizeof struct_tls_hello_event)"

text \<open>From \<open>s\<close> to \<open>s'\<close>, at most one complete record of the current process was submitted.\<close>

definition one_record :: "kenv \<Rightarrow> bpf_state \<Rightarrow> bpf_state \<Rightarrow> bool" where
  "one_record k s s' \<longleftrightarrow> events s' = events s \<or>
     (\<exists>e. wf_event e \<and> e_pid e = cur_pid k \<and> events s' = events s @ [event_bytes e])"

lemma one_record_refl: "events s' = events s \<Longrightarrow> one_record k s s'"
  by (simp add: one_record_def)

lemma one_record_counts [simp]:
  "one_record k s (s'\<lparr>file_creation_counts := c\<rparr>) = one_record k s s'"
  "one_record k s (s'\<lparr>journal_spam_counts := c\<rparr>) = one_record k s s'"
  by (simp_all add: one_record_def)

lemma one_record_submit:
  "wf_event e \<Longrightarrow> e_pid e = cur_pid k \<Longrightarrow> events s' = events s @ [event_bytes e] \<Longrightarrow> one_record k s s'"
  by (auto simp: one_record_def)

locale probe =
  fixes run :: "kenv \<Rightarrow> 'c \<Rightarrow> bpf_state \<Rightarrow> bpf_state"
  assumes keeps_config: "config (run k c s) = config s"
    and signals_step: "signals (run k c s) = signals s \<or>
      signals (run k c s) = signals s @ [(cur_pid k, SIGSTOP)]"
    and events_step: "wf_kenv k \<Longrightarrow> one_record k s (run k c s)"
    and tls_step: "tls_events (run k c s) = tls_events s"
begin

lemma keeps_rings: "wf_kenv k \<Longrightarrow> rings_ok s \<Longrightarrow> rings_ok (run k c s)"
  using events_step [of k s c] tls_step [of k c s]
  by (auto simp: rings_ok_def one_record_def length_event_bytes)

lemma keeps_history: "\<exists>new. signals (run k c s) = signals s @ new \<and> set new \<subseteq> {(cur_pid k, SIGSTOP)}"
  using signals_step [of k c s] by auto

lemma keeps_agent: "agent_pid (run k c s) = agent_pid s"
  using keeps_config [of k c s] by (simp add: config_def)

end

section \<open>Lemmas on the shared writes\<close>

lemma send_signal_simps [simp]:
  "signals (bpf_send_signal sig k s) = signals s @ [(cur_pid k, sig)]"
  "events (bpf_send_signal sig k s) = events s"
  "tls_events (bpf_send_signal sig k s) = tls_events s"
  "config (bpf_send_signal sig k s) = config s"
  "file_creation_counts (bpf_send_signal sig k s) = file_creation_counts s"
  "journal_spam_counts (bpf_send_signal sig k s) = journal_spam_counts s"
  by (simp_all add: bpf_send_signal_def config_def)

lemma submit_event_simps [simp]:
  "signals (submit_event e s) = signals s"
  "events (submit_event e s) = events s @ [event_bytes e]"
  "tls_events (submit_event e s) = tls_events s"
  "config (submit_event e s) = config s"
  "file_creation_counts (submit_event e s) = file_creation_counts s"
  "journal_spam_counts (submit_event e s) = journal_spam_counts s"
  by (simp_all add: submit_event_def config_def)

lemma emit_trap_simps [simp]:
  "signals (emit_trap k i m s) = signals s"
  "tls_events (emit_trap k i m s) = tls_events s"
  "config (emit_trap k i m s) = config s"
  "file_creation_counts (emit_trap k i m s) = file_creation_counts s"
  "journal_spam_counts (emit_trap k i m s) = journal_spam_counts s"
  by (simp_all add: emit_trap_def split: option.split)

lemma config_counts [simp]:
  "config (s\<lparr>file_creation_counts := c\<rparr>) = config s"
  "config (s\<lparr>journal_spam_counts := c\<rparr>) = config s"
  by (simp_all add: config_def)

lemma trap_pid [simp]: "e_pid (trap_event k i m e) = cur_pid k"
  by (simp add: trap_event_def put_msg_def)

lemma emit_trap_record:
  assumes "wf_kenv k" and "length m < 256" and "events s0 = events s"
  shows "one_record k s (emit_trap k i m s0)"
proof (cases "slot k")
  case (Some e)
  with assms(1,2) have "wf_event (trap_event k i m e)"
    by (intro wf_trap_event) (auto simp: wf_kenv_def)
  then show ?thesis
    by (rule one_record_submit) (use Some assms(3) in \<open>simp_all add: emit_trap_def\<close>)
qed (use assms in \<open>simp add: emit_trap_def one_record_refl\<close>)

lemma wf_exec_event: "wf_event e \<Longrightarrow> wf_kenv k \<Longrightarrow> wf_event (exec_event k ctx e)"
  by (simp add: exec_event_def wf_event_def wf_kenv_def Let_def length_memcpy)

lemma exec_pid [simp]: "e_pid (exec_event k ctx e) = cur_pid k"
  by (simp add: exec_event_def Let_def)

section \<open>Every program meets the contract\<close>

lemma execve_record: "wf_kenv k \<Longrightarrow> one_record k s (handle_execve k ctx s)"
proof -
  assume k: "wf_kenv k"
  consider (tool) "is_unauthorized_tool (cur_comm k)"
    | (root) "\<not> is_unauthorized_tool (cur_comm k)" "lo32 (cur_uid_gid k) = 0" "is_vuln_app (cur_comm k)"
    | (none) "\<not> is_unauthorized_tool (cur_comm k)" "slot k = None"
        "\<not> (lo32 (cur_uid_gid k) = 0 \<and> is_vuln_app (cur_comm k))"
    | (plain) e where "\<not> is_unauthorized_tool (cur_comm k)" "slot k = Some e"
        "\<not> (lo32 (cur_uid_gid k) = 0 \<and> is_vuln_app (cur_comm k))"
    by fastforce
  then show ?thesis
  proof cases
    case plain
    with k have "wf_event (exec_event k ctx e)" by (simp add: wf_exec_event wf_kenv_def)
    then show ?thesis
      by (rule one_record_submit) (use plain in \<open>auto simp: handle_execve_def Let_def\<close>)
  qed (auto simp: handle_execve_def Let_def k one_record_refl intro!: emit_trap_record)
qed

interpretation execve: probe handle_execve
  by unfold_locales
    (auto simp: execve_record, auto simp: handle_execve_def Let_def split: option.splits if_splits)

interpretation vfs_open: probe kprobe_vfs_open
  by unfold_locales
    (auto simp: kprobe_vfs_open_def Let_def one_record_refl intro!: emit_trap_record split: option.split)

interpretation ghost: probe ghost_check
  by unfold_locales
    (auto simp: ghost_check_def one_record_refl intro!: emit_trap_record split: option.split)

interpretation ptrace: probe handle_ptrace
  by unfold_locales
    (auto simp: handle_ptrace_def ghost.keeps_config ghost.signals_step ghost.events_step ghost.tls_step)

interpretation vm_readv: probe handle_process_vm_readv
  by unfold_locales
    (auto simp: handle_process_vm_readv_def ghost.keeps_config ghost.signals_step ghost.events_step
      ghost.tls_step)

interpretation kill: probe handle_kill
  by unfold_locales
    (auto simp: handle_kill_def Let_def one_record_refl intro!: emit_trap_record split: option.split)

interpretation openat: probe handle_openat
  by unfold_locales
    (auto simp: handle_openat_def Let_def one_record_refl intro!: emit_trap_record)

interpretation sendto: probe handle_sendto
  by unfold_locales
    (auto simp: handle_sendto_def Let_def one_record_refl intro!: emit_trap_record)

section \<open>Least-recently-used maps\<close>

text \<open>
  What the counters rely on: an update stores the value under its key; any other entry
  either stays or is evicted, and none is changed or created.
\<close>

locale lru_map =
  fixes upd :: "('k \<rightharpoonup> 'v) \<Rightarrow> 'k \<Rightarrow> 'v \<Rightarrow> ('k \<rightharpoonup> 'v)"
  assumes upd_same: "upd m k v k = Some v"
    and upd_other: "k' \<noteq> k \<Longrightarrow> upd m k v k' = m k' \<or> upd m k v k' = None"
begin

lemma upd_range: "upd m k v k' = Some w \<Longrightarrow> k' = k \<and> w = v \<or> m k' = Some w"
  using upd_same [of m k v] upd_other [of k' k m v] by (cases "k' = k") auto

lemma upd_keeps: "(\<And>p w. m p = Some w \<Longrightarrow> P w) \<Longrightarrow> P v \<Longrightarrow> upd m k v p = Some w \<Longrightarrow> P w"
  using upd_range by metis

lemma upd_reset: "(\<And>p w. m p = Some w \<Longrightarrow> P w) \<Longrightarrow> P v \<Longrightarrow> upd (upd m k x) k v p = Some w \<Longrightarrow> P w"
  using upd_range upd_same by (metis option.inject)

end

text \<open>
  A bounded map that evicts \<open>victim\<close> to make room when a new key comes in (and evicts
  nothing for \<open>None\<close>) has these laws, whatever victim the kernel picks.
\<close>

definition lru_evict :: "'k option \<Rightarrow> ('k \<rightharpoonup> 'v) \<Rightarrow> 'k \<Rightarrow> 'v \<Rightarrow> ('k \<rightharpoonup> 'v)" where
  "lru_evict victim m k v =
     ((case victim of None \<Rightarrow> m | Some x \<Rightarrow> if m k = None then m(x := None) else m)(k \<mapsto> v))"

interpretation evict: lru_map "lru_evict victim"
  by unfold_locales (auto simp: lru_evict_def split: option.split)

section \<open>The exhaustion counters\<close>

definition counts_ok :: "bpf_state \<Rightarrow> bool" where
  "counts_ok s \<longleftrightarrow>
     (\<forall>p c. file_creation_counts s p = Some c \<longrightarrow> c \<le> FILE_LIMIT) \<and>
     (\<forall>p c. journal_spam_counts s p = Some c \<longrightarrow> c \<le> JOURNAL_LIMIT)"

text \<open>The number of events a counter map holds for a process.\<close>

definition count_of :: "(u32 \<rightharpoonup> u64) \<Rightarrow> u32 \<Rightarrow> nat" where
  "count_of m p = (case m p of None \<Rightarrow> 0 | Some c \<Rightarrow> unat c)"

lemma unat_next_count:
  assumes "\<And>c. m p = Some c \<Longrightarrow> c \<le> lim" and "unat lim < 2 ^ 63"
  shows "unat (next_count (m p)) = Suc (count_of m p)"
proof (cases "m p")
  case (Some c)
  with assms have "unat c < 2 ^ 63" by (meson le_less_trans word_le_nat_alt)
  then have "unat (c + 1) = Suc (unat c)" by (subst unat_word_ariths) (simp add: mod_less)
  with Some show ?thesis by (simp add: next_count_def count_of_def)
qed (simp add: next_count_def count_of_def)

lemma next_count_le: "\<not> lim < next_count c \<Longrightarrow> next_count c \<le> lim"
  by simp

lemma openat_file_bound:
  assumes "lru_map (lru_update k)" and "\<forall>p c. file_creation_counts s p = Some c \<longrightarrow> c \<le> FILE_LIMIT"
    and "file_creation_counts (handle_openat k ctx s) p = Some c"
  shows "c \<le> FILE_LIMIT"
proof -
  note keeps = lru_map.upd_keeps [OF assms(1), where P = "\<lambda>c. c \<le> FILE_LIMIT"]
  note reset = lru_map.upd_reset [OF assms(1), where P = "\<lambda>c. c \<le> FILE_LIMIT"]
  have zero: "0 \<le> FILE_LIMIT" by simp
  show ?thesis
    using assms(2,3)
    by (auto simp: handle_openat_def Let_def not_less split: if_splits
        intro: keeps [of "file_creation_counts s"] reset [of "file_creation_counts s", OF _ zero])
qed

lemma sendto_journal_bound:
  assumes "lru_map (lru_update k)" and "\<forall>p c. journal_spam_counts s p = Some c \<longrightarrow> c \<le> JOURNAL_LIMIT"
    and "journal_spam_counts (handle_sendto k ctx s) p = Some c"
  shows "c \<le> JOURNAL_LIMIT"
proof -
  note keeps = lru_map.upd_keeps [OF assms(1), where P = "\<lambda>c. c \<le> JOURNAL_LIMIT"]
  note reset = lru_map.upd_reset [OF assms(1), where P = "\<lambda>c. c \<le> JOURNAL_LIMIT"]
  have zero: "0 \<le> JOURNAL_LIMIT" by simp
  show ?thesis
    using assms(2,3)
    by (auto simp: handle_sendto_def Let_def not_less split: if_splits
        intro: keeps [of "journal_spam_counts s"] reset [of "journal_spam_counts s", OF _ zero])
qed

lemma openat_journal: "journal_spam_counts (handle_openat k ctx s) = journal_spam_counts s"
  by (simp add: handle_openat_def Let_def)

lemma sendto_file: "file_creation_counts (handle_sendto k ctx s) = file_creation_counts s"
  by (simp add: handle_sendto_def Let_def)

lemma openat_counts: "lru_map (lru_update k) \<Longrightarrow> counts_ok s \<Longrightarrow> counts_ok (handle_openat k ctx s)"
  using openat_file_bound [of k s ctx] by (auto simp: counts_ok_def openat_journal)

lemma sendto_counts: "lru_map (lru_update k) \<Longrightarrow> counts_ok s \<Longrightarrow> counts_ok (handle_sendto k ctx s)"
  using sendto_journal_bound [of k s ctx] by (auto simp: counts_ok_def sendto_file)

text \<open>The other programs do not touch the counters.\<close>

lemma no_counts:
  "file_creation_counts (handle_execve k ctx s) = file_creation_counts s"
  "journal_spam_counts (handle_execve k ctx s) = journal_spam_counts s"
  "file_creation_counts (kprobe_vfs_open k file s) = file_creation_counts s"
  "journal_spam_counts (kprobe_vfs_open k file s) = journal_spam_counts s"
  "file_creation_counts (ghost_check k t s) = file_creation_counts s"
  "journal_spam_counts (ghost_check k t s) = journal_spam_counts s"
  "file_creation_counts (handle_kill k ctx s) = file_creation_counts s"
  "journal_spam_counts (handle_kill k ctx s) = journal_spam_counts s"
  by (simp_all add: handle_execve_def kprobe_vfs_open_def ghost_check_def handle_kill_def Let_def
      split: option.split)

section \<open>A process that keeps creating files\<close>

definition creates_file :: "sys_enter \<Rightarrow> bool" where
  "creates_file ctx \<longleftrightarrow> lo32 (se_args ctx ! 2) AND 64 \<noteq> 0"

fun repeat_probe :: "(bpf_state \<Rightarrow> bpf_state) \<Rightarrow> nat \<Rightarrow> bpf_state \<Rightarrow> bpf_state" where
  "repeat_probe f 0 s = s"
| "repeat_probe f (Suc n) s = repeat_probe f n (f s)"

lemma repeat_probe_Suc: "repeat_probe f (Suc n) s = f (repeat_probe f n s)"
  by (induction n arbitrary: s) simp_all

lemma openat_step:
  assumes "lru_map (lru_update k)" and "counts_ok s" and "creates_file ctx"
    and "agent_pid s 0 \<noteq> Some (cur_pid k)"
  defines "n \<equiv> count_of (file_creation_counts s) (cur_pid k)"
    and "s' \<equiv> handle_openat k ctx s"
  shows "count_of (file_creation_counts s') (cur_pid k) = (if n < 10000 then Suc n else 0)"
    and "length (signals s') = length (signals s) + (if n < 10000 then 0 else 1)"
proof -
  have c: "unat (next_count (file_creation_counts s (cur_pid k))) = Suc n"
    unfolding n_def using assms(2)
    by (intro unat_next_count [where lim = FILE_LIMIT]) (auto simp: counts_ok_def FILE_LIMIT_def)
  then have gt: "FILE_LIMIT < next_count (file_creation_counts s (cur_pid k)) \<longleftrightarrow> \<not> n < 10000"
    by (auto simp: word_less_nat_alt FILE_LIMIT_def)
  note same = lru_map.upd_same [OF assms(1)]
  show "count_of (file_creation_counts s') (cur_pid k) = (if n < 10000 then Suc n else 0)"
    using assms(3,4) gt c by (simp add: s'_def handle_openat_def creates_file_def Let_def count_of_def same)
  show "length (signals s') = length (signals s) + (if n < 10000 then 0 else 1)"
    using assms(3,4) gt by (simp add: s'_def handle_openat_def creates_file_def Let_def)
qed

lemma openat_agent: "agent_pid (handle_openat k ctx s) = agent_pid s"
  by (rule openat.keeps_agent)

lemma openat_repeat:
  assumes "lru_map (lru_update k)" and "counts_ok s" and "creates_file ctx"
    and "agent_pid s 0 \<noteq> Some (cur_pid k)" and "count_of (file_creation_counts s) (cur_pid k) = 0"
  defines "r n \<equiv> repeat_probe (handle_openat k ctx) n s"
  shows "counts_ok (r n) \<and> agent_pid (r n) = agent_pid s \<and>
    count_of (file_creation_counts (r n)) (cur_pid k) = n mod 10001 \<and>
    length (signals (r n)) = length (signals s) + n div 10001"
proof (induction n)
  case 0
  then show ?case using assms by (simp add: r_def)
next
  case (Suc n)
  have r: "r (Suc n) = handle_openat k ctx (r n)"
    by (simp add: r_def repeat_probe_Suc del: repeat_probe.simps)
  from Suc.IH have ok: "counts_ok (r n)" and ag: "agent_pid (r n) 0 \<noteq> Some (cur_pid k)"
    and cnt: "count_of (file_creation_counts (r n)) (cur_pid k) = n mod 10001"
    using assms(4) by auto
  note step = openat_step [OF assms(1) ok assms(3) ag, unfolded cnt]
  have "n mod 10001 < 10001" by simp
  then have "n mod 10001 = 10000 \<or> n mod 10001 < 10000" by linarith
  then have "Suc n mod 10001 = (if n mod 10001 < 10000 then Suc (n mod 10001) else 0)"
    and "Suc n div 10001 = n div 10001 + (if n mod 10001 < 10000 then 0 else 1)"
    by (auto simp: mod_Suc div_Suc)
  with Suc.IH step openat_counts [OF assms(1) ok] show ?case
    by (simp add: r openat_agent)
qed

section \<open>The sensor as a transition system\<close>

text \<open>
  A step is one program run (\<open>program_step\<close>), with any helper results the kernel may give,
  or one write of the agent to a configuration map (\<open>main.rs\<close> registers its own process identifier,
  honeytoken inodes, decoy processes and blocked addresses).
\<close>

inductive program_step :: "bpf_state \<Rightarrow> bpf_state \<Rightarrow> bool" where
  prog_execve: "wf_kenv k \<Longrightarrow> program_step s (handle_execve k ctx s)"
| prog_vfs_open: "wf_kenv k \<Longrightarrow> program_step s (kprobe_vfs_open k file s)"
| prog_ptrace: "wf_kenv k \<Longrightarrow> program_step s (handle_ptrace k ctx s)"
| prog_vm_readv: "wf_kenv k \<Longrightarrow> program_step s (handle_process_vm_readv k ctx s)"
| prog_kill: "wf_kenv k \<Longrightarrow> program_step s (handle_kill k ctx s)"
| prog_openat: "wf_kenv k \<Longrightarrow> lru_map (lru_update k) \<Longrightarrow> program_step s (handle_openat k ctx s)"
| prog_sendto: "wf_kenv k \<Longrightarrow> lru_map (lru_update k) \<Longrightarrow> program_step s (handle_sendto k ctx s)"
| prog_xdp: "wf_kenv k \<Longrightarrow> xdp_c2_inspector k pkt s = Some (v, s') \<Longrightarrow> program_step s s'"

inductive sensor_step :: "bpf_state \<Rightarrow> bpf_state \<Rightarrow> bool" where
  step_program: "program_step s s' \<Longrightarrow> sensor_step s s'"
| step_register: "sensor_step s (s\<lparr>agent_pid := (agent_pid s)(0 \<mapsto> p)\<rparr>)"
| step_honeytoken: "sensor_step s (s\<lparr>honeytokens := (honeytokens s)(i \<mapsto> v)\<rparr>)"
| step_ghost: "sensor_step s (s\<lparr>ghost_pids := (ghost_pids s)(p \<mapsto> 1)\<rparr>)"
| step_block: "sensor_step s (s\<lparr>c2_blocklist := (c2_blocklist s)(a \<mapsto> 1)\<rparr>)"

lemmas step_kill = step_program [OF prog_kill]
lemmas step_execve = step_program [OF prog_execve]

inductive reachable :: "bpf_state \<Rightarrow> bool" where
  reach_init: "reachable bpf_init"
| reach_step: "reachable s \<Longrightarrow> sensor_step s s' \<Longrightarrow> reachable s'"

definition sensor_inv :: "bpf_state \<Rightarrow> bool" where
  "sensor_inv s \<longleftrightarrow> rings_ok s \<and> counts_ok s \<and> agent_pid s 0 \<noteq> None \<and>
     (\<forall>x \<in> set (signals s). snd x = SIGSTOP)"

lemma rings_ok_config:
  "rings_ok (s\<lparr>agent_pid := a\<rparr>) = rings_ok s" "rings_ok (s\<lparr>honeytokens := h\<rparr>) = rings_ok s"
  "rings_ok (s\<lparr>ghost_pids := g\<rparr>) = rings_ok s" "rings_ok (s\<lparr>c2_blocklist := b\<rparr>) = rings_ok s"
  by (simp_all add: rings_ok_def)

lemma counts_ok_config:
  "counts_ok (s\<lparr>agent_pid := a\<rparr>) = counts_ok s" "counts_ok (s\<lparr>honeytokens := h\<rparr>) = counts_ok s"
  "counts_ok (s\<lparr>ghost_pids := g\<rparr>) = counts_ok s" "counts_ok (s\<lparr>c2_blocklist := b\<rparr>) = counts_ok s"
  by (simp_all add: counts_ok_def)

context probe
begin

lemma keeps_inv:
  assumes "wf_kenv k" and "sensor_inv s" and "counts_ok (run k c s)"
  shows "sensor_inv (run k c s)"
  using assms keeps_rings [of k s c] keeps_agent [of k c s] keeps_history [of k c s]
  by (fastforce simp: sensor_inv_def)

end

lemma xdp_inv:
  assumes "wf_kenv k" and "sensor_inv s" and "xdp_c2_inspector k pkt s = Some (v, s')"
  shows "sensor_inv s'"
proof -
  from assms(1,3) have s': "s' = snd (xdp_spec k pkt s)" by (simp add: xdp_eq_spec)
  have "wf_tls (tls_record pkt e)" if "tls_slot k = Some e" for e
    using that assms(1) by (simp add: tls_record_def wf_tls_def wf_kenv_def Let_def length_memcpy)
  with assms(2) s' show ?thesis
    by (auto simp: xdp_spec_def submit_tls_def sensor_inv_def rings_ok_def counts_ok_def
        length_tls_bytes split: option.splits if_splits)
qed

lemma program_step_inv: "program_step s s' \<Longrightarrow> sensor_inv s \<Longrightarrow> sensor_inv s'"
proof (induction rule: program_step.induct)
  case (prog_execve k s ctx)
  then show ?case by (intro execve.keeps_inv) (auto simp: sensor_inv_def counts_ok_def no_counts)
next
  case (prog_vfs_open k s f)
  then show ?case by (intro vfs_open.keeps_inv) (auto simp: sensor_inv_def counts_ok_def no_counts)
next
  case (prog_ptrace k s ctx)
  then show ?case
    by (intro ptrace.keeps_inv) (auto simp: sensor_inv_def counts_ok_def handle_ptrace_def no_counts)
next
  case (prog_vm_readv k s ctx)
  then show ?case
    by (intro vm_readv.keeps_inv)
      (auto simp: sensor_inv_def counts_ok_def handle_process_vm_readv_def no_counts)
next
  case (prog_kill k s ctx)
  then show ?case by (intro kill.keeps_inv) (auto simp: sensor_inv_def counts_ok_def no_counts)
next
  case (prog_openat k s ctx)
  then show ?case by (intro openat.keeps_inv openat_counts) (auto simp: sensor_inv_def)
next
  case (prog_sendto k s ctx)
  then show ?case by (intro sendto.keeps_inv sendto_counts) (auto simp: sensor_inv_def)
next
  case (prog_xdp k pkt s v s')
  then show ?case by (blast intro: xdp_inv)
qed

lemma sensor_step_inv: "sensor_step s s' \<Longrightarrow> sensor_inv s \<Longrightarrow> sensor_inv s'"
  by (induction rule: sensor_step.induct)
    (auto simp: sensor_inv_def rings_ok_config counts_ok_config dest: program_step_inv [unfolded sensor_inv_def])

lemma sensor_inv_init: "sensor_inv bpf_init"
  by (simp add: sensor_inv_def bpf_init_def rings_ok_def counts_ok_def)

lemma reachable_inv: "reachable s \<Longrightarrow> sensor_inv s"
  by (induction rule: reachable.induct) (auto intro: sensor_inv_init sensor_step_inv)

section \<open>History\<close>

text \<open>Records and signals are only ever added; registrations of the agent only come from the agent.\<close>

inductive_cases program_stepE: "program_step s s'"

inductive_cases sensor_stepE: "sensor_step s s'"

context probe
begin

lemma adds_history:
  "wf_kenv k \<Longrightarrow> prefix (events s) (events (run k c s)) \<and> prefix (signals s) (signals (run k c s)) \<and>
     prefix (tls_events s) (tls_events (run k c s))"
  using events_step [of k s c] signals_step [of k c s] tls_step [of k c s]
  by (auto simp: one_record_def)

end

lemmas probes_add_history = execve.adds_history vfs_open.adds_history ptrace.adds_history
  vm_readv.adds_history kill.adds_history openat.adds_history sendto.adds_history

lemma xdp_history:
  "wf_kenv k \<Longrightarrow> xdp_c2_inspector k pkt s = Some (v, s') \<Longrightarrow>
     v \<le> XDP_PASS \<and> events s' = events s \<and> signals s' = signals s \<and> prefix (tls_events s) (tls_events s')"
  by (auto simp: xdp_eq_spec xdp_spec_def submit_tls_def less_eq_xdp_verdict_def xdp_code_def
      split: option.splits if_splits)

lemma program_step_history:
  assumes "program_step s s'"
  shows "prefix (events s) (events s') \<and> prefix (signals s) (signals s') \<and> prefix (tls_events s) (tls_events s')"
  using assms by (elim program_stepE) (auto dest: probes_add_history xdp_history)

lemma sensor_step_history:
  assumes "sensor_step s s'"
  shows "prefix (events s) (events s') \<and> prefix (signals s) (signals s') \<and> prefix (tls_events s) (tls_events s')"
  using assms by (elim sensor_stepE) (auto dest: program_step_history)

text \<open>No program writes a configuration map, and none adds more than one record.\<close>

lemmas probes_keep_config = execve.keeps_config vfs_open.keeps_config ptrace.keeps_config
  vm_readv.keeps_config kill.keeps_config openat.keeps_config sendto.keeps_config

lemmas probes_one_record = execve.events_step vfs_open.events_step ptrace.events_step
  vm_readv.events_step kill.events_step openat.events_step sendto.events_step

lemma xdp_config: "wf_kenv k \<Longrightarrow> xdp_c2_inspector k pkt s = Some (v, s') \<Longrightarrow> config s' = config s"
  by (auto simp: xdp_eq_spec xdp_spec_def submit_tls_def config_def split: option.splits if_splits)

lemma program_step_config: "program_step s s' \<Longrightarrow> config s' = config s"
  by (elim program_stepE) (auto simp: probes_keep_config xdp_config)

lemma program_step_events:
  assumes "program_step s s'"
  shows "events s' = events s \<or> (\<exists>e. wf_event e \<and> events s' = events s @ [event_bytes e])"
proof -
  have one: "one_record k s t \<Longrightarrow> events t = events s \<or> (\<exists>e. wf_event e \<and> events t = events s @ [event_bytes e])"
    for k t by (auto simp: one_record_def)
  show ?thesis using assms by (elim program_stepE) (blast dest: probes_one_record one xdp_history)+
qed

end
