(* ===== verification/Proxmox_Bridge.thy ===== *)
theory Proxmox_Bridge
  imports Rust_Std
begin

text \<open>
  The Proxmox bridge of \<open>src/proxmox_bridge.rs\<close>: allocating a volume for a dump, writing the
  dump to it, plugging it into the analysis machine and removing it again. Commands, the
  clock and the size of the dump's file are parameters; the state is the list of commands run.
\<close>

record bridge =
  storage :: string
  vmid :: u32
  proxmox_host :: string
  is_local_hypervisor :: bool

definition default_kp14 :: bridge where
  "default_kp14 = \<lparr>storage = ''local-lvm'', vmid = 9211, proxmox_host = ''localhost:8006'',
     is_local_hypervisor = True\<rparr>"

datatype bridge_error =
    ClockFailed | AllocSpawn | AllocFailed | BlobMissing | PathSpawn | PathFailed | PathEmpty
  | DdSpawn | DdFailed | ScpSpawn | ScpFailed | ConfigSpawn | NoSlot | HotplugSpawn | HotplugFailed

text \<open>A command run for its status: \<open>None\<close> when it did not start.\<close>

definition run_status :: "os \<Rightarrow> cmd \<Rightarrow> cmd list \<Rightarrow> bool option \<times> cmd list" where
  "run_status os c tr =
     (case os tr c of SpawnFailed \<Rightarrow> (None, tr) | Exited ok out \<Rightarrow> (Some ok, tr @ [c]))"

definition volume_name :: "nat \<Rightarrow> string" where "volume_name t = ''alphvdr-coredump-'' @ show_nat t"

definition alloc_cmd :: "bridge \<Rightarrow> nat \<Rightarrow> u64 \<Rightarrow> cmd" where
  "alloc_cmd b t size_mb =
     [''pvesm'', ''alloc'', storage b, volume_name t, show_nat (unat size_mb) @ ''M'']"

definition allocate_storage ::
  "os \<Rightarrow> nat option \<Rightarrow> bridge \<Rightarrow> u64 \<Rightarrow> cmd list \<Rightarrow> (bridge_error + string) \<times> cmd list" where
  "allocate_storage os now b size_mb tr =
     (case now of
        None \<Rightarrow> (Inl ClockFailed, tr)
      | Some t \<Rightarrow>
          (let volume_id = storage b @ '':'' @ volume_name t
           in if is_local_hypervisor b then
                (case run_status os (alloc_cmd b t size_mb) tr of
                   (None, tr1) \<Rightarrow> (Inl AllocSpawn, tr1)
                 | (Some False, tr1) \<Rightarrow> (Inl AllocFailed, tr1)
                 | (Some True, tr1) \<Rightarrow> (Inr volume_id, tr1))
              else (Inr volume_id, tr)))"

definition path_cmd :: "string \<Rightarrow> cmd" where "path_cmd volume_id = [''pvesm'', ''path'', volume_id]"

definition get_volume_device_path :: "os \<Rightarrow> string \<Rightarrow> cmd list \<Rightarrow> (bridge_error + string) \<times> cmd list" where
  "get_volume_device_path os volume_id tr =
     (case os tr (path_cmd volume_id) of
        SpawnFailed \<Rightarrow> (Inl PathSpawn, tr)
      | Exited ok out \<Rightarrow>
          (let tr1 = tr @ [path_cmd volume_id]; path = trim (from_utf8_lossy (cbytes out))
           in if \<not> ok then (Inl PathFailed, tr1)
              else if path = [] then (Inl PathEmpty, tr1) else (Inr path, tr1)))"

definition dd_cmd :: "string \<Rightarrow> string \<Rightarrow> cmd" where
  "dd_cmd blob_path device_path =
     [''dd'', ''if='' @ blob_path, ''of='' @ device_path, ''bs=1M'', ''conv=fdatasync'']"

definition scp_cmd :: "bridge \<Rightarrow> string \<Rightarrow> string \<Rightarrow> cmd" where
  "scp_cmd b blob_path volume_id =
     [''scp'', ''-B'', ''-o'', ''StrictHostKeyChecking=yes'', blob_path,
      ''root@'' @ proxmox_host b @ '':/tmp/'' @ volume_id]"

text \<open>\<open>blob_len\<close>: the size of the dump's file, \<open>None\<close> when its metadata cannot be read.\<close>

definition write_blob_to_volume ::
  "os \<Rightarrow> u64 option \<Rightarrow> bridge \<Rightarrow> string \<Rightarrow> string \<Rightarrow> cmd list \<Rightarrow> (bridge_error + unit) \<times> cmd list" where
  "write_blob_to_volume os blob_len b blob_path volume_id tr =
     (case blob_len of
        None \<Rightarrow> (Inl BlobMissing, tr)
      | Some n \<Rightarrow>
          (if is_local_hypervisor b then
             (case get_volume_device_path os volume_id tr of
                (Inl e, tr1) \<Rightarrow> (Inl e, tr1)
              | (Inr device_path, tr1) \<Rightarrow>
                  (case run_status os (dd_cmd blob_path device_path) tr1 of
                     (None, tr2) \<Rightarrow> (Inl DdSpawn, tr2)
                   | (Some False, tr2) \<Rightarrow> (Inl DdFailed, tr2)
                   | (Some True, tr2) \<Rightarrow> (Inr (), tr2)))
           else
             (case run_status os (scp_cmd b blob_path volume_id) tr of
                (None, tr1) \<Rightarrow> (Inl ScpSpawn, tr1)
              | (Some False, tr1) \<Rightarrow> (Inl ScpFailed, tr1)
              | (Some True, tr1) \<Rightarrow> (Inr (), tr1))))"

section \<open>Choosing a slot\<close>

definition is_ascii_digit :: "char \<Rightarrow> bool" where
  "is_ascii_digit c \<longleftrightarrow> 48 \<le> (of_char c :: nat) \<and> of_char c \<le> (57 :: nat)"

definition slot_of_line :: "string \<Rightarrow> nat option" where
  "slot_of_line line =
     (if starts_with line ''scsi'' then parse_unsigned 10 (2 ^ 32) (takeWhile is_ascii_digit (drop 4 line))
      else None)"

definition used_slots :: "string \<Rightarrow> nat list" where
  "used_slots config = List.map_filter slot_of_line (lines config)"

definition config_cmd :: "bridge \<Rightarrow> cmd" where "config_cmd b = [''qm'', ''config'', show_u32 (vmid b)]"

definition find_available_scsi_slot :: "os \<Rightarrow> bridge \<Rightarrow> cmd list \<Rightarrow> (bridge_error + nat) \<times> cmd list" where
  "find_available_scsi_slot os b tr =
     (if \<not> is_local_hypervisor b then (Inr 10, tr)
      else (case os tr (config_cmd b) of
          SpawnFailed \<Rightarrow> (Inl ConfigSpawn, tr)
        | Exited ok out \<Rightarrow>
            (case find (\<lambda>slot. slot \<notin> set (used_slots (from_utf8_lossy (cbytes out)))) [10..<31] of
               Some slot \<Rightarrow> (Inr slot, tr @ [config_cmd b])
             | None \<Rightarrow> (Inl NoSlot, tr @ [config_cmd b]))))"

section \<open>Hotplug, cleanup and the whole pipeline\<close>

definition hotplug_cmd :: "bridge \<Rightarrow> nat \<Rightarrow> string \<Rightarrow> cmd" where
  "hotplug_cmd b slot volume_id =
     [''qm'', ''set'', show_u32 (vmid b), ''--scsi'' @ show_nat slot @ '','' @ volume_id]"

definition hotplug_to_vm :: "os \<Rightarrow> bridge \<Rightarrow> string \<Rightarrow> cmd list \<Rightarrow> (bridge_error + nat) \<times> cmd list" where
  "hotplug_to_vm os b volume_id tr =
     (case find_available_scsi_slot os b tr of
        (Inl e, tr1) \<Rightarrow> (Inl e, tr1)
      | (Inr slot, tr1) \<Rightarrow>
          (if is_local_hypervisor b then
             (case run_status os (hotplug_cmd b slot volume_id) tr1 of
                (None, tr2) \<Rightarrow> (Inl HotplugSpawn, tr2)
              | (Some False, tr2) \<Rightarrow> (Inl HotplugFailed, tr2)
              | (Some True, tr2) \<Rightarrow> (Inr slot, tr2))
           else (Inr slot, tr1)))"

definition delete_cmd :: "bridge \<Rightarrow> nat \<Rightarrow> cmd" where
  "delete_cmd b slot = [''qm'', ''set'', show_u32 (vmid b), ''--delete'', ''scsi'' @ show_nat slot]"

definition free_cmd :: "string \<Rightarrow> cmd" where "free_cmd volume_id = [''pvesm'', ''free'', volume_id]"

text \<open>Cleanup ignores the outcomes of its commands.\<close>

definition cleanup_volume :: "os \<Rightarrow> bridge \<Rightarrow> string \<Rightarrow> nat \<Rightarrow> cmd list \<Rightarrow> cmd list" where
  "cleanup_volume os b volume_id slot tr =
     (if is_local_hypervisor b
      then snd (run_status os (free_cmd volume_id) (snd (run_status os (delete_cmd b slot) tr)))
      else tr)"

text \<open>Size in MiB: rounded up, plus a tenth.\<close>

definition size_mb :: "u64 \<Rightarrow> u64" where
  "size_mb blob_size =
     (let s = blob_size div (1024 * 1024) + 1 in s + s div 10)"

definition route_to_kp14 ::
  "os \<Rightarrow> nat option \<Rightarrow> u64 option \<Rightarrow> bridge \<Rightarrow> string \<Rightarrow> cmd list \<Rightarrow> (bridge_error + string \<times> nat) \<times> cmd list" where
  "route_to_kp14 os now blob_len b blob_path tr =
     (case blob_len of
        None \<Rightarrow> (Inl BlobMissing, tr)
      | Some n \<Rightarrow>
          (case allocate_storage os now b (size_mb n) tr of
             (Inl e, tr1) \<Rightarrow> (Inl e, tr1)
           | (Inr volume_id, tr1) \<Rightarrow>
               (case write_blob_to_volume os blob_len b blob_path volume_id tr1 of
                  (Inl e, tr2) \<Rightarrow> (Inl e, tr2)
                | (Inr u, tr2) \<Rightarrow>
                    (case hotplug_to_vm os b volume_id tr2 of
                       (Inl e, tr3) \<Rightarrow> (Inl e, tr3)
                     | (Inr slot, tr3) \<Rightarrow> (Inr (volume_id, slot), tr3)))))"

section \<open>Lemmas\<close>

lemma size_mb_enough: "unat n < 2 ^ 63 \<Longrightarrow> unat n \<le> unat (size_mb n) * 1048576"
proof -
  assume n: "unat n < 2 ^ 63"
  let ?s = "n div 1048576 + 1"
  have d: "unat (n div 1048576) = unat n div 1048576" by (simp add: unat_div)
  have s: "unat ?s = unat n div 1048576 + 1" using n by (subst unat_word_ariths) (simp add: d)
  have t: "unat (?s div 10) = unat ?s div 10" by (simp add: unat_div)
  have "unat (?s + ?s div 10) = unat ?s + unat ?s div 10"
    using n s t by (subst unat_word_ariths) simp
  moreover have "unat n \<le> (unat n div 1048576 + 1) * 1048576" by (simp add: less_imp_le dividend_less_times_div)
  ultimately show ?thesis using s by (simp add: size_mb_def Let_def add_mult_distrib)
qed

lemma slot_of_scsi_line:
  assumes "n < 2 ^ 32" and "rest = [] \<or> \<not> is_ascii_digit (hd rest)"
  shows "slot_of_line (''scsi'' @ show_nat n @ rest) = Some n"
proof -
  have "is_ascii_digit (digit_char d)" if "d < 10" for d
    using of_char_digit [of d] that by (simp add: is_ascii_digit_def)
  then have "\<forall>c \<in> set (show_nat n). is_ascii_digit c"
    using digits_bound [of 10 _ n] by (auto simp: show_nat_def)
  then have "takeWhile is_ascii_digit (show_nat n @ rest) = show_nat n"
    using assms(2) by (cases rest) (auto simp: takeWhile_append)
  then show ?thesis
    using parse_unsigned_show [of 10 n "2 ^ 32"] assms(1)
    by (simp add: slot_of_line_def starts_with_def show_nat_def)
qed

end
