(* ===== verification/Memory_Carver.thy ===== *)
theory Memory_Carver
  imports Rust_Std C_Layout
begin

text \<open>
  The memory carver of \<open>src/memory_carver.rs\<close>: parsing of \<open>/proc/[pid]/maps\<close>, reading of a
  stopped process's memory, capture of its register state, and packaging of both into a
  core dump blob. What the files under \<open>/proc\<close> contain, the clock and the outcomes of
  writes are parameters.
\<close>

section \<open>Virtual memory areas\<close>

record vma_entry =
  v_start :: u64
  v_end :: u64
  v_perms :: string
  v_offset :: u64
  v_dev :: string
  v_inode :: u64
  v_pathname :: string

definition vma_size :: "vma_entry \<Rightarrow> u64" where "vma_size v = v_end v - v_start v"

definition is_executable :: "vma_entry \<Rightarrow> bool" where
  "is_executable v \<longleftrightarrow> CHR ''x'' \<in> set (v_perms v)"

definition is_readable :: "vma_entry \<Rightarrow> bool" where
  "is_readable v \<longleftrightarrow> CHR ''r'' \<in> set (v_perms v)"

definition is_writable :: "vma_entry \<Rightarrow> bool" where
  "is_writable v \<longleftrightarrow> CHR ''w'' \<in> set (v_perms v)"

section \<open>Parsing the maps file\<close>

datatype carve_error =
    MapsUnreadable | MalformedLine string | MalformedRange string
  | BadStart | BadEnd | BadOffset
  | MemUnopenable | SeekFailed u64
  | ClockError | CreateFailed | WriteFailed nat | StatFailed

definition parse_hex64 :: "string \<Rightarrow> u64 option" where
  "parse_hex64 s = map_option of_nat (parse_unsigned 16 (2 ^ 64) (trim_0x s))"

definition parse_dec64 :: "string \<Rightarrow> u64" where
  "parse_dec64 s = (case parse_unsigned 10 (2 ^ 64) s of None \<Rightarrow> 0 | Some n \<Rightarrow> of_nat n)"

definition parse_maps_line :: "string \<Rightarrow> carve_error + vma_entry" where
  "parse_maps_line line =
     (let parts = splitn 6 (CHR '' '') line
      in if length parts < 5 then Inl (MalformedLine line)
         else
           (let addr_range = split_on (CHR ''-'') (parts ! 0)
            in if length addr_range \<noteq> 2 then Inl (MalformedRange (parts ! 0))
               else (case parse_hex64 (addr_range ! 0) of
                 None \<Rightarrow> Inl BadStart
               | Some start \<Rightarrow> (case parse_hex64 (addr_range ! 1) of
                   None \<Rightarrow> Inl BadEnd
                 | Some end_addr \<Rightarrow> (case parse_hex64 (parts ! 2) of
                     None \<Rightarrow> Inl BadOffset
                   | Some off \<Rightarrow>
                       Inr \<lparr>v_start = start, v_end = end_addr, v_perms = parts ! 1, v_offset = off,
                         v_dev = parts ! 3, v_inode = parse_dec64 (parts ! 4),
                         v_pathname = (if length parts = 6 then trim (parts ! 5) else [])\<rparr>)))))"

text \<open>The first malformed line fails the whole parse.\<close>

fun parse_lines :: "string list \<Rightarrow> carve_error + vma_entry list" where
  "parse_lines [] = Inr []"
| "parse_lines (l # ls) =
     (case parse_maps_line l of
        Inl e \<Rightarrow> Inl e
      | Inr v \<Rightarrow> (case parse_lines ls of Inl e \<Rightarrow> Inl e | Inr vs \<Rightarrow> Inr (v # vs)))"

text \<open>What the files of a process hold; \<open>None\<close> where opening or reading fails.\<close>

record proc_fs =
  maps_file :: "u32 \<Rightarrow> string option"
  mem_opens :: "u32 \<Rightarrow> bool"
  mem_seek :: "u32 \<Rightarrow> u64 \<Rightarrow> bool"
  mem_read :: "u32 \<Rightarrow> u64 \<Rightarrow> nat \<Rightarrow> byte list option"
  syscall_file :: "u32 \<Rightarrow> string option"
  status_file :: "u32 \<Rightarrow> string option"

text \<open>A read returns no more bytes than the buffer holds.\<close>

definition wf_proc :: "proc_fs \<Rightarrow> bool" where
  "wf_proc p \<longleftrightarrow> (\<forall>pid a n bs. mem_read p pid a n = Some bs \<longrightarrow> length bs \<le> n)"

definition parse_vma_layout :: "proc_fs \<Rightarrow> u32 \<Rightarrow> carve_error + vma_entry list" where
  "parse_vma_layout p pid =
     (case maps_file p pid of None \<Rightarrow> Inl MapsUnreadable | Some content \<Rightarrow> parse_lines (lines content))"

section \<open>Carving\<close>

definition MAX_REGION :: nat where "MAX_REGION = 64 * 1024 * 1024"

type_synonym carved = "(vma_entry \<times> byte list) list"

definition skipped :: "vma_entry \<Rightarrow> bool" where
  "skipped v \<longleftrightarrow> \<not> is_readable v \<or> starts_with (v_pathname v) ''[vvar'' \<or>
     starts_with (v_pathname v) ''[vsyscall''"

text \<open>The loop over the areas: a failed seek ends it with an error, a failed read skips the area.\<close>

fun carve_loop :: "proc_fs \<Rightarrow> u32 \<Rightarrow> vma_entry list \<Rightarrow> carve_error + carved" where
  "carve_loop p pid [] = Inr []"
| "carve_loop p pid (v # vs) =
     (if skipped v then carve_loop p pid vs
      else if \<not> mem_seek p pid (v_start v) then Inl (SeekFailed (v_start v))
      else (case carve_loop p pid vs of
          Inl e \<Rightarrow> Inl e
        | Inr rest \<Rightarrow>
            (case mem_read p pid (v_start v) (min (unat (vma_size v)) MAX_REGION) of
               None \<Rightarrow> Inr rest
             | Some bs \<Rightarrow> Inr ((v, bs) # rest))))"

definition carve_memory :: "proc_fs \<Rightarrow> u32 \<Rightarrow> vma_entry list \<Rightarrow> carve_error + carved" where
  "carve_memory p pid vs = (if \<not> mem_opens p pid then Inl MemUnopenable else carve_loop p pid vs)"

definition capture_register_state :: "proc_fs \<Rightarrow> u32 \<Rightarrow> string" where
  "capture_register_state p pid =
     (let get = (\<lambda>x. case x of None \<Rightarrow> [] | Some s \<Rightarrow> s)
      in ''=== SYSCALL ===\<newline>'' @ get (syscall_file p pid) @ ''\<newline>'' @
         ''=== STATUS ===\<newline>'' @ get (status_file p pid) @ ''\<newline>'')"

section \<open>The core dump blob\<close>

text \<open>The packed structs of the format.\<close>

definition CoreDumpHeader :: ctype where
  "CoreDumpHeader = CPacked [
     Fld ''magic'' (CArr 8 (CInt 1)),
     Fld ''version'' (CInt 4),
     Fld ''pid'' (CInt 4),
     Fld ''timestamp'' (CInt 8),
     Fld ''vma_count'' (CInt 4),
     Fld ''total_payload_size'' (CInt 8),
     Fld ''checksum'' (CInt 4)]"

definition CoreDumpVmaRecord :: ctype where
  "CoreDumpVmaRecord = CPacked [
     Fld ''start'' (CInt 8),
     Fld ''end'' (CInt 8),
     Fld ''perms_flags'' (CInt 1),
     Fld ''offset'' (CInt 8),
     Fld ''data_len'' (CInt 8)]"

lemma lay_CoreDumpHeader [layout_simps]: "sizeof CoreDumpHeader = 40" "wf_ty CoreDumpHeader"
  by (simp_all add: CoreDumpHeader_def layout_eval)

lemma lay_CoreDumpVmaRecord [layout_simps]: "sizeof CoreDumpVmaRecord = 33" "wf_ty CoreDumpVmaRecord"
  by (simp_all add: CoreDumpVmaRecord_def layout_eval)

text \<open>The FNV-1a hash over all carved bytes.\<close>

definition fnv_step :: "u32 \<Rightarrow> byte \<Rightarrow> u32" where
  "fnv_step hash b = (hash XOR ucast b) * 0x01000193"

definition compute_checksum :: "carved \<Rightarrow> u32" where
  "compute_checksum pages = foldl (\<lambda>h page. foldl fnv_step h (snd page)) 0x811c9dc5 pages"

definition magic :: "byte list" where "magic = cbytes ''ALPHVDR'' @ [0]"

text \<open>The bytes of a header, of an area's flags and record, and of an area with its data.\<close>

definition header_bytes :: "u32 \<Rightarrow> u64 \<Rightarrow> u32 \<Rightarrow> u64 \<Rightarrow> u32 \<Rightarrow> byte list" where
  "header_bytes pid ts count payload checksum =
     magic @ u32_bytes 1 @ u32_bytes pid @ u64_bytes ts @ u32_bytes count @ u64_bytes payload @
     u32_bytes checksum"

definition perms_flags :: "vma_entry \<Rightarrow> byte" where
  "perms_flags v =
     (let flags = 0;
          flags = (if is_readable v then flags OR 1 else flags);
          flags = (if is_writable v then flags OR 2 else flags);
          flags = (if is_executable v then flags OR 4 else flags)
      in flags)"

definition record_bytes :: "vma_entry \<Rightarrow> byte list \<Rightarrow> byte list" where
  "record_bytes v data =
     u64_bytes (v_start v) @ u64_bytes (v_end v) @ [perms_flags v] @ u64_bytes (v_offset v) @
     u64_bytes (of_nat (length data))"

text \<open>The writes for one area, then all writes of the blob in order.\<close>

definition area_chunks :: "vma_entry \<times> byte list \<Rightarrow> byte list list" where
  "area_chunks page =
     (case page of (v, data) \<Rightarrow>
        [record_bytes v data, u16_bytes (of_nat (length (v_pathname v))), cbytes (v_pathname v), data])"

definition payload_size :: "carved \<Rightarrow> u64" where
  "payload_size pages = sum_list (map (\<lambda>page. of_nat (length (snd page))) pages)"

definition blob_chunks :: "u32 \<Rightarrow> u64 \<Rightarrow> carved \<Rightarrow> string \<Rightarrow> byte list list" where
  "blob_chunks pid ts pages regs =
     [header_bytes pid ts (of_nat (length pages)) (payload_size pages) (compute_checksum pages),
      u64_bytes (of_nat (length regs)), cbytes regs] @ concat (map area_chunks pages)"

definition blob_bytes :: "u32 \<Rightarrow> u64 \<Rightarrow> carved \<Rightarrow> string \<Rightarrow> byte list" where
  "blob_bytes pid ts pages regs = concat (blob_chunks pid ts pages regs)"

text \<open>
  Writing: the n-th write may fail and leave a part of its chunk in the file; then the
  function returns an error.
\<close>

record blob_env =
  blob_clock :: "u64 option"
  blob_creates :: bool
  blob_write_fails :: "nat \<Rightarrow> nat option"
  blob_stats :: bool

fun write_chunks :: "(nat \<Rightarrow> nat option) \<Rightarrow> nat \<Rightarrow> byte list list \<Rightarrow> (carve_error + unit) \<times> byte list" where
  "write_chunks fails n [] = (Inr (), [])"
| "write_chunks fails n (c # cs) =
     (case fails n of
        Some k \<Rightarrow> (Inl (WriteFailed n), take k c)
      | None \<Rightarrow> (case write_chunks fails (Suc n) cs of (r, bs) \<Rightarrow> (r, c @ bs)))"

definition blob_name :: "u32 \<Rightarrow> u64 \<Rightarrow> string" where
  "blob_name pid ts =
     ''/tmp/alphvdr/carved/core_dump_'' @ show_i32 pid @ ''_'' @ show_nat (unat ts) @ ''.bin''"

text \<open>The result and the file written, if any, as path and content.\<close>

definition package_core_dump ::
  "blob_env \<Rightarrow> u32 \<Rightarrow> carved \<Rightarrow> string \<Rightarrow> (carve_error + string) \<times> (string \<times> byte list) option" where
  "package_core_dump env pid pages regs =
     (case blob_clock env of
        None \<Rightarrow> (Inl ClockError, None)
      | Some ts \<Rightarrow>
          (if \<not> blob_creates env then (Inl CreateFailed, None)
           else (case write_chunks (blob_write_fails env) 0 (blob_chunks pid ts pages regs) of
               (Inl e, bs) \<Rightarrow> (Inl e, Some (blob_name pid ts, bs))
             | (Inr u, bs) \<Rightarrow>
                 (if blob_stats env then Inr (blob_name pid ts) else Inl StatFailed,
                  Some (blob_name pid ts, bs)))))"

definition carve_and_package ::
  "proc_fs \<Rightarrow> blob_env \<Rightarrow> u32 \<Rightarrow> (carve_error + string) \<times> (string \<times> byte list) option" where
  "carve_and_package p env pid =
     (case parse_vma_layout p pid of
        Inl e \<Rightarrow> (Inl e, None)
      | Inr vmas \<Rightarrow>
          (case carve_memory p pid vmas of
             Inl e \<Rightarrow> (Inl e, None)
           | Inr pages \<Rightarrow> package_core_dump env pid pages (capture_register_state p pid)))"

end
