(* ===== verification/Yara.thy ===== *)
theory Yara
  imports Memory_Carver
begin

text \<open>
  The scanner of \<open>src/yara.rs\<close>: the table of byte patterns, the search for one, the entropy
  heuristic and the scan of a process's memory. Floating-point operations are parameters.
\<close>

section \<open>Substring search\<close>

text \<open>The loop over the positions \<open>i, ..., i + n - 1\<close>.\<close>

fun find_from :: "nat \<Rightarrow> nat \<Rightarrow> byte list \<Rightarrow> byte list \<Rightarrow> nat option" where
  "find_from i 0 haystack needle = None"
| "find_from i (Suc n) haystack needle =
     (if slice i (length needle) haystack = needle then Some i
      else find_from (Suc i) n haystack needle)"

definition find_subslice :: "byte list \<Rightarrow> byte list \<Rightarrow> nat option" where
  "find_subslice haystack needle =
     (if needle = [] \<or> length haystack < length needle then None
      else find_from 0 (length haystack - length needle + 1) haystack needle)"

lemma find_from_iff:
  "find_from i n h p = Some k \<longleftrightarrow>
     i \<le> k \<and> k < i + n \<and> slice k (length p) h = p \<and> (\<forall>j. i \<le> j \<and> j < k \<longrightarrow> slice j (length p) h \<noteq> p)"
proof (induction i n h p rule: find_from.induct)
  case (2 i n h p)
  show ?case
  proof (cases "slice i (length p) h = p")
    case True
    then have "slice j (length p) h \<noteq> p \<Longrightarrow> j \<noteq> i" for j by auto
    with True show ?thesis by (auto simp: le_less)
  next
    case False
    with 2 have "find_from i (Suc n) h p = Some k \<longleftrightarrow> Suc i \<le> k \<and> k < Suc i + n \<and>
        slice k (length p) h = p \<and> (\<forall>j. Suc i \<le> j \<and> j < k \<longrightarrow> slice j (length p) h \<noteq> p)"
      by simp
    also have "\<dots> \<longleftrightarrow> i \<le> k \<and> k < i + Suc n \<and> slice k (length p) h = p \<and>
        (\<forall>j. i \<le> j \<and> j < k \<longrightarrow> slice j (length p) h \<noteq> p)"
      using False by (metis Suc_leD Suc_leI add_Suc add_Suc_right le_neq_implies_less)
    finally show ?thesis .
  qed
qed simp

lemma find_subslice_iff:
  "find_subslice h p = Some k \<longleftrightarrow> p \<noteq> [] \<and> k + length p \<le> length h \<and> slice k (length p) h = p \<and>
     (\<forall>j < k. slice j (length p) h \<noteq> p)"
  by (auto simp: find_subslice_def find_from_iff simp del: find_from.simps)

lemma slice_contains: "k + length p \<le> length h \<Longrightarrow> slice k (length p) h = p \<Longrightarrow> contains h p"
proof -
  assume "k + length p \<le> length h" "slice k (length p) h = p"
  then have "h = take k h @ p @ drop (k + length p) h"
    unfolding slice_def by (metis add.commute append_take_drop_id drop_drop)
  then show "contains h p" unfolding contains_iff by blast
qed

text \<open>A pattern is found exactly when it occurs.\<close>

lemma find_subslice_contains: "p \<noteq> [] \<Longrightarrow> (\<exists>k. find_subslice h p = Some k) \<longleftrightarrow> contains h p"
proof
  assume "\<exists>k. find_subslice h p = Some k"
  then show "contains h p" using slice_contains by (auto simp: find_subslice_iff)
next
  assume p: "p \<noteq> []" and "contains h p"
  then obtain a b where h: "h = a @ p @ b" by (auto simp: contains_iff)
  let ?k = "LEAST k. slice k (length p) h = p"
  have at: "slice (length a) (length p) h = p" by (simp add: h slice_def)
  then have "slice ?k (length p) h = p" by (rule LeastI)
  moreover have "?k \<le> length a" by (rule Least_le) (rule at)
  then have "?k + length p \<le> length h" using h by simp
  moreover have "\<forall>j < ?k. slice j (length p) h \<noteq> p" using not_less_Least by blast
  ultimately have "find_subslice h p = Some ?k" unfolding find_subslice_iff using p by blast
  then show "\<exists>k. find_subslice h p = Some k" by blast
qed

section \<open>Signatures\<close>

definition signatures :: "(string \<times> byte list) list" where
  "signatures =
     [(''x86_nop_sled'', replicate 8 0x90),
      (''x86_syscall_execve'', [0x48, 0xc7, 0xc0, 0x3b, 0x00, 0x00, 0x00, 0x0f, 0x05]),
      (''http_post_beacon'', cbytes ''POST /beacon''),
      (''http_get_checkin'', cbytes ''GET /checkin''),
      (''http_c2_gate'', cbytes ''GET /gate.php''),
      (''aes_sbox_partial'', [0x63, 0x7c, 0x77, 0x7b, 0xf2, 0x6b, 0x6f, 0xc5]),
      (''rc4_init_pattern'', cbytes ''RC4 Key''),
      (''apt41_keyplug_rc4_stage'', [0x0d, 0x20, 0x61, 0x0a]),
      (''apt41_keyplug_xor_auth'', [0xdd, 0x79, 0x19, 0xae]),
      (''apt41_keyplug_sled'', [0xeb, 0xfe, 0xeb, 0xfe, 0xeb, 0xfe, 0xeb, 0xfe]),
      (''reverse_shell_sh'', cbytes ''/bin/sh''),
      (''reverse_shell_bash'', cbytes ''/bin/bash -i''),
      (''ransomware_extension'', cbytes ''.encrypted''),
      (''ransomware_note'', cbytes ''YOUR FILES ARE ENCRYPTED''),
      (''cryptominer_pool'', cbytes ''stratum+tcp://''),
      (''cryptominer_xmr'', cbytes ''monero''),
      (''tmp_exec_path'', cbytes ''/tmp/.X11''),
      (''dev_shm_exec'', cbytes ''/dev/shm/.''),
      (''io_uring_setup'', cbytes ''io_uring_setup''),
      (''io_uring_enter'', cbytes ''io_uring_enter''),
      (''liburing_init'', cbytes ''io_uring_queue_init'')]"

text \<open>The loop over the table, with the slice of context it prints, which could panic.\<close>

fun scan_table :: "byte list \<Rightarrow> (string \<times> byte list) list \<Rightarrow> ('e, string option) outcome" where
  "scan_table data [] = Done None"
| "scan_table data ((name, pattern) # rest) =
     (if length pattern \<le> length data then
        (case find_subslice data pattern of
           Some pos \<Rightarrow>
             (let ctx_start = pos - 16;
                  ctx_end = min (pos + length pattern + 16) (length data)
              in if ctx_start \<le> ctx_end \<and> ctx_end \<le> length data then Done (Some name) else Panic)
         | None \<Rightarrow> scan_table data rest)
      else scan_table data rest)"

lemma scan_table_spec:
  "list_all (\<lambda>s. snd s \<noteq> []) sigs \<Longrightarrow>
     scan_table data sigs = Done (map_option fst (find (\<lambda>s. contains data (snd s)) sigs))"
proof (induction data sigs rule: scan_table.induct)
  case (2 data name pattern rest)
  show ?case
  proof (cases "contains data pattern")
    case True
    then obtain pos where pos: "find_subslice data pattern = Some pos"
      using 2(3) find_subslice_contains [of pattern data] by auto
    then have "pos + length pattern \<le> length data" by (simp add: find_subslice_iff)
    with True pos show ?thesis by (auto simp: Let_def)
  next
    case False
    then have "find_subslice data pattern = None"
      using 2(3) find_subslice_contains [of pattern data] by (cases "find_subslice data pattern") auto
    with 2 False show ?thesis by auto
  qed
qed simp

section \<open>Entropy\<close>

text \<open>The floating-point operations used: from a count, arithmetic, the logarithm, comparison.\<close>

record 'f f64_ops =
  f_of :: "nat \<Rightarrow> 'f"
  f_div :: "'f \<Rightarrow> 'f \<Rightarrow> 'f"
  f_mul :: "'f \<Rightarrow> 'f \<Rightarrow> 'f"
  f_sub :: "'f \<Rightarrow> 'f \<Rightarrow> 'f"
  f_log2 :: "'f \<Rightarrow> 'f"
  f_zero :: 'f
  f_exceeds_7_5 :: "'f \<Rightarrow> bool"

definition frequencies :: "byte list \<Rightarrow> nat list" where
  "frequencies data =
     foldl (\<lambda>freq b. freq[unat b := Suc (freq ! unat b)]) (replicate 256 0) data"

definition calculate_shannon_entropy :: "'f f64_ops \<Rightarrow> byte list \<Rightarrow> 'f" where
  "calculate_shannon_entropy fo data =
     (if data = [] then f_zero fo
      else
        (let len = f_of fo (length data)
         in foldl (\<lambda>entropy count.
              if 0 < count then
                (let p = f_div fo (f_of fo count) len
                 in f_sub fo entropy (f_mul fo p (f_log2 fo p)))
              else entropy) (f_zero fo) (frequencies data)))"

section \<open>Scans\<close>

definition scan_region_for_signatures ::
  "'f f64_ops \<Rightarrow> byte list \<Rightarrow> string \<Rightarrow> ('e, (string \<times> string) option) outcome" where
  "scan_region_for_signatures fo data region_name =
     (case scan_table data signatures of
        Panic \<Rightarrow> Panic | Bail e \<Rightarrow> Bail e
      | Done (Some name) \<Rightarrow> Done (Some (name, region_name))
      | Done None \<Rightarrow>
          (if 1024 < length data \<and> f_exceeds_7_5 fo (calculate_shannon_entropy fo data)
           then Done (Some (''high_entropy_packed'', region_name)) else Done None))"

definition scan_raw_buffer :: "'f f64_ops \<Rightarrow> byte list \<Rightarrow> ('e, (string \<times> string) option) outcome" where
  "scan_raw_buffer fo data = scan_region_for_signatures fo data ''raw_buffer''"

fun scan_pages :: "'f f64_ops \<Rightarrow> carved \<Rightarrow> ('e, (string \<times> string) option) outcome" where
  "scan_pages fo [] = Done None"
| "scan_pages fo ((v, data) # rest) =
     (case scan_region_for_signatures fo data (v_pathname v) of
        Panic \<Rightarrow> Panic | Bail e \<Rightarrow> Bail e
      | Done (Some m) \<Rightarrow> Done (Some m)
      | Done None \<Rightarrow> scan_pages fo rest)"

text \<open>Errors of parsing and carving count as no match.\<close>

definition scan_process_memory ::
  "'f f64_ops \<Rightarrow> proc_fs \<Rightarrow> u32 \<Rightarrow> ('e, (string \<times> string) option) outcome" where
  "scan_process_memory fo p pid =
     (case parse_vma_layout p pid of
        Inl e \<Rightarrow> Done None
      | Inr vmas \<Rightarrow>
          (case carve_memory p pid vmas of Inl e \<Rightarrow> Done None | Inr pages \<Rightarrow> scan_pages fo pages))"

lemma signatures_nonempty: "list_all (\<lambda>s. snd s \<noteq> []) signatures"
  by (simp add: signatures_def)

lemma frequencies_sum_step:
  "length freq = 256 \<Longrightarrow> sum_list (foldl (\<lambda>freq b. freq[unat (b :: byte) := Suc (freq ! unat b)]) freq data) =
     sum_list freq + length data"
proof (induction data arbitrary: freq)
  case (Cons b data)
  have "unat b < length freq" using Cons.prems unat_byte_less [of b] by simp
  then have "sum_list (freq[unat b := Suc (freq ! unat b)]) = Suc (sum_list freq)"
    by (simp add: sum_list_update elem_le_sum_list)
  with Cons show ?case by simp
qed simp

text \<open>The counts add up to the number of bytes.\<close>

lemma frequencies_sum: "sum_list (frequencies data) = length data"
  by (simp add: frequencies_def frequencies_sum_step sum_list_replicate)

end
