(* ===== verification/Agent_Main.thy ===== *)
theory Agent_Main
  imports Agent_Events Misp Sensor_System Proxmox_Bridge Yara
begin

text \<open>
  The agent's main function in \<open>src/main.rs\<close>: the registrations it makes in the sensor's maps
  at startup, the transfer of blocked addresses from the sidecar's channel to the packet
  filter, and the responder's handling of one order up to the routing of the dump.
\<close>

section \<open>Startup\<close>

text \<open>
  Outcomes of the startup's calls: map updates by map and key, directories and files by path,
  inode numbers by path (\<open>None\<close>: no metadata), and the process of a started decoy.
\<close>

record setup_env =
  process_id :: u32
  pid_update_ok :: bool
  honey_update_ok :: "u64 \<Rightarrow> bool"
  ghost_update_ok :: "u32 \<Rightarrow> bool"
  dir_creates :: "string \<Rightarrow> bool"
  write_succeeds :: "string \<Rightarrow> bool"
  inode_of :: "string \<Rightarrow> u64 option"
  decoy_process :: "string \<Rightarrow> u32 option"

datatype setup_error =
    RegisterFailed | DirFailed string | TrapWriteFailed string | MetadataFailed string | TrapUpdateFailed string

definition register_agent :: "setup_env \<Rightarrow> bpf_state \<Rightarrow> setup_error + bpf_state" where
  "register_agent se s =
     (if pid_update_ok se then Inr (s\<lparr>agent_pid := (agent_pid s)(0 \<mapsto> process_id se)\<rparr>)
      else Inl RegisterFailed)"

text \<open>A credential file that must be deployed: every failure aborts the startup.\<close>

definition deploy_honeytoken :: "setup_env \<Rightarrow> string \<Rightarrow> string \<Rightarrow> bpf_state \<Rightarrow> setup_error + bpf_state" where
  "deploy_honeytoken se dir path s =
     (if \<not> dir_creates se dir then Inl (DirFailed dir)
      else if \<not> write_succeeds se path then Inl (TrapWriteFailed path)
      else (case inode_of se path of
          None \<Rightarrow> Inl (MetadataFailed path)
        | Some ino \<Rightarrow>
            (if honey_update_ok se ino then Inr (s\<lparr>honeytokens := (honeytokens s)(ino \<mapsto> 1)\<rparr>)
             else Inl (TrapUpdateFailed path))))"

text \<open>A write trap that is set if possible: failures are ignored.\<close>

definition write_trap :: "setup_env \<Rightarrow> string \<Rightarrow> bpf_state \<Rightarrow> bpf_state" where
  "write_trap se path s =
     (case inode_of se path of
        None \<Rightarrow> s
      | Some ino \<Rightarrow> if honey_update_ok se ino then s\<lparr>honeytokens := (honeytokens s)(ino \<mapsto> 2)\<rparr> else s)"

definition spawn_decoy :: "setup_env \<Rightarrow> string \<Rightarrow> bpf_state \<Rightarrow> bpf_state" where
  "spawn_decoy se name s =
     (case decoy_process se name of
        None \<Rightarrow> s
      | Some p \<Rightarrow> if ghost_update_ok se p then s\<lparr>ghost_pids := (ghost_pids s)(p \<mapsto> 1)\<rparr> else s)"

definition aws_cred_path :: string where "aws_cred_path = ''/home/john/.aws/credentials''"

definition kube_cred_path :: string where "kube_cred_path = ''/home/john/.kube/config''"

definition ssh_keys_path :: string where "ssh_keys_path = ''/home/john/.ssh/authorized_keys''"

definition hw_devices :: "string list" where
  "hw_devices = [''/dev/mei0'', ''/dev/mem'', ''/dev/kmem'', ''/dev/port'']"

definition decoys :: "string list" where "decoys = [''keepassxc'', ''mongod'', ''mysqld'']"

definition agent_setup :: "setup_env \<Rightarrow> bpf_state \<Rightarrow> setup_error + bpf_state" where
  "agent_setup se s =
     (case register_agent se s of
        Inl e \<Rightarrow> Inl e
      | Inr s1 \<Rightarrow>
          (case deploy_honeytoken se ''/home/john/.aws'' aws_cred_path s1 of
             Inl e \<Rightarrow> Inl e
           | Inr s2 \<Rightarrow>
               (case deploy_honeytoken se ''/home/john/.kube'' kube_cred_path s2 of
                  Inl e \<Rightarrow> Inl e
                | Inr s3 \<Rightarrow>
                    (let s4 = write_trap se ssh_keys_path s3;
                         s5 = foldl (\<lambda>s dev. write_trap se dev s) s4 hw_devices
                     in Inr (foldl (\<lambda>s d. spawn_decoy se d s) s5 decoys)))))"

text \<open>
  The same calls one after the other. The sensor's programs are attached before the first, so
  they may run between any two: \<open>startup\<close> interleaves the remaining calls with runs of programs.
\<close>

type_synonym stage = "bpf_state \<Rightarrow> setup_error + bpf_state"

definition setup_stages :: "setup_env \<Rightarrow> stage list" where
  "setup_stages se =
     [register_agent se, deploy_honeytoken se ''/home/john/.aws'' aws_cred_path,
      deploy_honeytoken se ''/home/john/.kube'' kube_cred_path] @
     map (\<lambda>path s. Inr (write_trap se path s)) (ssh_keys_path # hw_devices) @
     map (\<lambda>d s. Inr (spawn_decoy se d s)) decoys"

fun run_stages :: "stage list \<Rightarrow> stage" where
  "run_stages [] s = Inr s"
| "run_stages (f # fs) s = (case f s of Inl e \<Rightarrow> Inl e | Inr t \<Rightarrow> run_stages fs t)"

inductive startup :: "stage list \<Rightarrow> bpf_state \<Rightarrow> bpf_state \<Rightarrow> bool" where
  startup_done: "startup [] s s"
| startup_program: "program_step s t \<Longrightarrow> startup fs t u \<Longrightarrow> startup fs s u"
| startup_stage: "f s = Inr t \<Longrightarrow> startup fs t u \<Longrightarrow> startup (f # fs) s u"

inductive_cases startup_doneE: "startup [] s u"

section \<open>Blocked addresses\<close>

text \<open>The drain loop: one update per received address; a failed update is reported and skipped.\<close>

fun drain_blocklist :: "(u32 \<Rightarrow> bool) \<Rightarrow> u32 list \<Rightarrow> bpf_state \<Rightarrow> bpf_state" where
  "drain_blocklist ok [] s = s"
| "drain_blocklist ok (c2_ip # ips) s =
     drain_blocklist ok ips
       (if ok c2_ip then s\<lparr>c2_blocklist := (c2_blocklist s)(u32_of (u32_bytes c2_ip) \<mapsto> 1)\<rparr> else s)"

section \<open>The research mode monitor\<close>

text \<open>One pass of the monitor: the flag becomes the presence of the lock file.\<close>

datatype shield_event = ShieldsDropped | ShieldsRaised

definition monitor_pass :: "bool \<Rightarrow> bool \<Rightarrow> bool \<times> shield_event list" where
  "monitor_pass was_active exists =
     (exists, if exists \<and> \<not> was_active then [ShieldsDropped]
              else if \<not> exists \<and> was_active then [ShieldsRaised] else [])"

section \<open>One order of the responder\<close>

record responder_env =
  kill_ok :: "u32 \<Rightarrow> bool"
  proc_files :: proc_fs
  dump_files :: blob_env
  blob_len_of :: "string \<Rightarrow> u64 option"
  route_clock :: "nat option"
  bridge_os :: os

datatype response =
    NotFrozen
  | CarvingFailed carve_error
  | Routed string string nat
  | RoutingFailed string bridge_error

text \<open>
  Freeze, carve, route; the analysis of the dump is started with its path in both outcomes
  of the routing. The result also has the commands run and the file written.
\<close>

definition respond :: "responder_env \<Rightarrow> u32 \<Rightarrow> cmd list \<Rightarrow> response \<times> cmd list" where
  "respond re pid tr =
     (if \<not> kill_ok re pid then (NotFrozen, tr)
      else (case fst (carve_and_package (proc_files re) (dump_files re) pid) of
          Inl e \<Rightarrow> (CarvingFailed e, tr)
        | Inr blob_path \<Rightarrow>
            (case route_to_kp14 (bridge_os re) (route_clock re) (blob_len_of re blob_path) default_kp14
                blob_path tr of
               (Inl e, tr1) \<Rightarrow> (RoutingFailed blob_path e, tr1)
             | (Inr (volume_id, scsi), tr1) \<Rightarrow> (Routed blob_path volume_id scsi, tr1))))"

section \<open>Lemmas\<close>

lemma write_trap_simps [simp]:
  "agent_pid (write_trap se path s) = agent_pid s" "ghost_pids (write_trap se path s) = ghost_pids s"
  by (simp_all add: write_trap_def split: option.split)

lemma spawn_decoy_simps [simp]:
  "agent_pid (spawn_decoy se d s) = agent_pid s" "honeytokens (spawn_decoy se d s) = honeytokens s"
  by (simp_all add: spawn_decoy_def split: option.split)

lemma write_trap_keeps: "inode_of se path \<noteq> Some ino \<Longrightarrow> honeytokens (write_trap se path s) ino = honeytokens s ino"
  by (auto simp: write_trap_def split: option.split)

lemma write_traps_keep:
  "ino \<notin> Option.these (inode_of se ` set paths) \<Longrightarrow>
     honeytokens (foldl (\<lambda>s p. write_trap se p s) s paths) ino = honeytokens s ino \<and>
     agent_pid (foldl (\<lambda>s p. write_trap se p s) s paths) = agent_pid s"
proof (induction paths arbitrary: s)
  case (Cons p ps)
  then have "inode_of se p \<noteq> Some ino" by (force simp: Option.these_def)
  moreover have "ino \<notin> Option.these (inode_of se ` set ps)"
    using Cons.prems by (auto simp: Option.these_def)
  ultimately show ?case using Cons.IH by (simp add: write_trap_keeps)
qed simp

lemma decoys_keep:
  "agent_pid (foldl (\<lambda>s d. spawn_decoy se d s) s ds) = agent_pid s \<and>
   honeytokens (foldl (\<lambda>s d. spawn_decoy se d s) s ds) = honeytokens s"
  by (induction ds arbitrary: s) simp_all

text \<open>Startup and draining only take steps the sensor's transition system has.\<close>

lemma reachable_write_trap: "reachable s \<Longrightarrow> reachable (write_trap se path s)"
  by (auto simp: write_trap_def intro: reach_step step_honeytoken split: option.split)

lemma reachable_spawn_decoy: "reachable s \<Longrightarrow> reachable (spawn_decoy se d s)"
  by (auto simp: spawn_decoy_def intro: reach_step step_ghost split: option.split)

lemma reachable_foldl: "(\<And>s x. reachable s \<Longrightarrow> reachable (f s x)) \<Longrightarrow> reachable s \<Longrightarrow> reachable (foldl f s xs)"
  by (induction xs arbitrary: s) auto

lemma reachable_register: "register_agent se s = Inr s' \<Longrightarrow> reachable s \<Longrightarrow> reachable s'"
  using reach_step [OF _ step_register] by (auto simp: register_agent_def split: if_splits)

lemma reachable_deploy: "deploy_honeytoken se dir path s = Inr s' \<Longrightarrow> reachable s \<Longrightarrow> reachable s'"
  using reach_step [OF _ step_honeytoken]
  by (auto simp: deploy_honeytoken_def split: if_splits option.splits)

lemma reachable_block: "reachable s \<Longrightarrow> reachable (s\<lparr>c2_blocklist := (c2_blocklist s)(a \<mapsto> 1)\<rparr>)"
  by (rule reach_step [OF _ step_block])

lemma setup_steps:
  assumes "agent_setup se s = Inr s'"
  obtains s1 s2 s3 where "register_agent se s = Inr s1"
    and "deploy_honeytoken se ''/home/john/.aws'' aws_cred_path s1 = Inr s2"
    and "deploy_honeytoken se ''/home/john/.kube'' kube_cred_path s2 = Inr s3"
    and "s' = foldl (\<lambda>s d. spawn_decoy se d s)
      (foldl (\<lambda>s dev. write_trap se dev s) s3 (ssh_keys_path # hw_devices)) decoys"
  using assms by (auto simp: agent_setup_def Let_def split: sum.splits)

lemma setup_keeps:
  assumes "agent_setup se s = Inr t"
  shows "events t = events s \<and> c2_blocklist t = c2_blocklist s \<and> signals t = signals s"
proof -
  have w: "events (write_trap se p u) = events u \<and> c2_blocklist (write_trap se p u) = c2_blocklist u \<and>
      signals (write_trap se p u) = signals u" for p u
    by (simp add: write_trap_def split: option.split)
  have d: "events (spawn_decoy se p u) = events u \<and> c2_blocklist (spawn_decoy se p u) = c2_blocklist u \<and>
      signals (spawn_decoy se p u) = signals u" for p u
    by (simp add: spawn_decoy_def split: option.split)
  have fold: "events (foldl f u xs) = events u \<and> c2_blocklist (foldl f u xs) = c2_blocklist u \<and>
      signals (foldl f u xs) = signals u"
    if "\<And>u x. events (f u x) = events u \<and> c2_blocklist (f u x) = c2_blocklist u \<and> signals (f u x) = signals u"
    for f :: "bpf_state \<Rightarrow> string \<Rightarrow> bpf_state" and u xs
    using that by (induction xs arbitrary: u) simp_all
  obtain s1 s2 s3 where "register_agent se s = Inr s1"
    and "deploy_honeytoken se ''/home/john/.aws'' aws_cred_path s1 = Inr s2"
    and "deploy_honeytoken se ''/home/john/.kube'' kube_cred_path s2 = Inr s3"
    and t: "t = foldl (\<lambda>s d. spawn_decoy se d s)
      (foldl (\<lambda>s dev. write_trap se dev s) s3 (ssh_keys_path # hw_devices)) decoys"
    using setup_steps [OF assms] by blast
  then have "events s3 = events s \<and> c2_blocklist s3 = c2_blocklist s \<and> signals s3 = signals s"
    by (auto simp: register_agent_def deploy_honeytoken_def split: if_splits option.splits)
  then show ?thesis
    unfolding t using fold [of "\<lambda>s d. spawn_decoy se d s"] fold [of "\<lambda>s p. write_trap se p s"] w d by simp
qed

lemma setup_registers:
  assumes "agent_setup se s = Inr t"
  shows "agent_pid t 0 = Some (process_id se)"
proof -
  obtain s1 s2 s3 where "register_agent se s = Inr s1"
    and "deploy_honeytoken se ''/home/john/.aws'' aws_cred_path s1 = Inr s2"
    and "deploy_honeytoken se ''/home/john/.kube'' kube_cred_path s2 = Inr s3"
    and t: "t = foldl (\<lambda>s d. spawn_decoy se d s)
      (foldl (\<lambda>s dev. write_trap se dev s) s3 (ssh_keys_path # hw_devices)) decoys"
    using setup_steps [OF assms] by blast
  then have "agent_pid s3 0 = Some (process_id se)"
    by (auto simp: register_agent_def deploy_honeytoken_def split: if_splits option.splits)
  moreover have "agent_pid (foldl (\<lambda>s p. write_trap se p s) u ps) = agent_pid u" for u ps
    by (induction ps arbitrary: u) simp_all
  ultimately show ?thesis using decoys_keep by (simp add: t del: foldl.simps)
qed

lemma reachable_setup: "agent_setup se s = Inr s' \<Longrightarrow> reachable s \<Longrightarrow> reachable s'"
  by (elim setup_steps)
    (auto simp del: foldl.simps intro!: reachable_foldl reachable_spawn_decoy reachable_write_trap
      dest: reachable_register reachable_deploy)

section \<open>The startup among running programs\<close>

text \<open>
  The contract of a call of the startup: it writes configuration maps only, and what it does
  depends on them only, so programs that run before it make no difference to it.
\<close>

locale map_stage =
  fixes f :: stage
  assumes same_maps: "config s = config s' \<Longrightarrow> rel_sum (=) (\<lambda>t t'. config t = config t') (f s) (f s')"
    and keeps_reachable: "f s = Inr t \<Longrightarrow> reachable s \<Longrightarrow> reachable t"
begin

lemma succeeds_too: "f s = Inr t \<Longrightarrow> config s = config s' \<Longrightarrow> \<exists>t'. f s' = Inr t' \<and> config t = config t'"
  using same_maps [of s s'] by (cases "f s'") auto

end

interpretation register: map_stage "register_agent se"
  by unfold_locales (auto simp: register_agent_def config_def intro: reach_step step_register split: if_splits)

interpretation deploy: map_stage "deploy_honeytoken se dir path"
  by unfold_locales
    (auto simp: deploy_honeytoken_def config_def reachable_deploy split: option.split if_splits)

interpretation trap_stage: map_stage "\<lambda>s. Inr (write_trap se path s)"
  by unfold_locales (auto simp: reachable_write_trap, auto simp: write_trap_def config_def split: option.split)

interpretation decoy_stage: map_stage "\<lambda>s. Inr (spawn_decoy se d s)"
  by unfold_locales (auto simp: reachable_spawn_decoy, auto simp: spawn_decoy_def config_def split: option.split)

lemma setup_map_stages: "f \<in> set (setup_stages se) \<Longrightarrow> map_stage f"
  by (auto simp: setup_stages_def intro: register.map_stage_axioms deploy.map_stage_axioms
      trap_stage.map_stage_axioms decoy_stage.map_stage_axioms)

lemma startup_config:
  "startup fs s t \<Longrightarrow> (\<And>f. f \<in> set fs \<Longrightarrow> map_stage f) \<Longrightarrow> config s = config s' \<Longrightarrow>
     \<exists>t'. run_stages fs s' = Inr t' \<and> config t = config t'"
proof (induction arbitrary: s' rule: startup.induct)
  case (startup_program s t fs u)
  then show ?case using program_step_config [of s t] by simp
next
  case (startup_stage f s t fs u)
  then obtain t' where "f s' = Inr t'" "config t = config t'"
    using map_stage.succeeds_too [of f s t s'] by auto
  with startup_stage show ?case by simp
qed simp

lemma startup_reachable:
  "startup fs s t \<Longrightarrow> (\<And>f. f \<in> set fs \<Longrightarrow> map_stage f) \<Longrightarrow> reachable s \<Longrightarrow> reachable t"
  by (induction rule: startup.induct) (auto intro: reach_step step_program map_stage.keeps_reachable)

lemma stages_startup: "run_stages fs s = Inr t \<Longrightarrow> startup fs s t"
  by (induction fs s rule: run_stages.induct) (auto intro: startup.intros split: sum.splits)

lemma run_stages_total: "run_stages (map (\<lambda>x s. Inr (g x s)) xs @ fs) s = run_stages fs (foldl (\<lambda>s x. g x s) s xs)"
  by (induction xs arbitrary: s) simp_all

lemma agent_setup_stages: "agent_setup se s = run_stages (setup_stages se) s"
  using run_stages_total [where g = "spawn_decoy se" and xs = decoys and fs = "[]"]
  by (simp add: agent_setup_def setup_stages_def run_stages_total Let_def del: map_append split: sum.split)

lemma setup_startup: "agent_setup se s = Inr t \<Longrightarrow> startup (setup_stages se) s t"
  by (simp add: agent_setup_stages stages_startup)

lemma startup_setup:
  assumes "startup (setup_stages se) s t"
  obtains t' where "agent_setup se s = Inr t'" and "config t = config t'"
proof -
  have "\<exists>t'. run_stages (setup_stages se) s = Inr t' \<and> config t = config t'"
    by (rule startup_config [OF assms _ refl]) (rule setup_map_stages)
  then show thesis using that by (auto simp: agent_setup_stages)
qed

lemma reachable_drain: "reachable s \<Longrightarrow> reachable (drain_blocklist ok ips s)"
proof (induction ok ips s rule: drain_blocklist.induct)
  case (2 ok c2_ip ips s)
  then show ?case using reachable_block by simp
qed simp

lemma drain_keeps:
  "c2_blocklist s a = Some 1 \<Longrightarrow> c2_blocklist (drain_blocklist ok ips s) a = Some 1"
  by (induction ok ips s rule: drain_blocklist.induct) auto

lemma drain_blocks:
  "a \<in> set ips \<Longrightarrow> ok a \<Longrightarrow> c2_blocklist (drain_blocklist ok ips s) a = Some 1"
proof (induction ok ips s rule: drain_blocklist.induct)
  case (2 ok c2_ip ips s)
  then show ?case by (cases "a = c2_ip \<and> a \<notin> set ips") (auto intro: drain_keeps)
qed simp

end
