(* ===== verification/Kp14_Blob.thy ===== *)
theory Kp14_Blob
  imports Memory_Carver
begin

text \<open>
  The reader of core dump blobs in \<open>src/kp14_suite.rs\<close>: parsing with its bounds checks on
  64-bit offsets that wrap, and what is done with the parsed regions. The round trip with
  the writer of \<open>Memory_Carver\<close> connects the two halves of the format.
\<close>

section \<open>Layouts and parsed values\<close>

definition kp14_CoreDumpHeader :: ctype where
  "kp14_CoreDumpHeader = CPacked [
     Fld ''magic'' (CArr 8 (CInt 1)),
     Fld ''version'' (CInt 4),
     Fld ''pid'' (CInt 4),
     Fld ''timestamp'' (CInt 8),
     Fld ''vma_count'' (CInt 4),
     Fld ''total_payload_size'' (CInt 8),
     Fld ''checksum'' (CInt 4)]"

definition kp14_CoreDumpVmaRecord :: ctype where
  "kp14_CoreDumpVmaRecord = CPacked [
     Fld ''start'' (CInt 8),
     Fld ''end'' (CInt 8),
     Fld ''perms_flags'' (CInt 1),
     Fld ''offset'' (CInt 8),
     Fld ''data_len'' (CInt 8)]"

record memory_region =
  r_start :: u64
  r_end :: u64
  r_perms_flags :: byte
  r_offset :: u64
  r_pathname :: string
  r_data :: "byte list"

record parsed_core_dump =
  d_pid :: u32
  d_timestamp :: u64
  d_vma_count :: u32
  d_checksum :: u32
  d_register_state :: string
  d_regions :: "memory_region list"

datatype blob_error =
    ReadError | TooSmall | BadMagic "byte list" | NoRegisterLength | TruncatedRegisters
  | MissingRecord nat | MissingPathLength nat | TruncatedPath nat | TruncatedData nat

section \<open>Parsing\<close>

text \<open>\<open>data.len()\<close>, and the check \<open>offset + n > data.len()\<close> with its wrapping sum.\<close>

definition len64 :: "byte list \<Rightarrow> u64" where "len64 data = of_nat (length data)"

definition past_end :: "u64 \<Rightarrow> u64 \<Rightarrow> byte list \<Rightarrow> bool" where
  "past_end i n data \<longleftrightarrow> len64 data < i + n"

text \<open>The check followed by the index: an error, a panic, or the bytes.\<close>

definition checked_take :: "'e \<Rightarrow> u64 \<Rightarrow> u64 \<Rightarrow> byte list \<Rightarrow> ('e, byte list) outcome" where
  "checked_take err i n data =
     (if past_end i n data then Bail err else range_index data i (i + n))"

text \<open>A member of a packed struct that lies at \<open>i\<close>.\<close>

definition packed_field :: "ctype \<Rightarrow> string \<Rightarrow> u64 \<Rightarrow> byte list \<Rightarrow> byte list" where
  "packed_field t nm i data =
     (case field_of t nm of Some (j, ft) \<Rightarrow> slice (unat i + j) (sizeof ft) data | None \<Rightarrow> [])"

definition parse_path :: "nat \<Rightarrow> u64 \<Rightarrow> u64 \<Rightarrow> byte list \<Rightarrow> (blob_error, string) outcome" where
  "parse_path k i n data =
     (if 0 < n then
        (case checked_take (TruncatedPath k) i n data of
           Done bs \<Rightarrow> Done (from_utf8_lossy bs) | Bail e \<Rightarrow> Bail e | Panic \<Rightarrow> Panic)
      else Done [])"

text \<open>One area at offset \<open>i\<close>: the region and the offset behind it.\<close>

definition parse_area :: "nat \<Rightarrow> u64 \<Rightarrow> byte list \<Rightarrow> (blob_error, memory_region \<times> u64) outcome" where
  "parse_area k i data =
     (if past_end i 33 data then Bail (MissingRecord k)
      else
        (let rec_field = (\<lambda>nm. packed_field kp14_CoreDumpVmaRecord nm i data);
             i1 = i + 33
         in case checked_take (MissingPathLength k) i1 2 data of
              Bail e \<Rightarrow> Bail e | Panic \<Rightarrow> Panic
            | Done lb \<Rightarrow>
                (let pathname_len = ucast (u16_of lb); i2 = i1 + 2
                 in case parse_path k i2 pathname_len data of
                      Bail e \<Rightarrow> Bail e | Panic \<Rightarrow> Panic
                    | Done pathname \<Rightarrow>
                        (let i3 = i2 + pathname_len; data_len = u64_of (rec_field ''data_len'')
                         in case checked_take (TruncatedData k) i3 data_len data of
                              Bail e \<Rightarrow> Bail e | Panic \<Rightarrow> Panic
                            | Done bs \<Rightarrow>
                                Done (\<lparr>r_start = u64_of (rec_field ''start''),
                                  r_end = u64_of (rec_field ''end''),
                                  r_perms_flags = hd (rec_field ''perms_flags''),
                                  r_offset = u64_of (rec_field ''offset''),
                                  r_pathname = pathname, r_data = bs\<rparr>, i3 + data_len)))))"

text \<open>The loop over the areas; \<open>n\<close> areas are still to come, \<open>k\<close> is the loop's counter.\<close>

fun parse_areas :: "nat \<Rightarrow> nat \<Rightarrow> u64 \<Rightarrow> byte list \<Rightarrow> (blob_error, memory_region list) outcome" where
  "parse_areas 0 k i data = Done []"
| "parse_areas (Suc n) k i data =
     (case parse_area k i data of
        Bail e \<Rightarrow> Bail e | Panic \<Rightarrow> Panic
      | Done (r, j) \<Rightarrow>
          (case parse_areas n (Suc k) j data of
             Bail e \<Rightarrow> Bail e | Panic \<Rightarrow> Panic | Done rs \<Rightarrow> Done (r # rs)))"

text \<open>The whole parse of a file that could be read (\<open>None\<close>: it could not).\<close>

definition from_file :: "byte list option \<Rightarrow> (blob_error, parsed_core_dump) outcome" where
  "from_file content =
     (case content of
        None \<Rightarrow> Bail ReadError
      | Some data \<Rightarrow>
          (if length data < sizeof kp14_CoreDumpHeader then Bail TooSmall
           else
             (let hdr = (\<lambda>nm. packed_field kp14_CoreDumpHeader nm 0 data)
              in if hdr ''magic'' \<noteq> magic then Bail (BadMagic (hdr ''magic''))
                 else (case checked_take NoRegisterLength 40 8 data of
                   Bail e \<Rightarrow> Bail e | Panic \<Rightarrow> Panic
                 | Done lb \<Rightarrow>
                     (let reg_len = u64_of lb
                      in case checked_take TruncatedRegisters 48 reg_len data of
                           Bail e \<Rightarrow> Bail e | Panic \<Rightarrow> Panic
                         | Done regs \<Rightarrow>
                             (case parse_areas (unat (u32_of (hdr ''vma_count''))) 0 (48 + reg_len) data of
                                Bail e \<Rightarrow> Bail e | Panic \<Rightarrow> Panic
                              | Done rs \<Rightarrow>
                                  Done \<lparr>d_pid = u32_of (hdr ''pid''), d_timestamp = u64_of (hdr ''timestamp''),
                                    d_vma_count = u32_of (hdr ''vma_count''),
                                    d_checksum = u32_of (hdr ''checksum''),
                                    d_register_state = from_utf8_lossy regs, d_regions = rs\<rparr>))))))"

section \<open>Layouts agree\<close>

lemma kp14_layouts: "kp14_CoreDumpHeader = CoreDumpHeader" "kp14_CoreDumpVmaRecord = CoreDumpVmaRecord"
  by (simp_all add: kp14_CoreDumpHeader_def CoreDumpHeader_def kp14_CoreDumpVmaRecord_def
      CoreDumpVmaRecord_def)

lemma blob_header_fields:
  "field_of CoreDumpHeader ''magic'' = Some (0, CArr 8 (CInt 1))"
  "field_of CoreDumpHeader ''pid'' = Some (12, CInt 4)"
  "field_of CoreDumpHeader ''timestamp'' = Some (16, CInt 8)"
  "field_of CoreDumpHeader ''vma_count'' = Some (24, CInt 4)"
  "field_of CoreDumpHeader ''checksum'' = Some (36, CInt 4)"
  by (simp_all add: CoreDumpHeader_def field_eval)

lemma blob_record_fields:
  "field_of CoreDumpVmaRecord ''start'' = Some (0, CInt 8)"
  "field_of CoreDumpVmaRecord ''end'' = Some (8, CInt 8)"
  "field_of CoreDumpVmaRecord ''perms_flags'' = Some (16, CInt 1)"
  "field_of CoreDumpVmaRecord ''offset'' = Some (17, CInt 8)"
  "field_of CoreDumpVmaRecord ''data_len'' = Some (25, CInt 8)"
  by (simp_all add: CoreDumpVmaRecord_def field_eval)

section \<open>Offsets that do not wrap\<close>

lemma unat_add_small: "unat i + unat n < 2 ^ 64 \<Longrightarrow> unat ((i :: u64) + n) = unat i + unat n"
  by (simp add: unat_word_ariths)

lemma unat_len64: "length data < 2 ^ 63 \<Longrightarrow> unat (len64 data) = length data"
  by (simp add: len64_def unat_of_nat_less)

lemma checked_take_in:
  assumes "unat i + unat n \<le> length data" and "length data < 2 ^ 63"
  shows "checked_take err i n data = Done (slice (unat i) (unat n) data)"
proof -
  have s: "unat (i + n) = unat i + unat n" using assms by (intro unat_add_small) simp
  have l: "unat (len64 data) = length data" using assms(2) by (rule unat_len64)
  show ?thesis
    using assms(1) by (simp add: checked_take_def past_end_def range_index_def word_less_nat_alt
        word_le_nat_alt s l)
qed

lemma past_end_in:
  assumes "unat i + unat n \<le> length data" and "length data < 2 ^ 63"
  shows "\<not> past_end i n data"
proof -
  have s: "unat (i + n) = unat i + unat n" using assms by (intro unat_add_small) simp
  have l: "unat (len64 data) = length data" using assms(2) by (rule unat_len64)
  show ?thesis using assms(1) by (simp add: past_end_def word_less_nat_alt s l)
qed

section \<open>Reading back what was written\<close>

text \<open>A string that is well-formed UTF-8 survives decoding.\<close>

definition utf8 :: "string \<Rightarrow> bool" where "utf8 s \<longleftrightarrow> from_utf8_lossy (cbytes s) = s"

definition area_ok :: "vma_entry \<times> byte list \<Rightarrow> bool" where
  "area_ok page \<longleftrightarrow> utf8 (v_pathname (fst page)) \<and> length (v_pathname (fst page)) < 65536"

definition region_of :: "vma_entry \<times> byte list \<Rightarrow> memory_region" where
  "region_of page = \<lparr>r_start = v_start (fst page), r_end = v_end (fst page),
     r_perms_flags = perms_flags (fst page), r_offset = v_offset (fst page),
     r_pathname = v_pathname (fst page), r_data = snd page\<rparr>"

lemma unat_of_nat_64: "n < 2 ^ 63 \<Longrightarrow> unat (of_nat n :: u64) = n"
  by (simp add: unat_of_nat_less)

lemma length_area: "length (concat (area_chunks (v, bs))) = 35 + length (v_pathname v) + length bs"
  by (simp add: area_chunks_def record_bytes_def)

lemma slice_behind: "slice (length pre + j) n (pre @ rest) = slice j n rest"
  by (simp add: slice_def)

lemma area_fields:
  assumes "data = pre @ concat (area_chunks (v, bs)) @ post" and "length data < 2 ^ 63"
  defines "rec_field nm \<equiv> packed_field kp14_CoreDumpVmaRecord nm (of_nat (length pre)) data"
  shows "u64_of (rec_field ''start'') = v_start v" and "u64_of (rec_field ''end'') = v_end v"
    and "hd (rec_field ''perms_flags'') = perms_flags v" and "u64_of (rec_field ''offset'') = v_offset v"
    and "u64_of (rec_field ''data_len'') = of_nat (length bs)"
proof -
  have "unat (of_nat (length pre) :: u64) = length pre" using assms(1,2) by (intro unat_of_nat_64) simp
  then have "rec_field nm = (case field_of CoreDumpVmaRecord nm of
      Some (j, ft) \<Rightarrow> slice j (sizeof ft) (concat (area_chunks (v, bs)) @ post) | None \<Rightarrow> [])" for nm
    unfolding rec_field_def packed_field_def kp14_layouts assms(1)
    by (simp only: slice_behind split: option.split)
  then show "u64_of (rec_field ''start'') = v_start v" and "u64_of (rec_field ''end'') = v_end v"
    and "hd (rec_field ''perms_flags'') = perms_flags v" and "u64_of (rec_field ''offset'') = v_offset v"
    and "u64_of (rec_field ''data_len'') = of_nat (length bs)"
    by (simp_all add: blob_record_fields area_chunks_def record_bytes_def slice_def)
qed

lemma checked_take_at:
  assumes "data = a @ b @ c" and "length data < 2 ^ 63" and "i = of_nat (length a)" and "n = of_nat (length b)"
  shows "checked_take err i n data = Done b"
proof -
  have u: "unat i = length a" "unat n = length b"
    using assms by (auto intro!: unat_of_nat_64)
  have "checked_take err i n data = Done (slice (unat i) (unat n) data)"
    using assms(1,2) u by (intro checked_take_in) simp_all
  then show ?thesis by (simp add: u assms(1) slice_def)
qed

lemma parse_area_at:
  assumes data: "data = pre @ concat (area_chunks (v, bs)) @ post" and len: "length data < 2 ^ 63"
    and ok: "area_ok (v, bs)"
  shows "parse_area k (of_nat (length pre)) data =
    Done (region_of (v, bs), of_nat (length (pre @ concat (area_chunks (v, bs)))))"
proof -
  let ?r = "record_bytes v bs" and ?L = "length (v_pathname v)" and ?i = "of_nat (length pre) :: u64"
  let ?lb = "u16_bytes (of_nat ?L)"
  have parts: "data = pre @ ?r @ ?lb @ cbytes (v_pathname v) @ bs @ post"
    by (simp add: data area_chunks_def)
  have r: "length ?r = 33" by (simp add: record_bytes_def)
  have L: "?L < 65536" using ok by (simp add: area_ok_def)
  then have "unat (of_nat ?L :: u16) = ?L" by (simp add: unat_of_nat_less)
  moreover have "ucast (of_nat ?L :: u16) = (of_nat (unat (of_nat ?L :: u16)) :: u64)"
    by (simp only: of_nat_unat)
  ultimately have plen: "ucast (u16_of ?lb) = (of_nat ?L :: u64)" by (simp only: u16_of_bytes)
  have here: "\<not> past_end ?i 33 data"
    using parts len r by (intro past_end_in) (simp_all add: unat_of_nat_64)
  have t1: "checked_take (MissingPathLength k) (?i + 33) 2 data = Done ?lb"
    by (rule checked_take_at [of _ "pre @ ?r" _ "cbytes (v_pathname v) @ bs @ post"])
      (use parts len r in simp_all)
  have t2: "parse_path k (?i + 33 + 2) (of_nat ?L) data = Done (v_pathname v)"
  proof (cases "v_pathname v = []")
    case False
    then have "0 < (of_nat ?L :: u64)" using L by (simp add: word_less_nat_alt unat_of_nat_less)
    moreover have "checked_take (TruncatedPath k) (?i + 33 + 2) (of_nat ?L) data = Done (cbytes (v_pathname v))"
      by (rule checked_take_at [of _ "pre @ ?r @ ?lb" _ "bs @ post"]) (use parts len r in simp_all)
    ultimately show ?thesis using ok by (simp add: parse_path_def area_ok_def utf8_def)
  qed (simp add: parse_path_def)
  have t3: "checked_take (TruncatedData k) (?i + 33 + 2 + of_nat ?L) (of_nat (length bs)) data = Done bs"
    by (rule checked_take_at [of _ "pre @ ?r @ ?lb @ cbytes (v_pathname v)" _ "post"])
      (use parts len r in simp_all)
  have "parse_area k ?i data =
      Done (region_of (v, bs), ?i + 33 + 2 + of_nat ?L + of_nat (length bs))"
    by (simp only: parse_area_def Let_def here if_False t1 outcome.case plen t2 t3
        area_fields [OF data len] region_of_def fst_conv snd_conv)
  then show ?thesis by (simp add: length_area add.assoc)
qed

lemma parse_areas_at:
  assumes "data = pre @ concat (concat (map area_chunks pages)) @ post" and "length data < 2 ^ 63"
    and "list_all area_ok pages"
  shows "parse_areas (length pages) k (of_nat (length pre)) data = Done (map region_of pages)"
  using assms
proof (induction pages arbitrary: pre k)
  case (Cons page pages)
  obtain v bs where page: "page = (v, bs)" by (cases page)
  let ?a = "concat (area_chunks (v, bs))"
  have "parse_area k (of_nat (length pre)) data = Done (region_of page, of_nat (length (pre @ ?a)))"
    unfolding page using Cons.prems page
    by (intro parse_area_at [where post = "concat (concat (map area_chunks pages)) @ post"]) simp_all
  moreover have "parse_areas (length pages) (Suc k) (of_nat (length (pre @ ?a))) data = Done (map region_of pages)"
    using Cons.prems page by (intro Cons.IH) simp_all
  ultimately show ?case by simp
qed simp

definition dump_ok :: "u32 \<Rightarrow> u64 \<Rightarrow> carved \<Rightarrow> string \<Rightarrow> bool" where
  "dump_ok pid ts pages regs \<longleftrightarrow> list_all area_ok pages \<and> utf8 regs \<and> length pages < 2 ^ 32 \<and>
     length (blob_bytes pid ts pages regs) < 2 ^ 63"

text \<open>The reader accepts any blob with these bytes, whatever size and checksum its header claims.\<close>

definition blob_with :: "u32 \<Rightarrow> u64 \<Rightarrow> u64 \<Rightarrow> u32 \<Rightarrow> carved \<Rightarrow> string \<Rightarrow> byte list" where
  "blob_with pid ts payload checksum pages regs =
     header_bytes pid ts (of_nat (length pages)) payload checksum @ u64_bytes (of_nat (length regs)) @
     cbytes regs @ concat (concat (map area_chunks pages))"

lemma blob_bytes_with:
  "blob_bytes pid ts pages regs = blob_with pid ts (payload_size pages) (compute_checksum pages) pages regs"
  by (simp add: blob_bytes_def blob_chunks_def blob_with_def)

lemma length_blob_with:
  "length (blob_with pid ts payload checksum pages regs) = length (blob_bytes pid ts pages regs)"
  by (simp add: blob_bytes_with blob_with_def header_bytes_def)

lemma from_file_blob:
  assumes "dump_ok pid ts pages regs"
  shows "from_file (Some (blob_with pid ts payload checksum pages regs)) =
    Done \<lparr>d_pid = pid, d_timestamp = ts, d_vma_count = of_nat (length pages), d_checksum = checksum,
      d_register_state = regs, d_regions = map region_of pages\<rparr>"
proof -
  let ?d = "blob_with pid ts payload checksum pages regs"
  let ?h = "header_bytes pid ts (of_nat (length pages)) payload checksum"
  let ?lb = "u64_bytes (of_nat (length regs))"
  let ?areas = "concat (concat (map area_chunks pages))"
  have len: "length ?d < 2 ^ 63" using assms by (simp add: dump_ok_def length_blob_with)
  have h: "length ?h = 40" by (simp add: header_bytes_def magic_def)
  have d: "?d = ?h @ ?lb @ cbytes regs @ ?areas" by (simp add: blob_with_def)
  have fld: "packed_field kp14_CoreDumpHeader ''magic'' 0 ?d = magic"
    "u32_of (packed_field kp14_CoreDumpHeader ''pid'' 0 ?d) = pid"
    "u64_of (packed_field kp14_CoreDumpHeader ''timestamp'' 0 ?d) = ts"
    "u32_of (packed_field kp14_CoreDumpHeader ''vma_count'' 0 ?d) = of_nat (length pages)"
    "u32_of (packed_field kp14_CoreDumpHeader ''checksum'' 0 ?d) = checksum"
    unfolding packed_field_def kp14_layouts
    by (simp_all add: blob_header_fields slice_def blob_with_def header_bytes_def magic_def)
  have t1: "checked_take NoRegisterLength 40 8 ?d = Done ?lb"
    by (rule checked_take_at [of _ ?h _ "cbytes regs @ ?areas"]) (use d len h in simp_all)
  have t2: "checked_take TruncatedRegisters 48 (of_nat (length regs)) ?d = Done (cbytes regs)"
    by (rule checked_take_at [of _ "?h @ ?lb" _ ?areas]) (use d len h in simp_all)
  have n: "unat (of_nat (length pages) :: u32) = length pages"
    using assms by (intro unat_of_nat_less) (simp add: dump_ok_def)
  have "parse_areas (length pages) 0 (of_nat (length (?h @ ?lb @ cbytes regs))) ?d = Done (map region_of pages)"
    by (rule parse_areas_at [where post = "[]"]) (use d len assms in \<open>simp_all add: dump_ok_def\<close>)
  then have t3: "parse_areas (length pages) 0 (48 + of_nat (length regs)) ?d = Done (map region_of pages)"
    by (simp add: h)
  have big: "\<not> length ?d < sizeof kp14_CoreDumpHeader"
    using d h by (simp add: kp14_layouts lay_CoreDumpHeader)
  have regs: "from_utf8_lossy (cbytes regs) = regs" using assms by (simp add: dump_ok_def utf8_def)
  show ?thesis
    by (simp only: from_file_def option.case Let_def big if_False fld not_False_eq_True simp_thms
        t1 outcome.case u64_of_bytes t2 n t3 regs)
qed

section \<open>Uses of a parsed dump\<close>

definition region_executable :: "memory_region \<Rightarrow> bool" where
  "region_executable r \<longleftrightarrow> r_perms_flags r AND 4 \<noteq> 0"

definition region_writable :: "memory_region \<Rightarrow> bool" where
  "region_writable r \<longleftrightarrow> r_perms_flags r AND 2 \<noteq> 0"

definition region_readable :: "memory_region \<Rightarrow> bool" where
  "region_readable r \<longleftrightarrow> r_perms_flags r AND 1 \<noteq> 0"

text \<open>The files of the extraction, in order: one per executable region, then all regions in one.\<close>

fun executable_files :: "string \<Rightarrow> u32 \<Rightarrow> nat \<Rightarrow> memory_region list \<Rightarrow> (string \<times> byte list) list" where
  "executable_files dir pid i [] = []"
| "executable_files dir pid i (r # rs) =
     (if region_executable r
      then (dir @ ''/pid_'' @ show_i32 pid @ ''_region_'' @ show_nat i @ ''_'' @
              show_hex (unat (r_start r)) @ ''.bin'', r_data r) # executable_files dir pid (Suc i) rs
      else executable_files dir pid (Suc i) rs)"

definition extraction_files :: "string \<Rightarrow> parsed_core_dump \<Rightarrow> (string \<times> byte list) list" where
  "extraction_files dir d =
     executable_files dir (d_pid d) 0 (d_regions d) @
     [(dir @ ''/pid_'' @ show_i32 (d_pid d) @ ''_full_dump.bin'', concat (map r_data (d_regions d)))]"

datatype extract_error = DirError | ExtractWriteError nat

text \<open>The writes of the extraction up to the first that fails; the paths on success.\<close>

fun write_files :: "(nat \<Rightarrow> bool) \<Rightarrow> nat \<Rightarrow> (string \<times> byte list) list \<Rightarrow>
    (extract_error + string list) \<times> (string \<times> byte list) list" where
  "write_files ok n [] = (Inr [], [])"
| "write_files ok n (f # fs) =
     (if ok n
      then (case write_files ok (Suc n) fs of
          (Inl e, out) \<Rightarrow> (Inl e, f # out)
        | (Inr ps, out) \<Rightarrow> (Inr (fst f # ps), f # out))
      else (Inl (ExtractWriteError n), []))"

definition extract_executable_regions :: "bool \<Rightarrow> (nat \<Rightarrow> bool) \<Rightarrow> string \<Rightarrow> parsed_core_dump \<Rightarrow>
    (extract_error + string list) \<times> (string \<times> byte list) list" where
  "extract_executable_regions dir_ok ok dir d =
     (if \<not> dir_ok then (Inl DirError, []) else write_files ok 0 (extraction_files dir d))"

text \<open>Strings of printable characters, at least \<open>min_len\<close> long, region by region.\<close>

definition printable :: "byte \<Rightarrow> bool" where "printable b \<longleftrightarrow> 0x20 \<le> b \<and> b < 0x7F"

fun scan_strings :: "nat \<Rightarrow> byte list \<Rightarrow> byte list \<Rightarrow> byte list list" where
  "scan_strings m cur [] = (if m \<le> length cur then [cur] else [])"
| "scan_strings m cur (b # bs) =
     (if printable b then scan_strings m (cur @ [b]) bs
      else if m \<le> length cur then cur # scan_strings m [] bs
      else scan_strings m [] bs)"

definition extract_strings :: "nat \<Rightarrow> parsed_core_dump \<Rightarrow> string list" where
  "extract_strings m d = concat (map (\<lambda>r. map of_bytes (scan_strings m [] (r_data r))) (d_regions d))"

section \<open>Runs of printable bytes\<close>

text \<open>A maximal run of printable bytes.\<close>

definition max_run :: "byte list \<Rightarrow> byte list \<Rightarrow> bool" where
  "max_run xs s \<longleftrightarrow> s \<noteq> [] \<and> list_all printable s \<and>
     (\<exists>a c. xs = a @ s @ c \<and> (a = [] \<or> \<not> printable (last a)) \<and> (c = [] \<or> \<not> printable (hd c)))"

lemma max_run_left: "\<not> printable b \<Longrightarrow> max_run xs s \<Longrightarrow> max_run (xs @ b # ys) s"
proof -
  assume b: "\<not> printable b" and "max_run xs s"
  then obtain a c where *: "s \<noteq> []" "list_all printable s" "xs = a @ s @ c"
    "a = [] \<or> \<not> printable (last a)" "c = [] \<or> \<not> printable (hd c)" by (auto simp: max_run_def)
  have "xs @ b # ys = a @ s @ (c @ b # ys)" "c @ b # ys = [] \<or> \<not> printable (hd (c @ b # ys))"
    using * b by (auto simp: hd_append)
  with * show ?thesis unfolding max_run_def by blast
qed

lemma max_run_right: "\<not> printable b \<Longrightarrow> max_run ys s \<Longrightarrow> max_run (xs @ b # ys) s"
proof -
  assume b: "\<not> printable b" and "max_run ys s"
  then obtain a c where *: "s \<noteq> []" "list_all printable s" "ys = a @ s @ c"
    "a = [] \<or> \<not> printable (last a)" "c = [] \<or> \<not> printable (hd c)" by (auto simp: max_run_def)
  have "xs @ b # ys = (xs @ b # a) @ s @ c" "xs @ b # a = [] \<or> \<not> printable (last (xs @ b # a))"
    using * b by auto
  with * show ?thesis unfolding max_run_def by blast
qed

lemma max_run_split:
  assumes "\<not> printable b"
  shows "max_run (xs @ b # ys) s \<longleftrightarrow> max_run xs s \<or> max_run ys s"
proof
  assume "max_run (xs @ b # ys) s"
  then obtain a c where s: "s \<noteq> []" "list_all printable s" and eq: "xs @ b # ys = a @ s @ c"
    and a: "a = [] \<or> \<not> printable (last a)" and c: "c = [] \<or> \<not> printable (hd c)"
    by (auto simp: max_run_def)
  from s assms have b: "b \<notin> set s" by (auto simp: list_all_iff)
  from eq consider (left) us where "xs = a @ us" "us @ b # ys = s @ c"
    | (right) us where "a = xs @ us" "b # ys = us @ s @ c"
    by (auto simp: append_eq_append_conv2)
  then show "max_run xs s \<or> max_run ys s"
  proof cases
    case (left us)
    from left(2) b obtain vs where vs: "us = s @ vs" "vs @ b # ys = c"
      by (auto simp: append_eq_append_conv2 append_eq_Cons_conv Cons_eq_append_conv)
    then have "vs = [] \<or> \<not> printable (hd vs)" using c by (cases vs) auto
    with vs(1) left(1) s a have "max_run xs s" unfolding max_run_def by blast
    then show ?thesis ..
  next
    case (right us)
    with b s(1) obtain us' where us: "us = b # us'" by (cases us; cases s) auto
    with right a have "ys = us' @ s @ c" "us' = [] \<or> \<not> printable (last us')" by (auto split: if_splits)
    with s c have "max_run ys s" unfolding max_run_def by blast
    then show ?thesis ..
  qed
qed (use assms max_run_left max_run_right in blast)

lemma max_run_all: "list_all printable xs \<Longrightarrow> max_run xs s \<longleftrightarrow> s = xs \<and> xs \<noteq> []"
proof
  assume p: "list_all printable xs" and "max_run xs s"
  then obtain a c where *: "s \<noteq> []" "xs = a @ s @ c"
    "a = [] \<or> \<not> printable (last a)" "c = [] \<or> \<not> printable (hd c)" by (auto simp: max_run_def)
  with p have "a = []" "c = []" by (cases a rule: rev_cases; auto) (cases c; use * p in auto)
  with * show "s = xs \<and> xs \<noteq> []" by simp
next
  assume "list_all printable xs" and "s = xs \<and> xs \<noteq> []"
  then have "s \<noteq> []" "list_all printable s" "xs = [] @ s @ []" by simp_all
  then show "max_run xs s" unfolding max_run_def by blast
qed

lemma scan_strings_iff:
  "0 < m \<Longrightarrow> list_all printable cur \<Longrightarrow>
     s \<in> set (scan_strings m cur bs) \<longleftrightarrow> max_run (cur @ bs) s \<and> m \<le> length s"
proof (induction m cur bs rule: scan_strings.induct)
  case (1 m cur)
  then show ?case by (auto simp: max_run_all)
next
  case (2 m cur b bs)
  show ?case
  proof (cases "printable b")
    case True
    with 2 show ?thesis by simp
  next
    case False
    with 2 have "s \<in> set (scan_strings m [] bs) \<longleftrightarrow> max_run bs s \<and> m \<le> length s"
      by (cases "m \<le> length cur") auto
    with False "2.prems" show ?thesis by (auto simp: max_run_split max_run_all)
  qed
qed

end
