(* ===== verification/Rust_Text.thy ===== *)
theory Rust_Text
  imports Rust_Std
begin

text \<open>
  Text read character by character: UTF-8 characters of a string, the Unicode classes the
  program asks for, splitting at white space, trimming, replacing and searching. Unicode's
  tables for characters outside ASCII are parameters.
\<close>

section \<open>Characters\<close>

text \<open>
  The characters of a string as their byte sequences. Rust's strings are well-formed, where
  every step is one character; an ill-formed part would be kept in pieces.
\<close>

definition char_len :: "string \<Rightarrow> nat" where
  "char_len s = (case utf8_step (cbytes s) of Inr n \<Rightarrow> n | Inl n \<Rightarrow> n)"

lemma char_len_pos: "0 < char_len (c # s)"
  using utf8_step_pos [of "ch c" "cbytes s"]
  by (simp add: char_len_def del: utf8_step.simps split: sum.split)

function utf8_chars :: "string \<Rightarrow> string list" where
  "utf8_chars [] = []"
| "utf8_chars (c # s) = take (char_len (c # s)) (c # s) # utf8_chars (drop (char_len (c # s)) (c # s))"
  by pat_completeness auto
termination
  by (relation "measure length") (auto simp: char_len_pos)

declare utf8_chars.simps(2) [simp del]

lemma concat_utf8_chars [simp]: "concat (utf8_chars s) = s"
  by (induction s rule: utf8_chars.induct) (simp_all add: utf8_chars.simps(2))

lemma char_len_ascii: "of_char c < (128 :: nat) \<Longrightarrow> char_len (c # s) = 1"
  by (simp add: char_len_def width_def unat_ch)

lemma utf8_chars_ascii:
  "list_all (\<lambda>c. of_char c < (128 :: nat)) s \<Longrightarrow> utf8_chars (s @ t) = map (\<lambda>c. [c]) s @ utf8_chars t"
  by (induction s) (simp_all add: utf8_chars.simps(2) char_len_ascii)

text \<open>Unicode's classes; a character of one byte is an ASCII character.\<close>

record unicode =
  uni_alphabetic :: "string \<Rightarrow> bool"
  uni_numeric :: "string \<Rightarrow> bool"

definition ascii_letter :: "char \<Rightarrow> bool" where
  "ascii_letter c \<longleftrightarrow> (let n = of_char c :: nat in 65 \<le> n \<and> n \<le> 90 \<or> 97 \<le> n \<and> n \<le> 122)"

definition ascii_digit :: "char \<Rightarrow> bool" where
  "ascii_digit c \<longleftrightarrow> (let n = of_char c :: nat in 48 \<le> n \<and> n \<le> 57)"

definition is_alphabetic :: "unicode \<Rightarrow> string \<Rightarrow> bool" where
  "is_alphabetic u x = (case x of [c] \<Rightarrow> ascii_letter c | _ \<Rightarrow> uni_alphabetic u x)"

definition is_numeric :: "unicode \<Rightarrow> string \<Rightarrow> bool" where
  "is_numeric u x = (case x of [c] \<Rightarrow> ascii_digit c | _ \<Rightarrow> uni_numeric u x)"

definition is_alphanumeric :: "unicode \<Rightarrow> string \<Rightarrow> bool" where
  "is_alphanumeric u x \<longleftrightarrow> is_alphabetic u x \<or> is_numeric u x"

section \<open>Words\<close>

text \<open>\<open>split_whitespace()\<close>: the maximal runs of characters that are not white space.\<close>

definition ws :: "string \<Rightarrow> bool" where "ws x \<longleftrightarrow> x \<in> set white_space"

function split_words :: "string list \<Rightarrow> string list list" where
  "split_words [] = []"
| "split_words (x # xs) =
     (if ws x then split_words xs
      else takeWhile (\<lambda>x. \<not> ws x) (x # xs) # split_words (dropWhile (\<lambda>x. \<not> ws x) xs))"
  by pat_completeness auto
termination
  by (relation "measure length") (auto simp: le_imp_less_Suc length_dropWhile_le)

definition split_whitespace :: "string \<Rightarrow> string list list" where
  "split_whitespace s = split_words (utf8_chars s)"

text \<open>A word that ends where the text does or before white space stands by itself.\<close>

lemma split_words_word:
  assumes "w \<noteq> []" and "list_all (\<lambda>x. \<not> ws x) w" and "xs = [] \<or> ws (hd xs)"
  shows "split_words (w @ xs) = w # split_words xs"
proof -
  obtain y w' where w: "w = y # w'" using assms(1) by (cases w) auto
  have keep: "takeWhile (\<lambda>x. \<not> ws x) xs = []" "dropWhile (\<lambda>x. \<not> ws x) xs = xs"
    using assms(3) by (cases xs; auto)+
  have all: "\<forall>x \<in> set w'. \<not> ws x" "\<not> ws y" using assms(2) w by (auto simp: list_all_iff)
  then show ?thesis using w keep by (simp add: takeWhile_append2 dropWhile_append2)
qed

lemma split_words_skip: "ws x \<Longrightarrow> split_words (x # xs) = split_words xs"
  by simp

text \<open>\<open>trim_matches\<close>.\<close>

definition trim_matches :: "('a \<Rightarrow> bool) \<Rightarrow> 'a list \<Rightarrow> 'a list" where
  "trim_matches P xs = rev (dropWhile P (rev (dropWhile P xs)))"

lemma trim_matches_id: "xs = [] \<or> \<not> P (hd xs) \<and> \<not> P (last xs) \<Longrightarrow> trim_matches P xs = xs"
proof -
  have id: "dropWhile P ys = ys" if "ys = [] \<or> \<not> P (hd ys)" for ys using that by (cases ys) auto
  assume "xs = [] \<or> \<not> P (hd xs) \<and> \<not> P (last xs)"
  then have "dropWhile P xs = xs" "dropWhile P (rev xs) = rev xs" by (auto intro!: id simp: hd_rev)
  then show ?thesis by (simp add: trim_matches_def)
qed

lemma trim_matches_ends:
  "trim_matches P xs \<noteq> [] \<Longrightarrow> \<not> P (hd (trim_matches P xs)) \<and> \<not> P (last (trim_matches P xs))"
proof -
  assume ne: "trim_matches P xs \<noteq> []"
  let ?d = "dropWhile P xs"
  have t: "trim_matches P xs = rev (dropWhile P (rev ?d))" by (simp add: trim_matches_def)
  have "\<not> P (last (trim_matches P xs))"
    using ne hd_dropWhile [of P "rev ?d"] by (simp add: t last_rev)
  moreover have "hd (trim_matches P xs) = hd ?d"
  proof -
    have "rev (rev ?d) = rev (dropWhile P (rev ?d)) @ rev (takeWhile P (rev ?d))"
      by (metis rev_append takeWhile_dropWhile_id)
    then have "?d = trim_matches P xs @ rev (takeWhile P (rev ?d))" using t by simp
    then show ?thesis using ne by (metis hd_append2)
  qed
  moreover have "?d \<noteq> []" using ne by (cases "?d = []") (simp_all add: t)
  ultimately show ?thesis using hd_dropWhile [of P xs] by simp
qed

section \<open>Replacing and searching\<close>

text \<open>\<open>replace(p, "")\<close> for a pattern that is not empty.\<close>

function remove_all :: "string \<Rightarrow> string \<Rightarrow> string" where
  "remove_all p [] = []"
| "remove_all p (c # s) =
     (if p \<noteq> [] \<and> starts_with (c # s) p then remove_all p (drop (length p) (c # s))
      else c # remove_all p s)"
  by pat_completeness auto
termination
  by (relation "measure (length o snd)") (auto simp: neq_Nil_conv)

text \<open>\<open>find(c)\<close> and \<open>rfind(c)\<close> for an ASCII character.\<close>

definition find_char :: "char \<Rightarrow> string \<Rightarrow> nat option" where
  "find_char c s = (if c \<in> set s then Some (length (takeWhile (\<lambda>x. x \<noteq> c) s)) else None)"

definition rfind_char :: "char \<Rightarrow> string \<Rightarrow> nat option" where
  "rfind_char c s =
     (if c \<in> set s then Some (length s - 1 - length (takeWhile (\<lambda>x. x \<noteq> c) (rev s))) else None)"

section \<open>ASCII text\<close>

definition graphic :: "char \<Rightarrow> bool" where "graphic c \<longleftrightarrow> 33 \<le> (of_char c :: nat) \<and> of_char c < (127 :: nat)"

lemma ws_graphic: "graphic c \<Longrightarrow> \<not> ws [c]"
  by (auto simp: ws_def white_space_def graphic_def)

lemma ws_newline: "ws ''\<newline>''"
  by (simp add: ws_def white_space_def)

lemma split_words_append: "ws x \<Longrightarrow> split_words (xs @ x # ys) = split_words xs @ split_words ys"
  by (induction xs rule: split_words.induct) (auto simp: takeWhile_tail dropWhile_append3)

lemma split_whitespace_newline:
  "list_all (\<lambda>c. of_char c < (128 :: nat)) s \<Longrightarrow>
     split_whitespace (s @ ''\<newline>'' @ t) = split_whitespace s @ split_whitespace t"
proof -
  assume s: "list_all (\<lambda>c. of_char c < (128 :: nat)) s"
  have "utf8_chars (s @ ''\<newline>'' @ t) = utf8_chars s @ ''\<newline>'' # utf8_chars t"
    using utf8_chars_ascii [OF s, of "''\<newline>'' @ t"] utf8_chars_ascii [OF s, of "[]"]
      utf8_chars_ascii [of "''\<newline>''" t] by simp
  then show ?thesis by (simp add: split_whitespace_def split_words_append ws_newline)
qed

lemma split_whitespace_graphic:
  assumes "list_all graphic w" and "w \<noteq> []"
  shows "split_whitespace w = [map (\<lambda>c. [c]) w]"
proof -
  have "list_all (\<lambda>c. of_char c < (128 :: nat)) w" using assms(1) by (auto simp: list_all_iff graphic_def)
  then have "utf8_chars w = map (\<lambda>c. [c]) w" using utf8_chars_ascii [of w "[]"] by simp
  moreover have "split_words (map (\<lambda>c. [c]) w @ []) = map (\<lambda>c. [c]) w # split_words []"
    by (rule split_words_word) (use assms in \<open>auto simp: list_all_iff ws_graphic\<close>)
  ultimately show ?thesis by (simp add: split_whitespace_def)
qed

end
