(* ===== verification/Kp14_Iocs.thy ===== *)
theory Kp14_Iocs
  imports Rust_Text
begin

text \<open>
  Indicators of compromise in \<open>src/kp14_suite.rs\<close>: their types, the word matcher that stands
  for regular expressions, the hunts through text, the deduplication, and the JSON text in
  which they are handed over.
\<close>

section \<open>Types\<close>

datatype ioc_type =
    IpAddress | DomainName | Url | FileHash | FilePath | RegistryKey | Mutex | YaraRule | MitreTechnique

text \<open>The derived \<open>Debug\<close> text of a type.\<close>

fun show_ioc_type :: "ioc_type \<Rightarrow> string" where
  "show_ioc_type IpAddress = ''IpAddress''"
| "show_ioc_type DomainName = ''Domain''"
| "show_ioc_type Url = ''Url''"
| "show_ioc_type FileHash = ''FileHash''"
| "show_ioc_type FilePath = ''FilePath''"
| "show_ioc_type RegistryKey = ''RegistryKey''"
| "show_ioc_type Mutex = ''Mutex''"
| "show_ioc_type YaraRule = ''YaraRule''"
| "show_ioc_type MitreTechnique = ''MitreTechnique''"

text \<open>
  An indicator. Its confidence is a decimal constant of the program that is only printed; it
  is given in hundredths.
\<close>

record ioc =
  i_type :: ioc_type
  i_value :: string
  confidence :: nat
  i_source :: string

text \<open>\<open>to_lowercase\<close>; the lower case of characters outside ASCII is a parameter.\<close>

definition lower_char :: "(string \<Rightarrow> string) \<Rightarrow> string \<Rightarrow> string" where
  "lower_char uni_lower x =
     (case x of
        [c] \<Rightarrow> [if ascii_letter c \<and> (of_char c :: nat) \<le> 90 then char_of (of_char c + 32 :: nat) else c]
      | _ \<Rightarrow> uni_lower x)"

definition to_lowercase :: "(string \<Rightarrow> string) \<Rightarrow> string \<Rightarrow> string" where
  "to_lowercase uni_lower s = concat (map (lower_char uni_lower) (utf8_chars s))"

definition ioc_type_from_str :: "(string \<Rightarrow> string) \<Rightarrow> string \<Rightarrow> ioc_type option" where
  "ioc_type_from_str uni_lower s =
     (let l = to_lowercase uni_lower s
      in if l \<in> {''ip'', ''ip-dst'', ''ip-src''} then Some IpAddress
         else if l \<in> {''domain'', ''hostname''} then Some DomainName
         else if l \<in> {''url'', ''uri''} then Some Url
         else if l \<in> {''md5'', ''sha1'', ''sha256'', ''hash''} then Some FileHash
         else if l \<in> {''filename'', ''filepath''} then Some FilePath
         else if l = ''mutex'' then Some Mutex
         else if l = ''yara'' then Some YaraRule
         else if l \<in> {''mitre'', ''attack'', ''technique''} then Some MitreTechnique
         else None)"

section \<open>The word matcher\<close>

text \<open>\<open>is_valid_ipv4\<close>: four parts that \<open>parse::<u8>\<close> accepts.\<close>

definition is_valid_ipv4 :: "string \<Rightarrow> bool" where
  "is_valid_ipv4 s =
     (let parts = split_on (CHR ''.'') s
      in length parts = 4 \<and> list_all (\<lambda>part. parse_unsigned 10 256 part \<noteq> None) parts)"

definition esc :: "string \<Rightarrow> string" where "esc s = CHR 0x5C # s"

text \<open>
  The part of a pattern between its first opening and its last closing parenthesis, after the
  word boundaries and one optional suffix have been removed. (The slice would panic if the
  closing parenthesis came first.)
\<close>

definition cleaned :: "string \<Rightarrow> string" where
  "cleaned pattern = remove_all (''(?:'' @ esc ''.'' @ esc ''d{2,})?'') (remove_all (esc ''b'') pattern)"

definition pattern_core :: "string \<Rightarrow> string option" where
  "pattern_core pattern =
     (case find_char (CHR ''('') (cleaned pattern) of
        None \<Rightarrow> None
      | Some i \<Rightarrow>
          (case rfind_char (CHR '')'') (cleaned pattern) of
             None \<Rightarrow> None
           | Some j \<Rightarrow> Some (slice (i + 1) (j - (i + 1)) (cleaned pattern))))"

text \<open>A word without the leading and trailing characters that belong to no indicator.\<close>

definition dropped_char :: "unicode \<Rightarrow> string \<Rightarrow> bool" where
  "dropped_char u x \<longleftrightarrow> \<not> is_alphanumeric u x \<and> x \<notin> {''.'', ''/'', '':'', ''-''}"

definition clean_words :: "unicode \<Rightarrow> string \<Rightarrow> string list" where
  "clean_words u text = map (\<lambda>w. concat (trim_matches (dropped_char u) w)) (split_whitespace text)"

definition path_prefixes :: "string list" where
  "path_prefixes = [''/usr/'', ''/tmp/'', ''/var/'', ''/etc/'', ''/home/'', ''/opt/'', ''/dev/'',
     ''/proc/'', ''/sys/'']"

definition has_url_prefix :: "string \<Rightarrow> bool" where
  "has_url_prefix w \<longleftrightarrow> starts_with w ''http://'' \<or> starts_with w ''https://''"

definition has_path_prefix :: "string \<Rightarrow> bool" where
  "has_path_prefix w \<longleftrightarrow> list_ex (\<lambda>p. starts_with w p) path_prefixes"

definition domain_like :: "unicode \<Rightarrow> string \<Rightarrow> bool" where
  "domain_like u w \<longleftrightarrow>
     (let parts = split_on (CHR ''.'') w
      in 2 \<le> length parts \<and> 2 \<le> length (last parts) \<and>
         list_all (is_alphabetic u) (utf8_chars (last parts)) \<and> \<not> contains w ''localhost'')"

definition technique_like :: "unicode \<Rightarrow> string \<Rightarrow> bool" where
  "technique_like u w \<longleftrightarrow>
     starts_with w ''T'' \<and> 5 \<le> length w \<and>
     list_all (\<lambda>x. is_numeric u x \<or> x = ''.'') (utf8_chars (drop 1 w))"

definition word_matches :: "unicode \<Rightarrow> string \<Rightarrow> string \<Rightarrow> bool" where
  "word_matches u core w =
     (if contains core (esc ''d{1,3}'') \<and> is_valid_ipv4 w then True
      else if starts_with core ''https?://'' then has_url_prefix w
      else if starts_with core ''/'' then has_path_prefix w
      else if contains core (esc ''.'') \<and> contains core ''[a-zA-Z]{2,}'' then domain_like u w
      else if starts_with core ''T'' \<and> contains core (esc ''d{4}'') then technique_like u w
      else False)"

definition regex_simple :: "unicode \<Rightarrow> string \<Rightarrow> string \<Rightarrow> string list" where
  "regex_simple u pattern text =
     (case pattern_core pattern of
        None \<Rightarrow> []
      | Some core \<Rightarrow> filter (word_matches u core) (clean_words u text))"

section \<open>Hunting\<close>

definition ip_pattern :: string where
  "ip_pattern = esc ''b('' @ esc ''d{1,3}'' @ esc ''.'' @ esc ''d{1,3}'' @ esc ''.'' @ esc ''d{1,3}'' @
     esc ''.'' @ esc ''d{1,3})'' @ esc ''b''"

definition url_pattern :: string where
  "url_pattern = esc ''b(https?://[^'' @ esc ''s<>'' @ [CHR 0x22, CHR 0x27] @ '']+)'' @ esc ''b''"

definition path_pattern :: string where
  "path_pattern = esc ''b(/(?:usr|tmp|var|etc|home|opt|dev|proc|sys)[^'' @ esc ''s<>'' @
     [CHR 0x27, CHR 0x22] @ '']*)'' @ esc ''b''"

definition domain_pattern :: string where
  "domain_pattern = esc ''b([a-zA-Z0-9][-a-zA-Z0-9]*'' @ esc ''.[a-zA-Z]{2,}(?:'' @ esc ''.[a-zA-Z]{2,})?)'' @
     esc ''b''"

definition technique_pattern :: string where
  "technique_pattern = esc ''b(T'' @ esc ''d{4}(?:'' @ esc ''.'' @ esc ''d{3})?)'' @ esc ''b''"

definition found :: "ioc_type \<Rightarrow> nat \<Rightarrow> string \<Rightarrow> string \<Rightarrow> ioc" where
  "found ty conf src v = \<lparr>i_type = ty, i_value = v, confidence = conf, i_source = src\<rparr>"

definition hunt_iocs_in_text :: "unicode \<Rightarrow> string \<Rightarrow> ioc list" where
  "hunt_iocs_in_text u text =
     map (found IpAddress 80 ''string_extraction'') (filter is_valid_ipv4 (regex_simple u ip_pattern text)) @
     map (found Url 90 ''string_extraction'') (regex_simple u url_pattern text) @
     map (found FilePath 60 ''string_extraction'') (regex_simple u path_pattern text) @
     map (found DomainName 50 ''string_extraction'')
       (filter (\<lambda>d. \<not> contains d ''localhost'' \<and> \<not> starts_with d ''127.'')
         (regex_simple u domain_pattern text))"

definition parse_capa_mitre :: "unicode \<Rightarrow> string \<Rightarrow> ioc list" where
  "parse_capa_mitre u capa_output =
     concat (map (\<lambda>line.
         if contains line ''ATT&CK'' \<or> contains line ''attack''
         then map (found MitreTechnique 85 ''capa_analysis'') (regex_simple u technique_pattern line)
         else []) (lines capa_output))"

section \<open>Deduplication\<close>

definition ioc_key :: "ioc \<Rightarrow> string" where
  "ioc_key i = show_ioc_type (i_type i) @ '':'' @ i_value i"

fun retain_new :: "string set \<Rightarrow> ioc list \<Rightarrow> ioc list" where
  "retain_new seen [] = []"
| "retain_new seen (i # is) =
     (if ioc_key i \<in> seen then retain_new seen is
      else i # retain_new (insert (ioc_key i) seen) is)"

definition dedup :: "ioc list \<Rightarrow> ioc list" where "dedup is = retain_new {} is"

section \<open>JSON\<close>

text \<open>\<open>{}\<close> on a confidence: the shortest decimal, which is the constant in the program.\<close>

definition show_confidence :: "nat \<Rightarrow> string" where
  "show_confidence n =
     show_nat (n div 100) @
     (if n mod 100 = 0 then []
      else if n mod 10 = 0 then ''.'' @ show_nat (n mod 100 div 10)
      else ''.'' @ show_nat (n mod 100 div 10) @ show_nat (n mod 10))"

definition quote :: char where "quote = CHR 0x22"

definition quoted :: "string \<Rightarrow> string" where "quoted s = quote # s @ [quote]"

definition ioc_json :: "ioc \<Rightarrow> string" where
  "ioc_json i =
     ''{'' @ quoted ''type'' @ '':'' @ quoted (show_ioc_type (i_type i)) @ '','' @
     quoted ''value'' @ '':'' @ quoted (i_value i) @ '','' @
     quoted ''confidence'' @ '':'' @ show_confidence (confidence i) @ '','' @
     quoted ''source'' @ '':'' @ quoted (i_source i) @ ''}''"

fun join_json :: "nat \<Rightarrow> ioc list \<Rightarrow> string" where
  "join_json n [] = []"
| "join_json n (i # is) = (if 0 < n then '','' else []) @ ioc_json i @ join_json (Suc n) is"

definition iocs_json :: "ioc list \<Rightarrow> string" where
  "iocs_json iocs = ''['' @ join_json 0 iocs @ '']''"


section \<open>What each pattern matches\<close>

lemma pattern_cores:
  "pattern_core ip_pattern = Some (esc ''d{1,3}'' @ esc ''.'' @ esc ''d{1,3}'' @ esc ''.'' @
     esc ''d{1,3}'' @ esc ''.'' @ esc ''d{1,3}'')"
  "pattern_core url_pattern = Some (''https?://[^'' @ esc ''s<>'' @ [CHR 0x22, CHR 0x27] @ '']+'')"
  "pattern_core path_pattern = Some (''/(?:usr|tmp|var|etc|home|opt|dev|proc|sys)[^'' @ esc ''s<>'' @
     [CHR 0x27, CHR 0x22] @ '']*'')"
  "pattern_core domain_pattern = Some (''[a-zA-Z0-9][-a-zA-Z0-9]*'' @ esc ''.[a-zA-Z]{2,}(?:'' @
     esc ''.[a-zA-Z]{2,})?'')"
  "pattern_core technique_pattern = Some (''T'' @ esc ''d{4}(?:'' @ esc ''.'' @ esc ''d{3})?'')"
  by code_simp+

lemma core_words:
  "word_matches u (the (pattern_core ip_pattern)) w \<longleftrightarrow> is_valid_ipv4 w"
  "word_matches u (the (pattern_core url_pattern)) w \<longleftrightarrow> has_url_prefix w"
  "word_matches u (the (pattern_core path_pattern)) w \<longleftrightarrow> has_path_prefix w"
  "word_matches u (the (pattern_core domain_pattern)) w \<longleftrightarrow> domain_like u w"
  "word_matches u (the (pattern_core technique_pattern)) w \<longleftrightarrow> technique_like u w"
  unfolding pattern_cores option.sel by (simp_all add: word_matches_def esc_def starts_with_def)

lemma patterns_have_cores:
  "pattern_core ip_pattern \<noteq> None" "pattern_core url_pattern \<noteq> None"
  "pattern_core path_pattern \<noteq> None" "pattern_core domain_pattern \<noteq> None"
  "pattern_core technique_pattern \<noteq> None"
  unfolding pattern_cores by simp_all

lemma regex_filter:
  "pattern_core p \<noteq> None \<Longrightarrow>
     regex_simple u p text = filter (\<lambda>w. word_matches u (the (pattern_core p)) w) (clean_words u text)"
  by (auto simp: regex_simple_def)

lemma regex_words:
  "regex_simple u ip_pattern text = filter is_valid_ipv4 (clean_words u text)"
  "regex_simple u url_pattern text = filter has_url_prefix (clean_words u text)"
  "regex_simple u path_pattern text = filter has_path_prefix (clean_words u text)"
  "regex_simple u domain_pattern text = filter (domain_like u) (clean_words u text)"
  "regex_simple u technique_pattern text = filter (technique_like u) (clean_words u text)"
  by (simp_all add: regex_filter patterns_have_cores core_words)

lemma found_simps [simp]:
  "i_type (found ty c src v) = ty" "i_value (found ty c src v) = v"
  "confidence (found ty c src v) = c" "i_source (found ty c src v) = src"
  by (simp_all add: found_def)

text \<open>No indicator of an excluded type comes out of a hunt.\<close>

lemma hunted_types:
  "i \<in> set (hunt_iocs_in_text u text) \<Longrightarrow> i_type i \<in> {IpAddress, Url, FilePath, DomainName}"
  by (auto simp: hunt_iocs_in_text_def)

lemma capa_types: "i \<in> set (parse_capa_mitre u text) \<Longrightarrow> i_type i = MitreTechnique"
  by (auto simp: parse_capa_mitre_def split: if_splits)

text \<open>A graphic word that starts with a letter and ends with one or a slash is kept whole.\<close>

lemma clean_words_graphic:
  assumes "list_all graphic w" and "w \<noteq> []" and "ascii_letter (hd w)"
    and "ascii_letter (last w) \<or> ascii_digit (last w) \<or> last w = CHR ''/''"
  shows "clean_words u w = [w]"
proof -
  have "\<not> dropped_char u [c]" if "ascii_letter c \<or> ascii_digit c \<or> c = CHR ''/''" for c
    using that by (auto simp: dropped_char_def is_alphanumeric_def is_alphabetic_def is_numeric_def)
  then have "trim_matches (dropped_char u) (map (\<lambda>c. [c]) w) = map (\<lambda>c. [c]) w"
    using assms(2-4) by (intro trim_matches_id) (simp add: hd_map last_map)
  then show ?thesis using assms(1,2) by (simp add: clean_words_def split_whitespace_graphic)
qed

lemma clean_words_newline:
  "list_all (\<lambda>c. of_char c < (128 :: nat)) s \<Longrightarrow>
     clean_words u (s @ ''\<newline>'' @ t) = clean_words u s @ clean_words u t"
  using split_whitespace_newline [of s t] by (simp add: clean_words_def)

section \<open>Keys and deduplication\<close>

lemma show_ioc_type_no_colon: "CHR '':'' \<notin> set (show_ioc_type t)"
  by (cases t) auto

lemma show_ioc_type_inj: "show_ioc_type a = show_ioc_type b \<Longrightarrow> a = b"
  by (cases a; cases b) simp_all

lemma split_at_colon:
  "c \<notin> set a \<Longrightarrow> c \<notin> set b \<Longrightarrow> a @ c # x = b @ c # y \<Longrightarrow> a = b \<and> x = y"
proof (induction a arbitrary: b)
  case Nil
  then show ?case by (cases b) auto
next
  case (Cons z a)
  then show ?case by (cases b) auto
qed

lemma ioc_key_inj: "ioc_key i = ioc_key j \<longleftrightarrow> i_type i = i_type j \<and> i_value i = i_value j"
  using split_at_colon [OF show_ioc_type_no_colon show_ioc_type_no_colon, of "i_type i" "i_value i" "i_type j" "i_value j"]
  by (auto simp: ioc_key_def dest: show_ioc_type_inj)

lemma retain_new_fresh: "i \<in> set (retain_new seen is) \<Longrightarrow> i \<in> set is \<and> ioc_key i \<notin> seen"
  by (induction seen "is" rule: retain_new.induct) (auto split: if_splits)

lemma retain_new_distinct: "distinct (map ioc_key (retain_new seen is))"
  by (induction seen "is" rule: retain_new.induct) (auto dest!: retain_new_fresh)

lemma retain_new_keys: "ioc_key ` set (retain_new seen is) = ioc_key ` set is - seen"
  by (induction seen "is" rule: retain_new.induct) auto

text \<open>The first indicator with a key is the one that stays.\<close>

lemma retain_new_first:
  "i \<in> set (retain_new seen is) \<longleftrightarrow>
     ioc_key i \<notin> seen \<and> find (\<lambda>j. ioc_key j = ioc_key i) is = Some i"
proof (induction seen "is" rule: retain_new.induct)
  case (2 seen j "is")
  then show ?case by (cases "ioc_key j \<in> seen"; cases "ioc_key j = ioc_key i") (auto dest: retain_new_fresh)
qed simp

lemma dedup_keys: "ioc_key ` set (dedup is) = ioc_key ` set is"
  by (simp add: dedup_def retain_new_keys)

lemma dedup_distinct: "distinct (map ioc_key (dedup is))"
  by (simp add: dedup_def retain_new_distinct)

lemma dedup_first: "i \<in> set (dedup is) \<longleftrightarrow> find (\<lambda>j. ioc_key j = ioc_key i) is = Some i"
  by (simp add: dedup_def retain_new_first)

lemma dedup_subset: "set (dedup is) \<subseteq> set is"
  using retain_new_fresh by (auto simp: dedup_def)

text \<open>An indicator whose key occurs in the input is in the output, with that type and value.\<close>

lemma dedup_covers:
  assumes "i \<in> set is"
  obtains j where "j \<in> set (dedup is)" and "i_type j = i_type i" and "i_value j = i_value i"
proof -
  have "ioc_key i \<in> ioc_key ` set (dedup is)" using assms by (simp add: dedup_keys)
  then obtain j where "j \<in> set (dedup is)" "ioc_key i = ioc_key j" by (rule imageE)
  with that show ?thesis by (auto simp: ioc_key_inj)
qed

end
