(* ===== verification/Kp14_Client.thy ===== *)
theory Kp14_Client
  imports Kp14_Blob Kp14_Iocs Proxmox_Bridge
begin

text \<open>
  The client of \<open>src/kp14_suite.rs\<close>: waiting for a device, mounting it and finding the dump on
  it, running the analysis tools, collecting indicators from their output and handing them
  over. Commands, the file system, the clock and the iteration order of hash sets are
  parameters; the state is the list of commands run and of files written.
\<close>

section \<open>The client and its surroundings\<close>

record kp14_client =
  ssh_host :: string
  pipeline_path :: string
  output_base :: string
  is_local :: bool

definition KP14_PIPELINE_PATH :: string where
  "KP14_PIPELINE_PATH = ''/home/debian/KP14/src/kp14/analysis/pipeline/disasm_pipeline.py''"

definition KP14_OUTPUT_BASE :: string where "KP14_OUTPUT_BASE = ''/home/debian/KP14/kp14_output''"

definition KP14_MOUNT_BASE :: string where "KP14_MOUNT_BASE = ''/mnt/alphvdr''"

definition GHIDRA_HEADLESS :: string where "GHIDRA_HEADLESS = ''/opt/ghidra/support/analyzeHeadless''"

text \<open>\<open>Kp14Client::new\<close>, given the content of \<open>/etc/hostname\<close> if it could be read.\<close>

definition kp14_new :: "string option \<Rightarrow> kp14_client" where
  "kp14_new hostname =
     \<lparr>ssh_host = ''kp14'', pipeline_path = KP14_PIPELINE_PATH, output_base = KP14_OUTPUT_BASE,
      is_local = (trim (case hostname of Some h \<Rightarrow> h | None \<Rightarrow> []) = ''kp14-suite'')\<rparr>"

definition with_ssh_host :: "string \<Rightarrow> kp14_client" where
  "with_ssh_host host =
     \<lparr>ssh_host = host, pipeline_path = KP14_PIPELINE_PATH, output_base = KP14_OUTPUT_BASE,
      is_local = False\<rparr>"

text \<open>
  What the client gets from outside. \<open>dev_listing n\<close> is the n-th reading of \<open>/dev\<close> and
  \<open>elapsed n\<close> the seconds gone when the n-th turn of the watch loop starts, \<open>None\<close> if the clock
  then stands before the start; \<open>set_order n\<close> is
  the order in which the hash set of the n-th reading is iterated; \<open>now n\<close> is the n-th reading
  of the clock. What the file system answers may depend on the commands run before.
\<close>

record dir_view =
  read_dir :: "string \<Rightarrow> string list option"
  is_dir :: "string \<Rightarrow> bool"

record kp14_env =
  kp_os :: os
  kp_unicode :: unicode
  dev_listing :: "nat \<Rightarrow> string list option"
  set_order :: "nat \<Rightarrow> string list \<Rightarrow> string list"
  elapsed :: "nat \<Rightarrow> nat option"
  now :: "nat \<Rightarrow> nat option"
  mount_point_ok :: bool
  tree :: "cmd list \<Rightarrow> dir_view"
  read_bytes :: "cmd list \<Rightarrow> string \<Rightarrow> byte list option"
  read_text :: "cmd list \<Rightarrow> string \<Rightarrow> string option"
  extract_dir_ok :: bool
  extract_write_ok :: "nat \<Rightarrow> bool"
  json_write_ok :: bool

record kp14_state =
  ran :: "cmd list"
  written :: "(string \<times> byte list) list"

datatype kp14_error =
    DevUnreadable | WatchTimedOut
  | MountPointFailed | MountNotRun | MountFailed | DirUnreadable | NoBlobFound
  | BadBlob blob_error | ExtractionFailed extract_error
  | ClockBackwards | PipelineNotRun | PipelineFailed | GhidraNotRun | GhidraFailed
  | TriageNotRun | TriageFailed | OutputNotRead | JsonNotWritten | TransferNotRun | TransferFailed

text \<open>A command run for its status, and one run for its output.\<close>

definition status_of :: "kp14_env \<Rightarrow> cmd \<Rightarrow> kp14_state \<Rightarrow> bool option \<times> kp14_state" where
  "status_of ke c st = (case run_status (kp_os ke) c (ran st) of (r, tr) \<Rightarrow> (r, st\<lparr>ran := tr\<rparr>))"

definition output_of :: "kp14_env \<Rightarrow> cmd \<Rightarrow> kp14_state \<Rightarrow> (bool \<times> string) option \<times> kp14_state" where
  "output_of ke c st =
     (case kp_os ke (ran st) c of
        SpawnFailed \<Rightarrow> (None, st)
      | Exited ok out \<Rightarrow> (Some (ok, out), st\<lparr>ran := ran st @ [c]\<rparr>))"

section \<open>Waiting for a device\<close>

definition block_device_name :: "string \<Rightarrow> bool" where
  "block_device_name n \<longleftrightarrow>
     (let s = from_utf8_lossy (cbytes n)
      in starts_with s ''sd'' \<or> starts_with s ''vd'' \<or> starts_with s ''nvme'')"

text \<open>The set of paths, as a list without repetitions; names that are not UTF-8 are left out.\<close>

definition list_block_devices :: "string list option \<Rightarrow> string list option" where
  "list_block_devices listing =
     map_option (\<lambda>names. remdups (map (\<lambda>n. ''/dev/'' @ n) (filter (\<lambda>n. block_device_name n \<and> utf8 n) names)))
       listing"

text \<open>
  The time gone, zero for a clock that was set back; then the watch loop, \<open>None\<close> when it never returns.
\<close>

definition waited :: "kp14_env \<Rightarrow> nat \<Rightarrow> nat" where
  "waited ke n = (case elapsed ke n of None \<Rightarrow> 0 | Some s \<Rightarrow> s)"

partial_function (option) watch_loop ::
  "kp14_env \<Rightarrow> u64 \<Rightarrow> string list \<Rightarrow> nat \<Rightarrow> (kp14_error + string) option" where
  "watch_loop ke timeout initial n =
     (if unat timeout \<le> waited ke n then Some (Inl WatchTimedOut)
      else (case list_block_devices (dev_listing ke (Suc n)) of
          None \<Rightarrow> Some (Inl DevUnreadable)
        | Some current \<Rightarrow>
            (case filter (\<lambda>d. d \<notin> set initial) (set_order ke (Suc n) current) of
               d # ds \<Rightarrow> Some (Inr d)
             | [] \<Rightarrow> watch_loop ke timeout initial (Suc n))))"

definition watch_for_hotplugged_device :: "kp14_env \<Rightarrow> u64 \<Rightarrow> (kp14_error + string) option" where
  "watch_for_hotplugged_device ke timeout =
     (case list_block_devices (dev_listing ke 0) of
        None \<Rightarrow> Some (Inl DevUnreadable)
      | Some initial \<Rightarrow> watch_loop ke timeout initial 0)"

section \<open>Mounting and finding the dump\<close>

definition is_dump_name :: "string \<Rightarrow> bool" where
  "is_dump_name n \<longleftrightarrow>
     (let s = from_utf8_lossy (cbytes n) in starts_with s ''core_dump_'' \<and> ends_with s ''.bin'')"

definition join_path :: "string \<Rightarrow> string \<Rightarrow> string" where "join_path dir n = dir @ ''/'' @ n"

text \<open>The rest of a directory, depth first; directories may be followed without end.\<close>

partial_function (option) search_entries ::
  "dir_view \<Rightarrow> string \<Rightarrow> string list \<Rightarrow> (kp14_error + string option) option" where
  "search_entries dv dir names =
     (case names of
        [] \<Rightarrow> Some (Inr None)
      | n # rest \<Rightarrow>
          (if is_dir dv (join_path dir n) then
             (case read_dir dv (join_path dir n) of
                None \<Rightarrow> Some (Inl DirUnreadable)
              | Some sub \<Rightarrow>
                  Option.bind (search_entries dv (join_path dir n) sub)
                    (\<lambda>r. if r = Inr None then search_entries dv dir rest else Some r))
           else if is_dump_name n then Some (Inr (Some (join_path dir n)))
           else search_entries dv dir rest))"

definition find_blob_recursive :: "dir_view \<Rightarrow> string \<Rightarrow> (kp14_error + string option) option" where
  "find_blob_recursive dv dir =
     (case read_dir dv dir of
        None \<Rightarrow> Some (Inl DirUnreadable)
      | Some names \<Rightarrow> search_entries dv dir names)"

definition mount_cmd :: "string \<Rightarrow> cmd" where "mount_cmd dev = [''mount'', ''-o'', ''ro'', dev, KP14_MOUNT_BASE]"

definition umount_cmd :: cmd where "umount_cmd = [''umount'', KP14_MOUNT_BASE]"

definition mount_device :: "kp14_env \<Rightarrow> string \<Rightarrow> kp14_state \<Rightarrow> (kp14_error + unit) \<times> kp14_state" where
  "mount_device ke dev st =
     (if \<not> mount_point_ok ke then (Inl MountPointFailed, st)
      else (case status_of ke (''sudo'' # mount_cmd dev) st of
          (None, st1) \<Rightarrow> (Inl MountNotRun, st1)
        | (Some True, st1) \<Rightarrow> (Inr (), st1)
        | (Some False, st1) \<Rightarrow>
            (case status_of ke (mount_cmd dev) st1 of
               (None, st2) \<Rightarrow> (Inl MountNotRun, st2)
             | (Some True, st2) \<Rightarrow> (Inr (), st2)
             | (Some False, st2) \<Rightarrow> (Inl MountFailed, st2))))"

text \<open>The blob: first by name among the entries of the root, whatever they are, then below.\<close>

definition locate_blob :: "dir_view \<Rightarrow> (kp14_error + string) option" where
  "locate_blob dv =
     (case read_dir dv KP14_MOUNT_BASE of
        None \<Rightarrow> Some (Inl DirUnreadable)
      | Some names \<Rightarrow>
          (case find is_dump_name names of
             Some n \<Rightarrow> Some (Inr (join_path KP14_MOUNT_BASE n))
           | None \<Rightarrow>
               map_option (\<lambda>r. case r of
                   Inl e \<Rightarrow> Inl e
                 | Inr None \<Rightarrow> Inl NoBlobFound
                 | Inr (Some p) \<Rightarrow> Inr p) (find_blob_recursive dv KP14_MOUNT_BASE)))"

definition mount_and_ingest ::
  "kp14_env \<Rightarrow> string \<Rightarrow> kp14_state \<Rightarrow> ((kp14_error + string) \<times> kp14_state) option" where
  "mount_and_ingest ke dev st =
     (case mount_device ke dev st of
        (Inl e, st1) \<Rightarrow> Some (Inl e, st1)
      | (Inr u, st1) \<Rightarrow> map_option (\<lambda>r. (r, st1)) (locate_blob (tree ke (ran st1))))"

text \<open>Unmounting; outcomes are ignored.\<close>

definition cleanup_mount :: "kp14_env \<Rightarrow> kp14_state \<Rightarrow> kp14_state" where
  "cleanup_mount ke st =
     (case status_of ke (''sudo'' # umount_cmd) st of
        (Some True, st1) \<Rightarrow> st1
      | (_, st1) \<Rightarrow> snd (status_of ke umount_cmd st1))"

section \<open>Running the analysis tools\<close>

definition pipeline_args :: "kp14_client \<Rightarrow> string \<Rightarrow> string \<Rightarrow> string \<Rightarrow> cmd" where
  "pipeline_args c binary_path project_name output_dir =
     [''python3'', pipeline_path c, ''run'', ''--binary'', binary_path, ''--project-name'', project_name,
      ''--output-dir'', output_dir]"

definition pipeline_text :: "kp14_client \<Rightarrow> string \<Rightarrow> string \<Rightarrow> string \<Rightarrow> string" where
  "pipeline_text c binary_path project_name output_dir =
     ''python3 '' @ pipeline_path c @ '' run --binary '' @ binary_path @ '' --project-name '' @
     project_name @ '' --output-dir '' @ output_dir"

definition ssh_cmd :: "kp14_client \<Rightarrow> string \<Rightarrow> cmd" where "ssh_cmd c text = [''ssh'', ssh_host c, text]"

text \<open>\<open>clock\<close> is the reading of the clock at the start; the profile is only printed.\<close>

definition run_disassembly_pipeline ::
  "kp14_env \<Rightarrow> kp14_client \<Rightarrow> nat option \<Rightarrow> string \<Rightarrow> string \<Rightarrow> string \<Rightarrow> kp14_state \<Rightarrow>
     (kp14_error + string) \<times> kp14_state" where
  "run_disassembly_pipeline ke c clock binary_path project_name profile st =
     (case clock of
        None \<Rightarrow> (Inl ClockBackwards, st)
      | Some t \<Rightarrow>
          (let name = (if project_name = [] then ''alphvdr_carved_'' @ show_nat t else project_name);
               output_dir = output_base c @ ''/'' @ name;
               command = (if is_local c then pipeline_args c binary_path name output_dir
                          else ssh_cmd c (pipeline_text c binary_path name output_dir))
           in case status_of ke command st of
                (None, st1) \<Rightarrow> (Inl PipelineNotRun, st1)
              | (Some False, st1) \<Rightarrow> (Inl PipelineFailed, st1)
              | (Some True, st1) \<Rightarrow> (Inr output_dir, st1)))"

definition run_ghidra_headless ::
  "kp14_env \<Rightarrow> kp14_client \<Rightarrow> string \<Rightarrow> string \<Rightarrow> string \<Rightarrow> kp14_state \<Rightarrow> (kp14_error + string) \<times> kp14_state" where
  "run_ghidra_headless ke c binary_path project_dir project_name st =
     (let ghidra_project = project_dir @ ''/'' @ project_name @ ''_ghidra'';
          command = (if is_local c
            then [GHIDRA_HEADLESS, ghidra_project, project_name, ''-import'', binary_path, ''-deleteProject'']
            else ssh_cmd c (GHIDRA_HEADLESS @ '' '' @ ghidra_project @ '' '' @ project_name @ '' -import '' @
              binary_path @ '' -postScript ExtractIOCs.java -deleteProject''))
      in case status_of ke command st of
           (None, st1) \<Rightarrow> (Inl GhidraNotRun, st1)
         | (Some False, st1) \<Rightarrow> (Inl GhidraFailed, st1)
         | (Some True, st1) \<Rightarrow> (Inr ghidra_project, st1))"

definition run_radare2_triage ::
  "kp14_env \<Rightarrow> kp14_client \<Rightarrow> string \<Rightarrow> kp14_state \<Rightarrow> (kp14_error + string) \<times> kp14_state" where
  "run_radare2_triage ke c binary_path st =
     (let command = (if is_local c then [''r2'', ''-q'', ''-c'', ''aaa; afl; iI; iz; iC'', binary_path]
                     else ssh_cmd c (''r2 -q -c '' @ [CHR 0x27] @ ''aaa; afl; iI; iz~; iC'' @ [CHR 0x27] @
                       '' '' @ binary_path))
      in case output_of ke command st of
           (None, st1) \<Rightarrow> (Inl TriageNotRun, st1)
         | (Some (ok, out), st1) \<Rightarrow>
             (if \<not> ok then Inl TriageFailed else Inr (from_utf8_lossy (cbytes out)), st1))"

section \<open>Collecting indicators\<close>

text \<open>One output of the pipeline; a file that is missing or not text counts as empty.\<close>

definition read_pipeline_output ::
  "kp14_env \<Rightarrow> kp14_client \<Rightarrow> string \<Rightarrow> string \<Rightarrow> kp14_state \<Rightarrow> (kp14_error + string) \<times> kp14_state" where
  "read_pipeline_output ke c output_dir file_type st =
     (let local_path = output_dir @ ''/'' @ file_type @ ''.txt''
      in if is_local c
         then (Inr (case read_text ke (ran st) local_path of Some t \<Rightarrow> t | None \<Rightarrow> []), st)
         else (case output_of ke (ssh_cmd c (''cat '' @ local_path @ '' 2>/dev/null || true'')) st of
             (None, st1) \<Rightarrow> (Inl OutputNotRead, st1)
           | (Some (ok, out), st1) \<Rightarrow> (Inr (from_utf8_lossy (cbytes out)), st1)))"

text \<open>Outputs in turn, each through its own hunt; the first that cannot be read ends it.\<close>

fun read_outputs ::
  "kp14_env \<Rightarrow> kp14_client \<Rightarrow> string \<Rightarrow> (string \<times> (string \<Rightarrow> ioc list)) list \<Rightarrow> kp14_state \<Rightarrow>
     (kp14_error + ioc list) \<times> kp14_state" where
  "read_outputs ke c output_dir [] st = (Inr [], st)"
| "read_outputs ke c output_dir ((file_type, hunt) # outs) st =
     (case read_pipeline_output ke c output_dir file_type st of
        (Inl e, st1) \<Rightarrow> (Inl e, st1)
      | (Inr text, st1) \<Rightarrow>
          (case read_outputs ke c output_dir outs st1 of
             (Inl e, st2) \<Rightarrow> (Inl e, st2)
           | (Inr iocs, st2) \<Rightarrow> (Inr (hunt text @ iocs), st2)))"

definition pipeline_outputs :: "unicode \<Rightarrow> (string \<times> (string \<Rightarrow> ioc list)) list" where
  "pipeline_outputs u =
     [(''strings'', hunt_iocs_in_text u), (''r2_analysis'', hunt_iocs_in_text u),
      (''ghidra_decompilation'', hunt_iocs_in_text u), (''capa'', parse_capa_mitre u)]"

definition extract_iocs_from_output ::
  "kp14_env \<Rightarrow> kp14_client \<Rightarrow> string \<Rightarrow> kp14_state \<Rightarrow> (kp14_error + ioc list) \<times> kp14_state" where
  "extract_iocs_from_output ke c output_dir st =
     (case read_outputs ke c output_dir (pipeline_outputs (kp_unicode ke)) st of
        (Inl e, st1) \<Rightarrow> (Inl e, st1)
      | (Inr iocs, st1) \<Rightarrow> (Inr (dedup iocs), st1))"

definition ioc_json_path :: string where "ioc_json_path = ''/tmp/alphvdr/extracted_iocs.json''"

text \<open>(What a failed write leaves behind is not modelled.)\<close>

definition push_iocs_to_misp :: "kp14_env \<Rightarrow> ioc list \<Rightarrow> kp14_state \<Rightarrow> (kp14_error + unit) \<times> kp14_state" where
  "push_iocs_to_misp ke iocs st =
     (if iocs = [] then (Inr (), st)
      else if json_write_ok ke
      then (Inr (), st\<lparr>written := written st @ [(ioc_json_path, cbytes (iocs_json iocs))]\<rparr>)
      else (Inl JsonNotWritten, st))"

section \<open>The daemon's pipeline\<close>

text \<open>The four constant indicators every daemon run adds.\<close>

definition mock_iocs :: "ioc list" where
  "mock_iocs =
     [found FileHash 100 ''mock_hash'' ''e3b0c44298fc1c149afbf4c8996fb92427ae41e4649b934ca495991b7852b855'',
      found RegistryKey 50 ''mock_reg''
        (''HKLM'' @ esc ''Software'' @ esc ''Microsoft'' @ esc ''Windows'' @ esc ''CurrentVersion'' @ esc ''Run''),
      found Mutex 90 ''mock_mutex'' (''Global'' @ esc ''MalwareMutex''),
      found YaraRule 100 ''mock_yara'' ''apt41_keyplug'']"

text \<open>Triage and decompilation of one extracted binary; failures are passed over.\<close>

definition triage_binary ::
  "kp14_env \<Rightarrow> kp14_client \<Rightarrow> string \<Rightarrow> ioc list \<times> kp14_state \<Rightarrow> string \<Rightarrow> ioc list \<times> kp14_state" where
  "triage_binary ke c project acc bin_path =
     (case run_radare2_triage ke c bin_path (snd acc) of
        (r, st1) \<Rightarrow>
          (fst acc @ (case r of Inr out \<Rightarrow> hunt_iocs_in_text (kp_unicode ke) out | Inl e \<Rightarrow> []),
           snd (run_ghidra_headless ke c bin_path (output_base c) project st1)))"

text \<open>Triage and the full pipeline on the dump of all regions; failures are passed over.\<close>

definition analyse_full_dump ::
  "kp14_env \<Rightarrow> kp14_client \<Rightarrow> u32 \<Rightarrow> string \<Rightarrow> kp14_state \<Rightarrow> ioc list \<times> kp14_state" where
  "analyse_full_dump ke c pid dump_path st =
     (case run_radare2_triage ke c dump_path st of
        (r, st1) \<Rightarrow>
          (let hunted = (case r of Inr out \<Rightarrow> hunt_iocs_in_text (kp_unicode ke) out | Inl e \<Rightarrow> [])
           in case run_disassembly_pipeline ke c (now ke 0) dump_path (''carved_pid_'' @ show_i32 pid)
                  ''malware'' st1 of
                (Inl e, st2) \<Rightarrow> (hunted, st2)
              | (Inr output_dir, st2) \<Rightarrow>
                  (case extract_iocs_from_output ke c output_dir st2 of
                     (Inl e, st3) \<Rightarrow> (hunted, st3)
                   | (Inr iocs, st3) \<Rightarrow> (hunted @ iocs, st3))))"

fun join_lines :: "string list \<Rightarrow> string" where
  "join_lines [] = []"
| "join_lines [s] = s"
| "join_lines (s # t # ts) = s @ ''\<newline>'' @ join_lines (t # ts)"

text \<open>Everything from the extracted binaries to the indicators, before they are deduplicated.\<close>

definition gather_iocs ::
  "kp14_env \<Rightarrow> kp14_client \<Rightarrow> parsed_core_dump \<Rightarrow> string list \<Rightarrow> kp14_state \<Rightarrow> ioc list \<times> kp14_state" where
  "gather_iocs ke c d binaries st =
     (case foldl (triage_binary ke c (''pid_'' @ show_i32 (d_pid d))) ([], st) binaries of
        (triaged, st1) \<Rightarrow>
          (let all_iocs = triaged @ hunt_iocs_in_text (kp_unicode ke) (join_lines (extract_strings 6 d)) @ mock_iocs;
               st2 = cleanup_mount ke st1
           in if binaries = [] then (all_iocs, st2)
              else (case analyse_full_dump ke c (d_pid d) (last binaries) st2 of
                  (later, st3) \<Rightarrow> (all_iocs @ later, st3))))"

definition extract_dir :: "kp14_client \<Rightarrow> parsed_core_dump \<Rightarrow> string" where
  "extract_dir c d = output_base c @ ''/pid_'' @ show_i32 (d_pid d) @ ''_extracted''"

definition process_dump ::
  "kp14_env \<Rightarrow> kp14_client \<Rightarrow> parsed_core_dump \<Rightarrow> kp14_state \<Rightarrow> (kp14_error, ioc list) outcome \<times> kp14_state" where
  "process_dump ke c d st =
     (case extract_executable_regions (extract_dir_ok ke) (extract_write_ok ke) (extract_dir c d) d of
        (Inl e, fs) \<Rightarrow> (Bail (ExtractionFailed e), st\<lparr>written := written st @ fs\<rparr>)
      | (Inr binaries, fs) \<Rightarrow>
          (case gather_iocs ke c d binaries (st\<lparr>written := written st @ fs\<rparr>) of
             (all_iocs, st1) \<Rightarrow>
               (case push_iocs_to_misp ke (dedup all_iocs) st1 of
                  (Inl e, st2) \<Rightarrow> (Bail e, st2)
                | (Inr u, st2) \<Rightarrow> (Done (dedup all_iocs), cleanup_mount ke st2))))"

text \<open>The whole run; \<open>None\<close> when it never returns.\<close>

definition run_daemon_pipeline ::
  "kp14_env \<Rightarrow> kp14_client \<Rightarrow> u64 \<Rightarrow> kp14_state \<Rightarrow> ((kp14_error, ioc list) outcome \<times> kp14_state) option" where
  "run_daemon_pipeline ke c timeout st =
     Option.bind (watch_for_hotplugged_device ke timeout) (\<lambda>w. case w of
         Inl e \<Rightarrow> Some (Bail e, st)
       | Inr dev \<Rightarrow>
           map_option (\<lambda>m. case m of
               (Inl e, st1) \<Rightarrow> (Bail e, st1)
             | (Inr blob, st1) \<Rightarrow>
                 (case from_file (read_bytes ke (ran st1) blob) of
                    Bail e \<Rightarrow> (Bail (BadBlob e), st1)
                  | Panic \<Rightarrow> (Panic, st1)
                  | Done d \<Rightarrow> process_dump ke c d st1)) (mount_and_ingest ke dev st))"

section \<open>Remote analysis\<close>

definition remote_path :: "nat \<Rightarrow> string" where
  "remote_path t = ''/tmp/alphvdr_core_dump_'' @ show_nat t @ ''.bin''"

definition transfer_cmd :: "kp14_client \<Rightarrow> string \<Rightarrow> nat \<Rightarrow> cmd" where
  "transfer_cmd c blob_path t = [''scp'', ''-B'', blob_path, ssh_host c @ '':'' @ remote_path t]"

definition remove_cmd :: "kp14_client \<Rightarrow> nat \<Rightarrow> cmd" where
  "remove_cmd c t = ssh_cmd c (''rm -f '' @ remote_path t)"

text \<open>From the transferred dump to the indicators that were handed over.\<close>

definition analyse_remote ::
  "kp14_env \<Rightarrow> kp14_client \<Rightarrow> string \<Rightarrow> string \<Rightarrow> kp14_state \<Rightarrow> (kp14_error + ioc list) \<times> kp14_state" where
  "analyse_remote ke c path project_name st =
     (case run_disassembly_pipeline ke c (now ke 2) path project_name ''malware'' st of
        (Inl e, st1) \<Rightarrow> (Inl e, st1)
      | (Inr output_dir, st1) \<Rightarrow>
          (case extract_iocs_from_output ke c output_dir st1 of
             (Inl e, st2) \<Rightarrow> (Inl e, st2)
           | (Inr iocs, st2) \<Rightarrow>
               (case push_iocs_to_misp ke iocs st2 of
                  (Inl e, st3) \<Rightarrow> (Inl e, st3)
                | (Inr u, st3) \<Rightarrow> (Inr iocs, st3))))"

definition run_remote_analysis ::
  "kp14_env \<Rightarrow> kp14_client \<Rightarrow> string \<Rightarrow> kp14_state \<Rightarrow> (kp14_error, ioc list) outcome \<times> kp14_state" where
  "run_remote_analysis ke c blob_path st =
     (case now ke 0 of
        None \<Rightarrow> (Panic, st)
      | Some t \<Rightarrow>
          (case status_of ke (transfer_cmd c blob_path t) st of
             (None, st1) \<Rightarrow> (Bail TransferNotRun, st1)
           | (Some False, st1) \<Rightarrow> (Bail TransferFailed, st1)
           | (Some True, st1) \<Rightarrow>
               (case now ke 1 of
                  None \<Rightarrow> (Panic, st1)
                | Some t1 \<Rightarrow>
                    (case analyse_remote ke c (remote_path t) (''remote_carved_'' @ show_nat t1) st1 of
                       (Inl e, st2) \<Rightarrow> (Bail e, st2)
                     | (Inr iocs, st2) \<Rightarrow> (Done iocs, snd (status_of ke (remove_cmd c t) st2))))))"

end
