(* ===== verification/Ioc_Json.thy ===== *)
theory Ioc_Json
  imports Kp14_Iocs
begin

text \<open>
  A reader of JSON documents of the shape the client hands over - an array of flat objects -
  as the reference for the text that \<open>push_iocs_to_misp\<close> builds: what it reads back from
  clean indicators, and what no JSON reader can accept.
\<close>

section \<open>Tokens\<close>

datatype json_token = JPunct char | JString string | JNumber string

definition backslash :: char where "backslash = CHR 0x5C"

definition hex_digit :: "char \<Rightarrow> bool" where
  "hex_digit c \<longleftrightarrow> (case digit_value c of Some d \<Rightarrow> d < 16 | None \<Rightarrow> False)"

definition escape_letters :: string where
  "escape_letters = [quote, backslash, CHR ''/'', CHR ''b'', CHR ''f'', CHR ''n'', CHR ''r'', CHR ''t'']"

text \<open>
  The body of a string literal, its escapes unresolved, and what follows the closing quote.
  Control characters and unknown escapes are errors.
\<close>

fun scan_string :: "string \<Rightarrow> (string \<times> string) option" where
  "scan_string [] = None"
| "scan_string (c # s) =
     (if c = quote then Some ([], s)
      else if c = backslash then
        (case s of
           [] \<Rightarrow> None
         | d # t \<Rightarrow>
             (if d \<in> set escape_letters then map_option (\<lambda>(b, r). (c # d # b, r)) (scan_string t)
              else if d = CHR ''u'' \<and> 4 \<le> length t \<and> list_all hex_digit (take 4 t)
              then map_option (\<lambda>(b, r). (c # d # take 4 t @ b, r)) (scan_string (drop 4 t))
              else None))
      else if (of_char c :: nat) < 32 then None
      else map_option (\<lambda>(b, r). (c # b, r)) (scan_string s))"

declare scan_string.simps(2) [simp del]

lemma scan_string_shorter: "scan_string s = Some (b, r) \<Longrightarrow> length r < length s"
proof (induction s arbitrary: b r rule: scan_string.induct)
  case (2 c s)
  show ?case
  proof (cases s)
    case Nil
    with "2.prems" "2.IH"(3) show ?thesis by (auto simp: scan_string.simps(2) split: if_splits)
  next
    case (Cons d t)
    then show ?thesis
      using "2.prems" "2.IH"(1) [OF _ _ Cons] "2.IH"(2) [OF _ _ Cons] "2.IH"(3)
      by (fastforce simp: scan_string.simps(2) split: if_splits)
  qed
qed simp

definition punctuation :: string where "punctuation = ''{}[]:,''"

definition number_char :: "char \<Rightarrow> bool" where
  "number_char c \<longleftrightarrow> ascii_digit c \<or> c \<in> set ''-+.eE''"

function lex_json :: "string \<Rightarrow> json_token list option" where
  "lex_json [] = Some []"
| "lex_json (c # s) =
     (if c \<in> set '' \<newline>'' \<or> c = CHR 0x09 \<or> c = CHR 0x0D then lex_json s
      else if c \<in> set punctuation then map_option (Cons (JPunct c)) (lex_json s)
      else if c = quote then
        (case scan_string s of
           None \<Rightarrow> None
         | Some (b, r) \<Rightarrow> map_option (Cons (JString b)) (lex_json r))
      else if ascii_digit c \<or> c = CHR ''-'' then
        map_option (Cons (JNumber (c # takeWhile number_char s))) (lex_json (dropWhile number_char s))
      else None)"
  by pat_completeness auto
termination
  by (relation "measure length")
    (auto simp: le_imp_less_Suc length_dropWhile_le intro: less_SucI dest: scan_string_shorter)

declare lex_json.simps(2) [simp del]

section \<open>Objects and arrays\<close>

type_synonym ioc_fields = "string \<times> string \<times> string \<times> string"

definition object_tokens :: "ioc_fields \<Rightarrow> json_token list" where
  "object_tokens x =
     (case x of (ty, v, conf, src) \<Rightarrow>
        [JPunct (CHR ''{''), JString ''type'', JPunct (CHR '':''), JString ty, JPunct (CHR '',''),
         JString ''value'', JPunct (CHR '':''), JString v, JPunct (CHR '',''),
         JString ''confidence'', JPunct (CHR '':''), JNumber conf, JPunct (CHR '',''),
         JString ''source'', JPunct (CHR '':''), JString src, JPunct (CHR ''}'')])"

fun token_text :: "json_token \<Rightarrow> string" where
  "token_text (JPunct c) = [c]"
| "token_text (JString s) = s"
| "token_text (JNumber s) = s"

definition read_object :: "json_token list \<Rightarrow> (ioc_fields \<times> json_token list) option" where
  "read_object ts =
     (if length ts < 17 then None
      else
        (let x = (token_text (ts ! 3), token_text (ts ! 7), token_text (ts ! 11), token_text (ts ! 15))
         in if take 17 ts = object_tokens x then Some (x, drop 17 ts) else None))"

lemma read_object_shorter: "read_object ts = Some (x, r) \<Longrightarrow> length r < length ts"
  by (auto simp: read_object_def Let_def split: if_splits)

function read_objects :: "json_token list \<Rightarrow> ioc_fields list option" where
  "read_objects ts =
     (case read_object ts of
        None \<Rightarrow> None
      | Some (x, r) \<Rightarrow>
          (if r = [JPunct (CHR '']'')] then Some [x]
           else if r \<noteq> [] \<and> hd r = JPunct (CHR '','') then map_option (Cons x) (read_objects (tl r))
           else None))"
  by pat_completeness auto
termination
  by (relation "measure length") (auto dest!: read_object_shorter)

declare read_objects.simps [simp del]

definition read_array :: "json_token list \<Rightarrow> ioc_fields list option" where
  "read_array ts =
     (if ts = [JPunct (CHR ''[''), JPunct (CHR '']'')] then Some []
      else if ts \<noteq> [] \<and> hd ts = JPunct (CHR ''['') then read_objects (tl ts)
      else None)"

definition read_iocs :: "string \<Rightarrow> ioc_fields list option" where
  "read_iocs s = Option.bind (lex_json s) read_array"


section \<open>Reading back what is written\<close>

text \<open>Text that stands for itself between quotes.\<close>

definition plain_char :: "char \<Rightarrow> bool" where
  "plain_char c \<longleftrightarrow> c \<noteq> quote \<and> c \<noteq> backslash \<and> 32 \<le> (of_char c :: nat)"

definition plain_text :: "string \<Rightarrow> bool" where "plain_text s \<longleftrightarrow> list_all plain_char s"

lemma scan_plain: "plain_text s \<Longrightarrow> scan_string (s @ quote # r) = Some (s, r)"
  by (induction s) (simp_all add: plain_text_def plain_char_def scan_string.simps(2))

lemma lex_punct: "c \<in> set punctuation \<Longrightarrow> lex_json (c # s) = map_option (Cons (JPunct c)) (lex_json s)"
  by (auto simp: lex_json.simps(2) punctuation_def)

lemma not_quote_other [simp]:
  "quote \<notin> set punctuation" "quote \<noteq> CHR '' ''" "quote \<noteq> CHR ''\<newline>''" "quote \<noteq> CHR 0x09" "quote \<noteq> CHR 0x0D"
  by (simp_all add: quote_def punctuation_def)

lemma lex_quoted: "plain_text s \<Longrightarrow> lex_json (quoted s @ r) = map_option (Cons (JString s)) (lex_json r)"
  by (simp add: quoted_def lex_json.simps(2) [of quote] scan_plain)

lemma lex_number:
  assumes "ascii_digit c" and "list_all number_char s" and "r = [] \<or> \<not> number_char (hd r)"
  shows "lex_json (c # s @ r) = map_option (Cons (JNumber (c # s))) (lex_json r)"
proof -
  have d: "48 \<le> (of_char c :: nat)" "(of_char c :: nat) \<le> 57" using assms(1) by (auto simp: ascii_digit_def Let_def)
  then have "c \<notin> set '' \<newline>''" "c \<noteq> CHR 0x09" "c \<noteq> CHR 0x0D" "c \<notin> set punctuation" "c \<noteq> quote"
    by (auto simp: punctuation_def quote_def)
  moreover have "takeWhile number_char (s @ r) = s" "dropWhile number_char (s @ r) = r"
    using assms(2,3) by (cases r; simp add: list_all_iff takeWhile_append2 dropWhile_append2)+
  ultimately show ?thesis using assms(1) by (simp add: lex_json.simps(2))
qed

lemma digit_char_ascii: "d < 10 \<Longrightarrow> ascii_digit (digit_char d)"
  using of_char_digit [of d] by (simp add: ascii_digit_def Let_def)

lemma show_nat_digits: "list_all ascii_digit (show_nat n)"
  using digits_bound [of 10] by (auto simp: show_nat_def list_all_iff intro!: digit_char_ascii)

lemma show_nat_nonempty: "show_nat n \<noteq> []"
  by (simp add: show_nat_def digits_nonempty)

lemma lex_confidence:
  assumes "r = [] \<or> \<not> number_char (hd r)"
  shows "lex_json (show_confidence n @ r) = map_option (Cons (JNumber (show_confidence n))) (lex_json r)"
proof -
  have num: "list_all number_char (show_nat k)" for k
    using show_nat_digits [of k] by (auto simp: list_all_iff number_char_def)
  obtain c s where cs: "show_nat (n div 100) = c # s"
    using show_nat_nonempty by (cases "show_nat (n div 100)") auto
  obtain t where t: "show_confidence n = c # s @ t" "list_all number_char t"
    using cs num by (auto simp: show_confidence_def number_char_def)
  have "ascii_digit c" using show_nat_digits [of "n div 100"] cs by simp
  moreover have "list_all number_char (s @ t)" using num [of "n div 100"] cs t(2) by simp
  ultimately show ?thesis using lex_number [of c "s @ t" r] assms t(1) by simp
qed

definition ioc_fields_of :: "ioc \<Rightarrow> ioc_fields" where
  "ioc_fields_of i = (show_ioc_type (i_type i), i_value i, show_confidence (confidence i), i_source i)"

definition clean_ioc :: "ioc \<Rightarrow> bool" where
  "clean_ioc i \<longleftrightarrow> plain_text (i_value i) \<and> plain_text (i_source i)"

lemma plain_words [simp]:
  "plain_text ''type''" "plain_text ''value''" "plain_text ''confidence''" "plain_text ''source''"
  "plain_text (show_ioc_type t)"
  by (code_simp, code_simp, code_simp, code_simp)
    (cases t; simp add: plain_text_def plain_char_def quote_def backslash_def)

lemma lex_ioc:
  assumes "clean_ioc i"
  shows "lex_json (ioc_json i @ r) = map_option (\<lambda>ts. object_tokens (ioc_fields_of i) @ ts) (lex_json r)"
proof -
  have p: "c \<in> set punctuation" if "c \<in> {CHR ''{'', CHR ''}'', CHR '':'', CHR '',''}" for c
    using that by (auto simp: punctuation_def)
  have n: "lex_json (show_confidence k @ CHR '','' # r) =
      map_option (Cons (JNumber (show_confidence k))) (lex_json (CHR '','' # r))" for k r
    by (rule lex_confidence) (simp add: number_char_def ascii_digit_def)
  show ?thesis
    using assms
    by (simp add: ioc_json_def lex_punct p lex_quoted n clean_ioc_def object_tokens_def ioc_fields_of_def
        option.map_comp comp_def)
qed

lemma read_object_tokens: "read_object (object_tokens x @ ts) = Some (x, ts)"
  by (cases x) (simp add: read_object_def object_tokens_def Let_def)

lemma object_tokens_nonempty [simp]: "object_tokens x \<noteq> []"
  by (cases x) (simp add: object_tokens_def)

fun tail_tokens :: "ioc_fields list \<Rightarrow> json_token list" where
  "tail_tokens [] = [JPunct (CHR '']'')]"
| "tail_tokens (x # xs) = JPunct (CHR '','') # object_tokens x @ tail_tokens xs"

lemma read_objects_tokens: "read_objects (object_tokens x @ tail_tokens xs) = Some (x # xs)"
proof (induction xs arbitrary: x)
  case Nil
  then show ?case by (subst read_objects.simps) (simp add: read_object_tokens)
next
  case (Cons y ys)
  then show ?case by (subst read_objects.simps) (simp add: read_object_tokens)
qed

lemma array_punct: "CHR '','' \<in> set punctuation" "CHR '']'' \<in> set punctuation" "CHR ''['' \<in> set punctuation"
  by (simp_all add: punctuation_def)

lemma lex_join_Suc:
  "list_all clean_ioc iocs \<Longrightarrow>
     lex_json (join_json (Suc n) iocs @ '']'') = Some (tail_tokens (map ioc_fields_of iocs))"
  by (induction iocs arbitrary: n) (simp_all add: lex_punct array_punct lex_ioc)

lemma lex_iocs_json:
  "list_all clean_ioc (i # iocs) \<Longrightarrow>
     lex_json (iocs_json (i # iocs)) =
       Some (JPunct (CHR ''['') # object_tokens (ioc_fields_of i) @ tail_tokens (map ioc_fields_of iocs))"
  by (simp add: iocs_json_def lex_punct array_punct lex_ioc lex_join_Suc)

lemma read_iocs_json: "list_all clean_ioc iocs \<Longrightarrow> read_iocs (iocs_json iocs) = Some (map ioc_fields_of iocs)"
proof (cases iocs)
  case Nil
  then show ?thesis by (simp add: read_iocs_def iocs_json_def lex_punct array_punct read_array_def)
next
  case (Cons i rest)
  assume "list_all clean_ioc iocs"
  then have "lex_json (iocs_json iocs) = Some (JPunct (CHR ''['') # object_tokens (ioc_fields_of i) @
      tail_tokens (map ioc_fields_of rest))"
    using lex_iocs_json [of i rest] Cons by simp
  moreover have "object_tokens (ioc_fields_of i) @ tail_tokens xs \<noteq> [JPunct (CHR '']'')]" for xs
    by (simp add: object_tokens_def ioc_fields_of_def)
  ultimately show ?thesis using Cons by (simp add: read_iocs_def read_array_def read_objects_tokens)
qed

section \<open>What cannot be read\<close>

text \<open>
  Text with a backslash before a letter that starts no escape, standing after letters that
  start no escape either: whether it falls inside a string literal or outside, no reader
  gets past it.
\<close>

definition registry_text :: string where "registry_text = ''HKLM'' @ esc ''S''"

lemma scan_registry:
  "scan_string (registry_text @ t) = None"
  by (simp add: registry_text_def esc_def scan_string.simps(2) quote_def backslash_def escape_letters_def)

lemma letter_H:
  "\<not> hex_digit (CHR ''H'')" "CHR ''H'' \<notin> set escape_letters" "\<not> number_char (CHR ''H'')"
  by (simp_all add: hex_digit_def digit_value_def Let_def escape_letters_def quote_def backslash_def
      number_char_def ascii_digit_def)

text \<open>Reading up to such text \<open>x\<close> cannot consume a part of it.\<close>

lemma scan_past:
  assumes x: "x = CHR ''H'' # y" "scan_string x = None"
  shows "scan_string (a @ x) = Some (b, r) \<Longrightarrow> \<exists>a'. r = a' @ x"
proof (induction a arbitrary: b rule: length_induct)
  case (1 a)
  have IH: "\<exists>a'. r = a' @ x" if "length a' < length a" "scan_string (a' @ x) = Some (b, r)" for a' b
    using "1.IH" that by blast
  have short: "\<not> list_all hex_digit (take 4 (z @ x))" if "length z < 4" for z
    using that letter_H(1) x(1) by (cases "4 - length z") auto
  note step = scan_string.simps(2)
  consider "a = []" | a1 where "a = quote # a1" | "a = [backslash]" | d a2 where "a = backslash # d # a2"
    | c a1 where "a = c # a1" "c \<noteq> quote" "c \<noteq> backslash"
    by (cases a rule: remdups_adj.cases; metis)
  then show ?case
  proof cases
    case 1
    with "1.prems" x show ?thesis by simp
  next
    case 2
    with "1.prems" show ?thesis by (auto simp: step)
  next
    case 3
    with "1.prems" x(1) letter_H(2) show ?thesis by (auto simp: step quote_def backslash_def)
  next
    case (4 d a2)
    show ?thesis
      using "1.prems" 4 short [of a2] IH [of a2] IH [of "drop 4 a2"]
      by (cases "length a2 < 4") (auto simp: step quote_def backslash_def split: if_splits)
  next
    case (5 c a1)
    with "1.prems" IH [of a1] show ?thesis by (auto simp: step split: if_splits)
  qed
qed

lemma lex_past:
  assumes x: "x = CHR ''H'' # y" "scan_string x = None" and lex: "lex_json x = None"
  shows "lex_json (a @ x) = None"
proof (induction a rule: length_induct)
  case (1 a)
  show ?case
  proof (cases a)
    case Nil
    with lex show ?thesis by simp
  next
    case a: (Cons c a1)
    have IH: "lex_json (a' @ x) = None" if "length a' \<le> length a1" for a'
      using "1.IH" that a by auto
    have num: "lex_json (dropWhile number_char (a1 @ x)) = None"
    proof (cases "\<forall>z \<in> set a1. number_char z")
      case True
      with x(1) letter_H(3) lex show ?thesis by (simp add: dropWhile_append2)
    next
      case False
      with IH [of "dropWhile number_char a1"] show ?thesis
        by (auto simp: dropWhile_append length_dropWhile_le)
    qed
    have str: "lex_json r = None" if s: "scan_string (a1 @ x) = Some (b, r)" for b r
    proof -
      obtain a' where "r = a' @ x" using scan_past [OF x s] by blast
      with IH [of a'] scan_string_shorter [OF s] show ?thesis by simp
    qed
    show ?thesis
      using a IH [of a1] num str by (auto simp: lex_json.simps(2) split: option.split)
  qed
qed

lemma lex_registry: "lex_json (a @ registry_text @ t) = None"
proof (rule lex_past [OF _ scan_registry])
  show "registry_text @ t = CHR ''H'' # tl (registry_text @ t)" by (simp add: registry_text_def)
  show "lex_json (registry_text @ t) = None"
    by (simp add: registry_text_def lex_json.simps(2) punctuation_def quote_def ascii_digit_def)
qed

end
