(* ===== verification/Dashboard.thy ===== *)
theory Dashboard
  imports Qihse Ioc_Json Kp14_Blob "HOL-Library.Sublist"
begin

text \<open>
  The dashboard of \<open>dashboard/dashboard.py\<close>: a web server that shows the last entries of the
  agent's log and appends an entry for every manual action. Text is given by its UTF-8 bytes,
  which is also the encoding in which Python is taken to open the log. What the HTTP library
  reads from the connection, and what \<open>json.loads\<close> makes of it, are parameters.
\<close>

section \<open>Python's text functions\<close>

text \<open>\<open>strip()\<close>: unlike Rust, Python takes the four separators below the space as white space.\<close>

definition py_space :: "string \<Rightarrow> bool" where
  "py_space x \<longleftrightarrow> ws x \<or> x \<in> {[CHR 0x1C], [CHR 0x1D], [CHR 0x1E], [CHR 0x1F]}"

definition strip :: "string \<Rightarrow> string" where
  "strip s = concat (trim_matches py_space (utf8_chars s))"

text \<open>Text mode reads all line ends as a line feed; \<open>readlines()\<close> keeps it.\<close>

fun universal_newlines :: "string \<Rightarrow> string" where
  "universal_newlines [] = []"
| "universal_newlines [c] = (if c = CHR 0x0D then ''\<newline>'' else [c])"
| "universal_newlines (c # d # s) =
     (if c = CHR 0x0D \<and> d = CHR ''\<newline>'' then CHR ''\<newline>'' # universal_newlines s
      else (if c = CHR 0x0D then CHR ''\<newline>'' else c) # universal_newlines (d # s))"

fun readlines_from :: "string \<Rightarrow> string \<Rightarrow> string list" where
  "readlines_from acc [] = (if acc = [] then [] else [acc])"
| "readlines_from acc (c # s) =
     (if c = CHR ''\<newline>'' then (acc @ [c]) # readlines_from [] s else readlines_from (acc @ [c]) s)"

definition readlines :: "string \<Rightarrow> string list" where "readlines s = readlines_from [] (universal_newlines s)"

section \<open>json.dumps\<close>

text \<open>The number of a character.\<close>

definition code_point :: "string \<Rightarrow> nat" where
  "code_point x =
     (case map of_char x of
        [a] \<Rightarrow> a
      | [a, b] \<Rightarrow> (a mod 32) * 64 + b mod 64
      | [a, b, c] \<Rightarrow> (a mod 16) * 4096 + (b mod 64) * 64 + c mod 64
      | [a, b, c, d] \<Rightarrow> (a mod 8) * 262144 + (b mod 64) * 4096 + (c mod 64) * 64 + d mod 64
      | _ \<Rightarrow> 0)"

definition utf16 :: "nat \<Rightarrow> nat list" where
  "utf16 n =
     (if n < 65536 then [n]
      else [55296 + (n - 65536) div 1024 mod 1024, 56320 + (n - 65536) mod 1024])"

definition hex4 :: "nat \<Rightarrow> string" where
  "hex4 n = map digit_char [n div 4096 mod 16, n div 256 mod 16, n div 16 mod 16, n mod 16]"

definition escape_unit :: "nat \<Rightarrow> string" where "escape_unit n = backslash # CHR ''u'' # hex4 n"

text \<open>Non-ASCII characters are escaped as UTF-16, control characters by letter or number.\<close>

definition escape_char :: "string \<Rightarrow> string" where
  "escape_char x =
     (if x = [quote] \<or> x = [backslash] then backslash # x
      else if x = ''\<newline>'' then backslash # ''n''
      else if x = [CHR 0x0D] then backslash # ''r''
      else if x = [CHR 0x09] then backslash # ''t''
      else if x = [CHR 0x0C] then backslash # ''f''
      else if x = [CHR 0x08] then backslash # ''b''
      else if length x = 1 \<and> 32 \<le> code_point x \<and> code_point x < 127 then x
      else concat (map escape_unit (utf16 (code_point x))))"

definition dumps_string :: "string \<Rightarrow> string" where
  "dumps_string s = quote # concat (map escape_char (utf8_chars s)) @ [quote]"

definition dumps_list :: "string list \<Rightarrow> string" where
  "dumps_list xs = ''['' @ join '', '' (map dumps_string xs) @ '']''"

section \<open>Requests\<close>

datatype log_file = LogMissing | LogUnreadable | LogText string

text \<open>A reply; \<open>cut\<close> when the handler raised after its header, which closes the connection.\<close>

record reply =
  status :: nat
  headers :: "(string \<times> string) list"
  body :: string
  cut :: bool

definition wal_events :: "log_file \<Rightarrow> string list option" where
  "wal_events f =
     (case f of
        LogMissing \<Rightarrow> Some []
      | LogUnreadable \<Rightarrow> None
      | LogText s \<Rightarrow> (if utf8 s then Some (map strip (readlines s)) else None))"

text \<open>\<open>events[-100:][::-1]\<close>.\<close>

definition newest_first :: "string list \<Rightarrow> string list" where
  "newest_first es = rev (drop (length es - 100) es)"

definition json_headers :: "(string \<times> string) list" where
  "json_headers = [(''Content-type'', ''application/json''), (''Access-Control-Allow-Origin'', ''*'')]"

definition do_GET :: "string option \<Rightarrow> log_file \<Rightarrow> string \<Rightarrow> reply" where
  "do_GET index log path =
     (if path = ''/'' then
        \<lparr>status = 200, headers = [(''Content-type'', ''text/html'')],
         body = (case index of None \<Rightarrow> [] | Some f \<Rightarrow> f), cut = (index = None)\<rparr>
      else if path = ''/api/events'' then
        \<lparr>status = 200, headers = json_headers,
         body = (case wal_events log of None \<Rightarrow> [] | Some es \<Rightarrow> dumps_list (newest_first es)),
         cut = (wal_events log = None)\<rparr>
      else \<lparr>status = 404, headers = [], body = [], cut = False\<rparr>)"

text \<open>
  What the handler gets: no usable length (it raises before any reply), data that leads to an
  exception with this text, or an action - as text and as JSON.
\<close>

datatype post_data = BadLength | LoadFails string | Action string string

definition control_entry :: "string \<Rightarrow> string \<Rightarrow> string" where
  "control_entry now action =
     ''['' @ now @ ''] [QIHSE] [EDR_ACTION] MANUAL_CONTROL_TRIGGERED: '' @ action @ ''\<newline>''"

definition do_POST :: "string \<Rightarrow> string \<Rightarrow> wal_env \<Rightarrow> string \<Rightarrow> post_data \<Rightarrow> wal_file \<Rightarrow> reply option \<times> wal_file" where
  "do_POST now io_error env path data w =
     (if path \<noteq> ''/api/control'' then (Some \<lparr>status = 404, headers = [], body = [], cut = False\<rparr>, w)
      else (case data of
          BadLength \<Rightarrow> (None, w)
        | LoadFails e \<Rightarrow>
            (Some \<lparr>status = 500, headers = [], body = ''{'' @ dumps_string ''error'' @ '': '' @ dumps_string e @ ''}'',
               cut = False\<rparr>, w)
        | Action action action_json \<Rightarrow>
            (case wal_append env (control_entry now action) w of
               (Inl e, w1) \<Rightarrow>
                 (Some \<lparr>status = 500, headers = [], body = ''{'' @ dumps_string ''error'' @ '': '' @
                    dumps_string io_error @ ''}'', cut = False\<rparr>, w1)
             | (Inr u, w1) \<Rightarrow>
                 (Some \<lparr>status = 200, headers = json_headers,
                    body = ''{'' @ dumps_string ''status'' @ '': '' @ dumps_string ''success'' @ '', '' @
                      dumps_string ''action'' @ '': '' @ action_json @ ''}'', cut = False\<rparr>, w1))))"

section \<open>A reader of arrays of strings\<close>

text \<open>The UTF-16 units a literal stands for.\<close>

definition hex_value :: "string \<Rightarrow> nat" where
  "hex_value s = foldl (\<lambda>a c. 16 * a + the (digit_value c)) 0 s"

definition escape_code :: "char \<Rightarrow> nat" where
  "escape_code c =
     (if c = CHR ''n'' then 10 else if c = CHR ''r'' then 13 else if c = CHR ''t'' then 9
      else if c = CHR ''f'' then 12 else if c = CHR ''b'' then 8 else of_char c)"

fun literal_units :: "string \<Rightarrow> nat list" where
  "literal_units [] = []"
| "literal_units [c] = [of_char c]"
| "literal_units (c # d # s) =
     (if c = backslash then
        (if d = CHR ''u'' then hex_value (take 4 s) # literal_units (drop 4 s)
         else escape_code d # literal_units s)
      else of_char c # literal_units (d # s))"

declare literal_units.simps(3) [simp del]

fun read_rest :: "json_token list \<Rightarrow> string list option" where
  "read_rest [JPunct c] = (if c = CHR '']'' then Some [] else None)"
| "read_rest (JPunct c # JString s # ts) =
     (if c = CHR '','' then map_option (Cons s) (read_rest ts) else None)"
| "read_rest ts = None"

fun read_list :: "json_token list \<Rightarrow> string list option" where
  "read_list (JPunct c # JString s # ts) =
     (if c = CHR ''['' then map_option (Cons s) (read_rest ts) else None)"
| "read_list ts = (if ts = [JPunct (CHR ''[''), JPunct (CHR '']'')] then Some [] else None)"

definition read_strings :: "string \<Rightarrow> nat list list option" where
  "read_strings s = map_option (map literal_units) (Option.bind (lex_json s) read_list)"

definition units :: "string \<Rightarrow> nat list" where
  "units s = concat (map (utf16 \<circ> code_point) (utf8_chars s))"

section \<open>What is sent reads back\<close>

lemma literal_units_Cons:
  "c \<noteq> backslash \<Longrightarrow> literal_units (c # s) = of_char c # literal_units s"
  by (cases s) (simp_all add: literal_units.simps(3))

lemma hex_digit_char: "d < 16 \<Longrightarrow> hex_digit (digit_char d)"
  by (simp add: hex_digit_def digit_value_char)

lemma hex4_digits: "length (hex4 n) = 4" "list_all hex_digit (hex4 n)"
  by (simp_all add: hex4_def hex_digit_char)

lemma hex4_value: "n < 65536 \<Longrightarrow> hex_value (hex4 n) = n"
proof -
  assume n: "n < 65536"
  have v: "the (digit_value (digit_char (k mod 16))) = k mod 16" for k :: nat by (simp add: digit_value_char)
  have "n div 16 div 16 = n div 256" "n div 256 div 16 = n div 4096" "n div 4096 mod 16 = n div 4096"
    using n by (simp_all flip: div_mult2_eq add: less_mult_imp_div_less)
  then have "n div 256 = 16 * (n div 4096) + n div 256 mod 16" "n div 16 = 16 * (n div 256) + n div 16 mod 16"
    "n = 16 * (n div 16) + n mod 16"
    by (metis mult_div_mod_eq)+
  moreover have "hex_value (hex4 n) =
      4096 * (n div 4096 mod 16) + 256 * (n div 256 mod 16) + 16 * (n div 16 mod 16) + n mod 16"
    by (simp add: hex_value_def hex4_def v)
  ultimately show ?thesis using \<open>n div 4096 mod 16 = n div 4096\<close> by linarith
qed

lemma utf16_small: "n \<in> set (utf16 m) \<Longrightarrow> n < 65536"
proof -
  have "k div 1024 mod 1024 < 1024" "k mod 1024 < 1024" for k :: nat by simp_all
  then show "n \<in> set (utf16 m) \<Longrightarrow> n < 65536" by (fastforce simp: utf16_def split: if_splits)
qed

text \<open>The three shapes of an escaped character.\<close>

lemma escape_cases:
  obtains (letter) d where "escape_char x = [backslash, d]" and "d \<in> set escape_letters"
    and "utf16 (code_point x) = [escape_code d]"
  | (plain) c where "escape_char x = [c]" and "plain_char c" and "utf16 (code_point x) = [of_char c]"
  | (coded) "escape_char x = concat (map escape_unit (utf16 (code_point x)))"
proof -
  show thesis
  proof (cases "x \<in> {[quote], [backslash], ''\<newline>'', [CHR 0x0D], [CHR 0x09], [CHR 0x0C], [CHR 0x08]}")
    case True
    then show thesis
      by (auto intro!: letter simp: escape_char_def escape_letters_def escape_code_def code_point_def utf16_def
          quote_def backslash_def)
  next
    case False
    show thesis
    proof (cases "length x = 1 \<and> 32 \<le> code_point x \<and> code_point x < 127")
      case True
      then obtain c where c: "x = [c]" by (cases x) auto
      with True False show thesis
        by (intro plain [of c]) (simp_all add: escape_char_def plain_char_def code_point_def utf16_def)
    next
      assume "\<not> (length x = 1 \<and> 32 \<le> code_point x \<and> code_point x < 127)"
      with False show thesis by (intro coded) (auto simp: escape_char_def)
    qed
  qed
qed

lemma scan_letter:
  "d \<in> set escape_letters \<Longrightarrow>
     scan_string (backslash # d # s) = map_option (\<lambda>(b, r). (backslash # d # b, r)) (scan_string s)"
  by (simp add: scan_string.simps(2) backslash_def quote_def)

lemma scan_unit: "scan_string (escape_unit n @ s) = map_option (\<lambda>(b, r). (escape_unit n @ b, r)) (scan_string s)"
proof -
  have "CHR ''u'' \<notin> set escape_letters" by (simp add: escape_letters_def quote_def backslash_def)
  then show ?thesis
    using hex4_digits [of n]
    by (simp add: escape_unit_def scan_string.simps(2) [of backslash]) (simp add: backslash_def quote_def)
qed

lemma scan_units:
  "scan_string (concat (map escape_unit ns) @ s) =
     map_option (\<lambda>(b, r). (concat (map escape_unit ns) @ b, r)) (scan_string s)"
  by (induction ns) (simp_all add: scan_unit option.map_comp comp_def case_prod_beta option.map_ident)

lemma scan_escaped:
  "scan_string (escape_char x @ s) = map_option (\<lambda>(b, r). (escape_char x @ b, r)) (scan_string s)"
proof (cases x rule: escape_cases)
  case (letter d)
  then show ?thesis by (simp add: scan_letter)
next
  case (plain c)
  then show ?thesis by (simp add: scan_string.simps(2) plain_char_def)
next
  case coded
  then show ?thesis by (simp add: scan_units)
qed

lemma scan_dumped:
  "scan_string (concat (map escape_char xs) @ quote # r) = Some (concat (map escape_char xs), r)"
  by (induction xs) (simp_all add: scan_escaped scan_string.simps(2))

lemma unit_literal: "n < 65536 \<Longrightarrow> literal_units (escape_unit n @ s) = n # literal_units s"
  using hex4_digits [of n] hex4_value [of n] by (simp add: escape_unit_def literal_units.simps(3))

lemma units_literal:
  "(\<And>n. n \<in> set ns \<Longrightarrow> n < 65536) \<Longrightarrow> literal_units (concat (map escape_unit ns) @ s) = ns @ literal_units s"
  by (induction ns) (simp_all add: unit_literal)

lemma escaped_literal: "literal_units (escape_char x @ s) = utf16 (code_point x) @ literal_units s"
proof (cases x rule: escape_cases)
  case (letter d)
  then have "d \<noteq> CHR ''u''" by (auto simp: escape_letters_def quote_def backslash_def)
  with letter show ?thesis by (simp add: literal_units.simps(3))
next
  case (plain c)
  then show ?thesis by (simp add: literal_units_Cons plain_char_def)
next
  case coded
  then show ?thesis using utf16_small by (simp add: units_literal)
qed

lemma dumped_literal: "literal_units (concat (map escape_char xs)) = concat (map (utf16 \<circ> code_point) xs)"
  by (induction xs) (simp_all add: escaped_literal)

lemma lex_dumped:
  "lex_json (dumps_string s @ r) = map_option (Cons (JString (concat (map escape_char (utf8_chars s))))) (lex_json r)"
  by (simp add: dumps_string_def lex_json.simps(2) [of quote] scan_dumped)

lemma lex_space: "lex_json (CHR '' '' # s) = lex_json s"
  by (simp add: lex_json.simps(2))

fun tail_strings :: "string list \<Rightarrow> json_token list" where
  "tail_strings [] = [JPunct (CHR '']'')]"
| "tail_strings (x # xs) = JPunct (CHR '','') # JString (concat (map escape_char (utf8_chars x))) # tail_strings xs"

lemma lex_tail:
  "lex_json (join '', '' (map dumps_string (x # xs)) @ '']'') =
     Some (JString (concat (map escape_char (utf8_chars x))) # tail_strings xs)"
proof (induction xs arbitrary: x)
  case Nil
  show ?case by (simp add: lex_dumped lex_punct array_punct)
next
  case (Cons y ys)
  then show ?case by (simp add: lex_dumped lex_punct array_punct lex_space)
qed

lemma read_tail: "read_rest (tail_strings xs) = Some (map (\<lambda>x. concat (map escape_char (utf8_chars x))) xs)"
  by (induction xs) simp_all

lemma read_dumps_list: "read_strings (dumps_list xs) = Some (map units xs)"
proof (cases xs)
  case Nil
  then show ?thesis by (simp add: read_strings_def dumps_list_def lex_punct array_punct)
next
  case (Cons y ys)
  have "lex_json (dumps_list (y # ys)) =
      Some (JPunct (CHR ''['') # JString (concat (map escape_char (utf8_chars y))) # tail_strings ys)"
    using lex_tail [of y ys] by (simp add: dumps_list_def lex_punct array_punct)
  then show ?thesis using Cons by (simp add: read_strings_def read_tail units_def dumped_literal)
qed

section \<open>What of the log is shown\<close>

text \<open>A line of printable ASCII characters that neither begins nor ends with a space.\<close>

definition plain_line :: "string \<Rightarrow> bool" where
  "plain_line l \<longleftrightarrow> l \<noteq> [] \<and> list_all (\<lambda>c. 32 \<le> (of_char c :: nat) \<and> of_char c < (127 :: nat)) l \<and>
     hd l \<noteq> CHR '' '' \<and> last l \<noteq> CHR '' ''"

definition unlines :: "string list \<Rightarrow> string" where "unlines ls = concat (map (\<lambda>l. l @ ''\<newline>'') ls)"

lemma plain_line_ascii: "plain_line l \<Longrightarrow> list_all (\<lambda>c. of_char c < (128 :: nat)) l"
  by (auto simp: plain_line_def list_all_iff)

lemma universal_plain:
  "CHR 0x0D \<notin> set s \<Longrightarrow> universal_newlines s = s"
  by (induction s rule: universal_newlines.induct) auto

lemma readlines_line:
  "CHR ''\<newline>'' \<notin> set l \<Longrightarrow> readlines_from acc (l @ ''\<newline>'' @ s) = (acc @ l @ ''\<newline>'') # readlines_from [] s"
  by (induction l arbitrary: acc) auto

lemma plain_no_breaks: "plain_line l \<Longrightarrow> CHR ''\<newline>'' \<notin> set l \<and> CHR 0x0D \<notin> set l"
  by (auto simp: plain_line_def list_all_iff)

lemma readlines_unlines:
  assumes "list_all plain_line ls"
  shows "readlines (unlines ls) = map (\<lambda>l. l @ ''\<newline>'') ls"
proof -
  have "CHR 0x0D \<notin> set (unlines ls)"
    using assms plain_no_breaks by (auto simp: unlines_def list_all_iff)
  then have "readlines (unlines ls) = readlines_from [] (unlines ls)" by (simp add: readlines_def universal_plain)
  also have "\<dots> = map (\<lambda>l. l @ ''\<newline>'') ls"
    using assms by (induction ls) (simp_all add: unlines_def plain_no_breaks readlines_line [simplified])
  finally show ?thesis .
qed

lemma trim_matches_last:
  assumes "P y" and "xs \<noteq> []" and "\<not> P (hd xs)" and "\<not> P (last xs)"
  shows "trim_matches P (xs @ [y]) = xs"
proof -
  have id: "dropWhile P ys = ys" if "ys \<noteq> []" "\<not> P (hd ys)" for ys using that by (cases ys) auto
  from assms show ?thesis by (simp add: trim_matches_def id hd_rev)
qed

lemma strip_plain:
  assumes "plain_line l"
  shows "strip (l @ ''\<newline>'') = l"
proof -
  let ?xs = "map (\<lambda>c. [c]) l"
  have chars: "utf8_chars (l @ ''\<newline>'') = ?xs @ [''\<newline>'']"
    using utf8_chars_ascii [OF plain_line_ascii [OF assms], of "''\<newline>''"] utf8_chars_ascii [of "''\<newline>''" "[]"] by simp
  have no: "\<not> py_space [c]" if "32 < (of_char c :: nat)" "of_char c < (127 :: nat)" for c
    using that by (auto simp: py_space_def ws_def white_space_def)
  have space: "c = CHR '' ''" if "of_char c = (32 :: nat)" for c
  proof -
    have "of_char c = (of_char (CHR '' '') :: nat)" using that by simp
    then show ?thesis by (simp only: of_char_eq_iff)
  qed
  have ends: "32 < (of_char c :: nat) \<and> of_char c < (127 :: nat)" if "c \<in> {hd l, last l}" for c
  proof -
    have "c \<in> set l" "c \<noteq> CHR '' ''" using assms that by (auto simp: plain_line_def)
    then show ?thesis using assms space [of c] by (force simp: plain_line_def list_all_iff less_le)
  qed
  have "py_space ''\<newline>''" by (simp add: py_space_def ws_newline)
  moreover have "?xs \<noteq> []" "\<not> py_space (hd ?xs)" "\<not> py_space (last ?xs)"
    using assms ends no by (auto simp: plain_line_def hd_map last_map)
  ultimately have "trim_matches py_space (?xs @ [''\<newline>'']) = ?xs" by (rule trim_matches_last)
  then show ?thesis unfolding strip_def chars by simp
qed

lemma utf8_ascii: "list_all (\<lambda>c. of_char c < (128 :: nat)) s \<Longrightarrow> utf8 s"
proof -
  assume "list_all (\<lambda>c. of_char c < (128 :: nat)) s"
  then have "ascii (cbytes s)" by (auto simp: ascii_def cbytes_def list_all_iff unat_ch)
  from from_utf8_lossy_ascii [OF this] show ?thesis by (simp add: utf8_def)
qed

lemma wal_events_plain:
  assumes "list_all plain_line ls"
  shows "wal_events (LogText (unlines ls)) = Some ls"
proof -
  have "list_all (\<lambda>c. of_char c < (128 :: nat)) (unlines ls)"
    using assms plain_line_ascii by (fastforce simp: unlines_def list_all_iff)
  then have "utf8 (unlines ls)" by (rule utf8_ascii)
  moreover have "map strip (map (\<lambda>l. l @ ''\<newline>'') ls) = ls"
    using assms by (induction ls) (simp_all add: strip_plain [simplified])
  ultimately show ?thesis by (simp add: wal_events_def readlines_unlines [OF assms])
qed

lemma units_ascii: "list_all (\<lambda>c. of_char c < (128 :: nat)) s \<Longrightarrow> units s = map of_char s"
proof -
  assume s: "list_all (\<lambda>c. of_char c < (128 :: nat)) s"
  have "concat (map (utf16 \<circ> code_point) (map (\<lambda>c. [c]) s)) = map of_char s"
    using s by (induction s) (simp_all add: utf16_def code_point_def)
  then show ?thesis using utf8_chars_ascii [OF s, of "[]"] by (simp add: units_def)
qed

text \<open>
  What the dashboard shows is the log: for a log of plain lines the reply to its events
  request is JSON that reads back to the last hundred lines, the newest first, character by
  character.
\<close>

theorem dashboard_shows_log:
  assumes "list_all plain_line ls"
  shows "status (do_GET index (LogText (unlines ls)) ''/api/events'') = 200 \<and>
    read_strings (body (do_GET index (LogText (unlines ls)) ''/api/events'')) =
      Some (map (map of_char) (rev (drop (length ls - 100) ls)))"
proof -
  have "map units (newest_first ls) = map (map of_char) (rev (drop (length ls - 100) ls))"
    using assms units_ascii [OF plain_line_ascii] by (auto simp: newest_first_def list_all_iff dest: in_set_dropD)
  then show ?thesis by (simp add: do_GET_def wal_events_plain [OF assms] read_dumps_list)
qed

theorem dashboard_shows_log_witness:
  "read_strings (body (do_GET None (LogText (unlines [''VEC:[TLS] | A'', ''VEC:[YARA] | B''])) ''/api/events'')) =
     Some (map (map of_char) [''VEC:[YARA] | B'', ''VEC:[TLS] | A''])"
  using dashboard_shows_log [of "[''VEC:[TLS] | A'', ''VEC:[YARA] | B'']" None]
  by (simp add: plain_line_def)

text \<open>
  An action sent to the dashboard is written to the log as it is: with a line break in it, one
  request adds a second line of the sender's choice, which the dashboard shows as an entry.
\<close>

lemma control_forges:
  assumes "env (wal_attempts w) = IoOk" and "wal_content w = unlines ls" and "list_all plain_line ls"
    and "plain_line (''['' @ now @ ''] [QIHSE] [EDR_ACTION] MANUAL_CONTROL_TRIGGERED: '' @ a)" and "plain_line forged"
  shows "wal_events (LogText (wal_content (snd (do_POST now e env ''/api/control''
      (Action (a @ ''\<newline>'' @ forged) json) w)))) =
    Some (ls @ [''['' @ now @ ''] [QIHSE] [EDR_ACTION] MANUAL_CONTROL_TRIGGERED: '' @ a, forged])"
proof -
  let ?l = "''['' @ now @ ''] [QIHSE] [EDR_ACTION] MANUAL_CONTROL_TRIGGERED: '' @ a"
  have "wal_content (snd (do_POST now e env ''/api/control'' (Action (a @ ''\<newline>'' @ forged) json) w)) =
      unlines (ls @ [?l, forged])"
    using assms(1,2) by (simp add: do_POST_def wal_append_ok control_entry_def unlines_def)
  moreover have "list_all plain_line (ls @ [?l, forged])" using assms(3-5) by simp
  ultimately show ?thesis using wal_events_plain by simp
qed

text \<open>Manual actions change nothing but the log, and only by adding to it.\<close>

lemma control_only_logs: "prefix (wal_content w) (wal_content (snd (do_POST now e env path data w)))"
proof -
  have "\<exists>entry. snd (do_POST now e env path data w) \<in> {w, snd (wal_append env entry w)}"
  proof (cases data)
    case (Action a j)
    have "snd (do_POST now e env path data w) \<in> {w, snd (wal_append env (control_entry now a) w)}"
      by (cases "wal_append env (control_entry now a) w") (simp add: do_POST_def Action split: sum.split)
    then show ?thesis by blast
  qed (simp_all add: do_POST_def)
  then obtain entry where "snd (do_POST now e env path data w) \<in> {w, snd (wal_append env entry w)}" by blast
  with wal.log_grows [of env entry w] show ?thesis by (auto simp: prefix_def)
qed

end
