(* ===== verification/Agent_System.thy ===== *)
theory Agent_System
  imports Agent_Main Kp14_Client Dashboard
begin

text \<open>
  The running agent: the sensor's ring buffers and maps, the callbacks, the responder task
  with its bounded queue, the sidecar with its channel, the research mode monitor and the delayed
  tasks of \<open>src/main.rs\<close>, and the dashboard, which writes to the same log, as one transition system. A step is one run
  of a handler; steps of different tasks come in any order.
\<close>

section \<open>State\<close>

text \<open>
  Ring buffers are read in order; \<open>events_polled\<close> and \<open>tls_polled\<close> count what the agent has
  read. \<open>answered\<close>, \<open>drained\<close>, \<open>rejected\<close> (addresses whose map update failed, as
  reported) and \<open>handed_over\<close> are histories; \<open>analyses\<close> and \<open>cleanups\<close> are
  the tasks that have been spawned and not yet run, \<open>analysed\<close> and \<open>volumes_removed\<close> histories of
  those that were run; \<open>daemon_waiting\<close> is set until the
  background run of the KP14 daemon, which is started once, has ended. \<open>sidecar\<close> is where the
  sidecar stands in its loop, \<open>heard\<close> the history of the attributes it was sent.
\<close>

datatype sidecar_phase = Asleep | Sending "misp_attribute list" | Feed_Due

record agent_system =
  sensor :: bpf_state
  events_polled :: nat
  tls_polled :: nat
  agent :: agent_state
  research :: bool
  was_active :: bool
  intel_channel :: "u32 list"
  drained :: "u32 list"
  rejected :: "u32 list"
  answered :: "(u32 \<times> response) list"
  analyses :: "string list"
  cleanups :: "(string \<times> nat) list"
  analysed :: "string list"
  volumes_removed :: "(string \<times> nat) list"
  handed_over :: "(string \<times> byte list) list"
  daemon_waiting :: bool
  sidecar :: sidecar_phase
  heard :: "misp_attribute list"

definition INTEL_CAPACITY :: nat where "INTEL_CAPACITY = 100"

definition system_start :: "bpf_state \<Rightarrow> agent_system" where
  "system_start s =
     \<lparr>sensor = s, events_polled = 0, tls_polled = 0,
      agent = \<lparr>wal = \<lparr>wal_content = [], wal_attempts = 0\<rparr>, responder_queue = [], commands = []\<rparr>,
      research = False, was_active = False, intel_channel = [], drained = [], rejected = [], answered = [],
      analyses = [], cleanups = [], analysed = [], volumes_removed = [], handed_over = [], daemon_waiting = True,
      sidecar = Asleep, heard = []\<rparr>"

text \<open>The log may hold entries of earlier runs when the agent starts.\<close>

definition started :: "wal_file \<Rightarrow> bpf_state \<Rightarrow> agent_system" where
  "started w s = (system_start s)\<lparr>agent := (agent (system_start s))\<lparr>wal := w\<rparr>\<rparr>"

lemma system_start_started: "system_start s = started \<lparr>wal_content = [], wal_attempts = 0\<rparr> s"
  by (simp add: started_def system_start_def)

section \<open>Modes\<close>

text \<open>
  What the command line selects: a test of the analysis client, the scan of a file, or the
  agent; an option without its argument, or any other argument, starts the agent.
\<close>

datatype mode = RemoteTest string | RawScan string | Protect

definition mode_of :: "string list \<Rightarrow> mode" where
  "mode_of args =
     (if 1 < length args then
        (if args ! 1 = ''--kp14-remote'' \<and> 2 < length args then RemoteTest (args ! 2)
         else if args ! 1 = ''--yara-raw'' \<and> 2 < length args then RawScan (args ! 2)
         else Protect)
      else Protect)"

text \<open>The test waits one second for a device of this machine; \<open>None\<close> when it never returns.\<close>

definition remote_test :: "kp14_env \<Rightarrow> string \<Rightarrow> (kp14_error + unit) option" where
  "remote_test ke host =
     map_option (\<lambda>r. case r of Inl e \<Rightarrow> Inl e | Inr dev \<Rightarrow> Inr ()) (watch_for_hotplugged_device ke 1)"

text \<open>The scan of a file, whose result is only printed; a file that cannot be read is no error.\<close>

definition raw_scan :: "'f f64_ops \<Rightarrow> byte list option \<Rightarrow> ('e, unit) outcome" where
  "raw_scan fo content =
     (case content of
        None \<Rightarrow> Done ()
      | Some data \<Rightarrow> (case scan_raw_buffer fo data of Done m \<Rightarrow> Done () | Bail e \<Rightarrow> Bail e | Panic \<Rightarrow> Panic))"

section \<open>Handlers\<close>

text \<open>One record of each ring buffer; the callback reads the current research mode.\<close>

definition poll_event :: "callback_env \<Rightarrow> agent_system \<Rightarrow> agent_system" where
  "poll_event ce s =
     s\<lparr>agent := handle_event (ce\<lparr>research_mode := research s\<rparr>) (events (sensor s) ! events_polled s) (agent s),
       events_polled := Suc (events_polled s)\<rparr>"

definition poll_tls :: "wal_env \<Rightarrow> agent_system \<Rightarrow> agent_system" where
  "poll_tls env s =
     s\<lparr>agent := (agent s)\<lparr>wal := handle_tls_event env (tls_events (sensor s) ! tls_polled s) (wal (agent s))\<rparr>,
       tls_polled := Suc (tls_polled s)\<rparr>"

text \<open>What a response leaves to be done: the analysis of the dump, the removal of the volume.\<close>

fun analysis_of :: "response \<Rightarrow> string list" where
  "analysis_of NotFrozen = []"
| "analysis_of (CarvingFailed e) = []"
| "analysis_of (Routed blob volume scsi) = [blob]"
| "analysis_of (RoutingFailed blob e) = [blob]"

fun cleanup_of :: "response \<Rightarrow> (string \<times> nat) list" where
  "cleanup_of (Routed blob volume scsi) = [(volume, scsi)]"
| "cleanup_of r = []"

text \<open>One turn of the responder; it waits while its queue is empty.\<close>

definition receive :: "responder_env \<Rightarrow> agent_system \<Rightarrow> agent_system" where
  "receive re s =
     (case responder_queue (agent s) of
        [] \<Rightarrow> s
      | pid # rest \<Rightarrow>
          (case respond re pid (commands (agent s)) of
             (r, tr) \<Rightarrow>
               s\<lparr>agent := (agent s)\<lparr>responder_queue := rest, commands := tr\<rparr>,
                 answered := answered s @ [(pid, r)],
                 analyses := analyses s @ analysis_of r,
                 cleanups := cleanups s @ cleanup_of r\<rparr>))"

text \<open>A spawned task, any of those waiting: the remote analysis, the removal of a volume.\<close>

definition run_analysis :: "kp14_env \<Rightarrow> string option \<Rightarrow> nat \<Rightarrow> agent_system \<Rightarrow> agent_system" where
  "run_analysis ke hostname i s =
     (let st = snd (run_remote_analysis ke (kp14_new hostname) (analyses s ! i)
                \<lparr>ran = commands (agent s), written = handed_over s\<rparr>)
      in s\<lparr>agent := (agent s)\<lparr>commands := ran st\<rparr>, handed_over := written st,
           analyses := take i (analyses s) @ drop (Suc i) (analyses s),
           analysed := analysed s @ [analyses s ! i]\<rparr>)"

definition run_cleanup :: "os \<Rightarrow> nat \<Rightarrow> agent_system \<Rightarrow> agent_system" where
  "run_cleanup os i s =
     (case cleanups s ! i of
        (volume, scsi) \<Rightarrow>
          s\<lparr>agent := (agent s)\<lparr>commands := cleanup_volume os default_kp14 volume scsi (commands (agent s))\<rparr>,
            cleanups := take i (cleanups s) @ drop (Suc i) (cleanups s),
            volumes_removed := volumes_removed s @ [(volume, scsi)]\<rparr>)"

text \<open>The background run of the daemon, if it ends; the daily backup.\<close>

definition run_daemon :: "kp14_env \<Rightarrow> string option \<Rightarrow> agent_system \<Rightarrow> agent_system option" where
  "run_daemon ke hostname s =
     map_option (\<lambda>(r, st). s\<lparr>agent := (agent s)\<lparr>commands := ran st\<rparr>, handed_over := written st,
         daemon_waiting := False\<rparr>)
       (run_daemon_pipeline ke (kp14_new hostname) 3600
         \<lparr>ran = commands (agent s), written = handed_over s\<rparr>)"

definition run_backup :: "os \<Rightarrow> nat option \<Rightarrow> agent_system \<Rightarrow> agent_system" where
  "run_backup os clock s =
     s\<lparr>agent := (agent s)\<lparr>commands := snd (take_daily_snapshot os clock zfs (commands (agent s)))\<rparr>\<rparr>"

definition run_monitor :: "bool \<Rightarrow> agent_system \<Rightarrow> agent_system" where
  "run_monitor exists s =
     (case monitor_pass (was_active s) exists of
        (active, msgs) \<Rightarrow> s\<lparr>research := active, was_active := active\<rparr>)"

text \<open>
  The sidecar: a turn fetches a reply, deals with its next attribute, or fetches the rule feed.
  A send waits while the channel is full; its receiver lives as long as \<open>main\<close>. The log and the
  commands are those of the agent.
\<close>

definition sidecar_view :: "agent_system \<Rightarrow> misp_state" where
  "sidecar_view s = \<lparr>sent = [], misp_wal = wal (agent s), misp_commands = commands (agent s)\<rparr>"

definition turn_outcome ::
  "misp_env \<Rightarrow> agent_system \<Rightarrow> misp_state \<times> sidecar_phase \<times> misp_attribute list" where
  "turn_outcome me s =
     (case sidecar s of
        Asleep \<Rightarrow>
          (case misp_run me misp_cmd (sidecar_view s) of
             (Exited True out, m) \<Rightarrow>
               (case json_attributes me (from_utf8_lossy (cbytes out)) of
                  Some ats \<Rightarrow> (m, Sending ats, ats)
                | None \<Rightarrow> (m, Feed_Due, []))
           | (_, m) \<Rightarrow> (m, Feed_Due, []))
      | Sending ats \<Rightarrow>
          (case ats of
             [] \<Rightarrow> (sidecar_view s, Feed_Due, [])
           | at # rest \<Rightarrow>
               (if ip_of at \<noteq> None \<and> INTEL_CAPACITY \<le> length (intel_channel s)
                then (sidecar_view s, Sending ats, [])
                else (snd (sync_attributes (me\<lparr>receiver_alive := \<lambda>n. True\<rparr>) [at] (sidecar_view s)),
                      Sending rest, [])))
      | Feed_Due \<Rightarrow> (sync_feed me (sidecar_view s), Asleep, []))"

definition sidecar_turn :: "misp_env \<Rightarrow> agent_system \<Rightarrow> agent_system" where
  "sidecar_turn me s =
     (case turn_outcome me s of
        (m, phase, got) \<Rightarrow>
          s\<lparr>agent := (agent s)\<lparr>wal := misp_wal m, commands := misp_commands m\<rparr>,
            intel_channel := intel_channel s @ sent m, sidecar := phase, heard := heard s @ got\<rparr>)"

text \<open>A request to the dashboard's control interface, which writes to the same log.\<close>

definition control_request ::
  "string \<Rightarrow> string \<Rightarrow> wal_env \<Rightarrow> string \<Rightarrow> post_data \<Rightarrow> agent_system \<Rightarrow> agent_system" where
  "control_request stamp io_error env path data s =
     s\<lparr>agent := (agent s)\<lparr>wal := snd (do_POST stamp io_error env path data (wal (agent s)))\<rparr>\<rparr>"

text \<open>The main loop's drain.\<close>

definition drain_intel :: "(u32 \<Rightarrow> bool) \<Rightarrow> agent_system \<Rightarrow> agent_system" where
  "drain_intel ok s =
     s\<lparr>sensor := drain_blocklist ok (intel_channel s) (sensor s), intel_channel := [],
       drained := drained s @ intel_channel s,
       rejected := rejected s @ filter (\<lambda>ip. \<not> ok ip) (intel_channel s)\<rparr>"

section \<open>Steps\<close>

inductive system_step :: "agent_system \<Rightarrow> agent_system \<Rightarrow> bool" where
  sys_sensor: "program_step (sensor s) t \<Longrightarrow> system_step s (s\<lparr>sensor := t\<rparr>)"
| sys_event: "events_polled s < length (events (sensor s)) \<Longrightarrow> system_step s (poll_event ce s)"
| sys_tls: "tls_polled s < length (tls_events (sensor s)) \<Longrightarrow> system_step s (poll_tls env s)"
| sys_receive: "system_step s (receive re s)"
| sys_analysis: "i < length (analyses s) \<Longrightarrow> system_step s (run_analysis ke hostname i s)"
| sys_cleanup: "i < length (cleanups s) \<Longrightarrow> system_step s (run_cleanup os i s)"
| sys_daemon: "daemon_waiting s \<Longrightarrow> run_daemon ke hostname s = Some s' \<Longrightarrow> system_step s s'"
| sys_backup: "system_step s (run_backup os clock s)"
| sys_monitor: "system_step s (run_monitor exists s)"
| sys_sidecar: "system_step s (sidecar_turn me s)"
| sys_control: "system_step s (control_request stamp io_error env path data s)"
| sys_drain: "system_step s (drain_intel ok s)"

inductive_cases system_stepE: "system_step s s'"

inductive system_reachable :: "agent_system \<Rightarrow> bool" where
  sys_start: "startup (setup_stages se) bpf_init s \<Longrightarrow> system_reachable (started w s)"
| sys_more: "system_reachable s \<Longrightarrow> system_step s s' \<Longrightarrow> system_reachable s'"

end
