(* ===== verification/Sensor_Properties.thy ===== *)
theory Sensor_Properties
  imports Sensor_System Rust_Std
begin

text \<open>
  The properties of the eBPF sensor: packet filter, object layouts behind the kernel reads,
  the behaviour of every program on each of its branches, and the invariants of the sensor
  as a transition system. Concrete helper results for the witnesses come first.
\<close>

section \<open>Concrete helper results\<close>

definition blank_event :: event where
  "blank_event = \<lparr>e_pid = 0, e_ppid = 0, e_uid = 0, e_comm = replicate 16 0,
     e_filename = replicate 256 0\<rparr>"

definition blank_tls :: tls_hello_event where
  "blank_tls = \<lparr>t_saddr = 0, t_daddr = 0, t_dport = 0, t_payload_len = 0, t_payload = replicate 128 0\<rparr>"

text \<open>A run by process \<open>p\<close> of user \<open>u\<close>; \<open>name\<close> is its command name of at most 16 characters.\<close>

definition run_by :: "u64 \<Rightarrow> u64 \<Rightarrow> string \<Rightarrow> kenv" where
  "run_by p u name = \<lparr>cur_pid_tgid = push_bit 32 p, cur_uid_gid = u,
     cur_comm = take 16 (cbytes name @ replicate 16 0), cur_task = 4096,
     kread = (\<lambda>a n. replicate n 7), ustr = (\<lambda>a n. take n (cbytes ''/bin/ls'' @ [0])),
     slot = Some blank_event, tls_slot = Some blank_tls, lru_update = lru_evict None\<rparr>"

lemma wf_run_by: "wf_kenv (run_by p u name)"
  by (simp add: wf_kenv_def run_by_def blank_event_def blank_tls_def wf_event_def wf_tls_def
      MAX_FILENAME_LEN_def)

lemma lru_run_by: "lru_map (lru_update (run_by p u name))"
  by (simp add: run_by_def evict.lru_map_axioms)

lemma run_by_simps [simp]:
  "cur_uid_gid (run_by p u name) = u" "slot (run_by p u name) = Some blank_event"
  "cur_comm (run_by p u name) = take 16 (cbytes name @ replicate 16 0)"
  "tls_slot (run_by p u name) = Some blank_tls" "kread (run_by p u name) a n = replicate n 7"
  by (simp_all add: run_by_def)

lemma cur_pid_run_by [simp]: "cur_pid (run_by p u name) = ucast p"
proof (rule bit_word_eqI)
  fix n assume "n < LENGTH(32)"
  then show "bit (cur_pid (run_by p u name)) n = bit (ucast p :: u32) n"
    by (auto simp: cur_pid_def run_by_def hi32_def bit_simps)
qed

section \<open>The packet filter\<close>

text \<open>
  C1. The XDP program never loads a byte outside the packet, whatever the packet is, and
  computes its declarative specification: drop exactly the IPv4 packets to a blocked
  address; pass everything else, and submit one record for a TLS handshake to port 443.
\<close>

theorem xdp_refines_spec:
  assumes "wf_kenv k"
  shows "xdp_c2_inspector k pkt s = Some (xdp_spec k pkt s)"
  by (rule xdp_eq_spec [OF assms])

theorem xdp_refines_spec_witness:
  "wf_kenv (run_by 1 0 ''x'') \<and>
   xdp_c2_inspector (run_by 1 0 ''x'') [1, 2, 3] bpf_init = Some (xdp_spec (run_by 1 0 ''x'') [1, 2, 3] bpf_init)"
  using xdp_refines_spec [of "run_by 1 0 ''x''" "[1, 2, 3]" bpf_init] by (simp add: wf_run_by)

text \<open>
  A packet is dropped exactly when it has complete Ethernet and IPv4 headers and the
  four destination-address bytes, read as a map key, are marked 1 in the blocklist; a
  dropped packet leaves the sensor's state as it was.
\<close>

theorem xdp_drop_iff:
  assumes "wf_kenv k"
  shows "xdp_c2_inspector k pkt s = Some (XDP_DROP, s') \<longleftrightarrow>
    s' = s \<and> 34 \<le> length pkt \<and> slice 12 2 pkt = [8, 0] \<and>
    c2_blocklist s (u32_of (slice 30 4 pkt)) = Some 1"
  using xdp_eq_spec [OF assms, of pkt s]
  by (auto simp: xdp_spec_def blocked_def ipv4_dst_def)

definition c2_packet :: "byte list" where
  "c2_packet = replicate 12 0 @ [8, 0, 0x45] @ replicate 15 0 @ [185, 220, 101, 1]"

theorem xdp_drop_iff_witness:
  "xdp_c2_inspector (run_by 1 0 ''x'') c2_packet
     (bpf_init\<lparr>c2_blocklist := [u32_of [185, 220, 101, 1] \<mapsto> 1]\<rparr>) =
   Some (XDP_DROP, bpf_init\<lparr>c2_blocklist := [u32_of [185, 220, 101, 1] \<mapsto> 1]\<rparr>)"
  by (subst xdp_drop_iff [OF wf_run_by]) (simp add: c2_packet_def slice_def numeral_eq_Suc)

text \<open>
  For an unblocked TLS handshake to port 443 with ring space, exactly one record is
  submitted: both addresses, port 443, and the first bytes of the payload, at most 128;
  \<open>payload_len\<close> is their number, and the packet passes.
\<close>

theorem xdp_tls_record:
  assumes "wf_kenv k" and "\<not> blocked s pkt" and "tls_hello pkt" and "tls_slot k = Some e"
  shows "\<exists>r. xdp_c2_inspector k pkt s = Some (XDP_PASS, s\<lparr>tls_events := tls_events s @ [tls_bytes r]\<rparr>) \<and>
    u32_bytes (t_saddr r) = slice 26 4 pkt \<and> u32_bytes (t_daddr r) = slice 30 4 pkt \<and>
    t_dport r = 443 \<and> unat (t_payload_len r) = min 128 (length pkt - payload_at pkt) \<and>
    take (unat (t_payload_len r)) (t_payload r) = take 128 (drop (payload_at pkt) pkt)"
proof (intro exI conjI)
  let ?r = "tls_record pkt e"
  have len: "34 \<le> length pkt" using assms(3) by (auto simp: tls_hello_def ipv4_dst_def split: if_splits)
  show "xdp_c2_inspector k pkt s = Some (XDP_PASS, s\<lparr>tls_events := tls_events s @ [tls_bytes ?r]\<rparr>)"
    using assms by (simp add: xdp_eq_spec xdp_spec_def submit_tls_def)
  show "u32_bytes (t_saddr ?r) = slice 26 4 pkt" "u32_bytes (t_daddr ?r) = slice 30 4 pkt" "t_dport ?r = 443"
    using len by (simp_all add: tls_record_def Let_def u32_bytes_of)
  have n: "unat (t_payload_len ?r) = min 128 (length pkt - payload_at pkt)"
    by (simp add: tls_record_def Let_def unat_of_nat_less min.commute min.strict_coboundedI1)
  show "unat (t_payload_len ?r) = min 128 (length pkt - payload_at pkt)" by (rule n)
  show "take (unat (t_payload_len ?r)) (t_payload ?r) = take 128 (drop (payload_at pkt) pkt)"
    unfolding n by (auto simp: tls_record_def Let_def memcpy_def min_def)
qed

definition hello_packet :: "byte list" where
  "hello_packet = replicate 12 0 @ [8, 0, 0x45] @ replicate 8 0 @ [6, 0, 0] @ [10, 0, 0, 1] @ [1, 1, 1, 1] @
     [0, 80, 1, 187] @ replicate 8 0 @ [0x50] @ replicate 7 0 @ [0x16, 0x03, 0x01, 0x00]"

lemma hello_packet_ok: "tls_hello hello_packet" "\<not> blocked bpf_init hello_packet"
proof -
  show "tls_hello hello_packet" by code_simp
  show "\<not> blocked bpf_init hello_packet" by (simp add: blocked_def bpf_init_def)
qed

theorem xdp_tls_record_witness:
  "\<exists>r. xdp_c2_inspector (run_by 1 0 ''x'') hello_packet bpf_init =
     Some (XDP_PASS, bpf_init\<lparr>tls_events := [tls_bytes r]\<rparr>) \<and> t_dport r = 443"
  using xdp_tls_record [OF wf_run_by hello_packet_ok(2,1), of 1 0 "''x''" blank_tls]
  by (auto simp: bpf_init_def)

section \<open>Layouts behind the reads\<close>

lemma field_args: "field_of struct_trace_event_raw_sys_enter ''args'' = Some (16, CArr 6 c_ulong)"
  by (simp add: struct_trace_event_raw_sys_enter_def field_eval layout_simps)

text \<open>A member lies at an offset, has a size, is inside its object and aligned for its type.\<close>

definition lies_at :: "ctype \<Rightarrow> string \<Rightarrow> nat \<Rightarrow> nat \<Rightarrow> bool" where
  "lies_at t nm i n \<longleftrightarrow>
     (\<exists>ft. field_of t nm = Some (i, ft) \<and> sizeof ft = n \<and> i + n \<le> sizeof t \<and> alignof ft dvd i)"

lemma other_memory [simp]:
  "cur_pid (k\<lparr>kread := r, ustr := u\<rparr>) = cur_pid k"
  "emit_trap (k\<lparr>kread := r, ustr := u\<rparr>) i m s = emit_trap k i m s"
  "bpf_send_signal g (k\<lparr>kread := r, ustr := u\<rparr>) s = bpf_send_signal g k s"
  by (simp_all add: emit_trap_def trap_event_def bpf_send_signal_def cur_pid_def split: option.split)

lemmas core_reads = core_read_u64_def core_read_u32_def member_addr_def offsetof_def kernel_fields

lemma execve_reads:
  assumes "r (cur_task k + 2720) 8 = kread k (cur_task k + 2720) 8"
    and "r (u64_of (kread k (cur_task k + 2720) 8) + 2708) 4 =
      kread k (u64_of (kread k (cur_task k + 2720) 8) + 2708) 4"
    and "u (se_args ctx ! 0) 256 = ustr k (se_args ctx ! 0) 256" and "se_args ctx' ! 0 = se_args ctx ! 0"
  shows "handle_execve (k\<lparr>kread := r, ustr := u\<rparr>) ctx' s = handle_execve k ctx s"
proof -
  have "exec_event (k\<lparr>kread := r, ustr := u\<rparr>) ctx' e = exec_event k ctx e" for e
    using assms by (simp add: exec_event_def Let_def core_reads MAX_FILENAME_LEN_def)
  then show ?thesis by (simp add: handle_execve_def Let_def split: option.split)
qed

lemma vfs_open_reads:
  assumes "r (f + 32) 8 = kread k (f + 32) 8" and "r (f + 40) 4 = kread k (f + 40) 4"
    and "r (u64_of (kread k (f + 32) 8) + 64) 8 = kread k (u64_of (kread k (f + 32) 8) + 64) 8"
  shows "kprobe_vfs_open (k\<lparr>kread := r, ustr := u\<rparr>) f s = kprobe_vfs_open k f s"
  using assms by (simp add: kprobe_vfs_open_def Let_def core_reads split: option.split)

lemma tls_reads: "tls_capture (k\<lparr>kread := r, ustr := u\<rparr>) pkt ip d pay s = tls_capture k pkt ip d pay s"
  by (simp add: tls_capture_def cong: if_cong)

lemma xdp_reads: "xdp_c2_inspector (k\<lparr>kread := r, ustr := u\<rparr>) pkt s = xdp_c2_inspector k pkt s"
  by (simp add: xdp_c2_inspector_def tcp_inspect_def tls_reads cong: if_cong)

lemma members_lie:
  "lies_at struct_task_struct ''real_parent'' 2720 8" "lies_at struct_task_struct ''tgid'' 2708 4"
  "lies_at struct_file ''f_inode'' 32 8" "lies_at struct_file ''f_flags'' 40 4" "lies_at struct_inode ''i_ino'' 64 8"
  "lies_at struct_trace_event_raw_sys_enter ''args'' 16 48"
  by (simp_all add: lies_at_def kernel_fields field_args layout_simps)

text \<open>
  C28. What the programs read. \<open>handle_execve\<close> depends on kernel memory only through the 8 bytes of
  \<open>real_parent\<close> in the current task and the 4 bytes of \<open>tgid\<close> in that parent, and on user memory
  only through the string at its first argument, of at most 256 bytes; \<open>kprobe_vfs_open\<close> only on
  \<open>f_inode\<close> and \<open>f_flags\<close> of the file and on \<open>i_ino\<close> of that inode; no other program, the packet
  filter included, depends on either memory. Of the six arguments of the tracepoint a program depends
  on one: the second (\<open>ptrace\<close>), the first (\<open>execve\<close>, \<open>process_vm_readv\<close>, \<open>kill\<close>), the third
  (\<open>openat\<close>) or none (\<open>sendto\<close>). Each of these reads is one of a member at its offset in the kernel's
  declaration, with its size, inside the object and aligned.
\<close>

theorem programs_read_only:
  fixes k r u f
  defines "k' \<equiv> k\<lparr>kread := r, ustr := u\<rparr>"
    and "parent \<equiv> u64_of (kread k (cur_task k + 2720) 8)" and "inode \<equiv> u64_of (kread k (f + 32) 8)"
  shows "((\<forall>(a, n) \<in> {(cur_task k + 2720, 8), (parent + 2708, 4)}. r a n = kread k a n) \<and>
      u (se_args ctx ! 0) 256 = ustr k (se_args ctx ! 0) 256 \<and> se_args ctx' ! 0 = se_args ctx ! 0 \<longrightarrow>
      handle_execve k' ctx' s = handle_execve k ctx s) \<and>
    ((\<forall>(a, n) \<in> {(f + 32, 8), (f + 40, 4), (inode + 64, 8)}. r a n = kread k a n) \<longrightarrow>
      kprobe_vfs_open k' f s = kprobe_vfs_open k f s) \<and>
    (se_args ctx' ! 1 = se_args ctx ! 1 \<longrightarrow> handle_ptrace k' ctx' s = handle_ptrace k ctx s) \<and>
    (se_args ctx' ! 0 = se_args ctx ! 0 \<longrightarrow>
      handle_process_vm_readv k' ctx' s = handle_process_vm_readv k ctx s \<and>
      handle_kill k' ctx' s = handle_kill k ctx s) \<and>
    (se_args ctx' ! 2 = se_args ctx ! 2 \<longrightarrow> handle_openat k' ctx' s = handle_openat k ctx s) \<and>
    handle_sendto k' ctx' s = handle_sendto k ctx s \<and>
    xdp_c2_inspector k' pkt s = xdp_c2_inspector k pkt s \<and>
    lies_at struct_task_struct ''real_parent'' 2720 8 \<and> lies_at struct_task_struct ''tgid'' 2708 4 \<and>
    lies_at struct_file ''f_inode'' 32 8 \<and> lies_at struct_file ''f_flags'' 40 4 \<and>
    lies_at struct_inode ''i_ino'' 64 8 \<and> lies_at struct_trace_event_raw_sys_enter ''args'' 16 48"
proof -
  have "handle_ptrace k' ctx' s = handle_ptrace k ctx s" if "se_args ctx' ! 1 = se_args ctx ! 1"
    using that by (simp add: k'_def handle_ptrace_def ghost_check_def split: option.split)
  moreover have "handle_process_vm_readv k' ctx' s = handle_process_vm_readv k ctx s \<and>
      handle_kill k' ctx' s = handle_kill k ctx s" if "se_args ctx' ! 0 = se_args ctx ! 0"
    using that
    by (simp add: k'_def handle_process_vm_readv_def ghost_check_def handle_kill_def Let_def split: option.split)
  moreover have "handle_openat k' ctx' s = handle_openat k ctx s" if "se_args ctx' ! 2 = se_args ctx ! 2"
    using that by (simp add: k'_def handle_openat_def Let_def)
  moreover have "handle_sendto k' ctx' s = handle_sendto k ctx s"
    by (simp add: k'_def handle_sendto_def Let_def)
  ultimately show ?thesis
    using execve_reads [where r = r and k = k and u = u and ctx = ctx and ctx' = ctx' and s = s]
      vfs_open_reads [where r = r and k = k and u = u and f = f and s = s] xdp_reads
    by (simp add: k'_def parent_def inode_def members_lie)
qed

text \<open>Memory in which every byte but those of the two members is different.\<close>

definition elsewhere :: "u64 \<Rightarrow> nat \<Rightarrow> byte list" where
  "elsewhere a n = (if (a, n) \<in> {(4096 + 2720, 8), (u64_of (replicate 8 7) + 2708, 4)} then replicate n 7
     else replicate n 66)"

theorem programs_read_only_witness:
  "handle_execve ((run_by 9 0 ''sh'')\<lparr>kread := elsewhere, ustr := \<lambda>a n. if n = 256 then cbytes ''/bin/ls'' @ [0] else []\<rparr>)
     \<lparr>se_id = 59, se_args = [1]\<rparr> bpf_init = handle_execve (run_by 9 0 ''sh'') \<lparr>se_id = 59, se_args = [1, 2]\<rparr> bpf_init"
  using programs_read_only [where k = "run_by 9 0 ''sh''" and r = elsewhere and
      u = "\<lambda>a n. if n = 256 then cbytes ''/bin/ls'' @ [0] else []" and ctx = "\<lparr>se_id = 59, se_args = [1, 2]\<rparr>"
      and ctx' = "\<lparr>se_id = 59, se_args = [1]\<rparr>" and s = bpf_init]
  by (simp add: elsewhere_def run_by_def)

text \<open>
  In each kernel declaration used by the programs the members occupy disjoint,
  increasing ranges of bits inside the object, and every named member that resolves
  (through anonymous structs and unions too) lies inside the object and, where nothing is
  packed, is aligned for its type.
\<close>

theorem kernel_layout_sound:
  assumes "t \<in> {struct_task_struct, struct_file, struct_inode, struct_iphdr, struct_tcphdr}"
  shows "sorted_wrt before (members_of t) \<and>
    (\<forall>(i, m) \<in> set (members_of t). i + mwidth m \<le> 8 * sizeof t) \<and>
    (\<forall>nm i ft. field_of t nm = Some (i, ft) \<longrightarrow> i + sizeof ft \<le> sizeof t \<and> alignof ft dvd i)"
proof (intro conjI allI impI)
  have wf: "wf_ty t" "unpacked t" using assms by (auto simp: layout_simps)
  show "sorted_wrt before (members_of t)"
    using assms wf(1) place_disjoint
    by (auto simp: members_of_def struct_task_struct_def struct_file_def struct_inode_def
        struct_iphdr_def struct_tcphdr_def simp del: place.simps)
  show "\<forall>(i, m) \<in> set (members_of t). i + mwidth m \<le> 8 * sizeof t"
    using members_in_bounds [OF wf(1)] by blast
  fix nm i ft assume f: "field_of t nm = Some (i, ft)"
  show "i + sizeof ft \<le> sizeof t" by (rule field_of_in_bounds [OF wf(1) f])
  show "alignof ft dvd i" by (rule field_of_aligned [OF wf f])
qed

theorem kernel_layout_sound_witness:
  "sorted_wrt before (members_of struct_iphdr) \<and> 2708 + sizeof c_int \<le> sizeof struct_task_struct"
  using kernel_layout_sound [of struct_iphdr] kernel_layout_sound [of struct_task_struct] field_tgid
  by blast

section \<open>Process execution\<close>

text \<open>A command name: 16 bytes, the last of them zero.\<close>

definition comm_ok :: "byte list \<Rightarrow> bool" where
  "comm_ok comm \<longleftrightarrow> length comm = 16 \<and> comm ! 15 = 0"

lemma unauthorized_iff: "comm_ok comm \<Longrightarrow> is_unauthorized_tool comm \<longleftrightarrow> starts_with comm (cbytes ''podman'')"
  by (simp add: comm_ok_def is_unauthorized_tool_def starts_with6)

lemma gram_iff:
  assumes "comm_ok comm"
  shows "(\<exists>i \<in> set [0..<12]. gram_at comm i) \<longleftrightarrow> contains comm (cbytes ''gram'')"
proof -
  have len: "length comm = 16" using assms by (simp add: comm_ok_def)
  have at: "gram_at comm i \<longleftrightarrow> starts_with (drop i comm) (cbytes ''gram'')" if "i \<le> 12" for i
    using that len by (simp add: gram_at_def starts_with_drop4)
  have no: "\<not> gram_at comm 12" using assms by (simp add: comm_ok_def gram_at_def ch_def)
  have far: "i \<le> 12" if "starts_with (drop i comm) (cbytes ''gram'')" for i
    using that len by (auto simp: starts_with_iff dest!: arg_cong [where f = length])
  show ?thesis
  proof
    assume "\<exists>i \<in> set [0..<12]. gram_at comm i"
    then obtain i where "i < 12" "gram_at comm i" by (auto simp del: upt_conv_Cons)
    with at [of i] len have "starts_with (drop i comm) (cbytes ''gram'')" "i \<le> length comm" by simp_all
    then show "contains comm (cbytes ''gram'')" unfolding contains_drop by blast
  next
    assume "contains comm (cbytes ''gram'')"
    then obtain i where i: "starts_with (drop i comm) (cbytes ''gram'')" by (auto simp: contains_drop)
    with far at have "i \<le> 12" "gram_at comm i" by blast+
    with no have "i < 12" by (cases "i = 12") auto
    with \<open>gram_at comm i\<close> show "\<exists>i \<in> set [0..<12]. gram_at comm i" by auto
  qed
qed

lemma vuln_app_iff:
  assumes "comm_ok comm"
  shows "is_vuln_app comm \<longleftrightarrow>
    (\<exists>p \<in> {''firef'', ''chrom'', ''signa'', ''teleg''}. starts_with comm (cbytes p)) \<or>
    contains comm (cbytes ''gram'')"
proof -
  have len: "5 \<le> length comm" using assms by (simp add: comm_ok_def)
  show ?thesis
    unfolding is_vuln_app_def Let_def foldl_flag gram_iff [OF assms]
    by (auto simp: starts_with5 [OF len])
qed


text \<open>
  C32. \<open>handle_execve\<close> stops the process exactly when its command name starts with
  \<open>podman\<close>, or it runs as root and its name starts like a browser or messenger or contains
  \<open>gram\<close> anywhere; the unrolled loop over twelve positions misses none.
\<close>

theorem execve_stops_iff:
  assumes "comm_ok (cur_comm k)"
  shows "signals (handle_execve k ctx s) = signals s @ [(cur_pid k, SIGSTOP)] \<longleftrightarrow>
    starts_with (cur_comm k) (cbytes ''podman'') \<or>
    lo32 (cur_uid_gid k) = 0 \<and>
      ((\<exists>p \<in> {''firef'', ''chrom'', ''signa'', ''teleg''}. starts_with (cur_comm k) (cbytes p)) \<or>
       contains (cur_comm k) (cbytes ''gram''))"
  using unauthorized_iff [OF assms] vuln_app_iff [OF assms]
  by (auto simp: handle_execve_def Let_def split: option.split)

theorem execve_stops_iff_witness:
  "signals (handle_execve (run_by 9 0 ''kotatogram'') \<lparr>se_id = 59, se_args = [0]\<rparr> bpf_init) = [(9, SIGSTOP)]"
proof -
  have c: "comm_ok (cur_comm (run_by 9 0 ''kotatogram''))"
    by (simp add: comm_ok_def numeral_eq_Suc)
  have "contains (cur_comm (run_by 9 0 ''kotatogram'')) (cbytes ''gram'')"
    by (simp add: starts_with_def numeral_eq_Suc)
  then show ?thesis
    using execve_stops_iff [OF c, of "\<lparr>se_id = 59, se_args = [0]\<rparr>" bpf_init]
    by (simp add: lo32_def bpf_init_def del: contains.simps)
qed

text \<open>
  An execution that trips no trap is reported, when the ring buffer has room, by one
  record with the caller's identifiers, the thread group of its parent as read through
  \<open>task->real_parent->tgid\<close>, and the path read from user space, and nothing else changes.
\<close>

theorem execve_plain_record:
  assumes "wf_kenv k" and "slot k = Some e" and "\<not> is_unauthorized_tool (cur_comm k)"
    and "lo32 (cur_uid_gid k) \<noteq> 0 \<or> \<not> is_vuln_app (cur_comm k)"
  shows "\<exists>r. handle_execve k ctx s = s\<lparr>events := events s @ [event_bytes r]\<rparr> \<and> wf_event r \<and>
    e_pid r = hi32 (cur_pid_tgid k) \<and> e_uid r = lo32 (cur_uid_gid k) \<and> e_comm r = cur_comm k \<and>
    e_ppid r = u32_of (kread k (u64_of (kread k (cur_task k + 2720) 8) + 2708) 4) \<and>
    starts_with (e_filename r) (ustr k (se_args ctx ! 0) 256)"
proof (intro exI conjI)
  let ?r = "exec_event k ctx e"
  show "handle_execve k ctx s = s\<lparr>events := events s @ [event_bytes ?r]\<rparr>"
    using assms(2-4) by (auto simp: handle_execve_def Let_def submit_event_def)
  show "wf_event ?r" using assms(1,2) by (simp add: wf_exec_event wf_kenv_def)
qed (simp_all add: exec_event_def Let_def cur_pid_def core_read_u64_def core_read_u32_def
    member_addr_def offsetof_def kernel_fields starts_with_def memcpy_def MAX_FILENAME_LEN_def)

theorem execve_plain_record_witness:
  "\<exists>r. handle_execve (run_by 9 1000 ''bash'') \<lparr>se_id = 59, se_args = [0]\<rparr> bpf_init =
     bpf_init\<lparr>events := [event_bytes r]\<rparr> \<and> e_pid r = 9 \<and> e_ppid r = u32_of (replicate 4 7)"
proof -
  have "\<not> is_unauthorized_tool (cur_comm (run_by 9 1000 ''bash''))"
    by (simp add: is_unauthorized_tool_def numeral_eq_Suc)
  moreover have "lo32 (cur_uid_gid (run_by 9 1000 ''bash'')) \<noteq> 0" by (simp add: lo32_def)
  ultimately show ?thesis
    using execve_plain_record [OF wf_run_by, of 9 1000 "''bash''" blank_event
        "\<lparr>se_id = 59, se_args = [0]\<rparr>" bpf_init] cur_pid_run_by [of 9 1000 "''bash''"]
    by (auto simp: bpf_init_def cur_pid_def)
qed

section \<open>Deception and self-defence\<close>

text \<open>The record of a trap, when the ring buffer has room for it.\<close>

definition trapped :: "kenv \<Rightarrow> u32 \<Rightarrow> string \<Rightarrow> bpf_state \<Rightarrow> bpf_state" where
  "trapped k ind msg s =
     (case slot k of
        None \<Rightarrow> s
      | Some e \<Rightarrow> s\<lparr>events := events s @
          [u32_bytes (cur_pid k) @ u32_bytes ind @ u32_bytes (lo32 (cur_uid_gid k)) @ cur_comm k @
           cbytes msg @ [0] @ drop (length msg + 1) (e_filename e)]\<rparr>)"

lemma emit_trapped: "emit_trap k ind msg s = trapped k ind msg s"
  by (simp add: emit_trap_def trapped_def submit_event_def event_bytes_def trap_event_def put_msg_def
      memcpy_def split: option.split)

text \<open>
  Opening a file reports a honeytoken exactly when its inode is registered with value 1,
  or with value 2 and the file is opened for writing (bits 0, 1 of its flags) or appending (bit 10); the process is not
  stopped by the kernel program, and any other open changes nothing.
\<close>

theorem vfs_open_trap:
  "kprobe_vfs_open k filp s =
    (let ino = u64_of (kread k (u64_of (kread k (filp + 32) 8) + 64) 8);
         flags = u32_of (kread k (filp + 40) 4)
     in if honeytokens s ino = Some 1 \<or>
           honeytokens s ino = Some 2 \<and> (bit flags 0 \<or> bit flags 1 \<or> bit flags 10)
        then trapped k (- 1) ''HONEYTOKEN_TRIGGERED'' s else s)"
proof -
  have append: "w AND 1024 \<noteq> 0 \<longleftrightarrow> bit w 10" for w :: u32
    using and_exp_eq_0_iff_not_bit [of w 10] by simp
  have wr: "w AND 3 \<noteq> 0 \<longleftrightarrow> bit w 0 \<or> bit w 1" for w :: u32
  proof -
    have "w AND 3 = take_bit 2 w" by (simp add: take_bit_eq_mask mask_eq_exp_minus_1)
    then have "w AND 3 = 0 \<longleftrightarrow> (\<forall>n < 2. \<not> bit w n)"
      by (auto simp: bit_eq_iff bit_take_bit_iff bit_imp_possible_bit)
    then show ?thesis by (auto simp: numeral_2_eq_2 less_Suc_eq)
  qed
  show ?thesis
    unfolding kprobe_vfs_open_def Let_def honey_trigger_def append wr
    by (auto simp: core_read_u64_def core_read_u32_def member_addr_def offsetof_def kernel_fields
        emit_trapped split: option.split)
qed

text \<open>
  Attaching to, or reading the memory of, a registered decoy process reports a ghost
  trap for the caller; for any other target both programs do nothing.
\<close>

theorem ghost_trap:
  "handle_ptrace k ctx s =
     (if ghost_pids s (lo32 (se_args ctx ! 1)) = Some 1 then trapped k (- 2) ''GHOST_PROCESS_TRAP'' s else s) \<and>
   handle_process_vm_readv k ctx s =
     (if ghost_pids s (lo32 (se_args ctx ! 0)) = Some 1 then trapped k (- 2) ''GHOST_PROCESS_TRAP'' s else s)"
  by (auto simp: handle_ptrace_def handle_process_vm_readv_def ghost_check_def emit_trapped split: option.split)

text \<open>
  Signalling the registered agent process stops the sender and reports it, with the
  target in the parent field; signalling any other process identifier does nothing.
\<close>

theorem kill_self_defence:
  assumes "agent_pid s 0 = Some agent"
  shows "handle_kill k ctx s =
    (if lo32 (se_args ctx ! 0) = agent
     then trapped k agent ''SELF_DEFENSE_TRAP'' (s\<lparr>signals := signals s @ [(cur_pid k, SIGSTOP)]\<rparr>) else s)"
  using assms by (auto simp: handle_kill_def Let_def emit_trapped bpf_send_signal_def)

theorem kill_self_defence_witness:
  "signals (handle_kill (run_by 66 1000 ''evil'') \<lparr>se_id = 62, se_args = [1234, 9]\<rparr>
     (bpf_init\<lparr>agent_pid := [0 \<mapsto> 1234]\<rparr>)) = [(66, SIGSTOP)]"
  using kill_self_defence [of "bpf_init\<lparr>agent_pid := [0 \<mapsto> 1234]\<rparr>" 1234 "run_by 66 1000 ''evil''"
      "\<lparr>se_id = 62, se_args = [1234, 9]\<rparr>"]
  by (simp add: lo32_def trapped_def bpf_init_def)

text \<open>
  Before the agent registers itself the one entry of the array map is zero, so a
  process that signals its own process group with \<open>kill(0, sig)\<close> is stopped.
\<close>

theorem kill_zero_before_registration:
  "lo32 (se_args ctx ! 0) = 0 \<Longrightarrow>
     signals (handle_kill k ctx bpf_init) = [(cur_pid k, SIGSTOP)]"
  by (simp add: handle_kill_def Let_def bpf_init_def bpf_send_signal_def)

theorem kill_zero_before_registration_witness:
  "signals (handle_kill (run_by 77 1000 ''make'') \<lparr>se_id = 62, se_args = [0, 15]\<rparr> bpf_init) = [(77, SIGSTOP)]"
  using kill_zero_before_registration [of "\<lparr>se_id = 62, se_args = [0, 15]\<rparr>" "run_by 77 1000 ''make''"]
  by (simp add: lo32_def)

section \<open>Exhaustion tripwires\<close>

text \<open>
  The registered agent is exempt: its own file creations and datagrams are neither
  counted nor answered.
\<close>

theorem agent_exempt:
  "agent_pid s 0 = Some (cur_pid k) \<Longrightarrow> handle_openat k ctx s = s \<and> handle_sendto k ctx s = s"
  by (simp add: handle_openat_def handle_sendto_def Let_def)

theorem agent_exempt_witness:
  "handle_sendto (run_by 5 0 ''alphvdr'') \<lparr>se_id = 44, se_args = []\<rparr> (bpf_init\<lparr>agent_pid := [0 \<mapsto> 5]\<rparr>) =
     bpf_init\<lparr>agent_pid := [0 \<mapsto> 5]\<rparr>"
  using agent_exempt [of "bpf_init\<lparr>agent_pid := [0 \<mapsto> 5]\<rparr>" "run_by 5 0 ''alphvdr''"] by simp

text \<open>
  A process other than the agent that creates \<open>n\<close> files, starting from a zero counter,
  is stopped exactly \<open>n div 10001\<close> times: at its 10001st creation and, as the counter is
  reset, at every 10001st from there; the counter then holds \<open>n mod 10001\<close>.
\<close>

theorem openat_stops_every_10001:
  assumes "lru_map (lru_update k)" and "counts_ok s" and "lo32 (se_args ctx ! 2) AND 64 \<noteq> 0"
    and "agent_pid s 0 \<noteq> Some (cur_pid k)" and "count_of (file_creation_counts s) (cur_pid k) = 0"
  shows "length (signals (repeat_probe (handle_openat k ctx) n s)) = length (signals s) + n div 10001 \<and>
    count_of (file_creation_counts (repeat_probe (handle_openat k ctx) n s)) (cur_pid k) = n mod 10001"
  using openat_repeat [of k s ctx n] assms by (simp add: creates_file_def)

theorem openat_stops_every_10001_witness:
  "length (signals (repeat_probe (handle_openat (run_by 7 1000 ''bomb'')
     \<lparr>se_id = 257, se_args = [0, 0, 0x241]\<rparr>) 20005 bpf_init)) = 2"
proof -
  let ?k = "run_by 7 1000 ''bomb''" and ?c = "\<lparr>se_id = 257, se_args = [0, 0, 0x241]\<rparr> :: sys_enter"
  have "counts_ok bpf_init" "count_of (file_creation_counts bpf_init) (cur_pid ?k) = 0"
    and "agent_pid bpf_init 0 \<noteq> Some (cur_pid ?k)"
    by (simp_all add: counts_ok_def count_of_def bpf_init_def)
  moreover have "lo32 (se_args ?c ! 2) AND 64 \<noteq> 0" by (simp add: lo32_def)
  ultimately show ?thesis
    using openat_stops_every_10001 [OF lru_run_by, of bpf_init ?c 7 1000 "''bomb''" 20005]
    by (simp add: bpf_init_def)
qed

text \<open>
  The socket tripwire never looks at its context: what the program does is the same for
  every socket, destination and length, and each call of the process is counted.
\<close>

theorem sendto_counts_every_call:
  assumes "lru_map (lru_update k)" and "agent_pid s 0 \<noteq> Some (cur_pid k)" and "counts_ok s"
  shows "handle_sendto k ctx s = handle_sendto k ctx' s \<and>
    count_of (journal_spam_counts (handle_sendto k ctx s)) (cur_pid k) =
      (if count_of (journal_spam_counts s) (cur_pid k) < 50000
       then Suc (count_of (journal_spam_counts s) (cur_pid k)) else 0)"
proof
  show "handle_sendto k ctx s = handle_sendto k ctx' s" by (simp add: handle_sendto_def)
  let ?n = "count_of (journal_spam_counts s) (cur_pid k)"
  have c: "unat (next_count (journal_spam_counts s (cur_pid k))) = Suc ?n"
    using assms(3)
    by (intro unat_next_count [where lim = JOURNAL_LIMIT]) (auto simp: counts_ok_def JOURNAL_LIMIT_def)
  then have gt: "JOURNAL_LIMIT < next_count (journal_spam_counts s (cur_pid k)) \<longleftrightarrow> \<not> ?n < 50000"
    by (auto simp: word_less_nat_alt JOURNAL_LIMIT_def)
  show "count_of (journal_spam_counts (handle_sendto k ctx s)) (cur_pid k) =
      (if ?n < 50000 then Suc ?n else 0)"
    using assms(2) gt c lru_map.upd_same [OF assms(1)]
    by (simp add: handle_sendto_def Let_def count_of_def)
qed

theorem sendto_counts_every_call_witness:
  "count_of (journal_spam_counts (handle_sendto (run_by 7 1000 ''curl'')
     \<lparr>se_id = 44, se_args = []\<rparr> bpf_init)) 7 = 1"
proof -
  have z: "count_of (journal_spam_counts bpf_init) 7 = 0" "counts_ok bpf_init"
    "agent_pid bpf_init 0 \<noteq> Some (cur_pid (run_by 7 1000 ''curl''))"
    by (simp_all add: counts_ok_def count_of_def bpf_init_def)
  show ?thesis
    using sendto_counts_every_call [OF lru_run_by z(3) z(2)] z(1) by simp
qed

section \<open>The sensor as a whole\<close>

text \<open>
  With every program run taken as one step: all submitted records have the size their
  reader expects, no counter exceeds its limit between runs, the agent's map entry exists,
  and the only signal ever sent is SIGSTOP. What holds while runs interleave is the subject
  of \<open>Smp_Invariant\<close>.
\<close>

theorem reachable_sensor_inv:
  "reachable s \<Longrightarrow>
     (\<forall>r \<in> set (events s). length r = 284) \<and> (\<forall>r \<in> set (tls_events s). length r = 140) \<and>
     (\<forall>p c. file_creation_counts s p = Some c \<longrightarrow> c \<le> 10000) \<and>
     (\<forall>p c. journal_spam_counts s p = Some c \<longrightarrow> c \<le> 50000) \<and>
     agent_pid s 0 \<noteq> None \<and> (\<forall>x \<in> set (signals s). snd x = SIGSTOP)"
  using reachable_inv [of s]
  by (simp add: sensor_inv_def rings_ok_def counts_ok_def layout_simps FILE_LIMIT_def JOURNAL_LIMIT_def)

theorem reachable_sensor_inv_witness:
  "list_all (\<lambda>r. length r = 284)
     (events (handle_execve (run_by 9 0 ''podman'') \<lparr>se_id = 59, se_args = [0]\<rparr> bpf_init))"
  unfolding list_all_iff
  using reachable_sensor_inv [OF reach_step [OF reach_init step_execve [OF wf_run_by]]] by blast

text \<open>The programs, the file-open probe at any \<open>struct file\<close>.\<close>

definition probes :: "u64 \<Rightarrow> (kenv \<Rightarrow> sys_enter \<Rightarrow> bpf_state \<Rightarrow> bpf_state) list" where
  "probes filp = [handle_execve, handle_ptrace, handle_process_vm_readv, handle_kill, handle_openat,
     handle_sendto, (\<lambda>k ctx. kprobe_vfs_open k filp)]"

interpretation vfs_open_at: probe "\<lambda>k ctx. kprobe_vfs_open k filp"
  by unfold_locales (auto simp: vfs_open.keeps_config vfs_open.signals_step vfs_open.events_step vfs_open.tls_step)

lemma probes_meet_contract: "run \<in> set (probes filp) \<Longrightarrow> probe run"
  by (auto simp: probes_def execve.probe_axioms ptrace.probe_axioms vm_readv.probe_axioms
      kill.probe_axioms openat.probe_axioms sendto.probe_axioms vfs_open_at.probe_axioms)

text \<open>
  Every probe leaves blocklist, honeytokens, decoys and the agent's registration as they
  are, stops at most the process it runs for, and adds at most one complete record, which
  carries that process's identifier.
\<close>

theorem probes_confined:
  assumes "run \<in> set (probes filp)" and "wf_kenv k"
  shows "config (run k ctx s) = config s \<and>
    (signals (run k ctx s) = signals s \<or> signals (run k ctx s) = signals s @ [(cur_pid k, SIGSTOP)]) \<and>
    one_record k s (run k ctx s)"
  using probes_meet_contract [OF assms(1)] assms(2)
  by (simp add: probe.keeps_config probe.signals_step probe.events_step)

theorem probes_confined_witness:
  "config (handle_kill (run_by 9 0 ''x'') \<lparr>se_id = 62, se_args = [0, 15]\<rparr> bpf_init) = config bpf_init"
  using probes_confined [of handle_kill 0 "run_by 9 0 ''x''" "\<lparr>se_id = 62, se_args = [0, 15]\<rparr>" bpf_init]
  by (simp add: probes_def wf_run_by)

section \<open>Map declarations\<close>

text \<open>
  What the kernel demands of a declaration: a map type it knows; for a ring buffer no key
  and value and a power of two of whole 4096-byte pages; for the others key and value types
  of known size, and 4-byte keys for an array.
\<close>

definition map_ok :: "map_def \<Rightarrow> bool" where
  "map_ok m \<longleftrightarrow> enum_val enum_bpf_map_type (md_type m) \<noteq> None \<and> 0 < md_max_entries m \<and>
     (if md_type m = ''BPF_MAP_TYPE_RINGBUF''
      then md_key m = None \<and> md_value m = None \<and>
        md_max_entries m mod 4096 = 0 \<and> md_max_entries m AND (md_max_entries m - 1) = 0
      else (case (md_key m, md_value m) of
          (Some kt, Some vt) \<Rightarrow> wf_ty kt \<and> wf_ty vt \<and> 0 < sizeof kt \<and> 0 < sizeof vt \<and>
            (md_type m = ''BPF_MAP_TYPE_ARRAY'' \<longrightarrow> sizeof kt = 4)
        | _ \<Rightarrow> False))"

text \<open>
  All eight maps the sensor declares satisfy these demands, and keys and values have the
  widths at which the programs and the agent access them: identifiers and addresses in 4
  bytes, inode numbers and counters in 8, flags in 1.
\<close>

theorem sensor_maps_ok:
  "list_all map_ok sensor_maps \<and>
   map (\<lambda>m. (map_option sizeof (md_key m), map_option sizeof (md_value m))) sensor_maps =
     [(Some 4, Some 1), (None, None), (None, None), (Some 8, Some 1), (Some 4, Some 1), (Some 4, Some 4),
      (Some 4, Some 8), (Some 4, Some 8)]"
  by (simp add: sensor_maps_def map_ok_def c2_blocklist_map_def events_map_def tls_events_map_def
      honeytokens_map_def ghost_pids_map_def agent_pid_map_def file_creation_counts_map_def
      journal_spam_counts_map_def layout_simps enum_bpf_map_type_def pow2_align_def)

end
