(* ===== verification/Agent_Properties.thy ===== *)
theory Agent_Properties
  imports Agent_Events Sensor_Properties
begin

text \<open>
  The properties of the agent's record handling, and of sensor and agent together: the wire
  format, the path of a trap from the kernel program to the responder queue, the log and
  the ZFS commands.
\<close>

section \<open>The callback as one trigger\<close>

lemma trigger_comp:
  assumes "trigger f" and "trigger g"
  shows "trigger (\<lambda>pid a. f pid (g pid a))"
proof
  fix pid a
  obtain n where "responder_queue (g pid a) = responder_queue a @ replicate n pid"
    using trigger.queue_step [OF assms(2)] by blast
  moreover obtain m where "responder_queue (f pid (g pid a)) = responder_queue (g pid a) @ replicate m pid"
    using trigger.queue_step [OF assms(1)] by blast
  ultimately have "responder_queue (f pid (g pid a)) = responder_queue a @ replicate (n + m) pid"
    by (simp add: replicate_add)
  then show "\<exists>n. responder_queue (f pid (g pid a)) = responder_queue a @ replicate n pid" by blast
  show "length (responder_queue a) \<le> QUEUE_CAPACITY \<Longrightarrow>
      length (responder_queue (f pid (g pid a))) \<le> QUEUE_CAPACITY"
    using assms by (blast intro: trigger.queue_cap)
  show "\<exists>more. wal_content (wal (f pid (g pid a))) = wal_content (wal a) @ more"
    using trigger.log_step [OF assms(1), of pid "g pid a"] trigger.log_step [OF assms(2), of pid a]
    by (metis append.assoc)
qed

lemma trigger_id: "trigger (\<lambda>pid a. a)"
  by unfold_locales (auto intro: no_queue)

lemma trigger_traps: "trigger (\<lambda>pid a. foldl (\<lambda>a t. trap_trigger ce pid filename t a) a ts)"
proof (induction ts rule: rev_induct)
  case Nil
  show ?case using trigger_id by simp
next
  case (snoc t ts)
  show ?case
    using trigger_comp [OF trap.trigger_axioms [of ce filename t] snoc.IH] by simp
qed

lemma trigger_log: "trigger (\<lambda>pid. log_event ce e comm filename)"
  by unfold_locales (auto simp: log_grows_simps intro: no_queue)

text \<open>The whole callback meets the contract, for the process of its record.\<close>

lemma handle_event_trigger:
  fixes data
  defines "pid \<equiv> e_pid (decode_event data)"
  shows "\<exists>f. trigger f \<and> (\<forall>a. handle_event ce data a = f pid a)"
proof (cases "research_mode ce \<or> length data \<noteq> sizeof rust_Event")
  case True
  then show ?thesis using trigger_id by (auto simp: handle_event_def intro!: exI [of _ "\<lambda>pid a. a"])
next
  case False
  let ?e = "decode_event data"
  let ?c = "name_of (e_comm ?e)" and ?f = "name_of (e_filename ?e)"
  have "trigger (\<lambda>pid a. ransomware_trigger ce pid ?c ?f (heuristic_trigger ce pid ?c ?f
      (yara_trigger ce pid (foldl (\<lambda>a t. trap_trigger ce pid ?f t a) (log_event ce ?e ?c ?f a) trap_table))))"
    by (rule trigger_comp [OF ransomware.trigger_axioms trigger_comp [OF heuristic.trigger_axioms
          trigger_comp [OF yara.trigger_axioms trigger_comp [OF trigger_traps trigger_log]]]])
  with False show ?thesis
    unfolding pid_def by (intro exI conjI) (auto simp: handle_event_def Let_def name_of_def)
qed

section \<open>Wire format\<close>

text \<open>
  The agent's two record structs are laid out exactly like the kernel's: the same
  members at the same bit offsets with the same widths, and the same total size.
\<close>

definition shape :: "ctype \<Rightarrow> nat \<times> (nat \<times> string \<times> nat) list" where
  "shape t = (sizeof t, map (\<lambda>(i, m). (i, mname m, mwidth m)) (members_of t))"

theorem layouts_agree:
  "shape rust_Event = shape struct_event \<and> shape rust_TlsHelloEvent = shape struct_tls_hello_event"
  by (simp add: shape_def rust_Event_def struct_event_def rust_TlsHelloEvent_def struct_tls_hello_event_def
      members_of_def mpos_def mwidth_def mname_def MAX_FILENAME_LEN_def layout_simps layout_eval)

text \<open>
  C37. Nothing is lost on the wire, in either direction: the agent decodes what the kernel
  encoded, and every record of the right size is the encoding of what the agent decodes.
\<close>

lemma slice_cat: "slice i n xs @ drop (i + n) xs = drop i xs"
  unfolding slice_def by (metis add.commute append_take_drop_id drop_drop)

lemma event_bytes_decode:
  assumes "length d = 284"
  shows "event_bytes (decode_event d) = d \<and> wf_event (decode_event d)"
proof -
  have "u32_bytes (u32_of (slice i 4 d)) = slice i 4 d" if "i + 4 \<le> 284" for i
    using that assms by (simp add: u32_bytes_of)
  then have "event_bytes (decode_event d) =
      slice 0 4 d @ slice 4 4 d @ slice 8 4 d @ slice 12 16 d @ slice 28 256 d @ drop 284 d"
    using assms by (simp add: event_bytes_def decode_event_def field_bytes_def rust_event_fields)
  also have "\<dots> = d"
    using slice_cat [of 0 4 d] slice_cat [of 4 4 d] slice_cat [of 8 4 d] slice_cat [of 12 16 d]
      slice_cat [of 28 256 d] by simp
  finally show ?thesis
    using assms by (simp add: wf_event_def decode_event_def field_bytes_def rust_event_fields MAX_FILENAME_LEN_def)
qed

theorem wire_round_trip:
  assumes "wf_event e" and "wf_tls t" and "length d = sizeof rust_Event"
  shows "decode_event (event_bytes e) = e \<and> decode_tls (tls_bytes t) = t \<and> event_bytes (decode_event d) = d"
  using assms event_bytes_decode [of d] by (simp add: decode_event_bytes decode_tls_bytes lay_rust_Event)

theorem wire_round_trip_witness:
  "decode_event (event_bytes blank_event) = blank_event \<and> decode_tls (tls_bytes blank_tls) = blank_tls"
  using wire_round_trip [of blank_event blank_tls "replicate 284 0"]
  by (simp add: wf_event_def wf_tls_def blank_event_def blank_tls_def MAX_FILENAME_LEN_def lay_rust_Event)

text \<open>
  The size check of the callback never rejects a record: every record in the ring of a
  reachable sensor state is the encoding of a well-formed event, the one the agent decodes.
\<close>

theorem agent_accepts_kernel_records:
  assumes "reachable s" and "r \<in> set (events s)"
  shows "length r = sizeof rust_Event \<and> wf_event (decode_event r) \<and> event_bytes (decode_event r) = r"
  using reachable_inv [OF assms(1)] assms(2) event_bytes_decode [of r]
  by (auto simp: sensor_inv_def rings_ok_def layout_simps)

theorem agent_accepts_kernel_records_witness:
  "\<exists>r. r \<in> set (events (handle_kill (run_by 3 0 ''x'') \<lparr>se_id = 62, se_args = [0]\<rparr> bpf_init)) \<and>
     event_bytes (decode_event r) = r"
proof -
  let ?s = "handle_kill (run_by 3 0 ''x'') \<lparr>se_id = 62, se_args = [0]\<rparr> bpf_init"
  have "reachable ?s" by (rule reach_step [OF reach_init step_kill [OF wf_run_by]])
  moreover have "events ?s \<noteq> []"
    by (simp add: handle_kill_def Let_def bpf_init_def emit_trapped trapped_def bpf_send_signal_def lo32_def)
  then have "hd (events ?s) \<in> set (events ?s)" by simp
  ultimately show ?thesis using agent_accepts_kernel_records [of ?s "hd (events ?s)"] by blast
qed

section \<open>Traps on their way to the responder\<close>

lemma trap_table_plain: "(msg, act) \<in> set trap_table \<Longrightarrow> plain_name msg \<and> length msg < 256"
  by (auto simp: trap_table_def plain_name_def)

lemma trap_filename:
  "e_filename (trap_event k ind msg e) = cbytes msg @ [0] @ drop (length msg + 1) (e_filename e)"
  by (simp add: trap_event_def put_msg_def memcpy_def)

text \<open>
  C36. The agent recognises a trap record by its message exactly when every byte behind the
  message in the reserved ring memory was zero already: the programs copy the message only,
  and the agent strips trailing zero bytes only.
\<close>

theorem trap_recognised_iff:
  assumes "(msg, act) \<in> set trap_table"
  shows "name_of (e_filename (trap_event k ind msg e)) = msg \<longleftrightarrow>
    set (drop (length msg + 1) (e_filename e)) \<subseteq> {0}"
  unfolding trap_filename using name_of_message trap_table_plain [OF assms] by blast

theorem trap_recognised_iff_witness:
  "name_of (e_filename (trap_event (run_by 9 0 ''x'') (- 2) ''GHOST_PROCESS_TRAP'' blank_event)) =
     ''GHOST_PROCESS_TRAP''"
proof -
  have "(''GHOST_PROCESS_TRAP'', ''FREEZE'') \<in> set trap_table" by (simp add: trap_table_def)
  from trap_recognised_iff [OF this] show ?thesis
    by (simp add: blank_event_def set_replicate_conv_if)
qed

lemma recognised_queues:
  assumes "wf_event e" and "name_of (e_filename e) \<in> fst ` set trap_table"
    and "\<not> research_mode ce" and "length (responder_queue a) < QUEUE_CAPACITY"
  shows "e_pid e \<in> set (responder_queue (handle_event ce (event_bytes e) a))"
  unfolding handle_event_unfold [OF assms(3,1)] using assms(2,4)
  by (intro ransomware.keeps_queued heuristic.keeps_queued yara.keeps_queued traps_queue) simp_all

lemma trap_queues:
  assumes "(msg, act) \<in> set trap_table" and "wf_event e" and "wf_kenv k"
    and "set (drop (length msg + 1) (e_filename e)) \<subseteq> {0}"
    and "\<not> research_mode ce" and "length (responder_queue a) < QUEUE_CAPACITY"
  shows "cur_pid k \<in> set (responder_queue (handle_event ce (event_bytes (trap_event k ind msg e)) a))"
proof -
  let ?e = "trap_event k ind msg e"
  have wf: "wf_event ?e" using trap_table_plain assms(1-3) by (blast intro: wf_trap_event)
  have name: "name_of (e_filename ?e) = msg"
    unfolding trap_filename using name_of_message trap_table_plain assms(1,4) by blast
  have "msg \<in> fst ` set trap_table" using assms(1) by force
  with recognised_queues [OF wf _ assms(5,6)] name show ?thesis by simp
qed

text \<open>
  From the kernel to the responder: a file-open probe that reads the inode number of a
  registered honeytoken, with ring memory that was zero behind the message, adds one record,
  and the agent's callback on that record orders the opening process to be frozen, as long as
  the order queue has room and research mode is off. That the probe can read the inode is
  assumed here; at the entry of \<open>vfs_open\<close> it cannot (\<open>Dev_Tools\<close>).
\<close>

theorem honeytoken_to_responder:
  assumes "wf_kenv k" and "slot k = Some e" and "set (drop 21 (e_filename e)) \<subseteq> {0}"
    and "honeytokens s (u64_of (kread k (u64_of (kread k (filp + 32) 8) + 64) 8)) = Some 1"
    and "\<not> research_mode ce" and "length (responder_queue a) < 1000"
  shows "\<exists>r. events (kprobe_vfs_open k filp s) = events s @ [r] \<and>
    cur_pid k \<in> set (responder_queue (handle_event ce r a))"
proof (intro exI conjI)
  let ?m = "''HONEYTOKEN_TRIGGERED''"
  let ?r = "event_bytes (trap_event k (- 1) ?m e)"
  show "events (kprobe_vfs_open k filp s) = events s @ [?r]"
    using assms(2,4)
    by (simp add: kprobe_vfs_open_def Let_def honey_trigger_def core_read_u64_def member_addr_def
        offsetof_def kernel_fields emit_trap_def)
  have wf: "wf_event e" using assms(1,2) by (simp add: wf_kenv_def)
  have len: "length ?m + 1 = 21" by simp
  have tab: "(?m, ''FREEZE'') \<in> set trap_table" by (simp add: trap_table_def)
  show "cur_pid k \<in> set (responder_queue (handle_event ce ?r a))"
    by (rule trap_queues [OF tab wf assms(1) _ assms(5)])
      (simp_all only: len assms(3,6) QUEUE_CAPACITY_def)
qed

definition quiet_env :: callback_env where
  "quiet_env = \<lparr>research_mode = False, wal_outcomes = (\<lambda>n. IoOk), scan = (\<lambda>pid. None),
     os_run = (\<lambda>tr c. Exited True [])\<rparr>"

definition idle_agent :: agent_state where
  "idle_agent = \<lparr>wal = \<lparr>wal_content = [], wal_attempts = 0\<rparr>, responder_queue = [], commands = []\<rparr>"

theorem honeytoken_to_responder_witness:
  "\<exists>r. events (kprobe_vfs_open (run_by 9 0 ''cat'') 64
       (bpf_init\<lparr>honeytokens := [u64_of (replicate 8 7) \<mapsto> 1]\<rparr>)) = [r] \<and>
     9 \<in> set (responder_queue (handle_event quiet_env r idle_agent))"
  using honeytoken_to_responder [OF wf_run_by, of 9 0 "''cat''" blank_event
      "bpf_init\<lparr>honeytokens := [u64_of (replicate 8 7) \<mapsto> 1]\<rparr>" 64 quiet_env idle_agent]
  by (simp add: blank_event_def quiet_env_def idle_agent_def bpf_init_def set_replicate_conv_if)

text \<open>A trap record on which the callback queues the caller.\<close>

definition orders_caller :: "callback_env \<Rightarrow> agent_state \<Rightarrow> kenv \<Rightarrow> bpf_state \<Rightarrow> bpf_state \<Rightarrow> bool" where
  "orders_caller ce a k s s' \<longleftrightarrow> (\<exists>r. events s' = events s @ [r] \<and>
     cur_pid k \<in> set (responder_queue (handle_event ce r a)))"

lemma trap_answered:
  assumes "wf_kenv k" and "slot k = Some e" and "\<not> research_mode ce"
    and "length (responder_queue a) < QUEUE_CAPACITY" and "events s0 = events s"
    and "(msg, act) \<in> set trap_table" and "length msg + 1 = n" and "set (drop n (e_filename e)) \<subseteq> {0}"
  shows "orders_caller ce a k s (emit_trap k ind msg s0)"
proof -
  have "wf_event e" using assms(1,2) by (simp add: wf_kenv_def)
  from trap_queues [OF assms(6) this assms(1) _ assms(3,4)] assms(2,5,7,8) show ?thesis
    by (simp add: emit_trap_def orders_caller_def)
qed

text \<open>
  C3. From the kernel to the responder. A process that traces a registered decoy, or reads the
  memory of one, leaves one record behind, and the agent's callback on that record puts the
  process into the order queue; a process that signals the agent is stopped by the sensor
  itself, and besides leaves a record on which the callback puts it into the queue. Conditions:
  the ring buffer has room, the reserved memory behind the message was zero, research mode is
  off, and the order queue has room. The traps on files are left out: see
  \<open>honeytokens_never_fire\<close> in \<open>Dev_Tools\<close>.
\<close>

theorem trap_to_responder:
  assumes "wf_kenv k" and "slot k = Some e" and "\<not> research_mode ce" and "length (responder_queue a) < 1000"
  shows "(set (drop 19 (e_filename e)) \<subseteq> {0} \<and> ghost_pids s (lo32 (se_args ctx ! 1)) = Some 1 \<longrightarrow>
      (\<exists>r. events (handle_ptrace k ctx s) = events s @ [r] \<and>
        cur_pid k \<in> set (responder_queue (handle_event ce r a)))) \<and>
    (set (drop 19 (e_filename e)) \<subseteq> {0} \<and> ghost_pids s (lo32 (se_args ctx ! 0)) = Some 1 \<longrightarrow>
      (\<exists>r. events (handle_process_vm_readv k ctx s) = events s @ [r] \<and>
        cur_pid k \<in> set (responder_queue (handle_event ce r a)))) \<and>
    (set (drop 18 (e_filename e)) \<subseteq> {0} \<and> agent_pid s 0 = Some (lo32 (se_args ctx ! 0)) \<longrightarrow>
      signals (handle_kill k ctx s) = signals s @ [(cur_pid k, SIGSTOP)] \<and>
      (\<exists>r. events (handle_kill k ctx s) = events s @ [r] \<and>
        cur_pid k \<in> set (responder_queue (handle_event ce r a))))"
proof -
  note trap = trap_answered [OF assms(1-3) assms(4) [folded QUEUE_CAPACITY_def]]
  have ghost: "orders_caller ce a k s (ghost_check k p s)"
    if "set (drop 19 (e_filename e)) \<subseteq> {0}" "ghost_pids s p = Some 1" for p
  proof -
    have "(''GHOST_PROCESS_TRAP'', ''FREEZE'') \<in> set trap_table" by (simp add: trap_table_def)
    from trap [OF refl this _ that(1)] that(2) show ?thesis by (simp add: ghost_check_def)
  qed
  have kill: "orders_caller ce a k s (handle_kill k ctx s) \<and>
      signals (handle_kill k ctx s) = signals s @ [(cur_pid k, SIGSTOP)]"
    if "set (drop 18 (e_filename e)) \<subseteq> {0}" "agent_pid s 0 = Some (lo32 (se_args ctx ! 0))"
  proof -
    have "(''SELF_DEFENSE_TRAP'', ''SIGSTOP'') \<in> set trap_table" by (simp add: trap_table_def)
    from trap [OF send_signal_simps(2) this _ that(1)] that(2) show ?thesis by (simp add: handle_kill_def)
  qed
  from ghost [of "lo32 (se_args ctx ! 1)"] ghost [of "lo32 (se_args ctx ! 0)"] kill show ?thesis
    unfolding handle_ptrace_def handle_process_vm_readv_def orders_caller_def by blast
qed

theorem trap_to_responder_witness:
  "\<exists>r. events (handle_kill (run_by 9 0 ''sh'') \<lparr>se_id = 62, se_args = [0, 15]\<rparr> bpf_init) = [r] \<and>
     9 \<in> set (responder_queue (handle_event quiet_env r idle_agent))"
  using trap_to_responder [OF wf_run_by, of 9 0 "''sh''" blank_event quiet_env idle_agent bpf_init
      "\<lparr>se_id = 62, se_args = [0, 15]\<rparr>"]
  by (simp add: blank_event_def quiet_env_def idle_agent_def bpf_init_def lo32_def set_replicate_conv_if)

section \<open>Records with stale bytes\<close>

lemma trim_keeps: "\<not> set ys \<subseteq> {CHR 0x00} \<Longrightarrow> trim_end_nul (xs @ ys) = xs @ trim_end_nul ys"
proof -
  assume "\<not> set ys \<subseteq> {CHR 0x00}"
  then obtain y where "y \<in> set (rev ys)" "\<not> y = CHR 0x00" by auto
  then show ?thesis by (simp add: trim_end_nul_def dropWhile_append1)
qed

lemma name_of_dirty:
  assumes "plain_name msg" and "\<not> set rest \<subseteq> {0}"
  shows "CHR 0x00 \<in> set (name_of (cbytes msg @ [0] @ rest))"
proof -
  let ?r = "of_bytes (lossy_bytes rest)"
  have dec: "from_utf8_lossy (cbytes msg @ [0] @ rest) = (msg @ [CHR 0x00]) @ ?r"
    using lossy_ascii [OF ascii_plain [OF assms(1)], of rest] by (simp add: from_utf8_lossy_def)
  have "\<not> set ?r \<subseteq> {CHR 0x00}"
  proof
    assume "set ?r \<subseteq> {CHR 0x00}"
    then have z: "set (lossy_bytes rest) \<subseteq> {0}" by (auto simp: of_bytes_def char_of_byte_zero)
    then have "ascii (lossy_bytes rest)" by (auto simp: ascii_def)
    then have "rest = lossy_bytes rest" by (rule lossy_eq_ascii) simp
    with z assms(2) show False by simp
  qed
  then have "trim_end_nul ((msg @ [CHR 0x00]) @ ?r) = (msg @ [CHR 0x00]) @ trim_end_nul ?r"
    by (rule trim_keeps)
  then show ?thesis unfolding name_of_def dec by simp
qed

text \<open>
  C39. A lost trap. When the reserved memory behind the message was not all zero, the trap is not
  recognised: unless another trigger fires on that record (a scan match, a process named
  \<open>malware\<close> or \<open>ransomware\<close>, stale bytes that spell \<open>/tmp/pwn\<close> or end in \<open>.enc\<close>) the
  responder gets no order at all.
\<close>

theorem stale_bytes_hide_trap:
  fixes k ind msg e
  assumes "(msg, act) \<in> set trap_table" and "wf_event e" and "wf_kenv k"
    and "\<not> set (drop (length msg + 1) (e_filename e)) \<subseteq> {0}" and "\<not> research_mode ce"
    and "scan ce (cur_pid k) = None" and "name_of (cur_comm k) \<notin> {''malware'', ''ransomware''}"
    and "\<not> contains (name_of (e_filename (trap_event k ind msg e))) ''/tmp/pwn''"
    and "\<not> ends_with (name_of (e_filename (trap_event k ind msg e))) ''.enc''"
  shows "responder_queue (handle_event ce (event_bytes (trap_event k ind msg e)) a) = responder_queue a"
proof -
  let ?e = "trap_event k ind msg e"
  have wf: "wf_event ?e" using trap_table_plain assms(1-3) by (blast intro: wf_trap_event)
  have "CHR 0x00 \<in> set (name_of (e_filename ?e))"
    unfolding trap_filename using name_of_dirty trap_table_plain assms(1,4) by blast
  then have "name_of (e_filename ?e) \<notin> fst ` set trap_table"
    using trap_table_plain by (force simp: plain_name_def)
  moreover have "e_comm ?e = cur_comm k" by (simp add: trap_event_def put_msg_def)
  ultimately show ?thesis
    unfolding handle_event_unfold [OF assms(5) wf] using assms(6-9)
    by (simp add: traps_no_match yara_trigger_def heuristic_trigger_def ransomware_trigger_def)
qed

definition stale_event :: event where
  "stale_event = blank_event\<lparr>e_filename := cbytes ''/home/john/.aws/credentials'' @ replicate 229 0\<rparr>"

text \<open>ASCII text and zero padding decode to the text.\<close>

lemma name_of_padded:
  assumes "\<forall>c \<in> set t. of_char c < (128 :: nat)" and "t = [] \<or> last t \<noteq> CHR 0x00"
  shows "name_of (cbytes t @ replicate n 0) = t"
proof -
  have "ascii (cbytes t @ replicate n 0)"
    using assms(1) by (auto simp: ascii_def cbytes_def unat_ch)
  then have "from_utf8_lossy (cbytes t @ replicate n 0) = t @ of_bytes (replicate n 0)"
    by (simp add: from_utf8_lossy_ascii)
  moreover have "set (of_bytes (replicate n 0)) \<subseteq> {CHR 0x00}"
    by (auto simp: of_bytes_def set_replicate_conv_if)
  ultimately show ?thesis
    using assms(2) by (simp add: name_of_def trim_end_nul_append trim_end_nul_id)
qed

lemma stale_name:
  "name_of (e_filename (trap_event k ind ''HONEYTOKEN_TRIGGERED'' stale_event)) =
     ''HONEYTOKEN_TRIGGERED'' @ [CHR 0x00] @ ''ntials''"
proof -
  let ?t = "''HONEYTOKEN_TRIGGERED'' @ [CHR 0x00] @ ''ntials''"
  have "e_filename (trap_event k ind ''HONEYTOKEN_TRIGGERED'' stale_event) = cbytes ?t @ replicate 229 0"
    by (simp add: trap_filename stale_event_def ch_def)
  then show ?thesis using name_of_padded [of ?t 229] by simp
qed

theorem stale_bytes_hide_trap_witness:
  "responder_queue (handle_event quiet_env
     (event_bytes (trap_event (run_by 9 0 ''cat'') (- 1) ''HONEYTOKEN_TRIGGERED'' stale_event)) idle_agent) = []"
proof -
  let ?k = "run_by 9 0 ''cat''" and ?m = "''HONEYTOKEN_TRIGGERED''"
  have tab: "(?m, ''FREEZE'') \<in> set trap_table" by (simp add: trap_table_def)
  have wf: "wf_event stale_event"
    by (simp add: wf_event_def stale_event_def blank_event_def MAX_FILENAME_LEN_def)
  have dirty: "\<not> set (drop (length ?m + 1) (e_filename stale_event)) \<subseteq> {0}"
    by (simp add: stale_event_def set_replicate_conv_if ch_def)
  have comm: "name_of (cur_comm ?k) \<notin> {''malware'', ''ransomware''}"
    using name_of_padded [of "''cat''" 13] by simp
  have pwn: "\<not> contains (name_of (e_filename (trap_event ?k (- 1) ?m stale_event))) ''/tmp/pwn''"
    by (simp only: stale_name) (simp add: starts_with_def)
  have enc: "\<not> ends_with (name_of (e_filename (trap_event ?k (- 1) ?m stale_event))) ''.enc''"
    by (simp only: stale_name) (simp add: ends_with_def)
  show ?thesis
    using stale_bytes_hide_trap [OF tab wf wf_run_by dirty _ _ comm pwn enc, of quiet_env idle_agent]
    by (simp add: quiet_env_def idle_agent_def)
qed

section \<open>What one record may do\<close>

text \<open>
  In research mode, or for a record of another size, the callback does nothing. Otherwise
  it appends to the order queue only its own process, some number of times, never beyond
  the channel's capacity of 1000, and only appends to the log.
\<close>

theorem callback_confined:
  "(research_mode ce \<or> length data \<noteq> 284 \<longrightarrow> handle_event ce data a = a) \<and>
   (\<exists>n more. responder_queue (handle_event ce data a) =
        responder_queue a @ replicate n (e_pid (decode_event data)) \<and>
      wal_content (wal (handle_event ce data a)) = wal_content (wal a) @ more) \<and>
   (length (responder_queue a) \<le> 1000 \<longrightarrow> length (responder_queue (handle_event ce data a)) \<le> 1000)"
proof (intro conjI impI)
  assume "research_mode ce \<or> length data \<noteq> 284"
  then show "handle_event ce data a = a" by (auto simp: handle_event_def lay_rust_Event)
next
  obtain f where f: "trigger f" "\<And>a. handle_event ce data a = f (e_pid (decode_event data)) a"
    using handle_event_trigger by blast
  show "\<exists>n more. responder_queue (handle_event ce data a) =
        responder_queue a @ replicate n (e_pid (decode_event data)) \<and>
      wal_content (wal (handle_event ce data a)) = wal_content (wal a) @ more"
    unfolding f(2) using trigger.queue_step [OF f(1)] trigger.log_step [OF f(1)] by blast
next
  assume "length (responder_queue a) \<le> 1000"
  then show "length (responder_queue (handle_event ce data a)) \<le> 1000"
    using handle_event_cap [of a ce data] by (simp add: QUEUE_CAPACITY_def)
qed

theorem callback_confined_witness:
  "length (responder_queue (handle_event quiet_env (event_bytes stale_event) idle_agent)) \<le> 1000"
  using callback_confined [of quiet_env "event_bytes stale_event" idle_agent] by (simp add: idle_agent_def)

text \<open>
  Every record the callback accepts is logged before anything else: when the write
  succeeds, the log is extended by the record's own entry, then by those of its triggers.
\<close>

lemma log_event_ok:
  "wal_outcomes ce (wal_attempts (wal a)) = IoOk \<Longrightarrow>
     wal_content (wal (log_event ce e c f a)) =
       wal_content (wal a) @ event_entry (e_pid e) (e_ppid e) (e_uid e) c f"
  by (simp add: log_event_def insert_event_def db_def new_def wal_append_ok)

theorem record_logged_first:
  assumes "wf_event e" and "\<not> research_mode ce" and "wal_outcomes ce (wal_attempts (wal a)) = IoOk"
  shows "\<exists>more. wal_content (wal (handle_event ce (event_bytes e) a)) = wal_content (wal a) @
    event_entry (e_pid e) (e_ppid e) (e_uid e) (name_of (e_comm e)) (name_of (e_filename e)) @ more"
proof -
  let ?c = "name_of (e_comm e)" and ?f = "name_of (e_filename e)"
  have "trigger (\<lambda>pid a. ransomware_trigger ce pid ?c ?f (heuristic_trigger ce pid ?c ?f
      (yara_trigger ce pid (foldl (\<lambda>a t. trap_trigger ce pid ?f t a) a trap_table))))"
    by (rule trigger_comp [OF ransomware.trigger_axioms trigger_comp [OF heuristic.trigger_axioms
          trigger_comp [OF yara.trigger_axioms trigger_traps]]])
  from trigger.log_step [OF this, of "e_pid e" "log_event ce e ?c ?f a"] show ?thesis
    using assms(3) unfolding handle_event_unfold [OF assms(2,1)] by (simp add: log_event_ok)
qed

theorem record_logged_first_witness:
  "\<exists>more. wal_content (wal (handle_event quiet_env (event_bytes blank_event) idle_agent)) =
     event_entry 0 0 0 [] [] @ more"
proof -
  have "name_of (replicate 16 0) = []" "name_of (replicate 256 0) = []"
    using name_of_padded [of "[]" 16] name_of_padded [of "[]" 256] by simp_all
  then show ?thesis
    using record_logged_first [of blank_event quiet_env idle_agent]
    by (simp add: blank_event_def quiet_env_def idle_agent_def wf_event_def MAX_FILENAME_LEN_def)
qed

text \<open>
  The log is line based and names are not escaped: a process that executes a path with
  a line break in it puts any further line it likes into the log.
\<close>

theorem log_line_forged:
  assumes "env (wal_attempts w) = IoOk"
  shows "\<exists>pre. wal_content (snd (insert_event db env pid ppid uid comm (''x'' @ ''\<newline>'' @ forged) w)) =
    wal_content w @ pre @ ''\<newline>'' @ forged @ ''\<newline>''"
  using assms by (auto simp: insert_event_def db_def new_def wal_append_ok event_entry_def)

theorem log_line_forged_witness:
  "\<exists>pre. wal_content (snd (insert_event db (\<lambda>n. IoOk) 9 1 1000 ''sh''
      (''x'' @ ''\<newline>'' @ ''VEC:[EDR_ACTION] | ACTION:FREEZE TARGET:PID:1 REASON:x'')
      \<lparr>wal_content = [], wal_attempts = 0\<rparr>)) =
     pre @ ''\<newline>'' @ ''VEC:[EDR_ACTION] | ACTION:FREEZE TARGET:PID:1 REASON:x'' @ ''\<newline>''"
  using log_line_forged [of "\<lambda>n. IoOk" "\<lparr>wal_content = [], wal_attempts = 0\<rparr>" 9 1 1000 "''sh''"
      "''VEC:[EDR_ACTION] | ACTION:FREEZE TARGET:PID:1 REASON:x''"]
  by simp

section \<open>ZFS commands\<close>

lemma commands_traps [simp]:
  "commands (foldl (\<lambda>a t. trap_trigger ce pid filename t a) a ts) = commands a"
  by (induction ts arbitrary: a) (simp_all add: trap_trigger_def)

lemma commands_triggers [simp]:
  "commands (yara_trigger ce pid a) = commands a" "commands (heuristic_trigger ce pid c f a) = commands a"
  by (simp_all add: yara_trigger_def heuristic_trigger_def split: option.split)

text \<open>
  The callback runs at most one external command, the rollback of the home dataset,
  and it does so exactly for a process named \<open>ransomware\<close> or an executed path that ends in
  \<open>.enc\<close>.
\<close>

theorem rollback_iff_ransomware:
  assumes "wf_event e" and "\<not> research_mode ce"
  shows "commands (handle_event ce (event_bytes e) a) =
    (if (name_of (e_comm e) = ''ransomware'' \<or> ends_with (name_of (e_filename e)) ''.enc'') \<and>
        os_run ce (commands a) (rollback_cmd zfs) \<noteq> SpawnFailed
     then commands a @ [[''sudo'', ''zfs'', ''rollback'', ''-r'', ''rpool/home@edr_pre_dev_snapshot'']]
     else commands a)"
  unfolding handle_event_unfold [OF assms(2,1)]
  by (auto simp: ransomware_trigger_def Let_def trigger_rollback_def rollback_cmd_def zfs_def zfs_new_def
      split: cmd_result.split)

theorem rollback_iff_ransomware_witness:
  "commands (handle_event quiet_env
     (event_bytes (blank_event\<lparr>e_filename := cbytes ''/tmp/a.enc'' @ replicate 246 0\<rparr>)) idle_agent) =
   [[''sudo'', ''zfs'', ''rollback'', ''-r'', ''rpool/home@edr_pre_dev_snapshot'']]"
  using rollback_iff_ransomware [of "blank_event\<lparr>e_filename := cbytes ''/tmp/a.enc'' @ replicate 246 0\<rparr>"
      quiet_env idle_agent] name_of_padded [of "''/tmp/a.enc''" 246]
  by (simp add: wf_event_def blank_event_def MAX_FILENAME_LEN_def quiet_env_def idle_agent_def ends_with_def)

text \<open>
  The daily backup runs the snapshot and then the export, each once: it succeeds exactly
  when both succeed, the export is started only after the snapshot succeeded, and the
  commands run are a prefix of the two.
\<close>

theorem daily_snapshot_order:
  "(fst (take_daily_snapshot os now z tr) = Inr () \<longleftrightarrow>
      (\<exists>t out out'. now = Some t \<and> os tr (snapshot_cmd z t) = Exited True out \<and>
        os (tr @ [snapshot_cmd z t]) (export_cmd z t) = Exited True out')) \<and>
   (\<exists>t n. snd (take_daily_snapshot os now z tr) = tr @ take n [snapshot_cmd z t, export_cmd z t] \<and>
      (1 < n \<longrightarrow> (\<exists>out. os tr (snapshot_cmd z t) = Exited True out)))"
proof (intro conjI)
  show "fst (take_daily_snapshot os now z tr) = Inr () \<longleftrightarrow>
      (\<exists>t out out'. now = Some t \<and> os tr (snapshot_cmd z t) = Exited True out \<and>
        os (tr @ [snapshot_cmd z t]) (export_cmd z t) = Exited True out')"
    by (auto simp: take_daily_snapshot_def Let_def split: option.splits cmd_result.splits)
  let ?P = "\<lambda>t n. snd (take_daily_snapshot os now z tr) = tr @ take n [snapshot_cmd z t, export_cmd z t] \<and>
      (1 < n \<longrightarrow> (\<exists>out. os tr (snapshot_cmd z t) = Exited True out))"
  have "?P t 0 \<or> ?P t 1 \<or> ?P t 2" if "now = Some t" for t
    using that by (auto simp: take_daily_snapshot_def Let_def split: cmd_result.splits)
  moreover have "?P t 0" if "now = None" for t
    using that by (simp add: take_daily_snapshot_def)
  ultimately show "\<exists>t n. ?P t n" by (cases now) blast+
qed

theorem daily_snapshot_order_witness:
  "snd (take_daily_snapshot (\<lambda>tr c. Exited False []) (Some 7) zfs []) \<noteq> [snapshot_cmd zfs 7, export_cmd zfs 7]"
  using daily_snapshot_order [of "\<lambda>tr c. Exited False []" "Some 7" zfs "[]"]
  by (simp add: take_daily_snapshot_def)

text \<open>
  The rollback goes to a snapshot the daily backup never makes: no daily snapshot has
  the name that the rollback asks for.
\<close>

theorem rollback_target_not_daily:
  "rollback_cmd z = [''sudo'', ''zfs'', ''rollback'', ''-r'', snap] \<Longrightarrow> snap \<noteq> snapshot_name z t"
  by (auto simp: rollback_cmd_def snapshot_name_def)

theorem rollback_target_not_daily_witness:
  "''rpool/home@edr_pre_dev_snapshot'' \<noteq> snapshot_name zfs 1700000000"
  by (rule rollback_target_not_daily [of zfs]) (simp add: rollback_cmd_def zfs_def zfs_new_def)

end
