(* ===== verification/Command_Logs.thy ===== *)
theory Command_Logs
  imports Kp14_Client Rollback "HOL-Library.Sublist"
begin

text \<open>
  The external commands each part of the agent runs: the list of commands only grows, and every
  operation adds commands of its own kind only.
\<close>

section \<open>Logs of commands\<close>

definition extends_by :: "(cmd \<Rightarrow> bool) \<Rightarrow> cmd list \<Rightarrow> cmd list \<Rightarrow> bool" where
  "extends_by P tr tr' \<longleftrightarrow> (\<exists>more. tr' = tr @ more \<and> list_all P more)"

lemma extends_refl [simp, intro]: "extends_by P tr tr"
  by (simp add: extends_by_def)

lemma extends_one: "P c \<Longrightarrow> extends_by P tr (tr @ [c])"
  by (simp add: extends_by_def)

lemma extends_trans [trans]: "extends_by P a b \<Longrightarrow> extends_by P b c \<Longrightarrow> extends_by P a c"
  by (fastforce simp: extends_by_def)

lemma extends_mono: "extends_by P a b \<Longrightarrow> (\<And>c. P c \<Longrightarrow> Q c) \<Longrightarrow> extends_by Q a b"
  by (auto simp: extends_by_def list_all_iff)

lemma extends_prefix: "extends_by P a b \<Longrightarrow> prefix a b"
  by (auto simp: extends_by_def)

lemma extends_new: "extends_by P a b \<Longrightarrow> c \<in> set b \<Longrightarrow> c \<in> set a \<or> P c"
  by (auto simp: extends_by_def list_all_iff)

text \<open>An operation that runs commands of one kind only.\<close>

locale runs_only =
  fixes kind :: "cmd \<Rightarrow> bool" and log :: "'s \<Rightarrow> cmd list" and op :: "'s \<Rightarrow> 's"
  assumes runs: "extends_by kind (log s) (log (op s))"
begin

lemma keeps_log: "prefix (log s) (log (op s))"
  using runs extends_prefix by blast

lemma weaker: "(\<And>c. kind c \<Longrightarrow> kind' c) \<Longrightarrow> extends_by kind' (log s) (log (op s))"
  using runs extends_mono by blast

end

section \<open>The commands of each part\<close>

definition zfs_command :: "cmd \<Rightarrow> bool" where
  "zfs_command c \<longleftrightarrow> hd c \<in> {''sudo'', ''sh''}"

definition analysis_command :: "cmd \<Rightarrow> bool" where
  "analysis_command c \<longleftrightarrow>
     hd c \<in> {''sudo'', ''mount'', ''umount'', ''ssh'', ''scp'', ''python3'', ''r2'', GHIDRA_HEADLESS}"

lemma rollback_runs: "extends_by zfs_command tr (snd (trigger_rollback os z tr))"
  by (simp add: trigger_rollback_def Let_def extends_one zfs_command_def rollback_cmd_def split: cmd_result.split)

lemma snapshot_runs: "extends_by zfs_command tr (snd (take_daily_snapshot os clock z tr))"
  by (auto simp: take_daily_snapshot_def Let_def extends_by_def zfs_command_def snapshot_cmd_def export_cmd_def
      split: cmd_result.split option.split)

text \<open>The analysis client; its state carries the log.\<close>

abbreviation analysis_log :: "kp14_state \<Rightarrow> kp14_state \<Rightarrow> bool" where
  "analysis_log st st' \<equiv> extends_by analysis_command (ran st) (ran st')"

lemma status_runs: "analysis_command c \<Longrightarrow> analysis_log st (snd (status_of ke c st))"
  by (auto simp: status_of_def run_status_def extends_one split: cmd_result.split)

lemma output_runs: "analysis_command c \<Longrightarrow> analysis_log st (snd (output_of ke c st))"
  by (auto simp: output_of_def extends_one split: cmd_result.split)

lemma client_commands [simp]:
  "analysis_command (''sudo'' # x)" "analysis_command (mount_cmd dev)" "analysis_command umount_cmd"
  "analysis_command (ssh_cmd c t)" "analysis_command (transfer_cmd c p n)" "analysis_command (remove_cmd c n)"
  "analysis_command (pipeline_args c a b d)" "analysis_command (''r2'' # x)"
  "analysis_command (GHIDRA_HEADLESS # x)"
  by (simp_all add: analysis_command_def mount_cmd_def umount_cmd_def ssh_cmd_def transfer_cmd_def remove_cmd_def
      pipeline_args_def)

lemma runs_case: "analysis_log st (snd p) \<Longrightarrow> p = (r, st') \<Longrightarrow> analysis_log st st'"
  by simp

lemmas status_case = runs_case [OF status_runs] and output_case = runs_case [OF output_runs]

lemma mount_runs: "mount_device ke dev st = (r, st') \<Longrightarrow> analysis_log st st'"
  by (auto simp: mount_device_def split: if_splits prod.splits option.splits bool.splits
      dest!: status_case [rotated] intro: extends_trans)

lemma ingest_runs: "mount_and_ingest ke dev st = Some (r, st') \<Longrightarrow> analysis_log st st'"
  by (auto simp: mount_and_ingest_def split: prod.splits sum.splits dest: mount_runs)

lemma cleanup_mount_runs: "analysis_log st (cleanup_mount ke st)"
  by (auto simp: cleanup_mount_def split: prod.splits option.splits bool.splits
      dest!: status_case [rotated] intro: extends_trans [OF _ status_runs])

lemma pipeline_runs:
  "run_disassembly_pipeline ke c clock b p profile st = (r, st') \<Longrightarrow> analysis_log st st'"
  by (auto simp: run_disassembly_pipeline_def Let_def split: option.splits prod.splits bool.splits if_splits
      dest!: status_case [rotated])

lemma ghidra_runs: "run_ghidra_headless ke c b d p st = (r, st') \<Longrightarrow> analysis_log st st'"
  by (auto simp: run_ghidra_headless_def Let_def split: option.splits prod.splits bool.splits if_splits
      dest!: status_case [rotated])

lemma triage_runs: "run_radare2_triage ke c b st = (r, st') \<Longrightarrow> analysis_log st st'"
  by (auto simp: run_radare2_triage_def Let_def split: option.splits prod.splits if_splits
      dest!: output_case [rotated])

lemma read_output_runs: "read_pipeline_output ke c d f st = (r, st') \<Longrightarrow> analysis_log st st'"
  by (auto simp: read_pipeline_output_def Let_def split: option.splits prod.splits if_splits
      dest!: output_case [rotated])

lemma read_outputs_runs: "read_outputs ke c d outs st = (r, st') \<Longrightarrow> analysis_log st st'"
proof (induction outs arbitrary: r st st')
  case (Cons out outs)
  then show ?case
    by (cases out) (auto split: prod.splits sum.splits intro: extends_trans dest!: read_output_runs)
qed simp

lemma extract_runs: "extract_iocs_from_output ke c d st = (r, st') \<Longrightarrow> analysis_log st st'"
  by (auto simp: extract_iocs_from_output_def split: prod.splits sum.splits dest: read_outputs_runs)

lemma push_runs: "push_iocs_to_misp ke iocs st = (r, st') \<Longrightarrow> analysis_log st st'"
  by (auto simp: push_iocs_to_misp_def split: if_splits)

lemma triage_binary_runs: "analysis_log (snd acc) (snd (triage_binary ke c project acc b))"
  using ghidra_runs [OF surjective_pairing]
  by (auto simp: triage_binary_def split: prod.splits dest!: triage_runs intro: extends_trans)

lemma triage_all_runs: "analysis_log (snd acc) (snd (foldl (triage_binary ke c project) acc bs))"
proof (induction bs arbitrary: acc)
  case (Cons b bs)
  show ?case using extends_trans [OF triage_binary_runs Cons.IH] by simp
qed simp

lemma full_dump_runs: "analyse_full_dump ke c pid d st = (r, st') \<Longrightarrow> analysis_log st st'"
  by (auto simp: analyse_full_dump_def Let_def split: prod.splits sum.splits
      dest!: triage_runs pipeline_runs extract_runs intro: extends_trans)

lemma gather_runs: "gather_iocs ke c d bs st = (r, st') \<Longrightarrow> analysis_log st st'"
  using triage_all_runs [of "([], st)" ke c "''pid_'' @ show_i32 (d_pid d)" bs]
  by (auto simp: gather_iocs_def Let_def split: prod.splits if_splits
      dest!: full_dump_runs intro: extends_trans [OF _ cleanup_mount_runs] extends_trans)

lemma process_dump_runs: "process_dump ke c d st = (r, st') \<Longrightarrow> analysis_log st st'"
  by (auto simp: process_dump_def split: prod.splits sum.splits dest!: gather_runs push_runs
      intro: extends_trans [OF _ cleanup_mount_runs] extends_trans)

lemma daemon_runs:
  assumes "run_daemon_pipeline ke c timeout st = Some (r, st')"
  shows "analysis_log st st'"
proof -
  obtain w where w: "watch_for_hotplugged_device ke timeout = Some w"
    using assms by (auto simp: run_daemon_pipeline_def bind_eq_Some_conv)
  show ?thesis
  proof (cases w)
    case (Inl e)
    with assms w show ?thesis by (simp add: run_daemon_pipeline_def)
  next
    case (Inr dev)
    with assms w obtain m st1 where m: "mount_and_ingest ke dev st = Some (m, st1)"
      by (auto simp: run_daemon_pipeline_def)
    note first = ingest_runs [OF m]
    show ?thesis
    proof (cases m)
      case (Inr blob)
      with assms w \<open>w = Inr dev\<close> m first show ?thesis
        by (cases "from_file (read_bytes ke (ran st1) blob)")
          (auto simp: run_daemon_pipeline_def dest!: process_dump_runs intro: extends_trans)
    qed (use assms w Inr m first in \<open>simp add: run_daemon_pipeline_def\<close>)
  qed
qed

lemma analyse_remote_runs: "analyse_remote ke c p n st = (r, st') \<Longrightarrow> analysis_log st st'"
  by (auto simp: analyse_remote_def split: prod.splits sum.splits dest!: pipeline_runs extract_runs push_runs
      intro: extends_trans)

lemma remote_runs: "run_remote_analysis ke c p st = (r, st') \<Longrightarrow> analysis_log st st'"
  by (auto simp: run_remote_analysis_def split: prod.splits sum.splits option.splits bool.splits
      dest!: status_case [rotated] analyse_remote_runs intro: extends_trans [OF _ status_runs] extends_trans)

section \<open>The bridge\<close>

text \<open>Routing and cleanup, on the list of commands itself.\<close>

lemma run_status_runs: "P c \<Longrightarrow> run_status os c tr = (r, tr') \<Longrightarrow> extends_by P tr tr'"
  by (auto simp: run_status_def extends_one split: cmd_result.splits)

definition routing_command :: "cmd \<Rightarrow> bool" where
  "routing_command c \<longleftrightarrow> hd c \<in> {''pvesm'', ''qm'', ''dd'', ''scp''} \<and> take 2 c \<noteq> [''pvesm'', ''free'']"

lemma bridge_commands [simp]:
  "routing_command (alloc_cmd b t m)" "routing_command (path_cmd v)" "routing_command (dd_cmd p d)"
  "routing_command (scp_cmd b p v)" "routing_command (config_cmd b)" "routing_command (hotplug_cmd b s v)"
  "routing_command (delete_cmd b s)" "\<not> routing_command (free_cmd v)"
  by (simp_all add: routing_command_def alloc_cmd_def path_cmd_def dd_cmd_def scp_cmd_def config_cmd_def
      hotplug_cmd_def delete_cmd_def free_cmd_def)

lemma allocate_runs: "allocate_storage os clock b n tr = (r, tr') \<Longrightarrow> extends_by routing_command tr tr'"
  by (auto simp: allocate_storage_def Let_def split: option.splits prod.splits bool.splits if_splits
      dest!: run_status_runs [of routing_command, rotated])

lemma path_runs: "get_volume_device_path os v tr = (r, tr') \<Longrightarrow> extends_by routing_command tr tr'"
  by (auto simp: get_volume_device_path_def Let_def extends_one split: cmd_result.splits if_splits)

lemma write_runs: "write_blob_to_volume os n b p v tr = (r, tr') \<Longrightarrow> extends_by routing_command tr tr'"
  by (auto simp: write_blob_to_volume_def split: option.splits prod.splits sum.splits bool.splits if_splits
      dest!: run_status_runs [of routing_command, rotated] path_runs intro: extends_trans)

lemma slot_runs: "find_available_scsi_slot os b tr = (r, tr') \<Longrightarrow> extends_by routing_command tr tr'"
  by (auto simp: find_available_scsi_slot_def extends_one split: option.splits cmd_result.splits if_splits)

lemma hotplug_runs: "hotplug_to_vm os b v tr = (r, tr') \<Longrightarrow> extends_by routing_command tr tr'"
  by (auto simp: hotplug_to_vm_def split: option.splits prod.splits sum.splits bool.splits if_splits
      dest!: run_status_runs [of routing_command, rotated] slot_runs intro: extends_trans)

lemma route_runs: "route_to_kp14 os clock n b p tr = (r, tr') \<Longrightarrow> extends_by routing_command tr tr'"
  by (auto simp: route_to_kp14_def split: option.splits prod.splits sum.splits
      dest!: allocate_runs write_runs hotplug_runs intro: extends_trans)

end
