(* ===== verification/System_Handlers.thy ===== *)
theory System_Handlers
  imports Agent_System Agent_Properties Command_Logs
begin

text \<open>
  What the handlers of the running agent change and what they leave alone, as a collection of
  equations, and the turns of the sidecar against the rounds of \<open>Misp\<close>.
\<close>

section \<open>What each handler changes\<close>

named_theorems handler_simps \<open>parts of the system's state a handler leaves alone\<close>

lemma poll_event_simps [handler_simps]:
  "answered (poll_event ce s) = answered s" "intel_channel (poll_event ce s) = intel_channel s"
  "drained (poll_event ce s) = drained s" "sensor (poll_event ce s) = sensor s"
  "tls_polled (poll_event ce s) = tls_polled s" "events_polled (poll_event ce s) = Suc (events_polled s)"
  "rejected (poll_event ce s) = rejected s"
  by (simp_all add: poll_event_def)

lemma poll_tls_simps [handler_simps]:
  "answered (poll_tls env s) = answered s" "intel_channel (poll_tls env s) = intel_channel s"
  "drained (poll_tls env s) = drained s" "sensor (poll_tls env s) = sensor s"
  "tls_polled (poll_tls env s) = Suc (tls_polled s)" "events_polled (poll_tls env s) = events_polled s"
  "responder_queue (agent (poll_tls env s)) = responder_queue (agent s)"
  "rejected (poll_tls env s) = rejected s"
  by (simp_all add: poll_tls_def)

lemma receive_simps [handler_simps]:
  "intel_channel (receive re s) = intel_channel s" "drained (receive re s) = drained s"
  "sensor (receive re s) = sensor s" "tls_polled (receive re s) = tls_polled s"
  "events_polled (receive re s) = events_polled s"
  "rejected (receive re s) = rejected s"
  by (simp_all add: receive_def split: list.split prod.split)

lemma run_analysis_simps [handler_simps]:
  "answered (run_analysis ke h i s) = answered s" "intel_channel (run_analysis ke h i s) = intel_channel s"
  "drained (run_analysis ke h i s) = drained s" "sensor (run_analysis ke h i s) = sensor s"
  "tls_polled (run_analysis ke h i s) = tls_polled s" "events_polled (run_analysis ke h i s) = events_polled s"
  "responder_queue (agent (run_analysis ke h i s)) = responder_queue (agent s)"
  "rejected (run_analysis ke h i s) = rejected s"
  by (simp_all add: run_analysis_def Let_def)

lemma run_cleanup_simps [handler_simps]:
  "answered (run_cleanup os i s) = answered s" "intel_channel (run_cleanup os i s) = intel_channel s"
  "drained (run_cleanup os i s) = drained s" "sensor (run_cleanup os i s) = sensor s"
  "tls_polled (run_cleanup os i s) = tls_polled s" "events_polled (run_cleanup os i s) = events_polled s"
  "responder_queue (agent (run_cleanup os i s)) = responder_queue (agent s)"
  "rejected (run_cleanup os i s) = rejected s"
  by (simp_all add: run_cleanup_def split: prod.split)

lemma run_daemon_simps [handler_simps]:
  assumes "run_daemon ke h s = Some s'"
  shows "answered s' = answered s" "intel_channel s' = intel_channel s" "drained s' = drained s"
    "sensor s' = sensor s" "tls_polled s' = tls_polled s" "events_polled s' = events_polled s"
    "responder_queue (agent s') = responder_queue (agent s)" "rejected s' = rejected s"
  using assms by (auto simp: run_daemon_def)

lemma run_backup_simps [handler_simps]:
  "answered (run_backup os t s) = answered s" "intel_channel (run_backup os t s) = intel_channel s"
  "drained (run_backup os t s) = drained s" "sensor (run_backup os t s) = sensor s"
  "tls_polled (run_backup os t s) = tls_polled s" "events_polled (run_backup os t s) = events_polled s"
  "responder_queue (agent (run_backup os t s)) = responder_queue (agent s)"
  "rejected (run_backup os t s) = rejected s"
  by (simp_all add: run_backup_def)

lemma run_monitor_simps [handler_simps]:
  "answered (run_monitor x s) = answered s" "intel_channel (run_monitor x s) = intel_channel s"
  "drained (run_monitor x s) = drained s" "sensor (run_monitor x s) = sensor s"
  "tls_polled (run_monitor x s) = tls_polled s" "events_polled (run_monitor x s) = events_polled s"
  "agent (run_monitor x s) = agent s"
  "rejected (run_monitor x s) = rejected s"
  by (simp_all add: run_monitor_def split: prod.split)

text \<open>
  A turn of the sidecar acts through what it sends, logs and runs only, and it sends one
  address at most, when there is room for it.
\<close>

lemma sidecar_turn_simps [handler_simps]:
  "answered (sidecar_turn me s) = answered s" "drained (sidecar_turn me s) = drained s"
  "sensor (sidecar_turn me s) = sensor s" "tls_polled (sidecar_turn me s) = tls_polled s"
  "events_polled (sidecar_turn me s) = events_polled s" "rejected (sidecar_turn me s) = rejected s"
  "responder_queue (agent (sidecar_turn me s)) = responder_queue (agent s)"
  by (simp_all add: sidecar_turn_def split: prod.split)

lemma control_request_simps [handler_simps]:
  "answered (control_request stamp e env path data s) = answered s"
  "intel_channel (control_request stamp e env path data s) = intel_channel s"
  "drained (control_request stamp e env path data s) = drained s"
  "sensor (control_request stamp e env path data s) = sensor s"
  "tls_polled (control_request stamp e env path data s) = tls_polled s"
  "events_polled (control_request stamp e env path data s) = events_polled s"
  "rejected (control_request stamp e env path data s) = rejected s"
  "responder_queue (agent (control_request stamp e env path data s)) = responder_queue (agent s)"
  by (simp_all add: control_request_def)

lemma sidecar_view_simps [simp]:
  "sent (sidecar_view s) = []" "misp_wal (sidecar_view s) = wal (agent s)"
  "misp_commands (sidecar_view s) = commands (agent s)"
  by (simp_all add: sidecar_view_def)

lemma sent_misp_run [simp]: "sent (snd (misp_run me c m)) = sent m" "misp_wal (snd (misp_run me c m)) = misp_wal m"
  by (simp_all add: misp_run_def split: cmd_result.split)

lemma sent_sync_one:
  "sent (snd (sync_attributes (me\<lparr>receiver_alive := \<lambda>n. True\<rparr>) [at] m)) =
     sent m @ (case ip_of at of None \<Rightarrow> [] | Some ip \<Rightarrow> [to_be (u32_from ip)])"
  using sync_attributes_sent [of "me\<lparr>receiver_alive := \<lambda>n. True\<rparr>" "[at]" m]
  by (simp add: List.map_filter_simps split: option.split)

definition address_of :: "misp_attribute \<Rightarrow> u32 option" where
  "address_of at = map_option (to_be \<circ> u32_from) (ip_of at)"

lemma turn_outcome_sent:
  assumes "turn_outcome me s = (m, phase, got)"
  shows "sent m = [] \<or> (\<exists>at rest ip. sidecar s = Sending (at # rest) \<and> phase = Sending rest \<and> got = [] \<and>
    address_of at = Some ip \<and> sent m = [ip] \<and> length (intel_channel s) < INTEL_CAPACITY)"
proof (cases "sidecar s")
  case Asleep
  then have "m = snd (misp_run me misp_cmd (sidecar_view s))"
    using assms by (auto simp: turn_outcome_def split: prod.splits cmd_result.splits bool.splits option.splits)
  then show ?thesis by simp
next
  case (Sending ats)
  then show ?thesis
    using assms
    by (auto simp: turn_outcome_def sent_sync_one address_of_def simp del: sync_attributes.simps split: list.splits if_splits option.splits)
next
  case Feed_Due
  then show ?thesis using assms by (auto simp: turn_outcome_def)
qed

lemma turn_channel:
  "intel_channel (sidecar_turn me s) = intel_channel s \<or>
   (\<exists>ip. intel_channel (sidecar_turn me s) = intel_channel s @ [ip] \<and> length (intel_channel s) < INTEL_CAPACITY)"
  using turn_outcome_sent [of me s] by (cases "turn_outcome me s") (auto simp: sidecar_turn_def)

lemma turn_extends: "\<exists>more. intel_channel (sidecar_turn me s) = intel_channel s @ more"
  using turn_channel [of me s] by auto

text \<open>
  The sidecar's loop in turns: from one sleep to the next, the turns, if nothing comes between
  them and the channel has room, do what the round of \<open>Misp\<close> does as a whole.
\<close>

abbreviation listening :: "misp_env \<Rightarrow> misp_env" where
  "listening me \<equiv> me\<lparr>receiver_alive := \<lambda>n. True\<rparr>"

definition sending :: "u32 list \<Rightarrow> misp_state \<Rightarrow> misp_state" where
  "sending xs m = m\<lparr>sent := xs @ sent m\<rparr>"

lemma sending_steps:
  "log_intel me ty v src (sending xs m) = sending xs (log_intel me ty v src m)"
  "(sending xs m)\<lparr>sent := sent (sending xs m) @ [ip]\<rparr> = sending xs (m\<lparr>sent := sent m @ [ip]\<rparr>)"
  by (simp_all add: sending_def log_intel_def)

lemma sync_shifted:
  "sync_attributes (listening me) ats (sending xs m) =
     (False, sending xs (snd (sync_attributes (listening me) ats m)))"
  by (induction ats arbitrary: m) (simp_all add: sending_steps split: option.split)

lemma sync_Cons:
  "sync_attributes (listening me) (at # ats) m =
     sync_attributes (listening me) ats (snd (sync_attributes (listening me) [at] m))"
  by (auto split: option.split)

definition after_sidecar :: "misp_state \<Rightarrow> agent_system \<Rightarrow> agent_system" where
  "after_sidecar m s =
     s\<lparr>agent := (agent s)\<lparr>wal := misp_wal m, commands := misp_commands m\<rparr>,
       intel_channel := intel_channel s @ sent m\<rparr>"

lemma turn_after: "sidecar_turn me s = (case turn_outcome me s of (m, phase, got) \<Rightarrow>
    (after_sidecar m s)\<lparr>sidecar := phase, heard := heard s @ got\<rparr>)"
  by (simp add: sidecar_turn_def after_sidecar_def split: prod.split)

lemma after_heard [simp]: "(after_sidecar m s)\<lparr>sidecar := ph, heard := heard s\<rparr> = (after_sidecar m s)\<lparr>sidecar := ph\<rparr>"
  by (simp add: after_sidecar_def)

lemma view_after: "sidecar_view ((after_sidecar m s)\<lparr>sidecar := ph\<rparr>) = m\<lparr>sent := []\<rparr>"
  by (simp add: sidecar_view_def after_sidecar_def)

lemma after_after: "after_sidecar m' ((after_sidecar m s)\<lparr>sidecar := ph\<rparr>) = (after_sidecar (sending (sent m) m') s)\<lparr>sidecar := ph\<rparr>"
  by (simp add: after_sidecar_def sending_def)

definition addresses :: "misp_attribute list \<Rightarrow> u32 list" where
  "addresses ats = map (to_be \<circ> u32_from) (List.map_filter ip_of ats)"

lemma sending_turns:
  assumes "sidecar s = Sending ats" and "length (intel_channel s) + length (addresses ats) \<le> INTEL_CAPACITY"
  shows "(sidecar_turn me ^^ length ats) s =
    (after_sidecar (snd (sync_attributes (listening me) ats (sidecar_view s))) s)\<lparr>sidecar := Sending []\<rparr>"
  using assms
proof (induction ats arbitrary: s)
  case Nil
  then show ?case by (simp add: after_sidecar_def)
next
  case (Cons at ats)
  let ?m = "snd (sync_attributes (listening me) [at] (sidecar_view s))"
  let ?s = "(after_sidecar ?m s)\<lparr>sidecar := Sending ats\<rparr>"
  have room: "\<not> (ip_of at \<noteq> None \<and> INTEL_CAPACITY \<le> length (intel_channel s))"
    using Cons.prems(2) by (auto simp: addresses_def List.map_filter_simps)
  have turn: "sidecar_turn me s = ?s"
    by (simp only: turn_after turn_outcome_def Cons.prems(1) sidecar_phase.case list.case if_not_P [OF room]
        prod.case append_Nil2 after_heard)
  have "length (intel_channel ?s) + length (addresses ats) \<le> INTEL_CAPACITY"
    using Cons.prems(2)
    by (simp add: after_sidecar_def sent_sync_one addresses_def List.map_filter_simps del: sync_attributes.simps
        split: option.splits)
  then have IH: "(sidecar_turn me ^^ length ats) ?s =
      (after_sidecar (snd (sync_attributes (listening me) ats (sidecar_view ?s))) ?s)\<lparr>sidecar := Sending []\<rparr>"
    by (intro Cons.IH) simp_all
  have "?m = sending (sent ?m) (?m\<lparr>sent := []\<rparr>)" by (simp add: sending_def)
  then have "snd (sync_attributes (listening me) (at # ats) (sidecar_view s)) =
      sending (sent ?m) (snd (sync_attributes (listening me) ats (?m\<lparr>sent := []\<rparr>)))"
    by (metis sync_Cons sync_shifted snd_conv)
  then show ?case
    by (simp add: funpow_swap1 turn IH view_after after_after del: sync_attributes.simps funpow.simps(2))
      (simp add: funpow_Suc_right turn IH view_after after_after del: sync_attributes.simps funpow.simps(2))
qed

lemma feed_shifted: "sync_feed me (m\<lparr>sent := xs\<rparr>) = (sync_feed me m)\<lparr>sent := xs\<rparr>"
  by (auto simp: sync_feed_def misp_run_def log_intel_def split: cmd_result.split bool.split)

lemma listening_simps:
  "json_attributes (listening me) = json_attributes me" "misp_run (listening me) = misp_run me"
  "sync_feed (listening me) = sync_feed me"
proof -
  show run: "misp_run (listening me) = misp_run me" by (simp add: fun_eq_iff misp_run_def)
  have log: "log_intel (listening me) = log_intel me" by (simp add: fun_eq_iff log_intel_def)
  show "sync_feed (listening me) = sync_feed me"
    by (rule ext) (simp add: sync_feed_def run log split: prod.split cmd_result.split bool.split)
qed simp

lemma sync_listening:
  "sync_attributes (listening me) ats m = (False, snd (sync_attributes (listening me) ats m))"
  using sync_attributes_sent [of "listening me" ats m] by (simp add: prod_eq_iff)

lemma misp_round_fetch:
  assumes "misp_run me misp_cmd m = (r, m1)"
  shows "misp_round (listening me) m =
    (False, sync_feed me (case r of
        Exited True out \<Rightarrow> (case json_attributes me (from_utf8_lossy (cbytes out)) of
            Some ats \<Rightarrow> snd (sync_attributes (listening me) ats m1)
          | None \<Rightarrow> m1)
      | _ \<Rightarrow> m1))"
proof -
  let ?answer = "\<lambda>out. json_attributes me (from_utf8_lossy (cbytes out))"
  consider "r = SpawnFailed" | out where "r = Exited False out" | out where "r = Exited True out" "?answer out = None"
    | out ats where "r = Exited True out" "?answer out = Some ats"
    by (metis (full_types) cmd_result.exhaust option.exhaust)
  then show ?thesis
  proof cases
    case (4 out ats)
    then show ?thesis
      using assms by (subst misp_round_def) (simp add: listening_simps, subst sync_listening, simp add: listening_simps)
  qed (use assms in \<open>simp_all add: misp_round_def listening_simps\<close>)
qed

lemma turn_feed:
  "sidecar s = Feed_Due \<Longrightarrow> sidecar_turn me s = (after_sidecar (sync_feed me (sidecar_view s)) s)\<lparr>sidecar := Asleep\<rparr>"
  by (simp add: turn_after turn_outcome_def)

lemma turn_sent_all: "sidecar s = Sending [] \<Longrightarrow> sidecar_turn me s = s\<lparr>sidecar := Feed_Due\<rparr>"
  by (simp add: sidecar_turn_def turn_outcome_def)

lemma turn_fetch:
  assumes "sidecar s = Asleep" and "misp_run me misp_cmd (sidecar_view s) = (r, m1)"
  shows "(\<exists>out ats. r = Exited True out \<and> json_attributes me (from_utf8_lossy (cbytes out)) = Some ats \<and>
      sidecar_turn me s = (after_sidecar m1 s)\<lparr>sidecar := Sending ats, heard := heard s @ ats\<rparr> \<and>
      misp_round (listening me) (sidecar_view s) = (False, sync_feed me (snd (sync_attributes (listening me) ats m1)))) \<or>
    (sidecar_turn me s = (after_sidecar m1 s)\<lparr>sidecar := Feed_Due\<rparr> \<and>
      misp_round (listening me) (sidecar_view s) = (False, sync_feed me m1))"
  using assms(1)
  by (cases r) (auto simp: turn_after turn_outcome_def assms(2) misp_round_fetch [OF assms(2)]
      split: bool.split option.split)

text \<open>
  The sidecar's loop may be cut into turns: from one sleep to the next its turns, when nothing comes
  between them and the channel has room, write the log, run the commands and send the
  addresses of the whole round of \<open>Misp\<close>, whatever the server answers.
\<close>

theorem sidecar_turns_are_round:
  assumes "sidecar s = Asleep" and "misp_round (listening me) (sidecar_view s) = (ended, m)"
    and "length (intel_channel s) + length (sent m) \<le> INTEL_CAPACITY"
  shows "\<exists>n. 0 < n \<and> sidecar ((sidecar_turn me ^^ n) s) = Asleep \<and>
    wal (agent ((sidecar_turn me ^^ n) s)) = misp_wal m \<and>
    commands (agent ((sidecar_turn me ^^ n) s)) = misp_commands m \<and>
    intel_channel ((sidecar_turn me ^^ n) s) = intel_channel s @ sent m"
proof -
  let ?t = "sidecar_turn me"
  obtain r m1 where r: "misp_run me misp_cmd (sidecar_view s) = (r, m1)" by force
  then have m1: "sent m1 = []" "misp_wal m1 = wal (agent s)"
    using sent_misp_run [of me misp_cmd "sidecar_view s"] by simp_all
  from turn_fetch [OF assms(1) r] show ?thesis
  proof
    assume "\<exists>out ats. r = Exited True out \<and> json_attributes me (from_utf8_lossy (cbytes out)) = Some ats \<and>
      ?t s = (after_sidecar m1 s)\<lparr>sidecar := Sending ats, heard := heard s @ ats\<rparr> \<and>
      misp_round (listening me) (sidecar_view s) = (False, sync_feed me (snd (sync_attributes (listening me) ats m1)))"
    then obtain ats where t1: "?t s = (after_sidecar m1 s)\<lparr>sidecar := Sending ats, heard := heard s @ ats\<rparr>"
      and m: "m = sync_feed me (snd (sync_attributes (listening me) ats m1))"
      using assms(2) by auto
    let ?s1 = "?t s" and ?m2 = "snd (sync_attributes (listening me) ats m1)"
    have v1: "sidecar_view ?s1 = m1" by (simp add: t1 sidecar_view_def after_sidecar_def m1)
    have sent: "sent ?m2 = addresses ats"
      using sync_attributes_sent [of "listening me" ats m1] by (simp add: m1 addresses_def)
    have "(?t ^^ length ats) ?s1 = (after_sidecar ?m2 ?s1)\<lparr>sidecar := Sending []\<rparr>"
      using assms(3) sent sending_turns [of ?s1 ats me]
      by (simp add: v1) (simp add: t1 m after_sidecar_def m1)
    moreover define s3 where "s3 = (after_sidecar ?m2 ?s1)\<lparr>sidecar := Feed_Due\<rparr>"
    ultimately have "?t ((?t ^^ length ats) ?s1) = s3" by (simp add: turn_sent_all)
    moreover have "sidecar_view s3 = ?m2\<lparr>sent := []\<rparr>" by (simp add: s3_def view_after)
    then have "?t s3 = (after_sidecar (m\<lparr>sent := []\<rparr>) s3)\<lparr>sidecar := Asleep\<rparr>"
      by (simp add: turn_feed s3_def feed_shifted m)
    ultimately have "(?t ^^ Suc (Suc (length ats + 1))) s = (after_sidecar (m\<lparr>sent := []\<rparr>) s3)\<lparr>sidecar := Asleep\<rparr>"
      by (simp add: funpow_swap1)
    then show ?thesis
      using sent by (intro exI [of _ "Suc (Suc (length ats + 1))"])
        (simp add: s3_def t1 after_sidecar_def m1 m del: funpow.simps)
  next
    assume h: "?t s = (after_sidecar m1 s)\<lparr>sidecar := Feed_Due\<rparr> \<and>
      misp_round (listening me) (sidecar_view s) = (False, sync_feed me m1)"
    then have m: "m = sync_feed me m1" using assms(2) by simp
    have "sidecar_view (?t s) = m1" using h by (simp add: view_after m1)
    then have "(?t ^^ 2) s = (after_sidecar m (?t s))\<lparr>sidecar := Asleep\<rparr>"
      using turn_feed [of "?t s" me] h by (simp add: numeral_2_eq_2 m)
    then show ?thesis
      using h by (intro exI [of _ 2]) (simp add: after_sidecar_def m1 m)
  qed
qed

theorem sidecar_turns_are_round_witness:
  "\<exists>n. sidecar ((sidecar_turn demo_misp ^^ n) (system_start bpf_init)) = Asleep \<and>
     intel_channel ((sidecar_turn demo_misp ^^ n) (system_start bpf_init)) = [to_be (u32_from (185, 220, 101, 1))]"
proof -
  let ?s = "system_start bpf_init"
  obtain ended m where r: "misp_round (listening demo_misp) (sidecar_view ?s) = (ended, m)" by force
  have "parse_ipv4 ''185.220.101.1'' = Some (185, 220, 101, 1)" by code_simp
  then have "sent (snd (misp_round (listening demo_misp) (sidecar_view ?s))) = [to_be (u32_from (185, 220, 101, 1))]"
    by (subst misp_round_sent [where out = "[]" and ats = "[\<lparr>attr_type = ''ip-dst'', attr_value = ''185.220.101.1''\<rparr>]"])
      (simp_all add: demo_misp_def ip_of_def List.map_filter_simps)
  then have "sent m = [to_be (u32_from (185, 220, 101, 1))]" by (simp add: r)
  then show ?thesis
    using sidecar_turns_are_round [OF _ r] by (auto simp: system_start_def INTEL_CAPACITY_def)
qed

lemma drain_intel_simps [handler_simps]:
  "answered (drain_intel ok s) = answered s" "tls_polled (drain_intel ok s) = tls_polled s"
  "events_polled (drain_intel ok s) = events_polled s" "agent (drain_intel ok s) = agent s"
  "drained (drain_intel ok s) = drained s @ intel_channel s" "intel_channel (drain_intel ok s) = []"
  "sensor (drain_intel ok s) = drain_blocklist ok (intel_channel s) (sensor s)"
  by (simp_all add: drain_intel_def)

lemma poll_event_queue:
  "\<exists>n. responder_queue (agent (poll_event ce s)) =
     responder_queue (agent s) @ replicate n (e_pid (decode_event (events (sensor s) ! events_polled s)))"
proof -
  let ?ce = "ce\<lparr>research_mode := research s\<rparr>" and ?data = "events (sensor s) ! events_polled s"
  obtain f where "trigger f" "\<forall>a. handle_event ?ce ?data a = f (e_pid (decode_event ?data)) a"
    using handle_event_trigger by blast
  then show ?thesis using trigger.queue_step by (simp add: poll_event_def)
qed

lemma receive_queue:
  "map fst (answered (receive re s)) @ responder_queue (agent (receive re s)) =
     map fst (answered s) @ responder_queue (agent s)"
  by (simp add: receive_def split: list.split prod.split)

lemma receive_takes:
  "responder_queue (agent s) \<noteq> [] \<Longrightarrow> length (answered (receive re s)) = Suc (length (answered s))"
  by (simp add: receive_def split: list.split prod.split)

lemma receive_keeps: "length (answered s) \<le> length (answered (receive re s))"
  by (simp add: receive_def split: list.split prod.split)

end
