(* ===== verification/Response_Properties.thy ===== *)
theory Response_Properties
  imports Agent_Main Sensor_Properties
begin

text \<open>
  The properties of the agent's startup and of its responses: threat intelligence on its way
  to the packet filter, the traps armed at startup, the memory scan, and the routing of a
  dump to the analysis machine.
\<close>

section \<open>Threat intelligence\<close>

text \<open>
  C4. From MISP to the network card: once a polling round has fetched an attribute of type
  \<open>ip-dst\<close> with the text of an address, and the agent has drained its channel with
  successful map updates, the XDP program drops every IPv4 packet whose destination bytes
  are that address; the byte orders of parser, channel, map and packet fit together.
\<close>

theorem misp_blocks_traffic:
  assumes "\<And>n. receiver_alive me n" and "misp_os me (misp_commands m) misp_cmd = Exited True out"
    and "json_attributes me (from_utf8_lossy (cbytes out)) = Some ats"
    and "at \<in> set ats" and "attr_type at = ''ip-dst''" and "attr_value at = show_ipv4 (a, b, c, d)"
    and "\<And>ip. ok ip" and "wf_kenv k"
    and "34 \<le> length pkt" and "slice 12 2 pkt = [8, 0]" and "slice 30 4 pkt = [a, b, c, d]"
  shows "fst (the (xdp_c2_inspector k pkt (drain_blocklist ok (sent (snd (misp_round me m))) s))) = XDP_DROP"
proof -
  let ?ip = "to_be (u32_from (a, b, c, d))"
  have "ip_of at = Some (a, b, c, d)" using assms(5,6) by (simp add: ip_of_def parse_show_ipv4)
  then have "(a, b, c, d) \<in> set (List.map_filter ip_of ats)"
    using assms(4) by (force simp: List.map_filter_def)
  then have "?ip \<in> set (sent (snd (misp_round me m)))"
    unfolding misp_round_sent [OF assms(1-3)] by (force simp: comp_def)
  then have "c2_blocklist (drain_blocklist ok (sent (snd (misp_round me m))) s) ?ip = Some 1"
    using assms(7) by (intro drain_blocks) auto
  moreover have "?ip = u32_of [a, b, c, d]" by (metis to_be_bytes u32_of_bytes)
  ultimately have "blocked (drain_blocklist ok (sent (snd (misp_round me m))) s) pkt"
    using assms(9-11) by (simp add: blocked_def ipv4_dst_def)
  then show ?thesis by (simp add: xdp_eq_spec [OF assms(8)] xdp_spec_def)
qed

definition idle_misp :: misp_state where
  "idle_misp = \<lparr>sent = [], misp_wal = \<lparr>wal_content = [], wal_attempts = 0\<rparr>, misp_commands = []\<rparr>"

theorem misp_blocks_traffic_witness:
  "fst (the (xdp_c2_inspector (run_by 1 0 ''x'') c2_packet
     (drain_blocklist (\<lambda>ip. True) (sent (snd (misp_round demo_misp idle_misp))) bpf_init))) = XDP_DROP"
proof (rule misp_blocks_traffic [OF _ _ _ _ _ _ _ wf_run_by])
  show "receiver_alive demo_misp n" for n by (simp add: demo_misp_def)
  show "misp_os demo_misp (misp_commands idle_misp) misp_cmd = Exited True []" by (simp add: demo_misp_def)
  show "json_attributes demo_misp (from_utf8_lossy (cbytes [])) =
      Some [\<lparr>attr_type = ''ip-dst'', attr_value = ''185.220.101.1''\<rparr>]" by (simp add: demo_misp_def)
  show "\<lparr>attr_type = ''ip-dst'', attr_value = ''185.220.101.1''\<rparr> \<in>
      set [\<lparr>attr_type = ''ip-dst'', attr_value = ''185.220.101.1''\<rparr>]" by simp
  show "attr_type \<lparr>attr_type = ''ip-dst'', attr_value = ''185.220.101.1''\<rparr> = ''ip-dst''" by simp
  show "attr_value \<lparr>attr_type = ''ip-dst'', attr_value = ''185.220.101.1''\<rparr> = show_ipv4 (185, 220, 101, 1)"
    by (simp add: show_ipv4_def show_nat_def digits.simps digit_char_def char_of_def bit_Suc_0_iff)
  show "34 \<le> length c2_packet" by (simp add: c2_packet_def)
  show "slice 12 2 c2_packet = [8, 0]" "slice 30 4 c2_packet = [185, 220, 101, 1]"
    by (simp_all add: c2_packet_def slice_def)
qed simp

section \<open>Startup\<close>

text \<open>What the calls of the startup leave behind when nothing comes between them.\<close>

lemma setup_arms:
  assumes "agent_setup se s = Inr s'" and "reachable s"
  shows "reachable s' \<and> agent_pid s' 0 = Some (process_id se) \<and>
    (\<exists>aws kube. inode_of se ''/home/john/.aws/credentials'' = Some aws \<and>
      inode_of se ''/home/john/.kube/config'' = Some kube \<and>
      (aws \<notin> Option.these (inode_of se ` set (ssh_keys_path # hw_devices)) \<longrightarrow> honeytokens s' aws = Some 1) \<and>
      (kube \<notin> Option.these (inode_of se ` set (ssh_keys_path # hw_devices)) \<longrightarrow> honeytokens s' kube = Some 1))"
proof -
  obtain s1 s2 s3 where r: "register_agent se s = Inr s1"
    and a: "deploy_honeytoken se ''/home/john/.aws'' aws_cred_path s1 = Inr s2"
    and k: "deploy_honeytoken se ''/home/john/.kube'' kube_cred_path s2 = Inr s3"
    and s': "s' = foldl (\<lambda>s d. spawn_decoy se d s)
      (foldl (\<lambda>s dev. write_trap se dev s) s3 (ssh_keys_path # hw_devices)) decoys"
    using setup_steps [OF assms(1)] by blast
  from a obtain aws where aws: "inode_of se aws_cred_path = Some aws" "honeytokens s2 = (honeytokens s1)(aws \<mapsto> 1)"
    "agent_pid s2 = agent_pid s1"
    by (auto simp: deploy_honeytoken_def split: if_splits option.splits)
  from k obtain kube where kube: "inode_of se kube_cred_path = Some kube" "honeytokens s3 = (honeytokens s2)(kube \<mapsto> 1)"
    "agent_pid s3 = agent_pid s2"
    by (auto simp: deploy_honeytoken_def split: if_splits option.splits)
  have three: "honeytokens s3 aws = Some 1" "honeytokens s3 kube = Some 1" using aws kube by auto
  have ag: "agent_pid (foldl (\<lambda>s p. write_trap se p s) t ps) = agent_pid t" for t ps
    by (induction ps arbitrary: t) simp_all
  have "agent_pid s1 0 = Some (process_id se)" using r by (auto simp: register_agent_def split: if_splits)
  then have "agent_pid s' 0 = Some (process_id se)"
    using s' decoys_keep ag aws(3) kube(3) by (simp del: foldl.simps)
  moreover have "honeytokens s' ino = honeytokens s3 ino"
    if "ino \<notin> Option.these (inode_of se ` set (ssh_keys_path # hw_devices))" for ino
    using write_traps_keep [OF that, of s3] decoys_keep s' by (simp del: foldl.simps)
  ultimately show ?thesis
    using reachable_setup [OF assms] three aws(1) kube(1)
    unfolding aws_cred_path_def kube_cred_path_def by auto
qed

text \<open>
  C16. The startup arms the sensor although the sensor already runs: whatever its programs do between
  the calls, the maps they leave are those of an undisturbed startup, the agent's own process
  is registered and every later state reachable; the two credential files trap any access,
  unless one shares its inode number with a write trap, which is set later on the same key.
\<close>

theorem startup_arms_sensor:
  assumes "startup (setup_stages se) s s'" and "reachable s"
  shows "(\<exists>t. agent_setup se s = Inr t \<and> config s' = config t) \<and> reachable s' \<and>
    agent_pid s' 0 = Some (process_id se) \<and>
    (\<exists>aws kube. inode_of se ''/home/john/.aws/credentials'' = Some aws \<and>
      inode_of se ''/home/john/.kube/config'' = Some kube \<and>
      (aws \<notin> Option.these (inode_of se ` set (ssh_keys_path # hw_devices)) \<longrightarrow> honeytokens s' aws = Some 1) \<and>
      (kube \<notin> Option.these (inode_of se ` set (ssh_keys_path # hw_devices)) \<longrightarrow> honeytokens s' kube = Some 1))"
proof -
  obtain t where t: "agent_setup se s = Inr t" "config s' = config t" using startup_setup [OF assms(1)] .
  then have "honeytokens s' = honeytokens t" "agent_pid s' = agent_pid t" by (simp_all add: config_def)
  with setup_arms [OF t(1) assms(2)] t startup_reachable [OF assms(1) setup_map_stages assms(2)]
  show ?thesis by simp
qed

definition demo_setup :: setup_env where
  "demo_setup = \<lparr>process_id = 1234, pid_update_ok = True, honey_update_ok = (\<lambda>i. True),
     ghost_update_ok = (\<lambda>p. True), dir_creates = (\<lambda>d. True), write_succeeds = (\<lambda>f. True),
     inode_of = (\<lambda>f. if f = aws_cred_path then Some 71 else if f = kube_cred_path then Some 72 else None),
     decoy_process = (\<lambda>d. None)\<rparr>"

text \<open>
  Before the registration the array of the agent's process holds zero, so in that time a process
  that signals its own process group, \<open>kill(0, sig)\<close>, is taken for an attacker and stopped.
\<close>

lemma stopped_before_registration:
  assumes "agent_pid s = agent_pid bpf_init" and "lo32 (se_args ctx ! 0) = 0"
  shows "signals (handle_kill k ctx s) = signals s @ [(cur_pid k, SIGSTOP)]"
  using assms by (simp add: handle_kill_def Let_def bpf_init_def)

text \<open>A startup with such a process in its first moments.\<close>

definition early_kill :: bpf_state where
  "early_kill = handle_kill (run_by 66 1000 ''make'') \<lparr>se_id = 62, se_args = [0, 15]\<rparr> bpf_init"

theorem startup_arms_sensor_witness:
  "\<exists>s'. startup (setup_stages demo_setup) bpf_init s' \<and> signals s' = [(66, SIGSTOP)] \<and>
     agent_pid s' 0 = Some 1234 \<and> reachable s'"
proof -
  obtain t where t: "agent_setup demo_setup early_kill = Inr t"
    by (simp add: agent_setup_def register_agent_def deploy_honeytoken_def Let_def demo_setup_def
        aws_cred_path_def kube_cred_path_def)
  have up: "startup (setup_stages demo_setup) bpf_init t"
    unfolding early_kill_def by (rule startup_program [OF prog_kill [OF wf_run_by]])
      (rule setup_startup [OF t [unfolded early_kill_def]])
  have "signals early_kill = [(66, SIGSTOP)]"
    using stopped_before_registration [of bpf_init "\<lparr>se_id = 62, se_args = [0, 15]\<rparr>" "run_by 66 1000 ''make''"]
    by (simp add: early_kill_def lo32_def bpf_init_def)
  with startup_arms_sensor [OF up reach_init] setup_keeps [OF t] up show ?thesis
    by (auto simp: demo_setup_def)
qed

section \<open>Scanning memory\<close>

text \<open>
  The scan of a region never panics and reports the first signature of the table whose
  pattern occurs in the region; without one, the entropy heuristic decides.
\<close>

theorem scan_reports_first_signature:
  "scan_region_for_signatures fo data region =
    Done (case find (\<lambda>s. contains data (snd s)) signatures of
        Some s \<Rightarrow> Some (fst s, region)
      | None \<Rightarrow> if 1024 < length data \<and> f_exceeds_7_5 fo (calculate_shannon_entropy fo data)
                then Some (''high_entropy_packed'', region) else None)"
  by (simp add: scan_region_for_signatures_def scan_table_spec [OF signatures_nonempty] split: option.split)

section \<open>Routing to the analysis machine\<close>

text \<open>
  The slot chosen for a volume is the lowest of 10 to 30 that the machine's configuration
  does not use, so never one that a line \<open>scsi<k>\<close> of the configuration names; the search
  fails exactly when all are used.
\<close>

theorem scsi_slot_is_lowest_free:
  assumes "is_local_hypervisor b" and "os tr (config_cmd b) = Exited status out"
    and "cfg = from_utf8_lossy (cbytes out)"
  shows "(fst (find_available_scsi_slot os b tr) = Inr s \<longleftrightarrow>
      10 \<le> s \<and> s \<le> 30 \<and> s \<notin> set (used_slots cfg) \<and> {10..<s} \<subseteq> set (used_slots cfg)) \<and>
    (fst (find_available_scsi_slot os b tr) = Inl NoSlot \<longleftrightarrow> {10..30} \<subseteq> set (used_slots cfg)) \<and>
    (\<forall>k rest. k < 2 ^ 32 \<longrightarrow> (rest = [] \<or> \<not> is_ascii_digit (hd rest)) \<longrightarrow>
      ''scsi'' @ show_nat k @ rest \<in> set (lines cfg) \<longrightarrow> k \<in> set (used_slots cfg))"
proof (intro conjI allI impI)
  let ?P = "\<lambda>s. s \<notin> set (used_slots cfg)"
  let ?f = "find ?P [10..<31]"
  have res: "fst (find_available_scsi_slot os b tr) = (case ?f of Some s \<Rightarrow> Inr s | None \<Rightarrow> Inl NoSlot)"
    using assms by (simp add: find_available_scsi_slot_def split: option.split)
  have some: "?f = Some s \<longleftrightarrow> 10 \<le> s \<and> s \<le> 30 \<and> ?P s \<and> {10..<s} \<subseteq> set (used_slots cfg)" for s
    unfolding find_upt_iff by (auto simp del: upt_rec_numeral)
  show "fst (find_available_scsi_slot os b tr) = Inr s \<longleftrightarrow>
      10 \<le> s \<and> s \<le> 30 \<and> s \<notin> set (used_slots cfg) \<and> {10..<s} \<subseteq> set (used_slots cfg)"
    using res some [of s] by (cases ?f) auto
  have "?f = None \<longleftrightarrow> {10..30} \<subseteq> set (used_slots cfg)"
    by (auto simp: find_None_iff simp del: upt_rec_numeral)
  then show "fst (find_available_scsi_slot os b tr) = Inl NoSlot \<longleftrightarrow> {10..30} \<subseteq> set (used_slots cfg)"
    using res by (cases ?f) auto
  fix k rest assume "(k :: nat) < 2 ^ 32" "rest = [] \<or> \<not> is_ascii_digit (hd rest)"
    and "''scsi'' @ show_nat k @ rest \<in> set (lines cfg)"
  then show "k \<in> set (used_slots cfg)"
    using slot_of_scsi_line [of k rest] by (force simp: used_slots_def List.map_filter_def)
qed

theorem scsi_slot_is_lowest_free_witness:
  "fst (find_available_scsi_slot (\<lambda>tr c. Exited False []) default_kp14 []) = Inr 10"
proof -
  have "set (used_slots (from_utf8_lossy (cbytes []))) = {}" by code_simp
  then show ?thesis
    using scsi_slot_is_lowest_free [of default_kp14 "\<lambda>tr c. Exited False []" "[]" False "[]" "from_utf8_lossy (cbytes [])" 10]
    by (simp add: default_kp14_def)
qed

text \<open>
  The outcome of reading the configuration is ignored: when \<open>qm config\<close> fails and prints
  nothing, slot 10 is taken to be free, and the volume is plugged in there.
\<close>

theorem failed_config_yields_slot_10:
  assumes "is_local_hypervisor b" and "os tr (config_cmd b) = Exited False []"
    and "os (tr @ [config_cmd b]) (hotplug_cmd b 10 volume_id) = Exited True out"
  shows "hotplug_to_vm os b volume_id tr = (Inr 10, tr @ [config_cmd b, hotplug_cmd b 10 volume_id])"
proof -
  have "used_slots (from_utf8_lossy (cbytes [])) = []" by code_simp
  then show ?thesis
    using assms by (simp add: hotplug_to_vm_def find_available_scsi_slot_def run_status_def upt_rec)
qed

theorem failed_config_yields_slot_10_witness:
  "fst (hotplug_to_vm (\<lambda>tr c. Exited (c \<noteq> config_cmd default_kp14) []) default_kp14 ''v'' []) = Inr 10"
  by (subst failed_config_yields_slot_10) (simp_all add: default_kp14_def config_cmd_def hotplug_cmd_def)

text \<open>
  A dump that is routed on a local hypervisor went through all five commands in order -
  allocate, resolve, copy, read configuration, plug in - into a volume of at least its size.
\<close>

theorem routed_in_order:
  assumes "is_local_hypervisor b" and "route_to_kp14 os now blob_len b path tr = (Inr (vol, s), tr')"
  shows "\<exists>t n dev. now = Some t \<and> blob_len = Some n \<and> vol = storage b @ '':'' @ volume_name t \<and>
    tr' = tr @ [alloc_cmd b t (size_mb n), path_cmd vol, dd_cmd path dev, config_cmd b, hotplug_cmd b s vol] \<and>
    (unat n < 2 ^ 63 \<longrightarrow> unat n \<le> unat (size_mb n) * 1048576)"
  using assms
  by (auto simp: route_to_kp14_def allocate_storage_def write_blob_to_volume_def get_volume_device_path_def
      hotplug_to_vm_def find_available_scsi_slot_def run_status_def Let_def size_mb_enough
      split: option.splits cmd_result.splits if_splits bool.splits prod.splits sum.splits)

definition demo_os :: os where "demo_os = (\<lambda>tr c. Exited True ''/dev/x'')"

lemma demo_routed:
  "\<exists>tr'. route_to_kp14 demo_os (Some 7) (Some 5000000) default_kp14 path tr =
     (Inr (''local-lvm:'' @ volume_name 7, 10), tr')"
proof -
  have dev: "trim (from_utf8_lossy (cbytes ''/dev/x'')) = ''/dev/x''" by code_simp
  have used: "used_slots (from_utf8_lossy (cbytes ''/dev/x'')) = []" by code_simp
  show ?thesis
    using dev used
    by (simp add: demo_os_def route_to_kp14_def allocate_storage_def write_blob_to_volume_def
        get_volume_device_path_def hotplug_to_vm_def find_available_scsi_slot_def run_status_def default_kp14_def
        upt_rec Let_def)
qed

theorem routed_in_order_witness:
  "\<exists>tr'. route_to_kp14 demo_os (Some 7) (Some 5000000) default_kp14 ''b'' [] =
     (Inr (''local-lvm:'' @ volume_name 7, 10), tr') \<and> length tr' = 5"
proof -
  obtain tr' where r: "route_to_kp14 demo_os (Some 7) (Some 5000000) default_kp14 ''b'' [] =
      (Inr (''local-lvm:'' @ volume_name 7, 10), tr')"
    using demo_routed by blast
  have "is_local_hypervisor default_kp14" by (simp add: default_kp14_def)
  from routed_in_order [OF this r] r show ?thesis by auto
qed

end
