(* ===== verification/System_Properties.thy ===== *)
theory System_Properties
  imports System_Handlers Response_Properties
begin

text \<open>
  The properties of the running agent as a whole: what holds in every state it can reach, that
  every order is answered and every received address blocked, and that nothing is frozen
  without a record of the kernel that names it.
\<close>

section \<open>Queues that are served\<close>

text \<open>
  A queue between tasks: steps keep its order, lose nothing and take back nothing, and a
  serving step takes something from a queue that is not empty.
\<close>

locale fifo_service =
  fixes waiting :: "'s \<Rightarrow> 'a list" and served :: "'s \<Rightarrow> 'a list"
    and step :: "'s \<Rightarrow> 's \<Rightarrow> bool" and serves :: "'s \<Rightarrow> 's \<Rightarrow> bool"
  assumes fifo: "step s s' \<Longrightarrow> \<exists>new. served s' @ waiting s' = served s @ waiting s @ new"
    and keeps_served: "step s s' \<Longrightarrow> length (served s) \<le> length (served s')"
    and progress: "serves s s' \<Longrightarrow> waiting s \<noteq> [] \<Longrightarrow> length (served s) < length (served s')"
begin

lemma run_fifo:
  assumes run: "\<And>n. step (\<sigma> n) (\<sigma> (Suc n))"
  shows "n \<le> m \<Longrightarrow> prefix (served (\<sigma> n) @ waiting (\<sigma> n)) (served (\<sigma> m) @ waiting (\<sigma> m))"
proof (induction m rule: nat_induct_at_least)
  case base
  show ?case by simp
next
  case (Suc m)
  obtain new where "served (\<sigma> (Suc m)) @ waiting (\<sigma> (Suc m)) = (served (\<sigma> m) @ waiting (\<sigma> m)) @ new"
    using fifo [OF run [of m]] by auto
  with Suc.IH show ?case by (metis prefixI prefix_order.trans)
qed

lemma run_grows:
  assumes run: "\<And>n. step (\<sigma> n) (\<sigma> (Suc n))"
  shows "n \<le> m \<Longrightarrow> length (served (\<sigma> n)) \<le> length (served (\<sigma> m))"
proof (induction m rule: nat_induct_at_least)
  case (Suc m)
  with keeps_served [OF run [of m]] show ?case by linarith
qed simp

lemma served_at_least:
  assumes run: "\<And>n. step (\<sigma> n) (\<sigma> (Suc n))" and fair: "\<And>n. \<exists>m \<ge> n. serves (\<sigma> m) (\<sigma> (Suc m))"
  shows "k \<le> length (served (\<sigma> n) @ waiting (\<sigma> n)) \<Longrightarrow> \<exists>m \<ge> n. k \<le> length (served (\<sigma> m))"
proof (induction k)
  case (Suc k)
  then obtain m where m: "n \<le> m" "k \<le> length (served (\<sigma> m))" by auto
  obtain i where i: "m \<le> i" "serves (\<sigma> i) (\<sigma> (Suc i))" using fair by blast
  have grown: "k \<le> length (served (\<sigma> i))" using m(2) run_grows [of \<sigma>, OF run i(1)] by linarith
  show ?case
  proof (cases "waiting (\<sigma> i) = []")
    case True
    have "length (served (\<sigma> n) @ waiting (\<sigma> n)) \<le> length (served (\<sigma> i) @ waiting (\<sigma> i))"
      using run_fifo [of \<sigma> n i, OF run] m(1) i(1) by (intro prefix_length_le) simp_all
    with True Suc.prems have "Suc k \<le> length (served (\<sigma> i))" by simp
    then show ?thesis using m(1) i(1) le_trans by blast
  next
    case False
    then have "Suc k \<le> length (served (\<sigma> (Suc i)))" using progress [OF i(2)] grown by simp
    moreover have "n \<le> Suc i" using m(1) i(1) by linarith
    ultimately show ?thesis by blast
  qed
qed auto

text \<open>Whatever waits is served at some time, in order.\<close>

lemma eventually_served:
  assumes run: "\<And>n. step (\<sigma> n) (\<sigma> (Suc n))" and fair: "\<And>n. \<exists>m \<ge> n. serves (\<sigma> m) (\<sigma> (Suc m))"
  shows "\<exists>m \<ge> n. prefix (served (\<sigma> n) @ waiting (\<sigma> n)) (served (\<sigma> m))"
proof -
  obtain m where m: "n \<le> m" "length (served (\<sigma> n) @ waiting (\<sigma> n)) \<le> length (served (\<sigma> m))"
    using served_at_least [of \<sigma>, OF run fair order_refl] by blast
  have "prefix (served (\<sigma> n) @ waiting (\<sigma> n)) (served (\<sigma> m) @ waiting (\<sigma> m))"
    using run_fifo [of \<sigma>, OF run m(1)] .
  then have "prefix (served (\<sigma> n) @ waiting (\<sigma> n)) (served (\<sigma> m))"
    using m(2) by (meson prefix_length_prefix prefixI)
  with m(1) show ?thesis by blast
qed

end

section \<open>The two services\<close>

interpretation responder: fifo_service "\<lambda>s. responder_queue (agent s)" "\<lambda>s. map fst (answered s)"
    system_step "\<lambda>s s'. \<exists>re. s' = receive re s"
proof
  fix s s' assume "system_step s s'"
  then show "\<exists>new. map fst (answered s') @ responder_queue (agent s') =
      map fst (answered s) @ responder_queue (agent s) @ new"
    using poll_event_queue [of _ s] receive_queue [of _ s]
    by (elim system_stepE) (auto simp: handler_simps)
  show "length (map fst (answered s)) \<le> length (map fst (answered s'))"
    using \<open>system_step s s'\<close> receive_keeps [of s]
    by (elim system_stepE) (auto simp: handler_simps)
next
  fix s s' assume "\<exists>re. s' = receive re s" and "responder_queue (agent s) \<noteq> []"
  then show "length (map fst (answered s)) < length (map fst (answered s'))"
    using receive_takes by fastforce
qed

interpretation intel: fifo_service intel_channel drained system_step "\<lambda>s s'. \<exists>ok. s' = drain_intel ok s"
proof
  fix s s' assume "system_step s s'"
  then show "\<exists>new. drained s' @ intel_channel s' = drained s @ intel_channel s @ new"
    by (elim system_stepE) (auto simp: handler_simps turn_extends)
  show "length (drained s) \<le> length (drained s')"
    using \<open>system_step s s'\<close> by (elim system_stepE) (auto simp: handler_simps)
next
  fix s s' assume "\<exists>ok. s' = drain_intel ok s" and "intel_channel s \<noteq> []"
  then show "length (drained s) < length (drained s')" by (auto simp: handler_simps)
qed

section \<open>Everything is served\<close>

text \<open>
  C21. No order is lost and none overtakes another: in any run of the agent in which the
  responder is scheduled again and again, all orders that are queued at some moment are
  answered, in the order in which they were accepted, after those answered before.
\<close>

theorem orders_answered:
  assumes "\<And>n. system_step (\<sigma> n) (\<sigma> (Suc n))" and "\<And>n. \<exists>m \<ge> n. \<exists>re. \<sigma> (Suc m) = receive re (\<sigma> m)"
  shows "\<exists>m \<ge> n. prefix (map fst (answered (\<sigma> n)) @ responder_queue (agent (\<sigma> n))) (map fst (answered (\<sigma> m)))"
  using responder.eventually_served [of \<sigma>, OF assms] .

primrec demo_system_run :: "nat \<Rightarrow> agent_system" where
  "demo_system_run 0 = (system_start bpf_init)\<lparr>agent := idle_agent\<lparr>responder_queue := [7, 9]\<rparr>,
     intel_channel := [5]\<rparr>"
| "demo_system_run (Suc n) =
     (if even n then drain_intel (\<lambda>ip. True) (demo_system_run n)
      else receive \<lparr>kill_ok = (\<lambda>p. False), proc_files = undefined, dump_files = undefined,
        blob_len_of = (\<lambda>p. None), route_clock = None, bridge_os = (\<lambda>tr c. SpawnFailed)\<rparr> (demo_system_run n))"

lemma demo_system_step: "system_step (demo_system_run n) (demo_system_run (Suc n))"
  by (simp add: sys_drain sys_receive)

theorem orders_answered_witness:
  "\<exists>m. prefix [7, 9] (map fst (answered (demo_system_run m)))"
proof -
  have fair: "\<exists>m \<ge> n. \<exists>re. demo_system_run (Suc m) = receive re (demo_system_run m)" for n
    by (rule exI [of _ "2 * n + 1"]) auto
  have "map fst (answered (demo_system_run 0)) @ responder_queue (agent (demo_system_run 0)) = [7, 9]"
    by (simp add: system_start_def)
  with orders_answered [of demo_system_run 0, OF demo_system_step fair] show ?thesis by auto
qed

text \<open>A blocked address stays blocked.\<close>

lemma program_step_blocklist: "program_step s s' \<Longrightarrow> c2_blocklist s' = c2_blocklist s"
  using program_step_config [of s s'] by (simp add: config_def)

lemma system_step_blocked:
  "system_step s s' \<Longrightarrow> c2_blocklist (sensor s) a = Some 1 \<Longrightarrow> c2_blocklist (sensor s') a = Some 1"
  by (elim system_stepE) (auto simp: handler_simps simp: program_step_blocklist intro: drain_keeps)

lemma run_blocked:
  assumes "\<And>n. system_step (\<sigma> n) (\<sigma> (Suc n))"
  shows "n \<le> m \<Longrightarrow> c2_blocklist (sensor (\<sigma> n)) a = Some 1 \<Longrightarrow> c2_blocklist (sensor (\<sigma> m)) a = Some 1"
  by (induction m rule: nat_induct_at_least) (auto intro: system_step_blocked [OF assms])

section \<open>What holds in every state\<close>

lemma drained_blocked:
  "ip \<in> set ips \<Longrightarrow> ok ip \<or> c2_blocklist s ip = Some 1 \<Longrightarrow> c2_blocklist (drain_blocklist ok ips s) ip = Some 1"
  using drain_blocks drain_keeps by blast

lemma drain_blocklist_other [simp]:
  "events (drain_blocklist ok ips s) = events s" "tls_events (drain_blocklist ok ips s) = tls_events s"
  by (induction ok ips s rule: drain_blocklist.induct) simp_all

text \<open>The process a record of the kernel names.\<close>

definition named :: "agent_system \<Rightarrow> u32 \<Rightarrow> bool" where
  "named s p \<longleftrightarrow> (\<exists>i < events_polled s. e_pid (decode_event (events (sensor s) ! i)) = p)"

definition orders :: "agent_system \<Rightarrow> u32 list" where
  "orders s = map fst (answered s) @ responder_queue (agent s)"

definition system_inv :: "agent_system \<Rightarrow> bool" where
  "system_inv s \<longleftrightarrow>
     events_polled s \<le> length (events (sensor s)) \<and> tls_polled s \<le> length (tls_events (sensor s)) \<and>
     length (responder_queue (agent s)) \<le> QUEUE_CAPACITY \<and> length (intel_channel s) \<le> INTEL_CAPACITY \<and>
     (\<forall>ip \<in> set (drained s). c2_blocklist (sensor s) ip = Some 1 \<or> ip \<in> set (rejected s)) \<and>
     (\<forall>p \<in> set (orders s). named s p)"

lemma named_mono:
  assumes "named s p" and "prefix (events (sensor s)) (events (sensor s'))"
    and "events_polled s \<le> events_polled s'" and "events_polled s \<le> length (events (sensor s))"
  shows "named s' p"
proof -
  obtain i where i: "i < events_polled s" "e_pid (decode_event (events (sensor s) ! i)) = p"
    using assms(1) by (auto simp: named_def)
  then have "events (sensor s') ! i = events (sensor s) ! i"
    using assms(2,4) by (auto simp: prefix_def nth_append)
  with i assms(3) show ?thesis unfolding named_def by (intro exI [of _ i]) simp
qed

lemma system_step_prefix:
  "system_step s s' \<Longrightarrow> prefix (events (sensor s)) (events (sensor s')) \<and>
     prefix (tls_events (sensor s)) (tls_events (sensor s')) \<and> events_polled s \<le> events_polled s'"
  by (elim system_stepE) (auto simp: handler_simps dest: program_step_history)

lemma system_step_orders:
  assumes "system_step s s'"
  shows "set (orders s') \<subseteq> set (orders s) \<or>
    (\<exists>ce. s' = poll_event ce s \<and> events_polled s < length (events (sensor s)))"
proof -
  have "set (orders (receive re s)) = set (orders s)" for re
    using receive_queue [of re s] by (simp add: orders_def flip: set_append)
  with assms show ?thesis by (elim system_stepE) (auto simp: orders_def handler_simps)
qed

lemma step_names:
  assumes "system_step s s'" and "system_inv s" and "p \<in> set (orders s')"
  shows "named s' p"
proof (cases "p \<in> set (orders s)")
  case True
  with assms system_step_prefix [OF assms(1)] show ?thesis
    by (auto simp: system_inv_def intro: named_mono)
next
  case False
  then obtain ce where s': "s' = poll_event ce s" using system_step_orders [OF assms(1)] assms(3) by blast
  obtain n where "responder_queue (agent s') =
      responder_queue (agent s) @ replicate n (e_pid (decode_event (events (sensor s) ! events_polled s)))"
    using poll_event_queue [of ce s] s' by blast
  with False assms(3) s' have "p = e_pid (decode_event (events (sensor s) ! events_polled s))"
    by (auto simp: orders_def handler_simps)
  then show ?thesis by (auto simp: named_def s' handler_simps)
qed

lemma step_polled:
  assumes "system_step s s'" and "system_inv s"
  shows "events_polled s' \<le> length (events (sensor s')) \<and> tls_polled s' \<le> length (tls_events (sensor s'))"
proof -
  have "length (events (sensor s)) \<le> length (events (sensor s'))"
    "length (tls_events (sensor s)) \<le> length (tls_events (sensor s'))"
    using system_step_prefix [OF assms(1)] prefix_length_le by blast+
  with assms show ?thesis by (elim system_stepE) (auto simp: system_inv_def handler_simps)
qed

lemma step_capacities:
  assumes "system_step s s'" and "system_inv s"
  shows "length (responder_queue (agent s')) \<le> QUEUE_CAPACITY \<and> length (intel_channel s') \<le> INTEL_CAPACITY"
proof -
  have "length (responder_queue (agent (receive re s))) \<le> length (responder_queue (agent s))" for re
    by (simp add: receive_def split: list.split prod.split)
  moreover have "length (responder_queue (agent (poll_event ce s))) \<le> QUEUE_CAPACITY" for ce
    using assms(2) by (simp add: poll_event_def handle_event_cap system_inv_def)
  moreover have "length (intel_channel (sidecar_turn me s)) \<le> INTEL_CAPACITY" for me
    using assms(2) turn_channel [of me s] by (auto simp: system_inv_def)
  ultimately show ?thesis
    using assms by (elim system_stepE) (auto simp: system_inv_def handler_simps intro: le_trans)
qed

lemma step_drained:
  assumes "system_step s s'" and "system_inv s" and "ip \<in> set (drained s')"
  shows "c2_blocklist (sensor s') ip = Some 1 \<or> ip \<in> set (rejected s')"
proof (cases "ip \<in> set (drained s)")
  case True
  have "set (rejected s) \<subseteq> set (rejected s')"
    using assms(1) by (elim system_stepE) (auto simp: handler_simps drain_intel_def)
  with True assms(1,2) system_step_blocked show ?thesis by (auto simp: system_inv_def)
next
  case False
  then obtain ok where s': "s' = drain_intel ok s" "ip \<in> set (intel_channel s)"
    using assms(1,3) by (elim system_stepE) (auto simp: handler_simps)
  then show ?thesis by (cases "ok ip") (auto simp: drain_intel_def intro: drained_blocked)
qed

lemma system_step_inv: "system_step s s' \<Longrightarrow> system_inv s \<Longrightarrow> system_inv s'"
  using step_polled [of s s'] step_capacities [of s s'] step_drained [of s s'] step_names [of s s']
  by (simp add: system_inv_def)

lemma system_inv_start: "system_inv (started w s)"
  by (simp add: system_inv_def started_def system_start_def orders_def)

lemma system_reachable_inv: "system_reachable s \<Longrightarrow> system_inv s \<and> reachable (sensor s)"
proof (induction rule: system_reachable.induct)
  case (sys_start se s w)
  then show ?case
    using system_inv_start startup_reachable [OF _ setup_map_stages reach_init] by (auto simp: started_def system_start_def)
next
  case (sys_more s s')
  have "reachable (sensor s')"
    using sys_more by (elim system_stepE) (auto simp: handler_simps intro: reach_step step_program reachable_drain)
  with sys_more system_step_inv show ?case by blast
qed

text \<open>
  C15. Nothing is frozen without a record: in every state the agent can reach after its startup,
  each process that was answered, or waits to be, is one that a record read from the kernel's
  ring buffer names; no more is read than was written, the sensor keeps its invariant, the
  channels their capacities, and each address taken from the sidecar is blocked or was
  reported as rejected.
\<close>

theorem frozen_only_if_recorded:
  assumes "system_reachable s"
  shows "(\<forall>p \<in> fst ` set (answered s) \<union> set (responder_queue (agent s)).
      \<exists>i < events_polled s. e_pid (decode_event (events (sensor s) ! i)) = p) \<and>
    events_polled s \<le> length (events (sensor s)) \<and> reachable (sensor s) \<and>
    length (responder_queue (agent s)) \<le> 1000 \<and> length (intel_channel s) \<le> 100 \<and>
    (\<forall>ip \<in> set (drained s). c2_blocklist (sensor s) ip = Some 1 \<or> ip \<in> set (rejected s))"
  using system_reachable_inv [OF assms]
  by (auto simp: system_inv_def orders_def named_def QUEUE_CAPACITY_def INTEL_CAPACITY_def)

definition demo_armed :: bpf_state where
  "demo_armed = (case agent_setup demo_setup bpf_init of Inr s \<Rightarrow> s | Inl e \<Rightarrow> bpf_init)"

lemma demo_start_reachable: "system_reachable (system_start demo_armed)"
proof -
  obtain s' where "agent_setup demo_setup bpf_init = Inr s'"
    by (simp add: agent_setup_def register_agent_def deploy_honeytoken_def Let_def demo_setup_def
        aws_cred_path_def kube_cred_path_def)
  then show ?thesis by (simp add: demo_armed_def system_start_started sys_start [OF setup_startup])
qed

theorem frozen_only_if_recorded_witness:
  "reachable demo_armed \<and> length (responder_queue (agent (system_start demo_armed))) \<le> 1000"
  using frozen_only_if_recorded [OF demo_start_reachable] by (simp add: system_start_def)

text \<open>
  Threat intelligence takes effect: in any run from the startup in which the main loop drains
  the sidecar's channel again and again, an address in the channel is blocked from some
  moment on, for ever, unless the kernel rejects its map update.
\<close>

theorem intel_takes_effect:
  assumes "system_reachable (\<sigma> 0)" and "\<And>n. system_step (\<sigma> n) (\<sigma> (Suc n))"
    and "\<And>n. \<exists>m \<ge> n. \<exists>ok. \<sigma> (Suc m) = drain_intel ok (\<sigma> m)" and "ip \<in> set (intel_channel (\<sigma> n))"
  shows "\<exists>k. (\<forall>m \<ge> k. c2_blocklist (sensor (\<sigma> m)) ip = Some 1) \<or> ip \<in> set (rejected (\<sigma> k))"
proof -
  have reach: "system_reachable (\<sigma> m)" for m
    by (induction m) (auto intro: assms(1) sys_more assms(2))
  obtain k where "prefix (drained (\<sigma> n) @ intel_channel (\<sigma> n)) (drained (\<sigma> k))"
    using intel.eventually_served [of \<sigma>, OF assms(2,3)] by blast
  then have "ip \<in> set (drained (\<sigma> k))" using assms(4) set_mono_prefix by fastforce
  then have "c2_blocklist (sensor (\<sigma> k)) ip = Some 1 \<or> ip \<in> set (rejected (\<sigma> k))"
    using system_reachable_inv [OF reach] by (simp add: system_inv_def)
  with run_blocked [of \<sigma>, OF assms(2)] show ?thesis by blast
qed


text \<open>A reply with one attribute, and the sidecar's two turns that put it into an empty channel.\<close>

definition reply_with :: "misp_attribute list \<Rightarrow> misp_env" where
  "reply_with ats = \<lparr>json_attributes = \<lambda>text. Some ats, receiver_alive = \<lambda>n. True, misp_outcomes = \<lambda>n. IoOk,
     misp_os = \<lambda>tr c. Exited True []\<rparr>"

definition c2_attribute :: "ipv4 \<Rightarrow> misp_attribute" where
  "c2_attribute ip = \<lparr>attr_type = ''ip-dst'', attr_value = show_ipv4 ip\<rparr>"

definition hears :: "ipv4 \<Rightarrow> agent_system \<Rightarrow> agent_system" where
  "hears ip s = sidecar_turn (reply_with []) (sidecar_turn (reply_with [c2_attribute ip]) s)"

lemma hears_effect:
  assumes "sidecar s = Asleep" and "intel_channel s = []"
  shows "intel_channel (hears ip s) = [to_be (u32_from ip)]" and "heard (hears ip s) = heard s @ [c2_attribute ip]"
  using assms
  by (simp_all add: hears_def sidecar_turn_def turn_outcome_def reply_with_def misp_run_def sidecar_view_def
      c2_attribute_def ip_of_def parse_show_ipv4 INTEL_CAPACITY_def log_intel_def)

lemma hears_reachable: "system_reachable s \<Longrightarrow> system_reachable (hears ip s)"
  unfolding hears_def by (blast intro: sys_more sys_sidecar)

primrec demo_intel_run :: "nat \<Rightarrow> agent_system" where
  "demo_intel_run 0 = hears (185, 220, 101, 1) (system_start demo_armed)"
| "demo_intel_run (Suc n) = drain_intel (\<lambda>ip. True) (demo_intel_run n)"

theorem intel_takes_effect_witness:
  "\<exists>k. (\<forall>m \<ge> k. c2_blocklist (sensor (demo_intel_run m)) (to_be (u32_from (185, 220, 101, 1))) = Some 1) \<or>
     to_be (u32_from (185, 220, 101, 1)) \<in> set (rejected (demo_intel_run k))"
proof (rule intel_takes_effect)
  show "system_reachable (demo_intel_run 0)" by (simp add: hears_reachable demo_start_reachable)
  show "system_step (demo_intel_run n) (demo_intel_run (Suc n))" for n by (simp add: sys_drain)
  show "\<exists>m \<ge> n. \<exists>ok. demo_intel_run (Suc m) = drain_intel ok (demo_intel_run m)" for n by auto
  show "to_be (u32_from (185, 220, 101, 1)) \<in> set (intel_channel (demo_intel_run 0))"
    by (simp add: hears_effect system_start_def)
qed

section \<open>From a trap to its answer\<close>

interpretation ring: fifo_service "\<lambda>s. drop (events_polled s) (events (sensor s))"
    "\<lambda>s. take (events_polled s) (events (sensor s))" system_step
    "\<lambda>s s'. length (events (sensor s)) \<le> events_polled s \<or> (\<exists>ce. s' = poll_event ce s)"
proof
  fix s s' assume "system_step s s'"
  then have p: "prefix (events (sensor s)) (events (sensor s'))" "events_polled s \<le> events_polled s'"
    by (simp_all add: system_step_prefix)
  then show "\<exists>new. take (events_polled s') (events (sensor s')) @ drop (events_polled s') (events (sensor s')) =
      take (events_polled s) (events (sensor s)) @ drop (events_polled s) (events (sensor s)) @ new"
    by (auto simp: prefix_def simp flip: append_assoc)
  show "length (take (events_polled s) (events (sensor s))) \<le> length (take (events_polled s') (events (sensor s')))"
    using p prefix_length_le [OF p(1)] by (simp add: min_def)
next
  fix s s' assume "length (events (sensor s)) \<le> events_polled s \<or> (\<exists>ce. s' = poll_event ce s)"
    and "drop (events_polled s) (events (sensor s)) \<noteq> []"
  then show "length (take (events_polled s) (events (sensor s))) < length (take (events_polled s') (events (sensor s')))"
    by (auto simp: handler_simps)
qed

lemma polled_mono:
  assumes "\<And>m. system_step (\<sigma> m) (\<sigma> (Suc m))"
  shows "n \<le> m \<Longrightarrow> events_polled (\<sigma> n) \<le> events_polled (\<sigma> m)"
proof (induction m rule: nat_induct_at_least)
  case (Suc m)
  with system_step_prefix [OF assms [of m]] show ?case by linarith
qed simp

lemma run_prefix:
  assumes "\<And>n. system_step (\<sigma> n) (\<sigma> (Suc n))"
  shows "n \<le> m \<Longrightarrow> prefix (events (sensor (\<sigma> n))) (events (sensor (\<sigma> m)))"
proof (induction m rule: nat_induct_at_least)
  case (Suc m)
  with system_step_prefix [OF assms [of m]] show ?case by (meson prefix_order.trans)
qed simp

lemma crossing:
  fixes f :: "nat \<Rightarrow> nat"
  assumes "f n \<le> i"
  shows "n \<le> m \<Longrightarrow> i < f m \<Longrightarrow> \<exists>j \<ge> n. f j \<le> i \<and> i < f (Suc j)"
proof (induction m rule: nat_induct_at_least)
  case (Suc m)
  then show ?case by (cases "i < f m") (auto simp: not_less)
qed (use assms in simp)

lemma step_polls:
  "system_step s s' \<Longrightarrow> events_polled s \<le> i \<Longrightarrow> i < events_polled s' \<Longrightarrow>
     events_polled s = i \<and> (\<exists>ce. s' = poll_event ce s)"
  by (elim system_stepE) (auto simp: handler_simps)

lemma record_polled:
  assumes run: "\<And>m. system_step (\<sigma> m) (\<sigma> (Suc m))"
    and polls: "\<And>m. \<exists>j \<ge> m. length (events (sensor (\<sigma> j))) \<le> events_polled (\<sigma> j) \<or>
      (\<exists>ce. \<sigma> (Suc j) = poll_event ce (\<sigma> j))"
    and i: "events_polled (\<sigma> n) \<le> i" "i < length (events (sensor (\<sigma> n)))"
  obtains m ce where "n \<le> m" and "events_polled (\<sigma> m) = i" and "\<sigma> (Suc m) = poll_event ce (\<sigma> m)"
proof -
  obtain m where m: "n \<le> m" "prefix (events (sensor (\<sigma> n))) (take (events_polled (\<sigma> m)) (events (sensor (\<sigma> m))))"
    using ring.eventually_served [of \<sigma> n, OF run polls] by auto
  then have "length (events (sensor (\<sigma> n))) \<le> events_polled (\<sigma> m)"
    using prefix_length_le by fastforce
  with i(2) have "i < events_polled (\<sigma> m)" by simp
  with crossing [of "\<lambda>m. events_polled (\<sigma> m)", OF i(1) m(1)]
  obtain j where j: "n \<le> j" "events_polled (\<sigma> j) \<le> i" "i < events_polled (\<sigma> (Suc j))" by blast
  from step_polls [OF run j(2,3)] that j(1) show ?thesis by blast
qed

text \<open>
  C6. What becomes of a record. In any run in which the ring buffer is polled and the responder
  is scheduled again and again, every record in the ring buffer is polled once, at a moment
  the theorem names. If at that moment research mode is off, the order queue has room and the
  record's file name is the message of a trap with nothing but zero bytes behind it, then the
  process it names is answered after that moment. If research mode is on at that moment, the
  record changes nothing in the agent, and it is never polled again. A record with other bytes
  behind its message is no recognised trap (C36).
\<close>

theorem trap_is_answered:
  assumes "\<And>m. system_step (\<sigma> m) (\<sigma> (Suc m))"
    and "\<And>m. \<exists>j \<ge> m. length (events (sensor (\<sigma> j))) \<le> events_polled (\<sigma> j) \<or>
      (\<exists>ce. \<sigma> (Suc j) = poll_event ce (\<sigma> j))"
    and "\<And>m. \<exists>j \<ge> m. \<exists>re. \<sigma> (Suc j) = receive re (\<sigma> j)"
    and "events_polled (\<sigma> n) \<le> i" and "i < length (events (sensor (\<sigma> n)))"
    and "events (sensor (\<sigma> n)) ! i = event_bytes e" and "wf_event e"
  shows "\<exists>m \<ge> n. events_polled (\<sigma> m) = i \<and> (\<exists>ce. \<sigma> (Suc m) = poll_event ce (\<sigma> m)) \<and>
    (\<forall>m' > m. i < events_polled (\<sigma> m')) \<and>
    (\<not> research (\<sigma> m) \<and> length (responder_queue (agent (\<sigma> m))) < 1000 \<and>
       name_of (e_filename e) \<in> fst ` set trap_table \<longrightarrow>
     (\<exists>j > m. e_pid e \<in> fst ` set (drop (length (answered (\<sigma> m))) (answered (\<sigma> j))))) \<and>
    (research (\<sigma> m) \<longrightarrow> agent (\<sigma> (Suc m)) = agent (\<sigma> m))"
proof -
  obtain m ce where m: "n \<le> m" "events_polled (\<sigma> m) = i" "\<sigma> (Suc m) = poll_event ce (\<sigma> m)"
    by (rule record_polled [of \<sigma> n i, OF assms(1,2,4,5)])
  have here: "events (sensor (\<sigma> m)) ! i = event_bytes e" "i < length (events (sensor (\<sigma> m)))"
    using run_prefix [of \<sigma>, OF assms(1) m(1)] assms(5,6) by (auto simp: prefix_def nth_append)
  have after: "i < events_polled (\<sigma> m')" if "m < m'" for m'
    using polled_mono [of \<sigma> "Suc m" m', OF assms(1)] that here(2) by (simp add: m(2,3) handler_simps)
  have same: "answered (\<sigma> (Suc m)) = answered (\<sigma> m)" by (simp add: m(3) handler_simps)
  have answer: "\<exists>j > m. e_pid e \<in> fst ` set (drop (length (answered (\<sigma> m))) (answered (\<sigma> j)))"
    if "\<not> research (\<sigma> m)" "length (responder_queue (agent (\<sigma> m))) < 1000"
      "name_of (e_filename e) \<in> fst ` set trap_table"
  proof -
    have "e_pid e \<in> set (responder_queue (agent (\<sigma> (Suc m))))"
      using recognised_queues [OF assms(7) that(3), of "ce\<lparr>research_mode := research (\<sigma> m)\<rparr>" "agent (\<sigma> m)"]
        that(1,2) here(1)
      by (simp add: m(2,3) poll_event_def QUEUE_CAPACITY_def)
    moreover obtain j where j: "Suc m \<le> j"
      "prefix (map fst (answered (\<sigma> (Suc m))) @ responder_queue (agent (\<sigma> (Suc m)))) (map fst (answered (\<sigma> j)))"
      using responder.eventually_served [of \<sigma> "Suc m", OF assms(1,3)] by blast
    then have "prefix (responder_queue (agent (\<sigma> (Suc m))))
        (map fst (drop (length (answered (\<sigma> m))) (answered (\<sigma> j))))"
      by (auto simp: same prefix_def drop_map [symmetric])
    ultimately have "e_pid e \<in> set (map fst (drop (length (answered (\<sigma> m))) (answered (\<sigma> j))))"
      using set_mono_prefix by fastforce
    with j(1) show ?thesis by (intro exI [of _ j]) simp
  qed
  have "agent (\<sigma> (Suc m)) = agent (\<sigma> m)" if "research (\<sigma> m)"
    using that by (simp add: m(3) poll_event_def handle_event_def)
  with m after answer show ?thesis by blast
qed

text \<open>A run with one trap record: it is polled, then the responder goes on receiving.\<close>

lemma trigger_lengths:
  "length (responder_queue (trap_trigger ce pid f u a)) \<le> Suc (length (responder_queue a))"
  "length (responder_queue (yara_trigger ce pid a)) \<le> Suc (length (responder_queue a))"
  "length (responder_queue (heuristic_trigger ce pid c f a)) \<le> Suc (length (responder_queue a))"
  "length (responder_queue (ransomware_trigger ce pid c f a)) \<le> Suc (length (responder_queue a))"
  by (auto simp: trap_trigger_def yara_trigger_def heuristic_trigger_def ransomware_trigger_def dispatch_def
      try_send_def Let_def split: option.split)

lemma traps_length:
  "length (responder_queue (foldl (\<lambda>a t. trap_trigger ce pid f t a) a ts)) \<le> length ts + length (responder_queue a)"
proof (induction ts rule: rev_induct)
  case (snoc t ts)
  let ?b = "foldl (\<lambda>a t. trap_trigger ce pid f t a) a ts"
  have "length (responder_queue (trap_trigger ce pid f t ?b)) \<le> Suc (length (responder_queue ?b))"
    by (rule trigger_lengths(1))
  with snoc.IH show ?case by simp
qed simp

lemma callback_orders:
  assumes "\<not> research_mode ce" and "wf_event e"
  shows "length (responder_queue (handle_event ce (event_bytes e) a)) \<le> length (responder_queue a) + 10"
proof -
  let ?f = "name_of (e_filename e)" and ?c = "name_of (e_comm e)"
  let ?a = "log_event ce e ?c ?f a"
  let ?t = "foldl (\<lambda>a t. trap_trigger ce (e_pid e) ?f t a) ?a trap_table"
  let ?y = "yara_trigger ce (e_pid e) ?t"
  have "length (responder_queue ?t) \<le> 7 + length (responder_queue ?a)"
    using traps_length [of ce "e_pid e" ?f ?a trap_table] by (simp only: trap_table_def) simp
  moreover note trigger_lengths(2) [of ce "e_pid e" ?t] trigger_lengths(3) [of ce "e_pid e" ?c ?f ?y]
    trigger_lengths(4) [of ce "e_pid e" ?c ?f "heuristic_trigger ce (e_pid e) ?c ?f ?y"]
  moreover have "length (responder_queue ?a) = length (responder_queue a)" by simp
  ultimately show ?thesis unfolding handle_event_unfold [OF assms] by linarith
qed

abbreviation ghost_event :: event where
  "ghost_event \<equiv> trap_event (run_by 9 0 ''x'') (- 2) ''GHOST_PROCESS_TRAP'' blank_event"

abbreviation dead_env :: responder_env where
  "dead_env \<equiv> \<lparr>kill_ok = (\<lambda>p. False), proc_files = undefined, dump_files = undefined,
     blob_len_of = (\<lambda>p. None), route_clock = None, bridge_os = (\<lambda>tr c. SpawnFailed)\<rparr>"

fun demo_trap_run :: "nat \<Rightarrow> agent_system" where
  "demo_trap_run 0 = (system_start bpf_init)\<lparr>sensor := bpf_init\<lparr>events := [event_bytes ghost_event]\<rparr>, agent := idle_agent\<rparr>"
| "demo_trap_run (Suc 0) = poll_event quiet_env (demo_trap_run 0)"
| "demo_trap_run (Suc (Suc n)) = receive dead_env (demo_trap_run (Suc n))"

lemma receive_research: "research (receive re s) = research s"
  by (simp add: receive_def split: list.split prod.split)

lemma receive_shrinks:
  "length (responder_queue (agent (receive re s))) \<le> length (responder_queue (agent s))"
  by (simp add: receive_def split: list.split prod.split)

lemma wf_ghost_event: "wf_event ghost_event"
  by (rule wf_trap_event) (simp_all add: wf_run_by wf_event_def blank_event_def MAX_FILENAME_LEN_def)

lemma demo_trap_state:
  "\<not> research (demo_trap_run n) \<and> length (responder_queue (agent (demo_trap_run n))) \<le> 10 \<and>
   sensor (demo_trap_run n) = sensor (demo_trap_run 0) \<and> (0 < n \<longrightarrow> events_polled (demo_trap_run n) = 1)"
proof (induction n rule: demo_trap_run.induct)
  case 2
  then show ?case
    using callback_orders [OF _ wf_ghost_event, of "quiet_env\<lparr>research_mode := False\<rparr>" idle_agent]
    by (simp add: handler_simps system_start_def poll_event_def idle_agent_def)
next
  case (3 n)
  then show ?case
    using receive_shrinks [of dead_env "demo_trap_run (Suc n)"] by (simp add: receive_research handler_simps)
qed (simp add: system_start_def idle_agent_def)

lemma demo_trap_step: "system_step (demo_trap_run n) (demo_trap_run (Suc n))"
proof (cases n)
  case 0
  then show ?thesis by (simp add: sys_event system_start_def)
qed (simp add: sys_receive)

theorem trap_is_answered_witness: "\<exists>m. 9 \<in> fst ` set (answered (demo_trap_run m))"
proof -
  let ?m = "''GHOST_PROCESS_TRAP''"
  have polled: "\<exists>j \<ge> m. length (events (sensor (demo_trap_run j))) \<le> events_polled (demo_trap_run j) \<or>
      (\<exists>ce. demo_trap_run (Suc j) = poll_event ce (demo_trap_run j))" for m
    using demo_trap_state [of "Suc m"] by (intro exI [of _ "Suc m"]) simp
  have received: "\<exists>j \<ge> m. \<exists>re. demo_trap_run (Suc j) = receive re (demo_trap_run j)" for m
    by (rule exI [of _ "Suc m"]) auto
  have quiet: "\<not> research (demo_trap_run m)" and room: "length (responder_queue (agent (demo_trap_run m))) < 1000" for m
    using demo_trap_state [of m] by simp_all
  have "e_filename ghost_event = cbytes ?m @ replicate 238 0"
    by (simp add: trap_filename blank_event_def ch_def numeral_eq_Suc)
  then have "name_of (e_filename ghost_event) \<in> fst ` set trap_table"
    using name_of_padded [of ?m 238] by (simp add: trap_table_def)
  then obtain m j where "9 \<in> fst ` set (drop (length (answered (demo_trap_run m))) (answered (demo_trap_run j)))"
    using trap_is_answered [of demo_trap_run 0 0 ghost_event, OF demo_trap_step polled received _ _ _ wf_ghost_event]
      quiet room
    by (auto simp: system_start_def)
  then show ?thesis using set_drop_subset by fast
qed

end
