(* ===== verification/Carver_Properties.thy ===== *)
theory Carver_Properties
  imports Kp14_Blob
begin

text \<open>
  The properties of memory carving: parsing of the maps file, which memory is read, the way
  of a dump from the agent to the analysis host, and how the reader treats hostile files.
\<close>

section \<open>Lines of the maps file\<close>

text \<open>A line as the kernel prints it: numbers may have leading zeros, the name is padded.\<close>

definition maps_line :: "nat \<Rightarrow> nat \<Rightarrow> nat \<Rightarrow> nat \<Rightarrow> vma_entry \<Rightarrow> string" where
  "maps_line z1 z2 z3 pad v =
     replicate z1 (CHR ''0'') @ show_hex (unat (v_start v)) @ ''-'' @
     replicate z2 (CHR ''0'') @ show_hex (unat (v_end v)) @ '' '' @ v_perms v @ '' '' @
     replicate z3 (CHR ''0'') @ show_hex (unat (v_offset v)) @ '' '' @ v_dev v @ '' '' @
     show_nat (unat (v_inode v)) @ '' '' @ replicate pad (CHR '' '') @ v_pathname v"

definition vma_ok :: "vma_entry \<Rightarrow> bool" where
  "vma_ok v \<longleftrightarrow> CHR '' '' \<notin> set (v_perms v) \<and> CHR '' '' \<notin> set (v_dev v) \<and>
     trim_start_ws (v_pathname v) = v_pathname v \<and> trim_end_ws (v_pathname v) = v_pathname v"

lemma set_digits:
  assumes "1 < base" and "base \<le> 16" and "c \<in> set (map digit_char (digits base n))"
  shows "c \<notin> {CHR '' '', CHR ''-'', CHR ''+'', CHR ''x''}"
proof -
  obtain d where "d \<in> set (digits base n)" and c: "c = digit_char d" using assms(3) by auto
  then have "d < 16" using digits_bound [OF assms(1)] assms(2) by fastforce
  then show ?thesis using of_char_digit [of d] c by (auto split: if_splits)
qed

lemma set_show: "c \<in> set (show_hex n) \<or> c \<in> set (show_nat n) \<Longrightarrow> c \<notin> {CHR '' '', CHR ''-'', CHR ''+'', CHR ''x''}"
  using set_digits [of 10 c n] set_digits [of 16 c n] by (auto simp: show_hex_def show_nat_def)

lemma splitn_first:
  "c \<notin> set p \<Longrightarrow> splitn (Suc (Suc n)) c (p @ c # s) = p # splitn (Suc n) c s"
proof -
  assume "c \<notin> set p"
  then have "takeWhile (\<lambda>x. x \<noteq> c) (p @ c # s) = p" "dropWhile (\<lambda>x. x \<noteq> c) (p @ c # s) = c # s"
    by (auto simp: takeWhile_append dropWhile_append)
  then show ?thesis by simp
qed

lemma split_on_pair: "c \<notin> set p \<Longrightarrow> c \<notin> set q \<Longrightarrow> split_on c (p @ c # q) = [p, q]"
proof (induction p)
  case Nil
  then have "split_on c q = [q]" by (induction q) auto
  then show ?case by simp
qed auto

lemma strip_prefixes_none: "find (\<lambda>p. p \<noteq> [] \<and> starts_with s p) ps = None \<Longrightarrow> strip_prefixes ps s = s"
  by (subst strip_prefixes.simps) simp

lemma trim_0x_id: "CHR ''x'' \<notin> set s \<Longrightarrow> trim_0x s = s"
  unfolding trim_0x_def by (rule strip_prefixes_none) (auto simp: starts_with_iff)

lemma trim_padded: "trim_start_ws (replicate k (CHR '' '') @ s) = trim_start_ws s"
proof (induction k)
  case (Suc k)
  have "trim_start_ws (CHR '' '' # t) = trim_start_ws t" for t
    unfolding trim_start_ws_def
    by (subst strip_prefixes.simps) (simp add: white_space_def starts_with_def)
  with Suc show ?case by simp
qed simp

lemma read_zeros: "0 < base \<Longrightarrow> 0 < bound \<Longrightarrow> read_digits base bound 0 (replicate z (CHR ''0'') @ s) = read_digits base bound 0 s"
  by (induction z) (simp_all add: digit_value_def)

lemma parse_hex64_padded: "parse_hex64 (replicate z (CHR ''0'') @ show_hex (unat (w :: u64))) = Some w"
proof -
  let ?s = "replicate z (CHR ''0'') @ show_hex (unat w)"
  have w: "unat w < 2 ^ 64" using unat_u64_less [of w] by simp
  have "CHR ''x'' \<notin> set ?s" using set_show [of "CHR ''x''"] by (auto simp: set_replicate_conv_if)
  moreover have "CHR ''+'' \<notin> set ?s" using set_show [of "CHR ''+''"] by (auto simp: set_replicate_conv_if)
  moreover have "read_digits 16 (2 ^ 64) 0 ?s = Some (unat w)"
    using read_digits_show [of 16 "unat w" "2 ^ 64"] w by (simp add: read_zeros show_hex_def)
  moreover have "?s \<noteq> []" using digits_nonempty by (simp add: show_hex_def)
  ultimately have "parse_unsigned 16 (2 ^ 64) ?s = Some (unat w)"
    by (cases ?s) (auto simp: parse_unsigned_def)
  with \<open>CHR ''x'' \<notin> set ?s\<close> show ?thesis by (simp add: parse_hex64_def trim_0x_id)
qed

lemma parse_dec64_show: "parse_dec64 (show_nat (unat (w :: u64))) = w"
  using parse_unsigned_show [of 10 "unat w" "2 ^ 64"] unat_u64_less [of w]
  by (simp add: parse_dec64_def show_nat_def)

lemma splitn_six:
  assumes "\<forall>p \<in> {a, b, c, d, e}. x \<notin> set p"
  shows "splitn 6 x (a @ x # b @ x # c @ x # d @ x # e @ x # f) = [a, b, c, d, e, f]"
  using assms by (simp add: numeral_eq_Suc splitn_first del: splitn.simps(3))

text \<open>
  C34. A line of the maps file is read back to the area it prints, with any zero padding of
  the numbers and any padding of the name, for names without white space at their ends.
\<close>

theorem maps_line_round_trip:
  assumes "vma_ok v"
  shows "parse_maps_line (maps_line z1 z2 z3 pad v) = Inr v"
proof -
  let ?n = "\<lambda>z w. replicate z (CHR ''0'') @ show_hex (unat (w :: u64))"
  let ?range = "?n z1 (v_start v) @ CHR ''-'' # ?n z2 (v_end v)"
  let ?path = "replicate pad (CHR '' '') @ v_pathname v"
  have nosp: "CHR '' '' \<notin> set (?n z w)" "CHR ''-'' \<notin> set (?n z w)" for z w
    using set_show [of "CHR '' ''"] set_show [of "CHR ''-''"] by (auto simp: set_replicate_conv_if)
  have ino: "CHR '' '' \<notin> set (show_nat (unat (v_inode v)))" using set_show by blast
  have line: "maps_line z1 z2 z3 pad v = ?range @ CHR '' '' # v_perms v @ CHR '' '' # ?n z3 (v_offset v) @
      CHR '' '' # v_dev v @ CHR '' '' # show_nat (unat (v_inode v)) @ CHR '' '' # ?path"
    by (simp add: maps_line_def)
  have parts: "splitn 6 (CHR '' '') (maps_line z1 z2 z3 pad v) =
      [?range, v_perms v, ?n z3 (v_offset v), v_dev v, show_nat (unat (v_inode v)), ?path]"
    unfolding line using assms nosp ino by (intro splitn_six) (auto simp: vma_ok_def)
  have range: "split_on (CHR ''-'') ?range = [?n z1 (v_start v), ?n z2 (v_end v)]"
    by (rule split_on_pair) (use nosp in blast)+
  have path: "trim ?path = v_pathname v"
    using assms by (simp add: trim_def trim_padded vma_ok_def)
  show ?thesis
    unfolding parse_maps_line_def parts Let_def
    by (simp only: list.size nth_Cons_0 range) (simp add: parse_hex64_padded parse_dec64_show path)
qed

definition libc_vma :: vma_entry where
  "libc_vma = \<lparr>v_start = 0x7f0012340000, v_end = 0x7f0012360000, v_perms = ''r-xp'', v_offset = 0x1000,
     v_dev = ''08:01'', v_inode = 12345, v_pathname = ''/usr/lib/my libc.so.6''\<rparr>"

theorem maps_line_round_trip_witness:
  "parse_maps_line (maps_line 0 0 4 5 libc_vma) = Inr libc_vma"
proof (rule maps_line_round_trip)
  show "vma_ok libc_vma" by code_simp
qed

section \<open>What is carved\<close>

lemma carve_loop_sound:
  "carve_loop p pid vs = Inr pages \<Longrightarrow> wf_proc p \<Longrightarrow>
     (\<forall>(v, bs) \<in> set pages. v \<in> set vs \<and> \<not> skipped v \<and>
        mem_read p pid (v_start v) (min (unat (vma_size v)) MAX_REGION) = Some bs \<and>
        length bs \<le> MAX_REGION \<and> length bs \<le> unat (vma_size v)) \<and>
     map fst pages = filter (\<lambda>v. \<not> skipped v \<and>
        mem_read p pid (v_start v) (min (unat (vma_size v)) MAX_REGION) \<noteq> None) vs"
proof (induction p pid vs arbitrary: pages rule: carve_loop.induct)
  case (2 p pid v vs)
  show ?case
  proof (cases "skipped v")
    case True
    with 2 show ?thesis by fastforce
  next
    case False
    with "2.prems" obtain rest where rest: "carve_loop p pid vs = Inr rest"
      by (auto split: if_splits sum.splits)
    show ?thesis
    proof (cases "mem_read p pid (v_start v) (min (unat (vma_size v)) MAX_REGION)")
      case None
      with 2 False rest show ?thesis by (fastforce split: if_splits)
    next
      case (Some bs)
      then have "length bs \<le> min (unat (vma_size v)) MAX_REGION" using "2.prems"(2) unfolding wf_proc_def by blast
      with 2 False rest Some show ?thesis by (fastforce split: if_splits)
    qed
  qed
qed auto

lemma write_chunks_ok:
  "write_chunks fails n cs = (Inr u, bs) \<Longrightarrow> bs = concat cs"
  by (induction fails n cs arbitrary: bs rule: write_chunks.induct) (auto split: option.splits prod.splits)

lemma package_ok:
  assumes "package_core_dump env pid pages regs = (Inr path, out)"
  obtains ts where "blob_clock env = Some ts" and "path = blob_name pid ts"
    and "out = Some (path, blob_bytes pid ts pages regs)"
  using assms
  by (auto simp: package_core_dump_def blob_bytes_def dest: write_chunks_ok
      split: option.splits if_splits prod.splits sum.splits)

text \<open>
  C5. A successful carving run leaves one file, and the analysis host reads from it exactly
  what was carved: every readable, ordinary area whose memory could be read, in the order of
  the maps file, each with its range, permissions, name and the bytes read at its start (at
  most 64 MiB and never more than the area), with process, time and register state.
\<close>

theorem carved_memory_reaches_analysis:
  assumes "carve_and_package p env pid = (Inr path, out)" and "wf_proc p" and "blob_clock env = Some ts"
    and "parse_vma_layout p pid = Inr vmas" and "carve_memory p pid vmas = Inr pages"
    and "dump_ok pid ts pages (capture_register_state p pid)"
  shows "\<exists>blob. out = Some (path, blob) \<and>
    from_file (Some blob) = Done \<lparr>d_pid = pid, d_timestamp = ts, d_vma_count = of_nat (length pages),
      d_checksum = compute_checksum pages, d_register_state = capture_register_state p pid,
      d_regions = map region_of pages\<rparr> \<and>
    map fst pages = filter (\<lambda>v. \<not> skipped v \<and>
      mem_read p pid (v_start v) (min (unat (vma_size v)) MAX_REGION) \<noteq> None) vmas \<and>
    list_all (\<lambda>(v, bs). mem_read p pid (v_start v) (min (unat (vma_size v)) MAX_REGION) = Some bs \<and>
      length bs \<le> 67108864 \<and> length bs \<le> unat (vma_size v)) pages"
proof -
  have "package_core_dump env pid pages (capture_register_state p pid) = (Inr path, out)"
    using assms(1,4,5) by (simp add: carve_and_package_def)
  then obtain ts' where "blob_clock env = Some ts'"
    and out: "out = Some (path, blob_bytes pid ts' pages (capture_register_state p pid))"
    by (rule package_ok) blast
  with assms(3) have "out = Some (path, blob_bytes pid ts pages (capture_register_state p pid))" by simp
  moreover have "carve_loop p pid vmas = Inr pages"
    using assms(5) by (simp add: carve_memory_def split: if_splits)
  ultimately show ?thesis
    using carve_loop_sound [OF _ assms(2)] from_file_blob [OF assms(6)]
    by (fastforce simp: blob_bytes_with list_all_iff MAX_REGION_def)
qed

definition demo_proc :: proc_fs where
  "demo_proc = \<lparr>maps_file = (\<lambda>pid. Some ''1000-1004 rw-p 00000000 00:00 0''), mem_opens = (\<lambda>pid. True),
     mem_seek = (\<lambda>pid a. True), mem_read = (\<lambda>pid a n. Some (take n [1, 2, 3, 4, 5])),
     syscall_file = (\<lambda>pid. None), status_file = (\<lambda>pid. None)\<rparr>"

definition demo_blob_env :: blob_env where
  "demo_blob_env = \<lparr>blob_clock = Some 7, blob_creates = True, blob_write_fails = (\<lambda>n. None), blob_stats = True\<rparr>"

definition demo_vma :: vma_entry where
  "demo_vma = \<lparr>v_start = 0x1000, v_end = 0x1004, v_perms = ''rw-p'', v_offset = 0, v_dev = ''00:00'',
     v_inode = 0, v_pathname = []\<rparr>"

lemma demo_layout: "parse_vma_layout demo_proc 42 = Inr [demo_vma]"
proof -
  have ls: "lines ''1000-1004 rw-p 00000000 00:00 0'' = [''1000-1004 rw-p 00000000 00:00 0'']" by code_simp
  have parts: "splitn 6 (CHR '' '') ''1000-1004 rw-p 00000000 00:00 0'' =
      [''1000-1004'', ''rw-p'', ''00000000'', ''00:00'', ''0'']" by code_simp
  have nums: "parse_hex64 ''1000'' = Some 0x1000" "parse_hex64 ''1004'' = Some 0x1004"
    "parse_hex64 ''00000000'' = Some 0" "parse_dec64 ''0'' = 0"
    by (simp_all add: parse_hex64_def parse_dec64_def trim_0x_id parse_unsigned_def digit_value_def)
  have "parse_maps_line ''1000-1004 rw-p 00000000 00:00 0'' = Inr demo_vma"
    unfolding parse_maps_line_def parts by (simp add: nums demo_vma_def)
  with ls show ?thesis by (simp add: parse_vma_layout_def demo_proc_def)
qed

lemma demo_carve: "carve_memory demo_proc 42 [demo_vma] = Inr [(demo_vma, [1, 2, 3, 4])]"
  by (simp add: carve_memory_def skipped_def is_readable_def demo_proc_def demo_vma_def starts_with_def
      vma_size_def MAX_REGION_def)

lemma demo_carved:
  "carve_and_package demo_proc demo_blob_env 42 = (Inr (blob_name 42 7),
     Some (blob_name 42 7, blob_bytes 42 7 [(demo_vma, [1, 2, 3, 4])] (capture_register_state demo_proc 42)))"
proof -
  have run: "write_chunks (\<lambda>n. None) n cs = (Inr (), concat cs)" for n cs
    by (induction cs arbitrary: n) simp_all
  show ?thesis
    by (simp add: carve_and_package_def demo_layout demo_carve package_core_dump_def demo_blob_env_def run
        blob_bytes_def)
qed

theorem carved_memory_reaches_analysis_witness:
  "\<exists>d. from_file (map_option snd (snd (carve_and_package demo_proc demo_blob_env 42))) = Done d \<and>
     d_pid d = 42 \<and> d_regions d = [region_of (demo_vma, [1, 2, 3, 4])]"
proof -
  let ?regs = "capture_register_state demo_proc 42"
  have regs: "?regs = ''=== SYSCALL ===\<newline>\<newline>=== STATUS ===\<newline>\<newline>''"
    by (simp add: capture_register_state_def demo_proc_def)
  have "utf8 ?regs" unfolding regs utf8_def by code_simp
  moreover have "area_ok (demo_vma, [1, 2, 3, 4])"
    by (simp add: area_ok_def demo_vma_def utf8_def from_utf8_lossy_def)
  ultimately have ok: "dump_ok 42 7 [(demo_vma, [1, 2, 3, 4])] ?regs"
    by (simp add: dump_ok_def regs blob_bytes_with blob_with_def header_bytes_def magic_def length_area demo_vma_def)
  have wf: "wf_proc demo_proc" by (simp add: wf_proc_def demo_proc_def)
  have clock: "blob_clock demo_blob_env = Some 7" by (simp add: demo_blob_env_def)
  from carved_memory_reaches_analysis [OF demo_carved wf clock demo_layout demo_carve ok] demo_carved
  show ?thesis by auto
qed

section \<open>Hostile and damaged files\<close>

text \<open>
  The reader never compares the checksum, the declared size or the version with the
  content: a dump whose checksum and size are replaced by any others is accepted alike.
\<close>

theorem checksum_not_verified:
  assumes "dump_ok pid ts pages regs"
  shows "\<exists>d d'. from_file (Some (blob_with pid ts n c pages regs)) = Done d \<and>
    from_file (Some (blob_with pid ts n' c' pages regs)) = Done d' \<and> d_regions d = d_regions d' \<and>
    d_checksum d = c \<and> d_checksum d' = c'"
  using from_file_blob [OF assms, of n c] from_file_blob [OF assms, of n' c'] by auto

theorem checksum_not_verified_witness:
  "\<exists>d. from_file (Some (blob_with 42 7 99 0xBAD [] [])) = Done d \<and> d_checksum d = 0xBAD"
proof -
  have "dump_ok 42 7 [] []"
    by (simp add: dump_ok_def utf8_def from_utf8_lossy_def blob_bytes_with blob_with_def header_bytes_def magic_def)
  from checksum_not_verified [OF this, of 99 "0xBAD" 0 0] show ?thesis by auto
qed

text \<open>
  C33. A register-state length of at least 2^64 - 48 makes the bounds check wrap around: the
  check passes and the reader panics at the slice, instead of reporting a truncated file.
\<close>

theorem huge_register_length_panics:
  assumes "18446744073709551568 \<le> unat n" and "length rest < 2 ^ 62"
  shows "from_file (Some (header_bytes pid ts count payload c @ u64_bytes n @ rest)) = Panic"
proof -
  let ?h = "header_bytes pid ts count payload c"
  let ?d = "?h @ u64_bytes n @ rest"
  have h: "length ?h = 40" by (simp add: header_bytes_def magic_def)
  have len: "length ?d < 2 ^ 63" using assms(2) h by simp
  have mag: "packed_field kp14_CoreDumpHeader ''magic'' 0 ?d = magic"
    unfolding packed_field_def kp14_layouts
    by (simp add: blob_header_fields slice_def header_bytes_def magic_def)
  have t1: "checked_take NoRegisterLength 40 8 ?d = Done (u64_bytes n)"
    by (rule checked_take_at [of _ ?h _ rest]) (use len h in simp_all)
  have sum: "unat (48 + n) = unat n - 18446744073709551568"
    using assms(1) unat_u64_less [of n] by (simp add: unat_word_ariths mod_if)
  have l: "unat (len64 ?d) = length ?d" using len by (rule unat_len64)
  have "unat (48 + n) < 48" using sum assms(1) unat_u64_less [of n] by linarith
  then have "\<not> past_end 48 n ?d" and "\<not> (48 :: u64) \<le> 48 + n"
    using h l by (simp_all add: past_end_def word_less_nat_alt word_le_nat_alt)
  then have "checked_take TruncatedRegisters 48 n ?d = Panic"
    by (simp add: checked_take_def range_index_def)
  moreover have "\<not> length ?d < sizeof kp14_CoreDumpHeader" using h by (simp add: kp14_layouts lay_CoreDumpHeader)
  ultimately show ?thesis by (simp add: from_file_def mag t1)
qed

theorem huge_register_length_panics_witness:
  "from_file (Some (header_bytes 1 2 3 4 5 @ u64_bytes 0xFFFFFFFFFFFFFFFF @ [])) = Panic"
  by (rule huge_register_length_panics) (simp_all)

text \<open>
  C35. The strings extracted from a dump are exactly the maximal runs of printable ASCII
  bytes in its regions that reach the minimal length: none is cut, joined or left out.
\<close>

theorem strings_are_maximal_runs:
  assumes "0 < m"
  shows "t \<in> set (extract_strings m d) \<longleftrightarrow>
    (\<exists>r s. r \<in> set (d_regions d) \<and> t = of_bytes s \<and> max_run (r_data r) s \<and> m \<le> length s)"
  using scan_strings_iff [OF assms, of "[]"] by (fastforce simp: extract_strings_def)

theorem strings_are_maximal_runs_witness:
  "''gate'' \<in> set (extract_strings 4 \<lparr>d_pid = 1, d_timestamp = 0, d_vma_count = 1, d_checksum = 0,
     d_register_state = [], d_regions = [region_of (demo_vma, [0, 255] @ cbytes ''gate'' @ [7])]\<rparr>)"
proof -
  have "max_run ([0, 255] @ cbytes ''gate'' @ [7]) (cbytes ''gate'')"
    unfolding max_run_def
    by (intro conjI exI [of _ "[0, 255]"] exI [of _ "[7]"]) (simp_all add: printable_def ch_def)
  moreover have "''gate'' = of_bytes (cbytes ''gate'')" by (simp only: of_bytes_cbytes)
  ultimately have "\<exists>r s. r \<in> {region_of (demo_vma, [0, 255] @ cbytes ''gate'' @ [7])} \<and>
      ''gate'' = of_bytes s \<and> max_run (r_data r) s \<and> 4 \<le> length s"
    by (intro exI [of _ "region_of (demo_vma, [0, 255] @ cbytes ''gate'' @ [7])"] exI [of _ "cbytes ''gate''"])
      (simp add: region_of_def)
  then show ?thesis by (subst strings_are_maximal_runs) simp_all
qed

end
