(* ===== verification/Task_Properties.thy ===== *)
theory Task_Properties
  imports System_Properties Command_Logs Carver_Properties "HOL-Library.Multiset"
begin

text \<open>
  The commands the running agent executes and the tasks it leaves to run later: each handler
  runs commands of its own kind only, every dump is analysed once, every volume removed
  once and only after it was plugged in, and what a failed routing leaves behind.
\<close>

section \<open>The commands of each handler\<close>

lemma event_commands: "extends_by zfs_command (commands a) (commands (handle_event ce data a))"
proof -
  have "extends_by zfs_command tr (commands (ransomware_trigger ce pid c f b))" if "commands b = tr" for pid c f b tr
    using that by (auto simp: ransomware_trigger_def Let_def rollback_runs)
  then show ?thesis by (simp add: handle_event_def Let_def)
qed

lemma respond_commands: "extends_by routing_command tr (snd (respond re pid tr))"
  by (auto simp: respond_def split: sum.splits prod.splits dest: route_runs)

abbreviation log :: "agent_system \<Rightarrow> cmd list" where "log s \<equiv> commands (agent s)"

definition removal_command :: "cmd \<Rightarrow> bool" where "removal_command c \<longleftrightarrow> hd c \<in> {''qm'', ''pvesm''}"

interpretation polling: runs_only zfs_command log "poll_event ce"
  by unfold_locales (simp add: poll_event_def event_commands)

interpretation answering: runs_only routing_command log "receive re"
proof
  show "extends_by routing_command (log s) (log (receive re s))" for s
  proof (cases "responder_queue (agent s)")
    case (Cons pid rest)
    then show ?thesis
      using respond_commands [of "log s" re pid] by (cases "respond re pid (log s)") (simp add: receive_def)
  qed (simp add: receive_def)
qed

interpretation analysing: runs_only analysis_command log "run_analysis ke hostname i"
proof
  show "extends_by analysis_command (log s) (log (run_analysis ke hostname i s))" for s
    using remote_runs [OF surjective_pairing [of "run_remote_analysis ke (kp14_new hostname) (analyses s ! i)
        \<lparr>ran = log s, written = handed_over s\<rparr>"]]
    by (simp add: run_analysis_def Let_def)
qed

interpretation backup: runs_only zfs_command log "run_backup os clock"
  by unfold_locales (simp add: run_backup_def snapshot_runs)

lemma cleanup_commands:
  "\<exists>more. cleanup_volume os b v sc tr = tr @ more \<and> set more \<subseteq> {delete_cmd b sc, free_cmd v}"
  by (auto simp: cleanup_volume_def run_status_def split: cmd_result.split)

interpretation removing: runs_only removal_command log "run_cleanup os i"
proof
  show "extends_by removal_command (log s) (log (run_cleanup os i s))" for s
    using cleanup_commands [of os default_kp14 "fst (cleanups s ! i)" "snd (cleanups s ! i)" "log s"]
    by (cases "cleanups s ! i")
      (fastforce simp: run_cleanup_def extends_by_def list_all_iff removal_command_def delete_cmd_def free_cmd_def)
qed

lemma daemon_commands: "run_daemon ke hostname s = Some s' \<Longrightarrow> extends_by analysis_command (log s) (log s')"
  by (auto simp: run_daemon_def dest!: daemon_runs)

lemma other_logs:
  "log (poll_tls env s) = log s" "log (run_monitor x s) = log s" "log (drain_intel ok s) = log s"
  "log (control_request stamp e env path data s) = log s"
  by (simp_all add: poll_tls_def control_request_def handler_simps)

definition fetch_command :: "cmd \<Rightarrow> bool" where "fetch_command c \<longleftrightarrow> hd c = ''curl''"

lemma sync_commands: "misp_commands (snd (sync_attributes me ats m)) = misp_commands m"
  by (induction me ats m rule: sync_attributes.induct) (auto simp: log_intel_def split: option.split)

lemma misp_run_commands: "fetch_command c \<Longrightarrow> extends_by fetch_command (misp_commands m) (misp_commands (snd (misp_run me c m)))"
  by (auto simp: misp_run_def extends_one split: cmd_result.split)

lemma feed_commands: "extends_by fetch_command (misp_commands m) (misp_commands (sync_feed me m))"
proof -
  have "fetch_command feed_cmd" by (simp add: fetch_command_def feed_cmd_def)
  moreover have "misp_commands (sync_feed me m) = misp_commands (snd (misp_run me feed_cmd m))"
    by (auto simp: sync_feed_def log_intel_def split: prod.split cmd_result.split bool.split)
  ultimately show ?thesis using misp_run_commands by simp
qed

interpretation fetching: runs_only fetch_command log "sidecar_turn me"
proof
  fix s
  have "fetch_command misp_cmd" by (simp add: fetch_command_def misp_cmd_def)
  then have misp: "misp_run me misp_cmd (sidecar_view s) = (r, m) \<Longrightarrow> extends_by fetch_command (log s) (misp_commands m)"
    for r m using misp_run_commands [of misp_cmd "sidecar_view s" me] by simp
  have "extends_by fetch_command (log s) (misp_commands (fst (turn_outcome me s)))"
    using feed_commands [of "sidecar_view s" me]
    by (auto simp: turn_outcome_def sync_commands misp simp del: sync_attributes.simps
        split: sidecar_phase.split prod.split cmd_result.split bool.split option.split list.split)
  then show "extends_by fetch_command (log s) (log (sidecar_turn me s))"
    by (cases "turn_outcome me s") (simp add: sidecar_turn_def)
qed

text \<open>Only the removal of a volume frees one.\<close>

lemma kinds_no_free [simp]:
  "\<not> zfs_command (free_cmd v)" "\<not> routing_command (free_cmd v)" "\<not> analysis_command (free_cmd v)"
  "\<not> fetch_command (free_cmd v)"
  by (simp_all add: zfs_command_def fetch_command_def analysis_command_def free_cmd_def routing_command_def GHIDRA_HEADLESS_def)

abbreviation frees_nothing :: "cmd \<Rightarrow> bool" where "frees_nothing c \<equiv> (\<forall>v. c \<noteq> free_cmd v)"

lemma daemon_frees_nothing: "run_daemon ke hostname s = Some s' \<Longrightarrow> extends_by frees_nothing (log s) (log s')"
  by (rule extends_mono [OF daemon_commands]) auto

lemma step_commands:
  assumes "system_step s s'"
  shows "extends_by frees_nothing (log s) (log s') \<or> (\<exists>os i. s' = run_cleanup os i s \<and> i < length (cleanups s))"
  using assms
  by (elim system_stepE)
    (auto simp: other_logs daemon_frees_nothing intro!: polling.weaker answering.weaker analysing.weaker
      backup.weaker fetching.weaker)

lemma step_log_grows: "system_step s s' \<Longrightarrow> prefix (log s) (log s')"
  using step_commands removing.keeps_log extends_prefix by blast

section \<open>Tasks are neither lost nor run twice\<close>

definition spawned_analyses :: "agent_system \<Rightarrow> string list" where
  "spawned_analyses s = concat (map (analysis_of \<circ> snd) (answered s))"

definition routed_volumes :: "agent_system \<Rightarrow> (string \<times> nat) list" where
  "routed_volumes s = concat (map (cleanup_of \<circ> snd) (answered s))"

lemma moved_task:
  assumes "i < length xs"
  shows "add_mset (xs ! i) (A + (mset (take i xs) + mset (drop (Suc i) xs))) = A + mset xs"
  by (subst (4) id_take_nth_drop [OF assms]) simp

lemma receive_spawns:
  obtains "receive re s = s"
  | r where "answered (receive re s) = answered s @ [r]"
    and "analyses (receive re s) = analyses s @ analysis_of (snd r)"
    and "cleanups (receive re s) = cleanups s @ cleanup_of (snd r)"
    and "analysed (receive re s) = analysed s" and "volumes_removed (receive re s) = volumes_removed s"
    and "snd r = fst (respond re (fst r) (log s))" and "log (receive re s) = snd (respond re (fst r) (log s))"
proof (cases "responder_queue (agent s)")
  case (Cons pid rest)
  then show ?thesis
    by (intro that(2) [of "(pid, fst (respond re pid (log s)))"])
      (cases "respond re pid (log s)"; simp add: receive_def)+
qed (simp add: receive_def that(1))

lemma task_simps [handler_simps]:
  "analyses (poll_event ce s) = analyses s" "cleanups (poll_event ce s) = cleanups s"
  "analysed (poll_event ce s) = analysed s" "volumes_removed (poll_event ce s) = volumes_removed s"
  "analyses (poll_tls env s) = analyses s" "cleanups (poll_tls env s) = cleanups s"
  "analysed (poll_tls env s) = analysed s" "volumes_removed (poll_tls env s) = volumes_removed s"
  "analyses (run_backup os clock s) = analyses s" "cleanups (run_backup os clock s) = cleanups s"
  "analysed (run_backup os clock s) = analysed s" "volumes_removed (run_backup os clock s) = volumes_removed s"
  "analyses (run_monitor x s) = analyses s" "cleanups (run_monitor x s) = cleanups s"
  "analysed (run_monitor x s) = analysed s" "volumes_removed (run_monitor x s) = volumes_removed s"
  "analyses (sidecar_turn me s) = analyses s" "cleanups (sidecar_turn me s) = cleanups s"
  "analysed (sidecar_turn me s) = analysed s" "volumes_removed (sidecar_turn me s) = volumes_removed s"
  "analyses (control_request stamp e env path data s) = analyses s"
  "cleanups (control_request stamp e env path data s) = cleanups s"
  "analysed (control_request stamp e env path data s) = analysed s"
  "volumes_removed (control_request stamp e env path data s) = volumes_removed s"
  "analyses (drain_intel ok s) = analyses s" "cleanups (drain_intel ok s) = cleanups s"
  "analysed (drain_intel ok s) = analysed s" "volumes_removed (drain_intel ok s) = volumes_removed s"
  "cleanups (run_analysis ke h i s) = cleanups s" "volumes_removed (run_analysis ke h i s) = volumes_removed s"
  "analyses (run_cleanup os i s) = analyses s" "analysed (run_cleanup os i s) = analysed s"
  by (simp_all add: poll_event_def poll_tls_def run_backup_def run_monitor_def sidecar_turn_def control_request_def drain_intel_def
      run_analysis_def run_cleanup_def Let_def split: prod.split)

lemma task_daemon [handler_simps]:
  assumes "run_daemon ke hostname s = Some s'"
  shows "analyses s' = analyses s" "cleanups s' = cleanups s" "analysed s' = analysed s"
    "volumes_removed s' = volumes_removed s"
  using assms by (auto simp: run_daemon_def)

definition tasks_balanced :: "agent_system \<Rightarrow> bool" where
  "tasks_balanced s \<longleftrightarrow>
     mset (analysed s) + mset (analyses s) = mset (spawned_analyses s) \<and>
     mset (volumes_removed s) + mset (cleanups s) = mset (routed_volumes s)"

lemma receive_balanced: "tasks_balanced s \<Longrightarrow> tasks_balanced (receive re s)"
  by (rule receive_spawns [of re s])
    (auto simp: tasks_balanced_def spawned_analyses_def routed_volumes_def simp flip: add.assoc)

lemma run_balanced:
  "tasks_balanced s \<Longrightarrow> i < length (analyses s) \<Longrightarrow> tasks_balanced (run_analysis ke h i s)"
  "tasks_balanced s \<Longrightarrow> i < length (cleanups s) \<Longrightarrow> tasks_balanced (run_cleanup os i s)"
proof -
  assume b: "tasks_balanced s"
  show "i < length (analyses s) \<Longrightarrow> tasks_balanced (run_analysis ke h i s)"
    using b by (simp add: tasks_balanced_def spawned_analyses_def routed_volumes_def run_analysis_def Let_def moved_task)
  show "i < length (cleanups s) \<Longrightarrow> tasks_balanced (run_cleanup os i s)"
    using b moved_task [of i "cleanups s" "mset (volumes_removed s)"]
    by (cases "cleanups s ! i") (simp add: tasks_balanced_def spawned_analyses_def routed_volumes_def run_cleanup_def)
qed

lemma step_balanced: "system_step s s' \<Longrightarrow> tasks_balanced s \<Longrightarrow> tasks_balanced s'"
  by (elim system_stepE)
    (auto simp: receive_balanced run_balanced, auto simp: tasks_balanced_def spawned_analyses_def routed_volumes_def
      handler_simps)

section \<open>No volume is removed before it was plugged in\<close>

lemma allocated_name:
  "allocate_storage os clock b n tr = (Inr v, tr') \<Longrightarrow> \<exists>t. v = storage b @ '':'' @ volume_name t"
  by (auto simp: allocate_storage_def Let_def split: option.splits if_splits prod.splits bool.splits)

lemma free_slot: "find_available_scsi_slot os b tr = (Inr sc, tr') \<Longrightarrow> 10 \<le> sc \<and> sc \<le> 30"
  by (auto simp: find_available_scsi_slot_def find_Some_iff split: if_splits cmd_result.splits option.splits)

lemma plugged_in:
  assumes "hotplug_to_vm os b v tr = (Inr sc, tr')" and "is_local_hypervisor b"
  shows "hotplug_cmd b sc v \<in> set tr' \<and> 10 \<le> sc \<and> sc \<le> 30"
  using assms
  by (auto simp: hotplug_to_vm_def run_status_def split: sum.splits prod.splits option.splits bool.splits
      cmd_result.splits dest: free_slot)

lemma routed_plugs:
  assumes "respond re pid tr = (Routed blob v sc, tr')"
  shows "hotplug_cmd default_kp14 sc v \<in> set tr' \<and> 10 \<le> sc \<and> sc \<le> 30"
proof -
  obtain clock n where r: "route_to_kp14 (bridge_os re) clock n default_kp14 blob tr = (Inr (v, sc), tr')"
    using assms by (auto simp: respond_def split: if_splits sum.splits prod.splits)
  then obtain m tr1 tr2 where "allocate_storage (bridge_os re) clock default_kp14 m tr = (Inr v, tr1)"
    and "hotplug_to_vm (bridge_os re) default_kp14 v tr2 = (Inr sc, tr')"
    by (auto simp: route_to_kp14_def split: option.splits prod.splits sum.splits)
  with plugged_in allocated_name show ?thesis by (fastforce simp: default_kp14_def)
qed

definition plugged :: "cmd list \<Rightarrow> string \<times> nat \<Rightarrow> bool" where
  "plugged tr vs \<longleftrightarrow> 10 \<le> snd vs \<and> snd vs \<le> 30 \<and> hotplug_cmd default_kp14 (snd vs) (fst vs) \<in> set tr"

lemma plugged_mono: "plugged tr vs \<Longrightarrow> set tr \<subseteq> set tr' \<Longrightarrow> plugged tr' vs"
  by (auto simp: plugged_def)

definition frees_plugged :: "(string \<times> nat) list \<Rightarrow> cmd list \<Rightarrow> bool" where
  "frees_plugged removed tr \<longleftrightarrow>
     (\<forall>pre v rest. tr = pre @ free_cmd v # rest \<longrightarrow>
        (\<exists>sc. (v, sc) \<in> set removed \<and> hotplug_cmd default_kp14 sc v \<in> set pre))"

definition removals_ordered :: "agent_system \<Rightarrow> bool" where
  "removals_ordered s \<longleftrightarrow>
     (\<forall>vs \<in> set (routed_volumes s). plugged (log s) vs) \<and> frees_plugged (volumes_removed s) (log s)"

lemma split_log:
  assumes "tr @ added = pre @ c # rest"
  shows "(c \<in> set added \<and> (\<exists>m. pre = tr @ m)) \<or> (\<exists>rest'. tr = pre @ c # rest')"
proof -
  obtain us where "tr = pre @ us \<and> us @ added = c # rest \<or> tr @ us = pre \<and> added = us @ c # rest"
    using assms by (auto simp: append_eq_append_conv2)
  then show ?thesis by (cases us) auto
qed

lemma frees_extended:
  assumes "frees_plugged removed tr" and "set removed \<subseteq> set removed'"
    and "\<And>v. free_cmd v \<in> set added \<Longrightarrow> \<exists>sc. (v, sc) \<in> set removed' \<and> plugged tr (v, sc)"
  shows "frees_plugged removed' (tr @ added)"
  unfolding frees_plugged_def
proof (intro allI impI)
  fix pre v rest assume "tr @ added = pre @ free_cmd v # rest"
  from split_log [OF this]
  show "\<exists>sc. (v, sc) \<in> set removed' \<and> hotplug_cmd default_kp14 sc v \<in> set pre"
  proof
    assume "free_cmd v \<in> set added \<and> (\<exists>m. pre = tr @ m)"
    with assms(3) show ?thesis by (fastforce simp: plugged_def)
  next
    assume "\<exists>rest'. tr = pre @ free_cmd v # rest'"
    with assms(1,2) show ?thesis unfolding frees_plugged_def by blast
  qed
qed

lemma ordered_quiet:
  assumes "removals_ordered s" and "extends_by frees_nothing (log s) (log s')"
    and "\<And>vs. vs \<in> set (routed_volumes s') \<Longrightarrow> vs \<in> set (routed_volumes s) \<or> plugged (log s') vs"
    and "volumes_removed s' = volumes_removed s"
  shows "removals_ordered s'"
proof -
  obtain added where added: "log s' = log s @ added" "list_all frees_nothing added"
    using assms(2) by (auto simp: extends_by_def)
  then have "frees_plugged (volumes_removed s') (log s')"
    using assms(1,4) frees_extended [of "volumes_removed s" "log s" "volumes_removed s" added]
    by (auto simp: removals_ordered_def list_all_iff)
  moreover have "plugged (log s') vs" if "vs \<in> set (routed_volumes s')" for vs
    using assms(1) assms(3) [OF that] plugged_mono [of "log s" vs "log s'"]
    by (auto simp: removals_ordered_def added(1))
  ultimately show ?thesis by (simp add: removals_ordered_def)
qed

lemma ordered_cleanup:
  assumes "removals_ordered s" and "tasks_balanced s" and "i < length (cleanups s)"
  shows "removals_ordered (run_cleanup os i s)"
proof -
  obtain w sc where w: "cleanups s ! i = (w, sc)" by force
  have "(w, sc) \<in># mset (cleanups s)" using assms(3) w nth_mem by fastforce
  then have "(w, sc) \<in># mset (routed_volumes s)"
    using assms(2) by (metis tasks_balanced_def union_iff)
  then have wp: "plugged (log s) (w, sc)" using assms(1) by (simp add: removals_ordered_def)
  let ?s = "run_cleanup os i s"
  obtain added where added: "log ?s = log s @ added" "set added \<subseteq> {delete_cmd default_kp14 sc, free_cmd w}"
    using cleanup_commands [of os default_kp14 w sc "log s"] w by (auto simp: run_cleanup_def)
  have removed: "volumes_removed ?s = volumes_removed s @ [(w, sc)]" by (simp add: run_cleanup_def w)
  have "v = w" if "free_cmd v \<in> set added" for v
    using that added(2) by (auto simp: delete_cmd_def free_cmd_def)
  then have "frees_plugged (volumes_removed ?s) (log ?s)"
    unfolding added(1) removed using assms(1) wp
    by (intro frees_extended [of "volumes_removed s"]) (auto simp: removals_ordered_def)
  moreover have "routed_volumes ?s = routed_volumes s"
    by (simp add: routed_volumes_def run_cleanup_def w)
  moreover have "\<forall>vs \<in> set (routed_volumes s). plugged (log ?s) vs"
    using assms(1) plugged_mono [of "log s" _ "log ?s"] by (simp add: removals_ordered_def added(1))
  ultimately show ?thesis by (simp add: removals_ordered_def)
qed

lemma ordered_receive:
  assumes "removals_ordered s"
  shows "removals_ordered (receive re s)"
proof (rule receive_spawns [of re s])
  assume "receive re s = s"
  with assms show ?thesis by simp
next
  fix r assume r: "answered (receive re s) = answered s @ [r]" "volumes_removed (receive re s) = volumes_removed s"
    and res: "snd r = fst (respond re (fst r) (log s))" "log (receive re s) = snd (respond re (fst r) (log s))"
  have new: "plugged (log (receive re s)) vs" if "vs \<in> set (cleanup_of (snd r))" for vs
  proof -
    from that obtain blob where "snd r = Routed blob (fst vs) (snd vs)" by (cases "snd r") auto
    with res have "respond re (fst r) (log s) = (Routed blob (fst vs) (snd vs), log (receive re s))"
      by (metis prod.collapse)
    from routed_plugs [OF this] show ?thesis by (simp add: plugged_def)
  qed
  show ?thesis
    by (rule ordered_quiet [OF assms answering.weaker]) (use r new in \<open>auto simp: routed_volumes_def\<close>)
qed

lemma step_answers:
  assumes "system_step s s'"
  shows "answered s' = answered s \<or> (\<exists>re. s' = receive re s)"
  using assms by (elim system_stepE) (auto simp: handler_simps)

lemma step_removes:
  assumes "system_step s s'"
  shows "volumes_removed s' = volumes_removed s \<or> (\<exists>os i. s' = run_cleanup os i s \<and> i < length (cleanups s))"
proof -
  have "volumes_removed (receive re s) = volumes_removed s" for re
    by (rule receive_spawns [of re s]) simp_all
  with assms show ?thesis by (elim system_stepE) (auto simp: handler_simps)
qed

lemma step_ordered:
  assumes "system_step s s'" and "removals_ordered s" and "tasks_balanced s"
  shows "removals_ordered s'"
proof (cases "\<exists>os i. s' = run_cleanup os i s \<and> i < length (cleanups s)")
  case True
  with assms(2,3) show ?thesis by (auto intro: ordered_cleanup)
next
  case False
  show ?thesis
  proof (cases "answered s' = answered s")
    case True
    with False step_commands [OF assms(1)] step_removes [OF assms(1)] show ?thesis
      by (intro ordered_quiet [OF assms(2)]) (auto simp: routed_volumes_def)
  next
    case False
    with step_answers [OF assms(1)] assms(2) show ?thesis by (auto intro: ordered_receive)
  qed
qed

lemma tasks_start: "tasks_balanced (started w s) \<and> removals_ordered (started w s)"
  by (simp add: tasks_balanced_def removals_ordered_def frees_plugged_def spawned_analyses_def routed_volumes_def
      started_def system_start_def)

lemma system_reachable_tasks: "system_reachable s \<Longrightarrow> tasks_balanced s \<and> removals_ordered s"
proof (induction rule: system_reachable.induct)
  case (sys_start se s w)
  show ?case by (rule tasks_start)
next
  case (sys_more s s')
  with step_balanced step_ordered show ?case by blast
qed

text \<open>
  C10. Every response is followed up exactly once: in every reachable state the analyses run and
  still waiting are those of the answered orders, each as often, and so are the removals of
  routed volumes; each routed volume was plugged into a slot from 10 to 30, and wherever the
  agent has freed a volume, it had plugged in this very volume before.
\<close>

theorem responses_followed_up:
  assumes "system_reachable s"
  shows "mset (analysed s) + mset (analyses s) = mset (concat (map (analysis_of \<circ> snd) (answered s))) \<and>
    mset (volumes_removed s) + mset (cleanups s) = mset (concat (map (cleanup_of \<circ> snd) (answered s))) \<and>
    (\<forall>(v, sc) \<in> set (volumes_removed s @ cleanups s). 10 \<le> sc \<and> sc \<le> 30 \<and>
       hotplug_cmd default_kp14 sc v \<in> set (commands (agent s))) \<and>
    (\<forall>pre v rest. commands (agent s) = pre @ free_cmd v # rest \<longrightarrow>
       (\<exists>sc. (v, sc) \<in> set (volumes_removed s) \<and> hotplug_cmd default_kp14 sc v \<in> set pre))"
proof -
  have inv: "tasks_balanced s" "removals_ordered s" using system_reachable_tasks [OF assms] by auto
  have "set (volumes_removed s @ cleanups s) = set (routed_volumes s)"
    using inv(1) unfolding tasks_balanced_def by (metis mset_append set_mset_mset)
  then have "\<forall>vs \<in> set (volumes_removed s @ cleanups s). plugged (log s) vs"
    using inv(2) by (simp add: removals_ordered_def)
  then have "\<forall>(v, sc) \<in> set (volumes_removed s @ cleanups s). 10 \<le> sc \<and> sc \<le> 30 \<and>
      hotplug_cmd default_kp14 sc v \<in> set (log s)"
    unfolding plugged_def by fastforce
  moreover have "\<forall>pre v rest. log s = pre @ free_cmd v # rest \<longrightarrow>
      (\<exists>sc. (v, sc) \<in> set (volumes_removed s) \<and> hotplug_cmd default_kp14 sc v \<in> set pre)"
    using inv(2) by (simp add: removals_ordered_def frees_plugged_def)
  ultimately show ?thesis
    using inv(1) by (simp only: tasks_balanced_def spawned_analyses_def routed_volumes_def)
qed

text \<open>
  A run from the first to the last step: process 42 sends a signal to the agent, its trap record
  is polled, the process is frozen, carved and routed, and the volume removed.
\<close>

definition demo_responder :: responder_env where
  "demo_responder = \<lparr>kill_ok = (\<lambda>p. True), proc_files = demo_proc, dump_files = demo_blob_env,
     blob_len_of = (\<lambda>p. Some 5000000), route_clock = Some 7, bridge_os = demo_os\<rparr>"

definition demo_response :: agent_system where
  "demo_response = run_cleanup demo_os 0 (receive demo_responder (poll_event quiet_env ((system_start demo_armed)\<lparr>sensor :=
       handle_kill (run_by 42 0 ''evil'') \<lparr>se_id = 62, se_args = [1234, 9]\<rparr> demo_armed\<rparr>)))"

lemma demo_attack:
  "events (handle_kill (run_by 42 0 ''evil'') \<lparr>se_id = 62, se_args = [1234, 9]\<rparr> demo_armed) =
     [event_bytes (trap_event (run_by 42 0 ''evil'') 1234 ''SELF_DEFENSE_TRAP'' blank_event)]"
proof -
  obtain t where t: "agent_setup demo_setup bpf_init = Inr t" "demo_armed = t"
    by (simp add: demo_armed_def agent_setup_def register_agent_def deploy_honeytoken_def Let_def demo_setup_def
        aws_cred_path_def kube_cred_path_def)
  then have "agent_pid demo_armed 0 = Some 1234"
    using setup_registers [OF t(1)] by (simp add: demo_setup_def)
  moreover have "events demo_armed = []" using setup_keeps [OF t(1)] t(2) by (simp add: bpf_init_def)
  ultimately show ?thesis
    by (simp add: handle_kill_def Let_def emit_trap_def lo32_def)
qed

lemma demo_polled:
  obtains n s where "system_reachable s" and "demo_response = run_cleanup demo_os 0 (receive demo_responder s)"
    and "responder_queue (agent s) = replicate (Suc n) 42" and "answered s = []" and "analyses s = []"
    and "cleanups s = []" and "volumes_removed s = []"
proof -
  let ?k = "run_by 42 0 ''evil''" and ?ctx = "\<lparr>se_id = 62, se_args = [1234, 9]\<rparr>"
  let ?msg = "''SELF_DEFENSE_TRAP''"
  let ?s0 = "(system_start demo_armed)\<lparr>sensor := handle_kill ?k ?ctx demo_armed\<rparr>"
  let ?s1 = "poll_event quiet_env ?s0"
  have ev: "events (sensor ?s0) ! events_polled ?s0 = event_bytes (trap_event ?k 1234 ?msg blank_event)"
    by (simp add: demo_attack system_start_def)
  have "system_reachable ?s0"
    using sys_more [OF demo_start_reachable sys_sensor, of "handle_kill ?k ?ctx demo_armed"]
      prog_kill [OF wf_run_by] by (simp add: system_start_def)
  then have reach: "system_reachable ?s1"
    by (rule sys_more [OF _ sys_event]) (simp add: demo_attack system_start_def)
  have blank: "wf_event blank_event" "set (drop (length ?msg + 1) (e_filename blank_event)) \<subseteq> {0}"
    by (simp_all add: wf_event_def blank_event_def MAX_FILENAME_LEN_def set_replicate_conv_if)
  have tab: "(?msg, ''SIGSTOP'') \<in> set trap_table" by (simp add: trap_table_def)
  have "42 \<in> set (responder_queue (agent ?s1))"
    using trap_queues [OF tab blank(1) wf_run_by blank(2), of "quiet_env\<lparr>research_mode := False\<rparr>" "agent ?s0" 42 0 "''evil''" 1234]
    by (simp add: poll_event_def demo_attack system_start_def QUEUE_CAPACITY_def)
  moreover have "wf_event (trap_event ?k 1234 ?msg blank_event)"
    by (rule wf_trap_event) (simp_all add: blank wf_run_by)
  then obtain n where q: "responder_queue (agent ?s1) = replicate n 42"
    using poll_event_queue [of quiet_env ?s0] ev by (auto simp: decode_event_bytes system_start_def)
  ultimately obtain m where "n = Suc m" by (cases n) auto
  with q reach show thesis
    by (intro that [of ?s1 m]) (simp_all add: demo_response_def poll_event_def system_start_def)
qed

lemma demo_pending:
  obtains s where "system_reachable s" and "demo_response = run_cleanup demo_os 0 s"
    and "answered s = [(42, Routed (blob_name 42 7) (''local-lvm:'' @ volume_name 7) 10)]"
    and "analyses s = [blob_name 42 7]" and "cleanups s = [(''local-lvm:'' @ volume_name 7, 10)]"
    and "volumes_removed s = []"
proof -
  obtain n s where s: "system_reachable s" "demo_response = run_cleanup demo_os 0 (receive demo_responder s)"
    "responder_queue (agent s) = replicate (Suc n) 42" "answered s = []" "analyses s = []"
    "cleanups s = []" "volumes_removed s = []" by (rule demo_polled)
  obtain tr where "respond demo_responder 42 (commands (agent s)) =
      (Routed (blob_name 42 7) (''local-lvm:'' @ volume_name 7) 10, tr)"
    using demo_routed [of "blob_name 42 7" "commands (agent s)"]
    by (auto simp: respond_def demo_carved demo_responder_def)
  with s show thesis
    by (intro that [of "receive demo_responder s"] sys_more [OF s(1) sys_receive]) (simp_all add: receive_def)
qed

lemma demo_response:
  "system_reachable demo_response \<and> map fst (answered demo_response) = [42] \<and>
   volumes_removed demo_response = [(''local-lvm:'' @ volume_name 7, 10)] \<and> analyses demo_response = [blob_name 42 7]"
proof -
  obtain s where s: "system_reachable s" "demo_response = run_cleanup demo_os 0 s"
    "answered s = [(42, Routed (blob_name 42 7) (''local-lvm:'' @ volume_name 7) 10)]" "analyses s = [blob_name 42 7]"
    "cleanups s = [(''local-lvm:'' @ volume_name 7, 10)]" "volumes_removed s = []" by (rule demo_pending)
  have "system_reachable demo_response" unfolding s(2) by (rule sys_more [OF s(1) sys_cleanup]) (simp add: s)
  with s(3-6) show ?thesis by (simp add: s(2) run_cleanup_def)
qed

theorem responses_followed_up_witness:
  "mset (analysed demo_response) + mset (analyses demo_response) =
     mset (concat (map (analysis_of \<circ> snd) (answered demo_response))) \<and>
   hotplug_cmd default_kp14 10 (''local-lvm:'' @ volume_name 7) \<in> set (commands (agent demo_response))"
proof -
  have "system_reachable demo_response" "volumes_removed demo_response = [(''local-lvm:'' @ volume_name 7, 10)]"
    using demo_response by simp_all
  with responses_followed_up [of demo_response] show ?thesis by simp
qed

text \<open>
  Nothing orders the removal of a volume and the analysis of its dump: in the run above the volume
  is gone while the daemon still waits for its device and the remote analysis has not begun.
\<close>

lemma daemon_waiting_simps [simp]:
  "daemon_waiting (poll_event ce s) = daemon_waiting s" "daemon_waiting (poll_tls env s) = daemon_waiting s"
  "daemon_waiting (receive re s) = daemon_waiting s" "daemon_waiting (run_analysis ke h i s) = daemon_waiting s"
  "daemon_waiting (run_cleanup os i s) = daemon_waiting s" "daemon_waiting (run_backup os t s) = daemon_waiting s"
  "daemon_waiting (run_monitor x s) = daemon_waiting s" "daemon_waiting (sidecar_turn me s) = daemon_waiting s"
  "daemon_waiting (control_request stamp e env path data s) = daemon_waiting s"
  "daemon_waiting (drain_intel ok s) = daemon_waiting s"
  by (simp_all add: poll_event_def poll_tls_def receive_def run_analysis_def run_cleanup_def run_backup_def
      run_monitor_def sidecar_turn_def control_request_def drain_intel_def Let_def split: list.split prod.split)

lemma volume_removed_before_analysis:
  "\<exists>s v. system_reachable s \<and> v \<in> set (volumes_removed s) \<and> daemon_waiting s \<and>
     analyses s \<noteq> [] \<and> analysed s = []"
proof -
  have "daemon_waiting demo_response" by (simp add: demo_response_def system_start_def)
  moreover have "analysed demo_response = []"
    by (simp add: demo_response_def run_cleanup_def receive_def poll_event_def system_start_def
        split: list.split prod.split)
  ultimately show ?thesis using demo_response by (intro exI [of _ demo_response]) auto
qed

text \<open>The daemon runs once: after it has ended, for one device or by its timeout, none is analysed.\<close>

lemma daemon_ends: "system_step s s' \<Longrightarrow> \<not> daemon_waiting s \<Longrightarrow> \<not> daemon_waiting s'"
  by (elim system_stepE) auto

lemma daemon_runs_once:
  assumes "\<And>n. system_step (\<sigma> n) (\<sigma> (Suc n))" and "run_daemon ke h (\<sigma> n) = Some (\<sigma> (Suc n))" and "n < m"
  shows "\<not> daemon_waiting (\<sigma> m)"
proof -
  have "run_daemon ke h s = Some s' \<Longrightarrow> \<not> daemon_waiting s'" for s s'
    by (auto simp: run_daemon_def)
  then have ended: "\<not> daemon_waiting (\<sigma> (Suc n))" using assms(2) .
  have "Suc n \<le> m" using assms(3) by simp
  then show ?thesis
  proof (induction m rule: nat_induct_at_least)
    case (Suc m)
    then show ?case using daemon_ends [OF assms(1) [of m]] by simp
  qed (fact ended)
qed

section \<open>What a failed routing leaves behind\<close>

lemma allocate_outcome:
  assumes "allocate_storage os clock b m tr = (r, tr1)" and "is_local_hypervisor b"
  shows "case r of Inl e \<Rightarrow> e \<in> {ClockFailed, AllocSpawn, AllocFailed} | Inr v \<Rightarrow> \<exists>t. tr1 = tr @ [alloc_cmd b t m]"
  using assms
  by (auto simp: allocate_storage_def run_status_def Let_def
      split: option.splits prod.splits bool.splits cmd_result.splits)

lemma after_allocation:
  assumes "route_to_kp14 os clock (Some n) b p tr = (r, tr')"
    and "allocate_storage os clock b (size_mb n) tr = (Inr v, tr1)"
  shows "extends_by routing_command tr1 tr'"
  using assms
  by (auto simp: route_to_kp14_def split: prod.splits sum.splits dest!: write_runs hotplug_runs intro: extends_trans)

text \<open>
  A routing that fails after the allocation leaves the volume allocated: no command of the
  attempt frees it, and the response asks for no removal.
\<close>

lemma failed_routing_leaks:
  assumes "route_to_kp14 os clock len b p tr = (Inl e, tr')" and "is_local_hypervisor b"
    and "e \<notin> {BlobMissing, ClockFailed, AllocSpawn, AllocFailed}"
  shows "\<exists>t m added. tr' = tr @ alloc_cmd b t m # added \<and> (\<forall>v. free_cmd v \<notin> set added) \<and>
    cleanup_of (RoutingFailed p e) = []"
proof -
  obtain n where n: "len = Some n" using assms(1,3) by (cases len) (auto simp: route_to_kp14_def)
  obtain r tr1 where a: "allocate_storage os clock b (size_mb n) tr = (r, tr1)" by force
  with assms(1,3) n allocate_outcome [OF a assms(2)] obtain v where v: "r = Inr v"
    by (cases r) (auto simp: route_to_kp14_def)
  with allocate_outcome [OF a assms(2)] obtain t where "tr1 = tr @ [alloc_cmd b t (size_mb n)]" by auto
  moreover obtain added where "tr' = tr1 @ added" "list_all routing_command added"
    using after_allocation [of os clock n b p tr "Inl e" tr'] assms(1) n a v by (auto simp: extends_by_def)
  ultimately show ?thesis by (auto simp: list_all_iff)
qed

end
