(* ===== verification/Intel_Flow.thy ===== *)
theory Intel_Flow
  imports System_Properties
begin

text \<open>
  Threat intelligence in the running agent, from a reply of the server to the packets that are
  dropped: what the sidecar has been sent, has dealt with and still has to deal with, and
  what of it is in the channel or has been drained.
\<close>

section \<open>Attributes on their way\<close>

definition pending :: "agent_system \<Rightarrow> misp_attribute list" where
  "pending s = (case sidecar s of Sending ats \<Rightarrow> ats | _ \<Rightarrow> [])"

definition dealt :: "agent_system \<Rightarrow> misp_attribute list" where
  "dealt s = take (length (heard s) - length (pending s)) (heard s)"

text \<open>
  Nothing is lost and nothing invented: what was drained and what is in the channel are, in
  order, the addresses of the attributes dealt with.
\<close>

definition intel_flow :: "agent_system \<Rightarrow> bool" where
  "intel_flow s \<longleftrightarrow> suffix (pending s) (heard s) \<and>
     drained s @ intel_channel s = List.map_filter address_of (dealt s)"

lemma dealt_pending: "suffix (pending s) (heard s) \<Longrightarrow> heard s = dealt s @ pending s"
  by (auto simp: dealt_def suffix_def)

lemma flow_split:
  "intel_flow s \<longleftrightarrow> (\<exists>gone. heard s = gone @ pending s \<and> drained s @ intel_channel s = List.map_filter address_of gone)"
  by (auto simp: intel_flow_def dealt_def suffix_def)

lemma address_of_one:
  "(case address_of at of None \<Rightarrow> List.map_filter address_of [] | Some y \<Rightarrow> y # List.map_filter address_of []) =
     (case ip_of at of None \<Rightarrow> [] | Some ip \<Rightarrow> [to_be (u32_from ip)])"
  by (auto simp: address_of_def split: option.split)

lemma turn_flow:
  obtains (idles) "pending (sidecar_turn me s) = pending s" "heard (sidecar_turn me s) = heard s"
      "intel_channel (sidecar_turn me s) = intel_channel s"
      "pending s = [] \<or> INTEL_CAPACITY \<le> length (intel_channel s)"
    | (fetches) ats where "pending s = []" "pending (sidecar_turn me s) = ats"
      "heard (sidecar_turn me s) = heard s @ ats" "intel_channel (sidecar_turn me s) = intel_channel s"
    | (deals) at rest where "pending s = at # rest" "pending (sidecar_turn me s) = rest"
      "heard (sidecar_turn me s) = heard s"
      "intel_channel (sidecar_turn me s) = intel_channel s @ List.map_filter address_of [at]"
proof (cases "sidecar s")
  case Asleep
  obtain r m where r: "misp_run me misp_cmd (sidecar_view s) = (r, m)" by force
  then have m: "sent m = []" using sent_misp_run(1) [of me misp_cmd "sidecar_view s"] by simp
  from turn_fetch [OF Asleep r] m fetches idles show ?thesis
    by (auto simp: pending_def Asleep after_sidecar_def)
next
  case (Sending ats)
  show ?thesis
  proof (cases ats)
    case Nil
    with Sending idles show ?thesis by (simp add: turn_sent_all pending_def)
  next
    case (Cons at rest)
    show ?thesis
    proof (cases "ip_of at \<noteq> None \<and> INTEL_CAPACITY \<le> length (intel_channel s)")
      case True
      with Sending Cons idles show ?thesis
        by (simp add: sidecar_turn_def turn_outcome_def pending_def)
    next
      case False
      have "turn_outcome me s =
          (snd (sync_attributes (listening me) [at] (sidecar_view s)), Sending rest, [])"
        by (simp only: turn_outcome_def Sending Cons sidecar_phase.case list.case if_not_P [OF False])
      then have "sidecar_turn me s = (after_sidecar (snd (sync_attributes (listening me) [at] (sidecar_view s))) s)
          \<lparr>sidecar := Sending rest\<rparr>"
        by (simp only: turn_after prod.case append_Nil2 after_heard)
      then show ?thesis
        using Sending Cons
        by (intro deals) (simp_all add: pending_def after_sidecar_def sent_sync_one address_of_one
            del: sync_attributes.simps)
    qed
  qed
next
  case Feed_Due
  with idles show ?thesis by (simp add: turn_feed after_sidecar_def pending_def)
qed

text \<open>The other handlers leave the sidecar alone.\<close>

lemma sidecar_simps [simp]:
  "sidecar (poll_event ce s) = sidecar s" "heard (poll_event ce s) = heard s"
  "sidecar (poll_tls env s) = sidecar s" "heard (poll_tls env s) = heard s"
  "sidecar (receive re s) = sidecar s" "heard (receive re s) = heard s"
  "sidecar (run_analysis ke h i s) = sidecar s" "heard (run_analysis ke h i s) = heard s"
  "sidecar (run_cleanup os i s) = sidecar s" "heard (run_cleanup os i s) = heard s"
  "sidecar (run_backup os t s) = sidecar s" "heard (run_backup os t s) = heard s"
  "sidecar (run_monitor x s) = sidecar s" "heard (run_monitor x s) = heard s"
  "sidecar (control_request stamp e env path data s) = sidecar s"
  "heard (control_request stamp e env path data s) = heard s"
  "sidecar (drain_intel ok s) = sidecar s" "heard (drain_intel ok s) = heard s"
  by (simp_all add: poll_event_def poll_tls_def receive_def run_analysis_def run_cleanup_def run_backup_def
      run_monitor_def control_request_def drain_intel_def Let_def split: list.split prod.split)

lemma run_daemon_sidecar: "run_daemon ke h s = Some s' \<Longrightarrow> sidecar s' = sidecar s \<and> heard s' = heard s"
  by (auto simp: run_daemon_def)

text \<open>Every step either is a turn of the sidecar or leaves its attributes and the addresses as they are.\<close>

lemma step_intel:
  assumes "system_step s s'"
  obtains (turn) me where "s' = sidecar_turn me s"
    | (other) "pending s' = pending s" "heard s' = heard s"
      "drained s' @ intel_channel s' = drained s @ intel_channel s"
      "length (intel_channel s') \<le> length (intel_channel s)"
  using assms
  by (elim system_stepE) (simp_all add: pending_def handler_simps run_daemon_sidecar)

lemma map_filter_app: "List.map_filter f (xs @ ys) = List.map_filter f xs @ List.map_filter f ys"
  by (simp add: List.map_filter_def)

lemma turn_keeps_flow:
  assumes "intel_flow s"
  shows "intel_flow (sidecar_turn me s)"
proof -
  obtain gone where d: "heard s = gone @ pending s" "drained s @ intel_channel s = List.map_filter address_of gone"
    using assms by (auto simp: flow_split)
  show ?thesis
  proof (cases rule: turn_flow [of me s])
    case (deals at rest)
    with d show ?thesis
      unfolding flow_split by (intro exI [of _ "gone @ [at]"]) (simp add: handler_simps map_filter_app flip: append_assoc)
  qed (use d in \<open>auto simp: flow_split handler_simps\<close>)
qed

lemma step_keeps_flow: "system_step s s' \<Longrightarrow> intel_flow s \<Longrightarrow> intel_flow s'"
proof (erule step_intel)
  fix me assume "intel_flow s" "s' = sidecar_turn me s"
  then show ?thesis by (simp add: turn_keeps_flow)
qed (simp add: intel_flow_def dealt_def)

lemma reachable_flow: "system_reachable s \<Longrightarrow> intel_flow s"
proof (induction rule: system_reachable.induct)
  case (sys_start se s w)
  show ?case by (simp add: flow_split started_def system_start_def pending_def List.map_filter_simps)
qed (rule step_keeps_flow)

lemma flow_addresses:
  assumes "system_reachable s"
  shows "set (drained s @ intel_channel s) = {ip. \<exists>at \<in> set (dealt s). address_of at = Some ip}"
    and "set (dealt s) \<subseteq> set (heard s)"
proof -
  have "set (drained s @ intel_channel s) = set (List.map_filter address_of (dealt s))"
    using reachable_flow [OF assms] by (simp only: intel_flow_def)
  then show "set (drained s @ intel_channel s) = {ip. \<exists>at \<in> set (dealt s). address_of at = Some ip}"
    by (force simp: List.map_filter_def)
  show "set (dealt s) \<subseteq> set (heard s)" by (auto simp: dealt_def dest: in_set_takeD)
qed

section \<open>Every reported address takes effect\<close>

text \<open>The attributes the sidecar holds are a queue too, served by its turns while the channel has room.\<close>

interpretation attributes: fifo_service pending dealt "\<lambda>s s'. intel_flow s \<and> system_step s s'"
    "\<lambda>s s'. intel_flow s \<and> length (intel_channel s) < INTEL_CAPACITY \<and> (\<exists>me. s' = sidecar_turn me s)"
proof
  fix s s' assume a: "intel_flow s \<and> system_step s s'"
  then have "heard s = dealt s @ pending s" "heard s' = dealt s' @ pending s'"
    using step_keeps_flow dealt_pending by (auto simp: intel_flow_def)
  moreover have "\<exists>new. heard s' = heard s @ new \<and> length (pending s') \<le> length (pending s) + length new"
    using conjunct2 [OF a]
  proof (cases rule: step_intel)
    case (turn me)
    show ?thesis unfolding turn by (cases rule: turn_flow [of me s]) simp_all
  qed simp
  ultimately show "\<exists>new. dealt s' @ pending s' = dealt s @ pending s @ new" "length (dealt s) \<le> length (dealt s')"
    by (auto dest: arg_cong [where f = length])
next
  fix s s'
  assume a: "intel_flow s \<and> length (intel_channel s) < INTEL_CAPACITY \<and> (\<exists>me. s' = sidecar_turn me s)" "pending s \<noteq> []"
  then obtain me where t: "s' = sidecar_turn me s" by blast
  have "heard s = dealt s @ pending s" "heard s' = dealt s' @ pending s'"
    using a turn_keeps_flow dealt_pending by (auto simp: intel_flow_def t)
  moreover have "heard s' = heard s" "length (pending s') < length (pending s)"
    unfolding t using a by (cases rule: turn_flow [of me s]; simp)+
  ultimately show "length (dealt s) < length (dealt s')" by (auto dest: arg_cong [where f = length])
qed

text \<open>The channel has room at some later turn: only turns fill it, and the drain empties it.\<close>

lemma room_at_turn:
  assumes run: "\<And>n. system_step (\<sigma> n) (\<sigma> (Suc n))"
    and turns: "\<And>n. \<exists>m \<ge> n. \<exists>me. \<sigma> (Suc m) = sidecar_turn me (\<sigma> m)"
    and drains: "\<And>n. \<exists>m \<ge> n. \<exists>ok. \<sigma> (Suc m) = drain_intel ok (\<sigma> m)"
  shows "\<exists>m \<ge> n. length (intel_channel (\<sigma> m)) < INTEL_CAPACITY \<and> (\<exists>me. \<sigma> (Suc m) = sidecar_turn me (\<sigma> m))"
proof -
  let ?turn = "\<lambda>m. \<exists>me. \<sigma> (Suc m) = sidecar_turn me (\<sigma> m)"
  obtain d ok where d: "n \<le> d" "\<sigma> (Suc d) = drain_intel ok (\<sigma> d)" using drains by blast
  define t where "t = (LEAST m. Suc d \<le> m \<and> ?turn m)"
  have t: "Suc d \<le> t" "?turn t"
    using LeastI_ex [of "\<lambda>m. Suc d \<le> m \<and> ?turn m"] turns [of "Suc d"] by (auto simp: t_def)
  have "Suc d \<le> m \<Longrightarrow> m \<le> t \<Longrightarrow> intel_channel (\<sigma> m) = []" for m
  proof (induction m rule: nat_induct_at_least)
    case base
    show ?case by (simp add: d(2) handler_simps)
  next
    case (Suc m)
    then have "\<not> ?turn m" using not_less_Least [of m "\<lambda>m. Suc d \<le> m \<and> ?turn m"] by (auto simp: t_def)
    with run [of m] have "length (intel_channel (\<sigma> (Suc m))) \<le> length (intel_channel (\<sigma> m))"
      by (auto elim: step_intel)
    with Suc show ?case by simp
  qed
  with t d(1) show ?thesis by (intro exI [of _ t]) (simp add: INTEL_CAPACITY_def)
qed

lemma attribute_dealt_with:
  assumes "system_reachable (\<sigma> 0)" and "\<And>n. system_step (\<sigma> n) (\<sigma> (Suc n))"
    and "\<And>n. \<exists>m \<ge> n. \<exists>me. \<sigma> (Suc m) = sidecar_turn me (\<sigma> m)"
    and "\<And>n. \<exists>m \<ge> n. \<exists>ok. \<sigma> (Suc m) = drain_intel ok (\<sigma> m)" and "at \<in> set (heard (\<sigma> n))"
  shows "\<exists>m \<ge> n. at \<in> set (dealt (\<sigma> m))"
proof -
  have flow: "intel_flow (\<sigma> m)" for m
    by (induction m) (use assms(1,2) reachable_flow step_keeps_flow in blast)+
  have "\<exists>m \<ge> n. prefix (dealt (\<sigma> n) @ pending (\<sigma> n)) (dealt (\<sigma> m))"
    using flow assms(2) room_at_turn [of \<sigma>, OF assms(2-4)] by (intro attributes.eventually_served) blast+
  then show ?thesis
    using assms(5) dealt_pending [of "\<sigma> n"] flow [of n] set_mono_prefix by (fastforce simp: intel_flow_def)
qed

text \<open>
  C22. Threat intelligence takes effect, from the server's reply to the wire: in any run from the startup
  in which the sidecar and the main loop's drain are scheduled again and again, for each
  destination attribute a reply has ever held there is a moment from which on every IPv4
  packet to its address is dropped, for ever, unless the kernel has rejected the map update.
  No length of the replies and no filling of the channel can prevent it.
\<close>

theorem reported_address_takes_effect:
  assumes "system_reachable (\<sigma> 0)" and "\<And>n. system_step (\<sigma> n) (\<sigma> (Suc n))"
    and "\<And>n. \<exists>m \<ge> n. \<exists>me. \<sigma> (Suc m) = sidecar_turn me (\<sigma> m)"
    and "\<And>n. \<exists>m \<ge> n. \<exists>ok. \<sigma> (Suc m) = drain_intel ok (\<sigma> m)"
    and "at \<in> set (heard (\<sigma> n))" and "attr_type at = ''ip-dst''" and "parse_ipv4 (attr_value at) = Some (a, b, c, d)"
  shows "\<exists>k. (\<forall>m \<ge> k. \<forall>\<kappa> pkt. wf_kenv \<kappa> \<and> 34 \<le> length pkt \<and> slice 12 2 pkt = [8, 0] \<and>
        slice 30 4 pkt = [a, b, c, d] \<longrightarrow> fst (the (xdp_c2_inspector \<kappa> pkt (sensor (\<sigma> m)))) = XDP_DROP) \<or>
      to_be (u32_from (a, b, c, d)) \<in> set (rejected (\<sigma> k))"
proof -
  let ?ip = "to_be (u32_from (a, b, c, d))"
  have reach: "system_reachable (\<sigma> m)" for m
    by (induction m) (auto intro: assms(1) sys_more assms(2))
  obtain j where "at \<in> set (dealt (\<sigma> j))" using attribute_dealt_with [of \<sigma>, OF assms(1-5)] by blast
  moreover have "address_of at = Some ?ip" using assms(6,7) by (simp add: address_of_def ip_of_def)
  ultimately have "?ip \<in> set (drained (\<sigma> j)) \<or> ?ip \<in> set (intel_channel (\<sigma> j))"
    using flow_addresses(1) [OF reach, of j] by auto
  then obtain k where "(\<forall>m \<ge> k. c2_blocklist (sensor (\<sigma> m)) ?ip = Some 1) \<or> ?ip \<in> set (rejected (\<sigma> k))"
  proof
    assume "?ip \<in> set (drained (\<sigma> j))"
    then have "c2_blocklist (sensor (\<sigma> j)) ?ip = Some 1 \<or> ?ip \<in> set (rejected (\<sigma> j))"
      using system_reachable_inv [OF reach] by (simp add: system_inv_def)
    with run_blocked [of \<sigma>, OF assms(2)] that show thesis by blast
  next
    assume "?ip \<in> set (intel_channel (\<sigma> j))"
    with intel_takes_effect [of \<sigma>, OF assms(1,2,4)] that show thesis by blast
  qed
  moreover have "?ip = u32_of [a, b, c, d]" by (metis to_be_bytes u32_of_bytes)
  then have "c2_blocklist (sensor (\<sigma> m)) ?ip = Some 1 \<Longrightarrow> 34 \<le> length pkt \<and> slice 12 2 pkt = [8, 0] \<and>
      slice 30 4 pkt = [a, b, c, d] \<Longrightarrow> blocked (sensor (\<sigma> m)) pkt" for m pkt
    by (simp add: blocked_def ipv4_dst_def)
  ultimately have "(\<forall>m \<ge> k. \<forall>pkt. 34 \<le> length pkt \<and> slice 12 2 pkt = [8, 0] \<and> slice 30 4 pkt = [a, b, c, d] \<longrightarrow>
      blocked (sensor (\<sigma> m)) pkt) \<or> ?ip \<in> set (rejected (\<sigma> k))"
    by blast
  then show ?thesis
    by (intro exI [of _ k]) (auto simp: xdp_eq_spec xdp_spec_def)
qed

text \<open>A reply with one attribute; then drains and turns of the sidecar take turns.\<close>

primrec demo_alternating :: "nat \<Rightarrow> agent_system" where
  "demo_alternating 0 = hears (185, 220, 101, 1) (system_start demo_armed)"
| "demo_alternating (Suc n) =
     (if even n then drain_intel (\<lambda>ip. True) (demo_alternating n)
      else sidecar_turn (reply_with []) (demo_alternating n))"

theorem reported_address_takes_effect_witness:
  "\<exists>k. (\<forall>m \<ge> k. \<forall>\<kappa> pkt. wf_kenv \<kappa> \<and> 34 \<le> length pkt \<and> slice 12 2 pkt = [8, 0] \<and>
      slice 30 4 pkt = [185, 220, 101, 1] \<longrightarrow>
        fst (the (xdp_c2_inspector \<kappa> pkt (sensor (demo_alternating m)))) = XDP_DROP) \<or>
    to_be (u32_from (185, 220, 101, 1)) \<in> set (rejected (demo_alternating k))"
proof (rule reported_address_takes_effect)
  show "system_reachable (demo_alternating 0)" by (simp add: hears_reachable demo_start_reachable)
  show "system_step (demo_alternating n) (demo_alternating (Suc n))" for n by (simp add: sys_drain sys_sidecar)
  show "\<exists>m \<ge> n. \<exists>me. demo_alternating (Suc m) = sidecar_turn me (demo_alternating m)" for n
    by (rule exI [of _ "2 * n + 1"]) auto
  show "\<exists>m \<ge> n. \<exists>ok. demo_alternating (Suc m) = drain_intel ok (demo_alternating m)" for n
    by (rule exI [of _ "2 * n"]) auto
  show "c2_attribute (185, 220, 101, 1) \<in> set (heard (demo_alternating 0))"
    by (simp add: hears_effect system_start_def)
qed (simp_all add: c2_attribute_def parse_show_ipv4)

end
