(* ===== verification/Agent_Refinement.thy ===== *)
theory Agent_Refinement
  imports Intel_Flow
begin

text \<open>
  What the agent promises, as a machine of its own, and that the running agent implements it.
  The promise speaks of records, verdicts, orders and barred addresses only; queues, channels,
  logs, commands and the maps that hold them are gone. The locale \<open>simulation\<close> carries what
  holds of the promise over to the agent: nothing is barred that was not reported, and the
  traps armed at startup stay armed.
\<close>

section \<open>Simulation\<close>

locale simulation =
  fixes start :: "'s \<Rightarrow> bool" and step :: "'s \<Rightarrow> 's \<Rightarrow> bool"
    and spec_start :: "'a \<Rightarrow> bool" and spec_step :: "'a \<Rightarrow> 'a \<Rightarrow> bool"
    and view :: "'s \<Rightarrow> 'a" and inv :: "'s \<Rightarrow> bool"
  assumes starts: "start s \<Longrightarrow> inv s \<and> spec_start (view s)"
    and keeps: "step s s' \<Longrightarrow> inv s \<Longrightarrow> inv s'"
    and simulates: "step s s' \<Longrightarrow> inv s \<Longrightarrow> view s' = view s \<or> spec_step (view s) (view s')"
begin

lemma run_simulated: "step\<^sup>*\<^sup>* s s' \<Longrightarrow> inv s \<Longrightarrow> inv s' \<and> spec_step\<^sup>*\<^sup>* (view s) (view s')"
proof (induction rule: rtranclp_induct)
  case (step t u)
  then have "inv t" "spec_step\<^sup>*\<^sup>* (view s) (view t)" by simp_all
  with simulates [OF step.hyps(2)] keeps [OF step.hyps(2)] show ?case
    by (metis rtranclp.rtrancl_into_rtrancl)
qed simp

lemma carries_over:
  assumes "\<And>a. spec_start a \<Longrightarrow> P a" and "\<And>a a'. spec_step a a' \<Longrightarrow> P a \<Longrightarrow> P a'"
    and "start s" and "step\<^sup>*\<^sup>* s s'"
  shows "P (view s')"
proof -
  have along: "spec_step\<^sup>*\<^sup>* a a' \<Longrightarrow> P a \<Longrightarrow> P a'" for a a'
    by (induction rule: rtranclp_induct) (auto intro: assms(2))
  show ?thesis using starts [OF assms(3)] run_simulated [OF assms(4)] assms(1) along by blast
qed

end

section \<open>The promise\<close>

text \<open>
  All records the kernel raised and how many were judged; all orders and how many were
  carried out; all reported addresses, how many were dealt with, and those barred; whether
  the agent is disarmed; the traps.
\<close>

record protection =
  raised :: "byte list list"
  judged :: nat
  disarmed :: bool
  ordered :: "u32 list"
  carried_out :: nat
  reports :: "u32 list"
  dealt_with :: nat
  barred :: "u32 set"
  traps :: "(u64 \<rightharpoonup> byte) \<times> (u32 \<rightharpoonup> byte) \<times> (u32 \<rightharpoonup> u32)"

definition fresh :: "protection \<Rightarrow> bool" where
  "fresh a \<longleftrightarrow> judged a = 0 \<and> ordered a = [] \<and> carried_out a = 0 \<and> reports a = [] \<and>
     dealt_with a = 0 \<and> barred a = {} \<and> \<not> disarmed a"

text \<open>The process a record accuses, and whether the record is a trap.\<close>

definition accused :: "byte list \<Rightarrow> u32" where
  "accused r = e_pid (decode_event r)"

definition is_trap :: "byte list \<Rightarrow> bool" where
  "is_trap r \<longleftrightarrow> name_of (e_filename (decode_event r)) \<in> fst ` set trap_table"

text \<open>
  A verdict is the number of orders against the accused: none while disarmed, at least one
  for a trap when there is room, never more than four, and never more than fit.
\<close>

definition open_orders :: "protection \<Rightarrow> nat" where
  "open_orders a = length (ordered a) - carried_out a"

definition verdict :: "protection \<Rightarrow> nat \<Rightarrow> bool" where
  "verdict a n \<longleftrightarrow> n \<le> 4 \<and> (n = 0 \<or> open_orders a + n \<le> 1000) \<and> (disarmed a \<longrightarrow> n = 0) \<and>
     (\<not> disarmed a \<and> is_trap (raised a ! judged a) \<and> open_orders a < 1000 \<longrightarrow> 0 < n)"

inductive protect :: "protection \<Rightarrow> protection \<Rightarrow> bool" where
  raise: "length r = 284 \<Longrightarrow> protect a (a\<lparr>raised := raised a @ [r]\<rparr>)"
| judge: "judged a < length (raised a) \<Longrightarrow> verdict a n \<Longrightarrow> protect a (a\<lparr>judged := Suc (judged a),
    ordered := ordered a @ replicate n (accused (raised a ! judged a))\<rparr>)"
| carry_out: "carried_out a < length (ordered a) \<Longrightarrow> protect a (a\<lparr>carried_out := Suc (carried_out a)\<rparr>)"
| switch: "protect a (a\<lparr>disarmed := b\<rparr>)"
| hear: "length (reports a) - dealt_with a < 100 \<Longrightarrow> protect a (a\<lparr>reports := reports a @ [ip]\<rparr>)"
| bar: "A \<subseteq> set (drop (dealt_with a) (reports a)) \<Longrightarrow>
    protect a (a\<lparr>dealt_with := length (reports a), barred := barred a \<union> A\<rparr>)"

text \<open>What the promise implies.\<close>

definition kept :: "protection \<Rightarrow> bool" where
  "kept a \<longleftrightarrow> judged a \<le> length (raised a) \<and>
     set (ordered a) \<subseteq> accused ` set (take (judged a) (raised a)) \<and>
     carried_out a \<le> length (ordered a) \<and> open_orders a \<le> 1000 \<and>
     dealt_with a \<le> length (reports a) \<and> barred a \<subseteq> set (take (dealt_with a) (reports a))"

lemma fresh_kept: "fresh a \<Longrightarrow> kept a"
  by (simp add: fresh_def kept_def open_orders_def)

lemma protect_kept: "protect a a' \<Longrightarrow> kept a \<Longrightarrow> kept a'"
proof (induction rule: protect.induct)
  case (raise r a)
  then show ?case by (auto simp: kept_def open_orders_def)
next
  case (judge a n)
  then show ?case
    by (auto simp: kept_def verdict_def open_orders_def take_Suc_conv_app_nth set_replicate_conv_if
        split: if_splits)
next
  case (bar A a)
  then have "set (drop (dealt_with a) (reports a)) \<subseteq> set (reports a)"
    "set (take (dealt_with a) (reports a)) \<subseteq> set (reports a)" by (simp_all add: set_drop_subset set_take_subset)
  with bar show ?case by (auto simp: kept_def open_orders_def)
qed (auto simp: kept_def open_orders_def)

lemma protect_traps: "protect a a' \<Longrightarrow> traps a' = traps a"
  by (induction rule: protect.induct) simp_all

lemma protect_run_traps: "protect\<^sup>*\<^sup>* a a' \<Longrightarrow> traps a' = traps a"
  by (induction rule: rtranclp_induct) (simp_all add: protect_traps)

section \<open>The agent's side of it\<close>

definition view :: "agent_system \<Rightarrow> protection" where
  "view s = \<lparr>raised = events (sensor s), judged = events_polled s, disarmed = research s,
     ordered = orders s, carried_out = length (answered s),
     reports = drained s @ intel_channel s, dealt_with = length (drained s),
     barred = dom (c2_blocklist (sensor s)),
     traps = (honeytokens (sensor s), ghost_pids (sensor s), agent_pid (sensor s))\<rparr>"

lemma view_open [simp]: "open_orders (view s) = length (responder_queue (agent s))"
  by (simp add: view_def open_orders_def orders_def)

text \<open>The trap table names no message twice, so one record matches at most one entry.\<close>

lemma traps_once:
  "distinct (map fst ts) \<Longrightarrow>
     length (responder_queue (foldl (\<lambda>a t. trap_trigger ce pid f t a) a ts)) \<le> Suc (length (responder_queue a))"
proof (induction ts arbitrary: a)
  case (Cons t ts)
  show ?case
  proof (cases "f = fst t")
    case True
    with Cons.prems have "f \<notin> fst ` set ts" by auto
    then show ?thesis using trigger_lengths(1) [of ce pid f t a] by (simp add: traps_no_match)
  next
    case False
    with Cons.prems have "distinct (map fst ts)" by simp
    with False show ?thesis using Cons.IH [of a] by (simp add: trap_trigger_def)
  qed
qed simp

lemma trap_keeps_length: "length (responder_queue a) \<le> length (responder_queue (trap_trigger ce pid f t a))"
  using trap.queue_step [of ce pid f t a] by auto

lemma traps_keep_length:
  "length (responder_queue a) \<le> length (responder_queue (foldl (\<lambda>a t. trap_trigger ce pid f t a) a ts))"
proof (induction ts rule: rev_induct)
  case (snoc t ts)
  then show ?case using trap_keeps_length [of _ ce pid f t] by (simp add: le_trans)
qed simp

lemma traps_grow:
  "f \<in> fst ` set ts \<Longrightarrow> length (responder_queue a) < QUEUE_CAPACITY \<Longrightarrow>
     length (responder_queue a) < length (responder_queue (foldl (\<lambda>a t. trap_trigger ce pid f t a) a ts))"
proof (induction ts arbitrary: a)
  case (Cons t ts)
  show ?case
  proof (cases "f = fst t")
    case True
    then have "length (responder_queue a) < length (responder_queue (trap_trigger ce pid f t a))"
      using Cons.prems(2) by (simp add: trap_trigger_def dispatch_def try_send_def)
    then show ?thesis using traps_keep_length [of "trap_trigger ce pid f t a" ce pid f ts] by simp
  next
    case False
    with Cons show ?thesis by (auto simp: trap_trigger_def)
  qed
qed simp

text \<open>The later triggers never shorten the queue and add at most one order each.\<close>

lemma triggers_length:
  "length (responder_queue a) \<le> length (responder_queue (ransomware_trigger ce p c f
     (heuristic_trigger ce p c f (yara_trigger ce p a))))"
  "length (responder_queue (ransomware_trigger ce p c f (heuristic_trigger ce p c f (yara_trigger ce p a))))
     \<le> length (responder_queue a) + 3"
proof -
  let ?y = "yara_trigger ce p a" and ?h = "heuristic_trigger ce p c f (yara_trigger ce p a)"
  let ?r = "ransomware_trigger ce p c f (heuristic_trigger ce p c f (yara_trigger ce p a))"
  have "length (responder_queue a) \<le> length (responder_queue ?y)"
    "length (responder_queue ?y) \<le> length (responder_queue ?h)"
    "length (responder_queue ?h) \<le> length (responder_queue ?r)"
    using yara.queue_step [of ce p a] heuristic.queue_step [of ce p c f ?y] ransomware.queue_step [of ce p c f ?h]
    by auto
  then show "length (responder_queue a) \<le> length (responder_queue ?r)" by linarith
  have "length (responder_queue ?y) \<le> Suc (length (responder_queue a))"
    "length (responder_queue ?h) \<le> Suc (length (responder_queue ?y))"
    "length (responder_queue ?r) \<le> Suc (length (responder_queue ?h))"
    by (simp_all only: trigger_lengths)
  then show "length (responder_queue ?r) \<le> length (responder_queue a) + 3" by linarith
qed

lemma callback_verdict:
  assumes "length data = 284" and "length (responder_queue a) \<le> QUEUE_CAPACITY"
  shows "\<exists>n. responder_queue (handle_event ce data a) = responder_queue a @ replicate n (accused data) \<and>
    n \<le> 4 \<and> length (responder_queue a) + n \<le> 1000 \<and> (research_mode ce \<longrightarrow> n = 0) \<and>
    (\<not> research_mode ce \<and> is_trap data \<and> length (responder_queue a) < 1000 \<longrightarrow> 0 < n)"
proof (cases "research_mode ce")
  case True
  then show ?thesis
    using assms(2) by (intro exI [of _ 0]) (simp add: handle_event_def QUEUE_CAPACITY_def)
next
  case False
  let ?e = "decode_event data"
  let ?p = "e_pid ?e" and ?c = "name_of (e_comm ?e)" and ?f = "name_of (e_filename ?e)"
  define a1 where "a1 = log_event ce ?e ?c ?f a"
  define a2 where "a2 = foldl (\<lambda>a t. trap_trigger ce ?p ?f t a) a1 trap_table"
  let ?a5 = "ransomware_trigger ce ?p ?c ?f (heuristic_trigger ce ?p ?c ?f (yara_trigger ce ?p a2))"
  have run: "handle_event ce data a = ?a5"
    using False assms(1) by (simp add: handle_event_def lay_rust_Event Let_def name_of_def a1_def a2_def)
  have same: "responder_queue a1 = responder_queue a" by (simp add: a1_def)
  obtain n where q: "responder_queue (handle_event ce data a) = responder_queue a @ replicate n (accused data)"
  proof -
    obtain f where "trigger f" "\<forall>a. handle_event ce data a = f ?p a"
      using handle_event_trigger by blast
    then show ?thesis using trigger.queue_step that by (metis accused_def)
  qed
  note rest = triggers_length [where a = a2 and ce = ce and p = ?p and c = ?c and f = ?f]
  have "distinct (map fst trap_table)" by (simp add: trap_table_def)
  then have "length (responder_queue a2) \<le> Suc (length (responder_queue a))"
    using traps_once [of trap_table ce ?p ?f a1] by (simp add: a2_def same)
  with rest(2) have few: "n \<le> 4" using q by (simp add: run)
  have fits: "length (responder_queue a) + n \<le> 1000"
    using handle_event_cap [OF assms(2), of ce data] by (simp add: q QUEUE_CAPACITY_def)
  have "0 < n" if "is_trap data" "length (responder_queue a) < 1000"
  proof -
    have "length (responder_queue a) < length (responder_queue a2)"
      using traps_grow [of ?f trap_table a1 ce ?p] that
      by (simp add: a2_def same is_trap_def QUEUE_CAPACITY_def)
    with rest(1) q show ?thesis by (simp add: run)
  qed
  with q few fits False show ?thesis by blast
qed

lemma drain_dom:
  "dom (c2_blocklist (drain_blocklist ok ips s)) = dom (c2_blocklist s) \<union> {ip \<in> set ips. ok ip}"
  by (induction ok ips s rule: drain_blocklist.induct) (auto split: if_splits)

lemma drain_traps [simp]:
  "honeytokens (drain_blocklist ok ips s) = honeytokens s" "ghost_pids (drain_blocklist ok ips s) = ghost_pids s"
  "agent_pid (drain_blocklist ok ips s) = agent_pid s"
  by (induction ok ips s rule: drain_blocklist.induct) simp_all

text \<open>What the simulation rests on, and the modes the handlers leave alone.\<close>

definition good_system :: "agent_system \<Rightarrow> bool" where
  "good_system s \<longleftrightarrow> system_inv s \<and> (\<forall>r \<in> set (events (sensor s)). length r = 284)"

lemma research_simps [simp]:
  "research (poll_event ce s) = research s" "research (poll_tls env s) = research s"
  "research (run_analysis ke h i s) = research s" "research (run_cleanup os i s) = research s"
  "research (run_backup os t s) = research s" "research (sidecar_turn me s) = research s"
  "research (control_request stamp e env path data s) = research s"
  "research (drain_intel ok s) = research s" "research (run_monitor x s) = x"
  by (simp_all add: poll_event_def poll_tls_def run_analysis_def run_cleanup_def run_backup_def sidecar_turn_def control_request_def
      drain_intel_def run_monitor_def monitor_pass_def Let_def split: prod.split)

lemma research_daemon: "run_daemon ke h s = Some s' \<Longrightarrow> research s' = research s"
  by (auto simp: run_daemon_def)

lemma good_step:
  assumes "system_step s s'" and "good_system s"
  shows "good_system s'"
proof -
  have "system_inv s'" using assms system_step_inv by (simp add: good_system_def)
  moreover have "\<forall>r \<in> set (events (sensor s')). length r = 284"
    using assms length_event_bytes
    by (elim system_stepE)
      (auto simp: good_system_def handler_simps lay_struct_event dest!: program_step_events)
  ultimately show ?thesis by (simp add: good_system_def)
qed

lemma good_start: "reachable s \<Longrightarrow> good_system (started w s)"
  using reachable_inv [of s] system_inv_start [of w s]
  by (simp add: good_system_def started_def system_start_def sensor_inv_def rings_ok_def lay_struct_event)

text \<open>Each step, seen from the promise.\<close>

lemma view_same:
  assumes "sensor s' = sensor s" "events_polled s' = events_polled s" "research s' = research s"
    "map fst (answered s') = map fst (answered s)" "responder_queue (agent s') = responder_queue (agent s)"
    "drained s' = drained s" "intel_channel s' = intel_channel s"
  shows "view s' = view s"
  using assms map_eq_imp_length_eq [OF assms(4)] by (simp add: view_def orders_def)

lemma view_program:
  assumes "program_step (sensor s) t"
  shows "view (s\<lparr>sensor := t\<rparr>) = view s \<or> protect (view s) (view (s\<lparr>sensor := t\<rparr>))"
proof -
  have conf: "c2_blocklist t = c2_blocklist (sensor s)" "honeytokens t = honeytokens (sensor s)"
    "ghost_pids t = ghost_pids (sensor s)" "agent_pid t = agent_pid (sensor s)"
    using program_step_config [OF assms] by (simp_all add: config_def)
  from program_step_events [OF assms] show ?thesis
  proof
    assume "events t = events (sensor s)"
    with conf show ?thesis by (simp add: view_def orders_def)
  next
    assume "\<exists>e. wf_event e \<and> events t = events (sensor s) @ [event_bytes e]"
    then obtain e where e: "wf_event e" "events t = events (sensor s) @ [event_bytes e]" by blast
    then have "view (s\<lparr>sensor := t\<rparr>) = (view s)\<lparr>raised := raised (view s) @ [event_bytes e]\<rparr>"
      using conf by (simp add: view_def orders_def)
    with raise [of "event_bytes e" "view s"] e(1) show ?thesis
      by (simp add: length_event_bytes lay_struct_event)
  qed
qed

lemma view_poll:
  assumes "good_system s" and "events_polled s < length (events (sensor s))"
  shows "protect (view s) (view (poll_event ce s))"
proof -
  let ?r = "events (sensor s) ! events_polled s"
  have r: "length ?r = 284" and cap: "length (responder_queue (agent s)) \<le> QUEUE_CAPACITY"
    using assms by (simp_all add: good_system_def system_inv_def)
  obtain n where n: "responder_queue (handle_event (ce\<lparr>research_mode := research s\<rparr>) ?r (agent s)) =
      responder_queue (agent s) @ replicate n (accused ?r)"
    "n \<le> 4" "length (responder_queue (agent s)) + n \<le> 1000" "research s \<longrightarrow> n = 0"
    "\<not> research s \<and> is_trap ?r \<and> length (responder_queue (agent s)) < 1000 \<longrightarrow> 0 < n"
    using callback_verdict [OF r cap, of "ce\<lparr>research_mode := research s\<rparr>"] by auto
  have "verdict (view s) n"
    using n unfolding verdict_def view_open by (auto simp: view_def)
  moreover have "view (poll_event ce s) = (view s)\<lparr>judged := Suc (judged (view s)),
      ordered := ordered (view s) @ replicate n (accused (raised (view s) ! judged (view s)))\<rparr>"
    using n(1) by (simp add: view_def orders_def poll_event_def)
  ultimately show ?thesis using judge [of "view s" n] assms(2) by (simp add: view_def)
qed

lemma view_receive: "view (receive re s) = view s \<or> protect (view s) (view (receive re s))"
proof (cases "responder_queue (agent s)")
  case Nil
  then show ?thesis by (simp add: receive_def)
next
  case (Cons p rest)
  then have "view (receive re s) = (view s)\<lparr>carried_out := Suc (carried_out (view s))\<rparr>"
    by (simp add: receive_def view_def orders_def split: prod.split)
  moreover have "carried_out (view s) < length (ordered (view s))"
    using Cons by (simp add: view_def orders_def)
  ultimately show ?thesis using carry_out by simp
qed

lemma view_monitor: "protect (view s) (view (run_monitor x s))"
proof -
  have "view (run_monitor x s) = (view s)\<lparr>disarmed := x\<rparr>"
    by (simp add: view_def orders_def handler_simps)
  then show ?thesis using switch by simp
qed

lemma view_sidecar: "view (sidecar_turn me s) = view s \<or> protect (view s) (view (sidecar_turn me s))"
  using turn_channel [of me s]
proof
  assume "intel_channel (sidecar_turn me s) = intel_channel s"
  then show ?thesis by (intro disjI1 view_same) (simp_all add: handler_simps)
next
  assume "\<exists>ip. intel_channel (sidecar_turn me s) = intel_channel s @ [ip] \<and> length (intel_channel s) < INTEL_CAPACITY"
  then obtain ip where ip: "intel_channel (sidecar_turn me s) = intel_channel s @ [ip]"
    "length (intel_channel s) < INTEL_CAPACITY" by blast
  then have "view (sidecar_turn me s) = (view s)\<lparr>reports := reports (view s) @ [ip]\<rparr>"
    by (simp add: view_def orders_def handler_simps)
  then show ?thesis using hear [of "view s" ip] ip(2) by (simp add: view_def INTEL_CAPACITY_def)
qed

lemma view_drain: "protect (view s) (view (drain_intel ok s))"
proof -
  let ?A = "{ip \<in> set (intel_channel s). ok ip}"
  have "view (drain_intel ok s) = (view s)\<lparr>dealt_with := length (reports (view s)), barred := barred (view s) \<union> ?A\<rparr>"
    by (simp add: drain_intel_def view_def orders_def drain_dom)
  then show ?thesis using bar [of ?A "view s"] by (auto simp: view_def)
qed

lemma step_view:
  assumes "system_step s s'" and "good_system s"
  shows "view s' = view s \<or> protect (view s) (view s')"
  using assms(1)
proof (elim system_stepE)
  fix ke h assume "run_daemon ke h s = Some s'"
  then show ?thesis by (auto intro!: view_same simp: handler_simps research_daemon)
qed (use assms(2) in \<open>auto intro: view_poll view_monitor view_drain
      simp: view_program view_receive view_sidecar intro!: view_same simp: handler_simps\<close>)

section \<open>The agent implements its promise\<close>

definition booted :: "agent_system \<Rightarrow> bool" where
  "booted s \<longleftrightarrow> (\<exists>se t w. startup (setup_stages se) bpf_init t \<and> s = started w t)"

lemma reachable_run: "system_reachable s \<longleftrightarrow> (\<exists>s0. booted s0 \<and> system_step\<^sup>*\<^sup>* s0 s)"
proof
  assume "system_reachable s"
  then show "\<exists>s0. booted s0 \<and> system_step\<^sup>*\<^sup>* s0 s"
    by (induction rule: system_reachable.induct)
      (auto simp: booted_def intro: rtranclp.rtrancl_into_rtrancl)
next
  have "system_step\<^sup>*\<^sup>* s0 s \<Longrightarrow> booted s0 \<Longrightarrow> system_reachable s" for s0
    by (induction rule: rtranclp_induct) (auto simp: booted_def intro: sys_start sys_more)
  then show "\<exists>s0. booted s0 \<and> system_step\<^sup>*\<^sup>* s0 s \<Longrightarrow> system_reachable s" by blast
qed

lemma booted_good:
  assumes "booted s"
  shows "good_system s \<and> fresh (view s)"
proof -
  obtain se t w where t: "startup (setup_stages se) bpf_init t" "s = started w t"
    using assms by (auto simp: booted_def)
  obtain t' where t': "agent_setup se bpf_init = Inr t'" "config t = config t'" using startup_setup [OF t(1)] .
  have "good_system s" using startup_reachable [OF t(1) setup_map_stages reach_init] by (simp add: t(2) good_start)
  moreover have "c2_blocklist t = Map.empty"
    using setup_keeps [OF t'(1)] t'(2) by (simp add: config_def bpf_init_def)
  ultimately show ?thesis by (simp add: t(2) fresh_def view_def started_def system_start_def orders_def)
qed

interpretation promise: simulation booted system_step fresh protect view good_system
  by unfold_locales (auto dest: booted_good good_step step_view)

lemma view_kept: "system_reachable s \<Longrightarrow> kept (view s)"
  using promise.carries_over [of kept, OF fresh_kept protect_kept] by (auto simp: reachable_run)

text \<open>
  C2. The running agent refines its promise: every state it can reach after a startup shows
  a state the promise allows, and every further step, of whatever task, is a step of the
  promise or does not show. So records are judged once each and in order, a trap leads to an
  order against the process it accuses unless the agent is disarmed or 1000 orders are open,
  a disarmed agent gives no order, orders are carried out one by one, and only reported
  addresses are barred.
\<close>

theorem agent_refines_promise:
  assumes "system_reachable s"
  shows "(\<exists>a. fresh a \<and> protect\<^sup>*\<^sup>* a (view s)) \<and> kept (view s) \<and>
    (\<forall>s'. system_step s s' \<longrightarrow> view s' = view s \<or> protect (view s) (view s'))"
proof -
  obtain s0 where s0: "booted s0" "system_step\<^sup>*\<^sup>* s0 s" using assms reachable_run by blast
  with promise.starts [OF s0(1)] promise.run_simulated [OF s0(2)] step_view view_kept [OF assms]
  show ?thesis by blast
qed

theorem agent_refines_promise_witness:
  "kept (view (system_start demo_armed)) \<and>
   protect (view (system_start demo_armed)) (view (run_monitor True (system_start demo_armed)))"
proof -
  have "view (run_monitor True (system_start demo_armed)) \<noteq> view (system_start demo_armed)"
    by (simp add: view_def run_monitor_def monitor_pass_def system_start_def)
  with agent_refines_promise [OF demo_start_reachable] sys_monitor show ?thesis by blast
qed

section \<open>From a reply to a dropped packet\<close>

lemma address_bytes:
  assumes "address_of at = Some (u32_of bs)" and "length bs = 4"
  shows "\<exists>a b c d. attr_type at = ''ip-dst'' \<and> parse_ipv4 (attr_value at) = Some (a, b, c, d) \<and> bs = [a, b, c, d]"
proof -
  obtain a b c d where ip: "ip_of at = Some (a, b, c, d)" "to_be (u32_from (a, b, c, d)) = u32_of bs"
    using assms(1) by (auto simp: address_of_def)
  then have "bs = [a, b, c, d]" using to_be_bytes [of a b c d] assms(2) by (simp add: u32_bytes_of)
  with ip(1) show ?thesis by (auto simp: ip_of_def split: if_splits)
qed

text \<open>
  C8. The packet filter drops nothing MISP did not name: when a packet is dropped in any state the
  running agent can reach, the agent has taken its destination from the sidecar's channel, and
  a reply of MISP held a destination attribute whose text parses to the very four bytes the
  packet has as its destination.
\<close>

theorem dropped_only_if_reported:
  assumes "system_reachable s" and "wf_kenv k"
    and "xdp_c2_inspector k pkt (sensor s) = Some (XDP_DROP, t)"
  shows "u32_of (slice 30 4 pkt) \<in> set (drained s) \<and>
    (\<exists>at \<in> set (heard s). \<exists>a b c d. attr_type at = ''ip-dst'' \<and>
       parse_ipv4 (attr_value at) = Some (a, b, c, d) \<and> slice 30 4 pkt = [a, b, c, d])"
proof -
  have drop: "c2_blocklist (sensor s) (u32_of (slice 30 4 pkt)) = Some 1" "34 \<le> length pkt"
    using assms(3) unfolding xdp_eq_spec [OF assms(2)]
    by (auto simp: xdp_spec_def blocked_def ipv4_dst_def split: if_splits)
  then have "u32_of (slice 30 4 pkt) \<in> barred (view s)" by (auto simp: view_def)
  with view_kept [OF assms(1)] have taken: "u32_of (slice 30 4 pkt) \<in> set (drained s)"
    by (auto simp: kept_def view_def)
  then obtain at where at: "at \<in> set (heard s)" "address_of at = Some (u32_of (slice 30 4 pkt))"
    using flow_addresses [OF assms(1)] unfolding set_append by blast
  have "length (slice 30 4 pkt) = 4" using drop(2) by simp
  with at taken address_bytes [OF at(2)] show ?thesis by blast
qed

definition intel_state :: agent_system where
  "intel_state = drain_intel (\<lambda>ip. True) (hears (185, 220, 101, 1) (system_start demo_armed))"

theorem dropped_only_if_reported_witness:
  "u32_of (slice 30 4 c2_packet) \<in> set (drained intel_state)"
proof (rule dropped_only_if_reported [THEN conjunct1])
  have start: "sidecar (system_start demo_armed) = Asleep" "intel_channel (system_start demo_armed) = []"
    by (simp_all add: system_start_def)
  show "system_reachable intel_state"
    unfolding intel_state_def by (intro sys_more [OF _ sys_drain] hears_reachable demo_start_reachable)
  show k: "wf_kenv (run_by 1 0 ''x'')" by (rule wf_run_by)
  have "to_be (u32_from (185, 220, 101, 1)) = u32_of [185, 220, 101, 1]"
    using to_be_bytes by (metis u32_of_bytes)
  then have "blocked (sensor intel_state) c2_packet"
    by (simp add: intel_state_def handler_simps hears_effect [OF start] blocked_def
        c2_packet_def ipv4_dst_def slice_def)
  then show "xdp_c2_inspector (run_by 1 0 ''x'') c2_packet (sensor intel_state) = Some (XDP_DROP, sensor intel_state)"
    by (simp add: xdp_eq_spec [OF k] xdp_spec_def)
qed

lemma started_traps:
  assumes "startup (setup_stages se) bpf_init t" and "system_step\<^sup>*\<^sup>* (started w t) s"
  shows "honeytokens (sensor s) = honeytokens t" and "ghost_pids (sensor s) = ghost_pids t"
    and "agent_pid (sensor s) = agent_pid t"
proof -
  have b: "booted (started w t)" using assms(1) by (auto simp: booted_def)
  have "traps (view s) = traps (view (started w t))"
    using promise.run_simulated [OF assms(2)] booted_good [OF b] protect_run_traps by blast
  then show "honeytokens (sensor s) = honeytokens t" "ghost_pids (sensor s) = ghost_pids t"
    "agent_pid (sensor s) = agent_pid t" by (simp_all add: view_def started_def system_start_def)
qed

text \<open>
  C14. What the startup armed stays armed: whatever the agent, the kernel programs and the
  other processes do afterwards, honeytokens, decoys and the registration of the agent are
  those of the startup, and a signal to the agent's process stops the sender.
\<close>

theorem traps_stay_armed:
  assumes "startup (setup_stages se) bpf_init t" and "system_step\<^sup>*\<^sup>* (started w t) s"
  shows "honeytokens (sensor s) = honeytokens t \<and> ghost_pids (sensor s) = ghost_pids t \<and>
    agent_pid (sensor s) 0 = Some (process_id se) \<and>
    (lo32 (se_args ctx ! 0) = process_id se \<longrightarrow>
       signals (handle_kill k ctx (sensor s)) = signals (sensor s) @ [(cur_pid k, SIGSTOP)])"
proof -
  note same = started_traps [OF assms]
  obtain t' where "agent_setup se bpf_init = Inr t'" "config t = config t'" using startup_setup [OF assms(1)] .
  then have "agent_pid t 0 = Some (process_id se)" using setup_registers by (simp add: config_def)
  with same show ?thesis by (auto simp: handle_kill_def Let_def)
qed

theorem traps_stay_armed_witness:
  "signals (handle_kill (run_by 66 1000 ''evil'') \<lparr>se_id = 62, se_args = [1234, 9]\<rparr>
     (sensor (run_monitor True (system_start demo_armed)))) = [(66, SIGSTOP)]"
proof -
  obtain t where t: "agent_setup demo_setup bpf_init = Inr t"
    by (simp add: agent_setup_def register_agent_def deploy_honeytoken_def Let_def demo_setup_def
        aws_cred_path_def kube_cred_path_def)
  then have armed: "demo_armed = t" by (simp add: demo_armed_def)
  have "system_step\<^sup>*\<^sup>* (system_start t) (run_monitor True (system_start t))" using sys_monitor by blast
  from traps_stay_armed [OF setup_startup [OF t] this [unfolded system_start_started], of "\<lparr>se_id = 62, se_args = [1234, 9]\<rparr>" "run_by 66 1000 ''evil''"]
  show ?thesis
    using setup_keeps [OF t] by (simp add: armed handler_simps started_def system_start_def demo_setup_def lo32_def bpf_init_def)
qed

end
