(* ===== verification/Service_Life.thy ===== *)
theory Service_Life
  imports Deployment Task_Properties Agent_Refinement
begin

text \<open>
  The agent as a service: what its description lets it do, and its lives one after the other,
  since it is started again whenever it ends. A life begins with the log the one before has
  left and with nothing else: the kernel frees the maps and programs of a process that ends,
  and its queues and tasks are gone.
\<close>

section \<open>What the service may stop\<close>

text \<open>
  The kernel's rule (\<open>kill(2)\<close>): a process may signal another if it holds \<open>CAP_KILL\<close>, or if its real
  or effective user is the other's real or saved user. Both services run as root.
\<close>

definition signal_allowed :: "bool \<Rightarrow> u32 \<Rightarrow> u32 \<times> u32 \<Rightarrow> bool" where
  "signal_allowed cap_kill uid ids \<longleftrightarrow> cap_kill \<or> uid = fst ids \<or> uid = snd ids"

definition kernel_permits :: "string list \<Rightarrow> (u32 \<Rightarrow> u32 \<times> u32) \<Rightarrow> responder_env \<Rightarrow> bool" where
  "kernel_permits unit ids re \<longleftrightarrow>
     (\<forall>p. 0 < sint p \<and> kill_ok re p \<longrightarrow> signal_allowed (holds_cap unit ''CAP_KILL'') 0 (ids p))"

text \<open>
  The running agent under that rule; \<open>ids n\<close> are the users of all processes when the n-th order
  is carried out.
\<close>

inductive served :: "string list \<Rightarrow> (nat \<Rightarrow> u32 \<Rightarrow> u32 \<times> u32) \<Rightarrow> agent_system \<Rightarrow> bool"
  for unit :: "string list" and ids :: "nat \<Rightarrow> u32 \<Rightarrow> u32 \<times> u32" where
  served_start: "startup (setup_stages se) bpf_init s \<Longrightarrow> served unit ids (started w s)"
| served_order: "served unit ids s \<Longrightarrow> kernel_permits unit (ids (length (answered s))) re \<Longrightarrow>
    served unit ids (receive re s)"
| served_other: "served unit ids s \<Longrightarrow> system_step s s' \<Longrightarrow> answered s' = answered s \<Longrightarrow> served unit ids s'"

lemma served_reachable: "served unit ids s \<Longrightarrow> system_reachable s"
  by (induction rule: served.induct) (auto intro: sys_start sys_more sys_receive)

lemma answered_grows: "system_step s s' \<Longrightarrow> answered s' = [] \<Longrightarrow> answered s = []"
proof (elim system_stepE)
  fix re assume "answered s' = []" "s' = receive re s"
  then show ?thesis by (cases rule: receive_spawns [of re s]) simp_all
qed (auto simp: handler_simps)

lemma unanswered_served: "system_reachable s \<Longrightarrow> answered s = [] \<Longrightarrow> served unit ids s"
proof (induction rule: system_reachable.induct)
  case (sys_more s s')
  with answered_grows served_other show ?case by metis
qed (rule served_start)

lemma nothing_to_do:
  assumes "system_reachable s" and "\<forall>x \<in> set (answered s). snd x = NotFrozen"
  shows "analyses s = [] \<and> analysed s = [] \<and> cleanups s = [] \<and> volumes_removed s = []"
proof -
  have "concat (map (analysis_of \<circ> snd) (answered s)) = []" "concat (map (cleanup_of \<circ> snd) (answered s)) = []"
    using assms(2) by auto
  with system_reachable_tasks [OF assms(1)] show ?thesis
    by (simp add: tasks_balanced_def spawned_analyses_def routed_volumes_def)
qed

lemma freed_was_removed:
  assumes "system_reachable s" and "free_cmd v \<in> set (log s)"
  shows "\<exists>sc. (v, sc) \<in> set (volumes_removed s) \<and> hotplug_cmd default_kp14 sc v \<in> set (log s)"
proof -
  obtain pre rest where split: "log s = pre @ free_cmd v # rest" using split_list [OF assms(2)] by blast
  then obtain sc where "(v, sc) \<in> set (volumes_removed s)" "hotplug_cmd default_kp14 sc v \<in> set pre"
    using system_reachable_tasks [OF assms(1)] unfolding removals_ordered_def frees_plugged_def by blast
  with split show ?thesis by auto
qed

definition of_root :: "u32 \<times> u32 \<Rightarrow> bool" where "of_root ids \<longleftrightarrow> fst ids = 0 \<or> snd ids = 0"

lemma receive_answers:
  "answered (receive re s) = answered s \<or>
   (\<exists>p. answered (receive re s) = answered s @ [(p, fst (respond re p (log s)))])"
  by (cases rule: receive_spawns [of re s]) (auto simp: prod_eq_iff)

lemma served_not_frozen:
  assumes "served unit ids s" and "\<not> holds_cap unit ''CAP_KILL''"
  shows "i < length (answered s) \<Longrightarrow> 0 < sint (fst (answered s ! i)) \<Longrightarrow> \<not> of_root (ids i (fst (answered s ! i))) \<Longrightarrow>
    snd (answered s ! i) = NotFrozen"
  using assms
proof (induction rule: served.induct)
  case (served_order s re)
  show ?case
  proof (cases "i < length (answered s)")
    case True
    with served_order receive_answers [of re s] show ?thesis by (auto simp: nth_append)
  next
    case False
    with served_order.prems obtain p where
      "answered (receive re s) = answered s @ [(p, fst (respond re p (log s)))]" "i = length (answered s)"
      using receive_answers [of re s] by auto
    with served_order show ?thesis
      by (auto simp: nth_append kernel_permits_def signal_allowed_def of_root_def respond_def)
  qed
qed (auto simp: started_def system_start_def)

text \<open>
  C11. As the service of \<open>systemd/alphvdr.service\<close> the responder stops no process but root's: its
  capabilities lack \<open>CAP_KILL\<close>, so in every state it can reach each order against a process of
  another user has failed at the first step; and as long as only such processes were accused
  nothing was carved, routed, analysed or removed. (The programs in the kernel, which stop
  the current process only, need no permission.) The service the installer writes has all
  capabilities.
\<close>

theorem service_cannot_freeze:
  assumes "served alphvdr_service ids s"
  shows "(\<forall>i < length (answered s). 0 < sint (fst (answered s ! i)) \<and> \<not> of_root (ids i (fst (answered s ! i))) \<longrightarrow>
      snd (answered s ! i) = NotFrozen) \<and>
    ((\<forall>i < length (answered s). 0 < sint (fst (answered s ! i)) \<and> \<not> of_root (ids i (fst (answered s ! i)))) \<longrightarrow>
      analyses s = [] \<and> analysed s = [] \<and> cleanups s = [] \<and> volumes_removed s = []) \<and>
    (\<forall>ids re. kernel_permits thermald_service ids re)"
proof -
  have frozen: "snd (answered s ! i) = NotFrozen"
    if "i < length (answered s)" "0 < sint (fst (answered s ! i))" "\<not> of_root (ids i (fst (answered s ! i)))" for i
    using served_not_frozen [OF assms service_caps(1)] that by blast
  have "analyses s = [] \<and> analysed s = [] \<and> cleanups s = [] \<and> volumes_removed s = []"
    if "\<forall>i < length (answered s). 0 < sint (fst (answered s ! i)) \<and> \<not> of_root (ids i (fst (answered s ! i)))"
    by (rule nothing_to_do [OF served_reachable [OF assms]])
      (use frozen that in \<open>metis in_set_conv_nth\<close>)
  with frozen service_caps(3) show ?thesis by (simp add: kernel_permits_def signal_allowed_def)
qed

text \<open>Process 42, of user 1000, signals the agent; the order against it fails.\<close>

definition refused_env :: responder_env where
  "refused_env = \<lparr>kill_ok = (\<lambda>p. False), proc_files = demo_proc, dump_files = demo_blob_env,
     blob_len_of = (\<lambda>p. Some 5000000), route_clock = Some 7, bridge_os = demo_os\<rparr>"

theorem service_cannot_freeze_witness:
  "\<exists>s. served alphvdr_service (\<lambda>n p. (1000, 1000)) s \<and> answered s = [(42, NotFrozen)] \<and> analyses s = []"
proof -
  obtain n s where s: "system_reachable s" "responder_queue (agent s) = replicate (Suc n) 42" "answered s = []"
    using demo_polled by metis
  let ?ids = "\<lambda>(n :: nat) (p :: u32). (1000 :: u32, 1000 :: u32)"
  let ?t = "receive refused_env s"
  have t: "answered ?t = [(42, NotFrozen)]"
    using s by (simp add: receive_def respond_def refused_env_def)
  have "served alphvdr_service ?ids ?t"
    by (intro served_order unanswered_served s) (simp add: kernel_permits_def refused_env_def)
  with t service_cannot_freeze [OF this] show ?thesis
    by (intro exI [of _ ?t]) (simp add: of_root_def)
qed

section \<open>One life after the other\<close>

text \<open>
  \<open>service unit past s\<close>: the lives that have ended, in their last states, and the state of the
  current one. A life may end between any two steps, killed or by an error of \<open>main\<close>.
\<close>

inductive service :: "string list \<Rightarrow> agent_system list \<Rightarrow> agent_system \<Rightarrow> bool" for unit :: "string list" where
  first_life: "startup (setup_stages se) bpf_init t \<Longrightarrow> service unit [] (started w t)"
| lives_on: "service unit past s \<Longrightarrow> system_step s s' \<Longrightarrow> service unit past s'"
| next_life: "service unit past s \<Longrightarrow> restarted unit \<Longrightarrow> startup (setup_stages se) bpf_init t \<Longrightarrow>
    service unit (past @ [s]) (started (wal (agent s)) t)"

lemma service_reachable: "service unit past s \<Longrightarrow> \<forall>x \<in> set (past @ [s]). system_reachable x"
  by (induction rule: service.induct) (auto intro: sys_start sys_more)

lemma reachable_service: "system_reachable s \<Longrightarrow> service unit [] s"
  by (induction rule: system_reachable.induct) (auto intro: first_life lives_on)

abbreviation entries :: "agent_system \<Rightarrow> string" where "entries s \<equiv> wal_content (wal (agent s))"

lemma intel_log_grows:
  "misp_wal m' = misp_wal m \<Longrightarrow>
     prefix (wal_content (misp_wal m)) (wal_content (misp_wal (log_intel me ty v src m')))"
  using wal.log_grows by (auto simp: log_intel_def insert_threat_intel_def prefix_def)

lemma sent_log_grows:
  "prefix (wal_content (misp_wal m)) (wal_content (misp_wal (log_intel me ty v src (m\<lparr>sent := xs\<rparr>))))"
  by (rule intel_log_grows) simp

lemma sync_log_grows: "prefix (wal_content (misp_wal m)) (wal_content (misp_wal (snd (sync_attributes me ats m))))"
  by (induction me ats m rule: sync_attributes.induct)
    (auto split: option.split intro: prefix_order.trans [OF intel_log_grows]
      prefix_order.trans [OF sent_log_grows])

lemma feed_log_grows: "prefix (wal_content (misp_wal m)) (wal_content (misp_wal (sync_feed me m)))"
proof -
  have "sync_feed me m = snd (misp_run me feed_cmd m) \<or>
      (\<exists>ty v src. sync_feed me m = log_intel me ty v src (snd (misp_run me feed_cmd m)))"
    by (cases "misp_run me feed_cmd m") (auto simp: sync_feed_def split: cmd_result.split bool.split)
  then show ?thesis using intel_log_grows [of "snd (misp_run me feed_cmd m)" m] by auto
qed

lemma turn_log_grows: "prefix (entries s) (entries (sidecar_turn me s))"
proof -
  have fetched: "misp_run me c (sidecar_view s) = (r, m) \<Longrightarrow> misp_wal m = wal (agent s)" for c r m
    using sent_misp_run(2) [of me c "sidecar_view s"] by simp
  have "prefix (entries s) (wal_content (misp_wal (fst (turn_outcome me s))))"
    using feed_log_grows [of "sidecar_view s" me] sync_log_grows [of "sidecar_view s"]
    by (auto simp: turn_outcome_def fetched simp del: sync_attributes.simps
        split: sidecar_phase.split prod.split cmd_result.split bool.split option.split list.split)
  then show ?thesis by (cases "turn_outcome me s") (simp add: sidecar_turn_def)
qed

lemma event_log_grows: "prefix (wal_content (wal a)) (wal_content (wal (handle_event ce data a)))"
proof -
  obtain f where f: "trigger f" "\<And>a. handle_event ce data a = f (e_pid (decode_event data)) a"
    using handle_event_trigger by blast
  show ?thesis unfolding f(2) using trigger.log_step [OF f(1)] by (auto simp: prefix_def)
qed

lemma quiet_logs [simp]:
  "wal (agent (receive re s)) = wal (agent s)" "wal (agent (run_analysis ke h i s)) = wal (agent s)"
  "wal (agent (run_cleanup os i s)) = wal (agent s)" "wal (agent (run_backup os t s)) = wal (agent s)"
  "wal (agent (run_monitor x s)) = wal (agent s)" "wal (agent (drain_intel ok s)) = wal (agent s)"
  by (simp_all add: receive_def run_analysis_def run_cleanup_def run_backup_def handler_simps Let_def
      split: list.split prod.split)

lemma step_log:
  assumes "system_step s s'"
  shows "prefix (entries s) (entries s')"
proof -
  have "prefix (entries s) (entries (poll_tls env s))" for env
    using wal.log_grows by (auto simp: poll_tls_def handle_tls_event_def insert_tls_telemetry_def Let_def prefix_def)
  moreover have "prefix (entries s) (entries (control_request stamp e env path data s))" for stamp e env path data
    using control_only_logs by (simp add: control_request_def)
  moreover have "run_daemon ke h s = Some s' \<Longrightarrow> entries s' = entries s" for ke h by (auto simp: run_daemon_def)
  ultimately show ?thesis
    using assms by (elim system_stepE) (auto simp: turn_log_grows poll_event_def event_log_grows)
qed

text \<open>
  C20. No entry of the log is lost by a restart: after any number of lives each life is one of an agent
  that starts as any other, so all that holds of reachable states holds in it, and what the
  log held when a life ended is the beginning of what it holds ever after.
\<close>

theorem log_survives_restarts:
  assumes "service unit past s"
  shows "(\<forall>x \<in> set (past @ [s]). system_reachable x) \<and>
    (\<forall>i j. i \<le> j \<longrightarrow> j < length (past @ [s]) \<longrightarrow> prefix (entries ((past @ [s]) ! i)) (entries ((past @ [s]) ! j)))"
proof -
  have "sorted_wrt (\<lambda>x y. prefix (entries x) (entries y)) (past @ [s])"
    using assms
  proof (induction rule: service.induct)
    case (lives_on past s s')
    then show ?case using step_log [of s s'] by (auto simp: sorted_wrt_append intro: prefix_order.trans)
  next
    case (next_life past s se t)
    then show ?case by (simp add: sorted_wrt_append started_def)
  qed simp
  then have "prefix (entries ((past @ [s]) ! i)) (entries ((past @ [s]) ! j))"
    if "i \<le> j" "j < length (past @ [s])" for i j
    using that by (cases "i = j") (auto simp: sorted_wrt_iff_nth_less)
  with service_reachable [OF assms] show ?thesis by blast
qed

text \<open>Two lives of the demonstration: one that ends while a volume waits to be removed, and its successor.\<close>

lemma demo_lives:
  assumes "restarted unit"
  obtains past s where "service unit [past] s" and "s = started (wal (agent past)) demo_armed"
    and "answered past = [(42, Routed (blob_name 42 7) (''local-lvm:'' @ volume_name 7) 10)]"
    and "cleanups past = [(''local-lvm:'' @ volume_name 7, 10)]"
proof -
  obtain t where t: "agent_setup demo_setup bpf_init = Inr t"
    by (simp add: agent_setup_def register_agent_def deploy_honeytoken_def Let_def demo_setup_def
        aws_cred_path_def kube_cred_path_def)
  then have up: "startup (setup_stages demo_setup) bpf_init demo_armed"
    by (simp add: demo_armed_def setup_startup)
  obtain s where s: "system_reachable s"
    "answered s = [(42, Routed (blob_name 42 7) (''local-lvm:'' @ volume_name 7) 10)]"
    "cleanups s = [(''local-lvm:'' @ volume_name 7, 10)]" by (rule demo_pending)
  show thesis
    using next_life [OF reachable_service [OF s(1)] assms up] s by (intro that [of s]) simp_all
qed

theorem log_survives_restarts_witness:
  "\<exists>p s. service alphvdr_service [p] s \<and> prefix (entries p) (entries s) \<and> answered s = [] \<and> answered p \<noteq> []"
proof -
  obtain p s where s: "service alphvdr_service [p] s" "s = started (wal (agent p)) demo_armed"
    "answered p = [(42, Routed (blob_name 42 7) (''local-lvm:'' @ volume_name 7) 10)]"
    using demo_lives [OF services_restarted(1)] by metis
  from log_survives_restarts [OF s(1)] have "prefix (entries ([p, s] ! 0)) (entries ([p, s] ! 1))"
    by (metis append.simps length_Cons lessI list.size(3) One_nat_def zero_le)
  with s show ?thesis by (intro exI [of _ p] exI [of _ s]) (simp add: started_def system_start_def)
qed

text \<open>A life begins with nothing but the log: no address is barred, no order or removal waits.\<close>

lemma life_begins_empty:
  assumes "startup (setup_stages se) bpf_init t"
  shows "dom (c2_blocklist (sensor (started w t))) = {} \<and> responder_queue (agent (started w t)) = [] \<and>
    cleanups (started w t) = [] \<and> analyses (started w t) = [] \<and> commands (agent (started w t)) = []"
proof -
  have "fresh (view (started w t))" using booted_good assms by (auto simp: booted_def)
  then have "barred (view (started w t)) = {}" by (simp add: fresh_def)
  then show ?thesis by (simp add: view_def started_def system_start_def)
qed

text \<open>
  C19. A restart leaves volumes behind: when a life ends while the removal of a volume it has routed, once,
  still waits for its five minutes, then no command of this or any later life frees the
  volume, unless a later one plugs in a volume of the same name.
\<close>

theorem restart_leaks_volumes:
  assumes "service unit past s" and "i < length past" and "(v, sc) \<in> set (cleanups (past ! i))"
    and "count (mset (map fst (concat (map (cleanup_of \<circ> snd) (answered (past ! i)))))) v = 1"
    and "\<And>j sc'. i < j \<Longrightarrow> j < length (past @ [s]) \<Longrightarrow>
      hotplug_cmd default_kp14 sc' v \<notin> set (commands (agent ((past @ [s]) ! j)))"
  shows "\<forall>j. i \<le> j \<and> j < length (past @ [s]) \<longrightarrow> free_cmd v \<notin> set (commands (agent ((past @ [s]) ! j)))"
proof (intro allI impI notI)
  fix j assume j: "i \<le> j \<and> j < length (past @ [s])" and freed: "free_cmd v \<in> set (commands (agent ((past @ [s]) ! j)))"
  then have reach: "system_reachable ((past @ [s]) ! j)"
    using service_reachable [OF assms(1)] nth_mem by blast
  from freed_was_removed [OF this freed] obtain sc' where sc':
    "(v, sc') \<in> set (volumes_removed ((past @ [s]) ! j))"
    "hotplug_cmd default_kp14 sc' v \<in> set (commands (agent ((past @ [s]) ! j)))" by blast
  show False
  proof (cases "i = j")
    case True
    let ?p = "past ! i"
    have p: "(past @ [s]) ! j = ?p" using True assms(2) by (simp add: nth_append)
    have "mset (volumes_removed ?p) + mset (cleanups ?p) = mset (routed_volumes ?p)"
      using system_reachable_tasks [OF reach] by (simp add: p tasks_balanced_def)
    then have "count (image_mset fst (mset (volumes_removed ?p) + mset (cleanups ?p))) v = 1"
      using assms(4) by (simp add: routed_volumes_def mset_map)
    moreover have "0 < count (image_mset fst (mset (volumes_removed ?p))) v"
      "0 < count (image_mset fst (mset (cleanups ?p))) v"
      using sc'(1) assms(3) by (force simp: p)+
    ultimately show False by simp
  next
    case False
    with j sc'(2) assms(5) show False by simp
  qed
qed

theorem restart_leaks_volumes_witness:
  "\<exists>p s. service alphvdr_service [p] s \<and>
     free_cmd (''local-lvm:'' @ volume_name 7) \<notin> set (commands (agent p)) \<union> set (commands (agent s))"
proof -
  let ?v = "''local-lvm:'' @ volume_name 7"
  obtain p s where s: "service alphvdr_service [p] s" "s = started (wal (agent p)) demo_armed"
    "answered p = [(42, Routed (blob_name 42 7) ?v 10)]" "cleanups p = [(?v, 10)]"
    using demo_lives [OF services_restarted(1)] by metis
  have later: "hotplug_cmd default_kp14 sc' ?v \<notin> set (commands (agent (([p] @ [s]) ! j)))"
    if "0 < j" "j < length ([p] @ [s])" for j sc'
  proof -
    have "j = 1" using that by simp
    then show ?thesis by (simp add: s(2) started_def system_start_def)
  qed
  have "free_cmd ?v \<notin> set (commands (agent (([p] @ [s]) ! j)))" if "j < 2" for j
    using restart_leaks_volumes [OF s(1), of 0 ?v 10] later s(3,4) that by simp
  from this [of 0] this [of 1] s(1) show ?thesis by auto
qed

end
