(* ===== verification/Kp14_Properties.thy ===== *)
theory Kp14_Properties
  imports Kp14_Client Ioc_Json
begin

text \<open>
  The properties of the KP14 client: waiting for a device and searching it end, what is
  searched is found, what is hunted and handed over, and in which state a run leaves the
  analysis machine.
\<close>

section \<open>New devices\<close>

text \<open>A device that was not there at first but is at the n-th reading.\<close>

definition appears :: "kp14_env \<Rightarrow> nat \<Rightarrow> string \<Rightarrow> bool" where
  "appears ke n d \<longleftrightarrow>
     (case (list_block_devices (dev_listing ke 0), list_block_devices (dev_listing ke n)) of
        (Some initial, Some current) \<Rightarrow> d \<in> set current \<and> d \<notin> set initial
      | _ \<Rightarrow> False)"

section \<open>An example\<close>

text \<open>
  An analysis machine where \<open>sdb\<close> is plugged in after the first reading of \<open>/dev\<close>, with one
  dump on it, whose commands all succeed.
\<close>

definition demo_view :: dir_view where
  "demo_view = \<lparr>read_dir = (\<lambda>p. Some [''lost+found'', ''core_dump_42_7.bin'']), is_dir = (\<lambda>p. False)\<rparr>"

definition demo_kp :: kp14_env where
  "demo_kp = \<lparr>kp_os = (\<lambda>tr c. Exited True []), kp_unicode = \<lparr>uni_alphabetic = (\<lambda>x. False), uni_numeric = (\<lambda>x. False)\<rparr>,
     dev_listing = (\<lambda>n. Some (if n = 0 then [''sda''] else [''sda'', ''sdb''])), set_order = (\<lambda>n xs. xs),
     elapsed = (\<lambda>n. Some (2 * n)), now = (\<lambda>n. Some (100 + n)), mount_point_ok = True, tree = (\<lambda>tr. demo_view),
     read_bytes = (\<lambda>tr p. None), read_text = (\<lambda>tr p. Some ''10.0.0.1''), extract_dir_ok = True,
     extract_write_ok = (\<lambda>n. True), json_write_ok = True\<rparr>"

definition fresh_kp :: kp14_state where "fresh_kp = \<lparr>ran = [], written = []\<rparr>"

lemma demo_listing:
  "list_block_devices (dev_listing demo_kp n) = Some (if n = 0 then [''/dev/sda''] else [''/dev/sda'', ''/dev/sdb''])"
proof -
  have "block_device_name ''sda''" "block_device_name ''sdb''" "utf8 ''sda''" "utf8 ''sdb''" by code_simp+
  then show ?thesis by (simp add: list_block_devices_def demo_kp_def)
qed

lemma demo_appears: "appears demo_kp (Suc 0) ''/dev/sdb''"
  by (simp add: appears_def demo_listing)

section \<open>Watching\<close>

lemma watch_turn:
  assumes order: "\<And>n xs. set (set_order ke n xs) = set xs"
    and initial: "list_block_devices (dev_listing ke 0) = Some initial"
    and run: "waited ke n < unat timeout"
  obtains (unreadable) "watch_loop ke timeout initial n = Some (Inl DevUnreadable)" "dev_listing ke (Suc n) = None"
  | (noticed) d where "watch_loop ke timeout initial n = Some (Inr d)" "appears ke (Suc n) d"
  | (again) "watch_loop ke timeout initial n = watch_loop ke timeout initial (Suc n)" "\<And>d. \<not> appears ke (Suc n) d"
      "dev_listing ke (Suc n) \<noteq> None"
proof (cases "list_block_devices (dev_listing ke (Suc n))")
  case None
  then have "watch_loop ke timeout initial n = Some (Inl DevUnreadable)"
    using run by (subst watch_loop.simps) simp
  with None unreadable show ?thesis by (simp add: list_block_devices_def)
next
  case (Some current)
  have appears: "appears ke (Suc n) d \<longleftrightarrow>
      d \<in> set (filter (\<lambda>d. d \<notin> set initial) (set_order ke (Suc n) current))" for d
    by (simp add: appears_def initial Some order)
  show ?thesis
  proof (cases "filter (\<lambda>d. d \<notin> set initial) (set_order ke (Suc n) current)")
    case Nil
    then have "watch_loop ke timeout initial n = watch_loop ke timeout initial (Suc n)"
      using run Some by (subst watch_loop.simps) simp
    moreover have "dev_listing ke (Suc n) \<noteq> None" using Some by (auto simp: list_block_devices_def)
    ultimately show ?thesis using again appears Nil by simp
  next
    case (Cons d ds)
    then have "watch_loop ke timeout initial n = Some (Inr d)"
      using run Some by (subst watch_loop.simps) simp
    with noticed appears Cons show ?thesis by simp
  qed
qed

text \<open>A turn of the loop that ends it, with the result it then has.\<close>

definition ends_at :: "kp14_env \<Rightarrow> u64 \<Rightarrow> nat \<Rightarrow> (kp14_error + string) \<Rightarrow> bool" where
  "ends_at ke timeout n r \<longleftrightarrow>
     (if unat timeout \<le> waited ke n then r = Inl WatchTimedOut
      else if dev_listing ke (Suc n) = None then r = Inl DevUnreadable
      else \<exists>d. r = Inr d \<and> appears ke (Suc n) d)"

lemma watch_step:
  assumes order: "\<And>n xs. set (set_order ke n xs) = set xs"
    and initial: "list_block_devices (dev_listing ke 0) = Some initial"
  shows "(\<exists>r. ends_at ke timeout n r \<and> watch_loop ke timeout initial n = Some r) \<or>
    (\<forall>r. \<not> ends_at ke timeout n r) \<and>
    watch_loop ke timeout initial n = watch_loop ke timeout initial (Suc n)"
proof (cases "waited ke n < unat timeout")
  case False
  then show ?thesis by (subst watch_loop.simps) (simp add: ends_at_def)
next
  case True
  then show ?thesis
  proof (rule watch_turn [OF order initial])
    fix d assume "watch_loop ke timeout initial n = Some (Inr d)" "appears ke (Suc n) d"
    moreover from this(2) have "dev_listing ke (Suc n) \<noteq> None"
      by (auto simp: appears_def list_block_devices_def split: option.splits)
    ultimately show ?thesis using True by (auto simp: ends_at_def)
  qed (use True in \<open>auto simp: ends_at_def\<close>)
qed

text \<open>A result is that of the first turn that ends the loop; if some turn ends it there is one.\<close>

definition first_end :: "kp14_env \<Rightarrow> u64 \<Rightarrow> nat \<Rightarrow> (kp14_error + string) \<Rightarrow> bool" where
  "first_end ke timeout n r \<longleftrightarrow>
     (\<exists>m \<ge> n. ends_at ke timeout m r \<and> (\<forall>m' r'. n \<le> m' \<and> m' < m \<longrightarrow> \<not> ends_at ke timeout m' r'))"

lemma first_end_here: "ends_at ke timeout n r \<Longrightarrow> first_end ke timeout n r"
  by (auto simp: first_end_def)

lemma first_end_later:
  assumes "\<And>r'. \<not> ends_at ke timeout n r'" and "first_end ke timeout (Suc n) r"
  shows "first_end ke timeout n r"
proof -
  obtain m where "Suc n \<le> m" "ends_at ke timeout m r"
    "\<forall>m' r'. Suc n \<le> m' \<and> m' < m \<longrightarrow> \<not> ends_at ke timeout m' r'"
    using assms(2) by (auto simp: first_end_def)
  with assms(1) show ?thesis unfolding first_end_def
    by (intro exI [of _ m]) (metis Suc_leD Suc_leI le_neq_implies_less)
qed

lemma watch_first_end:
  "watch_loop ke timeout initial n = Some r \<Longrightarrow> (\<forall>n xs. set (set_order ke n xs) = set xs) \<longrightarrow>
     list_block_devices (dev_listing ke 0) = Some initial \<longrightarrow> first_end ke timeout n r"
proof (induction rule: watch_loop.raw_induct [rotated, consumes 1])
  case (1 watch ke timeout initial n r)
  show ?case
  proof (intro impI)
    assume order: "\<forall>n xs. set (set_order ke n xs) = set xs"
      and initial: "list_block_devices (dev_listing ke 0) = Some initial"
    show "first_end ke timeout n r"
    proof (cases "unat timeout \<le> waited ke n")
      case True
      with 1(2) show ?thesis by (intro first_end_here) (auto simp: ends_at_def)
    next
      case early: False
      show ?thesis
      proof (cases "list_block_devices (dev_listing ke (Suc n))")
        case None
        with 1(2) early show ?thesis
          by (intro first_end_here) (auto simp: ends_at_def list_block_devices_def split: option.splits)
      next
        case (Some current)
        then have readable: "dev_listing ke (Suc n) \<noteq> None" by (auto simp: list_block_devices_def)
        let ?fresh = "filter (\<lambda>d. d \<notin> set initial) (set_order ke (Suc n) current)"
        have appears: "appears ke (Suc n) d \<longleftrightarrow> d \<in> set ?fresh" for d
          by (simp add: appears_def initial Some order)
        show ?thesis
        proof (cases ?fresh)
          case Nil
          with 1(2) early Some have "watch ke timeout initial (Suc n) = Some r" by simp
          with 1(1) order initial have "first_end ke timeout (Suc n) r" by blast
          moreover have "\<not> ends_at ke timeout n r'" for r'
            using appears early readable Nil by (auto simp: ends_at_def)
          ultimately show ?thesis by (rule first_end_later [rotated])
        next
          case (Cons d ds)
          with 1(2) early Some have "r = Inr d" by simp
          with Cons appears early readable show ?thesis by (intro first_end_here) (simp add: ends_at_def)
        qed
      qed
    qed
  qed
qed

lemma watch_sound:
  assumes "\<And>n xs. set (set_order ke n xs) = set xs"
    and "list_block_devices (dev_listing ke 0) = Some initial"
    and "watch_loop ke timeout initial n = Some r"
  shows "first_end ke timeout n r"
  using watch_first_end [OF assms(3)] assms(1,2) by blast

lemma watch_complete:
  assumes "\<And>n xs. set (set_order ke n xs) = set xs"
    and "list_block_devices (dev_listing ke 0) = Some initial"
  shows "ends_at ke timeout (n + k) r \<Longrightarrow> watch_loop ke timeout initial n \<noteq> None"
proof (induction k arbitrary: n)
  case 0
  then show ?case using watch_step [OF assms, of timeout n] by auto
next
  case (Suc k)
  from Suc.IH [of "Suc n"] Suc.prems have "watch_loop ke timeout initial (Suc n) \<noteq> None" by simp
  then show ?case using watch_step [OF assms, of timeout n] by auto
qed

lemma watch_loop_notices:
  assumes order: "\<And>n xs. set (set_order ke n xs) = set xs"
    and initial: "list_block_devices (dev_listing ke 0) = Some initial"
    and there: "appears ke (Suc (n + k)) d"
    and early: "\<And>m. m \<le> n + k \<Longrightarrow> waited ke m < unat timeout"
    and readable: "\<And>m. m \<le> n + k \<Longrightarrow> dev_listing ke (Suc m) \<noteq> None"
  shows "\<exists>d' m. m \<le> n + k \<and> watch_loop ke timeout initial n = Some (Inr d') \<and> appears ke (Suc m) d'"
  using there early readable
proof (induction k arbitrary: n)
  case 0
  have "waited ke n < unat timeout" using 0 by simp
  then show ?case by (rule watch_turn [OF order initial]) (use 0 in auto)
next
  case (Suc k)
  have IH: "\<exists>d' m. m \<le> n + Suc k \<and> watch_loop ke timeout initial (Suc n) = Some (Inr d') \<and> appears ke (Suc m) d'"
    using Suc.IH [of "Suc n"] Suc.prems by simp
  have "waited ke n < unat timeout" using Suc.prems by simp
  then show ?case
  proof (rule watch_turn [OF order initial])
    assume "watch_loop ke timeout initial n = watch_loop ke timeout initial (Suc n)"
    with IH show ?thesis by simp
  qed (use Suc.prems(3) le_add1 [of n "Suc k"] in \<open>blast+\<close>)
qed

text \<open>
  C25. When waiting for a device ends. Each turn reads the clock, sleeps two seconds and reads
  \<open>/dev\<close>; a turn ends the wait if the timeout is reached, if \<open>/dev\<close> cannot be read, or if there
  is a block device that was not there at the start. The wait ends if and only if some turn
  does this, and its result is that of the first such turn; an unreadable \<open>/dev\<close> at the start
  ends it at once. Time may go backwards: a clock set before the start counts as no time gone,
  so with such a clock and no new device the wait never ends. While the clock advances two
  seconds per turn, it ends in turn \<open>(timeout + 1) / 2\<close> at the latest, counted from 0.
\<close>

theorem watch_returns:
  fixes timeout :: u64
  assumes "\<And>n xs. set (set_order ke n xs) = set xs"
  defines "r \<equiv> watch_for_hotplugged_device ke timeout"
  shows "(dev_listing ke 0 = None \<longrightarrow> r = Some (Inl DevUnreadable)) \<and>
    (dev_listing ke 0 \<noteq> None \<longrightarrow>
       (r = None \<longleftrightarrow> (\<forall>n x. \<not> ends_at ke timeout n x)) \<and>
       (\<forall>x. r = Some x \<longrightarrow>
          (\<exists>n. ends_at ke timeout n x \<and> (\<forall>m < n. \<forall>y. \<not> ends_at ke timeout m y) \<and>
             ((\<forall>m. \<exists>s. elapsed ke m = Some s \<and> 2 * m \<le> s) \<longrightarrow> 2 * n \<le> unat timeout + 1))) \<and>
       ((\<forall>m. \<exists>s. elapsed ke m = Some s \<and> 2 * m \<le> s) \<longrightarrow> r \<noteq> None))"
proof (cases "dev_listing ke 0")
  case None
  then show ?thesis by (simp add: r_def watch_for_hotplugged_device_def list_block_devices_def)
next
  case (Some names)
  then obtain initial where initial: "list_block_devices (dev_listing ke 0) = Some initial"
    by (auto simp: list_block_devices_def)
  then have r: "r = watch_loop ke timeout initial 0" by (simp add: r_def watch_for_hotplugged_device_def)
  note sound = watch_sound [OF assms(1) initial, of timeout 0, folded r, unfolded first_end_def]
    and complete = watch_complete [OF assms(1) initial, of timeout 0, folded r, unfolded add_0]
  let ?k = "(unat timeout + 1) div 2"
  have late: "ends_at ke timeout ?k (Inl WatchTimedOut)" if "\<forall>m. \<exists>s. elapsed ke m = Some s \<and> 2 * m \<le> s"
  proof -
    from that obtain s where "elapsed ke ?k = Some s" "2 * ?k \<le> s" by blast
    then have "unat timeout \<le> waited ke ?k" by (simp add: waited_def)
    then show ?thesis by (simp add: ends_at_def)
  qed
  have bound: "2 * n \<le> unat timeout + 1"
    if "\<forall>m < n. \<forall>y. \<not> ends_at ke timeout m y" "\<forall>m. \<exists>s. elapsed ke m = Some s \<and> 2 * m \<le> s" for n
  proof -
    have "n \<le> ?k" using late [OF that(2)] that(1) by (meson not_le)
    then show ?thesis by linarith
  qed
  have "\<not> ends_at ke timeout n x" if "r = None" for n x using complete [of n x] that by blast
  moreover have "\<exists>n x. ends_at ke timeout n x" if "r \<noteq> None" using sound that by blast
  ultimately have "r = None \<longleftrightarrow> (\<forall>n x. \<not> ends_at ke timeout n x)" by blast
  moreover have "\<exists>n. ends_at ke timeout n x \<and> (\<forall>m < n. \<forall>y. \<not> ends_at ke timeout m y) \<and>
      ((\<forall>m. \<exists>s. elapsed ke m = Some s \<and> 2 * m \<le> s) \<longrightarrow> 2 * n \<le> unat timeout + 1)" if "r = Some x" for x
  proof -
    from sound [OF that] obtain n where n: "ends_at ke timeout n x" "\<forall>m < n. \<forall>y. \<not> ends_at ke timeout m y" by auto
    with bound [of n] show ?thesis by blast
  qed
  ultimately show ?thesis using late Some by simp blast
qed

text \<open>A clock that was set back, and no new device: the wait goes on for ever.\<close>

definition stalled_kp :: kp14_env where
  "stalled_kp = demo_kp\<lparr>elapsed := \<lambda>n. None, dev_listing := \<lambda>n. Some [''sda'']\<rparr>"

theorem watch_returns_witness:
  "watch_for_hotplugged_device stalled_kp 60 = None \<and> watch_for_hotplugged_device demo_kp 10 \<noteq> None"
proof -
  have "\<not> ends_at stalled_kp 60 n x" for n x
    by (simp add: ends_at_def waited_def stalled_kp_def appears_def list_block_devices_def)
  moreover have order: "set (set_order stalled_kp n xs) = set xs" "set (set_order demo_kp n xs) = set xs" for n xs
    by (simp_all add: stalled_kp_def demo_kp_def)
  moreover have readable: "dev_listing stalled_kp 0 \<noteq> None" "dev_listing demo_kp 0 \<noteq> None"
    by (simp_all add: stalled_kp_def demo_kp_def)
  moreover have clock: "\<forall>m. \<exists>s. elapsed demo_kp m = Some s \<and> 2 * m \<le> s" by (simp add: demo_kp_def)
  ultimately show ?thesis
    using watch_returns [of stalled_kp 60] watch_returns [of demo_kp 10] order readable clock by blast
qed

text \<open>
  A new device is noticed: if it is there at a reading that takes place before the timeout,
  and \<open>/dev\<close> could be read until then, the watch returns a new device.
\<close>

theorem hotplug_noticed:
  assumes "\<And>n xs. set (set_order ke n xs) = set xs"
    and "appears ke (Suc n) d" and "\<And>m. m \<le> n \<Longrightarrow> waited ke m < unat timeout"
    and "\<And>m. m \<le> n \<Longrightarrow> dev_listing ke (Suc m) \<noteq> None"
  shows "\<exists>d' m. m \<le> n \<and> watch_for_hotplugged_device ke timeout = Some (Inr d') \<and> appears ke (Suc m) d'"
proof -
  obtain initial where initial: "list_block_devices (dev_listing ke 0) = Some initial"
    using assms(2) by (auto simp: appears_def split: option.splits)
  show ?thesis
    using watch_loop_notices [OF assms(1) initial, of 0 n d timeout] assms(2-4)
    by (simp add: watch_for_hotplugged_device_def initial)
qed

theorem hotplug_noticed_witness:
  "\<exists>d. watch_for_hotplugged_device demo_kp 10 = Some (Inr d)"
proof -
  have "set (set_order demo_kp n xs) = set xs" "m \<le> 0 \<Longrightarrow> waited demo_kp m < unat (10 :: u64)"
    "m \<le> 0 \<Longrightarrow> dev_listing demo_kp (Suc m) \<noteq> None" for n m xs
    by (simp_all add: demo_kp_def waited_def)
  from hotplug_noticed [OF this(1) demo_appears this(2,3)] show ?thesis by blast
qed

section \<open>Searching the device\<close>

text \<open>The dump files below a directory.\<close>

inductive below :: "dir_view \<Rightarrow> string \<Rightarrow> string \<Rightarrow> bool" for dv where
  below_here: "read_dir dv dir = Some names \<Longrightarrow> n \<in> set names \<Longrightarrow> \<not> is_dir dv (join_path dir n) \<Longrightarrow>
    is_dump_name n \<Longrightarrow> below dv dir (join_path dir n)"
| below_dir: "read_dir dv dir = Some names \<Longrightarrow> n \<in> set names \<Longrightarrow> is_dir dv (join_path dir n) \<Longrightarrow>
    below dv (join_path dir n) p \<Longrightarrow> below dv dir p"

inductive_cases belowE: "below dv dir p"

definition reached_from :: "dir_view \<Rightarrow> string \<Rightarrow> string list \<Rightarrow> string \<Rightarrow> bool" where
  "reached_from dv dir names p \<longleftrightarrow>
     (\<exists>n \<in> set names. if is_dir dv (join_path dir n) then below dv (join_path dir n) p
        else is_dump_name n \<and> p = join_path dir n)"

lemma below_iff: "read_dir dv dir = Some names \<Longrightarrow> below dv dir p \<longleftrightarrow> reached_from dv dir names p"
  unfolding reached_from_def
  by (rule iffI, erule belowE) (auto intro: below_here below_dir split: if_splits)

lemma reached_from_Nil [simp]: "\<not> reached_from dv dir [] p"
  by (simp add: reached_from_def)

lemma reached_from_Cons:
  "reached_from dv dir (n # names) p \<longleftrightarrow>
     (if is_dir dv (join_path dir n) then below dv (join_path dir n) p else is_dump_name n \<and> p = join_path dir n)
     \<or> reached_from dv dir names p"
  by (auto simp: reached_from_def)

text \<open>An answer of the search that is right for what is reached from some entries.\<close>

definition search_right :: "(string \<Rightarrow> bool) \<Rightarrow> (kp14_error + string option) option \<Rightarrow> bool" where
  "search_right R res \<longleftrightarrow>
     (\<exists>r. res = Some (Inr r) \<and> (\<forall>p. r = Some p \<longrightarrow> R p) \<and> (r = None \<longrightarrow> (\<forall>p. \<not> R p)))"

lemma search_entries_right:
  assumes readable: "\<And>p. is_dir dv p \<Longrightarrow> read_dir dv p \<noteq> None"
    and bounded: "\<And>p. is_dir dv p \<Longrightarrow> length p < 4096"
  shows "search_right (reached_from dv dir names) (search_entries dv dir names)"
proof (induction "4096 - length dir" arbitrary: dir names rule: less_induct)
  case less
  show ?case
  proof (induction names)
    case Nil
    then show ?case by (subst search_entries.simps) (simp add: search_right_def)
  next
    case (Cons n names)
    let ?q = "join_path dir n"
    show ?case
    proof (cases "is_dir dv ?q")
      case True
      have "length dir < length ?q" by (simp add: join_path_def)
      then have "4096 - length ?q < 4096 - length dir" using bounded [OF True] by linarith
      note IH = less [OF this]
      obtain sub where sub: "read_dir dv ?q = Some sub" using readable [OF True] by blast
      obtain r where r: "search_entries dv ?q sub = Some (Inr r)" "\<forall>p. r = Some p \<longrightarrow> below dv ?q p"
        "r = None \<longrightarrow> (\<forall>p. \<not> below dv ?q p)"
        using IH [of sub] by (auto simp: search_right_def below_iff [OF sub])
      show ?thesis
        using Cons.IH r True sub
        by (cases r; subst search_entries.simps) (auto simp: search_right_def reached_from_Cons)
    next
      case False
      then show ?thesis
        using Cons.IH by (subst search_entries.simps) (auto simp: search_right_def reached_from_Cons)
    qed
  qed
qed

text \<open>
  C24. The search of a mounted device ends and is complete: as the kernel answers for no path of
  4096 bytes or more, the recursion comes to an end even where links lead back up; on a
  device whose directories can be read, the result is a dump file below the directory
  exactly if there is one.
\<close>

theorem blob_search_complete:
  assumes "\<And>p. is_dir dv p \<Longrightarrow> length p < 4096" and "\<And>p. is_dir dv p \<Longrightarrow> read_dir dv p \<noteq> None"
    and "read_dir dv dir \<noteq> None"
  shows "\<exists>r. find_blob_recursive dv dir = Some (Inr r) \<and> (\<forall>p. r = Some p \<longrightarrow> below dv dir p) \<and>
    (r = None \<longleftrightarrow> (\<nexists>p. below dv dir p))"
proof -
  obtain names where names: "read_dir dv dir = Some names" using assms(3) by blast
  show ?thesis
    using search_entries_right [OF assms(2,1), of dir names]
    by (auto simp: search_right_def find_blob_recursive_def names below_iff [OF names])
qed

definition looping_view :: dir_view where
  "looping_view = \<lparr>read_dir = (\<lambda>p. Some [''up'']), is_dir = (\<lambda>p. length p < 4096)\<rparr>"

theorem blob_search_complete_witness:
  "\<exists>r. find_blob_recursive looping_view ''/mnt/alphvdr'' = Some (Inr r)"
proof -
  have "is_dir looping_view p \<Longrightarrow> length p < 4096" "read_dir looping_view p \<noteq> None" for p
    by (simp_all add: looping_view_def)
  from blob_search_complete [OF this(1) this(2) this(2)] show ?thesis by blast
qed

section \<open>Hunting\<close>

lemma hunt_exact_lemma:
  "hunt_iocs_in_text u text =
     map (found IpAddress 80 ''string_extraction'') (filter is_valid_ipv4 (clean_words u text)) @
     map (found Url 90 ''string_extraction'') (filter has_url_prefix (clean_words u text)) @
     map (found FilePath 60 ''string_extraction'') (filter has_path_prefix (clean_words u text)) @
     map (found DomainName 50 ''string_extraction'')
       (filter (\<lambda>w. domain_like u w \<and> \<not> starts_with w ''127.'') (clean_words u text))"
proof -
  have "filter (\<lambda>d. \<not> contains d ''localhost'' \<and> \<not> starts_with d ''127.'') (filter (domain_like u) ws) =
      filter (\<lambda>w. domain_like u w \<and> \<not> starts_with w ''127.'') ws" for ws
    by (auto simp: domain_like_def Let_def intro: filter_cong)
  then show ?thesis by (simp add: hunt_iocs_in_text_def regex_words)
qed

text \<open>A URL whose host ends in letters is also reported as a domain, all of it.\<close>

lemma url_also_domain:
  "hunt_iocs_in_text u ''http://evil.com'' =
     [found Url 90 ''string_extraction'' ''http://evil.com'',
      found DomainName 50 ''string_extraction'' ''http://evil.com'']"
proof -
  have w: "clean_words u ''http://evil.com'' = [''http://evil.com'']"
    by (rule clean_words_graphic) (simp_all add: graphic_def ascii_letter_def Let_def)
  have "utf8_chars ''com'' = [''c'', ''o'', ''m'']" by code_simp
  then have "domain_like u ''http://evil.com''"
    by (simp add: domain_like_def Let_def is_alphabetic_def ascii_letter_def starts_with_def)
  then show ?thesis
    by (simp add: hunt_exact_lemma w is_valid_ipv4_def has_url_prefix_def has_path_prefix_def path_prefixes_def
        starts_with_def)
qed

section \<open>Indicators of the pipeline\<close>

definition output_text :: "kp14_env \<Rightarrow> kp14_client \<Rightarrow> string \<Rightarrow> string \<Rightarrow> kp14_state \<Rightarrow> string" where
  "output_text ke c dir ty st =
     (case read_text ke (ran st) (dir @ ''/'' @ ty @ ''.txt'') of Some t \<Rightarrow> t | None \<Rightarrow> [])"

lemma read_local_outputs:
  "is_local c \<Longrightarrow> read_outputs ke c dir outs st =
     (Inr (concat (map (\<lambda>(ty, hunt). hunt (output_text ke c dir ty st)) outs)), st)"
  by (induction outs) (auto simp: read_pipeline_output_def output_text_def Let_def)

text \<open>
  Collecting from the pipeline's output files on the analysis machine cannot fail and changes
  nothing: every type and value hunted in one of the four files is reported, exactly once,
  with the confidence and source of its first occurrence; a missing file counts as empty.
\<close>

theorem iocs_extracted_once:
  assumes "is_local c"
    and "hunted = concat (map (\<lambda>ty. hunt_iocs_in_text (kp_unicode ke) (output_text ke c dir ty st))
        [''strings'', ''r2_analysis'', ''ghidra_decompilation'']) @
      parse_capa_mitre (kp_unicode ke) (output_text ke c dir ''capa'' st)"
  shows "\<exists>iocs. extract_iocs_from_output ke c dir st = (Inr iocs, st) \<and>
    distinct (map (\<lambda>i. (i_type i, i_value i)) iocs) \<and>
    (\<lambda>i. (i_type i, i_value i)) ` set iocs = (\<lambda>i. (i_type i, i_value i)) ` set hunted \<and>
    set iocs = {i. find (\<lambda>j. i_type j = i_type i \<and> i_value j = i_value i) hunted = Some i}"
proof (intro exI conjI)
  let ?key = "\<lambda>i. (i_type i, i_value i)"
  have key: "ioc_key i = ioc_key j \<longleftrightarrow> ?key i = ?key j" for i j by (simp only: ioc_key_inj prod.inject)
  show "extract_iocs_from_output ke c dir st = (Inr (dedup hunted), st)"
    by (simp add: extract_iocs_from_output_def read_local_outputs [OF assms(1)] pipeline_outputs_def assms(2)
        del: read_outputs.simps)
  show "distinct (map ?key (dedup hunted))"
    using dedup_distinct [of hunted] unfolding distinct_map inj_on_def key by blast
  show "?key ` set (dedup hunted) = ?key ` set hunted"
  proof
    show "?key ` set (dedup hunted) \<subseteq> ?key ` set hunted" using dedup_subset by blast
    show "?key ` set hunted \<subseteq> ?key ` set (dedup hunted)"
    proof
      fix k assume "k \<in> ?key ` set hunted"
      then obtain i where i: "i \<in> set hunted" "k = ?key i" by blast
      obtain j where "j \<in> set (dedup hunted)" "i_type j = i_type i" "i_value j = i_value i"
        using i(1) by (rule dedup_covers)
      with i(2) show "k \<in> ?key ` set (dedup hunted)" by (intro image_eqI [of _ _ j]) simp_all
    qed
  qed
  show "set (dedup hunted) = {i. find (\<lambda>j. i_type j = i_type i \<and> i_value j = i_value i) hunted = Some i}"
    by (rule set_eqI) (simp only: dedup_first ioc_key_inj mem_Collect_eq)
qed

theorem iocs_extracted_once_witness:
  "\<exists>iocs. extract_iocs_from_output demo_kp (kp14_new (Some ''kp14-suite'')) ''/out'' fresh_kp = (Inr iocs, fresh_kp) \<and>
     distinct (map (\<lambda>i. (i_type i, i_value i)) iocs)"
proof -
  have "trim ''kp14-suite'' = ''kp14-suite''" by code_simp
  then have "is_local (kp14_new (Some ''kp14-suite''))" by (simp add: kp14_new_def)
  from iocs_extracted_once [OF this refl] show ?thesis by blast
qed

section \<open>The handed over document\<close>

text \<open>
  C26. Indicators whose values and sources have no quotation mark, backslash or control character
  are handed over as a JSON document from which types, values, confidences and sources read
  back, in order.
\<close>

theorem pushed_json_reads_back:
  assumes "push_iocs_to_misp ke iocs st = (Inr (), st')" and "iocs \<noteq> []" and "list_all clean_ioc iocs"
  shows "\<exists>bs. written st' = written st @ [(ioc_json_path, bs)] \<and>
    read_iocs (of_bytes bs) = Some (map ioc_fields_of iocs)"
  using assms(1,2) read_iocs_json [OF assms(3)] by (auto simp: push_iocs_to_misp_def split: if_splits)

theorem pushed_json_reads_back_witness:
  "\<exists>bs. written (snd (push_iocs_to_misp demo_kp [found Url 90 ''string_extraction'' ''http://evil.com''] fresh_kp)) =
       [(ioc_json_path, bs)] \<and>
     read_iocs (of_bytes bs) = Some [(''Url'', ''http://evil.com'', show_confidence 90, ''string_extraction'')]"
proof -
  let ?i = "found Url 90 ''string_extraction'' ''http://evil.com''"
  obtain st' where st': "push_iocs_to_misp demo_kp [?i] fresh_kp = (Inr (), st')"
    by (simp add: push_iocs_to_misp_def demo_kp_def)
  have "list_all clean_ioc [?i]" by (simp add: clean_ioc_def plain_text_def plain_char_def quote_def backslash_def)
  from pushed_json_reads_back [OF st' _ this] st' show ?thesis
    by (auto simp: fresh_kp_def ioc_fields_of_def)
qed

end
