(* ===== verification/Kp14_Runs.thy ===== *)
theory Kp14_Runs
  imports Kp14_Properties
begin

text \<open>
  The properties of whole runs of the KP14 client: what a daemon's run hands over, what of a
  process's memory it reports, and in which state runs that fail leave the machines.
\<close>

section \<open>The daemon's document\<close>

lemma join_json_occurs: "i \<in> set iocs \<Longrightarrow> \<exists>a b. join_json n iocs = a @ ioc_json i @ b"
proof (induction iocs arbitrary: n)
  case (Cons j js)
  show ?case
  proof (cases "i = j")
    case True
    then have "join_json n (j # js) = (if 0 < n then '','' else []) @ ioc_json i @ join_json (Suc n) js" by simp
    then show ?thesis by blast
  next
    case False
    then obtain a b where "join_json (Suc n) js = a @ ioc_json i @ b" using Cons by fastforce
    then have "join_json n (j # js) = ((if 0 < n then '','' else []) @ ioc_json j @ a) @ ioc_json i @ b" by simp
    then show ?thesis by blast
  qed
qed simp

lemma registry_unreadable:
  assumes "i \<in> set iocs" and "i_value i = registry_text @ t"
  shows "read_iocs (iocs_json iocs) = None"
proof -
  obtain a b where "join_json 0 iocs = a @ ioc_json i @ b" using join_json_occurs [OF assms(1)] by blast
  moreover obtain a' b' where "ioc_json i = a' @ registry_text @ b'"
  proof
    show "ioc_json i = (''{'' @ quoted ''type'' @ '':'' @ quoted (show_ioc_type (i_type i)) @ '','' @
        quoted ''value'' @ '':'' @ [quote]) @ registry_text @ (t @ quote # '','' @ quoted ''confidence'' @ '':'' @
        show_confidence (confidence i) @ '','' @ quoted ''source'' @ '':'' @ quoted (i_source i) @ ''}'')"
      by (simp add: ioc_json_def assms(2) quoted_def)
  qed
  ultimately have "iocs_json iocs = (''['' @ a @ a') @ registry_text @ (b' @ b @ '']'')"
    by (simp add: iocs_json_def)
  then have "lex_json (iocs_json iocs) = None" using lex_registry by metis
  then show ?thesis by (simp add: read_iocs_def)
qed

lemma written_status_of [simp]: "written (snd (status_of ke c st)) = written st"
  by (simp add: status_of_def split: prod.split)

lemma written_cleanup [simp]: "written (cleanup_mount ke st) = written st"
  using written_status_of [of ke "''sudo'' # umount_cmd" st]
  by (auto simp: cleanup_mount_def split: prod.split option.split bool.split simp del: written_status_of)
    (metis snd_conv written_status_of)+

lemma mock_gathered: "set mock_iocs \<subseteq> set (fst (gather_iocs ke c d bins st))"
  by (auto simp: gather_iocs_def Let_def split: prod.split)

lemma process_dump_done:
  assumes "process_dump ke c d st = (Done iocs, st')"
  obtains fs bins and st1 :: kp14_state where "extract_executable_regions (extract_dir_ok ke) (extract_write_ok ke) (extract_dir c d) d = (Inr bins, fs)"
    and "iocs = dedup (fst (gather_iocs ke c d bins (st\<lparr>written := written st @ fs\<rparr>)))"
    and "written st' = written st1 @ [(ioc_json_path, cbytes (iocs_json iocs))]"
proof -
  obtain fs bins where e: "extract_executable_regions (extract_dir_ok ke) (extract_write_ok ke) (extract_dir c d) d = (Inr bins, fs)"
    using assms by (auto simp: process_dump_def split: prod.splits sum.splits)
  obtain all_iocs st1 where g: "gather_iocs ke c d bins (st\<lparr>written := written st @ fs\<rparr>) = (all_iocs, st1)"
    by fastforce
  have "set mock_iocs \<subseteq> set all_iocs" using mock_gathered [of ke c d bins] g by (metis fst_conv)
  then have "all_iocs \<noteq> []" by (auto simp: mock_iocs_def)
  then have ne: "dedup all_iocs \<noteq> []" using dedup_keys [of all_iocs] by auto
  have "iocs = dedup all_iocs" "written st' = written st1 @ [(ioc_json_path, cbytes (iocs_json iocs))]"
    using assms ne by (auto simp: process_dump_def e g push_iocs_to_misp_def split: if_splits)
  then show ?thesis by (intro that [OF e, of st1]) (simp_all add: g)
qed

lemma run_daemon_watched:
  "watch_for_hotplugged_device ke timeout = Some (Inr dev) \<Longrightarrow>
     mount_and_ingest ke dev st = Some (Inr blob, st1) \<Longrightarrow>
     run_daemon_pipeline ke c timeout st =
       Some (case from_file (read_bytes ke (ran st1) blob) of
           Bail e \<Rightarrow> (Bail (BadBlob e), st1)
         | Panic \<Rightarrow> (Panic, st1)
         | Done d \<Rightarrow> process_dump ke c d st1)"
  by (simp add: run_daemon_pipeline_def)

lemma run_daemon_done:
  assumes "run_daemon_pipeline ke c timeout st = Some (Done iocs, st')"
  obtains dev blob st1 d where "watch_for_hotplugged_device ke timeout = Some (Inr dev)"
    and "mount_and_ingest ke dev st = Some (Inr blob, st1)"
    and "from_file (read_bytes ke (ran st1) blob) = Done d" and "process_dump ke c d st1 = (Done iocs, st')"
proof -
  obtain dev where w: "watch_for_hotplugged_device ke timeout = Some (Inr dev)"
    using assms by (cases "watch_for_hotplugged_device ke timeout")
      (auto simp: run_daemon_pipeline_def split: sum.splits)
  obtain r st1 where m: "mount_and_ingest ke dev st = Some (r, st1)"
    using assms w by (cases "mount_and_ingest ke dev st") (auto simp: run_daemon_pipeline_def)
  obtain blob where r: "r = Inr blob"
    using assms w m by (cases r) (auto simp: run_daemon_pipeline_def)
  have "(case from_file (read_bytes ke (ran st1) blob) of
           Bail e \<Rightarrow> (Bail (BadBlob e), st1)
         | Panic \<Rightarrow> (Panic, st1)
         | Done d \<Rightarrow> process_dump ke c d st1) = (Done iocs, st')"
    using run_daemon_watched [OF w, of st blob st1 c] assms m r by simp
  with that w m r show ?thesis by (cases "from_file (read_bytes ke (ran st1) blob)") auto
qed

section \<open>A run that ends well\<close>

lemma write_files_all: "(\<And>n. ok n) \<Longrightarrow> \<exists>ps. write_files ok n fs = (Inr ps, fs)"
proof (induction fs arbitrary: n)
  case (Cons f fs)
  then obtain ps where "write_files ok (Suc n) fs = (Inr ps, fs)" by blast
  moreover have "ok n" by (rule Cons.prems)
  ultimately show ?case by simp
qed simp

lemma process_dump_succeeds:
  assumes "extract_dir_ok ke" and "\<And>n. extract_write_ok ke n" and "json_write_ok ke"
  shows "\<exists>iocs st'. process_dump ke c d st = (Done iocs, st')"
proof -
  obtain ps where "write_files (extract_write_ok ke) 0 (extraction_files (extract_dir c d) d) =
      (Inr ps, extraction_files (extract_dir c d) d)"
    using write_files_all [of "extract_write_ok ke" 0] assms(2) by blast
  then have "extract_executable_regions (extract_dir_ok ke) (extract_write_ok ke) (extract_dir c d) d =
      (Inr ps, extraction_files (extract_dir c d) d)"
    using assms(1) by (simp add: extract_executable_regions_def)
  then show ?thesis using assms(3) by (auto simp: process_dump_def push_iocs_to_misp_def split: prod.split)
qed

definition demo_area :: vma_entry where
  "demo_area = \<lparr>v_start = 0x1000, v_end = 0x2000, v_perms = ''rw-p'', v_offset = 0, v_dev = ''00:00'',
     v_inode = 0, v_pathname = []\<rparr>"

definition demo_memory :: "byte list" where "demo_memory = [0] @ cbytes ''http://evil.com/a'' @ [0]"

definition demo_blob :: "byte list" where "demo_blob = blob_bytes 42 7 [(demo_area, demo_memory)] []"

definition demo_run :: kp14_env where "demo_run = demo_kp\<lparr>read_bytes := (\<lambda>tr p. Some demo_blob)\<rparr>"

definition demo_mounted :: kp14_state where
  "demo_mounted = \<lparr>ran = [''sudo'' # mount_cmd ''/dev/sdb''], written = []\<rparr>"

definition demo_client :: kp14_client where "demo_client = with_ssh_host ''kp14''"

lemma demo_fields [simp]:
  "dev_listing demo_run = dev_listing demo_kp" "elapsed demo_run n = Some (2 * n)" "set_order demo_run n xs = xs"
  "tree demo_run tr = demo_view" "extract_dir_ok demo_run" "extract_write_ok demo_run n" "json_write_ok demo_run"
  "kp_os demo_run tr x = Exited True []" "mount_point_ok demo_run" "read_bytes demo_run tr p = Some demo_blob"
  "now demo_run n = Some (100 + n)"
  by (simp_all add: demo_run_def demo_kp_def)

lemma demo_watched: "watch_for_hotplugged_device demo_run 10 = Some (Inr ''/dev/sdb'')"
  by (simp add: watch_for_hotplugged_device_def demo_listing watch_loop.simps [of _ _ _ 0] waited_def)

lemma demo_mount: "mount_device demo_run dev fresh_kp = (Inr (), \<lparr>ran = [''sudo'' # mount_cmd dev], written = []\<rparr>)"
  by (simp add: mount_device_def status_of_def run_status_def fresh_kp_def)

lemma demo_located: "locate_blob demo_view = Some (Inr ''/mnt/alphvdr/core_dump_42_7.bin'')"
proof -
  have "\<not> is_dump_name ''lost+found''" "is_dump_name ''core_dump_42_7.bin''" by code_simp+
  then show ?thesis by (simp add: locate_blob_def demo_view_def join_path_def KP14_MOUNT_BASE_def)
qed

lemma demo_ingested:
  "mount_and_ingest demo_run ''/dev/sdb'' fresh_kp = Some (Inr ''/mnt/alphvdr/core_dump_42_7.bin'', demo_mounted)"
  by (simp add: mount_and_ingest_def demo_mount demo_located demo_mounted_def)

lemma demo_dump_ok: "dump_ok 42 7 [(demo_area, demo_memory)] []"
  by (simp add: dump_ok_def utf8_def from_utf8_lossy_def blob_bytes_with blob_with_def header_bytes_def magic_def
      length_area area_ok_def demo_area_def demo_memory_def)

lemma demo_succeeds: "\<exists>iocs st'. run_daemon_pipeline demo_run demo_client 10 fresh_kp = Some (Done iocs, st')"
proof -
  obtain d where "from_file (Some demo_blob) = Done d"
    using from_file_blob [OF demo_dump_ok] by (simp add: demo_blob_def blob_bytes_with)
  then show ?thesis
    using run_daemon_watched [OF demo_watched demo_ingested, of demo_client]
      process_dump_succeeds [of demo_run demo_client d demo_mounted] by simp
qed

section \<open>What is handed over\<close>

text \<open>
  C30. What a successful run of the daemon hands over is never readable JSON: the constant registry
  indicator it always adds brings unescaped backslashes into the document, whatever else was
  found.
\<close>

theorem daemon_json_unreadable:
  assumes "run_daemon_pipeline ke c timeout st = Some (Done iocs, st')"
  shows "\<exists>before bs. written st' = before @ [(ioc_json_path, bs)] \<and> bs = cbytes (iocs_json iocs) \<and>
    read_iocs (of_bytes bs) = None"
proof -
  from assms obtain d st1 where p: "process_dump ke c d st1 = (Done iocs, st')" by (rule run_daemon_done)
  from p obtain bins and st2 st3 :: kp14_state where i: "iocs = dedup (fst (gather_iocs ke c d bins st3))"
    and w: "written st' = written st2 @ [(ioc_json_path, cbytes (iocs_json iocs))]"
    by (rule process_dump_done) blast
  let ?reg = "mock_iocs ! 1"
  have "?reg \<in> set mock_iocs" by (simp add: mock_iocs_def)
  then have "?reg \<in> set (fst (gather_iocs ke c d bins st3))" using mock_gathered by blast
  then obtain j where "j \<in> set iocs" "i_value j = i_value ?reg" unfolding i by (rule dedup_covers)
  moreover have "i_value ?reg = registry_text @ (''oftware'' @ esc ''Microsoft'' @ esc ''Windows'' @
      esc ''CurrentVersion'' @ esc ''Run'')" by (simp add: mock_iocs_def registry_text_def esc_def)
  ultimately have "read_iocs (iocs_json iocs) = None" using registry_unreadable by metis
  with w show ?thesis by auto
qed

theorem daemon_json_unreadable_witness:
  "\<exists>iocs st' bs. run_daemon_pipeline demo_run demo_client 10 fresh_kp = Some (Done iocs, st') \<and>
     bs = cbytes (iocs_json iocs) \<and> read_iocs (of_bytes bs) = None"
  using demo_succeeds daemon_json_unreadable [of demo_run demo_client 10 fresh_kp] by blast

section \<open>From memory to indicators\<close>

lemma printable_less: "printable b \<Longrightarrow> unat b < 127"
  by (simp add: printable_def word_less_nat_alt)

lemma printable_ascii: "list_all printable bs \<Longrightarrow> list_all (\<lambda>c. of_char c < (128 :: nat)) (of_bytes bs)"
proof (induction bs)
  case (Cons b bs)
  then have "unat b < 127" "unat b < 256" using printable_less by (auto simp: unat_byte_less)
  with Cons show ?case by (simp add: of_bytes_def take_bit_nat_eq_self)
qed simp

lemma extracted_ascii: "t \<in> set (extract_strings m d) \<Longrightarrow> 0 < m \<Longrightarrow> list_all (\<lambda>c. of_char c < (128 :: nat)) t"
  using scan_strings_iff [of m "[]"] by (auto simp: extract_strings_def max_run_def printable_ascii)

lemma clean_words_lines:
  "t \<in> set ts \<Longrightarrow> (\<And>t. t \<in> set ts \<Longrightarrow> list_all (\<lambda>c. of_char c < (128 :: nat)) t) \<Longrightarrow>
     set (clean_words u t) \<subseteq> set (clean_words u (join_lines ts))"
proof (induction ts rule: join_lines.induct)
  case (3 s r ts)
  have "clean_words u (join_lines (s # r # ts)) = clean_words u s @ clean_words u (join_lines (r # ts))"
    using clean_words_newline [of s u "join_lines (r # ts)"] 3 by simp
  with 3 show ?case by auto
qed simp_all

text \<open>A URL by itself: graphic characters only, ending in a letter, a digit or a slash.\<close>

definition plain_url :: "string \<Rightarrow> bool" where
  "plain_url s \<longleftrightarrow> list_all graphic s \<and> has_url_prefix s \<and>
     (ascii_letter (last s) \<or> ascii_digit (last s) \<or> last s = CHR ''/'')"

lemma url_prefix_shape: "has_url_prefix s \<Longrightarrow> s \<noteq> [] \<and> ascii_letter (hd s) \<and> 7 \<le> length s"
  by (auto simp: has_url_prefix_def starts_with_iff ascii_letter_def Let_def)

lemma plain_url_hunted:
  assumes "plain_url s" and "s \<in> set (extract_strings 6 d)"
  shows "found Url 90 ''string_extraction'' s \<in>
    set (hunt_iocs_in_text u (join_lines (extract_strings 6 d)))"
proof -
  have "clean_words u s = [s]"
    using assms(1) url_prefix_shape [of s] by (intro clean_words_graphic) (auto simp: plain_url_def)
  then have "s \<in> set (clean_words u (join_lines (extract_strings 6 d)))"
    using clean_words_lines [OF assms(2), of u] extracted_ascii [of _ 6 d] by auto
  then show ?thesis using assms(1) by (simp add: hunt_exact_lemma plain_url_def)
qed

lemma strings_gathered:
  "set (hunt_iocs_in_text (kp_unicode ke) (join_lines (extract_strings 6 d))) \<subseteq>
     set (fst (gather_iocs ke c d bins st))"
  by (auto simp: gather_iocs_def Let_def split: prod.split)

text \<open>
  C9. From the memory of a stopped process to an indicator: if the blob that the daemon finds on
  the device is one the agent wrote, a URL that stands between unprintable bytes in a carved
  area is among the indicators of every run that ends well.
\<close>

theorem carved_url_reported:
  assumes "watch_for_hotplugged_device ke timeout = Some (Inr dev)"
    and "mount_and_ingest ke dev st = Some (Inr blob, st1)"
    and "read_bytes ke (ran st1) blob = Some (blob_bytes pid ts pages regs)" and "dump_ok pid ts pages regs"
    and "(area, bs) \<in> set pages" and "max_run bs (cbytes url)" and "plain_url url"
    and "run_daemon_pipeline ke c timeout st = Some (Done iocs, st')"
  shows "\<exists>i. i \<in> set iocs \<and> i_type i = Url \<and> i_value i = url"
proof -
  obtain d where d: "from_file (read_bytes ke (ran st1) blob) = Done d" "d_regions d = map region_of pages"
    using from_file_blob [OF assms(4)] assms(3) by (simp add: blob_bytes_with)
  have "7 \<le> length url" using assms(7) url_prefix_shape by (simp add: plain_url_def)
  then have "cbytes url \<in> set (scan_strings 6 [] bs)" using scan_strings_iff [of 6 "[]"] assms(6) by simp
  moreover have "region_of (area, bs) \<in> set (d_regions d)" "r_data (region_of (area, bs)) = bs"
    using imageI [OF assms(5), of region_of] by (simp_all add: d(2)) (simp add: region_of_def)
  ultimately have "of_bytes (cbytes url) \<in> set (extract_strings 6 d)"
    unfolding extract_strings_def set_concat set_map image_image
    by (intro UN_I [of "region_of (area, bs)"] imageI) simp_all
  then have "url \<in> set (extract_strings 6 d)" by simp
  note hunted = plain_url_hunted [OF assms(7) this]
  have "process_dump ke c d st1 = (Done iocs, st')"
    using run_daemon_watched [OF assms(1,2), of c] assms(8) d(1) by simp
  then obtain bins and st3 :: kp14_state where i: "iocs = dedup (fst (gather_iocs ke c d bins st3))"
    by (rule process_dump_done) blast
  have "found Url 90 ''string_extraction'' url \<in> set (fst (gather_iocs ke c d bins st3))"
    using strings_gathered hunted by blast
  then obtain j where "j \<in> set iocs" "i_type j = Url" "i_value j = url"
    unfolding i by (rule dedup_covers) simp
  then show ?thesis by blast
qed

theorem carved_url_reported_witness:
  "\<exists>iocs st' i. run_daemon_pipeline demo_run demo_client 10 fresh_kp = Some (Done iocs, st') \<and>
     i \<in> set iocs \<and> i_type i = Url \<and> i_value i = ''http://evil.com/a''"
proof -
  obtain iocs st' where r: "run_daemon_pipeline demo_run demo_client 10 fresh_kp = Some (Done iocs, st')"
    using demo_succeeds by blast
  have run: "max_run demo_memory (cbytes ''http://evil.com/a'')"
    unfolding max_run_def demo_memory_def
    by (intro conjI exI [of _ "[0]"]) (simp_all add: printable_def ch_def)
  have url: "plain_url ''http://evil.com/a''"
    by (simp add: plain_url_def graphic_def has_url_prefix_def starts_with_def ascii_letter_def Let_def)
  have "read_bytes demo_run (ran demo_mounted) ''/mnt/alphvdr/core_dump_42_7.bin'' =
      Some (blob_bytes 42 7 [(demo_area, demo_memory)] [])" by (simp add: demo_blob_def)
  from carved_url_reported [OF demo_watched demo_ingested this demo_dump_ok _ run url r] r show ?thesis by simp
qed

section \<open>Runs that fail\<close>

lemma mount_device_trace:
  "mount_device ke dev st = (Inr u, st1) \<Longrightarrow>
     \<exists>tr. ran st1 = ran st @ tr \<and> tr \<in> {[''sudo'' # mount_cmd dev], [''sudo'' # mount_cmd dev, mount_cmd dev]}"
  by (auto simp: mount_device_def status_of_def run_status_def
      split: if_splits prod.splits option.splits bool.splits cmd_result.splits)

text \<open>
  A run of the daemon that mounted the device but found no dump on it, or one it cannot read,
  ends there: the mount is the last command of the run, and the device stays mounted.
\<close>

theorem failed_run_stays_mounted:
  assumes "watch_for_hotplugged_device ke timeout = Some (Inr dev)"
    and "mount_device ke dev st = (Inr u, st1)"
    and "locate_blob (tree ke (ran st1)) = Some (Inl e) \<or>
      (\<exists>blob. locate_blob (tree ke (ran st1)) = Some (Inr blob) \<and>
        (\<nexists>d. from_file (read_bytes ke (ran st1) blob) = Done d))"
  shows "\<exists>r tr. run_daemon_pipeline ke c timeout st = Some (r, st1) \<and> (\<nexists>iocs. r = Done iocs) \<and>
    ran st1 = ran st @ tr \<and> last tr \<in> {''sudo'' # mount_cmd dev, mount_cmd dev} \<and>
    umount_cmd \<notin> set tr \<and> ''sudo'' # umount_cmd \<notin> set tr"
proof -
  obtain tr where tr: "ran st1 = ran st @ tr"
    "tr \<in> {[''sudo'' # mount_cmd dev], [''sudo'' # mount_cmd dev, mount_cmd dev]}"
    using mount_device_trace [OF assms(2)] by blast
  have "\<exists>r. run_daemon_pipeline ke c timeout st = Some (r, st1) \<and> (\<nexists>iocs. r = Done iocs)"
    using assms(3)
  proof
    assume "locate_blob (tree ke (ran st1)) = Some (Inl e)"
    then show ?thesis using assms(1,2) by (simp add: run_daemon_pipeline_def mount_and_ingest_def)
  next
    assume "\<exists>blob. locate_blob (tree ke (ran st1)) = Some (Inr blob) \<and>
        (\<nexists>d. from_file (read_bytes ke (ran st1) blob) = Done d)"
    then obtain blob where blob: "locate_blob (tree ke (ran st1)) = Some (Inr blob)"
      "\<nexists>d. from_file (read_bytes ke (ran st1) blob) = Done d" by blast
    have "mount_and_ingest ke dev st = Some (Inr blob, st1)"
      using assms(2) blob(1) by (simp add: mount_and_ingest_def)
    then show ?thesis
      using run_daemon_watched [OF assms(1)] blob(2)
      by (cases "from_file (read_bytes ke (ran st1) blob)") auto
  qed
  with tr show ?thesis by (auto simp: mount_cmd_def umount_cmd_def)
qed

theorem failed_run_stays_mounted_witness:
  "\<exists>r st'. run_daemon_pipeline demo_kp demo_client 10 fresh_kp = Some (r, st') \<and>
     ''sudo'' # umount_cmd \<notin> set (ran st')"
proof -
  have watch: "watch_for_hotplugged_device demo_kp 10 = Some (Inr ''/dev/sdb'')"
    by (simp add: watch_for_hotplugged_device_def demo_listing watch_loop.simps [of _ _ _ 0] waited_def)
      (simp add: demo_kp_def waited_def)
  have mount: "mount_device demo_kp ''/dev/sdb'' fresh_kp = (Inr (), demo_mounted)"
    by (simp add: mount_device_def status_of_def run_status_def fresh_kp_def demo_kp_def demo_mounted_def)
  have "tree demo_kp (ran demo_mounted) = demo_view" "read_bytes demo_kp (ran demo_mounted) p = None" for p
    by (simp_all add: demo_kp_def)
  then have "locate_blob (tree demo_kp (ran demo_mounted)) = Some (Inr ''/mnt/alphvdr/core_dump_42_7.bin'')"
    "\<nexists>d. from_file (read_bytes demo_kp (ran demo_mounted) ''/mnt/alphvdr/core_dump_42_7.bin'') = Done d"
    by (simp_all add: demo_located from_file_def)
  then show ?thesis using failed_run_stays_mounted [OF watch mount, of _ demo_client] by (auto simp: fresh_kp_def)
qed

text \<open>Commands that start leave one entry each.\<close>

lemma status_of_starts:
  assumes "\<And>tr x. kp_os ke tr x \<noteq> SpawnFailed"
  obtains ok where "status_of ke x st = (Some ok, st\<lparr>ran := ran st @ [x]\<rparr>)"
  using assms [of "ran st" x] by (cases "kp_os ke (ran st) x") (auto simp: status_of_def run_status_def)

definition cat_cmd :: "kp14_client \<Rightarrow> string \<Rightarrow> string \<Rightarrow> cmd" where
  "cat_cmd c dir ty = ssh_cmd c (''cat '' @ dir @ ''/'' @ ty @ ''.txt 2>/dev/null || true'')"

lemma read_remote_outputs:
  assumes "\<And>tr x. kp_os ke tr x \<noteq> SpawnFailed" and "\<not> is_local c"
  shows "\<exists>iocs. read_outputs ke c dir outs st =
    (Inr iocs, st\<lparr>ran := ran st @ map (\<lambda>x. cat_cmd c dir (fst x)) outs\<rparr>)"
proof (induction outs arbitrary: st)
  case (Cons x outs)
  obtain ty hunt where x: "x = (ty, hunt)" by (cases x)
  obtain found_text where t: "read_pipeline_output ke c dir ty st = (Inr found_text, st\<lparr>ran := ran st @ [cat_cmd c dir ty]\<rparr>)"
    using assms(1) [of "ran st" "cat_cmd c dir ty"] assms(2)
    by (cases "kp_os ke (ran st) (cat_cmd c dir ty)")
      (auto simp: read_pipeline_output_def output_of_def cat_cmd_def)
  obtain iocs where "read_outputs ke c dir outs (st\<lparr>ran := ran st @ [cat_cmd c dir ty]\<rparr>) =
      (Inr iocs, st\<lparr>ran := (ran st @ [cat_cmd c dir ty]) @ map (\<lambda>x. cat_cmd c dir (fst x)) outs\<rparr>)"
    using Cons.IH [of "st\<lparr>ran := ran st @ [cat_cmd c dir ty]\<rparr>"] by auto
  then show ?case by (simp add: x t)
qed simp

lemma ran_push: "push_iocs_to_misp ke iocs st = (r, st1) \<Longrightarrow> ran st1 = ran st"
  by (auto simp: push_iocs_to_misp_def split: if_splits)

text \<open>
  C31. Remote analysis in order: a run that ends well has copied the dump, run the pipeline on the
  copy, read the four outputs and removed the copy, in this order and with nothing else in
  between; a pipeline that fails ends the run, and the copy stays on the analysis machine.
\<close>

theorem remote_analysis_in_order:
  assumes "\<not> is_local c" and "run_remote_analysis ke c path st = (r, st')"
    and "now ke 0 = Some t" and "now ke 1 = Some t1" and "now ke 2 = Some t2"
    and "\<And>tr x. kp_os ke tr x \<noteq> SpawnFailed"
    and "out = output_base c @ ''/remote_carved_'' @ show_nat t1"
    and "copy = transfer_cmd c path t"
    and "run = ssh_cmd c (pipeline_text c (remote_path t) (''remote_carved_'' @ show_nat t1) out)"
  shows "(\<forall>iocs. r = Done iocs \<longrightarrow> ran st' = ran st @ [copy, run] @
        map (\<lambda>ty. ssh_cmd c (''cat '' @ out @ ''/'' @ ty @ ''.txt 2>/dev/null || true''))
          [''strings'', ''r2_analysis'', ''ghidra_decompilation'', ''capa''] @ [remove_cmd c t]) \<and>
    (r = Bail PipelineFailed \<longrightarrow> ran st' = ran st @ [copy, run])"
proof -
  note starts = status_of_starts [OF assms(6)]
  let ?run = "ssh_cmd c (pipeline_text c (remote_path t) (''remote_carved_'' @ show_nat t1) out)"
  let ?st1 = "st\<lparr>ran := ran st @ [copy]\<rparr>" and ?st2 = "st\<lparr>ran := ran st @ [copy, run]\<rparr>"
  let ?cats = "map (cat_cmd c out) [''strings'', ''r2_analysis'', ''ghidra_decompilation'', ''capa'']"
  let ?st3 = "st\<lparr>ran := ran st @ [copy, run] @ ?cats\<rparr>"
  obtain ok where copied: "status_of ke copy st = (Some ok, ?st1)" by (rule starts)
  obtain ok' where piped: "status_of ke run ?st1 = (Some ok', ?st2)"
    using starts [of run ?st1] by auto
  obtain iocs where extracted: "extract_iocs_from_output ke c out ?st2 = (Inr iocs, ?st3)"
    using read_remote_outputs [OF assms(6,1), of out "pipeline_outputs (kp_unicode ke)" ?st2]
    by (auto simp: extract_iocs_from_output_def pipeline_outputs_def simp del: read_outputs.simps)
  obtain p st4 where pushed: "push_iocs_to_misp ke iocs ?st3 = (p, st4)" by fastforce
  have st4: "ran st4 = ran st @ [copy, run] @ ?cats" using ran_push [OF pushed] by simp
  obtain ok'' where removed: "status_of ke (remove_cmd c t) st4 = (Some ok'', st4\<lparr>ran := ran st4 @ [remove_cmd c t]\<rparr>)"
    by (rule starts)
  have pipeline: "run_disassembly_pipeline ke c (now ke 2) (remote_path t) (''remote_carved_'' @ show_nat t1) ''malware'' ?st1 =
      (if ok' then Inr out else Inl PipelineFailed, ?st2)"
    using piped assms(1,5,7,9) by (cases ok') (simp_all add: run_disassembly_pipeline_def Let_def)
  have "(r, st') = (if \<not> ok then (Bail TransferFailed, ?st1)
      else if \<not> ok' then (Bail PipelineFailed, ?st2)
      else (case p of Inl e \<Rightarrow> (Bail e, st4)
        | Inr u \<Rightarrow> (Done iocs, st4\<lparr>ran := ran st4 @ [remove_cmd c t]\<rparr>)))"
    using assms(2-4) copied pipeline extracted pushed removed assms(8)
    by (cases ok; cases ok'; cases p) (simp_all add: run_remote_analysis_def analyse_remote_def)
  then show ?thesis
    using st4 pushed
    by (auto simp: cat_cmd_def push_iocs_to_misp_def split: if_splits sum.splits)
qed

theorem remote_analysis_in_order_witness:
  "\<exists>iocs st'. run_remote_analysis demo_run demo_client ''/tmp/b.bin'' fresh_kp = (Done iocs, st') \<and>
     length (ran st') = 7"
proof -
  have remote: "\<not> is_local demo_client" by (simp add: demo_client_def with_ssh_host_def)
  obtain iocs st' where r: "run_remote_analysis demo_run demo_client ''/tmp/b.bin'' fresh_kp = (Done iocs, st')"
    by (simp add: run_remote_analysis_def analyse_remote_def run_disassembly_pipeline_def status_of_def
        run_status_def push_iocs_to_misp_def extract_iocs_from_output_def pipeline_outputs_def
        read_pipeline_output_def output_of_def Let_def remote from_utf8_lossy_def hunt_exact_lemma
        clean_words_def split_whitespace_def parse_capa_mitre_def lines_def dedup_def)
  have "kp_os demo_run tr x \<noteq> SpawnFailed" for tr x by simp
  with remote_analysis_in_order [OF remote r demo_fields(11) demo_fields(11) demo_fields(11) _ refl refl refl] r
  show ?thesis by (auto simp: fresh_kp_def)
qed

end
