(* ===== verification/Ioc_Types.thy ===== *)
theory Ioc_Types
  imports Kp14_Runs Misp
begin

text \<open>
  The types of the indicators a run hands over: each value has the form its type stands for, and
  the types no hunt looks for come from the program's constants only.
\<close>

section \<open>Types of indicators\<close>

definition of_type :: "unicode \<Rightarrow> ioc \<Rightarrow> bool" where
  "of_type u i \<longleftrightarrow>
     (case i_type i of
        IpAddress \<Rightarrow> is_valid_ipv4 (i_value i)
      | Url \<Rightarrow> has_url_prefix (i_value i)
      | FilePath \<Rightarrow> has_path_prefix (i_value i)
      | DomainName \<Rightarrow> domain_like u (i_value i) \<and> \<not> starts_with (i_value i) ''127.''
      | MitreTechnique \<Rightarrow> technique_like u (i_value i)
      | _ \<Rightarrow> False)"

abbreviation all_typed :: "unicode \<Rightarrow> ioc list \<Rightarrow> bool" where
  "all_typed u xs \<equiv> (\<forall>i \<in> set xs. of_type u i)"

text \<open>What produces typed indicators from a text, and what passes them on.\<close>

locale typed_hunt =
  fixes hunt :: "unicode \<Rightarrow> string \<Rightarrow> ioc list"
  assumes hunts: "all_typed u (hunt u text)"
begin

lemma maybe_hunts: "all_typed u (case r of Inl (e :: kp14_error) \<Rightarrow> [] | Inr out \<Rightarrow> hunt u out)"
  using hunts by (cases r) auto

end

interpretation strings: typed_hunt hunt_iocs_in_text
  by unfold_locales (auto simp: hunt_exact_lemma of_type_def)

interpretation capa: typed_hunt parse_capa_mitre
  by unfold_locales (auto simp: parse_capa_mitre_def regex_words of_type_def)

lemma read_outputs_typed:
  "(\<And>x t. x \<in> set outs \<Longrightarrow> all_typed u (snd x t)) \<Longrightarrow>
     read_outputs ke c dir outs st = (Inr xs, st') \<Longrightarrow> all_typed u xs"
proof (induction outs arbitrary: xs st)
  case (Cons x outs)
  from Cons.prems(2) obtain body rest st1 where "read_outputs ke c dir outs st1 = (Inr rest, st')"
    "xs = snd x body @ rest"
    by (cases x) (auto split: prod.splits sum.splits)
  moreover have "all_typed u (snd x body)" "\<And>y t. y \<in> set outs \<Longrightarrow> all_typed u (snd y t)"
    using Cons.prems(1) by (metis list.set_intros)+
  moreover from this(2) calculation(1) have "all_typed u rest" by (rule Cons.IH)
  ultimately show ?case by (metis Un_iff set_append)
qed simp

lemma extract_typed:
  assumes "extract_iocs_from_output ke c dir st = (Inr xs, st')"
  shows "all_typed (kp_unicode ke) xs"
proof -
  have outs: "all_typed (kp_unicode ke) (snd x t)" if "x \<in> set (pipeline_outputs (kp_unicode ke))" for x t
    using that strings.hunts capa.hunts by (auto simp: pipeline_outputs_def)
  obtain rest where "read_outputs ke c dir (pipeline_outputs (kp_unicode ke)) st = (Inr rest, st')" "xs = dedup rest"
    using assms by (auto simp: extract_iocs_from_output_def split: prod.splits sum.splits)
  with read_outputs_typed [OF outs] dedup_subset show ?thesis by blast
qed

lemma triage_typed:
  assumes "all_typed (kp_unicode ke) (fst acc)"
  shows "all_typed (kp_unicode ke) (fst (triage_binary ke c project acc bin))"
proof -
  obtain r st1 where r: "run_radare2_triage ke c bin (snd acc) = (r, st1)" by force
  show ?thesis using assms strings.maybe_hunts [of "kp_unicode ke" r] by (auto simp: triage_binary_def r split: sum.splits)
qed

lemma triage_all_typed:
  "all_typed (kp_unicode ke) (fst acc) \<Longrightarrow> all_typed (kp_unicode ke) (fst (foldl (triage_binary ke c project) acc bins))"
proof (induction bins arbitrary: acc)
  case (Cons bin bins)
  from Cons.IH [OF triage_typed [OF Cons.prems]] show ?case by simp
qed simp

lemma full_dump_typed: "all_typed (kp_unicode ke) (fst (analyse_full_dump ke c pid path st))"
proof -
  obtain r st1 where r: "run_radare2_triage ke c path st = (r, st1)" by force
  have hunted: "all_typed (kp_unicode ke) (case r of Inl e \<Rightarrow> [] | Inr out \<Rightarrow> hunt_iocs_in_text (kp_unicode ke) out)"
    by (rule strings.maybe_hunts)
  obtain q st2 where q: "run_disassembly_pipeline ke c (now ke 0) path (''carved_pid_'' @ show_i32 pid) ''malware'' st1 = (q, st2)"
    by force
  define found where "found = (case r of Inl e \<Rightarrow> [] | Inr out \<Rightarrow> hunt_iocs_in_text (kp_unicode ke) out)"
  have run: "analyse_full_dump ke c pid path st = (case q of
      Inl e \<Rightarrow> (found, st2)
    | Inr dir \<Rightarrow> (case extract_iocs_from_output ke c dir st2 of
        (Inl e, st3) \<Rightarrow> (found, st3) | (Inr iocs, st3) \<Rightarrow> (found @ iocs, st3)))"
    by (simp only: analyse_full_dump_def r q prod.case Let_def found_def)
  show ?thesis
    using hunted extract_typed [of ke c] unfolding run found_def [symmetric]
    by (auto split: sum.split prod.split)
qed

text \<open>A run of the daemon adds its constants and nothing else.\<close>

lemma gathered_types:
  assumes "i \<in> set (fst (gather_iocs ke c d bins st))"
  shows "of_type (kp_unicode ke) i \<or> i \<in> set mock_iocs"
proof -
  define t where "t = foldl (triage_binary ke c (''pid_'' @ show_i32 (d_pid d))) ([], st) bins"
  have triaged: "all_typed (kp_unicode ke) (fst t)" unfolding t_def by (rule triage_all_typed) simp
  have "gather_iocs ke c d bins st =
      (let all_iocs = fst t @ hunt_iocs_in_text (kp_unicode ke) (join_lines (extract_strings 6 d)) @ mock_iocs;
           st2 = cleanup_mount ke (snd t)
       in if bins = [] then (all_iocs, st2)
          else (case analyse_full_dump ke c (d_pid d) (last bins) st2 of (later, st3) \<Rightarrow> (all_iocs @ later, st3)))"
    unfolding gather_iocs_def t_def [symmetric] by (cases t) simp
  then have "set (fst (gather_iocs ke c d bins st)) \<subseteq> set (fst t) \<union>
      set (hunt_iocs_in_text (kp_unicode ke) (join_lines (extract_strings 6 d))) \<union> set mock_iocs \<union>
      set (fst (analyse_full_dump ke c (d_pid d) (last bins) (cleanup_mount ke (snd t))))"
    by (cases "analyse_full_dump ke c (d_pid d) (last bins) (cleanup_mount ke (snd t))") (auto simp: Let_def)
  with assms triaged strings.hunts full_dump_typed show ?thesis by blast
qed

definition unhunted :: "ioc_type set" where "unhunted = {FileHash, RegistryKey, Mutex, YaraRule}"

lemma typed_hunted: "of_type u i \<Longrightarrow> i_type i \<notin> unhunted"
  by (auto simp: of_type_def unhunted_def)

lemma mock_unhunted: "i \<in> set mock_iocs \<Longrightarrow> i_type i \<in> unhunted"
  by (auto simp: mock_iocs_def unhunted_def)

lemma mock_kept:
  assumes "\<And>j. j \<in> set xs \<Longrightarrow> of_type u j \<or> j \<in> set mock_iocs" and "i \<in> set mock_iocs" and "i \<in> set xs"
  shows "i \<in> set (dedup xs)"
proof -
  obtain j where j: "j \<in> set (dedup xs)" "i_type j = i_type i" "i_value j = i_value i"
    using assms(3) by (rule dedup_covers)
  then have "j \<in> set mock_iocs"
    using assms(1) dedup_subset mock_unhunted [OF assms(2)] typed_hunted by (metis subsetD)
  with j(2,3) assms(2) have "j = i" by (auto simp: mock_iocs_def)
  with j(1) show ?thesis by simp
qed

text \<open>
  C18. The indicators of a run are well typed: an address is a dotted quad, a URL, path, domain or
  technique has the form of one, no two have the same type and value; and the hashes, registry
  keys, mutexes and rules a daemon run reports are always the same four constants, whatever
  the dump, while a remote analysis never reports any.
\<close>

theorem indicators_well_typed:
  assumes "run_daemon_pipeline ke c timeout st = Some (Done iocs, st')"
  shows "(\<forall>i \<in> set iocs. i_type i \<notin> unhunted \<longrightarrow> of_type (kp_unicode ke) i) \<and>
    {i \<in> set iocs. i_type i \<in> unhunted} = set mock_iocs \<and> distinct (map ioc_key iocs)"
proof -
  obtain d st1 where p: "process_dump ke c d st1 = (Done iocs, st')" using assms by (rule run_daemon_done)
  from p obtain bins st2 where i: "iocs = dedup (fst (gather_iocs ke c d bins st2))"
    by (rule process_dump_done) blast
  have kept: "i \<in> set iocs" if "i \<in> set mock_iocs" for i
    unfolding i using gathered_types mock_gathered that by (intro mock_kept) blast+
  have src: "of_type (kp_unicode ke) i \<or> i \<in> set mock_iocs" if "i \<in> set iocs" for i
    using that dedup_subset gathered_types unfolding i by blast
  then have "\<forall>i \<in> set iocs. i_type i \<notin> unhunted \<longrightarrow> of_type (kp_unicode ke) i"
    using mock_unhunted by blast
  moreover have "{i \<in> set iocs. i_type i \<in> unhunted} = set mock_iocs"
    using src typed_hunted kept mock_unhunted by blast
  ultimately show ?thesis using dedup_distinct by (simp add: i)
qed

theorem indicators_well_typed_witness:
  "\<exists>iocs st'. run_daemon_pipeline demo_run demo_client 10 fresh_kp = Some (Done iocs, st') \<and>
     {i \<in> set iocs. i_type i \<in> unhunted} = set mock_iocs"
  using demo_succeeds indicators_well_typed [of demo_run demo_client 10 fresh_kp] by blast

text \<open>A remote analysis reports typed indicators only, and none of the constants.\<close>

lemma remote_indicators_typed:
  assumes "run_remote_analysis ke c blob st = (Done iocs, st')"
  shows "all_typed (kp_unicode ke) iocs \<and> distinct (map ioc_key iocs) \<and> set iocs \<inter> set mock_iocs = {}"
proof -
  obtain path name st1 st2 where "analyse_remote ke c path name st1 = (Inr iocs, st2)"
    using assms by (auto simp: run_remote_analysis_def split: option.splits prod.splits bool.splits sum.splits)
  then obtain dir st3 st4 where e: "extract_iocs_from_output ke c dir st3 = (Inr iocs, st4)"
    by (auto simp: analyse_remote_def split: prod.splits sum.splits)
  then have "distinct (map ioc_key iocs)"
    using dedup_distinct by (auto simp: extract_iocs_from_output_def split: prod.splits sum.splits)
  with extract_typed [OF e] typed_hunted mock_unhunted show ?thesis by blast
qed

text \<open>
  The test of an address is weaker than the sidecar's parser: it takes numbers with leading zeros
  and signs, as \<open>parse::<u8>\<close> does, which the parser of addresses refuses.
\<close>

lemma address_not_parsed: "is_valid_ipv4 ''10.010.+1.7'' \<and> parse_ipv4 ''10.010.+1.7'' = None"
  by code_simp

end
