(* ===== verification/Kp14_Hunt.thy ===== *)
theory Kp14_Hunt
  imports Kp14_Iocs
begin

text \<open>
  What \<open>hunt_iocs_in_text\<close> of \<open>src/kp14_suite.rs\<close> finds, said of the text itself: an indicator is
  a stretch of the text between blanks, without the punctuation at its ends, that has one of
  four forms. Nothing of the word matcher occurs in these definitions: words and forms are
  given by the pieces a text is put together from. The theorem is about ASCII text, which is
  what the string scan of a dump yields.
\<close>

section \<open>Words of a text\<close>

definition blank :: "char \<Rightarrow> bool" where
  "blank c \<longleftrightarrow> c = CHR '' '' \<or> 9 \<le> (of_char c :: nat) \<and> of_char c \<le> (13 :: nat)"

definition capitals :: string where "capitals = ''ABCDEFGHIJKLMNOPQRSTUVWXYZ''"

definition smalls :: string where "smalls = ''abcdefghijklmnopqrstuvwxyz''"

definition decimals :: string where "decimals = ''0123456789''"

definition solid :: "char \<Rightarrow> bool" where
  "solid c \<longleftrightarrow> c \<in> set (capitals @ smalls @ decimals @ ''./:-'')"

text \<open>
  \<open>w\<close> stands in the text between two blanks, or the ends of the text, with nothing but
  punctuation around it, and itself begins and ends with a solid character.
\<close>

definition word_in :: "string \<Rightarrow> string \<Rightarrow> bool" where
  "word_in text w \<longleftrightarrow> (\<exists>before l r after. text = before @ l @ w @ r @ after \<and>
     (before = [] \<or> blank (last before)) \<and> (after = [] \<or> blank (hd after)) \<and>
     (\<forall>c \<in> set (l @ w @ r). \<not> blank c) \<and> (\<forall>c \<in> set (l @ r). \<not> solid c) \<and>
     w \<noteq> [] \<and> solid (hd w) \<and> solid (last w))"

section \<open>Forms of indicators\<close>

definition decimal_value :: "string \<Rightarrow> nat" where
  "decimal_value ds = foldl (\<lambda>v c. 10 * v + (of_char c - 48)) 0 ds"

text \<open>A number below 256, of any length; a plus sign may precede it.\<close>

definition octet :: "string \<Rightarrow> bool" where
  "octet s \<longleftrightarrow> (\<exists>sign ds. s = sign @ ds \<and> sign \<in> {[], ''+''} \<and> ds \<noteq> [] \<and> set ds \<subseteq> set decimals \<and>
     decimal_value ds < 256)"

definition dotted_quad :: "string \<Rightarrow> bool" where
  "dotted_quad w \<longleftrightarrow> (\<exists>a b c d. w = a @ ''.'' @ b @ ''.'' @ c @ ''.'' @ d \<and>
     octet a \<and> octet b \<and> octet c \<and> octet d)"

definition web_address :: "string \<Rightarrow> bool" where
  "web_address w \<longleftrightarrow> (\<exists>rest. w = ''http://'' @ rest \<or> w = ''https://'' @ rest)"

definition system_path :: "string \<Rightarrow> bool" where
  "system_path w \<longleftrightarrow> (\<exists>dir rest. w = ''/'' @ dir @ ''/'' @ rest \<and>
     dir \<in> {''usr'', ''tmp'', ''var'', ''etc'', ''home'', ''opt'', ''dev'', ''proc'', ''sys''})"

definition domain_name :: "string \<Rightarrow> bool" where
  "domain_name w \<longleftrightarrow> (\<exists>host tld. w = host @ ''.'' @ tld \<and> 2 \<le> length tld \<and>
      set tld \<subseteq> set (capitals @ smalls)) \<and>
     (\<nexists>a b. w = a @ ''localhost'' @ b) \<and> (\<nexists>rest. w = ''127.'' @ rest)"

section \<open>Splitting and trimming\<close>

lemma split_words_sound:
  "w \<in> set (split_words xs) \<Longrightarrow> \<exists>pre post. xs = pre @ w @ post \<and> w \<noteq> [] \<and> (\<forall>x \<in> set w. \<not> ws x) \<and>
     (pre = [] \<or> ws (last pre)) \<and> (post = [] \<or> ws (hd post))"
proof (induction xs rule: split_words.induct)
  case (2 x xs)
  show ?case
  proof (cases "ws x")
    case True
    with 2 obtain pre post where "xs = pre @ w @ post" "w \<noteq> []" "\<forall>x \<in> set w. \<not> ws x"
      "pre = [] \<or> ws (last pre)" "post = [] \<or> ws (hd post)" by auto
    with True show ?thesis by (intro exI [of _ "x # pre"] exI [of _ post]) auto
  next
    case False
    define t where "t = takeWhile (\<lambda>x. \<not> ws x) (x # xs)"
    define d where "d = dropWhile (\<lambda>x. \<not> ws x) xs"
    have whole: "x # xs = t @ d" and t: "t \<noteq> []" "\<forall>x \<in> set t. \<not> ws x"
      using False by (auto simp: t_def d_def dest: set_takeWhileD)
    have d: "d = [] \<or> ws (hd d)" using hd_dropWhile [of "\<lambda>x. \<not> ws x" xs] by (auto simp: d_def)
    from "2.prems" False consider "w = t" | "w \<in> set (split_words d)" by (auto simp: t_def d_def)
    then show ?thesis
    proof cases
      case 1
      with whole t d show ?thesis by (intro exI [of _ "[]"] exI [of _ d]) simp
    next
      case 2
      with "2.IH"(2) [OF False] obtain pre post where p: "d = pre @ w @ post" "w \<noteq> []" "\<forall>x \<in> set w. \<not> ws x"
        "pre = [] \<or> ws (last pre)" "post = [] \<or> ws (hd post)" unfolding d_def by blast
      then have "pre \<noteq> []" using d by (cases w) auto
      with p have "x # xs = (t @ pre) @ w @ post" "t @ pre = [] \<or> ws (last (t @ pre))"
        using whole by simp_all
      with p show ?thesis by blast
    qed
  qed
qed simp

lemma split_words_complete:
  assumes "w \<noteq> []" and "\<forall>x \<in> set w. \<not> ws x" and "pre = [] \<or> ws (last pre)" and "post = [] \<or> ws (hd post)"
  shows "w \<in> set (split_words (pre @ w @ post))"
proof -
  have here: "split_words (w @ post) = w # split_words post"
    by (rule split_words_word) (use assms in \<open>auto simp: list_all_iff\<close>)
  show ?thesis
  proof (cases pre rule: rev_cases)
    case Nil
    with here show ?thesis by simp
  next
    case (snoc pre' x)
    with assms(3) have "split_words (pre @ w @ post) = split_words pre' @ split_words (w @ post)"
      using split_words_append [of x pre' "w @ post"] by simp
    with here show ?thesis by simp
  qed
qed

lemma trim_matches_iff:
  assumes "w \<noteq> []"
  shows "trim_matches P v = w \<longleftrightarrow>
    (\<exists>l r. v = l @ w @ r \<and> (\<forall>x \<in> set (l @ r). P x) \<and> \<not> P (hd w) \<and> \<not> P (last w))"
proof
  assume t: "trim_matches P v = w"
  let ?d = "dropWhile P v"
  have "v = takeWhile P v @ ?d" by simp
  moreover have "?d = trim_matches P v @ rev (takeWhile P (rev ?d))"
    unfolding trim_matches_def by (metis rev_append rev_rev_ident takeWhile_dropWhile_id)
  ultimately have "v = takeWhile P v @ w @ rev (takeWhile P (rev ?d))" using t by metis
  moreover have "\<forall>x \<in> set (takeWhile P v @ rev (takeWhile P (rev ?d))). P x"
    using set_takeWhileD [of _ P v] set_takeWhileD [of _ P "rev ?d"] by auto
  moreover have "\<not> P (hd w)" "\<not> P (last w)" using trim_matches_ends [of P v] t assms by simp_all
  ultimately show "\<exists>l r. v = l @ w @ r \<and> (\<forall>x \<in> set (l @ r). P x) \<and> \<not> P (hd w) \<and> \<not> P (last w)" by blast
next
  assume "\<exists>l r. v = l @ w @ r \<and> (\<forall>x \<in> set (l @ r). P x) \<and> \<not> P (hd w) \<and> \<not> P (last w)"
  then obtain l r where v: "v = l @ w @ r" "\<forall>x \<in> set l. P x" "\<forall>x \<in> set r. P x" "\<not> P (hd w)" "\<not> P (last w)"
    by auto
  have "dropWhile P v = w @ r" using v(1,2,4) assms by (cases w) (auto simp: dropWhile_append2)
  moreover have "dropWhile P (rev (w @ r)) = rev w"
    using v(3,5) assms dropWhile_append2 [of "rev r" P] by (cases w rule: rev_cases) simp_all
  ultimately show "trim_matches P v = w" by (simp add: trim_matches_def)
qed

section \<open>The words the matcher looks at\<close>

lemma ws_blank: "ws [c] \<longleftrightarrow> blank c"
proof -
  have "\<forall>c. ws [c] \<longleftrightarrow> blank c" by code_simp
  then show ?thesis by blast
qed

lemma letter_iff: "ascii_letter c \<longleftrightarrow> c \<in> set (capitals @ smalls)"
proof -
  have "\<forall>c. ascii_letter c \<longleftrightarrow> c \<in> set (capitals @ smalls)" by code_simp
  then show ?thesis by blast
qed

lemma digit_iff: "ascii_digit c \<longleftrightarrow> c \<in> set decimals"
proof -
  have "\<forall>c. ascii_digit c \<longleftrightarrow> c \<in> set decimals" by code_simp
  then show ?thesis by blast
qed

lemma dropped_solid: "dropped_char u [c] \<longleftrightarrow> \<not> solid c"
  by (auto simp: dropped_char_def solid_def is_alphanumeric_def is_alphabetic_def is_numeric_def
      letter_iff digit_iff)

lemma utf8_chars_map:
  "list_all (\<lambda>c. of_char c < (128 :: nat)) s \<Longrightarrow> utf8_chars s = map (\<lambda>c. [c]) s"
  using utf8_chars_ascii [of s "[]"] by simp

abbreviation chars_of :: "string \<Rightarrow> string list" where "chars_of s \<equiv> map (\<lambda>c. [c]) s"

lemma chars_append3:
  assumes "chars_of s = a @ b @ c"
  obtains x y z where "s = x @ y @ z" and "a = chars_of x" and "b = chars_of y" and "c = chars_of z"
proof -
  from iffD1 [OF map_eq_append_conv assms] obtain x t where x: "s = x @ t" "a = chars_of x" "b @ c = chars_of t"
    by blast
  from iffD1 [OF map_eq_append_conv x(3) [symmetric]] obtain y z where
    "t = y @ z" "b = chars_of y" "c = chars_of z" by blast
  with x that show ?thesis by simp
qed

lemma concat_chars [simp]: "concat (chars_of s) = s"
  by (induction s) simp_all

lemma chars_ends:
  "chars_of s = [] \<or> ws (last (chars_of s)) \<longleftrightarrow> s = [] \<or> blank (last s)"
  "chars_of s = [] \<or> ws (hd (chars_of s)) \<longleftrightarrow> s = [] \<or> blank (hd s)"
  by (cases "s = []"; simp add: last_map hd_map ws_blank)+

text \<open>The trimmed words that are not empty are the words of the text.\<close>

lemma clean_word_iff:
  assumes "list_all (\<lambda>c. of_char c < (128 :: nat)) text" and "w \<noteq> []"
  shows "w \<in> set (clean_words u text) \<longleftrightarrow> word_in text w"
proof
  assume "w \<in> set (clean_words u text)"
  then obtain v where v: "v \<in> set (split_words (chars_of text))" "w = concat (trim_matches (dropped_char u) v)"
    by (auto simp: clean_words_def split_whitespace_def utf8_chars_map [OF assms(1)])
  from split_words_sound [OF v(1)] obtain pre post where p: "chars_of text = pre @ v @ post"
    "\<forall>x \<in> set v. \<not> ws x" "pre = [] \<or> ws (last pre)" "post = [] \<or> ws (hd post)" by blast
  from p(1) obtain a x b where t: "text = a @ x @ b" "pre = chars_of a" "v = chars_of x" "post = chars_of b"
    by (rule chars_append3)
  let ?w = "trim_matches (dropped_char u) v"
  have "?w \<noteq> []" using v(2) assms(2) by auto
  with trim_matches_iff [of ?w "dropped_char u" v] obtain l r where
    lr: "v = l @ ?w @ r" "\<forall>x \<in> set (l @ r). dropped_char u x" "\<not> dropped_char u (hd ?w)" "\<not> dropped_char u (last ?w)"
    by blast
  from lr(1) have "chars_of x = l @ ?w @ r" unfolding t(3) .
  then obtain l' w' r' where s: "x = l' @ w' @ r'" "l = chars_of l'" "?w = chars_of w'" "r = chars_of r'"
    by (rule chars_append3)
  have w: "w = w'" using v(2) s(3) by simp
  have "(a = [] \<or> blank (last a)) \<and> (b = [] \<or> blank (hd b))"
    using p(3,4) unfolding t(2,4) chars_ends by blast
  moreover have "\<forall>c \<in> set x. \<not> blank c" using p(2) unfolding t(3) by (simp add: ws_blank)
  then have "\<forall>c \<in> set (l' @ w @ r'). \<not> blank c" unfolding s(1) w .
  moreover have "\<forall>c \<in> set (l' @ r'). \<not> solid c" using lr(2) unfolding s(2,4) by (simp add: ball_Un dropped_solid)
  moreover have "solid (hd w)" "solid (last w)"
    using lr(3,4) assms(2) unfolding s(3) w by (simp_all add: hd_map last_map dropped_solid)
  ultimately show "word_in text w"
    unfolding word_in_def using t(1) s(1) w assms(2)
    by (intro exI [of _ a] exI [of _ l'] exI [of _ r'] exI [of _ b]) simp
next
  assume "word_in text w"
  then obtain a l r b where t: "text = a @ l @ w @ r @ b" "a = [] \<or> blank (last a)" "b = [] \<or> blank (hd b)"
    "\<forall>c \<in> set (l @ w @ r). \<not> blank c" "\<forall>c \<in> set (l @ r). \<not> solid c" "solid (hd w)" "solid (last w)"
    unfolding word_in_def by blast
  let ?v = "chars_of (l @ w @ r)"
  have "?v \<in> set (split_words (chars_of a @ ?v @ chars_of b))"
    by (rule split_words_complete; (unfold chars_ends)?) (use t(2-4) assms(2) in \<open>simp_all add: ball_Un ws_blank\<close>)
  then have "?v \<in> set (split_whitespace text)"
    using utf8_chars_map [OF assms(1)] by (simp add: split_whitespace_def t(1))
  moreover have "trim_matches (dropped_char u) ?v = chars_of w"
    by (rule iffD2 [OF trim_matches_iff]; (intro exI [of _ "chars_of l"] exI [of _ "chars_of r"])?)
      (use t(5-7) assms(2) in \<open>simp_all add: ball_Un hd_map last_map dropped_solid\<close>)
  ultimately show "w \<in> set (clean_words u text)"
    unfolding clean_words_def set_map by (metis (lifting) concat_chars image_eqI)
qed

section \<open>Forms\<close>

lemma split_join:
  "split_on c s = ps \<Longrightarrow> ps \<noteq> [] \<and> (\<forall>p \<in> set ps. c \<notin> set p)"
proof (induction s arbitrary: ps)
  case (Cons x s)
  then show ?case by (auto split: list.splits if_splits)
qed auto

lemma split_cases:
  "split_on c s = p # ps \<longleftrightarrow> c \<notin> set p \<and>
     (if ps = [] then s = p else (\<exists>t. s = p @ c # t \<and> split_on c t = ps))"
proof (induction s arbitrary: p)
  case Nil
  have "split_on c t \<noteq> []" for t using split_join by blast
  then show ?case by auto
next
  case (Cons x s)
  have ne: "split_on c t \<noteq> []" for t using split_join by blast
  show ?case
  proof (cases "x = c")
    case True
    then show ?thesis using ne by (cases p) auto
  next
    case False
    obtain q qs where q: "split_on c s = q # qs" using ne by (cases "split_on c s") auto
    with False have "split_on c (x # s) = (x # q) # qs" by simp
    then show ?thesis
      using Cons.IH [of q] Cons.IH [of "tl p"] q False by (cases p) (auto split: if_splits)
  qed
qed

lemma split_four:
  "split_on c s = [p, q, r, t] \<longleftrightarrow> s = p @ c # q @ c # r @ c # t \<and> c \<notin> set (p @ q @ r @ t)"
  by (auto simp: split_cases)

lemma split_last:
  assumes "c \<notin> set t"
  shows "split_on c (h @ c # t) = split_on c h @ [t]"
proof (induction h)
  case Nil
  show ?case using assms by (simp add: split_cases)
next
  case (Cons x h)
  then show ?case using split_join [of c h] by (auto split: list.splits)
qed

lemma split_tail:
  "split_on c s = ps \<Longrightarrow> 2 \<le> length ps \<Longrightarrow> \<exists>h. s = h @ c # last ps"
proof (induction s arbitrary: ps)
  case (Cons x s)
  obtain q qs where q: "split_on c s = q # qs" using split_join by (cases "split_on c s") blast+
  show ?case
  proof (cases "qs = []")
    case True
    with Cons.prems q have "x = c" "ps = [[], q]" by (auto split: if_splits)
    moreover have "s = q" using q True by (simp add: split_cases)
    ultimately show ?thesis by (intro exI [of _ "[]"]) simp
  next
    case False
    then obtain h where "s = h @ c # last qs" using Cons.IH [OF q] by (cases qs) auto
    moreover have "last ps = last qs" using Cons.prems(1) q False by (auto split: if_splits)
    ultimately show ?thesis by (intro exI [of _ "x # h"]) simp
  qed
qed auto

lemma digit_value_iff: "digit_value c = Some d \<and> d < 10 \<longleftrightarrow> c \<in> set decimals \<and> d = of_char c - 48"
  unfolding digit_iff [symmetric] by (auto simp: digit_value_def ascii_digit_def Let_def split: if_splits)

abbreviation add_digit :: "nat \<Rightarrow> char \<Rightarrow> nat" where "add_digit v c \<equiv> 10 * v + (of_char c - 48)"

lemma add_digits_grow: "v \<le> foldl add_digit v s"
proof (induction s arbitrary: v)
  case (Cons c s)
  from Cons.IH [of "add_digit v c"] show ?case by simp
qed simp

lemma read_digits_iff:
  "acc < bound \<Longrightarrow> read_digits 10 bound acc s \<noteq> None \<longleftrightarrow> set s \<subseteq> set decimals \<and> foldl add_digit acc s < bound"
proof (induction s arbitrary: acc)
  case (Cons c s)
  show ?case
  proof (cases "c \<in> set decimals")
    case True
    then have d: "digit_value c = Some (of_char c - 48)" "(of_char c - 48 :: nat) < 10"
      using digit_value_iff by blast+
    have "foldl add_digit (add_digit acc c) s < bound \<Longrightarrow> add_digit acc c < bound"
      using add_digits_grow [of "add_digit acc c" s] by linarith
    with d True Cons.IH [of "add_digit acc c"] show ?thesis by (auto simp: mult.commute)
  next
    case False
    then have "digit_value c = None \<or> (\<exists>d. digit_value c = Some d \<and> \<not> d < 10)"
      using digit_value_iff by (cases "digit_value c") auto
    with False show ?thesis by auto
  qed
qed simp

definition number_text :: "string \<Rightarrow> bool" where
  "number_text ds \<longleftrightarrow> ds \<noteq> [] \<and> set ds \<subseteq> set decimals \<and> decimal_value ds < 256"

lemma either_prefix:
  "(\<exists>x y. s = x @ y \<and> x \<in> {a, b} \<and> Q y) \<longleftrightarrow> (\<exists>y. s = a @ y \<and> Q y) \<or> (\<exists>y. s = b @ y \<and> Q y)"
  by blast

lemma octet_cases: "octet s \<longleftrightarrow> number_text s \<or> (\<exists>ds. s = CHR ''+'' # ds \<and> number_text ds)"
  unfolding octet_def number_text_def either_prefix by simp

lemma octet_iff: "parse_unsigned 10 256 s \<noteq> None \<longleftrightarrow> octet s"
proof -
  have read: "read_digits 10 256 0 t \<noteq> None \<longleftrightarrow> number_text t" if "t \<noteq> []" for t
    using read_digits_iff [of 0 256 t] that by (simp add: number_text_def decimal_value_def)
  have plus: "\<not> number_text (CHR ''+'' # t)" "\<not> number_text []" for t
    by (simp_all add: number_text_def decimals_def)
  show ?thesis
  proof (cases s)
    case (Cons c cs)
    show ?thesis
    proof (cases "c = CHR ''+''")
      case True
      with Cons plus read [of cs] show ?thesis
        by (cases "cs = []") (simp_all add: parse_unsigned_def octet_cases)
    next
      case False
      with Cons read [of s] show ?thesis
        by (simp add: parse_unsigned_def octet_cases del: read_digits.simps)
    qed
  qed (simp add: parse_unsigned_def octet_cases plus)
qed

lemma octet_no_dot: "octet s \<Longrightarrow> CHR ''.'' \<notin> set s"
  by (auto simp: octet_def decimals_def)

lemma dotted_quad_iff: "is_valid_ipv4 w \<longleftrightarrow> dotted_quad w"
proof
  assume "is_valid_ipv4 w"
  then have n: "length (split_on (CHR ''.'') w) = 4" and o: "\<forall>p \<in> set (split_on (CHR ''.'') w). octet p"
    unfolding is_valid_ipv4_def Let_def list_all_iff octet_iff by blast+
  from n obtain a b c d where s: "split_on (CHR ''.'') w = [a, b, c, d]"
    by (auto simp: numeral_eq_Suc length_Suc_conv)
  with o show "dotted_quad w" unfolding dotted_quad_def by (fastforce simp: split_four)
next
  assume "dotted_quad w"
  then obtain a b c d where w: "w = a @ ''.'' @ b @ ''.'' @ c @ ''.'' @ d" "octet a" "octet b" "octet c" "octet d"
    by (auto simp: dotted_quad_def)
  then have "split_on (CHR ''.'') w = [a, b, c, d]" by (simp add: split_four octet_no_dot)
  with w show "is_valid_ipv4 w" unfolding is_valid_ipv4_def Let_def list_all_iff octet_iff by simp
qed

lemma web_address_iff: "has_url_prefix w \<longleftrightarrow> web_address w"
  unfolding has_url_prefix_def web_address_def starts_with_iff by blast

lemma pieces_iff: "(\<exists>d rest. w = a @ d @ b @ rest \<and> d \<in> D) \<longleftrightarrow> (\<exists>d \<in> D. starts_with w (a @ d @ b))"
  by (auto simp: starts_with_iff)

lemma system_path_iff: "has_path_prefix w \<longleftrightarrow> system_path w"
proof -
  have "system_path w \<longleftrightarrow> (\<exists>dir \<in> {''usr'', ''tmp'', ''var'', ''etc'', ''home'', ''opt'', ''dev'', ''proc'', ''sys''}.
      starts_with w (''/'' @ dir @ ''/''))"
    unfolding system_path_def by (rule pieces_iff)
  then show ?thesis by (simp add: has_path_prefix_def path_prefixes_def)
qed

lemma domain_name_iff:
  assumes "list_all (\<lambda>c. of_char c < (128 :: nat)) w"
  shows "domain_like u w \<and> \<not> starts_with w ''127.'' \<longleftrightarrow> domain_name w"
proof -
  let ?ps = "split_on (CHR ''.'') w"
  have alpha: "list_all (is_alphabetic u) (utf8_chars t) \<longleftrightarrow> set t \<subseteq> set (capitals @ smalls)"
    if "list_all (\<lambda>c. of_char c < (128 :: nat)) t" for t
    using that by (auto simp: utf8_chars_map list_all_iff is_alphabetic_def letter_iff)
  have "2 \<le> length ?ps \<and> 2 \<le> length (last ?ps) \<and> list_all (is_alphabetic u) (utf8_chars (last ?ps)) \<longleftrightarrow>
      (\<exists>host tld. w = host @ ''.'' @ tld \<and> 2 \<le> length tld \<and> set tld \<subseteq> set (capitals @ smalls))"
    (is "?l \<longleftrightarrow> ?r")
  proof
    assume l: ?l
    obtain t where t: "last ?ps = t" by blast
    from l obtain h where h: "w = h @ CHR ''.'' # t" using split_tail t by blast
    with assms have "list_all (\<lambda>c. of_char c < (128 :: nat)) t" by simp
    with l alpha have "2 \<le> length t \<and> set t \<subseteq> set (capitals @ smalls)" by (simp only: t)
    with h show ?r by (intro exI [of _ h] exI [of _ t]) simp
  next
    assume ?r
    then obtain h t where t: "w = h @ CHR ''.'' # t" "2 \<le> length t" "set t \<subseteq> set (capitals @ smalls)" by auto
    have "CHR ''.'' \<notin> set t" using t(3) by (auto simp: capitals_def smalls_def)
    then have "?ps = split_on (CHR ''.'') h @ [t]" by (simp add: t(1) split_last)
    moreover have "split_on (CHR ''.'') h \<noteq> []" using split_join by blast
    moreover have "list_all (\<lambda>c. of_char c < (128 :: nat)) t" using assms t(1) by simp
    ultimately show ?l using alpha t(2,3) by (simp add: Suc_le_eq)
  qed
  then show ?thesis
    unfolding domain_like_def Let_def domain_name_def starts_with_iff contains_iff by blast
qed

section \<open>What a hunt finds\<close>

lemma forms_not_empty:
  "\<not> dotted_quad []" "\<not> web_address []" "\<not> system_path []" "\<not> domain_name []"
  by (simp_all add: dotted_quad_def web_address_def system_path_def domain_name_def)

lemma word_in_ascii:
  "word_in text w \<Longrightarrow> list_all (\<lambda>c. of_char c < (128 :: nat)) text \<Longrightarrow> list_all (\<lambda>c. of_char c < (128 :: nat)) w"
  by (auto simp: word_in_def)

text \<open>
  C23. What a hunt finds in ASCII text. A word is a stretch of the text between blanks without
  the characters at its ends that are no letters, digits, dots, slashes, colons or dashes. A
  hunt reports as an address exactly the words that are four numbers below 256 with dots
  between, as a URL those that begin with \<open>http://\<close> or \<open>https://\<close>, as a path those that lie
  under one of nine system directories, and as a domain those that end in a dot and two or
  more letters, do not contain \<open>localhost\<close> and do not begin with \<open>127.\<close>; each with its own
  confidence, and nothing else.
\<close>

theorem hunt_finds:
  assumes "list_all (\<lambda>c. of_char c < (128 :: nat)) text"
  shows "set (hunt_iocs_in_text u text) =
    {\<lparr>i_type = IpAddress, i_value = w, confidence = 80, i_source = ''string_extraction''\<rparr> |w.
       word_in text w \<and> dotted_quad w} \<union>
    {\<lparr>i_type = Url, i_value = w, confidence = 90, i_source = ''string_extraction''\<rparr> |w.
       word_in text w \<and> web_address w} \<union>
    {\<lparr>i_type = FilePath, i_value = w, confidence = 60, i_source = ''string_extraction''\<rparr> |w.
       word_in text w \<and> system_path w} \<union>
    {\<lparr>i_type = DomainName, i_value = w, confidence = 50, i_source = ''string_extraction''\<rparr> |w.
       word_in text w \<and> domain_name w}"
proof -
  let ?ws = "set (clean_words u text)"
  have words: "w \<in> ?ws \<and> P w \<longleftrightarrow> word_in text w \<and> P w" if "\<not> P []" for P w
    using clean_word_iff [OF assms, of w u] that by (cases "w = []") (auto simp: word_in_def)
  have domains: "w \<in> ?ws \<and> domain_like u w \<and> \<not> starts_with w ''127.'' \<longleftrightarrow> word_in text w \<and> domain_name w" for w
  proof (cases "w \<in> ?ws \<and> w \<noteq> []")
    case True
    then have "word_in text w" using clean_word_iff [OF assms] by blast
    with domain_name_iff [OF word_in_ascii [OF this assms]] True show ?thesis by blast
  next
    case False
    have "\<not> domain_like u []" "\<not> word_in text []" by (simp_all add: domain_like_def word_in_def)
    with False clean_word_iff [OF assms, of w u] show ?thesis by blast
  qed
  have filtered: "set (filter (\<lambda>d. \<not> contains d ''localhost'' \<and> \<not> starts_with d ''127.'') (regex_simple u domain_pattern text)) =
      {w. word_in text w \<and> domain_name w}"
    using domains by (auto simp: regex_words domain_like_def Let_def)
  have "set (filter is_valid_ipv4 (regex_simple u ip_pattern text)) = {w. word_in text w \<and> dotted_quad w}"
    "set (regex_simple u url_pattern text) = {w. word_in text w \<and> web_address w}"
    "set (regex_simple u path_pattern text) = {w. word_in text w \<and> system_path w}"
    using words [of dotted_quad] words [of web_address] words [of system_path] forms_not_empty
    by (auto simp: regex_words dotted_quad_iff web_address_iff system_path_iff)
  with filtered show ?thesis
    unfolding hunt_iocs_in_text_def set_append set_map by (auto simp: found_def)
qed

definition demo_text :: string where "demo_text = ''cp (/tmp/x); ls''"

theorem hunt_finds_witness:
  "\<forall>u. \<lparr>i_type = FilePath, i_value = ''/tmp/x'', confidence = 60, i_source = ''string_extraction''\<rparr>
     \<in> set (hunt_iocs_in_text u demo_text)"
proof
  fix u
  have word: "word_in demo_text ''/tmp/x''"
    unfolding word_in_def
    by (intro exI [of _ "''cp ''"] exI [of _ "''(''"] exI [of _ "'');''"] exI [of _ "'' ls''"])
      (simp add: demo_text_def blank_def solid_def capitals_def smalls_def decimals_def)
  have "''/tmp/x'' = ''/'' @ ''tmp'' @ ''/'' @ ''x''" by simp
  then have path: "system_path ''/tmp/x''" unfolding system_path_def by blast
  have ascii: "list_all (\<lambda>c. of_char c < (128 :: nat)) demo_text" by (simp add: demo_text_def)
  from word path have "\<exists>w. \<lparr>i_type = FilePath, i_value = ''/tmp/x'', confidence = 60, i_source = ''string_extraction''\<rparr> =
      \<lparr>i_type = FilePath, i_value = w, confidence = 60, i_source = ''string_extraction''\<rparr> \<and>
      word_in demo_text w \<and> system_path w" by (intro exI conjI) (rule refl)
  then show "\<lparr>i_type = FilePath, i_value = ''/tmp/x'', confidence = 60, i_source = ''string_extraction''\<rparr>
     \<in> set (hunt_iocs_in_text u demo_text)"
    unfolding hunt_finds [OF ascii] Un_iff mem_Collect_eq by (intro disjI1 disjI2)
qed

end
