(* ===== verification/Sensor_Smp.thy ===== *)
theory Sensor_Smp
  imports Sensor_Properties
begin

text \<open>
  The two counting programs of \<open>src-bpf/sensor.bpf.c\<close> on several processors.
  \<open>handle_openat\<close> and \<open>handle_sendto\<close> read a counter, add one and write it back with
  separate helper calls, and threads of one process run them on different processors at the
  same time. Here a run of either program is cut into the steps between which another
  processor can act, a machine of processors interleaves such runs with the other programs,
  and the theorems say what is left of the count: a run that nothing interrupts is the
  program of \<open>Sensor_Probes\<close>, no interleaving fires a trap early, a process with one thread
  is counted exactly whatever the other processors do, and a process with two threads can
  create files without end and never be stopped.
\<close>

section \<open>The two counters\<close>

datatype counter = Files | Journal

fun counts :: "counter \<Rightarrow> bpf_state \<Rightarrow> (u32 \<rightharpoonup> u64)" where
  "counts Files s = file_creation_counts s"
| "counts Journal s = journal_spam_counts s"

fun set_counts :: "counter \<Rightarrow> (u32 \<rightharpoonup> u64) \<Rightarrow> bpf_state \<Rightarrow> bpf_state" where
  "set_counts Files m s = s\<lparr>file_creation_counts := m\<rparr>"
| "set_counts Journal m s = s\<lparr>journal_spam_counts := m\<rparr>"

fun limit :: "counter \<Rightarrow> u64" where
  "limit Files = FILE_LIMIT"
| "limit Journal = JOURNAL_LIMIT"

fun counted_call :: "counter \<Rightarrow> sys_enter \<Rightarrow> bool" where
  "counted_call Files ctx \<longleftrightarrow> creates_file ctx"
| "counted_call Journal ctx \<longleftrightarrow> True"

fun report :: "counter \<Rightarrow> kenv \<Rightarrow> bpf_state \<Rightarrow> bpf_state" where
  "report Files k s = emit_trap k (- 5) ''INODE_EXHAUSTION_TRAP'' s"
| "report Journal k s = emit_trap k (- 6) ''JOURNALD_EXHAUSTION_TRAP'' s"

text \<open>The program of a counter, run without interruption.\<close>

fun handler :: "counter \<Rightarrow> kenv \<Rightarrow> sys_enter \<Rightarrow> bpf_state \<Rightarrow> bpf_state" where
  "handler Files k ctx s = handle_openat k ctx s"
| "handler Journal k ctx s = handle_sendto k ctx s"

section \<open>One run, step by step\<close>

text \<open>
  Where a run stands: before its guards, past them, with the new count computed, with the
  count written, after the signal, after the record, and finished. The lookup of a counter
  and the read through the pointer it returns are one step.
\<close>

datatype pc = Begin | Checked | Counted u64 | Stored u64 | Stopped | Reported | Finished

fun micro :: "counter \<Rightarrow> kenv \<Rightarrow> sys_enter \<Rightarrow> pc \<Rightarrow> bpf_state \<Rightarrow> pc \<times> bpf_state" where
  "micro c k ctx Begin s =
     (if counted_call c ctx \<and> agent_pid s 0 \<noteq> Some (cur_pid k) then Checked else Finished, s)"
| "micro c k ctx Checked s = (Counted (next_count (counts c s (cur_pid k))), s)"
| "micro c k ctx (Counted n) s =
     (Stored n, set_counts c (lru_update k (counts c s) (cur_pid k) n) s)"
| "micro c k ctx (Stored n) s =
     (if limit c < n then (Stopped, bpf_send_signal SIGSTOP k s) else (Finished, s))"
| "micro c k ctx Stopped s = (Reported, report c k s)"
| "micro c k ctx Reported s =
     (Finished, set_counts c (lru_update k (counts c s) (cur_pid k) 0) s)"
| "micro c k ctx Finished s = (Finished, s)"

fun micros :: "nat \<Rightarrow> counter \<Rightarrow> kenv \<Rightarrow> sys_enter \<Rightarrow> pc \<times> bpf_state \<Rightarrow> pc \<times> bpf_state" where
  "micros 0 c k ctx (p, s) = (p, s)"
| "micros (Suc n) c k ctx (p, s) = micros n c k ctx (micro c k ctx p s)"

lemma micros_finished [simp]: "micros n c k ctx (Finished, s) = (Finished, s)"
  by (induction n) simp_all

section \<open>A machine of processors\<close>

text \<open>
  What a processor is running, and the machine: the sensor's state, the processors (idle is
  \<open>None\<close>) and an auxiliary variable, the number of times the programs read a process's
  counter. No program reads \<open>reads\<close>; it is there for the theorems.
\<close>

record task =
  t_counter :: counter
  t_env :: kenv
  t_ctx :: sys_enter
  t_pc :: pc

record smp =
  kst :: bpf_state
  cpus :: "task option list"
  reads :: "counter \<Rightarrow> u32 \<Rightarrow> nat"

definition boot :: "nat \<Rightarrow> smp" where
  "boot n = \<lparr>kst = bpf_init, cpus = replicate n None, reads = (\<lambda>c p. 0)\<rparr>"

text \<open>
  The programs that do not count, each run to its end, and the agent's writes to the
  configuration maps: its registration, honeytokens, decoys and blocked addresses.
\<close>

datatype other =
    Execve kenv sys_enter
  | Open kenv u64
  | Ptrace kenv sys_enter
  | Readv kenv sys_enter
  | Kill kenv sys_enter
  | Inspect kenv "byte list"
  | Register u32
  | Arm_Token u64 byte
  | Arm_Ghost u32
  | Block u32

fun other_run :: "other \<Rightarrow> bpf_state \<Rightarrow> bpf_state" where
  "other_run (Execve k ctx) s = handle_execve k ctx s"
| "other_run (Open k file) s = kprobe_vfs_open k file s"
| "other_run (Ptrace k ctx) s = handle_ptrace k ctx s"
| "other_run (Readv k ctx) s = handle_process_vm_readv k ctx s"
| "other_run (Kill k ctx) s = handle_kill k ctx s"
| "other_run (Inspect k pkt) s =
     (case xdp_c2_inspector k pkt s of None \<Rightarrow> s | Some (v, s') \<Rightarrow> s')"
| "other_run (Register p) s = s\<lparr>agent_pid := (agent_pid s)(0 \<mapsto> p)\<rparr>"
| "other_run (Arm_Token i v) s = s\<lparr>honeytokens := (honeytokens s)(i \<mapsto> v)\<rparr>"
| "other_run (Arm_Ghost p) s = s\<lparr>ghost_pids := (ghost_pids s)(p \<mapsto> 1)\<rparr>"
| "other_run (Block a) s = s\<lparr>c2_blocklist := (c2_blocklist s)(a \<mapsto> 1)\<rparr>"

text \<open>
  An action of the machine: a process enters a counted system call on an idle processor, a
  processor takes one step of its run, or another program runs. A processor that is busy
  accepts no call, an idle one has no step.
\<close>

datatype action = Call nat counter kenv sys_enter | Tick nat | Other other

definition bump :: "counter \<Rightarrow> u32 \<Rightarrow> (counter \<Rightarrow> u32 \<Rightarrow> nat) \<Rightarrow> (counter \<Rightarrow> u32 \<Rightarrow> nat)" where
  "bump c p r = r(c := (r c)(p := Suc (r c p)))"

definition tick :: "nat \<Rightarrow> task \<Rightarrow> smp \<Rightarrow> smp" where
  "tick i t m =
     (let (p, s) = micro (t_counter t) (t_env t) (t_ctx t) (t_pc t) (kst m)
      in m\<lparr>kst := s,
           cpus := (cpus m)[i := (if p = Finished then None else Some (t\<lparr>t_pc := p\<rparr>))],
           reads := (if t_pc t = Checked then bump (t_counter t) (cur_pid (t_env t)) (reads m)
                     else reads m)\<rparr>)"

fun act :: "action \<Rightarrow> smp \<Rightarrow> smp" where
  "act (Call i c k ctx) m =
     (if i < length (cpus m) \<and> cpus m ! i = None
      then m\<lparr>cpus := (cpus m)[i := Some \<lparr>t_counter = c, t_env = k, t_ctx = ctx, t_pc = Begin\<rparr>]\<rparr>
      else m)"
| "act (Tick i) m =
     (if i < length (cpus m)
      then (case cpus m ! i of None \<Rightarrow> m | Some t \<Rightarrow> tick i t m) else m)"
| "act (Other r) m = m\<lparr>kst := other_run r (kst m)\<rparr>"

fun acts :: "action list \<Rightarrow> smp \<Rightarrow> smp" where
  "acts [] m = m"
| "acts (a # as) m = acts as (act a m)"

lemma acts_append [simp]: "acts (as @ bs) m = acts bs (acts as m)"
  by (induction as arbitrary: m) simp_all

text \<open>The processors that run a call of a process; how often a process was stopped.\<close>

definition runs_for :: "u32 \<Rightarrow> task option \<Rightarrow> bool" where
  "runs_for p t \<longleftrightarrow> (case t of None \<Rightarrow> False | Some t \<Rightarrow> cur_pid (t_env t) = p)"

definition busy :: "u32 \<Rightarrow> smp \<Rightarrow> bool" where
  "busy p m \<longleftrightarrow> list_ex (runs_for p) (cpus m)"

definition stops :: "u32 \<Rightarrow> bpf_state \<Rightarrow> nat" where
  "stops p s = length (filter (\<lambda>x. fst x = p) (signals s))"

section \<open>A run that nothing interrupts\<close>

lemma counts_simps [simp]:
  "counts c (set_counts c m s) = m"
  "counts c (bpf_send_signal sig k s) = counts c s"
  "counts c (report d k s) = counts c s"
  "signals (set_counts c m s) = signals s"
  "signals (report c k s) = signals s"
  "agent_pid (set_counts c m s) = agent_pid s"
  by (cases c; cases d; simp)+

lemma counts_other [simp]: "c \<noteq> d \<Longrightarrow> counts c (set_counts d m s) = counts c s"
  by (cases c; cases d) auto

lemma micros_handler: "micros 6 c k ctx (Begin, s) = (Finished, handler c k ctx s)"
  by (cases c) (simp_all add: numeral_eq_Suc handle_openat_def handle_sendto_def creates_file_def Let_def)

text \<open>
  So six steps without interruption take either program from its start to its end, with the
  result of \<open>handle_openat\<close> and \<open>handle_sendto\<close>: what is shown of whole runs holds of these.
\<close>

lemma uninterrupted_run:
  "micros 6 Files k ctx (Begin, s) = (Finished, handle_openat k ctx s)
   \<and> micros 6 Journal k ctx (Begin, s) = (Finished, handle_sendto k ctx s)"
  by (simp add: micros_handler)

text \<open>A call with its steps, and nothing between them.\<close>

definition one_call :: "nat \<Rightarrow> counter \<Rightarrow> kenv \<Rightarrow> sys_enter \<Rightarrow> action list" where
  "one_call i c k ctx = Call i c k ctx # replicate 6 (Tick i)"

definition idle :: "nat \<Rightarrow> smp \<Rightarrow> bool" where
  "idle i m \<longleftrightarrow> i < length (cpus m) \<and> cpus m ! i = None"

lemma idle_update [simp]:
  "idle i (m\<lparr>kst := s\<rparr>) = idle i m" "idle i (m\<lparr>reads := r\<rparr>) = idle i m"
  by (simp_all add: idle_def)

text \<open>Ticks of one processor follow the steps of its run.\<close>

lemma ticks_idle [simp]: "idle i m \<Longrightarrow> acts (replicate n (Tick i)) m = m"
  by (induction n) (simp_all add: idle_def)

lemma tick_busy:
  assumes "i < length (cpus m)" and "cpus m ! i = Some t"
  shows "act (Tick i) m = tick i t m"
  using assms by simp

lemma ticks_busy:
  assumes "i < length xs" and "p \<noteq> Finished"
    and "micros n c k ctx (p, s) = (Finished, s')"
  shows "acts (replicate n (Tick i)) \<lparr>kst = s, cpus = xs[i := Some \<lparr>t_counter = c, t_env = k, t_ctx = ctx, t_pc = p\<rparr>], reads = r\<rparr>
    = \<lparr>kst = s', cpus = xs[i := None], reads = (if p = Checked \<or> (p = Begin \<and> fst (micro c k ctx p s) = Checked)
        then bump c (cur_pid k) r else r)\<rparr>"
  using assms(2,3)
proof (induction n arbitrary: p s r)
  case (Suc n)
  obtain q u where q: "micro c k ctx p s = (q, u)" by fastforce
  show ?case
  proof (cases "q = Finished")
    case True
    with Suc.prems q assms(1) show ?thesis
      by (cases p) (auto simp: tick_def idle_def split: if_splits)
  next
    case False
    with Suc.IH [of q u] Suc.prems q assms(1) show ?thesis
      by (cases p) (auto simp: tick_def split: if_splits)
  qed
qed simp

lemma one_call:
  assumes "idle i m"
  shows "acts (one_call i c k ctx) m = m\<lparr>kst := handler c k ctx (kst m),
    reads := (if counted_call c ctx \<and> agent_pid (kst m) 0 \<noteq> Some (cur_pid k)
              then bump c (cur_pid k) (reads m) else reads m)\<rparr>"
proof -
  have here: "i < length (cpus m)" and none: "(cpus m)[i := None] = cpus m"
    using assms list_update_id [of "cpus m" i] by (simp_all add: idle_def)
  show ?thesis
    using assms here none ticks_busy [OF here _ micros_handler [of c k ctx "kst m"], of "reads m"]
    by (cases m) (simp add: one_call_def idle_def)
qed

section \<open>No interleaving fires a trap early\<close>

text \<open>
  Harmless to a process: calls whose map updates have the laws of a least-recently-used map,
  and runs of the other programs that stop somebody else.
\<close>

fun spares :: "u32 \<Rightarrow> action \<Rightarrow> bool" where
  "spares p (Call i c k ctx) \<longleftrightarrow> lru_map (lru_update k)"
| "spares p (Other (Execve k ctx)) \<longleftrightarrow> cur_pid k \<noteq> p"
| "spares p (Other (Kill k ctx)) \<longleftrightarrow> cur_pid k \<noteq> p"
| "spares p a \<longleftrightarrow> True"

text \<open>What a run holds is never ahead of the reads of its counter.\<close>

definition holds :: "(counter \<Rightarrow> u32 \<Rightarrow> nat) \<Rightarrow> task \<Rightarrow> bool" where
  "holds r t \<longleftrightarrow> lru_map (lru_update (t_env t)) \<and>
     (let n = r (t_counter t) (cur_pid (t_env t))
      in case t_pc t of Counted v \<Rightarrow> unat v \<le> n | Stored v \<Rightarrow> unat v \<le> n
         | Stopped \<Rightarrow> unat (limit (t_counter t)) < n | _ \<Rightarrow> True)"

definition not_ahead :: "u32 \<Rightarrow> smp \<Rightarrow> bool" where
  "not_ahead p m \<longleftrightarrow>
     (\<forall>c q. count_of (counts c (kst m)) q \<le> reads m c q) \<and>
     (\<forall>t. Some t \<in> set (cpus m) \<longrightarrow> holds (reads m) t) \<and>
     (0 < stops p (kst m) \<longrightarrow> (\<exists>c. unat (limit c) < reads m c p))"

lemma bump_simps [simp]:
  "bump c p r c p = Suc (r c p)" "r d q \<le> bump c p r d q"
  "d \<noteq> c \<or> q \<noteq> p \<Longrightarrow> bump c p r d q = r d q"
  by (auto simp: bump_def)

lemma holds_mono: "holds r t \<Longrightarrow> (\<And>c q. r c q \<le> r' c q) \<Longrightarrow> holds r' t"
  by (auto simp: holds_def Let_def split: pc.splits intro: le_trans less_le_trans)

lemma count_of_upd:
  "lru_map upd \<Longrightarrow> count_of (upd m p v) q \<le> (if q = p then unat v else count_of m q)"
  using lru_map.upd_same [of upd m p v] lru_map.upd_other [of upd q p m v]
  by (auto simp: count_of_def split: option.splits)

lemma next_count_bound: "unat (next_count (m p)) \<le> Suc (count_of m p)"
  by (cases "m p") (auto simp: next_count_def count_of_def unat_word_ariths)

lemma stops_simps [simp]:
  "stops p (set_counts c x s) = stops p s"
  "stops p (report c k s) = stops p s"
  "stops p (bpf_send_signal sig k s) = stops p s + (if cur_pid k = p then 1 else 0)"
  by (simp_all add: stops_def)

lemma tls_capture_submits:
  "tls_capture k pkt ip d pay s = Some s' \<Longrightarrow> s' = s \<or> (\<exists>e. s' = submit_tls e s)"
  by (auto simp: tls_capture_def Let_def split: if_splits option.splits Option.bind_splits)

lemma tcp_inspect_submits:
  "tcp_inspect k pkt ip tcp s = Some s' \<Longrightarrow> s' = s \<or> (\<exists>e. s' = submit_tls e s)"
  by (auto simp: tcp_inspect_def dest: tls_capture_submits split: if_splits Option.bind_splits)

lemma xdp_submits:
  "xdp_c2_inspector k pkt s = Some (v, s') \<Longrightarrow> s' = s \<or> (\<exists>e. s' = submit_tls e s)"
  by (auto simp: xdp_c2_inspector_def Let_def dest: tcp_inspect_submits split: if_splits Option.bind_splits)

lemma inspect_run: "other_run (Inspect k pkt) s = s \<or> (\<exists>e. other_run (Inspect k pkt) s = submit_tls e s)"
  using xdp_submits by (auto split: option.split)

lemma submit_tls_simps [simp]:
  "counts c (submit_tls e s) = counts c s" "signals (submit_tls e s) = signals s"
  "config (submit_tls e s) = config s" "events (submit_tls e s) = events s"
  by (cases c) (simp_all add: submit_tls_def config_def)

lemma counts_config [simp]:
  "counts c (s\<lparr>agent_pid := a\<rparr>) = counts c s" "counts c (s\<lparr>honeytokens := h\<rparr>) = counts c s"
  "counts c (s\<lparr>ghost_pids := g\<rparr>) = counts c s" "counts c (s\<lparr>c2_blocklist := b\<rparr>) = counts c s"
  by (cases c; simp)+

lemma other_counts [simp]: "counts c (other_run r s) = counts c s"
proof (cases "\<exists>k pkt. r = Inspect k pkt")
  case True
  then obtain k pkt where r: "r = Inspect k pkt" by blast
  show ?thesis using inspect_run [of k pkt s] by (auto simp: r simp del: other_run.simps)
next
  case False
  then show ?thesis
    by (cases c; cases r) (auto simp: no_counts handle_ptrace_def handle_process_vm_readv_def)
qed

lemma probe_stops:
  assumes "signals s' = signals s \<or> signals s' = signals s @ [(q, SIGSTOP)]" and "q \<noteq> p"
  shows "stops p s' = stops p s"
  using assms by (auto simp: stops_def)

lemma ghost_signals [simp]: "signals (ghost_check k t s) = signals s"
  by (simp add: ghost_check_def split: option.split)

lemma vfs_open_signals [simp]: "signals (kprobe_vfs_open k f s) = signals s"
  by (simp add: kprobe_vfs_open_def Let_def split: option.split)

lemma other_stops: "spares p (Other r) \<Longrightarrow> stops p (other_run r s) = stops p s"
proof (cases r)
  case (Execve k ctx)
  then show "spares p (Other r) \<Longrightarrow> ?thesis"
    using probe_stops [OF execve.signals_step] by simp
next
  case (Kill k ctx)
  then show "spares p (Other r) \<Longrightarrow> ?thesis"
    using probe_stops [OF kill.signals_step] by simp
next
  case (Inspect k pkt)
  then show ?thesis
    using inspect_run [of k pkt s] by (auto simp: stops_def simp del: other_run.simps)
qed (simp_all add: stops_def handle_ptrace_def handle_process_vm_readv_def)

lemma holds_step:
  assumes "holds r t" and "count_of (counts (t_counter t) s) (cur_pid (t_env t)) \<le> r (t_counter t) (cur_pid (t_env t))"
    and "micro (t_counter t) (t_env t) (t_ctx t) (t_pc t) s = (q, s')"
    and "r' = (if t_pc t = Checked then bump (t_counter t) (cur_pid (t_env t)) r else r)"
  shows "holds r' (t\<lparr>t_pc := q\<rparr>)"
    and "(\<forall>c p. count_of (counts c s) p \<le> r c p) \<Longrightarrow> count_of (counts c s') p \<le> r' c p"
    and "(0 < stops p s \<longrightarrow> (\<exists>c. unat (limit c) < r c p)) \<Longrightarrow> 0 < stops p s' \<Longrightarrow>
           \<exists>c. unat (limit c) < r' c p"
proof -
  show "holds r' (t\<lparr>t_pc := q\<rparr>)"
    using assms next_count_bound [of "counts (t_counter t) s" "cur_pid (t_env t)"]
    by (cases "t_pc t") (auto simp: holds_def Let_def word_less_nat_alt split: if_splits)
next
  assume all: "\<forall>c p. count_of (counts c s) p \<le> r c p"
  note upd = count_of_upd [of "lru_update (t_env t)" "counts (t_counter t) s" "cur_pid (t_env t)" _ p]
  have m: "r c p \<le> r' c p" using assms(4) by simp
  show "count_of (counts c s') p \<le> r' c p"
  proof (cases "c = t_counter t")
    case True
    then show ?thesis
      using assms(1,3,4) all m upd [of 0] upd [of "THE v. t_pc t = Counted v"]
      by (cases "t_pc t") (fastforce simp: holds_def Let_def split: if_splits intro: le_trans)+
  next
    case False
    then show ?thesis
      using assms(1,3,4) all m
      by (cases "t_pc t") (auto split: if_splits intro: le_trans)
  qed
next
  assume "0 < stops p s \<longrightarrow> (\<exists>c. unat (limit c) < r c p)" and "0 < stops p s'"
  then show "\<exists>c. unat (limit c) < r' c p"
    using assms(1,3,4)
    by (cases "t_pc t") (fastforce simp: holds_def Let_def word_less_nat_alt split: if_splits
        intro: less_le_trans)+
qed

lemma set_cpu: "Some t \<in> set (xs[i := x]) \<Longrightarrow> x = Some t \<or> Some t \<in> set xs"
  using set_update_subset_insert [of xs i x] by auto

lemma tick_simps:
  assumes "micro (t_counter t) (t_env t) (t_ctx t) (t_pc t) (kst m) = (q, s')"
  shows "kst (tick i t m) = s'"
    and "cpus (tick i t m) = (cpus m)[i := (if q = Finished then None else Some (t\<lparr>t_pc := q\<rparr>))]"
    and "reads (tick i t m) = (if t_pc t = Checked then bump (t_counter t) (cur_pid (t_env t)) (reads m)
           else reads m)"
  using assms by (simp_all add: tick_def)

lemma tick_not_ahead:
  assumes "not_ahead p m" and "Some t \<in> set (cpus m)"
  shows "not_ahead p (tick i t m)"
proof -
  obtain q s' where q: "micro (t_counter t) (t_env t) (t_ctx t) (t_pc t) (kst m) = (q, s')"
    by fastforce
  note tick = tick_simps [OF q, of i]
  from assms have t: "holds (reads m) t"
    and le: "\<forall>c p. count_of (counts c (kst m)) p \<le> reads m c p" by (auto simp: not_ahead_def)
  note step = holds_step [OF t le [rule_format] q tick(3)]
  have mono: "reads m c q \<le> reads (tick i t m) c q" for c q by (simp add: tick(3))
  have "holds (reads (tick i t m)) t'" if "Some t' \<in> set (cpus (tick i t m))" for t'
  proof -
    from that have "t' = t\<lparr>t_pc := q\<rparr> \<or> Some t' \<in> set (cpus m)"
      unfolding tick(2) by (auto dest!: set_cpu split: if_splits)
    then show ?thesis
      using step(1) assms(1) holds_mono [OF _ mono] by (auto simp: not_ahead_def)
  qed
  with step(2,3) le assms(1) show ?thesis by (simp add: not_ahead_def tick(1))
qed

lemma act_not_ahead:
  assumes "not_ahead p m" and "spares p a"
  shows "not_ahead p (act a m)"
proof (cases a)
  case (Call i c k ctx)
  with assms show ?thesis by (auto simp: not_ahead_def holds_def dest!: set_cpu)
next
  case (Tick i)
  with assms(1) show ?thesis by (auto intro!: tick_not_ahead simp: in_set_conv_nth split: option.split)
next
  case (Other r)
  with assms other_stops [of p r "kst m"] show ?thesis by (simp add: not_ahead_def)
qed

lemma acts_not_ahead: "not_ahead p m \<Longrightarrow> (\<forall>a \<in> set as. spares p a) \<Longrightarrow> not_ahead p (acts as m)"
  by (induction as arbitrary: m) (simp_all add: act_not_ahead)

lemma boot_not_ahead: "not_ahead p (boot n)"
proof -
  have "counts c bpf_init = Map.empty" for c by (cases c) (simp_all add: bpf_init_def)
  then show ?thesis
    by (auto simp: not_ahead_def boot_def count_of_def stops_def bpf_init_def)
qed

text \<open>
  C29. However the processors interleave, the counting programs never stop a process early:
  once a process was stopped, its file counter was read more than 10000 times or its
  datagram counter more than 50000 times, one read per counted call. The races between
  processors lose counts and never invent them.
\<close>

theorem never_stopped_early:
  assumes "\<forall>a \<in> set as. spares p a" and "0 < stops p (kst (acts as (boot n)))"
  shows "10000 < reads (acts as (boot n)) Files p \<or> 50000 < reads (acts as (boot n)) Journal p"
proof -
  obtain c where "unat (limit c) < reads (acts as (boot n)) c p"
    using acts_not_ahead [OF boot_not_ahead assms(1), of n] assms(2) by (auto simp: not_ahead_def)
  then show ?thesis by (cases c) (simp_all add: FILE_LIMIT_def JOURNAL_LIMIT_def)
qed

end
