(* ===== verification/Smp_Counting.thy ===== *)
theory Smp_Counting
  imports Sensor_Smp
begin

text \<open>
  What the counters of \<open>handle_openat\<close> and \<open>handle_sendto\<close> are worth on several processors,
  over the machine of \<open>Sensor_Smp\<close>: exact for a process with one thread, whatever the other
  processors do, and worthless for a process with two.
\<close>

section \<open>A process with one thread is counted exactly\<close>

text \<open>
  One thread: a process enters no counted call while another of its calls is running. A
  gentle call evicts no entry of the process.
\<close>

fun one_thread :: "u32 \<Rightarrow> action list \<Rightarrow> smp \<Rightarrow> bool" where
  "one_thread p [] m \<longleftrightarrow> True"
| "one_thread p (a # as) m \<longleftrightarrow>
     (case a of Call i c k ctx \<Rightarrow> cur_pid k = p \<longrightarrow> \<not> busy p m | _ \<Rightarrow> True)
     \<and> one_thread p as (act a m)"

definition gentle :: "u32 \<Rightarrow> kenv \<Rightarrow> bool" where
  "gentle p k \<longleftrightarrow> lru_map (lru_update k) \<and>
     (\<forall>m q v. q \<noteq> p \<longrightarrow> lru_update k m q v p = m p)"

fun gentle_action :: "u32 \<Rightarrow> action \<Rightarrow> bool" where
  "gentle_action p (Call i c k ctx) \<longleftrightarrow> gentle p k"
| "gentle_action p a \<longleftrightarrow> spares p a"

fun rival :: "counter \<Rightarrow> counter" where
  "rival Files = Journal"
| "rival Journal = Files"

abbreviation cycle :: "counter \<Rightarrow> nat" where "cycle c \<equiv> Suc (unat (limit c))"

definition settled :: "u32 \<Rightarrow> counter \<Rightarrow> smp \<Rightarrow> bool" where
  "settled p c m \<longleftrightarrow> count_of (counts c (kst m)) p = reads m c p mod cycle c"

text \<open>Where the counter and the stops of a process are when one of its calls is at \<open>q\<close>.\<close>

definition in_phase :: "u32 \<Rightarrow> counter \<Rightarrow> pc \<Rightarrow> smp \<Rightarrow> bool" where
  "in_phase p c q m \<longleftrightarrow>
     (let n = reads m c p; x = count_of (counts c (kst m)) p;
          stopped = (\<lambda>y. stops p (kst m) = reads m (rival c) p div cycle (rival c) + y)
      in case q of
           Counted v \<Rightarrow> 0 < n \<and> x = (n - 1) mod cycle c \<and> unat v = Suc x \<and> stopped ((n - 1) div cycle c)
         | Stored v \<Rightarrow> 0 < n \<and> x = Suc ((n - 1) mod cycle c) \<and> unat v = x \<and> stopped ((n - 1) div cycle c)
         | Stopped \<Rightarrow> n mod cycle c = 0 \<and> stopped (n div cycle c)
         | Reported \<Rightarrow> n mod cycle c = 0 \<and> stopped (n div cycle c)
         | _ \<Rightarrow> x = n mod cycle c \<and> stopped (n div cycle c))"

definition exact :: "u32 \<Rightarrow> smp \<Rightarrow> bool" where
  "exact p m \<longleftrightarrow>
     (\<forall>t. Some t \<in> set (cpus m) \<longrightarrow> gentle p (t_env t)) \<and>
     (\<forall>i j. i < length (cpus m) \<longrightarrow> j < length (cpus m) \<longrightarrow> runs_for p (cpus m ! i) \<longrightarrow>
        runs_for p (cpus m ! j) \<longrightarrow> i = j) \<and>
     (\<not> busy p m \<longrightarrow> settled p Journal m \<and> in_phase p Files Finished m) \<and>
     (\<forall>t. Some t \<in> set (cpus m) \<longrightarrow> cur_pid (t_env t) = p \<longrightarrow>
        settled p (rival (t_counter t)) m \<and> in_phase p (t_counter t) (t_pc t) m)"

lemma unat_next: "count_of m p < 2 ^ 63 \<Longrightarrow> unat (next_count (m p)) = Suc (count_of m p)"
proof (cases "m p")
  case (Some c)
  moreover assume "count_of m p < 2 ^ 63"
  ultimately have "unat c + 1 < 2 ^ 64" by (simp add: count_of_def)
  with Some show ?thesis by (simp add: next_count_def count_of_def unat_word_ariths)
qed (simp add: next_count_def count_of_def)

lemma count_of_own: "lru_map upd \<Longrightarrow> count_of (upd m p v) p = unat v"
  by (simp add: count_of_def lru_map.upd_same)

lemma cycle_simps [simp]: "unat (limit c) < 2 ^ 62" "0 < cycle c"
  by (cases c; simp add: FILE_LIMIT_def JOURNAL_LIMIT_def)+

text \<open>One step of the process's own run keeps the phase.\<close>

lemma phase_step:
  fixes i :: nat
  assumes "gentle p (t_env t)" and "cur_pid (t_env t) = p"
    and "in_phase p (t_counter t) (t_pc t) m"
  defines "m' \<equiv> tick i t m" and "q \<equiv> fst (micro (t_counter t) (t_env t) (t_ctx t) (t_pc t) (kst m))"
  shows "in_phase p (t_counter t) q m'"
proof -
  obtain s' where mq: "micro (t_counter t) (t_env t) (t_ctx t) (t_pc t) (kst m) = (q, s')"
    unfolding q_def by (metis prod.collapse)
  note tick = tick_simps [OF mq, of i, folded m'_def]
  let ?c = "t_counter t" and ?x = "count_of (counts (t_counter t) (kst m)) p"
  have own: "count_of (lru_update (t_env t) f p v) p = unat v" for f v
    using assms(1) by (simp add: gentle_def count_of_own)
  have rivals: "rival ?c \<noteq> ?c" by (cases ?c) simp_all
  show ?thesis
  proof (cases "t_pc t")
    case Checked
    have "?x < cycle ?c" using assms(3) Checked by (simp add: in_phase_def Let_def)
    then have "unat (next_count (counts ?c (kst m) p)) = Suc ?x"
      using cycle_simps(1) [of ?c] by (intro unat_next) simp
    with Checked mq assms(2,3) rivals show ?thesis by (auto simp: in_phase_def Let_def tick)
  next
    case (Stored v)
    let ?d = "reads m ?c p - 1"
    have n: "reads m ?c p = Suc ?d" and v: "unat v = Suc (?d mod cycle ?c)"
      using assms(3) Stored by (simp_all add: in_phase_def Let_def)
    show ?thesis
    proof (cases "limit ?c < v")
      case True
      then have "?d mod cycle ?c = unat (limit ?c)"
        using v mod_less_divisor [of "cycle ?c" ?d] unfolding word_less_nat_alt by linarith
      then have "Suc ?d mod cycle ?c = 0" "Suc ?d div cycle ?c = Suc (?d div cycle ?c)"
        by (simp_all add: mod_Suc div_Suc)
      with n True Stored mq assms(2,3) show ?thesis by (auto simp: in_phase_def Let_def tick)
    next
      case False
      then have "Suc ?d mod cycle ?c = Suc (?d mod cycle ?c)" "Suc ?d div cycle ?c = ?d div cycle ?c"
        using v by (auto simp: mod_Suc div_Suc word_less_nat_alt)
      with n False Stored mq assms(2,3) show ?thesis by (auto simp: in_phase_def Let_def tick)
    qed
  qed (use mq assms(2,3) own rivals in \<open>auto simp: in_phase_def Let_def tick split: if_splits\<close>)
qed

text \<open>What a process sees of the machine, and that the other processes leave it alone.\<close>

definition same_view :: "u32 \<Rightarrow> smp \<Rightarrow> smp \<Rightarrow> bool" where
  "same_view p m m' \<longleftrightarrow> stops p (kst m') = stops p (kst m) \<and>
     (\<forall>c. count_of (counts c (kst m')) p = count_of (counts c (kst m)) p \<and> reads m' c p = reads m c p)"

lemma view_phase:
  assumes "same_view p m m'"
  shows "settled p c m' = settled p c m" and "in_phase p c q m' = in_phase p c q m"
  using assms by (simp_all add: same_view_def settled_def in_phase_def Let_def cong: pc.case_cong)

lemma foreign_tick:
  assumes "gentle p (t_env t)" and "cur_pid (t_env t) \<noteq> p"
  shows "same_view p m (tick i t m)"
proof -
  obtain q s' where mq: "micro (t_counter t) (t_env t) (t_ctx t) (t_pc t) (kst m) = (q, s')" by fastforce
  have keep: "lru_update (t_env t) f (cur_pid (t_env t)) v p = f p" for f v
    using assms by (simp add: gentle_def)
  have c: "count_of (counts c s') p = count_of (counts c (kst m)) p" for c
    using mq keep
    by (cases "c = t_counter t"; cases "t_pc t") (auto simp: count_of_def split: if_splits)
  have "stops p s' = stops p (kst m)"
    using mq assms(2) by (cases "t_pc t") (auto split: if_splits)
  with c assms(2) show ?thesis by (simp add: same_view_def tick_simps [OF mq])
qed

lemma finished_phase:
  "in_phase p c Finished m \<Longrightarrow> settled p (rival c) m \<Longrightarrow> settled p Journal m \<and> in_phase p Files Finished m"
  by (cases c) (auto simp: settled_def in_phase_def Let_def)

lemma phase_finished:
  "settled p Journal m \<Longrightarrow> in_phase p Files Finished m \<Longrightarrow> settled p (rival c) m \<and> in_phase p c Begin m"
  by (cases c) (auto simp: settled_def in_phase_def Let_def)

lemma busy_iff: "busy p m \<longleftrightarrow> (\<exists>i < length (cpus m). runs_for p (cpus m ! i))"
  by (auto simp: busy_def list_ex_length)

lemma rival_tick:
  assumes "micro (t_counter t) (t_env t) (t_ctx t) (t_pc t) (kst m) = (q, s')"
  shows "settled p (rival (t_counter t)) (tick i t m) = settled p (rival (t_counter t)) m"
proof -
  have r: "rival (t_counter t) \<noteq> t_counter t" by (cases "t_counter t") simp_all
  then have "counts (rival (t_counter t)) s' = counts (rival (t_counter t)) (kst m)"
    using assms by (cases "t_pc t") (auto split: if_splits)
  with r show ?thesis by (simp add: settled_def tick_simps [OF assms])
qed

lemma exactI:
  assumes "\<And>t. Some t \<in> set (cpus m) \<Longrightarrow> gentle p (t_env t)"
    and "\<And>i j. i < length (cpus m) \<Longrightarrow> j < length (cpus m) \<Longrightarrow> runs_for p (cpus m ! i) \<Longrightarrow>
           runs_for p (cpus m ! j) \<Longrightarrow> i = j"
    and "\<not> busy p m \<Longrightarrow> settled p Journal m \<and> in_phase p Files Finished m"
    and "\<And>t. Some t \<in> set (cpus m) \<Longrightarrow> cur_pid (t_env t) = p \<Longrightarrow>
           settled p (rival (t_counter t)) m \<and> in_phase p (t_counter t) (t_pc t) m"
  shows "exact p m"
  using assms unfolding exact_def by blast

lemma exactD:
  assumes "exact p m"
  shows exact_gentle: "Some t \<in> set (cpus m) \<Longrightarrow> gentle p (t_env t)"
    and exact_alone: "i < length (cpus m) \<Longrightarrow> j < length (cpus m) \<Longrightarrow> runs_for p (cpus m ! i) \<Longrightarrow>
          runs_for p (cpus m ! j) \<Longrightarrow> i = j"
    and exact_idle: "\<not> busy p m \<Longrightarrow> settled p Journal m \<and> in_phase p Files Finished m"
    and exact_own: "Some t \<in> set (cpus m) \<Longrightarrow> cur_pid (t_env t) = p \<Longrightarrow>
          settled p (rival (t_counter t)) m \<and> in_phase p (t_counter t) (t_pc t) m"
  using assms unfolding exact_def by blast+

text \<open>A state in which only processor \<open>i\<close> may run a call of the process.\<close>

lemma exact_single:
  assumes "\<And>t. Some t \<in> set (cpus m) \<Longrightarrow> gentle p (t_env t)" and "i < length (cpus m)"
    and "\<And>j. j < length (cpus m) \<Longrightarrow> runs_for p (cpus m ! j) \<Longrightarrow> j = i"
    and "settled p (rival c) m"
    and "cpus m ! i = None \<and> in_phase p c Finished m \<or>
      (\<exists>t. cpus m ! i = Some t \<and> cur_pid (t_env t) = p \<and> t_counter t = c \<and> in_phase p c (t_pc t) m)"
  shows "exact p m"
proof (rule exactI)
  fix j j' assume "j < length (cpus m)" "j' < length (cpus m)" "runs_for p (cpus m ! j)" "runs_for p (cpus m ! j')"
  then have "j = i" "j' = i" using assms(3) by blast+
  then show "j = j'" by simp
next
  assume "\<not> busy p m"
  then have "cpus m ! i = None \<and> in_phase p c Finished m"
    using assms(2,5) by (auto simp: busy_iff runs_for_def)
  then show "settled p Journal m \<and> in_phase p Files Finished m"
    using finished_phase [of p c m] assms(4) by simp
next
  fix t assume "Some t \<in> set (cpus m)" and pid: "cur_pid (t_env t) = p"
  then obtain j where "j < length (cpus m)" "cpus m ! j = Some t" by (auto simp: in_set_conv_nth)
  with pid assms(3) [of j] have "cpus m ! i = Some t" by (simp add: runs_for_def)
  then show "settled p (rival (t_counter t)) m \<and> in_phase p (t_counter t) (t_pc t) m"
    using assms(4,5) by auto
qed (fact assms(1))

lemma own_tick_exact:
  assumes "exact p m" and "i < length (cpus m)" and "cpus m ! i = Some t" and "cur_pid (t_env t) = p"
  shows "exact p (tick i t m)"
proof -
  obtain q s' where mq: "micro (t_counter t) (t_env t) (t_ctx t) (t_pc t) (kst m) = (q, s')" by fastforce
  note tick = tick_simps [OF mq, of i]
  let ?m = "tick i t m"
  have t: "Some t \<in> set (cpus m)" using assms(2,3) by (metis nth_mem)
  note own = exact_gentle [OF assms(1) t] exact_own [OF assms(1) t assms(4)]
  with phase_step [of p t m i] assms(4) mq rival_tick [OF mq, of p i]
  have now: "in_phase p (t_counter t) q ?m" "settled p (rival (t_counter t)) ?m" by simp_all
  show ?thesis
  proof (rule exact_single)
    fix t' assume "Some t' \<in> set (cpus ?m)"
    then show "gentle p (t_env t')"
      using own exact_gentle [OF assms(1)] by (auto simp: tick dest!: set_cpu split: if_splits)
  next
    fix j assume j: "j < length (cpus ?m)" "runs_for p (cpus ?m ! j)"
    show "j = i"
    proof (rule ccontr)
      assume "j \<noteq> i"
      with j exact_alone [OF assms(1), of j i] assms(2-4) show False by (simp add: tick runs_for_def)
    qed
  qed (use assms(2,4) now in \<open>auto simp: tick\<close>)
qed

text \<open>What happens elsewhere on the machine keeps a process's count exact.\<close>

lemma view_exact:
  assumes "exact p m" and "same_view p m m'" and "length (cpus m') = length (cpus m)"
    and "\<And>t. Some t \<in> set (cpus m') \<Longrightarrow> gentle p (t_env t)"
    and "\<And>i. i < length (cpus m) \<Longrightarrow> runs_for p (cpus m ! i) \<or> runs_for p (cpus m' ! i) \<Longrightarrow>
      cpus m' ! i = cpus m ! i"
  shows "exact p m'"
proof (rule exactI)
  fix t assume "Some t \<in> set (cpus m')" "cur_pid (t_env t) = p"
  moreover then obtain i where "i < length (cpus m)" "cpus m' ! i = Some t"
    using assms(3) by (auto simp: in_set_conv_nth)
  ultimately have "Some t \<in> set (cpus m)" using assms(5) [of i] by (auto simp: runs_for_def dest: nth_mem)
  from exact_own [OF assms(1) this \<open>cur_pid (t_env t) = p\<close>]
  show "settled p (rival (t_counter t)) m' \<and> in_phase p (t_counter t) (t_pc t) m'"
    by (simp add: view_phase [OF assms(2)])
next
  assume "\<not> busy p m'"
  then have "\<not> busy p m" using assms(3,5) by (auto simp: busy_iff)
  then show "settled p Journal m' \<and> in_phase p Files Finished m'"
    using exact_idle [OF assms(1)] by (simp add: view_phase [OF assms(2)])
next
  fix i j assume "i < length (cpus m')" "j < length (cpus m')" "runs_for p (cpus m' ! i)"
    "runs_for p (cpus m' ! j)"
  with assms(3) assms(5) [of i] assms(5) [of j] exact_alone [OF assms(1), of i j] show "i = j" by simp
qed (fact assms(4))

lemma foreign_tick_exact:
  assumes "exact p m" and "i < length (cpus m)" and "cpus m ! i = Some t" and "cur_pid (t_env t) \<noteq> p"
  shows "exact p (tick i t m)"
proof -
  obtain q s' where mq: "micro (t_counter t) (t_env t) (t_ctx t) (t_pc t) (kst m) = (q, s')" by fastforce
  have t: "gentle p (t_env t)"
    using exact_gentle [OF assms(1)] nth_mem [OF assms(2)] assms(3) by simp
  show ?thesis
  proof (rule view_exact [OF assms(1) foreign_tick [OF t assms(4)]])
    fix t' assume "Some t' \<in> set (cpus (tick i t m))"
    then show "gentle p (t_env t')"
      using exact_gentle [OF assms(1)] t
      by (auto simp: tick_simps [OF mq] dest!: set_cpu split: if_splits)
  next
    fix j assume "runs_for p (cpus m ! j) \<or> runs_for p (cpus (tick i t m) ! j)"
    then show "cpus (tick i t m) ! j = cpus m ! j"
      using assms(2-4)
      by (cases "j = i") (auto simp: tick_simps [OF mq] runs_for_def split: if_splits)
  qed (simp add: tick_simps [OF mq])
qed

lemma own_call_exact:
  assumes "exact p m" and "gentle p k" and "cur_pid k = p" and "\<not> busy p m" and "idle i m"
  shows "exact p (act (Call i c k ctx) m)"
proof -
  let ?t = "\<lparr>t_counter = c, t_env = k, t_ctx = ctx, t_pc = Begin\<rparr>"
  let ?m = "m\<lparr>cpus := (cpus m)[i := Some ?t]\<rparr>"
  have view: "same_view p m ?m" by (simp add: same_view_def)
  have "settled p Journal m \<and> in_phase p Files Finished m" using exact_idle [OF assms(1,4)] .
  then have new: "settled p (rival c) ?m" "in_phase p c Begin ?m"
    using phase_finished [of p m c] by (simp_all add: view_phase [OF view])
  have "exact p ?m"
  proof (rule exact_single)
    show "gentle p (t_env t)" if "Some t \<in> set (cpus ?m)" for t
      using that assms(2) exact_gentle [OF assms(1)] by (auto dest!: set_cpu)
  next
    fix j assume "j < length (cpus ?m)" "runs_for p (cpus ?m ! j)"
    then show "j = i" using assms(4) by (cases "j = i") (auto simp: busy_iff)
  qed (use assms(3,5) new in \<open>auto simp: idle_def\<close>)
  then show ?thesis using assms(5) by (simp add: idle_def)
qed

lemma foreign_call_exact:
  assumes "exact p m" and "gentle p k" and "cur_pid k \<noteq> p" and "idle i m"
  shows "exact p (act (Call i c k ctx) m)"
proof -
  let ?t = "\<lparr>t_counter = c, t_env = k, t_ctx = ctx, t_pc = Begin\<rparr>"
  let ?m = "m\<lparr>cpus := (cpus m)[i := Some ?t]\<rparr>"
  have view: "same_view p m ?m" by (simp add: same_view_def)
  have "exact p ?m"
  proof (rule view_exact [OF assms(1) view])
    show "gentle p (t_env t)" if "Some t \<in> set (cpus ?m)" for t
      using that assms(2) exact_gentle [OF assms(1)] by (auto dest!: set_cpu)
  next
    fix j assume "runs_for p (cpus m ! j) \<or> runs_for p (cpus ?m ! j)"
    then show "cpus ?m ! j = cpus m ! j"
      using assms(3,4) by (cases "j = i") (auto simp: runs_for_def idle_def split: if_splits)
  qed simp
  then show ?thesis using assms(4) by (simp add: idle_def)
qed

lemma act_exact:
  assumes "exact p m" and "gentle_action p a"
    and "case a of Call i c k ctx \<Rightarrow> cur_pid k = p \<longrightarrow> \<not> busy p m | _ \<Rightarrow> True"
  shows "exact p (act a m)"
proof (cases a)
  case (Call i c k ctx)
  with assms own_call_exact [OF assms(1), of k i c ctx] foreign_call_exact [OF assms(1), of k i c ctx]
  show ?thesis by (cases "cur_pid k = p") (auto simp: idle_def)
next
  case (Tick i)
  then show ?thesis
    using assms(1) own_tick_exact [OF assms(1), of i] foreign_tick_exact [OF assms(1), of i]
    by (auto split: option.split)
next
  case (Other r)
  then have view: "same_view p m (act a m)"
    using assms(2) other_stops [of p r "kst m"] by (simp add: same_view_def)
  show ?thesis
    by (rule view_exact [OF assms(1) view]) (use Other exact_gentle [OF assms(1)] in auto)
qed

lemma acts_exact:
  "exact p m \<Longrightarrow> \<forall>a \<in> set as. gentle_action p a \<Longrightarrow> one_thread p as m \<Longrightarrow> exact p (acts as m)"
  by (induction as arbitrary: m) (auto intro: act_exact)

lemma counts_init [simp]: "counts c bpf_init = Map.empty"
  by (cases c) (simp_all add: bpf_init_def)

lemma boot_exact: "exact p (boot n)"
  by (rule exactI)
    (auto simp: boot_def settled_def in_phase_def count_of_def stops_def bpf_init_def runs_for_def)

text \<open>
  C7. A process with one thread is counted exactly, whatever runs on the other processors
  and however they interleave, as long as the kernel does not evict its counters: between
  its calls each counter holds the number of its counted calls since the last stop, and it
  has been stopped once for every 10001 files and once for every 50001 datagrams.
\<close>

theorem one_thread_counted:
  assumes "\<forall>a \<in> set as. gentle_action p a" and "one_thread p as (boot n)"
  defines "m \<equiv> acts as (boot n)"
  assumes "\<not> busy p m"
  shows "count_of (file_creation_counts (kst m)) p = reads m Files p mod 10001
    \<and> count_of (journal_spam_counts (kst m)) p = reads m Journal p mod 50001
    \<and> stops p (kst m) = reads m Files p div 10001 + reads m Journal p div 50001"
  using exact_idle [OF acts_exact [OF boot_exact assms(1,2), folded m_def] assms(4)]
  by (simp add: settled_def in_phase_def Let_def FILE_LIMIT_def JOURNAL_LIMIT_def)

section \<open>A process with two threads is not counted\<close>

text \<open>
  One thread reads the counter and is delayed before it writes; meanwhile another thread of
  the same process makes \<open>n\<close> calls on the second processor; then the first one writes its
  stale count.
\<close>

definition calls :: "nat \<Rightarrow> nat \<Rightarrow> counter \<Rightarrow> kenv \<Rightarrow> sys_enter \<Rightarrow> action list" where
  "calls n i c k ctx = concat (replicate n (one_call i c k ctx))"

definition stale_round :: "nat \<Rightarrow> kenv \<Rightarrow> sys_enter \<Rightarrow> action list" where
  "stale_round n k ctx =
     [Call 0 Files k ctx, Tick 0, Tick 0] @ calls n 1 Files k ctx @ [Tick 0, Tick 0]"

text \<open>The machine while the two threads go on, and the counter they leave.\<close>

definition evading :: "u32 \<Rightarrow> nat \<Rightarrow> smp \<Rightarrow> bool" where
  "evading p x m \<longleftrightarrow> counts_ok (kst m) \<and> agent_pid (kst m) 0 = Some 0 \<and> signals (kst m) = [] \<and>
     count_of (file_creation_counts (kst m)) p = x"

lemma serial_calls:
  fixes n :: nat
  assumes "counted_call c ctx" and "agent_pid (kst m) 0 \<noteq> Some (cur_pid k)" and "idle i m"
  defines "m' \<equiv> acts (calls n i c k ctx) m"
  shows "kst m' = repeat_probe (handler c k ctx) n (kst m) \<and> cpus m' = cpus m \<and>
    reads m' c (cur_pid k) = reads m c (cur_pid k) + n"
  unfolding m'_def using assms(2,3)
proof (induction n arbitrary: m)
  case (Suc n)
  let ?m = "acts (one_call i c k ctx) m"
  have step: "kst ?m = handler c k ctx (kst m)" "cpus ?m = cpus m"
    "reads ?m c (cur_pid k) = Suc (reads m c (cur_pid k))"
    using one_call [OF Suc.prems(2)] Suc.prems(1) assms(1) by simp_all
  then have "agent_pid (kst ?m) = agent_pid (kst m)"
    by (cases c) (simp_all add: openat.keeps_agent sendto.keeps_agent)
  with Suc.IH [of ?m] Suc.prems step show ?case by (simp add: calls_def idle_def)
qed (simp add: calls_def)

lemma repeat_quiet:
  assumes "lru_map (lru_update k)" and "creates_file ctx" and "cur_pid k \<noteq> 0"
    and "evading (cur_pid k) x m" and "x + n \<le> 10000"
  shows "evading (cur_pid k) (x + n) (m\<lparr>kst := repeat_probe (handle_openat k ctx) n (kst m)\<rparr>)"
  using assms(5)
proof (induction n)
  case 0
  then show ?case using assms(4) by (simp add: evading_def)
next
  case (Suc n)
  let ?s = "repeat_probe (handle_openat k ctx) n (kst m)"
  from Suc have IH: "counts_ok ?s" "agent_pid ?s 0 = Some 0" "signals ?s = []"
    "count_of (file_creation_counts ?s) (cur_pid k) = x + n" by (simp_all add: evading_def)
  with openat_step [OF assms(1) IH(1) assms(2)] openat_counts [OF assms(1) IH(1)] Suc.prems assms(3)
  show ?case by (auto simp: evading_def repeat_probe_Suc openat_agent simp del: repeat_probe.simps)
qed

lemma calls_quiet:
  fixes n :: nat
  assumes "lru_map (lru_update k)" and "creates_file ctx" and "cur_pid k \<noteq> 0"
    and "evading (cur_pid k) x m" and "idle i m" and "x + n \<le> 10000"
  defines "m' \<equiv> acts (calls n i Files k ctx) m"
  shows "evading (cur_pid k) (x + n) m' \<and> cpus m' = cpus m \<and>
    reads m' Files (cur_pid k) = reads m Files (cur_pid k) + n"
proof -
  have h: "handler Files k ctx = handle_openat k ctx" by (rule ext) simp
  show ?thesis
    unfolding m'_def
    using serial_calls [of Files ctx m k i n] repeat_quiet [OF assms(1-4,6)] assms(2-5)
    by (simp add: evading_def h)
qed

lemma stale_round:
  fixes n :: nat
  assumes "lru_map (lru_update k)" and "creates_file ctx" and "cur_pid k \<noteq> 0"
    and "evading (cur_pid k) x m" and "cpus m = [None, None]" and "x + n \<le> 9999"
  defines "m' \<equiv> acts (stale_round n k ctx) m"
  shows "evading (cur_pid k) (Suc x) m' \<and> cpus m' = [None, None] \<and>
    reads m' Files (cur_pid k) = reads m Files (cur_pid k) + Suc n"
proof -
  let ?p = "cur_pid k"
  let ?v = "next_count (file_creation_counts (kst m) ?p)"
  let ?t = "\<lambda>q. \<lparr>t_counter = Files, t_env = k, t_ctx = ctx, t_pc = q\<rparr>"
  define m1 where "m1 = m\<lparr>cpus := [Some (?t (Counted ?v)), None], reads := bump Files ?p (reads m)\<rparr>"
  define m2 where "m2 = acts (calls n 1 Files k ctx) m1"
  have m: "counts_ok (kst m)" "agent_pid (kst m) 0 = Some 0" "count_of (file_creation_counts (kst m)) ?p = x"
    using assms(4) by (simp_all add: evading_def)
  have v: "unat ?v = Suc x" using unat_next [of "file_creation_counts (kst m)" ?p] m(3) assms(6) by simp
  then have low: "?v \<le> FILE_LIMIT" using assms(6) by (simp add: word_le_nat_alt FILE_LIMIT_def)
  have first: "acts [Call 0 Files k ctx, Tick 0, Tick 0] m = m1"
    using assms(2,3,5) m(2) by (simp add: m1_def tick_def)
  have "evading ?p x m1" using assms(4) by (simp add: evading_def m1_def)
  from calls_quiet [OF assms(1-3) this, of 1 n] assms(6)
  have m2: "evading ?p (x + n) m2" "cpus m2 = cpus m1"
    "reads m2 Files ?p = reads m Files ?p + Suc n"
    by (simp_all add: m2_def idle_def) (simp_all add: m1_def)
  have "acts (stale_round n k ctx) m = acts [Tick 0, Tick 0] m2"
    by (simp only: stale_round_def acts_append first m2_def)
  also have "\<dots> = m2\<lparr>kst := (kst m2)\<lparr>file_creation_counts :=
      lru_update k (file_creation_counts (kst m2)) ?p ?v\<rparr>, cpus := [None, None]\<rparr>"
    using low m2(2) by (simp add: tick_def m1_def)
  finally have m': "m' = \<dots>" by (simp add: m'_def)
  have "counts_ok (kst m')"
    using m2(1) lru_map.upd_keeps [OF assms(1), of "file_creation_counts (kst m2)" "\<lambda>c. c \<le> FILE_LIMIT" ?v ?p] low
    by (auto simp: m' evading_def counts_ok_def)
  with m2 v show ?thesis by (simp add: m' evading_def count_of_own [OF assms(1)])
qed

lemma stale_rounds:
  assumes "lru_map (lru_update k)" and "creates_file ctx" and "cur_pid k \<noteq> 0" and "r + n \<le> 10000"
  defines "m \<equiv> acts (concat (replicate r (stale_round n k ctx))) (boot 2)"
  shows "evading (cur_pid k) r m \<and> cpus m = [None, None] \<and> reads m Files (cur_pid k) = r * Suc n"
proof -
  have rounds: "evading (cur_pid k) (x + r) (acts (concat (replicate r (stale_round n k ctx))) m) \<and>
      cpus (acts (concat (replicate r (stale_round n k ctx))) m) = [None, None] \<and>
      reads (acts (concat (replicate r (stale_round n k ctx))) m) Files (cur_pid k) =
        reads m Files (cur_pid k) + r * Suc n"
    if "evading (cur_pid k) x m" "cpus m = [None, None]" "x + r + n \<le> 10000" for x m r
    using that
  proof (induction r arbitrary: x m)
    case (Suc r)
    from stale_round [OF assms(1-3) Suc.prems(1,2), of n] Suc.prems(3)
    have now: "evading (cur_pid k) (Suc x) (acts (stale_round n k ctx) m)"
      "cpus (acts (stale_round n k ctx) m) = [None, None]"
      "reads (acts (stale_round n k ctx) m) Files (cur_pid k) = reads m Files (cur_pid k) + Suc n"
      by simp_all
    from Suc.IH [OF now(1,2)] Suc.prems(3) now(3) show ?case by simp
  qed simp
  have "evading (cur_pid k) 0 (boot 2)" "cpus (boot 2) = [None, None]"
    by (simp_all add: evading_def boot_def counts_ok_def bpf_init_def count_of_def numeral_eq_Suc)
  from rounds [OF this, of r] assms(4) show ?thesis by (simp add: m_def boot_def)
qed

text \<open>
  C12. Two threads of one process can create files without end and never be stopped: for
  every \<open>r\<close> and \<open>n\<close> with \<open>r + n \<le> 10000\<close> there is an interleaving on two processors in which
  the process makes \<open>r * (n + 1)\<close> counted calls, more than 25 million for \<open>r = n = 5000\<close>,
  all of them complete, and the sensor holds a count of \<open>r\<close> and has sent no signal: a stale
  write throws away the \<open>n\<close> calls counted since its read.
\<close>

theorem threads_evade_count:
  assumes "lru_map (lru_update k)" and "creates_file ctx" and "cur_pid k \<noteq> 0" and "r + n \<le> 10000"
  shows "\<exists>as. let m = acts as (boot 2) in cpus m = [None, None] \<and>
    reads m Files (cur_pid k) = r * Suc n \<and>
    count_of (file_creation_counts (kst m)) (cur_pid k) = r \<and> signals (kst m) = []"
  using stale_rounds [OF assms] unfolding evading_def Let_def by blast

definition create_call :: sys_enter where
  "create_call = \<lparr>se_id = 257, se_args = [0, 0, 64]\<rparr>"

lemma create_call [simp]: "creates_file create_call"
  by (simp add: creates_file_def create_call_def lo32_def)

theorem threads_evade_count_witness:
  "\<exists>as. let m = acts as (boot 2) in cpus m = [None, None] \<and>
    reads m Files 7 = 5000 * Suc 5000 \<and>
    count_of (file_creation_counts (kst m)) 7 = 5000 \<and> signals (kst m) = []"
  using threads_evade_count [OF lru_run_by [of 7 0 "''sh''"] create_call, of 5000 5000] by simp

lemma repeat_signals:
  "set (signals (repeat_probe (handle_openat k ctx) n s)) \<subseteq> set (signals s) \<union> {(cur_pid k, SIGSTOP)}"
proof (induction n arbitrary: s)
  case (Suc n)
  from Suc.IH [of "handle_openat k ctx s"] openat.signals_step [of k ctx s] show ?case by auto
qed auto

theorem never_stopped_early_witness:
  "10000 < reads (acts (calls 10001 0 Files (run_by 7 0 ''sh'') create_call) (boot 1)) Files 7
   \<or> 50000 < reads (acts (calls 10001 0 Files (run_by 7 0 ''sh'') create_call) (boot 1)) Journal 7"
proof -
  define m where "m = acts (calls 10001 0 Files (run_by 7 0 ''sh'') create_call) (boot 1)"
  let ?k = "run_by 7 0 ''sh''"
  let ?s = "repeat_probe (handle_openat ?k create_call) 10001 bpf_init"
  have h: "handler Files ?k create_call = handle_openat ?k create_call" by (rule ext) simp
  have b: "counts_ok bpf_init" "count_of (file_creation_counts bpf_init) 7 = 0" "agent_pid bpf_init 0 \<noteq> Some 7"
    "signals bpf_init = []" by (simp_all add: bpf_init_def counts_ok_def count_of_def)
  have m: "kst m = ?s"
    using serial_calls [of Files create_call "boot 1" ?k 0 10001] b(3)
    by (simp add: m_def boot_def idle_def h del: repeat_probe.simps)
  have "length (signals ?s) = 1"
    using openat_repeat [OF lru_run_by b(1) create_call, of 7 0 "''sh''" 10001] b
    by (simp del: repeat_probe.simps)
  moreover have "\<forall>x \<in> set (signals ?s). fst x = 7"
    using repeat_signals [of ?k create_call 10001 bpf_init] b(4) by auto
  ultimately have "stops 7 (kst m) = 1" by (simp add: m stops_def del: repeat_probe.simps)
  moreover have "\<forall>a \<in> set (calls 10001 0 Files ?k create_call). spares 7 a"
    by (auto simp: calls_def one_call_def lru_run_by)
  ultimately show ?thesis unfolding m_def by (intro never_stopped_early) simp_all
qed

text \<open>A call of process 7, whole, between the read and the write of a call of process 9.\<close>

definition mixed_run :: "action list" where
  "mixed_run = [Call 1 Files (run_by 9 0 ''tar'') create_call, Tick 1, Tick 1] @
     one_call 0 Files (run_by 7 0 ''sh'') create_call"

lemma one_thread_append:
  "one_thread p (as @ bs) m \<longleftrightarrow> one_thread p as m \<and> one_thread p bs (acts as m)"
  by (induction as arbitrary: m) auto

lemma mixed_start:
  "acts [Call 1 Files (run_by 9 0 ''tar'') create_call, Tick 1, Tick 1] (boot 2) =
     \<lparr>kst = bpf_init, cpus = [None, Some \<lparr>t_counter = Files, t_env = run_by 9 0 ''tar'',
        t_ctx = create_call, t_pc = Counted 1\<rparr>], reads = bump Files 9 (\<lambda>c p. 0)\<rparr>"
  (is "acts [?c, _, _] _ = _")
proof -
  let ?t = "\<lambda>q. \<lparr>t_counter = Files, t_env = run_by 9 0 ''tar'', t_ctx = create_call, t_pc = q\<rparr>"
  let ?m = "\<lambda>q r. \<lparr>kst = bpf_init, cpus = [None, Some (?t q)], reads = r\<rparr>"
  have init: "agent_pid bpf_init 0 = Some 0" "file_creation_counts bpf_init = Map.empty"
    by (simp_all add: bpf_init_def)
  have "act ?c (boot 2) = ?m Begin (\<lambda>c p. 0)" by (simp add: boot_def numeral_2_eq_2)
  moreover have "act (Tick 1) (?m Begin (\<lambda>c p. 0)) = ?m Checked (\<lambda>c p. 0)"
    by (simp add: tick_def init)
  moreover have "act (Tick 1) (?m Checked (\<lambda>c p. 0)) = ?m (Counted 1) (bump Files 9 (\<lambda>c p. 0))"
    by (simp add: tick_def init next_count_def)
  ultimately show ?thesis by (simp only: acts.simps)
qed

lemma mixed_run:
  "\<not> busy 7 (acts mixed_run (boot 2))"
  "reads (acts mixed_run (boot 2)) Files 7 = 1" "reads (acts mixed_run (boot 2)) Journal 7 = 0"
proof -
  have agent: "agent_pid bpf_init 0 = Some 0" by (simp add: bpf_init_def)
  show "\<not> busy 7 (acts mixed_run (boot 2))"
    "reads (acts mixed_run (boot 2)) Files 7 = 1" "reads (acts mixed_run (boot 2)) Journal 7 = 0"
    unfolding mixed_run_def acts_append mixed_start
    by (simp_all add: one_call idle_def busy_def runs_for_def agent)
qed

theorem one_thread_counted_witness:
  "count_of (file_creation_counts (kst (acts mixed_run (boot 2)))) 7 = 1
   \<and> count_of (journal_spam_counts (kst (acts mixed_run (boot 2)))) 7 = 0
   \<and> stops 7 (kst (acts mixed_run (boot 2))) = 0"
proof -
  have g: "gentle 7 (run_by p u n)" for p u n
    by (simp add: gentle_def lru_run_by) (simp add: run_by_def lru_evict_def)
  have a: "\<forall>a \<in> set mixed_run. gentle_action 7 a" by (auto simp: mixed_run_def one_call_def g)
  have ticks: "one_thread 7 (replicate n (Tick i)) m" for n i m by (induction n arbitrary: m) simp_all
  have start: "one_thread 7 [Call 1 Files (run_by 9 0 ''tar'') create_call, Tick 1, Tick 1] m" for m
    by simp
  have r: "one_thread 7 mixed_run (boot 2)"
    unfolding mixed_run_def one_thread_append mixed_start one_call_def
    using start by (simp add: ticks busy_def runs_for_def)
  show ?thesis using one_thread_counted [OF a r mixed_run(1)] by (simp add: mixed_run(2,3))
qed

end
