(* ===== verification/Smp_Invariant.thy ===== *)
theory Smp_Invariant
  imports Smp_Counting
begin

text \<open>
  The invariant of the sensor when its programs interleave. \<open>Sensor_System\<close> takes each run of
  a program as one step; here the two programs that write a counter and later reset it are
  taken apart, as in \<open>Sensor_Smp\<close>, all other programs and the agent's map writes run between
  their steps, and the invariant says in which states a counter is above its limit: while a
  run that will reset it is under way.
\<close>

section \<open>Lawful actions\<close>

text \<open>The helpers behave as documented: sizes as in \<open>wf_kenv\<close>, counter maps as in \<open>lru_map\<close>.\<close>

fun lawful_other :: "other \<Rightarrow> bool" where
  "lawful_other (Execve k ctx) \<longleftrightarrow> wf_kenv k"
| "lawful_other (Open k file) \<longleftrightarrow> wf_kenv k"
| "lawful_other (Ptrace k ctx) \<longleftrightarrow> wf_kenv k"
| "lawful_other (Readv k ctx) \<longleftrightarrow> wf_kenv k"
| "lawful_other (Kill k ctx) \<longleftrightarrow> wf_kenv k"
| "lawful_other (Inspect k pkt) \<longleftrightarrow> wf_kenv k"
| "lawful_other r \<longleftrightarrow> True"

fun lawful :: "action \<Rightarrow> bool" where
  "lawful (Call i c k ctx) \<longleftrightarrow> wf_kenv k \<and> lru_map (lru_update k)"
| "lawful (Tick i) \<longleftrightarrow> True"
| "lawful (Other r) \<longleftrightarrow> lawful_other r"

section \<open>The invariant\<close>

text \<open>A run that has stored a count above the limit, or has passed that test, and will reset it.\<close>

definition resetting :: "counter \<Rightarrow> u32 \<Rightarrow> task \<Rightarrow> bool" where
  "resetting c p t \<longleftrightarrow> t_counter t = c \<and> cur_pid (t_env t) = p \<and>
     (case t_pc t of Stored n \<Rightarrow> limit c < n | Stopped \<Rightarrow> True | Reported \<Rightarrow> True | _ \<Rightarrow> False)"

definition in_flight :: "counter \<Rightarrow> u32 \<Rightarrow> smp \<Rightarrow> bool" where
  "in_flight c p m \<longleftrightarrow> (\<exists>i < length (cpus m). \<exists>t. cpus m ! i = Some t \<and> resetting c p t)"

definition counters_sound :: "smp \<Rightarrow> bool" where
  "counters_sound m \<longleftrightarrow>
     (\<forall>c p v. counts c (kst m) p = Some v \<and> limit c < v \<longrightarrow> in_flight c p m)"

definition state_sound :: "bpf_state \<Rightarrow> bool" where
  "state_sound s \<longleftrightarrow> rings_ok s \<and> agent_pid s 0 \<noteq> None \<and> (\<forall>x \<in> set (signals s). snd x = SIGSTOP)"

definition runs_lawful :: "smp \<Rightarrow> bool" where
  "runs_lawful m \<longleftrightarrow>
     (\<forall>t. Some t \<in> set (cpus m) \<longrightarrow> wf_kenv (t_env t) \<and> lru_map (lru_update (t_env t)))"

definition smp_inv :: "smp \<Rightarrow> bool" where
  "smp_inv m \<longleftrightarrow> state_sound (kst m) \<and> runs_lawful m \<and> counters_sound m"

lemma in_flightI: "i < length (cpus m) \<Longrightarrow> cpus m ! i = Some t \<Longrightarrow> resetting c p t \<Longrightarrow> in_flight c p m"
  by (auto simp: in_flight_def)

section \<open>The counters\<close>

text \<open>A step keeps its own run on the way to the reset, or is the reset.\<close>

lemma resetting_step:
  assumes "resetting c p t" and "micro (t_counter t) (t_env t) (t_ctx t) (t_pc t) s = (q, s')"
    and "lru_map (lru_update (t_env t))"
  shows "resetting c p (t\<lparr>t_pc := q\<rparr>) \<or> counts c s' p = Some 0"
  using assms(1,2) lru_map.upd_same [OF assms(3)]
  by (cases "t_pc t") (auto simp: resetting_def)

text \<open>A step that changes a counter resets it, or leaves a run that resets it when it is too high.\<close>

lemma changing_step:
  assumes "counts c s' p = Some v" and "counts c s p \<noteq> Some v" and "limit c < v"
    and "micro (t_counter t) (t_env t) (t_ctx t) (t_pc t) s = (q, s')"
    and "lru_map (lru_update (t_env t))"
  shows "resetting c p (t\<lparr>t_pc := q\<rparr>)"
proof (cases "t_counter t = c")
  case True
  note range = lru_map.upd_range [OF assms(5), of "counts c s"]
  show ?thesis
    using assms(1-4) True range [of "cur_pid (t_env t)" _ p v]
    by (cases "t_pc t") (fastforce simp: resetting_def split: if_splits)+
next
  case False
  with assms(4) have "counts c s' = counts c s" by (cases "t_pc t") (auto split: if_splits)
  with assms(1,2) show ?thesis by simp
qed

lemma resetting_unfinished: "resetting c p (t\<lparr>t_pc := q\<rparr>) \<Longrightarrow> q \<noteq> Finished"
  by (auto simp: resetting_def)

lemma tick_counters:
  assumes "counters_sound m" and "i < length (cpus m)" and "cpus m ! i = Some t"
    and lru: "lru_map (lru_update (t_env t))"
  shows "counters_sound (tick i t m)"
  unfolding counters_sound_def
proof (intro allI impI)
  fix c p v assume v: "counts c (kst (tick i t m)) p = Some v \<and> limit c < v"
  obtain q s' where q: "micro (t_counter t) (t_env t) (t_ctx t) (t_pc t) (kst m) = (q, s')"
    by fastforce
  note tick = tick_simps [OF q, of i]
  let ?t = "t\<lparr>t_pc := q\<rparr>"
  have own: "in_flight c p (tick i t m)" if "resetting c p ?t"
    using in_flightI [of i "tick i t m" ?t] resetting_unfinished that assms(2) tick(2) by auto
  show "in_flight c p (tick i t m)"
  proof (cases "counts c (kst m) p = Some v")
    case False
    then show ?thesis using changing_step [OF _ False _ q lru] v tick(1) own by simp
  next
    case True
    then obtain j u where j: "j < length (cpus m)" "cpus m ! j = Some u" "resetting c p u"
      using assms(1) v unfolding counters_sound_def in_flight_def by blast
    show ?thesis
    proof (cases "j = i")
      case True
      with j assms(3) have "resetting c p t" by simp
      from resetting_step [OF this q lru] v tick(1) own show ?thesis by (cases c) auto
    next
      case False
      with j tick(2) show ?thesis by (intro in_flightI [of j]) simp_all
    qed
  qed
qed

section \<open>Records, registration and signals\<close>

lemma state_sound_set_counts [simp]: "state_sound (set_counts c f s) = state_sound s"
  by (cases c) (simp_all add: state_sound_def rings_ok_def)

lemma state_sound_signal [simp]: "state_sound (bpf_send_signal SIGSTOP k s) = state_sound s"
  by (auto simp: state_sound_def rings_ok_def bpf_send_signal_def)

lemma state_sound_trap:
  assumes "wf_kenv k" and "length msg < 256" and "state_sound s"
  shows "state_sound (emit_trap k ind msg s)"
proof -
  have "agent_pid (emit_trap k ind msg s) = agent_pid s"
    using emit_trap_simps(3) [of k ind msg s] by (simp add: config_def)
  moreover have "rings_ok (emit_trap k ind msg s)"
    using emit_trap_record [OF assms(1,2), of s s ind] assms(3)
    by (auto simp: rings_ok_def state_sound_def one_record_def length_event_bytes)
  ultimately show ?thesis using assms(3) by (simp add: state_sound_def)
qed

lemma state_sound_config [simp]:
  "state_sound s \<Longrightarrow> state_sound (s\<lparr>agent_pid := (agent_pid s)(0 \<mapsto> p)\<rparr>)"
  "state_sound (s\<lparr>honeytokens := h\<rparr>) = state_sound s"
  "state_sound (s\<lparr>ghost_pids := g\<rparr>) = state_sound s" "state_sound (s\<lparr>c2_blocklist := b\<rparr>) = state_sound s"
  by (simp_all add: state_sound_def rings_ok_config)

lemma report_sound: "wf_kenv k \<Longrightarrow> state_sound s \<Longrightarrow> state_sound (report c k s)"
  by (cases c) (simp_all add: state_sound_trap)

lemma micro_sound:
  assumes "micro c k ctx pc s = (q, s')" and "wf_kenv k" and "state_sound s"
  shows "state_sound s'"
  using assms report_sound by (cases pc) (auto split: if_splits)

context probe
begin

lemma keeps_sound: "wf_kenv k \<Longrightarrow> state_sound s \<Longrightarrow> state_sound (run k c s)"
  using keeps_rings [of k s c] keeps_agent [of k c s] keeps_history [of k c s]
  by (fastforce simp: state_sound_def)

end

lemma inspect_sound:
  assumes "wf_kenv k" and "state_sound s"
  shows "state_sound (other_run (Inspect k pkt) s)"
proof -
  have "wf_tls (tls_record pkt e)" if "tls_slot k = Some e" for e
    using that assms(1) by (simp add: tls_record_def wf_tls_def wf_kenv_def Let_def length_memcpy)
  with assms show ?thesis
    by (auto simp: xdp_eq_spec xdp_spec_def submit_tls_def state_sound_def rings_ok_def length_tls_bytes
        split: option.splits)
qed

lemma other_sound:
  assumes "lawful_other r" and "state_sound s"
  shows "state_sound (other_run r s)"
proof (cases "\<exists>k pkt. r = Inspect k pkt")
  case True
  with assms inspect_sound show ?thesis by fastforce
next
  case False
  with assms show ?thesis
    by (cases r) (auto intro: execve.keeps_sound vfs_open.keeps_sound ptrace.keeps_sound
        vm_readv.keeps_sound kill.keeps_sound)
qed

section \<open>Every reachable state\<close>

lemma act_inv:
  assumes "smp_inv m" and "lawful a"
  shows "smp_inv (act a m)"
proof (cases a)
  case (Call i c k ctx)
  have "in_flight d p (m\<lparr>cpus := (cpus m)[i := Some t]\<rparr>)" if "in_flight d p m" "cpus m ! i = None" for d p t
  proof -
    from that(1) obtain j u where "j < length (cpus m)" "cpus m ! j = Some u" "resetting d p u"
      by (auto simp: in_flight_def)
    moreover from this that(2) have "j \<noteq> i" by auto
    ultimately show ?thesis by (intro in_flightI [of j]) simp_all
  qed
  with assms Call show ?thesis
    by (auto simp: smp_inv_def counters_sound_def runs_lawful_def dest!: set_cpu)
next
  case (Tick i)
  show ?thesis
  proof (cases "i < length (cpus m) \<and> cpus m ! i \<noteq> None")
    case True
    then obtain t where t: "i < length (cpus m)" "cpus m ! i = Some t" by blast
    then have law: "wf_kenv (t_env t)" "lru_map (lru_update (t_env t))"
      using assms(1) by (auto simp: smp_inv_def runs_lawful_def dest: nth_mem)
    obtain q s' where q: "micro (t_counter t) (t_env t) (t_ctx t) (t_pc t) (kst m) = (q, s')"
      by fastforce
    have "runs_lawful (tick i t m)"
      using assms(1) law unfolding smp_inv_def runs_lawful_def tick_simps [OF q]
      by (auto dest!: set_cpu split: if_splits)
    with micro_sound [OF q law(1)] tick_counters [OF _ t law(2)] assms(1) t show ?thesis
      by (simp add: Tick smp_inv_def tick_simps [OF q])
  qed (use assms Tick in \<open>auto split: option.split\<close>)
next
  case (Other r)
  with assms other_sound [of r "kst m"] show ?thesis
    by (simp add: smp_inv_def counters_sound_def runs_lawful_def in_flight_def)
qed

lemma boot_inv: "smp_inv (boot n)"
  by (simp add: smp_inv_def state_sound_def runs_lawful_def counters_sound_def boot_def rings_ok_def
      counts_init) (simp add: bpf_init_def)

lemma acts_inv: "smp_inv m \<Longrightarrow> \<forall>a \<in> set as. lawful a \<Longrightarrow> smp_inv (acts as m)"
  by (induction as arbitrary: m) (simp_all add: act_inv)

lemma in_flight_busy: "in_flight c p m \<Longrightarrow> busy p m"
  by (auto simp: in_flight_def busy_iff runs_for_def resetting_def)

text \<open>
  C13. However the programs interleave on however many processors, every submitted record has
  the size its reader expects, the agent's map entry exists and the only signal ever sent is
  SIGSTOP. A file or datagram counter may be above its limit, since a run stores the count
  before it resets it and runs of the same process on other processors can store in between;
  but whenever it is, a run of that very process is under way that has stored such a count and
  goes on to reset the counter. So while no counted call of a process is being processed, its
  counters are at most 10000 and 50000. The helpers are only assumed to keep their documented
  sizes and the counter maps to behave as least-recently-used maps.
\<close>

theorem interleaved_sensor_inv:
  fixes n :: nat
  assumes "\<forall>a \<in> set as. lawful a"
  defines "m \<equiv> acts as (boot n)"
  shows "(\<forall>r \<in> set (events (kst m)). length r = 284) \<and> (\<forall>r \<in> set (tls_events (kst m)). length r = 140) \<and>
    agent_pid (kst m) 0 \<noteq> None \<and> (\<forall>x \<in> set (signals (kst m)). snd x = SIGSTOP) \<and>
    (\<forall>c p v. counts c (kst m) p = Some v \<and> limit c < v \<longrightarrow>
       (\<exists>t. Some t \<in> set (cpus m) \<and> resetting c p t)) \<and>
    (\<forall>p. \<not> busy p m \<longrightarrow> count_of (file_creation_counts (kst m)) p \<le> 10000 \<and>
       count_of (journal_spam_counts (kst m)) p \<le> 50000)"
proof (intro conjI allI impI)
  have inv: "smp_inv m" unfolding m_def by (rule acts_inv [OF boot_inv assms(1)])
  then show "\<forall>r \<in> set (events (kst m)). length r = 284" "\<forall>r \<in> set (tls_events (kst m)). length r = 140"
    "agent_pid (kst m) 0 \<noteq> None" "\<forall>x \<in> set (signals (kst m)). snd x = SIGSTOP"
    by (simp_all add: smp_inv_def state_sound_def rings_ok_def layout_simps)
  have high: "in_flight c p m" if "counts c (kst m) p = Some v" "limit c < v" for c p v
    using that inv unfolding smp_inv_def counters_sound_def by blast
  show "\<exists>t. Some t \<in> set (cpus m) \<and> resetting c p t" if "counts c (kst m) p = Some v \<and> limit c < v" for c p v
    using high [of c p v] that by (force simp: in_flight_def in_set_conv_nth)
  fix p assume idle: "\<not> busy p m"
  have low: "count_of (counts c (kst m)) p \<le> unat (limit c)" for c
  proof (cases "counts c (kst m) p")
    case (Some v)
    then have "\<not> limit c < v" using high idle in_flight_busy by blast
    with Some show ?thesis by (simp add: count_of_def not_less word_le_nat_alt)
  qed (simp add: count_of_def)
  from low [of Files] low [of Journal]
  show "count_of (file_creation_counts (kst m)) p \<le> 10000" "count_of (journal_spam_counts (kst m)) p \<le> 50000"
    by (simp_all add: FILE_LIMIT_def JOURNAL_LIMIT_def)
qed

text \<open>A run at the limit: 10000 files, then one more whose run is between its two stores.\<close>

definition at_limit :: "action list" where
  "at_limit = calls 10000 0 Files (run_by 7 0 ''sh'') create_call @
     [Call 0 Files (run_by 7 0 ''sh'') create_call, Tick 0, Tick 0, Tick 0]"

lemma at_limit:
  "counts Files (kst (acts at_limit (boot 1))) 7 = Some 10001" "\<forall>a \<in> set at_limit. lawful a"
proof -
  let ?k = "run_by 7 0 ''sh''" and ?s = "repeat_probe (handle_openat (run_by 7 0 ''sh'') create_call) 10000 bpf_init"
  define m where "m = acts (calls 10000 0 Files ?k create_call) (boot 1)"
  have h: "handler Files ?k create_call = handle_openat ?k create_call" by (rule ext) simp
  have b: "counts_ok bpf_init" "count_of (file_creation_counts bpf_init) 7 = 0" "agent_pid bpf_init 0 = Some 0"
    by (simp_all add: bpf_init_def counts_ok_def count_of_def)
  have m: "kst m = ?s" "cpus m = [None]"
    using serial_calls [of Files create_call "boot 1" ?k 0 10000] b(3)
    by (simp_all add: m_def boot_def idle_def h del: repeat_probe.simps)
  have r: "agent_pid ?s = agent_pid bpf_init" "count_of (file_creation_counts ?s) 7 = 10000"
    using openat_repeat [OF lru_run_by b(1) create_call, of 7 0 "''sh''" 10000] b
    by (simp_all del: repeat_probe.simps)
  have "unat (next_count (file_creation_counts ?s 7)) = 10001"
    using unat_next [of "file_creation_counts ?s" 7] r(2) by (simp del: repeat_probe.simps)
  then have n: "next_count (file_creation_counts ?s 7) = 10001"
    by (simp add: word_unat_eq_iff)
  have "acts at_limit (boot 1) = acts [Call 0 Files ?k create_call, Tick 0, Tick 0, Tick 0] m"
    by (simp only: at_limit_def acts_append m_def)
  with m r(1) b(3) n have "kst (acts at_limit (boot 1)) = ?s\<lparr>file_creation_counts :=
      lru_update ?k (file_creation_counts ?s) 7 10001\<rparr>"
    by (simp add: tick_def del: repeat_probe.simps)
  then show "counts Files (kst (acts at_limit (boot 1))) 7 = Some 10001"
    by (simp add: lru_map.upd_same [OF lru_run_by] del: repeat_probe.simps)
  show "\<forall>a \<in> set at_limit. lawful a"
    by (auto simp: at_limit_def calls_def one_call_def lru_run_by wf_run_by)
qed

theorem interleaved_sensor_inv_witness:
  "\<exists>t. Some t \<in> set (cpus (acts at_limit (boot 1))) \<and> resetting Files 7 t"
proof -
  have "limit Files < (10001 :: u64)" by (simp add: FILE_LIMIT_def)
  then show ?thesis using interleaved_sensor_inv [OF at_limit(2), of 1] at_limit(1) by blast
qed

end
