(* ===== verification/Dev_Tools.thy ===== *)
theory Dev_Tools
  imports Agent_Refinement
begin

text \<open>
  \<open>scripts/toggle_dev_mode.sh\<close>, which starts and ends a research session, what such a session
  loses, and two things the sensor does not see.
\<close>

section \<open>The research switch\<close>

text \<open>
  What lies at \<open>/tmp/ALPHVDR_RESEARCH_MODE\<close>, and what the script says in the end. The script asks
  for a regular file, the agent for anything. Neither \<open>rm\<close> nor \<open>touch\<close> is checked.
\<close>

datatype node = Regular | Other_Node

datatype claim = Armed | Disarmed

definition toggle_dev_mode :: "bool \<Rightarrow> bool \<Rightarrow> node option \<Rightarrow> node option \<times> claim" where
  "toggle_dev_mode rm_ok touch_ok flag =
     (if flag = Some Regular then (if rm_ok then None else flag, Armed)
      else (if flag = None \<and> touch_ok then Some Regular else flag, Disarmed))"

definition lock_exists :: "node option \<Rightarrow> bool" where
  "lock_exists flag \<longleftrightarrow> flag \<noteq> None"

text \<open>When all goes well the script and the agent's next look at the file agree.\<close>

lemma toggle_agrees:
  assumes "flag \<noteq> Some Other_Node"
  shows "research (run_monitor (lock_exists (fst (toggle_dev_mode True True flag))) s)
      \<longleftrightarrow> snd (toggle_dev_mode True True flag) = Disarmed"
    and "fst (toggle_dev_mode True True (fst (toggle_dev_mode True True flag))) = flag"
  using assms by (cases flag; cases "the flag"; simp add: toggle_dev_mode_def lock_exists_def)+

text \<open>
  When the file cannot be removed, as in the sticky directory of another user's file, the
  script says that the agent is armed, and the agent is not; nor does the script ever take
  away anything but a regular file.
\<close>

lemma toggle_false_claim:
  "snd (toggle_dev_mode False t (Some Regular)) = Armed \<and>
   research (run_monitor (lock_exists (fst (toggle_dev_mode False t (Some Regular)))) s)"
  "fst (toggle_dev_mode r t (Some Other_Node)) = Some Other_Node"
  by (simp_all add: toggle_dev_mode_def lock_exists_def)

section \<open>What happens during a session\<close>

text \<open>
  A research session loses what it does not look at: a record that is polled while a
  session is on, also a trap, is neither logged nor scanned nor answered, and since the ring
  buffer has moved on it is never read again, so no later end of the session brings the
  response back.
\<close>

theorem session_loses_records:
  assumes "\<And>m. system_step (\<sigma> m) (\<sigma> (Suc m))" and "research (\<sigma> n)" and "\<sigma> (Suc n) = poll_event ce (\<sigma> n)"
  shows "agent (\<sigma> (Suc n)) = agent (\<sigma> n) \<and> answered (\<sigma> (Suc n)) = answered (\<sigma> n) \<and>
    (\<forall>m > n. events_polled (\<sigma> n) < events_polled (\<sigma> m))"
proof -
  have "events_polled (\<sigma> n) < events_polled (\<sigma> m)" if "n < m" for m
    using polled_mono [of \<sigma> "Suc n" m, OF assms(1)] that by (simp add: assms(3) handler_simps)
  moreover have "agent (\<sigma> (Suc n)) = agent (\<sigma> n)"
    using assms(2) by (simp add: assms(3) poll_event_def handle_event_def)
  ultimately show ?thesis by (simp add: assms(3) handler_simps)
qed

text \<open>A session is on, a trap record is polled, the session ends.\<close>

fun demo_session :: "nat \<Rightarrow> agent_system" where
  "demo_session 0 = run_monitor (lock_exists (fst (toggle_dev_mode True True None)))
     ((system_start demo_armed)\<lparr>sensor := demo_armed\<lparr>events := [event_bytes ghost_event]\<rparr>\<rparr>)"
| "demo_session (Suc 0) = poll_event quiet_env (demo_session 0)"
| "demo_session (Suc (Suc n)) = run_monitor False (demo_session (Suc n))"

theorem session_loses_records_witness:
  "agent (demo_session 1) = agent (demo_session 0) \<and> answered (demo_session 1) = answered (demo_session 0)"
proof -
  have step: "system_step (demo_session n) (demo_session (Suc n))" for n
  proof (cases n)
    case 0
    then show ?thesis by (simp add: sys_event handler_simps system_start_def)
  qed (simp add: sys_monitor)
  have on: "research (demo_session 0)" by (simp add: toggle_dev_mode_def lock_exists_def)
  show ?thesis using session_loses_records [of demo_session 0, OF step on] by simp
qed

text \<open>The programs of the sensor know nothing of a session: they stop processes all the same.\<close>

lemma session_keeps_stopping:
  "signals (handle_kill k ctx (sensor (run_monitor x s))) = signals (handle_kill k ctx (sensor s))"
  "signals (handle_execve k ctx (sensor (run_monitor x s))) = signals (handle_execve k ctx (sensor s))"
  by (simp_all add: handler_simps)

section \<open>What goes unseen\<close>

lemma openat_quiet:
  assumes "lru_map (lru_update k)" and "counts_ok s" and "creates_file ctx"
    and "agent_pid s 0 \<noteq> Some (cur_pid k)" and "count_of (file_creation_counts s) (cur_pid k) < 10000"
  shows "events (handle_openat k ctx s) = events s" and "signals (handle_openat k ctx s) = signals s"
    and "count_of (file_creation_counts (handle_openat k ctx s)) (cur_pid k) =
      Suc (count_of (file_creation_counts s) (cur_pid k))"
proof -
  have "unat (next_count (file_creation_counts s (cur_pid k))) = Suc (count_of (file_creation_counts s) (cur_pid k))"
    using assms(2) by (intro unat_next_count [where lim = FILE_LIMIT]) (auto simp: counts_ok_def FILE_LIMIT_def)
  with assms(5) have "\<not> FILE_LIMIT < next_count (file_creation_counts s (cur_pid k))"
    by (simp add: word_less_nat_alt FILE_LIMIT_def)
  then show "events (handle_openat k ctx s) = events s" "signals (handle_openat k ctx s) = signals s"
    by (simp_all add: handle_openat_def Let_def)
  show "count_of (file_creation_counts (handle_openat k ctx s)) (cur_pid k) =
      Suc (count_of (file_creation_counts s) (cur_pid k))"
    using openat_step(1) [OF assms(1-4)] assms(5) by simp
qed

text \<open>
  Encrypting files goes unseen: a process that creates up to 10000 files, whatever their
  names, leaves no record and no signal in the sensor, so the agent is given nothing to judge
  and rolls nothing back; the names of created files never reach it. The simulator's outbreak
  is twenty files.
\<close>

theorem encrypted_files_unseen:
  assumes "lru_map (lru_update k)" and "counts_ok s" and "creates_file ctx"
    and "agent_pid s 0 \<noteq> Some (cur_pid k)"
    and "count_of (file_creation_counts s) (cur_pid k) + n \<le> 10000"
  shows "events (repeat_probe (handle_openat k ctx) n s) = events s \<and>
    signals (repeat_probe (handle_openat k ctx) n s) = signals s"
  using assms(2,4,5)
proof (induction n arbitrary: s)
  case (Suc n)
  let ?s = "handle_openat k ctx s"
  have "count_of (file_creation_counts s) (cur_pid k) < 10000" using Suc.prems(3) by simp
  note quiet = openat_quiet [OF assms(1) Suc.prems(1) assms(3) Suc.prems(2) this]
  have "events (repeat_probe (handle_openat k ctx) n ?s) = events ?s \<and>
      signals (repeat_probe (handle_openat k ctx) n ?s) = signals ?s"
    using quiet(3) Suc.prems openat_counts [OF assms(1) Suc.prems(1)]
    by (intro Suc.IH) (simp_all add: openat_agent)
  with quiet show ?case by simp
qed simp

theorem encrypted_files_unseen_witness:
  "events (repeat_probe (handle_openat (run_by 7 1000 ''bash'') \<lparr>se_id = 257, se_args = [0, 0, 577]\<rparr>) 20 bpf_init) = []"
proof -
  have s: "counts_ok bpf_init" "agent_pid bpf_init 0 \<noteq> Some 7" "count_of (file_creation_counts bpf_init) 7 = 0"
    "events bpf_init = []" by (simp_all add: bpf_init_def counts_ok_def count_of_def)
  have "creates_file \<lparr>se_id = 257, se_args = [0, 0, 577]\<rparr>" by (simp add: creates_file_def lo32_def)
  from encrypted_files_unseen [OF lru_run_by s(1) this, of 7 1000 "''bash''" 20] s(2,3)
  show ?thesis by (simp add: s(4) del: repeat_probe.simps)
qed

text \<open>
  The file probe runs on entry to \<open>vfs_open\<close>, before the kernel has stored the inode in the file:
  with a null pointer there, and reads at it leaving zeros, no honeytoken is recognised.
\<close>

lemma no_inode_no_trap:
  assumes "core_read_u64 k file struct_file ''f_inode'' = 0"
    and "core_read_u64 k 0 struct_inode ''i_ino'' = 0" and "honeytokens s 0 = None"
  shows "kprobe_vfs_open k file s = s"
  using assms by (simp add: kprobe_vfs_open_def Let_def)

lemma write_traps_tokens:
  "honeytokens u ino \<noteq> None \<Longrightarrow> honeytokens (foldl (\<lambda>s p. write_trap se p s) u ps) ino \<noteq> None"
  "\<forall>p. inode_of se p \<noteq> Some ino \<Longrightarrow> honeytokens (foldl (\<lambda>s p. write_trap se p s) u ps) ino = honeytokens u ino"
  by (induction ps arbitrary: u) (simp_all add: write_trap_def split: option.split)

lemma setup_tokens:
  assumes "agent_setup se bpf_init = Inr t" and "\<forall>p. inode_of se p \<noteq> Some 0"
  shows "honeytokens t 0 = None"
    and "\<exists>aws kube. inode_of se aws_cred_path = Some aws \<and> inode_of se kube_cred_path = Some kube \<and>
      honeytokens t aws \<noteq> None \<and> honeytokens t kube \<noteq> None"
proof -
  obtain s1 s2 s3 where s: "register_agent se bpf_init = Inr s1"
    "deploy_honeytoken se ''/home/john/.aws'' aws_cred_path s1 = Inr s2"
    "deploy_honeytoken se ''/home/john/.kube'' kube_cred_path s2 = Inr s3"
    and t: "t = foldl (\<lambda>s d. spawn_decoy se d s)
      (foldl (\<lambda>s dev. write_trap se dev s) s3 (ssh_keys_path # hw_devices)) decoys"
    using setup_steps [OF assms(1)] by blast
  then obtain aws kube where paths: "inode_of se aws_cred_path = Some aws" "inode_of se kube_cred_path = Some kube"
    and s3: "honeytokens s3 = (honeytokens s1)(aws \<mapsto> 1, kube \<mapsto> 1)"
    by (auto simp: deploy_honeytoken_def split: if_splits option.splits)
  moreover have "honeytokens s1 = Map.empty" using s(1) by (auto simp: register_agent_def bpf_init_def split: if_splits)
  ultimately have "honeytokens s3 0 = None" "honeytokens s3 aws \<noteq> None" "honeytokens s3 kube \<noteq> None"
    using assms(2) by auto
  then show "honeytokens t 0 = None" "\<exists>aws kube. inode_of se aws_cred_path = Some aws \<and>
      inode_of se kube_cred_path = Some kube \<and> honeytokens t aws \<noteq> None \<and> honeytokens t kube \<noteq> None"
    using write_traps_tokens [where u = s3 and se = se and ps = "ssh_keys_path # hw_devices"] assms(2) paths decoys_keep
    unfolding t by (simp_all del: foldl.simps)
qed

text \<open>
  C17. No honeytoken ever fires. In every state the running agent can reach, the two credential
  files are in the map of honeytokens; yet opening a file, whichever, changes nothing in the
  sensor: no record is written, so nobody is stopped and nothing is logged. For the probe runs
  on entry to \<open>vfs_open\<close>, where the kernel's \<open>struct file\<close> is still zero and has no inode yet
  (\<open>do_dentry_open\<close>, called from \<open>vfs_open\<close>, stores it); the probe then reads the inode number
  through a null pointer, which leaves zero, and no file has inode number zero.
\<close>

theorem honeytokens_never_fire:
  assumes "startup (setup_stages se) bpf_init t" and "system_step\<^sup>*\<^sup>* (started w t) s"
    and "\<forall>path. inode_of se path \<noteq> Some 0"
    and "core_read_u64 k file struct_file ''f_inode'' = 0" and "core_read_u64 k 0 struct_inode ''i_ino'' = 0"
  shows "kprobe_vfs_open k file (sensor s) = sensor s \<and>
    (\<exists>aws kube. inode_of se ''/home/john/.aws/credentials'' = Some aws \<and>
       inode_of se ''/home/john/.kube/config'' = Some kube \<and>
       honeytokens (sensor s) aws \<noteq> None \<and> honeytokens (sensor s) kube \<noteq> None)"
proof -
  obtain t' where t': "agent_setup se bpf_init = Inr t'" "config t = config t'" using startup_setup [OF assms(1)] .
  then have "honeytokens (sensor s) = honeytokens t'" using started_traps [OF assms(1,2)] by (simp add: config_def)
  with setup_tokens [OF t'(1) assms(3)] no_inode_no_trap [OF assms(4,5)] show ?thesis
    by (simp add: aws_cred_path_def kube_cred_path_def)
qed

text \<open>A probe run at the entry of \<open>vfs_open\<close>: everything it reads is zero.\<close>

definition open_entry :: kenv where
  "open_entry = (run_by 9 1000 ''cat'')\<lparr>kread := \<lambda>a n. replicate n 0\<rparr>"

theorem honeytokens_never_fire_witness:
  "kprobe_vfs_open open_entry 64 (sensor (run_monitor True (system_start demo_armed))) =
     sensor (run_monitor True (system_start demo_armed)) \<and>
   honeytokens (sensor (run_monitor True (system_start demo_armed))) 71 \<noteq> None"
proof -
  obtain t where t: "agent_setup demo_setup bpf_init = Inr t"
    by (simp add: agent_setup_def register_agent_def deploy_honeytoken_def Let_def demo_setup_def
        aws_cred_path_def kube_cred_path_def)
  then have armed: "demo_armed = t" by (simp add: demo_armed_def)
  have step: "system_step\<^sup>*\<^sup>* (system_start t) (run_monitor True (system_start t))" using sys_monitor by blast
  have zero: "core_read_u64 open_entry a ty nm = 0" for a ty nm
    by (simp add: open_entry_def core_read_u64_def u64_of_def numeral_eq_Suc)
  have "\<forall>path. inode_of demo_setup path \<noteq> Some 0" by (simp add: demo_setup_def)
  from honeytokens_never_fire [OF setup_startup [OF t] step [unfolded system_start_started] this zero zero]
  show ?thesis by (auto simp: armed system_start_started demo_setup_def aws_cred_path_def kube_cred_path_def)
qed

end
