(* ===== verification/Red_Team.thy ===== *)
theory Red_Team
  imports Dev_Tools
begin

text \<open>
  \<open>tests/red_team_simulator.sh\<close>: the script as the list of calls the sensor sees of it, in their
  order, and which of them the sensor answers, whatever else happens on the machine meanwhile.
\<close>

section \<open>The script\<close>

text \<open>
  A call is one run of a program of the sensor: the start of an external command, an \<open>openat\<close> with
  its flags (of a redirection, 577 to overwrite and 1089 to append, or of \<open>cat\<close>), the kernel's
  opening of a file, which a refused \<open>openat\<close> does not reach, \<open>strace\<close>'s \<open>PTRACE_SEIZE\<close>, a signal.
  \<open>Claims\<close> is a line the script prints about what it has triggered. Calls the external commands
  make beyond what the script is after are not part of it.
\<close>

datatype call =
    Execs string
  | Openat u64
  | Reaches u64
  | Traces u32
  | Kills u32
  | Claims string

text \<open>
  What the script meets: the files it opens, as addresses of the kernel's file object if opening gets
  that far, and what its two \<open>pgrep\<close> print.
\<close>

record sim_env =
  aws_file :: "u64 option"
  kube_file :: "u64 option"
  ssh_file :: "u64 option"
  mei_file :: "u64 option"
  null_file :: "u64 option"
  enc_file :: "nat \<Rightarrow> u64 option"
  ghost_found :: "u32 option"
  agent_found :: "u32 option"

definition opens :: "u64 \<Rightarrow> u64 option \<Rightarrow> call list" where
  "opens flags file = Openat flags # (case file of None \<Rightarrow> [] | Some f \<Rightarrow> [Reaches f])"

definition pause :: "call list" where "pause = [Execs ''sleep'']"

definition simulation :: "sim_env \<Rightarrow> call list" where
  "simulation se =
     opens 577 (null_file se) @ [Execs ''cat''] @ opens 0 (aws_file se) @ [Claims ''HONEYTOKEN_TRIGGERED''] @ pause @
     opens 577 (null_file se) @ [Execs ''cat''] @ opens 0 (kube_file se) @ [Claims ''HONEYTOKEN_TRIGGERED''] @ pause @
     opens 1089 (ssh_file se) @ opens 577 (null_file se) @ [Claims ''HONEYTOKEN_TRIGGERED''] @ pause @
     opens 577 (mei_file se) @ opens 577 (null_file se) @ [Claims ''HARDWARE-LOCK''] @ pause @
     [Execs ''pgrep''] @
     (case ghost_found se of
        None \<Rightarrow> []
      | Some g \<Rightarrow> opens 577 (null_file se) @ [Execs ''strace'', Traces g] @ pause @ [Claims ''GHOST_PROCESS_TRAP'']) @
     [Execs ''mkdir''] @ concat (map (\<lambda>i. opens 577 (enc_file se i)) [1..<21]) @ [Claims ''ZFS rollback''] @
     [Execs ''cp''] @ opens 577 (null_file se) @ [Execs ''sudo'', Execs ''/tmp/firefox''] @
     [Claims ''PRIVILEGE_ESCALATION_TRAP'', Execs ''rm''] @
     [Execs ''pgrep'', Execs ''head''] @
     (case agent_found se of
        None \<Rightarrow> []
      | Some a \<Rightarrow> opens 577 (null_file se) @ [Execs ''sudo'', Execs ''kill'', Kills a] @ [Claims ''SIGSTOP''])"

text \<open>
  A call in the environment of the process that makes it; the start of a command has the context the
  kernel gives it.
\<close>

definition openat_with :: "u64 \<Rightarrow> sys_enter" where
  "openat_with flags = \<lparr>se_id = 257, se_args = [0, 0, flags]\<rparr>"

fun perform :: "kenv \<Rightarrow> sys_enter \<Rightarrow> call \<Rightarrow> bpf_state \<Rightarrow> bpf_state" where
  "perform k ctx (Execs path) s = handle_execve k ctx s"
| "perform k ctx (Openat flags) s = handle_openat k (openat_with flags) s"
| "perform k ctx (Reaches file) s = kprobe_vfs_open k file s"
| "perform k ctx (Traces pid) s = handle_ptrace k \<lparr>se_id = 101, se_args = [0x4206, ucast pid]\<rparr> s"
| "perform k ctx (Kills pid) s = handle_kill k \<lparr>se_id = 62, se_args = [ucast pid, 9]\<rparr> s"
| "perform k ctx (Claims what) s = s"

text \<open>A run of the script among the runs of all other processes.\<close>

type_synonym acted_call = "kenv \<times> sys_enter \<times> call"

inductive acted :: "acted_call list \<Rightarrow> bpf_state \<Rightarrow> bpf_state \<Rightarrow> bool" where
  acted_end: "acted [] s s"
| acted_other: "program_step s t \<Longrightarrow> acted cs t u \<Longrightarrow> acted cs s u"
| acted_call: "wf_kenv k \<Longrightarrow> lru_map (lru_update k) \<Longrightarrow> acted cs (perform k ctx c s) u \<Longrightarrow> acted ((k, ctx, c) # cs) s u"

lemma perform_step:
  "wf_kenv k \<Longrightarrow> lru_map (lru_update k) \<Longrightarrow> perform k ctx c s = s \<or> program_step s (perform k ctx c s)"
  by (cases c) (auto intro: program_step.intros)

section \<open>What is seen\<close>

definition ino_of :: "kenv \<Rightarrow> u64 \<Rightarrow> u64" where
  "ino_of k f = core_read_u64 k (core_read_u64 k f struct_file ''f_inode'') struct_inode ''i_ino''"

text \<open>The trap a call springs, by the configuration of the sensor: indicator and message.\<close>

fun springs :: "bpf_state \<Rightarrow> kenv \<Rightarrow> call \<Rightarrow> (u32 \<times> string) option" where
  "springs s k (Reaches f) =
     (if \<exists>v. honeytokens s (ino_of k f) = Some v \<and> honey_trigger v (core_read_u32 k f struct_file ''f_flags'')
      then Some (- 1, ''HONEYTOKEN_TRIGGERED'') else None)"
| "springs s k (Traces p) = (if ghost_pids s p = Some 1 then Some (- 2, ''GHOST_PROCESS_TRAP'') else None)"
| "springs s k (Kills p) = (if agent_pid s 0 = Some p then Some (p, ''SELF_DEFENSE_TRAP'') else None)"
| "springs s k c = None"

lemma ucast_down [simp]: "lo32 (ucast (p :: u32)) = p"
  unfolding lo32_def by (rule bit_word_eqI) (simp add: bit_simps)

lemma sprung:
  assumes "springs s k c = Some (ind, msg)" and "slot k = Some e"
  shows "event_bytes (trap_event k ind msg e) \<in> set (events (perform k ctx c s))"
    and "c = Kills p \<Longrightarrow> (cur_pid k, SIGSTOP) \<in> set (signals (perform k ctx c s))"
  using assms
  by (cases c; auto simp: kprobe_vfs_open_def ino_of_def Let_def handle_ptrace_def ghost_check_def
      handle_kill_def emit_trap_def split: if_splits option.splits)+

lemma springs_config: "config s = config t \<Longrightarrow> springs s k c = springs t k c"
  by (cases c) (simp_all add: config_def)

lemma history_kept:
  "program_step s t \<Longrightarrow> set (events s) \<subseteq> set (events t) \<and> set (signals s) \<subseteq> set (signals t)"
  using program_step_history [of s t] by (auto dest: set_mono_prefix)

lemma perform_kept:
  assumes "wf_kenv k" and "lru_map (lru_update k)"
  shows "config (perform k ctx c s) = config s" and "set (events s) \<subseteq> set (events (perform k ctx c s))"
    and "set (signals s) \<subseteq> set (signals (perform k ctx c s))"
  using perform_step [OF assms, of ctx c s] program_step_config history_kept by fastforce+

lemma acted_kept: "acted cs s u \<Longrightarrow> set (events s) \<subseteq> set (events u) \<and> set (signals s) \<subseteq> set (signals u)"
proof (induction rule: acted.induct)
  case (acted_other s t cs u)
  with history_kept [of s t] show ?case by blast
next
  case (acted_call k cs ctx c s u)
  with perform_kept(2,3) show ?case by blast
qed simp

lemma acted_sprung:
  assumes "acted cs s u"
  shows "(k, ctx, c) \<in> set cs \<Longrightarrow> springs s k c = Some (ind, msg) \<Longrightarrow> slot k = Some e \<Longrightarrow>
    event_bytes (trap_event k ind msg e) \<in> set (events u) \<and> (\<forall>p. c = Kills p \<longrightarrow> (cur_pid k, SIGSTOP) \<in> set (signals u))"
  using assms
proof (induction rule: acted.induct)
  case (acted_other s t cs u)
  with springs_config [OF program_step_config] show ?case by metis
next
  case (acted_call k' cs ctx' c' s u)
  show ?case
  proof (cases "(k, ctx, c) \<in> set cs")
    case True
    with acted_call springs_config [OF perform_kept(1)] show ?thesis by metis
  next
    case False
    with acted_call.prems have "(k', ctx', c') = (k, ctx, c)" by simp
    with sprung [OF acted_call.prems(2,3)] acted_kept [OF acted_call.hyps(3)] show ?thesis by blast
  qed
qed simp

text \<open>
  What the simulator promises and when the sensor keeps it, whatever other processes do meanwhile: on
  a sensor as the startup leaves it, when both processes are found and the ring has room, the run
  leaves the records of the trace and of the signal, and the process that signals the agent is
  stopped. The records of the two credential files are left if the probe can read their inode
  numbers, which is an assumption here: at the entry of \<open>vfs_open\<close> it cannot, and then these two
  calls are not seen (\<open>credentials_unseen\<close>).
\<close>

theorem simulator_seen:
  assumes "acted cs s u" and "map (snd \<circ> snd) cs = simulation se" and "\<And>k ctx c. (k, ctx, c) \<in> set cs \<Longrightarrow> slot k \<noteq> None"
    and "aws_file se = Some aws" and "kube_file se = Some kube"
    and "\<And>k ctx f. (k, ctx, Reaches f) \<in> set cs \<Longrightarrow> f \<in> {aws, kube} \<Longrightarrow> honeytokens s (ino_of k f) = Some 1"
    and "ghost_found se = Some g" and "ghost_pids s g = Some 1" and "agent_found se = Some a" and "agent_pid s 0 = Some a"
  shows "\<forall>(c, ind, msg) \<in> {(Reaches aws, - 1, ''HONEYTOKEN_TRIGGERED''), (Reaches kube, - 1, ''HONEYTOKEN_TRIGGERED''),
      (Traces g, - 2, ''GHOST_PROCESS_TRAP''), (Kills a, a, ''SELF_DEFENSE_TRAP'')}.
    \<exists>k ctx e. (k, ctx, c) \<in> set cs \<and> event_bytes (trap_event k ind msg e) \<in> set (events u) \<and>
      (c = Kills a \<longrightarrow> (cur_pid k, SIGSTOP) \<in> set (signals u))"
proof -
  have "{Reaches aws, Reaches kube, Traces g, Kills a} \<subseteq> set (simulation se)"
    using assms(4,5,7,9) by (simp add: simulation_def opens_def)
  then have called: "\<exists>k ctx. (k, ctx, c) \<in> set cs" if "c \<in> {Reaches aws, Reaches kube, Traces g, Kills a}" for c
    using that unfolding assms(2) [symmetric] by fastforce
  have seen: "\<exists>k ctx e. (k, ctx, c) \<in> set cs \<and> event_bytes (trap_event k ind msg e) \<in> set (events u) \<and>
      (c = Kills a \<longrightarrow> (cur_pid k, SIGSTOP) \<in> set (signals u))"
    if c: "c \<in> {Reaches aws, Reaches kube, Traces g, Kills a}"
      and springs: "\<And>k ctx. (k, ctx, c) \<in> set cs \<Longrightarrow> springs s k c = Some (ind, msg)" for c ind msg
  proof -
    obtain k ctx where k: "(k, ctx, c) \<in> set cs" using called [OF c] by blast
    with assms(3) obtain e where "slot k = Some e" by blast
    with acted_sprung [OF assms(1) k springs [OF k]] k show ?thesis by blast
  qed
  have honey: "springs s k (Reaches f) = Some (- 1, ''HONEYTOKEN_TRIGGERED'')"
    if "(k, ctx, Reaches f) \<in> set cs" "f \<in> {aws, kube}" for k ctx f
    using assms(6) [OF that] by (simp add: honey_trigger_def)
  have "springs s k (Traces g) = Some (- 2, ''GHOST_PROCESS_TRAP'')" "springs s k (Kills a) = Some (a, ''SELF_DEFENSE_TRAP'')" for k
    using assms(8,10) by simp_all
  note spring = honey this
  show ?thesis
  proof (rule ballI, clarify)
    fix c ind msg
    assume x: "(c, ind, msg) \<in> {(Reaches aws, - 1, ''HONEYTOKEN_TRIGGERED''), (Reaches kube, - 1, ''HONEYTOKEN_TRIGGERED''),
      (Traces g, - 2, ''GHOST_PROCESS_TRAP''), (Kills a, a, ''SELF_DEFENSE_TRAP'')}"
    have "c \<in> {Reaches aws, Reaches kube, Traces g, Kills a}" using x by blast
    moreover have "springs s k c = Some (ind, msg)" if "(k, ctx, c) \<in> set cs" for k ctx
      using x spring that by (elim insertE emptyE Pair_inject) blast+
    ultimately show "\<exists>k ctx e. (k, ctx, c) \<in> set cs \<and> event_bytes (trap_event k ind msg e) \<in> set (events u) \<and>
        (c = Kills a \<longrightarrow> (cur_pid k, SIGSTOP) \<in> set (signals u))"
      by (rule seen)
  qed
qed

section \<open>What is not\<close>

text \<open>
  The outbreak of the simulator, undisturbed and on files that are no honeytokens: no record and no
  signal, so nothing rolls back.
\<close>

fun performs :: "kenv \<Rightarrow> sys_enter \<Rightarrow> call list \<Rightarrow> bpf_state \<Rightarrow> bpf_state" where
  "performs k ctx [] s = s"
| "performs k ctx (c # cs) s = performs k ctx cs (perform k ctx c s)"

lemma opens_one: "opens 577 f = Openat 577 # (case f of None \<Rightarrow> [] | Some a \<Rightarrow> [Reaches a])"
  by (simp add: opens_def)

lemma outbreak_unseen:
  assumes "lru_map (lru_update k)" and "counts_ok s" and "agent_pid s 0 \<noteq> Some (cur_pid k)"
    and "count_of (file_creation_counts s) (cur_pid k) + length files \<le> 10000"
    and "\<And>f. Some f \<in> set files \<Longrightarrow> honeytokens s (ino_of k f) = None"
  shows "events (performs k ctx (concat (map (opens 577) files)) s) = events s \<and>
    signals (performs k ctx (concat (map (opens 577) files)) s) = signals s"
  using assms(2-5)
proof (induction files arbitrary: s)
  case (Cons f files)
  let ?ctx = "openat_with 577"
  let ?s = "handle_openat k ?ctx s"
  have creates: "creates_file ?ctx" by (simp add: creates_file_def openat_with_def lo32_def)
  have conf: "honeytokens ?s = honeytokens s" "agent_pid ?s = agent_pid s"
    using openat.keeps_config [of k ?ctx s] by (simp_all add: config_def)
  have untouched: "kprobe_vfs_open k a ?s = ?s" if "f = Some a" for a
    using Cons.prems(4) [of a] that by (simp add: kprobe_vfs_open_def Let_def conf ino_of_def)
  have low: "count_of (file_creation_counts s) (cur_pid k) < 10000" using Cons.prems(3) by simp
  note quiet = openat_quiet [OF assms(1) Cons.prems(1) creates Cons.prems(2) low]
  have "events (performs k ctx (concat (map (opens 577) files)) ?s) = events ?s \<and>
      signals (performs k ctx (concat (map (opens 577) files)) ?s) = signals ?s"
    using quiet Cons.prems openat_counts [OF assms(1) Cons.prems(1)] by (intro Cons.IH) (simp_all add: conf)
  with quiet untouched show ?case unfolding list.map opens_one concat.simps by (cases f) simp_all
qed simp

lemma credentials_unseen:
  assumes "core_read_u64 k f struct_file ''f_inode'' = 0" and "core_read_u64 k 0 struct_inode ''i_ino'' = 0"
    and "honeytokens s 0 = None"
  shows "perform k ctx (Reaches f) s = s"
  using no_inode_no_trap [OF assms] by simp

text \<open>
  The execution traps look at the process that calls \<open>execve\<close>, which still has its old name: a
  shell that starts podman, and \<open>sudo\<close> that starts a program called firefox as root, are not
  stopped, whatever the path they execute.
\<close>

lemma starting_is_not_trapped:
  "signals (handle_execve (run_by p u ''bash'') ctx s) = signals s"
  "signals (handle_execve (run_by p u ''sudo'') ctx s) = signals s"
proof -
  have a: "ch (CHR ''a'') \<noteq> 0" by (simp add: ch_def)
  have "\<not> is_unauthorized_tool (cur_comm (run_by p u ''bash''))" "\<not> is_vuln_app (cur_comm (run_by p u ''bash''))"
    "\<not> is_unauthorized_tool (cur_comm (run_by p u ''sudo''))" "\<not> is_vuln_app (cur_comm (run_by p u ''sudo''))"
    by (simp_all add: is_unauthorized_tool_def is_vuln_app_def gram_at_def Let_def upt_rec numeral_eq_Suc a)
  then show "signals (handle_execve (run_by p u ''bash'') ctx s) = signals s"
    "signals (handle_execve (run_by p u ''sudo'') ctx s) = signals s"
    by (simp_all add: handle_execve_def Let_def)
qed

end
