(* ===== verification/Dashboard_Page.thy ===== *)
theory Dashboard_Page
  imports Dashboard
begin

text \<open>
  The page of the dashboard, \<open>dashboard/index.html\<close>: what \<open>fetchEvents\<close> shows of a reply and what a
  click on one of the four buttons (\<open>sendCommand\<close>) does, on top of the server of \<open>Dashboard\<close>.
  JavaScript text is a list of UTF-16 units. What \<open>json.loads\<close> makes of a request body is a
  parameter.
\<close>

section \<open>What is shown\<close>

text \<open>An entry of the list with its text and whether it is marked as a threat, or the note that there is none.\<close>

datatype item = Entry "nat list" bool | No_Telemetry

definition threat_words :: "string list" where
  "threat_words = [''TRAP'', ''YARA'', ''EDR_ACTION'', ''THREAT_INTEL'']"

definition marked :: "nat list \<Rightarrow> bool" where
  "marked e \<longleftrightarrow> list_ex (\<lambda>w. contains e (map of_char w)) threat_words"

text \<open>
  \<open>fetchEvents\<close>: the list is rebuilt from the array in the reply; it stays as it was only when the
  connection breaks or the body is no JSON. JSON of any other form than an array of strings, which the
  server does not send, clears the list before the loop fails on it: \<open>other_json\<close> gives what is on the list
  then (nothing for an object or a number, the entries before the bad element for an array), and
  \<open>None\<close> for a body that is no JSON.
\<close>

definition fetch_events :: "(string \<Rightarrow> item list option) \<Rightarrow> reply option \<Rightarrow> item list \<Rightarrow> item list" where
  "fetch_events other_json r old =
     (case r of
        None \<Rightarrow> old
      | Some r \<Rightarrow>
          (if cut r then old
           else (case read_strings (body r) of
               None \<Rightarrow> (case other_json (body r) of None \<Rightarrow> old | Some items \<Rightarrow> items)
             | Some es \<Rightarrow> if es = [] then [No_Telemetry] else map (\<lambda>e. Entry e (marked e)) es)))"

section \<open>The buttons\<close>

definition buttons :: "string list" where
  "buttons = [''FLUSH_XDP_BLOCKLIST'', ''RELOAD_YARA_RULES'', ''TOGGLE_KP14_MODE'', ''ISOLATE_NETWORK'']"

text \<open>\<open>JSON.stringify({ action })\<close> for an action that needs no escapes, as those of the buttons.\<close>

definition command_body :: "string \<Rightarrow> string" where
  "command_body action = ''{'' @ [quote] @ ''action'' @ [quote] @ '':'' @ [quote] @ action @ [quote] @ ''}''"

text \<open>
  A click: the request; after a reply with a status of 200 to 299 the list is fetched again. The
  result is the list, the log, and whether a message box reports a failure.
\<close>

definition send_command ::
  "(string \<Rightarrow> item list option) \<Rightarrow> (string \<Rightarrow> post_data) \<Rightarrow> string \<Rightarrow> string \<Rightarrow> wal_env \<Rightarrow> string option \<Rightarrow> string \<Rightarrow> item list \<Rightarrow> wal_file \<Rightarrow>
     item list \<times> wal_file \<times> bool" where
  "send_command other_json loads now io_error env index action items w =
     (case do_POST now io_error env ''/api/control'' (loads (command_body action)) w of
        (None, w1) \<Rightarrow> (items, w1, True)
      | (Some r, w1) \<Rightarrow>
          (if 200 \<le> status r \<and> status r < 300 \<and> \<not> cut r
           then (fetch_events other_json (Some (do_GET index (LogText (wal_content w1)) ''/api/events'')) items, w1, False)
           else (items, w1, True)))"

section \<open>The list is the log\<close>

definition shown :: "string \<Rightarrow> item" where
  "shown l = Entry (map of_char l) (list_ex (contains l) threat_words)"

lemma contains_units: "contains (map of_char l :: nat list) (map of_char w) = contains l w"
proof (induction l)
  case (Cons c l)
  have "inj (of_char :: char \<Rightarrow> nat)" by (simp add: inj_def)
  then have "starts_with (map of_char (c # l) :: nat list) (map of_char w) = starts_with (c # l) w"
    by (simp only: starts_with_def take_map length_map inj_map_eq_map)
  with Cons.IH show ?case by simp
qed simp

lemma marked_line: "marked (map of_char l) = list_ex (contains l) threat_words"
  by (simp add: marked_def contains_units)

text \<open>The server's reply to a request for the events, read back.\<close>

lemma events_reply:
  assumes "list_all plain_line ls"
  shows "read_strings (body (do_GET index (LogText (unlines ls)) ''/api/events'')) =
      Some (map (map of_char) (newest_first ls))"
    and "\<not> cut (do_GET index (LogText (unlines ls)) ''/api/events'')"
proof -
  have "map units (newest_first ls) = map (map of_char) (newest_first ls)"
    using assms units_ascii [OF plain_line_ascii] by (auto simp: newest_first_def list_all_iff dest: in_set_dropD)
  then show "read_strings (body (do_GET index (LogText (unlines ls)) ''/api/events'')) =
      Some (map (map of_char) (newest_first ls))"
    by (simp add: do_GET_def wal_events_plain [OF assms] read_dumps_list)
  show "\<not> cut (do_GET index (LogText (unlines ls)) ''/api/events'')"
    by (simp add: do_GET_def wal_events_plain [OF assms])
qed

lemma page_plain:
  assumes "list_all plain_line ls" and "ls \<noteq> []"
  shows "fetch_events other_json (Some (do_GET index (LogText (unlines ls)) ''/api/events'')) old =
    map shown (newest_first ls)"
proof -
  have "0 < length ls" using assms(2) by simp
  then have "\<not> length ls \<le> length ls - 100" by linarith
  then have "newest_first ls \<noteq> []" by (simp add: newest_first_def)
  then show ?thesis
    by (simp add: fetch_events_def events_reply [OF assms(1)] shown_def marked_line)
qed

lemma newest_snoc: "hd (map shown (newest_first (ls @ [l]))) = shown l"
proof -
  have "newest_first (ls @ [l]) = l # newest_first' " if "newest_first' = rev (drop (Suc (length ls) - 100) ls)"
    for newest_first'
    using that by (simp add: newest_first_def)
  then show ?thesis by simp
qed

text \<open>A log with one more line.\<close>

lemma page_after_append:
  assumes "list_all plain_line ls" and "wal_content w = unlines ls" and "env (wal_attempts w) = IoOk"
    and "plain_line l"
  shows "fetch_events other_json (Some (do_GET index (LogText (wal_content (snd (wal_append env (l @ ''\<newline>'') w))))
      ''/api/events'')) old = map shown (newest_first (ls @ [l]))"
proof -
  have log: "wal_content (snd (wal_append env (l @ ''\<newline>'') w)) = unlines (ls @ [l])"
    using assms(2,3) by (simp add: wal_append_ok unlines_def)
  show ?thesis unfolding log by (rule page_plain) (use assms(1,4) in simp_all)
qed

lemma shown_action: "shown (p @ ''EDR_ACTION'' @ q) = Entry (map of_char (p @ ''EDR_ACTION'' @ q)) True"
proof -
  have "contains (p @ ''EDR_ACTION'' @ q) ''EDR_ACTION''" unfolding contains_iff by blast
  then show ?thesis by (simp add: shown_def threat_words_def)
qed

text \<open>
  C27. The page shows the log and marks what matters: for a log of plain lines the list holds the
  last hundred lines, the newest on top, each with its text as it is and marked exactly when
  it names a trap, a signature match, a response or a reported indicator; and once the agent
  has logged a response, that response stands on top of the list, marked as a threat.
\<close>

theorem page_shows_responses:
  assumes "list_all plain_line ls" and "wal_content w = unlines ls" and "env (wal_attempts w) = IoOk"
    and "l = ''VEC:[EDR_ACTION] | ACTION:'' @ act @ '' TARGET:'' @ target @ '' REASON:'' @ reason"
    and "plain_line l"
  shows "let page = fetch_events other_json (Some (do_GET index (LogText (wal_content
        (snd (insert_edr_action c env act target reason w)))) ''/api/events'')) old
    in page = map shown (rev (drop (length ls + 1 - 100) (ls @ [l]))) \<and>
       hd page = Entry (map of_char l) True"
proof -
  have e: "action_entry act target reason = l @ ''\<newline>''" by (simp add: action_entry_def assms(4))
  have "fetch_events other_json (Some (do_GET index (LogText (wal_content
        (snd (insert_edr_action c env act target reason w)))) ''/api/events'')) old =
      map shown (newest_first (ls @ [l]))"
    unfolding insert_edr_action_def e by (rule page_after_append [where env = env, OF assms(1-3,5)])
  moreover have "shown l = Entry (map of_char l) True"
    using shown_action [of "''VEC:[''" "''] | ACTION:'' @ act @ '' TARGET:'' @ target @ '' REASON:'' @ reason"]
    by (simp add: assms(4))
  ultimately show ?thesis using newest_snoc [of ls l] by (simp add: newest_first_def Let_def)
qed

theorem page_shows_responses_witness:
  "hd (fetch_events (\<lambda>b. None) (Some (do_GET None (LogText (wal_content (snd (insert_edr_action (Qihse.new [])
      (\<lambda>n. IoOk) ''FREEZE'' ''PID:7'' ''GHOST_PROCESS_TRAP'' \<lparr>wal_content = [], wal_attempts = 0\<rparr>))))
      ''/api/events'')) []) =
   Entry (map of_char ''VEC:[EDR_ACTION] | ACTION:FREEZE TARGET:PID:7 REASON:GHOST_PROCESS_TRAP'') True"
  by (rule page_shows_responses [where ls = "[]", unfolded Let_def, THEN conjunct2])
    (simp_all add: plain_line_def unlines_def)

section \<open>A click\<close>

definition control_line :: "string \<Rightarrow> string \<Rightarrow> string" where
  "control_line now action = ''['' @ now @ ''] [QIHSE] [EDR_ACTION] MANUAL_CONTROL_TRIGGERED: '' @ action"

lemma buttons_plain: "a \<in> set buttons \<Longrightarrow> units a = map of_char a \<and> list_all (\<lambda>c. 32 < (of_char c :: nat) \<and> of_char c < (127 :: nat)) a"
  by (auto simp: buttons_def intro!: units_ascii)

text \<open>
  A button says that something was done and does nothing: a click on any of the four buttons
  is answered with success, its line appears on top of the page marked as a threat, and the
  line is all it leaves - the agent's log gains it and no other part of the program is
  reached, so no blocklist is flushed, no rule reloaded and no network isolated.
\<close>

theorem buttons_only_log:
  assumes "action \<in> set buttons" and "loads (command_body action) = Action action (dumps_string action)"
    and "list_all plain_line ls" and "wal_content w = unlines ls" and "env (wal_attempts w) = IoOk"
    and "list_all (\<lambda>c. 32 \<le> (of_char c :: nat) \<and> of_char c < (127 :: nat)) now"
  shows "send_command other_json loads now io_error env index action items w =
    (map shown (newest_first (ls @ [control_line now action])),
     w\<lparr>wal_content := unlines (ls @ [control_line now action]), wal_attempts := Suc (wal_attempts w)\<rparr>, False)
   \<and> hd (map shown (newest_first (ls @ [control_line now action]))) =
       Entry (map of_char (control_line now action)) True"
proof -
  let ?l = "control_line now action"
  have entry: "control_entry now action = ?l @ ''\<newline>''" by (simp add: control_entry_def control_line_def)
  have act: "action \<noteq> []" "list_all (\<lambda>c. 32 < (of_char c :: nat) \<and> of_char c < (127 :: nat)) action"
    using assms(1) buttons_plain [of action] by (auto simp: buttons_def)
  then have "last action \<noteq> CHR '' ''" by (auto simp: list_all_iff dest!: last_in_set)
  with act assms(6) have plain: "plain_line ?l"
    by (auto simp: plain_line_def control_line_def list_all_iff less_imp_le)
  have shown: "shown ?l = Entry (map of_char ?l) True"
    using shown_action [of "''['' @ now @ ''] [QIHSE] [''" "''] MANUAL_CONTROL_TRIGGERED: '' @ action"]
    by (simp add: control_line_def)
  let ?w = "w\<lparr>wal_content := unlines (ls @ [?l]), wal_attempts := Suc (wal_attempts w)\<rparr>"
  have app: "wal_append env (control_entry now action) w = (Inr (), ?w)"
    by (simp add: entry wal_append_ok [where env = env, OF assms(5)] assms(4) unlines_def)
  have "fetch_events other_json (Some (do_GET index (LogText (wal_content ?w)) ''/api/events'')) items =
      map shown (newest_first (ls @ [?l]))"
    using page_plain [of "ls @ [?l]" other_json index items] assms(3) plain by simp
  then show ?thesis
    using newest_snoc [of ls ?l] shown by (simp add: send_command_def do_POST_def assms(2) app)
qed

theorem buttons_only_log_witness:
  "snd (snd (send_command (\<lambda>b. None) (\<lambda>b. Action ''ISOLATE_NETWORK'' (dumps_string ''ISOLATE_NETWORK'')) ''2024''
      ''IO'' (\<lambda>n. IoOk) None ''ISOLATE_NETWORK'' [] \<lparr>wal_content = [], wal_attempts = 0\<rparr>)) = False"
  using buttons_only_log [of "''ISOLATE_NETWORK''" "\<lambda>b. Action ''ISOLATE_NETWORK'' (dumps_string ''ISOLATE_NETWORK'')"
      "[]" "\<lparr>wal_content = [], wal_attempts = 0\<rparr>" "\<lambda>n. IoOk" "''2024''" "\<lambda>b. None" "''IO''" None "[]"]
  by (simp add: buttons_def unlines_def)

end
