(* ===== verification/Spec2Isabelle.thy ===== *)
theory Spec2Isabelle
  imports Kernel_Objects Service_Life Ioc_Types Kp14_Hunt Smp_Invariant Red_Team Dashboard_Page
begin

text \<open>
  ALPHVDR, a host sensor with automatic response.

  The program. eBPF programs (\<open>src/src-bpf/sensor.bpf.c\<close>, records in \<open>common.h\<close>, kernel types
  in \<open>vmlinux.h\<close>) watch executions, opened files, process access, signals and sockets of a host
  and filter its incoming packets. They write records into two ring buffers, stop processes
  with SIGSTOP, and are configured by maps. The agent (\<open>src/src/main.rs\<close>) fills the maps at its
  startup, polls the ring buffers, logs each record (\<open>qihse.rs\<close>), and on certain records scans
  memory (\<open>yara.rs\<close>), rolls a file system back (\<open>rollback.rs\<close>) and orders the process to be
  frozen. Orders pass a bounded channel to the responder task, which stops the process, carves
  its memory into a dump (\<open>memory_carver.rs\<close>), plugs a volume with the dump into the analysis
  machine (\<open>proxmox_bridge.rs\<close>) and starts its analysis (\<open>kp14_suite.rs\<close>). There a daemon waits
  for the device, mounts it, reads the dump, runs the analysis tools and hands over
  the indicators it finds. A sidecar (\<open>misp.rs\<close>) fetches addresses of command servers, which
  reach the packet filter's blocklist over a second channel. A monitor switches
  the callback off while a research session is on, which a script starts and ends
  (\<open>scripts/toggle_dev_mode.sh\<close>). A web server (\<open>dashboard/dashboard.py\<close>) and its page
  (\<open>dashboard/index.html\<close>) show the log and add to it. \<open>build.rs\<close> builds the programs, \<open>install.sh\<close> installs the
  agent as a service, which is started again whenever it ends.

  Theories, from the bottom.

  \<^item> \<open>Prelude\<close>: machine words, little-endian bytes, slices. \<open>Rust_Std\<close>, \<open>Rust_Text\<close>: what the agent
    uses of Rust's standard library on strings, given by their UTF-8 bytes.
    \<open>C_Layout\<close>: sizes, alignments and offsets of C types.
  \<^item> \<open>Vmlinux_Net\<close>, \<open>Vmlinux_Task\<close>, \<open>Vmlinux_Fs\<close>, \<open>Vmlinux_Proc\<close>, \<open>Vmlinux_Bpf\<close>,
    \<open>Vmlinux_Dev\<close>, \<open>Vmlinux_Trace\<close>, \<open>Vmlinux_Load\<close>, \<open>Vmlinux_Sched\<close>, \<open>Vmlinux_Inet\<close>,
    \<open>Vmlinux_Blk\<close>: declarations of \<open>vmlinux.h\<close>, one definition each, named after the C type.
    \<open>Kernel_Objects\<close>: all of them together.
  \<^item> \<open>Sensor_Base\<close> (records, maps, helpers), \<open>Sensor_Probes\<close> (the seven tracing programs, named as
    in the source), \<open>Sensor_Xdp\<close> (\<open>xdp_c2_inspector\<close>, every load checked against the packet),
    \<open>Sensor_System\<close> (the sensor's steps: program runs, \<open>program_step\<close>, and the agent's writes to
    the maps; the locales \<open>probe\<close> and \<open>lru_map\<close>).
  \<^item> \<open>Sensor_Smp\<close>: \<open>handle_openat\<close> and \<open>handle_sendto\<close> cut into the steps between which another
    processor can act (\<open>micro\<close>), and a machine of any number of processors that interleaves
    such runs with each other, with all other programs and with the agent's map writes.
    \<open>Smp_Counting\<close>: what the counters are worth there. \<open>Smp_Invariant\<close>: the invariant of the
    sensor there.
  \<^item> \<open>Qihse\<close>, \<open>Rollback\<close>, \<open>Misp\<close>, \<open>Yara\<close>, \<open>Memory_Carver\<close>, \<open>Proxmox_Bridge\<close>: one theory per file
    of the agent, operations named as in the source.
  \<^item> \<open>Agent_Events\<close>: both callbacks (\<open>handle_event\<close>, \<open>handle_tls_event\<close>) as a sequence of triggers
    under the locale \<open>trigger\<close>. \<open>Agent_Main\<close>: startup, alone and with runs of the attached programs between
    its calls (\<open>startup\<close>, the locale \<open>map_stage\<close>), blocklist drain, research monitor, one order
    of the responder.
  \<^item> \<open>Kp14_Blob\<close>: reader of dumps. \<open>Kp14_Iocs\<close>: indicators, word matcher, hunts, deduplication, JSON
    text. \<open>Kp14_Hunt\<close>: words and forms of indicators said of the text itself. \<open>Ioc_Json\<close>: a reader of such JSON texts, as reference. \<open>Kp14_Client\<close>: the client's
    operations, up to \<open>run_daemon_pipeline\<close> and \<open>run_remote_analysis\<close>.
  \<^item> \<open>Agent_System\<close>: \<open>main\<close> as one transition system. Its state \<open>agent_system\<close> holds the sensor's
    maps and rings, what has been read of the rings, both channels, the research flag and the
    spawned tasks; a step (\<open>system_step\<close>) is one run of one handler, in any order. The sidecar's steps
    are turns (\<open>sidecar_turn\<close>): a fetch, one attribute, the feed; the dashboard's requests add to
    the same log. \<open>System_Handlers\<close>: what each handler leaves alone, and turns against rounds.
  \<^item> \<open>Command_Logs\<close>: which external commands each operation runs, and the locale \<open>runs_only\<close>.
  \<^item> \<open>Agent_Refinement\<close>: the promise of the agent as an abstract machine (\<open>protection\<close>, \<open>protect\<close>), the
    locale \<open>simulation\<close>, and its interpretation on \<open>system_step\<close>.
  \<^item> \<open>Dashboard\<close>: both handlers of \<open>dashboard/dashboard.py\<close>, with the functions of Python's library
    they use. \<open>Dashboard_Page\<close>: \<open>fetchEvents\<close> and \<open>sendCommand\<close> of the page, and what it shows.
  \<^item> \<open>Intel_Flow\<close>: attributes and addresses on their way from a reply of the threat server to the filter.
  \<^item> \<open>Dev_Tools\<close>: the script of the research mode, and what goes unseen. \<open>Red_Team\<close>: the script
    \<open>tests/red_team_simulator.sh\<close> as calls (\<open>simulation\<close>) among those of other processes (\<open>acted\<close>).
  \<^item> \<open>Deployment\<close>: the build script, the installer, both service descriptions and the containers.
    \<open>Service_Life\<close>: the running agent under the permissions of its service (\<open>served\<close>), and its lives one
    after the other (\<open>service\<close>).
  \<^item> \<open>Sensor_Properties\<close>, \<open>Agent_Properties\<close>, \<open>Carver_Properties\<close>, \<open>Response_Properties\<close>,
    \<open>Kp14_Properties\<close>, \<open>Kp14_Runs\<close>, \<open>Ioc_Types\<close>, \<open>System_Properties\<close>, \<open>Task_Properties\<close>: the theorems.

  How code is rendered. A struct is a \<open>record\<close>, an enum a \<open>datatype\<close>, an integer a word of its
  width. A bail, an early return or a panic is a value (\<open>error + 'a\<close>, \<open>outcome\<close>). State is passed
  explicitly. An external command is a list of strings; what it answers is a parameter
  (\<open>os\<close>, \<open>kp14_env\<close>) that may depend on all commands run before, so the theorems hold for each
  behaviour of commands, files, clocks, network and hash set iteration. The state keeps the
  list of commands run and of files written. A helper of the kernel is a parameter too
  (\<open>kenv\<close>), with \<open>wf_kenv\<close> saying that it returns values of the documented sizes.
\<close>

text \<open>
  What the groups of lemmas show.

  \<^item> The packet filter never loads outside a packet and computes a declarative specification; each
    tracing program is described on all its branches; the programs depend on kernel and user memory
    through five members and one string only, each of which is where it is read.
  \<^item> On several processors: records have their readers' sizes, and a counter is above its limit only
    while a run of its process that will reset it is under way; no interleaving stops a process
    early; a process with one thread is counted exactly whatever else runs; two threads of one
    process evade the count for ever.
  \<^item> Records survive the wire in both directions; the callback only queues the process its record
    names and only appends to the log; when a trap is recognised and when stale ring memory hides it;
    decoys and the agent's own process are traps that reach the order queue, honeytoken files never are,
    because the probe runs before the kernel has stored the inode it asks for.
  \<^item> The running agent: queues between tasks are instances of one locale, \<open>fifo_service\<close> (the
    ring buffer, the orders, the received addresses), from which follows that whatever waits
    is served, and that every address the threat server names is barred in the end; nothing is frozen without a kernel record that names it; every record
    is polled once, and a trap answered if it is polled outside a research session while the
    order queue has room; a received address stays blocked; every dump is analysed once and every routed
    volume removed once, no volume is freed that was not plugged in before. The whole refines an
    abstract machine of records, verdicts, orders and barred addresses, from which follows that
    nothing is dropped unless the threat server has named its address, and that what the startup
    armed, whatever the programs did meanwhile, stays armed.
  \<^item> The service: without \<open>CAP_KILL\<close> the responder stops no process of another user; the log survives
    restarts, pending removals of volumes do not; the installer
    announces success whatever happens, also when an old program is left running.
  \<^item> Carving and reading of dumps invert each other; hostile dumps make the reader panic.
  \<^item> The analysis client: when waiting for a device ends, and that with a clock set back it
    may not; searching ends, on any tree; what a hunt finds in a text, by words and forms of indicators
    defined on the text; indicators have the form of their type and are collected once; the JSON text reads back when nothing needs
    escaping, and never after a successful daemon run; from the memory of a process to the
    reported URL; the order of commands and what failed runs leave behind.
  \<^item> The page of the dashboard shows the last hundred lines of the log, newest first, and marks
    responses; its buttons do nothing but add to the log.
  \<^item> The research mode: when the script and the agent agree, and that records polled during a session
    are lost. Encrypting files goes unseen by sensor and agent; what the simulator's other attacks leave.

  Bounds and fuel. No loop of the program is cut off. The two loops that may not end are
  \<open>partial_function (option)\<close>: \<open>watch_loop\<close>, which ends in turn \<open>(timeout + 1) / 2\<close> at the latest while
  the clock advances by the two seconds each turn sleeps, but goes on for ever when the clock is set back
  and no device appears, and \<open>search_entries\<close>, which ends because the kernel refuses a
  path of 4096 bytes or more (\<open>PATH_MAX\<close>), also when links make a directory tree circular.
  Other loops are structural or have a proved measure. The nesting of anonymous
  members in C types is unfolded to depth 8, more than any declaration has. Channels keep
  their capacities 1000 and 100.

  Liveness is stated for runs in which the task concerned is scheduled again and again, which is
  what the executor and the endless loops of the program give as long as no task blocks for ever.

  Not modelled. Console output. Durations of sleeps, except in the watch loop. Loading and attaching of
  the programs (libbpf). The arithmetic of the entropy (a parameter). The Unicode tables outside ASCII, the JSON
  parsers of the sidecar and of the dashboard, and the HTTP library (parameters). What a failed write leaves in a file, except
  for the log, the dump and the files of the installer. The reservation of memory for as many areas as the
  header of a dump claims (\<open>Vec::with_capacity\<close> in \<open>from_file\<close>), made before the areas are read: it
  aborts the process when the number is hostile and that memory cannot be had. The style of the
  dashboard's page. Of systemd only what is a signal's permission and that an ended service starts again,
  not the delay. In \<open>Sensor_Smp\<close> the lookup of a counter and the read through the pointer it
  returns are one step, although the kernel may recycle the entry in between. Of the
  163,000 lines of \<open>vmlinux.h\<close>, which is generated, only what is behind the objects the sensor touches,
  the devices, sockets and events its programs are attached to, and the processes, files and
  packets they see, with the types contained by value.

  Open: the daemon's use of a device against the removal of its volume after a fixed time; the
  race of the responder with the process it stops; records and signals of programs that are
  interrupted by a full ring buffer on another processor; more of the kernel types the helpers
  of the sensor work on.
\<close>

end
